(* ===== verification/Prelude.thy ===== *)
theory Prelude
  imports
    Main
    "HOL-Library.AList"
    "HOL-Library.Word"
    "HOL-Library.List_Lexorder"
    "HOL-Library.Char_ord"
    "HOL-Library.Multiset"
begin

text \<open>
  Shared vocabulary of the development.

  \<^item> \<open>gomap\<close>: a Go \<open>map[K]V\<close> as an association list. Reads go through \<open>map_of\<close>, writes through
    \<open>AList.update\<close> and \<open>AList.delete\<close>; the order of the list stands for the (unspecified) iteration
    order of one Go \<open>range\<close> loop. \<open>mwf\<close> says that no key occurs twice.
  \<^item> \<open>first_err\<close>: a chain of checks of the form \<open>if err := check(); err != nil { return err }\<close>.
  \<^item> \<open>itoa\<close>: the \<open>%d\<close> verb of \<open>fmt.Sprintf\<close>, with its injectivity.
  \<^item> \<open>int64_inc\<close>: \<open>x++\<close> on Go's 64-bit signed \<open>int\<close>, wrap-around included.
  \<^item> \<open>blank\<close>: \<open>strings.TrimSpace(s) == ""\<close> on UTF-8 bytes.
\<close>

named_theorems check_simps \<open>how a chain of checks succeeds or fails\<close>
named_theorems gomap_simps \<open>reading a map after a write\<close>
named_theorems inv_intros \<open>an operation keeps a component's invariant\<close>

section \<open>Chains of checks\<close>

text \<open>A check returns \<open>None\<close> for Go's \<open>nil\<close> error. The first failing check of a chain decides.\<close>

fun first_err :: "'e option list \<Rightarrow> 'e option" where
  "first_err [] = None"
| "first_err (None # cs) = first_err cs"
| "first_err (Some e # cs) = Some e"

text \<open>\<open>if cond { return e }\<close>\<close>

definition fail_if :: "bool \<Rightarrow> 'e \<Rightarrow> 'e option" where
  "fail_if b e = (if b then Some e else None)"

text \<open>A \<open>for\<close> loop whose body is a check: the first failing iteration returns.\<close>

definition check_all :: "('a \<Rightarrow> 'e option) \<Rightarrow> 'a list \<Rightarrow> 'e option" where
  "check_all f xs = first_err (map f xs)"

lemma first_err_None [check_simps]: "first_err cs = None \<longleftrightarrow> (\<forall>c \<in> set cs. c = None)"
  by (induction cs rule: first_err.induct) auto

lemma first_err_mem: "first_err cs = Some e \<Longrightarrow> Some e \<in> set cs"
  by (induction cs rule: first_err.induct) auto

lemma fail_if_None [check_simps]: "fail_if b e = None \<longleftrightarrow> \<not> b"
  by (simp add: fail_if_def)

lemma fail_if_Some [check_simps]: "fail_if b e = Some d \<longleftrightarrow> b \<and> e = d"
  by (simp add: fail_if_def)

lemma check_all_None [check_simps]: "check_all f xs = None \<longleftrightarrow> (\<forall>x \<in> set xs. f x = None)"
  by (simp add: check_all_def first_err_None)

lemma check_all_cong_set: "set xs = set ys \<Longrightarrow> check_all f xs = None \<longleftrightarrow> check_all f ys = None"
  by (simp add: check_all_None)

text \<open>Checks with a result: \<open>x, err := f(); if err != nil { return err }\<close>.\<close>

definition and_then :: "'e + 'a \<Rightarrow> ('a \<Rightarrow> 'e + 'b) \<Rightarrow> 'e + 'b" where
  "and_then r k = (case r of Inl e \<Rightarrow> Inl e | Inr x \<Rightarrow> k x)"

definition checked :: "'e option \<Rightarrow> 'e + 'a \<Rightarrow> 'e + 'a" where
  "checked c r = (case c of Some e \<Rightarrow> Inl e | None \<Rightarrow> r)"

lemma and_then_Inr [check_simps]:
  "and_then r k = Inr y \<longleftrightarrow> (\<exists>x. r = Inr x \<and> k x = Inr y)"
  by (simp add: and_then_def split: sum.split)

lemma checked_Inr [check_simps]: "checked c r = Inr y \<longleftrightarrow> c = None \<and> r = Inr y"
  by (simp add: checked_def split: option.split)

lemma checked_simps [simp]:
  "checked None r = r" "checked (Some e) r = Inl e"
  by (simp_all add: checked_def)

lemma and_then_simps [simp]:
  "and_then (Inl e) k = Inl e" "and_then (Inr x) k = k x"
  by (simp_all add: and_then_def)

section \<open>Go maps\<close>

type_synonym ('k, 'v) gomap = "('k \<times> 'v) list"

abbreviation mget :: "('k, 'v) gomap \<Rightarrow> 'k \<Rightarrow> 'v option" where
  "mget m k \<equiv> map_of m k"

abbreviation mput :: "'k \<Rightarrow> 'v \<Rightarrow> ('k, 'v) gomap \<Rightarrow> ('k, 'v) gomap" where
  "mput k v m \<equiv> AList.update k v m"

abbreviation mdel :: "'k \<Rightarrow> ('k, 'v) gomap \<Rightarrow> ('k, 'v) gomap" where
  "mdel k m \<equiv> AList.delete k m"

definition mvalues :: "('k, 'v) gomap \<Rightarrow> 'v list" where
  "mvalues m = map snd m"

definition mwf :: "('k, 'v) gomap \<Rightarrow> bool" where
  "mwf m \<longleftrightarrow> distinct (map fst m)"

text \<open>Every entry is stored under the key its value carries.\<close>

definition mkeyed :: "('v \<Rightarrow> 'k) \<Rightarrow> ('k, 'v) gomap \<Rightarrow> bool" where
  "mkeyed key m \<longleftrightarrow> (\<forall>(k, v) \<in> set m. key v = k)"

lemma mwf_Nil [simp]: "mwf []"
  by (simp add: mwf_def)

lemma mkeyed_Nil [simp]: "mkeyed key []"
  by (simp add: mkeyed_def)

lemma mwf_mput [simp]: "mwf m \<Longrightarrow> mwf (mput k v m)"
  by (simp add: mwf_def distinct_update)

lemma mwf_mdel [simp]: "mwf m \<Longrightarrow> mwf (mdel k m)"
  by (simp add: mwf_def distinct_delete)

lemma mwf_filter [simp]: "mwf m \<Longrightarrow> mwf (filter P m)"
  by (auto simp: mwf_def intro: distinct_map_filter)

lemma mget_mput [gomap_simps]: "mget (mput k v m) k' = (if k = k' then Some v else mget m k')"
  by (simp add: update_conv)

lemma mget_mdel [gomap_simps]: "mget (mdel k m) k' = (if k = k' then None else mget m k')"
  by (simp add: delete_conv)

lemma mput_entries: "set (mput k v m) \<subseteq> insert (k, v) (set m)"
  by (induction m) auto

lemma mkeyed_mput [intro]: "mkeyed key m \<Longrightarrow> key v = k \<Longrightarrow> mkeyed key (mput k v m)"
  using mput_entries[of k v m] by (fastforce simp: mkeyed_def)

lemma mkeyed_mdel [intro]: "mkeyed key m \<Longrightarrow> mkeyed key (mdel k m)"
  by (auto simp: mkeyed_def AList.delete_eq)

lemma mkeyed_filter [intro]: "mkeyed key m \<Longrightarrow> mkeyed key (filter P m)"
  by (auto simp: mkeyed_def)

lemma mkeyedD: "mkeyed key m \<Longrightarrow> mget m k = Some v \<Longrightarrow> key v = k"
  by (auto simp: mkeyed_def dest!: map_of_SomeD)

lemma mget_entry: "mwf m \<Longrightarrow> mget m k = Some v \<longleftrightarrow> (k, v) \<in> set m"
  by (simp add: mwf_def)

lemma mget_some_entry: "mget m k = Some v \<Longrightarrow> (k, v) \<in> set m"
  by (rule map_of_SomeD)

lemma mvalues_iff: "mwf m \<Longrightarrow> v \<in> set (mvalues m) \<longleftrightarrow> (\<exists>k. mget m k = Some v)"
  by (force simp: mvalues_def mget_entry)

lemma mget_mvalues: "mget m k = Some v \<Longrightarrow> v \<in> set (mvalues m)"
  by (auto simp: mvalues_def dest!: map_of_SomeD intro: rev_image_eqI)

lemma mget_None_iff: "mget m k = None \<longleftrightarrow> k \<notin> set (map fst m)"
  by (simp add: map_of_eq_None_iff)

lemma mget_filter:
  "mwf m \<Longrightarrow> mget (filter (\<lambda>(k, v). P k v) m) k =
     (case mget m k of None \<Rightarrow> None | Some v \<Rightarrow> if P k v then Some v else None)"
proof (induction m)
  case (Cons a m)
  then show ?case
    by (cases a) (auto simp: mwf_def map_of_eq_None_iff split: option.splits)
qed simp

section \<open>Decimal formatting\<close>

definition digit_char :: "nat \<Rightarrow> char" where
  "digit_char d = char_of (48 + d)"

definition digit_val :: "char \<Rightarrow> nat" where
  "digit_val c = of_char c - 48"

fun dec :: "nat \<Rightarrow> string" where
  "dec n = (if n < 10 then [digit_char n] else dec (n div 10) @ [digit_char (n mod 10)])"

declare dec.simps [simp del]

definition undec :: "string \<Rightarrow> nat" where
  "undec s = foldl (\<lambda>a c. 10 * a + digit_val c) 0 s"

text \<open>\<open>strconv.Itoa\<close> and the \<open>%d\<close> verb.\<close>

definition itoa :: "int \<Rightarrow> string" where
  "itoa i = (if i < 0 then CHR ''-'' # dec (nat (- i)) else dec (nat i))"

lemma digit_val_char: "d < 10 \<Longrightarrow> digit_val (digit_char d) = d"
  by (simp add: digit_val_def digit_char_def of_char_mod_256)

lemma digit_char_range: "d < 10 \<Longrightarrow> of_char (digit_char d) \<in> {48..<58::nat}"
  by (simp add: digit_char_def)

lemma undec_dec: "undec (dec n) = n"
proof (induction n rule: dec.induct)
  case (1 n)
  then show ?case
    by (subst dec.simps) (auto simp: undec_def digit_val_char)
qed

lemma dec_inj: "dec m = dec n \<longleftrightarrow> m = n"
  by (metis undec_dec)

lemma dec_digits: "c \<in> set (dec n) \<Longrightarrow> of_char c \<in> {48..<58::nat}"
proof (induction n rule: dec.induct)
  case (1 n)
  show ?case
  proof (cases "n < 10")
    case True
    then have "dec n = [digit_char n]" by (subst dec.simps) simp
    with True "1.prems" show ?thesis using digit_char_range by auto
  next
    case False
    then have "dec n = dec (n div 10) @ [digit_char (n mod 10)]" by (subst dec.simps) simp
    with "1.prems" have "c \<in> set (dec (n div 10)) \<or> c = digit_char (n mod 10)" by auto
    then show ?thesis using "1.IH"[OF False] digit_char_range[of "n mod 10"] by auto
  qed
qed

text \<open>The text of an integer uses digits and the minus sign only, so never a separator.\<close>

lemma itoa_chars: "c \<in> set (itoa i) \<Longrightarrow> of_char c \<in> insert 45 {48..<58::nat}"
  using dec_digits[of c "nat i"] dec_digits[of c "nat (- i)"]
  by (auto simp: itoa_def split: if_splits)

lemma itoa_no_colon: "CHR '':'' \<notin> set (itoa i)"
  using itoa_chars[of "CHR '':''" i] by auto

lemma dec_no_minus: "dec n \<noteq> CHR ''-'' # s"
proof
  assume "dec n = CHR ''-'' # s"
  then have "CHR ''-'' \<in> set (dec n)" by simp
  then show False using dec_digits by fastforce
qed

lemma itoa_inj: "itoa i = itoa j \<longleftrightarrow> i = j"
proof
  assume eq: "itoa i = itoa j"
  show "i = j"
  proof (cases "i < 0"; cases "j < 0")
    assume "i < 0" "\<not> j < 0"
    with eq show ?thesis using dec_no_minus[of "nat j"] by (simp add: itoa_def) metis
  next
    assume "\<not> i < 0" "j < 0"
    with eq show ?thesis using dec_no_minus[of "nat i"] by (simp add: itoa_def)
  qed (use eq in \<open>auto simp: itoa_def dec_inj\<close>)
qed simp

text \<open>A suffix free of the separator can be split off at the last separator.\<close>

lemma split_first_sep:
  "xs @ c # ys = xs' @ c # ys' \<Longrightarrow> c \<notin> set xs \<Longrightarrow> c \<notin> set xs' \<Longrightarrow> xs = xs' \<and> ys = ys'"
proof (induction xs arbitrary: xs')
  case Nil
  then show ?case by (cases xs') auto
next
  case (Cons x xs)
  then show ?case by (cases xs') auto
qed

lemma split_last_sep:
  assumes "xs @ c # ys = xs' @ c # ys'" "c \<notin> set ys" "c \<notin> set ys'"
  shows "xs = xs' \<and> ys = ys'"
proof -
  have "rev ys @ c # rev xs = rev ys' @ c # rev xs'"
    using arg_cong[OF assms(1), of rev] by simp
  from split_first_sep[OF this] assms(2,3) show ?thesis by simp
qed

section \<open>Sorting\<close>

text \<open>
  \<open>sort.Slice(xs, less)\<close> and \<open>sort.SliceStable(xs, less)\<close>: the stable order. Where two elements compare
  as equal, \<open>sort.Slice\<close> leaves their order open, and nothing below depends on it.
\<close>

fun insert_by :: "('a \<Rightarrow> 'a \<Rightarrow> bool) \<Rightarrow> 'a \<Rightarrow> 'a list \<Rightarrow> 'a list" where
  "insert_by lt x [] = [x]"
| "insert_by lt x (y # ys) = (if lt y x then y # insert_by lt x ys else x # y # ys)"

definition sort_by :: "('a \<Rightarrow> 'a \<Rightarrow> bool) \<Rightarrow> 'a list \<Rightarrow> 'a list" where
  "sort_by lt xs = foldr (insert_by lt) xs []"

lemma set_insert_by [simp]: "set (insert_by lt x xs) = insert x (set xs)"
  by (induction xs) auto

lemma set_sort_by [simp]: "set (sort_by lt xs) = set xs"
  by (induction xs) (simp_all add: sort_by_def)

lemma mset_insert_by: "mset (insert_by lt x xs) = add_mset x (mset xs)"
  by (induction xs) simp_all

lemma mset_sort_by: "mset (sort_by lt xs) = mset xs"
  by (induction xs) (simp_all add: sort_by_def mset_insert_by)

lemma length_sort_by [simp]: "length (sort_by lt xs) = length xs"
  using mset_sort_by[of lt xs] by (metis size_mset)

lemma distinct_sort_by [simp]: "distinct (map f (sort_by lt xs)) = distinct (map f xs)"
  by (metis mset_sort_by mset_map distinct_count_atmost_1 mset_eq_imp_distinct_iff)

text \<open>For a strict weak order the result is sorted: no later element is less than an earlier one.\<close>

lemma sorted_insert_by:
  assumes "asymp lt" and trans: "\<And>x y z. \<not> lt y x \<Longrightarrow> \<not> lt z y \<Longrightarrow> \<not> lt z x"
    and "sorted_wrt (\<lambda>x y. \<not> lt y x) xs"
  shows "sorted_wrt (\<lambda>x y. \<not> lt y x) (insert_by lt x xs)"
  using assms(3) by (induction xs) (use assms(1) trans in \<open>auto dest: asympD\<close>)

lemma sorted_sort_by:
  assumes "asymp lt" and "\<And>x y z. \<not> lt y x \<Longrightarrow> \<not> lt z y \<Longrightarrow> \<not> lt z x"
  shows "sorted_wrt (\<lambda>x y. \<not> lt y x) (sort_by lt xs)"
  unfolding sort_by_def by (induction xs) (auto intro!: sorted_insert_by simp: assms(1) dest: assms(2))

section \<open>Machine integers\<close>

text \<open>Go's \<open>int\<close> is a 64-bit two's complement integer; \<open>x++\<close> wraps at \<open>math.MaxInt64\<close>.\<close>

definition int64_wrap :: "int \<Rightarrow> int" where
  "int64_wrap x = (x + 2 ^ 63) mod 2 ^ 64 - 2 ^ 63"

definition int64_inc :: "int \<Rightarrow> int" where
  "int64_inc x = int64_wrap (x + 1)"

definition is_int64 :: "int \<Rightarrow> bool" where
  "is_int64 x \<longleftrightarrow> - (2 ^ 63) \<le> x \<and> x < 2 ^ 63"

lemma int64_wrap_id: "is_int64 x \<Longrightarrow> int64_wrap x = x"
  by (simp add: int64_wrap_def is_int64_def)

lemma is_int64_wrap [simp]: "is_int64 (int64_wrap x)"
  by (simp add: int64_wrap_def is_int64_def)

lemma int64_inc_cases:
  assumes "is_int64 x"
  shows "int64_inc x = (if x = 2 ^ 63 - 1 then - (2 ^ 63) else x + 1)"
proof (cases "x = 2 ^ 63 - 1")
  case True
  then show ?thesis by (simp add: int64_inc_def int64_wrap_def)
next
  case False
  with assms have "is_int64 (x + 1)" by (simp add: is_int64_def)
  with False show ?thesis by (simp add: int64_inc_def int64_wrap_id)
qed

text \<open>A positive result means that the increment did not wrap.\<close>

lemma int64_inc_pos: "is_int64 x \<Longrightarrow> 0 < int64_inc x \<Longrightarrow> int64_inc x = x + 1"
  by (auto simp: int64_inc_cases split: if_splits)

section \<open>White space\<close>

text \<open>
  \<open>strings.TrimSpace\<close> removes the runes with the Unicode White Space property. \<open>trim_left\<close>
  removes them from the front of a UTF-8 byte string: the ASCII ones, U+0085, U+00A0, U+1680,
  U+2000 to U+200A, U+2028, U+2029, U+202F, U+205F and U+3000.
\<close>

definition ascii_space :: "nat \<Rightarrow> bool" where
  "ascii_space b \<longleftrightarrow> b = 32 \<or> (9 \<le> b \<and> b \<le> 13)"

definition space2 :: "nat \<Rightarrow> nat \<Rightarrow> bool" where
  "space2 a b \<longleftrightarrow> a = 0xC2 \<and> (b = 0x85 \<or> b = 0xA0)"

definition space3 :: "nat \<Rightarrow> nat \<Rightarrow> nat \<Rightarrow> bool" where
  "space3 a b c \<longleftrightarrow>
     (a = 0xE1 \<and> b = 0x9A \<and> c = 0x80)
   \<or> (a = 0xE2 \<and> b = 0x80 \<and> ((0x80 \<le> c \<and> c \<le> 0x8A) \<or> c = 0xA8 \<or> c = 0xA9 \<or> c = 0xAF))
   \<or> (a = 0xE2 \<and> b = 0x81 \<and> c = 0x9F)
   \<or> (a = 0xE3 \<and> b = 0x80 \<and> c = 0x80)"

fun trim_left :: "string \<Rightarrow> string" where
  "trim_left [] = []"
| "trim_left (a # cs) =
     (if ascii_space (of_char a) then trim_left cs
      else case cs of
        [] \<Rightarrow> a # cs
      | b # ds \<Rightarrow>
          if space2 (of_char a) (of_char b) then trim_left ds
          else (case ds of
             [] \<Rightarrow> a # cs
           | c # es \<Rightarrow>
               if space3 (of_char a) (of_char b) (of_char c) then trim_left es else a # cs))"

definition blank :: "string \<Rightarrow> bool" where
  "blank s \<longleftrightarrow> trim_left s = []"

lemma blank_Nil [simp]: "blank []"
  by (simp add: blank_def)

lemma not_blank_nonempty: "\<not> blank s \<Longrightarrow> s \<noteq> []"
  by auto

end
