(* ===== verification/Kernel.thy ===== *)
theory Kernel
  imports Prelude
begin

text \<open>
  \<open>internal/kernel\<close>: strong identifiers (\<open>id.go\<close>), optimistic-concurrency revisions (\<open>revision.go\<close>) and
  the error shape every module boundary uses (\<open>errors.go\<close>). Go strings are byte strings
  (\<open>string\<close>), a \<open>Revision\<close> is a \<open>uint64\<close> (\<open>64 word\<close>) and wraps where the code's \<open>r + 1\<close> does.
\<close>

section \<open>Errors\<close>

type_synonym ErrorCode = string

abbreviation CodeUnauthorized :: ErrorCode where "CodeUnauthorized \<equiv> ''unauthorized''"
abbreviation CodeForbidden :: ErrorCode where "CodeForbidden \<equiv> ''forbidden''"
abbreviation CodeInvalidRequest :: ErrorCode where "CodeInvalidRequest \<equiv> ''invalid_request''"
abbreviation CodeCSRFInvalid :: ErrorCode where "CodeCSRFInvalid \<equiv> ''csrf_invalid''"
abbreviation CodeOriginInvalid :: ErrorCode where "CodeOriginInvalid \<equiv> ''origin_invalid''"
abbreviation CodeNotFound :: ErrorCode where "CodeNotFound \<equiv> ''not_found''"
abbreviation CodeRevisionConflict :: ErrorCode where "CodeRevisionConflict \<equiv> ''revision_conflict''"
abbreviation CodeIdempotencyConflict :: ErrorCode where "CodeIdempotencyConflict \<equiv> ''idempotency_conflict''"
abbreviation CodeCommandConflict :: ErrorCode where "CodeCommandConflict \<equiv> ''command_conflict''"
abbreviation CodeScopeNotPending :: ErrorCode where "CodeScopeNotPending \<equiv> ''scope_not_pending''"
abbreviation CodeEndpointInFlight :: ErrorCode where "CodeEndpointInFlight \<equiv> ''endpoint_in_flight''"
abbreviation CodeInvalidGraph :: ErrorCode where "CodeInvalidGraph \<equiv> ''invalid_graph''"
abbreviation CodeStaleBinding :: ErrorCode where "CodeStaleBinding \<equiv> ''stale_binding''"
abbreviation CodeStaleCommand :: ErrorCode where "CodeStaleCommand \<equiv> ''stale_command''"
abbreviation CodeStaleCheckpoint :: ErrorCode where "CodeStaleCheckpoint \<equiv> ''stale_checkpoint''"
abbreviation CodeLeaseConflict :: ErrorCode where "CodeLeaseConflict \<equiv> ''lease_conflict''"
abbreviation CodeExecutorUnavailable :: ErrorCode where "CodeExecutorUnavailable \<equiv> ''executor_unavailable''"
abbreviation CodeIncompleteStopEvidence :: ErrorCode where
  "CodeIncompleteStopEvidence \<equiv> ''incomplete_stop_evidence''"
abbreviation CodeTransitionRejected :: ErrorCode where "CodeTransitionRejected \<equiv> ''transition_rejected''"
abbreviation CodeInternalError :: ErrorCode where "CodeInternalError \<equiv> ''internal_error''"

record Error =
  err_Code :: ErrorCode
  err_Message :: string
  err_Recoverable :: bool
  err_Details :: "(string \<times> string) list"

text \<open>A Go \<open>error\<close> value: a coded error, or one of another type (a context error, \<open>fmt.Errorf\<close>).\<close>

datatype goerr = Coded Error | Plain string

definition kerr :: "ErrorCode \<Rightarrow> string \<Rightarrow> bool \<Rightarrow> goerr" where
  "kerr code msg rec =
     Coded \<lparr>err_Code = code, err_Message = msg, err_Recoverable = rec, err_Details = []\<rparr>"

text \<open>
  \<open>fmt.Errorf("...: %w", err)\<close>: the wrapped error keeps its code (\<open>errors.As\<close> finds it); the added text is
  kept for errors without a code.
\<close>

definition wrapErr :: "string \<Rightarrow> goerr \<Rightarrow> goerr" where
  "wrapErr msg err = (case err of Coded e \<Rightarrow> Coded e | Plain text \<Rightarrow> Plain (msg @ '': '' @ text))"

text \<open>\<open>ErrorCodeOf\<close> on an error that may be \<open>nil\<close>.\<close>

definition ErrorCodeOf :: "goerr option \<Rightarrow> ErrorCode" where
  "ErrorCodeOf err = (case err of
     None \<Rightarrow> ''''
   | Some (Coded e) \<Rightarrow> err_Code e
   | Some (Plain _) \<Rightarrow> CodeInternalError)"

definition IsCode :: "goerr option \<Rightarrow> ErrorCode \<Rightarrow> bool" where
  "IsCode err code \<longleftrightarrow> ErrorCodeOf err = code"

definition Forbidden :: "string \<Rightarrow> goerr" where
  "Forbidden msg = kerr CodeForbidden msg False"

definition InvalidArgument :: "string \<Rightarrow> goerr" where
  "InvalidArgument msg = kerr CodeInvalidRequest msg False"

definition IdempotencyConflict :: goerr where
  "IdempotencyConflict =
     kerr CodeIdempotencyConflict ''idempotency key was already used with a different payload'' False"

definition StaleBinding :: "string \<Rightarrow> goerr" where
  "StaleBinding msg = kerr CodeStaleBinding msg True"

definition LeaseConflict :: "string \<Rightarrow> goerr" where
  "LeaseConflict msg = kerr CodeLeaseConflict msg True"

definition ScopeNotPending :: "string \<Rightarrow> goerr" where
  "ScopeNotPending msg = kerr CodeScopeNotPending msg True"

definition EndpointInFlight :: "string \<Rightarrow> goerr" where
  "EndpointInFlight msg = kerr CodeEndpointInFlight msg True"

definition InvalidGraph :: "string \<Rightarrow> goerr" where
  "InvalidGraph msg = kerr CodeInvalidGraph msg False"

definition IncompleteStopEvidence :: "string \<Rightarrow> goerr" where
  "IncompleteStopEvidence msg = kerr CodeIncompleteStopEvidence msg True"

definition TransitionRejected :: "string \<Rightarrow> goerr" where
  "TransitionRejected msg = kerr CodeTransitionRejected msg True"

lemmas kernel_error_defs =
  Forbidden_def InvalidArgument_def IdempotencyConflict_def StaleBinding_def LeaseConflict_def
  ScopeNotPending_def EndpointInFlight_def InvalidGraph_def IncompleteStopEvidence_def
  TransitionRejected_def

text \<open>The constructors' codes; only caller mistakes and policy denials are not recoverable.\<close>

lemma ErrorCodeOf_kerr [simp]: "ErrorCodeOf (Some (kerr c m r)) = c"
  by (simp add: ErrorCodeOf_def kerr_def)

section \<open>Identifiers\<close>

type_synonym ProjectID = string
type_synonym TaskID = string
type_synonym EndpointID = string
type_synonym InvocationID = string
type_synonym BindingRef = string
type_synonym LeaseID = string
type_synonym IdempotencyKey = string
type_synonym IDScope = string

definition IsZeroID :: "string \<Rightarrow> bool" where
  "IsZeroID i \<longleftrightarrow> blank i"

definition RequireID :: "string \<Rightarrow> string \<Rightarrow> goerr option" where
  "RequireID name i = (if IsZeroID i then Some (InvalidArgument (name @ '' is required'')) else None)"

lemma RequireID_None [check_simps]: "RequireID name i = None \<longleftrightarrow> \<not> IsZeroID i"
  by (simp add: RequireID_def)

lemma IsZeroID_Nil [simp]: "IsZeroID ''''"
  by (simp add: IsZeroID_def)

section \<open>Revisions\<close>

type_synonym Revision = "64 word"

definition LatestRevision :: Revision where
  "LatestRevision = 0"

definition IsLatestRead :: "Revision \<Rightarrow> bool" where
  "IsLatestRead r \<longleftrightarrow> r = LatestRevision"

definition Next :: "Revision \<Rightarrow> Revision" where
  "Next r = r + 1"

definition RevisionConflict :: "Revision \<Rightarrow> Revision \<Rightarrow> goerr" where
  "RevisionConflict expected actual = Coded
     \<lparr>err_Code = CodeRevisionConflict,
      err_Message = ''revision conflict: expected '' @ itoa (uint expected) @ '', actual '' @ itoa (uint actual),
      err_Recoverable = True,
      err_Details = [(''expected_revision'', itoa (uint expected)), (''actual_revision'', itoa (uint actual))]\<rparr>"

definition CheckExpectedRevision :: "Revision \<Rightarrow> Revision \<Rightarrow> goerr option" where
  "CheckExpectedRevision expected actual =
     (if expected = LatestRevision then Some (RevisionConflict expected actual)
      else if expected \<noteq> actual then Some (RevisionConflict expected actual)
      else None)"

lemma CheckExpectedRevision_None [check_simps]:
  "CheckExpectedRevision e a = None \<longleftrightarrow> e = a \<and> a \<noteq> LatestRevision"
  by (auto simp: CheckExpectedRevision_def)

lemma Next_unat: "Next r \<noteq> 0 \<Longrightarrow> unat (Next r) = Suc (unat r)"
  by (simp add: Next_def add.commute[of r] unatSuc)

lemma Next_neq: "Next r \<noteq> r"
  by (simp add: Next_def)

end
