(* ===== verification/Graph_Types.thy ===== *)
theory Graph_Types
  imports Kernel
begin

text \<open>
  \<open>internal/coordination/types.go\<close>, the runtime records of \<open>command_store.go\<close> and the stored state of
  \<open>memory_store.go\<close>. The enumerations of the code are Go string types that JSON input can fill with
  any value, so they stay strings here, with the constants of the code as abbreviations; the
  validation functions reject the other values.
\<close>

section \<open>Enumerations\<close>

abbreviation EndpointPlan :: EndpointID where "EndpointPlan \<equiv> ''plan''"
abbreviation EndpointExecute :: EndpointID where "EndpointExecute \<equiv> ''execute''"
abbreviation EndpointVerify :: EndpointID where "EndpointVerify \<equiv> ''verify''"

type_synonym TaskOutcome = string
abbreviation TaskActive :: TaskOutcome where "TaskActive \<equiv> ''active''"
abbreviation TaskDone :: TaskOutcome where "TaskDone \<equiv> ''done''"
abbreviation TaskCanceled :: TaskOutcome where "TaskCanceled \<equiv> ''canceled''"
abbreviation TaskFailed :: TaskOutcome where "TaskFailed \<equiv> ''failed''"

type_synonym EndpointState = string
abbreviation EndpointPending :: EndpointState where "EndpointPending \<equiv> ''pending''"
abbreviation EndpointSubmitted :: EndpointState where "EndpointSubmitted \<equiv> ''submitted''"
abbreviation EndpointSatisfied :: EndpointState where "EndpointSatisfied \<equiv> ''satisfied''"
abbreviation EndpointRejected :: EndpointState where "EndpointRejected \<equiv> ''rejected''"

type_synonym RunPolicy = string
abbreviation RunEnabled :: RunPolicy where "RunEnabled \<equiv> ''enabled''"
abbreviation RunHeld :: RunPolicy where "RunHeld \<equiv> ''held''"

type_synonym EdgeSignal = string
abbreviation SignalPhaseSatisfied :: EdgeSignal where "SignalPhaseSatisfied \<equiv> ''phase_satisfied''"
abbreviation SignalTaskDone :: EdgeSignal where "SignalTaskDone \<equiv> ''task_done''"

type_synonym RequiredBy = string
abbreviation RequiredByStart :: RequiredBy where "RequiredByStart \<equiv> ''start''"
abbreviation RequiredByCompletion :: RequiredBy where "RequiredByCompletion \<equiv> ''completion''"

type_synonym OnFalse = string
abbreviation OnFalseBlock :: OnFalse where "OnFalseBlock \<equiv> ''block''"
abbreviation OnFalseReplan :: OnFalse where "OnFalseReplan \<equiv> ''replan''"
abbreviation OnFalseCancel :: OnFalse where "OnFalseCancel \<equiv> ''cancel''"

type_synonym BlockerState = string
abbreviation BlockerActive :: BlockerState where "BlockerActive \<equiv> ''active''"
abbreviation BlockerResolved :: BlockerState where "BlockerResolved \<equiv> ''resolved''"
abbreviation BlockerDenied :: BlockerState where "BlockerDenied \<equiv> ''denied''"
abbreviation BlockerObsolete :: BlockerState where "BlockerObsolete \<equiv> ''obsolete''"

type_synonym Verdict = string
abbreviation VerdictSubmitted :: Verdict where "VerdictSubmitted \<equiv> ''submitted''"
abbreviation VerdictSatisfied :: Verdict where "VerdictSatisfied \<equiv> ''satisfied''"
abbreviation VerdictRejected :: Verdict where "VerdictRejected \<equiv> ''rejected''"
abbreviation VerdictInvalidated :: Verdict where "VerdictInvalidated \<equiv> ''invalidated''"

type_synonym CommandAction = string
abbreviation CommandStart :: CommandAction where "CommandStart \<equiv> ''start''"
abbreviation CommandStop :: CommandAction where "CommandStop \<equiv> ''stop''"
abbreviation CommandResume :: CommandAction where "CommandResume \<equiv> ''resume''"

type_synonym TransitionTarget = string
abbreviation TargetPhaseEndpoint :: TransitionTarget where "TargetPhaseEndpoint \<equiv> ''phase_endpoint''"
abbreviation TargetBlocker :: TransitionTarget where "TargetBlocker \<equiv> ''blocker''"
abbreviation TargetTask :: TransitionTarget where "TargetTask \<equiv> ''task''"

section \<open>Graph records\<close>

record PhaseEndpointRef =
  ref_TaskID :: TaskID
  ref_EndpointID :: EndpointID

definition mkRef :: "TaskID \<Rightarrow> EndpointID \<Rightarrow> PhaseEndpointRef" where
  "mkRef t e = \<lparr>ref_TaskID = t, ref_EndpointID = e\<rparr>"

lemma mkRef_simps [simp]:
  "ref_TaskID (mkRef t e) = t" "ref_EndpointID (mkRef t e) = e"
  "mkRef (ref_TaskID r) (ref_EndpointID r) = r" "mkRef t e = mkRef t' e' \<longleftrightarrow> t = t' \<and> e = e'"
  by (cases r) (auto simp: mkRef_def)

record Task =
  task_ID :: TaskID
  task_ContractRef :: string
  task_Outcome :: TaskOutcome

record PhaseEndpoint =
  ep_Ref :: PhaseEndpointRef
  ep_SpecRef :: string
  ep_BindingRef :: BindingRef
  ep_Generation :: int
  ep_State :: EndpointState
  ep_RunPolicy :: RunPolicy

record Edge =
  edge_From :: PhaseEndpointRef
  edge_To :: PhaseEndpointRef
  edge_Signal :: EdgeSignal
  edge_RequiredBy :: RequiredBy
  edge_ArtifactKinds :: "string list"
  edge_OnFalse :: OnFalse

record Blocker =
  bl_ID :: string
  bl_Target :: PhaseEndpointRef
  bl_RequiredBy :: RequiredBy
  bl_OnFalse :: OnFalse
  bl_State :: BlockerState

record PhaseResult =
  res_ID :: string
  res_Endpoint :: PhaseEndpointRef
  res_BindingRef :: BindingRef
  res_OutputRef :: string
  res_Verdict :: Verdict

record PhaseCommand =
  cmd_ID :: string
  cmd_Endpoint :: PhaseEndpointRef
  cmd_Generation :: int
  cmd_BindingRef :: BindingRef
  cmd_LeaseRef :: LeaseID
  cmd_Action :: CommandAction
  cmd_CauseRef :: string

record GraphSnapshot =
  snap_Revision :: Revision
  snap_Tasks :: "Task list"
  snap_Endpoints :: "PhaseEndpoint list"
  snap_Edges :: "Edge list"
  snap_Blockers :: "Blocker list"
  snap_Results :: "PhaseResult list"

record PendingSubgraph =
  ps_RequestID :: IdempotencyKey
  ps_BaseRevision :: Revision
  ps_Tasks :: "Task list"
  ps_Endpoints :: "PhaseEndpoint list"
  ps_Edges :: "Edge list"
  ps_Blockers :: "Blocker list"

record GraphTransition =
  tr_TargetKind :: TransitionTarget
  tr_Endpoint :: PhaseEndpointRef
  tr_BlockerID :: string
  tr_TaskID :: TaskID
  tr_Action :: string
  tr_Generation :: int
  tr_Result :: PhaseResult
  tr_NewBindingRef :: BindingRef
  tr_ExecuteBindingRef :: BindingRef
  tr_VerifyBindingRef :: BindingRef
  tr_NewSpecRef :: string
  tr_CheckpointRef :: string
  tr_NonResumable :: bool
  tr_EvidenceRefs :: "string list"

text \<open>Go zero values, as composite literals and comparisons use them.\<close>

definition zeroRef :: PhaseEndpointRef where
  "zeroRef = mkRef '''' ''''"

definition zeroResult :: PhaseResult where
  "zeroResult = \<lparr>res_ID = '''', res_Endpoint = zeroRef, res_BindingRef = '''', res_OutputRef = '''',
                res_Verdict = ''''\<rparr>"

definition zeroTransition :: GraphTransition where
  "zeroTransition =
     \<lparr>tr_TargetKind = '''', tr_Endpoint = zeroRef, tr_BlockerID = '''', tr_TaskID = '''', tr_Action = '''',
      tr_Generation = 0, tr_Result = zeroResult, tr_NewBindingRef = '''', tr_ExecuteBindingRef = '''',
      tr_VerifyBindingRef = '''', tr_NewSpecRef = '''', tr_CheckpointRef = '''', tr_NonResumable = False,
      tr_EvidenceRefs = []\<rparr>"

section \<open>Runtime records\<close>

type_synonym Time = "int option" \<comment> \<open>\<open>None\<close> is the zero \<open>time.Time\<close>\<close>

record commandRecord =
  cr_Command :: PhaseCommand
  cr_Accepted :: bool
  cr_ObservedEventRef :: string
  cr_CompletedEventRef :: string
  cr_RetryScheduled :: bool
  cr_Quarantined :: bool
  cr_NotExecutable :: bool

record phaseLease =
  lease_LeaseRef :: LeaseID
  lease_Endpoint :: PhaseEndpointRef
  lease_Generation :: int
  lease_BindingRef :: BindingRef
  lease_State :: string
  lease_ExpiresAt :: Time
  lease_Expired :: bool

record phaseObservation =
  ob_ID :: string
  ob_Kind :: string
  ob_CommandID :: string
  ob_Endpoint :: PhaseEndpointRef
  ob_Generation :: int
  ob_BindingRef :: BindingRef
  ob_LeaseRef :: LeaseID
  ob_CheckpointRef :: string
  ob_NonResumable :: bool
  ob_DispatchError :: string
  ob_DispatchTarget :: PhaseEndpointRef
  ob_Folded :: bool

record bindingRuntimeInfo =
  bi_CheckpointRef :: string
  bi_NonResumable :: bool

record memoryRuntimeState =
  rt_commands :: "(string, commandRecord) gomap"
  rt_leases :: "(LeaseID, phaseLease) gomap"
  rt_observations :: "phaseObservation list"
  rt_bindings :: "(BindingRef, bindingRuntimeInfo) gomap"

definition newMemoryRuntimeState :: memoryRuntimeState where
  "newMemoryRuntimeState = \<lparr>rt_commands = [], rt_leases = [], rt_observations = [], rt_bindings = []\<rparr>"

definition isRunCommand :: "PhaseCommand \<Rightarrow> bool" where
  "isRunCommand command \<longleftrightarrow> cmd_Action command = CommandStart \<or> cmd_Action command = CommandResume"

section \<open>Stored graph\<close>

record graphState =
  gs_tasks :: "(TaskID, Task) gomap"
  gs_endpoints :: "(PhaseEndpointRef, PhaseEndpoint) gomap"
  gs_edges :: "Edge list"
  gs_blockers :: "(string, Blocker) gomap"
  gs_results :: "(string, PhaseResult) gomap"

definition newGraphState :: graphState where
  "newGraphState = \<lparr>gs_tasks = [], gs_endpoints = [], gs_edges = [], gs_blockers = [], gs_results = []\<rparr>"

text \<open>
  The shape every stored graph has: no key twice, and every task, endpoint, blocker and result under
  its own identifier. Go's maps give the first part, the writes of the code the second.
\<close>

definition graph_keyed :: "graphState \<Rightarrow> bool" where
  "graph_keyed s \<longleftrightarrow>
     mwf (gs_tasks s) \<and> mkeyed task_ID (gs_tasks s)
   \<and> mwf (gs_endpoints s) \<and> mkeyed ep_Ref (gs_endpoints s)
   \<and> mwf (gs_blockers s) \<and> mkeyed bl_ID (gs_blockers s)
   \<and> mwf (gs_results s) \<and> mkeyed res_ID (gs_results s)"

lemma graph_keyed_new: "graph_keyed newGraphState"
  by (simp add: graph_keyed_def newGraphState_def)

lemma graph_keyed_values:
  assumes "graph_keyed s"
  shows "t \<in> set (mvalues (gs_tasks s)) \<longleftrightarrow> mget (gs_tasks s) (task_ID t) = Some t"
    and "e \<in> set (mvalues (gs_endpoints s)) \<longleftrightarrow> mget (gs_endpoints s) (ep_Ref e) = Some e"
    and "b \<in> set (mvalues (gs_blockers s)) \<longleftrightarrow> mget (gs_blockers s) (bl_ID b) = Some b"
    and "r \<in> set (mvalues (gs_results s)) \<longleftrightarrow> mget (gs_results s) (res_ID r) = Some r"
  using assms by (auto simp: graph_keyed_def mvalues_iff dest: mkeyedD)

end
