(* ===== verification/Graph_Validate.thy ===== *)
theory Graph_Validate
  imports Graph_Types
begin

text \<open>
  The record and graph checks of \<open>internal/coordination/validation.go\<close>. A check is \<open>None\<close> for Go's \<open>nil\<close>;
  loops over Go maps run in the order of the association list, and every theorem about acceptance
  is about the set of entries, so it holds for every order. The cycle check keeps the code's depth
  first search with its \<open>visiting\<close> and \<open>visited\<close> marks; its termination is proved, not bounded.
\<close>

section \<open>Records\<close>

definition fixedEndpoints :: "EndpointID list" where
  "fixedEndpoints = [EndpointPlan, EndpointExecute, EndpointVerify]"

definition isFixedEndpoint :: "EndpointID \<Rightarrow> bool" where
  "isFixedEndpoint endpointID = list_ex (\<lambda>fixed. endpointID = fixed) fixedEndpoints"

definition validateTask :: "Task \<Rightarrow> goerr option" where
  "validateTask task = first_err
     [RequireID ''task.id'' (task_ID task),
      fail_if (task_ContractRef task = '''') (InvalidArgument ''task.contract_ref is required''),
      fail_if (task_Outcome task \<notin> {TaskActive, TaskDone, TaskCanceled, TaskFailed})
        (InvalidArgument ''task.outcome is not allowed'')]"

definition validateEndpointRef :: "PhaseEndpointRef \<Rightarrow> goerr option" where
  "validateEndpointRef ref = first_err
     [RequireID ''endpoint.task_id'' (ref_TaskID ref),
      fail_if (\<not> isFixedEndpoint (ref_EndpointID ref))
        (InvalidArgument ''endpoint_id must be one of plan, execute, verify'')]"

definition validateEndpoint :: "PhaseEndpoint \<Rightarrow> goerr option" where
  "validateEndpoint endpoint = first_err
     [validateEndpointRef (ep_Ref endpoint),
      fail_if (ep_SpecRef endpoint = '''') (InvalidArgument ''endpoint.spec_ref is required''),
      RequireID ''endpoint.binding_ref'' (ep_BindingRef endpoint),
      fail_if (ep_Generation endpoint \<le> 0) (InvalidArgument ''endpoint.generation must be positive''),
      fail_if (ep_State endpoint \<notin> {EndpointPending, EndpointSubmitted, EndpointSatisfied, EndpointRejected})
        (InvalidArgument ''endpoint.state is not allowed''),
      fail_if (ep_RunPolicy endpoint \<notin> {RunEnabled, RunHeld})
        (InvalidArgument ''endpoint.run_policy is not allowed'')]"

definition validateEdge :: "Edge \<Rightarrow> goerr option" where
  "validateEdge edge = first_err
     [validateEndpointRef (edge_From edge),
      validateEndpointRef (edge_To edge),
      fail_if (edge_Signal edge \<notin> {SignalPhaseSatisfied, SignalTaskDone})
        (InvalidArgument ''edge.signal is not allowed''),
      fail_if (edge_RequiredBy edge \<notin> {RequiredByStart, RequiredByCompletion})
        (InvalidArgument ''edge.required_by is not allowed''),
      fail_if (edge_OnFalse edge \<notin> {OnFalseBlock, OnFalseReplan, OnFalseCancel})
        (InvalidArgument ''edge.on_false is not allowed''),
      fail_if (ref_TaskID (edge_From edge) = ref_TaskID (edge_To edge))
        (InvalidGraph ''fixed plan/execute/verify order is not an editable edge'')]"

definition validateBlocker :: "Blocker \<Rightarrow> goerr option" where
  "validateBlocker blocker = first_err
     [fail_if (bl_ID blocker = '''') (InvalidArgument ''blocker.id is required''),
      validateEndpointRef (bl_Target blocker),
      fail_if (bl_RequiredBy blocker \<notin> {RequiredByStart, RequiredByCompletion})
        (InvalidArgument ''blocker.required_by is not allowed''),
      fail_if (bl_OnFalse blocker \<notin> {OnFalseBlock, OnFalseReplan, OnFalseCancel})
        (InvalidArgument ''blocker.on_false is not allowed''),
      fail_if (bl_State blocker \<notin> {BlockerActive, BlockerResolved, BlockerDenied, BlockerObsolete})
        (InvalidArgument ''blocker.state is not allowed'')]"

definition validateResult :: "PhaseResult \<Rightarrow> goerr option" where
  "validateResult result = first_err
     [fail_if (res_ID result = '''') (InvalidArgument ''phase_result.id is required''),
      validateEndpointRef (res_Endpoint result),
      RequireID ''phase_result.binding_ref'' (res_BindingRef result),
      fail_if (res_OutputRef result = '''') (InvalidArgument ''phase_result.output_ref is required''),
      fail_if (res_Verdict result \<notin> {VerdictSubmitted, VerdictSatisfied, VerdictRejected, VerdictInvalidated})
        (InvalidArgument ''phase_result.verdict is not allowed'')]"

text \<open>\<open>fmt.Sprintf("%s/%s>%s/%s:%s:%s", ...)\<close>\<close>

definition edgeKey :: "Edge \<Rightarrow> string" where
  "edgeKey edge =
     ref_TaskID (edge_From edge) @ ''/'' @ ref_EndpointID (edge_From edge) @ ''>''
     @ ref_TaskID (edge_To edge) @ ''/'' @ ref_EndpointID (edge_To edge)
     @ '':'' @ edge_Signal edge @ '':'' @ edge_RequiredBy edge"

section \<open>Endpoint sets\<close>

text \<open>The set \<open>seen\<close> of both functions: the endpoint ids of one task among the given references.\<close>

definition seenEndpointIDs :: "TaskID \<Rightarrow> PhaseEndpointRef list \<Rightarrow> EndpointID list" where
  "seenEndpointIDs taskID refs =
     remdups (map ref_EndpointID (filter (\<lambda>ref. ref_TaskID ref = taskID) refs))"

definition requireFixedEndpointSet :: "TaskID \<Rightarrow> PhaseEndpoint list \<Rightarrow> goerr option" where
  "requireFixedEndpointSet taskID endpoints =
     (let seen = seenEndpointIDs taskID (map ep_Ref endpoints) in
      first_err
        [check_all (\<lambda>endpointID. fail_if (endpointID \<notin> set seen)
           (InvalidArgument (''new task '' @ taskID @ '' must include '' @ endpointID @ '' endpoint''))) fixedEndpoints,
         fail_if (length seen \<noteq> length fixedEndpoints)
           (InvalidArgument ''new task endpoint set must be exactly plan, execute, verify'')])"

definition taskHasFixedEndpointSet :: "graphState \<Rightarrow> TaskID \<Rightarrow> goerr option" where
  "taskHasFixedEndpointSet state taskID =
     (let seen = seenEndpointIDs taskID (map fst (gs_endpoints state)) in
      first_err
        [check_all (\<lambda>endpointID. fail_if (endpointID \<notin> set seen)
           (InvalidArgument (''task '' @ taskID @ '' is missing '' @ endpointID @ '' endpoint''))) fixedEndpoints,
         fail_if (length seen \<noteq> length fixedEndpoints)
           (InvalidArgument ''task endpoint set must be exactly plan, execute, verify'')])"

lemma seenEndpointIDs_exact:
  "check_all (\<lambda>e. fail_if (e \<notin> set (seenEndpointIDs t refs)) (m e)) fixedEndpoints = None
   \<and> length (seenEndpointIDs t refs) = length fixedEndpoints
   \<longleftrightarrow> {e. mkRef t e \<in> set refs} = set fixedEndpoints"
proof -
  let ?seen = "seenEndpointIDs t refs"
  have set: "set ?seen = {e. mkRef t e \<in> set refs}"
  proof (intro set_eqI iffI)
    fix e assume "e \<in> set ?seen"
    then show "e \<in> {e. mkRef t e \<in> set refs}" by (auto simp: seenEndpointIDs_def)
  next
    fix e assume "e \<in> {e. mkRef t e \<in> set refs}"
    then show "e \<in> set ?seen" unfolding seenEndpointIDs_def by (auto intro!: image_eqI[of _ _ "mkRef t e"])
  qed
  have d: "distinct ?seen" "distinct fixedEndpoints" by (simp_all add: seenEndpointIDs_def fixedEndpoints_def)
  have "set fixedEndpoints \<subseteq> set ?seen \<and> length ?seen = length fixedEndpoints \<longleftrightarrow> set ?seen = set fixedEndpoints"
    using d by (metis List.finite_set card_seteq distinct_card order_refl)
  then show ?thesis by (auto simp: check_simps set)
qed

text \<open>The endpoints of a task are exactly plan, execute and verify.\<close>

definition fixed_endpoint_set :: "graphState \<Rightarrow> TaskID \<Rightarrow> bool" where
  "fixed_endpoint_set s t \<longleftrightarrow> {e. mget (gs_endpoints s) (mkRef t e) \<noteq> None} = set fixedEndpoints"

lemma taskHasFixedEndpointSet_None [check_simps]:
  "taskHasFixedEndpointSet s t = None \<longleftrightarrow> fixed_endpoint_set s t"
proof -
  have "{e. mget (gs_endpoints s) (mkRef t e) \<noteq> None} = {e. mkRef t e \<in> set (map fst (gs_endpoints s))}"
    by (simp add: map_of_eq_None_iff)
  then show ?thesis
    using seenEndpointIDs_exact[of t "map fst (gs_endpoints s)"
        "\<lambda>e. InvalidArgument (''task '' @ t @ '' is missing '' @ e @ '' endpoint'')"]
    unfolding taskHasFixedEndpointSet_def Let_def fixed_endpoint_set_def by (simp add: first_err_None fail_if_None)
qed

section \<open>The cycle check\<close>

text \<open>The map \<open>adjacent\<close> as the list of its (from, to) entries, in the order they are appended.\<close>

definition taskChain :: "TaskID \<Rightarrow> (PhaseEndpointRef \<times> PhaseEndpointRef) list" where
  "taskChain taskID =
     [(mkRef taskID EndpointPlan, mkRef taskID EndpointExecute),
      (mkRef taskID EndpointExecute, mkRef taskID EndpointVerify)]"

definition adjacency :: "graphState \<Rightarrow> (PhaseEndpointRef \<times> PhaseEndpointRef) list" where
  "adjacency state =
     map (\<lambda>edge. (edge_From edge, edge_To edge)) (gs_edges state)
     @ concat (map taskChain (map fst (gs_tasks state)))"

definition nexts :: "('a \<times> 'a) list \<Rightarrow> 'a \<Rightarrow> 'a list" where
  "nexts adjacent ref = map snd (filter (\<lambda>(f, _). f = ref) adjacent)"

text \<open>
  \<open>visit\<close> applied to the elements of a list in turn, as both the loop over \<open>adjacent[ref]\<close> and the loop
  over \<open>state.endpoints\<close> do. The marks are the maps \<open>visiting\<close> and \<open>visited\<close>; \<open>None\<close> is the cycle error.
\<close>

type_synonym 'a marks = "('a \<Rightarrow> bool) \<times> ('a \<Rightarrow> bool)"

function (sequential) visitAll :: "('a \<times> 'a) list \<Rightarrow> 'a marks \<Rightarrow> 'a list \<Rightarrow> 'a marks option" where
  "visitAll adjacent m [] = Some m"
| "visitAll adjacent (visiting, visited) (ref # refs) =
     (if visiting ref then None
      else if visited ref then visitAll adjacent (visiting, visited) refs
      else case visitAll adjacent (visiting(ref := True), visited) (nexts adjacent ref) of
        None \<Rightarrow> None
      | Some (visiting', visited') \<Rightarrow>
          visitAll adjacent (visiting'(ref := False), visited'(ref := True)) refs)"
  by pat_completeness auto

text \<open>The nodes with successors that carry no mark yet: they are used up on the way down.\<close>

definition unmarked :: "('a \<times> 'a) list \<Rightarrow> 'a marks \<Rightarrow> 'a set" where
  "unmarked adjacent m = {r \<in> fst ` set adjacent. \<not> fst m r \<and> \<not> snd m r}"

lemma finite_unmarked [simp]: "finite (unmarked adjacent m)"
  by (simp add: unmarked_def)

lemma nexts_Nil: "ref \<notin> fst ` set adjacent \<Longrightarrow> nexts adjacent ref = []"
  by (force simp: nexts_def filter_empty_conv)

lemma visitAll_marks:
  "visitAll_dom (adjacent, m, refs) \<Longrightarrow> visitAll adjacent m refs = Some m' \<Longrightarrow>
   fst m' = fst m \<and> (\<forall>r. snd m r \<longrightarrow> snd m' r)"
proof (induction arbitrary: m' rule: visitAll.pinduct)
  case (1 adjacent m)
  then show ?case by (simp add: visitAll.psimps)
next
  case (2 adjacent visiting visited ref refs)
  show ?case
  proof (cases "visiting ref \<or> visited ref")
    case True
    then show ?thesis using "2.prems" "2.IH"(1) by (auto simp: visitAll.psimps(2)[OF "2.hyps"] split: if_splits)
  next
    case False
    then obtain v1 d1 where inner: "visitAll adjacent (visiting(ref := True), visited) (nexts adjacent ref) = Some (v1, d1)"
      and outer: "visitAll adjacent (v1(ref := False), d1(ref := True)) refs = Some m'"
      using "2.prems" by (auto simp: visitAll.psimps(2)[OF "2.hyps"] split: option.splits)
    have "v1 = visiting(ref := True)" "\<forall>r. visited r \<longrightarrow> d1 r"
      using "2.IH"(2)[OF _ _ inner] False by auto
    moreover have "fst m' = v1(ref := False)" "\<forall>r. (d1(ref := True)) r \<longrightarrow> snd m' r"
      using "2.IH"(3)[OF _ _ inner _ outer] False by auto
    ultimately show ?thesis using False by (auto simp: fun_eq_iff)
  qed
qed

termination visitAll
proof (relation "inv_image (finite_psubset <*lex*> less_than) (\<lambda>(adjacent, m, refs). (unmarked adjacent m, length refs))")
  show "wf (inv_image (finite_psubset <*lex*> less_than) (\<lambda>(adjacent, m, refs). (unmarked adjacent m, length refs)))"
    by auto
next
  fix adjacent :: "('a \<times> 'a) list" and visiting visited :: "'a \<Rightarrow> bool" and ref refs
  assume new: "\<not> visiting ref" "\<not> visited ref"
  let ?m = "(visiting(ref := True), visited)"
  show "((adjacent, ?m, nexts adjacent ref), adjacent, (visiting, visited), ref # refs)
    \<in> inv_image (finite_psubset <*lex*> less_than) (\<lambda>(adjacent, m, refs). (unmarked adjacent m, length refs))"
  proof (cases "ref \<in> fst ` set adjacent")
    case True
    then have "ref \<in> unmarked adjacent (visiting, visited) - unmarked adjacent ?m" using new by (simp add: unmarked_def)
    moreover have "unmarked adjacent ?m \<subseteq> unmarked adjacent (visiting, visited)" by (auto simp: unmarked_def split: if_splits)
    ultimately show ?thesis by (auto simp: finite_psubset_def)
  next
    case False
    then have "unmarked adjacent ?m = unmarked adjacent (visiting, visited)" by (auto simp: unmarked_def)
    with False show ?thesis by (simp add: nexts_Nil)
  qed
  fix z v1 d1
  assume dom: "visitAll_dom (adjacent, ?m, nexts adjacent ref)"
    and inner: "visitAll adjacent ?m (nexts adjacent ref) = Some z" and z: "(v1, d1) = z"
  have "v1 = visiting(ref := True)" "\<forall>r. visited r \<longrightarrow> d1 r"
    using visitAll_marks[OF dom] inner z by auto
  then have "unmarked adjacent (v1(ref := False), d1(ref := True)) \<subseteq> unmarked adjacent (visiting, visited)"
    using new by (auto simp: unmarked_def split: if_splits)
  then show "((adjacent, (v1(ref := False), d1(ref := True)), refs), adjacent, (visiting, visited), ref # refs)
    \<in> inv_image (finite_psubset <*lex*> less_than) (\<lambda>(adjacent, m, refs). (unmarked adjacent m, length refs))"
    by (auto simp: finite_psubset_def)
qed auto

definition validateAcyclic :: "graphState \<Rightarrow> goerr option" where
  "validateAcyclic state =
     (case visitAll (adjacency state) (\<lambda>_. False, \<lambda>_. False) (map fst (gs_endpoints state)) of
        None \<Rightarrow> Some (InvalidGraph ''coordination graph cannot contain cycles'')
      | Some _ \<Rightarrow> None)"

subsection \<open>Correctness of the search\<close>

lemma nexts_iff: "y \<in> set (nexts adjacent x) \<longleftrightarrow> (x, y) \<in> set adjacent"
  by (force simp: nexts_def)

lemma visitAll_visiting:
  "visitAll adjacent m refs = Some m' \<Longrightarrow> fst m' = fst m \<and> (\<forall>r. snd m r \<longrightarrow> snd m' r)"
proof (induction adjacent m refs arbitrary: m' rule: visitAll.induct)
  case (2 adjacent visiting visited ref refs)
  show ?case
  proof (cases "visiting ref \<or> visited ref")
    case True
    then show ?thesis using "2.prems" "2.IH"(1) by (auto split: if_splits)
  next
    case False
    then obtain v1 d1 where inner: "visitAll adjacent (visiting(ref := True), visited) (nexts adjacent ref) = Some (v1, d1)"
      and outer: "visitAll adjacent (v1(ref := False), d1(ref := True)) refs = Some m'"
      using "2.prems" by (auto split: option.splits)
    then show ?thesis using "2.IH"(2)[OF _ _ inner] "2.IH"(3)[OF _ _ inner refl outer] False by (auto simp: fun_eq_iff)
  qed
qed simp

lemma visitAll_step:
  assumes "visitAll adjacent (visiting, visited) (ref # refs) = Some m'" "\<not> visited ref"
  obtains d1 where "\<not> visiting ref"
    and "visitAll adjacent (visiting(ref := True), visited) (nexts adjacent ref) = Some (visiting(ref := True), d1)"
    and "visitAll adjacent (visiting, d1(ref := True)) refs = Some m'"
proof -
  from assms have nv: "\<not> visiting ref" by (simp split: if_splits)
  with assms obtain v1 d1 where
    inner: "visitAll adjacent (visiting(ref := True), visited) (nexts adjacent ref) = Some (v1, d1)"
    and outer: "visitAll adjacent (v1(ref := False), d1(ref := True)) refs = Some m'"
    by (auto split: option.splits)
  from visitAll_visiting[OF inner] have "v1 = visiting(ref := True)" by simp
  with nv have "v1(ref := False) = visiting" by (auto simp: fun_eq_iff)
  with inner outer \<open>v1 = _\<close> nv that show ?thesis by simp
qed

text \<open>A node on the search stack is never marked as finished below it.\<close>

lemma visitAll_stack:
  "visitAll adjacent m refs = Some m' \<Longrightarrow> fst m r \<Longrightarrow> \<not> snd m r \<Longrightarrow> \<not> snd m' r"
proof (induction adjacent m refs arbitrary: m' rule: visitAll.induct)
  case (2 adjacent visiting visited ref refs)
  show ?case
  proof (cases "visited ref")
    case True
    then show ?thesis using "2.prems" "2.IH"(1) by (simp split: if_splits)
  next
    case False
    from visitAll_step[OF "2.prems"(1) False] obtain d1 where nv: "\<not> visiting ref"
      and inner: "visitAll adjacent (visiting(ref := True), visited) (nexts adjacent ref) = Some (visiting(ref := True), d1)"
      and outer: "visitAll adjacent (visiting, d1(ref := True)) refs = Some m'" by metis
    have eq: "(visiting(ref := True))(ref := False) = visiting" using nv by (auto simp: fun_eq_iff)
    have "\<not> d1 r" using "2.IH"(2)[OF nv False inner] "2.prems"(2,3) by simp
    moreover have "r \<noteq> ref" using nv "2.prems"(2) by auto
    ultimately show ?thesis
      using "2.IH"(3)[OF nv False inner refl, unfolded eq, OF outer] "2.prems"(2) by simp
  qed
qed simp

lemma acyclic_add_source:
  assumes "acyclic R" "a \<notin> Range R" "a \<notin> S"
  shows "acyclic (R \<union> {a} \<times> S)"
proof -
  have "y \<noteq> a \<and> (x = a \<or> (x, y) \<in> R\<^sup>+)" if "(x, y) \<in> (R \<union> {a} \<times> S)\<^sup>+" for x y
    using that assms(2,3) by (induction rule: trancl_induct) (auto intro: trancl_into_trancl)
  with assms(1) show ?thesis unfolding acyclic_def by blast
qed

text \<open>The finished nodes are closed under successors, and no cycle starts in them.\<close>

definition settled :: "('a \<times> 'a) list \<Rightarrow> ('a \<Rightarrow> bool) \<Rightarrow> bool" where
  "settled adjacent visited \<longleftrightarrow>
     (\<forall>(x, y) \<in> set adjacent. visited x \<longrightarrow> visited y) \<and> acyclic {(x, y) \<in> set adjacent. visited x}"

lemma settled_add:
  assumes "settled adjacent d" "\<not> d ref" "\<forall>y \<in> set (nexts adjacent ref). d y"
  shows "settled adjacent (d(ref := True))"
proof -
  let ?R = "{(x, y) \<in> set adjacent. d x}"
  have "ref \<notin> Range ?R" using assms(1,2) by (auto simp: settled_def)
  moreover have "ref \<notin> set (nexts adjacent ref)" using assms(2,3) by auto
  ultimately have "acyclic (?R \<union> {ref} \<times> set (nexts adjacent ref))"
    using assms(1) by (intro acyclic_add_source) (simp_all add: settled_def)
  moreover have "{(x, y) \<in> set adjacent. (d(ref := True)) x} = ?R \<union> {ref} \<times> set (nexts adjacent ref)"
    using assms(2) by (auto simp: nexts_iff split: if_splits)
  moreover have "\<forall>(x, y) \<in> set adjacent. (d(ref := True)) x \<longrightarrow> (d(ref := True)) y"
    using assms by (auto simp: settled_def nexts_iff split: if_splits)
  ultimately show ?thesis unfolding settled_def by simp
qed

lemma visitAll_settled:
  "visitAll adjacent m refs = Some m' \<Longrightarrow> settled adjacent (snd m) \<Longrightarrow>
   settled adjacent (snd m') \<and> (\<forall>r \<in> set refs. snd m' r)"
proof (induction adjacent m refs arbitrary: m' rule: visitAll.induct)
  case (2 adjacent visiting visited ref refs)
  show ?case
  proof (cases "visited ref")
    case True
    then have v: "\<not> visiting ref" "visitAll adjacent (visiting, visited) refs = Some m'"
      using "2.prems"(1) by (simp_all split: if_splits)
    then show ?thesis using "2.IH"(1)[OF v(1) True v(2)] "2.prems"(2) visitAll_visiting[OF v(2)] True by simp
  next
    case False
    from visitAll_step[OF "2.prems"(1) False] obtain d1 where nv: "\<not> visiting ref"
      and inner: "visitAll adjacent (visiting(ref := True), visited) (nexts adjacent ref) = Some (visiting(ref := True), d1)"
      and outer: "visitAll adjacent (visiting, d1(ref := True)) refs = Some m'" by metis
    have eq: "(visiting(ref := True))(ref := False) = visiting" using nv by (auto simp: fun_eq_iff)
    have d1: "settled adjacent d1" "\<forall>y \<in> set (nexts adjacent ref). d1 y"
      using "2.IH"(2)[OF nv False inner] "2.prems"(2) by simp_all
    moreover have "\<not> d1 ref" using visitAll_stack[OF inner, of ref] False by simp
    ultimately have "settled adjacent (d1(ref := True))" by (intro settled_add)
    then have "settled adjacent (snd m') \<and> (\<forall>r \<in> set refs. snd m' r)"
      using "2.IH"(3)[OF nv False inner refl, unfolded eq, OF outer] by (simp add: fun_upd_def)
    then show ?thesis using visitAll_visiting[OF outer] by simp
  qed
qed simp

lemma visitAll_cycle:
  "visitAll adjacent m refs = None \<Longrightarrow> (\<And>v x. fst m v \<Longrightarrow> x \<in> set refs \<Longrightarrow> (v, x) \<in> (set adjacent)\<^sup>+) \<Longrightarrow>
   \<not> acyclic (set adjacent)"
proof (induction adjacent m refs rule: visitAll.induct)
  case (2 adjacent visiting visited ref refs)
  have path: "visiting v \<Longrightarrow> (v, ref) \<in> (set adjacent)\<^sup>+" for v using "2.prems"(2)[of v ref] by simp
  consider (cycle) "visiting ref" | (skip) "\<not> visiting ref" "visited ref" | (new) "\<not> visiting ref" "\<not> visited ref" by blast
  then show ?case
  proof cases
    case cycle
    with path show ?thesis by (auto simp: acyclic_def)
  next
    case skip
    then show ?thesis using "2.IH"(1) "2.prems" by simp
  next
    case new
    show ?thesis
    proof (cases "visitAll adjacent (visiting(ref := True), visited) (nexts adjacent ref)")
      case None
      moreover have "(v, x) \<in> (set adjacent)\<^sup>+" if "(visiting(ref := True)) v" "x \<in> set (nexts adjacent ref)" for v x
        using that path[of v] by (auto simp: nexts_iff split: if_splits intro: trancl_into_trancl)
      ultimately show ?thesis using "2.IH"(2)[OF new] by simp
    next
      case (Some m1)
      obtain v1 d1 where m1: "m1 = (v1, d1)" by (cases m1)
      have v1: "v1(ref := False) = visiting" using visitAll_visiting[OF Some] new m1 by (auto simp: fun_eq_iff)
      have "visitAll adjacent (v1(ref := False), d1(ref := True)) refs = None" using "2.prems"(1) Some new m1 by simp
      from "2.IH"(3)[OF new Some m1[symmetric] this] "2.prems"(2) show ?thesis by (simp add: v1)
    qed
  qed
qed simp

lemma validateAcyclic_None:
  assumes "fst ` set (adjacency state) \<subseteq> set (map fst (gs_endpoints state))"
  shows "validateAcyclic state = None \<longleftrightarrow> acyclic (set (adjacency state))"
proof (cases "visitAll (adjacency state) (\<lambda>_. False, \<lambda>_. False) (map fst (gs_endpoints state))")
  case None
  then have "\<not> acyclic (set (adjacency state))" by (rule visitAll_cycle) simp
  with None show ?thesis by (simp add: validateAcyclic_def)
next
  case (Some m)
  have "settled (adjacency state) (snd m) \<and> (\<forall>r \<in> set (map fst (gs_endpoints state)). snd m r)"
    by (rule visitAll_settled[OF Some]) (simp add: settled_def acyclic_def)
  moreover from this have "{(x, y) \<in> set (adjacency state). snd m x} = set (adjacency state)"
    using assms by force
  ultimately show ?thesis using Some by (simp add: validateAcyclic_def settled_def)
qed

section \<open>The whole graph\<close>

text \<open>The loop over \<open>state.edges\<close>; \<open>edgeKeys\<close> is the set of keys seen so far.\<close>

fun validateEdges :: "graphState \<Rightarrow> string list \<Rightarrow> Edge list \<Rightarrow> goerr option" where
  "validateEdges state edgeKeys [] = None"
| "validateEdges state edgeKeys (edge # edges) = first_err
     [validateEdge edge,
      fail_if (edgeKey edge \<in> set edgeKeys) (InvalidGraph ''coordination graph cannot contain duplicate edges''),
      fail_if (mget (gs_endpoints state) (edge_From edge) = None)
        (InvalidGraph ''edge source references unknown endpoint''),
      fail_if (mget (gs_endpoints state) (edge_To edge) = None)
        (InvalidGraph ''edge target references unknown endpoint''),
      validateEdges state (edgeKey edge # edgeKeys) edges]"

definition validateGraph :: "graphState \<Rightarrow> goerr option" where
  "validateGraph state = first_err
     [check_all (\<lambda>task. first_err [validateTask task, taskHasFixedEndpointSet state (task_ID task)])
        (mvalues (gs_tasks state)),
      check_all (\<lambda>endpoint. first_err
        [validateEndpoint endpoint,
         fail_if (mget (gs_tasks state) (ref_TaskID (ep_Ref endpoint)) = None)
           (InvalidGraph ''endpoint references unknown task'')]) (mvalues (gs_endpoints state)),
      validateEdges state [] (gs_edges state),
      check_all (\<lambda>blocker. first_err
        [validateBlocker blocker,
         fail_if (mget (gs_endpoints state) (bl_Target blocker) = None)
           (InvalidGraph ''blocker references unknown endpoint'')]) (mvalues (gs_blockers state)),
      check_all (\<lambda>result. first_err
        [validateResult result,
         fail_if (mget (gs_endpoints state) (res_Endpoint result) = None)
           (InvalidGraph ''phase result references unknown endpoint'')]) (mvalues (gs_results state)),
      validateAcyclic state]"

text \<open>
  What an accepted graph is, without loops or search: every record well formed, every task with
  exactly its plan, execute and verify endpoints, no dangling reference, no edge twice, and no
  cycle among the edges and the built-in phase order.
\<close>

definition graph_ok :: "graphState \<Rightarrow> bool" where
  "graph_ok s \<longleftrightarrow>
     (\<forall>t \<in> set (mvalues (gs_tasks s)). validateTask t = None
        \<and> fixed_endpoint_set s (task_ID t))
   \<and> (\<forall>e \<in> set (mvalues (gs_endpoints s)). validateEndpoint e = None
        \<and> mget (gs_tasks s) (ref_TaskID (ep_Ref e)) \<noteq> None)
   \<and> (\<forall>d \<in> set (gs_edges s). validateEdge d = None
        \<and> mget (gs_endpoints s) (edge_From d) \<noteq> None \<and> mget (gs_endpoints s) (edge_To d) \<noteq> None)
   \<and> distinct (map edgeKey (gs_edges s))
   \<and> (\<forall>b \<in> set (mvalues (gs_blockers s)). validateBlocker b = None
        \<and> mget (gs_endpoints s) (bl_Target b) \<noteq> None)
   \<and> (\<forall>r \<in> set (mvalues (gs_results s)). validateResult r = None
        \<and> mget (gs_endpoints s) (res_Endpoint r) \<noteq> None)
   \<and> acyclic (set (adjacency s))"

lemma validateEdges_None:
  "validateEdges s keys es = None \<longleftrightarrow>
     (\<forall>d \<in> set es. validateEdge d = None \<and> mget (gs_endpoints s) (edge_From d) \<noteq> None
        \<and> mget (gs_endpoints s) (edge_To d) \<noteq> None)
   \<and> distinct (map edgeKey es) \<and> set keys \<inter> edgeKey ` set es = {}"
  by (induction es arbitrary: keys) (auto simp: check_simps)

lemma adjacency_sources:
  assumes "graph_keyed s"
    and "\<forall>t \<in> set (mvalues (gs_tasks s)). fixed_endpoint_set s (task_ID t)"
    and "\<forall>d \<in> set (gs_edges s). mget (gs_endpoints s) (edge_From d) \<noteq> None"
  shows "fst ` set (adjacency s) \<subseteq> set (map fst (gs_endpoints s))"
proof
  fix x assume "x \<in> fst ` set (adjacency s)"
  then consider (edge) d where "d \<in> set (gs_edges s)" "x = edge_From d"
    | (chain) t task e where "(t, task) \<in> set (gs_tasks s)" "x = mkRef t e" "e \<in> set fixedEndpoints"
    by (auto simp: adjacency_def taskChain_def fixedEndpoints_def)
  then show "x \<in> set (map fst (gs_endpoints s))"
  proof cases
    case edge
    then show ?thesis using assms(3) mget_None_iff by metis
  next
    case chain
    have "task \<in> set (mvalues (gs_tasks s))" using image_eqI[OF _ chain(1), of task snd] by (simp add: mvalues_def)
    moreover have "task_ID task = t" using assms(1) chain(1) by (auto simp: graph_keyed_def mkeyed_def)
    ultimately have "task \<in> set (mvalues (gs_tasks s))" "task_ID task = t" by simp_all
    with assms(2) have "fixed_endpoint_set s t" by blast
    with chain(3) have "e \<in> {e. mget (gs_endpoints s) (mkRef t e) \<noteq> None}" by (simp add: fixed_endpoint_set_def)
    then have "mget (gs_endpoints s) x \<noteq> None" using chain by simp
    then show ?thesis using mget_None_iff by metis
  qed
qed

lemma validateGraph_iff:
  assumes "graph_keyed s"
  shows "validateGraph s = None \<longleftrightarrow> graph_ok s"
proof -
  have acyc: "(\<forall>t \<in> set (mvalues (gs_tasks s)). fixed_endpoint_set s (task_ID t))
     \<Longrightarrow> (\<forall>d \<in> set (gs_edges s). mget (gs_endpoints s) (edge_From d) \<noteq> None)
     \<Longrightarrow> validateAcyclic s = None \<longleftrightarrow> acyclic (set (adjacency s))"
    using validateAcyclic_None adjacency_sources[OF assms] by blast
  show ?thesis
    unfolding validateGraph_def graph_ok_def
    by (simp add: check_all_None first_err_None fail_if_None taskHasFixedEndpointSet_None validateEdges_None)
      (use acyc in auto)
qed

end
