(* ===== verification/Graph_Transition.thy ===== *)
theory Graph_Transition
  imports Graph_Validate
begin

text \<open>
  \<open>internal/coordination/transition.go\<close> and the shape check of transitions in \<open>validation.go\<close>: what a Task
  Manager transition may change in the graph, on every branch. The functions of the code mutate a
  clone of the graph and return an error; here they return the new graph or the error.
\<close>

section \<open>Shape\<close>

definition validateTransitionShape :: "GraphTransition \<Rightarrow> goerr option" where
  "validateTransitionShape transition =
     (if tr_TargetKind transition = TargetPhaseEndpoint then first_err
        [validateEndpointRef (tr_Endpoint transition),
         fail_if (tr_Generation transition \<le> 0)
           (TransitionRejected ''phase endpoint transition generation is required''),
         fail_if (tr_Action transition \<notin> {EndpointSubmitted, EndpointSatisfied, EndpointRejected,
             ''reopened'', ''held'', ''released'', ''stopped''})
           (InvalidArgument ''phase endpoint transition action is not allowed'')]
      else if tr_TargetKind transition = TargetBlocker then first_err
        [fail_if (tr_BlockerID transition = '''') (InvalidArgument ''blocker_id is required''),
         fail_if (tr_Action transition \<notin> {BlockerResolved, BlockerDenied, BlockerObsolete})
           (InvalidArgument ''blocker transition action is not allowed'')]
      else if tr_TargetKind transition = TargetTask then first_err
        [RequireID ''task_id'' (tr_TaskID transition),
         (if tr_Action transition \<in> {TaskDone, TaskCanceled, TaskFailed} then None
          else if tr_Action transition = ''reopen_round'' then first_err
            [fail_if (tr_Endpoint transition \<noteq> zeroRef \<or> tr_BlockerID transition \<noteq> '''' \<or> tr_Generation transition \<noteq> 0
                \<or> tr_Result transition \<noteq> zeroResult \<or> tr_NewBindingRef transition \<noteq> '''' \<or> tr_NewSpecRef transition \<noteq> ''''
                \<or> tr_CheckpointRef transition \<noteq> '''' \<or> tr_NonResumable transition)
               (InvalidArgument ''reopen_round only accepts task_id, execute_binding_ref, verify_binding_ref, action, and evidence_refs''),
             RequireID ''execute_binding_ref'' (tr_ExecuteBindingRef transition),
             RequireID ''verify_binding_ref'' (tr_VerifyBindingRef transition),
             fail_if (tr_ExecuteBindingRef transition = tr_VerifyBindingRef transition)
               (StaleBinding ''reopen_round requires distinct execute and verify binding_ref values'')]
          else Some (InvalidArgument ''task transition action is not allowed''))]
      else Some (InvalidArgument ''transition target kind is not allowed''))"

section \<open>Guards\<close>

definition completionEdgeSatisfied :: "graphState \<Rightarrow> Edge \<Rightarrow> bool" where
  "completionEdgeSatisfied state edge =
     (if edge_Signal edge = SignalPhaseSatisfied then
        (case mget (gs_endpoints state) (edge_From edge) of
           None \<Rightarrow> False | Some source \<Rightarrow> ep_State source = EndpointSatisfied)
      else if edge_Signal edge = SignalTaskDone then
        (case mget (gs_tasks state) (ref_TaskID (edge_From edge)) of
           None \<Rightarrow> False | Some source \<Rightarrow> task_Outcome source = TaskDone)
      else False)"

definition requireCompletionInputs :: "graphState \<Rightarrow> PhaseEndpointRef \<Rightarrow> goerr option" where
  "requireCompletionInputs state target = first_err
     [check_all (\<lambda>edge.
        if edge_To edge \<noteq> target \<or> edge_RequiredBy edge \<noteq> RequiredByCompletion then None
        else fail_if (\<not> completionEdgeSatisfied state edge)
          (TransitionRejected ''submitted transition is waiting for a declared completion edge'')) (gs_edges state),
      check_all (\<lambda>blocker.
        if bl_Target blocker \<noteq> target \<or> bl_RequiredBy blocker \<noteq> RequiredByCompletion then None
        else fail_if (bl_State blocker \<in> {BlockerActive, BlockerDenied})
          (TransitionRejected ''submitted transition is waiting for a declared completion blocker''))
        (mvalues (gs_blockers state))]"

definition requireStopEvidence :: "PhaseEndpoint \<Rightarrow> GraphTransition \<Rightarrow> goerr option" where
  "requireStopEvidence endpoint transition = first_err
     [RequireID ''new_binding_ref'' (tr_NewBindingRef transition),
      fail_if (tr_NewBindingRef transition = ep_BindingRef endpoint)
        (StaleBinding ''stopped transition requires a new binding_ref''),
      fail_if (tr_EvidenceRefs transition = [])
        (IncompleteStopEvidence ''stopped transition requires evidence_refs''),
      fail_if (tr_CheckpointRef transition = '''' \<and> \<not> tr_NonResumable transition)
        (IncompleteStopEvidence ''stopped transition requires checkpoint_ref or non_resumable'')]"

definition requireVerifySatisfied :: "graphState \<Rightarrow> TaskID \<Rightarrow> goerr option" where
  "requireVerifySatisfied state taskID =
     (case mget (gs_endpoints state) (mkRef taskID EndpointVerify) of
        None \<Rightarrow> Some (InvalidArgument ''task is missing verify endpoint'')
      | Some verify \<Rightarrow> fail_if (ep_State verify \<noteq> EndpointSatisfied)
          (TransitionRejected ''task done requires satisfied verify endpoint''))"

text \<open>The result a satisfied or rejected transition records, with its default id.\<close>

definition transitionResult :: "PhaseEndpoint \<Rightarrow> GraphTransition \<Rightarrow> Verdict \<Rightarrow> PhaseResult" where
  "transitionResult endpoint transition verdict =
     (tr_Result transition)\<lparr>
        res_ID := (if res_ID (tr_Result transition) = ''''
                   then ref_TaskID (ep_Ref endpoint) @ '':'' @ ref_EndpointID (ep_Ref endpoint) @ '':''
                        @ itoa (ep_Generation endpoint) @ '':'' @ verdict
                   else res_ID (tr_Result transition)),
        res_Verdict := verdict\<rparr>"

definition requireResultForTransition ::
  "graphState \<Rightarrow> PhaseEndpoint \<Rightarrow> GraphTransition \<Rightarrow> Verdict \<Rightarrow> goerr + graphState" where
  "requireResultForTransition state endpoint transition verdict =
     (let result = transitionResult endpoint transition verdict in
      checked (first_err
        [fail_if (res_Endpoint result \<noteq> ep_Ref endpoint)
           (InvalidArgument ''phase result endpoint must match transition endpoint''),
         fail_if (res_BindingRef result \<noteq> ep_BindingRef endpoint)
           (StaleBinding ''phase result binding_ref must match current endpoint binding_ref''),
         fail_if (res_OutputRef result = '''') (InvalidArgument ''phase result output_ref is required''),
         validateResult result,
         fail_if (mget (gs_results state) (res_ID result) \<noteq> None)
           (TransitionRejected ''phase result id already exists'')])
      (Inr (state\<lparr>gs_results := mput (res_ID result) result (gs_results state)\<rparr>)))"

definition requireReopenableRoundEndpoint ::
  "string \<Rightarrow> PhaseEndpoint \<Rightarrow> BindingRef \<Rightarrow> bool \<Rightarrow> goerr option" where
  "requireReopenableRoundEndpoint name endpoint bindingRef allowPending = first_err
     [(if ep_State endpoint \<in> {EndpointSatisfied, EndpointRejected} then None
       else if ep_State endpoint = EndpointPending then
         fail_if (\<not> allowPending)
           (TransitionRejected (''reopen_round requires '' @ name @ '' endpoint to be satisfied or rejected''))
       else Some (TransitionRejected (''reopen_round requires '' @ name
              @ '' endpoint to be satisfied, rejected, or an explicitly withheld pending verify''))),
      fail_if (ep_RunPolicy endpoint = RunHeld)
        (TransitionRejected (''reopen_round requires '' @ name @ '' endpoint not held'')),
      RequireID (name @ ''_binding_ref'') bindingRef,
      fail_if (ep_BindingRef endpoint = bindingRef)
        (StaleBinding (''reopen_round requires a new '' @ name @ '' binding_ref''))]"

section \<open>Applying a transition\<close>

definition putEndpoint :: "graphState \<Rightarrow> PhaseEndpointRef \<Rightarrow> PhaseEndpoint \<Rightarrow> graphState" where
  "putEndpoint state ref endpoint = state\<lparr>gs_endpoints := mput ref endpoint (gs_endpoints state)\<rparr>"

text \<open>The endpoint of a new generation: pending again, with a new binding and possibly a new spec.\<close>

definition nextGeneration :: "PhaseEndpoint \<Rightarrow> GraphTransition \<Rightarrow> PhaseEndpoint" where
  "nextGeneration endpoint transition =
     endpoint\<lparr>ep_State := EndpointPending,
              ep_Generation := int64_inc (ep_Generation endpoint),
              ep_BindingRef := tr_NewBindingRef transition,
              ep_SpecRef := (if tr_NewSpecRef transition \<noteq> '''' then tr_NewSpecRef transition
                             else ep_SpecRef endpoint)\<rparr>"

definition endpointAction :: "graphState \<Rightarrow> PhaseEndpoint \<Rightarrow> GraphTransition \<Rightarrow> goerr + (graphState \<times> PhaseEndpoint)" where
  "endpointAction state endpoint transition =
     (if tr_Action transition = EndpointSubmitted then
        checked (first_err
          [fail_if (ep_State endpoint \<noteq> EndpointPending)
             (TransitionRejected ''submitted transition requires pending endpoint''),
           requireCompletionInputs state (ep_Ref endpoint)])
        (Inr (state, endpoint\<lparr>ep_State := EndpointSubmitted\<rparr>))
      else if tr_Action transition = EndpointSatisfied then
        checked (first_err
          [fail_if (ep_RunPolicy endpoint = RunHeld)
             (TransitionRejected ''satisfied transition requires endpoint not held''),
           fail_if (ep_State endpoint \<noteq> EndpointSubmitted)
             (TransitionRejected ''satisfied transition requires submitted endpoint'')])
        (and_then (requireResultForTransition state endpoint transition VerdictSatisfied)
           (\<lambda>state'. Inr (state', endpoint\<lparr>ep_State := EndpointSatisfied\<rparr>)))
      else if tr_Action transition = EndpointRejected then
        checked (first_err
          [fail_if (ep_RunPolicy endpoint = RunHeld)
             (TransitionRejected ''rejected transition requires endpoint not held''),
           fail_if (ep_State endpoint \<noteq> EndpointSubmitted)
             (TransitionRejected ''rejected transition requires submitted endpoint'')])
        (and_then (requireResultForTransition state endpoint transition VerdictRejected)
           (\<lambda>state'. Inr (state', endpoint\<lparr>ep_State := EndpointRejected\<rparr>)))
      else if tr_Action transition = ''reopened'' then
        checked (first_err
          [fail_if (ep_State endpoint \<noteq> EndpointRejected \<and> ep_State endpoint \<noteq> EndpointPending)
             (TransitionRejected ''reopened transition requires rejected or pending endpoint''),
           RequireID ''new_binding_ref'' (tr_NewBindingRef transition),
           fail_if (tr_NewBindingRef transition = ep_BindingRef endpoint)
             (StaleBinding ''reopened transition requires a new binding_ref'')])
        (Inr (state, nextGeneration endpoint transition))
      else if tr_Action transition = ''held'' then
        Inr (state, endpoint\<lparr>ep_RunPolicy := RunHeld\<rparr>)
      else if tr_Action transition = ''released'' then
        checked (fail_if (ep_RunPolicy endpoint \<noteq> RunHeld)
          (TransitionRejected ''released transition requires held endpoint''))
        (Inr (state, endpoint\<lparr>ep_RunPolicy := RunEnabled\<rparr>))
      else if tr_Action transition = ''stopped'' then
        checked (first_err
          [fail_if (ep_RunPolicy endpoint \<noteq> RunHeld)
             (TransitionRejected ''stopped transition requires held endpoint''),
           requireStopEvidence endpoint transition])
        (Inr (state, nextGeneration endpoint transition))
      else Inl (InvalidArgument ''phase endpoint transition action is not allowed''))"

definition applyEndpointTransition :: "graphState \<Rightarrow> GraphTransition \<Rightarrow> goerr + graphState" where
  "applyEndpointTransition state transition =
     (case mget (gs_endpoints state) (tr_Endpoint transition) of
        None \<Rightarrow> Inl (InvalidArgument ''phase endpoint transition references unknown endpoint'')
      | Some endpoint \<Rightarrow>
          if tr_Generation transition \<noteq> ep_Generation endpoint then
            Inl (TransitionRejected ''phase endpoint transition generation does not match current endpoint generation'')
          else and_then (endpointAction state endpoint transition)
            (\<lambda>(state', endpoint'). Inr (putEndpoint state' (tr_Endpoint transition) endpoint')))"

definition applyBlockerTransition :: "graphState \<Rightarrow> GraphTransition \<Rightarrow> goerr + graphState" where
  "applyBlockerTransition state transition =
     (case mget (gs_blockers state) (tr_BlockerID transition) of
        None \<Rightarrow> Inl (InvalidArgument ''blocker transition references unknown blocker'')
      | Some blocker \<Rightarrow>
          let put = (\<lambda>b. state\<lparr>gs_blockers := mput (tr_BlockerID transition) b (gs_blockers state)\<rparr>) in
          if tr_Action transition = BlockerResolved then
            checked (fail_if (bl_State blocker \<noteq> BlockerActive)
              (TransitionRejected ''resolved transition requires active blocker''))
            (Inr (put (blocker\<lparr>bl_State := BlockerResolved\<rparr>)))
          else if tr_Action transition = BlockerDenied then
            checked (fail_if (bl_State blocker \<noteq> BlockerActive)
              (TransitionRejected ''denied transition requires active blocker''))
            (Inr (put (blocker\<lparr>bl_State := BlockerDenied\<rparr>)))
          else if tr_Action transition = BlockerObsolete then
            checked (fail_if (bl_State blocker \<noteq> BlockerActive)
              (TransitionRejected ''obsolete transition requires active blocker''))
            (Inr (put (blocker\<lparr>bl_State := BlockerObsolete\<rparr>)))
          else Inl (InvalidArgument ''blocker transition action is not allowed''))"

definition reopenRoundEndpoint :: "PhaseEndpoint \<Rightarrow> BindingRef \<Rightarrow> PhaseEndpoint" where
  "reopenRoundEndpoint endpoint bindingRef =
     endpoint\<lparr>ep_State := EndpointPending, ep_RunPolicy := RunEnabled,
              ep_Generation := int64_inc (ep_Generation endpoint), ep_BindingRef := bindingRef\<rparr>"

definition reopenExecutionRound :: "graphState \<Rightarrow> GraphTransition \<Rightarrow> goerr + graphState" where
  "reopenExecutionRound state transition =
     (let planRef = mkRef (tr_TaskID transition) EndpointPlan;
          executeRef = mkRef (tr_TaskID transition) EndpointExecute;
          verifyRef = mkRef (tr_TaskID transition) EndpointVerify
      in case (mget (gs_endpoints state) planRef, mget (gs_endpoints state) executeRef,
               mget (gs_endpoints state) verifyRef) of
        (Some plan, Some execute, Some verify) \<Rightarrow>
          checked (first_err
            [fail_if (ep_State plan \<noteq> EndpointSatisfied)
               (TransitionRejected ''reopen_round requires satisfied plan endpoint''),
             requireReopenableRoundEndpoint ''execute'' execute (tr_ExecuteBindingRef transition) False,
             requireReopenableRoundEndpoint ''verify'' verify (tr_VerifyBindingRef transition) True])
          (Inr (putEndpoint
             (putEndpoint state executeRef (reopenRoundEndpoint execute (tr_ExecuteBindingRef transition)))
             verifyRef (reopenRoundEndpoint verify (tr_VerifyBindingRef transition))))
      | _ \<Rightarrow> Inl (InvalidGraph ''reopen_round requires the fixed plan/execute/verify endpoint set''))"

definition applyTaskTransition :: "graphState \<Rightarrow> GraphTransition \<Rightarrow> goerr + graphState" where
  "applyTaskTransition state transition =
     (case mget (gs_tasks state) (tr_TaskID transition) of
        None \<Rightarrow> Inl (InvalidArgument ''task transition references unknown task'')
      | Some task \<Rightarrow>
          let put = (\<lambda>s t. s\<lparr>gs_tasks := mput (tr_TaskID transition) t (gs_tasks s)\<rparr>) in
          if tr_Action transition = TaskDone then
            checked (first_err
              [fail_if (task_Outcome task \<noteq> TaskActive) (TransitionRejected ''done transition requires active task''),
               requireVerifySatisfied state (tr_TaskID transition)])
            (Inr (put state (task\<lparr>task_Outcome := TaskDone\<rparr>)))
          else if tr_Action transition = TaskCanceled then
            checked (fail_if (task_Outcome task \<noteq> TaskActive)
              (TransitionRejected ''canceled transition requires active task''))
            (Inr (put state (task\<lparr>task_Outcome := TaskCanceled\<rparr>)))
          else if tr_Action transition = TaskFailed then
            checked (fail_if (task_Outcome task \<noteq> TaskActive)
              (TransitionRejected ''failed transition requires active task''))
            (Inr (put state (task\<lparr>task_Outcome := TaskFailed\<rparr>)))
          else if tr_Action transition = ''reopen_round'' then
            checked (fail_if (task_Outcome task \<noteq> TaskActive)
              (TransitionRejected ''reopen_round transition requires active task''))
            (and_then (reopenExecutionRound state transition) (\<lambda>state'. Inr (put state' task)))
          else Inl (InvalidArgument ''task transition action is not allowed''))"

definition applyTransition :: "graphState \<Rightarrow> GraphTransition \<Rightarrow> goerr + graphState" where
  "applyTransition state transition =
     (if tr_TargetKind transition = TargetPhaseEndpoint then applyEndpointTransition state transition
      else if tr_TargetKind transition = TargetBlocker then applyBlockerTransition state transition
      else if tr_TargetKind transition = TargetTask then applyTaskTransition state transition
      else Inl (InvalidArgument ''transition target kind is not allowed''))"

end
