(* ===== verification/Graph_Pending.thy ===== *)
theory Graph_Pending
  imports Graph_Validate
begin

text \<open>
  Replacing the not-yet-executed part of the graph (\<open>validation.go\<close>): which pending subgraphs are
  accepted against the current graph and the runtime records, and how one is applied.
\<close>

section \<open>Acceptance\<close>

definition hasDefinitiveDispatchRejection :: "memoryRuntimeState \<Rightarrow> PhaseEndpoint \<Rightarrow> bool" where
  "hasDefinitiveDispatchRejection runtime endpoint =
     list_ex (\<lambda>record.
       let command = cr_Command record in
       \<not> (cmd_Endpoint command \<noteq> ep_Ref endpoint \<or> cmd_Generation command \<noteq> ep_Generation endpoint
          \<or> cmd_BindingRef command \<noteq> ep_BindingRef endpoint \<or> \<not> isRunCommand command \<or> \<not> cr_NotExecutable record
          \<or> cr_ObservedEventRef record \<noteq> '''' \<or> cr_CompletedEventRef record = '''')
     \<and> (case mget (rt_leases runtime) (cmd_LeaseRef command) of
          None \<Rightarrow> False
        | Some lease \<Rightarrow>
            \<not> (lease_State lease \<noteq> ''released'' \<or> lease_Endpoint lease \<noteq> ep_Ref endpoint
               \<or> lease_Generation lease \<noteq> ep_Generation endpoint \<or> lease_BindingRef lease \<noteq> ep_BindingRef endpoint))
     \<and> list_ex (\<lambda>observation.
          ob_ID observation = cr_CompletedEventRef record \<and> ob_Kind observation = ''DispatchRejected''
          \<and> ob_Folded observation \<and> ob_CommandID observation = cmd_ID command
          \<and> ob_LeaseRef observation = cmd_LeaseRef command) (rt_observations runtime))
     (mvalues (rt_commands runtime))"

text \<open>One iteration of the loop over \<open>next.Endpoints\<close>, with the scope collected so far.\<close>

definition validatePendingEndpoint ::
  "graphState \<Rightarrow> memoryRuntimeState \<Rightarrow> PhaseEndpointRef list \<Rightarrow> PhaseEndpoint \<Rightarrow> goerr option" where
  "validatePendingEndpoint current runtime scope endpoint = first_err
     [validateEndpoint endpoint,
      fail_if (ep_Ref endpoint \<in> set scope) (InvalidGraph ''duplicate endpoint in pending subgraph scope''),
      (case mget (gs_endpoints current) (ep_Ref endpoint) of
         None \<Rightarrow> None
       | Some existing \<Rightarrow> first_err
           [fail_if (ep_State existing \<noteq> EndpointPending) (ScopeNotPending ''only pending endpoints can be replaced''),
            fail_if (ep_SpecRef existing \<noteq> ep_SpecRef endpoint)
              (StaleBinding ''SpecRef is immutable for an endpoint generation''),
            fail_if (ep_RunPolicy existing \<noteq> ep_RunPolicy endpoint)
              (InvalidArgument ''ReplacePending cannot rewrite endpoint run policy''),
            (if ep_Generation existing = ep_Generation endpoint then
               fail_if (ep_BindingRef existing \<noteq> ep_BindingRef endpoint)
                 (StaleBinding ''BindingRef is immutable for an endpoint generation'')
             else
               fail_if (ep_Generation endpoint \<noteq> int64_inc (ep_Generation existing)
                   \<or> ep_BindingRef endpoint = ep_BindingRef existing
                   \<or> \<not> hasDefinitiveDispatchRejection runtime existing)
                 (StaleBinding ''pending endpoint generation can advance only after a definitive pre-start dispatch rejection''))])]"

fun validatePendingEndpoints ::
  "graphState \<Rightarrow> memoryRuntimeState \<Rightarrow> PhaseEndpointRef list \<Rightarrow> PhaseEndpoint list \<Rightarrow> goerr option" where
  "validatePendingEndpoints current runtime scope [] = None"
| "validatePendingEndpoints current runtime scope (endpoint # endpoints) = first_err
     [validatePendingEndpoint current runtime scope endpoint,
      validatePendingEndpoints current runtime (ep_Ref endpoint # scope) endpoints]"

definition validatePendingTask :: "graphState \<Rightarrow> PhaseEndpoint list \<Rightarrow> Task \<Rightarrow> goerr option" where
  "validatePendingTask current endpoints task = first_err
     [validateTask task,
      (case mget (gs_tasks current) (task_ID task) of
         Some existing \<Rightarrow> fail_if (existing \<noteq> task)
           (InvalidArgument ''ReplacePending cannot rewrite an existing task contract or outcome'')
       | None \<Rightarrow> first_err
           [fail_if (task_Outcome task \<noteq> TaskActive) (InvalidArgument ''new tasks must be active''),
            requireFixedEndpointSet (task_ID task) endpoints])]"

fun validatePendingEdges :: "PhaseEndpointRef list \<Rightarrow> string list \<Rightarrow> Edge list \<Rightarrow> goerr option" where
  "validatePendingEdges scope edgeKeys [] = None"
| "validatePendingEdges scope edgeKeys (edge # edges) = first_err
     [validateEdge edge,
      fail_if (edgeKey edge \<in> set edgeKeys) (InvalidGraph ''duplicate edge in pending subgraph''),
      fail_if (edge_To edge \<notin> set scope)
        (InvalidArgument ''pending subgraph edges must target an endpoint in scope''),
      validatePendingEdges scope (edgeKey edge # edgeKeys) edges]"

fun validatePendingBlockers :: "PhaseEndpointRef list \<Rightarrow> string list \<Rightarrow> Blocker list \<Rightarrow> goerr option" where
  "validatePendingBlockers scope blockerIDs [] = None"
| "validatePendingBlockers scope blockerIDs (blocker # blockers) = first_err
     [validateBlocker blocker,
      fail_if (bl_ID blocker \<in> set blockerIDs) (InvalidGraph ''duplicate blocker in pending subgraph''),
      fail_if (bl_Target blocker \<notin> set scope)
        (InvalidArgument ''pending subgraph blockers must target an endpoint in scope''),
      validatePendingBlockers scope (bl_ID blocker # blockerIDs) blockers]"

definition pendingScope :: "PendingSubgraph \<Rightarrow> PhaseEndpointRef list" where
  "pendingScope next = map ep_Ref (ps_Endpoints next)"

definition validatePendingSubgraph ::
  "graphState \<Rightarrow> memoryRuntimeState \<Rightarrow> PendingSubgraph \<Rightarrow> goerr option" where
  "validatePendingSubgraph current runtime next = first_err
     [fail_if (IsLatestRead (ps_BaseRevision next))
        (InvalidArgument ''base_revision must be a concrete revision''),
      fail_if (ps_Endpoints next = [])
        (InvalidArgument ''pending subgraph endpoints define the replacement scope''),
      validatePendingEndpoints current runtime [] (ps_Endpoints next),
      check_all (validatePendingTask current (ps_Endpoints next)) (ps_Tasks next),
      validatePendingEdges (pendingScope next) [] (ps_Edges next),
      validatePendingBlockers (pendingScope next) [] (ps_Blockers next)]"

definition validatePendingSubgraphRuntime :: "memoryRuntimeState \<Rightarrow> PendingSubgraph \<Rightarrow> goerr option" where
  "validatePendingSubgraphRuntime runtime next =
     check_all (\<lambda>lease.
       if lease_State lease \<noteq> ''active'' then None
       else fail_if (lease_Endpoint lease \<in> set (pendingScope next))
         (EndpointInFlight ''ReplacePending scope contains an endpoint with an active phase lease; hold and stop the phase before replacing it''))
     (mvalues (rt_leases runtime))"

definition validateReopenRoundRuntime :: "memoryRuntimeState \<Rightarrow> TaskID \<Rightarrow> goerr option" where
  "validateReopenRoundRuntime runtime taskID =
     check_all (\<lambda>lease.
       if lease_State lease \<noteq> ''active'' \<or> ref_TaskID (lease_Endpoint lease) \<noteq> taskID then None
       else Some (EndpointInFlight ''reopen_round requires all task phase leases to be terminally released''))
     (mvalues (rt_leases runtime))"

section \<open>Application\<close>

definition applyPendingSubgraph :: "graphState \<Rightarrow> PendingSubgraph \<Rightarrow> graphState" where
  "applyPendingSubgraph state next =
     (let scope = pendingScope next;
          tasks = fold (\<lambda>task m. mput (task_ID task) task m) (ps_Tasks next) (gs_tasks state);
          endpoints = fold (\<lambda>endpoint m. mput (ep_Ref endpoint) endpoint m) (ps_Endpoints next) (gs_endpoints state);
          keptEdges = filter (\<lambda>edge. edge_To edge \<notin> set scope) (gs_edges state);
          keptBlockers = filter (\<lambda>(id, blocker). bl_Target blocker \<notin> set scope) (gs_blockers state);
          blockers = fold (\<lambda>blocker m. mput (bl_ID blocker) blocker m) (ps_Blockers next) keptBlockers
      in state\<lparr>gs_tasks := tasks, gs_endpoints := endpoints, gs_edges := keptEdges @ ps_Edges next,
               gs_blockers := blockers\<rparr>)"

text \<open>Writing a list of values under their own keys.\<close>

lemma mwf_fold_mput [simp]: "mwf m \<Longrightarrow> mwf (fold (\<lambda>v. mput (key v) v) vs m)"
  by (induction vs arbitrary: m) auto

lemma mkeyed_fold_mput: "mkeyed key m \<Longrightarrow> mkeyed key (fold (\<lambda>v. mput (key v) v) vs m)"
  by (induction vs arbitrary: m) auto

lemma mget_fold_mput:
  "distinct (map key vs) \<Longrightarrow> mget (fold (\<lambda>v. mput (key v) v) vs m) k =
     (case List.find (\<lambda>v. key v = k) vs of Some v \<Rightarrow> Some v | None \<Rightarrow> mget m k)"
proof (induction vs arbitrary: m)
  case (Cons v vs)
  have "List.find (\<lambda>w. key w = key v) vs = None"
    using Cons.prems unfolding find_None_iff by (metis distinct.simps(2) image_eqI list.set_map list.simps(9))
  with Cons show ?case by (auto simp: gomap_simps split: option.splits)
qed simp

lemma mget_fold_mput_same:
  "(\<And>v. v \<in> set vs \<Longrightarrow> key v = k \<Longrightarrow> mget m k = Some v) \<Longrightarrow>
   mget m k = Some w \<Longrightarrow> mget (fold (\<lambda>v. mput (key v) v) vs m) k = Some w"
proof (induction vs arbitrary: m)
  case (Cons v vs)
  then have "key v = k \<Longrightarrow> v = w" by (metis list.set_intros(1) option.inject)
  with Cons show ?case by (auto simp: gomap_simps)
qed simp

lemma validatePendingEndpoints_None:
  "validatePendingEndpoints current runtime scope es = None \<longleftrightarrow>
     (\<forall>e \<in> set es. validatePendingEndpoint current runtime [] e = None)
   \<and> distinct (map ep_Ref es) \<and> set scope \<inter> ep_Ref ` set es = {}"
proof (induction es arbitrary: scope)
  case (Cons e es)
  have "validatePendingEndpoint current runtime scope e = None \<longleftrightarrow>
      validatePendingEndpoint current runtime [] e = None \<and> ep_Ref e \<notin> set scope"
    unfolding validatePendingEndpoint_def by (simp add: first_err_None fail_if_None) blast
  with Cons show ?case by (auto simp: check_simps)
qed simp

text \<open>What acceptance says about one endpoint of the subgraph that already exists.\<close>

lemma validatePendingEndpoint_existing:
  assumes "validatePendingEndpoint current runtime scope endpoint = None"
    and "mget (gs_endpoints current) (ep_Ref endpoint) = Some existing"
  shows "ep_State existing = EndpointPending" "ep_SpecRef endpoint = ep_SpecRef existing"
    and "ep_RunPolicy endpoint = ep_RunPolicy existing"
    and "ep_Generation endpoint = ep_Generation existing \<Longrightarrow> ep_BindingRef endpoint = ep_BindingRef existing"
    and "ep_Generation endpoint \<noteq> ep_Generation existing \<Longrightarrow>
      ep_Generation endpoint = int64_inc (ep_Generation existing) \<and> ep_BindingRef endpoint \<noteq> ep_BindingRef existing
      \<and> hasDefinitiveDispatchRejection runtime existing"
  using assms unfolding validatePendingEndpoint_def
  by (simp_all add: first_err_None fail_if_None split: if_splits)

end
