(* ===== verification/Graph_Store.thy ===== *)
theory Graph_Store
  imports Graph_Transition Graph_Pending
begin

text \<open>
  \<open>internal/coordination/memory_store.go\<close>: the revisioned graph store, and the runtime-backed guard of
  \<open>transition.go\<close>. Every operation holds the store's mutex from its first read to its commit, so an
  operation is one atomic step from a store to a result and a store. \<open>clone\<close> copies a value; values
  are copies here by nature.
\<close>

section \<open>State\<close>

record projectState =
  pj_latest :: Revision
  pj_history :: "(Revision, graphState) gomap"
  pj_current :: graphState
  pj_runtime :: memoryRuntimeState

record MemoryStore =
  ms_projects :: "(ProjectID, projectState) gomap"

definition NewMemoryStore :: MemoryStore where
  "NewMemoryStore = \<lparr>ms_projects = []\<rparr>"

definition newProject :: projectState where
  "newProject = \<lparr>pj_latest = 1, pj_history = [(1, newGraphState)], pj_current = newGraphState,
                 pj_runtime = newMemoryRuntimeState\<rparr>"

definition ensureProject :: "MemoryStore \<Rightarrow> ProjectID \<Rightarrow> projectState" where
  "ensureProject s projectID =
     (case mget (ms_projects s) projectID of Some project \<Rightarrow> project | None \<Rightarrow> newProject)"

text \<open>The project a pointer of \<open>ensureProject\<close> refers to, written back.\<close>

definition putProject :: "MemoryStore \<Rightarrow> ProjectID \<Rightarrow> projectState \<Rightarrow> MemoryStore" where
  "putProject s projectID project = s\<lparr>ms_projects := mput projectID project (ms_projects s)\<rparr>"

section \<open>Snapshots\<close>

definition phaseOrder :: "EndpointID \<Rightarrow> int" where
  "phaseOrder i = (if i = EndpointPlan then 0 else if i = EndpointExecute then 1
                   else if i = EndpointVerify then 2 else 99)"

definition refLess :: "PhaseEndpointRef \<Rightarrow> PhaseEndpointRef \<Rightarrow> bool" where
  "refLess l r = (if ref_TaskID l = ref_TaskID r then phaseOrder (ref_EndpointID l) < phaseOrder (ref_EndpointID r)
                  else ref_TaskID l < ref_TaskID r)"

definition edgeLess :: "Edge \<Rightarrow> Edge \<Rightarrow> bool" where
  "edgeLess l r = (if edge_To l \<noteq> edge_To r then refLess (edge_To l) (edge_To r)
                   else refLess (edge_From l) (edge_From r))"

definition snapshot :: "graphState \<Rightarrow> Revision \<Rightarrow> GraphSnapshot" where
  "snapshot s revision =
     \<lparr>snap_Revision = revision,
      snap_Tasks = sort_by (\<lambda>l r. task_ID l < task_ID r) (mvalues (gs_tasks s)),
      snap_Endpoints = sort_by (\<lambda>l r. refLess (ep_Ref l) (ep_Ref r)) (mvalues (gs_endpoints s)),
      snap_Edges = sort_by edgeLess (gs_edges s),
      snap_Blockers = sort_by (\<lambda>l r. bl_ID l < bl_ID r) (mvalues (gs_blockers s)),
      snap_Results = sort_by (\<lambda>l r. res_ID l < res_ID r) (mvalues (gs_results s))\<rparr>"

definition Latest :: "MemoryStore \<Rightarrow> ProjectID \<Rightarrow> (goerr + GraphSnapshot) \<times> MemoryStore" where
  "Latest s projectID =
     (if IsZeroID projectID then (Inl (InvalidArgument ''project_id is required''), s)
      else let project = ensureProject s projectID
           in (Inr (snapshot (pj_current project) (pj_latest project)), putProject s projectID project))"

definition Snapshot :: "MemoryStore \<Rightarrow> ProjectID \<Rightarrow> Revision \<Rightarrow> (goerr + GraphSnapshot) \<times> MemoryStore" where
  "Snapshot s projectID revision =
     (if IsZeroID projectID then (Inl (InvalidArgument ''project_id is required''), s)
      else if IsLatestRead revision then (Inl (InvalidArgument ''concrete revision is required''), s)
      else let project = ensureProject s projectID
           in (case mget (pj_history project) revision of
                 None \<Rightarrow> Inl (kerr CodeNotFound (''graph revision '' @ itoa (uint revision) @ '' not found'') False)
               | Some state \<Rightarrow> Inr (snapshot state revision), putProject s projectID project))"

section \<open>Writes\<close>

definition commitGraph :: "projectState \<Rightarrow> graphState \<Rightarrow> projectState" where
  "commitGraph project state =
     project\<lparr>pj_latest := Next (pj_latest project), pj_current := state,
             pj_history := mput (Next (pj_latest project)) state (pj_history project)\<rparr>"

text \<open>The exact terminal observation of the endpoint's current command, lease and binding.\<close>

definition observationIdentity :: "PhaseEndpoint \<Rightarrow> string \<Rightarrow> phaseObservation \<Rightarrow> bool" where
  "observationIdentity endpoint kind observation \<longleftrightarrow>
     \<not> (ob_Kind observation \<noteq> kind \<or> ob_Endpoint observation \<noteq> ep_Ref endpoint
        \<or> ob_Generation observation \<noteq> ep_Generation endpoint \<or> ob_BindingRef observation \<noteq> ep_BindingRef endpoint
        \<or> ob_CommandID observation = '''' \<or> ob_LeaseRef observation = '''')"

definition observationMatches :: "commandRecord \<Rightarrow> phaseLease \<Rightarrow> phaseObservation \<Rightarrow> bool" where
  "observationMatches record lease observation \<longleftrightarrow>
     \<not> (cmd_Endpoint (cr_Command record) \<noteq> ob_Endpoint observation
        \<or> cmd_Generation (cr_Command record) \<noteq> ob_Generation observation
        \<or> cmd_BindingRef (cr_Command record) \<noteq> ob_BindingRef observation
        \<or> cmd_LeaseRef (cr_Command record) \<noteq> ob_LeaseRef observation
        \<or> lease_Endpoint lease \<noteq> ob_Endpoint observation \<or> lease_Generation lease \<noteq> ob_Generation observation
        \<or> lease_BindingRef lease \<noteq> ob_BindingRef observation)"

definition hasExactTerminalObservation :: "memoryRuntimeState \<Rightarrow> PhaseEndpoint \<Rightarrow> string \<Rightarrow> bool" where
  "hasExactTerminalObservation runtime endpoint kind =
     list_ex (\<lambda>observation.
       observationIdentity endpoint kind observation
     \<and> (case (mget (rt_commands runtime) (ob_CommandID observation), mget (rt_leases runtime) (ob_LeaseRef observation)) of
          (Some record, Some lease) \<Rightarrow>
             (cmd_Action (cr_Command record) = CommandStart \<or> cmd_Action (cr_Command record) = CommandResume)
           \<and> observationMatches record lease observation
        | _ \<Rightarrow> False)) (rt_observations runtime)"

definition hasExactFailedObservation :: "memoryRuntimeState \<Rightarrow> PhaseEndpoint \<Rightarrow> bool" where
  "hasExactFailedObservation runtime endpoint =
     list_ex (\<lambda>observation.
       observationIdentity endpoint ''PhaseInvocationFailed'' observation
     \<and> (case (mget (rt_commands runtime) (ob_CommandID observation), mget (rt_leases runtime) (ob_LeaseRef observation)) of
          (Some record, Some lease) \<Rightarrow>
             cr_Accepted record \<and> isRunCommand (cr_Command record) \<and> observationMatches record lease observation
        | _ \<Rightarrow> False)) (rt_observations runtime)"

definition validateRuntimeBackedTransition ::
  "graphState \<Rightarrow> memoryRuntimeState \<Rightarrow> GraphTransition \<Rightarrow> goerr option" where
  "validateRuntimeBackedTransition state runtime transition =
     (if tr_TargetKind transition \<noteq> TargetPhaseEndpoint then None
      else case mget (gs_endpoints state) (tr_Endpoint transition) of
        None \<Rightarrow> None
      | Some endpoint \<Rightarrow>
          if tr_Action transition = EndpointSubmitted \<and> ep_RunPolicy endpoint = RunHeld then
            (if hasExactTerminalObservation runtime endpoint ''PhaseOutputSubmitted'' then None
             else Some (TransitionRejected ''held endpoint submission requires an exact PhaseOutputSubmitted observation''))
          else if tr_Action transition \<noteq> ''reopened'' \<or> ep_State endpoint \<noteq> EndpointPending
              \<or> ep_RunPolicy endpoint = RunHeld then None
          else if tr_EvidenceRefs transition = [] then
            Some (TransitionRejected ''failed invocation reopen requires evidence_refs'')
          else if hasExactFailedObservation runtime endpoint then None
          else Some (TransitionRejected ''enabled pending reopen requires an exact PhaseInvocationFailed observation''))"

definition recordRuntimeBinding :: "projectState \<Rightarrow> GraphTransition \<Rightarrow> projectState" where
  "recordRuntimeBinding project transition =
     (let info = \<lparr>bi_CheckpointRef = tr_CheckpointRef transition, bi_NonResumable = tr_NonResumable transition\<rparr>;
          put = project\<lparr>pj_runtime := (pj_runtime project)\<lparr>rt_bindings :=
                  mput (tr_NewBindingRef transition) info (rt_bindings (pj_runtime project))\<rparr>\<rparr>
      in if tr_TargetKind transition \<noteq> TargetPhaseEndpoint then project
         else if tr_Action transition = ''stopped'' then put
         else if tr_Action transition = ''reopened'' then
           (if tr_NewBindingRef transition \<noteq> '''' then put else project)
         else project)"

text \<open>The graph a request leads to, before the commit.\<close>

definition replacePendingGraph :: "projectState \<Rightarrow> PendingSubgraph \<Rightarrow> goerr + graphState" where
  "replacePendingGraph project next =
     checked (first_err
       [CheckExpectedRevision (ps_BaseRevision next) (pj_latest project),
        validatePendingSubgraph (pj_current project) (pj_runtime project) next,
        validatePendingSubgraphRuntime (pj_runtime project) next])
     (let state = applyPendingSubgraph (pj_current project) next
      in checked (validateGraph state) (Inr state))"

definition ReplacePending ::
  "MemoryStore \<Rightarrow> ProjectID \<Rightarrow> PendingSubgraph \<Rightarrow> (goerr + GraphSnapshot) \<times> MemoryStore" where
  "ReplacePending s projectID next =
     (if IsZeroID projectID then (Inl (InvalidArgument ''project_id is required''), s)
      else if IsZeroID (ps_RequestID next) then (Inl (InvalidArgument ''request_id is required''), s)
      else let project = ensureProject s projectID
           in case replacePendingGraph project next of
                Inl e \<Rightarrow> (Inl e, putProject s projectID project)
              | Inr state \<Rightarrow>
                  let project' = commitGraph project state
                  in (Inr (snapshot (pj_current project') (pj_latest project')), putProject s projectID project'))"

definition transitionGraph :: "projectState \<Rightarrow> Revision \<Rightarrow> GraphTransition \<Rightarrow> goerr + graphState" where
  "transitionGraph project expectedRevision transition =
     checked (first_err
       [CheckExpectedRevision expectedRevision (pj_latest project),
        (if tr_TargetKind transition = TargetPhaseEndpoint \<and> tr_Action transition = ''released'' then
           check_all (\<lambda>lease. fail_if (lease_State lease = ''active'' \<and> lease_Endpoint lease = tr_Endpoint transition)
             (TransitionRejected ''released transition requires the phase lease to be terminally released''))
             (mvalues (rt_leases (pj_runtime project)))
         else None),
        (if tr_TargetKind transition = TargetTask \<and> tr_Action transition = ''reopen_round'' then
           validateReopenRoundRuntime (pj_runtime project) (tr_TaskID transition)
         else None),
        validateRuntimeBackedTransition (pj_current project) (pj_runtime project) transition])
     (and_then (applyTransition (pj_current project) transition)
        (\<lambda>state. checked (validateGraph state) (Inr state)))"

definition Transition ::
  "MemoryStore \<Rightarrow> ProjectID \<Rightarrow> Revision \<Rightarrow> GraphTransition \<Rightarrow> (goerr + GraphSnapshot) \<times> MemoryStore" where
  "Transition s projectID expectedRevision transition =
     (if IsZeroID projectID then (Inl (InvalidArgument ''project_id is required''), s)
      else case validateTransitionShape transition of
        Some e \<Rightarrow> (Inl e, s)
      | None \<Rightarrow>
          let project = ensureProject s projectID
          in case transitionGraph project expectedRevision transition of
               Inl e \<Rightarrow> (Inl e, putProject s projectID project)
             | Inr state \<Rightarrow>
                 let project' = commitGraph project state
                 in (Inr (snapshot (pj_current project') (pj_latest project')),
                     putProject s projectID (recordRuntimeBinding project' transition)))"

definition TransitionWithDecisionRef ::
  "MemoryStore \<Rightarrow> ProjectID \<Rightarrow> Revision \<Rightarrow> string \<Rightarrow> GraphTransition \<Rightarrow> (goerr + GraphSnapshot) \<times> MemoryStore" where
  "TransitionWithDecisionRef s projectID expectedRevision decisionRef transition =
     (if decisionRef = '''' then (Inl (InvalidArgument ''decision_ref is required''), s)
      else Transition s projectID expectedRevision transition)"

end
