(* ===== verification/Graph_Evolution.thy ===== *)
theory Graph_Evolution
  imports Graph_Store
begin

text \<open>
  What every write of the graph keeps and how a graph may change over time. \<open>graph_inv\<close> is the
  invariant of stored graphs, \<open>evolves\<close> the contract between an older and a newer graph. The locale
  \<open>graph_writer\<close> is the contract of an operation that computes a new graph from a project; it is
  interpreted for \<open>ReplacePending\<close> and for \<open>Transition\<close>, and its lemmas carry the invariant and the
  contract through commits.
\<close>

section \<open>The contract between versions\<close>

definition task_evolves :: "Task \<Rightarrow> Task \<Rightarrow> bool" where
  "task_evolves t t' \<longleftrightarrow> task_ID t' = task_ID t \<and> task_ContractRef t' = task_ContractRef t
     \<and> (task_Outcome t' = task_Outcome t \<or> task_Outcome t = TaskActive)"

definition endpoint_evolves :: "PhaseEndpoint \<Rightarrow> PhaseEndpoint \<Rightarrow> bool" where
  "endpoint_evolves e e' \<longleftrightarrow> ep_Ref e' = ep_Ref e \<and> ep_Generation e \<le> ep_Generation e'
     \<and> (ep_Generation e' = ep_Generation e \<longrightarrow> ep_BindingRef e' = ep_BindingRef e \<and> ep_SpecRef e' = ep_SpecRef e)"

definition evolves :: "graphState \<Rightarrow> graphState \<Rightarrow> bool" where
  "evolves s s' \<longleftrightarrow>
     (\<forall>k t. mget (gs_tasks s) k = Some t \<longrightarrow> (\<exists>t'. mget (gs_tasks s') k = Some t' \<and> task_evolves t t'))
   \<and> (\<forall>k e. mget (gs_endpoints s) k = Some e \<longrightarrow> (\<exists>e'. mget (gs_endpoints s') k = Some e' \<and> endpoint_evolves e e'))
   \<and> (\<forall>k r. mget (gs_results s) k = Some r \<longrightarrow> mget (gs_results s') k = Some r)"

lemma task_evolves_refl [simp]: "task_evolves t t"
  by (simp add: task_evolves_def)

lemma endpoint_evolves_refl [simp]: "endpoint_evolves e e"
  by (simp add: endpoint_evolves_def)

lemma evolves_refl [simp]: "evolves s s"
  by (simp add: evolves_def)

lemma task_evolves_trans: "task_evolves a b \<Longrightarrow> task_evolves b c \<Longrightarrow> task_evolves a c"
  unfolding task_evolves_def by metis

lemma endpoint_evolves_trans: "endpoint_evolves a b \<Longrightarrow> endpoint_evolves b c \<Longrightarrow> endpoint_evolves a c"
  unfolding endpoint_evolves_def by (metis order_antisym order_trans)

lemma evolves_trans: "evolves a b \<Longrightarrow> evolves b c \<Longrightarrow> evolves a c"
  unfolding evolves_def by (meson task_evolves_trans endpoint_evolves_trans)

lemma evolves_put_endpoint:
  "mget (gs_endpoints s) k = Some e \<Longrightarrow> endpoint_evolves e e' \<Longrightarrow> evolves s (putEndpoint s k e')"
  by (auto simp: evolves_def putEndpoint_def gomap_simps)

lemma evolves_add_result:
  "mget (gs_results s) k = None \<Longrightarrow> evolves s (s\<lparr>gs_results := mput k r (gs_results s)\<rparr>)"
  by (auto simp: evolves_def gomap_simps)

lemma evolves_put_task:
  "mget (gs_tasks s) k = Some t \<Longrightarrow> task_evolves t t' \<Longrightarrow> evolves s (s\<lparr>gs_tasks := mput k t' (gs_tasks s)\<rparr>)"
  by (auto simp: evolves_def gomap_simps)

lemma evolves_blockers: "evolves s (s\<lparr>gs_blockers := bs\<rparr>)"
  by (simp add: evolves_def)

section \<open>The invariant of stored graphs\<close>

definition graph_typed :: "graphState \<Rightarrow> bool" where
  "graph_typed s \<longleftrightarrow> (\<forall>e \<in> set (mvalues (gs_endpoints s)). is_int64 (ep_Generation e))"

definition graph_inv :: "graphState \<Rightarrow> bool" where
  "graph_inv s \<longleftrightarrow> graph_keyed s \<and> graph_typed s \<and> graph_ok s"

lemma graph_inv_new: "graph_inv newGraphState"
proof -
  have "graph_typed newGraphState" "graph_ok newGraphState"
    by (simp_all add: graph_typed_def graph_ok_def newGraphState_def mvalues_def adjacency_def acyclic_def)
  then show ?thesis by (simp add: graph_inv_def graph_keyed_new)
qed

lemma graph_typed_mget: "graph_typed s \<Longrightarrow> mget (gs_endpoints s) k = Some e \<Longrightarrow> is_int64 (ep_Generation e)"
  by (auto simp: graph_typed_def dest: mget_mvalues)

lemma graph_ok_generation:
  "graph_ok s \<Longrightarrow> mget (gs_endpoints s) k = Some e \<Longrightarrow> 0 < ep_Generation e"
  by (auto simp: graph_ok_def validateEndpoint_def check_simps dest!: mget_mvalues)

text \<open>A graph that passes validation has positive generations only; no increment has wrapped in it.\<close>

definition generations_positive :: "graphState \<Rightarrow> bool" where
  "generations_positive s \<longleftrightarrow> (\<forall>k e. mget (gs_endpoints s) k = Some e \<longrightarrow> 0 < ep_Generation e)"

lemma validateGraph_generations: "validateGraph s = None \<Longrightarrow> generations_positive s"
  by (auto simp: generations_positive_def validateGraph_def first_err_None check_all_None validateEndpoint_def
      fail_if_None dest!: mget_mvalues)

lemma graph_typed_put: "graph_typed s \<Longrightarrow> is_int64 (ep_Generation e) \<Longrightarrow> graph_typed (putEndpoint s k e)"
  using mput_entries[of k e "gs_endpoints s"] by (fastforce simp: graph_typed_def mvalues_def putEndpoint_def)

lemma graph_keyed_put: "graph_keyed s \<Longrightarrow> ep_Ref e = k \<Longrightarrow> graph_keyed (putEndpoint s k e)"
  by (auto simp: graph_keyed_def putEndpoint_def)

lemma graph_keyed_result: "graph_keyed s \<Longrightarrow> graph_keyed (s\<lparr>gs_results := mput (res_ID r) r (gs_results s)\<rparr>)"
  by (auto simp: graph_keyed_def)

lemma graph_typed_other [simp]:
  "graph_typed (s\<lparr>gs_results := rs\<rparr>) = graph_typed s" "graph_typed (s\<lparr>gs_tasks := ts\<rparr>) = graph_typed s"
  "graph_typed (s\<lparr>gs_blockers := bs\<rparr>) = graph_typed s"
  by (simp_all add: graph_typed_def)

lemma graph_inv_endpoint:
  "graph_inv s \<Longrightarrow> mget (gs_endpoints s) k = Some e \<Longrightarrow> ep_Ref e = k \<and> is_int64 (ep_Generation e) \<and> 0 < ep_Generation e"
  by (auto simp: graph_inv_def graph_keyed_def graph_typed_mget graph_ok_generation dest: mkeyedD)

section \<open>Transitions\<close>

lemma requireResult_cases:
  assumes "requireResultForTransition s e t v = Inr s'"
  obtains r where "s' = s\<lparr>gs_results := mput (res_ID r) r (gs_results s)\<rparr>"
    and "mget (gs_results s) (res_ID r) = None" "r = transitionResult e t v"
    and "res_Endpoint r = ep_Ref e" "res_BindingRef r = ep_BindingRef e" "res_Verdict r = v"
  using assms by (auto simp: requireResultForTransition_def Let_def check_simps transitionResult_def)

lemma endpoint_evolves_next:
  "is_int64 (ep_Generation e) \<Longrightarrow> 0 < ep_Generation (nextGeneration e t) \<Longrightarrow> endpoint_evolves e (nextGeneration e t)"
  using int64_inc_pos[of "ep_Generation e"] by (simp add: nextGeneration_def endpoint_evolves_def)

text \<open>
  What an endpoint action does to the endpoint it is about, and to the graph around it: at most one
  result is added.
\<close>

lemma endpointAction_effect:
  assumes "endpointAction s e t = Inr (s', e')" "is_int64 (ep_Generation e)" "graph_keyed s"
  shows "evolves s s'" "graph_keyed s'" "gs_endpoints s' = gs_endpoints s" "gs_tasks s' = gs_tasks s"
    and "is_int64 (ep_Generation e')" "ep_Ref e' = ep_Ref e" "0 < ep_Generation e' \<Longrightarrow> endpoint_evolves e e'"
proof -
  have "(s' = s \<or> (\<exists>v. requireResultForTransition s e t v = Inr s')) \<and>
    (e' = nextGeneration e t \<or> ep_Generation e' = ep_Generation e \<and> ep_Ref e' = ep_Ref e
       \<and> ep_BindingRef e' = ep_BindingRef e \<and> ep_SpecRef e' = ep_SpecRef e)"
    using assms(1) unfolding endpointAction_def by (auto simp: check_simps split: if_splits)
  then show "evolves s s'" "graph_keyed s'" "gs_endpoints s' = gs_endpoints s" "gs_tasks s' = gs_tasks s"
    "is_int64 (ep_Generation e')" "ep_Ref e' = ep_Ref e" "0 < ep_Generation e' \<Longrightarrow> endpoint_evolves e e'"
    using assms(2,3)
    by (auto elim!: requireResult_cases simp: evolves_add_result graph_keyed_result endpoint_evolves_next)
      (auto simp: nextGeneration_def int64_inc_def endpoint_evolves_def)
qed

lemma applyEndpointTransition_effect:
  assumes inv: "graph_inv s" and app: "applyEndpointTransition s t = Inr s'" and ok: "generations_positive s'"
  shows "graph_keyed s'" "graph_typed s'" "evolves s s'"
proof -
  from app obtain e s1 e1 where e: "mget (gs_endpoints s) (tr_Endpoint t) = Some e"
    and act: "endpointAction s e t = Inr (s1, e1)" and s': "s' = putEndpoint s1 (tr_Endpoint t) e1"
    by (auto simp: applyEndpointTransition_def check_simps split: option.splits if_splits)
  note e' = graph_inv_endpoint[OF inv e]
  have k: "graph_keyed s" "graph_typed s" using inv by (simp_all add: graph_inv_def)
  note eff = endpointAction_effect[OF act _ k(1)]
  show "graph_keyed s'" using eff e' by (simp add: s' graph_keyed_put)
  have "graph_typed s1" using k(2) eff(3) e' by (simp add: graph_typed_def)
  then show "graph_typed s'" using eff e' by (simp add: s' graph_typed_put)
  have "mget (gs_endpoints s') (tr_Endpoint t) = Some e1" by (simp add: s' putEndpoint_def gomap_simps)
  then have "endpoint_evolves e e1" using eff(7) e' ok by (simp add: generations_positive_def)
  then have "evolves s1 s'" unfolding s' using eff(3) e e' by (intro evolves_put_endpoint) simp_all
  then show "evolves s s'" using eff(1) e' evolves_trans by blast
qed

lemma applyBlockerTransition_effect:
  assumes "graph_inv s" and "applyBlockerTransition s t = Inr s'"
  shows "graph_keyed s'" "graph_typed s'" "evolves s s'"
proof -
  obtain b st where b: "mget (gs_blockers s) (tr_BlockerID t) = Some b"
    and s': "s' = s\<lparr>gs_blockers := mput (tr_BlockerID t) (b\<lparr>bl_State := st\<rparr>) (gs_blockers s)\<rparr>"
    using assms(2) by (auto simp: applyBlockerTransition_def Let_def check_simps split: option.splits if_splits)
  have "bl_ID b = tr_BlockerID t" using b assms(1) by (auto simp: graph_inv_def graph_keyed_def dest: mkeyedD)
  then show "graph_keyed s'" using assms(1) by (auto simp: s' graph_inv_def graph_keyed_def)
  show "graph_typed s'" "evolves s s'" using assms(1) by (simp_all add: s' graph_inv_def evolves_blockers)
qed

lemma reopenExecutionRound_effect:
  assumes inv: "graph_inv s" and app: "reopenExecutionRound s t = Inr s'"
    and ok: "generations_positive s'"
  shows "graph_keyed s'" "graph_typed s'" "evolves s s'" "gs_tasks s' = gs_tasks s"
proof -
  let ?x = "mkRef (tr_TaskID t) EndpointExecute" and ?v = "mkRef (tr_TaskID t) EndpointVerify"
  obtain ex ve where ex: "mget (gs_endpoints s) ?x = Some ex" and ve: "mget (gs_endpoints s) ?v = Some ve"
    and s': "s' = putEndpoint (putEndpoint s ?x (reopenRoundEndpoint ex (tr_ExecuteBindingRef t)))
                    ?v (reopenRoundEndpoint ve (tr_VerifyBindingRef t))"
    using app unfolding reopenExecutionRound_def Let_def by (auto simp: check_simps split: option.splits)
  have sel: "ep_Ref (reopenRoundEndpoint e b) = ep_Ref e" "is_int64 (ep_Generation (reopenRoundEndpoint e b))" for e b
    by (simp_all add: reopenRoundEndpoint_def int64_inc_def)
  have ev: "endpoint_evolves e (reopenRoundEndpoint e b)"
    if "is_int64 (ep_Generation e)" "0 < ep_Generation (reopenRoundEndpoint e b)" for e b
    using that int64_inc_pos[of "ep_Generation e"] by (simp add: endpoint_evolves_def reopenRoundEndpoint_def)
  note k = graph_inv_endpoint[OF inv ex] graph_inv_endpoint[OF inv ve]
  show "graph_keyed s'" using inv k by (simp add: s' graph_inv_def graph_keyed_put sel)
  show "graph_typed s'" using inv by (simp add: s' graph_inv_def graph_typed_put sel)
  have g: "mget (gs_endpoints s') ?x = Some (reopenRoundEndpoint ex (tr_ExecuteBindingRef t))"
    "mget (gs_endpoints s') ?v = Some (reopenRoundEndpoint ve (tr_VerifyBindingRef t))"
    by (simp_all add: s' putEndpoint_def gomap_simps)
  then have pos: "0 < ep_Generation (reopenRoundEndpoint ex (tr_ExecuteBindingRef t))"
    "0 < ep_Generation (reopenRoundEndpoint ve (tr_VerifyBindingRef t))"
    using ok by (auto simp: generations_positive_def)
  have "evolves s (putEndpoint s ?x (reopenRoundEndpoint ex (tr_ExecuteBindingRef t)))"
    using ev pos k by (intro evolves_put_endpoint[OF ex]) simp
  also have "evolves \<dots> s'"
    unfolding s' using ev pos k ve
    by (intro evolves_put_endpoint[of _ _ ve]) (simp_all add: putEndpoint_def gomap_simps)
  finally (evolves_trans) show "evolves s s'" .
  show "gs_tasks s' = gs_tasks s" by (simp add: s' putEndpoint_def)
qed

lemma applyTaskTransition_effect:
  assumes inv: "graph_inv s" and app: "applyTaskTransition s t = Inr s'" and ok: "generations_positive s'"
  shows "graph_keyed s'" "graph_typed s'" "evolves s s'"
proof -
  obtain s1 task' task where s': "s' = s1\<lparr>gs_tasks := mput (tr_TaskID t) task' (gs_tasks s1)\<rparr>"
    and s1: "s1 = s \<or> reopenExecutionRound s t = Inr s1"
    and task: "mget (gs_tasks s) (tr_TaskID t) = Some task" "task_evolves task task'"
    using app unfolding applyTaskTransition_def Let_def
    by (auto simp: check_simps task_evolves_def split: option.splits if_splits)
  have pos: "generations_positive s1" using ok by (simp add: generations_positive_def s')
  have 1: "graph_keyed s1" "graph_typed s1" "evolves s s1" "gs_tasks s1 = gs_tasks s"
    using s1 inv reopenExecutionRound_effect[OF inv _ pos] by (auto simp: graph_inv_def)
  have "task_ID task' = tr_TaskID t"
    using task inv by (auto simp: graph_inv_def graph_keyed_def task_evolves_def dest: mkeyedD)
  then show "graph_keyed s'" using 1 by (auto simp: s' graph_keyed_def)
  show "graph_typed s'" using 1 by (simp add: s')
  show "evolves s s'"
    unfolding s' using task 1(4) by (intro evolves_trans[OF 1(3)] evolves_put_task) simp_all
qed

lemma applyTransition_effect:
  assumes inv: "graph_inv s" and app: "applyTransition s t = Inr s'" and ok: "validateGraph s' = None"
  shows "graph_inv s' \<and> evolves s s'"
proof -
  note pos = validateGraph_generations[OF ok]
  have "graph_keyed s' \<and> graph_typed s' \<and> evolves s s'"
    using app applyEndpointTransition_effect[OF inv _ pos] applyBlockerTransition_effect[OF inv]
      applyTaskTransition_effect[OF inv _ pos]
    unfolding applyTransition_def by (auto split: if_splits)
  then show ?thesis using ok by (simp add: graph_inv_def validateGraph_iff)
qed

section \<open>Pending subgraphs\<close>

text \<open>The generations of a decoded request are Go integers.\<close>

definition pending_typed :: "PendingSubgraph \<Rightarrow> bool" where
  "pending_typed next \<longleftrightarrow> (\<forall>e \<in> set (ps_Endpoints next). is_int64 (ep_Generation e))"

lemma applyPending_keyed: "graph_keyed s \<Longrightarrow> graph_keyed (applyPendingSubgraph s next)"
  unfolding graph_keyed_def applyPendingSubgraph_def Let_def by (auto intro!: mkeyed_fold_mput)

lemma fold_mput_entries: "set (fold (\<lambda>v. mput (key v) v) vs m) \<subseteq> (\<lambda>v. (key v, v)) ` set vs \<union> set m"
proof (induction vs arbitrary: m)
  case (Cons v vs)
  then show ?case using Cons.IH[of "mput (key v) v m"] mput_entries[of "key v" v m] by auto
qed simp

lemma applyPending_typed:
  assumes "graph_typed s" "pending_typed next"
  shows "graph_typed (applyPendingSubgraph s next)"
  unfolding graph_typed_def
proof
  fix e assume "e \<in> set (mvalues (gs_endpoints (applyPendingSubgraph s next)))"
  then obtain k where "(k, e) \<in> set (fold (\<lambda>v. mput (ep_Ref v) v) (ps_Endpoints next) (gs_endpoints s))"
    by (auto simp: mvalues_def applyPendingSubgraph_def Let_def)
  then have "e \<in> set (ps_Endpoints next) \<or> e \<in> set (mvalues (gs_endpoints s))"
    using fold_mput_entries[of ep_Ref "ps_Endpoints next" "gs_endpoints s"] by (force simp: mvalues_def)
  then show "is_int64 (ep_Generation e)" using assms by (auto simp: pending_typed_def graph_typed_def)
qed

lemma pending_endpoint_evolves:
  assumes "validatePendingEndpoint s rt scope e' = None" "mget (gs_endpoints s) (ep_Ref e') = Some e"
    and "graph_inv s" "0 < ep_Generation e'"
  shows "endpoint_evolves e e'"
proof (cases "ep_Generation e' = ep_Generation e")
  case True
  with assms show ?thesis
    using validatePendingEndpoint_existing[OF assms(1,2)] graph_inv_endpoint[OF assms(3,2)]
    by (simp add: endpoint_evolves_def)
next
  case False
  have "ep_Generation e' = ep_Generation e + 1"
    using validatePendingEndpoint_existing(5)[OF assms(1,2) False] graph_inv_endpoint[OF assms(3,2)]
      int64_inc_pos assms(4) by simp
  then show ?thesis using graph_inv_endpoint[OF assms(3,2)] by (simp add: endpoint_evolves_def)
qed

lemma applyPending_evolves:
  assumes inv: "graph_inv s" and val: "validatePendingSubgraph s rt next = None"
  shows "evolves s (applyPendingSubgraph s next)" (is "evolves s ?s")
proof -
  have es: "\<forall>e \<in> set (ps_Endpoints next). validatePendingEndpoint s rt [] e = None" "distinct (map ep_Ref (ps_Endpoints next))"
    and ts: "\<forall>t \<in> set (ps_Tasks next). validatePendingTask s (ps_Endpoints next) t = None"
    using val by (simp_all add: validatePendingSubgraph_def first_err_None check_all_None validatePendingEndpoints_None)
  have task: "mget (gs_tasks ?s) k = Some t" if "mget (gs_tasks s) k = Some t" for k t
  proof -
    have "mget (gs_tasks s) k = Some v" if "v \<in> set (ps_Tasks next)" "task_ID v = k" for v
      using ts that \<open>mget (gs_tasks s) k = Some t\<close> by (auto simp: validatePendingTask_def check_simps)
    from mget_fold_mput_same[of "ps_Tasks next" task_ID, OF this that] show ?thesis
      by (simp add: applyPendingSubgraph_def Let_def)
  qed
  have endpoint: "\<exists>e'. mget (gs_endpoints ?s) k = Some e' \<and> endpoint_evolves e e'" if e: "mget (gs_endpoints s) k = Some e" for k e
  proof (cases "List.find (\<lambda>v. ep_Ref v = k) (ps_Endpoints next)")
    case None
    then show ?thesis using e es(2) by (auto simp: applyPendingSubgraph_def Let_def mget_fold_mput)
  next
    case (Some e')
    then have mem: "e' \<in> set (ps_Endpoints next)" "ep_Ref e' = k" by (auto simp: find_Some_iff)
    then have v: "validatePendingEndpoint s rt [] e' = None" using es(1) by blast
    then have "0 < ep_Generation e'" by (simp add: validatePendingEndpoint_def validateEndpoint_def first_err_None fail_if_None)
    then have "endpoint_evolves e e'" using pending_endpoint_evolves[OF v _ inv] e mem by simp
    then show ?thesis using Some es(2) by (auto simp: applyPendingSubgraph_def Let_def mget_fold_mput)
  qed
  show ?thesis
    unfolding evolves_def using task endpoint by (auto simp: applyPendingSubgraph_def Let_def)
qed

end
