(* ===== verification/Graph_History.thy ===== *)
theory Graph_History
  imports Graph_Evolution
begin

text \<open>
  A project over time: the invariant of the revision history, the contract \<open>graph_writer\<close> of the two
  operations that commit graphs, and the step relation of a project. A step is a committed
  \<open>ReplacePending\<close>, a committed \<open>Transition\<close>, or any change of the runtime records (commands, leases,
  observations, bindings), which the command store makes without touching the graph.
\<close>

section \<open>The history\<close>

definition project_inv :: "projectState \<Rightarrow> bool" where
  "project_inv p \<longleftrightarrow>
     graph_inv (pj_current p)
   \<and> mget (pj_history p) (pj_latest p) = Some (pj_current p)
   \<and> (\<forall>r g. mget (pj_history p) r = Some g \<longrightarrow> graph_inv g \<and> evolves g (pj_current p))
   \<and> (pj_latest p \<noteq> LatestRevision \<longrightarrow>
        (\<forall>r. mget (pj_history p) r \<noteq> None \<longrightarrow> r \<noteq> LatestRevision \<and> r \<le> pj_latest p))"

lemma project_inv_new: "project_inv newProject"
  by (simp add: project_inv_def newProject_def graph_inv_new LatestRevision_def)

lemma project_inv_runtime [simp]: "project_inv (p\<lparr>pj_runtime := rt\<rparr>) = project_inv p"
  by (simp add: project_inv_def)

text \<open>The revision a commit uses is new, also where the counter wraps to 0.\<close>

lemma next_revision_fresh:
  assumes "project_inv p" "pj_latest p \<noteq> LatestRevision"
  shows "mget (pj_history p) (Next (pj_latest p)) = None"
proof (rule ccontr)
  assume "mget (pj_history p) (Next (pj_latest p)) \<noteq> None"
  then have r: "Next (pj_latest p) \<noteq> LatestRevision" "Next (pj_latest p) \<le> pj_latest p"
    using assms by (auto simp: project_inv_def)
  from r(1) have "unat (Next (pj_latest p)) = Suc (unat (pj_latest p))" by (simp add: Next_unat LatestRevision_def)
  with r(2) show False by (simp add: word_le_nat_alt)
qed

lemma commit_history_kept:
  assumes "project_inv p" "pj_latest p \<noteq> LatestRevision" "mget (pj_history p) r = Some g"
  shows "mget (pj_history (commitGraph p s)) r = Some g"
  using assms next_revision_fresh[OF assms(1,2)] by (auto simp: commitGraph_def gomap_simps)

lemma commit_project_inv:
  assumes inv: "project_inv p" "pj_latest p \<noteq> LatestRevision" and s: "graph_inv s" "evolves (pj_current p) s"
  shows "project_inv (commitGraph p s)"
proof -
  have "r \<le> Next (pj_latest p)" if "r \<le> pj_latest p" "Next (pj_latest p) \<noteq> LatestRevision" for r
    using that Next_unat[of "pj_latest p"] by (simp add: word_le_nat_alt LatestRevision_def)
  then show ?thesis
    using inv s unfolding project_inv_def commitGraph_def
    by (auto simp: gomap_simps intro: evolves_trans split: if_splits)
qed

section \<open>The contract of a graph write\<close>

locale graph_writer =
  fixes compute :: "projectState \<Rightarrow> 'r \<Rightarrow> goerr + graphState"
    and typed :: "'r \<Rightarrow> bool"
  assumes concrete: "compute p r = Inr s \<Longrightarrow> pj_latest p \<noteq> LatestRevision"
    and keeps: "graph_inv (pj_current p) \<Longrightarrow> typed r \<Longrightarrow> compute p r = Inr s \<Longrightarrow> graph_inv s"
    and refines: "graph_inv (pj_current p) \<Longrightarrow> typed r \<Longrightarrow> compute p r = Inr s \<Longrightarrow> evolves (pj_current p) s"
begin

lemma write_inv: "project_inv p \<Longrightarrow> typed r \<Longrightarrow> compute p r = Inr s \<Longrightarrow> project_inv (commitGraph p s)"
  by (intro commit_project_inv) (auto simp: project_inv_def dest: concrete intro: keeps refines)

lemma write_history:
  "project_inv p \<Longrightarrow> compute p r = Inr s \<Longrightarrow> mget (pj_history p) n = Some g \<Longrightarrow>
   mget (pj_history (commitGraph p s)) n = Some g"
  by (auto intro: commit_history_kept dest: concrete)

lemma write_evolves:
  "project_inv p \<Longrightarrow> typed r \<Longrightarrow> compute p r = Inr s \<Longrightarrow> evolves (pj_current p) (pj_current (commitGraph p s))"
  by (simp add: commitGraph_def project_inv_def refines)

end

interpretation pending_write: graph_writer replacePendingGraph pending_typed
proof
  fix p r s
  assume w: "replacePendingGraph p r = Inr s"
  then show "pj_latest p \<noteq> LatestRevision" by (auto simp: replacePendingGraph_def Let_def check_simps)
  have s: "s = applyPendingSubgraph (pj_current p) r" "validateGraph s = None"
    and val: "validatePendingSubgraph (pj_current p) (pj_runtime p) r = None"
    using w by (auto simp: replacePendingGraph_def Let_def check_simps)
  assume inv: "graph_inv (pj_current p)" and typed: "pending_typed r"
  then have "graph_keyed s" "graph_typed s"
    by (simp_all add: s(1) graph_inv_def applyPending_keyed applyPending_typed)
  then show "graph_inv s" using s(2) by (simp add: graph_inv_def validateGraph_iff)
  show "evolves (pj_current p) s" unfolding s(1) by (rule applyPending_evolves[OF inv val])
qed

lemma transitionGraph_InrD:
  assumes "transitionGraph p n t = Inr s"
  shows "CheckExpectedRevision n (pj_latest p) = None" "applyTransition (pj_current p) t = Inr s" "validateGraph s = None"
  using assms by (auto simp: transitionGraph_def checked_Inr and_then_Inr first_err_None)

interpretation transition_write: graph_writer "\<lambda>p (n, t). transitionGraph p n t" "\<lambda>_. True"
proof (unfold_locales, goal_cases)
  case (1 p r s)
  then show ?case
    by (auto simp: CheckExpectedRevision_def IsLatestRead_def first_err_None fail_if_None
        split: prod.splits if_splits dest!: transitionGraph_InrD(1))
next
  case (2 p r s)
  then show ?case
    by (cases r) (auto dest: applyTransition_effect[OF _ transitionGraph_InrD(2,3)])
next
  case (3 p r s)
  then show ?case
    by (cases r) (auto dest: applyTransition_effect[OF _ transitionGraph_InrD(2,3)])
qed

section \<open>Steps of a project\<close>

inductive project_step :: "projectState \<Rightarrow> projectState \<Rightarrow> bool" where
  replace: "pending_typed next \<Longrightarrow> replacePendingGraph p next = Inr s \<Longrightarrow> project_step p (commitGraph p s)"
| transition: "validateTransitionShape t = None \<Longrightarrow> transitionGraph p n t = Inr s \<Longrightarrow>
     project_step p (recordRuntimeBinding (commitGraph p s) t)"
| runtime: "project_step p (p\<lparr>pj_runtime := rt\<rparr>)"

inductive project_reachable :: "projectState \<Rightarrow> bool" where
  initial: "project_reachable newProject"
| step: "project_reachable p \<Longrightarrow> project_step p q \<Longrightarrow> project_reachable q"

lemma recordRuntimeBinding_runtime: "\<exists>rt. recordRuntimeBinding p t = p\<lparr>pj_runtime := rt\<rparr>"
proof -
  have "p = p\<lparr>pj_runtime := pj_runtime p\<rparr>" by simp
  then show ?thesis unfolding recordRuntimeBinding_def Let_def by metis
qed

lemma recordRuntimeBinding_graph [simp]:
  "pj_current (recordRuntimeBinding p t) = pj_current p" "pj_history (recordRuntimeBinding p t) = pj_history p"
  "pj_latest (recordRuntimeBinding p t) = pj_latest p" "project_inv (recordRuntimeBinding p t) = project_inv p"
  using recordRuntimeBinding_runtime[of p t] by auto

lemma project_step_inv: "project_step p q \<Longrightarrow> project_inv p \<Longrightarrow> project_inv q"
  by (induction rule: project_step.induct) (auto intro: pending_write.write_inv transition_write.write_inv[of _ "(_, _)"])

lemma project_step_evolves: "project_step p q \<Longrightarrow> project_inv p \<Longrightarrow> evolves (pj_current p) (pj_current q)"
  by (induction rule: project_step.induct)
    (auto intro: pending_write.write_evolves transition_write.write_evolves[of _ "(_, _)"])

lemma project_step_history:
  "project_step p q \<Longrightarrow> project_inv p \<Longrightarrow> mget (pj_history p) r = Some g \<Longrightarrow> mget (pj_history q) r = Some g"
  by (induction rule: project_step.induct)
    (auto intro: pending_write.write_history transition_write.write_history[of _ "(_, _)"])

lemma project_reachable_inv: "project_reachable p \<Longrightarrow> project_inv p"
  by (induction rule: project_reachable.induct) (auto intro: project_inv_new project_step_inv)

lemma project_steps:
  assumes "project_step\<^sup>*\<^sup>* p q" "project_inv p"
  shows "project_inv q \<and> evolves (pj_current p) (pj_current q)
    \<and> (\<forall>r g. mget (pj_history p) r = Some g \<longrightarrow> mget (pj_history q) r = Some g)"
  using assms
  by (induction rule: rtranclp_induct)
    (auto intro: project_step_inv evolves_trans project_step_evolves project_step_history)

end
