(* ===== verification/Graph_Recovery.thy ===== *)
theory Graph_Recovery
  imports Graph_Store
begin

text \<open>
  \<open>internal/coordination/recovery.go\<close>: the view of a project that reconciliation works on, and the
  question whether an endpoint may run. Go iterates over a map in an arbitrary order; the maps here are
  association lists and a loop follows the list, so a statement about all maps is one about all orders.
\<close>

section \<open>The view\<close>

record runtimeView =
  v_revision :: Revision
  v_tasks :: "(TaskID, Task) gomap"
  v_endpoints :: "PhaseEndpoint list"
  v_endpointByRef :: "(PhaseEndpointRef, PhaseEndpoint) gomap"
  v_edges :: "Edge list"
  v_blockers :: "Blocker list"
  v_results :: "PhaseResult list"
  v_commands :: "(string, commandRecord) gomap"
  v_leases :: "(LeaseID, phaseLease) gomap"
  v_observations :: "phaseObservation list"
  v_bindings :: "(BindingRef, bindingRuntimeInfo) gomap"
  v_suppressed :: "string list" \<comment> \<open>the keys of the set\<close>

definition newRuntimeViewFrom :: "GraphSnapshot \<Rightarrow> memoryRuntimeState \<Rightarrow> runtimeView" where
  "newRuntimeViewFrom snap state =
     \<lparr>v_revision = snap_Revision snap,
      v_tasks = fold (\<lambda>task m. mput (task_ID task) task m) (snap_Tasks snap) [],
      v_endpoints = snap_Endpoints snap,
      v_endpointByRef = fold (\<lambda>endpoint m. mput (ep_Ref endpoint) endpoint m) (snap_Endpoints snap) [],
      v_edges = snap_Edges snap, v_blockers = snap_Blockers snap, v_results = snap_Results snap,
      v_commands = rt_commands state, v_leases = rt_leases state, v_observations = rt_observations state,
      v_bindings = rt_bindings state, v_suppressed = []\<rparr>"

definition newRuntimeView :: "projectState \<Rightarrow> runtimeView" where
  "newRuntimeView project =
     newRuntimeViewFrom (snapshot (pj_current project) (pj_latest project)) (pj_runtime project)"

definition revisionRef :: "runtimeView \<Rightarrow> string" where
  "revisionRef v = ''revision://'' @ itoa (uint (v_revision v))"

definition v_task :: "runtimeView \<Rightarrow> TaskID \<Rightarrow> Task option" where
  "v_task v i = mget (v_tasks v) i"

definition v_endpoint :: "runtimeView \<Rightarrow> PhaseEndpointRef \<Rightarrow> PhaseEndpoint option" where
  "v_endpoint v ref = mget (v_endpointByRef v) ref"

text \<open>A missing key reads as the zero value.\<close>

definition v_binding :: "runtimeView \<Rightarrow> BindingRef \<Rightarrow> bindingRuntimeInfo" where
  "v_binding v ref = (case mget (v_bindings v) ref of
     Some info \<Rightarrow> info | None \<Rightarrow> \<lparr>bi_CheckpointRef = '''', bi_NonResumable = False\<rparr>)"

definition checkpointCompatible :: "runtimeView \<Rightarrow> BindingRef \<Rightarrow> bindingRuntimeInfo \<Rightarrow> bool" where
  "checkpointCompatible v ref info \<longleftrightarrow> ref \<noteq> '''' \<and> bi_CheckpointRef info \<noteq> '''' \<and> \<not> bi_NonResumable info"

definition activeLeases :: "runtimeView \<Rightarrow> phaseLease list" where
  "activeLeases v = filter (\<lambda>lease. lease_State lease = ''active'') (mvalues (v_leases v))"

definition leaseExpired :: "runtimeView \<Rightarrow> phaseLease \<Rightarrow> bool" where
  "leaseExpired v lease = lease_Expired lease"

definition pendingCommands :: "runtimeView \<Rightarrow> PhaseCommand list" where
  "pendingCommands v =
     map cr_Command (filter (\<lambda>record.
       \<not> (cr_CompletedEventRef record \<noteq> '''' \<or> cr_Quarantined record \<or> cr_NotExecutable record)
       \<and> \<not> (isRunCommand (cr_Command record) \<and> cr_ObservedEventRef record \<noteq> '''')) (mvalues (v_commands v)))"

definition unfoldedObservations :: "runtimeView \<Rightarrow> phaseObservation list" where
  "unfoldedObservations v = filter (\<lambda>observation. \<not> ob_Folded observation) (v_observations v)"

definition suppressionKey :: "PhaseEndpointRef \<Rightarrow> int \<Rightarrow> string" where
  "suppressionKey ref generation = ref_TaskID ref @ ''/'' @ ref_EndpointID ref @ ''/'' @ itoa generation"

definition suppressRun :: "runtimeView \<Rightarrow> PhaseEndpointRef \<Rightarrow> int \<Rightarrow> runtimeView" where
  "suppressRun v ref generation = v\<lparr>v_suppressed := suppressionKey ref generation # v_suppressed v\<rparr>"

definition runSuppressed :: "runtimeView \<Rightarrow> PhaseEndpointRef \<Rightarrow> int \<Rightarrow> bool" where
  "runSuppressed v ref generation \<longleftrightarrow> suppressionKey ref generation \<in> set (v_suppressed v)"

definition hasCommandForLease :: "runtimeView \<Rightarrow> LeaseID \<Rightarrow> bool" where
  "hasCommandForLease v leaseRef =
     list_ex (\<lambda>record. cmd_LeaseRef (cr_Command record) = leaseRef \<and> \<not> cr_Quarantined record
        \<and> \<not> cr_NotExecutable record) (mvalues (v_commands v))"

definition hasMatchingActiveLease :: "runtimeView \<Rightarrow> PhaseCommand \<Rightarrow> bool" where
  "hasMatchingActiveLease v command =
     (case mget (v_leases v) (cmd_LeaseRef command) of
        None \<Rightarrow> False
      | Some lease \<Rightarrow> lease_State lease = ''active'' \<and> lease_Endpoint lease = cmd_Endpoint command
          \<and> lease_Generation lease = cmd_Generation command \<and> lease_BindingRef lease = cmd_BindingRef command)"

definition hasRemoteObservation :: "runtimeView \<Rightarrow> phaseLease \<Rightarrow> bool" where
  "hasRemoteObservation v lease =
     list_ex (\<lambda>observation. ob_LeaseRef observation = lease_LeaseRef lease
        \<and> ob_Endpoint observation = lease_Endpoint lease \<and> ob_Generation observation = lease_Generation lease
        \<and> ob_BindingRef observation = lease_BindingRef lease) (v_observations v)"

section \<open>Runnable endpoints\<close>

definition endpointSatisfied :: "runtimeView \<Rightarrow> PhaseEndpointRef \<Rightarrow> bool" where
  "endpointSatisfied v ref = (case v_endpoint v ref of
     None \<Rightarrow> False | Some endpoint \<Rightarrow> ep_State endpoint = EndpointSatisfied)"

definition builtinPredecessorSatisfied :: "runtimeView \<Rightarrow> PhaseEndpointRef \<Rightarrow> bool" where
  "builtinPredecessorSatisfied v ref =
     (if ref_EndpointID ref = EndpointPlan then True
      else if ref_EndpointID ref = EndpointExecute then endpointSatisfied v (mkRef (ref_TaskID ref) EndpointPlan)
      else if ref_EndpointID ref = EndpointVerify then endpointSatisfied v (mkRef (ref_TaskID ref) EndpointExecute)
      else False)"

definition edgeSatisfied :: "runtimeView \<Rightarrow> Edge \<Rightarrow> bool" where
  "edgeSatisfied v edge =
     (if edge_Signal edge = SignalPhaseSatisfied then endpointSatisfied v (edge_From edge)
      else if edge_Signal edge = SignalTaskDone then
        (case v_task v (ref_TaskID (edge_From edge)) of None \<Rightarrow> False | Some task \<Rightarrow> task_Outcome task = TaskDone)
      else False)"

definition startEdgesAndBlockersSatisfied :: "runtimeView \<Rightarrow> PhaseEndpointRef \<Rightarrow> bool" where
  "startEdgesAndBlockersSatisfied v ref \<longleftrightarrow>
     list_all (\<lambda>edge. edge_To edge \<noteq> ref \<or> edge_RequiredBy edge \<noteq> RequiredByStart \<or> edgeSatisfied v edge) (v_edges v)
   \<and> list_all (\<lambda>blocker. bl_Target blocker \<noteq> ref \<or> bl_RequiredBy blocker \<noteq> RequiredByStart
        \<or> bl_State blocker \<notin> {BlockerActive, BlockerDenied}) (v_blockers v)"

definition hasActiveLease :: "runtimeView \<Rightarrow> PhaseEndpointRef \<Rightarrow> int \<Rightarrow> bool" where
  "hasActiveLease v ref generation =
     list_ex (\<lambda>lease. lease_State lease = ''active'' \<and> lease_Endpoint lease = ref
        \<and> lease_Generation lease = generation) (mvalues (v_leases v))"

definition hasPendingRunCommand :: "runtimeView \<Rightarrow> PhaseEndpointRef \<Rightarrow> int \<Rightarrow> bool" where
  "hasPendingRunCommand v ref generation =
     list_ex (\<lambda>record.
       \<not> (cr_CompletedEventRef record \<noteq> '''' \<or> cr_Quarantined record \<or> cr_NotExecutable record)
       \<and> (let command = cr_Command record in
          cmd_Endpoint command = ref \<and> cmd_Generation command = generation \<and> isRunCommand command
          \<and> cr_ObservedEventRef record = '''')) (mvalues (v_commands v))"

definition hasTerminalObservation :: "runtimeView \<Rightarrow> PhaseEndpointRef \<Rightarrow> int \<Rightarrow> bool" where
  "hasTerminalObservation v ref generation =
     list_ex (\<lambda>observation.
       \<not> (\<not> ob_Folded observation \<or> ob_Endpoint observation \<noteq> ref \<or> ob_Generation observation \<noteq> generation
          \<or> ob_CommandID observation = '''' \<or> ob_LeaseRef observation = '''' \<or> ob_BindingRef observation = '''')
     \<and> (case (mget (v_commands v) (ob_CommandID observation), mget (v_leases v) (ob_LeaseRef observation)) of
          (Some record, Some lease) \<Rightarrow>
             \<not> (cr_CompletedEventRef record \<noteq> ob_ID observation \<or> \<not> observationMatches record lease observation)
        | _ \<Rightarrow> False)
     \<and> ob_Kind observation \<in> {''PhaseOutputSubmitted'', ''PhaseInvocationFailed'', ''PhaseInvocationStopped''})
     (v_observations v)"

definition isRunnable :: "runtimeView \<Rightarrow> PhaseEndpoint \<Rightarrow> bool" where
  "isRunnable v endpoint =
     (case v_task v (ref_TaskID (ep_Ref endpoint)) of
        None \<Rightarrow> False
      | Some task \<Rightarrow>
          if task_Outcome task \<noteq> TaskActive then False
          else if ep_State endpoint \<noteq> EndpointPending \<or> ep_RunPolicy endpoint \<noteq> RunEnabled then False
          else if ep_BindingRef endpoint = '''' \<or> ep_SpecRef endpoint = '''' then False
          else if \<not> builtinPredecessorSatisfied v (ep_Ref endpoint) then False
          else if \<not> startEdgesAndBlockersSatisfied v (ep_Ref endpoint) then False
          else if hasActiveLease v (ep_Ref endpoint) (ep_Generation endpoint)
               \<or> hasPendingRunCommand v (ep_Ref endpoint) (ep_Generation endpoint) then False
          else \<not> hasTerminalObservation v (ep_Ref endpoint) (ep_Generation endpoint))"

definition endpointRunnableLocked :: "projectState \<Rightarrow> PhaseEndpointRef \<Rightarrow> int \<Rightarrow> bool" where
  "endpointRunnableLocked p ref generation =
     (case mget (gs_endpoints (pj_current p)) ref of
        None \<Rightarrow> False
      | Some endpoint \<Rightarrow> if ep_Generation endpoint \<noteq> generation then False
          else isRunnable (newRuntimeView p) endpoint)"

section \<open>The view shows the graph\<close>

lemma mget_fold_values:
  assumes "mwf m" "mkeyed key m"
  shows "mget (fold (\<lambda>v. mput (key v) v) (sort_by lt (mvalues m)) []) k = mget m k"
proof -
  let ?vs = "sort_by lt (mvalues m)"
  have keys: "map key (mvalues m) = map fst m"
    using assms(2) by (auto simp: mkeyed_def mvalues_def)
  have mem: "v \<in> set ?vs \<longleftrightarrow> mget m (key v) = Some v" for v
    using assms by (auto simp: set_sort_by mvalues_iff dest: mkeyedD)
  have "distinct (map key (mvalues m))" using assms(1) keys by (simp add: mwf_def)
  then have fold: "mget (fold (\<lambda>v. mput (key v) v) ?vs []) k =
      (case List.find (\<lambda>v. key v = k) ?vs of Some v \<Rightarrow> Some v | None \<Rightarrow> mget [] k)"
    by (intro mget_fold_mput) (metis mset_map mset_sort_by mset_eq_imp_distinct_iff)
  show ?thesis
  proof (cases "List.find (\<lambda>v. key v = k) ?vs")
    case None
    then have "mget m k = Some v \<Longrightarrow> key v \<noteq> k" for v using mem by (auto simp: find_None_iff)
    then show ?thesis using fold None mkeyedD[OF assms(2)] by (cases "mget m k") auto
  next
    case (Some v)
    then have "v \<in> set ?vs" "key v = k" unfolding find_Some_iff by (auto simp del: set_sort_by)
    then show ?thesis using fold Some mem by simp
  qed
qed

lemma view_graph [simp]:
  assumes "graph_keyed (pj_current p)"
  shows "v_task (newRuntimeView p) i = mget (gs_tasks (pj_current p)) i"
    and "v_endpoint (newRuntimeView p) ref = mget (gs_endpoints (pj_current p)) ref"
  using assms by (simp_all add: v_task_def v_endpoint_def newRuntimeView_def newRuntimeViewFrom_def snapshot_def
      mget_fold_values graph_keyed_def)

lemma view_runtime [simp]:
  "v_revision (newRuntimeView p) = pj_latest p" "v_commands (newRuntimeView p) = rt_commands (pj_runtime p)"
  "v_leases (newRuntimeView p) = rt_leases (pj_runtime p)"
  "v_observations (newRuntimeView p) = rt_observations (pj_runtime p)"
  "v_bindings (newRuntimeView p) = rt_bindings (pj_runtime p)" "v_suppressed (newRuntimeView p) = []"
  "set (v_edges (newRuntimeView p)) = set (gs_edges (pj_current p))"
  "set (v_blockers (newRuntimeView p)) = set (mvalues (gs_blockers (pj_current p)))"
  "set (v_endpoints (newRuntimeView p)) = set (mvalues (gs_endpoints (pj_current p)))"
  by (simp_all add: newRuntimeView_def newRuntimeViewFrom_def snapshot_def set_sort_by)

end
