(* ===== verification/Command_Store.thy ===== *)
theory Command_Store
  imports Graph_Recovery
begin

text \<open>
  \<open>internal/coordination/command_store.go\<close>, \<open>phase_observation.go\<close> and \<open>phase_observation_payload.go\<close>:
  commands, leases and observations of a project. An operation first looks at its context (\<open>ctx\<close> is
  \<open>ctx.Err()\<close>) and then works under the store's mutex on the runtime part of one project. The part
  under the mutex is an operation with the suffix \<open>Locked\<close>, from a project to a result and the new
  runtime part; \<open>lockedProject\<close> runs it in a store. The store's clock is the argument \<open>now\<close>, in
  nanoseconds.
\<close>

definition lockedProject :: "MemoryStore \<Rightarrow> ProjectID \<Rightarrow> (projectState \<Rightarrow> 'r \<times> memoryRuntimeState) \<Rightarrow> 'r \<times> MemoryStore" where
  "lockedProject s projectID operation =
     (let project = ensureProject s projectID; (result, runtime) = operation project
      in (result, putProject s projectID (project\<lparr>pj_runtime := runtime\<rparr>)))"

definition commandError :: "ErrorCode \<Rightarrow> string \<Rightarrow> goerr" where
  "commandError code message = kerr code message True"

definition zeroCommand :: PhaseCommand where
  "zeroCommand = \<lparr>cmd_ID = '''', cmd_Endpoint = zeroRef, cmd_Generation = 0, cmd_BindingRef = '''', cmd_LeaseRef = '''',
                 cmd_Action = '''', cmd_CauseRef = ''''\<rparr>"

definition newRecord :: "PhaseCommand \<Rightarrow> commandRecord" where
  "newRecord command = \<lparr>cr_Command = command, cr_Accepted = False, cr_ObservedEventRef = '''', cr_CompletedEventRef = '''',
                       cr_RetryScheduled = False, cr_Quarantined = False, cr_NotExecutable = False\<rparr>"

definition putCommand :: "memoryRuntimeState \<Rightarrow> string \<Rightarrow> commandRecord \<Rightarrow> memoryRuntimeState" where
  "putCommand runtime commandID record = runtime\<lparr>rt_commands := mput commandID record (rt_commands runtime)\<rparr>"

definition putLease :: "memoryRuntimeState \<Rightarrow> LeaseID \<Rightarrow> phaseLease \<Rightarrow> memoryRuntimeState" where
  "putLease runtime leaseRef lease = runtime\<lparr>rt_leases := mput leaseRef lease (rt_leases runtime)\<rparr>"

section \<open>Loading the view\<close>

definition refreshLease :: "int \<Rightarrow> phaseLease \<Rightarrow> phaseLease" where
  "refreshLease now lease = lease\<lparr>lease_Expired := lease_Expired lease
     \<or> (case lease_ExpiresAt lease of None \<Rightarrow> True | Some deadline \<Rightarrow> \<not> deadline > now)\<rparr>"

definition loadRuntimeView ::
  "goerr option \<Rightarrow> int \<Rightarrow> MemoryStore \<Rightarrow> ProjectID \<Rightarrow> (goerr + runtimeView) \<times> MemoryStore" where
  "loadRuntimeView ctx now s projectID =
     (case ctx of Some e \<Rightarrow> (Inl e, s)
      | None \<Rightarrow> lockedProject s projectID (\<lambda>project.
          let view = newRuntimeView project
          in (Inr (view\<lparr>v_leases := map (\<lambda>(ref, lease). (ref, refreshLease now lease)) (v_leases view)\<rparr>),
              pj_runtime project)))"

section \<open>Observations\<close>

definition matchingObservationLease :: "memoryRuntimeState \<Rightarrow> PhaseCommand \<Rightarrow> phaseObservation \<Rightarrow> goerr + phaseLease" where
  "matchingObservationLease runtime command observation =
     (if ob_CommandID observation = '''' \<or> ob_LeaseRef observation = '''' \<or> ref_TaskID (ob_Endpoint observation) = ''''
         \<or> ref_EndpointID (ob_Endpoint observation) = '''' \<or> ob_Generation observation \<le> 0 \<or> ob_BindingRef observation = ''''
      then Inl (InvalidArgument ''runtime observation requires command_id, lease_ref, endpoint, generation, and binding_ref'')
      else if cmd_Endpoint command \<noteq> ob_Endpoint observation \<or> cmd_Generation command \<noteq> ob_Generation observation
         \<or> cmd_BindingRef command \<noteq> ob_BindingRef observation \<or> cmd_LeaseRef command \<noteq> ob_LeaseRef observation
      then Inl (commandError CodeStaleCommand ''observation does not match command identity'')
      else case mget (rt_leases runtime) (ob_LeaseRef observation) of
        None \<Rightarrow> Inl (LeaseConflict ''observation lease does not exist'')
      | Some lease \<Rightarrow>
          if lease_Endpoint lease \<noteq> ob_Endpoint observation \<or> lease_Generation lease \<noteq> ob_Generation observation
             \<or> lease_BindingRef lease \<noteq> ob_BindingRef observation
          then Inl (LeaseConflict ''observation does not match lease identity'')
          else Inr lease)"

fun foldFirst :: "string \<Rightarrow> phaseObservation list \<Rightarrow> phaseObservation list" where
  "foldFirst eventID [] = []"
| "foldFirst eventID (observation # observations) =
     (if ob_ID observation = eventID then observation\<lparr>ob_Folded := True\<rparr> # observations
      else observation # foldFirst eventID observations)"

definition markObservationFoldedLocked :: "memoryRuntimeState \<Rightarrow> string \<Rightarrow> memoryRuntimeState" where
  "markObservationFoldedLocked runtime eventID = runtime\<lparr>rt_observations := foldFirst eventID (rt_observations runtime)\<rparr>"

definition markCommandObservedLocked :: "phaseObservation \<Rightarrow> projectState \<Rightarrow> goerr option \<times> memoryRuntimeState" where
  "markCommandObservedLocked observation project =
     (let runtime = pj_runtime project in
      case mget (rt_commands runtime) (ob_CommandID observation) of
        None \<Rightarrow> (Some (commandError CodeStaleCommand ''observation command does not exist''), runtime)
      | Some record \<Rightarrow>
          (case matchingObservationLease runtime (cr_Command record) observation of
             Inl e \<Rightarrow> (Some e, runtime)
           | Inr lease \<Rightarrow>
               if cmd_Action (cr_Command record) \<noteq> CommandStart \<and> cmd_Action (cr_Command record) \<noteq> CommandResume then
                 (Some (commandError CodeStaleCommand ''started observation must match a start or resume command''), runtime)
               else if lease_State lease \<noteq> ''active'' then
                 (Some (LeaseConflict ''started observation lease is not active''), runtime)
               else
                 (None, markObservationFoldedLocked
                    (putCommand runtime (ob_CommandID observation) (record\<lparr>cr_ObservedEventRef := ob_ID observation\<rparr>))
                    (ob_ID observation))))"

definition markCommandObserved ::
  "goerr option \<Rightarrow> MemoryStore \<Rightarrow> ProjectID \<Rightarrow> phaseObservation \<Rightarrow> goerr option \<times> MemoryStore" where
  "markCommandObserved ctx s projectID observation =
     (case ctx of Some e \<Rightarrow> (Some e, s) | None \<Rightarrow> lockedProject s projectID (markCommandObservedLocked observation))"

definition completeCommandAndReleaseLeaseLocked ::
  "phaseObservation \<Rightarrow> projectState \<Rightarrow> goerr option \<times> memoryRuntimeState" where
  "completeCommandAndReleaseLeaseLocked observation project =
     (let runtime = pj_runtime project in
      case mget (rt_commands runtime) (ob_CommandID observation) of
        None \<Rightarrow> (Some (commandError CodeStaleCommand ''terminal observation command does not exist''), runtime)
      | Some record \<Rightarrow>
          (case matchingObservationLease runtime (cr_Command record) observation of
             Inl e \<Rightarrow> (Some e, runtime)
           | Inr lease \<Rightarrow>
               if ob_Kind observation = ''PhaseInvocationStopped'' \<and> cmd_Action (cr_Command record) \<noteq> CommandStop then
                 (Some (commandError CodeStaleCommand ''stopped observation must match a stop command''), runtime)
               else if ob_Kind observation \<noteq> ''PhaseInvocationStopped''
                  \<and> cmd_Action (cr_Command record) \<noteq> CommandStart \<and> cmd_Action (cr_Command record) \<noteq> CommandResume then
                 (Some (commandError CodeStaleCommand ''terminal execution observation must match a start or resume command''),
                  runtime)
               else
                 (None, markObservationFoldedLocked
                    (putLease
                       (putCommand runtime (ob_CommandID observation) (record\<lparr>cr_CompletedEventRef := ob_ID observation\<rparr>))
                       (ob_LeaseRef observation) (lease\<lparr>lease_State := ''released''\<rparr>))
                    (ob_ID observation))))"

definition completeCommandAndReleaseLease ::
  "goerr option \<Rightarrow> MemoryStore \<Rightarrow> ProjectID \<Rightarrow> phaseObservation \<Rightarrow> goerr option \<times> MemoryStore" where
  "completeCommandAndReleaseLease ctx s projectID observation =
     (case ctx of Some e \<Rightarrow> (Some e, s)
      | None \<Rightarrow> lockedProject s projectID (completeCommandAndReleaseLeaseLocked observation))"

definition samePhaseObservationPayload :: "phaseObservation \<Rightarrow> phaseObservation \<Rightarrow> bool" where
  "samePhaseObservationPayload left right \<longleftrightarrow>
     ob_ID left = ob_ID right \<and> ob_Kind left = ob_Kind right \<and> ob_CommandID left = ob_CommandID right
   \<and> ob_Endpoint left = ob_Endpoint right \<and> ob_Generation left = ob_Generation right
   \<and> ob_BindingRef left = ob_BindingRef right \<and> ob_LeaseRef left = ob_LeaseRef right
   \<and> ob_CheckpointRef left = ob_CheckpointRef right \<and> ob_NonResumable left = ob_NonResumable right
   \<and> ob_DispatchError left = ob_DispatchError right \<and> ob_DispatchTarget left = ob_DispatchTarget right"

definition appendObservationLocked :: "phaseObservation \<Rightarrow> projectState \<Rightarrow> goerr option \<times> memoryRuntimeState" where
  "appendObservationLocked observation project =
     (let runtime = pj_runtime project;
          known = (if ob_Kind observation \<noteq> ''DispatchRejected'' then
                     (case mget (rt_commands runtime) (ob_CommandID observation) of
                        None \<Rightarrow> Some (commandError CodeStaleCommand ''observation command does not exist'')
                      | Some record \<Rightarrow>
                          (case matchingObservationLease runtime (cr_Command record) observation of
                             Inl e \<Rightarrow> Some e | Inr _ \<Rightarrow> None))
                   else None)
      in case known of
           Some e \<Rightarrow> (Some e, runtime)
         | None \<Rightarrow>
             (case List.find (\<lambda>existing. ob_ID existing = ob_ID observation) (rt_observations runtime) of
                Some existing \<Rightarrow>
                  (if samePhaseObservationPayload existing observation then None else Some IdempotencyConflict, runtime)
              | None \<Rightarrow> (None, runtime\<lparr>rt_observations := rt_observations runtime @ [observation]\<rparr>)))"

definition appendObservation ::
  "goerr option \<Rightarrow> MemoryStore \<Rightarrow> ProjectID \<Rightarrow> phaseObservation \<Rightarrow> goerr option \<times> MemoryStore" where
  "appendObservation ctx s projectID observation =
     (case ctx of Some e \<Rightarrow> (Some e, s)
      | None \<Rightarrow>
          if ob_ID observation = '''' then (Some (InvalidArgument ''observation.id is required''), s)
          else lockedProject s projectID (appendObservationLocked observation))"

text \<open>The writer port of the Phase Controller.\<close>

abbreviation phaseObservationStarted :: string where "phaseObservationStarted \<equiv> ''PhaseInvocationStarted''"
abbreviation phaseObservationOutput :: string where "phaseObservationOutput \<equiv> ''PhaseOutputSubmitted''"
abbreviation phaseObservationFailed :: string where "phaseObservationFailed \<equiv> ''PhaseInvocationFailed''"
abbreviation phaseObservationStopped :: string where "phaseObservationStopped \<equiv> ''PhaseInvocationStopped''"

definition validatePhaseObservationCommand :: "string \<Rightarrow> PhaseCommand \<Rightarrow> string \<Rightarrow> bool \<Rightarrow> goerr option" where
  "validatePhaseObservationCommand kind command checkpointRef nonResumable =
     (let notRun = cmd_Action command \<noteq> CommandStart \<and> cmd_Action command \<noteq> CommandResume in first_err
     [fail_if (cmd_ID command = '''') (InvalidArgument ''phase observation command_id is required''),
      fail_if (ref_TaskID (cmd_Endpoint command) = '''' \<or> ref_EndpointID (cmd_Endpoint command) = ''''
          \<or> cmd_Generation command \<le> 0 \<or> cmd_BindingRef command = '''' \<or> cmd_LeaseRef command = '''')
        (InvalidArgument ''phase observation command identity is incomplete''),
      (if kind = phaseObservationStarted then first_err
         [fail_if notRun (commandError CodeStaleCommand ''started observation requires start or resume command''),
          fail_if (checkpointRef \<noteq> '''' \<or> nonResumable)
            (InvalidArgument ''started observation cannot carry stop evidence'')]
       else if kind = phaseObservationOutput \<or> kind = phaseObservationFailed then first_err
         [fail_if notRun (commandError CodeStaleCommand ''terminal execution observation requires start or resume command''),
          fail_if (checkpointRef \<noteq> '''' \<or> nonResumable)
            (InvalidArgument ''terminal execution observation cannot carry stop evidence'')]
       else if kind = phaseObservationStopped then first_err
         [fail_if (cmd_Action command \<noteq> CommandStop)
            (commandError CodeStaleCommand ''stopped observation requires stop command''),
          fail_if (checkpointRef = '''' \<and> \<not> nonResumable)
            (IncompleteStopEvidence ''stopped observation requires checkpoint_ref or non_resumable'')]
       else Some (InvalidArgument ''unsupported phase observation kind''))])"

definition deterministicPhaseObservationID :: "string \<Rightarrow> string \<Rightarrow> string" where
  "deterministicPhaseObservationID kind commandID = ''phase-observation:'' @ kind @ '':'' @ commandID"

definition newPhaseObservation :: "string \<Rightarrow> PhaseCommand \<Rightarrow> string \<Rightarrow> bool \<Rightarrow> goerr + phaseObservation" where
  "newPhaseObservation kind command checkpointRef nonResumable =
     checked (validatePhaseObservationCommand kind command checkpointRef nonResumable)
     (Inr \<lparr>ob_ID = deterministicPhaseObservationID kind (cmd_ID command), ob_Kind = kind,
           ob_CommandID = cmd_ID command, ob_Endpoint = cmd_Endpoint command, ob_Generation = cmd_Generation command,
           ob_BindingRef = cmd_BindingRef command, ob_LeaseRef = cmd_LeaseRef command,
           ob_CheckpointRef = checkpointRef, ob_NonResumable = nonResumable, ob_DispatchError = '''',
           ob_DispatchTarget = zeroRef, ob_Folded = False\<rparr>)"

definition appendPhaseObservation ::
  "goerr option \<Rightarrow> MemoryStore \<Rightarrow> ProjectID \<Rightarrow> PhaseCommand \<Rightarrow> string \<Rightarrow> string \<Rightarrow> bool \<Rightarrow> goerr option \<times> MemoryStore" where
  "appendPhaseObservation ctx s projectID command kind checkpointRef nonResumable =
     (case newPhaseObservation kind command checkpointRef nonResumable of
        Inl e \<Rightarrow> (Some e, s)
      | Inr observation \<Rightarrow> appendObservation ctx s projectID observation)"

definition RecordPhaseInvocationStarted ::
  "goerr option \<Rightarrow> MemoryStore \<Rightarrow> ProjectID \<Rightarrow> PhaseCommand \<Rightarrow> goerr option \<times> MemoryStore" where
  "RecordPhaseInvocationStarted ctx s projectID command =
     appendPhaseObservation ctx s projectID command phaseObservationStarted '''' False"

definition RecordPhaseOutputSubmitted ::
  "goerr option \<Rightarrow> MemoryStore \<Rightarrow> ProjectID \<Rightarrow> PhaseCommand \<Rightarrow> goerr option \<times> MemoryStore" where
  "RecordPhaseOutputSubmitted ctx s projectID command =
     appendPhaseObservation ctx s projectID command phaseObservationOutput '''' False"

definition RecordPhaseInvocationFailed ::
  "goerr option \<Rightarrow> MemoryStore \<Rightarrow> ProjectID \<Rightarrow> PhaseCommand \<Rightarrow> goerr option \<times> MemoryStore" where
  "RecordPhaseInvocationFailed ctx s projectID command =
     appendPhaseObservation ctx s projectID command phaseObservationFailed '''' False"

definition RecordPhaseInvocationStopped ::
  "goerr option \<Rightarrow> MemoryStore \<Rightarrow> ProjectID \<Rightarrow> PhaseCommand \<Rightarrow> string \<Rightarrow> bool \<Rightarrow> goerr option \<times> MemoryStore" where
  "RecordPhaseInvocationStopped ctx s projectID command checkpointRef nonResumable =
     appendPhaseObservation ctx s projectID command phaseObservationStopped checkpointRef nonResumable"

section \<open>Leases and commands\<close>

definition releaseOrphanLeaseLocked :: "LeaseID \<Rightarrow> projectState \<Rightarrow> goerr option \<times> memoryRuntimeState" where
  "releaseOrphanLeaseLocked leaseRef project =
     (let runtime = pj_runtime project in
      case mget (rt_leases runtime) leaseRef of
        None \<Rightarrow> (Some (kerr CodeNotFound ''lease not found'' True), runtime)
      | Some lease \<Rightarrow> (None, putLease runtime leaseRef (lease\<lparr>lease_State := ''released''\<rparr>)))"

definition releaseOrphanLease :: "goerr option \<Rightarrow> MemoryStore \<Rightarrow> ProjectID \<Rightarrow> LeaseID \<Rightarrow> goerr option \<times> MemoryStore" where
  "releaseOrphanLease ctx s projectID leaseRef =
     (case ctx of Some e \<Rightarrow> (Some e, s) | None \<Rightarrow> lockedProject s projectID (releaseOrphanLeaseLocked leaseRef))"

definition expireLeaseLocked :: "LeaseID \<Rightarrow> projectState \<Rightarrow> goerr option \<times> memoryRuntimeState" where
  "expireLeaseLocked leaseRef project =
     (let runtime = pj_runtime project in
      case mget (rt_leases runtime) leaseRef of
        None \<Rightarrow> (Some (kerr CodeNotFound ''lease not found'' True), runtime)
      | Some lease \<Rightarrow> (None, putLease runtime leaseRef (lease\<lparr>lease_Expired := True\<rparr>)))"

definition expireLease :: "goerr option \<Rightarrow> MemoryStore \<Rightarrow> ProjectID \<Rightarrow> LeaseID \<Rightarrow> goerr option \<times> MemoryStore" where
  "expireLease ctx s projectID leaseRef =
     (case ctx of Some e \<Rightarrow> (Some e, s) | None \<Rightarrow> lockedProject s projectID (expireLeaseLocked leaseRef))"

definition stopCommandID :: "LeaseID \<Rightarrow> string" where
  "stopCommandID leaseRef = ''cmd:stop:'' @ leaseRef"

definition getOrCreateStopCommandLocked ::
  "Revision \<Rightarrow> phaseLease \<Rightarrow> projectState \<Rightarrow> (PhaseCommand \<times> bool) \<times> memoryRuntimeState" where
  "getOrCreateStopCommandLocked revision lease project =
     (let runtime = pj_runtime project; commandID = stopCommandID (lease_LeaseRef lease) in
      case mget (rt_commands runtime) commandID of
        Some record \<Rightarrow>
          ((cr_Command record, cr_CompletedEventRef record = '''' \<and> \<not> cr_Quarantined record \<and> \<not> cr_NotExecutable record),
           runtime)
      | None \<Rightarrow>
          let command = \<lparr>cmd_ID = commandID, cmd_Endpoint = lease_Endpoint lease, cmd_Generation = lease_Generation lease,
                         cmd_BindingRef = lease_BindingRef lease, cmd_LeaseRef = lease_LeaseRef lease,
                         cmd_Action = CommandStop, cmd_CauseRef = ''revision://'' @ itoa (uint revision)\<rparr>
          in ((command, True), putCommand runtime (cmd_ID command) (newRecord command)))"

definition getOrCreateStopCommand ::
  "goerr option \<Rightarrow> MemoryStore \<Rightarrow> ProjectID \<Rightarrow> Revision \<Rightarrow> phaseLease \<Rightarrow> (goerr + PhaseCommand \<times> bool) \<times> MemoryStore" where
  "getOrCreateStopCommand ctx s projectID revision lease =
     (case ctx of Some e \<Rightarrow> (Inl e, s)
      | None \<Rightarrow> apfst Inr (lockedProject s projectID (getOrCreateStopCommandLocked revision lease)))"

definition leaseRefOf :: "PhaseEndpointRef \<Rightarrow> int \<Rightarrow> LeaseID" where
  "leaseRefOf ref generation = ''lease:'' @ ref_TaskID ref @ '':'' @ ref_EndpointID ref @ '':'' @ itoa generation"

definition runCommandID :: "PhaseEndpointRef \<Rightarrow> int \<Rightarrow> string" where
  "runCommandID ref generation = ''cmd:run:'' @ ref_TaskID ref @ '':'' @ ref_EndpointID ref @ '':'' @ itoa generation"

definition defaultPhaseLeaseTTL :: int where
  "defaultPhaseLeaseTTL = 3600 * 1000000000"

definition leaseDeadline :: "int \<Rightarrow> Time" where
  "leaseDeadline now = Some (now + defaultPhaseLeaseTTL)"

definition existingRunCommand :: "memoryRuntimeState \<Rightarrow> PhaseEndpointRef \<Rightarrow> int \<Rightarrow> PhaseCommand" where
  "existingRunCommand runtime ref generation =
     (case List.find (\<lambda>record. cmd_Endpoint (cr_Command record) = ref \<and> cmd_Generation (cr_Command record) = generation
             \<and> (cmd_Action (cr_Command record) = CommandStart \<or> cmd_Action (cr_Command record) = CommandResume))
           (mvalues (rt_commands runtime)) of
        Some record \<Rightarrow> cr_Command record
      | None \<Rightarrow> zeroCommand)"

definition runLease :: "int \<Rightarrow> PhaseEndpoint \<Rightarrow> phaseLease" where
  "runLease now endpoint =
     \<lparr>lease_LeaseRef = leaseRefOf (ep_Ref endpoint) (ep_Generation endpoint), lease_Endpoint = ep_Ref endpoint,
      lease_Generation = ep_Generation endpoint, lease_BindingRef = ep_BindingRef endpoint, lease_State = ''active'',
      lease_ExpiresAt = leaseDeadline now, lease_Expired = False\<rparr>"

definition runCommand :: "PhaseEndpoint \<Rightarrow> CommandAction \<Rightarrow> string \<Rightarrow> PhaseCommand" where
  "runCommand endpoint action causeRef =
     \<lparr>cmd_ID = runCommandID (ep_Ref endpoint) (ep_Generation endpoint), cmd_Endpoint = ep_Ref endpoint,
      cmd_Generation = ep_Generation endpoint, cmd_BindingRef = ep_BindingRef endpoint,
      cmd_LeaseRef = leaseRefOf (ep_Ref endpoint) (ep_Generation endpoint), cmd_Action = action, cmd_CauseRef = causeRef\<rparr>"

definition claimLeaseAndAppendCommandLocked ::
  "int \<Rightarrow> Revision \<Rightarrow> PhaseEndpoint \<Rightarrow> CommandAction \<Rightarrow> string \<Rightarrow> projectState \<Rightarrow>
   (goerr + PhaseCommand \<times> bool) \<times> memoryRuntimeState" where
  "claimLeaseAndAppendCommandLocked now revision endpoint action causeRef project =
     (let runtime = pj_runtime project; leaseRef = leaseRefOf (ep_Ref endpoint) (ep_Generation endpoint);
          commandID = runCommandID (ep_Ref endpoint) (ep_Generation endpoint) in
      if CheckExpectedRevision revision (pj_latest project) \<noteq> None then (Inr (zeroCommand, False), runtime)
      else if \<not> endpointRunnableLocked project (ep_Ref endpoint) (ep_Generation endpoint) then
        (Inr (zeroCommand, False), runtime)
      else if (case mget (rt_leases runtime) leaseRef of Some lease \<Rightarrow> lease_State lease = ''active'' | None \<Rightarrow> False) then
        (Inr (existingRunCommand runtime (ep_Ref endpoint) (ep_Generation endpoint), False), runtime)
      else case mget (rt_commands runtime) commandID of
        Some record \<Rightarrow>
          if cmd_Action (cr_Command record) \<noteq> CommandStart \<and> cmd_Action (cr_Command record) \<noteq> CommandResume then
            (Inl (kerr CodeCommandConflict ''run command id already has different content'' False), runtime)
          else (Inr (cr_Command record, False), runtime)
      | None \<Rightarrow>
          (Inr (runCommand endpoint action causeRef, True),
           putCommand (putLease runtime leaseRef (runLease now endpoint)) commandID
             (newRecord (runCommand endpoint action causeRef))))"

definition claimLeaseAndAppendCommand ::
  "goerr option \<Rightarrow> int \<Rightarrow> MemoryStore \<Rightarrow> ProjectID \<Rightarrow> Revision \<Rightarrow> PhaseEndpoint \<Rightarrow> CommandAction \<Rightarrow> string \<Rightarrow>
   (goerr + PhaseCommand \<times> bool) \<times> MemoryStore" where
  "claimLeaseAndAppendCommand ctx now s projectID revision endpoint action causeRef =
     (case ctx of Some e \<Rightarrow> (Inl e, s)
      | None \<Rightarrow> lockedProject s projectID (claimLeaseAndAppendCommandLocked now revision endpoint action causeRef))"

section \<open>Delivery results\<close>

text \<open>The three flags of a command; an unknown command id is ignored.\<close>

definition updateCommandLocked ::
  "string \<Rightarrow> (commandRecord \<Rightarrow> commandRecord) \<Rightarrow> projectState \<Rightarrow> unit \<times> memoryRuntimeState" where
  "updateCommandLocked commandID f project =
     (let runtime = pj_runtime project in
      case mget (rt_commands runtime) commandID of
        None \<Rightarrow> ((), runtime)
      | Some record \<Rightarrow> ((), putCommand runtime commandID (f record)))"

definition markCommandAccepted :: "goerr option \<Rightarrow> MemoryStore \<Rightarrow> ProjectID \<Rightarrow> string \<Rightarrow> MemoryStore" where
  "markCommandAccepted ctx s projectID commandID =
     (if ctx \<noteq> None then s
      else snd (lockedProject s projectID (updateCommandLocked commandID
        (\<lambda>record. record\<lparr>cr_Accepted := True, cr_RetryScheduled := False\<rparr>))))"

definition scheduleRetry :: "goerr option \<Rightarrow> MemoryStore \<Rightarrow> ProjectID \<Rightarrow> string \<Rightarrow> MemoryStore" where
  "scheduleRetry ctx s projectID commandID =
     (if ctx \<noteq> None then s
      else snd (lockedProject s projectID (updateCommandLocked commandID (\<lambda>record. record\<lparr>cr_RetryScheduled := True\<rparr>))))"

definition quarantineCommand :: "goerr option \<Rightarrow> MemoryStore \<Rightarrow> ProjectID \<Rightarrow> string \<Rightarrow> MemoryStore" where
  "quarantineCommand ctx s projectID commandID =
     (if ctx \<noteq> None then s
      else snd (lockedProject s projectID (updateCommandLocked commandID (\<lambda>record. record\<lparr>cr_Quarantined := True\<rparr>))))"

definition dispatchRejection ::
  "string \<Rightarrow> string \<Rightarrow> PhaseEndpointRef \<Rightarrow> int \<Rightarrow> BindingRef \<Rightarrow> LeaseID \<Rightarrow> goerr \<Rightarrow> phaseObservation" where
  "dispatchRejection eventID commandID endpoint generation bindingRef leaseRef err =
     \<lparr>ob_ID = eventID, ob_Kind = ''DispatchRejected'', ob_CommandID = commandID, ob_Endpoint = endpoint,
      ob_Generation = generation, ob_BindingRef = bindingRef, ob_LeaseRef = leaseRef, ob_CheckpointRef = '''',
      ob_NonResumable = False, ob_DispatchError = ErrorCodeOf (Some err), ob_DispatchTarget = endpoint, ob_Folded = True\<rparr>"

definition addObservation :: "memoryRuntimeState \<Rightarrow> phaseObservation \<Rightarrow> memoryRuntimeState" where
  "addObservation runtime observation = runtime\<lparr>rt_observations := rt_observations runtime @ [observation]\<rparr>"

text \<open>The lease of a rejected run command that was never observed to start is released.\<close>

definition releaseRejectedLease :: "PhaseCommand \<Rightarrow> commandRecord \<Rightarrow> memoryRuntimeState \<Rightarrow> memoryRuntimeState" where
  "releaseRejectedLease command record runtime =
     (if (cmd_Action command = CommandStart \<or> cmd_Action command = CommandResume) \<and> cr_ObservedEventRef record = '''' then
        (case mget (rt_leases runtime) (cmd_LeaseRef command) of
           Some lease \<Rightarrow>
             if lease_State lease = ''active'' \<and> lease_Endpoint lease = cmd_Endpoint command
                \<and> lease_Generation lease = cmd_Generation command \<and> lease_BindingRef lease = cmd_BindingRef command
             then putLease runtime (cmd_LeaseRef command) (lease\<lparr>lease_State := ''released''\<rparr>)
             else runtime
         | None \<Rightarrow> runtime)
      else runtime)"

definition rejectCommandLocked :: "PhaseCommand \<Rightarrow> goerr \<Rightarrow> projectState \<Rightarrow> unit \<times> memoryRuntimeState" where
  "rejectCommandLocked command err project =
     (let runtime = pj_runtime project;
          eventID = ''dispatch-rejection:'' @ cmd_ID command @ '':'' @ ErrorCodeOf (Some err) in
      case mget (rt_commands runtime) (cmd_ID command) of
        None \<Rightarrow> ((), runtime)
      | Some record \<Rightarrow>
          if cr_Command record \<noteq> command then ((), runtime)
          else if list_ex (\<lambda>observation. ob_ID observation = eventID) (rt_observations runtime) then ((), runtime)
          else ((), addObservation
                  (releaseRejectedLease command record
                     (putCommand runtime (cmd_ID command)
                        (record\<lparr>cr_NotExecutable := True, cr_RetryScheduled := False, cr_CompletedEventRef := eventID\<rparr>)))
                  (dispatchRejection eventID (cmd_ID command) (cmd_Endpoint command) (cmd_Generation command)
                     (cmd_BindingRef command) (cmd_LeaseRef command) err)))"

definition rejectCommand :: "goerr option \<Rightarrow> MemoryStore \<Rightarrow> ProjectID \<Rightarrow> PhaseCommand \<Rightarrow> goerr \<Rightarrow> MemoryStore" where
  "rejectCommand ctx s projectID command err =
     (if ctx \<noteq> None then s else snd (lockedProject s projectID (rejectCommandLocked command err)))"

definition recordEndpointDispatchRejectionLocked ::
  "PhaseEndpointRef \<Rightarrow> int \<Rightarrow> BindingRef \<Rightarrow> goerr \<Rightarrow> projectState \<Rightarrow> unit \<times> memoryRuntimeState" where
  "recordEndpointDispatchRejectionLocked endpoint generation bindingRef err project =
     (let runtime = pj_runtime project;
          eventID = ''dispatch-rejection:'' @ ref_TaskID endpoint @ '':'' @ ref_EndpointID endpoint @ '':''
                    @ itoa generation @ '':'' @ ErrorCodeOf (Some err) in
      if list_ex (\<lambda>observation. ob_ID observation = eventID) (rt_observations runtime) then ((), runtime)
      else ((), addObservation runtime (dispatchRejection eventID '''' endpoint generation bindingRef '''' err)))"

definition recordEndpointDispatchRejection ::
  "goerr option \<Rightarrow> MemoryStore \<Rightarrow> ProjectID \<Rightarrow> PhaseEndpointRef \<Rightarrow> int \<Rightarrow> BindingRef \<Rightarrow> goerr \<Rightarrow> MemoryStore" where
  "recordEndpointDispatchRejection ctx s projectID endpoint generation bindingRef err =
     (if ctx \<noteq> None then s
      else snd (lockedProject s projectID (recordEndpointDispatchRejectionLocked endpoint generation bindingRef err)))"

section \<open>Listings\<close>

definition runtimeCommands :: "goerr option \<Rightarrow> MemoryStore \<Rightarrow> ProjectID \<Rightarrow> PhaseCommand list \<times> MemoryStore" where
  "runtimeCommands ctx s projectID =
     (if ctx \<noteq> None then ([], s)
      else lockedProject s projectID (\<lambda>project.
        (sort_by (\<lambda>l r. cmd_ID l < cmd_ID r) (map cr_Command (mvalues (rt_commands (pj_runtime project)))), pj_runtime project)))"

definition runtimeLeases :: "goerr option \<Rightarrow> MemoryStore \<Rightarrow> ProjectID \<Rightarrow> phaseLease list \<times> MemoryStore" where
  "runtimeLeases ctx s projectID =
     (if ctx \<noteq> None then ([], s)
      else lockedProject s projectID (\<lambda>project.
        (sort_by (\<lambda>l r. lease_LeaseRef l < lease_LeaseRef r) (mvalues (rt_leases (pj_runtime project))), pj_runtime project)))"

end
