(* ===== verification/Lease_Inv.thy ===== *)
theory Lease_Inv
  imports Command_Store Graph_Evolution
begin

text \<open>
  The invariant of a project's commands and leases, and what may happen to them over time. The
  contract \<open>runtime_operation\<close> is what every operation of the command store promises: it keeps the
  invariant and only extends the records. It is interpreted for each operation.
\<close>

section \<open>Identifiers\<close>

lemma fixed_endpoint_no_colon: "isFixedEndpoint i \<Longrightarrow> CHR '':'' \<notin> set i"
  by (auto simp: isFixedEndpoint_def fixedEndpoints_def)

lemma joined_ref_inj:
  assumes "p @ ref_TaskID (r :: PhaseEndpointRef) @ '':'' @ ref_EndpointID r @ '':'' @ itoa g = p @ ref_TaskID (r' :: PhaseEndpointRef) @ '':'' @ ref_EndpointID r' @ '':'' @ itoa g'"
    and "isFixedEndpoint (ref_EndpointID r)" "isFixedEndpoint (ref_EndpointID r')"
  shows "r = r' \<and> g = g'"
proof -
  have "(ref_TaskID r @ '':'' @ ref_EndpointID r) @ CHR '':'' # itoa g = (ref_TaskID r' @ '':'' @ ref_EndpointID r') @ CHR '':'' # itoa g'"
    using assms(1) by simp
  from split_last_sep[OF this itoa_no_colon itoa_no_colon]
  have "ref_TaskID r @ CHR '':'' # ref_EndpointID r = ref_TaskID r' @ CHR '':'' # ref_EndpointID r'" "g = g'"
    by (simp_all add: itoa_inj)
  with split_last_sep[OF this(1)] fixed_endpoint_no_colon assms(2,3) show ?thesis by (cases r; cases r') simp
qed

lemma runCommandID_inj:
  "runCommandID r g = runCommandID r' g' \<Longrightarrow> isFixedEndpoint (ref_EndpointID r) \<Longrightarrow> isFixedEndpoint (ref_EndpointID r') \<Longrightarrow>
   r = r' \<and> g = g'"
  unfolding runCommandID_def by (rule joined_ref_inj)

lemma leaseRefOf_inj:
  "leaseRefOf r g = leaseRefOf r' g' \<Longrightarrow> isFixedEndpoint (ref_EndpointID r) \<Longrightarrow> isFixedEndpoint (ref_EndpointID r') \<Longrightarrow>
   r = r' \<and> g = g'"
  unfolding leaseRefOf_def by (rule joined_ref_inj)

lemma run_stop_ids [simp]: "runCommandID r g \<noteq> stopCommandID l" "stopCommandID l \<noteq> runCommandID r g"
  by (simp_all add: runCommandID_def stopCommandID_def)

lemma stopCommandID_inj [simp]: "stopCommandID l = stopCommandID l' \<longleftrightarrow> l = l'"
  by (simp add: stopCommandID_def)

section \<open>The invariant\<close>

definition lease_identity :: "phaseLease \<Rightarrow> LeaseID \<times> PhaseEndpointRef \<times> int \<times> BindingRef" where
  "lease_identity l = (lease_LeaseRef l, lease_Endpoint l, lease_Generation l, lease_BindingRef l)"

definition command_identity :: "PhaseCommand \<Rightarrow> LeaseID \<times> PhaseEndpointRef \<times> int \<times> BindingRef" where
  "command_identity c = (cmd_LeaseRef c, cmd_Endpoint c, cmd_Generation c, cmd_BindingRef c)"

text \<open>
  A lease belongs to an endpoint of the graph, to its current generation or an earlier one, and in
  its current generation to its binding.
\<close>

definition lease_known :: "graphState \<Rightarrow> phaseLease \<Rightarrow> bool" where
  "lease_known g l \<longleftrightarrow> (\<exists>e. mget (gs_endpoints g) (lease_Endpoint l) = Some e \<and> lease_Generation l \<le> ep_Generation e
     \<and> (lease_Generation l = ep_Generation e \<longrightarrow> lease_BindingRef l = ep_BindingRef e))"

definition lease_ok :: "graphState \<Rightarrow> memoryRuntimeState \<Rightarrow> phaseLease \<Rightarrow> bool" where
  "lease_ok g rt l \<longleftrightarrow>
     lease_LeaseRef l = leaseRefOf (lease_Endpoint l) (lease_Generation l)
   \<and> isFixedEndpoint (ref_EndpointID (lease_Endpoint l)) \<and> lease_known g l
   \<and> mget (rt_commands rt) (runCommandID (lease_Endpoint l) (lease_Generation l)) \<noteq> None"

definition command_ok :: "memoryRuntimeState \<Rightarrow> PhaseCommand \<Rightarrow> bool" where
  "command_ok rt c \<longleftrightarrow>
     (\<exists>l. mget (rt_leases rt) (cmd_LeaseRef c) = Some l \<and> lease_identity l = command_identity c)
   \<and> (isRunCommand c \<and> cmd_ID c = runCommandID (cmd_Endpoint c) (cmd_Generation c)
      \<or> cmd_Action c = CommandStop \<and> cmd_ID c = stopCommandID (cmd_LeaseRef c))"

definition runtime_inv :: "graphState \<Rightarrow> memoryRuntimeState \<Rightarrow> bool" where
  "runtime_inv g rt \<longleftrightarrow>
     mkeyed lease_LeaseRef (rt_leases rt) \<and> mwf (rt_leases rt)
   \<and> mkeyed (cmd_ID \<circ> cr_Command) (rt_commands rt) \<and> mwf (rt_commands rt)
   \<and> (\<forall>k l. mget (rt_leases rt) k = Some l \<longrightarrow> lease_ok g rt l)
   \<and> (\<forall>k r. mget (rt_commands rt) k = Some r \<longrightarrow> command_ok rt (cr_Command r))"

lemma runtime_inv_new: "runtime_inv g newMemoryRuntimeState"
  by (simp add: runtime_inv_def newMemoryRuntimeState_def)

lemma runtime_invD:
  assumes "runtime_inv g rt"
  shows "mget (rt_leases rt) k = Some l \<Longrightarrow> lease_LeaseRef l = k"
    and "mget (rt_leases rt) k = Some l \<Longrightarrow> lease_ok g rt l"
    and "mget (rt_commands rt) k' = Some r \<Longrightarrow> cmd_ID (cr_Command r) = k'"
    and "mget (rt_commands rt) k' = Some r \<Longrightarrow> command_ok rt (cr_Command r)"
  using assms mkeyedD[of "cmd_ID \<circ> cr_Command" "rt_commands rt" k' r] mkeyedD[of lease_LeaseRef "rt_leases rt" k l]
  by (simp_all add: runtime_inv_def)

text \<open>Where the graph evolves, the leases stay known.\<close>

lemma lease_known_evolves:
  assumes "lease_known g l" "evolves g g'"
  shows "lease_known g' l"
proof -
  from assms(1) obtain e where e: "mget (gs_endpoints g) (lease_Endpoint l) = Some e" "lease_Generation l \<le> ep_Generation e"
    "lease_Generation l = ep_Generation e \<longrightarrow> lease_BindingRef l = ep_BindingRef e"
    by (auto simp: lease_known_def)
  with assms(2) obtain e' where "mget (gs_endpoints g') (lease_Endpoint l) = Some e'" "endpoint_evolves e e'"
    unfolding evolves_def by meson
  with e show ?thesis by (auto simp: lease_known_def endpoint_evolves_def)
qed

lemma runtime_inv_evolves: "runtime_inv g rt \<Longrightarrow> evolves g g' \<Longrightarrow> runtime_inv g' rt"
  by (auto simp: runtime_inv_def lease_ok_def intro: lease_known_evolves)

lemma runtime_inv_bindings [simp]: "runtime_inv g (rt\<lparr>rt_bindings := bs\<rparr>) = runtime_inv g rt"
  by (simp add: runtime_inv_def lease_ok_def command_ok_def)

lemma runtime_inv_observations [simp]: "runtime_inv g (rt\<lparr>rt_observations := os\<rparr>) = runtime_inv g rt"
  by (simp add: runtime_inv_def lease_ok_def command_ok_def)

section \<open>How the records change\<close>

definition command_extends :: "commandRecord \<Rightarrow> commandRecord \<Rightarrow> bool" where
  "command_extends r r' \<longleftrightarrow> cr_Command r' = cr_Command r \<and> (cr_Quarantined r \<longrightarrow> cr_Quarantined r')
     \<and> (cr_NotExecutable r \<longrightarrow> cr_NotExecutable r') \<and> (cr_Accepted r \<longrightarrow> cr_Accepted r')"

definition lease_extends :: "phaseLease \<Rightarrow> phaseLease \<Rightarrow> bool" where
  "lease_extends l l' \<longleftrightarrow> lease_identity l' = lease_identity l \<and> lease_ExpiresAt l' = lease_ExpiresAt l
     \<and> (lease_State l' = ''active'' \<longrightarrow> lease_State l = ''active'') \<and> (lease_Expired l \<longrightarrow> lease_Expired l')"

definition observation_extends :: "phaseObservation \<Rightarrow> phaseObservation \<Rightarrow> bool" where
  "observation_extends a b \<longleftrightarrow> b = a \<or> b = a\<lparr>ob_Folded := True\<rparr>"

definition log_extends :: "phaseObservation list \<Rightarrow> phaseObservation list \<Rightarrow> bool" where
  "log_extends os os' \<longleftrightarrow> (\<exists>new. \<exists>old. os' = old @ new \<and> list_all2 observation_extends os old)"

definition runtime_extends :: "memoryRuntimeState \<Rightarrow> memoryRuntimeState \<Rightarrow> bool" where
  "runtime_extends rt rt' \<longleftrightarrow>
     (\<forall>k r. mget (rt_commands rt) k = Some r \<longrightarrow> (\<exists>r'. mget (rt_commands rt') k = Some r' \<and> command_extends r r'))
   \<and> (\<forall>k l. mget (rt_leases rt) k = Some l \<longrightarrow> (\<exists>l'. mget (rt_leases rt') k = Some l' \<and> lease_extends l l'))
   \<and> log_extends (rt_observations rt) (rt_observations rt')"

lemma command_extends_refl [simp]: "command_extends r r"
  by (simp add: command_extends_def)

lemma lease_extends_refl [simp]: "lease_extends l l"
  by (simp add: lease_extends_def)

lemma observations_refl: "list_all2 observation_extends os os"
  by (rule list_all2_refl) (simp add: observation_extends_def)

lemma log_extends_append [simp]: "log_extends os (os @ new)"
  unfolding log_extends_def using observations_refl by blast

lemma log_extends_refl [simp]: "log_extends os os"
  using log_extends_append[of os "[]"] by simp

lemma log_extends_trans:
  assumes "log_extends a b" "log_extends b c"
  shows "log_extends a c"
proof -
  obtain old new where b: "b = old @ new" "list_all2 observation_extends a old"
    using assms(1) by (auto simp: log_extends_def)
  obtain old' new' where c: "c = old' @ new'" "list_all2 observation_extends (old @ new) old'"
    using assms(2) b by (auto simp: log_extends_def)
  then obtain o1 o2 where "old' = o1 @ o2" "list_all2 observation_extends old o1"
    by (auto simp: list_all2_append1)
  moreover have "list_all2 observation_extends a o1"
    using b(2) calculation(2) by (rule list_all2_trans[rotated]) (auto simp: observation_extends_def)
  ultimately show ?thesis using c(1) by (auto simp: log_extends_def)
qed

lemma runtime_extends_refl [simp]: "runtime_extends rt rt"
  by (simp add: runtime_extends_def)

lemma runtime_extends_trans:
  assumes "runtime_extends a b" "runtime_extends b c"
  shows "runtime_extends a c"
proof -
  have "command_extends x y \<Longrightarrow> command_extends y z \<Longrightarrow> command_extends x z" for x y z
    by (auto simp: command_extends_def)
  moreover have "lease_extends x y \<Longrightarrow> lease_extends y z \<Longrightarrow> lease_extends x z" for x y z
    by (auto simp: lease_extends_def)
  ultimately show ?thesis
    using assms unfolding runtime_extends_def by (meson log_extends_trans)
qed

lemma runtime_extends_bindings [simp]: "runtime_extends rt (rt\<lparr>rt_bindings := bs\<rparr>)"
  by (simp add: runtime_extends_def)

section \<open>The single changes\<close>

text \<open>What an operation may do to the records in one write; operations are sequences of these.\<close>

definition runtime_ok :: "graphState \<Rightarrow> memoryRuntimeState \<Rightarrow> memoryRuntimeState \<Rightarrow> bool" where
  "runtime_ok g rt rt' \<longleftrightarrow> runtime_inv g rt' \<and> runtime_extends rt rt'"

lemma runtime_ok_refl: "runtime_inv g rt \<Longrightarrow> runtime_ok g rt rt"
  by (simp add: runtime_ok_def)

lemma runtime_ok_trans: "runtime_ok g a b \<Longrightarrow> runtime_ok g b c \<Longrightarrow> runtime_ok g a c"
  by (auto simp: runtime_ok_def intro: runtime_extends_trans)

lemma runtime_ok_then: "runtime_ok g a b \<Longrightarrow> (runtime_inv g b \<Longrightarrow> runtime_ok g b c) \<Longrightarrow> runtime_ok g a c"
  using runtime_ok_trans by (auto simp: runtime_ok_def)

lemma update_command_ok:
  assumes "runtime_inv g rt" "mget (rt_commands rt) k = Some r" "command_extends r r'"
  shows "runtime_ok g rt (putCommand rt k r')"
proof -
  have "cmd_ID (cr_Command r') = k" "command_ok rt (cr_Command r')"
    using assms runtime_invD(3,4)[OF assms(1,2)] by (simp_all add: command_extends_def)
  then have "runtime_inv g (putCommand rt k r')"
    using assms(1) by (auto simp: runtime_inv_def putCommand_def gomap_simps command_ok_def lease_ok_def)
  then show ?thesis
    using assms by (auto simp: runtime_ok_def runtime_extends_def putCommand_def gomap_simps)
qed

lemma update_lease_ok:
  assumes "runtime_inv g rt" "mget (rt_leases rt) k = Some l" "lease_extends l l'"
  shows "runtime_ok g rt (putLease rt k l')"
proof -
  have id: "lease_identity l' = lease_identity l" using assms(3) by (simp add: lease_extends_def)
  then have "lease_LeaseRef l' = k" "lease_ok g rt l'"
    using runtime_invD(1,2)[OF assms(1,2)] by (auto simp: lease_identity_def lease_ok_def lease_known_def)
  moreover have "command_ok (putLease rt k l') c" if "command_ok rt c" for c
    using that assms(2) id by (auto simp: command_ok_def putLease_def gomap_simps)
  ultimately have "runtime_inv g (putLease rt k l')"
    using assms(1) by (auto simp: runtime_inv_def putLease_def gomap_simps lease_ok_def)
  then show ?thesis
    using assms by (auto simp: runtime_ok_def runtime_extends_def putLease_def gomap_simps)
qed

lemma foldFirst_extends: "list_all2 observation_extends os (foldFirst i os)"
  by (induction os) (auto simp: observation_extends_def intro!: list_all2_refl)

lemma fold_observation_ok: "runtime_inv g rt \<Longrightarrow> runtime_ok g rt (markObservationFoldedLocked rt i)"
  unfolding runtime_ok_def markObservationFoldedLocked_def runtime_extends_def log_extends_def
  using foldFirst_extends by auto

lemma add_observation_ok: "runtime_inv g rt \<Longrightarrow> runtime_ok g rt (addObservation rt b)"
  by (simp add: runtime_ok_def addObservation_def runtime_extends_def)

lemma add_command_ok:
  assumes "runtime_inv g rt" "mget (rt_commands rt) (cmd_ID c) = None" "command_ok rt c"
  shows "runtime_ok g rt (putCommand rt (cmd_ID c) (newRecord c))"
proof -
  have "runtime_inv g (putCommand rt (cmd_ID c) (newRecord c))"
    using assms by (auto simp: runtime_inv_def putCommand_def gomap_simps command_ok_def lease_ok_def newRecord_def)
  then show ?thesis
    using assms by (auto simp: runtime_ok_def runtime_extends_def putCommand_def gomap_simps)
qed

section \<open>The contract of a command-store operation\<close>

definition full_inv :: "projectState \<Rightarrow> bool" where
  "full_inv p \<longleftrightarrow> graph_inv (pj_current p) \<and> runtime_inv (pj_current p) (pj_runtime p)"

locale runtime_operation =
  fixes operation :: "projectState \<Rightarrow> 'r \<times> memoryRuntimeState"
    and precondition :: "projectState \<Rightarrow> bool"
  assumes operation_ok: "full_inv p \<Longrightarrow> precondition p \<Longrightarrow> runtime_ok (pj_current p) (pj_runtime p) (snd (operation p))"
begin

lemma operation_inv: "full_inv p \<Longrightarrow> precondition p \<Longrightarrow> full_inv (p\<lparr>pj_runtime := snd (operation p)\<rparr>)"
  using operation_ok[of p] by (simp add: full_inv_def runtime_ok_def)

lemma operation_extends: "full_inv p \<Longrightarrow> precondition p \<Longrightarrow> runtime_extends (pj_runtime p) (snd (operation p))"
  using operation_ok[of p] by (simp add: runtime_ok_def)

end

lemma full_invD: "full_inv p \<Longrightarrow> runtime_inv (pj_current p) (pj_runtime p)"
  by (simp add: full_inv_def)

lemma matchingObservationLease_Inr:
  "matchingObservationLease rt c ob = Inr l \<Longrightarrow> mget (rt_leases rt) (ob_LeaseRef ob) = Some l"
  by (auto simp: matchingObservationLease_def split: if_splits option.splits)

interpretation observed: runtime_operation "markCommandObservedLocked observation" "\<lambda>_. True" for observation
proof
  fix p
  assume "full_inv p"
  note inv = full_invD[OF this]
  have "runtime_ok (pj_current p) (pj_runtime p) (markObservationFoldedLocked
      (putCommand (pj_runtime p) k (r\<lparr>cr_ObservedEventRef := i\<rparr>)) i)"
    if "mget (rt_commands (pj_runtime p)) k = Some r" for k r i
    by (rule runtime_ok_then[OF update_command_ok[OF inv that] fold_observation_ok]) (simp add: command_extends_def)
  then show "runtime_ok (pj_current p) (pj_runtime p) (snd (markCommandObservedLocked observation p))"
    by (auto simp: markCommandObservedLocked_def Let_def runtime_ok_refl[OF inv] split: option.splits sum.splits)
qed

interpretation completed: runtime_operation "completeCommandAndReleaseLeaseLocked observation" "\<lambda>_. True" for observation
proof
  fix p
  assume "full_inv p"
  note inv = full_invD[OF this]
  let ?rt = "pj_runtime p"
  have "runtime_ok (pj_current p) ?rt (markObservationFoldedLocked
      (putLease (putCommand ?rt k (r\<lparr>cr_CompletedEventRef := i\<rparr>)) k' (l\<lparr>lease_State := ''released''\<rparr>)) i)"
    if "mget (rt_commands ?rt) k = Some r" "mget (rt_leases ?rt) k' = Some l" for k r i k' l
  proof -
    let ?rt1 = "putCommand ?rt k (r\<lparr>cr_CompletedEventRef := i\<rparr>)"
    have "runtime_ok (pj_current p) ?rt ?rt1"
      by (rule update_command_ok[OF inv that(1)]) (simp add: command_extends_def)
    moreover have "runtime_ok (pj_current p) ?rt1 (putLease ?rt1 k' (l\<lparr>lease_State := ''released''\<rparr>))"
      if "runtime_inv (pj_current p) ?rt1"
      by (rule update_lease_ok[OF that, of _ l])
        (use \<open>mget (rt_leases ?rt) k' = Some l\<close> in \<open>simp_all add: putCommand_def lease_extends_def lease_identity_def\<close>)
    ultimately show ?thesis by (intro runtime_ok_then[OF _ fold_observation_ok]) (rule runtime_ok_then)
  qed
  then show "runtime_ok (pj_current p) ?rt (snd (completeCommandAndReleaseLeaseLocked observation p))"
    by (auto simp: completeCommandAndReleaseLeaseLocked_def Let_def runtime_ok_refl[OF inv]
        dest: matchingObservationLease_Inr split: option.splits sum.splits)
qed

interpretation appended: runtime_operation "appendObservationLocked observation" "\<lambda>_. True" for observation
proof
  fix p
  assume "full_inv p"
  note inv = full_invD[OF this]
  show "runtime_ok (pj_current p) (pj_runtime p) (snd (appendObservationLocked observation p))"
    using add_observation_ok[OF inv, of observation]
    by (auto simp: appendObservationLocked_def Let_def runtime_ok_refl[OF inv] addObservation_def
        split: option.splits sum.splits)
qed

interpretation orphan: runtime_operation "releaseOrphanLeaseLocked leaseRef" "\<lambda>_. True" for leaseRef
proof
  fix p
  assume "full_inv p"
  note inv = full_invD[OF this]
  then show "runtime_ok (pj_current p) (pj_runtime p) (snd (releaseOrphanLeaseLocked leaseRef p))"
    by (auto simp: releaseOrphanLeaseLocked_def Let_def lease_extends_def lease_identity_def
        intro: runtime_ok_refl update_lease_ok split: option.splits)
qed

interpretation expired: runtime_operation "expireLeaseLocked leaseRef" "\<lambda>_. True" for leaseRef
proof
  fix p
  assume "full_inv p"
  note inv = full_invD[OF this]
  then show "runtime_ok (pj_current p) (pj_runtime p) (snd (expireLeaseLocked leaseRef p))"
    by (auto simp: expireLeaseLocked_def Let_def lease_extends_def lease_identity_def
        intro: runtime_ok_refl update_lease_ok split: option.splits)
qed

text \<open>The flags of a delivery only grow.\<close>

interpretation flagged: runtime_operation "updateCommandLocked commandID f" "\<lambda>_. \<forall>r. command_extends r (f r)" for commandID f
proof
  fix p
  assume "full_inv p" and f: "\<forall>r. command_extends r (f r)"
  note inv = full_invD[OF this(1)]
  then show "runtime_ok (pj_current p) (pj_runtime p) (snd (updateCommandLocked commandID f p))"
    using f by (auto simp: updateCommandLocked_def Let_def intro: runtime_ok_refl update_command_ok split: option.splits)
qed

interpretation dispatch: runtime_operation "recordEndpointDispatchRejectionLocked endpoint generation bindingRef err" "\<lambda>_. True"
  for endpoint generation bindingRef err
proof
  fix p
  assume "full_inv p"
  note inv = full_invD[OF this]
  then show "runtime_ok (pj_current p) (pj_runtime p)
      (snd (recordEndpointDispatchRejectionLocked endpoint generation bindingRef err p))"
    by (simp add: recordEndpointDispatchRejectionLocked_def Let_def runtime_ok_refl add_observation_ok)
qed

lemma releaseRejectedLease_ok: "runtime_inv g rt \<Longrightarrow> runtime_ok g rt (releaseRejectedLease c r rt)"
  by (auto simp: releaseRejectedLease_def lease_extends_def lease_identity_def
      intro: runtime_ok_refl update_lease_ok split: option.splits)

interpretation rejected: runtime_operation "rejectCommandLocked command err" "\<lambda>_. True" for command err
proof
  fix p
  assume "full_inv p"
  note inv = full_invD[OF this]
  let ?rt = "pj_runtime p"
  have "runtime_ok (pj_current p) ?rt (addObservation (releaseRejectedLease command r
      (putCommand ?rt k (r\<lparr>cr_NotExecutable := True, cr_RetryScheduled := False, cr_CompletedEventRef := i\<rparr>))) b)"
    if "mget (rt_commands ?rt) k = Some r" for k r i b
    by (rule runtime_ok_then[OF runtime_ok_then[OF update_command_ok[OF inv that] releaseRejectedLease_ok] add_observation_ok])
      (simp_all add: command_extends_def)
  then show "runtime_ok (pj_current p) ?rt (snd (rejectCommandLocked command err p))"
    by (auto simp: rejectCommandLocked_def Let_def runtime_ok_refl[OF inv] split: option.splits)
qed

interpretation stop: runtime_operation "getOrCreateStopCommandLocked revision lease"
  "\<lambda>p. \<exists>l. mget (rt_leases (pj_runtime p)) (lease_LeaseRef lease) = Some l \<and> lease_identity l = lease_identity lease"
  for revision lease
proof
  fix p
  assume "full_inv p"
    and l: "\<exists>l. mget (rt_leases (pj_runtime p)) (lease_LeaseRef lease) = Some l \<and> lease_identity l = lease_identity lease"
  note inv = full_invD[OF this(1)]
  define c where "c = \<lparr>cmd_ID = stopCommandID (lease_LeaseRef lease), cmd_Endpoint = lease_Endpoint lease,
      cmd_Generation = lease_Generation lease, cmd_BindingRef = lease_BindingRef lease, cmd_LeaseRef = lease_LeaseRef lease,
      cmd_Action = CommandStop, cmd_CauseRef = ''revision://'' @ itoa (uint revision)\<rparr>"
  have "command_ok (pj_runtime p) c" "cmd_ID c = stopCommandID (lease_LeaseRef lease)"
    using l by (auto simp: c_def command_ok_def lease_identity_def command_identity_def)
  then show "runtime_ok (pj_current p) (pj_runtime p) (snd (getOrCreateStopCommandLocked revision lease p))"
    using add_command_ok[OF inv, of c]
    by (auto simp: getOrCreateStopCommandLocked_def Let_def runtime_ok_refl[OF inv] c_def split: option.splits)
qed

section \<open>Claims\<close>

text \<open>Without a run command there is no lease: the lease a claim writes is new.\<close>

lemma no_command_no_lease:
  assumes "runtime_inv g rt" "mget (rt_commands rt) (runCommandID ref gen) = None" "isFixedEndpoint (ref_EndpointID ref)"
  shows "mget (rt_leases rt) (leaseRefOf ref gen) = None"
proof (rule ccontr)
  assume "mget (rt_leases rt) (leaseRefOf ref gen) \<noteq> None"
  then obtain l where l: "mget (rt_leases rt) (leaseRefOf ref gen) = Some l" by auto
  then have "lease_ok g rt l" "lease_LeaseRef l = leaseRefOf ref gen" using runtime_invD[OF assms(1)] by auto
  then show False using assms(2,3) leaseRefOf_inj[of "lease_Endpoint l" "lease_Generation l" ref gen]
    by (auto simp: lease_ok_def)
qed

lemma add_run_ok:
  assumes inv: "runtime_inv g rt" and e: "mget (gs_endpoints g) (ep_Ref e) = Some e" "isFixedEndpoint (ref_EndpointID (ep_Ref e))"
    and new: "mget (rt_commands rt) (runCommandID (ep_Ref e) (ep_Generation e)) = None"
    and action: "action = CommandStart \<or> action = CommandResume"
  shows "runtime_ok g rt (putCommand (putLease rt (leaseRefOf (ep_Ref e) (ep_Generation e)) (runLease now e))
           (runCommandID (ep_Ref e) (ep_Generation e)) (newRecord (runCommand e action cause)))" (is "runtime_ok g rt ?rt'")
proof -
  note fresh = no_command_no_lease[OF inv new e(2)]
  have lease: "lease_ok g ?rt' (runLease now e)"
    using e by (auto simp: lease_ok_def runLease_def lease_known_def putCommand_def gomap_simps)
  have command: "command_ok ?rt' (runCommand e action cause)"
    using action by (auto simp: command_ok_def runCommand_def runLease_def lease_identity_def command_identity_def
        putCommand_def putLease_def gomap_simps isRunCommand_def)
  have old: "lease_ok g rt l \<Longrightarrow> lease_ok g ?rt' l" "command_ok rt c \<Longrightarrow> command_ok ?rt' c" for l c
    using fresh by (auto simp: lease_ok_def command_ok_def putCommand_def putLease_def gomap_simps)
  have ids: "lease_LeaseRef (runLease now e) = leaseRefOf (ep_Ref e) (ep_Generation e)"
    "(cmd_ID \<circ> cr_Command) (newRecord (runCommand e action cause)) = runCommandID (ep_Ref e) (ep_Generation e)"
    "cr_Command (newRecord (runCommand e action cause)) = runCommand e action cause"
    by (simp_all add: runLease_def runCommand_def newRecord_def)
  have m: "rt_leases ?rt' = mput (leaseRefOf (ep_Ref e) (ep_Generation e)) (runLease now e) (rt_leases rt)"
    "rt_commands ?rt' = mput (runCommandID (ep_Ref e) (ep_Generation e)) (newRecord (runCommand e action cause)) (rt_commands rt)"
    "rt_observations ?rt' = rt_observations rt"
    by (simp_all add: putCommand_def putLease_def)
  have "runtime_inv g ?rt'"
    using inv old lease command ids unfolding runtime_inv_def m by (auto simp: gomap_simps split: if_splits)
  moreover have "runtime_extends rt ?rt'"
    unfolding runtime_extends_def m using new fresh by (auto simp: gomap_simps)
  ultimately show ?thesis by (simp add: runtime_ok_def)
qed

text \<open>The conditions under which a claim creates a command.\<close>

lemma claim_cases:
  assumes "claimLeaseAndAppendCommandLocked now revision endpoint action cause p = (r, rt)"
  obtains (same) "rt = pj_runtime p" "\<And>c. r \<noteq> Inr (c, True)"
  | (claimed) "r = Inr (runCommand endpoint action cause, True)" "revision = pj_latest p"
      "endpointRunnableLocked p (ep_Ref endpoint) (ep_Generation endpoint)"
      "mget (rt_commands (pj_runtime p)) (runCommandID (ep_Ref endpoint) (ep_Generation endpoint)) = None"
      "rt = putCommand (putLease (pj_runtime p) (leaseRefOf (ep_Ref endpoint) (ep_Generation endpoint)) (runLease now endpoint))
         (runCommandID (ep_Ref endpoint) (ep_Generation endpoint)) (newRecord (runCommand endpoint action cause))"
proof (cases "CheckExpectedRevision revision (pj_latest p) = None
    \<and> endpointRunnableLocked p (ep_Ref endpoint) (ep_Generation endpoint)
    \<and> \<not> (case mget (rt_leases (pj_runtime p)) (leaseRefOf (ep_Ref endpoint) (ep_Generation endpoint)) of
          Some lease \<Rightarrow> lease_State lease = ''active'' | None \<Rightarrow> False)
    \<and> mget (rt_commands (pj_runtime p)) (runCommandID (ep_Ref endpoint) (ep_Generation endpoint)) = None")
  case True
  then show ?thesis
    using assms by (intro claimed) (auto simp: claimLeaseAndAppendCommandLocked_def Let_def check_simps)
next
  case False
  then have "rt = pj_runtime p \<and> (\<forall>c. r \<noteq> Inr (c, True))"
    using assms unfolding claimLeaseAndAppendCommandLocked_def Let_def by (auto split: if_splits option.splits)
  then show ?thesis by (intro same) auto
qed

definition claim_precondition :: "Revision \<Rightarrow> PhaseEndpoint \<Rightarrow> CommandAction \<Rightarrow> projectState \<Rightarrow> bool" where
  "claim_precondition revision endpoint action p \<longleftrightarrow>
     (action = CommandStart \<or> action = CommandResume)
   \<and> (revision = pj_latest p \<longrightarrow> mget (gs_endpoints (pj_current p)) (ep_Ref endpoint) = Some endpoint)"

lemma graph_inv_fixed: "graph_inv g \<Longrightarrow> mget (gs_endpoints g) k = Some e \<Longrightarrow> isFixedEndpoint (ref_EndpointID (ep_Ref e))"
  by (auto simp: graph_inv_def graph_ok_def validateEndpoint_def validateEndpointRef_def check_simps dest!: mget_mvalues)

interpretation claim: runtime_operation "claimLeaseAndAppendCommandLocked now revision endpoint action causeRef"
  "claim_precondition revision endpoint action" for now revision endpoint action causeRef
proof
  fix p
  assume inv: "full_inv p" and pre: "claim_precondition revision endpoint action p"
  note rt = full_invD[OF inv]
  obtain r rt' where c: "claimLeaseAndAppendCommandLocked now revision endpoint action causeRef p = (r, rt')" by force
  then show "runtime_ok (pj_current p) (pj_runtime p)
      (snd (claimLeaseAndAppendCommandLocked now revision endpoint action causeRef p))"
  proof (cases rule: claim_cases)
    case same
    then show ?thesis using c runtime_ok_refl[OF rt] by simp
  next
    case claimed
    then show ?thesis
      using c add_run_ok[OF rt _ _ claimed(4)] pre inv graph_inv_fixed by (auto simp: claim_precondition_def full_inv_def)
  qed
qed

end
