(* ===== verification/Coordination.thy ===== *)
theory Coordination
  imports Graph_History Lease_Inv
begin

text \<open>
  The coordination store as a system: a step is one call of one operation of the store, in any order
  and on any project. Graph writes come from the Task Manager, the other operations from the graph
  runtime and from the Phase Controller. The two arguments the graph runtime takes from a view it has
  loaded are described as such: a claim names an endpoint as some revision of the project has it, and
  a stop command names a lease of the project.
\<close>

section \<open>Steps\<close>

inductive store_step :: "MemoryStore \<Rightarrow> MemoryStore \<Rightarrow> bool" where
  read_latest: "store_step s (snd (Latest s i))"
| read_snapshot: "store_step s (snd (Snapshot s i revision))"
| replace_pending: "pending_typed subgraph \<Longrightarrow> store_step s (snd (ReplacePending s i subgraph))"
| apply_transition: "store_step s (snd (Transition s i revision transition))"
| apply_decision: "store_step s (snd (TransitionWithDecisionRef s i revision decisionRef transition))"
| load_view: "store_step s (snd (loadRuntimeView ctx now s i))"
| observe: "store_step s (snd (markCommandObserved ctx s i observation))"
| complete: "store_step s (snd (completeCommandAndReleaseLease ctx s i observation))"
| append: "store_step s (snd (appendObservation ctx s i observation))"
| release_orphan: "store_step s (snd (releaseOrphanLease ctx s i leaseRef))"
| expire: "store_step s (snd (expireLease ctx s i leaseRef))"
| stop: "mget (rt_leases (pj_runtime (ensureProject s i))) (lease_LeaseRef lease) = Some l \<Longrightarrow>
     lease_identity l = lease_identity lease \<Longrightarrow>
     store_step s (snd (getOrCreateStopCommand ctx s i revision lease))"
| claim: "mget (pj_history (ensureProject s i)) revision = Some g \<Longrightarrow>
     mget (gs_endpoints g) (ep_Ref endpoint) = Some endpoint \<Longrightarrow> action \<in> {CommandStart, CommandResume} \<Longrightarrow>
     store_step s (snd (claimLeaseAndAppendCommand ctx now s i revision endpoint action causeRef))"
| accept: "store_step s (markCommandAccepted ctx s i commandID)"
| retry: "store_step s (scheduleRetry ctx s i commandID)"
| quarantine: "store_step s (quarantineCommand ctx s i commandID)"
| reject: "store_step s (rejectCommand ctx s i command err)"
| reject_dispatch: "store_step s (recordEndpointDispatchRejection ctx s i endpointRef generation bindingRef err)"
| list_commands: "store_step s (snd (runtimeCommands ctx s i))"
| list_leases: "store_step s (snd (runtimeLeases ctx s i))"

inductive store_reachable :: "MemoryStore \<Rightarrow> bool" where
  initial_store: "store_reachable NewMemoryStore"
| later_store: "store_reachable s \<Longrightarrow> store_step s s' \<Longrightarrow> store_reachable s'"

lemma ensureProject_new [simp]: "ensureProject NewMemoryStore i = newProject"
  by (simp add: ensureProject_def NewMemoryStore_def)

lemma ensureProject_put [simp]: "ensureProject (putProject s i p) j = (if i = j then p else ensureProject s j)"
  by (simp add: ensureProject_def putProject_def gomap_simps)

lemma ensureProject_locked [simp]:
  "ensureProject (snd (lockedProject s i operation)) j =
     (if i = j then (ensureProject s i)\<lparr>pj_runtime := snd (operation (ensureProject s i))\<rparr> else ensureProject s j)"
  by (simp add: lockedProject_def Let_def split_beta)

lemma snd_apfst [simp]: "snd (apfst f x) = snd x"
  by (cases x) simp

section \<open>What a step keeps\<close>

definition system_inv :: "projectState \<Rightarrow> bool" where
  "system_inv p \<longleftrightarrow> project_inv p \<and> runtime_inv (pj_current p) (pj_runtime p)"

definition system_extends :: "projectState \<Rightarrow> projectState \<Rightarrow> bool" where
  "system_extends p q \<longleftrightarrow> evolves (pj_current p) (pj_current q) \<and> runtime_extends (pj_runtime p) (pj_runtime q)
     \<and> (\<forall>r g. mget (pj_history p) r = Some g \<longrightarrow> mget (pj_history q) r = Some g)"

definition system_ok :: "projectState \<Rightarrow> projectState \<Rightarrow> bool" where
  "system_ok p q \<longleftrightarrow> system_inv q \<and> system_extends p q"

lemma system_extends_refl [simp]: "system_extends p p"
  by (simp add: system_extends_def)

lemma system_extends_trans: "system_extends p q \<Longrightarrow> system_extends q r \<Longrightarrow> system_extends p r"
  by (auto simp: system_extends_def intro: evolves_trans runtime_extends_trans)

lemma system_full: "system_inv p \<Longrightarrow> full_inv p"
  by (auto simp: system_inv_def full_inv_def project_inv_def)

lemma system_runtime: "system_inv p \<Longrightarrow> runtime_inv (pj_current p) (pj_runtime p)"
  by (simp add: system_inv_def)

text \<open>Operations on the records, and writes of the graph.\<close>

lemma runtime_system_ok:
  "system_inv p \<Longrightarrow> runtime_ok (pj_current p) (pj_runtime p) rt \<Longrightarrow> system_ok p (p\<lparr>pj_runtime := rt\<rparr>)"
  by (simp add: system_ok_def system_inv_def system_extends_def runtime_ok_def)

definition same_records :: "memoryRuntimeState \<Rightarrow> memoryRuntimeState \<Rightarrow> bool" where
  "same_records rt rt' \<longleftrightarrow> rt_commands rt' = rt_commands rt \<and> rt_leases rt' = rt_leases rt
     \<and> rt_observations rt' = rt_observations rt"

lemma same_records_ok: "same_records rt rt' \<Longrightarrow> runtime_inv g rt \<Longrightarrow> runtime_ok g rt rt'"
  by (auto simp: same_records_def runtime_ok_def runtime_inv_def lease_ok_def command_ok_def runtime_extends_def)

lemma graph_system_ok:
  assumes "system_inv p" "project_inv q" "evolves (pj_current p) (pj_current q)"
    and "\<And>r g. mget (pj_history p) r = Some g \<Longrightarrow> mget (pj_history q) r = Some g"
    and "same_records (pj_runtime p) (pj_runtime q)"
  shows "system_ok p q"
proof -
  have "runtime_ok (pj_current q) (pj_runtime p) (pj_runtime q)"
    using assms by (intro same_records_ok) (auto simp: system_inv_def intro: runtime_inv_evolves)
  then show ?thesis using assms by (auto simp: system_ok_def system_inv_def system_extends_def runtime_ok_def)
qed

lemma replacePending_system_ok:
  assumes inv: "system_inv p" and "pending_typed subgraph" "replacePendingGraph p subgraph = Inr s"
  shows "system_ok p (commitGraph p s)"
proof (rule graph_system_ok[OF inv])
  have p: "project_inv p" using inv by (simp add: system_inv_def)
  show "project_inv (commitGraph p s)" "evolves (pj_current p) (pj_current (commitGraph p s))"
    using p assms(2,3) by (rule pending_write.write_inv pending_write.write_evolves)+
  show "mget (pj_history (commitGraph p s)) r = Some g" if "mget (pj_history p) r = Some g" for r g
    using p assms(3) that by (rule pending_write.write_history)
  show "same_records (pj_runtime p) (pj_runtime (commitGraph p s))" by (simp add: same_records_def commitGraph_def)
qed

lemma transition_system_ok:
  assumes inv: "system_inv p" and t: "transitionGraph p n t = Inr s"
  shows "system_ok p (recordRuntimeBinding (commitGraph p s) t)"
proof (rule graph_system_ok[OF inv])
  have p: "project_inv p" using inv by (simp add: system_inv_def)
  show "project_inv (recordRuntimeBinding (commitGraph p s) t)"
    "evolves (pj_current p) (pj_current (recordRuntimeBinding (commitGraph p s) t))"
    using p t transition_write.write_inv[of p "(n, t)"] transition_write.write_evolves[of p "(n, t)"] by auto
  show "mget (pj_history (recordRuntimeBinding (commitGraph p s) t)) r = Some g" if "mget (pj_history p) r = Some g" for r g
    using p t that transition_write.write_history[of p "(n, t)"] by auto
  show "same_records (pj_runtime p) (pj_runtime (recordRuntimeBinding (commitGraph p s) t))"
    by (simp add: same_records_def recordRuntimeBinding_def Let_def commitGraph_def)
qed

lemma claim_from_history:
  assumes "project_inv p" "mget (pj_history p) revision = Some g" "mget (gs_endpoints g) (ep_Ref e) = Some e"
    "action \<in> {CommandStart, CommandResume}"
  shows "claim_precondition revision e action p"
  using assms by (auto simp: claim_precondition_def project_inv_def)

text \<open>Every step keeps the invariant of every project and only extends what is there.\<close>

lemma system_ok_refl: "system_inv p \<Longrightarrow> system_ok p p"
  by (simp add: system_ok_def)

lemma locked_system_ok:
  assumes "system_inv (ensureProject s i)" "system_inv (ensureProject s j)"
    and "runtime_ok (pj_current (ensureProject s i)) (pj_runtime (ensureProject s i)) (snd (operation (ensureProject s i)))"
  shows "system_ok (ensureProject s j) (ensureProject (snd (lockedProject s i operation)) j)"
  using assms by (auto simp: runtime_system_ok system_ok_refl)

lemmas operation_ok_rules =
  observed.operation_ok completed.operation_ok appended.operation_ok orphan.operation_ok expired.operation_ok
  flagged.operation_ok dispatch.operation_ok rejected.operation_ok stop.operation_ok claim.operation_ok

lemma store_step_ok:
  assumes "store_step s s'" "\<And>i. system_inv (ensureProject s i)"
  shows "system_ok (ensureProject s j) (ensureProject s' j)"
  using assms
proof (induction rule: store_step.induct)
  case (replace_pending subgraph s i)
  then show ?case
    using replacePending_system_ok[of "ensureProject s i" subgraph]
    by (auto simp: ReplacePending_def Let_def system_ok_refl split: sum.splits)
next
  case (apply_transition s i revision transition)
  then show ?case
    using transition_system_ok[of "ensureProject s i" revision transition]
    by (auto simp: Transition_def Let_def system_ok_refl split: sum.splits option.splits)
next
  case (apply_decision s i revision decisionRef transition)
  then show ?case
    using transition_system_ok[of "ensureProject s i" revision transition]
    by (auto simp: TransitionWithDecisionRef_def Transition_def Let_def system_ok_refl split: sum.splits option.splits)
next
  case (claim s i revision g endpoint action ctx now causeRef)
  then have "claim_precondition revision endpoint action (ensureProject s i)"
    by (intro claim_from_history) (auto simp: system_inv_def)
  with claim.prems show ?case
    by (auto simp: claimLeaseAndAppendCommand_def system_ok_refl simp del: ensureProject_locked
        intro!: locked_system_ok operation_ok_rules dest: system_full split: option.splits)
next
  case (stop s i lease l ctx revision)
  then show ?case
    by (auto simp: getOrCreateStopCommand_def system_ok_refl simp del: ensureProject_locked
        intro!: locked_system_ok operation_ok_rules dest: system_full split: option.splits)
qed (auto simp: Latest_def Snapshot_def Let_def loadRuntimeView_def markCommandObserved_def completeCommandAndReleaseLease_def
    appendObservation_def releaseOrphanLease_def expireLease_def markCommandAccepted_def scheduleRetry_def
    quarantineCommand_def rejectCommand_def recordEndpointDispatchRejection_def runtimeCommands_def runtimeLeases_def
    system_ok_refl command_extends_def simp del: ensureProject_locked
    intro!: locked_system_ok operation_ok_rules runtime_ok_refl system_runtime dest: system_full split: option.splits)

lemma system_inv_new: "system_inv newProject"
  by (simp add: system_inv_def project_inv_new) (simp add: newProject_def runtime_inv_new)

lemma store_reachable_inv: "store_reachable s \<Longrightarrow> system_inv (ensureProject s i)"
proof (induction arbitrary: i rule: store_reachable.induct)
  case initial_store
  then show ?case by (simp add: system_inv_new)
next
  case (later_store s s')
  then show ?case using store_step_ok[of s s' i] by (simp add: system_ok_def)
qed

lemma store_reachable_steps: "store_step\<^sup>*\<^sup>* s t \<Longrightarrow> store_reachable s \<Longrightarrow> store_reachable t"
  by (induction rule: rtranclp_induct) (auto intro: later_store)

lemma store_steps_extend:
  "store_step\<^sup>*\<^sup>* s t \<Longrightarrow> store_reachable s \<Longrightarrow> system_extends (ensureProject s i) (ensureProject t i)"
proof (induction rule: rtranclp_induct)
  case (step t u)
  then have "system_ok (ensureProject t i) (ensureProject u i)"
    using store_reachable_inv store_reachable_steps by (intro store_step_ok) blast+
  then show ?case using step by (auto simp: system_ok_def intro: system_extends_trans)
qed simp

end
