(* ===== verification/Store_Properties.thy ===== *)
theory Store_Properties
  imports Coordination
begin

text \<open>
  The properties of the coordination store over all reachable states, and the example they are
  applied to: a project with one task whose three endpoints are pending, and the same project after
  the plan endpoint has been claimed, has reported its output and has been satisfied.
\<close>

section \<open>The example\<close>

definition example_endpoint :: "EndpointID \<Rightarrow> PhaseEndpoint" where
  "example_endpoint i = \<lparr>ep_Ref = mkRef ''build'' i, ep_SpecRef = ''spec'', ep_BindingRef = ''b1'', ep_Generation = 1,
     ep_State = EndpointPending, ep_RunPolicy = RunEnabled\<rparr>"

definition example_subgraph :: PendingSubgraph where
  "example_subgraph = \<lparr>ps_RequestID = ''r1'', ps_BaseRevision = 1,
     ps_Tasks = [\<lparr>task_ID = ''build'', task_ContractRef = ''contract'', task_Outcome = TaskActive\<rparr>],
     ps_Endpoints = map example_endpoint [EndpointPlan, EndpointExecute, EndpointVerify], ps_Edges = [], ps_Blockers = []\<rparr>"

definition example_store :: MemoryStore where
  "example_store = snd (ReplacePending NewMemoryStore ''p'' example_subgraph)"

definition example_claimed :: MemoryStore where
  "example_claimed = snd (claimLeaseAndAppendCommand None 0 example_store ''p'' 2 (example_endpoint EndpointPlan)
     CommandStart ''revision://2'')"

definition example_command :: PhaseCommand where
  "example_command = runCommand (example_endpoint EndpointPlan) CommandStart ''revision://2''"

definition example_output :: phaseObservation where
  "example_output = (case newPhaseObservation phaseObservationOutput example_command '''' False of
     Inr observation \<Rightarrow> observation | Inl _ \<Rightarrow> dispatchRejection '''' '''' zeroRef 0 '''' '''' (Plain ''''))"

definition example_reported :: MemoryStore where
  "example_reported = snd (appendObservation None example_claimed ''p'' example_output)"

definition example_completed :: MemoryStore where
  "example_completed = snd (completeCommandAndReleaseLease None example_reported ''p'' example_output)"

definition example_transition :: "string \<Rightarrow> GraphTransition" where
  "example_transition action = zeroTransition\<lparr>tr_TargetKind := TargetPhaseEndpoint, tr_Endpoint := mkRef ''build'' EndpointPlan,
     tr_Action := action, tr_Generation := 1,
     tr_Result := zeroResult\<lparr>res_Endpoint := mkRef ''build'' EndpointPlan, res_BindingRef := ''b1'', res_OutputRef := ''o1''\<rparr>\<rparr>"

definition example_submitted :: MemoryStore where
  "example_submitted = snd (Transition example_completed ''p'' 2 (example_transition EndpointSubmitted))"

definition example_satisfied :: MemoryStore where
  "example_satisfied = snd (Transition example_submitted ''p'' 3 (example_transition EndpointSatisfied))"

definition example_canceled :: MemoryStore where
  "example_canceled = snd (Transition example_satisfied ''p'' 4
     (zeroTransition\<lparr>tr_TargetKind := TargetTask, tr_TaskID := ''build'', tr_Action := TaskCanceled\<rparr>))"

lemma example_typed: "pending_typed example_subgraph"
  by (simp add: pending_typed_def example_subgraph_def example_endpoint_def is_int64_def)

lemma example_history:
  "mget (pj_history (ensureProject example_store ''p'')) 2 = Some (pj_current (ensureProject example_store ''p''))"
  "mget (gs_endpoints (pj_current (ensureProject example_store ''p''))) (ep_Ref (example_endpoint EndpointPlan))
     = Some (example_endpoint EndpointPlan)"
  by code_simp+

lemma example_steps:
  "store_step NewMemoryStore example_store" "store_step example_store example_claimed"
  "store_step example_claimed example_reported" "store_step example_reported example_completed"
  "store_step example_completed example_submitted" "store_step example_submitted example_satisfied"
  "store_step example_satisfied example_canceled"
  unfolding example_claimed_def example_reported_def example_completed_def example_submitted_def example_satisfied_def
    example_canceled_def
  using store_step.claim[OF example_history] store_step.replace_pending[OF example_typed]
  by (auto simp: example_store_def intro: store_step.intros)

lemma example_reachable:
  "store_reachable example_store" "store_reachable example_claimed" "store_reachable example_reported"
  "store_reachable example_completed" "store_reachable example_submitted" "store_reachable example_satisfied"
  "store_reachable example_canceled"
proof -
  note step = later_store[OF _ example_steps(2)] later_store[OF _ example_steps(3)] later_store[OF _ example_steps(4)]
    later_store[OF _ example_steps(5)] later_store[OF _ example_steps(6)] later_store[OF _ example_steps(7)]
  show 1: "store_reachable example_store" by (rule later_store[OF initial_store example_steps(1)])
  show 2: "store_reachable example_claimed" by (rule step(1)[OF 1])
  show 3: "store_reachable example_reported" by (rule step(2)[OF 2])
  show 4: "store_reachable example_completed" by (rule step(3)[OF 3])
  show 5: "store_reachable example_submitted" by (rule step(4)[OF 4])
  show 6: "store_reachable example_satisfied" by (rule step(5)[OF 5])
  show "store_reachable example_canceled" by (rule step(6)[OF 6])
qed

lemma example_path: "store_step\<^sup>*\<^sup>* example_claimed example_completed" "store_step\<^sup>*\<^sup>* example_completed example_satisfied"
  "store_step\<^sup>*\<^sup>* example_store example_satisfied" "store_step\<^sup>*\<^sup>* example_claimed example_satisfied"
proof -
  show 1: "store_step\<^sup>*\<^sup>* example_claimed example_completed"
    by (rule rtranclp.rtrancl_into_rtrancl[OF r_into_rtranclp[where r = store_step, OF example_steps(3)] example_steps(4)])
  show 2: "store_step\<^sup>*\<^sup>* example_completed example_satisfied"
    by (rule rtranclp.rtrancl_into_rtrancl[OF r_into_rtranclp[where r = store_step, OF example_steps(5)] example_steps(6)])
  show 3: "store_step\<^sup>*\<^sup>* example_claimed example_satisfied" by (rule rtranclp_trans[OF 1 2])
  show "store_step\<^sup>*\<^sup>* example_store example_satisfied" by (rule converse_rtranclp_into_rtranclp[where r = store_step, OF example_steps(2) 3])
qed

section \<open>The graph\<close>

text \<open>
  C1. In every reachable state of the store, the current graph of every project and every graph of its
  history pass \<open>validateGraph\<close>, the phases of the tasks together with the edges form no cycle, and the
  current graph is the one recorded under the latest revision.
\<close>

theorem stored_graphs_valid:
  assumes "store_reachable s"
  shows "validateGraph (pj_current (ensureProject s i)) = None
    \<and> acyclic (set (adjacency (pj_current (ensureProject s i))))
    \<and> mget (pj_history (ensureProject s i)) (pj_latest (ensureProject s i)) = Some (pj_current (ensureProject s i))
    \<and> (\<forall>r g. mget (pj_history (ensureProject s i)) r = Some g \<longrightarrow> validateGraph g = None)"
proof -
  have "project_inv (ensureProject s i)" using store_reachable_inv[OF assms] by (simp add: system_inv_def)
  moreover have "graph_inv g \<Longrightarrow> validateGraph g = None \<and> acyclic (set (adjacency g))" for g
    by (simp add: graph_inv_def validateGraph_iff graph_ok_def)
  ultimately show ?thesis by (auto simp: project_inv_def)
qed

theorem stored_graphs_valid_witness:
  "pj_latest (ensureProject example_satisfied ''p'') = 4
   \<and> length (gs_endpoints (pj_current (ensureProject example_satisfied ''p''))) = 3
   \<and> validateGraph (pj_current (ensureProject example_satisfied ''p'')) = None"
proof (intro conjI)
  show "pj_latest (ensureProject example_satisfied ''p'') = 4" by code_simp
  show "length (gs_endpoints (pj_current (ensureProject example_satisfied ''p''))) = 3" by code_simp
  show "validateGraph (pj_current (ensureProject example_satisfied ''p'')) = None"
    using stored_graphs_valid[OF example_reachable(6), of "''p''"] by simp
qed

text \<open>
  C3. A committed revision never changes: a snapshot of a concrete revision, once returned, is what
  every later read of that revision returns, whatever happens to the store in between.
\<close>

theorem committed_revision_immutable:
  assumes "store_reachable s" "store_step\<^sup>*\<^sup>* s t" "fst (Snapshot s i revision) = Inr snap"
  shows "fst (Snapshot t i revision) = Inr snap"
proof -
  obtain g where "mget (pj_history (ensureProject s i)) revision = Some g" "snap = snapshot g revision"
    "\<not> IsZeroID i" "\<not> IsLatestRead revision"
    using assms(3) by (auto simp: Snapshot_def Let_def split: if_splits option.splits)
  moreover from this have "mget (pj_history (ensureProject t i)) revision = Some g"
    using store_steps_extend[OF assms(2,1)] by (simp add: system_extends_def)
  ultimately show ?thesis by (simp add: Snapshot_def Let_def)
qed

theorem committed_revision_immutable_witness:
  "fst (Snapshot example_store ''p'' 2) = fst (Snapshot example_satisfied ''p'' 2)
   \<and> fst (Snapshot example_satisfied ''p'' 2) \<noteq> fst (Latest example_satisfied ''p'')"
proof
  have "\<not> isl (fst (Snapshot example_store ''p'' 2))" by code_simp
  then obtain snap where snap: "fst (Snapshot example_store ''p'' 2) = Inr snap"
    by (cases "fst (Snapshot example_store ''p'' 2)") auto
  show "fst (Snapshot example_store ''p'' 2) = fst (Snapshot example_satisfied ''p'' 2)"
    using committed_revision_immutable[OF example_reachable(1) example_path(3) snap] snap by simp
  show "fst (Snapshot example_satisfied ''p'' 2) \<noteq> fst (Latest example_satisfied ''p'')" by code_simp
qed

text \<open>
  C18. An endpoint never disappears, its generation never decreases, and within one generation its
  binding and its specification are fixed.
\<close>

theorem binding_fixed_per_generation:
  assumes "store_reachable s" "store_step\<^sup>*\<^sup>* s t" "mget (gs_endpoints (pj_current (ensureProject s i))) ref = Some e"
  shows "\<exists>e'. mget (gs_endpoints (pj_current (ensureProject t i))) ref = Some e' \<and> ep_Generation e \<le> ep_Generation e'
    \<and> (ep_Generation e' = ep_Generation e \<longrightarrow> ep_BindingRef e' = ep_BindingRef e \<and> ep_SpecRef e' = ep_SpecRef e)"
  using store_steps_extend[OF assms(2,1), of i] assms(3)
  by (auto simp: system_extends_def evolves_def endpoint_evolves_def dest!: spec[of _ ref])

theorem binding_fixed_per_generation_witness:
  "\<exists>e'. mget (gs_endpoints (pj_current (ensureProject example_satisfied ''p''))) (ep_Ref (example_endpoint EndpointPlan)) = Some e'
     \<and> 1 \<le> ep_Generation e' \<and> (ep_Generation e' = 1 \<longrightarrow> ep_BindingRef e' = ''b1'' \<and> ep_SpecRef e' = ''spec'')"
  using binding_fixed_per_generation[OF example_reachable(1) example_path(3) example_history(2)]
  by (simp add: example_endpoint_def)

text \<open>
  A task's outcome is decided once: a task that is done, canceled or failed stays so, and the
  contract of a task never changes.
\<close>

theorem task_outcome_final:
  assumes "store_reachable s" "store_step\<^sup>*\<^sup>* s t" "mget (gs_tasks (pj_current (ensureProject s i))) k = Some task"
  shows "\<exists>task'. mget (gs_tasks (pj_current (ensureProject t i))) k = Some task' \<and> task_ContractRef task' = task_ContractRef task
    \<and> (task_Outcome task \<noteq> TaskActive \<longrightarrow> task' = task)"
proof -
  have "evolves (pj_current (ensureProject s i)) (pj_current (ensureProject t i))"
    using store_steps_extend[OF assms(2,1)] by (simp add: system_extends_def)
  then obtain task' where "mget (gs_tasks (pj_current (ensureProject t i))) k = Some task'" "task_evolves task task'"
    using assms(3) unfolding evolves_def by meson
  then show ?thesis by (auto simp: task_evolves_def intro: Task.equality)
qed

theorem task_outcome_final_witness:
  "\<exists>task'. mget (gs_tasks (pj_current (ensureProject example_canceled ''p''))) ''build'' = Some task'
     \<and> task_ContractRef task' = ''contract'' \<and> task_Outcome task' = TaskCanceled"
proof -
  let ?task = "\<lparr>task_ID = ''build'', task_ContractRef = ''contract'', task_Outcome = TaskCanceled\<rparr>"
  have "mget (gs_tasks (pj_current (ensureProject example_canceled ''p''))) ''build'' = Some ?task" by code_simp
  from task_outcome_final[OF example_reachable(7) rtranclp.rtrancl_refl this] show ?thesis by auto
qed

text \<open>
  Phase results are append-only: a result that a project has recorded stays recorded unchanged.
\<close>

theorem results_append_only:
  assumes "store_reachable s" "store_step\<^sup>*\<^sup>* s t" "mget (gs_results (pj_current (ensureProject s i))) k = Some result"
  shows "mget (gs_results (pj_current (ensureProject t i))) k = Some result"
  using store_steps_extend[OF assms(2,1), of i] assms(3) by (simp add: system_extends_def evolves_def)

theorem results_append_only_witness:
  "\<exists>result. mget (gs_results (pj_current (ensureProject example_canceled ''p''))) ''build:plan:1:satisfied'' = Some result
     \<and> res_OutputRef result = ''o1''"
proof -
  let ?r = "\<lparr>res_ID = ''build:plan:1:satisfied'', res_Endpoint = mkRef ''build'' EndpointPlan, res_BindingRef = ''b1'',
     res_OutputRef = ''o1'', res_Verdict = VerdictSatisfied\<rparr>"
  have "mget (gs_results (pj_current (ensureProject example_satisfied ''p''))) ''build:plan:1:satisfied'' = Some ?r" by code_simp
  from results_append_only[OF example_reachable(6) r_into_rtranclp[where r = store_step, OF example_steps(7)] this]
  show ?thesis by auto
qed

section \<open>Writes of the graph\<close>

text \<open>
  C29. A write that names another revision than the latest one, or the unset revision 0, is refused with
  a revision conflict, and no project changes.
\<close>

theorem stale_write_rejected:
  assumes "\<not> IsZeroID i" "n \<noteq> pj_latest (ensureProject s i) \<or> n = LatestRevision"
  shows "(validateTransitionShape t = None \<longrightarrow>
      fst (Transition s i n t) = Inl (RevisionConflict n (pj_latest (ensureProject s i)))
      \<and> ensureProject (snd (Transition s i n t)) j = ensureProject s j)
    \<and> (ps_BaseRevision next = n \<and> \<not> IsZeroID (ps_RequestID next) \<longrightarrow>
      fst (ReplacePending s i next) = Inl (RevisionConflict n (pj_latest (ensureProject s i)))
      \<and> ensureProject (snd (ReplacePending s i next)) j = ensureProject s j)"
proof -
  have c: "CheckExpectedRevision n (pj_latest (ensureProject s i)) = Some (RevisionConflict n (pj_latest (ensureProject s i)))"
    using assms(2) by (auto simp: CheckExpectedRevision_def)
  have "transitionGraph (ensureProject s i) n t = Inl (RevisionConflict n (pj_latest (ensureProject s i)))"
    by (simp add: transitionGraph_def c checked_def)
  moreover have "replacePendingGraph (ensureProject s i) next = Inl (RevisionConflict n (pj_latest (ensureProject s i)))"
    if "ps_BaseRevision next = n"
    by (simp add: replacePendingGraph_def that c checked_def)
  ultimately show ?thesis using assms(1) by (simp add: Transition_def ReplacePending_def Let_def)
qed

theorem stale_write_rejected_witness:
  "ErrorCodeOf (Some (RevisionConflict 2 4)) = CodeRevisionConflict
   \<and> fst (Transition example_satisfied ''p'' 2 (example_transition ''held'')) = Inl (RevisionConflict 2 4)"
proof
  show "ErrorCodeOf (Some (RevisionConflict 2 4)) = CodeRevisionConflict" by code_simp
  have "pj_latest (ensureProject example_satisfied ''p'') = 4" "\<not> IsZeroID ''p''"
    "validateTransitionShape (example_transition ''held'') = None" by code_simp+
  then show "fst (Transition example_satisfied ''p'' 2 (example_transition ''held'')) = Inl (RevisionConflict 2 4)"
    using stale_write_rejected[of "''p''" 2 example_satisfied "example_transition ''held''"] by simp
qed

text \<open>
  A write of the graph that fails, for whatever reason, leaves every project as it was.
\<close>

theorem failed_write_changes_nothing:
  "(fst (Transition s i n t) = Inl e \<longrightarrow> ensureProject (snd (Transition s i n t)) j = ensureProject s j)
   \<and> (fst (ReplacePending s i next) = Inl e' \<longrightarrow> ensureProject (snd (ReplacePending s i next)) j = ensureProject s j)"
  by (auto simp: Transition_def ReplacePending_def Let_def split: sum.splits option.splits)

theorem failed_write_changes_nothing_witness:
  "isl (fst (Transition example_satisfied ''p'' 4 (example_transition EndpointSubmitted)))
   \<and> ensureProject (snd (Transition example_satisfied ''p'' 4 (example_transition EndpointSubmitted))) ''p''
     = ensureProject example_satisfied ''p''"
proof
  show l: "isl (fst (Transition example_satisfied ''p'' 4 (example_transition EndpointSubmitted)))" by code_simp
  then obtain e where "fst (Transition example_satisfied ''p'' 4 (example_transition EndpointSubmitted)) = Inl e"
    by (auto simp: isl_def)
  with failed_write_changes_nothing
  show "ensureProject (snd (Transition example_satisfied ''p'' 4 (example_transition EndpointSubmitted))) ''p''
     = ensureProject example_satisfied ''p''" by blast
qed

text \<open>What a successful transition is: the graph it applies to, and the graph it leads to.\<close>

lemma Transition_Inr:
  assumes "fst (Transition s i n t) = Inr snap"
  shows "transitionGraph (ensureProject s i) n t = Inr (pj_current (ensureProject (snd (Transition s i n t)) i))"
    and "applyTransition (pj_current (ensureProject s i)) t = Inr (pj_current (ensureProject (snd (Transition s i n t)) i))"
    and "n = pj_latest (ensureProject s i)"
proof -
  show *: "transitionGraph (ensureProject s i) n t = Inr (pj_current (ensureProject (snd (Transition s i n t)) i))"
    using assms by (auto simp: Transition_def Let_def commitGraph_def split: if_splits option.splits sum.splits)
  show "applyTransition (pj_current (ensureProject s i)) t = Inr (pj_current (ensureProject (snd (Transition s i n t)) i))"
    "n = pj_latest (ensureProject s i)"
    using transitionGraph_InrD[OF *] by (auto simp: check_simps)
qed

text \<open>
  A verdict needs a submitted endpoint that is not held, and is recorded as exactly one new result
  for the endpoint's current binding: the endpoint takes the verdict as its state, and nothing
  else of the graph changes.
\<close>

theorem verdict_records_result:
  assumes "fst (Transition s i n t) = Inr snap" "tr_TargetKind t = TargetPhaseEndpoint"
    and "tr_Action t = EndpointSatisfied \<or> tr_Action t = EndpointRejected"
  shows "\<exists>e r. mget (gs_endpoints (pj_current (ensureProject s i))) (tr_Endpoint t) = Some e
    \<and> ep_State e = EndpointSubmitted \<and> ep_RunPolicy e \<noteq> RunHeld \<and> ep_Generation e = tr_Generation t
    \<and> res_Endpoint r = ep_Ref e \<and> res_BindingRef r = ep_BindingRef e \<and> res_Verdict r = tr_Action t
    \<and> mget (gs_results (pj_current (ensureProject s i))) (res_ID r) = None
    \<and> pj_current (ensureProject (snd (Transition s i n t)) i) =
        putEndpoint ((pj_current (ensureProject s i))\<lparr>gs_results := mput (res_ID r) r (gs_results (pj_current (ensureProject s i)))\<rparr>)
          (tr_Endpoint t) (e\<lparr>ep_State := tr_Action t\<rparr>)"
proof -
  have "applyEndpointTransition (pj_current (ensureProject s i)) t = Inr (pj_current (ensureProject (snd (Transition s i n t)) i))"
    using Transition_Inr(2)[OF assms(1)] assms(2) by (simp add: applyTransition_def)
  then obtain e s1 e1 where e: "mget (gs_endpoints (pj_current (ensureProject s i))) (tr_Endpoint t) = Some e"
      "ep_Generation e = tr_Generation t"
    and act: "endpointAction (pj_current (ensureProject s i)) e t = Inr (s1, e1)"
    and final: "pj_current (ensureProject (snd (Transition s i n t)) i) = putEndpoint s1 (tr_Endpoint t) e1"
    by (auto simp: applyEndpointTransition_def check_simps split: option.splits if_splits)
  have "requireResultForTransition (pj_current (ensureProject s i)) e t (tr_Action t) = Inr s1"
    and e1: "e1 = e\<lparr>ep_State := tr_Action t\<rparr>" "ep_State e = EndpointSubmitted" "ep_RunPolicy e \<noteq> RunHeld"
    using act assms(3) by (auto simp: endpointAction_def check_simps)
  then show ?thesis using e final by (elim requireResult_cases) auto
qed

theorem verdict_records_result_witness:
  "\<not> isl (fst (Transition example_submitted ''p'' 3 (example_transition EndpointSatisfied)))
   \<and> (\<exists>e. mget (gs_endpoints (pj_current (ensureProject example_submitted ''p''))) (mkRef ''build'' EndpointPlan) = Some e
        \<and> ep_State e = EndpointSubmitted \<and> ep_RunPolicy e \<noteq> RunHeld)"
proof
  show l: "\<not> isl (fst (Transition example_submitted ''p'' 3 (example_transition EndpointSatisfied)))" by code_simp
  then obtain snap where "fst (Transition example_submitted ''p'' 3 (example_transition EndpointSatisfied)) = Inr snap"
    by (cases "fst (Transition example_submitted ''p'' 3 (example_transition EndpointSatisfied))") auto
  from verdict_records_result[OF this]
  show "\<exists>e. mget (gs_endpoints (pj_current (ensureProject example_submitted ''p''))) (mkRef ''build'' EndpointPlan) = Some e
        \<and> ep_State e = EndpointSubmitted \<and> ep_RunPolicy e \<noteq> RunHeld"
    by (auto simp: example_transition_def)
qed

text \<open>
  C6. A task becomes done only while it is active and its verify endpoint is satisfied; the transition
  changes the outcome of that task and nothing else of the graph.
\<close>

theorem done_requires_verify:
  assumes "fst (Transition s i n t) = Inr snap" "tr_TargetKind t = TargetTask" "tr_Action t = TaskDone"
  shows "\<exists>task verify. mget (gs_tasks (pj_current (ensureProject s i))) (tr_TaskID t) = Some task \<and> task_Outcome task = TaskActive
    \<and> mget (gs_endpoints (pj_current (ensureProject s i))) (mkRef (tr_TaskID t) EndpointVerify) = Some verify
    \<and> ep_State verify = EndpointSatisfied
    \<and> pj_current (ensureProject (snd (Transition s i n t)) i) = (pj_current (ensureProject s i))\<lparr>gs_tasks :=
        mput (tr_TaskID t) (task\<lparr>task_Outcome := TaskDone\<rparr>) (gs_tasks (pj_current (ensureProject s i)))\<rparr>"
proof -
  have "applyTaskTransition (pj_current (ensureProject s i)) t = Inr (pj_current (ensureProject (snd (Transition s i n t)) i))"
    using Transition_Inr(2)[OF assms(1)] assms(2) by (simp add: applyTransition_def)
  then show ?thesis
    using assms(3)
    by (auto simp: applyTaskTransition_def requireVerifySatisfied_def checked_Inr first_err_None fail_if_None split: option.splits)
qed

definition example_verified :: MemoryStore where
  "example_verified = putProject NewMemoryStore ''p'' ((ensureProject example_store ''p'')\<lparr>pj_current :=
     putEndpoint (pj_current (ensureProject example_store ''p'')) (mkRef ''build'' EndpointVerify)
       ((example_endpoint EndpointVerify)\<lparr>ep_State := EndpointSatisfied\<rparr>)\<rparr>)"

theorem done_requires_verify_witness:
  "\<not> isl (fst (Transition example_verified ''p'' 2
      (zeroTransition\<lparr>tr_TargetKind := TargetTask, tr_TaskID := ''build'', tr_Action := TaskDone\<rparr>)))
   \<and> (\<exists>task. mget (gs_tasks (pj_current (ensureProject example_verified ''p''))) ''build'' = Some task
        \<and> task_Outcome task = TaskActive)"
proof
  let ?t = "zeroTransition\<lparr>tr_TargetKind := TargetTask, tr_TaskID := ''build'', tr_Action := TaskDone\<rparr>"
  show l: "\<not> isl (fst (Transition example_verified ''p'' 2 ?t))" by code_simp
  then obtain snap where "fst (Transition example_verified ''p'' 2 ?t) = Inr snap"
    by (cases "fst (Transition example_verified ''p'' 2 ?t)") auto
  from done_requires_verify[OF this]
  show "\<exists>task. mget (gs_tasks (pj_current (ensureProject example_verified ''p''))) ''build'' = Some task
        \<and> task_Outcome task = TaskActive" by auto
qed

text \<open>The moves of an endpoint, case by case.\<close>

definition endpoint_move :: "PhaseEndpoint \<Rightarrow> PhaseEndpoint \<Rightarrow> bool" where
  "endpoint_move e e' \<longleftrightarrow>
     ep_Generation e' = ep_Generation e \<and> ep_BindingRef e' = ep_BindingRef e
       \<and> (ep_State e' = ep_State e
          \<or> (ep_State e, ep_State e') \<in> {(EndpointPending, EndpointSubmitted), (EndpointSubmitted, EndpointSatisfied),
               (EndpointSubmitted, EndpointRejected)})
   \<or> ep_Generation e' = int64_inc (ep_Generation e) \<and> ep_BindingRef e' \<noteq> ep_BindingRef e \<and> ep_State e' = EndpointPending"

lemma endpointAction_move: "endpointAction s e t = Inr (s', e') \<Longrightarrow> endpoint_move e e'"
  unfolding endpointAction_def
  by (auto simp: endpoint_move_def nextGeneration_def requireStopEvidence_def checked_Inr and_then_Inr first_err_None fail_if_None
      split: if_splits)

lemma reopenExecutionRound_move:
  assumes "reopenExecutionRound s t = Inr s'" "mget (gs_endpoints s) k = Some e" "mget (gs_endpoints s') k = Some e'"
  shows "endpoint_move e e'"
proof -
  have move: "endpoint_move x (reopenRoundEndpoint x b)" if "requireReopenableRoundEndpoint n x b a = None" for n x b a
    using that by (auto simp: requireReopenableRoundEndpoint_def first_err_None fail_if_None endpoint_move_def reopenRoundEndpoint_def)
  have "endpoint_move e e" by (simp add: endpoint_move_def)
  with assms move show ?thesis
    unfolding reopenExecutionRound_def Let_def
    by (auto simp: checked_Inr first_err_None putEndpoint_def gomap_simps split: option.splits if_splits)
qed

lemma endpointAction_endpoints: "endpointAction s e t = Inr (s', e') \<Longrightarrow> gs_endpoints s' = gs_endpoints s"
  unfolding endpointAction_def
  by (auto simp: checked_Inr and_then_Inr requireResultForTransition_def Let_def split: if_splits)

lemma applyBlockerTransition_endpoints: "applyBlockerTransition s t = Inr s' \<Longrightarrow> gs_endpoints s' = gs_endpoints s"
  by (auto simp: applyBlockerTransition_def Let_def checked_Inr split: option.splits if_splits)

lemma applyTaskTransition_endpoints:
  "applyTaskTransition s t = Inr s' \<Longrightarrow> \<exists>s1. (s1 = s \<or> reopenExecutionRound s t = Inr s1) \<and> gs_endpoints s' = gs_endpoints s1"
  unfolding applyTaskTransition_def Let_def by (auto simp: checked_Inr and_then_Inr split: option.splits if_splits)

lemma applyEndpointTransition_move:
  assumes "applyEndpointTransition s t = Inr s'" "mget (gs_endpoints s) k = Some e" "mget (gs_endpoints s') k = Some e'"
  shows "endpoint_move e e'"
proof -
  obtain e0 s1 e1 where "mget (gs_endpoints s) (tr_Endpoint t) = Some e0" "endpointAction s e0 t = Inr (s1, e1)"
    "s' = putEndpoint s1 (tr_Endpoint t) e1"
    using assms(1) by (auto simp: applyEndpointTransition_def check_simps split: option.splits if_splits)
  moreover have "endpoint_move e e" by (simp add: endpoint_move_def)
  ultimately show ?thesis
    using assms(2,3) endpointAction_move[of s e0 t s1 e1] endpointAction_endpoints[of s e0 t s1 e1]
    by (auto simp: putEndpoint_def gomap_simps split: if_splits)
qed

lemma applyTransition_move:
  assumes "applyTransition s t = Inr s'" "mget (gs_endpoints s) k = Some e" "mget (gs_endpoints s') k = Some e'"
  shows "endpoint_move e e'"
proof -
  have "endpoint_move e e" by (simp add: endpoint_move_def)
  then show ?thesis
    using assms applyEndpointTransition_move[of s t s' k e e'] applyBlockerTransition_endpoints[of s t s']
      applyTaskTransition_endpoints[of s t s'] reopenExecutionRound_move[of s t _ k e e']
    by (auto simp: applyTransition_def split: if_splits)
qed

text \<open>
  C28. A transition moves an endpoint along its state machine: within a generation from pending to
  submitted and from submitted to satisfied or rejected, with the binding unchanged; back to pending
  only with the next generation and another binding.
\<close>

theorem endpoint_state_machine:
  assumes "fst (Transition s i n t) = Inr snap" "mget (gs_endpoints (pj_current (ensureProject s i))) ref = Some e"
    and "mget (gs_endpoints (pj_current (ensureProject (snd (Transition s i n t)) i))) ref = Some e'"
  shows "ep_Generation e' = ep_Generation e \<and> ep_BindingRef e' = ep_BindingRef e
       \<and> (ep_State e' = ep_State e
          \<or> (ep_State e, ep_State e') \<in> {(EndpointPending, EndpointSubmitted), (EndpointSubmitted, EndpointSatisfied),
               (EndpointSubmitted, EndpointRejected)})
   \<or> ep_Generation e' = int64_inc (ep_Generation e) \<and> ep_BindingRef e' \<noteq> ep_BindingRef e \<and> ep_State e' = EndpointPending"
  using applyTransition_move[OF Transition_Inr(2)[OF assms(1)] assms(2,3)] unfolding endpoint_move_def .

theorem endpoint_state_machine_witness:
  "\<exists>e e'. mget (gs_endpoints (pj_current (ensureProject example_submitted ''p''))) (mkRef ''build'' EndpointPlan) = Some e
    \<and> mget (gs_endpoints (pj_current (ensureProject example_satisfied ''p''))) (mkRef ''build'' EndpointPlan) = Some e'
    \<and> ep_State e = EndpointSubmitted \<and> ep_State e' = EndpointSatisfied \<and> ep_Generation e' = ep_Generation e"
proof -
  let ?t = "example_transition EndpointSatisfied"
  let ?e = "(example_endpoint EndpointPlan)\<lparr>ep_State := EndpointSubmitted\<rparr>"
  let ?e' = "(example_endpoint EndpointPlan)\<lparr>ep_State := EndpointSatisfied\<rparr>"
  have 1: "mget (gs_endpoints (pj_current (ensureProject example_submitted ''p''))) (mkRef ''build'' EndpointPlan) = Some ?e"
    by code_simp
  have 2: "mget (gs_endpoints (pj_current (ensureProject example_satisfied ''p''))) (mkRef ''build'' EndpointPlan) = Some ?e'"
    by code_simp
  have "\<not> isl (fst (Transition example_submitted ''p'' 3 ?t))" by code_simp
  then obtain snap where "fst (Transition example_submitted ''p'' 3 ?t) = Inr snap"
    by (cases "fst (Transition example_submitted ''p'' 3 ?t)") auto
  from endpoint_state_machine[OF this 1 2[unfolded example_satisfied_def]] 1 2 show ?thesis
    by (intro exI[of _ ?e] exI[of _ ?e']) auto
qed

end
