(* ===== verification/Lease_Properties.thy ===== *)
theory Lease_Properties
  imports Store_Properties
begin

text \<open>
  The properties of commands and leases over all reachable states of the store: which endpoints are
  run, how often, and what ends a run.
\<close>

section \<open>Which endpoints are claimed\<close>

lemma view_edgeSatisfied:
  "graph_keyed (pj_current p) \<Longrightarrow> edgeSatisfied (newRuntimeView p) edge = completionEdgeSatisfied (pj_current p) edge"
  by (simp add: edgeSatisfied_def completionEdgeSatisfied_def endpointSatisfied_def)

text \<open>The conditions of the code, as conditions on the graph and the leases.\<close>

definition may_run :: "projectState \<Rightarrow> PhaseEndpoint \<Rightarrow> bool" where
  "may_run p e \<longleftrightarrow>
     (\<exists>task. mget (gs_tasks (pj_current p)) (ref_TaskID (ep_Ref e)) = Some task \<and> task_Outcome task = TaskActive)
   \<and> ep_State e = EndpointPending \<and> ep_RunPolicy e = RunEnabled
   \<and> (\<forall>before after. (before, after) \<in> {(EndpointPlan, EndpointExecute), (EndpointExecute, EndpointVerify)} \<longrightarrow>
        ref_EndpointID (ep_Ref e) = after \<longrightarrow>
        (\<exists>e'. mget (gs_endpoints (pj_current p)) (mkRef (ref_TaskID (ep_Ref e)) before) = Some e' \<and> ep_State e' = EndpointSatisfied))
   \<and> (\<forall>edge \<in> set (gs_edges (pj_current p)). edge_To edge = ep_Ref e \<longrightarrow> edge_RequiredBy edge = RequiredByStart \<longrightarrow>
        completionEdgeSatisfied (pj_current p) edge)
   \<and> (\<forall>blocker \<in> set (mvalues (gs_blockers (pj_current p))). bl_Target blocker = ep_Ref e \<longrightarrow>
        bl_RequiredBy blocker = RequiredByStart \<longrightarrow> bl_State blocker \<noteq> BlockerActive \<and> bl_State blocker \<noteq> BlockerDenied)
   \<and> (\<forall>lease \<in> set (mvalues (rt_leases (pj_runtime p))). lease_Endpoint lease = ep_Ref e \<longrightarrow>
        lease_Generation lease = ep_Generation e \<longrightarrow> lease_State lease \<noteq> ''active'')"

lemma isRunnable_may_run:
  assumes "graph_keyed (pj_current p)" "isRunnable (newRuntimeView p) e"
  shows "may_run p e"
proof -
  have "builtinPredecessorSatisfied (newRuntimeView p) (ep_Ref e)" "startEdgesAndBlockersSatisfied (newRuntimeView p) (ep_Ref e)"
    "\<not> hasActiveLease (newRuntimeView p) (ep_Ref e) (ep_Generation e)" "ep_State e = EndpointPending" "ep_RunPolicy e = RunEnabled"
    "\<exists>task. mget (gs_tasks (pj_current p)) (ref_TaskID (ep_Ref e)) = Some task \<and> task_Outcome task = TaskActive"
    using assms by (auto simp: isRunnable_def split: option.splits if_splits)
  then show ?thesis
    using assms(1) unfolding may_run_def
    by (auto simp: builtinPredecessorSatisfied_def startEdgesAndBlockersSatisfied_def hasActiveLease_def endpointSatisfied_def
        list_all_iff list_ex_iff view_edgeSatisfied split: option.splits if_splits)
qed

text \<open>
  C4. A run is claimed only for the endpoint as the latest graph has it, when its task is active, the
  endpoint is pending and enabled, its predecessor phase is satisfied, every start edge into it is
  satisfied, no start blocker on it is active or denied and no lease of its generation is active. The
  claim writes the lease, active and with a deadline one hour ahead, together with its command.
\<close>

theorem claim_only_runnable:
  assumes "store_reachable s"
    and "fst (claimLeaseAndAppendCommand ctx now s i revision endpoint action causeRef) = Inr (command, True)"
  shows "revision = pj_latest (ensureProject s i)
    \<and> (\<exists>e. mget (gs_endpoints (pj_current (ensureProject s i))) (ep_Ref endpoint) = Some e
         \<and> ep_Generation e = ep_Generation endpoint \<and> may_run (ensureProject s i) e)
    \<and> (let rt = pj_runtime (ensureProject (snd (claimLeaseAndAppendCommand ctx now s i revision endpoint action causeRef)) i) in
       mget (rt_leases rt) (cmd_LeaseRef command) = Some (runLease now endpoint)
       \<and> mget (rt_commands rt) (cmd_ID command) = Some (newRecord command)
       \<and> lease_State (runLease now endpoint) = ''active'' \<and> lease_ExpiresAt (runLease now endpoint) = Some (now + 3600000000000))"
proof -
  let ?p = "ensureProject s i"
  have keyed: "graph_keyed (pj_current ?p)"
    using store_reachable_inv[OF assms(1)] by (auto simp: system_inv_def project_inv_def graph_inv_def)
  obtain r rt where c: "claimLeaseAndAppendCommandLocked now revision endpoint action causeRef ?p = (r, rt)" by force
  have claim: "claimLeaseAndAppendCommand ctx now s i revision endpoint action causeRef =
      (r, putProject s i (?p\<lparr>pj_runtime := rt\<rparr>))" "r = Inr (command, True)"
    using assms(2) c by (auto simp: claimLeaseAndAppendCommand_def lockedProject_def Let_def split: option.splits)
  from c show ?thesis
  proof (cases rule: claim_cases)
    case same
    then show ?thesis using claim(2) by blast
  next
    case claimed
    have cmd: "command = runCommand endpoint action causeRef" using claimed(1) claim(2) by simp
    obtain e where "mget (gs_endpoints (pj_current ?p)) (ep_Ref endpoint) = Some e" "ep_Generation e = ep_Generation endpoint"
      "isRunnable (newRuntimeView ?p) e"
      using claimed(3) by (auto simp: endpointRunnableLocked_def split: option.splits if_splits)
    then show ?thesis
      using claimed(2,5) claim isRunnable_may_run[OF keyed]
      by (auto simp: cmd putCommand_def putLease_def gomap_simps Let_def runCommand_def runLease_def leaseDeadline_def defaultPhaseLeaseTTL_def)
  qed
qed

lemma example_claim: "fst (claimLeaseAndAppendCommand None 0 example_store ''p'' 2 (example_endpoint EndpointPlan) CommandStart
    ''revision://2'') = Inr (example_command, True)"
  by code_simp

theorem claim_only_runnable_witness:
  "pj_latest (ensureProject example_store ''p'') = 2
   \<and> (\<exists>e. mget (gs_endpoints (pj_current (ensureProject example_store ''p''))) (ep_Ref (example_endpoint EndpointPlan)) = Some e
         \<and> may_run (ensureProject example_store ''p'') e)"
  using claim_only_runnable[OF example_reachable(1) example_claim] by (auto simp: example_endpoint_def)

section \<open>How often\<close>

text \<open>
  C2. An endpoint is run at most once per generation: after a successful claim, no later claim for
  the same endpoint and generation succeeds, however the store has changed in between.
\<close>

theorem claimed_at_most_once:
  assumes "store_reachable (snd (claimLeaseAndAppendCommand ctx now s i revision endpoint action causeRef))"
    and "fst (claimLeaseAndAppendCommand ctx now s i revision endpoint action causeRef) = Inr (command, True)"
    and "store_step\<^sup>*\<^sup>* (snd (claimLeaseAndAppendCommand ctx now s i revision endpoint action causeRef)) t"
    and "ep_Ref endpoint' = ep_Ref endpoint" "ep_Generation endpoint' = ep_Generation endpoint"
  shows "fst (claimLeaseAndAppendCommand ctx' now' t i revision' endpoint' action' causeRef') \<noteq> Inr (command', True)"
proof
  let ?u = "snd (claimLeaseAndAppendCommand ctx now s i revision endpoint action causeRef)"
  let ?id = "runCommandID (ep_Ref endpoint) (ep_Generation endpoint)"
  assume again: "fst (claimLeaseAndAppendCommand ctx' now' t i revision' endpoint' action' causeRef') = Inr (command', True)"
  have "mget (rt_commands (pj_runtime (ensureProject ?u i))) ?id \<noteq> None"
    using assms(2) by (auto simp: claimLeaseAndAppendCommand_def lockedProject_def Let_def putCommand_def gomap_simps
        elim!: claim_cases split: option.splits prod.splits)
  moreover have "runtime_extends (pj_runtime (ensureProject ?u i)) (pj_runtime (ensureProject t i))"
    using store_steps_extend[OF assms(3,1), of i] by (simp add: system_extends_def)
  ultimately have "mget (rt_commands (pj_runtime (ensureProject t i))) ?id \<noteq> None"
    unfolding runtime_extends_def by (metis option.distinct(1) option.exhaust)
  then show False
    using again assms(4,5) by (auto simp: claimLeaseAndAppendCommand_def lockedProject_def Let_def
        elim!: claim_cases split: option.splits prod.splits)
qed

theorem claimed_at_most_once_witness:
  "\<forall>command. fst (claimLeaseAndAppendCommand None 5 example_completed ''p'' 2 (example_endpoint EndpointPlan) CommandStart ''again'')
     \<noteq> Inr (command, True)"
  using claimed_at_most_once[OF _ example_claim _ refl refl, unfolded example_claimed_def[symmetric],
      OF example_reachable(2) example_path(1)] by blast

text \<open>
  In every reachable state, an endpoint has at most one lease per generation, each lease belongs
  to an endpoint of the graph and never to a generation the endpoint has not reached, and a lease of
  the current generation carries the endpoint's binding.
\<close>

theorem leases_unique_and_known:
  assumes "store_reachable s"
    and "mget (rt_leases (pj_runtime (ensureProject s i))) k = Some lease"
  shows "k = leaseRefOf (lease_Endpoint lease) (lease_Generation lease)
    \<and> (\<forall>k' lease'. mget (rt_leases (pj_runtime (ensureProject s i))) k' = Some lease' \<longrightarrow>
         lease_Endpoint lease' = lease_Endpoint lease \<longrightarrow> lease_Generation lease' = lease_Generation lease \<longrightarrow> lease' = lease)
    \<and> (\<exists>e. mget (gs_endpoints (pj_current (ensureProject s i))) (lease_Endpoint lease) = Some e
         \<and> lease_Generation lease \<le> ep_Generation e
         \<and> (lease_Generation lease = ep_Generation e \<longrightarrow> lease_BindingRef lease = ep_BindingRef e))"
proof -
  have inv: "runtime_inv (pj_current (ensureProject s i)) (pj_runtime (ensureProject s i))"
    using store_reachable_inv[OF assms(1)] by (simp add: system_inv_def)
  note facts = runtime_invD(1,2)[OF inv]
  have key: "k' = leaseRefOf (lease_Endpoint lease') (lease_Generation lease')"
    if "mget (rt_leases (pj_runtime (ensureProject s i))) k' = Some lease'" for k' lease'
    using facts[OF that] by (simp add: lease_ok_def)
  have unique: "lease' = lease" if "mget (rt_leases (pj_runtime (ensureProject s i))) k' = Some lease'"
    "lease_Endpoint lease' = lease_Endpoint lease" "lease_Generation lease' = lease_Generation lease" for k' lease'
    using key[OF that(1)] key[OF assms(2)] that assms(2) by simp
  have "lease_known (pj_current (ensureProject s i)) lease" using facts(2)[OF assms(2)] by (simp add: lease_ok_def)
  then show ?thesis using key[OF assms(2)] unique unfolding lease_known_def by blast
qed

theorem leases_unique_and_known_witness:
  "\<exists>e. mget (gs_endpoints (pj_current (ensureProject example_claimed ''p''))) (mkRef ''build'' EndpointPlan) = Some e
     \<and> 1 \<le> ep_Generation e"
proof -
  have "mget (rt_leases (pj_runtime (ensureProject example_claimed ''p''))) ''lease:build:plan:1''
      = Some (runLease 0 (example_endpoint EndpointPlan))" by code_simp
  from leases_unique_and_known[OF example_reachable(2) this] show ?thesis
    by (auto simp: runLease_def example_endpoint_def)
qed

text \<open>
  In every reachable state, each command is a run command or a stop command of a lease that
  exists, with the lease's endpoint, generation and binding, and there is at most one run command per
  endpoint and generation. So a claim never meets a foreign command under its command id: it returns
  without an error unless its context is done.
\<close>

theorem commands_match_leases:
  assumes "store_reachable s"
    and "mget (rt_commands (pj_runtime (ensureProject s i))) k = Some record"
  shows "(\<exists>lease. mget (rt_leases (pj_runtime (ensureProject s i))) (cmd_LeaseRef (cr_Command record)) = Some lease
      \<and> lease_Endpoint lease = cmd_Endpoint (cr_Command record) \<and> lease_Generation lease = cmd_Generation (cr_Command record)
      \<and> lease_BindingRef lease = cmd_BindingRef (cr_Command record))
    \<and> (\<forall>k' record'. isRunCommand (cr_Command record) \<longrightarrow> isRunCommand (cr_Command record') \<longrightarrow>
         mget (rt_commands (pj_runtime (ensureProject s i))) k' = Some record' \<longrightarrow>
         cmd_Endpoint (cr_Command record') = cmd_Endpoint (cr_Command record) \<longrightarrow>
         cmd_Generation (cr_Command record') = cmd_Generation (cr_Command record) \<longrightarrow> record' = record)
    \<and> (\<exists>result. fst (claimLeaseAndAppendCommand None now s i revision endpoint action causeRef) = Inr result)"
proof -
  let ?rt = "pj_runtime (ensureProject s i)"
  have inv: "runtime_inv (pj_current (ensureProject s i)) ?rt" using store_reachable_inv[OF assms(1)] by (simp add: system_inv_def)
  have run: "k' = runCommandID (cmd_Endpoint (cr_Command r)) (cmd_Generation (cr_Command r))"
    if "mget (rt_commands ?rt) k' = Some r" "isRunCommand (cr_Command r)" for k' r
    using runtime_invD(3,4)[OF inv that(1)] that(2) by (auto simp: command_ok_def isRunCommand_def)
  have "isRunCommand (cr_Command r)" if "mget (rt_commands ?rt) (runCommandID ref gen) = Some r" for r ref gen
    using runtime_invD(3,4)[OF inv that] by (auto simp: command_ok_def)
  then have "\<exists>result. fst (claimLeaseAndAppendCommand None now s i revision endpoint action causeRef) = Inr result"
    by (auto simp: claimLeaseAndAppendCommand_def claimLeaseAndAppendCommandLocked_def lockedProject_def Let_def isRunCommand_def
        split: option.splits)
  moreover have "record' = record" if "isRunCommand (cr_Command record)" "isRunCommand (cr_Command record')"
    "mget (rt_commands ?rt) k' = Some record'" "cmd_Endpoint (cr_Command record') = cmd_Endpoint (cr_Command record)"
    "cmd_Generation (cr_Command record') = cmd_Generation (cr_Command record)" for k' record'
    using run[OF assms(2) that(1)] run[OF that(3,2)] that assms(2) by simp
  moreover have "command_ok ?rt (cr_Command record)" by (rule runtime_invD(4)[OF inv assms(2)])
  then have "\<exists>lease. mget (rt_leases ?rt) (cmd_LeaseRef (cr_Command record)) = Some lease
      \<and> lease_Endpoint lease = cmd_Endpoint (cr_Command record) \<and> lease_Generation lease = cmd_Generation (cr_Command record)
      \<and> lease_BindingRef lease = cmd_BindingRef (cr_Command record)"
    by (auto simp: command_ok_def lease_identity_def command_identity_def)
  ultimately show ?thesis by blast
qed

theorem commands_match_leases_witness:
  "\<exists>result. fst (claimLeaseAndAppendCommand None 7 example_claimed ''p'' 2 (example_endpoint EndpointPlan) CommandStart ''again'')
     = Inr result"
proof -
  have "mget (rt_commands (pj_runtime (ensureProject example_claimed ''p''))) ''cmd:run:build:plan:1''
      = Some (newRecord example_command)" by code_simp
  from commands_match_leases[OF example_reachable(2) this] show ?thesis by blast
qed

section \<open>What ends a run\<close>

text \<open>
  Records are only extended: a command keeps its content, a released lease is never active again,
  a lease keeps its identity and deadline, and the log of observations is append-only except that an
  entry can be marked as folded.
\<close>

theorem runtime_records_extend:
  assumes "store_reachable s" "store_step\<^sup>*\<^sup>* s t"
  shows "(\<forall>k r. mget (rt_commands (pj_runtime (ensureProject s i))) k = Some r \<longrightarrow>
      (\<exists>r'. mget (rt_commands (pj_runtime (ensureProject t i))) k = Some r' \<and> cr_Command r' = cr_Command r))
    \<and> (\<forall>k l. mget (rt_leases (pj_runtime (ensureProject s i))) k = Some l \<longrightarrow>
      (\<exists>l'. mget (rt_leases (pj_runtime (ensureProject t i))) k = Some l' \<and> lease_identity l' = lease_identity l
         \<and> lease_ExpiresAt l' = lease_ExpiresAt l \<and> (lease_State l' = ''active'' \<longrightarrow> lease_State l = ''active'')))
    \<and> (\<exists>old new. rt_observations (pj_runtime (ensureProject t i)) = old @ new
         \<and> list_all2 (\<lambda>a b. b = a \<or> b = a\<lparr>ob_Folded := True\<rparr>) (rt_observations (pj_runtime (ensureProject s i))) old)"
proof -
  have ext: "runtime_extends (pj_runtime (ensureProject s i)) (pj_runtime (ensureProject t i))"
    using store_steps_extend[OF assms(2,1)] by (simp add: system_extends_def)
  have "log_extends (rt_observations (pj_runtime (ensureProject s i))) (rt_observations (pj_runtime (ensureProject t i)))"
    using ext by (simp add: runtime_extends_def)
  moreover have "observation_extends = (\<lambda>a b. b = a \<or> b = a\<lparr>ob_Folded := True\<rparr>)"
    by (auto simp: observation_extends_def fun_eq_iff)
  ultimately have "\<exists>old new. rt_observations (pj_runtime (ensureProject t i)) = old @ new
      \<and> list_all2 (\<lambda>a b. b = a \<or> b = a\<lparr>ob_Folded := True\<rparr>) (rt_observations (pj_runtime (ensureProject s i))) old"
    unfolding log_extends_def by auto
  then show ?thesis
    using ext unfolding runtime_extends_def command_extends_def lease_extends_def by meson
qed

theorem runtime_records_extend_witness:
  "\<exists>l'. mget (rt_leases (pj_runtime (ensureProject example_satisfied ''p''))) ''lease:build:plan:1'' = Some l'
     \<and> lease_State l' \<noteq> ''active''"
proof -
  let ?l = "(runLease 0 (example_endpoint EndpointPlan))\<lparr>lease_State := ''released''\<rparr>"
  have "mget (rt_leases (pj_runtime (ensureProject example_completed ''p''))) ''lease:build:plan:1'' = Some ?l" by code_simp
  with runtime_records_extend[OF example_reachable(4) example_path(2)] show ?thesis by fastforce
qed

lemma foldFirst_find:
  "List.find (\<lambda>b. ob_ID b = i) os = Some b \<Longrightarrow> b\<lparr>ob_Folded := True\<rparr> \<in> set (foldFirst i os)"
  by (induction os) (auto split: if_splits)

text \<open>
  C23. Folding a terminal observation of the log ends the run: the command is completed by it, the
  lease is released, and the endpoint is not runnable in that generation.
\<close>

theorem terminal_observation_ends_run:
  assumes "store_reachable s" "completeCommandAndReleaseLease ctx s i observation = (None, t)"
    and "List.find (\<lambda>b. ob_ID b = ob_ID observation) (rt_observations (pj_runtime (ensureProject s i))) = Some observation"
    and "ob_Kind observation \<in> {phaseObservationOutput, phaseObservationFailed, phaseObservationStopped}"
  shows "(\<exists>record. mget (rt_commands (pj_runtime (ensureProject t i))) (ob_CommandID observation) = Some record
      \<and> cr_CompletedEventRef record = ob_ID observation)
    \<and> (\<exists>lease. mget (rt_leases (pj_runtime (ensureProject t i))) (ob_LeaseRef observation) = Some lease
      \<and> lease_State lease = ''released'' \<and> lease_Endpoint lease = ob_Endpoint observation
      \<and> lease_Generation lease = ob_Generation observation)
    \<and> \<not> endpointRunnableLocked (ensureProject t i) (ob_Endpoint observation) (ob_Generation observation)"
proof -
  let ?rt = "pj_runtime (ensureProject s i)" and ?rt' = "pj_runtime (ensureProject t i)"
  obtain r l where r: "mget (rt_commands ?rt) (ob_CommandID observation) = Some r"
    and l: "matchingObservationLease ?rt (cr_Command r) observation = Inr l"
    and cur: "pj_current (ensureProject t i) = pj_current (ensureProject s i)"
    and t: "?rt' = markObservationFoldedLocked (putLease (putCommand ?rt (ob_CommandID observation)
        (r\<lparr>cr_CompletedEventRef := ob_ID observation\<rparr>)) (ob_LeaseRef observation) (l\<lparr>lease_State := ''released''\<rparr>)) (ob_ID observation)"
    using assms(2) by (auto simp: completeCommandAndReleaseLease_def lockedProject_def Let_def
        completeCommandAndReleaseLeaseLocked_def split: option.splits sum.splits if_splits prod.splits)
  have maps: "mget (rt_commands ?rt') (ob_CommandID observation) = Some (r\<lparr>cr_CompletedEventRef := ob_ID observation\<rparr>)"
    "mget (rt_leases ?rt') (ob_LeaseRef observation) = Some (l\<lparr>lease_State := ''released''\<rparr>)"
    "observation\<lparr>ob_Folded := True\<rparr> \<in> set (rt_observations ?rt')"
    using foldFirst_find[OF assms(3)]
    by (simp_all add: t markObservationFoldedLocked_def putLease_def putCommand_def gomap_simps)
  have match: "observationMatches r l observation" "ob_CommandID observation \<noteq> ''''" "ob_LeaseRef observation \<noteq> ''''"
    "ob_BindingRef observation \<noteq> ''''"
    using l by (auto simp: matchingObservationLease_def observationMatches_def split: if_splits option.splits)
  have "hasTerminalObservation (newRuntimeView (ensureProject t i)) (ob_Endpoint observation) (ob_Generation observation)"
    unfolding hasTerminalObservation_def list_ex_iff view_runtime
    using maps match assms(4)
    by (intro bexI[of _ "observation\<lparr>ob_Folded := True\<rparr>"]) (simp_all add: observationMatches_def)
  then have "\<not> isRunnable (newRuntimeView (ensureProject t i)) e"
    if "ep_Ref e = ob_Endpoint observation" "ep_Generation e = ob_Generation observation" for e
    using that by (auto simp: isRunnable_def split: option.splits)
  moreover have "ep_Ref e = ref" if "mget (gs_endpoints (pj_current (ensureProject t i))) ref = Some e" for e ref
    using that graph_inv_endpoint[of "pj_current (ensureProject s i)" ref e] store_reachable_inv[OF assms(1), of i]
    by (simp add: cur system_inv_def project_inv_def)
  ultimately show ?thesis using maps match by (auto simp: endpointRunnableLocked_def observationMatches_def split: option.splits)
qed

theorem terminal_observation_ends_run_witness:
  "\<exists>lease. mget (rt_leases (pj_runtime (ensureProject example_completed ''p''))) ''lease:build:plan:1'' = Some lease
      \<and> lease_State lease = ''released''"
proof -
  have fold: "completeCommandAndReleaseLease None example_reported ''p'' example_output = (None, example_completed)"
    by (simp add: prod_eq_iff example_completed_def) code_simp
  have found: "List.find (\<lambda>b. ob_ID b = ob_ID example_output) (rt_observations (pj_runtime (ensureProject example_reported ''p'')))
      = Some example_output" by code_simp
  have "ob_Kind example_output \<in> {phaseObservationOutput, phaseObservationFailed, phaseObservationStopped}"
    "ob_LeaseRef example_output = ''lease:build:plan:1''" by code_simp+
  with terminal_observation_ends_run[OF example_reachable(3) fold found] show ?thesis by auto
qed

end
