(* ===== verification/Runtime_Port.thy ===== *)
theory Runtime_Port
  imports Graph_Types Complex_Main
begin

text \<open>
  \<open>internal/coordination/runtime_port.go\<close>: what the graph runtime asks a selection policy, and the
  policy it uses by default. \<open>CostUSD\<close> is a \<open>float64\<close> that the code only compares; a finite one is a
  rational number, and the JSON it is read from has no other. \<open>selection_policy\<close> is the contract the
  runtime relies on; the default policy keeps it here and the scheduler in its own theory.
\<close>

record RuntimeCapacity =
  cap_Desired :: int
  cap_Healthy :: int
  cap_Active :: int
  cap_Revision :: int

record RuntimeBudgetStatus =
  bud_TokensUsed :: int
  bud_CostUSD :: rat
  bud_WallTimeMS :: int
  bud_AgentInvocationsUsed :: int
  bud_RetriesUsed :: int

record RuntimeCandidate =
  can_Endpoint :: PhaseEndpoint
  can_Runnable :: bool
  can_CapacityCost :: int
  can_CapabilityMatched :: bool
  can_LatestMainMergeCandidate :: bool
  can_UnblocksDependents :: bool
  can_WriteConflictRisk :: int
  can_Exploratory :: bool

record RuntimeSelectionRequest =
  req_Candidates :: "RuntimeCandidate list"
  req_Capacity :: RuntimeCapacity
  req_Budget :: RuntimeBudgetStatus

record RuntimeSchedulingState =
  st_Capacity :: RuntimeCapacity
  st_Budget :: RuntimeBudgetStatus

definition zeroBudget :: RuntimeBudgetStatus where
  "zeroBudget = \<lparr>bud_TokensUsed = 0, bud_CostUSD = 0, bud_WallTimeMS = 0, bud_AgentInvocationsUsed = 0, bud_RetriesUsed = 0\<rparr>"

definition zeroCapacity :: RuntimeCapacity where
  "zeroCapacity = \<lparr>cap_Desired = 0, cap_Healthy = 0, cap_Active = 0, cap_Revision = 0\<rparr>"

definition Available :: "RuntimeCapacity \<Rightarrow> int" where
  "Available c =
     (let limit = (if cap_Healthy c < cap_Desired c then cap_Healthy c else cap_Desired c);
          available = int64_wrap (limit - cap_Active c)
      in if available < 0 then 0 else available)"

definition fixedSchedulingState :: RuntimeSchedulingState where
  "fixedSchedulingState = \<lparr>st_Capacity = zeroCapacity\<lparr>cap_Desired := 1, cap_Healthy := 1\<rparr>, st_Budget = zeroBudget\<rparr>"

definition selectRuntimeEndpoints :: "PhaseEndpoint list \<Rightarrow> int \<Rightarrow> PhaseEndpoint list" where
  "selectRuntimeEndpoints candidates capacity =
     (if capacity \<le> 0 \<or> candidates = [] then []
      else if int (length candidates) \<le> capacity then candidates
      else take (nat capacity) candidates)"

definition runtimeCandidates :: "PhaseEndpoint list \<Rightarrow> RuntimeCandidate list" where
  "runtimeCandidates endpoints =
     map (\<lambda>endpoint. \<lparr>can_Endpoint = endpoint, can_Runnable = True, can_CapacityCost = 1, can_CapabilityMatched = True,
        can_LatestMainMergeCandidate = False, can_UnblocksDependents = False, can_WriteConflictRisk = 0, can_Exploratory = False\<rparr>)
     endpoints"

definition runtimeCandidateEndpoints :: "RuntimeCandidate list \<Rightarrow> PhaseEndpoint list" where
  "runtimeCandidateEndpoints candidates = map can_Endpoint (filter can_Runnable candidates)"

definition removeSelectedCandidates :: "RuntimeCandidate list \<Rightarrow> PhaseEndpointRef list \<Rightarrow> RuntimeCandidate list" where
  "removeSelectedCandidates candidates selected = filter (\<lambda>candidate. ep_Ref (can_Endpoint candidate) \<notin> set selected) candidates"

text \<open>The default policy, \<open>fixedCapacitySelectionRuntime.SelectRunnable\<close>.\<close>

definition fixedCapacitySelect :: "RuntimeSelectionRequest \<Rightarrow> goerr + PhaseEndpoint list" where
  "fixedCapacitySelect request =
     Inr (selectRuntimeEndpoints (runtimeCandidateEndpoints (req_Candidates request)) (Available (req_Capacity request)))"

section \<open>The contract of a selection policy\<close>

text \<open>
  The runtime terminates and stays within its capacity because a policy answers with endpoints of
  runnable candidates, and with no more of them than are available.
\<close>

locale selection_policy =
  fixes select :: "RuntimeSelectionRequest \<Rightarrow> goerr + PhaseEndpoint list"
  assumes select_candidates: "select request = Inr selected \<Longrightarrow> set selected \<subseteq> set (runtimeCandidateEndpoints (req_Candidates request))"
    and select_available: "select request = Inr selected \<Longrightarrow> Available (req_Capacity request) < 2 ^ 62 \<Longrightarrow> int (length selected) \<le> Available (req_Capacity request)"
begin

lemma select_shrinks:
  assumes "select request = Inr selected" "selected \<noteq> []"
  shows "length (removeSelectedCandidates (req_Candidates request) (map ep_Ref selected)) < length (req_Candidates request)"
proof -
  obtain e where "e \<in> set selected" using assms(2) by (cases selected) auto
  then obtain c where "c \<in> set (req_Candidates request)" "can_Endpoint c = e"
    using select_candidates[OF assms(1)] by (auto simp: runtimeCandidateEndpoints_def)
  with \<open>e \<in> set selected\<close> show ?thesis
    unfolding removeSelectedCandidates_def by (intro length_filter_less[of c]) auto
qed

end

interpretation fixed_capacity: selection_policy fixedCapacitySelect
proof
  fix request selected
  assume "fixedCapacitySelect request = Inr selected"
  then have sel: "selected = selectRuntimeEndpoints (runtimeCandidateEndpoints (req_Candidates request)) (Available (req_Capacity request))"
    by (simp add: fixedCapacitySelect_def)
  then show "set selected \<subseteq> set (runtimeCandidateEndpoints (req_Candidates request))"
    by (auto simp: selectRuntimeEndpoints_def dest: in_set_takeD)
  have "0 \<le> Available (req_Capacity request)" by (simp add: Available_def Let_def)
  then show "int (length selected) \<le> Available (req_Capacity request)"
    by (simp add: sel selectRuntimeEndpoints_def)
qed

end
