(* ===== verification/Graph_Runtime.thy ===== *)
theory Graph_Runtime
  imports Coordination Runtime_Port
begin

text \<open>
  \<open>internal/coordination/runtime.go\<close>: one reconciliation of a project. It folds the observations, repairs
  commands and leases that do not belong together, creates stop commands, lets the selection policy
  choose among the runnable endpoints, claims them, and delivers the commands. \<open>ctx\<close> is \<open>ctx.Err()\<close> and
  \<open>now\<close> the store's clock, each taken once per reconciliation. The Phase Controller is a parameter that
  may itself use the store while a command is applied; the selection policy and the scheduling state are
  parameters as they are in the code.
\<close>

record graphRuntime =
  gr_projectID :: ProjectID
  gr_phaseController :: "(PhaseCommand \<Rightarrow> MemoryStore \<Rightarrow> goerr option \<times> MemoryStore) option"
  gr_selectionRuntime :: "RuntimeSelectionRequest \<Rightarrow> goerr + PhaseEndpoint list"
  gr_schedulingStateProvider :: "goerr + RuntimeSchedulingState"

definition newGraphRuntime ::
  "ProjectID \<Rightarrow> (PhaseCommand \<Rightarrow> MemoryStore \<Rightarrow> goerr option \<times> MemoryStore) option \<Rightarrow> graphRuntime" where
  "newGraphRuntime projectID controller =
     \<lparr>gr_projectID = projectID, gr_phaseController = controller, gr_selectionRuntime = fixedCapacitySelect,
      gr_schedulingStateProvider = Inr fixedSchedulingState\<rparr>"

text \<open>\<open>NewRuntime\<close>, with the optional parts of its options.\<close>

definition NewRuntime ::
  "ProjectID \<Rightarrow> (PhaseCommand \<Rightarrow> MemoryStore \<Rightarrow> goerr option \<times> MemoryStore) option \<Rightarrow>
   (RuntimeSelectionRequest \<Rightarrow> goerr + PhaseEndpoint list) option \<Rightarrow> (goerr + RuntimeSchedulingState) option \<Rightarrow> goerr + graphRuntime" where
  "NewRuntime projectID controller selection scheduling =
     checked (RequireID ''project_id'' projectID)
     (if controller = None then Inl (Plain ''coordination runtime requires a phase controller'')
      else let r = newGraphRuntime projectID controller;
               r = (case selection of Some f \<Rightarrow> r\<lparr>gr_selectionRuntime := f\<rparr> | None \<Rightarrow> r)
           in Inr (case scheduling of Some f \<Rightarrow> r\<lparr>gr_schedulingStateProvider := f\<rparr> | None \<Rightarrow> r))"

section \<open>Folding and repair\<close>

fun foldEvents :: "goerr option \<Rightarrow> ProjectID \<Rightarrow> phaseObservation list \<Rightarrow> MemoryStore \<Rightarrow> goerr option \<times> MemoryStore" where
  "foldEvents ctx i [] s = (None, s)"
| "foldEvents ctx i (event # events) s =
     (let complete = completeCommandAndReleaseLease ctx s i event;
          continue = (\<lambda>(err, s'). case err of Some e \<Rightarrow> (Some e, s') | None \<Rightarrow> foldEvents ctx i events s')
      in if ob_Kind event = phaseObservationStarted then continue (markCommandObserved ctx s i event)
         else if ob_Kind event = phaseObservationOutput \<or> ob_Kind event = phaseObservationFailed then continue complete
         else if ob_Kind event = phaseObservationStopped then
           (if ob_CheckpointRef event = '''' \<and> \<not> ob_NonResumable event
            then (Some (IncompleteStopEvidence ''stopped observation requires checkpoint_ref or non_resumable''), s)
            else continue complete)
         else foldEvents ctx i events s)"

definition foldObservations ::
  "goerr option \<Rightarrow> int \<Rightarrow> ProjectID \<Rightarrow> runtimeView \<Rightarrow> MemoryStore \<Rightarrow> (goerr + runtimeView) \<times> MemoryStore" where
  "foldObservations ctx now i view s =
     (case foldEvents ctx i (unfoldedObservations view) s of
        (Some e, s') \<Rightarrow> (Inl e, s')
      | (None, s') \<Rightarrow> loadRuntimeView ctx now s' i)"

text \<open>The two loops of \<open>repairDecisionPairs\<close>.\<close>

fun repairLeases :: "goerr option \<Rightarrow> ProjectID \<Rightarrow> phaseLease list \<Rightarrow> runtimeView \<Rightarrow> MemoryStore \<Rightarrow> (goerr + runtimeView) \<times> MemoryStore" where
  "repairLeases ctx i [] view s = (Inr view, s)"
| "repairLeases ctx i (lease # leases) view s =
     (if hasCommandForLease view (lease_LeaseRef lease) then repairLeases ctx i leases view s
      else if hasRemoteObservation view lease then
        (case getOrCreateStopCommand ctx s i (v_revision view) lease of
           (Inl e, s') \<Rightarrow> (Inl e, s')
         | (Inr (command, _), s') \<Rightarrow>
             repairLeases ctx i leases (view\<lparr>v_commands := mput (cmd_ID command) (newRecord command) (v_commands view)\<rparr>) s')
      else
        (case releaseOrphanLease ctx s i (lease_LeaseRef lease) of
           (Some e, s') \<Rightarrow> (Inl e, s')
         | (None, s') \<Rightarrow> repairLeases ctx i leases view s'))"

fun repairCommands :: "goerr option \<Rightarrow> ProjectID \<Rightarrow> runtimeView \<Rightarrow> (string \<times> commandRecord) list \<Rightarrow> MemoryStore \<Rightarrow> MemoryStore" where
  "repairCommands ctx i view [] s = s"
| "repairCommands ctx i view ((commandID, record) # commands) s =
     (if cmd_Action (cr_Command record) = CommandStop \<or> cr_CompletedEventRef record \<noteq> '''' \<or> cr_Quarantined record
         \<or> cr_NotExecutable record
      then repairCommands ctx i view commands s
      else if \<not> hasMatchingActiveLease view (cr_Command record)
      then repairCommands ctx i view commands (quarantineCommand ctx s i commandID)
      else repairCommands ctx i view commands s)"

definition repairDecisionPairs ::
  "goerr option \<Rightarrow> int \<Rightarrow> ProjectID \<Rightarrow> runtimeView \<Rightarrow> MemoryStore \<Rightarrow> (goerr + runtimeView) \<times> MemoryStore" where
  "repairDecisionPairs ctx now i view s =
     (case repairLeases ctx i (activeLeases view) view s of
        (Inl e, s') \<Rightarrow> (Inl e, s')
      | (Inr view', s') \<Rightarrow> loadRuntimeView ctx now (repairCommands ctx i view' (v_commands view') s') i)"

section \<open>Stop commands\<close>

definition schedulingState :: "graphRuntime \<Rightarrow> runtimeView \<Rightarrow> goerr + RuntimeSchedulingState" where
  "schedulingState r view = and_then (gr_schedulingStateProvider r)
     (\<lambda>state. Inr (state\<lparr>st_Capacity := (st_Capacity state)\<lparr>cap_Active := int (length (activeLeases view))\<rparr>\<rparr>))"

definition mustStop :: "runtimeView \<Rightarrow> phaseLease \<Rightarrow> bool" where
  "mustStop view lease =
     (case v_endpoint view (lease_Endpoint lease) of
        None \<Rightarrow> True
      | Some endpoint \<Rightarrow>
          (case v_task view (ref_TaskID (lease_Endpoint lease)) of
             None \<Rightarrow> True
           | Some task \<Rightarrow>
               task_Outcome task \<noteq> TaskActive \<or> ep_RunPolicy endpoint = RunHeld
             \<or> ep_Generation endpoint \<noteq> lease_Generation lease \<or> ep_BindingRef endpoint \<noteq> lease_BindingRef lease
             \<or> leaseExpired view lease))"

fun stopLeases ::
  "goerr option \<Rightarrow> ProjectID \<Rightarrow> phaseLease list \<Rightarrow> runtimeView \<Rightarrow> PhaseCommand list \<Rightarrow> MemoryStore \<Rightarrow>
   (goerr + runtimeView \<times> PhaseCommand list) \<times> MemoryStore" where
  "stopLeases ctx i [] view deliver s = (Inr (view, deliver), s)"
| "stopLeases ctx i (lease # leases) view deliver s =
     (if \<not> mustStop view lease then stopLeases ctx i leases view deliver s
      else case getOrCreateStopCommand ctx s i (v_revision view) lease of
        (Inl e, s') \<Rightarrow> (Inl e, s')
      | (Inr (command, deliverable), s') \<Rightarrow>
          stopLeases ctx i leases (suppressRun view (lease_Endpoint lease) (lease_Generation lease))
            (if deliverable then deliver @ [command] else deliver) s')"

definition pendingDeliveries :: "runtimeView \<Rightarrow> PhaseCommand list" where
  "pendingDeliveries view =
     filter (\<lambda>command. \<not> (cmd_Action command \<noteq> CommandStop \<and> runSuppressed view (cmd_Endpoint command) (cmd_Generation command)))
       (pendingCommands view)"

section \<open>Claims\<close>

definition runnableLess :: "PhaseEndpoint \<Rightarrow> PhaseEndpoint \<Rightarrow> bool" where
  "runnableLess l r =
     (if phaseOrder (ref_EndpointID (ep_Ref l)) = phaseOrder (ref_EndpointID (ep_Ref r))
      then ref_TaskID (ep_Ref l) < ref_TaskID (ep_Ref r)
      else phaseOrder (ref_EndpointID (ep_Ref l)) > phaseOrder (ref_EndpointID (ep_Ref r)))"

definition graphRunnable :: "runtimeView \<Rightarrow> PhaseEndpoint list" where
  "graphRunnable view = sort_by runnableLess (filter (isRunnable view) (v_endpoints view))"

definition claimRun ::
  "goerr option \<Rightarrow> int \<Rightarrow> ProjectID \<Rightarrow> runtimeView \<Rightarrow> PhaseEndpoint \<Rightarrow> MemoryStore \<Rightarrow> (goerr + PhaseCommand \<times> bool) \<times> MemoryStore" where
  "claimRun ctx now i view endpoint s =
     (let binding = v_binding view (ep_BindingRef endpoint);
          claim = (\<lambda>action. claimLeaseAndAppendCommand ctx now s i (v_revision view) endpoint action (revisionRef view))
      in if bi_NonResumable binding then (Inl (kerr CodeStaleCheckpoint ''binding is non-resumable'' True), s)
         else if bi_CheckpointRef binding \<noteq> '''' then
           (if \<not> checkpointCompatible view (ep_BindingRef endpoint) binding
            then (Inl (kerr CodeStaleCheckpoint ''checkpoint is not compatible with binding'' True), s)
            else claim CommandResume)
         else claim CommandStart)"

text \<open>The loop over the selected endpoints; \<open>claimedAny\<close> and the commands to deliver are threaded.\<close>

fun claimSelected ::
  "goerr option \<Rightarrow> int \<Rightarrow> ProjectID \<Rightarrow> runtimeView \<Rightarrow> PhaseEndpoint list \<Rightarrow> bool \<Rightarrow> PhaseCommand list \<Rightarrow> MemoryStore \<Rightarrow>
   (goerr + bool \<times> PhaseCommand list) \<times> MemoryStore" where
  "claimSelected ctx now i view [] claimedAny deliver s = (Inr (claimedAny, deliver), s)"
| "claimSelected ctx now i view (endpoint # endpoints) claimedAny deliver s =
     (case claimRun ctx now i view endpoint s of
        (Inl e, s') \<Rightarrow>
          if IsCode (Some e) CodeStaleCheckpoint then
            claimSelected ctx now i view endpoints claimedAny deliver
              (recordEndpointDispatchRejection ctx s' i (ep_Ref endpoint) (ep_Generation endpoint) (ep_BindingRef endpoint) e)
          else (Inl e, s')
      | (Inr (command, claimed), s') \<Rightarrow>
          claimSelected ctx now i view endpoints (claimedAny \<or> claimed) (if claimed then deliver @ [command] else deliver) s')"

text \<open>The loop over rounds of selection. It is a partial function: a policy that answers with endpoints
  that are no candidates could keep it running.\<close>

partial_function (option) claimRounds ::
  "goerr option \<Rightarrow> int \<Rightarrow> graphRuntime \<Rightarrow> RuntimeSchedulingState \<Rightarrow> runtimeView \<Rightarrow> RuntimeCandidate list \<Rightarrow> PhaseCommand list \<Rightarrow>
   MemoryStore \<Rightarrow> ((goerr + PhaseCommand list) \<times> MemoryStore) option" where
  "claimRounds ctx now r state view candidates deliver s =
     (if candidates = [] then Some (Inr deliver, s)
      else case gr_selectionRuntime r \<lparr>req_Candidates = candidates, req_Capacity = st_Capacity state, req_Budget = st_Budget state\<rparr> of
        Inl e \<Rightarrow> Some (Inl e, s)
      | Inr selected \<Rightarrow>
          if selected = [] then Some (Inr deliver, s)
          else (case claimSelected ctx now (gr_projectID r) view selected False deliver s of
            (Inl e, s') \<Rightarrow> Some (Inl e, s')
          | (Inr (claimedAny, deliver'), s') \<Rightarrow>
              if claimedAny then Some (Inr deliver', s')
              else claimRounds ctx now r state view (removeSelectedCandidates candidates (map ep_Ref selected)) deliver' s'))"

section \<open>Delivery\<close>

definition uniqueByCommandID :: "PhaseCommand list \<Rightarrow> PhaseCommand list" where
  "uniqueByCommandID commands =
     rev (fold (\<lambda>command out. if cmd_ID command \<in> cmd_ID ` set out then out else command # out) commands [])"

definition deliver :: "goerr option \<Rightarrow> graphRuntime \<Rightarrow> PhaseCommand \<Rightarrow> MemoryStore \<Rightarrow> MemoryStore" where
  "deliver ctx r cmd s =
     (case gr_phaseController r of
        None \<Rightarrow> scheduleRetry ctx s (gr_projectID r) (cmd_ID cmd)
      | Some controller \<Rightarrow>
          (case controller cmd s of (err, s') \<Rightarrow>
             (case err of
                None \<Rightarrow> markCommandAccepted ctx s' (gr_projectID r) (cmd_ID cmd)
              | Some e \<Rightarrow>
                  if IsCode err CodeExecutorUnavailable then scheduleRetry ctx s' (gr_projectID r) (cmd_ID cmd)
                  else if IsCode err CodeStaleCommand \<or> IsCode err CodeLeaseConflict then rejectCommand ctx s' (gr_projectID r) cmd e
                  else if IsCode err CodeStaleCheckpoint then rejectCommand ctx s' (gr_projectID r) cmd e
                  else if IsCode err CodeCommandConflict then quarantineCommand ctx s' (gr_projectID r) (cmd_ID cmd)
                  else scheduleRetry ctx s' (gr_projectID r) (cmd_ID cmd))))"

section \<open>Reconciliation\<close>

text \<open>Everything up to the claims: the view they work on, the scheduling state, the deliveries so far.\<close>

definition bindS :: "(goerr + 'a) \<times> MemoryStore \<Rightarrow> ('a \<Rightarrow> MemoryStore \<Rightarrow> (goerr + 'b) \<times> MemoryStore) \<Rightarrow> (goerr + 'b) \<times> MemoryStore" where
  "bindS x f = (case x of (Inl e, s) \<Rightarrow> (Inl e, s) | (Inr a, s) \<Rightarrow> f a s)"

definition prepareReconcile ::
  "goerr option \<Rightarrow> int \<Rightarrow> graphRuntime \<Rightarrow> MemoryStore \<Rightarrow> (goerr + runtimeView \<times> RuntimeSchedulingState \<times> PhaseCommand list) \<times> MemoryStore" where
  "prepareReconcile ctx now r s =
     (let i = gr_projectID r in
      bindS (loadRuntimeView ctx now s i) (\<lambda>view s.
      bindS (foldObservations ctx now i view s) (\<lambda>view s.
      bindS (repairDecisionPairs ctx now i view s) (\<lambda>view s.
      bindS (schedulingState r view, s) (\<lambda>state s.
      bindS (stopLeases ctx i (activeLeases view) view [] s) (\<lambda>(view, commands) s.
        (Inr (view, state, commands @ pendingDeliveries view), s)))))))"

definition reconcile :: "goerr option \<Rightarrow> int \<Rightarrow> graphRuntime \<Rightarrow> MemoryStore \<Rightarrow> (goerr option \<times> MemoryStore) option" where
  "reconcile ctx now r s =
     (case prepareReconcile ctx now r s of
        (Inl e, s) \<Rightarrow> Some (Some e, s)
      | (Inr (view, state, commands), s) \<Rightarrow>
          (case claimRounds ctx now r state view (runtimeCandidates (graphRunnable view)) commands s of
             None \<Rightarrow> None
           | Some (Inl e, s) \<Rightarrow> Some (Some e, s)
           | Some (Inr commands, s) \<Rightarrow> Some (None, fold (deliver ctx r) (uniqueByCommandID commands) s)))"

end
