(* ===== verification/Scheduler.thy ===== *)
theory Scheduler
  imports Runtime_Port
begin

text \<open>
  \<open>internal/scheduler/scheduler.go\<close>: the ledgers of capacity and budget, and the policy that chooses
  which runnable endpoints run next. Go's \<open>int\<close> arithmetic wraps at 64 bits.
\<close>

section \<open>Ledgers\<close>

record BudgetPolicy =
  pol_MaxTokens :: int
  pol_MaxCostUSD :: rat
  pol_MaxWallTimeMS :: int
  pol_MaxAgentInvocations :: int
  pol_MaxRetries :: int
  pol_VerifyLevel :: string
  pol_ExplorationLevel :: string

definition NewCapacityLedger :: "int \<Rightarrow> int \<Rightarrow> RuntimeCapacity" where
  "NewCapacityLedger healthy desired =
     \<lparr>cap_Desired = (if desired < 0 then 0 else desired), cap_Healthy = (if healthy < 0 then 0 else healthy),
      cap_Active = 0, cap_Revision = 1\<rparr>"

definition SetDesired :: "RuntimeCapacity \<Rightarrow> int \<Rightarrow> int \<Rightarrow> (goerr option \<times> RuntimeCapacity) \<times> RuntimeCapacity" where
  "SetDesired l expectedRevision desired =
     (if expectedRevision \<noteq> cap_Revision l then
        ((Some (RevisionConflict (word_of_int expectedRevision) (word_of_int (cap_Revision l))), l), l)
      else if desired < 0 then ((Some (InvalidArgument ''desired concurrency must be zero or greater''), l), l)
      else let l' = l\<lparr>cap_Desired := desired, cap_Revision := int64_inc (cap_Revision l)\<rparr> in ((None, l'), l'))"

definition ObserveCapacity :: "RuntimeCapacity \<Rightarrow> int \<Rightarrow> int \<Rightarrow> (goerr option \<times> RuntimeCapacity) \<times> RuntimeCapacity" where
  "ObserveCapacity l healthy active =
     (if healthy < 0 \<or> active < 0 \<or> active > healthy then
        ((Some (InvalidArgument ''observed capacity requires 0 <= active <= healthy''), l), l)
      else if cap_Healthy l = healthy \<and> cap_Active l = active then ((None, l), l)
      else let l' = l\<lparr>cap_Healthy := healthy, cap_Active := active, cap_Revision := int64_inc (cap_Revision l)\<rparr>
           in ((None, l'), l'))"

definition NewBudgetLedger :: "RuntimeBudgetStatus \<Rightarrow> RuntimeBudgetStatus" where
  "NewBudgetLedger initial = initial"

definition ObserveBudget ::
  "RuntimeBudgetStatus \<Rightarrow> RuntimeBudgetStatus \<Rightarrow> (goerr option \<times> RuntimeBudgetStatus) \<times> RuntimeBudgetStatus" where
  "ObserveBudget l budget =
     (if bud_TokensUsed budget < 0 \<or> bud_CostUSD budget < 0 \<or> bud_WallTimeMS budget < 0
         \<or> bud_AgentInvocationsUsed budget < 0 \<or> bud_RetriesUsed budget < 0
      then ((Some (InvalidArgument ''budget usage cannot be negative''), l), l)
      else ((None, budget), budget))"

text \<open>A provider whose ledgers may be missing.\<close>

definition RuntimeSchedulingStateOf ::
  "goerr option \<Rightarrow> (RuntimeCapacity option \<times> RuntimeBudgetStatus option) option \<Rightarrow> goerr + RuntimeSchedulingState" where
  "RuntimeSchedulingStateOf ctx p =
     (case ctx of Some e \<Rightarrow> Inl e
      | None \<Rightarrow> Inr \<lparr>st_Capacity = (case p of Some (Some capacity, _) \<Rightarrow> capacity | _ \<Rightarrow> zeroCapacity),
                    st_Budget = (case p of Some (_, Some budget) \<Rightarrow> budget | _ \<Rightarrow> zeroBudget)\<rparr>)"

section \<open>Selection\<close>

definition budgetConstrained :: "BudgetPolicy \<Rightarrow> RuntimeBudgetStatus \<Rightarrow> bool" where
  "budgetConstrained policy budget \<longleftrightarrow>
     pol_MaxAgentInvocations policy > 0 \<and> bud_AgentInvocationsUsed budget \<ge> pol_MaxAgentInvocations policy
   \<or> pol_MaxRetries policy > 0 \<and> bud_RetriesUsed budget \<ge> pol_MaxRetries policy
   \<or> pol_MaxTokens policy > 0 \<and> bud_TokensUsed budget \<ge> pol_MaxTokens policy
   \<or> pol_MaxCostUSD policy > 0 \<and> bud_CostUSD budget \<ge> pol_MaxCostUSD policy
   \<or> pol_MaxWallTimeMS policy > 0 \<and> bud_WallTimeMS budget \<ge> pol_MaxWallTimeMS policy"

definition withinBudget :: "BudgetPolicy \<Rightarrow> RuntimeCandidate \<Rightarrow> RuntimeBudgetStatus \<Rightarrow> bool" where
  "withinBudget policy candidate budget =
     (let verify = ref_EndpointID (ep_Ref (can_Endpoint candidate)) = EndpointVerify in
      if pol_MaxAgentInvocations policy > 0 \<and> bud_AgentInvocationsUsed budget \<ge> pol_MaxAgentInvocations policy then verify
      else if pol_MaxRetries policy > 0 \<and> bud_RetriesUsed budget \<ge> pol_MaxRetries policy then verify
      else if pol_MaxTokens policy > 0 \<and> bud_TokensUsed budget \<ge> pol_MaxTokens policy then verify
      else if pol_MaxCostUSD policy > 0 \<and> bud_CostUSD budget \<ge> pol_MaxCostUSD policy then verify
      else if pol_MaxWallTimeMS policy > 0 \<and> bud_WallTimeMS budget \<ge> pol_MaxWallTimeMS policy then verify
      else True)"

definition score :: "RuntimeCandidate \<Rightarrow> BudgetPolicy \<Rightarrow> RuntimeBudgetStatus \<Rightarrow> int" where
  "score candidate policy budget =
     (let phase = ref_EndpointID (ep_Ref (can_Endpoint candidate));
          value = 0 + (if can_LatestMainMergeCandidate candidate then 1000 else 0)
                    + (if can_UnblocksDependents candidate then 700 else 0)
                    + (if phase = EndpointVerify then 600 else if phase = EndpointExecute then 300
                       else if phase = EndpointPlan then 100 else 0)
                    - (if can_Exploratory candidate then 200 else 0)
                    + (if budgetConstrained policy budget \<and> phase = EndpointVerify then 500 else 0)
      in int64_wrap (value - int64_wrap (can_WriteConflictRisk candidate * 25)))"

definition phaseRank :: "EndpointID \<Rightarrow> int" where
  "phaseRank i = (if i = EndpointPlan then 0 else if i = EndpointExecute then 1
                  else if i = EndpointVerify then 2 else 99)"

definition endpointLess :: "PhaseEndpointRef \<Rightarrow> PhaseEndpointRef \<Rightarrow> bool" where
  "endpointLess left right =
     (if ref_TaskID left = ref_TaskID right then phaseRank (ref_EndpointID left) < phaseRank (ref_EndpointID right)
      else ref_TaskID left < ref_TaskID right)"

definition candidateLess :: "BudgetPolicy \<Rightarrow> RuntimeBudgetStatus \<Rightarrow> RuntimeCandidate \<Rightarrow> RuntimeCandidate \<Rightarrow> bool" where
  "candidateLess policy budget l r =
     (let left = score l policy budget; right = score r policy budget
      in if left = right then endpointLess (ep_Ref (can_Endpoint l)) (ep_Ref (can_Endpoint r)) else left > right)"

text \<open>The first loop: what may be considered at all, with a cost of at least one.\<close>

definition normalizeCost :: "RuntimeCandidate \<Rightarrow> RuntimeCandidate" where
  "normalizeCost candidate = (if can_CapacityCost candidate \<le> 0 then candidate\<lparr>can_CapacityCost := 1\<rparr> else candidate)"

definition filterCandidates ::
  "BudgetPolicy \<Rightarrow> int \<Rightarrow> RuntimeBudgetStatus \<Rightarrow> RuntimeCandidate list \<Rightarrow> RuntimeCandidate list" where
  "filterCandidates policy available budget candidates =
     filter (\<lambda>candidate. \<not> can_CapacityCost candidate > available \<and> withinBudget policy candidate budget)
       (map normalizeCost (filter (\<lambda>candidate. can_Runnable candidate \<and> can_CapabilityMatched candidate) candidates))"

text \<open>The second loop: take each candidate that still fits.\<close>

fun takeFitting :: "int \<Rightarrow> int \<Rightarrow> RuntimeCandidate list \<Rightarrow> RuntimeCandidate list" where
  "takeFitting available used [] = []"
| "takeFitting available used (candidate # candidates) =
     (if int64_wrap (used + can_CapacityCost candidate) > available then takeFitting available used candidates
      else candidate # takeFitting available (int64_wrap (used + can_CapacityCost candidate)) candidates)"

definition selectCandidates ::
  "BudgetPolicy \<Rightarrow> RuntimeCandidate list \<Rightarrow> RuntimeCapacity \<Rightarrow> RuntimeBudgetStatus \<Rightarrow> RuntimeCandidate list" where
  "selectCandidates policy candidates capacity budget =
     (let available = Available capacity in
      if available \<le> 0 then []
      else takeFitting available 0
        (sort_by (candidateLess policy budget) (filterCandidates policy available budget candidates)))"

definition Select ::
  "BudgetPolicy \<Rightarrow> RuntimeCandidate list \<Rightarrow> RuntimeCapacity \<Rightarrow> RuntimeBudgetStatus \<Rightarrow> PhaseEndpoint list" where
  "Select policy candidates capacity budget = map can_Endpoint (selectCandidates policy candidates capacity budget)"

definition SelectRunnable :: "BudgetPolicy \<Rightarrow> RuntimeSelectionRequest \<Rightarrow> goerr + PhaseEndpoint list" where
  "SelectRunnable policy request = Inr (Select policy (req_Candidates request) (req_Capacity request) (req_Budget request))"

section \<open>What a selection is\<close>

lemma withinBudget_iff:
  "withinBudget policy candidate budget \<longleftrightarrow>
     (budgetConstrained policy budget \<longrightarrow> ref_EndpointID (ep_Ref (can_Endpoint candidate)) = EndpointVerify)"
  by (auto simp: withinBudget_def budgetConstrained_def Let_def)

definition total_cost :: "RuntimeCandidate list \<Rightarrow> int" where
  "total_cost cs = sum_list (map can_CapacityCost cs)"

lemma takeFitting_subset: "set (takeFitting available used cs) \<subseteq> set cs"
  by (induction cs arbitrary: used) auto

text \<open>With every cost at most the available capacity, and that below \<open>2 ^ 62\<close>, no sum wraps.\<close>

lemma takeFitting_cost:
  assumes "\<forall>c \<in> set cs. 0 < can_CapacityCost c \<and> can_CapacityCost c \<le> available" "0 \<le> used" "used \<le> available" "available < 2 ^ 62"
  shows "used + total_cost (takeFitting available used cs) \<le> available
    \<and> (\<forall>c \<in> set cs. c \<in> set (takeFitting available used cs) \<or> used + total_cost (takeFitting available used cs) + can_CapacityCost c > available)
    \<and> int (length (takeFitting available used cs)) \<le> total_cost (takeFitting available used cs)"
  using assms
proof (induction cs arbitrary: used)
  case Nil
  then show ?case by (simp add: total_cost_def)
next
  case (Cons c cs)
  have w: "int64_wrap (used + can_CapacityCost c) = used + can_CapacityCost c"
    using Cons.prems by (intro int64_wrap_id) (simp add: is_int64_def)
  have pos: "0 \<le> total_cost (takeFitting available u cs)" for u
    using Cons.prems(1) takeFitting_subset[of available u cs]
    unfolding total_cost_def by (intro sum_list_nonneg) force
  show ?case
  proof (cases "used + can_CapacityCost c > available")
    case True
    then have "takeFitting available used (c # cs) = takeFitting available used cs" by (simp add: w)
    moreover note Cons.IH[of used] pos[of used]
    ultimately show ?thesis using Cons.prems True by auto
  next
    case False
    then have "takeFitting available used (c # cs) = c # takeFitting available (used + can_CapacityCost c) cs" by (simp add: w)
    moreover note Cons.IH[of "used + can_CapacityCost c"]
    ultimately show ?thesis using Cons.prems False by (auto simp: total_cost_def add.assoc)
  qed
qed

lemma filterCandidates_cost:
  "c \<in> set (filterCandidates policy available budget candidates) \<Longrightarrow> 0 < can_CapacityCost c \<and> can_CapacityCost c \<le> available"
  by (auto simp: filterCandidates_def normalizeCost_def)

lemma filterCandidates_origin:
  "c \<in> set (filterCandidates policy available budget candidates) \<Longrightarrow>
   \<exists>c0 \<in> set candidates. c = normalizeCost c0 \<and> can_Runnable c0 \<and> can_CapabilityMatched c0 \<and> withinBudget policy c0 budget"
  by (auto simp: filterCandidates_def normalizeCost_def withinBudget_iff)

lemma selectCandidates_subset:
  "set (selectCandidates policy candidates capacity budget) \<subseteq> set (filterCandidates policy (Available capacity) budget candidates)"
proof -
  have "set (takeFitting (Available capacity) 0 cs) \<subseteq> set cs" for cs by (rule takeFitting_subset)
  from this[of "sort_by (candidateLess policy budget) (filterCandidates policy (Available capacity) budget candidates)"]
  show ?thesis by (simp add: selectCandidates_def Let_def)
qed

lemma selectCandidates_facts:
  assumes "Available capacity < 2 ^ 62"
  shows "total_cost (selectCandidates policy candidates capacity budget) \<le> Available capacity"
    and "int (length (selectCandidates policy candidates capacity budget)) \<le> Available capacity"
    and "c \<in> set (filterCandidates policy (Available capacity) budget candidates) \<Longrightarrow>
      c \<in> set (selectCandidates policy candidates capacity budget)
      \<or> total_cost (selectCandidates policy candidates capacity budget) + can_CapacityCost c > Available capacity"
proof -
  let ?cs = "sort_by (candidateLess policy budget) (filterCandidates policy (Available capacity) budget candidates)"
  have nonneg: "0 \<le> Available capacity" by (simp add: Available_def Let_def)
  have cost: "\<forall>c \<in> set ?cs. 0 < can_CapacityCost c \<and> can_CapacityCost c \<le> Available capacity"
    using filterCandidates_cost by auto
  note facts = takeFitting_cost[OF cost _ nonneg assms]
  show "total_cost (selectCandidates policy candidates capacity budget) \<le> Available capacity"
    "int (length (selectCandidates policy candidates capacity budget)) \<le> Available capacity"
    using facts nonneg by (auto simp: selectCandidates_def Let_def total_cost_def)
  show "c \<in> set (selectCandidates policy candidates capacity budget)
      \<or> total_cost (selectCandidates policy candidates capacity budget) + can_CapacityCost c > Available capacity"
    if "c \<in> set (filterCandidates policy (Available capacity) budget candidates)"
    using facts that cost by (cases "Available capacity \<le> 0") (auto simp: selectCandidates_def Let_def total_cost_def)
qed

interpretation scheduled: selection_policy "SelectRunnable policy" for policy
proof
  fix request selected
  assume "SelectRunnable policy request = Inr selected"
  then have sel: "selected = map can_Endpoint (selectCandidates policy (req_Candidates request) (req_Capacity request) (req_Budget request))"
    by (simp add: SelectRunnable_def Select_def)
  have origin: "can_Endpoint c \<in> set (runtimeCandidateEndpoints (req_Candidates request))"
    if "c \<in> set (filterCandidates policy (Available (req_Capacity request)) (req_Budget request) (req_Candidates request))" for c
    using filterCandidates_origin[OF that] by (auto simp: runtimeCandidateEndpoints_def normalizeCost_def)
  show "set selected \<subseteq> set (runtimeCandidateEndpoints (req_Candidates request))"
    using origin selectCandidates_subset[of policy "req_Candidates request" "req_Capacity request" "req_Budget request"]
    by (auto simp: sel)
  show "int (length selected) \<le> Available (req_Capacity request)" if "Available (req_Capacity request) < 2 ^ 62"
    using selectCandidates_facts(2)[OF that] by (simp add: sel)
qed

text \<open>The order of the candidates is a strict weak order, so the stable sort sorts.\<close>

lemma endpointLess_order:
  "asymp endpointLess" "\<not> endpointLess y x \<Longrightarrow> \<not> endpointLess z y \<Longrightarrow> \<not> endpointLess z x"
  by (auto simp: endpointLess_def intro!: asympI split: if_splits)

lemma candidateLess_order:
  "asymp (candidateLess policy budget)"
  "\<not> candidateLess policy budget y x \<Longrightarrow> \<not> candidateLess policy budget z y \<Longrightarrow> \<not> candidateLess policy budget z x"
proof -
  show "asymp (candidateLess policy budget)"
    by (rule asympI) (auto simp: candidateLess_def Let_def dest: asympD[OF endpointLess_order(1)] split: if_splits)
  show "\<not> candidateLess policy budget y x \<Longrightarrow> \<not> candidateLess policy budget z y \<Longrightarrow> \<not> candidateLess policy budget z x"
    using endpointLess_order(2) unfolding candidateLess_def Let_def by (auto split: if_splits)
qed

lemma takeFitting_sorted: "sorted_wrt P cs \<Longrightarrow> sorted_wrt P (takeFitting available used cs)"
  using takeFitting_subset by (induction cs arbitrary: used) (auto, blast)

section \<open>Properties\<close>

definition example_candidate :: "TaskID \<Rightarrow> EndpointID \<Rightarrow> int \<Rightarrow> RuntimeCandidate" where
  "example_candidate t i cost =
     \<lparr>can_Endpoint = \<lparr>ep_Ref = mkRef t i, ep_SpecRef = ''spec'', ep_BindingRef = ''b'', ep_Generation = 1,
        ep_State = EndpointPending, ep_RunPolicy = RunEnabled\<rparr>, can_Runnable = True, can_CapacityCost = cost,
      can_CapabilityMatched = True, can_LatestMainMergeCandidate = False, can_UnblocksDependents = False,
      can_WriteConflictRisk = 0, can_Exploratory = False\<rparr>"

definition example_policy :: BudgetPolicy where
  "example_policy = \<lparr>pol_MaxTokens = 100, pol_MaxCostUSD = 0, pol_MaxWallTimeMS = 0, pol_MaxAgentInvocations = 0,
     pol_MaxRetries = 0, pol_VerifyLevel = ''basic'', pol_ExplorationLevel = ''none''\<rparr>"

text \<open>
  C22. The scheduler answers with endpoints of candidates that are runnable and matched, whose total
  cost fits the available capacity; when any limit of the budget is used up, only verify endpoints are
  among them; and a candidate that passes the filters is left out only where it does not fit any more.
\<close>

theorem selection_fits:
  assumes "Available capacity < 2 ^ 62"
  shows "\<exists>chosen. Select policy candidates capacity budget = map can_Endpoint chosen
    \<and> total_cost chosen \<le> Available capacity
    \<and> (\<forall>c \<in> set chosen. \<exists>c0 \<in> set candidates. c = normalizeCost c0 \<and> can_Runnable c0 \<and> can_CapabilityMatched c0
         \<and> (budgetConstrained policy budget \<longrightarrow> ref_EndpointID (ep_Ref (can_Endpoint c0)) = EndpointVerify))
    \<and> (\<forall>c0 \<in> set candidates. can_Runnable c0 \<and> can_CapabilityMatched c0 \<and> withinBudget policy c0 budget \<longrightarrow>
         normalizeCost c0 \<in> set chosen \<or> total_cost chosen + can_CapacityCost (normalizeCost c0) > Available capacity)"
proof (intro exI conjI ballI impI)
  let ?chosen = "selectCandidates policy candidates capacity budget"
  note facts = selectCandidates_facts[OF assms, where policy = policy and candidates = candidates and budget = budget]
  show "Select policy candidates capacity budget = map can_Endpoint ?chosen" by (simp add: Select_def)
  show "total_cost ?chosen \<le> Available capacity" by (rule facts(1))
  show "\<exists>c0 \<in> set candidates. c = normalizeCost c0 \<and> can_Runnable c0 \<and> can_CapabilityMatched c0
         \<and> (budgetConstrained policy budget \<longrightarrow> ref_EndpointID (ep_Ref (can_Endpoint c0)) = EndpointVerify)"
    if "c \<in> set ?chosen" for c
    using filterCandidates_origin[OF subsetD[OF selectCandidates_subset that]] by (simp add: withinBudget_iff)
  fix c0
  assume c0: "c0 \<in> set candidates" "can_Runnable c0 \<and> can_CapabilityMatched c0 \<and> withinBudget policy c0 budget"
  show "normalizeCost c0 \<in> set ?chosen \<or> total_cost ?chosen + can_CapacityCost (normalizeCost c0) > Available capacity"
  proof (cases "can_CapacityCost (normalizeCost c0) > Available capacity")
    case True
    have "0 \<le> total_cost ?chosen"
      unfolding total_cost_def using selectCandidates_subset filterCandidates_cost by (intro sum_list_nonneg) force
    with True show ?thesis by simp
  next
    case False
    then have "normalizeCost c0 \<in> set (filterCandidates policy (Available capacity) budget candidates)"
      using c0 by (auto simp: filterCandidates_def withinBudget_iff normalizeCost_def)
    then show ?thesis by (rule facts(3))
  qed
qed

theorem selection_fits_witness:
  "\<exists>chosen. Select example_policy [example_candidate ''a'' EndpointPlan 0, example_candidate ''b'' EndpointVerify 1]
      (zeroCapacity\<lparr>cap_Desired := 1, cap_Healthy := 1\<rparr>) (zeroBudget\<lparr>bud_TokensUsed := 100\<rparr>) = map can_Endpoint chosen
    \<and> total_cost chosen \<le> 1"
proof -
  have "Available (zeroCapacity\<lparr>cap_Desired := 1, cap_Healthy := 1\<rparr>) = 1" by code_simp
  with selection_fits[of "zeroCapacity\<lparr>cap_Desired := 1, cap_Healthy := 1\<rparr>" example_policy
      "[example_candidate ''a'' EndpointPlan 0, example_candidate ''b'' EndpointVerify 1]" "zeroBudget\<lparr>bud_TokensUsed := 100\<rparr>"]
  show ?thesis by auto
qed

text \<open>
  The scheduler's answer is in order of priority: no endpoint stands behind one of a lower score,
  and equal scores are ordered by task and phase.
\<close>

theorem selection_by_priority:
  "\<exists>chosen. Select policy candidates capacity budget = map can_Endpoint chosen
    \<and> sorted_wrt (\<lambda>c d. score d policy budget < score c policy budget
        \<or> score d policy budget = score c policy budget
          \<and> \<not> endpointLess (ep_Ref (can_Endpoint d)) (ep_Ref (can_Endpoint c))) chosen"
proof (intro exI conjI)
  show "Select policy candidates capacity budget = map can_Endpoint (selectCandidates policy candidates capacity budget)"
    by (simp add: Select_def)
  have "sorted_wrt (\<lambda>c d. \<not> candidateLess policy budget d c) (selectCandidates policy candidates capacity budget)"
    using sorted_sort_by[OF candidateLess_order] by (auto simp: selectCandidates_def Let_def intro: takeFitting_sorted)
  then show "sorted_wrt (\<lambda>c d. score d policy budget < score c policy budget
        \<or> score d policy budget = score c policy budget \<and> \<not> endpointLess (ep_Ref (can_Endpoint d)) (ep_Ref (can_Endpoint c)))
      (selectCandidates policy candidates capacity budget)"
    by (rule sorted_wrt_mono_rel[rotated]) (auto simp: candidateLess_def Let_def split: if_splits)
qed

definition ledger_ok :: "RuntimeCapacity \<Rightarrow> bool" where
  "ledger_ok l \<longleftrightarrow> 0 \<le> cap_Desired l \<and> 0 \<le> cap_Active l \<and> cap_Active l \<le> cap_Healthy l"

text \<open>
  The capacity ledger keeps its numbers in range: from \<open>NewCapacityLedger\<close> on, whatever \<open>SetDesired\<close>
  and \<open>Observe\<close> are called with, no number is negative and no more invocations are active than are
  healthy; a call that reports an error leaves the ledger as it was.
\<close>

theorem capacity_ledger_in_range:
  "ledger_ok (NewCapacityLedger healthy desired)
   \<and> (ledger_ok l \<longrightarrow> ledger_ok (snd (SetDesired l n d)) \<and> ledger_ok (snd (ObserveCapacity l h a)))
   \<and> (fst (fst (SetDesired l n d)) \<noteq> None \<longrightarrow> snd (SetDesired l n d) = l)
   \<and> (fst (fst (ObserveCapacity l h a)) \<noteq> None \<longrightarrow> snd (ObserveCapacity l h a) = l)"
  by (auto simp: ledger_ok_def NewCapacityLedger_def SetDesired_def ObserveCapacity_def Let_def)

theorem capacity_ledger_in_range_witness:
  "ledger_ok (NewCapacityLedger 2 3) \<and> ledger_ok (snd (ObserveCapacity (NewCapacityLedger 2 3) 2 1))"
  using capacity_ledger_in_range[of 2 3 "NewCapacityLedger 2 3" 0 0 2 1] by simp

end
