(* ===== verification/Runtime_Properties.thy ===== *)
theory Runtime_Properties
  imports Graph_Runtime Lease_Properties Scheduler
begin

text \<open>
  Reconciliation against the store: it is a sequence of store steps, so it keeps all that the store
  keeps; it returns for every selection policy that keeps its contract; and its claims stay within the
  capacity it was given.
\<close>

section \<open>What a view is\<close>

text \<open>A lease a view shows is a lease of the project, and its endpoints are those of a committed revision.\<close>

definition lease_of :: "MemoryStore \<Rightarrow> ProjectID \<Rightarrow> phaseLease \<Rightarrow> bool" where
  "lease_of s i lease \<longleftrightarrow> (\<exists>l. mget (rt_leases (pj_runtime (ensureProject s i))) (lease_LeaseRef lease) = Some l
     \<and> lease_identity l = lease_identity lease)"

definition view_of :: "MemoryStore \<Rightarrow> ProjectID \<Rightarrow> runtimeView \<Rightarrow> bool" where
  "view_of s i v \<longleftrightarrow> (\<forall>lease \<in> set (mvalues (v_leases v)). lease_of s i lease)
     \<and> (\<exists>g. mget (pj_history (ensureProject s i)) (v_revision v) = Some g
          \<and> (\<forall>e \<in> set (v_endpoints v). mget (gs_endpoints g) (ep_Ref e) = Some e))"

lemma lease_of_steps: "store_reachable s \<Longrightarrow> store_step\<^sup>*\<^sup>* s t \<Longrightarrow> lease_of s i lease \<Longrightarrow> lease_of t i lease"
  using store_steps_extend[of s t i]
  by (auto simp: lease_of_def system_extends_def runtime_extends_def lease_extends_def) metis

lemma view_of_steps: "store_reachable s \<Longrightarrow> store_step\<^sup>*\<^sup>* s t \<Longrightarrow> view_of s i v \<Longrightarrow> view_of t i v"
  using lease_of_steps store_steps_extend[of s t i] unfolding view_of_def system_extends_def by meson

lemma view_of_update [simp]:
  "view_of s i (v\<lparr>v_commands := cs\<rparr>) = view_of s i v" "view_of s i (suppressRun v ref gen) = view_of s i v"
  by (simp_all add: view_of_def suppressRun_def)

lemma active_lease_of: "view_of s i v \<Longrightarrow> lease \<in> set (activeLeases v) \<Longrightarrow> lease_of s i lease"
  by (auto simp: view_of_def activeLeases_def)

lemma loadRuntimeView_view:
  assumes "store_reachable s" "loadRuntimeView ctx now s i = (Inr v, t)"
  shows "view_of t i v" "store_step s t"
    and "map lease_State (mvalues (v_leases v)) = map lease_State (mvalues (rt_leases (pj_runtime (ensureProject t i))))"
proof -
  let ?p = "ensureProject s i"
  have inv: "system_inv ?p" by (rule store_reachable_inv[OF assms(1)])
  have t: "t = snd (loadRuntimeView ctx now s i)" using assms(2) by simp
  show "store_step s t" unfolding t by (rule store_step.load_view)
  have v: "v = (newRuntimeView ?p)\<lparr>v_leases := map (\<lambda>(ref, lease). (ref, refreshLease now lease)) (rt_leases (pj_runtime ?p))\<rparr>"
    and p: "ensureProject t i = ?p"
    using assms(2) by (auto simp: loadRuntimeView_def lockedProject_def Let_def split: option.splits)
  show "map lease_State (mvalues (v_leases v)) = map lease_State (mvalues (rt_leases (pj_runtime (ensureProject t i))))"
    by (simp add: v p mvalues_def refreshLease_def split_beta comp_def)
  have leases: "lease_of t i lease" if mem: "lease \<in> set (mvalues (v_leases v))" for lease
  proof -
    obtain k l where "(k, l) \<in> set (rt_leases (pj_runtime ?p))" "lease = refreshLease now l"
      using mem by (auto simp: v mvalues_def)
    moreover from this(1) have "mget (rt_leases (pj_runtime ?p)) k = Some l" "lease_LeaseRef l = k"
      using inv by (auto simp: system_inv_def runtime_inv_def mget_entry mkeyed_def)
    ultimately show ?thesis by (auto simp: lease_of_def p lease_identity_def refreshLease_def)
  qed
  have "graph_keyed (pj_current ?p)" "mget (pj_history ?p) (pj_latest ?p) = Some (pj_current ?p)"
    using inv by (auto simp: system_inv_def project_inv_def graph_inv_def)
  then show "view_of t i v"
    using leases by (auto simp: view_of_def v p graph_keyed_values)
qed

section \<open>Every part is a sequence of store steps\<close>

lemma foldEvents_steps: "store_step\<^sup>*\<^sup>* s (snd (foldEvents ctx i events s))"
proof (induction events arbitrary: s)
  case (Cons event events)
  have obs: "store_step s (snd (markCommandObserved ctx s i event))" and
    comp: "store_step s (snd (completeCommandAndReleaseLease ctx s i event))"
    by (rule store_step.intros)+
  have cont: "store_step\<^sup>*\<^sup>* s (snd (case x of (err, s') \<Rightarrow> case err of Some e \<Rightarrow> (Some e, s') | None \<Rightarrow> foldEvents ctx i events s'))"
    if "store_step s (snd x)" for x
    using that Cons.IH[of "snd x"] by (auto split: prod.splits option.splits intro: converse_rtranclp_into_rtranclp)
  show ?case using cont[OF obs] cont[OF comp] Cons.IH[of s] by (auto simp: Let_def)
qed simp

lemma repairLeases_steps:
  assumes "store_reachable s" "\<forall>lease \<in> set leases. lease_of s i lease" "repairLeases ctx i leases v s = (r, t)"
  shows "store_step\<^sup>*\<^sup>* s t"
  using assms
proof (induction leases arbitrary: v s)
  case (Cons lease leases)
  have next_steps: "store_step\<^sup>*\<^sup>* s t" if "store_step s s'" "repairLeases ctx i leases v' s' = (r, t)" for v' s'
  proof -
    have "store_reachable s'" using Cons.prems(1) that(1) by (rule later_store)
    moreover have "\<forall>lease \<in> set leases. lease_of s' i lease"
      using Cons.prems(1,2) lease_of_steps[OF Cons.prems(1) r_into_rtranclp[where r = store_step, OF that(1)]] by simp
    ultimately have "store_step\<^sup>*\<^sup>* s' t" using Cons.IH that(2) by blast
    then show ?thesis using that(1) by (rule converse_rtranclp_into_rtranclp[rotated])
  qed
  have stop: "store_step s (snd (getOrCreateStopCommand ctx s i (v_revision v) lease))"
    using Cons.prems(2) by (auto simp: lease_of_def intro: store_step.stop)
  have orphan: "store_step s (snd (releaseOrphanLease ctx s i (lease_LeaseRef lease)))" by (rule store_step.release_orphan)
  show ?case
    using Cons.prems(2,3) Cons.IH[OF Cons.prems(1), of v] next_steps stop orphan
    by (auto split: if_splits prod.splits sum.splits option.splits)
qed simp

lemma repairLeases_view: "repairLeases ctx i leases v s = (Inr v', t) \<Longrightarrow> view_of u j v' = view_of u j v"
proof (induction leases arbitrary: v s)
  case (Cons lease leases)
  then show ?case by (auto split: if_splits prod.splits sum.splits option.splits)
qed simp

lemma repairCommands_steps: "store_step\<^sup>*\<^sup>* s (repairCommands ctx i v cs s)"
proof (induction ctx i v cs s rule: repairCommands.induct)
  case (2 ctx i view commandID r commands s)
  then show ?case by (auto intro: converse_rtranclp_into_rtranclp[where r = store_step, OF store_step.quarantine])
qed simp

lemma stopLeases_steps:
  assumes "store_reachable s" "\<forall>lease \<in> set leases. lease_of s i lease" "stopLeases ctx i leases v d s = (r, t)"
  shows "store_step\<^sup>*\<^sup>* s t"
  using assms
proof (induction leases arbitrary: v d s)
  case (Cons lease leases)
  have next_steps: "store_step\<^sup>*\<^sup>* s t" if "store_step s s'" "stopLeases ctx i leases v' d' s' = (r, t)" for v' d' s'
  proof -
    have "store_reachable s'" using Cons.prems(1) that(1) by (rule later_store)
    moreover have "\<forall>lease \<in> set leases. lease_of s' i lease"
      using Cons.prems(1,2) lease_of_steps[OF Cons.prems(1) r_into_rtranclp[where r = store_step, OF that(1)]] by simp
    ultimately have "store_step\<^sup>*\<^sup>* s' t" using Cons.IH that(2) by blast
    then show ?thesis using that(1) by (rule converse_rtranclp_into_rtranclp[rotated])
  qed
  have stop: "store_step s (snd (getOrCreateStopCommand ctx s i (v_revision v) lease))"
    using Cons.prems(2) by (auto simp: lease_of_def intro: store_step.stop)
  show ?case
    using Cons.prems(2,3) Cons.IH[OF Cons.prems(1), of v d] next_steps stop
    by (auto split: if_splits prod.splits sum.splits)
qed simp

lemma stopLeases_view:
  "stopLeases ctx i leases v d s = (Inr (v', d'), t) \<Longrightarrow>
   (view_of u j v' = view_of u j v) \<and> v_endpoints v' = v_endpoints v \<and> v_leases v' = v_leases v"
proof (induction leases arbitrary: v d s)
  case (Cons lease leases)
  show ?case
    using Cons.prems Cons.IH by (auto simp: suppressRun_def split: if_splits prod.splits sum.splits)
      (auto simp: view_of_def)
qed simp

lemma claimRun_step:
  assumes "view_of s i v" "endpoint \<in> set (v_endpoints v)"
  shows "store_step\<^sup>*\<^sup>* s (snd (claimRun ctx now i v endpoint s))"
proof -
  obtain g where "mget (pj_history (ensureProject s i)) (v_revision v) = Some g" "mget (gs_endpoints g) (ep_Ref endpoint) = Some endpoint"
    using assms by (auto simp: view_of_def)
  then have "store_step s (snd (claimLeaseAndAppendCommand ctx now s i (v_revision v) endpoint action (revisionRef v)))"
    if "action \<in> {CommandStart, CommandResume}" for action
    using that by (intro store_step.claim) auto
  then show ?thesis by (auto simp: claimRun_def Let_def)
qed

lemma claimSelected_steps:
  assumes "store_reachable s" "view_of s i v" "set selected \<subseteq> set (v_endpoints v)"
    "claimSelected ctx now i v selected b d s = (r, t)"
  shows "store_step\<^sup>*\<^sup>* s t"
  using assms
proof (induction selected arbitrary: b d s)
  case (Cons e es)
  obtain res s1 where c: "claimRun ctx now i v e s = (res, s1)" by force
  have first: "store_step\<^sup>*\<^sup>* s s1" using claimRun_step[of s i v e ctx now] Cons.prems c by simp
  have rest: "store_step\<^sup>*\<^sup>* s t" if "store_step\<^sup>*\<^sup>* s s'" "claimSelected ctx now i v es b' d' s' = (r, t)" for s' b' d'
  proof -
    have "store_reachable s'" "view_of s' i v"
      using store_reachable_steps[OF that(1) Cons.prems(1)] view_of_steps[OF Cons.prems(1) that(1) Cons.prems(2)] .
    then have "store_step\<^sup>*\<^sup>* s' t" using Cons.IH Cons.prems(3) that(2) by simp
    with that(1) show ?thesis by (rule rtranclp_trans)
  qed
  have "store_step\<^sup>*\<^sup>* s (recordEndpointDispatchRejection ctx s1 i ref gen bref err)" for ref gen bref err
    using first store_step.reject_dispatch by (rule rtranclp.rtrancl_into_rtrancl)
  note reject = rest[OF this] and claim = rest[OF first]
  show ?case using first Cons.prems(4) c by (auto dest: reject claim split: prod.splits sum.splits if_splits)
qed simp

section \<open>Rounds of selection\<close>

definition round_request :: "RuntimeSchedulingState \<Rightarrow> RuntimeCandidate list \<Rightarrow> RuntimeSelectionRequest" where
  "round_request state candidates = \<lparr>req_Candidates = candidates, req_Capacity = st_Capacity state, req_Budget = st_Budget state\<rparr>"

context selection_policy
begin

text \<open>The rounds end: each one either claims something or leaves fewer candidates.\<close>

lemma claimRounds_returns:
  assumes "gr_selectionRuntime r = select"
  shows "\<exists>x. claimRounds ctx now r state v candidates d s = Some x"
proof (induction "length candidates" arbitrary: candidates d s rule: less_induct)
  case less
  show ?case
  proof (cases "candidates = []")
    case True
    then show ?thesis by (simp add: claimRounds.simps)
  next
    case False
    have "\<exists>x. claimRounds ctx now r state v (removeSelectedCandidates candidates (map ep_Ref selected)) d' s' = Some x"
      if "select (round_request state candidates) = Inr selected" "selected \<noteq> []" for selected d' s'
      using less[of "removeSelectedCandidates candidates (map ep_Ref selected)"] select_shrinks[OF that]
      by (simp add: round_request_def)
    with False show ?thesis
      by (subst claimRounds.simps) (auto simp: assms round_request_def split: sum.splits prod.splits)
  qed
qed

text \<open>A round works on candidates of the view, and leaves such candidates.\<close>

lemma round_endpoints:
  assumes "set (map can_Endpoint candidates) \<subseteq> E" "select (round_request state candidates) = Inr selected"
  shows "set selected \<subseteq> E" "set (map can_Endpoint (removeSelectedCandidates candidates refs)) \<subseteq> E"
proof -
  have "set (runtimeCandidateEndpoints candidates) \<subseteq> E" using assms(1) by (auto simp: runtimeCandidateEndpoints_def)
  with select_candidates[OF assms(2)] show "set selected \<subseteq> E" by (simp add: round_request_def)
  show "set (map can_Endpoint (removeSelectedCandidates candidates refs)) \<subseteq> E"
    using assms(1) by (auto simp: removeSelectedCandidates_def)
qed

lemma claimRounds_steps:
  assumes "gr_selectionRuntime r = select" "store_reachable s" "view_of s (gr_projectID r) v"
    "set (map can_Endpoint candidates) \<subseteq> set (v_endpoints v)" "claimRounds ctx now r state v candidates d s = Some (x, t)"
  shows "store_step\<^sup>*\<^sup>* s t"
  using assms(2-)
proof (induction "length candidates" arbitrary: candidates d s rule: less_induct)
  case less
  let ?sel = "select (round_request state candidates)"
  show ?case
  proof (cases "candidates = [] \<or> isl ?sel \<or> projr ?sel = []")
    case True
    then show ?thesis
      using less.prems(4) by (subst (asm) claimRounds.simps) (auto simp: assms(1) round_request_def split: sum.splits if_splits)
  next
    case False
    then obtain selected where sel: "?sel = Inr selected" "selected \<noteq> []" by (cases ?sel) auto
    obtain c s1 where c: "claimSelected ctx now (gr_projectID r) v selected False d s = (c, s1)" by force
    have steps: "store_step\<^sup>*\<^sup>* s s1"
      using claimSelected_steps[OF less.prems(1,2) round_endpoints(1)[OF less.prems(3) sel(1)] c] .
    then have later: "store_reachable s1" "view_of s1 (gr_projectID r) v"
      using store_reachable_steps less.prems(1) view_of_steps less.prems(2) by blast+
    have shrink: "length (removeSelectedCandidates candidates (map ep_Ref selected)) < length candidates"
      using select_shrinks[OF sel] by (simp add: round_request_def)
    have "t = s1 \<or> (\<exists>d'. claimRounds ctx now r state v (removeSelectedCandidates candidates (map ep_Ref selected)) d' s1 = Some (x, t))"
      using less.prems(4) sel c False
      by (subst (asm) claimRounds.simps) (auto simp: assms(1) round_request_def split: sum.splits prod.splits if_splits)
    then show ?thesis
      using steps less.hyps[OF shrink later round_endpoints(2)[OF less.prems(3) sel(1)]] by (auto intro: rtranclp_trans)
  qed
qed

end

section \<open>Delivery and the whole\<close>

definition controller_steps :: "graphRuntime \<Rightarrow> bool" where
  "controller_steps r \<longleftrightarrow> (\<forall>controller cmd s. gr_phaseController r = Some controller \<longrightarrow> store_step\<^sup>*\<^sup>* s (snd (controller cmd s)))"

lemma deliver_steps:
  assumes "controller_steps r"
  shows "store_step\<^sup>*\<^sup>* s (deliver ctx r cmd s)"
proof (cases "gr_phaseController r")
  case None
  then show ?thesis by (auto simp: deliver_def intro: r_into_rtranclp store_step.retry)
next
  case (Some controller)
  then have first: "store_step\<^sup>*\<^sup>* s (snd (controller cmd s))" using assms by (simp add: controller_steps_def)
  have "store_step (snd (controller cmd s)) (deliver ctx r cmd s)"
    using Some by (auto simp: deliver_def intro: store_step.accept store_step.retry store_step.reject store_step.quarantine
        split: prod.splits option.splits)
  with first show ?thesis by (rule rtranclp.rtrancl_into_rtrancl)
qed

lemma deliver_all_steps: "controller_steps r \<Longrightarrow> store_step\<^sup>*\<^sup>* s (fold (deliver ctx r) cmds s)"
proof (induction cmds arbitrary: s)
  case (Cons c cmds)
  then show ?case using deliver_steps[of r s ctx c] by (auto intro: rtranclp_trans)
qed simp

lemma load_steps:
  assumes "store_reachable s" "loadRuntimeView ctx now s i = (x, t)"
  shows "store_step\<^sup>*\<^sup>* s t \<and> store_reachable t"
proof -
  have "t = snd (loadRuntimeView ctx now s i)" using assms(2) by simp
  then have "store_step s t" using store_step.load_view by simp
  then show ?thesis using assms(1) later_store by blast
qed

lemma foldObservations_steps:
  assumes "store_reachable s" "foldObservations ctx now i v s = (x, t)"
  shows "store_step\<^sup>*\<^sup>* s t" "x = Inr v' \<Longrightarrow> view_of t i v'"
proof -
  obtain e s1 where f: "foldEvents ctx i (unfoldedObservations v) s = (e, s1)" by force
  have 1: "store_step\<^sup>*\<^sup>* s s1" using foldEvents_steps[of s ctx i "unfoldedObservations v"] f by simp
  then have r: "store_reachable s1" using assms(1) store_reachable_steps by blast
  then show "store_step\<^sup>*\<^sup>* s t"
    using 1 load_steps[OF r] assms(2) f by (auto simp: foldObservations_def split: option.splits intro: rtranclp_trans)
  show "view_of t i v'" if "x = Inr v'"
    using that loadRuntimeView_view(1)[OF r] assms(2) f by (auto simp: foldObservations_def split: option.splits)
qed

lemma repairDecisionPairs_steps:
  assumes "store_reachable s" "view_of s i v" "repairDecisionPairs ctx now i v s = (x, t)"
  shows "store_step\<^sup>*\<^sup>* s t" "x = Inr v' \<Longrightarrow> view_of t i v'"
    and "x = Inr v' \<Longrightarrow> map lease_State (mvalues (v_leases v')) = map lease_State (mvalues (rt_leases (pj_runtime (ensureProject t i))))"
proof -
  obtain e s1 where f: "repairLeases ctx i (activeLeases v) v s = (e, s1)" by force
  have 1: "store_step\<^sup>*\<^sup>* s s1"
    using repairLeases_steps[OF assms(1) _ f] active_lease_of[OF assms(2)] by blast
  have 2: "store_step\<^sup>*\<^sup>* s (repairCommands ctx i w cs s1)" for w cs
    using 1 repairCommands_steps by (rule rtranclp_trans)
  then have r: "store_reachable (repairCommands ctx i w cs s1)" for w cs using assms(1) store_reachable_steps by blast
  have 3: "store_step\<^sup>*\<^sup>* s t" if "loadRuntimeView ctx now (repairCommands ctx i w cs s1) i = (x, t)" for w cs
    using rtranclp_trans[OF 2 conjunct1[OF load_steps[OF r that]]] .
  show "store_step\<^sup>*\<^sup>* s t"
    using 1 assms(3) f by (auto simp: repairDecisionPairs_def dest: 3 split: sum.splits)
  show "view_of t i v'"
    "map lease_State (mvalues (v_leases v')) = map lease_State (mvalues (rt_leases (pj_runtime (ensureProject t i))))" if "x = Inr v'"
    using that loadRuntimeView_view(1,3)[OF r] assms(3) f by (auto simp: repairDecisionPairs_def split: sum.splits)
qed

text \<open>The preparation as a whole: the steps it makes and the view it ends with.\<close>

lemma bindS_cases:
  assumes "bindS x f = (y, t)"
  obtains (failed) e where "x = (Inl e, t)" "y = Inl e" | (passed) a s where "x = (Inr a, s)" "f a s = (y, t)"
proof (cases x)
  case (Pair a s)
  then show ?thesis using assms that by (cases a) (auto simp: bindS_def)
qed

definition reconcile_ready :: "graphRuntime \<Rightarrow> MemoryStore \<Rightarrow> goerr + runtimeView \<times> RuntimeSchedulingState \<times> PhaseCommand list \<Rightarrow> bool" where
  "reconcile_ready r t x \<longleftrightarrow> (case x of Inl _ \<Rightarrow> True | Inr (v, state, _) \<Rightarrow>
     view_of t (gr_projectID r) v \<and> schedulingState r v = Inr state
   \<and> map lease_State (mvalues (v_leases v)) = map lease_State (mvalues (rt_leases (pj_runtime (ensureProject t (gr_projectID r))))))"

lemma getOrCreateStopCommand_leases:
  "rt_leases (pj_runtime (ensureProject (snd (getOrCreateStopCommand ctx s i revision lease)) i)) =
   rt_leases (pj_runtime (ensureProject s i))"
  by (auto simp: getOrCreateStopCommand_def getOrCreateStopCommandLocked_def putCommand_def Let_def split: option.splits)

lemma stopLeases_leases:
  "rt_leases (pj_runtime (ensureProject (snd (stopLeases ctx i leases v d s)) i)) = rt_leases (pj_runtime (ensureProject s i))"
proof (induction leases arbitrary: v d s)
  case (Cons lease leases)
  then show ?case
    using getOrCreateStopCommand_leases[of ctx s i "v_revision v" lease] by (auto split: prod.splits sum.splits)
qed simp

lemma stopReady:
  assumes "store_reachable s" "view_of s (gr_projectID r) v" "schedulingState r v = Inr state"
    and "map lease_State (mvalues (v_leases v)) = map lease_State (mvalues (rt_leases (pj_runtime (ensureProject s (gr_projectID r)))))"
    and "bindS (stopLeases ctx (gr_projectID r) (activeLeases v) v [] s)
      (\<lambda>(view, commands) s. (Inr (view, state, commands @ pendingDeliveries view), s)) = (x, t)"
  shows "store_step\<^sup>*\<^sup>* s t \<and> reconcile_ready r t x"
  using assms(5)
proof (cases rule: bindS_cases)
  case (failed e)
  then show ?thesis
    using stopLeases_steps[OF assms(1) _ failed(1)] active_lease_of[OF assms(2)] by (auto simp: reconcile_ready_def)
next
  case (passed a s')
  obtain w cmds where a: "a = (w, cmds)" by force
  have st: "stopLeases ctx (gr_projectID r) (activeLeases v) v [] s = (Inr (w, cmds), t)" and x: "x = Inr (w, state, cmds @ pendingDeliveries w)"
    using passed a by auto
  have steps: "store_step\<^sup>*\<^sup>* s t" using stopLeases_steps[OF assms(1) _ st] active_lease_of[OF assms(2)] by blast
  note w = stopLeases_view[OF st]
  have "schedulingState r w = Inr state" using assms(3) w by (simp add: schedulingState_def activeLeases_def)
  moreover have "rt_leases (pj_runtime (ensureProject t (gr_projectID r))) = rt_leases (pj_runtime (ensureProject s (gr_projectID r)))"
    using stopLeases_leases[of ctx "gr_projectID r" "activeLeases v" v "[]" s] st by simp
  ultimately show ?thesis using steps w assms(4) view_of_steps[OF assms(1) steps assms(2)] by (simp add: x reconcile_ready_def)
qed

lemma prepareReconcile_steps:
  assumes "store_reachable s" "prepareReconcile ctx now r s = (x, t)"
  shows "store_step\<^sup>*\<^sup>* s t \<and> reconcile_ready r t x"
proof -
  have inl: "reconcile_ready r t (Inl e)" for t e by (simp add: reconcile_ready_def)
  from assms(2)[unfolded prepareReconcile_def Let_def] show ?thesis
  proof (cases rule: bindS_cases)
    case (failed e)
    then show ?thesis using load_steps[OF assms(1)] inl by auto
  next
    case 1: (passed v1 s1)
    note s1 = load_steps[OF assms(1) 1(1)]
    from 1(2) show ?thesis
    proof (cases rule: bindS_cases)
      case (failed e)
      then show ?thesis using foldObservations_steps(1)[OF conjunct2[OF s1]] s1 inl by (auto intro: rtranclp_trans)
    next
      case 2: (passed v2 s2)
      note f = foldObservations_steps[OF conjunct2[OF s1] 2(1)]
      have s2: "store_step\<^sup>*\<^sup>* s s2" "store_reachable s2" using s1 f(1) store_reachable_steps by (auto intro: rtranclp_trans)
      note rep = repairDecisionPairs_steps[OF s2(2) f(2)[OF refl]]
      from 2(2) show ?thesis
      proof (cases rule: bindS_cases)
        case (failed e)
        then show ?thesis using rep(1) s2 inl by (auto intro: rtranclp_trans)
      next
        case 3: (passed v3 s3)
        have s3: "store_step\<^sup>*\<^sup>* s s3" "store_reachable s3"
          using s2 rep(1)[OF 3(1)] store_reachable_steps by (auto intro: rtranclp_trans)
        from 3(2) show ?thesis
        proof (cases rule: bindS_cases)
          case (failed e)
          then show ?thesis using s3 inl by simp
        next
          case (passed state s4)
          then show ?thesis using stopReady[OF s3(2) rep(2)[OF 3(1) refl] _ rep(3)[OF 3(1) refl]] s3 by (auto intro: rtranclp_trans)
        qed
      qed
    qed
  qed
qed

section \<open>Properties of reconciliation\<close>

lemma graphRunnable_endpoints: "set (map can_Endpoint (runtimeCandidates (graphRunnable v))) \<subseteq> set (v_endpoints v)"
  by (auto simp: runtimeCandidates_def graphRunnable_def)

text \<open>The policies the repository has.\<close>

definition repository_policy :: "(RuntimeSelectionRequest \<Rightarrow> goerr + PhaseEndpoint list) \<Rightarrow> bool" where
  "repository_policy select \<longleftrightarrow> select = fixedCapacitySelect \<or> (\<exists>policy. select = SelectRunnable policy)"

lemma repository_policy_contract: "repository_policy select \<Longrightarrow> selection_policy select"
  using fixed_capacity.selection_policy_axioms scheduled.selection_policy_axioms by (auto simp: repository_policy_def)

text \<open>
  C5. A reconciliation returns, with the default policy and with the scheduler, whatever the store
  holds and the controller answers; and when the controller's own use of the store consists of store
  operations, so does the whole reconciliation: the store it leaves is reachable, and everything that
  holds along store steps holds across it.
\<close>

theorem reconcile_returns_by_store_steps:
  assumes "repository_policy (gr_selectionRuntime r)" "controller_steps r" "store_reachable s"
  shows "\<exists>err t. reconcile ctx now r s = Some (err, t) \<and> store_step\<^sup>*\<^sup>* s t \<and> store_reachable t"
proof -
  note contract = repository_policy_contract[OF assms(1)]
  obtain x t where x: "prepareReconcile ctx now r s = (x, t)" by force
  note prep = prepareReconcile_steps[OF assms(3) x]
  have reach: "store_reachable t" using prep assms(3) store_reachable_steps by blast
  show ?thesis
  proof (cases x)
    case (Inl e)
    then show ?thesis using x prep reach by (simp add: reconcile_def)
  next
    case (Inr y)
    obtain v state cmds where y: "y = (v, state, cmds)" by (cases y) auto
    obtain z u where z: "claimRounds ctx now r state v (runtimeCandidates (graphRunnable v)) cmds t = Some (z, u)"
      using selection_policy.claimRounds_returns[OF contract refl] by (metis surj_pair)
    have u: "store_step\<^sup>*\<^sup>* s u"
      using prep selection_policy.claimRounds_steps[OF contract refl reach _ graphRunnable_endpoints z]
      by (auto simp: Inr y reconcile_ready_def intro: rtranclp_trans)
    let ?w = "fold (deliver ctx r) (uniqueByCommandID (projr z)) u"
    have "store_step\<^sup>*\<^sup>* s ?w" using u deliver_all_steps[OF assms(2)] by (rule rtranclp_trans)
    then show ?thesis
      using x z u Inr y store_reachable_steps[OF _ assms(3)] by (cases z) (auto simp: reconcile_def)
  qed
qed

definition example_runtime :: graphRuntime where
  "example_runtime = newGraphRuntime ''p'' (Some (\<lambda>cmd s. RecordPhaseInvocationStarted None s ''p'' cmd))"

lemma example_controller: "controller_steps example_runtime"
proof -
  have "store_step\<^sup>*\<^sup>* s (snd (RecordPhaseInvocationStarted None s ''p'' cmd))" for s cmd
    by (cases "newPhaseObservation phaseObservationStarted cmd '''' False")
      (auto simp: RecordPhaseInvocationStarted_def appendPhaseObservation_def intro: r_into_rtranclp store_step.append)
  then show ?thesis by (simp add: controller_steps_def example_runtime_def newGraphRuntime_def)
qed

theorem reconcile_returns_by_store_steps_witness:
  "\<exists>err t. reconcile None 0 example_runtime example_store = Some (err, t) \<and> store_step\<^sup>*\<^sup>* example_store t \<and> store_reachable t"
proof (rule reconcile_returns_by_store_steps)
  show "repository_policy (gr_selectionRuntime example_runtime)"
    by (simp add: repository_policy_def example_runtime_def newGraphRuntime_def)
qed (rule example_controller example_reachable)+

section \<open>Capacity\<close>

definition active_count :: "MemoryStore \<Rightarrow> ProjectID \<Rightarrow> nat" where
  "active_count s i = length (filter (\<lambda>l. lease_State l = ''active'') (mvalues (rt_leases (pj_runtime (ensureProject s i)))))"

lemma filter_mput: "length (filter P (mvalues (mput k v m))) \<le> Suc (length (filter P (mvalues m)))"
  by (induction m) (auto simp: mvalues_def)

lemma claimRun_count:
  assumes "claimRun ctx now i v e s = (x, t)"
  shows "active_count t i \<le> active_count s i + (case x of Inr (_, True) \<Rightarrow> 1 | _ \<Rightarrow> 0)"
proof (cases "t = s")
  case True
  then show ?thesis by simp
next
  case False
  then obtain action where "ctx = None" "lockedProject s i (claimLeaseAndAppendCommandLocked now (v_revision v) e action (revisionRef v)) = (x, t)"
    using assms by (auto simp: claimRun_def claimLeaseAndAppendCommand_def Let_def split: if_splits option.splits)
  then obtain rt where c: "claimLeaseAndAppendCommandLocked now (v_revision v) e action (revisionRef v) (ensureProject s i) = (x, rt)"
    "t = putProject s i ((ensureProject s i)\<lparr>pj_runtime := rt\<rparr>)"
    by (auto simp: lockedProject_def Let_def split: prod.splits)
  from c(1) show ?thesis
  proof (cases rule: claim_cases)
    case same
    then show ?thesis by (simp add: c(2) active_count_def)
  next
    case claimed
    then show ?thesis
      using filter_mput[of "\<lambda>l. lease_State l = ''active''" "leaseRefOf (ep_Ref e) (ep_Generation e)" "runLease now e"
          "rt_leases (pj_runtime (ensureProject s i))"]
      by (simp add: c(2) active_count_def putCommand_def putLease_def)
  qed
qed

lemma dispatch_count [simp]: "active_count (recordEndpointDispatchRejection ctx s i ref gen b e) i = active_count s i"
  by (simp add: recordEndpointDispatchRejection_def recordEndpointDispatchRejectionLocked_def active_count_def addObservation_def Let_def)

lemma claimSelected_count:
  "claimSelected ctx now i v selected b d s = (x, t) \<Longrightarrow>
   active_count t i \<le> active_count s i + length selected
   \<and> (\<forall>d'. x = Inr (False, d') \<longrightarrow> active_count t i \<le> active_count s i \<and> \<not> b)"
proof (induction selected arbitrary: b d s)
  case (Cons e es)
  obtain y s1 where y: "claimRun ctx now i v e s = (y, s1)" by force
  note one = claimRun_count[OF y]
  show ?case
  proof (cases y)
    case (Inl err)
    let ?s2 = "recordEndpointDispatchRejection ctx s1 i (ep_Ref e) (ep_Generation e) (ep_BindingRef e) err"
    show ?thesis
      using Cons.prems y Inl one Cons.IH[of b d ?s2] by (auto split: if_splits)
  next
    case (Inr c)
    obtain cmd claimed where c: "c = (cmd, claimed)" by force
    show ?thesis
      using Cons.prems y Inr c one Cons.IH[of "b \<or> claimed" "if claimed then d @ [cmd] else d" s1]
      by (cases claimed) auto
  qed
qed auto

context selection_policy
begin

lemma claimRounds_count:
  assumes "gr_selectionRuntime r = select" "Available (st_Capacity state) < 2 ^ 62"
    "claimRounds ctx now r state v candidates d s = Some (x, t)"
  shows "int (active_count t (gr_projectID r)) \<le> int (active_count s (gr_projectID r)) + Available (st_Capacity state)"
  using assms(3)
proof (induction "length candidates" arbitrary: candidates d s rule: less_induct)
  case less
  let ?sel = "select (round_request state candidates)" and ?i = "gr_projectID r"
  have nonneg: "0 \<le> Available (st_Capacity state)" by (simp add: Available_def Let_def)
  show ?case
  proof (cases "candidates = [] \<or> isl ?sel \<or> projr ?sel = []")
    case True
    then have "t = s"
      using less.prems by (subst (asm) claimRounds.simps) (auto simp: assms(1) round_request_def split: sum.splits if_splits)
    with nonneg show ?thesis by simp
  next
    case False
    then obtain selected where sel: "?sel = Inr selected" "selected \<noteq> []" by (cases ?sel) auto
    obtain c s1 where c: "claimSelected ctx now ?i v selected False d s = (c, s1)" by force
    note count = claimSelected_count[OF c]
    have "int (length selected) \<le> Available (st_Capacity state)"
      using select_available[OF sel(1)] assms(2) by (simp add: round_request_def)
    moreover have "t = s1 \<or> (\<exists>d' d''. c = Inr (False, d'') \<and>
        claimRounds ctx now r state v (removeSelectedCandidates candidates (map ep_Ref selected)) d' s1 = Some (x, t))"
      using less.prems sel c False
      by (subst (asm) claimRounds.simps) (auto simp: assms(1) round_request_def split: sum.splits prod.splits if_splits)
    moreover have "length (removeSelectedCandidates candidates (map ep_Ref selected)) < length candidates"
      using select_shrinks[OF sel] by (simp add: round_request_def)
    ultimately show ?thesis using count less.hyps by fastforce
  qed
qed

end

text \<open>
  C21. Claims stay within the capacity: after the claims of a reconciliation there are no more active
  leases than before it or than the smaller of the desired and the healthy capacity, whichever is
  greater.
\<close>

theorem claims_within_capacity:
  assumes "repository_policy (gr_selectionRuntime r)" "store_reachable s"
    and "gr_schedulingStateProvider r = Inr scheduling" "0 \<le> cap_Desired (st_Capacity scheduling)" "0 \<le> cap_Healthy (st_Capacity scheduling)"
    and "cap_Desired (st_Capacity scheduling) < 2 ^ 62" "int (active_count t (gr_projectID r)) < 2 ^ 62"
    and "prepareReconcile ctx now r s = (Inr (v, state, commands), t)"
    and "claimRounds ctx now r state v (runtimeCandidates (graphRunnable v)) commands t = Some (x, u)"
  shows "int (active_count u (gr_projectID r)) \<le> max (int (active_count t (gr_projectID r)))
    (min (cap_Desired (st_Capacity scheduling)) (cap_Healthy (st_Capacity scheduling)))"
proof -
  let ?i = "gr_projectID r"
  let ?limit = "min (cap_Desired (st_Capacity scheduling)) (cap_Healthy (st_Capacity scheduling))"
  have ready: "schedulingState r v = Inr state"
    "map lease_State (mvalues (v_leases v)) = map lease_State (mvalues (rt_leases (pj_runtime (ensureProject t ?i))))"
    using prepareReconcile_steps[OF assms(2,8)] by (auto simp: reconcile_ready_def)
  have count: "length (filter (\<lambda>l. lease_State l = a) ls) = length (filter (\<lambda>x. x = a) (map lease_State ls))" for a ls
    by (induction ls) auto
  have active: "length (activeLeases v) = active_count t ?i"
    using ready(2) by (simp add: activeLeases_def active_count_def count del: length_map)
  have cap: "st_Capacity state = (st_Capacity scheduling)\<lparr>cap_Active := int (active_count t ?i)\<rparr>"
    using ready(1) assms(3) active by (auto simp: schedulingState_def and_then_def)
  have "int64_wrap (?limit - int (active_count t ?i)) = ?limit - int (active_count t ?i)"
    using assms(4-7) by (intro int64_wrap_id) (auto simp: is_int64_def min_def)
  then have avail: "Available (st_Capacity state) = max 0 (?limit - int (active_count t ?i))"
    by (auto simp: Available_def cap Let_def min_def)
  then have "Available (st_Capacity state) < 2 ^ 62" using assms(6) by auto
  from selection_policy.claimRounds_count[OF repository_policy_contract[OF assms(1)] refl this assms(9)]
  show ?thesis using avail by auto
qed

lemma example_prepared: "\<not> isl (fst (prepareReconcile None 0 example_runtime example_store))"
  "active_count (snd (prepareReconcile None 0 example_runtime example_store)) ''p'' = 0"
  by code_simp+

theorem claims_within_capacity_witness:
  "\<exists>v state commands t x u. prepareReconcile None 0 example_runtime example_store = (Inr (v, state, commands), t)
    \<and> claimRounds None 0 example_runtime state v (runtimeCandidates (graphRunnable v)) commands t = Some (x, u)
    \<and> active_count u ''p'' \<le> 1"
proof -
  obtain v state commands t where prep: "prepareReconcile None 0 example_runtime example_store = (Inr (v, state, commands), t)"
    using example_prepared(1)
    by (cases "prepareReconcile None 0 example_runtime example_store"; cases "fst (prepareReconcile None 0 example_runtime example_store)") auto
  have r: "gr_selectionRuntime example_runtime = fixedCapacitySelect" "gr_schedulingStateProvider example_runtime = Inr fixedSchedulingState"
    "gr_projectID example_runtime = ''p''" by (simp_all add: example_runtime_def newGraphRuntime_def)
  obtain x u where rounds: "claimRounds None 0 example_runtime state v (runtimeCandidates (graphRunnable v)) commands t = Some (x, u)"
    using fixed_capacity.claimRounds_returns[OF r(1)] by (metis surj_pair)
  have "repository_policy (gr_selectionRuntime example_runtime)" by (simp add: repository_policy_def r)
  from claims_within_capacity[OF this example_reachable(1) r(2) _ _ _ _ prep rounds] example_prepared(2) prep
  have "int (active_count u ''p'') \<le> 1" by (simp add: r fixedSchedulingState_def zeroCapacity_def)
  then show ?thesis using prep rounds by auto
qed

end
