(* ===== verification/Auth.thy ===== *)
theory Auth
  imports Kernel
begin

text \<open>
  \<open>internal/platform/auth\<close>: roles and tools (\<open>types.go\<close>, \<open>tools.go\<close>), the role and operation matrix and the
  authenticator (\<open>authenticator.go\<close>), the memory store of sessions and tokens (\<open>store.go\<close>), the check of
  a tool call (\<open>authorize.go\<close>) and the guard of state-changing requests (\<open>csrf.go\<close>). SHA-256 is the
  argument \<open>hash\<close>; a new secret comes from the system's random source and is an argument, with the
  error that source may give. Times are nanoseconds, and \<open>None\<close> is the zero time.
\<close>

section \<open>Roles and tools\<close>

type_synonym PrincipalKind = string
abbreviation PrincipalOperator :: PrincipalKind where "PrincipalOperator \<equiv> ''operator''"
abbreviation PrincipalAgent :: PrincipalKind where "PrincipalAgent \<equiv> ''agent''"

type_synonym Role = string
abbreviation RoleOperator :: Role where "RoleOperator \<equiv> ''operator''"
abbreviation RoleTaskManager :: Role where "RoleTaskManager \<equiv> ''task_manager''"
abbreviation RoleContext :: Role where "RoleContext \<equiv> ''context_agent''"
abbreviation RolePlanner :: Role where "RolePlanner \<equiv> ''planner''"
abbreviation RoleExecutor :: Role where "RoleExecutor \<equiv> ''executor''"
abbreviation RoleVerifier :: Role where "RoleVerifier \<equiv> ''verifier''"

definition IsPhase :: "Role \<Rightarrow> bool" where
  "IsPhase r \<longleftrightarrow> r = RolePlanner \<or> r = RoleExecutor \<or> r = RoleVerifier"

type_synonym Tool = string
abbreviation ToolContextListSubgraphs :: Tool where "ToolContextListSubgraphs \<equiv> ''context.listSubgraphs''"
abbreviation ToolContextExplore :: Tool where "ToolContextExplore \<equiv> ''context.explore''"
abbreviation ToolContextSubscribe :: Tool where "ToolContextSubscribe \<equiv> ''context.subscribe''"
abbreviation ToolContextUnsubscribe :: Tool where "ToolContextUnsubscribe \<equiv> ''context.unsubscribe''"
abbreviation ToolContextAgentRetrieve :: Tool where "ToolContextAgentRetrieve \<equiv> ''contextAgent.retrieve''"
abbreviation ToolRuntimeAwaitInputs :: Tool where "ToolRuntimeAwaitInputs \<equiv> ''runtime.awaitInputs''"
abbreviation ToolAgentProposeOrchestration :: Tool where "ToolAgentProposeOrchestration \<equiv> ''agent.proposeOrchestration''"
abbreviation ToolAgentSubmitRequirement :: Tool where "ToolAgentSubmitRequirement \<equiv> ''agent.submitRequirement''"
abbreviation ToolAgentListTaskMemoryCandidates :: Tool where "ToolAgentListTaskMemoryCandidates \<equiv> ''agent.listTaskMemoryCandidates''"
abbreviation ToolAgentSubmitMemoryCandidate :: Tool where "ToolAgentSubmitMemoryCandidate \<equiv> ''agent.submitMemoryCandidate''"
abbreviation ToolAgentSubmitPhaseOutput :: Tool where "ToolAgentSubmitPhaseOutput \<equiv> ''agent.submitPhaseOutput''"
abbreviation ToolCoordinationSnapshot :: Tool where "ToolCoordinationSnapshot \<equiv> ''coordination.snapshot''"
abbreviation ToolTaskManagerSubmitDecision :: Tool where "ToolTaskManagerSubmitDecision \<equiv> ''taskManager.submitDecision''"
abbreviation ToolCoordinationReplacePending :: Tool where "ToolCoordinationReplacePending \<equiv> ''coordination.replacePending''"
abbreviation ToolCoordinationTransition :: Tool where "ToolCoordinationTransition \<equiv> ''coordination.transition''"
abbreviation ToolContextRegisterTaskSubgraph :: Tool where "ToolContextRegisterTaskSubgraph \<equiv> ''context.registerTaskSubgraph''"
abbreviation ToolContextProjectTaskContext :: Tool where "ToolContextProjectTaskContext \<equiv> ''context.projectTaskContext''"
abbreviation ToolContextFinalizeTaskMemory :: Tool where "ToolContextFinalizeTaskMemory \<equiv> ''context.finalizeTaskMemory''"
abbreviation ToolContextGetSubgraph :: Tool where "ToolContextGetSubgraph \<equiv> ''context.getSubgraph''"
abbreviation ToolContextGetNode :: Tool where "ToolContextGetNode \<equiv> ''context.getNode''"
abbreviation ToolContextSearch :: Tool where "ToolContextSearch \<equiv> ''context.search''"
abbreviation ToolContextCreateNode :: Tool where "ToolContextCreateNode \<equiv> ''context.createNode''"
abbreviation ToolContextUpdateNode :: Tool where "ToolContextUpdateNode \<equiv> ''context.updateNode''"
abbreviation ToolContextDeleteNode :: Tool where "ToolContextDeleteNode \<equiv> ''context.deleteNode''"
abbreviation ToolContextCreateSubgraph :: Tool where "ToolContextCreateSubgraph \<equiv> ''context.createSubgraph''"
abbreviation ToolContextUpdateSubgraph :: Tool where "ToolContextUpdateSubgraph \<equiv> ''context.updateSubgraph''"
abbreviation ToolContextDeleteSubgraph :: Tool where "ToolContextDeleteSubgraph \<equiv> ''context.deleteSubgraph''"
abbreviation ToolContextSubmitReview :: Tool where "ToolContextSubmitReview \<equiv> ''context.submitReview''"
abbreviation ToolWorkspaceList :: Tool where "ToolWorkspaceList \<equiv> ''workspace.list''"
abbreviation ToolWorkspaceRead :: Tool where "ToolWorkspaceRead \<equiv> ''workspace.read''"
abbreviation ToolWorkspaceWritePlan :: Tool where "ToolWorkspaceWritePlan \<equiv> ''workspace.writePlan''"
abbreviation ToolWorkspaceWrite :: Tool where "ToolWorkspaceWrite \<equiv> ''workspace.write''"
abbreviation ToolWorkspaceRun :: Tool where "ToolWorkspaceRun \<equiv> ''workspace.run''"
abbreviation ToolWorkspaceDiff :: Tool where "ToolWorkspaceDiff \<equiv> ''workspace.diff''"
abbreviation ToolEvidenceRegister :: Tool where "ToolEvidenceRegister \<equiv> ''evidence.register''"

definition canonicalTools :: "Tool list" where
  "canonicalTools =
     [ToolContextListSubgraphs, ToolContextExplore, ToolContextSubscribe, ToolContextUnsubscribe,
      ToolContextAgentRetrieve, ToolRuntimeAwaitInputs, ToolAgentProposeOrchestration, ToolAgentSubmitRequirement,
      ToolAgentListTaskMemoryCandidates, ToolAgentSubmitMemoryCandidate, ToolAgentSubmitPhaseOutput,
      ToolCoordinationSnapshot, ToolTaskManagerSubmitDecision, ToolCoordinationReplacePending,
      ToolCoordinationTransition, ToolContextRegisterTaskSubgraph, ToolContextProjectTaskContext,
      ToolContextFinalizeTaskMemory, ToolContextGetSubgraph, ToolContextGetNode, ToolContextSearch,
      ToolContextCreateNode, ToolContextUpdateNode, ToolContextDeleteNode, ToolContextCreateSubgraph,
      ToolContextUpdateSubgraph, ToolContextDeleteSubgraph, ToolContextSubmitReview, ToolWorkspaceList,
      ToolWorkspaceRead, ToolWorkspaceWritePlan, ToolWorkspaceWrite, ToolWorkspaceRun, ToolWorkspaceDiff,
      ToolEvidenceRegister]"

definition isAgentRole :: "Role \<Rightarrow> bool" where
  "isAgentRole role \<longleftrightarrow> role \<in> {RoleTaskManager, RoleContext, RolePlanner, RoleExecutor, RoleVerifier}"

definition roleAllowsTool :: "Role \<Rightarrow> Tool \<Rightarrow> bool" where
  "roleAllowsTool role tool =
     (if role = RoleTaskManager then tool \<in>
        {ToolContextListSubgraphs, ToolContextExplore, ToolContextSubscribe, ToolContextUnsubscribe, ToolContextAgentRetrieve,
         ToolCoordinationSnapshot, ToolTaskManagerSubmitDecision, ToolCoordinationReplacePending, ToolCoordinationTransition,
         ToolContextRegisterTaskSubgraph, ToolContextProjectTaskContext, ToolContextFinalizeTaskMemory}
      else if role = RoleContext then tool \<in>
        {ToolContextListSubgraphs, ToolContextExplore, ToolContextGetSubgraph, ToolContextGetNode, ToolContextSearch,
         ToolContextCreateNode, ToolContextUpdateNode, ToolContextDeleteNode, ToolContextCreateSubgraph,
         ToolContextUpdateSubgraph, ToolContextDeleteSubgraph, ToolContextSubmitReview}
      else if role = RolePlanner then tool \<in>
        {ToolContextListSubgraphs, ToolContextExplore, ToolContextSubscribe, ToolContextUnsubscribe, ToolContextAgentRetrieve,
         ToolRuntimeAwaitInputs, ToolAgentProposeOrchestration, ToolAgentSubmitRequirement, ToolAgentListTaskMemoryCandidates,
         ToolAgentSubmitMemoryCandidate, ToolAgentSubmitPhaseOutput, ToolWorkspaceList, ToolWorkspaceRead,
         ToolWorkspaceWritePlan, ToolWorkspaceDiff, ToolEvidenceRegister}
      else if role = RoleExecutor then tool \<in>
        {ToolContextListSubgraphs, ToolContextExplore, ToolContextSubscribe, ToolContextUnsubscribe, ToolContextAgentRetrieve,
         ToolRuntimeAwaitInputs, ToolAgentProposeOrchestration, ToolAgentSubmitRequirement, ToolAgentListTaskMemoryCandidates,
         ToolAgentSubmitMemoryCandidate, ToolAgentSubmitPhaseOutput, ToolWorkspaceList, ToolWorkspaceRead,
         ToolWorkspaceWrite, ToolWorkspaceRun, ToolWorkspaceDiff, ToolEvidenceRegister}
      else if role = RoleVerifier then tool \<in>
        {ToolContextListSubgraphs, ToolContextExplore, ToolContextSubscribe, ToolContextUnsubscribe, ToolContextAgentRetrieve,
         ToolRuntimeAwaitInputs, ToolAgentProposeOrchestration, ToolAgentSubmitRequirement, ToolAgentListTaskMemoryCandidates,
         ToolAgentSubmitMemoryCandidate, ToolAgentSubmitPhaseOutput, ToolWorkspaceList, ToolWorkspaceRead, ToolWorkspaceRun,
         ToolWorkspaceDiff, ToolEvidenceRegister}
      else False)"

definition operationAllowsTool :: "Role \<Rightarrow> string \<Rightarrow> Tool \<Rightarrow> bool" where
  "operationAllowsTool role operation tool =
     (if role \<noteq> RoleContext then operation = '''' \<and> roleAllowsTool role tool
      else if operation = ''retrieve'' then tool \<in>
        {ToolContextListSubgraphs, ToolContextExplore, ToolContextGetSubgraph, ToolContextGetNode, ToolContextSearch}
      else if operation = ''curate'' then tool \<in>
        {ToolContextListSubgraphs, ToolContextExplore, ToolContextGetSubgraph, ToolContextGetNode, ToolContextCreateNode,
         ToolContextUpdateNode, ToolContextDeleteNode, ToolContextCreateSubgraph, ToolContextUpdateSubgraph,
         ToolContextDeleteSubgraph}
      else if operation = ''review'' then tool \<in>
        {ToolContextListSubgraphs, ToolContextExplore, ToolContextGetSubgraph, ToolContextGetNode, ToolContextSearch,
         ToolContextSubmitReview}
      else False)"

definition CanonicalTools :: "Tool list" where
  "CanonicalTools = sort_by (\<lambda>l r. l < r) canonicalTools"

definition RoleCapabilityTools :: "Role \<Rightarrow> Tool list" where
  "RoleCapabilityTools role = filter (roleAllowsTool role) canonicalTools"

definition InvocationCapabilityTools :: "Role \<Rightarrow> string \<Rightarrow> Tool list" where
  "InvocationCapabilityTools role operation = filter (operationAllowsTool role operation) canonicalTools"

definition IsCanonicalTool :: "Tool \<Rightarrow> bool" where
  "IsCanonicalTool tool = list_ex (\<lambda>candidate. candidate = tool) canonicalTools"

section \<open>Principals, capabilities and scopes\<close>

type_synonym ActorPrincipalID = string
type_synonym AuthTime = "int option"

text \<open>\<open>t.After(now)\<close>\<close>

definition After :: "AuthTime \<Rightarrow> int \<Rightarrow> bool" where
  "After t now = (case t of None \<Rightarrow> False | Some at \<Rightarrow> at > now)"

record Principal =
  pr_ActorPrincipalID :: ActorPrincipalID
  pr_Kind :: PrincipalKind
  pr_ProjectID :: ProjectID
  pr_Role :: Role
  pr_Operation :: string
  pr_TaskID :: TaskID
  pr_InvocationID :: InvocationID
  pr_ConsumerInvocationID :: InvocationID
  pr_ConsumerTaskID :: TaskID
  pr_ConsumerRole :: Role
  pr_Tools :: "Tool list"
  pr_AuthenticatedAt :: int

definition HasTool :: "Principal \<Rightarrow> Tool \<Rightarrow> bool" where
  "HasTool p tool \<longleftrightarrow> tool \<in> set (pr_Tools p)"

record Capability =
  ca_ProjectID :: ProjectID
  ca_TaskID :: TaskID
  ca_InvocationID :: InvocationID
  ca_ConsumerInvocationID :: InvocationID
  ca_ConsumerTaskID :: TaskID
  ca_ConsumerRole :: Role
  ca_Role :: Role
  ca_Operation :: string
  ca_Tools :: "Tool list"
  ca_ExpiresAt :: AuthTime

record Scope =
  sc_ProjectID :: ProjectID
  sc_TaskID :: TaskID
  sc_InvocationID :: InvocationID

text \<open>\<open>RequireTool\<close>; a \<open>BoundScope\<close> has the fields of a \<open>Scope\<close>.\<close>

definition RequireTool :: "Principal \<Rightarrow> Tool \<Rightarrow> Scope \<Rightarrow> goerr + Scope" where
  "RequireTool p tool requested =
     checked (first_err
       [fail_if (pr_ProjectID p = '''') (kerr CodeUnauthorized ''principal has no project binding'' False),
        fail_if (pr_Kind p \<noteq> PrincipalAgent) (Forbidden ''MCP tool requires an agent invocation principal''),
        fail_if (sc_ProjectID requested \<noteq> '''' \<and> sc_ProjectID requested \<noteq> pr_ProjectID p)
          (Forbidden ''requested project does not match authenticated principal''),
        fail_if (sc_TaskID requested \<noteq> '''' \<and> sc_TaskID requested \<noteq> pr_TaskID p)
          (Forbidden ''requested task does not match authenticated invocation''),
        fail_if (sc_InvocationID requested \<noteq> '''' \<and> sc_InvocationID requested \<noteq> pr_InvocationID p)
          (Forbidden ''requested invocation does not match authenticated invocation''),
        fail_if (\<not> roleAllowsTool (pr_Role p) tool) (Forbidden ''tool is outside role capability''),
        fail_if (\<not> operationAllowsTool (pr_Role p) (pr_Operation p) tool)
          (Forbidden ''tool is outside invocation operation capability''),
        fail_if (\<not> HasTool p tool) (Forbidden ''tool is outside invocation capability'')])
     (Inr \<lparr>sc_ProjectID = pr_ProjectID p, sc_TaskID = pr_TaskID p,
           sc_InvocationID = pr_InvocationID p\<rparr>)"

section \<open>Sessions and tokens\<close>

record SessionRecord =
  se_SessionHash :: string
  se_ActorPrincipalID :: ActorPrincipalID
  se_ProjectIDs :: "ProjectID list"
  se_CSRFHash :: string
  se_ExpiresAt :: AuthTime
  se_RevokedAt :: AuthTime

record TokenRecord =
  to_TokenHash :: string
  to_ActorPrincipalID :: ActorPrincipalID
  to_Capability :: Capability
  to_ExpiresAt :: AuthTime
  to_RevokedAt :: AuthTime

record AuthStore =
  au_sessions :: "SessionRecord list"
  au_tokens :: "TokenRecord list"

definition NewAuthStore :: AuthStore where
  "NewAuthStore = \<lparr>au_sessions = [], au_tokens = []\<rparr>"

fun upsertSession :: "SessionRecord list \<Rightarrow> SessionRecord \<Rightarrow> SessionRecord list" where
  "upsertSession [] r = [r]"
| "upsertSession (x # xs) r = (if se_SessionHash x = se_SessionHash r then r # xs else x # upsertSession xs r)"

fun upsertToken :: "TokenRecord list \<Rightarrow> TokenRecord \<Rightarrow> TokenRecord list" where
  "upsertToken [] r = [r]"
| "upsertToken (x # xs) r = (if to_TokenHash x = to_TokenHash r then r # xs else x # upsertToken xs r)"

definition PutSession :: "goerr option \<Rightarrow> AuthStore \<Rightarrow> SessionRecord \<Rightarrow> goerr option \<times> AuthStore" where
  "PutSession ctx s r = (case ctx of Some e \<Rightarrow> (Some e, s)
     | None \<Rightarrow> (None, s\<lparr>au_sessions := upsertSession (au_sessions s) r\<rparr>))"

definition SessionByHash :: "goerr option \<Rightarrow> AuthStore \<Rightarrow> string \<Rightarrow> goerr + SessionRecord option" where
  "SessionByHash ctx s h = (case ctx of Some e \<Rightarrow> Inl e
     | None \<Rightarrow> Inr (List.find (\<lambda>r. se_SessionHash r = h) (au_sessions s)))"

fun revokeFirstSession :: "string \<Rightarrow> int \<Rightarrow> SessionRecord list \<Rightarrow> SessionRecord list option" where
  "revokeFirstSession h at [] = None"
| "revokeFirstSession h at (r # rs) =
     (if se_SessionHash r = h then Some (r\<lparr>se_RevokedAt := Some at\<rparr> # rs) else map_option ((#) r) (revokeFirstSession h at rs))"

definition RevokeSession :: "goerr option \<Rightarrow> AuthStore \<Rightarrow> string \<Rightarrow> int \<Rightarrow> goerr option \<times> AuthStore" where
  "RevokeSession ctx s h at = (case ctx of Some e \<Rightarrow> (Some e, s)
     | None \<Rightarrow> (case revokeFirstSession h at (au_sessions s) of
         Some rs \<Rightarrow> (None, s\<lparr>au_sessions := rs\<rparr>)
       | None \<Rightarrow> (Some (kerr CodeUnauthorized ''session not found'' False), s)))"

definition PutToken :: "goerr option \<Rightarrow> AuthStore \<Rightarrow> TokenRecord \<Rightarrow> goerr option \<times> AuthStore" where
  "PutToken ctx s r = (case ctx of Some e \<Rightarrow> (Some e, s)
     | None \<Rightarrow> (None, s\<lparr>au_tokens := upsertToken (au_tokens s) r\<rparr>))"

definition TokenByHash :: "goerr option \<Rightarrow> AuthStore \<Rightarrow> string \<Rightarrow> goerr + TokenRecord option" where
  "TokenByHash ctx s h = (case ctx of Some e \<Rightarrow> Inl e
     | None \<Rightarrow> Inr (List.find (\<lambda>r. to_TokenHash r = h) (au_tokens s)))"

fun revokeFirstToken :: "string \<Rightarrow> int \<Rightarrow> TokenRecord list \<Rightarrow> TokenRecord list option" where
  "revokeFirstToken h at [] = None"
| "revokeFirstToken h at (r # rs) =
     (if to_TokenHash r = h then Some (r\<lparr>to_RevokedAt := Some at\<rparr> # rs) else map_option ((#) r) (revokeFirstToken h at rs))"

definition RevokeToken :: "goerr option \<Rightarrow> AuthStore \<Rightarrow> string \<Rightarrow> int \<Rightarrow> goerr option \<times> AuthStore" where
  "RevokeToken ctx s h at = (case ctx of Some e \<Rightarrow> (Some e, s)
     | None \<Rightarrow> (case revokeFirstToken h at (au_tokens s) of
         Some rs \<Rightarrow> (None, s\<lparr>au_tokens := rs\<rparr>)
       | None \<Rightarrow> (Some (kerr CodeUnauthorized ''token not found'' False), s)))"

section \<open>The authenticator\<close>

definition HashOpaqueSecret :: "(string \<Rightarrow> string) \<Rightarrow> string \<Rightarrow> string" where
  "HashOpaqueSecret hash secret = hash secret"

definition validateCapability :: "Capability \<Rightarrow> int \<Rightarrow> goerr option" where
  "validateCapability c now = first_err
     [RequireID ''project_id'' (ca_ProjectID c),
      RequireID ''invocation_id'' (ca_InvocationID c),
      fail_if (ca_Role c = '''') (InvalidArgument ''role is required''),
      fail_if (\<not> isAgentRole (ca_Role c)) (Forbidden ''unsupported agent role''),
      (if ca_Role c = RoleContext then
         fail_if (ca_Operation c \<notin> {''retrieve'', ''curate'', ''review''})
           (InvalidArgument ''context capability operation must be retrieve, curate, or review'')
       else fail_if (ca_Operation c \<noteq> '''') (InvalidArgument ''operation is only valid for context capability'')),
      fail_if ((ca_ConsumerInvocationID c \<noteq> '''' \<or> ca_ConsumerTaskID c \<noteq> '''' \<or> ca_ConsumerRole c \<noteq> '''')
          \<and> (ca_Role c \<noteq> RoleContext \<or> ca_Operation c \<noteq> ''retrieve''))
        (Forbidden ''consumer invocation is only valid for context retrieve capability''),
      fail_if (ca_ConsumerRole c \<noteq> '''' \<and> \<not> isAgentRole (ca_ConsumerRole c))
        (Forbidden ''consumer role is not a supported agent role''),
      fail_if (ca_Tools c = []) (Forbidden ''capability must include at least one tool''),
      check_all (\<lambda>tool. first_err
        [fail_if (\<not> roleAllowsTool (ca_Role c) tool) (Forbidden ''tool is outside role capability''),
         fail_if (\<not> operationAllowsTool (ca_Role c) (ca_Operation c) tool)
           (Forbidden ''tool is outside invocation operation capability'')]) (ca_Tools c),
      (if IsPhase (ca_Role c) \<and> RequireID ''task_id'' (ca_TaskID c) \<noteq> None
       then Some (StaleBinding ''phase capability must bind a task'') else None),
      fail_if (\<not> After (ca_ExpiresAt c) now) (kerr CodeUnauthorized ''capability already expired'' False)]"

definition validateOperatorSessionRequest :: "ActorPrincipalID \<Rightarrow> ProjectID list \<Rightarrow> int \<Rightarrow> goerr option" where
  "validateOperatorSessionRequest actorPrincipalID projectIDs ttl = first_err
     [RequireID ''actor_principal_id'' actorPrincipalID,
      fail_if (projectIDs = []) (Forbidden ''operator session must bind at least one project''),
      check_all (\<lambda>projectID. RequireID ''project_id'' projectID) projectIDs,
      fail_if (ttl \<le> 0) (InvalidArgument ''session ttl must be positive'')]"

text \<open>The secrets an issue draws are arguments: an error of the random source, or the encoded secret.\<close>

definition IssueOperatorSession ::
  "(string \<Rightarrow> string) \<Rightarrow> goerr option \<Rightarrow> int \<Rightarrow> goerr + string \<Rightarrow> goerr + string \<Rightarrow> AuthStore \<Rightarrow> ActorPrincipalID \<Rightarrow> ProjectID list \<Rightarrow> int \<Rightarrow>
   (goerr + string \<times> string) \<times> AuthStore" where
  "IssueOperatorSession hash ctx now sessionDraw csrfDraw s actorPrincipalID projectIDs ttl =
     (case validateOperatorSessionRequest actorPrincipalID projectIDs ttl of Some e \<Rightarrow> (Inl e, s) | None \<Rightarrow>
     (case sessionDraw of Inl e \<Rightarrow> (Inl e, s) | Inr sessionSecret \<Rightarrow>
     (case csrfDraw of Inl e \<Rightarrow> (Inl e, s) | Inr csrfSecret \<Rightarrow>
     (case PutSession ctx s \<lparr>se_SessionHash = HashOpaqueSecret hash sessionSecret, se_ActorPrincipalID = actorPrincipalID,
          se_ProjectIDs = remdups projectIDs, se_CSRFHash = HashOpaqueSecret hash csrfSecret,
          se_ExpiresAt = Some (now + ttl), se_RevokedAt = None\<rparr> of
        (Some e, s') \<Rightarrow> (Inl e, s')
      | (None, s') \<Rightarrow> (Inr (sessionSecret, csrfSecret), s')))))"

definition AuthenticateOperatorSession ::
  "(string \<Rightarrow> string) \<Rightarrow> goerr option \<Rightarrow> int \<Rightarrow> AuthStore \<Rightarrow> string \<Rightarrow> ProjectID \<Rightarrow> goerr + Principal \<times> SessionRecord" where
  "AuthenticateOperatorSession hash ctx now s sessionSecret projectID =
     (case SessionByHash ctx s (HashOpaqueSecret hash sessionSecret) of
        Inl e \<Rightarrow> Inl e
      | Inr None \<Rightarrow> Inl (kerr CodeUnauthorized ''session is missing or invalid'' False)
      | Inr (Some r) \<Rightarrow>
          checked (first_err
            [fail_if (\<not> After (se_ExpiresAt r) now) (kerr CodeUnauthorized ''session expired'' False),
             fail_if (se_RevokedAt r \<noteq> None) (kerr CodeUnauthorized ''session revoked'' False),
             fail_if (projectID \<notin> set (se_ProjectIDs r)) (Forbidden ''operator is not allowed for project'')])
          (Inr (\<lparr>pr_ActorPrincipalID = se_ActorPrincipalID r, pr_Kind = PrincipalOperator, pr_ProjectID = projectID,
                 pr_Role = RoleOperator, pr_Operation = '''', pr_TaskID = '''', pr_InvocationID = '''',
                 pr_ConsumerInvocationID = '''', pr_ConsumerTaskID = '''', pr_ConsumerRole = '''', pr_Tools = [],
                 pr_AuthenticatedAt = now\<rparr>, r)))"

definition RevokeOperatorSession ::
  "(string \<Rightarrow> string) \<Rightarrow> goerr option \<Rightarrow> int \<Rightarrow> AuthStore \<Rightarrow> string \<Rightarrow> goerr option \<times> AuthStore" where
  "RevokeOperatorSession hash ctx now s sessionSecret = RevokeSession ctx s (HashOpaqueSecret hash sessionSecret) now"

definition IssueAgentToken ::
  "(string \<Rightarrow> string) \<Rightarrow> goerr option \<Rightarrow> int \<Rightarrow> goerr + string \<Rightarrow> AuthStore \<Rightarrow> ActorPrincipalID \<Rightarrow> Capability \<Rightarrow> (goerr + string) \<times> AuthStore" where
  "IssueAgentToken hash ctx now draw s actorPrincipalID capability =
     (case first_err [RequireID ''actor_principal_id'' actorPrincipalID, validateCapability capability now] of
        Some e \<Rightarrow> (Inl e, s)
      | None \<Rightarrow> (case draw of Inl e \<Rightarrow> (Inl e, s) | Inr tokenSecret \<Rightarrow>
          (case PutToken ctx s \<lparr>to_TokenHash = HashOpaqueSecret hash tokenSecret, to_ActorPrincipalID = actorPrincipalID,
               to_Capability = capability, to_ExpiresAt = ca_ExpiresAt capability, to_RevokedAt = None\<rparr> of
             (Some e, s') \<Rightarrow> (Inl e, s')
           | (None, s') \<Rightarrow> (Inr tokenSecret, s'))))"

definition AuthenticateAgentToken ::
  "(string \<Rightarrow> string) \<Rightarrow> goerr option \<Rightarrow> int \<Rightarrow> AuthStore \<Rightarrow> string \<Rightarrow> goerr + Principal" where
  "AuthenticateAgentToken hash ctx now s tokenSecret =
     (case TokenByHash ctx s (HashOpaqueSecret hash tokenSecret) of
        Inl e \<Rightarrow> Inl e
      | Inr None \<Rightarrow> Inl (kerr CodeUnauthorized ''agent token is missing or invalid'' False)
      | Inr (Some r) \<Rightarrow>
          let c = to_Capability r in
          checked (first_err
            [fail_if (\<not> After (to_ExpiresAt r) now) (kerr CodeUnauthorized ''agent token expired'' False),
             fail_if (to_RevokedAt r \<noteq> None) (kerr CodeUnauthorized ''agent token revoked'' False),
             fail_if (RequireID ''actor_principal_id'' (to_ActorPrincipalID r) \<noteq> None)
               (kerr CodeUnauthorized ''agent token has an invalid principal binding'' False),
             validateCapability c now])
          (Inr \<lparr>pr_ActorPrincipalID = to_ActorPrincipalID r, pr_Kind = PrincipalAgent, pr_ProjectID = ca_ProjectID c,
                pr_Role = ca_Role c, pr_Operation = ca_Operation c, pr_TaskID = ca_TaskID c,
                pr_InvocationID = ca_InvocationID c, pr_ConsumerInvocationID = ca_ConsumerInvocationID c,
                pr_ConsumerTaskID = ca_ConsumerTaskID c, pr_ConsumerRole = ca_ConsumerRole c, pr_Tools = ca_Tools c,
                pr_AuthenticatedAt = now\<rparr>))"

definition RevokeAgentToken :: "(string \<Rightarrow> string) \<Rightarrow> goerr option \<Rightarrow> int \<Rightarrow> AuthStore \<Rightarrow> string \<Rightarrow> goerr option \<times> AuthStore" where
  "RevokeAgentToken hash ctx now s tokenSecret = RevokeToken ctx s (HashOpaqueSecret hash tokenSecret) now"

section \<open>State-changing requests\<close>

definition isSafeMethod :: "string \<Rightarrow> bool" where
  "isSafeMethod m \<longleftrightarrow> m \<in> {''GET'', ''HEAD'', ''OPTIONS'', ''TRACE''}"

text \<open>\<open>StateChangeGuard.Check\<close> on the method and the two headers it reads (\<open>''''\<close> where one is absent).\<close>

definition CheckStateChange ::
  "(string \<Rightarrow> string) \<Rightarrow> string list \<Rightarrow> string \<Rightarrow> string \<Rightarrow> string \<Rightarrow> SessionRecord \<Rightarrow> goerr option" where
  "CheckStateChange hash allowedOrigins method origin csrf session =
     (if isSafeMethod method then None
      else first_err
        [fail_if (origin = '''') (kerr CodeOriginInvalid ''state changing request is missing Origin'' False),
         fail_if (origin \<notin> set allowedOrigins)
           (kerr CodeOriginInvalid ''state changing request origin is not allowed'' False),
         fail_if (csrf = '''' \<or> HashOpaqueSecret hash csrf \<noteq> se_CSRFHash session)
           (kerr CodeCSRFInvalid ''state changing request has invalid CSRF token'' False)])"

end
