(* ===== verification/Auth_Properties.thy ===== *)
theory Auth_Properties
  imports Auth
begin

text \<open>
  What authentication and authorization guarantee. Sessions and tokens are kept the same way:
  \<open>credential_store\<close> is the contract of such a list of records with its upsert and its revocation, and
  it is interpreted for both.
\<close>

section \<open>Records that can be revoked\<close>

locale credential_store =
  fixes put :: "'r list \<Rightarrow> 'r \<Rightarrow> 'r list"
    and revoke :: "string \<Rightarrow> int \<Rightarrow> 'r list \<Rightarrow> 'r list option"
    and key :: "'r \<Rightarrow> string"
    and revoked :: "'r \<Rightarrow> int option"
  assumes put_same: "List.find (\<lambda>x. key x = key r) (put rs r) = Some r"
    and put_other: "h \<noteq> key r \<Longrightarrow> List.find (\<lambda>x. key x = h) (put rs r) = List.find (\<lambda>x. key x = h) rs"
    and revoke_same: "revoke h at rs = Some rs' \<Longrightarrow> \<exists>r. List.find (\<lambda>x. key x = h) rs' = Some r \<and> revoked r = Some at"
    and revoke_other: "revoke h at rs = Some rs' \<Longrightarrow> h' \<noteq> h \<Longrightarrow> List.find (\<lambda>x. key x = h') rs' = List.find (\<lambda>x. key x = h') rs"
begin

text \<open>A record is dead under \<open>h\<close> once it has been revoked; only a record put under \<open>h\<close> changes that.\<close>

lemma revoked_revoke:
  assumes "\<exists>r. List.find (\<lambda>x. key x = h) rs = Some r \<and> revoked r \<noteq> None" "revoke h' at rs = Some rs'"
  shows "\<exists>r. List.find (\<lambda>x. key x = h) rs' = Some r \<and> revoked r \<noteq> None"
  using assms revoke_same[OF assms(2)] revoke_other[OF assms(2), of h] by (cases "h = h'") auto

end

interpretation sessions: credential_store upsertSession revokeFirstSession se_SessionHash se_RevokedAt
proof
  show "List.find (\<lambda>x. se_SessionHash x = se_SessionHash r) (upsertSession rs r) = Some r" for r rs
    by (induction rs) auto
  show "List.find (\<lambda>x. se_SessionHash x = h) (upsertSession rs r) = List.find (\<lambda>x. se_SessionHash x = h) rs"
    if "h \<noteq> se_SessionHash r" for h r rs
    using that by (induction rs) auto
  show "\<exists>r. List.find (\<lambda>x. se_SessionHash x = h) rs' = Some r \<and> se_RevokedAt r = Some at"
    if "revokeFirstSession h at rs = Some rs'" for h at rs rs'
    using that by (induction rs arbitrary: rs') (auto split: if_splits)
  show "List.find (\<lambda>x. se_SessionHash x = h') rs' = List.find (\<lambda>x. se_SessionHash x = h') rs"
    if "revokeFirstSession h at rs = Some rs'" "h' \<noteq> h" for h at rs rs' h'
    using that by (induction rs arbitrary: rs') (auto split: if_splits)
qed

interpretation tokens: credential_store upsertToken revokeFirstToken to_TokenHash to_RevokedAt
proof
  show "List.find (\<lambda>x. to_TokenHash x = to_TokenHash r) (upsertToken rs r) = Some r" for r rs
    by (induction rs) auto
  show "List.find (\<lambda>x. to_TokenHash x = h) (upsertToken rs r) = List.find (\<lambda>x. to_TokenHash x = h) rs"
    if "h \<noteq> to_TokenHash r" for h r rs
    using that by (induction rs) auto
  show "\<exists>r. List.find (\<lambda>x. to_TokenHash x = h) rs' = Some r \<and> to_RevokedAt r = Some at"
    if "revokeFirstToken h at rs = Some rs'" for h at rs rs'
    using that by (induction rs arbitrary: rs') (auto split: if_splits)
  show "List.find (\<lambda>x. to_TokenHash x = h') rs' = List.find (\<lambda>x. to_TokenHash x = h') rs"
    if "revokeFirstToken h at rs = Some rs'" "h' \<noteq> h" for h at rs rs' h'
    using that by (induction rs arbitrary: rs') (auto split: if_splits)
qed

section \<open>Steps of the authenticator\<close>

text \<open>
  Any use of the authenticator, in which no secret is drawn whose hash is \<open>h\<close>: secrets are drawn from
  256 random bits.
\<close>

inductive auth_step :: "(string \<Rightarrow> string) \<Rightarrow> string \<Rightarrow> AuthStore \<Rightarrow> AuthStore \<Rightarrow> bool" for hash h where
  issue_session: "(\<And>x. sessionDraw = Inr x \<Longrightarrow> hash x \<noteq> h) \<Longrightarrow>
     auth_step hash h s (snd (IssueOperatorSession hash ctx now sessionDraw csrfDraw s actor projects ttl))"
| issue_token: "(\<And>x. draw = Inr x \<Longrightarrow> hash x \<noteq> h) \<Longrightarrow>
     auth_step hash h s (snd (IssueAgentToken hash ctx now draw s actor capability))"
| revoke_session: "auth_step hash h s (snd (RevokeOperatorSession hash ctx now s secret))"
| revoke_token: "auth_step hash h s (snd (RevokeAgentToken hash ctx now s secret))"

definition token_dead :: "string \<Rightarrow> AuthStore \<Rightarrow> bool" where
  "token_dead h s \<longleftrightarrow> (\<exists>r. List.find (\<lambda>x. to_TokenHash x = h) (au_tokens s) = Some r \<and> to_RevokedAt r \<noteq> None)"

definition session_dead :: "string \<Rightarrow> AuthStore \<Rightarrow> bool" where
  "session_dead h s \<longleftrightarrow> (\<exists>r. List.find (\<lambda>x. se_SessionHash x = h) (au_sessions s) = Some r \<and> se_RevokedAt r \<noteq> None)"

lemma auth_step_dead:
  assumes "auth_step hash h s t"
  shows "token_dead h s \<Longrightarrow> token_dead h t" "session_dead h s \<Longrightarrow> session_dead h t"
  using assms
proof (induction rule: auth_step.induct)
  case (issue_session sessionDraw s ctx now csrfDraw actor projects ttl)
  {
    case 1
    then show ?case by (auto simp: token_dead_def IssueOperatorSession_def PutSession_def split: option.splits sum.splits)
  next
    case 2
    then show ?case
      using issue_session by (auto simp: session_dead_def IssueOperatorSession_def PutSession_def HashOpaqueSecret_def
          sessions.put_other split: option.splits sum.splits)
  }
next
  case (issue_token draw s ctx now actor capability)
  {
    case 1
    then show ?case
      using issue_token by (auto simp: token_dead_def IssueAgentToken_def PutToken_def HashOpaqueSecret_def
          tokens.put_other split: option.splits sum.splits)
  next
    case 2
    then show ?case by (auto simp: session_dead_def IssueAgentToken_def PutToken_def split: option.splits sum.splits)
  }
next
  case (revoke_session s ctx now secret)
  {
    case 1
    then show ?case by (auto simp: token_dead_def RevokeOperatorSession_def RevokeSession_def split: option.splits)
  next
    case 2
    then show ?case
      using sessions.revoked_revoke[of h "au_sessions s"]
      by (auto simp: session_dead_def RevokeOperatorSession_def RevokeSession_def split: option.splits)
  }
next
  case (revoke_token s ctx now secret)
  {
    case 1
    then show ?case
      using tokens.revoked_revoke[of h "au_tokens s"]
      by (auto simp: token_dead_def RevokeAgentToken_def RevokeToken_def split: option.splits)
  next
    case 2
    then show ?case by (auto simp: session_dead_def RevokeAgentToken_def RevokeToken_def split: option.splits)
  }
qed

lemma auth_steps_dead:
  assumes "(auth_step hash h)\<^sup>*\<^sup>* s t"
  shows "token_dead h s \<Longrightarrow> token_dead h t" "session_dead h s \<Longrightarrow> session_dead h t"
  using assms by (induction rule: rtranclp_induct) (auto dest: auth_step_dead)

section \<open>Properties\<close>

definition example_capability :: "Role \<Rightarrow> Tool list \<Rightarrow> Capability" where
  "example_capability role tools =
     \<lparr>ca_ProjectID = ''p'', ca_TaskID = ''build'', ca_InvocationID = ''inv1'', ca_ConsumerInvocationID = '''', ca_ConsumerTaskID = '''',
      ca_ConsumerRole = '''', ca_Role = role, ca_Operation = '''', ca_Tools = tools, ca_ExpiresAt = Some 100\<rparr>"

definition example_issued :: AuthStore where
  "example_issued = snd (IssueAgentToken (\<lambda>x. ''h'' @ x) None 0 (Inr ''s1'') NewAuthStore ''agent1''
     (example_capability RoleExecutor [ToolWorkspaceWrite]))"

definition example_revoked :: AuthStore where
  "example_revoked = snd (RevokeAgentToken (\<lambda>x. ''h'' @ x) None 5 example_issued ''s1'')"

text \<open>
  C20. A revoked credential is dead: once the revocation of an agent token or of an operator session
  has succeeded, every later attempt to authenticate with its secret is refused as unauthorized, at
  any time and whatever else the authenticator has done, as long as no drawn secret collides with it.
\<close>

theorem revoked_credentials_rejected:
  assumes "(auth_step hash (hash secret))\<^sup>*\<^sup>* s' t"
  shows "(RevokeAgentToken hash None now s secret = (None, s') \<longrightarrow>
      (\<exists>e. AuthenticateAgentToken hash None now' t secret = Inl e \<and> ErrorCodeOf (Some e) = CodeUnauthorized))
    \<and> (RevokeOperatorSession hash None now s secret = (None, s') \<longrightarrow>
      (\<exists>e. AuthenticateOperatorSession hash None now' t secret project = Inl e \<and> ErrorCodeOf (Some e) = CodeUnauthorized))"
proof (intro conjI impI)
  assume "RevokeAgentToken hash None now s secret = (None, s')"
  then have "token_dead (hash secret) s'"
    by (auto simp: RevokeAgentToken_def RevokeToken_def HashOpaqueSecret_def token_dead_def dest!: tokens.revoke_same
        split: option.splits)
  then have "token_dead (hash secret) t" using auth_steps_dead(1)[OF assms] by blast
  then show "\<exists>e. AuthenticateAgentToken hash None now' t secret = Inl e \<and> ErrorCodeOf (Some e) = CodeUnauthorized"
    by (auto simp: token_dead_def AuthenticateAgentToken_def TokenByHash_def HashOpaqueSecret_def checked_def fail_if_def)
next
  assume "RevokeOperatorSession hash None now s secret = (None, s')"
  then have "session_dead (hash secret) s'"
    by (auto simp: RevokeOperatorSession_def RevokeSession_def HashOpaqueSecret_def session_dead_def dest!: sessions.revoke_same
        split: option.splits)
  then have "session_dead (hash secret) t" using auth_steps_dead(2)[OF assms] by blast
  then show "\<exists>e. AuthenticateOperatorSession hash None now' t secret project = Inl e \<and> ErrorCodeOf (Some e) = CodeUnauthorized"
    by (auto simp: session_dead_def AuthenticateOperatorSession_def SessionByHash_def HashOpaqueSecret_def checked_def fail_if_def)
qed

theorem revoked_credentials_rejected_witness:
  "RevokeAgentToken (\<lambda>x. ''h'' @ x) None 5 example_issued ''s1'' = (None, example_revoked)
   \<and> (\<exists>e. AuthenticateAgentToken (\<lambda>x. ''h'' @ x) None 6 example_revoked ''s1'' = Inl e)"
proof
  show revoked: "RevokeAgentToken (\<lambda>x. ''h'' @ x) None 5 example_issued ''s1'' = (None, example_revoked)"
    by (simp add: prod_eq_iff example_revoked_def) code_simp
  show "\<exists>e. AuthenticateAgentToken (\<lambda>x. ''h'' @ x) None 6 example_revoked ''s1'' = Inl e"
    using revoked_credentials_rejected[where hash = "\<lambda>x. ''h'' @ x" and secret = "''s1''" and now = 5 and now' = 6,
        OF rtranclp.rtrancl_refl] revoked by blast
qed

text \<open>
  C30. Issue and authentication are a round trip: the secret of an issued token authenticates, until
  it expires, as an agent principal with exactly the project, task, invocation, role, operation and
  tools of the capability it was issued for.
\<close>

theorem issued_token_authenticates:
  assumes "IssueAgentToken hash None now (Inr secret) s actor capability = (Inr secret', t)"
    and "After (ca_ExpiresAt capability) now'"
  shows "\<exists>p. AuthenticateAgentToken hash None now' t secret' = Inr p \<and> pr_Kind p = PrincipalAgent
    \<and> pr_ActorPrincipalID p = actor \<and> pr_ProjectID p = ca_ProjectID capability \<and> pr_TaskID p = ca_TaskID capability
    \<and> pr_InvocationID p = ca_InvocationID capability \<and> pr_Role p = ca_Role capability
    \<and> pr_Operation p = ca_Operation capability \<and> pr_Tools p = ca_Tools capability"
proof -
  let ?r = "\<lparr>to_TokenHash = hash secret, to_ActorPrincipalID = actor, to_Capability = capability,
    to_ExpiresAt = ca_ExpiresAt capability, to_RevokedAt = None\<rparr>"
  have t: "t = s\<lparr>au_tokens := upsertToken (au_tokens s) ?r\<rparr>" "secret' = secret"
    and ok: "RequireID ''actor_principal_id'' actor = None" "validateCapability capability now = None"
    using assms(1) by (auto simp: IssueAgentToken_def PutToken_def HashOpaqueSecret_def first_err_None split: option.splits)
  have "validateCapability capability now' = None"
    using ok(2) assms(2) unfolding validateCapability_def by (simp add: first_err_None fail_if_None)
  then show ?thesis
    using tokens.put_same[of ?r "au_tokens s"] ok(1) assms(2)
    by (simp add: AuthenticateAgentToken_def TokenByHash_def HashOpaqueSecret_def t checked_def fail_if_def Let_def)
qed

theorem issued_token_authenticates_witness:
  "\<exists>p. AuthenticateAgentToken (\<lambda>x. ''h'' @ x) None 50 example_issued ''s1'' = Inr p \<and> pr_Role p = RoleExecutor"
proof -
  have "fst (IssueAgentToken (\<lambda>x. ''h'' @ x) None 0 (Inr ''s1'') NewAuthStore ''agent1''
      (example_capability RoleExecutor [ToolWorkspaceWrite])) = Inr ''s1''" by code_simp
  then have "IssueAgentToken (\<lambda>x. ''h'' @ x) None 0 (Inr ''s1'') NewAuthStore ''agent1''
      (example_capability RoleExecutor [ToolWorkspaceWrite]) = (Inr ''s1'', example_issued)"
    by (simp add: prod_eq_iff example_issued_def)
  from issued_token_authenticates[OF this, of 50] show ?thesis by (auto simp: example_capability_def After_def)
qed

lemma operation_within_role: "operationAllowsTool role operation tool \<Longrightarrow> roleAllowsTool role tool"
  by (auto simp: operationAllowsTool_def roleAllowsTool_def split: if_splits)

lemma role_canonical: "roleAllowsTool role tool \<Longrightarrow> tool \<in> set canonicalTools"
  by (auto simp: roleAllowsTool_def canonicalTools_def split: if_splits)

text \<open>
  C31. A tool call that is allowed is one of an agent, for a tool its invocation was given and its role
  and operation allow, within its own scope: the scope bound to the call is the principal's, whatever
  was requested, and a request that names another project, task or invocation is refused. Graph writes
  are the Task Manager's alone, file writes the executor's, plan writes the planner's.
\<close>

theorem allowed_tool_is_bound:
  assumes "RequireTool p tool requested = Inr bound"
  shows "pr_Kind p = PrincipalAgent \<and> tool \<in> set (pr_Tools p) \<and> tool \<in> set (InvocationCapabilityTools (pr_Role p) (pr_Operation p))
    \<and> set (InvocationCapabilityTools (pr_Role p) (pr_Operation p)) \<subseteq> set (RoleCapabilityTools (pr_Role p))
    \<and> bound = \<lparr>sc_ProjectID = pr_ProjectID p, sc_TaskID = pr_TaskID p, sc_InvocationID = pr_InvocationID p\<rparr>
    \<and> (sc_ProjectID requested = '''' \<or> sc_ProjectID requested = pr_ProjectID p)
    \<and> (sc_TaskID requested = '''' \<or> sc_TaskID requested = pr_TaskID p)
    \<and> (sc_InvocationID requested = '''' \<or> sc_InvocationID requested = pr_InvocationID p)
    \<and> (tool \<in> {ToolCoordinationReplacePending, ToolCoordinationTransition, ToolTaskManagerSubmitDecision} \<longrightarrow> pr_Role p = RoleTaskManager)
    \<and> (tool = ToolWorkspaceWrite \<longrightarrow> pr_Role p = RoleExecutor) \<and> (tool = ToolWorkspaceWritePlan \<longrightarrow> pr_Role p = RolePlanner)"
proof -
  have c: "pr_Kind p = PrincipalAgent" "roleAllowsTool (pr_Role p) tool" "operationAllowsTool (pr_Role p) (pr_Operation p) tool"
    "tool \<in> set (pr_Tools p)" "sc_ProjectID requested = '''' \<or> sc_ProjectID requested = pr_ProjectID p"
    "sc_TaskID requested = '''' \<or> sc_TaskID requested = pr_TaskID p"
    "sc_InvocationID requested = '''' \<or> sc_InvocationID requested = pr_InvocationID p"
    "bound = \<lparr>sc_ProjectID = pr_ProjectID p, sc_TaskID = pr_TaskID p, sc_InvocationID = pr_InvocationID p\<rparr>"
    using assms unfolding RequireTool_def checked_Inr first_err_None by (auto simp: fail_if_None HasTool_def)
  have "tool \<in> set (InvocationCapabilityTools (pr_Role p) (pr_Operation p))"
    using c(2,3) role_canonical by (simp add: InvocationCapabilityTools_def)
  moreover have "set (InvocationCapabilityTools (pr_Role p) (pr_Operation p)) \<subseteq> set (RoleCapabilityTools (pr_Role p))"
    using operation_within_role by (auto simp: InvocationCapabilityTools_def RoleCapabilityTools_def)
  moreover have "tool \<in> {ToolCoordinationReplacePending, ToolCoordinationTransition, ToolTaskManagerSubmitDecision} \<longrightarrow> pr_Role p = RoleTaskManager"
    "tool = ToolWorkspaceWrite \<longrightarrow> pr_Role p = RoleExecutor" "tool = ToolWorkspaceWritePlan \<longrightarrow> pr_Role p = RolePlanner"
    using c(2) by (auto simp: roleAllowsTool_def split: if_splits)
  ultimately show ?thesis using c by blast
qed

definition example_principal :: Principal where
  "example_principal = \<lparr>pr_ActorPrincipalID = ''agent1'', pr_Kind = PrincipalAgent, pr_ProjectID = ''p'', pr_Role = RoleExecutor,
     pr_Operation = '''', pr_TaskID = ''build'', pr_InvocationID = ''inv1'', pr_ConsumerInvocationID = '''', pr_ConsumerTaskID = '''',
     pr_ConsumerRole = '''', pr_Tools = [ToolWorkspaceWrite], pr_AuthenticatedAt = 0\<rparr>"

theorem allowed_tool_is_bound_witness:
  "\<exists>bound. RequireTool example_principal ToolWorkspaceWrite \<lparr>sc_ProjectID = '''', sc_TaskID = ''build'', sc_InvocationID = ''''\<rparr> = Inr bound
     \<and> sc_ProjectID bound = ''p''"
proof -
  let ?r = "\<lparr>sc_ProjectID = '''', sc_TaskID = ''build'', sc_InvocationID = ''''\<rparr> :: Scope"
  have "\<not> isl (RequireTool example_principal ToolWorkspaceWrite ?r)" by code_simp
  then obtain b where b: "RequireTool example_principal ToolWorkspaceWrite ?r = Inr b"
    by (cases "RequireTool example_principal ToolWorkspaceWrite ?r") auto
  from allowed_tool_is_bound[OF b] b show ?thesis by (auto simp: example_principal_def)
qed

text \<open>
  A request that changes state passes the guard exactly when its origin is allowed and its CSRF
  token hashes to the session's; a request with a safe method always passes.
\<close>

theorem state_change_guard:
  "CheckStateChange hash origins method origin csrf session = None \<longleftrightarrow>
     method \<in> {''GET'', ''HEAD'', ''OPTIONS'', ''TRACE''}
   \<or> (origin \<noteq> '''' \<and> origin \<in> set origins \<and> csrf \<noteq> '''' \<and> hash csrf = se_CSRFHash session)"
  unfolding CheckStateChange_def isSafeMethod_def HashOpaqueSecret_def
  by (simp add: first_err_None fail_if_None del: insert_iff)

end
