(* ===== verification/Idempotency.thy ===== *)
theory Idempotency
  imports Kernel
begin

text \<open>
  \<open>internal/kernel/idempotency.go\<close>: the memory idempotency store. Records are shared by pointer between
  the owner of a key and the callers that wait for it, so the store keeps a heap of records
  (\<open>st_heap\<close>, indexed by allocation number) beside the map from keys to record pointers.
  SHA-256 is the argument \<open>hash\<close> of the operations that use it.

  \<open>Execute\<close> takes the mutex in \<open>reserve\<close> and again in \<open>commit\<close> or \<open>releaseFailed\<close>, and runs the
  caller's function between the two, so concurrent calls interleave there. \<open>idem_step\<close> is that
  interleaving: one rule per atomic piece of a call.
\<close>

section \<open>The store\<close>

record IdempotencyResponse =
  resp_StatusCode :: int
  resp_Body :: string

datatype recordKey = RecordKey (key_scope: IDScope) (key_key: IdempotencyKey)

text \<open>\<open>idempotencyRecord\<close>: \<open>rec_done\<close> is the closed channel.\<close>

record idempotencyRecord =
  rec_payloadHash :: string
  rec_done :: bool
  rec_response :: IdempotencyResponse
  rec_err :: "goerr option"

record MemoryIdempotencyStore =
  st_records :: "(recordKey, nat) gomap"
  st_heap :: "idempotencyRecord list"

definition zeroResponse :: IdempotencyResponse where
  "zeroResponse = \<lparr>resp_StatusCode = 0, resp_Body = ''''\<rparr>"

definition NewMemoryIdempotencyStore :: MemoryIdempotencyStore where
  "NewMemoryIdempotencyStore = \<lparr>st_records = [], st_heap = []\<rparr>"

definition stringsBlank :: "string \<Rightarrow> bool" where
  "stringsBlank value = list_all (\<lambda>c. c = CHR '' '' \<or> c = CHR 0x09 \<or> c = CHR 0x0A \<or> c = CHR 0x0D) value"

definition hashPayload :: "(string \<Rightarrow> string) \<Rightarrow> string \<Rightarrow> string" where
  "hashPayload hash payload = hash payload"

text \<open>\<open>reserve\<close>: the record and whether the caller owns it.\<close>

definition reserve ::
  "MemoryIdempotencyStore \<Rightarrow> recordKey \<Rightarrow> string \<Rightarrow> goerr + (nat \<times> bool \<times> MemoryIdempotencyStore)" where
  "reserve st recordKey payloadHash = (case mget (st_records st) recordKey of
     Some p \<Rightarrow>
       if rec_payloadHash (st_heap st ! p) \<noteq> payloadHash then Inl IdempotencyConflict
       else Inr (p, False, st)
   | None \<Rightarrow>
       (let p = length (st_heap st);
            record = \<lparr>rec_payloadHash = payloadHash, rec_done = False,
                      rec_response = zeroResponse, rec_err = None\<rparr>
        in Inr (p, True, st\<lparr>st_records := mput recordKey p (st_records st),
                            st_heap := st_heap st @ [record]\<rparr>)))"

text \<open>\<open>commit\<close> stores the response when the map still holds this record, then closes \<open>done\<close>.\<close>

definition commit ::
  "MemoryIdempotencyStore \<Rightarrow> recordKey \<Rightarrow> nat \<Rightarrow> IdempotencyResponse \<Rightarrow> MemoryIdempotencyStore" where
  "commit st recordKey p response =
     (let r = st_heap st ! p;
          r' = (if mget (st_records st) recordKey = Some p then r\<lparr>rec_response := response\<rparr> else r)
      in st\<lparr>st_heap := (st_heap st)[p := r'\<lparr>rec_done := True\<rparr>]\<rparr>)"

definition releaseFailed ::
  "MemoryIdempotencyStore \<Rightarrow> recordKey \<Rightarrow> nat \<Rightarrow> goerr \<Rightarrow> MemoryIdempotencyStore" where
  "releaseFailed st recordKey p execErr =
     st\<lparr>st_records := (if mget (st_records st) recordKey = Some p
                        then mdel recordKey (st_records st) else st_records st),
        st_heap := (st_heap st)[p := (st_heap st ! p)\<lparr>rec_err := Some execErr, rec_done := True\<rparr>]\<rparr>"

text \<open>
  \<open>await\<close> selects between the caller's context and the record: the list holds the outcomes that are
  ready, empty while both channels are open. \<open>ctx\<close> is \<open>ctx.Err()\<close> once the context is done.
\<close>

definition await ::
  "MemoryIdempotencyStore \<Rightarrow> goerr option \<Rightarrow> nat \<Rightarrow> (goerr + IdempotencyResponse) list" where
  "await st ctx p =
     (case ctx of Some e \<Rightarrow> [Inl e] | None \<Rightarrow> [])
     @ (if rec_done (st_heap st ! p)
        then [case rec_err (st_heap st ! p) of
                Some e \<Rightarrow> Inl e | None \<Rightarrow> Inr (rec_response (st_heap st ! p))]
        else [])"

definition argumentCheck :: "IDScope \<Rightarrow> IdempotencyKey \<Rightarrow> bool \<Rightarrow> goerr option" where
  "argumentCheck scope key executeNil = first_err
     [fail_if (stringsBlank scope) (InvalidArgument ''idempotency scope is required''),
      fail_if (IsZeroID key) (InvalidArgument ''idempotency key is required''),
      fail_if executeNil (InvalidArgument ''idempotency executor is required'')]"

text \<open>
  \<open>Execute\<close> run without interference: \<open>execute\<close> is the caller's function on the state it changes, or
  \<open>None\<close> for Go's \<open>nil\<close>.
  A caller that finds a reserved record waits for it; \<open>None\<close> is a call that would block.
\<close>

definition Execute ::
  "(string \<Rightarrow> string) \<Rightarrow> MemoryIdempotencyStore \<Rightarrow> IDScope \<Rightarrow> IdempotencyKey \<Rightarrow> string \<Rightarrow>
   ('s \<Rightarrow> (goerr + IdempotencyResponse) \<times> 's) option \<Rightarrow> 's \<Rightarrow>
   ((goerr + IdempotencyResponse) \<times> MemoryIdempotencyStore \<times> 's) option" where
  "Execute hash st scope key payload execute w = (case argumentCheck scope key (execute = None) of
     Some e \<Rightarrow> Some (Inl e, st, w)
   | None \<Rightarrow> (case reserve st (RecordKey scope key) (hashPayload hash payload) of
       Inl e \<Rightarrow> Some (Inl e, st, w)
     | Inr (p, False, st') \<Rightarrow> (case await st' None p of
           [] \<Rightarrow> None
         | r # _ \<Rightarrow> Some (r, st', w))
     | Inr (p, True, st') \<Rightarrow> (case the execute w of
           (Inl e, w') \<Rightarrow> Some (Inl e, releaseFailed st' (RecordKey scope key) p e, w')
         | (Inr resp, w') \<Rightarrow> Some (Inr resp, commit st' (RecordKey scope key) p resp, w'))))"

section \<open>Concurrent calls\<close>

text \<open>
  One call of \<open>Execute\<close> on its way through the function. \<open>Running\<close>: it owns a record and has not
  finished the caller's function; \<open>Executed\<close>: the function has returned, the result is not yet
  published; \<open>Waiting\<close>: another call owns the record.
\<close>

datatype call =
    Calling IDScope IdempotencyKey string
  | Running recordKey nat
  | Executed recordKey nat "goerr + IdempotencyResponse"
  | Waiting recordKey nat
  | Returned recordKey "goerr + IdempotencyResponse"

record idem_sys =
  sys_store :: MemoryIdempotencyStore
  sys_calls :: "call list"
  sys_effects :: "(recordKey \<times> IdempotencyResponse) list"

inductive idem_step :: "(string \<Rightarrow> string) \<Rightarrow> idem_sys \<Rightarrow> idem_sys \<Rightarrow> bool" for hash where
  arrive: "idem_step hash s (s\<lparr>sys_calls := sys_calls s @ [Calling scope key payload]\<rparr>)"
| reject: "i < length (sys_calls s) \<Longrightarrow> sys_calls s ! i = Calling scope key payload \<Longrightarrow>
     argumentCheck scope key False = Some e \<Longrightarrow>
     idem_step hash s (s\<lparr>sys_calls := (sys_calls s)[i := Returned (RecordKey scope key) (Inl e)]\<rparr>)"
| conflict: "i < length (sys_calls s) \<Longrightarrow> sys_calls s ! i = Calling scope key payload \<Longrightarrow>
     argumentCheck scope key False = None \<Longrightarrow>
     reserve (sys_store s) (RecordKey scope key) (hashPayload hash payload) = Inl e \<Longrightarrow>
     idem_step hash s (s\<lparr>sys_calls := (sys_calls s)[i := Returned (RecordKey scope key) (Inl e)]\<rparr>)"
| own: "i < length (sys_calls s) \<Longrightarrow> sys_calls s ! i = Calling scope key payload \<Longrightarrow>
     argumentCheck scope key False = None \<Longrightarrow>
     reserve (sys_store s) (RecordKey scope key) (hashPayload hash payload) = Inr (p, True, st') \<Longrightarrow>
     idem_step hash s (s\<lparr>sys_store := st', sys_calls := (sys_calls s)[i := Running (RecordKey scope key) p]\<rparr>)"
| join: "i < length (sys_calls s) \<Longrightarrow> sys_calls s ! i = Calling scope key payload \<Longrightarrow>
     argumentCheck scope key False = None \<Longrightarrow>
     reserve (sys_store s) (RecordKey scope key) (hashPayload hash payload) = Inr (p, False, st') \<Longrightarrow>
     idem_step hash s (s\<lparr>sys_store := st', sys_calls := (sys_calls s)[i := Waiting (RecordKey scope key) p]\<rparr>)"
| run_fails: "i < length (sys_calls s) \<Longrightarrow> sys_calls s ! i = Running k p \<Longrightarrow>
     idem_step hash s (s\<lparr>sys_calls := (sys_calls s)[i := Executed k p (Inl e)]\<rparr>)"
| run_succeeds: "i < length (sys_calls s) \<Longrightarrow> sys_calls s ! i = Running k p \<Longrightarrow>
     idem_step hash s (s\<lparr>sys_calls := (sys_calls s)[i := Executed k p (Inr resp)],
                         sys_effects := sys_effects s @ [(k, resp)]\<rparr>)"
| publish_error: "i < length (sys_calls s) \<Longrightarrow> sys_calls s ! i = Executed k p (Inl e) \<Longrightarrow>
     idem_step hash s (s\<lparr>sys_store := releaseFailed (sys_store s) k p e,
                         sys_calls := (sys_calls s)[i := Returned k (Inl e)]\<rparr>)"
| publish: "i < length (sys_calls s) \<Longrightarrow> sys_calls s ! i = Executed k p (Inr resp) \<Longrightarrow>
     idem_step hash s (s\<lparr>sys_store := commit (sys_store s) k p resp,
                         sys_calls := (sys_calls s)[i := Returned k (Inr resp)]\<rparr>)"
| wake: "i < length (sys_calls s) \<Longrightarrow> sys_calls s ! i = Waiting k p \<Longrightarrow>
     r \<in> set (await (sys_store s) ctx p) \<Longrightarrow>
     idem_step hash s (s\<lparr>sys_calls := (sys_calls s)[i := Returned k r]\<rparr>)"

definition idem_init :: idem_sys where
  "idem_init = \<lparr>sys_store = NewMemoryIdempotencyStore, sys_calls = [], sys_effects = []\<rparr>"

inductive idem_reachable :: "(string \<Rightarrow> string) \<Rightarrow> idem_sys \<Rightarrow> bool" for hash where
  start: "idem_reachable hash idem_init"
| step: "idem_reachable hash s \<Longrightarrow> idem_step hash s t \<Longrightarrow> idem_reachable hash t"

section \<open>The invariant of concurrent calls\<close>

definition owns :: "call \<Rightarrow> recordKey \<Rightarrow> nat \<Rightarrow> bool" where
  "owns c k p \<longleftrightarrow> c = Running k p \<or> (\<exists>r. c = Executed k p r)"

lemma owns_simps [simp]:
  "owns (Running k p) k' p' \<longleftrightarrow> k' = k \<and> p' = p"
  "owns (Executed k p r) k' p' \<longleftrightarrow> k' = k \<and> p' = p"
  "\<not> owns (Calling sc ky pl) k' p'" "\<not> owns (Waiting k p) k' p'" "\<not> owns (Returned k r) k' p'"
  by (auto simp: owns_def)

text \<open>What the calls in flight and the store agree on, one definition per aspect.\<close>

definition inv_store :: "idem_sys \<Rightarrow> bool" where
  "inv_store s \<longleftrightarrow>
     (\<forall>k p. mget (st_records (sys_store s)) k = Some p \<longrightarrow> p < length (st_heap (sys_store s)))
   \<and> (\<forall>k k' p. mget (st_records (sys_store s)) k = Some p \<and> mget (st_records (sys_store s)) k' = Some p \<longrightarrow> k = k')"

definition inv_owner :: "idem_sys \<Rightarrow> bool" where
  "inv_owner s \<longleftrightarrow>
     (\<forall>i k p. i < length (sys_calls s) \<and> owns (sys_calls s ! i) k p \<longrightarrow>
        mget (st_records (sys_store s)) k = Some p
      \<and> \<not> rec_done (st_heap (sys_store s) ! p) \<and> rec_err (st_heap (sys_store s) ! p) = None)
   \<and> (\<forall>i j k p q. i < length (sys_calls s) \<and> j < length (sys_calls s)
        \<and> owns (sys_calls s ! i) k p \<and> owns (sys_calls s ! j) k q \<longrightarrow> i = j)"

text \<open>The effect of a key is backed by its record: about to be published, or published.\<close>

definition effect_backed :: "idem_sys \<Rightarrow> recordKey \<Rightarrow> IdempotencyResponse \<Rightarrow> bool" where
  "effect_backed s k resp \<longleftrightarrow>
     (\<exists>p. mget (st_records (sys_store s)) k = Some p
        \<and> (Executed k p (Inr resp) \<in> set (sys_calls s)
           \<or> rec_done (st_heap (sys_store s) ! p) \<and> rec_err (st_heap (sys_store s) ! p) = None
              \<and> rec_response (st_heap (sys_store s) ! p) = resp))"

definition inv_effects :: "idem_sys \<Rightarrow> bool" where
  "inv_effects s \<longleftrightarrow>
     distinct (map fst (sys_effects s))
   \<and> (\<forall>k resp. (k, resp) \<in> set (sys_effects s) \<longrightarrow> effect_backed s k resp)
   \<and> (\<forall>k p resp. Executed k p (Inr resp) \<in> set (sys_calls s) \<longrightarrow> (k, resp) \<in> set (sys_effects s))"

definition inv_results :: "idem_sys \<Rightarrow> bool" where
  "inv_results s \<longleftrightarrow>
     (\<forall>k p. mget (st_records (sys_store s)) k = Some p \<and> rec_done (st_heap (sys_store s) ! p) \<longrightarrow>
        rec_err (st_heap (sys_store s) ! p) = None
      \<and> (k, rec_response (st_heap (sys_store s) ! p)) \<in> set (sys_effects s))
   \<and> (\<forall>k p. Waiting k p \<in> set (sys_calls s) \<longrightarrow> p < length (st_heap (sys_store s))
      \<and> (mget (st_records (sys_store s)) k = Some p \<or> rec_err (st_heap (sys_store s) ! p) \<noteq> None))
   \<and> (\<forall>k r. Returned k (Inr r) \<in> set (sys_calls s) \<longrightarrow> (k, r) \<in> set (sys_effects s))"

definition idem_inv :: "idem_sys \<Rightarrow> bool" where
  "idem_inv s \<longleftrightarrow> inv_store s \<and> inv_owner s \<and> inv_effects s \<and> inv_results s"

lemmas idem_inv_defs = idem_inv_def inv_store_def inv_owner_def inv_effects_def inv_results_def

text \<open>Replacing one call by a call that owns nothing and published nothing.\<close>

lemma set_update_cases: "x \<in> set (xs[i := y]) \<Longrightarrow> x = y \<or> x \<in> set xs"
  using set_update_subset_insert by fastforce

lemma set_update_keep: "x \<in> set xs \<Longrightarrow> x \<noteq> xs ! i \<Longrightarrow> x \<in> set (xs[i := y])"
  by (metis in_set_conv_nth length_list_update nth_list_update_neq)

lemma idem_inv_init: "idem_inv idem_init"
  by (simp add: idem_inv_defs idem_init_def NewMemoryIdempotencyStore_def)

section \<open>Every step keeps the invariant\<close>

lemma inv_arrive: "idem_inv s \<Longrightarrow> idem_inv (s\<lparr>sys_calls := sys_calls s @ [Calling scope key payload]\<rparr>)"
  unfolding idem_inv_def
  apply (intro conjI)
  subgoal by (simp add: inv_store_def)
  subgoal by (fastforce simp: inv_owner_def nth_append less_Suc_eq)
  subgoal by (fastforce simp: inv_effects_def effect_backed_def)
  subgoal by (fastforce simp: inv_results_def)
  done

lemma inv_return:
  assumes "idem_inv s" "i < length (sys_calls s)" "\<And>k p. \<not> owns (sys_calls s ! i) k p"
    and "\<And>r'. r = Inr r' \<Longrightarrow> (k, r') \<in> set (sys_effects s)"
  shows "idem_inv (s\<lparr>sys_calls := (sys_calls s)[i := Returned k r]\<rparr>)"
proof -
  have nex: "\<And>k p r. Executed k p r \<noteq> sys_calls s ! i" using assms(3) owns_simps(2) by metis
  show ?thesis
  using assms(1) unfolding idem_inv_def
  apply (intro conjI; elim conjE)
  subgoal by (simp add: inv_store_def)
  subgoal using assms(2,3) by (fastforce simp: inv_owner_def nth_list_update split: if_splits)
  subgoal unfolding inv_effects_def effect_backed_def using nex by (fastforce dest: set_update_cases intro: set_update_keep)
  subgoal unfolding inv_results_def using assms(4) by (fastforce dest!: set_update_cases)
  done
qed

lemma owner_record:
  assumes "idem_inv s" "i < length (sys_calls s)" "owns (sys_calls s ! i) k p"
  shows "mget (st_records (sys_store s)) k = Some p" "\<not> rec_done (st_heap (sys_store s) ! p)"
    "rec_err (st_heap (sys_store s) ! p) = None" "p < length (st_heap (sys_store s))"
  using assms unfolding idem_inv_def inv_owner_def inv_store_def by blast+

lemma owner_unique:
  assumes "idem_inv s" "i < length (sys_calls s)" "j < length (sys_calls s)"
    "owns (sys_calls s ! i) k p" "owns (sys_calls s ! j) k q"
  shows "i = j"
  using assms unfolding idem_inv_def inv_owner_def by blast

lemma effect_recorded:
  "idem_inv s \<Longrightarrow> (k, r) \<in> set (sys_effects s) \<Longrightarrow> effect_backed s k r"
  unfolding idem_inv_def inv_effects_def by blast

lemma done_record:
  assumes "idem_inv s" "mget (st_records (sys_store s)) k = Some p" "rec_done (st_heap (sys_store s) ! p)"
  shows "rec_err (st_heap (sys_store s) ! p) = None"
    "(k, rec_response (st_heap (sys_store s) ! p)) \<in> set (sys_effects s)"
  using assms unfolding idem_inv_def inv_results_def by blast+

lemma waiting_record:
  assumes "idem_inv s" "Waiting k p \<in> set (sys_calls s)"
  shows "p < length (st_heap (sys_store s))"
    "mget (st_records (sys_store s)) k = Some p \<or> rec_err (st_heap (sys_store s) ! p) \<noteq> None"
  using assms unfolding idem_inv_def inv_results_def by blast+

lemma reserve_own:
  "reserve st k h = Inr (p, True, st') \<longleftrightarrow>
     mget (st_records st) k = None \<and> p = length (st_heap st)
   \<and> st' = st\<lparr>st_records := mput k p (st_records st),
              st_heap := st_heap st @ [\<lparr>rec_payloadHash = h, rec_done = False,
                rec_response = zeroResponse, rec_err = None\<rparr>]\<rparr>"
  by (auto simp: reserve_def Let_def split: option.splits)

lemma reserve_join:
  "reserve st k h = Inr (p, False, st') \<longleftrightarrow>
     mget (st_records st) k = Some p \<and> rec_payloadHash (st_heap st ! p) = h \<and> st' = st"
  by (auto simp: reserve_def Let_def split: option.splits)

text \<open>A call takes a free key: a fresh record, owned by this call alone.\<close>

lemma own_facts:
  assumes inv: "idem_inv s" and res: "reserve (sys_store s) k h = Inr (p, True, st')"
  shows "mget (st_records (sys_store s)) k = None"
    and "mget (st_records st') k' = (if k' = k then Some p else mget (st_records (sys_store s)) k')"
    and "length (st_heap st') = Suc p" "p = length (st_heap (sys_store s))"
    and "q < p \<Longrightarrow> st_heap st' ! q = st_heap (sys_store s) ! q"
    and "rec_done (st_heap st' ! p) = False" "rec_err (st_heap st' ! p) = None"
    and "mget (st_records (sys_store s)) k' = Some q \<Longrightarrow> q < p"
    and "j < length (sys_calls s) \<Longrightarrow> \<not> owns (sys_calls s ! j) k q"
  using res owner_record(1)[OF inv, of j k q] inv
  by (auto simp: reserve_own gomap_simps nth_append idem_inv_def inv_store_def)

lemma own_effects:
  assumes inv: "idem_inv s" and i: "i < length (sys_calls s)" "sys_calls s ! i = Calling sc ky pl"
    and res: "reserve (sys_store s) k h = Inr (p, True, st')"
    and s': "sys_store s' = st'" "sys_calls s' = (sys_calls s)[i := Running k p]" "sys_effects s' = sys_effects s"
  shows "inv_effects s'"
  unfolding inv_effects_def
proof (intro conjI allI impI)
  note new = own_facts[OF inv res]
  show "distinct (map fst (sys_effects s'))" using inv by (simp add: idem_inv_def inv_effects_def s')
  fix k' r assume "(k', r) \<in> set (sys_effects s')"
  then have "effect_backed s k' r" using effect_recorded[OF inv] by (simp add: s')
  then obtain q where q: "mget (st_records (sys_store s)) k' = Some q"
    "Executed k' q (Inr r) \<in> set (sys_calls s) \<or> rec_done (st_heap (sys_store s) ! q)
      \<and> rec_err (st_heap (sys_store s) ! q) = None \<and> rec_response (st_heap (sys_store s) ! q) = r"
    by (auto simp: effect_backed_def)
  moreover have "k' \<noteq> k" "st_heap st' ! q = st_heap (sys_store s) ! q"
    using q(1) new(1) new(5)[OF new(8)[OF q(1)]] by auto
  moreover have "Executed k' q (Inr r) \<in> set (sys_calls s) \<Longrightarrow> Executed k' q (Inr r) \<in> set (sys_calls s')"
    using i by (simp add: set_update_keep s')
  ultimately show "effect_backed s' k' r" by (auto simp: effect_backed_def s' new(2))
next
  fix k' q r assume "Executed k' q (Inr r) \<in> set (sys_calls s')"
  then have "Executed k' q (Inr r) \<in> set (sys_calls s)" by (auto dest: set_update_cases simp: s')
  then show "(k', r) \<in> set (sys_effects s')" using inv by (simp add: idem_inv_def inv_effects_def s')
qed

lemma own_results:
  assumes inv: "idem_inv s" and res: "reserve (sys_store s) k h = Inr (p, True, st')"
    and s': "sys_store s' = st'" "sys_calls s' = (sys_calls s)[i := Running k p]" "sys_effects s' = sys_effects s"
  shows "inv_results s'"
  unfolding inv_results_def
proof (intro conjI allI impI; (elim conjE)?)
  note new = own_facts[OF inv res]
  { fix k' q assume "mget (st_records (sys_store s')) k' = Some q" "rec_done (st_heap (sys_store s') ! q)"
    then have *: "mget (st_records (sys_store s)) k' = Some q" using new(6) by (auto simp: s' new(2) split: if_splits)
    then have "st_heap (sys_store s') ! q = st_heap (sys_store s) ! q" using new(5)[OF new(8)[OF *]] by (simp add: s')
    then show "rec_err (st_heap (sys_store s') ! q) = None"
      "(k', rec_response (st_heap (sys_store s') ! q)) \<in> set (sys_effects s')"
      using done_record[OF inv *] \<open>rec_done (st_heap (sys_store s') ! q)\<close> by (simp_all add: s') }
  { fix k' q assume "Waiting k' q \<in> set (sys_calls s')"
    then have "Waiting k' q \<in> set (sys_calls s)" by (auto dest: set_update_cases simp: s')
    note w = waiting_record[OF inv this]
    then show "q < length (st_heap (sys_store s'))"
      "mget (st_records (sys_store s')) k' = Some q \<or> rec_err (st_heap (sys_store s') ! q) \<noteq> None"
      using new(1,3,4) new(5)[of q] by (auto simp: s' new(2)) }
  fix k' r assume "Returned k' (Inr r) \<in> set (sys_calls s')"
  then have "Returned k' (Inr r) \<in> set (sys_calls s)" by (auto dest: set_update_cases simp: s')
  then show "(k', r) \<in> set (sys_effects s')" using inv by (simp add: idem_inv_def inv_results_def s')
qed

lemma inv_own:
  assumes inv: "idem_inv s" and i: "i < length (sys_calls s)" "sys_calls s ! i = Calling sc ky pl"
    and res: "reserve (sys_store s) k h = Inr (p, True, st')"
    and s': "sys_store s' = st'" "sys_calls s' = (sys_calls s)[i := Running k p]" "sys_effects s' = sys_effects s"
  shows "idem_inv s'"
proof -
  note new = own_facts[OF inv res]
  have "inv_store s'"
    using inv new(1,4) by (fastforce simp: idem_inv_def inv_store_def s' new(2,3) dest: new(8) split: if_splits)
  moreover have "inv_owner s'"
    unfolding inv_owner_def
  proof (rule conjI; intro allI impI; elim conjE)
    fix j k' q assume "j < length (sys_calls s')" "owns (sys_calls s' ! j) k' q"
    then show "mget (st_records (sys_store s')) k' = Some q \<and> \<not> rec_done (st_heap (sys_store s') ! q)
         \<and> rec_err (st_heap (sys_store s') ! q) = None"
      using owner_record[OF inv, of j k' q] new(9)[of j q] new(2,4,5-7) i by (cases "j = i") (auto simp: s')
  next
    fix j j' k' q q' assume "j < length (sys_calls s')" "j' < length (sys_calls s')"
      "owns (sys_calls s' ! j) k' q" "owns (sys_calls s' ! j') k' q'"
    then show "j = j'"
      using owner_unique[OF inv, of j j' k' q q'] new(9)[of j q] new(9)[of j' q'] i
      by (cases "j = i"; cases "j' = i") (auto simp: s')
  qed
  moreover have "inv_effects s'"
    by (rule own_effects[OF inv i res s'])
  moreover have "inv_results s'"
    by (rule own_results[OF inv res s'])
  ultimately show ?thesis by (simp add: idem_inv_def)
qed

lemma inv_join:
  assumes inv: "idem_inv s" and i: "i < length (sys_calls s)" "sys_calls s ! i = Calling sc ky pl"
    and res: "mget (st_records (sys_store s)) k = Some p"
  shows "idem_inv (s\<lparr>sys_calls := (sys_calls s)[i := Waiting k p]\<rparr>)"
  using inv unfolding idem_inv_def
  apply (intro conjI; elim conjE)
  subgoal by (simp add: inv_store_def)
  subgoal using i by (fastforce simp: inv_owner_def nth_list_update split: if_splits)
  subgoal unfolding inv_effects_def effect_backed_def using i by (fastforce dest!: set_update_cases intro: set_update_keep)
  subgoal using res unfolding inv_results_def inv_store_def by (fastforce dest!: set_update_cases)
  done

lemma inv_run_fails:
  assumes inv: "idem_inv s" and i: "i < length (sys_calls s)" "sys_calls s ! i = Running k p"
  shows "idem_inv (s\<lparr>sys_calls := (sys_calls s)[i := Executed k p (Inl e)]\<rparr>)"
  using inv unfolding idem_inv_def
  apply (intro conjI; elim conjE)
  subgoal by (simp add: inv_store_def)
  subgoal using i unfolding inv_owner_def
    by (auto simp: nth_list_update split: if_splits) (metis owns_simps(1))+
  subgoal unfolding inv_effects_def effect_backed_def using i by (fastforce dest!: set_update_cases intro: set_update_keep)
  subgoal unfolding inv_results_def by (fastforce dest!: set_update_cases)
  done

text \<open>A key whose record is still being run has no published effect.\<close>

lemma running_no_effect:
  assumes inv: "idem_inv s" and i: "i < length (sys_calls s)" "sys_calls s ! i = Running k p"
  shows "k \<notin> fst ` set (sys_effects s)"
proof
  assume "k \<in> fst ` set (sys_effects s)"
  then obtain resp where "(k, resp) \<in> set (sys_effects s)" by auto
  with inv obtain q where q: "mget (st_records (sys_store s)) k = Some q"
    "Executed k q (Inr resp) \<in> set (sys_calls s) \<or> rec_done (st_heap (sys_store s) ! q)"
    using effect_recorded[OF inv, of k resp] by (auto simp: effect_backed_def)
  have "mget (st_records (sys_store s)) k = Some p" "\<not> rec_done (st_heap (sys_store s) ! p)"
    using owner_record[OF inv i(1), of k p] i(2) by simp_all
  with q obtain j where j: "j < length (sys_calls s)" "sys_calls s ! j = Executed k q (Inr resp)"
    by (auto simp: in_set_conv_nth)
  then have "i = j" using owner_unique[OF inv i(1), of j k p q] i(2) by simp
  with i j show False by simp
qed

lemma inv_run_succeeds:
  assumes inv: "idem_inv s" and i: "i < length (sys_calls s)" "sys_calls s ! i = Running k p"
  shows "idem_inv (s\<lparr>sys_calls := (sys_calls s)[i := Executed k p (Inr resp)],
                      sys_effects := sys_effects s @ [(k, resp)]\<rparr>)"
proof -
  note new = running_no_effect[OF inv i]
  have rec: "mget (st_records (sys_store s)) k = Some p"
    using owner_record(1)[OF inv i(1), of k p] i(2) by simp
  show ?thesis
    using inv unfolding idem_inv_def
    apply (intro conjI; elim conjE)
    subgoal by (simp add: inv_store_def)
    subgoal using i unfolding inv_owner_def
      by (auto simp: nth_list_update split: if_splits) (metis owns_simps(1))+
    subgoal unfolding inv_effects_def effect_backed_def using i new rec set_update_memI[OF i(1)]
      by (fastforce dest!: set_update_cases intro: set_update_keep)
    subgoal unfolding inv_results_def by (fastforce dest!: set_update_cases)
    done
qed

text \<open>The owner publishes its result: the record it owns is closed, and no other record changes.\<close>

lemma owner_other_ptr:
  assumes "idem_inv s" "i < length (sys_calls s)" "owns (sys_calls s ! i) k p"
    and "mget (st_records (sys_store s)) k' = Some p"
  shows "k' = k"
  using owner_record(1)[OF assms(1-3)] assms(1,4) unfolding idem_inv_def inv_store_def by blast

lemma close_owner:
  assumes inv: "idem_inv s" and i: "i < length (sys_calls s)" "owns (sys_calls s ! i) k p"
    and calls: "sys_calls s' = (sys_calls s)[i := Returned k r]"
    and recs: "\<And>k'. k' \<noteq> k \<Longrightarrow> mget (st_records (sys_store s')) k' = mget (st_records (sys_store s)) k'"
    and heap: "\<And>q. q \<noteq> p \<Longrightarrow> st_heap (sys_store s') ! q = st_heap (sys_store s) ! q"
  shows "inv_owner s'"
  unfolding inv_owner_def
proof (rule conjI; intro allI impI; elim conjE)
  fix j k' q assume "j < length (sys_calls s')" "owns (sys_calls s' ! j) k' q"
  then have j: "j < length (sys_calls s)" "j \<noteq> i" "owns (sys_calls s ! j) k' q"
    using i(1) by (auto simp: calls nth_list_update split: if_splits)
  then have "k' \<noteq> k" using owner_unique[OF inv j(1) i(1), of k' q p] i(2) by blast
  moreover have "q \<noteq> p"
    using owner_record(1)[OF inv j(1,3)] owner_other_ptr[OF inv i, of k'] \<open>k' \<noteq> k\<close> by auto
  ultimately show "mget (st_records (sys_store s')) k' = Some q \<and> \<not> rec_done (st_heap (sys_store s') ! q)
         \<and> rec_err (st_heap (sys_store s') ! q) = None"
    using owner_record[OF inv j(1,3)] by (simp add: recs heap)
next
  fix j j' k' q q' assume "j < length (sys_calls s')" "j' < length (sys_calls s')"
    "owns (sys_calls s' ! j) k' q" "owns (sys_calls s' ! j') k' q'"
  then show "j = j'"
    using owner_unique[OF inv, of j j' k' q q'] i(1)
    by (auto simp: calls nth_list_update split: if_splits)
qed

lemma close_effects:
  assumes inv: "idem_inv s" and i: "i < length (sys_calls s)" "owns (sys_calls s ! i) k p"
    and calls: "sys_calls s' = (sys_calls s)[i := Returned k r]"
    and recs: "\<And>k'. k' \<noteq> k \<Longrightarrow> mget (st_records (sys_store s')) k' = mget (st_records (sys_store s)) k'"
    and heap: "\<And>q. q \<noteq> p \<Longrightarrow> st_heap (sys_store s') ! q = st_heap (sys_store s) ! q"
    and eff: "sys_effects s' = sys_effects s"
    and own: "\<And>r. (k, r) \<in> set (sys_effects s) \<Longrightarrow> effect_backed s' k r"
  shows "inv_effects s'"
  unfolding inv_effects_def
proof (intro conjI allI impI)
  show "distinct (map fst (sys_effects s'))" using inv by (simp add: idem_inv_def inv_effects_def eff)
  fix k' r' assume "(k', r') \<in> set (sys_effects s')"
  then have k'r: "(k', r') \<in> set (sys_effects s)" by (simp add: eff)
  show "effect_backed s' k' r'"
  proof (cases "k' = k")
    case False
    obtain q where q: "mget (st_records (sys_store s)) k' = Some q"
      "Executed k' q (Inr r') \<in> set (sys_calls s) \<or> rec_done (st_heap (sys_store s) ! q)
        \<and> rec_err (st_heap (sys_store s) ! q) = None \<and> rec_response (st_heap (sys_store s) ! q) = r'"
      using effect_recorded[OF inv k'r] by (auto simp: effect_backed_def)
    have "Executed k' q (Inr r') \<noteq> sys_calls s ! i" using False i(2) by (auto simp: owns_def)
    then have "Executed k' q (Inr r') \<in> set (sys_calls s) \<Longrightarrow> Executed k' q (Inr r') \<in> set (sys_calls s')"
      by (simp add: calls set_update_keep)
    moreover have "q \<noteq> p" using owner_other_ptr[OF inv i, of k'] q(1) False by auto
    ultimately show ?thesis using q False by (auto simp: effect_backed_def recs heap)
  qed (use own k'r in simp)
next
  fix k' q r' assume "Executed k' q (Inr r') \<in> set (sys_calls s')"
  then have "Executed k' q (Inr r') \<in> set (sys_calls s)" by (auto dest: set_update_cases simp: calls)
  then show "(k', r') \<in> set (sys_effects s')" using inv by (simp add: idem_inv_def inv_effects_def eff)
qed

lemma close_results:
  assumes inv: "idem_inv s" and i: "i < length (sys_calls s)" "owns (sys_calls s ! i) k p"
    and calls: "sys_calls s' = (sys_calls s)[i := Returned k r]"
    and recs: "\<And>k'. k' \<noteq> k \<Longrightarrow> mget (st_records (sys_store s')) k' = mget (st_records (sys_store s)) k'"
    and heap: "\<And>q. q \<noteq> p \<Longrightarrow> st_heap (sys_store s') ! q = st_heap (sys_store s) ! q"
    and len: "length (st_heap (sys_store s')) = length (st_heap (sys_store s))"
    and eff: "sys_effects s' = sys_effects s"
    and own: "\<And>q. mget (st_records (sys_store s')) k = Some q \<Longrightarrow> q = p \<and> rec_err (st_heap (sys_store s') ! p) = None
        \<and> (k, rec_response (st_heap (sys_store s') ! p)) \<in> set (sys_effects s)"
    and gone: "mget (st_records (sys_store s')) k = Some p \<or> rec_err (st_heap (sys_store s') ! p) \<noteq> None"
    and ret: "\<And>x. r = Inr x \<Longrightarrow> (k, x) \<in> set (sys_effects s)"
  shows "inv_results s'"
  unfolding inv_results_def
proof (intro conjI allI impI; (elim conjE)?)
  { fix k' q assume a: "mget (st_records (sys_store s')) k' = Some q" "rec_done (st_heap (sys_store s') ! q)"
    have "rec_err (st_heap (sys_store s') ! q) = None
        \<and> (k', rec_response (st_heap (sys_store s') ! q)) \<in> set (sys_effects s')"
    proof (cases "k' = k")
      case False
      then have b: "mget (st_records (sys_store s)) k' = Some q" using a recs by simp
      then have "q \<noteq> p" using owner_other_ptr[OF inv i, of k'] False by auto
      then show ?thesis using done_record[OF inv b] a by (simp add: heap eff)
    qed (use own a eff in auto)
    then show "rec_err (st_heap (sys_store s') ! q) = None"
      "(k', rec_response (st_heap (sys_store s') ! q)) \<in> set (sys_effects s')" by auto }
  { fix k' q assume "Waiting k' q \<in> set (sys_calls s')"
    then have "Waiting k' q \<in> set (sys_calls s)" by (auto dest: set_update_cases simp: calls)
    note w = waiting_record[OF inv this]
    then show "q < length (st_heap (sys_store s'))" by (simp add: len)
    have "k' = k \<or> mget (st_records (sys_store s')) k' = mget (st_records (sys_store s)) k'" using recs by blast
    moreover have "q \<noteq> p \<Longrightarrow> k' = k \<Longrightarrow> mget (st_records (sys_store s)) k \<noteq> Some q"
      using owner_record(1)[OF inv i] by simp
    ultimately show "mget (st_records (sys_store s')) k' = Some q \<or> rec_err (st_heap (sys_store s') ! q) \<noteq> None"
      using w(2) gone owner_record(3)[OF inv i] heap[of q] by metis }
  fix k' r' assume "Returned k' (Inr r') \<in> set (sys_calls s')"
  then have "Returned k' (Inr r') \<in> set (sys_calls s) \<or> (k' = k \<and> r = Inr r')"
    by (auto dest: set_update_cases simp: calls)
  then show "(k', r') \<in> set (sys_effects s')" using inv ret by (auto simp: idem_inv_def inv_results_def eff)
qed

lemma inv_publish:
  assumes inv: "idem_inv s" and i: "i < length (sys_calls s)" "sys_calls s ! i = Executed k p (Inr resp)"
  shows "idem_inv (s\<lparr>sys_store := commit (sys_store s) k p resp,
                      sys_calls := (sys_calls s)[i := Returned k (Inr resp)]\<rparr>)" (is "idem_inv ?s")
proof -
  have own: "owns (sys_calls s ! i) k p" using i by simp
  note rec = owner_record[OF inv i(1) own]
  have eff: "(k, resp) \<in> set (sys_effects s)"
    using inv i nth_mem[OF i(1)] unfolding idem_inv_def inv_effects_def by metis
  have uniq: "(k, r) \<in> set (sys_effects s) \<Longrightarrow> r = resp" for r
    using inv eff unfolding idem_inv_def inv_effects_def by (metis eq_key_imp_eq_value)
  have st: "commit (sys_store s) k p resp = (sys_store s)\<lparr>st_heap := (st_heap (sys_store s))[p :=
      (st_heap (sys_store s) ! p)\<lparr>rec_response := resp, rec_done := True\<rparr>]\<rparr>"
    using rec(1) by (simp add: commit_def)
  have backed: "effect_backed ?s k r" if "(k, r) \<in> set (sys_effects s)" for r
    using that rec uniq unfolding effect_backed_def st by auto
  have "inv_store ?s" using inv unfolding idem_inv_def inv_store_def st by auto
  moreover have "inv_owner ?s"
    by (rule close_owner[OF inv i(1) own, where r = "Inr resp"]; simp add: st)
  moreover have "inv_effects ?s"
    by (rule close_effects[OF inv i(1) own, where r = "Inr resp"]; simp add: backed[unfolded st] st)
  moreover have "inv_results ?s"
    by (rule close_results[OF inv i(1) own, where r = "Inr resp"]; simp add: st rec eff)
  ultimately show ?thesis by (simp add: idem_inv_def)
qed

lemma executed_error_no_effect:
  assumes inv: "idem_inv s" and i: "i < length (sys_calls s)" "owns (sys_calls s ! i) k p"
    and not_ok: "\<And>resp. sys_calls s ! i \<noteq> Executed k p (Inr resp)"
  shows "(k, r) \<notin> set (sys_effects s)"
proof
  assume "(k, r) \<in> set (sys_effects s)"
  from effect_recorded[OF inv this] owner_record[OF inv i]
  have "Executed k p (Inr r) \<in> set (sys_calls s)" by (auto simp: effect_backed_def)
  then obtain j where j: "j < length (sys_calls s)" "sys_calls s ! j = Executed k p (Inr r)"
    by (auto simp: in_set_conv_nth)
  then have "j = i" using owner_unique[OF inv j(1) i(1), of k p p] i(2) by simp
  with j not_ok show False by simp
qed

lemma inv_publish_error:
  assumes inv: "idem_inv s" and i: "i < length (sys_calls s)" "sys_calls s ! i = Executed k p (Inl e)"
  shows "idem_inv (s\<lparr>sys_store := releaseFailed (sys_store s) k p e,
                      sys_calls := (sys_calls s)[i := Returned k (Inl e)]\<rparr>)" (is "idem_inv ?s")
proof -
  have own: "owns (sys_calls s ! i) k p" using i by simp
  note rec = owner_record[OF inv i(1) own]
  have none: "(k, r) \<notin> set (sys_effects s)" for r
    by (rule executed_error_no_effect[OF inv i(1) own]) (simp add: i(2))
  have st: "releaseFailed (sys_store s) k p e = (sys_store s)\<lparr>st_records := mdel k (st_records (sys_store s)),
      st_heap := (st_heap (sys_store s))[p := (st_heap (sys_store s) ! p)\<lparr>rec_err := Some e, rec_done := True\<rparr>]\<rparr>"
    using rec(1) by (simp add: releaseFailed_def)
  have "inv_store ?s"
    using inv unfolding idem_inv_def inv_store_def st by (auto simp: gomap_simps split: if_splits)
  moreover have "inv_owner ?s"
    by (rule close_owner[OF inv i(1) own, where r = "Inl e"]; simp add: st gomap_simps)
  moreover have "inv_effects ?s"
    by (rule close_effects[OF inv i(1) own, where r = "Inl e"]; simp add: st gomap_simps none)
  moreover have "inv_results ?s"
    by (rule close_results[OF inv i(1) own, where r = "Inl e"]; simp add: st gomap_simps rec)
  ultimately show ?thesis by (simp add: idem_inv_def)
qed

lemma inv_wake:
  assumes inv: "idem_inv s" and i: "i < length (sys_calls s)" "sys_calls s ! i = Waiting k p"
    and r: "r \<in> set (await (sys_store s) ctx p)"
  shows "idem_inv (s\<lparr>sys_calls := (sys_calls s)[i := Returned k r]\<rparr>)"
proof (rule inv_return[OF inv i(1)])
  show "\<not> owns (sys_calls s ! i) k' p'" for k' p' using i by simp
  fix r' assume "r = Inr r'"
  with r have d: "rec_done (st_heap (sys_store s) ! p)" "rec_err (st_heap (sys_store s) ! p) = None"
    "rec_response (st_heap (sys_store s) ! p) = r'"
    by (auto simp: await_def split: option.splits if_splits)
  then have "mget (st_records (sys_store s)) k = Some p"
    using waiting_record(2)[OF inv, of k p] i nth_mem[OF i(1)] by simp
  then show "(k, r') \<in> set (sys_effects s)" using done_record(2)[OF inv] d by blast
qed

lemma idem_step_inv: "idem_step hash s t \<Longrightarrow> idem_inv s \<Longrightarrow> idem_inv t"
proof (induction rule: idem_step.induct)
  case (own i s scope key payload p st')
  show ?case by (rule inv_own[OF own(5,1,2,4)]) simp_all
next
  case (join i s scope key payload p st')
  then show ?case using inv_join[OF join(5,1,2)] by (simp add: reserve_join)
qed (auto intro: inv_arrive inv_return inv_run_fails inv_run_succeeds inv_publish_error inv_publish inv_wake)

lemma idem_reachable_inv: "idem_reachable hash s \<Longrightarrow> idem_inv s"
  by (induction rule: idem_reachable.induct) (auto intro: idem_inv_init idem_step_inv)

section \<open>Properties\<close>

text \<open>
  C19. Exactly-once execution under every interleaving: in every reachable state of concurrent
  \<open>Execute\<close> calls, the caller's function has succeeded at most once per (scope, key), and every call
  that returned a response returned the response of that one execution.
\<close>

theorem execute_exactly_once:
  assumes "idem_reachable hash s"
  shows "length (filter (\<lambda>e. fst e = k) (sys_effects s)) \<le> 1
    \<and> (\<forall>r. Returned k (Inr r) \<in> set (sys_calls s) \<longrightarrow> filter (\<lambda>e. fst e = k) (sys_effects s) = [(k, r)])"
proof -
  have inv: "idem_inv s" by (rule idem_reachable_inv[OF assms])
  have d: "distinct (map fst (sys_effects s))" using inv by (simp add: idem_inv_def inv_effects_def)
  have one: "length (filter (\<lambda>e. fst e = k) es) \<le> 1 \<and>
      (\<forall>r. (k, r) \<in> set es \<longrightarrow> filter (\<lambda>e. fst e = k) es = [(k, r)])"
    if "distinct (map fst es)" for es :: "(recordKey \<times> IdempotencyResponse) list"
    using that by (induction es) (force simp: filter_empty_conv)+
  show ?thesis using one[OF d] inv by (auto simp: idem_inv_def inv_results_def)
qed

theorem execute_exactly_once_witness:
  "\<exists>s. idem_reachable id s \<and> length (sys_calls s) = 2
     \<and> length (filter (\<lambda>e. fst e = RecordKey ''p'' ''k'') (sys_effects s)) \<le> 1
     \<and> Returned (RecordKey ''p'' ''k'') (Inr zeroResponse) \<in> set (sys_calls s)"
proof -
  let ?k = "RecordKey ''p'' ''k''"
  let ?rec = "\<lparr>rec_payloadHash = ''x'', rec_done = False, rec_response = zeroResponse, rec_err = None\<rparr>"
  let ?st = "\<lparr>st_records = [(?k, 0)], st_heap = [?rec]\<rparr>"
  let ?c = "Calling ''p'' ''k'' ''x''"
  have arg: "argumentCheck ''p'' ''k'' False = None" by code_simp
  note defs = idem_init_def NewMemoryIdempotencyStore_def
  have "idem_reachable id \<lparr>sys_store = NewMemoryIdempotencyStore, sys_calls = [?c], sys_effects = []\<rparr>"
    using idem_reachable.step[OF idem_reachable.start idem_step.arrive[of _ _ "''p''" "''k''" "''x''"]]
    by (simp add: idem_init_def)
  from idem_reachable.step[OF this idem_step.arrive[of _ _ "''p''" "''k''" "''x''"]]
  have "idem_reachable id \<lparr>sys_store = NewMemoryIdempotencyStore, sys_calls = [?c, ?c], sys_effects = []\<rparr>"
    by simp
  from idem_reachable.step[OF this idem_step.own[of 0 _ "''p''" "''k''" "''x''" id 0 ?st]] arg
  have "idem_reachable id \<lparr>sys_store = ?st, sys_calls = [Running ?k 0, ?c], sys_effects = []\<rparr>"
    by (simp add: reserve_def NewMemoryIdempotencyStore_def hashPayload_def Let_def)
  from idem_reachable.step[OF this idem_step.run_succeeds[of 0 _ ?k 0 _ zeroResponse]]
  have "idem_reachable id \<lparr>sys_store = ?st, sys_calls = [Executed ?k 0 (Inr zeroResponse), ?c],
      sys_effects = [(?k, zeroResponse)]\<rparr>" by simp
  from idem_reachable.step[OF this idem_step.publish[of 0 _ ?k 0 zeroResponse]]
  have r: "idem_reachable id \<lparr>sys_store = commit ?st ?k 0 zeroResponse,
      sys_calls = [Returned ?k (Inr zeroResponse), ?c], sys_effects = [(?k, zeroResponse)]\<rparr>" by simp
  show ?thesis using r execute_exactly_once[OF r, of ?k] by (intro exI[of _ _]) (rule conjI[OF r], simp)
qed

lemma Execute_replay:
  assumes "Execute hash st scope key payload (Some f) w = Some (Inr resp, st1, w1)"
  shows "Execute hash st1 scope key payload (Some g) w2 = Some (Inr resp, st1, w2)"
    and "hash other \<noteq> hash payload \<Longrightarrow> Execute hash st1 scope key other (Some g) w2 = Some (Inl IdempotencyConflict, st1, w2)"
proof -
  have arg: "argumentCheck scope key False = None"
    using assms by (auto simp: Execute_def split: option.splits)
  have "\<exists>p. mget (st_records st1) (RecordKey scope key) = Some p \<and> rec_payloadHash (st_heap st1 ! p) = hash payload
      \<and> rec_done (st_heap st1 ! p) \<and> rec_response (st_heap st1 ! p) = resp \<and> rec_err (st_heap st1 ! p) = None"
  proof (cases "mget (st_records st) (RecordKey scope key)")
    case None
    then obtain p st' where res: "reserve st (RecordKey scope key) (hash payload) = Inr (p, True, st')"
      by (simp add: reserve_def Let_def)
    then have st1: "st1 = commit st' (RecordKey scope key) p resp"
      using assms arg by (auto simp: Execute_def hashPayload_def split: prod.splits sum.splits)
    show ?thesis using res None by (auto simp: st1 commit_def reserve_own gomap_simps)
  next
    case (Some p)
    then show ?thesis
      using assms arg by (auto simp: Execute_def hashPayload_def reserve_def await_def split: if_splits option.splits)
  qed
  then show "Execute hash st1 scope key payload (Some g) w2 = Some (Inr resp, st1, w2)"
    and "hash other \<noteq> hash payload \<Longrightarrow> Execute hash st1 scope key other (Some g) w2 = Some (Inl IdempotencyConflict, st1, w2)"
    using arg by (auto simp: Execute_def hashPayload_def reserve_def await_def)
qed

text \<open>
  A completed key is replayed, not re-run: after a successful call, a call with the same scope,
  key and payload returns the stored response and leaves both the store and the caller's state
  untouched; with a payload of another hash it is refused as an idempotency conflict.
\<close>

theorem execute_replays:
  assumes "Execute hash st scope key payload (Some f) w = Some (Inr resp, st1, w1)"
  shows "Execute hash st1 scope key payload (Some g) w2 = Some (Inr resp, st1, w2)
    \<and> (hash other \<noteq> hash payload \<longrightarrow>
         Execute hash st1 scope key other (Some g) w2 = Some (Inl IdempotencyConflict, st1, w2))"
  by (intro conjI impI Execute_replay[OF assms])

theorem execute_replays_witness:
  "\<exists>st1. Execute id NewMemoryIdempotencyStore ''p'' ''k'' ''x'' (Some (\<lambda>n::nat. (Inr zeroResponse, Suc n))) 0
          = Some (Inr zeroResponse, st1, 1)
     \<and> Execute id st1 ''p'' ''k'' ''x'' (Some (\<lambda>n. (Inr zeroResponse, Suc n))) (1::nat) = Some (Inr zeroResponse, st1, 1)
     \<and> Execute id st1 ''p'' ''k'' ''y'' (Some (\<lambda>n. (Inr zeroResponse, Suc n))) (1::nat)
          = Some (Inl IdempotencyConflict, st1, 1)"
proof -
  let ?f = "\<lambda>n::nat. (Inr zeroResponse :: goerr + IdempotencyResponse, Suc n)"
  have arg: "argumentCheck ''p'' ''k'' False = None" by code_simp
  obtain st1 where e: "Execute id NewMemoryIdempotencyStore ''p'' ''k'' ''x'' (Some ?f) 0 = Some (Inr zeroResponse, st1, 1)"
    using arg by (simp add: Execute_def reserve_def NewMemoryIdempotencyStore_def Let_def)
  show ?thesis
    using e execute_replays[OF e, of ?f 1 "''y''"] by auto
qed

end
