(* ===== verification/Service.thy ===== *)
theory Service
  imports Graph_Store Idempotency Auth
begin

text \<open>
  \<open>internal/coordination/decision.go\<close>, the log of Task Manager decisions, and \<open>service.go\<close>, the graph tools
  of the Task Manager: authorization, the decision a write needs, and the idempotent execution of the
  write on the store. The JSON text of a request is the result of an encoder that is an argument
  (\<open>json.Marshal\<close> of a struct); the JSON text of a revision is its decimal.
\<close>

section \<open>The decision log\<close>

type_synonym DecisionKind = string
abbreviation DecisionReplacePending :: DecisionKind where "DecisionReplacePending \<equiv> ''replace_pending''"
abbreviation DecisionTransition :: DecisionKind where "DecisionTransition \<equiv> ''transition''"

record memoryDecision =
  de_kind :: DecisionKind
  de_transition :: GraphTransition

datatype decisionKey = DecisionKey (dk_projectID: ProjectID) (dk_ref: string)

record MemoryDecisionLog =
  dl_decisions :: "(decisionKey, memoryDecision) gomap"

definition NewMemoryDecisionLog :: MemoryDecisionLog where
  "NewMemoryDecisionLog = \<lparr>dl_decisions = []\<rparr>"

definition putDecision :: "MemoryDecisionLog \<Rightarrow> decisionKey \<Rightarrow> memoryDecision \<Rightarrow> goerr option \<times> MemoryDecisionLog" where
  "putDecision l key decision =
     (case mget (dl_decisions l) key of
        Some existing \<Rightarrow>
          (if de_kind existing \<noteq> de_kind decision \<or> de_transition existing \<noteq> de_transition decision
           then Some IdempotencyConflict else None, l)
      | None \<Rightarrow> (None, l\<lparr>dl_decisions := mput key decision (dl_decisions l)\<rparr>))"

definition RegisterReplacePending :: "MemoryDecisionLog \<Rightarrow> ProjectID \<Rightarrow> IdempotencyKey \<Rightarrow> goerr option \<times> MemoryDecisionLog" where
  "RegisterReplacePending l projectID decisionRef =
     (if IsZeroID projectID then (Some (InvalidArgument ''project_id is required''), l)
      else if IsZeroID decisionRef then (Some (InvalidArgument ''decision_ref is required''), l)
      else putDecision l (DecisionKey projectID decisionRef)
        \<lparr>de_kind = DecisionReplacePending, de_transition = zeroTransition\<rparr>)"

definition RegisterTransition ::
  "MemoryDecisionLog \<Rightarrow> ProjectID \<Rightarrow> string \<Rightarrow> GraphTransition \<Rightarrow> goerr option \<times> MemoryDecisionLog" where
  "RegisterTransition l projectID transitionRef transition =
     (if IsZeroID projectID then (Some (InvalidArgument ''project_id is required''), l)
      else if transitionRef = '''' then (Some (InvalidArgument ''transition_ref is required''), l)
      else case validateTransitionShape transition of
        Some e \<Rightarrow> (Some e, l)
      | None \<Rightarrow> putDecision l (DecisionKey projectID transitionRef)
          \<lparr>de_kind = DecisionTransition, de_transition = transition\<rparr>)"

definition AuthorizeReplacePending :: "MemoryDecisionLog \<Rightarrow> ProjectID \<Rightarrow> IdempotencyKey \<Rightarrow> goerr option" where
  "AuthorizeReplacePending l projectID decisionRef =
     (case mget (dl_decisions l) (DecisionKey projectID decisionRef) of
        None \<Rightarrow> Some (Forbidden ''replacePending requires a persisted Task Manager decision'')
      | Some decision \<Rightarrow> fail_if (de_kind decision \<noteq> DecisionReplacePending)
          (Forbidden ''decision_ref is not a replacePending decision''))"

definition ResolveTransition :: "MemoryDecisionLog \<Rightarrow> ProjectID \<Rightarrow> string \<Rightarrow> goerr + GraphTransition" where
  "ResolveTransition l projectID transitionRef =
     (case mget (dl_decisions l) (DecisionKey projectID transitionRef) of
        None \<Rightarrow> Inl (Forbidden ''transition requires a persisted Task Manager decision'')
      | Some decision \<Rightarrow> checked (fail_if (de_kind decision \<noteq> DecisionTransition)
          (Forbidden ''transition_ref is not a transition decision'')) (Inr (de_transition decision)))"

section \<open>JSON of a revision\<close>

definition marshalRevision :: "Revision \<Rightarrow> string" where
  "marshalRevision r = itoa (uint r)"

definition unmarshalRevision :: "string \<Rightarrow> Revision option" where
  "unmarshalRevision body =
     (if body \<noteq> '''' \<and> list_all (\<lambda>c. 48 \<le> (of_char c :: nat) \<and> (of_char c :: nat) < 58) body
         \<and> (length body = 1 \<or> hd body \<noteq> CHR ''0'') \<and> int (undec body) < 2 ^ 64
      then Some (of_nat (undec body)) else None)"

lemma dec_head: "n \<noteq> 0 \<Longrightarrow> hd (dec n) \<noteq> CHR ''0''"
proof (induction n rule: dec.induct)
  case (1 n)
  show ?case
  proof (cases "n < 10")
    case True
    then have "dec n = [digit_char n]" by (subst dec.simps) simp
    moreover have "digit_char n \<noteq> CHR ''0''" using True "1.prems" digit_val_char[of n] by (auto simp: digit_val_def)
    ultimately show ?thesis by simp
  next
    case False
    then have d: "dec n = dec (n div 10) @ [digit_char (n mod 10)]" by (subst dec.simps) simp
    have "dec (n div 10) \<noteq> []" by (subst dec.simps) simp
    then show ?thesis using "1.IH"[OF False] False d by (simp add: hd_append)
  qed
qed

lemma unmarshal_marshal: "unmarshalRevision (marshalRevision r) = Some r"
proof -
  let ?n = "unat r"
  have m: "marshalRevision r = dec ?n" by (simp add: marshalRevision_def itoa_def nat_uint_eq)
  have "dec ?n \<noteq> []" by (subst dec.simps) simp
  moreover have "list_all (\<lambda>c. 48 \<le> (of_char c :: nat) \<and> (of_char c :: nat) < 58) (dec ?n)"
    using dec_digits[of _ ?n] by (auto simp: list_all_iff)
  moreover have "length (dec 0) = 1" by (subst dec.simps) simp
  then have "length (dec ?n) = 1 \<or> hd (dec ?n) \<noteq> CHR ''0''" using dec_head[of ?n] by metis
  moreover have "uint r < 2 ^ 64" using unsigned_less[of r, where ?'a = int] by simp
  ultimately show ?thesis by (simp add: unmarshalRevision_def m undec_dec)
qed

section \<open>The graph tools\<close>

record GraphService =
  sv_principal :: Principal
  sv_configured :: bool \<comment> \<open>the store and the decision log are not \<open>nil\<close>\<close>
  sv_decisions :: MemoryDecisionLog
  sv_hash :: "string \<Rightarrow> string"

definition require :: "GraphService \<Rightarrow> Tool \<Rightarrow> goerr + Scope" where
  "require sv tool =
     (let p = sv_principal sv in
      and_then (RequireTool p tool \<lparr>sc_ProjectID = pr_ProjectID p, sc_TaskID = pr_TaskID p, sc_InvocationID = pr_InvocationID p\<rparr>)
        (\<lambda>scope. checked (fail_if (pr_Role p \<noteq> RoleTaskManager)
           (Forbidden ''coordination graph tools require the canonical Task Manager role'')) (Inr scope)))"

definition ServiceSnapshot :: "GraphService \<Rightarrow> MemoryStore \<Rightarrow> Revision \<Rightarrow> (goerr + GraphSnapshot) \<times> MemoryStore" where
  "ServiceSnapshot sv s revision =
     (case require sv ToolCoordinationSnapshot of
        Inl e \<Rightarrow> (Inl e, s)
      | Inr scope \<Rightarrow>
          if \<not> sv_configured sv then (Inl (kerr CodeInternalError ''coordination store is not configured'' True), s)
          else if IsLatestRead revision then Latest s (sc_ProjectID scope)
          else Snapshot s (sc_ProjectID scope) revision)"

text \<open>The function an idempotent write executes: the write, and its revision as the response.\<close>

definition revisionResponse :: "(goerr + GraphSnapshot) \<times> MemoryStore \<Rightarrow> (goerr + IdempotencyResponse) \<times> MemoryStore" where
  "revisionResponse = apfst (\<lambda>r. and_then r (\<lambda>updated.
     Inr \<lparr>resp_StatusCode = 200, resp_Body = marshalRevision (snap_Revision updated)\<rparr>))"

definition replacePendingAction ::
  "GraphService \<Rightarrow> ProjectID \<Rightarrow> PendingSubgraph \<Rightarrow> MemoryStore \<Rightarrow> (goerr + IdempotencyResponse) \<times> MemoryStore" where
  "replacePendingAction sv projectID subgraph s =
     (case AuthorizeReplacePending (sv_decisions sv) projectID (ps_RequestID subgraph) of
        Some e \<Rightarrow> (Inl e, s)
      | None \<Rightarrow> revisionResponse (ReplacePending s projectID subgraph))"

definition transitionAction ::
  "ProjectID \<Rightarrow> Revision \<Rightarrow> string \<Rightarrow> GraphTransition \<Rightarrow> MemoryStore \<Rightarrow> (goerr + IdempotencyResponse) \<times> MemoryStore" where
  "transitionAction projectID expectedRevision transitionRef transition s =
     revisionResponse (TransitionWithDecisionRef s projectID expectedRevision transitionRef transition)"

text \<open>The end of both writes: the stored response is decoded again. \<open>None\<close> is a call that would block.\<close>

definition decodeRevision ::
  "((goerr + IdempotencyResponse) \<times> MemoryIdempotencyStore \<times> MemoryStore) option \<Rightarrow>
   ((goerr + Revision) \<times> MemoryIdempotencyStore \<times> MemoryStore) option" where
  "decodeRevision = map_option (apfst (\<lambda>r. and_then r (\<lambda>response.
     case unmarshalRevision (resp_Body response) of
       Some revision \<Rightarrow> Inr revision
     | None \<Rightarrow> Inl (kerr CodeInternalError ''stored idempotency response is not a graph revision'' True))))"

definition ServiceReplacePending ::
  "(PendingSubgraph \<Rightarrow> goerr + string) \<Rightarrow> GraphService \<Rightarrow> MemoryIdempotencyStore \<Rightarrow> MemoryStore \<Rightarrow> PendingSubgraph \<Rightarrow>
   ((goerr + Revision) \<times> MemoryIdempotencyStore \<times> MemoryStore) option" where
  "ServiceReplacePending marshal sv st s subgraph =
     (case require sv ToolCoordinationReplacePending of
        Inl e \<Rightarrow> Some (Inl e, st, s)
      | Inr scope \<Rightarrow>
          if \<not> sv_configured sv then Some (Inl (kerr CodeInternalError ''coordination graph dependencies are not configured'' True), st, s)
          else case marshal subgraph of
            Inl _ \<Rightarrow> Some (Inl (InvalidArgument ''pending subgraph must be JSON serializable''), st, s)
          | Inr payload \<Rightarrow> decodeRevision (Execute (sv_hash sv) st (sc_ProjectID scope @ '':coordination.replacePending'')
              (ps_RequestID subgraph) payload (Some (replacePendingAction sv (sc_ProjectID scope) subgraph)) s))"

definition ServiceTransition ::
  "(Revision \<Rightarrow> string \<Rightarrow> GraphTransition \<Rightarrow> goerr + string) \<Rightarrow> GraphService \<Rightarrow> MemoryIdempotencyStore \<Rightarrow> MemoryStore \<Rightarrow> Revision \<Rightarrow> string \<Rightarrow>
   ((goerr + Revision) \<times> MemoryIdempotencyStore \<times> MemoryStore) option" where
  "ServiceTransition marshal sv st s expectedRevision transitionRef =
     (case require sv ToolCoordinationTransition of
        Inl e \<Rightarrow> Some (Inl e, st, s)
      | Inr scope \<Rightarrow>
          if \<not> sv_configured sv then Some (Inl (kerr CodeInternalError ''coordination graph dependencies are not configured'' True), st, s)
          else if transitionRef = '''' then Some (Inl (InvalidArgument ''transitionRef is required''), st, s)
          else case ResolveTransition (sv_decisions sv) (sc_ProjectID scope) transitionRef of
            Inl e \<Rightarrow> Some (Inl e, st, s)
          | Inr transition \<Rightarrow>
              (case marshal expectedRevision transitionRef transition of
                 Inl _ \<Rightarrow> Some (Inl (InvalidArgument ''transition payload must be JSON serializable''), st, s)
               | Inr payload \<Rightarrow> decodeRevision (Execute (sv_hash sv) st (sc_ProjectID scope @ '':coordination.transition'')
                   transitionRef payload (Some (transitionAction (sc_ProjectID scope) expectedRevision transitionRef transition)) s)))"

end
