(* ===== verification/Service_Properties.thy ===== *)
theory Service_Properties
  imports Service Store_Properties
begin

text \<open>
  What the graph tools promise to the Task Manager: a write happens only for the Task Manager, for its
  own project and by a registered decision; its answer is the revision the store committed; a repeated
  request is answered from the record of the first. And the decision log they rest on: a decision is
  what was registered under its reference, for good.
\<close>

section \<open>The decision log\<close>

text \<open>The registrations, as steps of the log.\<close>

inductive decision_step :: "MemoryDecisionLog \<Rightarrow> MemoryDecisionLog \<Rightarrow> bool" where
  register_replace: "decision_step l (snd (RegisterReplacePending l projectID ref))"
| register_transition: "decision_step l (snd (RegisterTransition l projectID ref transition))"

lemma putDecision_keeps:
  "mget (dl_decisions l) k = Some d \<Longrightarrow> mget (dl_decisions (snd (putDecision l key decision))) k = Some d"
  by (auto simp: putDecision_def gomap_simps split: option.splits)

lemma decision_step_keeps:
  "decision_step l m \<Longrightarrow> mget (dl_decisions l) k = Some d \<Longrightarrow> mget (dl_decisions m) k = Some d"
  by (induction rule: decision_step.induct)
    (auto simp: RegisterReplacePending_def RegisterTransition_def putDecision_keeps split: option.splits)

lemma decision_steps_keep:
  "decision_step\<^sup>*\<^sup>* l m \<Longrightarrow> mget (dl_decisions l) k = Some d \<Longrightarrow> mget (dl_decisions m) k = Some d"
  by (induction rule: rtranclp_induct) (auto intro: decision_step_keeps)

lemma putDecision_None:
  "fst (putDecision l key decision) = None \<Longrightarrow> mget (dl_decisions (snd (putDecision l key decision))) key = Some decision"
  by (auto simp: putDecision_def gomap_simps split: option.splits if_splits)

text \<open>
  A registered decision is immutable: whatever is registered afterwards, the reference resolves to
  exactly the transition it was registered with, is no authorisation for a replacement of the pending
  graph, and another transition cannot be registered under it.
\<close>

theorem decision_immutable:
  assumes "RegisterTransition l projectID ref transition = (None, l1)" "decision_step\<^sup>*\<^sup>* l1 m"
  shows "ResolveTransition m projectID ref = Inr transition
    \<and> AuthorizeReplacePending m projectID ref \<noteq> None
    \<and> (other \<noteq> transition \<longrightarrow> fst (RegisterTransition m projectID ref other) \<noteq> None)"
proof -
  have "mget (dl_decisions l1) (DecisionKey projectID ref) = Some \<lparr>de_kind = DecisionTransition, de_transition = transition\<rparr>"
    using assms(1) putDecision_None[of l "DecisionKey projectID ref" "\<lparr>de_kind = DecisionTransition, de_transition = transition\<rparr>"]
    by (auto simp: RegisterTransition_def split: if_splits option.splits)
  from decision_steps_keep[OF assms(2) this] show ?thesis
    by (auto simp: ResolveTransition_def AuthorizeReplacePending_def RegisterTransition_def putDecision_def fail_if_def
        split: option.splits)
qed

definition example_log :: MemoryDecisionLog where
  "example_log = snd (RegisterTransition NewMemoryDecisionLog ''p'' ''t1'' (example_transition EndpointSubmitted))"

theorem decision_immutable_witness:
  "ResolveTransition (snd (RegisterTransition example_log ''p'' ''t1'' (example_transition EndpointSatisfied))) ''p'' ''t1''
     = Inr (example_transition EndpointSubmitted)"
proof -
  have "fst (RegisterTransition NewMemoryDecisionLog ''p'' ''t1'' (example_transition EndpointSubmitted)) = None" by code_simp
  then have "RegisterTransition NewMemoryDecisionLog ''p'' ''t1'' (example_transition EndpointSubmitted) = (None, example_log)"
    by (simp add: example_log_def prod_eq_iff)
  from decision_immutable[OF this r_into_rtranclp[where r = decision_step, OF register_transition]] show ?thesis by blast
qed

section \<open>The graph tools\<close>

lemma require_Inr:
  "require sv tool = Inr scope \<Longrightarrow> sc_ProjectID scope = pr_ProjectID (sv_principal sv)
     \<and> pr_Kind (sv_principal sv) = PrincipalAgent \<and> pr_Role (sv_principal sv) = RoleTaskManager \<and> HasTool (sv_principal sv) tool"
  by (auto simp: require_def RequireTool_def and_then_Inr check_simps Let_def)

lemma decodeRevision_Some:
  "decodeRevision x = Some (r, st1, s1) \<Longrightarrow> \<exists>r0. x = Some (r0, st1, s1)
     \<and> (\<forall>v. r = Inr v \<longrightarrow> (\<exists>resp. r0 = Inr resp \<and> unmarshalRevision (resp_Body resp) = Some v))"
  by (cases x) (auto simp: decodeRevision_def and_then_def split: sum.splits option.splits)

text \<open>The two ways an idempotent call returns: the function ran, or it did not and its state is as before.\<close>

lemma Execute_cases:
  assumes "Execute hash st scope key payload (Some f) w = Some (r, st1, w1)"
  obtains (ran) "f w = (r, w1)" "mget (st_records st) (RecordKey scope key) = None" | (not_run) "w1 = w"
  using assms that
  by (auto simp: Execute_def reserve_def Let_def split: option.splits sum.splits prod.splits if_splits bool.splits list.splits)

text \<open>
  C32. A write through the graph tools is authorised: the store changes only when the caller is an agent
  with the Task Manager role that was given the tool, only in its own project, and by exactly the
  transition that the decision log holds under the reference. A write that ran answers with the
  revision that the store committed.
\<close>

theorem service_write_authorised:
  assumes "ServiceTransition marshal sv st s n ref = Some (r, st1, s1)" "s1 \<noteq> s"
  shows "pr_Kind (sv_principal sv) = PrincipalAgent \<and> pr_Role (sv_principal sv) = RoleTaskManager
    \<and> HasTool (sv_principal sv) ToolCoordinationTransition
    \<and> (\<exists>transition. ResolveTransition (sv_decisions sv) (pr_ProjectID (sv_principal sv)) ref = Inr transition
        \<and> s1 = snd (Transition s (pr_ProjectID (sv_principal sv)) n transition)
        \<and> (\<forall>v. r = Inr v \<longrightarrow> (\<exists>snap. fst (Transition s (pr_ProjectID (sv_principal sv)) n transition) = Inr snap \<and> snap_Revision snap = v)))"
proof -
  let ?p = "pr_ProjectID (sv_principal sv)"
  obtain scope transition payload where scope: "require sv ToolCoordinationTransition = Inr scope"
    and ref: "ref \<noteq> ''''"
    and res: "ResolveTransition (sv_decisions sv) (sc_ProjectID scope) ref = Inr transition"
    and ex: "decodeRevision (Execute (sv_hash sv) st (sc_ProjectID scope @ '':coordination.transition'') ref payload
       (Some (transitionAction (sc_ProjectID scope) n ref transition)) s) = Some (r, st1, s1)"
    using assms by (auto simp: ServiceTransition_def split: sum.splits if_splits)
  from require_Inr[OF scope] have p: "sc_ProjectID scope = ?p" by simp
  from decodeRevision_Some[OF ex] obtain r0 where
    ex0: "Execute (sv_hash sv) st (?p @ '':coordination.transition'') ref payload (Some (transitionAction ?p n ref transition)) s
       = Some (r0, st1, s1)"
    and dec: "\<And>v. r = Inr v \<Longrightarrow> \<exists>resp. r0 = Inr resp \<and> unmarshalRevision (resp_Body resp) = Some v"
    by (auto simp: p)
  from ex0 have act: "transitionAction ?p n ref transition s = (r0, s1)"
    using assms(2) by (cases rule: Execute_cases) auto
  then have s1: "s1 = snd (Transition s ?p n transition)"
    using ref by (auto simp: transitionAction_def revisionResponse_def TransitionWithDecisionRef_def apfst_def map_prod_def
        split: prod.splits)
  have "\<exists>snap. fst (Transition s ?p n transition) = Inr snap \<and> snap_Revision snap = v" if "r = Inr v" for v
    using dec[OF that] act ref
    by (auto simp: transitionAction_def revisionResponse_def TransitionWithDecisionRef_def apfst_def map_prod_def and_then_Inr
        unmarshal_marshal split: prod.splits)
  with require_Inr[OF scope] res p s1 show ?thesis by auto
qed

definition example_manager :: GraphService where
  "example_manager = \<lparr>sv_principal = \<lparr>pr_ActorPrincipalID = ''tm'', pr_Kind = PrincipalAgent, pr_ProjectID = ''p'', pr_Role = RoleTaskManager,
     pr_Operation = '''', pr_TaskID = '''', pr_InvocationID = ''inv0'', pr_ConsumerInvocationID = '''', pr_ConsumerTaskID = '''',
     pr_ConsumerRole = '''', pr_Tools = [ToolCoordinationTransition, ToolCoordinationReplacePending], pr_AuthenticatedAt = 0\<rparr>,
     sv_configured = True, sv_decisions = example_log, sv_hash = id\<rparr>"

definition example_marshal :: "Revision \<Rightarrow> string \<Rightarrow> GraphTransition \<Rightarrow> goerr + string" where
  "example_marshal n ref transition = Inr (marshalRevision n @ '':'' @ ref)"

definition example_write :: "((goerr + Revision) \<times> MemoryIdempotencyStore \<times> MemoryStore) option" where
  "example_write = ServiceTransition example_marshal example_manager NewMemoryIdempotencyStore example_completed 2 ''t1''"

lemma example_write_returns:
  obtains st1 s1 where "ServiceTransition example_marshal example_manager NewMemoryIdempotencyStore example_completed 2 ''t1''
      = Some (Inr 3, st1, s1)" "pj_latest (ensureProject s1 ''p'') = 3"
proof -
  have "map_option (\<lambda>(r, _, s1). (r, pj_latest (ensureProject s1 ''p''))) example_write = Some (Inr 3, 3)" by code_simp
  with that show ?thesis unfolding example_write_def by auto
qed

theorem service_write_authorised_witness:
  "\<exists>transition snap. ResolveTransition example_log ''p'' ''t1'' = Inr transition
     \<and> fst (Transition example_completed ''p'' 2 transition) = Inr snap \<and> snap_Revision snap = 3"
proof -
  obtain st1 s1 where w: "ServiceTransition example_marshal example_manager NewMemoryIdempotencyStore example_completed 2 ''t1''
      = Some (Inr 3, st1, s1)" and l: "pj_latest (ensureProject s1 ''p'') = 3" by (rule example_write_returns)
  have "pj_latest (ensureProject example_completed ''p'') = 2" by code_simp
  with l have "s1 \<noteq> example_completed" by auto
  from service_write_authorised[OF w this] show ?thesis by (auto simp: example_manager_def)
qed

text \<open>
  A repeated request is answered, not executed: after a successful write, the same request
  returns the same revision and changes neither the graph nor the record of requests, whatever has
  happened to the graph and to the decision log in between.
\<close>

theorem service_write_replayed:
  assumes "ServiceReplacePending marshal sv st s subgraph = Some (Inr r, st1, s1)"
  shows "ServiceReplacePending marshal (sv\<lparr>sv_decisions := decisions\<rparr>) st1 s2 subgraph = Some (Inr r, st1, s2)"
proof -
  obtain scope payload where "require sv ToolCoordinationReplacePending = Inr scope" "sv_configured sv"
    and payload: "marshal subgraph = Inr payload"
    and ex: "decodeRevision (Execute (sv_hash sv) st (sc_ProjectID scope @ '':coordination.replacePending'') (ps_RequestID subgraph) payload
       (Some (replacePendingAction sv (sc_ProjectID scope) subgraph)) s) = Some (Inr r, st1, s1)"
    using assms by (auto simp: ServiceReplacePending_def split: sum.splits if_splits)
  moreover from decodeRevision_Some[OF ex] obtain resp where
    "Execute (sv_hash sv) st (sc_ProjectID scope @ '':coordination.replacePending'') (ps_RequestID subgraph) payload
       (Some (replacePendingAction sv (sc_ProjectID scope) subgraph)) s = Some (Inr resp, st1, s1)"
    and "unmarshalRevision (resp_Body resp) = Some r" by auto
  moreover note Execute_replay(1)[OF calculation(5), of "replacePendingAction (sv\<lparr>sv_decisions := decisions\<rparr>) (sc_ProjectID scope) subgraph" s2]
  moreover have "require (sv\<lparr>sv_decisions := decisions\<rparr>) t = require sv t" for t by (simp add: require_def)
  ultimately show ?thesis by (simp add: ServiceReplacePending_def decodeRevision_def)
qed

definition example_replace :: "GraphService" where
  "example_replace = example_manager\<lparr>sv_decisions := snd (RegisterReplacePending NewMemoryDecisionLog ''p'' ''r1'')\<rparr>"

theorem service_write_replayed_witness:
  "\<exists>st1. ServiceReplacePending (\<lambda>_. Inr ''body'') example_replace NewMemoryIdempotencyStore NewMemoryStore example_subgraph
        = Some (Inr 2, st1, example_store)
     \<and> ServiceReplacePending (\<lambda>_. Inr ''body'') (example_replace\<lparr>sv_decisions := NewMemoryDecisionLog\<rparr>) st1 example_canceled example_subgraph
        = Some (Inr 2, st1, example_canceled)"
proof -
  have "map_option (\<lambda>(r, _, s1). (r, s1)) (ServiceReplacePending (\<lambda>_. Inr ''body'') example_replace NewMemoryIdempotencyStore
      NewMemoryStore example_subgraph) = Some (Inr 2, example_store)" by code_simp
  then obtain st1 where "ServiceReplacePending (\<lambda>_. Inr ''body'') example_replace NewMemoryIdempotencyStore NewMemoryStore example_subgraph
      = Some (Inr 2, st1, example_store)" by auto
  with service_write_replayed[OF this, of NewMemoryDecisionLog example_canceled] show ?thesis by blast
qed

end
