(* ===== verification/Go_Strings.thy ===== *)
theory Go_Strings
  imports Kernel
begin

text \<open>
  The parts of Go's \<open>strings\<close>, \<open>path\<close> and \<open>sort\<close> packages that the components use, on byte strings:
  prefixes, suffixes, substrings, \<open>Split\<close>, \<open>Trim\<close>, \<open>TrimSpace\<close>, the ASCII part of \<open>ToLower\<close>, the slash
  separated paths of \<open>path.Clean\<close> and \<open>path.Join\<close>, and the \<open>seen\<close> loop that drops duplicates.
  The lemmas show what a cleaned path looks like: no empty and no dot segment, and parent segments
  only in front of a relative path, so that a path that starts with no parent segment has none.
\<close>

named_theorems path_simps \<open>segments of cleaned paths\<close>

section \<open>Strings\<close>

definition HasPrefix :: "string \<Rightarrow> string \<Rightarrow> bool" where
  "HasPrefix s p \<longleftrightarrow> take (length p) s = p"

definition HasSuffix :: "string \<Rightarrow> string \<Rightarrow> bool" where
  "HasSuffix s p \<longleftrightarrow> length p \<le> length s \<and> drop (length s - length p) s = p"

fun Contains :: "string \<Rightarrow> string \<Rightarrow> bool" where
  "Contains [] p \<longleftrightarrow> p = []"
| "Contains (c # s) p \<longleftrightarrow> HasPrefix (c # s) p \<or> Contains s p"

definition ContainsAny :: "string \<Rightarrow> string \<Rightarrow> bool" where
  "ContainsAny s chars \<longleftrightarrow> list_ex (\<lambda>c. c \<in> set chars) s"

text \<open>\<open>strings.Split(s, sep)\<close> for a separator of one byte.\<close>

fun Split :: "char \<Rightarrow> string \<Rightarrow> string list" where
  "Split sep [] = [[]]"
| "Split sep (c # s) =
     (if c = sep then [] # Split sep s
      else case Split sep s of seg # segs \<Rightarrow> (c # seg) # segs | [] \<Rightarrow> [[c]])"

fun joinWith :: "char \<Rightarrow> string list \<Rightarrow> string" where
  "joinWith sep [] = []"
| "joinWith sep [seg] = seg"
| "joinWith sep (seg # segs) = seg @ sep # joinWith sep segs"

text \<open>\<open>strings.ReplaceAll(p, "\\", "/")\<close>\<close>

definition slashes :: "string \<Rightarrow> string" where
  "slashes = map (\<lambda>c. if c = CHR 92 then CHR ''/'' else c)"

text \<open>\<open>strings.Trim(s, "/")\<close>\<close>

definition trimSlashes :: "string \<Rightarrow> string" where
  "trimSlashes s = rev (dropWhile (\<lambda>c. c = CHR ''/'') (rev (dropWhile (\<lambda>c. c = CHR ''/'') s)))"

text \<open>
  \<open>strings.ToLower\<close>, as far as the components can see it: they compare the result with ASCII strings
  only. Besides the ASCII capitals two runes become ASCII letters, U+0130 and U+212A; every other rune
  becomes a rune outside ASCII, and its bytes are kept here.
\<close>

fun ToLower :: "string \<Rightarrow> string" where
  "ToLower [] = []"
| "ToLower (a # s) =
     (if 65 \<le> (of_char a :: nat) \<and> (of_char a :: nat) \<le> 90 then char_of (of_char a + 32 :: nat) # ToLower s
      else case s of
        b # t \<Rightarrow>
          if of_char a = (0xC4 :: nat) \<and> of_char b = (0xB0 :: nat) then CHR ''i'' # ToLower t
          else (case t of
             c # u \<Rightarrow> if of_char a = (0xE2 :: nat) \<and> of_char b = (0x84 :: nat) \<and> of_char c = (0xAA :: nat)
                       then CHR ''k'' # ToLower u else a # ToLower s
           | [] \<Rightarrow> a # ToLower s)
      | [] \<Rightarrow> [a])"

text \<open>
  \<open>strings.TrimSpace\<close>: \<open>trim_left\<close> from the front, and its mirror image from the back. The
  multi-byte spaces are recognised by their last bytes.
\<close>

fun trim_right_rev :: "string \<Rightarrow> string" where
  "trim_right_rev [] = []"
| "trim_right_rev (c # cs) =
     (if ascii_space (of_char c) then trim_right_rev cs
      else case cs of
        [] \<Rightarrow> c # cs
      | b # ds \<Rightarrow>
          if space2 (of_char b) (of_char c) then trim_right_rev ds
          else (case ds of
             [] \<Rightarrow> c # cs
           | a # es \<Rightarrow>
               if space3 (of_char a) (of_char b) (of_char c) then trim_right_rev es else c # cs))"

definition TrimSpace :: "string \<Rightarrow> string" where
  "TrimSpace s = rev (trim_right_rev (rev (trim_left s)))"

section \<open>Dropping duplicates\<close>

text \<open>The loop over a slice that appends a value to \<open>out\<close> when it is not yet in \<open>seen\<close>.\<close>

fun dedupe :: "'a list \<Rightarrow> 'a list \<Rightarrow> 'a list" where
  "dedupe seen [] = []"
| "dedupe seen (x # xs) = (if x \<in> set seen then dedupe seen xs else x # dedupe (x # seen) xs)"

lemma set_dedupe [simp]: "set (dedupe seen xs) = set xs - set seen"
  by (induction seen xs rule: dedupe.induct) auto

lemma distinct_dedupe [simp]: "distinct (dedupe seen xs)"
  by (induction seen xs rule: dedupe.induct) auto

text \<open>\<open>sort.Strings\<close> on the result, the canonical form of a set of strings.\<close>

definition sortStrings :: "string list \<Rightarrow> string list" where
  "sortStrings = sort"

lemma sorted_distinct_unique:
  "sorted xs \<Longrightarrow> distinct xs \<Longrightarrow> sorted ys \<Longrightarrow> distinct ys \<Longrightarrow> set xs = set ys \<Longrightarrow> xs = (ys :: string list)"
  by (rule sorted_distinct_set_unique)

section \<open>Paths\<close>

text \<open>
  \<open>path.Clean\<close> segment by segment: empty and dot segments vanish, a parent segment removes the segment
  before it, and is dropped at the root of an absolute path. The stack holds the segments kept so far,
  the last one first.
\<close>

fun cleanSegments :: "bool \<Rightarrow> string list \<Rightarrow> string list \<Rightarrow> string list" where
  "cleanSegments rooted stack [] = rev stack"
| "cleanSegments rooted stack (seg # segs) =
     (if seg = '''' \<or> seg = ''.'' then cleanSegments rooted stack segs
      else if seg = ''..'' then
        (case stack of
           [] \<Rightarrow> cleanSegments rooted (if rooted then [] else [seg]) segs
         | parent # rest \<Rightarrow> if parent = ''..'' then cleanSegments rooted (seg # stack) segs
                         else cleanSegments rooted rest segs)
      else cleanSegments rooted (seg # stack) segs)"

definition IsAbs :: "string \<Rightarrow> bool" where
  "IsAbs p \<longleftrightarrow> HasPrefix p ''/''"

definition Clean :: "string \<Rightarrow> string" where
  "Clean p = (let segs = cleanSegments (IsAbs p) [] (Split (CHR ''/'') p) in
     if IsAbs p then CHR ''/'' # joinWith (CHR ''/'') segs
     else if segs = [] then ''.'' else joinWith (CHR ''/'') segs)"

definition pathJoin :: "string list \<Rightarrow> string" where
  "pathJoin elems = (case filter (\<lambda>e. e \<noteq> '''') elems of [] \<Rightarrow> '''' | es \<Rightarrow> Clean (joinWith (CHR ''/'') es))"

text \<open>\<open>filepath.Dir\<close> and \<open>filepath.Base\<close>\<close>

definition pathDir :: "string \<Rightarrow> string" where
  "pathDir p = Clean (rev (dropWhile (\<lambda>c. c \<noteq> CHR ''/'') (rev p)))"

definition pathBase :: "string \<Rightarrow> string" where
  "pathBase p = (if p = '''' then ''.''
     else let q = rev (dropWhile (\<lambda>c. c = CHR ''/'') (rev p)) in
       if q = '''' then ''/'' else rev (takeWhile (\<lambda>c. c \<noteq> CHR ''/'') (rev q)))"

text \<open>
  \<open>filepath.Rel\<close>: what remains of both paths after their common leading segments decides. Its callers
  pass absolute paths.
\<close>

definition pathSegments :: "string \<Rightarrow> string list" where
  "pathSegments p = cleanSegments (IsAbs p) [] (Split (CHR ''/'') p)"

fun dropCommon :: "string list \<Rightarrow> string list \<Rightarrow> string list \<times> string list" where
  "dropCommon (b # bs) (t # ts) = (if b = t then dropCommon bs ts else (b # bs, t # ts))"
| "dropCommon bs ts = (bs, ts)"

definition Rel :: "string \<Rightarrow> string \<Rightarrow> goerr + string" where
  "Rel base targ =
     (if pathSegments base = pathSegments targ \<and> IsAbs base = IsAbs targ then Inr ''.''
      else if IsAbs base \<noteq> IsAbs targ then Inl (Plain (''Rel: can't make '' @ targ @ '' relative to '' @ base))
      else case dropCommon (pathSegments base) (pathSegments targ) of
        (bs, ts) \<Rightarrow>
          if bs \<noteq> [] \<and> hd bs = ''..'' then Inl (Plain (''Rel: can't make '' @ targ @ '' relative to '' @ base))
          else Inr (joinWith (CHR ''/'') (map (\<lambda>_. ''..'') bs @ ts)))"

text \<open>The file system as the components see it through \<open>filepath.Abs\<close>, \<open>EvalSymlinks\<close>, \<open>os.Stat\<close>, \<open>os.Lstat\<close> and \<open>os.Readlink\<close>.\<close>

datatype lstat = NotExist | LstatError goerr | NoLink | IsLink

record FileSystem =
  fs_Abs :: "string \<Rightarrow> goerr + string"
  fs_EvalSymlinks :: "string \<Rightarrow> goerr + string"
  fs_IsDir :: "string \<Rightarrow> bool"
  fs_Lstat :: "string \<Rightarrow> lstat"
  fs_Readlink :: "string \<Rightarrow> goerr + string"

lemma Split_not_Nil [simp]: "Split sep s \<noteq> []"
  by (induction s) (auto split: list.splits)

lemma Split_no_sep: "seg \<in> set (Split sep s) \<Longrightarrow> sep \<notin> set seg"
  by (induction s arbitrary: seg) (auto split: list.splits if_splits)

lemma Split_append: "sep \<notin> set seg \<Longrightarrow> Split sep (seg @ sep # s) = seg # Split sep s"
  by (induction seg) auto

lemma Split_plain: "sep \<notin> set seg \<Longrightarrow> Split sep seg = [seg]"
  by (induction seg) auto

lemma Split_join:
  assumes "segs \<noteq> []" "\<forall>seg \<in> set segs. sep \<notin> set seg"
  shows "Split sep (joinWith sep segs) = segs"
  using assms by (induction sep segs rule: joinWith.induct) (auto simp: Split_append Split_plain)

lemma join_Split: "joinWith sep (Split sep s) = s"
proof (induction s)
  case (Cons c s)
  then show ?case by (cases "Split sep s" rule: list.exhaust; cases "tl (Split sep s)") (auto split: list.splits)
qed simp

text \<open>What the segments of a cleaned path look like.\<close>

definition plain_segment :: "string \<Rightarrow> bool" where
  "plain_segment seg \<longleftrightarrow> seg \<noteq> '''' \<and> seg \<noteq> ''.'' \<and> seg \<noteq> ''..'' \<and> CHR ''/'' \<notin> set seg"

definition clean_shape :: "bool \<Rightarrow> string list \<Rightarrow> bool" where
  "clean_shape rooted segs \<longleftrightarrow> (\<exists>n plain. segs = replicate n ''..'' @ plain \<and> list_all plain_segment plain \<and> (rooted \<longrightarrow> n = 0))"

lemma clean_shape_pop:
  assumes "clean_shape rooted (rev (parent # rest))"
  shows "clean_shape rooted (rev rest)" and "parent \<noteq> ''..'' \<Longrightarrow> plain_segment parent"
    and "parent = ''..'' \<Longrightarrow> \<not> rooted \<and> (\<exists>n. rev rest = replicate n ''..'')"
proof -
  obtain n plain where s: "rev rest @ [parent] = replicate n ''..'' @ plain" "list_all plain_segment plain" "rooted \<longrightarrow> n = 0"
    using assms by (auto simp: clean_shape_def)
  have cases: "clean_shape rooted (rev rest) \<and> (parent \<noteq> ''..'' \<longrightarrow> plain_segment parent)
      \<and> (parent = ''..'' \<longrightarrow> \<not> rooted \<and> (\<exists>n. rev rest = replicate n ''..''))"
  proof (cases plain rule: rev_cases)
    case Nil
    with s obtain m where "n = Suc m" by (cases n) auto
    with s Nil have "rev rest @ [parent] = replicate m ''..'' @ [''..'']" by (simp add: replicate_append_same)
    then have "rev rest = replicate m ''..''" "parent = ''..''" by simp_all
    then show ?thesis using s \<open>n = Suc m\<close> by (auto simp: clean_shape_def intro!: exI[of _ m])
  next
    case (snoc p x)
    with s have "rev rest = replicate n ''..'' @ p" "parent = x" by auto
    then show ?thesis using s snoc by (auto simp: clean_shape_def plain_segment_def)
  qed
  then show "clean_shape rooted (rev rest)" and "parent \<noteq> ''..'' \<Longrightarrow> plain_segment parent"
    and "parent = ''..'' \<Longrightarrow> \<not> rooted \<and> (\<exists>n. rev rest = replicate n ''..'')" by auto
qed

lemma clean_shape_push: "clean_shape rooted (rev stack) \<Longrightarrow> plain_segment seg \<Longrightarrow> clean_shape rooted (rev (seg # stack))"
  by (fastforce simp: clean_shape_def)

lemma clean_shape_parent: "rev stack = replicate n ''..'' \<Longrightarrow> \<not> rooted \<Longrightarrow> clean_shape rooted (rev (''..'' # stack))"
  by (auto simp: clean_shape_def replicate_append_same intro!: exI[of _ "Suc n"])

lemma cleanSegments_shape:
  assumes "clean_shape rooted (rev stack)" "\<forall>seg \<in> set segs. CHR ''/'' \<notin> set seg"
  shows "clean_shape rooted (cleanSegments rooted stack segs)"
  using assms
proof (induction rooted stack segs rule: cleanSegments.induct)
  case (2 rooted stack seg segs)
  have empty: "clean_shape rooted (rev (if rooted then [] else [''..'']))"
    using clean_shape_parent[of "[]" 0 rooted] by (auto simp: clean_shape_def)
  show ?case
  proof (cases "seg = '''' \<or> seg = ''.''")
    case True then show ?thesis using 2 by auto
  next
    case False
    show ?thesis
    proof (cases "seg = ''..''")
      case True
      then show ?thesis
      proof (cases stack)
        case Nil then show ?thesis using 2 False True empty by auto
      next
        case (Cons parent rest)
        show ?thesis
        proof (cases "parent = ''..''")
          case above: True
          from clean_shape_pop(3)[OF "2.prems"(1)[unfolded Cons] this] obtain n where n: "rev rest = replicate n ''..''" "\<not> rooted" by blast
          then have "rev stack = replicate (Suc n) ''..''" using above Cons by (simp add: replicate_append_same)
          from clean_shape_parent[OF this n(2)] show ?thesis using 2 False True Cons above by auto
        next
          case plain: False
          then show ?thesis using 2 False True Cons clean_shape_pop(1)[OF "2.prems"(1)[unfolded Cons]] by auto
        qed
      qed
    next
      case plain: False
      with False have "plain_segment seg" using "2.prems"(2) by (simp add: plain_segment_def)
      then show ?thesis using 2 False plain clean_shape_push[OF "2.prems"(1)] by auto
    qed
  qed
qed simp

text \<open>Cleaning segments of this shape changes nothing.\<close>

lemma cleanSegments_plain:
  "list_all plain_segment segs \<Longrightarrow> cleanSegments rooted stack segs = rev stack @ segs"
  by (induction segs arbitrary: stack) (auto simp: plain_segment_def)

lemma cleanSegments_parents:
  "cleanSegments False (replicate k ''..'') (replicate n ''..'' @ segs) = cleanSegments False (replicate (n + k) ''..'') segs"
proof (induction n arbitrary: k)
  case (Suc n)
  from Suc[of "Suc k"] show ?case by (cases k) (auto simp: replicate_append_same)
qed simp

lemma cleanSegments_clean: "clean_shape rooted segs \<Longrightarrow> cleanSegments rooted [] segs = segs"
  using cleanSegments_parents[of 0] by (cases rooted) (auto simp: clean_shape_def cleanSegments_plain)

lemma clean_shape_segment: "clean_shape rooted segs \<Longrightarrow> seg \<in> set segs \<Longrightarrow> seg = ''..'' \<or> plain_segment seg"
  unfolding clean_shape_def list_all_iff by (metis Un_iff in_set_replicate set_append)

lemma clean_shape_no_slash: "clean_shape rooted segs \<Longrightarrow> seg \<in> set segs \<Longrightarrow> CHR ''/'' \<notin> set seg"
  using clean_shape_segment[of rooted segs seg] unfolding plain_segment_def by auto

text \<open>
  A relative path that is neither the current directory nor starts with a parent segment, once
  cleaned, consists of plain segments only.
\<close>

lemma Clean_relative:
  assumes "\<not> IsAbs p" "Clean p \<noteq> ''.''" "Clean p \<noteq> ''..''" "\<not> HasPrefix (Clean p) ''../''"
  shows "list_all plain_segment (Split (CHR ''/'') (Clean p))" "\<not> IsAbs (Clean p)" "Clean (Clean p) = Clean p"
proof -
  let ?segs = "cleanSegments False [] (Split (CHR ''/'') p)"
  have shape: "clean_shape False ?segs"
    by (rule cleanSegments_shape) (auto simp: clean_shape_def dest: Split_no_sep)
  have segs: "?segs \<noteq> []" and c: "Clean p = joinWith (CHR ''/'') ?segs"
    using assms by (auto simp: Clean_def Let_def split: if_splits)
  have split: "Split (CHR ''/'') (Clean p) = ?segs"
    unfolding c by (rule Split_join[OF segs]) (use clean_shape_no_slash[OF shape] in blast)
  obtain n plain where n: "?segs = replicate n ''..'' @ plain" "list_all plain_segment plain"
    using shape by (auto simp: clean_shape_def)
  have "n = 0"
  proof (rule ccontr)
    assume "n \<noteq> 0"
    with n obtain rest where "?segs = ''..'' # rest" by (cases n) auto
    with c assms show False by (cases rest) (auto simp: HasPrefix_def)
  qed
  with n split show plain: "list_all plain_segment (Split (CHR ''/'') (Clean p))" by simp
  show "\<not> IsAbs (Clean p)"
  proof
    assume "IsAbs (Clean p)"
    then obtain r where "Clean p = CHR ''/'' # r" by (cases "Clean p") (auto simp: IsAbs_def HasPrefix_def)
    with plain show False by (simp add: plain_segment_def)
  qed
  then show "Clean (Clean p) = Clean p"
    unfolding Clean_def[of "Clean p"] split using cleanSegments_clean[OF shape] segs by (simp add: Let_def c[symmetric])
qed

text \<open>Joining a path with plain segments adds exactly these.\<close>

lemma cleanSegments_append:
  "cleanSegments rooted stack (xs @ ys) = cleanSegments rooted (rev (cleanSegments rooted stack xs)) ys"
  by (induction rooted stack xs rule: cleanSegments.induct) (auto split: list.splits)

lemma Split_concat: "Split sep (a @ sep # b) = Split sep a @ Split sep b"
  by (induction a) (auto split: list.splits)

lemma pathSegments_plain: "list_all plain_segment (Split (CHR ''/'') p) \<Longrightarrow> pathSegments p = Split (CHR ''/'') p"
  by (simp add: pathSegments_def cleanSegments_plain)

lemma IsAbs_append: "root \<noteq> '''' \<Longrightarrow> IsAbs (root @ p) = IsAbs root"
  by (cases root) (auto simp: IsAbs_def HasPrefix_def)

lemma pathSegments_shape: "clean_shape (IsAbs p) (pathSegments p)"
  unfolding pathSegments_def by (rule cleanSegments_shape) (auto simp: clean_shape_def dest: Split_no_sep)

lemma Clean_segments:
  "Clean p = (if IsAbs p then CHR ''/'' # joinWith (CHR ''/'') (pathSegments p)
     else if pathSegments p = [] then ''.'' else joinWith (CHR ''/'') (pathSegments p))"
  by (simp add: Clean_def pathSegments_def Let_def)

lemma IsAbs_Clean_relative:
  assumes "\<not> IsAbs p"
  shows "\<not> IsAbs (Clean p)"
proof (cases "pathSegments p")
  case Nil
  then show ?thesis using assms by (simp add: Clean_segments IsAbs_def HasPrefix_def)
next
  case (Cons seg segs)
  then have "seg \<noteq> ''''" "CHR ''/'' \<notin> set seg"
    using clean_shape_segment[OF pathSegments_shape, of seg p] by (auto simp: plain_segment_def)
  then show ?thesis using assms Cons
    by (cases seg; cases segs) (auto simp: Clean_segments IsAbs_def HasPrefix_def)
qed

lemma Clean_not_empty [simp]: "Clean p \<noteq> ''''"
proof (cases "pathSegments p")
  case (Cons seg segs)
  then have "seg \<noteq> ''''" using clean_shape_segment[OF pathSegments_shape, of seg p] by (auto simp: plain_segment_def)
  then show ?thesis using Cons by (cases segs) (auto simp: Clean_segments)
qed (simp add: Clean_segments)

lemma IsAbs_Clean: "IsAbs (Clean p) = IsAbs p"
proof (cases "IsAbs p")
  case True
  then show ?thesis by (simp add: Clean_def Let_def) (simp add: IsAbs_def HasPrefix_def)
qed (simp add: IsAbs_Clean_relative)

lemma pathSegments_Clean: "pathSegments (Clean p) = pathSegments p"
proof -
  let ?segs = "pathSegments p"
  have no_slash: "\<forall>seg \<in> set ?segs. CHR ''/'' \<notin> set seg" using clean_shape_no_slash[OF pathSegments_shape] by blast
  have split: "Split (CHR ''/'') (joinWith (CHR ''/'') ?segs) = (if ?segs = [] then [''''] else ?segs)"
    using Split_join[OF _ no_slash] by auto
  have keep: "cleanSegments (IsAbs p) [] ?segs = ?segs" by (rule cleanSegments_clean[OF pathSegments_shape])
  have "cleanSegments (IsAbs p) [] (Split (CHR ''/'') (Clean p)) = ?segs"
    using split keep unfolding Clean_def Let_def pathSegments_def[symmetric] by auto
  then show ?thesis by (simp add: pathSegments_def[of "Clean p"] IsAbs_Clean)
qed

lemma pathJoin_segments:
  assumes "root \<noteq> ''''" "p \<noteq> ''''" "list_all plain_segment (Split (CHR ''/'') p)"
  shows "pathSegments (pathJoin [root, p]) = pathSegments root @ Split (CHR ''/'') p" and "IsAbs (pathJoin [root, p]) = IsAbs root"
proof -
  have join: "pathJoin [root, p] = Clean (root @ CHR ''/'' # p)" using assms by (simp add: pathJoin_def)
  show "IsAbs (pathJoin [root, p]) = IsAbs root" using assms(1) by (simp add: join IsAbs_Clean IsAbs_append)
  show "pathSegments (pathJoin [root, p]) = pathSegments root @ Split (CHR ''/'') p"
    unfolding join pathSegments_Clean using assms(1,3)
    by (simp add: pathSegments_def IsAbs_append Split_concat cleanSegments_append cleanSegments_plain)
qed

end
