(* ===== verification/Object_Store.thy ===== *)
theory Object_Store
  imports Go_Strings
begin

text \<open>
  \<open>internal/platform/objectstore\<close>: the in-memory object store of \<open>store.go\<close> and the checks of buckets and
  keys in \<open>minio.go\<close>. Objects are found by bucket and key; a second index by bucket and content hash
  makes a put of stored content return the object that is there. SHA-256 is the argument \<open>sha\<close>; its
  hexadecimal text is computed. The locale \<open>content_store\<close> is the contract the artifact registry relies
  on, and the in-memory store keeps it as long as keys name the content and nothing is deleted.
\<close>

section \<open>Hexadecimal text\<close>

definition hexDigit :: "nat \<Rightarrow> char" where
  "hexDigit n = char_of (if n < 10 then 48 + n else 87 + n)"

definition hexEncode :: "string \<Rightarrow> string" where
  "hexEncode bytes = concat (map (\<lambda>b. [hexDigit (of_char b div 16), hexDigit (of_char b mod 16)]) bytes)"

definition hashBytes :: "(string \<Rightarrow> string) \<Rightarrow> string \<Rightarrow> string" where
  "hashBytes sha body = hexEncode (sha body)"

lemma hexDigit_plain: "n < 16 \<Longrightarrow> hexDigit n \<noteq> CHR ''/'' \<and> hexDigit n \<noteq> CHR ''.'' \<and> hexDigit n \<noteq> CHR 92"
proof -
  assume "n < 16"
  then have "n \<in> set [0..<16]" by simp
  moreover have "\<forall>n \<in> set [0..<16]. hexDigit n \<noteq> CHR ''/'' \<and> hexDigit n \<noteq> CHR ''.'' \<and> hexDigit n \<noteq> CHR 92" by code_simp
  ultimately show ?thesis by blast
qed

lemma of_char_div_16: "(of_char c :: nat) div 16 < 16"
  using nat_of_char_less_256[of c] by (simp add: less_mult_imp_div_less)

lemma hash_no_slash: "CHR ''/'' \<notin> set (hashBytes sha body)"
proof
  assume "CHR ''/'' \<in> set (hashBytes sha body)"
  then obtain x where "hexDigit (of_char x div 16) = CHR ''/'' \<or> hexDigit (of_char x mod 16) = CHR ''/''"
    unfolding hashBytes_def hexEncode_def set_concat set_map by (force simp: eq_commute[of "CHR ''/''"])
  then show False
    using hexDigit_plain[of "of_char x div 16"] hexDigit_plain[of "of_char x mod 16"] of_char_div_16[of x] by auto
qed

section \<open>The store\<close>

record ObjectRef =
  or_Bucket :: string
  or_Key :: string

record PutObject =
  po_Bucket :: string
  po_Key :: string
  po_ContentType :: string
  po_Body :: "string option"

record PutResult =
  pu_Ref :: ObjectRef
  pu_SHA256 :: string
  pu_Size :: int

record GetResult =
  gt_Ref :: ObjectRef
  gt_ContentType :: string
  gt_SHA256 :: string
  gt_Size :: int
  gt_Body :: string

record memoryObject =
  mo_ref :: ObjectRef
  mo_contentType :: string
  mo_sha256 :: string
  mo_body :: string

record ObjectMemoryStore =
  os_objects :: "(string, memoryObject) gomap"
  os_byHash :: "(string, ObjectRef) gomap"

definition NewObjectStore :: ObjectMemoryStore where
  "NewObjectStore = \<lparr>os_objects = [], os_byHash = []\<rparr>"

abbreviation ErrObjectNotFound :: goerr where
  "ErrObjectNotFound \<equiv> Plain ''object not found''"

definition objectKey :: "ObjectRef \<Rightarrow> string" where
  "objectKey ref = or_Bucket ref @ ''/'' @ or_Key ref"

definition validateBucket :: "string \<Rightarrow> goerr option" where
  "validateBucket bucket = first_err
     [fail_if (bucket = '''') (Plain ''bucket is required''),
      fail_if (bucket \<noteq> TrimSpace bucket \<or> Contains bucket ''/'' \<or> Contains bucket [CHR 92]) (Plain ''bucket is invalid'')]"

definition TrimPrefix :: "string \<Rightarrow> string \<Rightarrow> string" where
  "TrimPrefix s p = (if HasPrefix s p then drop (length p) s else s)"

definition cleanKey :: "string \<Rightarrow> goerr + string" where
  "cleanKey key =
     (let cleaned = TrimPrefix (Clean (CHR ''/'' # key)) ''/'' in
      checked (first_err
        [fail_if (TrimSpace key = '''') (Plain ''object key is required''),
         fail_if (Contains key [CHR 92]) (Plain ''object key is invalid''),
         fail_if (cleaned = ''.'' \<or> cleaned = '''' \<or> HasPrefix cleaned ''../'' \<or> cleaned = ''..'') (Plain ''object key is invalid''),
         fail_if (cleaned \<noteq> key) (Plain ''object key must already be clean'')])
      (Inr cleaned))"

definition ObjectPut ::
  "(string \<Rightarrow> string) \<Rightarrow> goerr option \<Rightarrow> ObjectMemoryStore \<Rightarrow> PutObject \<Rightarrow> (goerr + PutResult) \<times> ObjectMemoryStore" where
  "ObjectPut sha ctx s obj =
     (case first_err [ctx, fail_if (po_Bucket obj = '''') (Plain ''bucket is required''), validateBucket (po_Bucket obj),
          fail_if (po_Body obj = None) (Plain ''body is required'')] of
        Some e \<Rightarrow> (Inl e, s)
      | None \<Rightarrow>
          let body = the (po_Body obj); hash = hashBytes sha body; size = int (length body);
              hashKey = po_Bucket obj @ ''/'' @ hash in
          (case mget (os_byHash s) hashKey of
             Some existing \<Rightarrow> (Inr \<lparr>pu_Ref = existing, pu_SHA256 = hash, pu_Size = size\<rparr>, s)
           | None \<Rightarrow>
               (case cleanKey (if po_Key obj = '''' then hash else po_Key obj) of
                  Inl e \<Rightarrow> (Inl e, s)
                | Inr key \<Rightarrow>
                    let ref = \<lparr>or_Bucket = po_Bucket obj, or_Key = key\<rparr> in
                    (Inr \<lparr>pu_Ref = ref, pu_SHA256 = hash, pu_Size = size\<rparr>,
                     s\<lparr>os_objects := mput (objectKey ref)
                          \<lparr>mo_ref = ref, mo_contentType = po_ContentType obj, mo_sha256 = hash, mo_body = body\<rparr> (os_objects s),
                       os_byHash := mput hashKey ref (os_byHash s)\<rparr>))))"

definition ObjectGet :: "(string \<Rightarrow> string) \<Rightarrow> goerr option \<Rightarrow> ObjectMemoryStore \<Rightarrow> ObjectRef \<Rightarrow> goerr + GetResult" where
  "ObjectGet sha ctx s ref =
     checked ctx
     (case mget (os_objects s) (objectKey ref) of
        None \<Rightarrow> Inl ErrObjectNotFound
      | Some stored \<Rightarrow>
          let got = hashBytes sha (mo_body stored) in
          checked (fail_if (got \<noteq> mo_sha256 stored)
            (Plain (''object hash mismatch: got '' @ got @ '' want '' @ mo_sha256 stored)))
          (Inr \<lparr>gt_Ref = ref, gt_ContentType = mo_contentType stored, gt_SHA256 = mo_sha256 stored,
                 gt_Size = int (length (mo_body stored)), gt_Body = mo_body stored\<rparr>))"

definition ObjectDelete :: "goerr option \<Rightarrow> ObjectMemoryStore \<Rightarrow> ObjectRef \<Rightarrow> goerr option \<times> ObjectMemoryStore" where
  "ObjectDelete ctx s ref =
     (case ctx of
        Some e \<Rightarrow> (Some e, s)
      | None \<Rightarrow> (None, s\<lparr>os_objects := mdel (objectKey ref) (os_objects s)\<rparr>))"

text \<open>
  \<open>Delete\<close> leaves the index by hash alone: content that was deleted and is put again is reported as
  stored, but cannot be read.
\<close>

lemma deleted_content_is_lost:
  "\<exists>ref s1 s2 result.
     ObjectPut id None NewObjectStore \<lparr>po_Bucket = ''artifacts'', po_Key = ''a'', po_ContentType = '''', po_Body = Some ''x''\<rparr> = (Inr result, s1)
   \<and> ref = pu_Ref result \<and> ObjectDelete None s1 ref = (None, s2)
   \<and> fst (ObjectPut id None s2 \<lparr>po_Bucket = ''artifacts'', po_Key = ''a'', po_ContentType = '''', po_Body = Some ''x''\<rparr>) = Inr result
   \<and> ObjectGet id None (snd (ObjectPut id None s2
        \<lparr>po_Bucket = ''artifacts'', po_Key = ''a'', po_ContentType = '''', po_Body = Some ''x''\<rparr>)) ref = Inl ErrObjectNotFound"
proof -
  let ?obj = "\<lparr>po_Bucket = ''artifacts'', po_Key = ''a'', po_ContentType = '''', po_Body = Some ''x''\<rparr>"
  let ?ref = "\<lparr>or_Bucket = ''artifacts'', or_Key = ''a''\<rparr>"
  let ?s1 = "snd (ObjectPut id None NewObjectStore ?obj)"
  let ?s2 = "snd (ObjectDelete None ?s1 ?ref)"
  let ?result = "\<lparr>pu_Ref = ?ref, pu_SHA256 = ''78'', pu_Size = 1\<rparr>"
  have 1: "fst (ObjectPut id None NewObjectStore ?obj) = Inr ?result" by code_simp
  have 2: "fst (ObjectPut id None ?s2 ?obj) = Inr ?result" by code_simp
  have 3: "ObjectGet id None (snd (ObjectPut id None ?s2 ?obj)) ?ref = Inl ErrObjectNotFound" by code_simp
  have 4: "ObjectDelete None ?s1 ?ref = (None, ?s2)" by (simp add: ObjectDelete_def)
  from 1 2 3 4 show ?thesis
    by (intro exI[of _ ?ref] exI[of _ ?s1] exI[of _ ?s2] exI[of _ ?result]) (simp add: prod_eq_iff)
qed

section \<open>The contract of a content store\<close>

text \<open>
  What the registry of artifacts uses of an object store: \<open>holds s ref h\<close> says that the object under
  \<open>ref\<close> is there and its content has the hash \<open>h\<close>. Objects are put under keys that end in their hash.
\<close>

definition content_key :: "(string \<Rightarrow> string) \<Rightarrow> PutObject \<Rightarrow> bool" where
  "content_key sha obj \<longleftrightarrow> po_Key obj \<noteq> ''''
     \<and> (\<exists>body dir. po_Body obj = Some body \<and> po_Bucket obj @ CHR ''/'' # po_Key obj = dir @ CHR ''/'' # hashBytes sha body)"

locale content_store =
  fixes sha :: "string \<Rightarrow> string"
    and putObject :: "goerr option \<Rightarrow> 's \<Rightarrow> PutObject \<Rightarrow> (goerr + PutResult) \<times> 's"
    and getObject :: "goerr option \<Rightarrow> 's \<Rightarrow> ObjectRef \<Rightarrow> goerr + GetResult"
    and store_ok :: "'s \<Rightarrow> bool"
    and holds :: "'s \<Rightarrow> ObjectRef \<Rightarrow> string \<Rightarrow> bool"
  assumes put_ok: "store_ok s \<Longrightarrow> content_key sha obj \<Longrightarrow> store_ok (snd (putObject ctx s obj))"
    and put_holds: "store_ok s \<Longrightarrow> content_key sha obj \<Longrightarrow> putObject ctx s obj = (Inr r, s') \<Longrightarrow>
        holds s' (pu_Ref r) (pu_SHA256 r) \<and> pu_SHA256 r = hashBytes sha (the (po_Body obj))
        \<and> or_Bucket (pu_Ref r) = po_Bucket obj \<and> or_Key (pu_Ref r) \<noteq> '''' \<and> CHR ''/'' \<notin> set (po_Bucket obj) \<and> po_Bucket obj \<noteq> ''''"
    and put_keeps: "store_ok s \<Longrightarrow> content_key sha obj \<Longrightarrow> holds s ref h \<Longrightarrow> holds (snd (putObject ctx s obj)) ref h"
    and get_held: "store_ok s \<Longrightarrow> holds s ref h \<Longrightarrow>
        \<exists>r. getObject None s ref = Inr r \<and> gt_SHA256 r = h \<and> hashBytes sha (gt_Body r) = h"

section \<open>The in-memory store keeps the contract\<close>

definition object_ok :: "(string \<Rightarrow> string) \<Rightarrow> string \<Rightarrow> memoryObject \<Rightarrow> bool" where
  "object_ok sha k obj \<longleftrightarrow> mo_sha256 obj = hashBytes sha (mo_body obj) \<and> (\<exists>dir. k = dir @ CHR ''/'' # mo_sha256 obj)"

definition memory_holds :: "ObjectMemoryStore \<Rightarrow> ObjectRef \<Rightarrow> string \<Rightarrow> bool" where
  "memory_holds s ref h \<longleftrightarrow> (\<exists>obj. mget (os_objects s) (objectKey ref) = Some obj \<and> mo_sha256 obj = h)"

definition objects_ok :: "(string \<Rightarrow> string) \<Rightarrow> ObjectMemoryStore \<Rightarrow> bool" where
  "objects_ok sha s \<longleftrightarrow> (\<forall>k obj. mget (os_objects s) k = Some obj \<longrightarrow> object_ok sha k obj)
     \<and> (\<forall>k ref. mget (os_byHash s) k = Some ref \<longrightarrow> or_Key ref \<noteq> ''''
          \<and> (\<exists>h. CHR ''/'' \<notin> set h \<and> k = or_Bucket ref @ CHR ''/'' # h \<and> memory_holds s ref h))"

lemma Contains_single: "Contains s [c] \<longleftrightarrow> c \<in> set s"
  by (induction s) (auto simp: HasPrefix_def)

lemma validateBucket_None: "validateBucket b = None \<Longrightarrow> b \<noteq> '''' \<and> CHR ''/'' \<notin> set b"
  by (simp add: validateBucket_def check_simps Contains_single)

lemma cleanKey_Inr: "cleanKey key = Inr k \<Longrightarrow> k = key \<and> key \<noteq> ''''"
  by (auto simp: cleanKey_def check_simps Let_def)

text \<open>The ways a put can end.\<close>

lemma ObjectPut_cases:
  assumes "ObjectPut sha ctx s obj = (r, s')"
  obtains (failed) e where "r = Inl e" "s' = s"
  | (found) body ref where "po_Body obj = Some body" "validateBucket (po_Bucket obj) = None"
      "mget (os_byHash s) (po_Bucket obj @ CHR ''/'' # hashBytes sha body) = Some ref" "s' = s"
      "r = Inr \<lparr>pu_Ref = ref, pu_SHA256 = hashBytes sha body, pu_Size = int (length body)\<rparr>"
  | (stored) body key ref where "po_Body obj = Some body" "validateBucket (po_Bucket obj) = None"
      "mget (os_byHash s) (po_Bucket obj @ CHR ''/'' # hashBytes sha body) = None"
      "key = (if po_Key obj = '''' then hashBytes sha body else po_Key obj)" "key \<noteq> ''''"
      "ref = \<lparr>or_Bucket = po_Bucket obj, or_Key = key\<rparr>"
      "s' = s\<lparr>os_objects := mput (objectKey ref)
          \<lparr>mo_ref = ref, mo_contentType = po_ContentType obj, mo_sha256 = hashBytes sha body, mo_body = body\<rparr> (os_objects s),
        os_byHash := mput (po_Bucket obj @ CHR ''/'' # hashBytes sha body) ref (os_byHash s)\<rparr>"
      "r = Inr \<lparr>pu_Ref = ref, pu_SHA256 = hashBytes sha body, pu_Size = int (length body)\<rparr>"
proof (cases "first_err [ctx, fail_if (po_Bucket obj = '''') (Plain ''bucket is required''), validateBucket (po_Bucket obj),
    fail_if (po_Body obj = None) (Plain ''body is required'')]")
  case (Some e)
  with assms show ?thesis by (intro failed[of e]) (auto simp: ObjectPut_def)
next
  case None
  then obtain body where body: "po_Body obj = Some body" and bucket: "validateBucket (po_Bucket obj) = None"
    by (auto simp: check_simps)
  show ?thesis
  proof (cases "mget (os_byHash s) (po_Bucket obj @ CHR ''/'' # hashBytes sha body)")
    case found': (Some ref)
    with assms None body bucket show ?thesis by (intro found[of body ref]) (auto simp: ObjectPut_def Let_def)
  next
    case new: None
    show ?thesis
    proof (cases "cleanKey (if po_Key obj = '''' then hashBytes sha body else po_Key obj)")
      case (Inl e)
      with assms None body new show ?thesis by (intro failed[of e]) (auto simp: ObjectPut_def Let_def)
    next
      case (Inr key)
      with cleanKey_Inr[OF Inr] assms None body new bucket show ?thesis
        by (intro stored[of body key "\<lparr>or_Bucket = po_Bucket obj, or_Key = key\<rparr>"]) (auto simp: ObjectPut_def Let_def)
    qed
  qed
qed

text \<open>An object that a content-addressed put overwrites has the same hash.\<close>

lemma overwritten_same_hash:
  assumes "objects_ok sha s" "mget (os_objects s) (dir @ CHR ''/'' # hashBytes sha body) = Some obj"
  shows "mo_sha256 obj = hashBytes sha body"
proof -
  have "object_ok sha (dir @ CHR ''/'' # hashBytes sha body) obj"
    using assms by (simp add: objects_ok_def)
  then obtain d where "dir @ CHR ''/'' # hashBytes sha body = d @ CHR ''/'' # mo_sha256 obj"
    and "mo_sha256 obj = hashBytes sha (mo_body obj)" unfolding object_ok_def by auto
  then show ?thesis using split_last_sep hash_no_slash by metis
qed

lemma stored_keeps:
  assumes "objects_ok sha s" "memory_holds s ref h" "mo_sha256 obj = hashBytes sha body"
  shows "memory_holds (s\<lparr>os_objects := mput (dir @ CHR ''/'' # hashBytes sha body) obj (os_objects s), os_byHash := x\<rparr>) ref h"
  using assms overwritten_same_hash[OF assms(1), of dir body] by (auto simp: memory_holds_def gomap_simps)

lemma objects_ok_put:
  assumes "objects_ok sha s" "content_key sha obj" "ObjectPut sha ctx s obj = (r, s')"
  shows "objects_ok sha s' \<and> (\<forall>ref h. memory_holds s ref h \<longrightarrow> memory_holds s' ref h)
    \<and> (\<forall>v. r = Inr v \<longrightarrow> memory_holds s' (pu_Ref v) (pu_SHA256 v) \<and> pu_SHA256 v = hashBytes sha (the (po_Body obj))
         \<and> or_Bucket (pu_Ref v) = po_Bucket obj \<and> or_Key (pu_Ref v) \<noteq> '''' \<and> CHR ''/'' \<notin> set (po_Bucket obj) \<and> po_Bucket obj \<noteq> '''')"
  using assms(3)
proof (cases rule: ObjectPut_cases)
  case (failed e) then show ?thesis using assms(1) by simp
next
  case (found body ref)
  then obtain h where h: "CHR ''/'' \<notin> set h" "po_Bucket obj @ CHR ''/'' # hashBytes sha body = or_Bucket ref @ CHR ''/'' # h"
    "memory_holds s ref h" "or_Key ref \<noteq> ''''" using assms(1) unfolding objects_ok_def by blast
  then have "h = hashBytes sha body \<and> or_Bucket ref = po_Bucket obj" using split_last_sep hash_no_slash by metis
  then show ?thesis
    unfolding found(4,5) using assms(1) h(3,4) validateBucket_None[OF found(2)] found(1) by simp
next
  case (stored body key ref)
  from assms(2) stored obtain dir where key: "objectKey ref = dir @ CHR ''/'' # hashBytes sha body"
    and ref: "ref = \<lparr>or_Bucket = po_Bucket obj, or_Key = po_Key obj\<rparr>" by (auto simp: content_key_def objectKey_def)
  have keep: "memory_holds s' q h" if "memory_holds s q h" for q h
    using stored_keeps[OF assms(1) that,
        of "\<lparr>mo_ref = ref, mo_contentType = po_ContentType obj, mo_sha256 = hashBytes sha body, mo_body = body\<rparr>"]
    unfolding stored(7) key by simp
  have new: "memory_holds s' ref (hashBytes sha body)" by (simp add: stored memory_holds_def gomap_simps)
  have "object_ok sha (objectKey ref) \<lparr>mo_ref = ref, mo_contentType = po_ContentType obj, mo_sha256 = hashBytes sha body, mo_body = body\<rparr>"
    by (auto simp: object_ok_def key)
  then have "\<forall>k o'. mget (os_objects s') k = Some o' \<longrightarrow> object_ok sha k o'"
    using assms(1) by (auto simp: stored objects_ok_def gomap_simps)
  moreover have "\<forall>k q. mget (os_byHash s') k = Some q \<longrightarrow> or_Key q \<noteq> ''''
      \<and> (\<exists>h. CHR ''/'' \<notin> set h \<and> k = or_Bucket q @ CHR ''/'' # h \<and> memory_holds s' q h)"
  proof (intro allI impI)
    fix k q assume q: "mget (os_byHash s') k = Some q"
    show "or_Key q \<noteq> '''' \<and> (\<exists>h. CHR ''/'' \<notin> set h \<and> k = or_Bucket q @ CHR ''/'' # h \<and> memory_holds s' q h)"
    proof (cases "k = po_Bucket obj @ CHR ''/'' # hashBytes sha body")
      case True
      with q have "q = ref" by (simp add: stored gomap_simps)
      with True new hash_no_slash assms(2) show ?thesis by (auto simp: ref content_key_def)
    next
      case False
      with q have "mget (os_byHash s) k = Some q" by (simp add: stored gomap_simps)
      with assms(1) keep show ?thesis unfolding objects_ok_def by blast
    qed
  qed
  ultimately have "objects_ok sha s'" by (simp add: objects_ok_def)
  with keep new stored(1,5,6,8) ref validateBucket_None[OF stored(2)] show ?thesis by simp
qed

interpretation memory_objects: content_store sha "ObjectPut sha" "ObjectGet sha" "objects_ok sha" memory_holds for sha
proof
  show "objects_ok sha s \<Longrightarrow> content_key sha obj \<Longrightarrow> objects_ok sha (snd (ObjectPut sha ctx s obj))" for s obj ctx
    using objects_ok_put[of sha s obj ctx] by (metis prod.collapse)
  show "objects_ok sha s \<Longrightarrow> content_key sha obj \<Longrightarrow> ObjectPut sha ctx s obj = (Inr r, s') \<Longrightarrow>
      memory_holds s' (pu_Ref r) (pu_SHA256 r) \<and> pu_SHA256 r = hashBytes sha (the (po_Body obj))
      \<and> or_Bucket (pu_Ref r) = po_Bucket obj \<and> or_Key (pu_Ref r) \<noteq> '''' \<and> CHR ''/'' \<notin> set (po_Bucket obj) \<and> po_Bucket obj \<noteq> ''''"
    for s obj ctx r s' using objects_ok_put[of sha s obj ctx "Inr r" s'] by blast
  show "objects_ok sha s \<Longrightarrow> content_key sha obj \<Longrightarrow> memory_holds s ref h \<Longrightarrow> memory_holds (snd (ObjectPut sha ctx s obj)) ref h"
    for s obj ref h ctx using objects_ok_put[of sha s obj ctx] by (metis prod.collapse)
  show "objects_ok sha s \<Longrightarrow> memory_holds s ref h \<Longrightarrow>
      \<exists>r. ObjectGet sha None s ref = Inr r \<and> gt_SHA256 r = h \<and> hashBytes sha (gt_Body r) = h" for s ref h
    by (auto simp: memory_holds_def objects_ok_def object_ok_def ObjectGet_def Let_def fail_if_def)
qed

lemma objects_ok_new: "objects_ok sha NewObjectStore"
  by (simp add: objects_ok_def NewObjectStore_def)

end
