(* ===== verification/Evidence.thy ===== *)
theory Evidence
  imports Object_Store
begin

text \<open>
  \<open>internal/evidence\<close>: the append-only event log of \<open>eventlog.go\<close> with its replay and the projection of
  a task, and the registry of artifacts of \<open>artifact.go\<close> with its grants. An event carries a stable key;
  appending the same request again returns the event that is there. Arguments stand for what is outside:
  \<open>marshal\<close> for \<open>json.Marshal\<close> of a payload, \<open>canonical\<close> for the JSON text of a request, \<open>sha\<close> for
  SHA-256, \<open>now\<close> for the clock, and the object store behind the registry.
\<close>

section \<open>The event log\<close>

type_synonym ArtifactID = string

record Event =
  ev_ID :: string
  ev_Sequence :: int
  ev_StableKey :: IdempotencyKey
  ev_Type :: string
  ev_ProjectID :: ProjectID
  ev_TaskID :: TaskID
  ev_WorkspaceRef :: BindingRef
  ev_PhaseEndpoint :: EndpointID
  ev_AgentInvocationID :: InvocationID
  ev_Payload :: "string option"
  ev_ArtifactRefs :: "ArtifactID list"
  ev_GraphRevision :: int
  ev_CreatedAt :: int

record 'p AppendEvent =
  ae_StableKey :: IdempotencyKey
  ae_Type :: string
  ae_ProjectID :: ProjectID
  ae_TaskID :: TaskID
  ae_WorkspaceRef :: BindingRef
  ae_PhaseEndpoint :: EndpointID
  ae_AgentInvocationID :: InvocationID
  ae_Payload :: "'p option"
  ae_ArtifactRefs :: "ArtifactID list"
  ae_GraphRevision :: int

record stableEventRecord =
  sr_event :: Event
  sr_requestHash :: string

record EventLog =
  el_maxPayloadBytes :: int
  el_events :: "Event list"
  el_byStableKey :: "(IdempotencyKey, stableEventRecord) gomap"

definition NewEventLog :: "int \<Rightarrow> EventLog" where
  "NewEventLog maxPayloadBytes =
     \<lparr>el_maxPayloadBytes = (if maxPayloadBytes \<le> 0 then 64 * 1024 else maxPayloadBytes), el_events = [], el_byStableKey = []\<rparr>"

definition encodePayload :: "('p \<Rightarrow> goerr + string) \<Rightarrow> 'p option \<Rightarrow> int \<Rightarrow> goerr + string option" where
  "encodePayload marshal payload maxBytes =
     (case payload of
        None \<Rightarrow> Inr None
      | Some p \<Rightarrow> (case marshal p of
           Inl e \<Rightarrow> Inl (wrapErr ''marshal event payload'' e)
         | Inr raw \<Rightarrow> checked (fail_if (int (length raw) > maxBytes)
             (InvalidArgument ''event payload exceeds limit; use ArtifactRef for large objects'')) (Inr (Some raw))))"

text \<open>The request that is hashed: everything of it but the stable key, with the encoded payload.\<close>

definition canonicalRequest :: "'p AppendEvent \<Rightarrow> string option \<Rightarrow> string AppendEvent" where
  "canonicalRequest appendEvent payload =
     \<lparr>ae_StableKey = '''', ae_Type = ae_Type appendEvent, ae_ProjectID = ae_ProjectID appendEvent,
      ae_TaskID = ae_TaskID appendEvent, ae_WorkspaceRef = ae_WorkspaceRef appendEvent,
      ae_PhaseEndpoint = ae_PhaseEndpoint appendEvent, ae_AgentInvocationID = ae_AgentInvocationID appendEvent,
      ae_Payload = payload, ae_ArtifactRefs = ae_ArtifactRefs appendEvent, ae_GraphRevision = ae_GraphRevision appendEvent\<rparr>"

definition canonicalEventRequestHash ::
  "(string \<Rightarrow> string) \<Rightarrow> (string AppendEvent \<Rightarrow> goerr + string) \<Rightarrow> 'p AppendEvent \<Rightarrow> string option \<Rightarrow> goerr + string" where
  "canonicalEventRequestHash sha canonical appendEvent payload =
     (case canonical (canonicalRequest appendEvent payload) of
        Inl e \<Rightarrow> Inl (wrapErr ''marshal canonical event request'' e)
      | Inr raw \<Rightarrow> Inr (hashBytes sha raw))"

text \<open>\<open>fmt.Sprintf("evt_%012d", n)\<close>\<close>

definition pad12 :: "int \<Rightarrow> string" where
  "pad12 n = replicate (12 - length (itoa n)) (CHR ''0'') @ itoa n"

definition newEvent :: "int \<Rightarrow> EventLog \<Rightarrow> 'p AppendEvent \<Rightarrow> string option \<Rightarrow> Event" where
  "newEvent now l appendEvent payload =
     (let n = int (length (el_events l)) + 1 in
      \<lparr>ev_ID = ''evt_'' @ pad12 n, ev_Sequence = n, ev_StableKey = ae_StableKey appendEvent, ev_Type = ae_Type appendEvent,
       ev_ProjectID = ae_ProjectID appendEvent, ev_TaskID = ae_TaskID appendEvent, ev_WorkspaceRef = ae_WorkspaceRef appendEvent,
       ev_PhaseEndpoint = ae_PhaseEndpoint appendEvent, ev_AgentInvocationID = ae_AgentInvocationID appendEvent,
       ev_Payload = payload, ev_ArtifactRefs = ae_ArtifactRefs appendEvent, ev_GraphRevision = ae_GraphRevision appendEvent,
       ev_CreatedAt = now\<rparr>)"

definition AppendTo ::
  "(string \<Rightarrow> string) \<Rightarrow> ('p \<Rightarrow> goerr + string) \<Rightarrow> (string AppendEvent \<Rightarrow> goerr + string) \<Rightarrow> goerr option \<Rightarrow> int \<Rightarrow>
   EventLog \<Rightarrow> 'p AppendEvent \<Rightarrow> (goerr + Event) \<times> EventLog" where
  "AppendTo sha marshal canonical ctx now l appendEvent =
     (case and_then (checked (first_err
            [ctx,
             fail_if (ae_Type appendEvent = '''') (InvalidArgument ''event type is required''),
             fail_if (ae_StableKey appendEvent = '''') (InvalidArgument ''stable event key is required'')])
          (encodePayload marshal (ae_Payload appendEvent) (el_maxPayloadBytes l)))
          (\<lambda>payload. and_then (canonicalEventRequestHash sha canonical appendEvent payload) (\<lambda>requestHash. Inr (payload, requestHash))) of
        Inl e \<Rightarrow> (Inl e, l)
      | Inr (payload, requestHash) \<Rightarrow>
          (case mget (el_byStableKey l) (ae_StableKey appendEvent) of
             Some existing \<Rightarrow>
               (if sr_requestHash existing \<noteq> requestHash then Inl IdempotencyConflict else Inr (sr_event existing), l)
           | None \<Rightarrow>
               let event = newEvent now l appendEvent payload in
               (Inr event, l\<lparr>el_events := el_events l @ [event],
                 el_byStableKey := mput (ae_StableKey appendEvent) \<lparr>sr_event = event, sr_requestHash = requestHash\<rparr> (el_byStableKey l)\<rparr>)))"

text \<open>The loops of \<open>Replay\<close> and \<open>ReplayTask\<close>: \<open>room\<close> is the limit less the events found.\<close>

fun replayLoop :: "(Event \<Rightarrow> bool) \<Rightarrow> int \<Rightarrow> nat \<Rightarrow> Event list \<Rightarrow> Event list" where
  "replayLoop wanted after room [] = []"
| "replayLoop wanted after room (event # events) =
     (if ev_Sequence event \<le> after \<or> \<not> wanted event then replayLoop wanted after room events
      else event # (if room = 1 then [] else replayLoop wanted after (room - 1) events))"

definition nextCursor :: "int \<Rightarrow> Event list \<Rightarrow> int" where
  "nextCursor after events = (if events = [] then after else ev_Sequence (last events))"

definition pageLimit :: "int \<Rightarrow> nat" where
  "pageLimit limit = (if limit \<le> 0 then 100 else nat limit)"

definition Replay :: "goerr option \<Rightarrow> EventLog \<Rightarrow> int \<Rightarrow> int \<Rightarrow> goerr + Event list \<times> int" where
  "Replay ctx l after limit =
     checked ctx (let events = replayLoop (\<lambda>_. True) after (pageLimit limit) (el_events l) in Inr (events, nextCursor after events))"

definition ReplayTask :: "goerr option \<Rightarrow> EventLog \<Rightarrow> ProjectID \<Rightarrow> TaskID \<Rightarrow> int \<Rightarrow> int \<Rightarrow> goerr + Event list \<times> int" where
  "ReplayTask ctx l projectID taskID after limit =
     checked (first_err [ctx,
        fail_if (projectID = '''') (InvalidArgument ''project_id is required''),
        fail_if (taskID = '''') (InvalidArgument ''task_id is required'')])
     (let events = replayLoop (\<lambda>e. ev_ProjectID e = projectID \<and> ev_TaskID e = taskID) after (pageLimit limit) (el_events l)
      in Inr (events, nextCursor after events))"

section \<open>The artifact registry\<close>

type_synonym ArtifactType = string
abbreviation ArtifactAgentTranscript :: ArtifactType where "ArtifactAgentTranscript \<equiv> ''agent_transcript''"
abbreviation ArtifactToolOutput :: ArtifactType where "ArtifactToolOutput \<equiv> ''tool_output''"
abbreviation ArtifactTestOutput :: ArtifactType where "ArtifactTestOutput \<equiv> ''test_output''"
abbreviation ArtifactDiffPatch :: ArtifactType where "ArtifactDiffPatch \<equiv> ''diff_patch''"
abbreviation ArtifactScreenshot :: ArtifactType where "ArtifactScreenshot \<equiv> ''screenshot''"
abbreviation ArtifactGeneratedReport :: ArtifactType where "ArtifactGeneratedReport \<equiv> ''generated_report''"

type_synonym PrincipalRole = string
abbreviation EvidenceTaskManager :: PrincipalRole where "EvidenceTaskManager \<equiv> ''task_manager''"
abbreviation EvidenceContextAgent :: PrincipalRole where "EvidenceContextAgent \<equiv> ''context_agent''"
abbreviation EvidencePhaseAgent :: PrincipalRole where "EvidencePhaseAgent \<equiv> ''phase_agent''"
abbreviation EvidenceAuditor :: PrincipalRole where "EvidenceAuditor \<equiv> ''auditor''"

record EvidencePrincipal =
  evp_Role :: PrincipalRole
  evp_ProjectID :: ProjectID
  evp_TaskID :: TaskID

record Artifact =
  art_ID :: ArtifactID
  art_Type :: ArtifactType
  art_PathOrBlobRef :: string
  art_ContentHash :: string
  art_Size :: int
  art_ProjectID :: ProjectID
  art_TaskID :: TaskID
  art_AgentInvocationID :: InvocationID
  art_CreatedAt :: int

record RegisterArtifact =
  ra_Type :: ArtifactType
  ra_ProjectID :: ProjectID
  ra_Path :: string
  ra_ContentType :: string
  ra_Body :: string
  ra_TaskID :: TaskID
  ra_AgentInvocationID :: InvocationID

datatype ArtifactGrant = Grant (grant_ProjectID: ProjectID) (grant_TaskID: TaskID)

datatype artifactContentKey = ContentKey (ck_typ: ArtifactType) (ck_hash: string)

record ArtifactRegistry =
  reg_bucket :: string
  reg_records :: "(ArtifactID, Artifact) gomap"
  reg_byKey :: "(artifactContentKey, ArtifactID) gomap"
  reg_grants :: "(ArtifactID, ArtifactGrant list) gomap"

definition NewArtifactRegistry :: "string \<Rightarrow> ArtifactRegistry" where
  "NewArtifactRegistry bucket = \<lparr>reg_bucket = (if bucket = '''' then ''artifacts'' else bucket), reg_records = [], reg_byKey = [], reg_grants = []\<rparr>"

definition requirePrincipal :: "EvidencePrincipal \<Rightarrow> goerr option" where
  "requirePrincipal p = first_err
     [fail_if (evp_Role p = '''') (Forbidden ''principal role is required''),
      fail_if (evp_ProjectID p = '''') (Forbidden ''principal project is required''),
      fail_if (evp_TaskID p = '''') (Forbidden ''principal task is required'')]"

definition artifactID :: "(string \<Rightarrow> string) \<Rightarrow> ArtifactType \<Rightarrow> string \<Rightarrow> ArtifactID" where
  "artifactID sha typ hash = ''art_'' @ take 20 (hexEncode (sha (typ @ CHR 0x00 # hash)))"

definition parseBlobRef :: "string \<Rightarrow> goerr + ObjectRef" where
  "parseBlobRef ref =
     (let bucket = takeWhile (\<lambda>c. c \<noteq> CHR ''/'') ref; key = drop (Suc (length bucket)) ref in
      checked (fail_if (CHR ''/'' \<notin> set ref \<or> bucket = '''' \<or> key = '''') (InvalidArgument ''invalid artifact blob ref''))
        (Inr \<lparr>or_Bucket = bucket, or_Key = key\<rparr>))"

definition sensitivePart :: "string \<Rightarrow> bool" where
  "sensitivePart part \<longleftrightarrow> part \<in> set [''sessions'', ''credentials'', ''secrets'', ''.ssh'', ''.aws'']
     \<or> HasSuffix part ''.pem'' \<or> HasSuffix part ''.key'' \<or> part = ''.env''"

definition rejectSensitivePath :: "string \<Rightarrow> goerr option" where
  "rejectSensitivePath p =
     (if p = '''' then None
      else fail_if (list_ex sensitivePart (Split (CHR ''/'') (ToLower (Clean (slashes p)))))
        (Forbidden ''sensitive artifact path is not allowed''))"

definition rejectSensitiveContent :: "string \<Rightarrow> goerr option" where
  "rejectSensitiveContent body =
     (let lower = ToLower body in
      fail_if (list_ex (Contains lower)
        [''-----begin private key-----'', ''aws_secret_access_key'', ''private_key='', ''password='', ''secret=''])
        (Forbidden ''sensitive artifact content is not allowed''))"

definition grantsOf :: "ArtifactRegistry \<Rightarrow> ArtifactID \<Rightarrow> ArtifactGrant list" where
  "grantsOf r i = (case mget (reg_grants r) i of None \<Rightarrow> [] | Some gs \<Rightarrow> gs)"

definition addGrantLocked :: "ArtifactRegistry \<Rightarrow> ArtifactID \<Rightarrow> ArtifactGrant \<Rightarrow> ArtifactRegistry" where
  "addGrantLocked r i grant = r\<lparr>reg_grants := mput i (List.insert grant (grantsOf r i)) (reg_grants r)\<rparr>"

definition newArtifact :: "(string \<Rightarrow> string) \<Rightarrow> int \<Rightarrow> RegisterArtifact \<Rightarrow> PutResult \<Rightarrow> string \<Rightarrow> Artifact" where
  "newArtifact sha now req put hash =
     \<lparr>art_ID = artifactID sha (ra_Type req) hash, art_Type = ra_Type req,
      art_PathOrBlobRef = or_Bucket (pu_Ref put) @ ''/'' @ or_Key (pu_Ref put), art_ContentHash = hash, art_Size = pu_Size put,
      art_ProjectID = ra_ProjectID req, art_TaskID = ra_TaskID req, art_AgentInvocationID = ra_AgentInvocationID req,
      art_CreatedAt = now\<rparr>"

definition registerPut :: "(string \<Rightarrow> string) \<Rightarrow> ArtifactRegistry \<Rightarrow> RegisterArtifact \<Rightarrow> PutObject" where
  "registerPut sha r req =
     \<lparr>po_Bucket = reg_bucket r, po_Key = pathJoin [ra_Type req, hashBytes sha (ra_Body req)], po_ContentType = ra_ContentType req,
      po_Body = Some (ra_Body req)\<rparr>"

text \<open>
  One call of \<open>Register\<close> on its own: the second look at \<open>byKey\<close> under the write lock, which only finds
  something when another call has registered the same content in between, is not modelled.
\<close>

definition Register ::
  "(string \<Rightarrow> string) \<Rightarrow> (goerr option \<Rightarrow> 's \<Rightarrow> PutObject \<Rightarrow> (goerr + PutResult) \<times> 's) \<Rightarrow> goerr option \<Rightarrow> int \<Rightarrow>
   ArtifactRegistry \<Rightarrow> 's \<Rightarrow> RegisterArtifact \<Rightarrow> (goerr + Artifact) \<times> ArtifactRegistry \<times> 's" where
  "Register sha putObject ctx now r s req =
     (case first_err
        [fail_if (ra_Type req = '''') (InvalidArgument ''artifact type is required''),
         fail_if (ra_ProjectID req = '''') (InvalidArgument ''project_id is required''),
         fail_if (ra_TaskID req = '''') (InvalidArgument ''task_id is required''),
         rejectSensitivePath (ra_Path req), rejectSensitiveContent (ra_Body req)] of
        Some e \<Rightarrow> (Inl e, r, s)
      | None \<Rightarrow>
          let hash = hashBytes sha (ra_Body req); key = ContentKey (ra_Type req) hash;
              grant = Grant (ra_ProjectID req) (ra_TaskID req) in
          (case mget (reg_byKey r) key of
             Some existingID \<Rightarrow> (Inr (the (mget (reg_records r) existingID)), addGrantLocked r existingID grant, s)
           | None \<Rightarrow>
               (case putObject ctx s (registerPut sha r req) of
                  (Inl e, s') \<Rightarrow> (Inl (wrapErr ''put artifact object'' e), r, s')
                | (Inr put, s') \<Rightarrow>
                    if pu_SHA256 put \<noteq> hash then (Inl (InvalidArgument ''artifact hash mismatch after write''), r, s')
                    else
                      let artifact = newArtifact sha now req put hash in
                      (Inr artifact,
                       addGrantLocked (r\<lparr>reg_records := mput (art_ID artifact) artifact (reg_records r),
                           reg_byKey := mput key (art_ID artifact) (reg_byKey r)\<rparr>) (art_ID artifact) grant, s'))))"

definition CanRead :: "ArtifactRegistry \<Rightarrow> EvidencePrincipal \<Rightarrow> ArtifactID \<Rightarrow> bool" where
  "CanRead r p i \<longleftrightarrow> requirePrincipal p = None
     \<and> (case mget (reg_records r) i of
          None \<Rightarrow> False
        | Some artifact \<Rightarrow> \<not> (art_Type artifact = ArtifactAgentTranscript \<and> evp_Role p = EvidenceTaskManager)
            \<and> list_ex (\<lambda>g. grant_ProjectID g = evp_ProjectID p \<and> grant_TaskID g = evp_TaskID p) (grantsOf r i))"

definition OpenArtifact ::
  "(string \<Rightarrow> string) \<Rightarrow> (goerr option \<Rightarrow> 's \<Rightarrow> ObjectRef \<Rightarrow> goerr + GetResult) \<Rightarrow> goerr option \<Rightarrow>
   ArtifactRegistry \<Rightarrow> 's \<Rightarrow> EvidencePrincipal \<Rightarrow> ArtifactID \<Rightarrow> goerr + Artifact \<times> string" where
  "OpenArtifact sha getObject ctx r s p i =
     checked (fail_if (\<not> CanRead r p i) (Forbidden ''artifact is not readable by principal''))
     (case mget (reg_records r) i of
        None \<Rightarrow> Inl (kerr CodeNotFound ''artifact not found'' False)
      | Some artifact \<Rightarrow>
          and_then (parseBlobRef (art_PathOrBlobRef artifact)) (\<lambda>ref.
            case getObject ctx s ref of
              Inl e \<Rightarrow> Inl (wrapErr ''get artifact object'' e)
            | Inr got \<Rightarrow>
                checked (fail_if (hashBytes sha (gt_Body got) \<noteq> art_ContentHash artifact \<or> gt_SHA256 got \<noteq> art_ContentHash artifact)
                  (kerr CodeInvalidRequest ''artifact hash verification failed'' False))
                (Inr (artifact, gt_Body got))))"

section \<open>The projection of a task\<close>

definition visibleArtifactRefs :: "ArtifactRegistry option \<Rightarrow> EvidencePrincipal \<Rightarrow> ArtifactID list \<Rightarrow> ArtifactID list" where
  "visibleArtifactRefs artifacts p refs = (case artifacts of None \<Rightarrow> refs | Some r \<Rightarrow> filter (CanRead r p) refs)"

definition ReadTask ::
  "goerr option \<Rightarrow> EventLog option \<Rightarrow> ArtifactRegistry option \<Rightarrow> EvidencePrincipal \<Rightarrow> TaskID \<Rightarrow> int \<Rightarrow> int \<Rightarrow> goerr + Event list \<times> int" where
  "ReadTask ctx events artifacts p taskID after limit =
     checked (first_err
       [fail_if (events = None) (InvalidArgument ''event log is required''), requirePrincipal p,
        fail_if (taskID = '''') (InvalidArgument ''task_id is required''),
        fail_if (evp_TaskID p \<noteq> taskID) (Forbidden ''principal cannot read task projection'')])
     (and_then (ReplayTask ctx (the events) (evp_ProjectID p) taskID after (if limit \<le> 0 then 100 else limit))
        (\<lambda>(found, cursor). Inr (map (\<lambda>e. e\<lparr>ev_ArtifactRefs := visibleArtifactRefs artifacts p (ev_ArtifactRefs e)\<rparr>) found, cursor)))"

end
