(* ===== verification/Evidence_Properties.thy ===== *)
theory Evidence_Properties
  imports Evidence "HOL-Library.Sublist"
begin

text \<open>
  What the evidence store promises: every accepted event is in the log exactly once, under a sequence
  number that is its position; replaying page by page reads the log without gaps and without
  repetitions; and an artifact that was registered is read back as it was, by those it was granted to.
\<close>

section \<open>The log\<close>

definition log_inv :: "EventLog \<Rightarrow> bool" where
  "log_inv l \<longleftrightarrow> (\<forall>i < length (el_events l). ev_Sequence (el_events l ! i) = int i + 1)
     \<and> (\<forall>k r. mget (el_byStableKey l) k = Some r \<longrightarrow> sr_event r \<in> set (el_events l) \<and> ev_StableKey (sr_event r) = k)
     \<and> (\<forall>e \<in> set (el_events l). \<exists>r. mget (el_byStableKey l) (ev_StableKey e) = Some r \<and> sr_event r = e)"

inductive log_step ::
  "(string \<Rightarrow> string) \<Rightarrow> ('p \<Rightarrow> goerr + string) \<Rightarrow> (string AppendEvent \<Rightarrow> goerr + string) \<Rightarrow> EventLog \<Rightarrow> EventLog \<Rightarrow> bool"
  for sha marshal canonical where
  append: "log_step sha marshal canonical l (snd (AppendTo sha marshal canonical ctx now l req))"

inductive log_reachable ::
  "(string \<Rightarrow> string) \<Rightarrow> ('p \<Rightarrow> goerr + string) \<Rightarrow> (string AppendEvent \<Rightarrow> goerr + string) \<Rightarrow> EventLog \<Rightarrow> bool"
  for sha marshal canonical where
  initial_log: "log_reachable sha marshal canonical (NewEventLog n)"
| later_log: "log_reachable sha marshal canonical l \<Longrightarrow> log_step sha marshal canonical l m \<Longrightarrow> log_reachable sha marshal canonical m"

text \<open>What a request is reduced to before the log is consulted.\<close>

definition request_of ::
  "(string \<Rightarrow> string) \<Rightarrow> ('p \<Rightarrow> goerr + string) \<Rightarrow> (string AppendEvent \<Rightarrow> goerr + string) \<Rightarrow> goerr option \<Rightarrow> int \<Rightarrow> 'p AppendEvent \<Rightarrow>
   goerr + string option \<times> string" where
  "request_of sha marshal canonical ctx maxBytes req =
     and_then (checked (first_err
            [ctx,
             fail_if (ae_Type req = '''') (InvalidArgument ''event type is required''),
             fail_if (ae_StableKey req = '''') (InvalidArgument ''stable event key is required'')])
          (encodePayload marshal (ae_Payload req) maxBytes))
          (\<lambda>payload. and_then (canonicalEventRequestHash sha canonical req payload) (\<lambda>requestHash. Inr (payload, requestHash)))"

lemma AppendTo_cases:
  assumes "AppendTo sha marshal canonical ctx now l req = (res, m)"
  obtains (refused) e where "res = Inl e" "m = l"
  | (known) payload h r where "request_of sha marshal canonical ctx (el_maxPayloadBytes l) req = Inr (payload, h)"
      "mget (el_byStableKey l) (ae_StableKey req) = Some r" "sr_requestHash r = h" "res = Inr (sr_event r)" "m = l"
  | (added) payload h e where "request_of sha marshal canonical ctx (el_maxPayloadBytes l) req = Inr (payload, h)"
      "mget (el_byStableKey l) (ae_StableKey req) = None" "e = newEvent now l req payload" "res = Inr e"
      "m = l\<lparr>el_events := el_events l @ [e],
             el_byStableKey := mput (ae_StableKey req) \<lparr>sr_event = e, sr_requestHash = h\<rparr> (el_byStableKey l)\<rparr>"
proof (cases "request_of sha marshal canonical ctx (el_maxPayloadBytes l) req")
  case (Inl e)
  with assms show ?thesis by (intro refused[of e]) (auto simp: AppendTo_def request_of_def)
next
  case (Inr ph)
  obtain payload h where ph: "ph = (payload, h)" by (cases ph)
  show ?thesis
  proof (cases "mget (el_byStableKey l) (ae_StableKey req)")
    case None
    with Inr ph assms show ?thesis
      by (intro added[of payload h "newEvent now l req payload"]) (auto simp: AppendTo_def request_of_def Let_def)
  next
    case (Some r)
    show ?thesis
    proof (cases "sr_requestHash r = h")
      case True
      with Some Inr ph assms show ?thesis by (intro known[of payload h r]) (auto simp: AppendTo_def request_of_def)
    next
      case False
      with Some Inr ph assms show ?thesis by (intro refused[of IdempotencyConflict]) (auto simp: AppendTo_def request_of_def)
    qed
  qed
qed

lemma newEvent_simps [simp]:
  "ev_Sequence (newEvent now l req payload) = int (length (el_events l)) + 1"
  "ev_StableKey (newEvent now l req payload) = ae_StableKey req"
  by (simp_all add: newEvent_def Let_def)

lemma log_inv_record: "log_inv l \<Longrightarrow> e \<in> set (el_events l) \<Longrightarrow> \<exists>r. mget (el_byStableKey l) (ev_StableKey e) = Some r \<and> sr_event r = e"
  unfolding log_inv_def by blast

lemma log_inv_append:
  assumes "log_inv l" "AppendTo sha marshal canonical ctx now l req = (res, m)"
  shows "log_inv m"
  using assms(2)
proof (cases rule: AppendTo_cases)
  case (added payload h e)
  have seq: "\<forall>i < length (el_events m). ev_Sequence (el_events m ! i) = int i + 1"
    using assms(1) by (auto simp: added log_inv_def nth_append less_Suc_eq)
  have fresh: "\<forall>x \<in> set (el_events l). ev_StableKey x \<noteq> ae_StableKey req"
    using log_inv_record[OF assms(1)] added(2) by fastforce
  have "\<forall>k r. mget (el_byStableKey m) k = Some r \<longrightarrow> sr_event r \<in> set (el_events m) \<and> ev_StableKey (sr_event r) = k"
    using assms(1) by (auto simp: added log_inv_def gomap_simps)
  moreover have "\<forall>x \<in> set (el_events m). \<exists>r. mget (el_byStableKey m) (ev_StableKey x) = Some r \<and> sr_event r = x"
    using assms(1) fresh by (auto simp: added log_inv_def gomap_simps)
  ultimately show ?thesis using seq by (simp add: log_inv_def)
qed (use assms(1) in simp_all)

lemma log_inv_new: "log_inv (NewEventLog n)"
  by (simp add: log_inv_def NewEventLog_def)

lemma log_step_inv: "log_step sha marshal canonical l m \<Longrightarrow> log_inv l \<Longrightarrow> log_inv m"
  by (induction rule: log_step.induct) (metis log_inv_append prod.collapse)

lemma log_reachable_inv: "log_reachable sha marshal canonical l \<Longrightarrow> log_inv l"
  by (induction rule: log_reachable.induct) (auto intro: log_inv_new log_step_inv)

text \<open>The log grows at its end, and what a stable key stands for stays.\<close>

definition log_grows :: "EventLog \<Rightarrow> EventLog \<Rightarrow> bool" where
  "log_grows l m \<longleftrightarrow> prefix (el_events l) (el_events m) \<and> el_maxPayloadBytes m = el_maxPayloadBytes l
     \<and> (\<forall>k r. mget (el_byStableKey l) k = Some r \<longrightarrow> mget (el_byStableKey m) k = Some r)"

lemma append_grows: "AppendTo sha marshal canonical ctx now l req = (res, m) \<Longrightarrow> log_grows l m"
  by (erule AppendTo_cases) (auto simp: log_grows_def gomap_simps)

lemma log_steps_grow: "(log_step sha marshal canonical)\<^sup>*\<^sup>* l m \<Longrightarrow> log_inv l \<Longrightarrow> log_inv m \<and> log_grows l m"
proof (induction rule: rtranclp_induct)
  case (step m n)
  from step.hyps(2) have "log_grows m n" by cases (metis append_grows prod.collapse)
  with step log_step_inv show ?case by (auto simp: log_grows_def)
qed (simp add: log_grows_def)

lemma log_inv_unique:
  assumes "log_inv l" "e \<in> set (el_events l)"
  shows "filter (\<lambda>x. ev_StableKey x = ev_StableKey e) (el_events l) = [e]"
proof -
  have same: "x = e" if "x \<in> set (el_events l)" "ev_StableKey x = ev_StableKey e" for x
    using log_inv_record[OF assms(1) that(1)] log_inv_record[OF assms] that(2) by (metis option.inject)
  have "distinct (el_events l)"
    using assms(1) unfolding log_inv_def distinct_conv_nth by (metis add_right_cancel of_nat_eq_iff)
  then have "distinct (filter (\<lambda>x. ev_StableKey x = ev_StableKey e) (el_events l))" by simp
  moreover have "set (filter (\<lambda>x. ev_StableKey x = ev_StableKey e) (el_events l)) = {e}" using assms(2) same by auto
  ultimately show ?thesis by (metis distinct_card card.insert card.empty empty_iff finite.emptyI length_0_conv length_Suc_conv
      list.set_intros(1) One_nat_def singletonD)
qed

text \<open>
  C33. Appending is exactly-once: after an accepted append, whatever is appended later, the log holds
  exactly one event under the stable key, the log before is a prefix of the log after, the same request
  again is answered with the same event, and no request under that key changes the log any more.
\<close>

theorem append_exactly_once:
  assumes "log_reachable sha marshal canonical l" "AppendTo sha marshal canonical None now l req = (Inr e, l1)"
    and "(log_step sha marshal canonical)\<^sup>*\<^sup>* l1 m"
  shows "filter (\<lambda>x. ev_StableKey x = ae_StableKey req) (el_events m) = [e] \<and> prefix (el_events l) (el_events m)
    \<and> AppendTo sha marshal canonical None now' m req = (Inr e, m)
    \<and> (ae_StableKey other = ae_StableKey req \<longrightarrow> snd (AppendTo sha marshal canonical ctx now' m other) = m)"
proof -
  have inv: "log_inv l" "log_inv l1" using log_reachable_inv[OF assms(1)] log_inv_append[OF _ assms(2)] by auto
  from log_steps_grow[OF assms(3) inv(2)] append_grows[OF assms(2)]
  have m: "log_inv m" "log_grows l1 m" "log_grows l m" by (auto simp: log_grows_def)
  obtain payload r where r: "request_of sha marshal canonical None (el_maxPayloadBytes l) req = Inr (payload, sr_requestHash r)"
    "mget (el_byStableKey l1) (ae_StableKey req) = Some r" "sr_event r = e"
    using assms(2)
  proof (cases rule: AppendTo_cases)
    case (known payload h r)
    then show ?thesis by (intro that[of payload r]) auto
  next
    case (added payload h e')
    then show ?thesis by (intro that[of payload "\<lparr>sr_event = e', sr_requestHash = h\<rparr>"]) (auto simp: gomap_simps)
  qed simp
  then have rm: "mget (el_byStableKey m) (ae_StableKey req) = Some r" using m(2) by (simp add: log_grows_def)
  with r(3) m(1) have "e \<in> set (el_events m)" "ev_StableKey e = ae_StableKey req" by (auto simp: log_inv_def)
  with log_inv_unique[OF m(1)] have "filter (\<lambda>x. ev_StableKey x = ae_StableKey req) (el_events m) = [e]" by metis
  moreover have "AppendTo sha marshal canonical None now' m req = (Inr e, m)"
    using r rm m(3) by (simp add: AppendTo_def request_of_def log_grows_def)
  moreover have "ae_StableKey other = ae_StableKey req \<Longrightarrow> snd (AppendTo sha marshal canonical ctx now' m other) = m"
    using rm by (auto simp: AppendTo_def split: sum.splits)
  ultimately show ?thesis using m(3) by (simp add: log_grows_def)
qed

definition example_event :: "string \<Rightarrow> string AppendEvent" where
  "example_event key = \<lparr>ae_StableKey = key, ae_Type = ''T'', ae_ProjectID = ''p'', ae_TaskID = ''build'', ae_WorkspaceRef = ''ws'',
     ae_PhaseEndpoint = '''', ae_AgentInvocationID = '''', ae_Payload = Some ''1'', ae_ArtifactRefs = [], ae_GraphRevision = 0\<rparr>"

definition example_canonical :: "string AppendEvent \<Rightarrow> goerr + string" where
  "example_canonical r = Inr (ae_Type r @ '':'' @ ae_TaskID r)"

definition example_events :: EventLog where
  "example_events = snd (AppendTo id Inr example_canonical None 5 (NewEventLog 0) (example_event ''k1''))"

theorem append_exactly_once_witness:
  "\<exists>e. AppendTo id Inr example_canonical None 5 (NewEventLog 0) (example_event ''k1'') = (Inr e, example_events)
     \<and> AppendTo id Inr example_canonical None 9 (snd (AppendTo id Inr example_canonical None 7 example_events (example_event ''k2''))) (example_event ''k1'')
       = (Inr e, snd (AppendTo id Inr example_canonical None 7 example_events (example_event ''k2'')))"
proof -
  have "\<not> isl (fst (AppendTo id Inr example_canonical None 5 (NewEventLog 0) (example_event ''k1'')))" by code_simp
  then obtain e where e: "AppendTo id Inr example_canonical None 5 (NewEventLog 0) (example_event ''k1'') = (Inr e, example_events)"
    unfolding example_events_def by (metis isl_def prod.collapse sumE)
  from append_exactly_once[OF initial_log e r_into_rtranclp[where r = "log_step id Inr example_canonical", OF append]] e
  show ?thesis by blast
qed

section \<open>Replay\<close>

text \<open>The loop is a filter with a limit.\<close>

lemma replayLoop_take:
  "0 < room \<Longrightarrow> replayLoop wanted after room es = take room (filter (\<lambda>e. after < ev_Sequence e \<and> wanted e) es)"
proof (induction es arbitrary: room)
  case (Cons e es)
  then show ?case by (cases "room = 1") (auto simp: take_Cons split: nat.split)
qed simp

lemma filter_sequence:
  "\<forall>i < length es. ev_Sequence (es ! i) = k + int i + 1 \<Longrightarrow> filter (\<lambda>e. a < ev_Sequence e) es = drop (nat (a - k)) es"
proof (induction es arbitrary: k)
  case (Cons e es)
  have e: "ev_Sequence e = k + 1" using Cons.prems[rule_format, of 0] by simp
  have "ev_Sequence (es ! i) = (k + 1) + int i + 1" if "i < length es" for i
    using Cons.prems[rule_format, of "Suc i"] that by simp
  then have "\<forall>i < length es. ev_Sequence (es ! i) = (k + 1) + int i + 1" by blast
  from Cons.IH[OF this] have IH: "filter (\<lambda>e. a < ev_Sequence e) es = drop (nat (a - (k + 1))) es" .
  show ?case
  proof (cases "a < k + 1")
    case True
    then show ?thesis using IH by (simp add: e)
  next
    case False
    then have "nat (a - k) = Suc (nat (a - (k + 1)))" by simp
    then show ?thesis using IH False by (simp add: e)
  qed
qed simp

lemma Replay_page:
  assumes "log_inv l" "0 \<le> a" "0 < n" "Replay None l a n = Inr (page, c)"
  shows "page = take (nat n) (drop (nat a) (el_events l))" "c = a + int (length page)" "c = nextCursor a page"
proof -
  have seq: "\<forall>i < length (el_events l). ev_Sequence (el_events l ! i) = int i + 1" using assms(1) unfolding log_inv_def by blast
  then have f: "filter (\<lambda>e. a < ev_Sequence e) (el_events l) = drop (nat a) (el_events l)"
    using filter_sequence[of "el_events l" 0 a] by simp
  show page: "page = take (nat n) (drop (nat a) (el_events l))" and c: "c = nextCursor a page"
    using assms(3,4) by (auto simp: Replay_def Let_def pageLimit_def replayLoop_take f)
  show "c = a + int (length page)"
  proof (cases "page = []")
    case False
    then have pos: "0 < length page" by simp
    have len: "nat a + length page \<le> length (el_events l)" using page False assms(2,3) by (auto simp: min_def)
    have "page ! i = el_events l ! (nat a + i)" if "i < length page" for i
      using that unfolding page by (cases "nat a \<le> length (el_events l)") auto
    from this[of "length page - 1"] have "last page = el_events l ! (nat a + (length page - 1))"
      using pos unfolding last_conv_nth[OF False] by (metis diff_less zero_less_one)
    moreover have "nat a + (length page - 1) < length (el_events l)" using len pos by linarith
    ultimately have "ev_Sequence (last page) = int (nat a + (length page - 1)) + 1" using seq by simp
    then show ?thesis using c False pos assms(2) by (simp add: nextCursor_def)
  qed (simp add: c nextCursor_def)
qed

text \<open>
  Replaying in pages reads the log without a gap and without a repetition: a page is the next
  stretch of the log after the cursor, and the page read at the returned cursor continues it, so that
  both together are what one larger page would have been.
\<close>

theorem replay_pages:
  assumes "log_reachable sha marshal canonical l" "0 \<le> a" "0 < m" "0 < n"
    and "Replay None l a m = Inr (page1, c)" "Replay None l c n = Inr (page2, d)"
  shows "page1 = take (nat m) (drop (nat a) (el_events l)) \<and> Replay None l a (m + n) = Inr (page1 @ page2, d)"
proof -
  have inv: "log_inv l" by (rule log_reachable_inv[OF assms(1)])
  note p1 = Replay_page[OF inv assms(2,3,5)]
  have c0: "0 \<le> c" using p1(2) assms(2) by simp
  note p2 = Replay_page[OF inv c0 assms(4,6)]
  obtain page3 e where p3: "Replay None l a (m + n) = Inr (page3, e)" by (auto simp: Replay_def Let_def)
  have mn: "0 < m + n" using assms(3,4) by simp
  note p3' = Replay_page[OF inv assms(2) mn p3]
  let ?es = "drop (nat a) (el_events l)"
  have "nat c = nat a + length page1" using p1(2) assms(2) by simp
  then have "page2 = take (nat n) (drop (length page1) ?es)" using p2(1) by (simp add: add.commute)
  then have "page3 = page1 @ page2"
    using p3'(1) p1(1) assms(3,4) by (cases "nat m \<le> length ?es") (auto simp: nat_add_distrib take_add min_def)
  moreover have "nextCursor a (page1 @ page2) = d" using p1(3) p2(3) by (auto simp: nextCursor_def)
  ultimately show ?thesis using p1(1) p3 p3'(3) by simp
qed

theorem replay_pages_witness:
  "\<exists>page1 c page2 d. Replay None example_events 0 1 = Inr (page1, c) \<and> Replay None example_events c 1 = Inr (page2, d)
     \<and> Replay None example_events 0 2 = Inr (page1 @ page2, d) \<and> length page1 = 1"
proof -
  have r: "log_reachable id Inr example_canonical example_events"
    unfolding example_events_def by (rule later_log[OF initial_log append])
  obtain page1 c where p1: "Replay None example_events 0 1 = Inr (page1, c)" by (auto simp: Replay_def Let_def)
  obtain page2 d where p2: "Replay None example_events c 1 = Inr (page2, d)" by (auto simp: Replay_def Let_def)
  have "length (el_events example_events) = 1" by code_simp
  with replay_pages[OF r _ _ _ p1 p2] p1 p2 show ?thesis by auto
qed

section \<open>Artifacts\<close>

lemma cleanSegments_snoc:
  "plain_segment h \<Longrightarrow> cleanSegments rooted stack (segs @ [h]) = cleanSegments rooted stack segs @ [h]"
  by (induction rooted stack segs rule: cleanSegments.induct) (auto simp: plain_segment_def split: list.splits)

lemma Split_snoc: "sep \<notin> set h \<Longrightarrow> Split sep (s @ sep # h) = Split sep s @ [h]"
proof (induction s)
  case (Cons c s)
  then show ?case by (cases "Split sep s") auto
qed (simp add: Split_plain)

lemma joinWith_snoc: "joinWith sep (segs @ [h]) = (if segs = [] then h else joinWith sep segs @ sep # h)"
  by (induction sep segs rule: joinWith.induct) auto

lemma pathJoin_hash:
  assumes "t \<noteq> ''''" "plain_segment h"
  shows "\<exists>dir. CHR ''/'' # pathJoin [t, h] = dir @ CHR ''/'' # h" "pathJoin [t, h] \<noteq> ''''"
proof -
  have h: "h \<noteq> ''''" "CHR ''/'' \<notin> set h" using assms(2) by (auto simp: plain_segment_def)
  obtain segs where "cleanSegments (IsAbs (t @ ''/'' @ h)) [] (Split (CHR ''/'') (t @ ''/'' @ h)) = segs @ [h]"
    using h by (simp add: Split_snoc cleanSegments_snoc assms(2))
  then have j: "pathJoin [t, h] = (if IsAbs (t @ ''/'' @ h) then ''/'' else '''') @ (if segs = [] then h else joinWith (CHR ''/'') segs @ CHR ''/'' # h)"
    using assms h by (cases "IsAbs (t @ ''/'' @ h)") (simp_all add: pathJoin_def Clean_def Let_def joinWith_snoc)
  show "pathJoin [t, h] \<noteq> ''''" using j h by simp
  show "\<exists>dir. CHR ''/'' # pathJoin [t, h] = dir @ CHR ''/'' # h"
    using j by (intro exI[of _ "if segs = [] then (if IsAbs (t @ ''/'' @ h) then ''/'' else '''')
        else CHR ''/'' # (if IsAbs (t @ ''/'' @ h) then ''/'' else '''') @ joinWith (CHR ''/'') segs"]) auto
qed

lemma plain_hash: "sha body \<noteq> '''' \<Longrightarrow> plain_segment (hashBytes sha body)"
proof -
  assume "sha body \<noteq> ''''"
  then obtain c cs where "sha body = c # cs" by (cases "sha body") auto
  then have hd: "hd (hashBytes sha body) = hexDigit (of_char c div 16)" "hashBytes sha body \<noteq> ''''"
    by (auto simp: hashBytes_def hexEncode_def)
  moreover have "hexDigit (of_char c div 16) \<noteq> CHR ''.''" using hexDigit_plain[OF of_char_div_16] by blast
  ultimately show ?thesis unfolding plain_segment_def by (auto simp: hash_no_slash)
qed

lemma registerPut_content:
  assumes "ra_Type req \<noteq> ''''" "sha (ra_Body req) \<noteq> ''''"
  shows "content_key sha (registerPut sha r req)"
proof -
  obtain dir where "CHR ''/'' # pathJoin [ra_Type req, hashBytes sha (ra_Body req)] = dir @ CHR ''/'' # hashBytes sha (ra_Body req)"
    using pathJoin_hash(1)[OF assms(1) plain_hash[of sha]] assms(2) by blast
  then have "reg_bucket r @ CHR ''/'' # pathJoin [ra_Type req, hashBytes sha (ra_Body req)]
      = (reg_bucket r @ dir) @ CHR ''/'' # hashBytes sha (ra_Body req)" by simp
  then show ?thesis
    using pathJoin_hash(2)[OF assms(1) plain_hash[of sha]] assms(2) unfolding content_key_def registerPut_def by auto
qed

lemma parseBlobRef_blob:
  assumes "CHR ''/'' \<notin> set b" "b \<noteq> ''''" "k \<noteq> ''''"
  shows "parseBlobRef (b @ CHR ''/'' # k) = Inr \<lparr>or_Bucket = b, or_Key = k\<rparr>"
proof -
  have "takeWhile (\<lambda>c. c \<noteq> CHR ''/'') (b @ CHR ''/'' # k) = b"
    by (subst takeWhile_append2) (use assms(1) in auto)
  then show ?thesis using assms by (simp add: parseBlobRef_def fail_if_def Let_def)
qed

text \<open>
  The steps of a registry over an object store. An identifier is a truncated hash, and a registration
  whose identifier collides with an artifact of other content or type would replace it; the steps are
  those without a collision.
\<close>

definition no_collision :: "(string \<Rightarrow> string) \<Rightarrow> ArtifactRegistry \<Rightarrow> RegisterArtifact \<Rightarrow> bool" where
  "no_collision sha r req \<longleftrightarrow> (case mget (reg_records r) (artifactID sha (ra_Type req) (hashBytes sha (ra_Body req))) of
     None \<Rightarrow> True | Some a \<Rightarrow> art_Type a = ra_Type req \<and> art_ContentHash a = hashBytes sha (ra_Body req))"

inductive registry_step ::
  "(string \<Rightarrow> string) \<Rightarrow> (goerr option \<Rightarrow> 's \<Rightarrow> PutObject \<Rightarrow> (goerr + PutResult) \<times> 's) \<Rightarrow>
   ArtifactRegistry \<times> 's \<Rightarrow> ArtifactRegistry \<times> 's \<Rightarrow> bool" for sha putObject where
  "no_collision sha r req \<Longrightarrow> registry_step sha putObject (r, s) (snd (Register sha putObject ctx now r s req))"

lemma Register_cases:
  assumes "Register sha putObject ctx now r s req = (res, r', s')"
  obtains (refused) e where "res = Inl e" "r' = r" "s' = s"
  | (known) i where "ra_Type req \<noteq> ''''" "mget (reg_byKey r) (ContentKey (ra_Type req) (hashBytes sha (ra_Body req))) = Some i"
      "res = Inr (the (mget (reg_records r) i))" "r' = addGrantLocked r i (Grant (ra_ProjectID req) (ra_TaskID req))" "s' = s"
  | (not_put) e where "ra_Type req \<noteq> ''''" "res = Inl e" "r' = r" "s' = snd (putObject ctx s (registerPut sha r req))"
  | (added) put a where "ra_Type req \<noteq> ''''" "putObject ctx s (registerPut sha r req) = (Inr put, s')"
      "pu_SHA256 put = hashBytes sha (ra_Body req)"
      "a = newArtifact sha now req put (hashBytes sha (ra_Body req))" "res = Inr a"
      "r' = addGrantLocked (r\<lparr>reg_records := mput (art_ID a) a (reg_records r),
         reg_byKey := mput (ContentKey (ra_Type req) (hashBytes sha (ra_Body req))) (art_ID a) (reg_byKey r)\<rparr>)
         (art_ID a) (Grant (ra_ProjectID req) (ra_TaskID req))"
proof (cases "first_err
        [fail_if (ra_Type req = '''') (InvalidArgument ''artifact type is required''),
         fail_if (ra_ProjectID req = '''') (InvalidArgument ''project_id is required''),
         fail_if (ra_TaskID req = '''') (InvalidArgument ''task_id is required''),
         rejectSensitivePath (ra_Path req), rejectSensitiveContent (ra_Body req)]")
  case (Some e)
  with assms show ?thesis by (intro refused[of e]) (auto simp: Register_def)
next
  case None
  then have t: "ra_Type req \<noteq> ''''" by (simp add: check_simps)
  show ?thesis
  proof (cases "mget (reg_byKey r) (ContentKey (ra_Type req) (hashBytes sha (ra_Body req)))")
    case (Some i)
    with None t assms show ?thesis by (intro known[of i]) (auto simp: Register_def Let_def)
  next
    case new: None
    obtain pr s1 where p: "putObject ctx s (registerPut sha r req) = (pr, s1)" by fastforce
    show ?thesis
    proof (cases pr)
      case (Inl e)
      with None new p t assms show ?thesis by (intro not_put[of "wrapErr ''put artifact object'' e"]) (auto simp: Register_def Let_def)
    next
      case (Inr put)
      show ?thesis
      proof (cases "pu_SHA256 put = hashBytes sha (ra_Body req)")
        case True
        with Inr None new p t assms show ?thesis
          by (intro added[of put "newArtifact sha now req put (hashBytes sha (ra_Body req))"]) (auto simp: Register_def Let_def)
      next
        case False
        with Inr None new p t assms show ?thesis
          by (intro not_put[of "InvalidArgument ''artifact hash mismatch after write''"]) (auto simp: Register_def Let_def)
      qed
    qed
  qed
qed

context content_store
begin

definition blob_held :: "'s \<Rightarrow> Artifact \<Rightarrow> bool" where
  "blob_held s a \<longleftrightarrow> (\<exists>b k. art_PathOrBlobRef a = b @ CHR ''/'' # k \<and> CHR ''/'' \<notin> set b \<and> b \<noteq> '''' \<and> k \<noteq> ''''
     \<and> holds s \<lparr>or_Bucket = b, or_Key = k\<rparr> (art_ContentHash a))"

definition registry_inv :: "ArtifactRegistry \<Rightarrow> 's \<Rightarrow> bool" where
  "registry_inv r s \<longleftrightarrow> store_ok s \<and> (\<forall>i a. mget (reg_records r) i = Some a \<longrightarrow> art_ID a = i \<and> blob_held s a)
     \<and> (\<forall>key i. mget (reg_byKey r) key = Some i \<longrightarrow>
          (\<exists>a. mget (reg_records r) i = Some a \<and> art_Type a = ck_typ key \<and> art_ContentHash a = ck_hash key))"

text \<open>What a registry keeps: the type and content of every artifact, and every grant.\<close>

definition registry_extends :: "ArtifactRegistry \<Rightarrow> ArtifactRegistry \<Rightarrow> bool" where
  "registry_extends r r' \<longleftrightarrow> (\<forall>i a. mget (reg_records r) i = Some a \<longrightarrow>
       (\<exists>a'. mget (reg_records r') i = Some a' \<and> art_Type a' = art_Type a \<and> art_ContentHash a' = art_ContentHash a))
     \<and> (\<forall>i. set (grantsOf r i) \<subseteq> set (grantsOf r' i))"

lemma registry_extends_refl [simp]: "registry_extends r r"
  by (simp add: registry_extends_def)

lemma registry_extends_trans: "registry_extends r r' \<Longrightarrow> registry_extends r' r'' \<Longrightarrow> registry_extends r r''"
  unfolding registry_extends_def by (metis subset_trans)

lemma grantsOf_add: "grantsOf (addGrantLocked r i g) j = (if j = i then List.insert g (grantsOf r i) else grantsOf r j)"
  by (auto simp: grantsOf_def addGrantLocked_def gomap_simps)

lemma grantsOf_records [simp]: "grantsOf (r\<lparr>reg_records := x, reg_byKey := y\<rparr>) i = grantsOf r i"
  by (simp add: grantsOf_def)

lemma addGrant_records [simp]:
  "reg_records (addGrantLocked r i g) = reg_records r" "reg_byKey (addGrantLocked r i g) = reg_byKey r"
  by (simp_all add: addGrantLocked_def)

lemma blob_held_put: "store_ok s \<Longrightarrow> content_key sha obj \<Longrightarrow> blob_held s a \<Longrightarrow> blob_held (snd (putObject ctx s obj)) a"
  unfolding blob_held_def using put_keeps by metis

lemma registry_inv_put:
  assumes "registry_inv r s" "content_key sha obj"
  shows "registry_inv r (snd (putObject ctx s obj))"
  using assms(1) put_ok[OF _ assms(2)] blob_held_put[OF _ assms(2)] unfolding registry_inv_def by blast

text \<open>A registration keeps the invariant, and a successful one leaves the artifact readable for its task.\<close>

lemma register_ok:
  assumes "registry_inv r s" "\<And>b. sha b \<noteq> ''''" "no_collision sha r req"
    and "Register sha putObject ctx now r s req = (res, r', s')"
  shows "registry_inv r' s' \<and> registry_extends r r'
    \<and> (\<forall>a. res = Inr a \<longrightarrow> (\<exists>a'. mget (reg_records r') (art_ID a) = Some a' \<and> art_Type a' = ra_Type req
          \<and> art_ContentHash a' = hashBytes sha (ra_Body req))
        \<and> Grant (ra_ProjectID req) (ra_TaskID req) \<in> set (grantsOf r' (art_ID a)))"
  using assms(4)
proof (cases rule: Register_cases)
  case (refused e) then show ?thesis using assms(1) by simp
next
  case (known i)
  then obtain a where a: "mget (reg_records r) i = Some a" "art_Type a = ra_Type req" "art_ContentHash a = hashBytes sha (ra_Body req)"
    using assms(1) unfolding registry_inv_def by (metis artifactContentKey.sel)
  then have "art_ID a = i" using assms(1) unfolding registry_inv_def by blast
  then show ?thesis using known a assms(1)
    by (auto simp: registry_inv_def registry_extends_def grantsOf_add)
next
  case (not_put e)
  then show ?thesis
    using registry_inv_put[OF assms(1) registerPut_content[OF not_put(1) assms(2)], of ctx] by simp
next
  case (added put a)
  let ?h = "hashBytes sha (ra_Body req)" and ?obj = "registerPut sha r req"
  have ck: "content_key sha ?obj" by (rule registerPut_content[OF added(1) assms(2)])
  have s': "s' = snd (putObject ctx s ?obj)" by (simp add: added(2))
  have inv: "registry_inv r s'" unfolding s' by (rule registry_inv_put[OF assms(1) ck])
  have ok: "store_ok s" using assms(1) by (simp add: registry_inv_def)
  have held: "blob_held s' a"
  proof (cases "pu_Ref put")
    case (fields b k)
    with put_holds[OF ok ck added(2)] added(3)
    have "art_PathOrBlobRef a = b @ CHR ''/'' # k \<and> CHR ''/'' \<notin> set b \<and> b \<noteq> '''' \<and> k \<noteq> ''''
        \<and> holds s' \<lparr>or_Bucket = b, or_Key = k\<rparr> (art_ContentHash a)" by (auto simp: added(4) newArtifact_def registerPut_def)
    then show ?thesis unfolding blob_held_def by blast
  qed
  have a: "art_Type a = ra_Type req" "art_ContentHash a = ?h" "art_ID a = artifactID sha (ra_Type req) ?h"
    by (simp_all add: added newArtifact_def)
  have same: "art_Type b = ra_Type req \<and> art_ContentHash b = ?h" if "mget (reg_records r) (art_ID a) = Some b" for b
    using assms(3) that by (simp add: no_collision_def a)
  have "registry_inv r' s'"
  proof -
    have "\<forall>i b. mget (reg_records r') i = Some b \<longrightarrow> art_ID b = i \<and> blob_held s' b"
      using inv held by (auto simp: added(6) registry_inv_def gomap_simps)
    moreover have "\<forall>key i. mget (reg_byKey r') key = Some i \<longrightarrow>
        (\<exists>b. mget (reg_records r') i = Some b \<and> art_Type b = ck_typ key \<and> art_ContentHash b = ck_hash key)"
    proof (intro allI impI)
      fix key i assume k: "mget (reg_byKey r') key = Some i"
      show "\<exists>b. mget (reg_records r') i = Some b \<and> art_Type b = ck_typ key \<and> art_ContentHash b = ck_hash key"
      proof (cases "key = ContentKey (ra_Type req) ?h")
        case True
        with k have "i = art_ID a" by (simp add: added(6) gomap_simps)
        with True a show ?thesis by (simp add: added(6) gomap_simps)
      next
        case False
        with k have "mget (reg_byKey r) key = Some i" by (simp add: added(6) gomap_simps)
        then obtain b where b: "mget (reg_records r) i = Some b" "art_Type b = ck_typ key" "art_ContentHash b = ck_hash key"
          using inv unfolding registry_inv_def by blast
        then show ?thesis using same a(1,2) by (cases "i = art_ID a") (auto simp: added(6) gomap_simps)
      qed
    qed
    ultimately show ?thesis using inv unfolding registry_inv_def by blast
  qed
  moreover have "registry_extends r r'"
    using a same by (auto simp: added(6) registry_extends_def gomap_simps grantsOf_add)
  ultimately show ?thesis using a by (auto simp: added(5,6) gomap_simps grantsOf_add)
qed

lemma registry_step_ok:
  assumes "registry_step sha putObject x y" "registry_inv (fst x) (snd x)" "\<And>b. sha b \<noteq> ''''"
  shows "registry_inv (fst y) (snd y) \<and> registry_extends (fst x) (fst y)"
  using assms(1)
proof cases
  case (1 r req s ctx now)
  obtain res r' s' where reg: "Register sha putObject ctx now r s req = (res, r', s')" by (metis prod_cases3)
  from assms(2) 1(1) have "registry_inv r s" by simp
  from register_ok[OF this assms(3) 1(3) reg] show ?thesis using reg 1(1,2) by simp
qed

lemma registry_steps_ok:
  assumes "(registry_step sha putObject)\<^sup>*\<^sup>* x y" "registry_inv (fst x) (snd x)" "\<And>b. sha b \<noteq> ''''"
  shows "registry_inv (fst y) (snd y) \<and> registry_extends (fst x) (fst y)"
  using assms(1,2)
proof (induction rule: rtranclp_induct)
  case (step y z)
  with registry_step_ok[OF step.hyps(2) _ assms(3)] registry_extends_trans show ?case by blast
qed simp

text \<open>An artifact of the registry is read by those who may, with content of the recorded hash.\<close>

lemma open_readable:
  assumes "registry_inv r s" "mget (reg_records r) i = Some a" "CanRead r p i"
  shows "\<exists>body. OpenArtifact sha getObject None r s p i = Inr (a, body) \<and> hashBytes sha body = art_ContentHash a"
proof -
  obtain b k where bk: "art_PathOrBlobRef a = b @ CHR ''/'' # k" "CHR ''/'' \<notin> set b" "b \<noteq> ''''" "k \<noteq> ''''"
    "holds s \<lparr>or_Bucket = b, or_Key = k\<rparr> (art_ContentHash a)"
    using assms(1,2) unfolding registry_inv_def blob_held_def by blast
  have "store_ok s" using assms(1) by (simp add: registry_inv_def)
  from get_held[OF this bk(5)] obtain got where
    "getObject None s \<lparr>or_Bucket = b, or_Key = k\<rparr> = Inr got" "gt_SHA256 got = art_ContentHash a" "hashBytes sha (gt_Body got) = art_ContentHash a"
    by blast
  then show ?thesis
    using assms(2,3) by (simp add: OpenArtifact_def bk(1) parseBlobRef_blob[OF bk(2-4)] fail_if_def)
qed

end

text \<open>
  C34. A registered artifact can be read back: over an object store that keeps its contract, the
  in-memory store among them, the principals of the project and task that registered it (the Task
  Manager's for everything but transcripts) open it later with the type and the content hash it was
  registered with, whatever else has been registered since, as long as no identifier collides.
\<close>

theorem artifact_round_trip:
  assumes "(registry_step sha (ObjectPut sha))\<^sup>*\<^sup>* (NewArtifactRegistry bucket, NewObjectStore) (r, s)"
    and "\<forall>b. sha b \<noteq> ''''" "no_collision sha r req"
    and "Register sha (ObjectPut sha) ctx now r s req = (Inr a, r1, s1)"
    and "(registry_step sha (ObjectPut sha))\<^sup>*\<^sup>* (r1, s1) (r2, s2)"
    and "evp_ProjectID p = ra_ProjectID req" "evp_TaskID p = ra_TaskID req" "evp_Role p \<noteq> ''''"
    and "ra_Type req \<noteq> ArtifactAgentTranscript \<or> evp_Role p \<noteq> EvidenceTaskManager"
  shows "\<exists>a' body. OpenArtifact sha (ObjectGet sha) None r2 s2 p (art_ID a) = Inr (a', body)
    \<and> art_Type a' = ra_Type req \<and> hashBytes sha body = hashBytes sha (ra_Body req)"
proof -
  have sha: "sha b \<noteq> ''''" for b using assms(2) by blast
  have "memory_objects.registry_inv sha (NewArtifactRegistry bucket) NewObjectStore"
    by (simp add: memory_objects.registry_inv_def objects_ok_new NewArtifactRegistry_def)
  then have r: "memory_objects.registry_inv sha r s" using memory_objects.registry_steps_ok[OF assms(1) _ sha] by simp
  note ok = memory_objects.register_ok[OF r sha assms(3,4)]
  then have r1: "memory_objects.registry_inv sha r1 s1" by blast
  have ids: "ra_ProjectID req \<noteq> ''''" "ra_TaskID req \<noteq> ''''"
    using assms(4) by (auto simp: Register_def check_simps split: option.splits)
  have steps: "memory_objects.registry_inv sha r2 s2" "memory_objects.registry_extends r1 r2"
    using memory_objects.registry_steps_ok[OF assms(5) _ sha] r1 by auto
  obtain a1 where "mget (reg_records r1) (art_ID a) = Some a1" "art_Type a1 = ra_Type req"
    "art_ContentHash a1 = hashBytes sha (ra_Body req)" "Grant (ra_ProjectID req) (ra_TaskID req) \<in> set (grantsOf r1 (art_ID a))"
    using ok by blast
  with steps(2) obtain a' where a': "mget (reg_records r2) (art_ID a) = Some a'" "art_Type a' = ra_Type req"
    "art_ContentHash a' = hashBytes sha (ra_Body req)" "Grant (ra_ProjectID req) (ra_TaskID req) \<in> set (grantsOf r2 (art_ID a))"
    unfolding memory_objects.registry_extends_def by (metis subsetD)
  have "CanRead r2 p (art_ID a)"
    using a' assms(6-9) ids by (auto simp: CanRead_def requirePrincipal_def check_simps list_ex_iff intro!: bexI[of _ "Grant (ra_ProjectID req) (ra_TaskID req)"])
  from memory_objects.open_readable[OF steps(1) a'(1) this] a' show ?thesis by auto
qed

definition example_sha :: "string \<Rightarrow> string" where
  "example_sha body = take 1 body @ ''h''"

definition example_report :: RegisterArtifact where
  "example_report = \<lparr>ra_Type = ArtifactGeneratedReport, ra_ProjectID = ''p'', ra_Path = '''', ra_ContentType = '''',
     ra_Body = ''x'', ra_TaskID = ''build'', ra_AgentInvocationID = ''''\<rparr>"

theorem artifact_round_trip_witness:
  "\<exists>a r1 s1 a' body. Register example_sha (ObjectPut example_sha) None 3 (NewArtifactRegistry '''') NewObjectStore example_report = (Inr a, r1, s1)
     \<and> OpenArtifact example_sha (ObjectGet example_sha) None r1 s1
         \<lparr>evp_Role = EvidenceTaskManager, evp_ProjectID = ''p'', evp_TaskID = ''build''\<rparr> (art_ID a) = Inr (a', body)
     \<and> art_Type a' = ArtifactGeneratedReport"
proof -
  have "\<not> isl (fst (Register example_sha (ObjectPut example_sha) None 3 (NewArtifactRegistry '''') NewObjectStore example_report))" by code_simp
  then obtain a r1 s1 where reg: "Register example_sha (ObjectPut example_sha) None 3 (NewArtifactRegistry '''') NewObjectStore example_report = (Inr a, r1, s1)"
    by (metis isl_def prod.collapse sumE)
  have nc: "no_collision example_sha (NewArtifactRegistry '''') example_report" by (simp add: no_collision_def NewArtifactRegistry_def)
  have sha: "\<forall>b. example_sha b \<noteq> ''''" by (simp add: example_sha_def)
  from artifact_round_trip[OF rtranclp.rtrancl_refl sha nc reg rtranclp.rtrancl_refl,
      of "\<lparr>evp_Role = EvidenceTaskManager, evp_ProjectID = ''p'', evp_TaskID = ''build''\<rparr>"] reg
  show ?thesis by (auto simp: example_report_def)
qed

end
