(* ===== verification/Merge_Queue.thy ===== *)
theory Merge_Queue
  imports Evidence
begin

text \<open>
  \<open>internal/mergequeue\<close>: the data of \<open>model.go\<close> and the in-memory store of \<open>store.go\<close>. A candidate goes from
  queued over merge check and targeted verify to merged or failed; a worker holds a repository by a
  claim, and the irreversible write by an operation. Every operation of the store is a function on
  its state; the clock and a fresh token are arguments, and so is the file system that
  \<open>normalizeTargetRepository\<close> looks at.
\<close>

section \<open>Data\<close>

type_synonym CandidateID = string

type_synonym MergeStatus = string
abbreviation StatusQueued :: MergeStatus where "StatusQueued \<equiv> ''queued''"
abbreviation StatusMergeCheck :: MergeStatus where "StatusMergeCheck \<equiv> ''merge_check''"
abbreviation StatusTargetedVerify :: MergeStatus where "StatusTargetedVerify \<equiv> ''targeted_verify''"
abbreviation StatusMerged :: MergeStatus where "StatusMerged \<equiv> ''merged''"
abbreviation StatusFailed :: MergeStatus where "StatusFailed \<equiv> ''failed''"

type_synonym FailureReason = string
abbreviation FailureConflict :: FailureReason where "FailureConflict \<equiv> ''conflict''"
abbreviation FailurePermission :: FailureReason where "FailurePermission \<equiv> ''permission''"
abbreviation FailureMainDrift :: FailureReason where "FailureMainDrift \<equiv> ''main_drift''"
abbreviation FailureVerifyFailed :: FailureReason where "FailureVerifyFailed \<equiv> ''verify_failed''"

record Candidate =
  mc_ID :: CandidateID
  mc_ProjectID :: ProjectID
  mc_TaskID :: TaskID
  mc_WorkspaceRef :: BindingRef
  mc_VerifyResultRef :: ArtifactID
  mc_DiffArtifactRef :: ArtifactID
  mc_TargetRepository :: string
  mc_TargetBranch :: string
  mc_BaseRevision :: string
  mc_MainRevision :: string
  mc_CandidateRevision :: string
  mc_Status :: MergeStatus
  mc_FailureReason :: FailureReason
  mc_MergedRevision :: string
  mc_EvidenceRefs :: "ArtifactID list"
  mc_CreatedAt :: int
  mc_UpdatedAt :: int

record Claim =
  cl_Candidate :: Candidate
  cl_OwnerID :: string
  cl_Token :: string
  cl_ExpiresAt :: int

record EnqueueRequest =
  eq_ID :: CandidateID
  eq_ProjectID :: ProjectID
  eq_TaskID :: TaskID
  eq_WorkspaceRef :: BindingRef
  eq_VerifyResultRef :: ArtifactID
  eq_DiffArtifactRef :: ArtifactID
  eq_TargetRepository :: string
  eq_TargetBranch :: string
  eq_BaseRevision :: string
  eq_MainRevision :: string
  eq_CandidateRevision :: string
  eq_EvidenceRefs :: "ArtifactID list"

record auditRecord =
  ad_StableKey :: IdempotencyKey
  ad_Type :: string
  ad_ProjectID :: ProjectID
  ad_TaskID :: TaskID
  ad_WorkspaceRef :: BindingRef
  ad_Payload :: "(string, string) gomap"
  ad_ArtifactRefs :: "ArtifactID list"
  ad_Delivered :: bool

record mergeOperation =
  op_ID :: string
  op_Token :: string
  op_CandidateID :: CandidateID
  op_TargetRepository :: string
  op_TargetBranch :: string
  op_ExpectedMainRevision :: string
  op_ExpectedMergedRevision :: string
  op_Status :: string
  op_EvidenceRefs :: "ArtifactID list"
  op_Audit :: auditRecord
  op_RecoveryReason :: string

record mergeOperationRequest =
  oq_ExpectedMainRevision :: string
  oq_ExpectedMergedRevision :: string
  oq_EvidenceRefs :: "ArtifactID list"
  oq_Audit :: auditRecord

record MergeStore =
  mq_candidates :: "(CandidateID, Candidate) gomap"
  mq_repoClaims :: "(string, Claim) gomap"
  mq_operations :: "(string, mergeOperation) gomap"
  mq_audits :: "(IdempotencyKey, auditRecord) gomap"
  mq_auditOrder :: "IdempotencyKey list"

definition NewMergeStore :: MergeStore where
  "NewMergeStore = \<lparr>mq_candidates = [], mq_repoClaims = [], mq_operations = [], mq_audits = [], mq_auditOrder = []\<rparr>"

section \<open>Checks\<close>

definition validBranch :: "string \<Rightarrow> bool" where
  "validBranch branch \<longleftrightarrow> \<not> (branch = '''' \<or> HasPrefix branch ''-'' \<or> HasSuffix branch ''.'' \<or> HasSuffix branch ''.lock''
       \<or> Contains branch ''..'' \<or> ContainsAny branch ('' ~^:?*['' @ [CHR 92]) \<or> Contains branch ''//'' \<or> HasPrefix branch ''/'' \<or> HasSuffix branch ''/'')
     \<and> list_all (\<lambda>c. \<not> ((of_char c :: nat) < 0x20 \<or> (of_char c :: nat) = 0x7f)) branch"

definition isHexDigit :: "char \<Rightarrow> bool" where
  "isHexDigit c \<longleftrightarrow> (let n = of_char c :: nat in (48 \<le> n \<and> n \<le> 57) \<or> (97 \<le> n \<and> n \<le> 102) \<or> (65 \<le> n \<and> n \<le> 70))"

definition validRevision :: "string \<Rightarrow> bool" where
  "validRevision revision \<longleftrightarrow> (length revision = 40 \<or> length revision = 64) \<and> list_all isHexDigit revision"

definition validateEnqueue :: "EnqueueRequest \<Rightarrow> goerr option" where
  "validateEnqueue req = first_err
     [fail_if (eq_ID req = '''' \<or> eq_ProjectID req = '''' \<or> eq_TaskID req = '''' \<or> eq_WorkspaceRef req = '''' \<or> eq_VerifyResultRef req = ''''
         \<or> eq_DiffArtifactRef req = '''' \<or> TrimSpace (eq_TargetRepository req) = '''' \<or> TrimSpace (eq_BaseRevision req) = ''''
         \<or> TrimSpace (eq_MainRevision req) = '''' \<or> TrimSpace (eq_CandidateRevision req) = '''')
        (InvalidArgument ''merge candidate requires identity, workspace, verify/diff refs, target, and revisions''),
      fail_if (\<not> validBranch (eq_TargetBranch req)) (InvalidArgument ''target_branch is invalid''),
      fail_if (\<not> validRevision (eq_BaseRevision req) \<or> \<not> validRevision (eq_MainRevision req) \<or> \<not> validRevision (eq_CandidateRevision req))
        (InvalidArgument ''merge candidate revisions must be immutable git object IDs'')]"

definition dedupeEvidence :: "ArtifactID list \<Rightarrow> ArtifactID list" where
  "dedupeEvidence refs = sort (dedupe [] (filter (\<lambda>ref. ref \<noteq> '''') refs))"

definition requestEvidence :: "EnqueueRequest \<Rightarrow> ArtifactID list" where
  "requestEvidence req = dedupeEvidence ([eq_VerifyResultRef req, eq_DiffArtifactRef req] @ eq_EvidenceRefs req)"

definition sameEnqueue :: "Candidate \<Rightarrow> EnqueueRequest \<Rightarrow> bool" where
  "sameEnqueue candidate req \<longleftrightarrow>
     (let branch = (if eq_TargetBranch req = '''' then ''main'' else eq_TargetBranch req) in
      mc_ProjectID candidate = eq_ProjectID req \<and> mc_TaskID candidate = eq_TaskID req \<and> mc_WorkspaceRef candidate = eq_WorkspaceRef req
      \<and> mc_VerifyResultRef candidate = eq_VerifyResultRef req \<and> mc_DiffArtifactRef candidate = eq_DiffArtifactRef req
      \<and> mc_TargetRepository candidate = eq_TargetRepository req \<and> mc_TargetBranch candidate = branch
      \<and> mc_BaseRevision candidate = eq_BaseRevision req \<and> mc_MainRevision candidate = eq_MainRevision req
      \<and> mc_CandidateRevision candidate = eq_CandidateRevision req \<and> mc_EvidenceRefs candidate = requestEvidence req)"

definition validAdvance :: "MergeStatus \<Rightarrow> MergeStatus \<Rightarrow> bool" where
  "validAdvance from to \<longleftrightarrow> (from = StatusMergeCheck \<and> to = StatusTargetedVerify) \<or> (from = StatusTargetedVerify \<and> to = StatusMerged)"

definition validFailureReason :: "FailureReason \<Rightarrow> bool" where
  "validFailureReason reason \<longleftrightarrow> reason \<in> set [FailureConflict, FailurePermission, FailureMainDrift, FailureVerifyFailed]"

definition normalizeTargetRepository :: "FileSystem \<Rightarrow> string \<Rightarrow> goerr + string" where
  "normalizeTargetRepository fs v =
     (let v' = TrimSpace v in
      if v' = '''' then Inl (InvalidArgument ''target_repository is required'')
      else case fs_Abs fs v' of
        Inl _ \<Rightarrow> Inl (InvalidArgument ''target_repository is invalid'')
      | Inr absolute \<Rightarrow>
          let resolved = (case fs_EvalSymlinks fs absolute of Inr evaluated \<Rightarrow> evaluated | Inl _ \<Rightarrow> absolute) in
          checked (fail_if (\<not> fs_IsDir fs resolved) (InvalidArgument ''target_repository must be a directory'')) (Inr (Clean resolved)))"

section \<open>Audits\<close>

text \<open>
  \<open>equalAudit\<close> compares the JSON texts of two records, whose maps are printed in the order of their keys:
  the records are equal up to the order of the payload and the delivery mark.
\<close>

definition samePayload :: "(string, string) gomap \<Rightarrow> (string, string) gomap \<Rightarrow> bool" where
  "samePayload xs ys \<longleftrightarrow> list_all (\<lambda>(k, v). mget ys k = Some v) xs \<and> list_all (\<lambda>(k, v). mget xs k = Some v) ys"

definition equalAudit :: "auditRecord \<Rightarrow> auditRecord \<Rightarrow> bool" where
  "equalAudit left right \<longleftrightarrow> ad_StableKey left = ad_StableKey right \<and> ad_Type left = ad_Type right
     \<and> ad_ProjectID left = ad_ProjectID right \<and> ad_TaskID left = ad_TaskID right \<and> ad_WorkspaceRef left = ad_WorkspaceRef right
     \<and> samePayload (ad_Payload left) (ad_Payload right) \<and> ad_ArtifactRefs left = ad_ArtifactRefs right"

definition appendAuditLocked :: "MergeStore \<Rightarrow> auditRecord \<Rightarrow> goerr option \<times> MergeStore" where
  "appendAuditLocked s audit0 =
     (if ad_StableKey audit0 = '''' \<or> ad_Type audit0 = '''' \<or> ad_ProjectID audit0 = '''' \<or> ad_TaskID audit0 = '''' \<or> ad_WorkspaceRef audit0 = ''''
      then (Some (InvalidArgument ''merge audit identity is required''), s)
      else
        let audit = audit0\<lparr>ad_ArtifactRefs := dedupeEvidence (ad_ArtifactRefs audit0)\<rparr> in
        (case mget (mq_audits s) (ad_StableKey audit) of
           Some existing \<Rightarrow> (if \<not> equalAudit existing audit then Some IdempotencyConflict else None, s)
         | None \<Rightarrow> (None, s\<lparr>mq_audits := mput (ad_StableKey audit) audit (mq_audits s),
                            mq_auditOrder := mq_auditOrder s @ [ad_StableKey audit]\<rparr>)))"

definition zeroAudit :: auditRecord where
  "zeroAudit = \<lparr>ad_StableKey = '''', ad_Type = '''', ad_ProjectID = '''', ad_TaskID = '''', ad_WorkspaceRef = '''', ad_Payload = [],
     ad_ArtifactRefs = [], ad_Delivered = False\<rparr>"

text \<open>The loop of \<open>pendingAudits\<close>, which stops when the limit is reached.\<close>

fun pendingLoop :: "(IdempotencyKey, auditRecord) gomap \<Rightarrow> ProjectID \<Rightarrow> int \<Rightarrow> auditRecord list \<Rightarrow> IdempotencyKey list \<Rightarrow> auditRecord list" where
  "pendingLoop audits projectID limit out [] = out"
| "pendingLoop audits projectID limit out (key # keys) =
     (let audit = (case mget audits key of Some a \<Rightarrow> a | None \<Rightarrow> zeroAudit) in
      if \<not> ad_Delivered audit \<and> (projectID = '''' \<or> ad_ProjectID audit = projectID) then
        (if limit > 0 \<and> int (length out) + 1 \<ge> limit then out @ [audit]
         else pendingLoop audits projectID limit (out @ [audit]) keys)
      else pendingLoop audits projectID limit out keys)"

definition pendingAudits :: "goerr option \<Rightarrow> MergeStore \<Rightarrow> ProjectID \<Rightarrow> int \<Rightarrow> goerr + auditRecord list" where
  "pendingAudits ctx s projectID limit = checked ctx (Inr (pendingLoop (mq_audits s) projectID limit [] (mq_auditOrder s)))"

definition markAuditDelivered :: "goerr option \<Rightarrow> MergeStore \<Rightarrow> IdempotencyKey \<Rightarrow> goerr option \<times> MergeStore" where
  "markAuditDelivered ctx s key =
     (case ctx of
        Some e \<Rightarrow> (Some e, s)
      | None \<Rightarrow> (case mget (mq_audits s) key of
          None \<Rightarrow> (Some (kerr CodeNotFound ''merge audit not found'' False), s)
        | Some audit \<Rightarrow> (None, s\<lparr>mq_audits := mput key (audit\<lparr>ad_Delivered := True\<rparr>) (mq_audits s)\<rparr>)))"

section \<open>Candidates and claims\<close>

abbreviation candidateNotFound :: goerr where
  "candidateNotFound \<equiv> kerr CodeNotFound ''merge candidate not found'' False"

definition statusChanged :: goerr where
  "statusChanged = kerr CodeTransitionRejected ''merge candidate status changed'' True"

definition newCandidate :: "int \<Rightarrow> EnqueueRequest \<Rightarrow> Candidate" where
  "newCandidate now req =
     \<lparr>mc_ID = eq_ID req, mc_ProjectID = eq_ProjectID req, mc_TaskID = eq_TaskID req, mc_WorkspaceRef = eq_WorkspaceRef req,
      mc_VerifyResultRef = eq_VerifyResultRef req, mc_DiffArtifactRef = eq_DiffArtifactRef req,
      mc_TargetRepository = eq_TargetRepository req, mc_TargetBranch = eq_TargetBranch req, mc_BaseRevision = eq_BaseRevision req,
      mc_MainRevision = eq_MainRevision req, mc_CandidateRevision = eq_CandidateRevision req, mc_Status = StatusQueued,
      mc_FailureReason = '''', mc_MergedRevision = '''', mc_EvidenceRefs = requestEvidence req, mc_CreatedAt = now, mc_UpdatedAt = now\<rparr>"

definition putCandidate :: "MergeStore \<Rightarrow> Candidate \<Rightarrow> MergeStore" where
  "putCandidate s candidate = s\<lparr>mq_candidates := mput (mc_ID candidate) candidate (mq_candidates s)\<rparr>"

definition enqueue ::
  "FileSystem \<Rightarrow> goerr option \<Rightarrow> int \<Rightarrow> MergeStore \<Rightarrow> EnqueueRequest \<Rightarrow> auditRecord \<Rightarrow> (goerr + Candidate) \<times> MergeStore" where
  "enqueue fs ctx now s req0 audit =
     (case and_then (checked ctx (normalizeTargetRepository fs (eq_TargetRepository req0)))
         (\<lambda>target. let req = req0\<lparr>eq_TargetRepository := target,
                       eq_TargetBranch := (if eq_TargetBranch req0 = '''' then ''main'' else eq_TargetBranch req0)\<rparr>
                    in checked (validateEnqueue req) (Inr req)) of
        Inl e \<Rightarrow> (Inl e, s)
      | Inr req \<Rightarrow>
          (case mget (mq_candidates s) (eq_ID req) of
             Some existing \<Rightarrow>
               if sameEnqueue existing req then
                 (case appendAuditLocked s audit of
                    (Some e, s') \<Rightarrow> (Inl e, s')
                  | (None, s') \<Rightarrow> (Inr existing, s'))
               else (Inl IdempotencyConflict, s)
           | None \<Rightarrow>
               (case appendAuditLocked s audit of
                  (Some e, s') \<Rightarrow> (Inl e, s')
                | (None, s') \<Rightarrow> (Inr (newCandidate now req), putCandidate s' (newCandidate now req)))))"

definition GetCandidate :: "goerr option \<Rightarrow> MergeStore \<Rightarrow> CandidateID \<Rightarrow> goerr + Candidate" where
  "GetCandidate ctx s i = checked ctx
     (case mget (mq_candidates s) i of None \<Rightarrow> Inl candidateNotFound | Some candidate \<Rightarrow> Inr candidate)"

definition activeOperation :: "mergeOperation \<Rightarrow> bool" where
  "activeOperation op \<longleftrightarrow> op_Status op = ''pending'' \<or> op_Status op = ''recovery_required''"

definition activeOperationLocked :: "MergeStore \<Rightarrow> string \<Rightarrow> mergeOperation option" where
  "activeOperationLocked s targetRepository =
     List.find (\<lambda>op. op_TargetRepository op = targetRepository \<and> activeOperation op) (mvalues (mq_operations s))"

definition waitingCandidate :: "string \<Rightarrow> Candidate \<Rightarrow> bool" where
  "waitingCandidate targetRepository candidate \<longleftrightarrow> mc_TargetRepository candidate = targetRepository
     \<and> mc_Status candidate \<in> set [StatusQueued, StatusMergeCheck, StatusTargetedVerify]"

definition candidateBefore :: "Candidate \<Rightarrow> Candidate \<Rightarrow> bool" where
  "candidateBefore left right \<longleftrightarrow>
     (if mc_CreatedAt left = mc_CreatedAt right then mc_ID left < mc_ID right else mc_CreatedAt left < mc_CreatedAt right)"

definition hourNanos :: int where
  "hourNanos = 3600 * 10 ^ 9"

definition newClaim :: "int \<Rightarrow> Candidate \<Rightarrow> Claim" where
  "newClaim now candidate =
     \<lparr>cl_Candidate = candidate, cl_OwnerID = ''memory'', cl_Token = ''memory:'' @ mc_ID candidate, cl_ExpiresAt = now + hourNanos\<rparr>"

definition ClaimNext ::
  "FileSystem \<Rightarrow> goerr option \<Rightarrow> int \<Rightarrow> MergeStore \<Rightarrow> string \<Rightarrow> (goerr + Claim option) \<times> MergeStore" where
  "ClaimNext fs ctx now s target =
     (case checked ctx (normalizeTargetRepository fs target) of
        Inl e \<Rightarrow> (Inl e, s)
      | Inr targetRepository \<Rightarrow>
          if activeOperationLocked s targetRepository \<noteq> None then (Inr None, s)
          else if mget (mq_repoClaims s) targetRepository \<noteq> None then (Inr None, s)
          else case sort_by candidateBefore (filter (waitingCandidate targetRepository) (mvalues (mq_candidates s))) of
            [] \<Rightarrow> (Inr None, s)
          | first # _ \<Rightarrow>
              let candidate = (if mc_Status first = StatusQueued then first\<lparr>mc_Status := StatusMergeCheck, mc_UpdatedAt := now\<rparr> else first);
                  s1 = (if mc_Status first = StatusQueued then putCandidate s candidate else s);
                  claim = newClaim now candidate
              in (Inr (Some claim), s1\<lparr>mq_repoClaims := mput targetRepository claim (mq_repoClaims s1)\<rparr>))"

definition currentClaim :: "MergeStore \<Rightarrow> Claim \<Rightarrow> Claim option" where
  "currentClaim s claim =
     (case mget (mq_repoClaims s) (mc_TargetRepository (cl_Candidate claim)) of
        None \<Rightarrow> None
      | Some current \<Rightarrow>
          if mc_ID (cl_Candidate current) = mc_ID (cl_Candidate claim) \<and> cl_Token current = cl_Token claim then Some current else None)"

abbreviation claimNotCurrent :: goerr where
  "claimNotCurrent \<equiv> LeaseConflict ''merge claim is no longer current''"

definition requireClaimLocked :: "MergeStore \<Rightarrow> Claim \<Rightarrow> goerr option" where
  "requireClaimLocked s claim = fail_if (currentClaim s claim = None) claimNotCurrent"

definition RenewClaim :: "goerr option \<Rightarrow> int \<Rightarrow> MergeStore \<Rightarrow> Claim \<Rightarrow> (goerr + Claim) \<times> MergeStore" where
  "RenewClaim ctx now s claim =
     (case ctx of
        Some e \<Rightarrow> (Inl e, s)
      | None \<Rightarrow>
          (case currentClaim s claim of
             None \<Rightarrow> (Inl claimNotCurrent, s)
           | Some current \<Rightarrow>
               (case mget (mq_candidates s) (mc_ID (cl_Candidate claim)) of
                  None \<Rightarrow> (Inl candidateNotFound, s)
                | Some candidate \<Rightarrow>
                    let renewed = current\<lparr>cl_Candidate := candidate, cl_ExpiresAt := now + hourNanos\<rparr> in
                    (Inr renewed, s\<lparr>mq_repoClaims := mput (mc_TargetRepository (cl_Candidate claim)) renewed (mq_repoClaims s)\<rparr>))))"

definition ReleaseClaim :: "goerr option \<Rightarrow> MergeStore \<Rightarrow> Claim \<Rightarrow> goerr option \<times> MergeStore" where
  "ReleaseClaim ctx s claim =
     (case ctx of
        Some e \<Rightarrow> (Some e, s)
      | None \<Rightarrow> (None, if currentClaim s claim \<noteq> None
          then s\<lparr>mq_repoClaims := mdel (mc_TargetRepository (cl_Candidate claim)) (mq_repoClaims s)\<rparr> else s))"

definition pendingMergeOperation :: "FileSystem \<Rightarrow> goerr option \<Rightarrow> MergeStore \<Rightarrow> string \<Rightarrow> goerr + mergeOperation option" where
  "pendingMergeOperation fs ctx s target =
     and_then (checked ctx (normalizeTargetRepository fs target)) (\<lambda>targetRepository. Inr (activeOperationLocked s targetRepository))"

text \<open>The claimed candidate, or the error of an operation that needs the claim.\<close>

definition claimedCandidate :: "MergeStore \<Rightarrow> Claim \<Rightarrow> goerr + Candidate" where
  "claimedCandidate s claim = checked (requireClaimLocked s claim)
     (case mget (mq_candidates s) (mc_ID (cl_Candidate claim)) of None \<Rightarrow> Inl candidateNotFound | Some candidate \<Rightarrow> Inr candidate)"

definition advance ::
  "goerr option \<Rightarrow> int \<Rightarrow> MergeStore \<Rightarrow> Claim \<Rightarrow> MergeStatus \<Rightarrow> MergeStatus \<Rightarrow> ArtifactID list \<Rightarrow> string \<Rightarrow>
   (goerr + Candidate) \<times> MergeStore" where
  "advance ctx now s claim from to evidenceRefs mergedRevision =
     (case checked (first_err [ctx, fail_if (\<not> validAdvance from to) (InvalidArgument ''invalid merge candidate transition'')])
         (and_then (claimedCandidate s claim) (\<lambda>candidate.
            checked (first_err [fail_if (mc_Status candidate \<noteq> from) statusChanged,
              fail_if (to = StatusMerged \<and> TrimSpace mergedRevision = '''') (InvalidArgument ''merged_revision is required'')])
            (Inr (candidate\<lparr>mc_Status := to, mc_EvidenceRefs := dedupeEvidence (mc_EvidenceRefs candidate @ evidenceRefs),
                            mc_MergedRevision := mergedRevision, mc_UpdatedAt := now\<rparr>)))) of
        Inl e \<Rightarrow> (Inl e, s)
      | Inr candidate \<Rightarrow> (Inr candidate, putCandidate s candidate))"

section \<open>Merge operations\<close>

definition newOperation :: "string \<Rightarrow> Candidate \<Rightarrow> mergeOperationRequest \<Rightarrow> mergeOperation" where
  "newOperation token candidate req =
     \<lparr>op_ID = ''memory:'' @ mc_ID candidate, op_Token = token, op_CandidateID = mc_ID candidate,
      op_TargetRepository = mc_TargetRepository candidate, op_TargetBranch = mc_TargetBranch candidate,
      op_ExpectedMainRevision = oq_ExpectedMainRevision req, op_ExpectedMergedRevision = oq_ExpectedMergedRevision req,
      op_Status = ''pending'', op_EvidenceRefs = dedupeEvidence (oq_EvidenceRefs req), op_Audit = oq_Audit req, op_RecoveryReason = ''''\<rparr>"

definition putOperation :: "MergeStore \<Rightarrow> mergeOperation \<Rightarrow> MergeStore" where
  "putOperation s op = s\<lparr>mq_operations := mput (op_ID op) op (mq_operations s)\<rparr>"

definition beginMergeOperation ::
  "goerr option \<Rightarrow> string \<Rightarrow> MergeStore \<Rightarrow> Claim \<Rightarrow> mergeOperationRequest \<Rightarrow> (goerr + mergeOperation) \<times> MergeStore" where
  "beginMergeOperation ctx token s claim req =
     (case checked (first_err [ctx, fail_if (TrimSpace (oq_ExpectedMainRevision req) = '''' \<or> TrimSpace (oq_ExpectedMergedRevision req) = '''')
            (InvalidArgument ''merge operation revisions are required'')])
         (and_then (claimedCandidate s claim) (\<lambda>candidate.
            checked (fail_if (mc_Status candidate \<noteq> StatusTargetedVerify) statusChanged) (Inr candidate))) of
        Inl e \<Rightarrow> (Inl e, s)
      | Inr candidate \<Rightarrow>
          (case activeOperationLocked s (mc_TargetRepository candidate) of
             Some existing \<Rightarrow>
               if op_CandidateID existing = mc_ID candidate \<and> op_ExpectedMainRevision existing = oq_ExpectedMainRevision req
                  \<and> op_ExpectedMergedRevision existing = oq_ExpectedMergedRevision req then (Inr existing, s)
               else (Inl (kerr CodeTransitionRejected ''active merge operation already exists for repository'' True), s)
           | None \<Rightarrow> (Inr (newOperation token candidate req), putOperation s (newOperation token candidate req))))"

definition requireOperationLocked :: "MergeStore \<Rightarrow> mergeOperation \<Rightarrow> goerr + mergeOperation" where
  "requireOperationLocked s op =
     (case mget (mq_operations s) (op_ID op) of
        None \<Rightarrow> Inl (LeaseConflict ''merge operation is no longer current'')
      | Some stored \<Rightarrow> checked (first_err
          [fail_if (op_Token stored \<noteq> op_Token op) (LeaseConflict ''merge operation is no longer current''),
           fail_if (\<not> activeOperation stored) (kerr CodeTransitionRejected ''merge operation is not active'' True)]) (Inr stored))"

definition finalizeMergeOperation ::
  "goerr option \<Rightarrow> int \<Rightarrow> MergeStore \<Rightarrow> mergeOperation \<Rightarrow> (goerr + Candidate) \<times> MergeStore" where
  "finalizeMergeOperation ctx now s op =
     (case checked ctx (requireOperationLocked s op) of
        Inl e \<Rightarrow> (Inl e, s)
      | Inr stored \<Rightarrow>
          (case mget (mq_candidates s) (op_CandidateID stored) of
             None \<Rightarrow> (Inl candidateNotFound, s)
           | Some candidate \<Rightarrow>
               if mc_Status candidate = StatusMerged \<and> mc_MergedRevision candidate = op_ExpectedMergedRevision stored then (Inr candidate, s)
               else if mc_Status candidate \<noteq> StatusTargetedVerify then (Inl statusChanged, s)
               else case appendAuditLocked s (op_Audit stored) of
                 (Some e, s') \<Rightarrow> (Inl e, s')
               | (None, s') \<Rightarrow>
                   let merged = candidate\<lparr>mc_Status := StatusMerged,
                         mc_EvidenceRefs := dedupeEvidence (mc_EvidenceRefs candidate @ op_EvidenceRefs stored),
                         mc_MergedRevision := op_ExpectedMergedRevision stored, mc_UpdatedAt := now\<rparr>
                   in (Inr merged, putOperation (putCandidate s' merged) (stored\<lparr>op_Status := ''finalized''\<rparr>))))"

definition abortMergeOperation :: "goerr option \<Rightarrow> MergeStore \<Rightarrow> mergeOperation \<Rightarrow> goerr option \<times> MergeStore" where
  "abortMergeOperation ctx s op =
     (case checked ctx (requireOperationLocked s op) of
        Inl e \<Rightarrow> (Some e, s)
      | Inr stored \<Rightarrow> (None, putOperation s (stored\<lparr>op_Status := ''aborted''\<rparr>)))"

definition markMergeOperationRecoveryRequired ::
  "goerr option \<Rightarrow> MergeStore \<Rightarrow> mergeOperation \<Rightarrow> string \<Rightarrow> (goerr + Candidate) \<times> MergeStore" where
  "markMergeOperationRecoveryRequired ctx s op reason =
     (case checked ctx (requireOperationLocked s op) of
        Inl e \<Rightarrow> (Inl e, s)
      | Inr stored \<Rightarrow>
          (case mget (mq_candidates s) (op_CandidateID stored) of None \<Rightarrow> Inl candidateNotFound | Some candidate \<Rightarrow> Inr candidate,
           putOperation s (stored\<lparr>op_Status := ''recovery_required'', op_RecoveryReason := reason\<rparr>)))"

definition failCandidate ::
  "goerr option \<Rightarrow> int \<Rightarrow> MergeStore \<Rightarrow> Claim \<Rightarrow> MergeStatus \<Rightarrow> FailureReason \<Rightarrow> ArtifactID list \<Rightarrow> auditRecord \<Rightarrow>
   (goerr + Candidate) \<times> MergeStore" where
  "failCandidate ctx now s claim from reason evidenceRefs audit =
     (case checked (first_err [ctx, fail_if (\<not> validFailureReason reason \<or> evidenceRefs = [])
            (InvalidArgument ''merge failure requires a valid reason and evidence refs'')]) (claimedCandidate s claim) of
        Inl e \<Rightarrow> (Inl e, s)
      | Inr candidate \<Rightarrow>
          if mc_Status candidate = StatusFailed \<and> mc_FailureReason candidate = reason then
            (case appendAuditLocked s audit of (Some e, s') \<Rightarrow> (Inl e, s') | (None, s') \<Rightarrow> (Inr candidate, s'))
          else if mc_Status candidate \<noteq> from \<or> (from \<noteq> StatusMergeCheck \<and> from \<noteq> StatusTargetedVerify) then
            (Inl (kerr CodeTransitionRejected ''merge candidate cannot fail from current status'' True), s)
          else
            (case appendAuditLocked s audit of
               (Some e, s') \<Rightarrow> (Inl e, s')
             | (None, s') \<Rightarrow>
                 let failed = candidate\<lparr>mc_Status := StatusFailed, mc_FailureReason := reason,
                       mc_EvidenceRefs := dedupeEvidence (mc_EvidenceRefs candidate @ evidenceRefs), mc_UpdatedAt := now\<rparr>
                 in (Inr failed, putCandidate s' failed)))"

end
