(* ===== verification/Workspace_Paths.thy ===== *)
theory Workspace_Paths
  imports Object_Store
begin

text \<open>
  \<open>internal/workspace\<close>: the paths an agent may name (\<open>model.go\<close> and the path checks of \<open>agent_tools.go\<close>).
  A path of a caller is cleaned, must stay below the workspace root, must be open to the phase, and
  no symbolic link on the way may lead out of the root. The file system is an argument. Paths
  are those of a Unix build, where \<open>filepath\<close> and \<open>path\<close> agree.
\<close>

section \<open>Data\<close>

type_synonym WorkspacePhase = string
abbreviation PhasePlan :: WorkspacePhase where "PhasePlan \<equiv> ''plan''"
abbreviation PhaseExecute :: WorkspacePhase where "PhaseExecute \<equiv> ''execute''"
abbreviation PhaseVerify :: WorkspacePhase where "PhaseVerify \<equiv> ''verify''"

type_synonym WorkspaceKind = string
abbreviation KindGitWorktree :: WorkspaceKind where "KindGitWorktree \<equiv> ''git_worktree''"
abbreviation KindClone :: WorkspaceKind where "KindClone \<equiv> ''clone''"
abbreviation KindContainer :: WorkspaceKind where "KindContainer \<equiv> ''container''"
abbreviation KindRemote :: WorkspaceKind where "KindRemote \<equiv> ''remote''"

type_synonym WorkspaceStatus = string
abbreviation StatusPrepared :: WorkspaceStatus where "StatusPrepared \<equiv> ''prepared''"
abbreviation StatusSealed :: WorkspaceStatus where "StatusSealed \<equiv> ''sealed''"

record WriteSet =
  wr_Files :: "string list"
  wr_Modules :: "string list"
  wr_Symbols :: "string list"
  wr_Contracts :: "string list"
  wr_Tests :: "string list"
  wr_Owners :: "string list"

record Binding =
  wb_ID :: BindingRef
  wb_Revision :: Revision
  wb_TaskID :: TaskID
  wb_Generation :: int
  wb_Kind :: WorkspaceKind
  wb_Root :: string
  wb_BranchName :: string
  wb_ContainerID :: string
  wb_VolumeRefs :: "string list"
  wb_BaseRevision :: string
  wb_CurrentRevision :: string
  wb_AllowedDirs :: "string list"
  wb_DeclaredWrites :: WriteSet
  wb_ObservedWrites :: WriteSet
  wb_PhaseLeases :: "(WorkspacePhase, InvocationID) gomap"
  wb_ActivePhase :: WorkspacePhase
  wb_ActiveInvocation :: InvocationID
  wb_Status :: WorkspaceStatus
  wb_RepositoryPath :: string
  wb_CreationFingerprint :: string

definition zeroWriteSet :: WriteSet where
  "zeroWriteSet = \<lparr>wr_Files = [], wr_Modules = [], wr_Symbols = [], wr_Contracts = [], wr_Tests = [], wr_Owners = []\<rparr>"

definition zeroBinding :: Binding where
  "zeroBinding = \<lparr>wb_ID = '''', wb_Revision = 0, wb_TaskID = '''', wb_Generation = 0, wb_Kind = '''', wb_Root = '''', wb_BranchName = '''',
     wb_ContainerID = '''', wb_VolumeRefs = [], wb_BaseRevision = '''', wb_CurrentRevision = '''', wb_AllowedDirs = [],
     wb_DeclaredWrites = zeroWriteSet, wb_ObservedWrites = zeroWriteSet, wb_PhaseLeases = [], wb_ActivePhase = '''',
     wb_ActiveInvocation = '''', wb_Status = '''', wb_RepositoryPath = '''', wb_CreationFingerprint = ''''\<rparr>"

text \<open>\<open>binding.PhaseLeases[phase]\<close>, empty when the phase has not completed.\<close>

definition leaseOf :: "Binding \<Rightarrow> WorkspacePhase \<Rightarrow> InvocationID" where
  "leaseOf binding phase = (case mget (wb_PhaseLeases binding) phase of Some i \<Rightarrow> i | None \<Rightarrow> '''')"

section \<open>Path checks\<close>

definition validPhase :: "WorkspacePhase \<Rightarrow> bool" where
  "validPhase phase \<longleftrightarrow> phase = PhasePlan \<or> phase = PhaseExecute \<or> phase = PhaseVerify"

definition cleanRelativePath :: "string \<Rightarrow> goerr + string" where
  "cleanRelativePath p =
     (if p = '''' then Inl (InvalidArgument ''path is required'')
      else if IsAbs p \<or> IsAbs (slashes p) then Inl (Forbidden ''absolute paths are not allowed'')
      else let clean = Clean (slashes p) in
        if clean = ''.'' \<or> clean = ''..'' \<or> HasPrefix clean ''../'' then Inl (Forbidden ''parent path traversal is not allowed'')
        else Inr clean)"

definition hasPathPrefix :: "string \<Rightarrow> string \<Rightarrow> bool" where
  "hasPathPrefix p0 prefix0 =
     (let p = trimSlashes (Clean p0); prefix = trimSlashes (Clean prefix0) in p = prefix \<or> HasPrefix p (prefix @ ''/''))"

definition phaseAllows :: "Binding \<Rightarrow> WorkspacePhase \<Rightarrow> string \<Rightarrow> bool" where
  "phaseAllows binding phase clean =
     (if phase = PhasePlan then hasPathPrefix clean ''plan''
      else if phase = PhaseVerify then hasPathPrefix clean ''evidence''
      else if phase = PhaseExecute then list_ex (\<lambda>allowed. hasPathPrefix clean allowed) (wb_AllowedDirs binding)
      else False)"

definition protectedNames :: "string list" where
  "protectedNames = [''.git'', ''.env'', ''credentials'', ''sessions'', ''logs'', ''tool results'', ''tool-results'', ''auth.json'', ''id_rsa'', ''id_ed25519'']"

definition protectedWorkspacePath :: "string \<Rightarrow> bool" where
  "protectedWorkspacePath relative \<longleftrightarrow> list_ex (\<lambda>component. TrimSpace component \<in> set protectedNames) (Split (CHR ''/'') (ToLower relative))"

section \<open>Symbolic links\<close>

definition escapesRoot :: "string \<Rightarrow> bool" where
  "escapesRoot rel \<longleftrightarrow> rel = ''..'' \<or> HasPrefix rel ''../'' \<or> IsAbs rel"

fun resolveExistingLinks :: "FileSystem \<Rightarrow> string \<Rightarrow> nat \<Rightarrow> string \<Rightarrow> goerr + string \<times> bool" where
  "resolveExistingLinks fs rootAbs 0 current = Inl (Forbidden ''workspace symbolic link chain is too deep'')"
| "resolveExistingLinks fs rootAbs (Suc depth) current =
     (case fs_Lstat fs current of
        NotExist \<Rightarrow> Inr (current, False)
      | LstatError e \<Rightarrow> Inl (wrapErr ''inspect workspace path'' e)
      | NoLink \<Rightarrow> Inr (current, True)
      | IsLink \<Rightarrow>
          (case fs_Readlink fs current of
             Inl e \<Rightarrow> Inl (wrapErr ''read workspace symbolic link'' e)
           | Inr link \<Rightarrow>
               (case fs_Abs fs (if IsAbs link then link else pathJoin [pathDir current, link]) of
                  Inl e \<Rightarrow> Inl (wrapErr ''resolve workspace symbolic link'' e)
                | Inr destination \<Rightarrow>
                    (case Rel rootAbs destination of
                       Inl _ \<Rightarrow> Inl (Forbidden ''path escapes workspace root through symbolic link'')
                     | Inr rel \<Rightarrow>
                         if escapesRoot rel then Inl (Forbidden ''path escapes workspace root through symbolic link'')
                         else resolveExistingLinks fs rootAbs depth destination))))"

definition resolveExistingLinksWithinRoot :: "FileSystem \<Rightarrow> string \<Rightarrow> string \<Rightarrow> goerr + string \<times> bool" where
  "resolveExistingLinksWithinRoot fs rootAbs candidate = resolveExistingLinks fs rootAbs 32 candidate"

text \<open>The loop over the components of the path below the root.\<close>

fun walkComponents :: "FileSystem \<Rightarrow> string \<Rightarrow> string \<Rightarrow> string list \<Rightarrow> goerr option" where
  "walkComponents fs rootAbs current [] = None"
| "walkComponents fs rootAbs current (component # components) =
     (if component = '''' \<or> component = ''.'' then walkComponents fs rootAbs current components
      else case resolveExistingLinksWithinRoot fs rootAbs (pathJoin [current, component]) of
        Inl e \<Rightarrow> Some e
      | Inr (resolved, found) \<Rightarrow> if \<not> found then None else walkComponents fs rootAbs resolved components)"

definition ensureNoSymlinkEscape :: "FileSystem \<Rightarrow> string \<Rightarrow> string \<Rightarrow> goerr option" where
  "ensureNoSymlinkEscape fs root target =
     (case fs_Abs fs root of
        Inl e \<Rightarrow> Some (wrapErr ''resolve workspace root'' e)
      | Inr rootAbs \<Rightarrow>
          (case fs_Abs fs target of
             Inl e \<Rightarrow> Some (wrapErr ''resolve workspace target'' e)
           | Inr targetAbs \<Rightarrow>
               (case Rel rootAbs targetAbs of
                  Inl e \<Rightarrow> Some (wrapErr ''compare path to root'' e)
                | Inr rel \<Rightarrow>
                    if escapesRoot rel then Some (Forbidden ''path escapes workspace root'')
                    else (case fs_Lstat fs rootAbs of
                       LstatError e \<Rightarrow> Some (wrapErr ''inspect workspace root'' e)
                     | NotExist \<Rightarrow> Some (wrapErr ''inspect workspace root'' (Plain (''lstat '' @ rootAbs @ '': no such file or directory'')))
                     | IsLink \<Rightarrow> Some (Forbidden ''workspace root must not be a symbolic link'')
                     | NoLink \<Rightarrow> walkComponents fs rootAbs rootAbs (Split (CHR ''/'') rel)))))"

section \<open>Reading and writing\<close>

definition ResolveWritePath :: "FileSystem \<Rightarrow> Binding \<Rightarrow> WorkspacePhase \<Rightarrow> string \<Rightarrow> goerr + string" where
  "ResolveWritePath fs binding phase relPath =
     checked (first_err [fail_if (wb_Status binding = StatusSealed) (Forbidden ''workspace binding is sealed''),
         fail_if (\<not> validPhase phase) (InvalidArgument ''invalid phase'')])
       (and_then (cleanRelativePath relPath) (\<lambda>clean.
          if \<not> phaseAllows binding phase clean then Inl (Forbidden ''path is outside phase allowed dirs'')
          else let full = pathJoin [wb_Root binding, clean] in checked (ensureNoSymlinkEscape fs (wb_Root binding) full) (Inr full)))"

definition resolveReadPath :: "FileSystem \<Rightarrow> Binding \<Rightarrow> string \<Rightarrow> bool \<Rightarrow> goerr + string \<times> string" where
  "resolveReadPath fs binding requested allowRoot =
     and_then
       (if TrimSpace requested = '''' then
          (if \<not> allowRoot then Inl (InvalidArgument ''path is required'') else Inr '''')
        else and_then (cleanRelativePath requested) (\<lambda>clean.
          if protectedWorkspacePath clean then Inl (Forbidden ''workspace path is protected'') else Inr clean))
       (\<lambda>clean. let target = pathJoin [wb_Root binding, clean] in checked (ensureNoSymlinkEscape fs (wb_Root binding) target) (Inr (target, clean)))"

section \<open>Declared writes\<close>

definition normalizedStrings :: "string list \<Rightarrow> string list" where
  "normalizedStrings values = sort (dedupe [] (filter (\<lambda>v. v \<noteq> '''') (map TrimSpace values)))"

definition TrimSuffix :: "string \<Rightarrow> string \<Rightarrow> string" where
  "TrimSuffix s suffix = (if HasSuffix s suffix then take (length s - length suffix) s else s)"

fun cleanAll :: "(string \<Rightarrow> goerr \<Rightarrow> goerr) \<Rightarrow> (string \<Rightarrow> goerr option) \<Rightarrow> string list \<Rightarrow> goerr + string list" where
  "cleanAll wrap check [] = Inr []"
| "cleanAll wrap check (v # vs) =
     (case cleanRelativePath v of
        Inl e \<Rightarrow> Inl (wrap v e)
      | Inr clean \<Rightarrow> checked (check clean) (and_then (cleanAll wrap check vs) (\<lambda>cs. Inr (clean # cs))))"

definition normalizeAllowedDirs :: "string list \<Rightarrow> goerr + string list" where
  "normalizeAllowedDirs dirs =
     (if dirs = [] then Inr [''workspace'']
      else and_then (cleanAll (\<lambda>dir. wrapErr (''invalid allowed dir '' @ dir)) (\<lambda>_. None) dirs)
        (\<lambda>cleans. Inr (sort (dedupe [] (map (\<lambda>clean. TrimSuffix clean ''/'') cleans)))))"

definition normalizeWriteSet :: "WriteSet \<Rightarrow> string list \<Rightarrow> goerr + WriteSet" where
  "normalizeWriteSet declared allowed =
     and_then (cleanAll (\<lambda>file. wrapErr (''invalid declared write '' @ file))
         (\<lambda>clean. fail_if (\<not> list_ex (\<lambda>dir. hasPathPrefix clean dir) allowed) (Forbidden ''declared write is outside allowed dirs''))
         (wr_Files declared))
       (\<lambda>files. Inr \<lparr>wr_Files = normalizedStrings files, wr_Modules = normalizedStrings (wr_Modules declared),
          wr_Symbols = normalizedStrings (wr_Symbols declared), wr_Contracts = normalizedStrings (wr_Contracts declared),
          wr_Tests = normalizedStrings (wr_Tests declared), wr_Owners = normalizedStrings (wr_Owners declared)\<rparr>)"

definition allowedDirsForDeclaredWrites :: "string list \<Rightarrow> goerr + string list" where
  "allowedDirsForDeclaredWrites files =
     (if files = [] then Inl (InvalidArgument ''declared write set requires at least one file'')
      else and_then (cleanAll (\<lambda>file. wrapErr (''invalid declared write '' @ file))
          (\<lambda>clean. fail_if (protectedWorkspacePath clean \<or> hasPathPrefix clean ''plan'' \<or> hasPathPrefix clean ''evidence'')
             (Forbidden ''declared execute write targets a protected phase path'')) files)
        (\<lambda>dirs. Inr (normalizedStrings dirs)))"

definition candidateObservedFiles :: "string list \<Rightarrow> string list" where
  "candidateObservedFiles files =
     normalizedStrings (filter (\<lambda>clean. \<not> (hasPathPrefix clean ''plan'' \<or> hasPathPrefix clean ''evidence'')) (map Clean files))"

section \<open>Commands\<close>

definition normalizeExecutable :: "string \<Rightarrow> string" where
  "normalizeExecutable command = TrimSuffix (ToLower (TrimSpace (pathBase command))) ''.exe''"

definition validateArgument :: "string \<Rightarrow> goerr option" where
  "validateArgument arg =
     (let normalized = slashes arg in first_err
        [fail_if (CHR 0x00 \<in> set arg \<or> ContainsAny arg [CHR 13, CHR 10]) (InvalidArgument ''command arguments contain control characters''),
         fail_if (IsAbs arg \<or> normalized = ''..'' \<or> HasPrefix normalized ''../'' \<or> Contains normalized ''/../'')
           (Forbidden ''command arguments may not escape the workspace''),
         fail_if (arg = ''-C'' \<or> HasPrefix arg ''--git-dir'' \<or> HasPrefix arg ''--work-tree'' \<or> HasPrefix arg ''--exec-path'')
           (Forbidden ''command may not redirect repository scope'')])"

definition validateCommand :: "string list \<Rightarrow> string list \<Rightarrow> goerr option" where
  "validateCommand allowed command =
     (case command of
        [] \<Rightarrow> Some (InvalidArgument ''command argv is required'')
      | name # args \<Rightarrow>
          let executable = normalizeExecutable name in first_err
          [fail_if (TrimSpace name = '''') (InvalidArgument ''command argv is required''),
           fail_if (ContainsAny name [CHR ''/'', CHR 92]) (Forbidden ''workspace command executable must not contain a path''),
           fail_if (executable \<in> set [''cmd'', ''powershell'', ''pwsh'', ''sh'', ''bash'', ''zsh'', ''fish'', ''wsl'', ''python'', ''python3'', ''node''])
             (Forbidden ''shell and interpreter commands are not allowed by workspace.run''),
           fail_if (executable \<notin> set allowed) (Forbidden ''workspace command is not in the configured allowlist''),
           check_all validateArgument args,
           (if executable = ''git'' then first_err
              [fail_if (args = [] \<or> HasPrefix (hd args) ''-'') (Forbidden ''git global options are not allowed''),
               fail_if (hd args \<notin> set [''status'', ''diff'', ''rev-parse'', ''ls-files'', ''show''])
                 (Forbidden ''git subcommand is not allowed in an agent workspace'')]
            else None)])"

end
