(* ===== verification/Workspace.thy ===== *)
theory Workspace
  imports Workspace_Paths
begin

text \<open>
  \<open>internal/workspace\<close>: the in-memory binding store of \<open>store.go\<close> and the service of \<open>model.go\<close>. A binding gives
  one round of a task a worktree; phases hold it one after the other by an invocation, and a sealed
  binding takes no more phases. \<open>mutate\<close> runs a change of one binding under its lock and stores the
  result by compare-and-swap. Git and the hash function are parameters; git keeps a state
  of type \<open>'g\<close>. The service is complete (its store and backend are not \<open>nil\<close>).
\<close>

section \<open>The store\<close>

type_synonym roundKey = "TaskID \<times> int"

record WorkspaceStore =
  bs_bindings :: "(BindingRef, Binding) gomap"
  bs_byRound :: "(roundKey, BindingRef) gomap"

definition NewWorkspaceStore :: WorkspaceStore where
  "NewWorkspaceStore = \<lparr>bs_bindings = [], bs_byRound = []\<rparr>"

definition workspaceNotFound :: goerr where
  "workspaceNotFound = kerr CodeNotFound ''workspace binding not found'' False"

definition InsertBinding :: "goerr option \<Rightarrow> WorkspaceStore \<Rightarrow> Binding \<Rightarrow> goerr option \<times> WorkspaceStore" where
  "InsertBinding ctx s binding =
     (let key = (wb_TaskID binding, wb_Generation binding) in
      case first_err [ctx, fail_if (mget (bs_bindings s) (wb_ID binding) \<noteq> None) IdempotencyConflict,
          fail_if (mget (bs_byRound s) key \<noteq> None) IdempotencyConflict] of
        Some e \<Rightarrow> (Some e, s)
      | None \<Rightarrow> (None, s\<lparr>bs_bindings := mput (wb_ID binding) binding (bs_bindings s), bs_byRound := mput key (wb_ID binding) (bs_byRound s)\<rparr>))"

definition GetBinding :: "goerr option \<Rightarrow> WorkspaceStore \<Rightarrow> BindingRef \<Rightarrow> goerr + Binding" where
  "GetBinding ctx s i = checked ctx (case mget (bs_bindings s) i of None \<Rightarrow> Inl workspaceNotFound | Some binding \<Rightarrow> Inr binding)"

text \<open>\<open>s.bindings[id]\<close>\<close>

definition bindingAt :: "WorkspaceStore \<Rightarrow> BindingRef \<Rightarrow> Binding" where
  "bindingAt s i = (case mget (bs_bindings s) i of Some binding \<Rightarrow> binding | None \<Rightarrow> zeroBinding)"

definition GetByRound :: "goerr option \<Rightarrow> WorkspaceStore \<Rightarrow> TaskID \<Rightarrow> int \<Rightarrow> goerr + Binding option" where
  "GetByRound ctx s taskID generation = checked ctx (Inr (map_option (bindingAt s) (mget (bs_byRound s) (taskID, generation))))"

fun latestLoop :: "WorkspaceStore \<Rightarrow> TaskID \<Rightarrow> Binding option \<Rightarrow> (roundKey \<times> BindingRef) list \<Rightarrow> Binding option" where
  "latestLoop s taskID latest [] = latest"
| "latestLoop s taskID latest (((task, generation), i) # rounds) =
     (if task \<noteq> taskID \<or> (case latest of Some b \<Rightarrow> generation \<le> wb_Generation b | None \<Rightarrow> False)
      then latestLoop s taskID latest rounds
      else latestLoop s taskID (Some (bindingAt s i)) rounds)"

definition GetLatestByTask :: "goerr option \<Rightarrow> WorkspaceStore \<Rightarrow> TaskID \<Rightarrow> goerr + Binding option" where
  "GetLatestByTask ctx s taskID = checked ctx (Inr (latestLoop s taskID None (bs_byRound s)))"

definition GetByInvocation :: "goerr option \<Rightarrow> WorkspaceStore \<Rightarrow> InvocationID \<Rightarrow> goerr + Binding option" where
  "GetByInvocation ctx s invocationID =
     checked ctx (Inr (List.find (\<lambda>binding. wb_ActiveInvocation binding = invocationID) (mvalues (bs_bindings s))))"

definition invocationElsewhere :: "WorkspaceStore \<Rightarrow> Binding \<Rightarrow> bool" where
  "invocationElsewhere s new \<longleftrightarrow> list_ex (\<lambda>(i, binding). i \<noteq> wb_ID new \<and> wb_ActiveInvocation new \<noteq> ''''
     \<and> wb_ActiveInvocation binding = wb_ActiveInvocation new) (bs_bindings s)"

definition UpdateCAS :: "goerr option \<Rightarrow> WorkspaceStore \<Rightarrow> Binding \<Rightarrow> Revision \<Rightarrow> (goerr + Binding) \<times> WorkspaceStore" where
  "UpdateCAS ctx s new expected =
     (case and_then (checked ctx (case mget (bs_bindings s) (wb_ID new) of None \<Rightarrow> Inl workspaceNotFound | Some current \<Rightarrow> Inr current))
         (\<lambda>current. checked (first_err [CheckExpectedRevision expected (wb_Revision current),
              fail_if (invocationElsewhere s new) (LeaseConflict ''invocation is already bound to another workspace'')])
            (Inr (new\<lparr>wb_Revision := Next (wb_Revision current)\<rparr>))) of
        Inl e \<Rightarrow> (Inl e, s)
      | Inr stored \<Rightarrow> (Inr stored, s\<lparr>bs_bindings := mput (wb_ID stored) stored (bs_bindings s)\<rparr>))"

section \<open>Changing a binding\<close>

definition firstRevision :: "Revision list \<Rightarrow> Revision" where
  "firstRevision values = (case values of [] \<Rightarrow> LatestRevision | v # _ \<Rightarrow> v)"

text \<open>\<open>apply\<close> answers \<open>Inr None\<close> where the code answers that nothing changed.\<close>

definition mutate ::
  "goerr option \<Rightarrow> WorkspaceStore \<Rightarrow> BindingRef \<Rightarrow> Revision \<Rightarrow> (Binding \<Rightarrow> goerr + Binding option) \<Rightarrow> (goerr + Binding) \<times> WorkspaceStore" where
  "mutate ctx s i expected0 app =
     (case checked (fail_if (i = '''') (InvalidArgument ''binding_ref is required'')) (GetBinding ctx s i) of
        Inl e \<Rightarrow> (Inl e, s)
      | Inr binding \<Rightarrow>
          (case app binding of
             Inl e \<Rightarrow> (Inl e, s)
           | Inr None \<Rightarrow> (Inr binding, s)
           | Inr (Some new) \<Rightarrow>
               let expected = (if expected0 = LatestRevision then wb_Revision binding else expected0) in
               (case CheckExpectedRevision expected (wb_Revision binding) of
                  Some e \<Rightarrow> (Inl e, s)
                | None \<Rightarrow> UpdateCAS ctx s new expected)))"

definition phasePrerequisitesMet :: "Binding \<Rightarrow> WorkspacePhase \<Rightarrow> bool" where
  "phasePrerequisitesMet binding phase =
     (if phase = PhasePlan then True
      else if phase = PhaseExecute then leaseOf binding PhasePlan \<noteq> ''''
      else if phase = PhaseVerify then leaseOf binding PhaseExecute \<noteq> ''''
      else False)"

definition phasePrerequisites :: "WorkspacePhase \<Rightarrow> WorkspacePhase list" where
  "phasePrerequisites phase =
     (if phase = PhasePlan then [] else if phase = PhaseExecute then [PhasePlan]
      else if phase = PhaseVerify then [PhasePlan, PhaseExecute] else [])"

definition phaseArguments :: "WorkspacePhase \<Rightarrow> InvocationID \<Rightarrow> goerr option" where
  "phaseArguments phase invocationID = first_err [fail_if (invocationID = '''') (InvalidArgument ''invocation_id is required''),
     fail_if (\<not> validPhase phase) (InvalidArgument ''invalid phase'')]"

definition bindPhase :: "WorkspacePhase \<Rightarrow> InvocationID \<Rightarrow> Binding \<Rightarrow> goerr + Binding option" where
  "bindPhase phase invocationID binding =
     (if wb_Status binding = StatusSealed then Inl (Forbidden ''workspace binding is sealed'')
      else if wb_ActivePhase binding = phase \<and> wb_ActiveInvocation binding = invocationID then Inr None
      else if leaseOf binding phase \<noteq> '''' then
        (if leaseOf binding phase = invocationID then Inr None
         else Inl (LeaseConflict ''phase already completed by another invocation''))
      else if wb_ActiveInvocation binding \<noteq> '''' then Inl (LeaseConflict ''another phase holds the workspace write lease'')
      else if \<not> phasePrerequisitesMet binding phase then Inl (TransitionRejected ''workspace phase prerequisites are not complete'')
      else Inr (Some (binding\<lparr>wb_ActivePhase := phase, wb_ActiveInvocation := invocationID\<rparr>)))"

definition BindPhase ::
  "goerr option \<Rightarrow> WorkspaceStore \<Rightarrow> BindingRef \<Rightarrow> WorkspacePhase \<Rightarrow> InvocationID \<Rightarrow> Revision list \<Rightarrow> (goerr + Binding) \<times> WorkspaceStore" where
  "BindPhase ctx s i phase invocationID expectedRevision =
     (case phaseArguments phase invocationID of
        Some e \<Rightarrow> (Inl e, s)
      | None \<Rightarrow> mutate ctx s i (firstRevision expectedRevision) (bindPhase phase invocationID))"

definition authorizeWrites :: "string list \<Rightarrow> WriteSet \<Rightarrow> Binding \<Rightarrow> goerr + Binding option" where
  "authorizeWrites allowed normalized binding =
     (if wb_Status binding = StatusSealed then Inl (Forbidden ''workspace binding is sealed'')
      else if wb_ActiveInvocation binding \<noteq> '''' then Inl (LeaseConflict ''cannot change execute write authority while a phase lease is active'')
      else if leaseOf binding PhasePlan = '''' then
        Inl (TransitionRejected ''planner phase must complete before execute write authority is promoted'')
      else if leaseOf binding PhaseExecute \<noteq> '''' then
        (if wb_AllowedDirs binding = allowed \<and> wb_DeclaredWrites binding = normalized then Inr None
         else Inl (LeaseConflict ''execute write authority cannot change after execute completion''))
      else if wb_AllowedDirs binding = allowed \<and> wb_DeclaredWrites binding = normalized then Inr None
      else Inr (Some (binding\<lparr>wb_AllowedDirs := allowed, wb_DeclaredWrites := normalized\<rparr>)))"

definition AuthorizeExecuteWrites ::
  "goerr option \<Rightarrow> WorkspaceStore \<Rightarrow> BindingRef \<Rightarrow> WriteSet \<Rightarrow> Revision list \<Rightarrow> (goerr + Binding) \<times> WorkspaceStore" where
  "AuthorizeExecuteWrites ctx s i declared expectedRevision =
     (case allowedDirsForDeclaredWrites (wr_Files declared) of
        Inl e \<Rightarrow> (Inl e, s)
      | Inr allowed \<Rightarrow>
          (case normalizeWriteSet declared allowed of
             Inl e \<Rightarrow> (Inl e, s)
           | Inr normalized \<Rightarrow> mutate ctx s i (firstRevision expectedRevision) (authorizeWrites allowed normalized)))"

definition finishLease :: "WorkspacePhase \<Rightarrow> InvocationID \<Rightarrow> bool \<Rightarrow> Binding \<Rightarrow> goerr + Binding option" where
  "finishLease phase invocationID complete binding =
     (if complete \<and> wb_ActiveInvocation binding = '''' \<and> leaseOf binding phase = invocationID then Inr None
      else if wb_ActivePhase binding \<noteq> phase \<or> wb_ActiveInvocation binding \<noteq> invocationID then
        Inl (LeaseConflict ''invocation does not hold active phase lease'')
      else Inr (Some (binding\<lparr>wb_PhaseLeases := (if complete then mput phase invocationID (wb_PhaseLeases binding) else wb_PhaseLeases binding),
                              wb_ActivePhase := '''', wb_ActiveInvocation := ''''\<rparr>)))"

definition finishPhaseLease ::
  "goerr option \<Rightarrow> WorkspaceStore \<Rightarrow> BindingRef \<Rightarrow> WorkspacePhase \<Rightarrow> InvocationID \<Rightarrow> Revision \<Rightarrow> bool \<Rightarrow> (goerr + Binding) \<times> WorkspaceStore" where
  "finishPhaseLease ctx s i phase invocationID expected complete =
     (case phaseArguments phase invocationID of
        Some e \<Rightarrow> (Inl e, s)
      | None \<Rightarrow> mutate ctx s i expected (finishLease phase invocationID complete))"

definition ReleasePhase ::
  "goerr option \<Rightarrow> WorkspaceStore \<Rightarrow> BindingRef \<Rightarrow> WorkspacePhase \<Rightarrow> InvocationID \<Rightarrow> Revision list \<Rightarrow> (goerr + Binding) \<times> WorkspaceStore" where
  "ReleasePhase ctx s i phase invocationID expectedRevision = finishPhaseLease ctx s i phase invocationID (firstRevision expectedRevision) False"

definition CompletePhase ::
  "goerr option \<Rightarrow> WorkspaceStore \<Rightarrow> BindingRef \<Rightarrow> WorkspacePhase \<Rightarrow> InvocationID \<Rightarrow> Revision list \<Rightarrow> (goerr + Binding) \<times> WorkspaceStore" where
  "CompletePhase ctx s i phase invocationID expectedRevision = finishPhaseLease ctx s i phase invocationID (firstRevision expectedRevision) True"

definition sealBinding :: "Binding \<Rightarrow> goerr + Binding option" where
  "sealBinding binding =
     (if wb_Status binding = StatusSealed then Inr None
      else if wb_ActiveInvocation binding \<noteq> '''' then Inl (LeaseConflict ''cannot seal a workspace with an active phase lease'')
      else Inr (Some (binding\<lparr>wb_Status := StatusSealed\<rparr>)))"

definition Seal :: "goerr option \<Rightarrow> WorkspaceStore \<Rightarrow> BindingRef \<Rightarrow> Revision list \<Rightarrow> (goerr + Binding) \<times> WorkspaceStore" where
  "Seal ctx s i expectedRevision = mutate ctx s i (firstRevision expectedRevision) sealBinding"

section \<open>Inheriting from the round before\<close>

text \<open>The loop over the prerequisites; the flag says whether the target changed.\<close>

fun inheritLoop :: "bool \<Rightarrow> Binding \<Rightarrow> WorkspacePhase list \<Rightarrow> Binding \<Rightarrow> bool \<Rightarrow> goerr + Binding \<times> bool" where
  "inheritLoop replayingActive source [] target changed = Inr (target, changed)"
| "inheritLoop replayingActive source (prerequisite # rest) target changed =
     (let completed = leaseOf source prerequisite; existing = leaseOf target prerequisite in
      if completed = '''' then Inl (TransitionRejected ''previous workspace phase prerequisites are not complete'')
      else if existing \<noteq> '''' then
        (if existing \<noteq> completed then Inl (LeaseConflict ''workspace prerequisite was inherited from a different invocation'')
         else inheritLoop replayingActive source rest target changed)
      else if replayingActive then Inl (LeaseConflict ''active workspace is missing an inherited phase prerequisite'')
      else inheritLoop replayingActive source rest (target\<lparr>wb_PhaseLeases := mput prerequisite completed (wb_PhaseLeases target)\<rparr>) True)"

text \<open>The changed binding, or nothing.\<close>

definition changedOnly :: "goerr + Binding \<times> bool \<Rightarrow> goerr + Binding option" where
  "changedOnly r = and_then r (\<lambda>(target, changed). Inr (if changed then Some target else None))"

definition inheritPrerequisites :: "Binding \<Rightarrow> WorkspacePhase \<Rightarrow> InvocationID \<Rightarrow> Binding \<Rightarrow> goerr + Binding option" where
  "inheritPrerequisites source phase replayInvocation target =
     (let replayingActive = (wb_ActiveInvocation target \<noteq> '''') in
      checked (first_err
        [fail_if (wb_TaskID target \<noteq> wb_TaskID source \<or> wb_Generation target \<noteq> int64_wrap (wb_Generation source + 1))
           (StaleBinding ''workspace prerequisite source is not the previous Task generation''),
         fail_if (wb_BaseRevision target \<noteq> wb_CurrentRevision source) (StaleBinding ''new workspace is not based on the previous generation revision''),
         fail_if (wb_Status target = StatusSealed) (LeaseConflict ''new workspace is not available for prerequisite inheritance''),
         fail_if (replayingActive \<and> (wb_ActiveInvocation target \<noteq> replayInvocation \<or> wb_ActivePhase target \<noteq> phase))
           (LeaseConflict ''new workspace is not available for prerequisite inheritance'')])
      (changedOnly (inheritLoop replayingActive source (phasePrerequisites phase) target False)))"

definition inheritArguments :: "BindingRef \<Rightarrow> BindingRef \<Rightarrow> goerr option" where
  "inheritArguments targetID sourceID = fail_if (targetID = '''' \<or> sourceID = '''' \<or> targetID = sourceID)
     (InvalidArgument ''distinct source and target workspace bindings are required'')"

definition InheritPhasePrerequisites ::
  "goerr option \<Rightarrow> WorkspaceStore \<Rightarrow> BindingRef \<Rightarrow> BindingRef \<Rightarrow> WorkspacePhase \<Rightarrow> InvocationID list \<Rightarrow> (goerr + Binding) \<times> WorkspaceStore" where
  "InheritPhasePrerequisites ctx s targetID sourceID phase activeInvocation =
     (case checked (first_err [fail_if (\<not> validPhase phase) (InvalidArgument ''invalid phase''),
            fail_if (length activeInvocation > 1) (InvalidArgument ''at most one active invocation may be supplied''),
            fail_if (activeInvocation = ['''']) (InvalidArgument ''active invocation cannot be empty''),
            inheritArguments targetID sourceID])
          (and_then (GetBinding ctx s sourceID) (\<lambda>source.
             checked (fail_if (wb_ActiveInvocation source \<noteq> '''') (LeaseConflict ''previous workspace generation still has an active phase'')) (Inr source))) of
        Inl e \<Rightarrow> (Inl e, s)
      | Inr source \<Rightarrow> mutate ctx s targetID LatestRevision
          (inheritPrerequisites source phase (case activeInvocation of [] \<Rightarrow> '''' | i # _ \<Rightarrow> i)))"

definition inheritPlan :: "Binding \<Rightarrow> Binding \<Rightarrow> goerr + Binding option" where
  "inheritPlan source target =
     checked (first_err
       [fail_if (wb_TaskID target \<noteq> wb_TaskID source \<or> wb_Generation target \<noteq> int64_wrap (wb_Generation source + 1))
          (StaleBinding ''workspace prerequisite source is not the previous Task generation''),
        fail_if (wb_Status target = StatusSealed \<or> wb_ActiveInvocation target \<noteq> '''')
          (LeaseConflict ''new workspace is not available for prerequisite inheritance''),
        fail_if (leaseOf target PhaseExecute \<noteq> '''' \<or> leaseOf target PhaseVerify \<noteq> '''')
          (LeaseConflict ''new workspace already contains later phase completion''),
        fail_if (leaseOf target PhasePlan \<noteq> '''' \<and> leaseOf target PhasePlan \<noteq> leaseOf source PhasePlan)
          (LeaseConflict ''workspace plan prerequisite was inherited from a different invocation'')])
     (let missing = (leaseOf target PhasePlan = '''');
          scope = (wb_DeclaredWrites target \<noteq> wb_DeclaredWrites source \<or> wb_AllowedDirs target \<noteq> wb_AllowedDirs source);
          t1 = (if missing then target\<lparr>wb_PhaseLeases := mput PhasePlan (leaseOf source PhasePlan) (wb_PhaseLeases target)\<rparr> else target);
          t2 = (if scope then t1\<lparr>wb_DeclaredWrites := wb_DeclaredWrites source, wb_AllowedDirs := wb_AllowedDirs source\<rparr> else t1)
      in Inr (if missing \<or> scope then Some t2 else None))"

definition InheritPlanPrerequisite ::
  "goerr option \<Rightarrow> WorkspaceStore \<Rightarrow> BindingRef \<Rightarrow> BindingRef \<Rightarrow> (goerr + Binding) \<times> WorkspaceStore" where
  "InheritPlanPrerequisite ctx s targetID sourceID =
     (case checked (inheritArguments targetID sourceID) (and_then (GetBinding ctx s sourceID) (\<lambda>source.
          checked (first_err
            [fail_if (wb_ActiveInvocation source \<noteq> '''') (LeaseConflict ''previous workspace generation still has an active phase''),
             fail_if (leaseOf source PhasePlan = '''') (TransitionRejected ''previous workspace plan prerequisite is not complete'')]) (Inr source))) of
        Inl e \<Rightarrow> (Inl e, s)
      | Inr source \<Rightarrow> mutate ctx s targetID LatestRevision (inheritPlan source))"

text \<open>The code ranges over a Go map of the two phases; the outcome does not depend on the order.\<close>

fun mergedLoop :: "(WorkspacePhase \<times> InvocationID) list \<Rightarrow> Binding \<Rightarrow> bool \<Rightarrow> goerr + Binding \<times> bool" where
  "mergedLoop [] target changed = Inr (target, changed)"
| "mergedLoop ((phase, invocationID) # rest) target changed =
     (let existing = leaseOf target phase in
      if existing \<noteq> '''' then
        (if existing \<noteq> invocationID then Inl (LeaseConflict ''merged verification prerequisite came from another execution lineage'')
         else mergedLoop rest target changed)
      else mergedLoop rest (target\<lparr>wb_PhaseLeases := mput phase invocationID (wb_PhaseLeases target)\<rparr>) True)"

definition inheritMerged :: "Binding \<Rightarrow> Binding \<Rightarrow> goerr + Binding option" where
  "inheritMerged source target =
     checked (first_err
       [fail_if (wb_TaskID target \<noteq> wb_TaskID source \<or> wb_Generation target \<noteq> int64_wrap (wb_Generation source + 1))
          (StaleBinding ''merged verification workspace is not the next Task generation''),
        fail_if (wb_Status target = StatusSealed \<or> wb_ActiveInvocation target \<noteq> '''') (LeaseConflict ''merged verification workspace is not available''),
        fail_if (leaseOf target PhaseVerify \<noteq> '''') (LeaseConflict ''merged verification workspace is already complete'')])
     (changedOnly (mergedLoop [(PhasePlan, leaseOf source PhasePlan), (PhaseExecute, leaseOf source PhaseExecute)] target False))"

definition InheritMergedVerifyPrerequisites ::
  "goerr option \<Rightarrow> WorkspaceStore \<Rightarrow> BindingRef \<Rightarrow> BindingRef \<Rightarrow> (goerr + Binding) \<times> WorkspaceStore" where
  "InheritMergedVerifyPrerequisites ctx s targetID sourceID =
     (case checked (inheritArguments targetID sourceID) (and_then (GetBinding ctx s sourceID) (\<lambda>source.
          checked (first_err
            [fail_if (wb_ActiveInvocation source \<noteq> '''') (LeaseConflict ''execute workspace still has an active phase''),
             fail_if (leaseOf source PhasePlan = '''' \<or> leaseOf source PhaseExecute = '''')
               (TransitionRejected ''merged verification requires completed plan and execute prerequisites'')]) (Inr source))) of
        Inl e \<Rightarrow> (Inl e, s)
      | Inr source \<Rightarrow> mutate ctx s targetID LatestRevision (inheritMerged source))"

section \<open>Git\<close>

record Materialization =
  mt_Head :: string
  mt_WorktreeCreated :: bool
  mt_BranchCreated :: bool

text \<open>The backend, a parameter: its queries read git's state, \<open>Materialize\<close> and \<open>Remove\<close> change it.\<close>

record 'g GitBackend =
  gb_ResolveRevision :: "'g \<Rightarrow> string \<Rightarrow> string \<Rightarrow> goerr + string"
  gb_Materialize :: "'g \<Rightarrow> Binding \<Rightarrow> (goerr + Materialization) \<times> 'g"
  gb_Remove :: "'g \<Rightarrow> Binding \<Rightarrow> Materialization \<Rightarrow> goerr option \<times> 'g"
  gb_CurrentRevision :: "'g \<Rightarrow> Binding \<Rightarrow> goerr + string"
  gb_ObservedWrites :: "'g \<Rightarrow> Binding \<Rightarrow> goerr + string list"

definition refreshBinding :: "'g GitBackend \<Rightarrow> 'g \<Rightarrow> Binding \<Rightarrow> goerr + Binding option" where
  "refreshBinding git g binding =
     and_then (gb_ObservedWrites git g binding) (\<lambda>files.
     and_then (gb_CurrentRevision git g binding) (\<lambda>current.
       let nextWrites = zeroWriteSet\<lparr>wr_Files := candidateObservedFiles files\<rparr> in
       if wb_ObservedWrites binding = nextWrites \<and> wb_CurrentRevision binding = current then Inr None
       else Inr (Some (binding\<lparr>wb_ObservedWrites := nextWrites, wb_CurrentRevision := current\<rparr>))))"

definition RefreshObservedWrites ::
  "'g GitBackend \<Rightarrow> 'g \<Rightarrow> goerr option \<Rightarrow> WorkspaceStore \<Rightarrow> BindingRef \<Rightarrow> Revision list \<Rightarrow> (goerr + Binding) \<times> WorkspaceStore" where
  "RefreshObservedWrites git g ctx s i expectedRevision = mutate ctx s i (firstRevision expectedRevision) (refreshBinding git g)"

text \<open>The refresh of an agent tool, which holds the binding's lock and passes the binding it read.\<close>

definition refreshLocked ::
  "'g GitBackend \<Rightarrow> 'g \<Rightarrow> goerr option \<Rightarrow> WorkspaceStore \<Rightarrow> Binding \<Rightarrow> (goerr + Binding) \<times> WorkspaceStore" where
  "refreshLocked git g ctx s binding =
     (case refreshBinding git g binding of
        Inl e \<Rightarrow> (Inl e, s)
      | Inr None \<Rightarrow> (Inr binding, s)
      | Inr (Some new) \<Rightarrow> UpdateCAS ctx s new (wb_Revision binding))"

text \<open>The part that \<open>Materialize\<close> and the repeated creation share: the stored head follows git.\<close>

definition followHead :: "goerr option \<Rightarrow> WorkspaceStore \<Rightarrow> Binding \<Rightarrow> Materialization \<Rightarrow> (goerr + Binding) \<times> WorkspaceStore" where
  "followHead ctx s binding materialized =
     (if mt_Head materialized \<noteq> wb_CurrentRevision binding
      then UpdateCAS ctx s (binding\<lparr>wb_CurrentRevision := mt_Head materialized\<rparr>) (wb_Revision binding)
      else (Inr binding, s))"

definition MaterializeBinding ::
  "'g GitBackend \<Rightarrow> goerr option \<Rightarrow> WorkspaceStore \<times> 'g \<Rightarrow> BindingRef \<Rightarrow> (goerr + Binding) \<times> (WorkspaceStore \<times> 'g)" where
  "MaterializeBinding git ctx st i =
     (case st of (s, g) \<Rightarrow>
        (case GetBinding ctx s i of
           Inl e \<Rightarrow> (Inl e, s, g)
         | Inr binding \<Rightarrow>
             (case gb_Materialize git g binding of
                (Inl e, g') \<Rightarrow> (Inl e, s, g')
              | (Inr materialized, g') \<Rightarrow> (case followHead ctx s binding materialized of (r, s') \<Rightarrow> (r, s', g')))))"

section \<open>Creation\<close>

record CreateRequest =
  cq_TaskID :: TaskID
  cq_Generation :: int
  cq_RepoPath :: string
  cq_WorktreeParent :: string
  cq_BaseRevision :: string
  cq_AllowedDirs :: "string list"
  cq_DeclaredWrites :: WriteSet

record fingerprintInput =
  fi_RepositoryPath :: string
  fi_WorktreeParent :: string
  fi_Base :: string
  fi_Allowed :: "string list"
  fi_Declared :: WriteSet

text \<open>The number of bytes of the first rune; a byte that starts no rune counts as one.\<close>

definition contByte :: "nat \<Rightarrow> nat \<Rightarrow> char \<Rightarrow> bool" where
  "contByte lo hi c \<longleftrightarrow> lo \<le> (of_char c :: nat) \<and> (of_char c :: nat) \<le> hi"

definition runeLength :: "string \<Rightarrow> nat" where
  "runeLength s =
     (case s of [] \<Rightarrow> 1 | a # t \<Rightarrow>
        let n = of_char a :: nat;
            cont = (\<lambda>i lo hi. i < length t \<and> contByte lo hi (t ! i)) in
        if 0xC2 \<le> n \<and> n \<le> 0xDF \<and> cont 0 0x80 0xBF then 2
        else if 0xE0 \<le> n \<and> n \<le> 0xEF \<and> cont 0 (if n = 0xE0 then 0xA0 else 0x80) (if n = 0xED then 0x9F else 0xBF) \<and> cont 1 0x80 0xBF then 3
        else if 0xF0 \<le> n \<and> n \<le> 0xF4 \<and> cont 0 (if n = 0xF0 then 0x90 else 0x80) (if n = 0xF4 then 0x8F else 0xBF)
          \<and> cont 1 0x80 0xBF \<and> cont 2 0x80 0xBF then 4
        else 1)"

lemma runeLength_pos [simp]: "0 < runeLength s"
  by (simp add: runeLength_def Let_def split: list.split)

definition plainRune :: "char \<Rightarrow> bool" where
  "plainRune c \<longleftrightarrow> (let n = of_char c :: nat in (97 \<le> n \<and> n \<le> 122) \<or> (48 \<le> n \<and> n \<le> 57)) \<or> c = CHR ''-''"

function sanitizeRunes :: "string \<Rightarrow> string" where
  "sanitizeRunes [] = []"
| "sanitizeRunes (c # s) = (if plainRune c then c else CHR ''-'') # sanitizeRunes (drop (runeLength (c # s)) (c # s))"
  by pat_completeness auto
termination by (relation "measure length") (auto simp: diff_less)

definition trimDashes :: "string \<Rightarrow> string" where
  "trimDashes s = rev (dropWhile (\<lambda>c. c = CHR ''-'') (rev (dropWhile (\<lambda>c. c = CHR ''-'') s)))"

definition sanitizeID :: "string \<Rightarrow> string" where
  "sanitizeID i = trimDashes (sanitizeRunes (ToLower i))"

text \<open>\<open>fmt.Sprintf("%03d", generation)\<close> for a positive generation\<close>

definition pad3 :: "int \<Rightarrow> string" where
  "pad3 n = replicate (3 - length (itoa n)) (CHR ''0'') @ itoa n"

definition bindingIdentity :: "(string \<Rightarrow> string) \<Rightarrow> TaskID \<Rightarrow> int \<Rightarrow> BindingRef \<times> string" where
  "bindingIdentity sha taskID generation =
     (let hash = hexEncode (take 6 (sha taskID)); prefix = take 36 (sanitizeID taskID) in
      (''ws_'' @ prefix @ ''_'' @ hash @ ''_'' @ pad3 generation,
       ''threadmill/'' @ prefix @ ''-'' @ hash @ ''/'' @ pad3 generation))"

definition createFingerprint ::
  "(string \<Rightarrow> string) \<Rightarrow> (fingerprintInput \<Rightarrow> string) \<Rightarrow> string \<Rightarrow> string \<Rightarrow> string \<Rightarrow> string list \<Rightarrow> WriteSet \<Rightarrow> string" where
  "createFingerprint sha json repositoryPath worktreeParent base allowed declared =
     hashBytes sha (json \<lparr>fi_RepositoryPath = repositoryPath, fi_WorktreeParent = Clean worktreeParent, fi_Base = base,
       fi_Allowed = allowed, fi_Declared = declared\<rparr>)"

definition canonicalExistingPath :: "FileSystem \<Rightarrow> string \<Rightarrow> goerr + string" where
  "canonicalExistingPath fs v = and_then (fs_Abs fs v) (\<lambda>absolute. and_then (fs_EvalSymlinks fs absolute) (\<lambda>resolved. Inr (Clean resolved)))"

text \<open>\<open>errors.Join\<close>: the first coded error is the one \<open>errors.As\<close> finds.\<close>

definition joinErr :: "goerr \<Rightarrow> goerr \<Rightarrow> goerr" where
  "joinErr a b = (case a of Coded e \<Rightarrow> Coded e
     | Plain t \<Rightarrow> (case b of Coded e \<Rightarrow> Coded e | Plain u \<Rightarrow> Plain (t @ [CHR 10] @ u)))"

definition newBinding ::
  "(string \<Rightarrow> string) \<Rightarrow> (fingerprintInput \<Rightarrow> string) \<Rightarrow> CreateRequest \<Rightarrow> string \<Rightarrow> string \<Rightarrow> string \<Rightarrow> string list \<Rightarrow> WriteSet \<Rightarrow> Binding" where
  "newBinding sha json req repositoryPath worktreeParent base allowed declared =
     (case bindingIdentity sha (cq_TaskID req) (cq_Generation req) of (i, branch) \<Rightarrow>
        zeroBinding\<lparr>wb_ID := i, wb_Revision := 1, wb_TaskID := cq_TaskID req, wb_Generation := cq_Generation req, wb_Kind := KindGitWorktree,
          wb_Root := pathJoin [worktreeParent, i], wb_BranchName := branch, wb_BaseRevision := base, wb_CurrentRevision := base,
          wb_AllowedDirs := allowed, wb_DeclaredWrites := declared, wb_PhaseLeases := [], wb_Status := StatusPrepared,
          wb_RepositoryPath := repositoryPath,
          wb_CreationFingerprint := createFingerprint sha json repositoryPath worktreeParent base allowed declared\<rparr>)"

definition rollbackCreate :: "'g GitBackend \<Rightarrow> 'g \<Rightarrow> Binding \<Rightarrow> Materialization \<Rightarrow> goerr \<Rightarrow> goerr \<times> 'g" where
  "rollbackCreate git g binding materialized cause =
     (case gb_Remove git g binding materialized of
        (Some rollbackErr, g') \<Rightarrow> (joinErr cause (wrapErr ''rollback workspace materialization'' rollbackErr), g')
      | (None, g') \<Rightarrow> (cause, g'))"

text \<open>The checks before the lock of the round is taken.\<close>

definition createArguments :: "FileSystem \<Rightarrow> CreateRequest \<Rightarrow> goerr + string \<times> string \<times> string list \<times> WriteSet" where
  "createArguments fs req =
     checked (first_err [RequireID ''task_id'' (cq_TaskID req),
         fail_if (cq_Generation req \<le> 0) (InvalidArgument ''generation must be positive''),
         fail_if (cq_RepoPath req = '''' \<or> cq_WorktreeParent req = '''') (InvalidArgument ''repo_path and worktree_parent are required'')])
       (case canonicalExistingPath fs (cq_RepoPath req) of
          Inl e \<Rightarrow> Inl (wrapErr ''resolve repository path'' e)
        | Inr repositoryPath \<Rightarrow>
            (case fs_Abs fs (cq_WorktreeParent req) of
               Inl e \<Rightarrow> Inl (wrapErr ''resolve worktree parent'' e)
             | Inr worktreeParent \<Rightarrow>
                 and_then (normalizeAllowedDirs (cq_AllowedDirs req)) (\<lambda>allowed.
                 and_then (normalizeWriteSet (cq_DeclaredWrites req) allowed) (\<lambda>declared.
                   Inr (repositoryPath, worktreeParent, allowed, declared)))))"

definition createExisting ::
  "(string \<Rightarrow> string) \<Rightarrow> (fingerprintInput \<Rightarrow> string) \<Rightarrow> 'g GitBackend \<Rightarrow> goerr option \<Rightarrow> WorkspaceStore \<Rightarrow> 'g \<Rightarrow> CreateRequest \<Rightarrow>
   string \<Rightarrow> string \<Rightarrow> string list \<Rightarrow> WriteSet \<Rightarrow> Binding \<Rightarrow> (goerr + Binding) \<times> (WorkspaceStore \<times> 'g)" where
  "createExisting sha json git ctx s g req repositoryPath worktreeParent allowed declared existing =
     (case (if cq_BaseRevision req \<noteq> '''' then gb_ResolveRevision git g repositoryPath (cq_BaseRevision req) else Inr (wb_BaseRevision existing)) of
        Inl e \<Rightarrow> (Inl e, s, g)
      | Inr base \<Rightarrow>
          if wb_CreationFingerprint existing \<noteq> createFingerprint sha json repositoryPath worktreeParent base allowed declared
          then (Inl IdempotencyConflict, s, g)
          else (case gb_Materialize git g existing of
             (Inl e, g') \<Rightarrow> (Inl e, s, g')
           | (Inr materialized, g') \<Rightarrow> (case followHead ctx s existing materialized of (r, s') \<Rightarrow> (r, s', g'))))"

definition createNew ::
  "(string \<Rightarrow> string) \<Rightarrow> (fingerprintInput \<Rightarrow> string) \<Rightarrow> 'g GitBackend \<Rightarrow> ('g \<Rightarrow> goerr option \<times> 'g) \<Rightarrow> goerr option \<Rightarrow> WorkspaceStore \<Rightarrow> 'g \<Rightarrow>
   CreateRequest \<Rightarrow> string \<Rightarrow> string \<Rightarrow> string list \<Rightarrow> WriteSet \<Rightarrow> (goerr + Binding) \<times> (WorkspaceStore \<times> 'g)" where
  "createNew sha json git hook ctx s g req repositoryPath worktreeParent allowed declared =
     (case gb_ResolveRevision git g repositoryPath (cq_BaseRevision req) of
        Inl e \<Rightarrow> (Inl e, s, g)
      | Inr base \<Rightarrow>
          let binding0 = newBinding sha json req repositoryPath worktreeParent base allowed declared in
          (case gb_Materialize git g binding0 of
             (Inl e, g1) \<Rightarrow> (Inl e, s, g1)
           | (Inr materialized, g1) \<Rightarrow>
               let binding = binding0\<lparr>wb_CurrentRevision := mt_Head materialized\<rparr> in
               (case hook g1 of
                  (Some e, g2) \<Rightarrow>
                    (case rollbackCreate git g2 binding materialized (wrapErr ''after worktree add'' e) of (err, g3) \<Rightarrow> (Inl err, s, g3))
                | (None, g2) \<Rightarrow>
                    (case InsertBinding ctx s binding of
                       (Some e, s') \<Rightarrow> (case rollbackCreate git g2 binding materialized e of (err, g3) \<Rightarrow> (Inl err, s', g3))
                     | (None, s') \<Rightarrow> (Inr binding, s', g2)))))"

text \<open>The hook is \<open>AfterWorktreeAdd\<close>, which does nothing when it is \<open>nil\<close>.\<close>

definition CreateGitWorktree ::
  "(string \<Rightarrow> string) \<Rightarrow> (fingerprintInput \<Rightarrow> string) \<Rightarrow> FileSystem \<Rightarrow> 'g GitBackend \<Rightarrow> ('g \<Rightarrow> goerr option \<times> 'g) \<Rightarrow> goerr option \<Rightarrow>
   WorkspaceStore \<times> 'g \<Rightarrow> CreateRequest \<Rightarrow> (goerr + Binding) \<times> (WorkspaceStore \<times> 'g)" where
  "CreateGitWorktree sha json fs git hook ctx st req =
     (case st of (s, g) \<Rightarrow>
        (case createArguments fs req of
           Inl e \<Rightarrow> (Inl e, s, g)
         | Inr (repositoryPath, worktreeParent, allowed, declared) \<Rightarrow>
             (case GetByRound ctx s (cq_TaskID req) (cq_Generation req) of
                Inl e \<Rightarrow> (Inl e, s, g)
              | Inr (Some existing) \<Rightarrow> createExisting sha json git ctx s g req repositoryPath worktreeParent allowed declared existing
              | Inr None \<Rightarrow> createNew sha json git hook ctx s g req repositoryPath worktreeParent allowed declared)))"

section \<open>Agent tools\<close>

text \<open>The binding a tool call of an invocation works on, under the binding's lock.\<close>

definition withInvocation :: "goerr option \<Rightarrow> WorkspaceStore \<Rightarrow> InvocationID \<Rightarrow> goerr + Binding" where
  "withInvocation ctx s invocationID =
     checked (fail_if (invocationID = '''') (InvalidArgument ''invocation_id is required''))
       (and_then (GetByInvocation ctx s invocationID) (\<lambda>found.
          case found of
            None \<Rightarrow> Inl (StaleBinding ''invocation has no active workspace phase lease'')
          | Some binding \<Rightarrow>
              and_then (GetByInvocation ctx s invocationID) (\<lambda>current.
                case current of
                  None \<Rightarrow> Inl (StaleBinding ''invocation workspace phase lease is no longer active'')
                | Some cur \<Rightarrow> if wb_ID cur \<noteq> wb_ID binding \<or> wb_Status cur = StatusSealed
                    then Inl (StaleBinding ''invocation workspace phase lease is no longer active'') else Inr cur)))"

definition maxWorkspaceWriteBytes :: int where
  "maxWorkspaceWriteBytes = 4 * 1024 * 1024"

text \<open>The guards of \<open>workspace.write\<close> and \<open>workspace.write_plan\<close>: the file they will replace.\<close>

definition writeTarget :: "FileSystem \<Rightarrow> goerr option \<Rightarrow> WorkspaceStore \<Rightarrow> InvocationID \<Rightarrow> WorkspacePhase \<Rightarrow> string \<Rightarrow> string \<Rightarrow> goerr + string" where
  "writeTarget fs ctx s invocationID requiredPhase path content =
     checked (fail_if (int (length content) > maxWorkspaceWriteBytes) (Forbidden ''workspace write exceeds size limit''))
       (and_then (withInvocation ctx s invocationID) (\<lambda>binding.
          checked (fail_if (wb_ActivePhase binding \<noteq> requiredPhase) (Forbidden ''workspace write tool is not allowed for the active phase''))
            (ResolveWritePath fs binding requiredPhase path)))"

definition validateObservedForPhase :: "Binding \<Rightarrow> WorkspacePhase \<Rightarrow> goerr option" where
  "validateObservedForPhase binding phase = check_all (\<lambda>file. fail_if (\<not> phaseAllows binding phase file)
     (Forbidden ''workspace command wrote outside the active phase boundary'')) (wr_Files (wb_ObservedWrites binding))"

end
