(* ===== verification/Merge_Reconciler.thy ===== *)
theory Merge_Reconciler
  imports Merge_Queue Workspace
begin

text \<open>
  \<open>internal/mergequeue/reconciler.go\<close>: the worker that takes one candidate through merge check, targeted verify and the
  push, on top of the store, the artifact registry and the event log, and the part of \<open>git_merge.go\<close> that
  writes and inspects the target branch. Git commands, the preparation of the disposable clone and the
  verifier are parameters. The context and the clock are asked at several places of a call; \<open>re_ctx\<close> and
  \<open>re_now\<close> give their answers by place, so that a context can expire between any two of them. The renewal that
  runs beside the verifier is a number of renewals before it is stopped: nothing else touches the store meanwhile.
\<close>

section \<open>Errors and data of the backend\<close>

datatype mergeErr = backendFailure FailureReason goerr | pushCASDriftError goerr | ambiguousPushError goerr | otherError goerr

text \<open>\<open>Unwrap\<close>\<close>

fun errOf :: "mergeErr \<Rightarrow> goerr" where
  "errOf (backendFailure _ e) = e"
| "errOf (pushCASDriftError e) = e"
| "errOf (ambiguousPushError e) = e"
| "errOf (otherError e) = e"

definition failureReason :: "mergeErr \<Rightarrow> FailureReason \<Rightarrow> FailureReason" where
  "failureReason err fallback = (case err of
     pushCASDriftError _ \<Rightarrow> FailureMainDrift
   | backendFailure reason _ \<Rightarrow> if validFailureReason reason then reason else fallback
   | _ \<Rightarrow> fallback)"

definition isPushCASDrift :: "mergeErr \<Rightarrow> bool" where
  "isPushCASDrift err \<longleftrightarrow> (case err of pushCASDriftError _ \<Rightarrow> True | _ \<Rightarrow> False)"

text \<open>The fields that the reconciler and the push read; the verifier's baseline is private to the preparation.\<close>

record PreparedMerge =
  pm_Root :: string
  pm_TargetRepository :: string
  pm_TargetBranch :: string
  pm_LatestMainRevision :: string
  pm_CandidateRevision :: string
  pm_AlreadyMerged :: bool
  pm_NeedsResolution :: bool
  pm_ConflictPaths :: "string list"
  pm_AllowedWritePaths :: "string list"

record TargetedVerifyRequest =
  tr_Candidate :: Candidate
  tr_WorkspaceRoot :: string
  tr_LatestMainRevision :: string
  tr_AllowedWritePaths :: "string list"
  tr_ConflictPaths :: "string list"

record TargetedVerifyResult =
  tv_Passed :: bool
  tv_EvidenceRefs :: "ArtifactID list"

text \<open>The message of an error, as far as the backend reads it.\<close>

definition errText :: "goerr \<Rightarrow> string" where
  "errText e = (case e of Coded k \<Rightarrow> err_Message k | Plain t \<Rightarrow> t)"

section \<open>Git\<close>

text \<open>A git command in a directory: its output, or the error of \<open>gitRun\<close> with the output in its text.\<close>

type_synonym 'g git = "'g \<Rightarrow> string \<Rightarrow> string list \<Rightarrow> (goerr + string) \<times> 'g"

definition isCheckedOutBranchPushRefusal :: "goerr \<Rightarrow> bool" where
  "isCheckedOutBranchPushRefusal e \<longleftrightarrow> Contains (errText e) ''branch is currently checked out'' \<or> Contains (errText e) ''refusing to update checked out branch''"

definition branchRef :: "string \<Rightarrow> string" where
  "branchRef branch = ''refs/heads/'' @ branch"

definition pushToCheckedOutLocalRepository :: "'g git \<Rightarrow> 'g \<Rightarrow> PreparedMerge \<Rightarrow> string \<Rightarrow> mergeErr option \<times> 'g" where
  "pushToCheckedOutLocalRepository git g prepared expected =
     (case git g (pm_TargetRepository prepared) [''rev-parse'', branchRef (pm_TargetBranch prepared)] of
        (Inl e, g1) \<Rightarrow> (Some (otherError e), g1)
      | (Inr latest, g1) \<Rightarrow>
          if TrimSpace latest \<noteq> pm_LatestMainRevision prepared then
            (Some (pushCASDriftError (Plain (''main advanced from '' @ pm_LatestMainRevision prepared @ '' to '' @ TrimSpace latest))), g1)
          else (case git g1 (pm_TargetRepository prepared) [''fetch'', ''--quiet'', pm_Root prepared, expected] of
             (Inl e, g2) \<Rightarrow> (Some (otherError e), g2)
           | (Inr _, g2) \<Rightarrow>
               (case git g2 (pm_TargetRepository prepared) [''reset'', ''--hard'', expected] of
                  (Inl e, g3) \<Rightarrow> (Some (otherError e), g3)
                | (Inr _, g3) \<Rightarrow> (None, g3))))"

text \<open>\<open>pushErrorAfterSuccess\<close> is a hook of the tests and \<open>nil\<close> in the program.\<close>

definition PushExact :: "'g git \<Rightarrow> 'g \<Rightarrow> PreparedMerge \<Rightarrow> string \<Rightarrow> mergeErr option \<times> 'g" where
  "PushExact git g prepared expected =
     (if TrimSpace expected = '''' then (Some (backendFailure FailureConflict (Plain ''expected merged revision is required'')), g)
      else case git g (pm_TargetRepository prepared) [''rev-parse'', branchRef (pm_TargetBranch prepared)] of
        (Inl e, g1) \<Rightarrow> (Some (ambiguousPushError e), g1)
      | (Inr out, g1) \<Rightarrow>
          let latest = TrimSpace out in
          if latest \<noteq> pm_LatestMainRevision prepared then
            (Some (pushCASDriftError (Plain (''main advanced from '' @ pm_LatestMainRevision prepared @ '' to '' @ latest))), g1)
          else if pm_AlreadyMerged prepared \<and> expected = latest then (None, g1)
          else (case git g1 (pm_Root prepared) [''rev-parse'', ''HEAD''] of
             (Inl e, g2) \<Rightarrow> (Some (ambiguousPushError e), g2)
           | (Inr actual, g2) \<Rightarrow>
               if TrimSpace actual \<noteq> expected then
                 (Some (ambiguousPushError (Plain (''prepared merge commit changed from '' @ expected @ '' to '' @ TrimSpace actual))), g2)
               else (case git g2 (pm_Root prepared) [''push'', ''--porcelain'', pm_TargetRepository prepared, expected @ '':'' @ branchRef (pm_TargetBranch prepared)] of
                  (Inr _, g3) \<Rightarrow> (None, g3)
                | (Inl e, g3) \<Rightarrow>
                    if isCheckedOutBranchPushRefusal e then
                      (case pushToCheckedOutLocalRepository git g3 prepared expected of
                         (None, g4) \<Rightarrow> (None, g4)
                       | (Some _, g4) \<Rightarrow> (Some (ambiguousPushError e), g4))
                    else (Some (ambiguousPushError e), g3))))"

definition ContainsRevision :: "'g git \<Rightarrow> 'g \<Rightarrow> string \<Rightarrow> string \<Rightarrow> string \<Rightarrow> (mergeErr + bool) \<times> 'g" where
  "ContainsRevision git g targetRepository targetBranch revision =
     (if TrimSpace revision = '''' then (Inl (backendFailure FailureConflict (Plain ''revision is required'')), g)
      else
        let branch = (if targetBranch = '''' then ''main'' else targetBranch) in
        (case git g targetRepository [''cat-file'', ''-e'', revision @ ''^{commit}''] of
           (Inl _, g1) \<Rightarrow> (Inr False, g1)
         | (Inr _, g1) \<Rightarrow>
             (case git g1 targetRepository [''merge-base'', ''--is-ancestor'', revision, branchRef branch] of
                (Inr _, g2) \<Rightarrow> (Inr True, g2)
              | (Inl e, g2) \<Rightarrow>
                  if Contains (errText e) ''exit status 1'' then (Inr False, g2)
                  else (case git g2 targetRepository [''rev-parse'', branchRef branch] of
                     (Inl refErr, g3) \<Rightarrow> (Inl (backendFailure FailureMainDrift refErr), g3)
                   | (Inr _, g3) \<Rightarrow> (Inr False, g3)))))"

section \<open>Environment and state\<close>

record 'g ReconcilerEnv =
  re_ctx :: "nat \<Rightarrow> goerr option"
  re_now :: "nat \<Rightarrow> int"
  re_fs :: FileSystem
  re_token :: string
  re_renewals :: nat
  re_sha :: "string \<Rightarrow> string"
  re_marshal :: "(string, string) gomap \<Rightarrow> goerr + string"
  re_canonical :: "string AppendEvent \<Rightarrow> goerr + string"
  re_failureJSON :: "CandidateID \<Rightarrow> FailureReason \<Rightarrow> mergeErr \<Rightarrow> string"
  re_workspaces :: "BindingRef \<Rightarrow> goerr + Binding"
  re_git :: "'g git"
  re_Prepare :: "'g \<Rightarrow> Candidate \<Rightarrow> Binding \<Rightarrow> (mergeErr + PreparedMerge) \<times> 'g"
  re_Verify :: "'g \<Rightarrow> TargetedVerifyRequest \<Rightarrow> (TargetedVerifyResult \<times> mergeErr option) \<times> 'g"
  re_CreateMergeCommit :: "'g \<Rightarrow> PreparedMerge \<Rightarrow> Candidate \<Rightarrow> (mergeErr + string) \<times> 'g"
  re_Cleanup :: "'g \<Rightarrow> PreparedMerge \<Rightarrow> 'g"

record 'g Reconciler =
  rc_store :: MergeStore
  rc_registry :: ArtifactRegistry
  rc_objects :: ObjectMemoryStore
  rc_events :: EventLog
  rc_git :: 'g

definition zeroCandidate :: Candidate where
  "zeroCandidate = \<lparr>mc_ID = '''', mc_ProjectID = '''', mc_TaskID = '''', mc_WorkspaceRef = '''', mc_VerifyResultRef = '''', mc_DiffArtifactRef = '''',
     mc_TargetRepository = '''', mc_TargetBranch = '''', mc_BaseRevision = '''', mc_MainRevision = '''', mc_CandidateRevision = '''',
     mc_Status = '''', mc_FailureReason = '''', mc_MergedRevision = '''', mc_EvidenceRefs = [], mc_CreatedAt = 0, mc_UpdatedAt = 0\<rparr>"

definition zeroClaim :: Claim where
  "zeroClaim = \<lparr>cl_Candidate = zeroCandidate, cl_OwnerID = '''', cl_Token = '''', cl_ExpiresAt = 0\<rparr>"

section \<open>Checks and audits\<close>

definition withinAllowed :: "string \<Rightarrow> string list \<Rightarrow> bool" where
  "withinAllowed file allowed \<longleftrightarrow> list_ex (\<lambda>dir0. let dir = trimSlashes (Clean (slashes dir0)) in
     dir \<noteq> '''' \<and> (file = dir \<or> HasPrefix file (dir @ ''/''))) allowed"

definition declaredInside :: "Binding \<Rightarrow> string \<Rightarrow> bool" where
  "declaredInside binding file \<longleftrightarrow> (let clean = Clean (slashes file) in
     \<not> (clean = ''.'' \<or> clean = ''..'' \<or> HasPrefix clean ''../'' \<or> IsAbs clean \<or> \<not> withinAllowed clean (wb_AllowedDirs binding)))"

definition validateWorkspace :: "Candidate \<Rightarrow> Binding \<Rightarrow> goerr option" where
  "validateWorkspace candidate binding = first_err
     [fail_if (wb_ID binding \<noteq> mc_WorkspaceRef candidate \<or> wb_TaskID binding \<noteq> mc_TaskID candidate) (Forbidden ''candidate does not own workspace binding''),
      fail_if (wb_Status binding \<noteq> StatusSealed) (Forbidden ''candidate workspace must be sealed''),
      fail_if (wb_ActivePhase binding \<noteq> '''' \<or> wb_ActiveInvocation binding \<noteq> '''') (Forbidden ''candidate workspace still has an active phase lease''),
      fail_if (leaseOf binding PhaseExecute = '''') (Forbidden ''candidate workspace has no completed execute phase''),
      fail_if (wb_BaseRevision binding \<noteq> mc_BaseRevision candidate \<or> wb_CurrentRevision binding \<noteq> mc_CandidateRevision candidate)
        (Forbidden ''candidate revisions do not match sealed workspace''),
      fail_if (wr_Files (wb_DeclaredWrites binding) = []) (Forbidden ''candidate workspace has no declared code writes''),
      check_all (\<lambda>file. fail_if (\<not> declaredInside binding file) (Forbidden ''declared write is outside allowed dirs'')) (wr_Files (wb_DeclaredWrites binding))]"

definition candidateArtifacts :: "Candidate \<Rightarrow> ArtifactID list" where
  "candidateArtifacts candidate = dedupeEvidence ([mc_VerifyResultRef candidate, mc_DiffArtifactRef candidate] @ mc_EvidenceRefs candidate)"

definition mergeSucceededAudit :: "Candidate \<Rightarrow> string \<Rightarrow> string \<Rightarrow> ArtifactID list \<Rightarrow> auditRecord" where
  "mergeSucceededAudit candidate mergedRevision mainRevision refs =
     \<lparr>ad_StableKey = ''merge-candidate:'' @ mc_ID candidate @ '':merged'', ad_Type = ''MergeCandidateMerged'',
      ad_ProjectID = mc_ProjectID candidate, ad_TaskID = mc_TaskID candidate, ad_WorkspaceRef = mc_WorkspaceRef candidate,
      ad_Payload = [(''candidate_id'', mc_ID candidate), (''merged_revision'', mergedRevision), (''main_revision'', mainRevision)],
      ad_ArtifactRefs = dedupeEvidence (candidateArtifacts candidate @ refs), ad_Delivered = False\<rparr>"

definition failedAudit :: "Candidate \<Rightarrow> FailureReason \<Rightarrow> ArtifactID list \<Rightarrow> auditRecord" where
  "failedAudit candidate reason refs =
     \<lparr>ad_StableKey = ''merge-candidate:'' @ mc_ID candidate @ '':failed:'' @ reason, ad_Type = ''MergeCandidateFailed'',
      ad_ProjectID = mc_ProjectID candidate, ad_TaskID = mc_TaskID candidate, ad_WorkspaceRef = mc_WorkspaceRef candidate,
      ad_Payload = [(''candidate_id'', mc_ID candidate), (''reason'', reason)],
      ad_ArtifactRefs = dedupeEvidence (candidateArtifacts candidate @ refs), ad_Delivered = False\<rparr>"

definition queuedAudit :: "EnqueueRequest \<Rightarrow> auditRecord" where
  "queuedAudit req =
     \<lparr>ad_StableKey = ''merge-candidate:'' @ eq_ID req @ '':queued'', ad_Type = ''MergeCandidateQueued'', ad_ProjectID = eq_ProjectID req,
      ad_TaskID = eq_TaskID req, ad_WorkspaceRef = eq_WorkspaceRef req,
      ad_Payload = [(''candidate_id'', eq_ID req), (''main_revision'', eq_MainRevision req)],
      ad_ArtifactRefs = requestEvidence req, ad_Delivered = False\<rparr>"

definition auditEvent :: "auditRecord \<Rightarrow> (string, string) gomap AppendEvent" where
  "auditEvent audit = \<lparr>ae_StableKey = ad_StableKey audit, ae_Type = ad_Type audit, ae_ProjectID = ad_ProjectID audit, ae_TaskID = ad_TaskID audit,
     ae_WorkspaceRef = ad_WorkspaceRef audit, ae_PhaseEndpoint = '''', ae_AgentInvocationID = '''', ae_Payload = Some (ad_Payload audit),
     ae_ArtifactRefs = ad_ArtifactRefs audit, ae_GraphRevision = 0\<rparr>"

fun flushLoop :: "'g ReconcilerEnv \<Rightarrow> auditRecord list \<Rightarrow> 'g Reconciler \<Rightarrow> goerr option \<times> 'g Reconciler" where
  "flushLoop env [] st = (None, st)"
| "flushLoop env (audit # audits) st =
     (case AppendTo (re_sha env) (re_marshal env) (re_canonical env) (re_ctx env 20) (re_now env 20) (rc_events st) (auditEvent audit) of
        (Inl e, events) \<Rightarrow> (Some e, st\<lparr>rc_events := events\<rparr>)
      | (Inr _, events) \<Rightarrow>
          (case markAuditDelivered (re_ctx env 21) (rc_store st) (ad_StableKey audit) of
             (Some e, s) \<Rightarrow> (Some e, st\<lparr>rc_events := events, rc_store := s\<rparr>)
           | (None, s) \<Rightarrow> flushLoop env audits (st\<lparr>rc_events := events, rc_store := s\<rparr>)))"

definition flushAudits :: "'g ReconcilerEnv \<Rightarrow> 'g Reconciler \<Rightarrow> ProjectID \<Rightarrow> goerr option \<times> 'g Reconciler" where
  "flushAudits env st projectID =
     (case pendingAudits (re_ctx env 19) (rc_store st) projectID 64 of
        Inl e \<Rightarrow> (Some e, st)
      | Inr audits \<Rightarrow> flushLoop env audits st)"

section \<open>Enqueue\<close>

definition taskPrincipal :: "ProjectID \<Rightarrow> TaskID \<Rightarrow> EvidencePrincipal" where
  "taskPrincipal projectID taskID = \<lparr>evp_Role = EvidenceTaskManager, evp_ProjectID = projectID, evp_TaskID = taskID\<rparr>"

definition EnqueueCandidate :: "'g ReconcilerEnv \<Rightarrow> 'g Reconciler \<Rightarrow> EnqueueRequest \<Rightarrow> (goerr + Candidate) \<times> 'g Reconciler" where
  "EnqueueCandidate env st req =
     (if \<not> list_all (CanRead (rc_registry st) (taskPrincipal (eq_ProjectID req) (eq_TaskID req))) (requestEvidence req)
      then (Inl (Forbidden ''merge candidate evidence is not readable in task scope''), st)
      else case enqueue (re_fs env) (re_ctx env 0) (re_now env 0) (rc_store st) req (queuedAudit req) of
        (Inl e, s) \<Rightarrow> (Inl e, st\<lparr>rc_store := s\<rparr>)
      | (Inr candidate, s) \<Rightarrow>
          (case flushAudits env (st\<lparr>rc_store := s\<rparr>) (eq_ProjectID req) of
             (Some e, st') \<Rightarrow> (Inl e, st')
           | (None, st') \<Rightarrow> (Inr candidate, st')))"

section \<open>Failing and finishing a candidate\<close>

definition failureArtifact :: "'g ReconcilerEnv \<Rightarrow> Candidate \<Rightarrow> FailureReason \<Rightarrow> mergeErr \<Rightarrow> RegisterArtifact" where
  "failureArtifact env candidate reason cause =
     \<lparr>ra_Type = ArtifactGeneratedReport, ra_ProjectID = mc_ProjectID candidate, ra_Path = pathJoin [''merge'', mc_ID candidate, ''failure.json''],
      ra_ContentType = ''application/json'', ra_Body = re_failureJSON env (mc_ID candidate) reason cause, ra_TaskID = mc_TaskID candidate,
      ra_AgentInvocationID = ''''\<rparr>"

definition failMerge ::
  "'g ReconcilerEnv \<Rightarrow> 'g Reconciler \<Rightarrow> Claim \<Rightarrow> Candidate \<Rightarrow> MergeStatus \<Rightarrow> FailureReason \<Rightarrow> mergeErr \<Rightarrow> ArtifactID list \<Rightarrow>
   (Candidate \<times> goerr option) \<times> 'g Reconciler" where
  "failMerge env st claim candidate from reason cause extraEvidence =
     (case Register (re_sha env) (ObjectPut (re_sha env)) (re_ctx env 16) (re_now env 16) (rc_registry st) (rc_objects st)
            (failureArtifact env candidate reason cause) of
        (Inl e, registry, objects) \<Rightarrow> ((zeroCandidate, Some e), st\<lparr>rc_registry := registry, rc_objects := objects\<rparr>)
      | (Inr artifact, registry, objects) \<Rightarrow>
          let refs = dedupeEvidence (extraEvidence @ [art_ID artifact]); st1 = st\<lparr>rc_registry := registry, rc_objects := objects\<rparr> in
          (case failCandidate (re_ctx env 17) (re_now env 17) (rc_store st1) claim from reason refs (failedAudit candidate reason refs) of
             (Inl e, s) \<Rightarrow> ((zeroCandidate, Some e), st1\<lparr>rc_store := s\<rparr>)
           | (Inr failed, s) \<Rightarrow>
               (case flushAudits env (st1\<lparr>rc_store := s\<rparr>) (mc_ProjectID candidate) of (err, st2) \<Rightarrow> ((failed, err), st2))))"

definition manualRecovery :: goerr where
  "manualRecovery = kerr CodeTransitionRejected ''merge operation requires manual recovery before new claims'' True"

definition finishMerge ::
  "'g ReconcilerEnv \<Rightarrow> 'g Reconciler \<Rightarrow> mergeOperation \<Rightarrow> (Candidate \<Rightarrow> ProjectID) \<Rightarrow> (Candidate \<times> bool \<times> goerr option) \<times> 'g Reconciler" where
  "finishMerge env st op project =
     (case finalizeMergeOperation (re_ctx env 11) (re_now env 11) (rc_store st) op of
        (Inl e, s) \<Rightarrow> ((zeroCandidate, True, Some e), st\<lparr>rc_store := s\<rparr>)
      | (Inr merged, s) \<Rightarrow>
          (case flushAudits env (st\<lparr>rc_store := s\<rparr>) (project merged) of (err, st') \<Rightarrow> ((merged, True, err), st')))"

definition blockMerge ::
  "'g ReconcilerEnv \<Rightarrow> 'g Reconciler \<Rightarrow> mergeOperation \<Rightarrow> string \<Rightarrow> (Candidate \<times> bool \<times> goerr option) \<times> 'g Reconciler" where
  "blockMerge env st op reason =
     (case markMergeOperationRecoveryRequired (re_ctx env 12) (rc_store st) op reason of
        (Inl e, s) \<Rightarrow> ((zeroCandidate, True, Some e), st\<lparr>rc_store := s\<rparr>)
      | (Inr blocked, s) \<Rightarrow> ((blocked, True, Some manualRecovery), st\<lparr>rc_store := s\<rparr>))"

definition recoverPendingMergeOperation ::
  "'g ReconcilerEnv \<Rightarrow> 'g Reconciler \<Rightarrow> string \<Rightarrow> (Candidate \<times> bool \<times> goerr option) \<times> 'g Reconciler" where
  "recoverPendingMergeOperation env st targetRepository =
     (case pendingMergeOperation (re_fs env) (re_ctx env 1) (rc_store st) targetRepository of
        Inl e \<Rightarrow> ((zeroCandidate, False, Some e), st)
      | Inr None \<Rightarrow> ((zeroCandidate, False, None), st)
      | Inr (Some op) \<Rightarrow>
          (case GetCandidate (re_ctx env 2) (rc_store st) (op_CandidateID op) of
             Inl e \<Rightarrow> ((zeroCandidate, True, Some e), st)
           | Inr candidate \<Rightarrow>
               if op_Status op = ''recovery_required'' then ((candidate, True, Some manualRecovery), st)
               else (case ContainsRevision (re_git env) (rc_git st) (op_TargetRepository op) (op_TargetBranch op) (op_ExpectedMergedRevision op) of
                  (Inl e, g) \<Rightarrow> ((candidate, True, Some (errOf e)), st\<lparr>rc_git := g\<rparr>)
                | (Inr present, g) \<Rightarrow>
                    if \<not> present then blockMerge env (st\<lparr>rc_git := g\<rparr>) op ''expected merge commit is not contained in target branch''
                    else finishMerge env (st\<lparr>rc_git := g\<rparr>) op mc_ProjectID)))"

section \<open>One candidate\<close>

text \<open>From the durable operation over the push to its outcome.\<close>

definition pushMerge ::
  "'g ReconcilerEnv \<Rightarrow> 'g Reconciler \<Rightarrow> Claim \<Rightarrow> Candidate \<Rightarrow> PreparedMerge \<Rightarrow> mergeOperation \<Rightarrow> (Candidate \<times> bool \<times> goerr option) \<times> 'g Reconciler" where
  "pushMerge env st claim candidate prepared op =
     (case PushExact (re_git env) (rc_git st) prepared (op_ExpectedMergedRevision op) of
        (None, g) \<Rightarrow> finishMerge env (st\<lparr>rc_git := g\<rparr>) op (\<lambda>_. mc_ProjectID candidate)
      | (Some err, g) \<Rightarrow>
          (case ContainsRevision (re_git env) g (op_TargetRepository op) (op_TargetBranch op) (op_ExpectedMergedRevision op) of
             (contains, g1) \<Rightarrow>
               let st1 = st\<lparr>rc_git := g1\<rparr> in
               if contains = Inr True then finishMerge env st1 op (\<lambda>_. mc_ProjectID candidate)
               else if isPushCASDrift err then
                 (case abortMergeOperation (re_ctx env 13) (rc_store st1) op of
                    (Some e, s) \<Rightarrow> ((zeroCandidate, True, Some e), st1\<lparr>rc_store := s\<rparr>)
                  | (None, s) \<Rightarrow>
                      (case failMerge env (st1\<lparr>rc_store := s\<rparr>) claim candidate StatusTargetedVerify FailureMainDrift err [] of
                         ((failed, failErr), st2) \<Rightarrow> ((failed, True, failErr), st2)))
               else blockMerge env st1 op
                 (errText (errOf err) @ (case contains of Inl e \<Rightarrow> ''; contains check failed: '' @ errText (errOf e) | Inr _ \<Rightarrow> ''''))))"

text \<open>\<open>claimRenewal\<close>: the renewals that run before \<open>Stop\<close>; the first that fails ends them.\<close>

fun renewLoop :: "goerr option \<Rightarrow> int \<Rightarrow> nat \<Rightarrow> MergeStore \<Rightarrow> Claim \<Rightarrow> (Claim \<times> goerr option) \<times> MergeStore" where
  "renewLoop ctx now 0 s claim = ((claim, None), s)"
| "renewLoop ctx now (Suc n) s claim =
     (case RenewClaim ctx now s claim of
        (Inl e, s') \<Rightarrow> ((claim, if ctx \<noteq> None then None else Some e), s')
      | (Inr renewed, s') \<Rightarrow> renewLoop ctx now n s' renewed)"

definition cleanVerify :: "Candidate \<Rightarrow> TargetedVerifyResult" where
  "cleanVerify candidate = \<lparr>tv_Passed = True, tv_EvidenceRefs = dedupeEvidence (mc_VerifyResultRef candidate # mc_EvidenceRefs candidate)\<rparr>"

definition runVerify :: "'g ReconcilerEnv \<Rightarrow> 'g \<Rightarrow> Candidate \<Rightarrow> PreparedMerge \<Rightarrow> (TargetedVerifyResult \<times> mergeErr option) \<times> 'g" where
  "runVerify env g candidate prepared =
     (if pm_ConflictPaths prepared \<noteq> [] then
        re_Verify env g \<lparr>tr_Candidate = candidate, tr_WorkspaceRoot = pm_Root prepared, tr_LatestMainRevision = pm_LatestMainRevision prepared,
          tr_AllowedWritePaths = pm_AllowedWritePaths prepared, tr_ConflictPaths = pm_ConflictPaths prepared\<rparr>
      else ((cleanVerify candidate, None), g))"

text \<open>After the claim has been renewed: verify, commit, push. The answer carries the claim that will be released.\<close>

definition verifyAndMerge ::
  "'g ReconcilerEnv \<Rightarrow> 'g Reconciler \<Rightarrow> Claim \<Rightarrow> Candidate \<Rightarrow> PreparedMerge \<Rightarrow> (Candidate \<times> bool \<times> goerr option) \<times> Claim \<times> 'g Reconciler" where
  "verifyAndMerge env st claim candidate prepared =
     (case runVerify env (rc_git st) candidate prepared of
        ((verifyResult, verifyErr0), g) \<Rightarrow>
          let readable = list_all (CanRead (rc_registry st) (taskPrincipal (mc_ProjectID candidate) (mc_TaskID candidate))) (tv_EvidenceRefs verifyResult);
              verifyErr = (if readable then verifyErr0 else Some (otherError (Forbidden ''targeted verify evidence is outside task scope'')));
              trusted = (if readable then tv_EvidenceRefs verifyResult else [])
          in
          if verifyErr \<noteq> None \<or> \<not> tv_Passed verifyResult \<or> tv_EvidenceRefs verifyResult = [] then
            let cause = (case verifyErr of Some e \<Rightarrow> e | None \<Rightarrow> otherError (Plain ''targeted verify did not pass with evidence'')) in
            (case renewLoop (re_ctx env 6) (re_now env 6) (re_renewals env) (rc_store st) claim of
               ((claim1, Some err), s) \<Rightarrow> ((cl_Candidate claim1, True, Some (joinErr (errOf cause) err)), claim1, st\<lparr>rc_git := g, rc_store := s\<rparr>)
             | ((claim1, None), s) \<Rightarrow>
                 (case re_ctx env 7 of
                    Some err \<Rightarrow> ((cl_Candidate claim1, True, Some (joinErr (errOf cause) err)), claim1, st\<lparr>rc_git := g, rc_store := s\<rparr>)
                  | None \<Rightarrow>
                      (case failMerge env (st\<lparr>rc_git := g, rc_store := s\<rparr>) claim1 (cl_Candidate claim1) StatusTargetedVerify
                              (failureReason cause FailureVerifyFailed) cause trusted of
                         ((failed, failErr), st1) \<Rightarrow> ((failed, True, failErr), claim1, st1))))
          else
            (case re_CreateMergeCommit env g prepared candidate of
               (created, g1) \<Rightarrow>
                 (case renewLoop (re_ctx env 6) (re_now env 6) (re_renewals env) (rc_store st) claim of
                    ((claim1, renewErr), s) \<Rightarrow>
                      let st1 = st\<lparr>rc_git := g1, rc_store := s\<rparr>; candidate1 = cl_Candidate claim1;
                          joined = (\<lambda>err. case created of Inl e \<Rightarrow> joinErr (errOf e) err | Inr _ \<Rightarrow> err) in
                      (case (case renewErr of Some e \<Rightarrow> Some e | None \<Rightarrow> re_ctx env 7) of
                         Some err \<Rightarrow> ((candidate1, True, Some (joined err)), claim1, st1)
                       | None \<Rightarrow>
                           (case created of
                              Inl mergeErr \<Rightarrow>
                                (case failMerge env st1 claim1 candidate1 StatusTargetedVerify (failureReason mergeErr FailureConflict) mergeErr [] of
                                   ((failed, failErr), st2) \<Rightarrow> ((failed, True, failErr), claim1, st2))
                            | Inr mergedRevision \<Rightarrow>
                                (case beginMergeOperation (re_ctx env 8) (re_token env) (rc_store st1) claim1
                                      \<lparr>oq_ExpectedMainRevision = pm_LatestMainRevision prepared, oq_ExpectedMergedRevision = mergedRevision,
                                       oq_EvidenceRefs = tv_EvidenceRefs verifyResult,
                                       oq_Audit = mergeSucceededAudit candidate1 mergedRevision (pm_LatestMainRevision prepared) (tv_EvidenceRefs verifyResult)\<rparr> of
                                   (Inl e, s2) \<Rightarrow> ((zeroCandidate, True, Some e), claim1, st1\<lparr>rc_store := s2\<rparr>)
                                 | (Inr op, s2) \<Rightarrow>
                                     (case pushMerge env (st1\<lparr>rc_store := s2\<rparr>) claim1 candidate1 prepared op of (r, st2) \<Rightarrow> (r, claim1, st2)))))))) "

definition mergePrepared ::
  "'g ReconcilerEnv \<Rightarrow> 'g Reconciler \<Rightarrow> Claim \<Rightarrow> PreparedMerge \<Rightarrow> (Candidate \<times> bool \<times> goerr option) \<times> Claim \<times> 'g Reconciler" where
  "mergePrepared env st claim prepared =
     (case RenewClaim (re_ctx env 4) (re_now env 4) (rc_store st) claim of
        (Inl e, s) \<Rightarrow> ((zeroCandidate, True, Some e), zeroClaim, st\<lparr>rc_store := s\<rparr>)
      | (Inr claim1, s) \<Rightarrow>
          let candidate = cl_Candidate claim1 in
          if mc_Status candidate = StatusMergeCheck then
            (case advance (re_ctx env 5) (re_now env 5) s claim1 StatusMergeCheck StatusTargetedVerify [] '''' of
               (Inl e, s1) \<Rightarrow> ((zeroCandidate, True, Some e), claim1, st\<lparr>rc_store := s1\<rparr>)
             | (Inr advanced, s1) \<Rightarrow> verifyAndMerge env (st\<lparr>rc_store := s1\<rparr>) (claim1\<lparr>cl_Candidate := advanced\<rparr>) advanced prepared)
          else verifyAndMerge env (st\<lparr>rc_store := s\<rparr>) claim1 candidate prepared)"

text \<open>With the claim in hand; the deferred clean-up of the clone runs before the claim is released.\<close>

definition reconcileClaimed ::
  "'g ReconcilerEnv \<Rightarrow> 'g Reconciler \<Rightarrow> Claim \<Rightarrow> (Candidate \<times> bool \<times> goerr option) \<times> Claim \<times> 'g Reconciler" where
  "reconcileClaimed env st claim =
     (let candidate = cl_Candidate claim;
          failed = (\<lambda>st reason cause. case failMerge env st claim candidate (mc_Status candidate) reason cause [] of
             ((failed, failErr), st1) \<Rightarrow> ((failed, True, failErr), claim, st1)) in
      case re_workspaces env (mc_WorkspaceRef candidate) of
        Inl e \<Rightarrow> failed st FailurePermission (otherError e)
      | Inr binding \<Rightarrow>
          (case validateWorkspace candidate binding of
             Some e \<Rightarrow> failed st FailurePermission (otherError e)
           | None \<Rightarrow>
               (case re_Prepare env (rc_git st) candidate binding of
                  (Inl e, g) \<Rightarrow> failed (st\<lparr>rc_git := g\<rparr>) (failureReason e FailureConflict) e
                | (Inr prepared, g) \<Rightarrow>
                    (case mergePrepared env (st\<lparr>rc_git := g\<rparr>) claim prepared of
                       (r, claim1, st1) \<Rightarrow> (r, claim1, st1\<lparr>rc_git := re_Cleanup env (rc_git st1) prepared\<rparr>)))))"

definition ReconcileOne ::
  "'g ReconcilerEnv \<Rightarrow> 'g Reconciler \<Rightarrow> string \<Rightarrow> (Candidate \<times> bool \<times> goerr option) \<times> 'g Reconciler" where
  "ReconcileOne env st targetRepository =
     (case recoverPendingMergeOperation env st targetRepository of
        ((recovered, ok, err), st1) \<Rightarrow>
          if err \<noteq> None \<or> ok then ((recovered, ok, err), st1)
          else (case ClaimNext (re_fs env) (re_ctx env 3) (re_now env 3) (rc_store st1) targetRepository of
             (Inl e, s) \<Rightarrow> ((zeroCandidate, False, Some e), st1\<lparr>rc_store := s\<rparr>)
           | (Inr None, s) \<Rightarrow> ((zeroCandidate, False, None), st1\<lparr>rc_store := s\<rparr>)
           | (Inr (Some claim), s) \<Rightarrow>
               (case reconcileClaimed env (st1\<lparr>rc_store := s\<rparr>) claim of
                  (r, claim1, st2) \<Rightarrow> (r, st2\<lparr>rc_store := snd (ReleaseClaim None (rc_store st2) claim1)\<rparr>))))"

end
