(* ===== verification/Merge_Inv.thy ===== *)
theory Merge_Inv
  imports Merge_Queue "HOL-Library.Sublist"
begin

text \<open>
  The invariant of the merge queue's store and what it never forgets. \<open>merge_inv\<close>: claims and operations
  belong to candidates of their repository, and a repository has at most one active operation.
  \<open>merge_extends\<close>: candidates keep their identity, move forward only and stay where they end, and
  the audit log is append-only. The locale \<open>queue_operation\<close> is the contract of an operation of
  the store; every operation is an instance of it.
\<close>

named_theorems merge_intros \<open>building blocks of the store's operations\<close>

section \<open>Invariant and extension\<close>

definition claims_ok :: "MergeStore \<Rightarrow> bool" where
  "claims_ok s \<longleftrightarrow> (\<forall>rp cl. mget (mq_repoClaims s) rp = Some cl \<longrightarrow> mc_TargetRepository (cl_Candidate cl) = rp
     \<and> (\<exists>c. mget (mq_candidates s) (mc_ID (cl_Candidate cl)) = Some c \<and> mc_TargetRepository c = rp))"

definition operations_ok :: "MergeStore \<Rightarrow> bool" where
  "operations_ok s \<longleftrightarrow> (\<forall>k op. mget (mq_operations s) k = Some op \<longrightarrow> op_ID op = k
     \<and> (\<exists>c. mget (mq_candidates s) (op_CandidateID op) = Some c \<and> mc_TargetRepository c = op_TargetRepository op))
   \<and> (\<forall>k k' op op'. mget (mq_operations s) k = Some op \<longrightarrow> mget (mq_operations s) k' = Some op' \<longrightarrow>
        activeOperation op \<longrightarrow> activeOperation op' \<longrightarrow> op_TargetRepository op = op_TargetRepository op' \<longrightarrow> k = k')"

definition audits_ok :: "MergeStore \<Rightarrow> bool" where
  "audits_ok s \<longleftrightarrow> distinct (mq_auditOrder s) \<and> (\<forall>k. k \<in> set (mq_auditOrder s) \<longleftrightarrow> mget (mq_audits s) k \<noteq> None)
     \<and> (\<forall>k a. mget (mq_audits s) k = Some a \<longrightarrow> ad_StableKey a = k \<and> k \<noteq> '''')"

definition merge_inv :: "MergeStore \<Rightarrow> bool" where
  "merge_inv s \<longleftrightarrow> mwf (mq_candidates s) \<and> mwf (mq_operations s)
     \<and> (\<forall>i c. mget (mq_candidates s) i = Some c \<longrightarrow> mc_ID c = i) \<and> claims_ok s \<and> operations_ok s \<and> audits_ok s"

text \<open>The order of the states; both ends are final.\<close>

definition statusRank :: "MergeStatus \<Rightarrow> nat" where
  "statusRank status = (if status = StatusQueued then 0 else if status = StatusMergeCheck then 1
     else if status = StatusTargetedVerify then 2 else 3)"

definition same_candidate :: "Candidate \<Rightarrow> Candidate \<Rightarrow> bool" where
  "same_candidate c d \<longleftrightarrow> d = c\<lparr>mc_Status := mc_Status d, mc_FailureReason := mc_FailureReason d, mc_MergedRevision := mc_MergedRevision d,
     mc_EvidenceRefs := mc_EvidenceRefs d, mc_UpdatedAt := mc_UpdatedAt d\<rparr>"

definition final_status :: "MergeStatus \<Rightarrow> bool" where
  "final_status status \<longleftrightarrow> status = StatusMerged \<or> status = StatusFailed"

definition candidate_extends :: "Candidate \<Rightarrow> Candidate \<Rightarrow> bool" where
  "candidate_extends c d \<longleftrightarrow> same_candidate c d \<and> statusRank (mc_Status c) \<le> statusRank (mc_Status d)
     \<and> set (mc_EvidenceRefs c) - {''''} \<subseteq> set (mc_EvidenceRefs d) \<and> (final_status (mc_Status c) \<longrightarrow> d = c)"

definition audit_extends :: "auditRecord \<Rightarrow> auditRecord \<Rightarrow> bool" where
  "audit_extends a b \<longleftrightarrow> b = a\<lparr>ad_Delivered := ad_Delivered b\<rparr> \<and> (ad_Delivered a \<longrightarrow> ad_Delivered b)"

definition merge_extends :: "MergeStore \<Rightarrow> MergeStore \<Rightarrow> bool" where
  "merge_extends s t \<longleftrightarrow>
     (\<forall>i c. mget (mq_candidates s) i = Some c \<longrightarrow> (\<exists>d. mget (mq_candidates t) i = Some d \<and> candidate_extends c d))
   \<and> (\<forall>k a. mget (mq_audits s) k = Some a \<longrightarrow> (\<exists>b. mget (mq_audits t) k = Some b \<and> audit_extends a b))
   \<and> prefix (mq_auditOrder s) (mq_auditOrder t)"

definition merge_ok :: "MergeStore \<Rightarrow> MergeStore \<Rightarrow> bool" where
  "merge_ok s t \<longleftrightarrow> merge_inv t \<and> merge_extends s t"

lemma candidate_extends_refl [simp]: "candidate_extends c c"
  by (simp add: candidate_extends_def same_candidate_def)

lemma same_candidate_trans: "same_candidate c d \<Longrightarrow> same_candidate d e \<Longrightarrow> same_candidate c e"
  by (cases c; cases d; cases e) (simp add: same_candidate_def)

lemma candidate_extends_trans: "candidate_extends c d \<Longrightarrow> candidate_extends d e \<Longrightarrow> candidate_extends c e"
  using same_candidate_trans by (auto simp: candidate_extends_def)

lemma same_candidate_repository: "same_candidate c d \<Longrightarrow> mc_TargetRepository d = mc_TargetRepository c \<and> mc_ID d = mc_ID c"
  by (cases c; cases d) (simp add: same_candidate_def)

lemma audit_extends_refl [simp]: "audit_extends a a"
  by (simp add: audit_extends_def)

lemma audit_extends_trans: "audit_extends a b \<Longrightarrow> audit_extends b c \<Longrightarrow> audit_extends a c"
  by (cases a; cases b; cases c) (auto simp: audit_extends_def)

lemma merge_extends_refl [simp]: "merge_extends s s"
  by (auto simp: merge_extends_def)

lemma merge_extends_trans: "merge_extends s t \<Longrightarrow> merge_extends t u \<Longrightarrow> merge_extends s u"
  unfolding merge_extends_def by (meson candidate_extends_trans audit_extends_trans prefix_order.trans)

lemma merge_ok_refl [simp]: "merge_inv s \<Longrightarrow> merge_ok s s"
  by (simp add: merge_ok_def)

lemma merge_ok_trans: "merge_ok s t \<Longrightarrow> merge_ok t u \<Longrightarrow> merge_ok s u"
  using merge_extends_trans by (auto simp: merge_ok_def)

lemma merge_inv_new: "merge_inv NewMergeStore"
  by (simp add: merge_inv_def NewMergeStore_def claims_ok_def operations_ok_def audits_ok_def)

section \<open>Building blocks\<close>

lemma set_dedupeEvidence [simp]: "set (dedupeEvidence refs) = set refs - {''''}"
  by (auto simp: dedupeEvidence_def)

text \<open>Replacing a candidate by one that extends it.\<close>

lemma putCandidate_ok [merge_intros]:
  assumes "merge_inv s" "mget (mq_candidates s) (mc_ID d) = Some c" "candidate_extends c d"
  shows "merge_ok s (putCandidate s d)"
proof -
  have "mc_TargetRepository d = mc_TargetRepository c" using assms(3) same_candidate_repository by (simp add: candidate_extends_def)
  then have "claims_ok (putCandidate s d)" "operations_ok (putCandidate s d)"
    using assms(1,2) unfolding merge_inv_def claims_ok_def operations_ok_def putCandidate_def by (fastforce simp: gomap_simps)+
  moreover have "merge_extends s (putCandidate s d)"
    using assms(2,3) by (auto simp: merge_extends_def putCandidate_def gomap_simps)
  ultimately show ?thesis
    using assms(1) by (auto simp: merge_ok_def merge_inv_def putCandidate_def gomap_simps audits_ok_def)
qed

text \<open>A candidate that is new.\<close>

lemma newCandidate_ok [merge_intros]:
  assumes "merge_inv s" "mget (mq_candidates s) (mc_ID d) = None"
  shows "merge_ok s (putCandidate s d)"
proof -
  have "claims_ok (putCandidate s d)" "operations_ok (putCandidate s d)"
    using assms unfolding merge_inv_def claims_ok_def operations_ok_def putCandidate_def by (fastforce simp: gomap_simps)+
  moreover have "merge_extends s (putCandidate s d)"
    using assms(2) by (auto simp: merge_extends_def putCandidate_def gomap_simps)
  ultimately show ?thesis
    using assms(1) by (auto simp: merge_ok_def merge_inv_def putCandidate_def gomap_simps audits_ok_def)
qed

lemma appendAudit_ok [merge_intros]:
  assumes "merge_inv s" "appendAuditLocked s audit = (e, t)"
  shows "merge_ok s t \<and> mq_candidates t = mq_candidates s \<and> mq_repoClaims t = mq_repoClaims s \<and> mq_operations t = mq_operations s"
proof (cases "t = s")
  case False
  let ?a = "audit\<lparr>ad_ArtifactRefs := dedupeEvidence (ad_ArtifactRefs audit)\<rparr>"
  have t: "t = s\<lparr>mq_audits := mput (ad_StableKey audit) ?a (mq_audits s), mq_auditOrder := mq_auditOrder s @ [ad_StableKey audit]\<rparr>"
    and new: "mget (mq_audits s) (ad_StableKey audit) = None" "ad_StableKey audit \<noteq> ''''"
    using assms(2) False by (auto simp: appendAuditLocked_def Let_def split: if_splits option.splits)
  have "audits_ok t" using assms(1) new by (auto simp: t merge_inv_def audits_ok_def gomap_simps)
  moreover have "merge_extends s t" using new by (auto simp: t merge_extends_def gomap_simps)
  ultimately show ?thesis
    using assms(1) by (auto simp: merge_ok_def merge_inv_def t claims_ok_def operations_ok_def)
qed (use assms(1) in simp)

lemma deliver_ok [merge_intros]:
  assumes "merge_inv s" "mget (mq_audits s) key = Some audit"
  shows "merge_ok s (s\<lparr>mq_audits := mput key (audit\<lparr>ad_Delivered := True\<rparr>) (mq_audits s)\<rparr>)"
proof -
  let ?t = "s\<lparr>mq_audits := mput key (audit\<lparr>ad_Delivered := True\<rparr>) (mq_audits s)\<rparr>"
  have "audits_ok ?t" using assms by (auto simp: merge_inv_def audits_ok_def gomap_simps)
  moreover have "merge_extends s ?t" using assms(2) by (auto simp: merge_extends_def gomap_simps audit_extends_def)
  ultimately show ?thesis using assms(1) by (auto simp: merge_ok_def merge_inv_def claims_ok_def operations_ok_def)
qed

lemma claims_update_ok [merge_intros]:
  assumes "merge_inv s" "claims_ok (s\<lparr>mq_repoClaims := claims\<rparr>)"
  shows "merge_ok s (s\<lparr>mq_repoClaims := claims\<rparr>)"
  using assms by (auto simp: merge_ok_def merge_inv_def operations_ok_def audits_ok_def merge_extends_def)

lemma operations_update_ok [merge_intros]:
  assumes "merge_inv s" "operations_ok (putOperation s op)"
  shows "merge_ok s (putOperation s op)"
  using assms by (auto simp: merge_ok_def merge_inv_def claims_ok_def audits_ok_def merge_extends_def putOperation_def)

text \<open>Storing an operation is safe when no other operation of its repository is active.\<close>

lemma putOperation_ok:
  assumes "merge_inv s" "mget (mq_candidates s) (op_CandidateID op) = Some c" "mc_TargetRepository c = op_TargetRepository op"
    and other: "\<And>k q. mget (mq_operations s) k = Some q \<Longrightarrow> k \<noteq> op_ID op \<Longrightarrow> activeOperation q \<Longrightarrow>
      op_TargetRepository q = op_TargetRepository op \<Longrightarrow> False"
  shows "merge_ok s (putOperation s op)"
proof (rule operations_update_ok[OF assms(1)])
  have old: "operations_ok s" using assms(1) by (simp add: merge_inv_def)
  have get: "mget (mq_operations (putOperation s op)) k = (if op_ID op = k then Some op else mget (mq_operations s) k)" for k
    by (simp add: putOperation_def gomap_simps)
  have cands: "mq_candidates (putOperation s op) = mq_candidates s" by (simp add: putOperation_def)
  show "operations_ok (putOperation s op)"
    unfolding operations_ok_def get cands
  proof (intro conjI allI impI)
    fix k q assume "(if op_ID op = k then Some op else mget (mq_operations s) k) = Some q"
    then show "op_ID q = k" and "\<exists>c. mget (mq_candidates s) (op_CandidateID q) = Some c \<and> mc_TargetRepository c = op_TargetRepository q"
      using old assms(2,3) by (auto simp: operations_ok_def split: if_splits)
  next
    fix k k' q q'
    assume "(if op_ID op = k then Some op else mget (mq_operations s) k) = Some q"
      "(if op_ID op = k' then Some op else mget (mq_operations s) k') = Some q'"
      "activeOperation q" "activeOperation q'" "op_TargetRepository q = op_TargetRepository q'"
    then show "k = k'" using old other unfolding operations_ok_def by (metis option.inject)
  qed
qed

lemma operations_unique:
  "operations_ok s \<Longrightarrow> mget (mq_operations s) k = Some p \<Longrightarrow> mget (mq_operations s) k' = Some q \<Longrightarrow> activeOperation p \<Longrightarrow>
     activeOperation q \<Longrightarrow> op_TargetRepository p = op_TargetRepository q \<Longrightarrow> k = k'"
  unfolding operations_ok_def by blast

text \<open>An operation changes its state, in place of itself.\<close>

lemma changeOperation_ok:
  assumes "merge_inv s" "mget (mq_operations s) (op_ID op) = Some stored" "activeOperation stored"
    and "op_CandidateID op = op_CandidateID stored" "op_TargetRepository op = op_TargetRepository stored"
  shows "merge_ok s (putOperation s op)"
proof -
  have old: "operations_ok s" using assms(1) by (simp add: merge_inv_def)
  then obtain c where "mget (mq_candidates s) (op_CandidateID op) = Some c" "mc_TargetRepository c = op_TargetRepository op"
    using assms(2,4,5) unfolding operations_ok_def by metis
  then show ?thesis
  proof (rule putOperation_ok[OF assms(1)])
    fix k q assume "mget (mq_operations s) k = Some q" "k \<noteq> op_ID op" "activeOperation q" "op_TargetRepository q = op_TargetRepository op"
    with operations_unique[OF old _ assms(2) _ assms(3), of k q] assms(5) show False by simp
  qed
qed

lemma activeOperation_None:
  assumes "merge_inv s" "activeOperationLocked s rp = None" "mget (mq_operations s) k = Some op" "op_TargetRepository op = rp"
  shows "\<not> activeOperation op"
  using assms mget_mvalues[OF assms(3)] by (auto simp: activeOperationLocked_def find_None_iff)

lemma activeOperation_Some:
  assumes "merge_inv s" "activeOperationLocked s rp = Some op"
  shows "mget (mq_operations s) (op_ID op) = Some op" "op_TargetRepository op = rp" "activeOperation op"
proof -
  have "op \<in> set (mvalues (mq_operations s))" and r: "op_TargetRepository op = rp" "activeOperation op"
    using assms(2) by (auto simp: activeOperationLocked_def find_Some_iff)
  then obtain k where "mget (mq_operations s) k = Some op" using assms(1) by (auto simp: merge_inv_def mvalues_iff)
  then show "mget (mq_operations s) (op_ID op) = Some op" "op_TargetRepository op = rp" "activeOperation op"
    using assms(1) r by (auto simp: merge_inv_def operations_ok_def)
qed

lemma startOperation_ok:
  assumes "merge_inv s" "mget (mq_candidates s) (mc_ID c) = Some c" "activeOperationLocked s (mc_TargetRepository c) = None"
  shows "merge_ok s (putOperation s (newOperation token c req))"
proof (rule putOperation_ok[OF assms(1)])
  show "mget (mq_candidates s) (op_CandidateID (newOperation token c req)) = Some c"
    and "mc_TargetRepository c = op_TargetRepository (newOperation token c req)"
    using assms(2) by (simp_all add: newOperation_def)
  show False if "mget (mq_operations s) k = Some q" "activeOperation q" "op_TargetRepository q = op_TargetRepository (newOperation token c req)" for k q
    using activeOperation_None[OF assms(1,3) that(1)] that by (simp add: newOperation_def)
qed

section \<open>The contract of the store's operations\<close>

locale queue_operation =
  fixes run :: "MergeStore \<Rightarrow> 'r \<times> MergeStore"
  assumes run_ok: "merge_inv s \<Longrightarrow> run s = (r, t) \<Longrightarrow> merge_ok s t"
begin

lemma keeps_inv: "merge_inv s \<Longrightarrow> merge_inv (snd (run s))"
  using run_ok[of s "fst (run s)" "snd (run s)"] by (simp add: merge_ok_def)

lemma extends: "merge_inv s \<Longrightarrow> merge_extends s (snd (run s))"
  using run_ok[of s "fst (run s)" "snd (run s)"] by (simp add: merge_ok_def)

end

lemma validateEnqueue_id: "mc_ID (newCandidate now req) = eq_ID req"
  by (simp add: newCandidate_def)

interpretation enqueue_op: queue_operation "\<lambda>s. enqueue fs ctx now s req audit" for fs ctx now req audit
proof
  fix s r t assume inv: "merge_inv s" and run: "enqueue fs ctx now s req audit = (r, t)"
  show "merge_ok s t"
  proof (cases "t = s")
    case False
    then obtain e s' where a: "appendAuditLocked s audit = (e, s')" by fastforce
    note ok = appendAudit_ok[OF inv a]
    have "t = s' \<or> (\<exists>d. t = putCandidate s' d \<and> mget (mq_candidates s) (mc_ID d) = None)"
      using run False a by (auto simp: enqueue_def Let_def validateEnqueue_id split: sum.splits option.splits if_splits prod.splits)
    then show ?thesis
    proof
      assume "\<exists>d. t = putCandidate s' d \<and> mget (mq_candidates s) (mc_ID d) = None"
      then obtain d where "t = putCandidate s' d" "mget (mq_candidates s') (mc_ID d) = None" using ok by auto
      with newCandidate_ok ok show ?thesis by (metis merge_ok_def merge_ok_trans)
    qed (use ok in simp)
  qed (use inv in simp)
qed

lemma currentClaim_Some:
  "currentClaim s claim = Some current \<Longrightarrow> mget (mq_repoClaims s) (mc_TargetRepository (cl_Candidate claim)) = Some current
     \<and> mc_ID (cl_Candidate current) = mc_ID (cl_Candidate claim)"
  by (auto simp: currentClaim_def split: option.splits if_splits)

lemma claimedCandidate_Inr:
  "merge_inv s \<Longrightarrow> claimedCandidate s claim = Inr c \<Longrightarrow> mget (mq_candidates s) (mc_ID c) = Some c \<and> mc_ID c = mc_ID (cl_Candidate claim)"
  by (auto simp: claimedCandidate_def check_simps merge_inv_def split: option.splits)

interpretation claim_op: queue_operation "\<lambda>s. ClaimNext fs ctx now s target" for fs ctx now target
proof
  fix s r t assume inv: "merge_inv s" and run: "ClaimNext fs ctx now s target = (r, t)"
  show "merge_ok s t"
  proof (cases "t = s")
    case False
    then obtain rp c rest where rp: "mget (mq_repoClaims s) rp = None"
      and sort: "sort_by candidateBefore (filter (waitingCandidate rp) (mvalues (mq_candidates s))) = c # rest"
      and t: "t = (let d = (if mc_Status c = StatusQueued then c\<lparr>mc_Status := StatusMergeCheck, mc_UpdatedAt := now\<rparr> else c);
            s1 = (if mc_Status c = StatusQueued then putCandidate s d else s)
          in s1\<lparr>mq_repoClaims := mput rp (newClaim now d) (mq_repoClaims s1)\<rparr>)"
      using run by (auto simp: ClaimNext_def Let_def split: sum.splits if_splits list.splits)
    have "c \<in> set (filter (waitingCandidate rp) (mvalues (mq_candidates s)))" using sort set_sort_by by (metis list.set_intros(1))
    then have c: "mget (mq_candidates s) (mc_ID c) = Some c" "mc_TargetRepository c = rp"
      using inv by (auto simp: merge_inv_def mvalues_iff waitingCandidate_def)
    define d where "d = (if mc_Status c = StatusQueued then c\<lparr>mc_Status := StatusMergeCheck, mc_UpdatedAt := now\<rparr> else c)"
    define s1 where "s1 = (if mc_Status c = StatusQueued then putCandidate s d else s)"
    have d: "mc_ID d = mc_ID c" "mc_TargetRepository d = rp" using c by (auto simp: d_def)
    have "candidate_extends c d"
      by (auto simp: d_def candidate_extends_def same_candidate_def statusRank_def final_status_def)
    then have s1: "merge_ok s s1" "mget (mq_candidates s1) (mc_ID c) = Some d" "mq_repoClaims s1 = mq_repoClaims s"
      using putCandidate_ok[OF inv, of d c] c inv by (auto simp: s1_def d putCandidate_def gomap_simps) (auto simp: d_def)
    then have "merge_inv s1" by (simp add: merge_ok_def)
    moreover have "claims_ok (s1\<lparr>mq_repoClaims := mput rp (newClaim now d) (mq_repoClaims s1)\<rparr>)"
      using \<open>merge_inv s1\<close> s1 d by (auto simp: merge_inv_def claims_ok_def gomap_simps newClaim_def)
    moreover have "t = s1\<lparr>mq_repoClaims := mput rp (newClaim now d) (mq_repoClaims s1)\<rparr>" by (simp add: t Let_def d_def s1_def)
    ultimately have "merge_ok s1 t" using claims_update_ok by blast
    with s1(1) show ?thesis by (rule merge_ok_trans)
  qed (use inv in simp)
qed

interpretation renew_op: queue_operation "\<lambda>s. RenewClaim ctx now s claim" for ctx now claim
proof
  fix s r t assume inv: "merge_inv s" and run: "RenewClaim ctx now s claim = (r, t)"
  show "merge_ok s t"
  proof (cases "t = s")
    case False
    then obtain current c where cur: "currentClaim s claim = Some current"
      and c: "mget (mq_candidates s) (mc_ID (cl_Candidate claim)) = Some c"
      and t: "t = s\<lparr>mq_repoClaims := mput (mc_TargetRepository (cl_Candidate claim))
          (current\<lparr>cl_Candidate := c, cl_ExpiresAt := now + hourNanos\<rparr>) (mq_repoClaims s)\<rparr>"
      using run by (auto simp: RenewClaim_def Let_def split: option.splits)
    from currentClaim_Some[OF cur] c inv have "mc_TargetRepository c = mc_TargetRepository (cl_Candidate claim)" "mc_ID c = mc_ID (cl_Candidate claim)"
      unfolding merge_inv_def claims_ok_def by (metis option.inject)+
    then have "claims_ok t" using inv c by (auto simp: t merge_inv_def claims_ok_def gomap_simps)
    then show ?thesis using claims_update_ok[OF inv] by (simp add: t)
  qed (use inv in simp)
qed

interpretation release_op: queue_operation "\<lambda>s. ReleaseClaim ctx s claim" for ctx claim
proof
  fix s r t assume inv: "merge_inv s" and run: "ReleaseClaim ctx s claim = (r, t)"
  have "t = s \<or> t = s\<lparr>mq_repoClaims := mdel (mc_TargetRepository (cl_Candidate claim)) (mq_repoClaims s)\<rparr>"
    using run by (auto simp: ReleaseClaim_def split: option.splits if_splits)
  moreover have "claims_ok (s\<lparr>mq_repoClaims := mdel rp (mq_repoClaims s)\<rparr>)" for rp
    using inv by (auto simp: merge_inv_def claims_ok_def gomap_simps)
  ultimately show "merge_ok s t" using claims_update_ok[OF inv] inv by auto
qed

lemma setCandidate_ok:
  assumes "merge_inv s" "mget (mq_candidates s) (mc_ID c) = Some c" "candidate_extends c d"
  shows "merge_ok s (putCandidate s d)"
proof -
  have "mc_ID d = mc_ID c" using assms(3) same_candidate_repository by (simp add: candidate_extends_def)
  with assms show ?thesis using putCandidate_ok by simp
qed

lemma forward_candidate:
  assumes "statusRank (mc_Status c) \<le> statusRank st" "\<not> final_status (mc_Status c)"
  shows "candidate_extends c (c\<lparr>mc_Status := st, mc_FailureReason := reason, mc_EvidenceRefs := dedupeEvidence (mc_EvidenceRefs c @ refs),
    mc_MergedRevision := merged, mc_UpdatedAt := now\<rparr>)"
  using assms by (cases c) (auto simp: candidate_extends_def same_candidate_def)

lemma advance_change:
  assumes "advance ctx now s claim from to refs merged = (r, t)"
  shows "t = s \<or> (\<exists>c. claimedCandidate s claim = Inr c \<and> mc_Status c = from \<and> validAdvance from to
     \<and> t = putCandidate s (c\<lparr>mc_Status := to, mc_EvidenceRefs := dedupeEvidence (mc_EvidenceRefs c @ refs), mc_MergedRevision := merged, mc_UpdatedAt := now\<rparr>))"
proof (cases "claimedCandidate s claim")
  case (Inr c)
  with assms show ?thesis by (auto simp: advance_def check_simps split: sum.splits)
qed (use assms in \<open>auto simp: advance_def check_simps split: sum.splits\<close>)

interpretation advance_op: queue_operation "\<lambda>s. advance ctx now s claim from to refs merged" for ctx now claim "from" to refs merged
proof
  fix s r t assume inv: "merge_inv s" and run: "advance ctx now s claim from to refs merged = (r, t)"
  from advance_change[OF run] show "merge_ok s t"
  proof (elim disjE exE conjE)
    fix c assume claimed: "claimedCandidate s claim = Inr c" and c: "mc_Status c = from" "validAdvance from to"
      and t: "t = putCandidate s (c\<lparr>mc_Status := to, mc_EvidenceRefs := dedupeEvidence (mc_EvidenceRefs c @ refs), mc_MergedRevision := merged, mc_UpdatedAt := now\<rparr>)"
    have "candidate_extends c (c\<lparr>mc_Status := to, mc_EvidenceRefs := dedupeEvidence (mc_EvidenceRefs c @ refs), mc_MergedRevision := merged, mc_UpdatedAt := now\<rparr>)"
      using c forward_candidate[where c = c and st = to and reason = "mc_FailureReason c" and refs = refs and merged = merged and now = now] by (auto simp: validAdvance_def statusRank_def final_status_def)
    then show ?thesis unfolding t by (rule setCandidate_ok[OF inv conjunct1[OF claimedCandidate_Inr[OF inv claimed]]])
  qed (use inv in simp)
qed

lemma begin_change:
  assumes "beginMergeOperation ctx token s claim req = (r, t)"
  shows "t = s \<or> (\<exists>c. claimedCandidate s claim = Inr c \<and> mc_Status c = StatusTargetedVerify
     \<and> activeOperationLocked s (mc_TargetRepository c) = None \<and> t = putOperation s (newOperation token c req))"
proof (cases "claimedCandidate s claim")
  case (Inr c)
  with assms show ?thesis by (auto simp: beginMergeOperation_def check_simps split: sum.splits option.splits if_splits)
qed (use assms in \<open>auto simp: beginMergeOperation_def check_simps split: sum.splits\<close>)

interpretation begin_op: queue_operation "\<lambda>s. beginMergeOperation ctx token s claim req" for ctx token claim req
proof
  fix s r t assume inv: "merge_inv s" and run: "beginMergeOperation ctx token s claim req = (r, t)"
  from begin_change[OF run] show "merge_ok s t"
  proof (elim disjE exE conjE)
    fix c assume c: "claimedCandidate s claim = Inr c" "activeOperationLocked s (mc_TargetRepository c) = None"
      and t: "t = putOperation s (newOperation token c req)"
    show ?thesis unfolding t by (rule startOperation_ok[OF inv conjunct1[OF claimedCandidate_Inr[OF inv c(1)]] c(2)])
  qed (use inv in simp)
qed

lemma requireOperation_Inr:
  "requireOperationLocked s op = Inr stored \<Longrightarrow> mget (mq_operations s) (op_ID op) = Some stored \<and> activeOperation stored \<and> op_Token stored = op_Token op"
  by (auto simp: requireOperationLocked_def check_simps split: option.splits)

lemma requireOperation_stored:
  assumes "merge_inv s" "requireOperationLocked s op = Inr stored"
  shows "mget (mq_operations s) (op_ID stored) = Some stored" "activeOperation stored"
  using requireOperation_Inr[OF assms(2)] assms(1) by (auto simp: merge_inv_def operations_ok_def)

lemma finalize_change:
  assumes "finalizeMergeOperation ctx now s op = (r, t)"
  shows "t = s \<or> (\<exists>stored c e s'. requireOperationLocked s op = Inr stored
     \<and> mget (mq_candidates s) (op_CandidateID stored) = Some c \<and> mc_Status c = StatusTargetedVerify
     \<and> appendAuditLocked s (op_Audit stored) = (e, s')
     \<and> (t = s' \<or> (e = None \<and> t = putOperation (putCandidate s' (c\<lparr>mc_Status := StatusMerged,
            mc_EvidenceRefs := dedupeEvidence (mc_EvidenceRefs c @ op_EvidenceRefs stored),
            mc_MergedRevision := op_ExpectedMergedRevision stored, mc_UpdatedAt := now\<rparr>)) (stored\<lparr>op_Status := ''finalized''\<rparr>))))"
proof (cases "checked ctx (requireOperationLocked s op)")
  case (Inr stored)
  then have stored: "requireOperationLocked s op = Inr stored" "ctx = None" by (auto simp: check_simps)
  show ?thesis
  proof (cases "mget (mq_candidates s) (op_CandidateID stored)")
    case (Some c)
    obtain e s' where a: "appendAuditLocked s (op_Audit stored) = (e, s')" by fastforce
    show ?thesis using assms
      by (cases e) (simp_all add: finalizeMergeOperation_def stored Some a Let_def split: if_splits)
  qed (use assms in \<open>simp add: finalizeMergeOperation_def Inr\<close>)
qed (use assms in \<open>simp add: finalizeMergeOperation_def\<close>)

interpretation finalize_op: queue_operation "\<lambda>s. finalizeMergeOperation ctx now s op" for ctx now op
proof
  fix s r t assume inv: "merge_inv s" and run: "finalizeMergeOperation ctx now s op = (r, t)"
  from finalize_change[OF run] show "merge_ok s t"
  proof (elim disjE[of "t = s"] exE conjE)
    fix stored :: mergeOperation and c :: Candidate and e s'
    let ?d = "c\<lparr>mc_Status := StatusMerged, mc_EvidenceRefs := dedupeEvidence (mc_EvidenceRefs c @ op_EvidenceRefs stored),
        mc_MergedRevision := op_ExpectedMergedRevision stored, mc_UpdatedAt := now\<rparr>"
    assume stored: "requireOperationLocked s op = Inr stored" and a: "appendAuditLocked s (op_Audit stored) = (e, s')"
      and c: "mget (mq_candidates s) (op_CandidateID stored) = Some c" "mc_Status c = StatusTargetedVerify"
      and t: "t = s' \<or> e = None \<and> t = putOperation (putCandidate s' ?d) (stored\<lparr>op_Status := ''finalized''\<rparr>)"
    note ok = appendAudit_ok[OF inv a]
    have inv': "merge_inv s'" using ok by (simp add: merge_ok_def)
    have "candidate_extends c ?d"
      using c(2) forward_candidate[where c = c and st = StatusMerged and reason = "mc_FailureReason c" and refs = "op_EvidenceRefs stored" and merged = "op_ExpectedMergedRevision stored" and now = now]
      by (simp add: statusRank_def final_status_def)
    moreover have "mget (mq_candidates s') (mc_ID c) = Some c" using ok c(1) inv by (auto simp: merge_inv_def)
    ultimately have put: "merge_ok s' (putCandidate s' ?d)" using setCandidate_ok[OF inv'] by blast
    have changed: "merge_ok (putCandidate s' ?d) (putOperation (putCandidate s' ?d) (stored\<lparr>op_Status := ''finalized''\<rparr>))"
      using put requireOperation_stored[OF inv stored] ok
      by (intro changeOperation_ok[of _ _ stored]) (simp_all add: merge_ok_def putCandidate_def)
    from t show ?thesis
    proof (elim disjE conjE)
      assume "t = putOperation (putCandidate s' ?d) (stored\<lparr>op_Status := ''finalized''\<rparr>)"
      with changed have "merge_ok (putCandidate s' ?d) t" by simp
      with merge_ok_trans[OF _ merge_ok_trans[OF put]] ok show ?thesis by blast
    qed (use ok in simp)
  qed (use inv in simp)
qed

lemma setOperationStatus_ok:
  assumes "merge_inv s" "requireOperationLocked s op = Inr stored"
  shows "merge_ok s (putOperation s (stored\<lparr>op_Status := st\<rparr>))"
    and "merge_ok s (putOperation s (stored\<lparr>op_Status := st, op_RecoveryReason := reason\<rparr>))"
  using requireOperation_stored[OF assms] by (auto intro!: changeOperation_ok[OF assms(1), of _ stored])

interpretation abort_op: queue_operation "\<lambda>s. abortMergeOperation ctx s op" for ctx op
proof
  fix s r t assume inv: "merge_inv s" and run: "abortMergeOperation ctx s op = (r, t)"
  then show "merge_ok s t"
    using setOperationStatus_ok(1)[OF inv, of op] by (cases ctx) (auto simp: abortMergeOperation_def split: sum.splits)
qed

interpretation recovery_op: queue_operation "\<lambda>s. markMergeOperationRecoveryRequired ctx s op reason" for ctx op reason
proof
  fix s r t assume inv: "merge_inv s" and run: "markMergeOperationRecoveryRequired ctx s op reason = (r, t)"
  then show "merge_ok s t"
    using setOperationStatus_ok(2)[OF inv, of op] by (cases ctx) (auto simp: markMergeOperationRecoveryRequired_def split: sum.splits)
qed

lemma fail_change:
  assumes "failCandidate ctx now s claim from reason refs audit = (r, t)"
  shows "t = s \<or> (\<exists>c e s'. claimedCandidate s claim = Inr c \<and> appendAuditLocked s audit = (e, s')
     \<and> (t = s' \<or> (e = None \<and> (mc_Status c = StatusMergeCheck \<or> mc_Status c = StatusTargetedVerify)
        \<and> t = putCandidate s' (c\<lparr>mc_Status := StatusFailed, mc_FailureReason := reason,
            mc_EvidenceRefs := dedupeEvidence (mc_EvidenceRefs c @ refs), mc_UpdatedAt := now\<rparr>))))"
proof (cases "claimedCandidate s claim")
  case (Inr c)
  obtain e s' where a: "appendAuditLocked s audit = (e, s')" by fastforce
  show ?thesis using assms unfolding failCandidate_def Inr a
    by (cases e) (auto simp: check_simps a Let_def split: sum.splits if_splits)
qed (use assms in \<open>auto simp: failCandidate_def check_simps split: sum.splits\<close>)

interpretation fail_op: queue_operation "\<lambda>s. failCandidate ctx now s claim from reason refs audit" for ctx now claim "from" reason refs audit
proof
  fix s r t assume inv: "merge_inv s" and run: "failCandidate ctx now s claim from reason refs audit = (r, t)"
  from fail_change[OF run] show "merge_ok s t"
  proof (elim disjE[of "t = s"] exE conjE)
    fix c :: Candidate and e s'
    let ?d = "c\<lparr>mc_Status := StatusFailed, mc_FailureReason := reason, mc_EvidenceRefs := dedupeEvidence (mc_EvidenceRefs c @ refs), mc_UpdatedAt := now\<rparr>"
    assume claimed: "claimedCandidate s claim = Inr c" and a: "appendAuditLocked s audit = (e, s')"
      and t: "t = s' \<or> e = None \<and> (mc_Status c = StatusMergeCheck \<or> mc_Status c = StatusTargetedVerify) \<and> t = putCandidate s' ?d"
    note ok = appendAudit_ok[OF inv a]
    have inv': "merge_inv s'" using ok by (simp add: merge_ok_def)
    from t show ?thesis
    proof (elim disjE[of "t = s'"] conjE)
      assume st: "mc_Status c = StatusMergeCheck \<or> mc_Status c = StatusTargetedVerify" and t: "t = putCandidate s' ?d"
      have "candidate_extends c ?d"
        using st forward_candidate[where c = c and st = StatusFailed and reason = reason and refs = refs and merged = "mc_MergedRevision c" and now = now] by (auto simp: statusRank_def final_status_def)
      moreover have "mget (mq_candidates s') (mc_ID c) = Some c" using conjunct1[OF claimedCandidate_Inr[OF inv claimed]] ok by simp
      ultimately have "merge_ok s' t" unfolding t using setCandidate_ok[OF inv'] by blast
      then show ?thesis using ok merge_ok_trans by blast
    qed (use ok in simp)
  qed (use inv in simp)
qed

interpretation delivered_op: queue_operation "\<lambda>s. markAuditDelivered ctx s key" for ctx key
proof
  fix s r t assume inv: "merge_inv s" and run: "markAuditDelivered ctx s key = (r, t)"
  then show "merge_ok s t"
    using deliver_ok[OF inv] by (auto simp: markAuditDelivered_def split: option.splits)
qed

end
