(* ===== verification/Merge_Properties.thy ===== *)
theory Merge_Properties
  imports Merge_Inv
begin

text \<open>
  What the merge queue promises over its whole life: one writer per repository, claims in the order of
  arrival, and outcomes that are never taken back. \<open>merge_step\<close> is one operation of the store with
  any arguments; the reachable stores are those a sequence of steps makes from the empty one.
\<close>

section \<open>Steps of the store\<close>

inductive merge_step :: "MergeStore \<Rightarrow> MergeStore \<Rightarrow> bool" where
  Enqueue: "merge_step s (snd (enqueue fs ctx now s req audit))"
| Claim: "merge_step s (snd (ClaimNext fs ctx now s target))"
| Renew: "merge_step s (snd (RenewClaim ctx now s claim))"
| Release: "merge_step s (snd (ReleaseClaim ctx s claim))"
| Advance: "merge_step s (snd (advance ctx now s claim from to refs merged))"
| Begin: "merge_step s (snd (beginMergeOperation ctx token s claim req))"
| Finalize: "merge_step s (snd (finalizeMergeOperation ctx now s op))"
| Abort: "merge_step s (snd (abortMergeOperation ctx s op))"
| Recovery: "merge_step s (snd (markMergeOperationRecoveryRequired ctx s op reason))"
| Fail: "merge_step s (snd (failCandidate ctx now s claim from reason refs audit))"
| Delivered: "merge_step s (snd (markAuditDelivered ctx s key))"

definition merge_reachable :: "MergeStore \<Rightarrow> bool" where
  "merge_reachable s \<longleftrightarrow> merge_step\<^sup>*\<^sup>* NewMergeStore s"

lemmas operation_laws =
  enqueue_op.keeps_inv claim_op.keeps_inv renew_op.keeps_inv release_op.keeps_inv advance_op.keeps_inv begin_op.keeps_inv
  finalize_op.keeps_inv abort_op.keeps_inv recovery_op.keeps_inv fail_op.keeps_inv delivered_op.keeps_inv
  enqueue_op.extends claim_op.extends renew_op.extends release_op.extends advance_op.extends begin_op.extends
  finalize_op.extends abort_op.extends recovery_op.extends fail_op.extends delivered_op.extends

lemma merge_step_ok: "merge_step s t \<Longrightarrow> merge_inv s \<Longrightarrow> merge_ok s t"
  by (induction rule: merge_step.induct) (simp_all add: merge_ok_def operation_laws)

lemma merge_steps_ok: "merge_step\<^sup>*\<^sup>* s t \<Longrightarrow> merge_inv s \<Longrightarrow> merge_ok s t"
proof (induction rule: rtranclp_induct)
  case (step t u)
  then have "merge_ok s t" by blast
  with merge_step_ok[OF step(2)] show ?case by (metis merge_ok_def merge_ok_trans)
qed simp

lemma merge_reachable_inv: "merge_reachable s \<Longrightarrow> merge_inv s"
  using merge_steps_ok[OF _ merge_inv_new] by (simp add: merge_reachable_def merge_ok_def)

section \<open>Claims\<close>

lemma candidateBefore_order:
  "asymp candidateBefore" "\<not> candidateBefore y x \<Longrightarrow> \<not> candidateBefore z y \<Longrightarrow> \<not> candidateBefore z x"
  by (auto simp: candidateBefore_def asymp_on_def split: if_splits)

lemma ClaimNext_granted:
  assumes "ClaimNext fs ctx now s target = (Inr (Some claim), t)"
  obtains rp first rest where "normalizeTargetRepository fs target = Inr rp" "activeOperationLocked s rp = None"
    "mget (mq_repoClaims s) rp = None"
    "sort_by candidateBefore (filter (waitingCandidate rp) (mvalues (mq_candidates s))) = first # rest"
    "cl_Candidate claim = (if mc_Status first = StatusQueued then first\<lparr>mc_Status := StatusMergeCheck, mc_UpdatedAt := now\<rparr> else first)"
    "mget (mq_repoClaims t) rp = Some claim" "mc_TargetRepository first = rp"
proof -
  from assms obtain rp where rp: "checked ctx (normalizeTargetRepository fs target) = Inr rp"
    by (auto simp: ClaimNext_def split: sum.splits)
  with assms have free: "activeOperationLocked s rp = None" "mget (mq_repoClaims s) rp = None"
    by (auto simp: ClaimNext_def split: if_splits)
  with rp assms obtain first rest
    where sort: "sort_by candidateBefore (filter (waitingCandidate rp) (mvalues (mq_candidates s))) = first # rest"
    by (auto simp: ClaimNext_def split: list.splits)
  have "first \<in> set (filter (waitingCandidate rp) (mvalues (mq_candidates s)))" using sort set_sort_by by (metis list.set_intros(1))
  then have "mc_TargetRepository first = rp" by (simp add: waitingCandidate_def)
  with that[OF _ free sort] rp assms free sort show thesis
    by (auto simp: ClaimNext_def Let_def newClaim_def gomap_simps check_simps)
qed

text \<open>Every waiting candidate is behind the one that is claimed.\<close>

lemma first_waiting:
  assumes "sort_by candidateBefore (filter (waitingCandidate rp) (mvalues (mq_candidates s))) = first # rest"
    and "c \<in> set (mvalues (mq_candidates s))" "waitingCandidate rp c"
  shows "c = first \<or> \<not> candidateBefore c first"
proof -
  have "c \<in> set (first # rest)" using assms(2,3) unfolding assms(1)[symmetric] by simp
  moreover have "sorted_wrt (\<lambda>x y. \<not> candidateBefore y x) (first # rest)"
    unfolding assms(1)[symmetric] by (rule sorted_sort_by[OF candidateBefore_order(1)]) (rule candidateBefore_order(2))
  ultimately show ?thesis by auto
qed

text \<open>C35. Of the operations that may still write a repository at most one exists, and a claim on a repository is
  granted only when nobody holds one and no operation is unfinished there; it is then the repository's claim.\<close>

theorem one_merge_writer:
  assumes "merge_reachable s"
  shows "(mget (mq_operations s) k = Some op \<and> mget (mq_operations s) k' = Some op' \<and> activeOperation op \<and> activeOperation op'
       \<and> op_TargetRepository op = op_TargetRepository op' \<longrightarrow> k = k' \<and> op = op')
     \<and> (ClaimNext fs ctx now s target = (Inr (Some claim), t) \<longrightarrow>
          (let rp = mc_TargetRepository (cl_Candidate claim) in
           (\<forall>k op. mget (mq_operations s) k = Some op \<longrightarrow> op_TargetRepository op = rp \<longrightarrow> \<not> activeOperation op)
           \<and> mget (mq_repoClaims s) rp = None \<and> mget (mq_repoClaims t) rp = Some claim))"
proof (intro conjI impI)
  note inv = merge_reachable_inv[OF assms]
  assume ops: "mget (mq_operations s) k = Some op \<and> mget (mq_operations s) k' = Some op' \<and> activeOperation op \<and> activeOperation op'
       \<and> op_TargetRepository op = op_TargetRepository op'"
  have "operations_ok s" using inv by (simp add: merge_inv_def)
  then show "k = k'" using ops operations_unique by blast
  with ops show "op = op'" by (metis option.inject)
next
  note inv = merge_reachable_inv[OF assms]
  assume "ClaimNext fs ctx now s target = (Inr (Some claim), t)"
  then obtain rp first where none: "activeOperationLocked s rp = None" and free: "mget (mq_repoClaims s) rp = None"
    and claim: "cl_Candidate claim = (if mc_Status first = StatusQueued then first\<lparr>mc_Status := StatusMergeCheck, mc_UpdatedAt := now\<rparr> else first)"
    and t: "mget (mq_repoClaims t) rp = Some claim" "mc_TargetRepository first = rp"
    by (rule ClaimNext_granted)
  from claim t(2) have "mc_TargetRepository (cl_Candidate claim) = rp" by simp
  with activeOperation_None[OF inv none] free t(1)
  show "let rp = mc_TargetRepository (cl_Candidate claim) in
     (\<forall>k op. mget (mq_operations s) k = Some op \<longrightarrow> op_TargetRepository op = rp \<longrightarrow> \<not> activeOperation op)
     \<and> mget (mq_repoClaims s) rp = None \<and> mget (mq_repoClaims t) rp = Some claim" by simp
qed

text \<open>A queue with one candidate, on a file system where every path is a directory of its own.\<close>

definition example_fs :: FileSystem where
  "example_fs = \<lparr>fs_Abs = Inr, fs_EvalSymlinks = Inr, fs_IsDir = (\<lambda>_. True), fs_Lstat = (\<lambda>_. NoLink), fs_Readlink = Inr\<rparr>"

definition example_enqueue :: EnqueueRequest where
  "example_enqueue = (let rev = replicate 40 (CHR ''0'') in
     \<lparr>eq_ID = ''c1'', eq_ProjectID = ''p'', eq_TaskID = ''build'', eq_WorkspaceRef = ''ws'', eq_VerifyResultRef = ''v'', eq_DiffArtifactRef = ''d'',
      eq_TargetRepository = ''/r'', eq_TargetBranch = '''', eq_BaseRevision = rev, eq_MainRevision = rev, eq_CandidateRevision = rev,
      eq_EvidenceRefs = []\<rparr>)"

definition example_audit :: auditRecord where
  "example_audit = \<lparr>ad_StableKey = ''k'', ad_Type = ''T'', ad_ProjectID = ''p'', ad_TaskID = ''build'', ad_WorkspaceRef = ''ws'', ad_Payload = [],
     ad_ArtifactRefs = [], ad_Delivered = False\<rparr>"

definition example_queue :: MergeStore where
  "example_queue = snd (enqueue example_fs None 1 NewMergeStore example_enqueue example_audit)"

definition example_claim :: "(goerr + Claim option) \<times> MergeStore" where
  "example_claim = ClaimNext example_fs None 2 example_queue ''/r''"

lemma example_queue_reachable: "merge_reachable example_queue"
  unfolding merge_reachable_def example_queue_def by (rule r_into_rtranclp[where r = merge_step, OF Enqueue])

lemma example_granted: "\<exists>claim. example_claim = (Inr (Some claim), snd example_claim) \<and> mc_TargetRepository (cl_Candidate claim) = ''/r''"
proof -
  have "(case fst example_claim of Inr (Some claim) \<Rightarrow> mc_TargetRepository (cl_Candidate claim) = ''/r'' | _ \<Rightarrow> False)" by code_simp
  then obtain claim where "fst example_claim = Inr (Some claim)" "mc_TargetRepository (cl_Candidate claim) = ''/r''"
    by (auto split: sum.splits option.splits)
  then show ?thesis by (metis prod.collapse)
qed

theorem one_merge_writer_witness:
  "\<exists>claim. example_claim = (Inr (Some claim), snd example_claim) \<and> mget (mq_repoClaims (snd example_claim)) ''/r'' = Some claim"
proof -
  obtain claim where c: "example_claim = (Inr (Some claim), snd example_claim)" "mc_TargetRepository (cl_Candidate claim) = ''/r''"
    using example_granted by blast
  from one_merge_writer[OF example_queue_reachable] c show ?thesis
    unfolding Let_def example_claim_def by metis
qed

text \<open>A free repository grants its next claim exactly when a candidate waits for it, and the
  claimed candidate is the one that came first.\<close>

theorem claim_in_arrival_order:
  assumes "normalizeTargetRepository fs target = Inr rp" "activeOperationLocked s rp = None" "mget (mq_repoClaims s) rp = None"
    and "mwf (mq_candidates s)"
  shows "((\<exists>claim t. ClaimNext fs None now s target = (Inr (Some claim), t)) \<longleftrightarrow>
       (\<exists>i c. mget (mq_candidates s) i = Some c \<and> waitingCandidate rp c))
     \<and> (ClaimNext fs None now s target = (Inr (Some claim), t) \<longrightarrow> mget (mq_candidates s) i = Some c \<longrightarrow> waitingCandidate rp c \<longrightarrow>
          mc_ID c = mc_ID (cl_Candidate claim) \<or> mc_CreatedAt (cl_Candidate claim) < mc_CreatedAt c
          \<or> (mc_CreatedAt (cl_Candidate claim) = mc_CreatedAt c \<and> mc_ID (cl_Candidate claim) < mc_ID c))"
proof (intro conjI impI)
  let ?waiting = "filter (waitingCandidate rp) (mvalues (mq_candidates s))"
  have "(\<exists>claim t. ClaimNext fs None now s target = (Inr (Some claim), t)) \<longleftrightarrow> sort_by candidateBefore ?waiting \<noteq> []"
    using assms(1-3) by (auto simp: ClaimNext_def Let_def split: list.splits)
  also have "\<dots> \<longleftrightarrow> ?waiting \<noteq> []" by (metis length_sort_by length_0_conv)
  also have "\<dots> \<longleftrightarrow> (\<exists>i c. mget (mq_candidates s) i = Some c \<and> waitingCandidate rp c)"
    using mvalues_iff[OF assms(4)] unfolding filter_empty_conv by metis
  finally show "(\<exists>claim t. ClaimNext fs None now s target = (Inr (Some claim), t)) \<longleftrightarrow>
       (\<exists>i c. mget (mq_candidates s) i = Some c \<and> waitingCandidate rp c)" .
next
  assume run: "ClaimNext fs None now s target = (Inr (Some claim), t)" and c: "mget (mq_candidates s) i = Some c" "waitingCandidate rp c"
  from run obtain rp' first rest where rp': "normalizeTargetRepository fs target = Inr rp'"
    and sort: "sort_by candidateBefore (filter (waitingCandidate rp') (mvalues (mq_candidates s))) = first # rest"
    and claim: "cl_Candidate claim = (if mc_Status first = StatusQueued then first\<lparr>mc_Status := StatusMergeCheck, mc_UpdatedAt := now\<rparr> else first)"
    by (rule ClaimNext_granted)
  have "rp' = rp" using rp' assms(1) by simp
  with first_waiting[OF sort[unfolded this] mget_mvalues[OF c(1)] c(2)]
  have "c = first \<or> \<not> candidateBefore c first" by simp
  moreover have "mc_ID (cl_Candidate claim) = mc_ID first" "mc_CreatedAt (cl_Candidate claim) = mc_CreatedAt first" using claim by auto
  ultimately show "mc_ID c = mc_ID (cl_Candidate claim) \<or> mc_CreatedAt (cl_Candidate claim) < mc_CreatedAt c
      \<or> (mc_CreatedAt (cl_Candidate claim) = mc_CreatedAt c \<and> mc_ID (cl_Candidate claim) < mc_ID c)"
    by (auto simp: candidateBefore_def split: if_splits)
qed

theorem claim_in_arrival_order_witness:
  "\<exists>i c. mget (mq_candidates example_queue) i = Some c \<and> waitingCandidate ''/r'' c"
proof -
  have "normalizeTargetRepository example_fs ''/r'' = Inr ''/r''" by code_simp
  moreover have "activeOperationLocked example_queue ''/r'' = None" by code_simp
  moreover have "Option.is_none (mget (mq_repoClaims example_queue) ''/r'')" by code_simp
  moreover have "mwf (mq_candidates example_queue)" using merge_reachable_inv[OF example_queue_reachable] by (simp add: merge_inv_def)
  ultimately show ?thesis
    using claim_in_arrival_order[of example_fs "''/r''" "''/r''" example_queue 2] example_granted
    unfolding example_claim_def is_none_simps Option.is_none_def by metis
qed

text \<open>A candidate of the queue is never lost and never changes its identity; its status moves forward only, its evidence
  grows, and once it is merged or failed it stays as it is. The audit log only grows, and a delivered
  audit stays delivered.\<close>

theorem merge_outcome_final:
  assumes "merge_reachable s" "merge_step\<^sup>*\<^sup>* s t"
  shows "(mget (mq_candidates s) i = Some c \<longrightarrow> (\<exists>d. mget (mq_candidates t) i = Some d \<and> same_candidate c d
       \<and> statusRank (mc_Status c) \<le> statusRank (mc_Status d) \<and> set (mc_EvidenceRefs c) - {''''} \<subseteq> set (mc_EvidenceRefs d)
       \<and> (mc_Status c = StatusMerged \<or> mc_Status c = StatusFailed \<longrightarrow> d = c)))
     \<and> prefix (mq_auditOrder s) (mq_auditOrder t)
     \<and> (mget (mq_audits s) key = Some a \<longrightarrow> (\<exists>b. mget (mq_audits t) key = Some b \<and> b = a\<lparr>ad_Delivered := ad_Delivered b\<rparr>
          \<and> (ad_Delivered a \<longrightarrow> ad_Delivered b)))"
proof -
  have "merge_extends s t" using merge_steps_ok[OF assms(2) merge_reachable_inv[OF assms(1)]] by (simp add: merge_ok_def)
  then show ?thesis
    unfolding merge_extends_def candidate_extends_def audit_extends_def final_status_def by blast
qed

theorem merge_outcome_final_witness:
  "\<exists>c d. mget (mq_candidates example_queue) ''c1'' = Some c \<and> mget (mq_candidates (snd example_claim)) ''c1'' = Some d
     \<and> same_candidate c d \<and> mc_Status c = StatusQueued \<and> mc_Status d = StatusMergeCheck"
proof -
  have step: "merge_step\<^sup>*\<^sup>* example_queue (snd example_claim)"
    unfolding example_claim_def by (rule r_into_rtranclp[where r = merge_step, OF Claim])
  have "map_option mc_Status (mget (mq_candidates example_queue) ''c1'') = Some StatusQueued" by code_simp
  then obtain c where c: "mget (mq_candidates example_queue) ''c1'' = Some c" "mc_Status c = StatusQueued" by auto
  with merge_outcome_final[OF example_queue_reachable step] obtain d
    where d: "mget (mq_candidates (snd example_claim)) ''c1'' = Some d" "same_candidate c d" by blast
  have "map_option mc_Status (mget (mq_candidates (snd example_claim)) ''c1'') = Some StatusMergeCheck" by code_simp
  with c d show ?thesis by auto
qed

end
