(* ===== verification/Merge_Reconciler_Inv.thy ===== *)
theory Merge_Reconciler_Inv
  imports Merge_Reconciler Merge_Properties Evidence_Properties
begin

text \<open>
  The reconciler on top of the queue, the artifacts, the event log and git. \<open>branch_laws\<close> states what is assumed of git
  and of the preparation of the clone. \<open>rc_inv\<close>: a merged candidate's branch has held the merged revision, and a
  delivered audit is in the event log; \<open>rc_next\<close> is what every part of a run keeps. The locale
  \<open>quiet_operation\<close> is the contract of the store's operations that merge nothing.
\<close>

section \<open>What is assumed of git\<close>

text \<open>
  \<open>held g repository branch revision\<close>: the branch of the repository has contained the revision at some time;
  \<open>out g repository branch\<close>: the branch is checked out in the repository. The law of a refused push reads
  the refusal as a branch that is checked out in the repository's own working tree, which is where
  \<open>reset --hard\<close> then moves it; a branch that is checked out in a linked worktree is outside these laws.
\<close>

definition keeps :: "('g \<Rightarrow> string \<Rightarrow> string \<Rightarrow> string \<Rightarrow> bool) \<Rightarrow> 'g \<Rightarrow> 'g \<Rightarrow> bool" where
  "keeps held g g' \<longleftrightarrow> (\<forall>repo b v. held g repo b v \<longrightarrow> held g' repo b v)"

definition git_laws :: "'g git \<Rightarrow> ('g \<Rightarrow> string \<Rightarrow> string \<Rightarrow> string \<Rightarrow> bool) \<Rightarrow> ('g \<Rightarrow> string \<Rightarrow> string \<Rightarrow> bool) \<Rightarrow> bool" where
  "git_laws git held out \<longleftrightarrow>
     (\<forall>g dir args r g'. git g dir args = (r, g') \<longrightarrow> keeps held g g')
   \<and> (\<forall>g repo b msg g'. git g repo [''rev-parse'', branchRef b] = (Inr msg, g') \<longrightarrow> held g' repo b (TrimSpace msg))
   \<and> (\<forall>g repo b v msg g'. git g repo [''merge-base'', ''--is-ancestor'', v, branchRef b] = (Inr msg, g') \<longrightarrow> held g' repo b v)
   \<and> (\<forall>g dir repo b v msg g'. git g dir [''push'', ''--porcelain'', repo, v @ '':'' @ branchRef b] = (Inr msg, g') \<longrightarrow> validBranch b \<longrightarrow> held g' repo b v)
   \<and> (\<forall>g dir repo b v e g'. git g dir [''push'', ''--porcelain'', repo, v @ '':'' @ branchRef b] = (Inl e, g') \<longrightarrow> validBranch b \<longrightarrow> isCheckedOutBranchPushRefusal e \<longrightarrow> out g' repo b)
   \<and> (\<forall>g dir cmd args r g' repo b. git g dir (cmd # args) = (r, g') \<longrightarrow> cmd = ''rev-parse'' \<or> cmd = ''fetch'' \<longrightarrow> out g repo b \<longrightarrow> out g' repo b)
   \<and> (\<forall>g repo b v msg g'. git g repo [''reset'', ''--hard'', v] = (Inr msg, g') \<longrightarrow> out g repo b \<longrightarrow> held g' repo b v)"

definition branch_laws :: "'g ReconcilerEnv \<Rightarrow> ('g \<Rightarrow> string \<Rightarrow> string \<Rightarrow> string \<Rightarrow> bool) \<Rightarrow> ('g \<Rightarrow> string \<Rightarrow> string \<Rightarrow> bool) \<Rightarrow> bool" where
  "branch_laws env held out \<longleftrightarrow> git_laws (re_git env) held out
   \<and> (\<forall>g c b r g'. re_Prepare env g c b = (r, g') \<longrightarrow> keeps held g g' \<and> (\<forall>p. r = Inr p \<longrightarrow>
        pm_TargetRepository p = mc_TargetRepository c \<and> pm_TargetBranch p = (if mc_TargetBranch c = '''' then ''main'' else mc_TargetBranch c)))
   \<and> (\<forall>g req r g'. re_Verify env g req = (r, g') \<longrightarrow> keeps held g g')
   \<and> (\<forall>g p c r g'. re_CreateMergeCommit env g p c = (r, g') \<longrightarrow> keeps held g g')
   \<and> (\<forall>g p. keeps held g (re_Cleanup env g p))"

lemma keeps_refl [simp]: "keeps held g g"
  by (simp add: keeps_def)

lemma keeps_trans: "keeps held g g' \<Longrightarrow> keeps held g' g'' \<Longrightarrow> keeps held g g''"
  by (simp add: keeps_def)

lemma git_keeps: "git_laws git held out \<Longrightarrow> git g dir args = (r, g') \<Longrightarrow> keeps held g g'"
  by (simp add: git_laws_def)

lemma git_parse: "git_laws git held out \<Longrightarrow> git g repo [''rev-parse'', branchRef b] = (Inr msg, g') \<Longrightarrow> held g' repo b (TrimSpace msg)"
  by (simp add: git_laws_def)

lemma git_ancestor: "git_laws git held out \<Longrightarrow> git g repo [''merge-base'', ''--is-ancestor'', v, branchRef b] = (Inr msg, g') \<Longrightarrow> held g' repo b v"
  by (simp add: git_laws_def)

lemma git_push: "git_laws git held out \<Longrightarrow> git g dir [''push'', ''--porcelain'', repo, v @ '':'' @ branchRef b] = (Inr msg, g') \<Longrightarrow> validBranch b \<Longrightarrow> held g' repo b v"
  by (simp add: git_laws_def)

lemma git_refused:
  "git_laws git held out \<Longrightarrow> git g dir [''push'', ''--porcelain'', repo, v @ '':'' @ branchRef b] = (Inl e, g') \<Longrightarrow> validBranch b \<Longrightarrow> isCheckedOutBranchPushRefusal e \<Longrightarrow> out g' repo b"
  by (simp add: git_laws_def)

lemma git_stays_out:
  "git_laws git held out \<Longrightarrow> git g dir (cmd # args) = (r, g') \<Longrightarrow> cmd = ''rev-parse'' \<or> cmd = ''fetch'' \<Longrightarrow> out g repo b \<Longrightarrow> out g' repo b"
  by (auto simp: git_laws_def)

lemma git_reset: "git_laws git held out \<Longrightarrow> git g repo [''reset'', ''--hard'', v] = (Inr msg, g') \<Longrightarrow> out g repo b \<Longrightarrow> held g' repo b v"
  by (simp add: git_laws_def)

section \<open>The push\<close>

lemma pushLocal_held:
  assumes laws: "git_laws git held out" and o: "out g (pm_TargetRepository p) (pm_TargetBranch p)"
    and run: "pushToCheckedOutLocalRepository git g p v = (r, g')"
  shows "keeps held g g'" and "r = None \<Longrightarrow> held g' (pm_TargetRepository p) (pm_TargetBranch p) v"
proof -
  let ?repo = "pm_TargetRepository p"
  obtain a g1 where g1: "git g ?repo [''rev-parse'', branchRef (pm_TargetBranch p)] = (a, g1)" by fastforce
  obtain b g2 where g2: "git g1 ?repo [''fetch'', ''--quiet'', pm_Root p, v] = (b, g2)" by fastforce
  obtain c g3 where g3: "git g2 ?repo [''reset'', ''--hard'', v] = (c, g3)" by fastforce
  note k = git_keeps[OF laws g1] git_keeps[OF laws g2] git_keeps[OF laws g3]
  have cases: "g' = g1 \<or> g' = g2 \<or> g' = g3" "r = None \<Longrightarrow> g' = g3 \<and> (\<exists>msg. c = Inr msg)"
    using run by (auto simp: pushToCheckedOutLocalRepository_def g1 g2 g3 split: sum.splits if_splits)
  show "keeps held g g'" using cases(1) k keeps_trans by metis
  assume "r = None"
  with cases(2) obtain msg where c: "g' = g3" "c = Inr msg" by blast
  have "out g2 ?repo (pm_TargetBranch p)" using o git_stays_out[OF laws g1] git_stays_out[OF laws g2] by simp
  then show "held g' ?repo (pm_TargetBranch p) v" using git_reset[OF laws g3[unfolded c(2)]] c(1) by simp
qed

lemma PushExact_held:
  assumes laws: "git_laws git held out" and branch: "validBranch (pm_TargetBranch p)" and run: "PushExact git g p v = (r, g')"
  shows "keeps held g g' \<and> (r = None \<longrightarrow> held g' (pm_TargetRepository p) (pm_TargetBranch p) v)"
proof -
  let ?repo = "pm_TargetRepository p" and ?b = "pm_TargetBranch p"
  obtain a g1 where g1: "git g ?repo [''rev-parse'', branchRef ?b] = (a, g1)" by fastforce
  obtain b g2 where g2: "git g1 (pm_Root p) [''rev-parse'', ''HEAD''] = (b, g2)" by fastforce
  obtain c g3 where g3: "git g2 (pm_Root p) [''push'', ''--porcelain'', ?repo, v @ '':'' @ branchRef ?b] = (c, g3)" by fastforce
  obtain d g4 where g4: "pushToCheckedOutLocalRepository git g3 p v = (d, g4)" by fastforce
  note k = git_keeps[OF laws g1] git_keeps[OF laws g2] git_keeps[OF laws g3]
  have k3: "keeps held g g3" using k keeps_trans by metis
  consider "g' = g \<or> g' = g1 \<or> g' = g2 \<or> g' = g3" "r \<noteq> None"
    | msg where "a = Inr msg" "TrimSpace msg = v" "r = None" "g' = g1"
    | msg where "c = Inr msg" "r = None" "g' = g3"
    | e where "c = Inl e" "isCheckedOutBranchPushRefusal e" "g' = g4" "r = None \<longrightarrow> d = None"
    using run unfolding PushExact_def g1 by (cases a; cases b; cases c; cases d) (auto simp: g2 g3[simplified] g4 Let_def split: if_splits)
  then show ?thesis
  proof cases
    case 1 then show ?thesis using k k3 keeps_trans by (metis keeps_refl)
  next
    case 2 then show ?thesis using git_parse[OF laws g1[unfolded 2(1)]] k(1) by simp
  next
    case 3 then show ?thesis using git_push[OF laws g3[unfolded 3(1)] branch] k3 by simp
  next
    case 4
    have "out g3 ?repo ?b" by (rule git_refused[OF laws g3[unfolded 4(1)] branch 4(2)])
    note pushed = pushLocal_held[OF laws this g4]
    have "keeps held g g'" using keeps_trans[OF k3 pushed(1)] 4(3) by simp
    moreover have "held g' ?repo ?b v" if "r = None" using pushed(2) 4(3,4) that by simp
    ultimately show ?thesis by simp
  qed
qed

lemma ContainsRevision_held:
  assumes laws: "git_laws git held out" and run: "ContainsRevision git g repo b v = (r, g')"
  shows "keeps held g g' \<and> (r = Inr True \<longrightarrow> validBranch b \<longrightarrow> held g' repo b v)"
proof -
  let ?b = "if b = '''' then ''main'' else b"
  obtain x g1 where g1: "git g repo [''cat-file'', ''-e'', v @ ''^{commit}''] = (x, g1)" by fastforce
  obtain y g2 where g2: "git g1 repo [''merge-base'', ''--is-ancestor'', v, branchRef ?b] = (y, g2)" by fastforce
  obtain z g3 where g3: "git g2 repo [''rev-parse'', branchRef ?b] = (z, g3)" by fastforce
  note k = git_keeps[OF laws g1] git_keeps[OF laws g2] git_keeps[OF laws g3]
  consider "g' = g \<or> g' = g1 \<or> g' = g2 \<or> g' = g3" "r \<noteq> Inr True" | msg where "y = Inr msg" "g' = g2"
    using run by (auto simp: ContainsRevision_def g1 g2 g3 Let_def split: sum.splits if_splits)
  then show ?thesis
  proof cases
    case 1 then show ?thesis using k keeps_trans by (metis keeps_refl)
  next
    case 2 then show ?thesis using git_ancestor[OF laws g2[unfolded 2(1)]] keeps_trans[OF k(1) k(2)] by (auto simp: validBranch_def)
  qed
qed

section \<open>Operations of the store that merge nothing\<close>

text \<open>
  \<open>branches_ok\<close>: candidates have a branch, and an operation is for the branch of its candidate.
  \<open>quiet s t\<close>: no candidate has become merged and no audit delivered.
\<close>

definition op_branch_ok :: "MergeStore \<Rightarrow> mergeOperation \<Rightarrow> bool" where
  "op_branch_ok s op \<longleftrightarrow> \<not> ad_Delivered (op_Audit op)
     \<and> (\<exists>c. mget (mq_candidates s) (op_CandidateID op) = Some c \<and> mc_TargetBranch c = op_TargetBranch op)"

definition branches_ok :: "MergeStore \<Rightarrow> bool" where
  "branches_ok s \<longleftrightarrow> (\<forall>i c. mget (mq_candidates s) i = Some c \<longrightarrow> validBranch (mc_TargetBranch c))
     \<and> (\<forall>k op. mget (mq_operations s) k = Some op \<longrightarrow> op_branch_ok s op)"

definition quiet :: "MergeStore \<Rightarrow> MergeStore \<Rightarrow> bool" where
  "quiet s t \<longleftrightarrow> (\<forall>i c. mget (mq_candidates t) i = Some c \<longrightarrow> mc_Status c = StatusMerged \<longrightarrow> mget (mq_candidates s) i = Some c)
     \<and> (\<forall>k a. mget (mq_audits t) k = Some a \<longrightarrow> ad_Delivered a \<longrightarrow> mget (mq_audits s) k = Some a)"

lemma quiet_refl [simp]: "quiet s s"
  by (simp add: quiet_def)

lemma quiet_trans: "quiet s t \<Longrightarrow> quiet t u \<Longrightarrow> quiet s u"
  unfolding quiet_def by blast

lemma same_candidate_branch: "same_candidate c d \<Longrightarrow> mc_TargetBranch d = mc_TargetBranch c"
  by (cases c; cases d) (simp add: same_candidate_def)

lemma putCandidate_get:
  "mget (mq_candidates (putCandidate s d)) i = (if mc_ID d = i then Some d else mget (mq_candidates s) i)"
  "mq_operations (putCandidate s d) = mq_operations s" "mq_audits (putCandidate s d) = mq_audits s"
  by (simp_all add: putCandidate_def gomap_simps)

lemma quiet_put:
  assumes "branches_ok s" "validBranch (mc_TargetBranch d)" "\<And>c. mget (mq_candidates s) (mc_ID d) = Some c \<Longrightarrow> mc_TargetBranch d = mc_TargetBranch c"
  shows "branches_ok (putCandidate s d)" and "mc_Status d \<noteq> StatusMerged \<Longrightarrow> quiet s (putCandidate s d)"
proof -
  have "op_branch_ok s op \<Longrightarrow> op_branch_ok (putCandidate s d) op" for op
    using assms(3) by (auto simp: op_branch_ok_def putCandidate_get)
  then show "branches_ok (putCandidate s d)" using assms(1,2) by (auto simp: branches_ok_def putCandidate_get)
  show "mc_Status d \<noteq> StatusMerged \<Longrightarrow> quiet s (putCandidate s d)" by (auto simp: quiet_def putCandidate_get)
qed

lemma quiet_putCandidate:
  assumes "branches_ok s" "mget (mq_candidates s) (mc_ID d) = Some c" "same_candidate c d"
  shows "branches_ok (putCandidate s d)" and "mc_Status d \<noteq> StatusMerged \<Longrightarrow> quiet s (putCandidate s d)"
proof -
  have "validBranch (mc_TargetBranch c)" using assms(1,2) by (auto simp: branches_ok_def)
  with same_candidate_branch[OF assms(3)] assms(2) quiet_put[OF assms(1), of d]
  show "branches_ok (putCandidate s d)" "mc_Status d \<noteq> StatusMerged \<Longrightarrow> quiet s (putCandidate s d)" by auto
qed

lemma quiet_putOperation:
  assumes "branches_ok s" "op_branch_ok s op"
  shows "branches_ok (putOperation s op) \<and> quiet s (putOperation s op)"
  using assms by (auto simp: branches_ok_def quiet_def putOperation_def gomap_simps op_branch_ok_def)

lemma quiet_changeOperation:
  assumes "branches_ok s" "mget (mq_operations s) k = Some stored"
    and "op_Audit op = op_Audit stored" "op_CandidateID op = op_CandidateID stored" "op_TargetBranch op = op_TargetBranch stored"
  shows "branches_ok (putOperation s op) \<and> quiet s (putOperation s op)"
proof -
  have "op_branch_ok s stored" using assms(1,2) by (auto simp: branches_ok_def)
  then have "op_branch_ok s op" using assms(3-5) by (simp add: op_branch_ok_def)
  then show ?thesis by (rule quiet_putOperation[OF assms(1)])
qed

lemma quiet_claims: "branches_ok s \<Longrightarrow> branches_ok (s\<lparr>mq_repoClaims := x\<rparr>) \<and> quiet s (s\<lparr>mq_repoClaims := x\<rparr>)"
  by (simp add: branches_ok_def quiet_def op_branch_ok_def)

lemma quiet_appendAudit:
  assumes "branches_ok s" "\<not> ad_Delivered audit" "appendAuditLocked s audit = (e, t)"
  shows "branches_ok t \<and> quiet s t"
proof (cases "t = s")
  case False
  then obtain x y where "t = s\<lparr>mq_audits := mput (ad_StableKey audit) x (mq_audits s), mq_auditOrder := y\<rparr>" "\<not> ad_Delivered x"
    using assms(2,3) by (auto simp: appendAuditLocked_def Let_def split: if_splits option.splits)
  then show ?thesis using assms(1) by (auto simp: branches_ok_def op_branch_ok_def quiet_def gomap_simps)
qed (use assms(1) in simp)

locale quiet_operation = queue_operation +
  assumes run_quiet: "merge_inv s \<Longrightarrow> branches_ok s \<Longrightarrow> run s = (r, t) \<Longrightarrow> branches_ok t \<and> quiet s t"

lemma enqueue_change:
  assumes "enqueue fs ctx now s req audit = (r, t)" "appendAuditLocked s audit = (e, s')"
  shows "t = s \<or> t = s' \<or> (\<exists>q. t = putCandidate s' (newCandidate now q) \<and> validBranch (eq_TargetBranch q) \<and> mget (mq_candidates s) (eq_ID q) = None)"
proof -
  define norm where "norm = and_then (checked ctx (normalizeTargetRepository fs (eq_TargetRepository req)))
    (\<lambda>target. let q = req\<lparr>eq_TargetRepository := target, eq_TargetBranch := (if eq_TargetBranch req = '''' then ''main'' else eq_TargetBranch req)\<rparr>
       in checked (validateEnqueue q) (Inr q))"
  have branch: "norm = Inr q \<Longrightarrow> validBranch (eq_TargetBranch q)" for q
    by (auto simp: norm_def Let_def check_simps validateEnqueue_def split: sum.splits if_splits)
  from assms show ?thesis
    unfolding enqueue_def norm_def[symmetric] using branch by (auto split: sum.splits option.splits if_splits)
qed

interpretation enqueue_quiet: quiet_operation "\<lambda>s. enqueue fs ctx now s req (queuedAudit req)" for fs ctx now req
proof
  fix s r t assume ok: "branches_ok s" and run: "enqueue fs ctx now s req (queuedAudit req) = (r, t)"
  show "branches_ok t \<and> quiet s t"
  proof (cases "t = s")
    case False
    then obtain e s' where a: "appendAuditLocked s (queuedAudit req) = (e, s')" by fastforce
    have s': "branches_ok s' \<and> quiet s s'" by (rule quiet_appendAudit[OF ok _ a]) (simp add: queuedAudit_def)
    have "t = s' \<or> (\<exists>d. t = putCandidate s' d \<and> validBranch (mc_TargetBranch d) \<and> mc_Status d \<noteq> StatusMerged \<and> mget (mq_candidates s) (mc_ID d) = None)"
      using enqueue_change[OF run a] False by (auto simp: newCandidate_def)
    moreover have "mq_candidates s' = mq_candidates s" using a by (auto simp: appendAuditLocked_def Let_def split: if_splits option.splits)
    ultimately show ?thesis using s' quiet_put[of s'] quiet_trans by fastforce
  qed (use ok in simp)
qed

interpretation claim_quiet: quiet_operation "\<lambda>s. ClaimNext fs ctx now s target" for fs ctx now target
proof
  fix s r t assume inv: "merge_inv s" and ok: "branches_ok s" and run: "ClaimNext fs ctx now s target = (r, t)"
  show "branches_ok t \<and> quiet s t"
  proof (cases "t = s")
    case False
    then obtain rp c rest d x where rp: "sort_by candidateBefore (filter (waitingCandidate rp) (mvalues (mq_candidates s))) = c # rest"
      and d: "d = c\<lparr>mc_Status := StatusMergeCheck, mc_UpdatedAt := now\<rparr>"
      and t: "t = (if mc_Status c = StatusQueued then putCandidate s d else s)\<lparr>mq_repoClaims := x\<rparr>"
      using run by (auto simp: ClaimNext_def Let_def split: sum.splits if_splits list.splits)
    have "c \<in> set (filter (waitingCandidate rp) (mvalues (mq_candidates s)))" using rp set_sort_by by (metis list.set_intros(1))
    then have "mget (mq_candidates s) (mc_ID c) = Some c" using inv by (auto simp: merge_inv_def mvalues_iff)
    then have "branches_ok (putCandidate s d) \<and> quiet s (putCandidate s d)"
      using quiet_putCandidate[OF ok, of d c] by (simp add: d same_candidate_def)
    then have "branches_ok s1 \<and> quiet s s1" if "s1 = (if mc_Status c = StatusQueued then putCandidate s d else s)" for s1
      using ok that by simp
    then show ?thesis unfolding t using quiet_claims quiet_trans by blast
  qed (use ok in simp)
qed

interpretation renew_quiet: quiet_operation "\<lambda>s. RenewClaim ctx now s claim" for ctx now claim
  by unfold_locales (auto simp: RenewClaim_def Let_def quiet_claims split: option.splits)

interpretation release_quiet: quiet_operation "\<lambda>s. ReleaseClaim ctx s claim" for ctx claim
  by unfold_locales (auto simp: ReleaseClaim_def quiet_claims split: option.splits if_splits)

interpretation advance_quiet: quiet_operation "\<lambda>s. advance ctx now s claim from StatusTargetedVerify refs merged" for ctx now claim "from" refs merged
proof
  fix s r t assume inv: "merge_inv s" and ok: "branches_ok s" and run: "advance ctx now s claim from StatusTargetedVerify refs merged = (r, t)"
  from advance_change[OF run] show "branches_ok t \<and> quiet s t"
  proof (elim disjE exE conjE)
    fix c assume claimed: "claimedCandidate s claim = Inr c"
      and t: "t = putCandidate s (c\<lparr>mc_Status := StatusTargetedVerify, mc_EvidenceRefs := dedupeEvidence (mc_EvidenceRefs c @ refs), mc_MergedRevision := merged, mc_UpdatedAt := now\<rparr>)"
    have "mget (mq_candidates s) (mc_ID c) = Some c" by (rule conjunct1[OF claimedCandidate_Inr[OF inv claimed]])
    then show ?thesis unfolding t by (intro conjI quiet_putCandidate[OF ok, where c = c]) (simp_all add: same_candidate_def)
  qed (use ok in simp)
qed

interpretation begin_quiet: quiet_operation "\<lambda>s. beginMergeOperation ctx token s claim (req\<lparr>oq_Audit := mergeSucceededAudit c a b refs\<rparr>)"
  for ctx token claim req c a b refs
proof
  fix s r t assume inv: "merge_inv s" and ok: "branches_ok s"
    and run: "beginMergeOperation ctx token s claim (req\<lparr>oq_Audit := mergeSucceededAudit c a b refs\<rparr>) = (r, t)"
  from begin_change[OF run] show "branches_ok t \<and> quiet s t"
  proof (elim disjE exE conjE)
    fix d assume claimed: "claimedCandidate s claim = Inr d" and t: "t = putOperation s (newOperation token d (req\<lparr>oq_Audit := mergeSucceededAudit c a b refs\<rparr>))"
    have "mget (mq_candidates s) (mc_ID d) = Some d" by (rule conjunct1[OF claimedCandidate_Inr[OF inv claimed]])
    then show ?thesis unfolding t by (intro quiet_putOperation[OF ok]) (simp add: op_branch_ok_def newOperation_def mergeSucceededAudit_def)
  qed (use ok in simp)
qed

interpretation abort_quiet: quiet_operation "\<lambda>s. abortMergeOperation ctx s op" for ctx op
proof
  fix s r t assume ok: "branches_ok s" and run: "abortMergeOperation ctx s op = (r, t)"
  then show "branches_ok t \<and> quiet s t"
    using quiet_changeOperation[OF ok] requireOperation_Inr by (cases ctx) (fastforce simp: abortMergeOperation_def split: sum.splits)+
qed

interpretation recovery_quiet: quiet_operation "\<lambda>s. markMergeOperationRecoveryRequired ctx s op reason" for ctx op reason
proof
  fix s r t assume ok: "branches_ok s" and run: "markMergeOperationRecoveryRequired ctx s op reason = (r, t)"
  then show "branches_ok t \<and> quiet s t"
    using quiet_changeOperation[OF ok] requireOperation_Inr by (cases ctx) (fastforce simp: markMergeOperationRecoveryRequired_def split: sum.splits)+
qed

interpretation fail_quiet: quiet_operation "\<lambda>s. failCandidate ctx now s claim from reason refs (failedAudit c x y)" for ctx now claim "from" reason refs c x y
proof
  fix s r t assume inv: "merge_inv s" and ok: "branches_ok s" and run: "failCandidate ctx now s claim from reason refs (failedAudit c x y) = (r, t)"
  from fail_change[OF run] show "branches_ok t \<and> quiet s t"
  proof (elim disjE[of "t = s"] exE conjE)
    fix d :: Candidate and e s'
    let ?d = "d\<lparr>mc_Status := StatusFailed, mc_FailureReason := reason, mc_EvidenceRefs := dedupeEvidence (mc_EvidenceRefs d @ refs), mc_UpdatedAt := now\<rparr>"
    assume claimed: "claimedCandidate s claim = Inr d" and a: "appendAuditLocked s (failedAudit c x y) = (e, s')"
      and t: "t = s' \<or> e = None \<and> (mc_Status d = StatusMergeCheck \<or> mc_Status d = StatusTargetedVerify) \<and> t = putCandidate s' ?d"
    have s': "branches_ok s' \<and> quiet s s'" by (rule quiet_appendAudit[OF ok _ a]) (simp add: failedAudit_def)
    have "mget (mq_candidates s') (mc_ID ?d) = Some d" using conjunct1[OF claimedCandidate_Inr[OF inv claimed]] appendAudit_ok[OF inv a] by simp
    with s' quiet_putCandidate[of s' ?d d] have "branches_ok (putCandidate s' ?d)" "quiet s' (putCandidate s' ?d)"
      by (simp_all add: same_candidate_def)
    with t s' show ?thesis using quiet_trans by blast
  qed (use ok in simp)
qed

section \<open>The invariant of the reconciler\<close>

definition merged_ok :: "('g \<Rightarrow> string \<Rightarrow> string \<Rightarrow> string \<Rightarrow> bool) \<Rightarrow> 'g Reconciler \<Rightarrow> bool" where
  "merged_ok held st \<longleftrightarrow> (\<forall>i c. mget (mq_candidates (rc_store st)) i = Some c \<longrightarrow> mc_Status c = StatusMerged \<longrightarrow>
     held (rc_git st) (mc_TargetRepository c) (mc_TargetBranch c) (mc_MergedRevision c))"

definition delivered_ok :: "'g Reconciler \<Rightarrow> bool" where
  "delivered_ok st \<longleftrightarrow> (\<forall>k a. mget (mq_audits (rc_store st)) k = Some a \<longrightarrow> ad_Delivered a \<longrightarrow> mget (el_byStableKey (rc_events st)) k \<noteq> None)"

definition rc_inv :: "('g \<Rightarrow> string \<Rightarrow> string \<Rightarrow> string \<Rightarrow> bool) \<Rightarrow> 'g Reconciler \<Rightarrow> bool" where
  "rc_inv held st \<longleftrightarrow> merge_inv (rc_store st) \<and> branches_ok (rc_store st) \<and> log_inv (rc_events st) \<and> merged_ok held st \<and> delivered_ok st"

definition rc_next :: "('g \<Rightarrow> string \<Rightarrow> string \<Rightarrow> string \<Rightarrow> bool) \<Rightarrow> 'g Reconciler \<Rightarrow> 'g Reconciler \<Rightarrow> bool" where
  "rc_next held st st' \<longleftrightarrow> rc_inv held st' \<and> merge_extends (rc_store st) (rc_store st') \<and> keeps held (rc_git st) (rc_git st')"

lemma rc_next_refl [simp]: "rc_inv held st \<Longrightarrow> rc_next held st st"
  by (simp add: rc_next_def)

lemma rc_next_trans: "rc_next held a b \<Longrightarrow> rc_next held b c \<Longrightarrow> rc_next held a c"
  using merge_extends_trans keeps_trans by (auto simp: rc_next_def)

lemma rc_next_inv: "rc_next held a b \<Longrightarrow> rc_inv held b"
  by (simp add: rc_next_def)

text \<open>A quiet change of the store and a run of git.\<close>

lemma rc_nextI:
  assumes "rc_inv held st" "keeps held (rc_git st) (rc_git st')" "merge_ok (rc_store st) (rc_store st')"
    and "branches_ok (rc_store st') \<and> quiet (rc_store st) (rc_store st')" "rc_events st' = rc_events st"
  shows "rc_next held st st'"
proof -
  have "merged_ok held st'" using assms(1,2,4) unfolding rc_inv_def merged_ok_def quiet_def keeps_def by blast
  moreover have "delivered_ok st'" using assms(1,4,5) by (auto simp: rc_inv_def delivered_ok_def quiet_def)
  ultimately show ?thesis using assms by (auto simp: rc_next_def rc_inv_def merge_ok_def)
qed

lemma rc_next_same:
  assumes "rc_inv held st" "keeps held (rc_git st) (rc_git st')" "rc_store st' = rc_store st" "rc_events st' = rc_events st"
  shows "rc_next held st st'"
  using assms by (intro rc_nextI) (auto simp: rc_inv_def)

lemma rc_inv_parts: "rc_inv held st \<Longrightarrow> merge_inv (rc_store st)" "rc_inv held st \<Longrightarrow> branches_ok (rc_store st)"
  by (simp_all add: rc_inv_def)

context quiet_operation
begin

lemma rc_op:
  assumes "rc_inv held st" "run (rc_store st) = (r, t)" "keeps held (rc_git st) (rc_git st')" "rc_store st' = t" "rc_events st' = rc_events st"
  shows "rc_next held st st'"
  using assms run_ok[OF rc_inv_parts(1)[OF assms(1)] assms(2)] run_quiet[OF rc_inv_parts[OF assms(1)] assms(2)]
  by (intro rc_nextI[OF assms(1)]) auto

end

section \<open>Audits reach the log first\<close>

lemma AppendTo_logged:
  assumes "AppendTo sha marshal canonical ctx now l req = (Inr e, m)"
  shows "mget (el_byStableKey m) (ae_StableKey req) \<noteq> None"
  using assms by (cases rule: AppendTo_cases) (auto simp: gomap_simps)

lemma rc_next_log:
  assumes "rc_inv held st" "AppendTo sha marshal canonical ctx now (rc_events st) req = (r, l)"
  shows "rc_next held st (st\<lparr>rc_events := l\<rparr>)"
proof -
  have "delivered_ok (st\<lparr>rc_events := l\<rparr>)"
    using assms(1) append_grows[OF assms(2)] unfolding rc_inv_def delivered_ok_def log_grows_def by fastforce
  then show ?thesis
    using assms(1) log_inv_append[OF _ assms(2)] by (simp add: rc_next_def rc_inv_def merged_ok_def)
qed

lemma rc_next_delivered:
  assumes "rc_inv held st" "markAuditDelivered ctx (rc_store st) key = (e, s)" "mget (el_byStableKey (rc_events st)) key \<noteq> None"
  shows "rc_next held st (st\<lparr>rc_store := s\<rparr>)"
proof -
  have ok: "merge_ok (rc_store st) s" by (rule delivered_op.run_ok[OF rc_inv_parts(1)[OF assms(1)] assms(2)])
  have "s = rc_store st \<or> (\<exists>a. s = (rc_store st)\<lparr>mq_audits := mput key a (mq_audits (rc_store st))\<rparr>)"
    using assms(2) by (auto simp: markAuditDelivered_def split: option.splits)
  then show ?thesis
    using assms(1,3) ok
    by (auto simp: rc_next_def rc_inv_def merge_ok_def merged_ok_def delivered_ok_def branches_ok_def op_branch_ok_def gomap_simps split: if_splits)
qed

lemma flushLoop_ok: "rc_inv held st \<Longrightarrow> flushLoop env audits st = (e, st') \<Longrightarrow> rc_next held st st'"
proof (induction audits arbitrary: st)
  case (Cons audit audits)
  obtain r l where a: "AppendTo (re_sha env) (re_marshal env) (re_canonical env) (re_ctx env 20) (re_now env 20) (rc_events st) (auditEvent audit) = (r, l)"
    by fastforce
  note st1 = rc_next_log[OF Cons.prems(1) a]
  show ?case
  proof (cases r)
    case Inl then show ?thesis using Cons.prems(2) a st1 by simp
  next
    case (Inr ev)
    obtain f s where m: "markAuditDelivered (re_ctx env 21) (rc_store st) (ad_StableKey audit) = (f, s)" by fastforce
    have st2: "rc_next held (st\<lparr>rc_events := l\<rparr>) (st\<lparr>rc_events := l, rc_store := s\<rparr>)"
      using rc_next_delivered[OF rc_next_inv[OF st1]] m AppendTo_logged[OF a[unfolded Inr]] by (simp add: auditEvent_def)
    note st12 = rc_next_trans[OF st1 st2]
    show ?thesis
      using Cons.prems(2) a Inr m st12 Cons.IH[OF rc_next_inv[OF st2]] rc_next_trans[OF st12] by (cases f) auto
  qed
qed simp

lemma flushAudits_ok: "rc_inv held st \<Longrightarrow> flushAudits env st pid = (e, st') \<Longrightarrow> rc_next held st st'"
  using flushLoop_ok by (auto simp: flushAudits_def split: sum.splits)

section \<open>Finishing, blocking and failing a candidate\<close>

lemma operation_repository:
  assumes "merge_inv s" "mget (mq_operations s) k = Some op" "mget (mq_candidates s) (op_CandidateID op) = Some c"
  shows "mc_TargetRepository c = op_TargetRepository op"
  using assms unfolding merge_inv_def operations_ok_def by (metis option.inject)

lemma operation_branch: "branches_ok s \<Longrightarrow> mget (mq_operations s) k = Some op \<Longrightarrow> validBranch (op_TargetBranch op)"
  unfolding branches_ok_def op_branch_ok_def by metis

lemma finalize_merged:
  assumes inv: "rc_inv held st" and op: "mget (mq_operations (rc_store st)) (op_ID op) = Some op"
    and pushed: "held (rc_git st) (op_TargetRepository op) (op_TargetBranch op) (op_ExpectedMergedRevision op)"
    and run: "finalizeMergeOperation ctx now (rc_store st) op = (r, t)"
  shows "rc_next held st (st\<lparr>rc_store := t\<rparr>)"
proof -
  note parts = rc_inv_parts[OF inv]
  have ok: "merge_ok (rc_store st) t" by (rule finalize_op.run_ok[OF parts(1) run])
  have opok: "op_branch_ok (rc_store st) op" using parts(2) op by (auto simp: branches_ok_def)
  from finalize_change[OF run] show ?thesis
  proof (elim disjE[of "t = rc_store st"] exE conjE)
    fix stored :: mergeOperation and c :: Candidate and e s'
    let ?d = "c\<lparr>mc_Status := StatusMerged, mc_EvidenceRefs := dedupeEvidence (mc_EvidenceRefs c @ op_EvidenceRefs stored),
        mc_MergedRevision := op_ExpectedMergedRevision stored, mc_UpdatedAt := now\<rparr>"
    assume stored: "requireOperationLocked (rc_store st) op = Inr stored" and a: "appendAuditLocked (rc_store st) (op_Audit stored) = (e, s')"
      and c: "mget (mq_candidates (rc_store st)) (op_CandidateID stored) = Some c"
      and t: "t = s' \<or> e = None \<and> t = putOperation (putCandidate s' ?d) (stored\<lparr>op_Status := ''finalized''\<rparr>)"
    have [simp]: "stored = op" using requireOperation_Inr[OF stored] op by simp
    have s': "branches_ok s' \<and> quiet (rc_store st) s'" using quiet_appendAudit[OF parts(2) _ a] opok by (simp add: op_branch_ok_def)
    have same: "mq_candidates s' = mq_candidates (rc_store st)" "mq_operations s' = mq_operations (rc_store st)"
      using appendAudit_ok[OF parts(1) a] by simp_all
    have id: "mc_ID c = op_CandidateID op" "mc_TargetBranch c = op_TargetBranch op" "mc_TargetRepository c = op_TargetRepository op"
      using c opok operation_repository[OF parts(1) op] parts(1) by (auto simp: op_branch_ok_def merge_inv_def)
    have put: "branches_ok (putCandidate s' ?d)"
      using quiet_putCandidate(1)[of s' ?d c] s' c id by (simp add: same same_candidate_def)
    have fin: "branches_ok (putOperation (putCandidate s' ?d) (op\<lparr>op_Status := ''finalized''\<rparr>))
        \<and> quiet (putCandidate s' ?d) (putOperation (putCandidate s' ?d) (op\<lparr>op_Status := ''finalized''\<rparr>))"
      using quiet_changeOperation[OF put, of "op_ID op" op "op\<lparr>op_Status := ''finalized''\<rparr>"] op by (simp add: putCandidate_get same)
    have "merged_ok held (st\<lparr>rc_store := t\<rparr>)" if t': "t = putOperation (putCandidate s' ?d) (op\<lparr>op_Status := ''finalized''\<rparr>)"
      using inv pushed id unfolding rc_inv_def merged_ok_def by (auto simp: t' putOperation_def putCandidate_get same)
    moreover have "delivered_ok (st\<lparr>rc_store := t\<rparr>)" if t': "t = putOperation (putCandidate s' ?d) (op\<lparr>op_Status := ''finalized''\<rparr>)"
      using inv s' unfolding rc_inv_def delivered_ok_def quiet_def by (auto simp: t' putOperation_def putCandidate_get)
    ultimately have "rc_next held st (st\<lparr>rc_store := t\<rparr>)" if t': "t = putOperation (putCandidate s' ?d) (op\<lparr>op_Status := ''finalized''\<rparr>)"
      using t' inv ok fin by (simp add: rc_next_def rc_inv_def merge_ok_def)
    moreover have "rc_next held st (st\<lparr>rc_store := t\<rparr>)" if "t = s'" using ok s' that by (intro rc_nextI[OF inv]) auto
    ultimately show ?thesis using t by auto
  qed (use inv in \<open>simp\<close>)
qed

lemma finishMerge_ok:
  assumes inv: "rc_inv held st" and op: "mget (mq_operations (rc_store st)) (op_ID op) = Some op"
    and pushed: "held (rc_git st) (op_TargetRepository op) (op_TargetBranch op) (op_ExpectedMergedRevision op)"
    and run: "finishMerge env st op project = (r, st')"
  shows "rc_next held st st'"
proof -
  obtain x s where f: "finalizeMergeOperation (re_ctx env 11) (re_now env 11) (rc_store st) op = (x, s)" by fastforce
  note next1 = finalize_merged[OF inv op pushed f]
  show ?thesis using run f next1 rc_next_trans[OF next1 flushAudits_ok[OF rc_next_inv[OF next1]]]
    by (auto simp: finishMerge_def split: sum.splits prod.splits)
qed

lemma blockMerge_ok:
  assumes inv: "rc_inv held st" and run: "blockMerge env st op reason = (r, st')"
  shows "rc_next held st st'"
proof -
  obtain x s where f: "markMergeOperationRecoveryRequired (re_ctx env 12) (rc_store st) op reason = (x, s)" by fastforce
  have "st' = st\<lparr>rc_store := s\<rparr>" using run f by (auto simp: blockMerge_def split: sum.splits)
  then show ?thesis by (intro recovery_quiet.rc_op[OF inv f]) auto
qed

lemma failMerge_ok:
  assumes inv: "rc_inv held st" and run: "failMerge env st claim candidate from reason cause extra = (r, st')"
  shows "rc_next held st st'"
proof -
  obtain a registry objects where reg: "Register (re_sha env) (ObjectPut (re_sha env)) (re_ctx env 16) (re_now env 16) (rc_registry st) (rc_objects st)
      (failureArtifact env candidate reason cause) = (a, registry, objects)" by (metis prod_cases3)
  let ?st1 = "st\<lparr>rc_registry := registry, rc_objects := objects\<rparr>"
  have next1: "rc_next held st ?st1" by (rule rc_next_same[OF inv]) auto
  show ?thesis
  proof (cases a)
    case Inl then show ?thesis using run reg next1 by (simp add: failMerge_def)
  next
    case (Inr art)
    let ?refs = "dedupeEvidence (extra @ [art_ID art])"
    obtain x s where f: "failCandidate (re_ctx env 17) (re_now env 17) (rc_store ?st1) claim from reason ?refs (failedAudit candidate reason ?refs) = (x, s)"
      by fastforce
    have "rc_next held ?st1 (?st1\<lparr>rc_store := s\<rparr>)" by (rule fail_quiet.rc_op[OF rc_next_inv[OF next1] f]) auto
    from rc_next_trans[OF next1 this] have next2: "rc_next held st (?st1\<lparr>rc_store := s\<rparr>)" .
    obtain e st2 where fl: "flushAudits env (?st1\<lparr>rc_store := s\<rparr>) (mc_ProjectID candidate) = (e, st2)" by fastforce
    have "st' = ?st1\<lparr>rc_store := s\<rparr> \<or> st' = st2"
      using run reg Inr f fl by (cases x) (auto simp: failMerge_def Let_def)
    then show ?thesis using next2 rc_next_trans[OF next2 flushAudits_ok[OF rc_next_inv[OF next2] fl]] by auto
  qed
qed

lemma recoverPending_ok:
  assumes laws: "branch_laws env held out" and inv: "rc_inv held st" and run: "recoverPendingMergeOperation env st target = (r, st')"
  shows "rc_next held st st'"
proof (cases "pendingMergeOperation (re_fs env) (re_ctx env 1) (rc_store st) target")
  case (Inr found)
  show ?thesis
  proof (cases found)
    case (Some op)
    with Inr obtain rp where "activeOperationLocked (rc_store st) rp = Some op" by (auto simp: pendingMergeOperation_def check_simps)
    from activeOperation_Some(1)[OF rc_inv_parts(1)[OF inv] this] have op: "mget (mq_operations (rc_store st)) (op_ID op) = Some op" .
    obtain present g where c: "ContainsRevision (re_git env) (rc_git st) (op_TargetRepository op) (op_TargetBranch op) (op_ExpectedMergedRevision op) = (present, g)"
      by fastforce
    have git: "git_laws (re_git env) held out" using laws by (simp add: branch_laws_def)
    note found = ContainsRevision_held[OF git c]
    let ?st1 = "st\<lparr>rc_git := g\<rparr>"
    have next1: "rc_next held st ?st1" using found by (intro rc_next_same[OF inv]) auto
    have branch: "validBranch (op_TargetBranch op)" by (rule operation_branch[OF rc_inv_parts(2)[OF inv] op])
    consider "st' = st" | "st' = ?st1" | x where "blockMerge env ?st1 op x = (r, st')"
      | "present = Inr True" "finishMerge env ?st1 op mc_ProjectID = (r, st')"
      using run Inr Some c by (auto simp: recoverPendingMergeOperation_def split: sum.splits if_splits)
    then show ?thesis
    proof cases
      case 3 then show ?thesis using blockMerge_ok[OF rc_next_inv[OF next1]] rc_next_trans[OF next1] by blast
    next
      case 4
      have "rc_next held ?st1 st'" using op found branch 4(1) by (intro finishMerge_ok[OF rc_next_inv[OF next1] _ _ 4(2)]) auto
      then show ?thesis by (rule rc_next_trans[OF next1])
    qed (use next1 inv in auto)
  qed (use run Inr inv in \<open>auto simp: recoverPendingMergeOperation_def\<close>)
qed (use run inv in \<open>auto simp: recoverPendingMergeOperation_def\<close>)

section \<open>The push and its outcome\<close>

lemma pushMerge_ok:
  assumes laws: "git_laws (re_git env) held out" and inv: "rc_inv held st"
    and op: "mget (mq_operations (rc_store st)) (op_ID op) = Some op"
    and fits: "pm_TargetRepository prepared = op_TargetRepository op" "pm_TargetBranch prepared = op_TargetBranch op"
    and run: "pushMerge env st claim candidate prepared op = (r, st')"
  shows "rc_next held st st'"
proof -
  let ?v = "op_ExpectedMergedRevision op"
  obtain e g where p: "PushExact (re_git env) (rc_git st) prepared ?v = (e, g)" by fastforce
  obtain present g1 where c: "ContainsRevision (re_git env) g (op_TargetRepository op) (op_TargetBranch op) ?v = (present, g1)" by fastforce
  have branch: "validBranch (op_TargetBranch op)" by (rule operation_branch[OF rc_inv_parts(2)[OF inv] op])
  note pushed = PushExact_held[OF laws branch[folded fits(2)] p] and contained = ContainsRevision_held[OF laws c]
  have next0: "rc_next held st (st\<lparr>rc_git := g\<rparr>)" using pushed by (intro rc_next_same[OF inv]) auto
  have next1: "rc_next held st (st\<lparr>rc_git := g1\<rparr>)" using keeps_trans[OF conjunct1[OF pushed] conjunct1[OF contained]] by (intro rc_next_same[OF inv]) auto
  note inv1 = rc_next_inv[OF next1]
  obtain x s where ab: "abortMergeOperation (re_ctx env 13) (rc_store st) op = (x, s)" by fastforce
  have next2: "rc_next held st (st\<lparr>rc_git := g1, rc_store := s\<rparr>)"
    by (rule rc_next_trans[OF next1], rule abort_quiet.rc_op[OF inv1, of "re_ctx env 13" op]) (use ab in auto)
  consider "e = None" "finishMerge env (st\<lparr>rc_git := g\<rparr>) op (\<lambda>_. mc_ProjectID candidate) = (r, st')"
    | "present = Inr True" "finishMerge env (st\<lparr>rc_git := g1\<rparr>) op (\<lambda>_. mc_ProjectID candidate) = (r, st')"
    | "st' = st\<lparr>rc_git := g1, rc_store := s\<rparr>"
    | err a f where "failMerge env (st\<lparr>rc_git := g1, rc_store := s\<rparr>) claim candidate StatusTargetedVerify FailureMainDrift err [] = ((a, f), st')"
    | y where "blockMerge env (st\<lparr>rc_git := g1\<rparr>) op y = (r, st')"
    using run p c ab by (cases e; cases x) (auto simp: pushMerge_def Let_def split: if_splits prod.splits)
  then show ?thesis
  proof cases
    case 1
    have "rc_next held (st\<lparr>rc_git := g\<rparr>) st'" using op fits pushed 1(1) by (intro finishMerge_ok[OF rc_next_inv[OF next0] _ _ 1(2)]) auto
    then show ?thesis by (rule rc_next_trans[OF next0])
  next
    case 2
    have "rc_next held (st\<lparr>rc_git := g1\<rparr>) st'" using op branch contained 2(1) by (intro finishMerge_ok[OF inv1 _ _ 2(2)]) auto
    then show ?thesis by (rule rc_next_trans[OF next1])
  next
    case 4 then show ?thesis using rc_next_trans[OF next2 failMerge_ok[OF rc_next_inv[OF next2]]] by blast
  next
    case 5 then show ?thesis using rc_next_trans[OF next1 blockMerge_ok[OF inv1]] by blast
  qed (use next2 in simp)
qed

section \<open>One candidate\<close>

text \<open>The clone has been prepared for the repository and the branch of the candidate.\<close>

definition fits :: "MergeStore \<Rightarrow> CandidateID \<Rightarrow> PreparedMerge \<Rightarrow> bool" where
  "fits s i p \<longleftrightarrow> (\<exists>c. mget (mq_candidates s) i = Some c \<and> pm_TargetRepository p = mc_TargetRepository c \<and> pm_TargetBranch p = mc_TargetBranch c)"

lemma fits_extends:
  assumes "merge_extends s t" "fits s i p" shows "fits t i p"
proof -
  obtain c where c: "mget (mq_candidates s) i = Some c" "pm_TargetRepository p = mc_TargetRepository c" "pm_TargetBranch p = mc_TargetBranch c"
    using assms(2) by (auto simp: fits_def)
  obtain d where d: "mget (mq_candidates t) i = Some d" "same_candidate c d"
    using assms(1) c(1) unfolding merge_extends_def candidate_extends_def by blast
  show ?thesis using c(2,3) d same_candidate_branch[OF d(2)] same_candidate_repository[OF d(2)] by (simp add: fits_def)
qed

lemma RenewClaim_id:
  "merge_inv s \<Longrightarrow> RenewClaim ctx now s claim = (Inr claim', s') \<Longrightarrow> mc_ID (cl_Candidate claim') = mc_ID (cl_Candidate claim)"
  by (auto simp: RenewClaim_def merge_inv_def Let_def split: option.splits)

lemma renewLoop_ok:
  "rc_inv held st \<Longrightarrow> renewLoop ctx now n (rc_store st) claim = ((claim', e), s) \<Longrightarrow>
     rc_next held st (st\<lparr>rc_store := s\<rparr>) \<and> mc_ID (cl_Candidate claim') = mc_ID (cl_Candidate claim)"
proof (induction n arbitrary: st claim)
  case (Suc n)
  obtain r s1 where r: "RenewClaim ctx now (rc_store st) claim = (r, s1)" by fastforce
  have next1: "rc_next held st (st\<lparr>rc_store := s1\<rparr>)" by (rule renew_quiet.rc_op[OF Suc.prems(1) r]) auto
  show ?case
  proof (cases r)
    case Inl then show ?thesis using Suc.prems(2) r next1 by auto
  next
    case (Inr renewed)
    have "renewLoop ctx now n (rc_store (st\<lparr>rc_store := s1\<rparr>)) renewed = ((claim', e), s)" using Suc.prems(2) r Inr by simp
    from Suc.IH[OF rc_next_inv[OF next1] this] rc_next_trans[OF next1] RenewClaim_id[OF rc_inv_parts(1)[OF Suc.prems(1)] r[unfolded Inr]]
    show ?thesis by simp
  qed
qed (auto intro: rc_next_same)

lemma begin_operation:
  assumes inv: "merge_inv s" and ok: "branches_ok s" and ok': "branches_ok t" and inv': "merge_inv t"
    and run: "beginMergeOperation ctx token s claim req = (Inr op, t)" and fit: "fits s (mc_ID (cl_Candidate claim)) p"
  shows "mget (mq_operations t) (op_ID op) = Some op" "pm_TargetRepository p = op_TargetRepository op" "pm_TargetBranch p = op_TargetBranch op"
proof -
  obtain c where c: "claimedCandidate s claim = Inr c" and t: "t = putOperation s op \<or> (t = s \<and> activeOperationLocked s (mc_TargetRepository c) = Some op)"
      and id: "op_CandidateID op = mc_ID c"
    using run by (auto simp: beginMergeOperation_def check_simps newOperation_def split: sum.splits option.splits if_splits)
  from t show get: "mget (mq_operations t) (op_ID op) = Some op"
    using activeOperation_Some(1)[OF inv] by (auto simp: putOperation_def gomap_simps)
  note stored = claimedCandidate_Inr[OF inv c]
  have c': "mget (mq_candidates t) (op_CandidateID op) = Some c" using t stored id by (auto simp: putOperation_def)
  obtain d where d: "mget (mq_candidates s) (mc_ID (cl_Candidate claim)) = Some d" "pm_TargetRepository p = mc_TargetRepository d" "pm_TargetBranch p = mc_TargetBranch d"
    using fit by (auto simp: fits_def)
  have [simp]: "d = c" using d(1) stored by (metis option.inject)
  show "pm_TargetRepository p = op_TargetRepository op" using operation_repository[OF inv' get c'] d by simp
  show "pm_TargetBranch p = op_TargetBranch op" using ok' get c' d unfolding branches_ok_def op_branch_ok_def by (metis \<open>d = c\<close> option.inject)
qed

lemma verifyAndMerge_ok:
  assumes laws: "branch_laws env held out" and inv: "rc_inv held st" and fit: "fits (rc_store st) (mc_ID (cl_Candidate claim)) prepared"
    and run: "verifyAndMerge env st claim candidate prepared = (r, claim', st')"
  shows "rc_next held st st'"
proof -
  have git: "git_laws (re_git env) held out" using laws by (simp add: branch_laws_def)
  obtain res verr g where v: "runVerify env (rc_git st) candidate prepared = ((res, verr), g)" by (metis prod.exhaust)
  obtain created g1 where m: "re_CreateMergeCommit env g prepared candidate = (created, g1)" by fastforce
  obtain claim1 e s where l: "renewLoop (re_ctx env 6) (re_now env 6) (re_renewals env) (rc_store st) claim = ((claim1, e), s)" by (metis prod.exhaust)
  have k: "keeps held (rc_git st) g" using v laws by (auto simp: runVerify_def branch_laws_def split: if_splits)
  have k1: "keeps held (rc_git st) g1" using keeps_trans[OF k] m laws by (auto simp: branch_laws_def)
  note renewed = renewLoop_ok[OF inv l]
  have next_g: "rc_next held st (st\<lparr>rc_git := h, rc_store := s\<rparr>)" if "keeps held (rc_git st) h" for h
    using rc_next_trans[OF conjunct1[OF renewed] rc_next_same[OF rc_next_inv[OF conjunct1[OF renewed]], of "st\<lparr>rc_git := h, rc_store := s\<rparr>"]] that by simp
  note next0 = next_g[OF k] and next1 = next_g[OF k1]
  let ?st1 = "st\<lparr>rc_git := g1, rc_store := s\<rparr>"
  note inv1 = rc_next_inv[OF next1]
  define req where "req mergedRevision = \<lparr>oq_ExpectedMainRevision = pm_LatestMainRevision prepared, oq_ExpectedMergedRevision = mergedRevision,
      oq_EvidenceRefs = tv_EvidenceRefs res,
      oq_Audit = mergeSucceededAudit (cl_Candidate claim1) mergedRevision (pm_LatestMainRevision prepared) (tv_EvidenceRefs res)\<rparr>" for mergedRevision
  consider "st' = st\<lparr>rc_git := g, rc_store := s\<rparr>" | "st' = ?st1"
    | reason cause extra q where "failMerge env (st\<lparr>rc_git := g, rc_store := s\<rparr>) claim1 (cl_Candidate claim1) StatusTargetedVerify reason cause extra = (q, st')"
    | reason cause extra q where "failMerge env ?st1 claim1 (cl_Candidate claim1) StatusTargetedVerify reason cause extra = (q, st')"
    | v b s2 where "beginMergeOperation (re_ctx env 8) (re_token env) s claim1 (req v) = (b, s2)"
        "st' = ?st1\<lparr>rc_store := s2\<rparr> \<or> (\<exists>op. b = Inr op \<and> pushMerge env (?st1\<lparr>rc_store := s2\<rparr>) claim1 (cl_Candidate claim1) prepared op = (r, st'))"
    using run v m l by (auto simp: verifyAndMerge_def Let_def req_def[symmetric] split: if_splits option.splits sum.splits prod.splits)
  then show ?thesis
  proof cases
    case 5
    have b: "beginMergeOperation (re_ctx env 8) (re_token env) (rc_store ?st1) claim1
        ((req v)\<lparr>oq_Audit := mergeSucceededAudit (cl_Candidate claim1) v (pm_LatestMainRevision prepared) (tv_EvidenceRefs res)\<rparr>) = (b, s2)"
      using 5(1) by (simp add: req_def)
    have "rc_next held ?st1 (?st1\<lparr>rc_store := s2\<rparr>)" by (rule begin_quiet.rc_op[OF inv1 b]) auto
    note next2 = rc_next_trans[OF next1 this]
    have "fits s (mc_ID (cl_Candidate claim1)) prepared" using fits_extends[OF _ fit] renewed by (simp add: rc_next_def)
    then have "pushMerge env (?st1\<lparr>rc_store := s2\<rparr>) claim1 (cl_Candidate claim1) prepared op = (r, st') \<Longrightarrow> b = Inr op \<Longrightarrow>
        rc_next held (?st1\<lparr>rc_store := s2\<rparr>) st'" for op
      using begin_operation[of s s2 _ _ claim1 "req v" op prepared] rc_inv_parts[OF inv1] rc_inv_parts[OF rc_next_inv[OF next2]] 5(1)
      by (intro pushMerge_ok[OF git rc_next_inv[OF next2]]) auto
    with 5(2) next2 rc_next_trans[OF next2] show ?thesis by blast
  qed (use next0 next1 rc_next_trans[OF next0 failMerge_ok[OF rc_next_inv[OF next0]]] rc_next_trans[OF next1 failMerge_ok[OF inv1]] in blast)+
qed

lemma mergePrepared_ok:
  assumes laws: "branch_laws env held out" and inv: "rc_inv held st" and fit: "fits (rc_store st) (mc_ID (cl_Candidate claim)) prepared"
    and run: "mergePrepared env st claim prepared = (r, claim', st')"
  shows "rc_next held st st'"
proof -
  obtain x s where n: "RenewClaim (re_ctx env 4) (re_now env 4) (rc_store st) claim = (x, s)" by fastforce
  have next1: "rc_next held st (st\<lparr>rc_store := s\<rparr>)" by (rule renew_quiet.rc_op[OF inv n]) auto
  show ?thesis
  proof (cases x)
    case Inl then show ?thesis using run n next1 by (simp add: mergePrepared_def)
  next
    case (Inr claim1)
    have id: "mc_ID (cl_Candidate claim1) = mc_ID (cl_Candidate claim)" by (rule RenewClaim_id[OF rc_inv_parts(1)[OF inv] n[unfolded Inr]])
    have fit1: "fits s (mc_ID (cl_Candidate claim1)) prepared" using fits_extends[OF _ fit] next1 id by (simp add: rc_next_def)
    obtain y s1 where a: "advance (re_ctx env 5) (re_now env 5) s claim1 StatusMergeCheck StatusTargetedVerify [] '''' = (y, s1)" by fastforce
    have "rc_next held (st\<lparr>rc_store := s\<rparr>) (st\<lparr>rc_store := s1\<rparr>)"
      by (rule advance_quiet.rc_op[OF rc_next_inv[OF next1], of "re_ctx env 5" "re_now env 5" claim1 StatusMergeCheck "[]" "''''" y]) (use a in auto)
    note next2 = rc_next_trans[OF next1 this] and ext = conjunct1[OF conjunct2[OF this[unfolded rc_next_def]]]
    consider "st' = st\<lparr>rc_store := s1\<rparr>" | "verifyAndMerge env (st\<lparr>rc_store := s\<rparr>) claim1 (cl_Candidate claim1) prepared = (r, claim', st')"
      | c where "y = Inr c" "verifyAndMerge env (st\<lparr>rc_store := s1\<rparr>) (claim1\<lparr>cl_Candidate := c\<rparr>) c prepared = (r, claim', st')"
      using run n Inr a by (auto simp: mergePrepared_def Let_def split: if_splits sum.splits)
    then show ?thesis
    proof cases
      case 2
      from rc_next_trans[OF next1 verifyAndMerge_ok[OF laws rc_next_inv[OF next1] _ 2]] fit1 show ?thesis by simp
    next
      case 3
      have "mc_ID c = mc_ID (cl_Candidate claim1)"
        using a 3(1) claimedCandidate_Inr[OF rc_inv_parts(1)[OF rc_next_inv[OF next1]], of claim1]
        by (auto simp: advance_def check_simps split: sum.splits)
      with rc_next_trans[OF next2 verifyAndMerge_ok[OF laws rc_next_inv[OF next2] _ 3(2)]] fits_extends[OF ext] fit1 show ?thesis by simp
    qed (use next2 in simp)
  qed
qed

lemma reconcileClaimed_ok:
  assumes laws: "branch_laws env held out" and inv: "rc_inv held st"
    and claimed: "mget (mq_candidates (rc_store st)) (mc_ID (cl_Candidate claim)) = Some (cl_Candidate claim)"
    and run: "reconcileClaimed env st claim = (r, claim', st')"
  shows "rc_next held st st'"
proof -
  let ?c = "cl_Candidate claim"
  have failed: "rc_next held st st2" if "rc_next held st st1" "failMerge env st1 claim ?c (mc_Status ?c) reason cause [] = (q, st2)" for reason cause q st1 st2
    using failMerge_ok[OF rc_next_inv[OF that(1)] that(2)] that(1) by (rule rc_next_trans[rotated])
  show ?thesis
  proof (cases "\<exists>binding. re_workspaces env (mc_WorkspaceRef ?c) = Inr binding \<and> validateWorkspace ?c binding = None")
    case False
    then obtain cause q where "failMerge env st claim ?c (mc_Status ?c) FailurePermission cause [] = (q, st')"
      using run by (auto simp: reconcileClaimed_def Let_def split: sum.splits option.splits prod.splits)
    then show ?thesis using failed inv rc_next_refl by blast
  next
    case True
    then obtain binding where b: "re_workspaces env (mc_WorkspaceRef ?c) = Inr binding" "validateWorkspace ?c binding = None" by blast
    obtain x g where p: "re_Prepare env (rc_git st) ?c binding = (x, g)" by fastforce
    have laws': "keeps held (rc_git st) g \<and> (\<forall>q. x = Inr q \<longrightarrow> pm_TargetRepository q = mc_TargetRepository ?c
        \<and> pm_TargetBranch q = (if mc_TargetBranch ?c = '''' then ''main'' else mc_TargetBranch ?c))"
      using laws p unfolding branch_laws_def by metis
    have next1: "rc_next held st (st\<lparr>rc_git := g\<rparr>)" using laws' by (intro rc_next_same[OF inv]) auto
    show ?thesis
    proof (cases x)
      case (Inl e)
      then obtain reason cause q where "failMerge env (st\<lparr>rc_git := g\<rparr>) claim ?c (mc_Status ?c) reason cause [] = (q, st')"
        using run b p by (auto simp: reconcileClaimed_def Let_def split: prod.splits)
      then show ?thesis by (rule failed[OF next1])
    next
      case (Inr prepared)
      obtain q claim1 st1 where m: "mergePrepared env (st\<lparr>rc_git := g\<rparr>) claim prepared = (q, claim1, st1)" by (metis prod_cases3)
      have "mc_TargetBranch ?c \<noteq> ''''" using rc_inv_parts(2)[OF inv] claimed by (auto simp: branches_ok_def validBranch_def)
      then have "fits (rc_store (st\<lparr>rc_git := g\<rparr>)) (mc_ID ?c) prepared" using claimed laws' Inr by (simp add: fits_def)
      note next2 = rc_next_trans[OF next1 mergePrepared_ok[OF laws rc_next_inv[OF next1] this m]]
      have "st' = st1\<lparr>rc_git := re_Cleanup env (rc_git st1) prepared\<rparr>"
        using run b p Inr m by (simp add: reconcileClaimed_def Let_def)
      moreover have "keeps held (rc_git st1) (re_Cleanup env (rc_git st1) prepared)" using laws by (simp add: branch_laws_def)
      ultimately show ?thesis using rc_next_trans[OF next2 rc_next_same[OF rc_next_inv[OF next2]]] by simp
    qed
  qed
qed

lemma ClaimNext_stored:
  assumes "merge_inv s" "ClaimNext fs ctx now s target = (Inr (Some claim), t)"
  shows "mget (mq_candidates t) (mc_ID (cl_Candidate claim)) = Some (cl_Candidate claim)"
proof -
  obtain rp where rp: "checked ctx (normalizeTargetRepository fs target) = Inr rp" "activeOperationLocked s rp = None" "mget (mq_repoClaims s) rp = None"
    using assms(2) by (auto simp: ClaimNext_def split: sum.splits if_splits)
  then obtain first rest where sort: "sort_by candidateBefore (filter (waitingCandidate rp) (mvalues (mq_candidates s))) = first # rest"
    using assms(2) by (auto simp: ClaimNext_def split: list.splits)
  let ?d = "if mc_Status first = StatusQueued then first\<lparr>mc_Status := StatusMergeCheck, mc_UpdatedAt := now\<rparr> else first"
  have t: "cl_Candidate claim = ?d" "mq_candidates t = mq_candidates (if mc_Status first = StatusQueued then putCandidate s ?d else s)"
    using assms(2) rp sort by (auto simp: ClaimNext_def Let_def newClaim_def)
  have "first \<in> set (filter (waitingCandidate rp) (mvalues (mq_candidates s)))" using sort set_sort_by by (metis list.set_intros(1))
  then have "mget (mq_candidates s) (mc_ID first) = Some first" using assms(1) by (auto simp: merge_inv_def mvalues_iff)
  then show ?thesis by (simp add: t newClaim_def putCandidate_def gomap_simps)
qed

lemma ReconcileOne_ok:
  assumes laws: "branch_laws env held out" and inv: "rc_inv held st" and run: "ReconcileOne env st target = (r, st')"
  shows "rc_next held st st'"
proof -
  obtain rec ok err st1 where p: "recoverPendingMergeOperation env st target = ((rec, ok, err), st1)" by (metis prod.exhaust)
  note next1 = recoverPending_ok[OF laws inv p]
  obtain x s where n: "ClaimNext (re_fs env) (re_ctx env 3) (re_now env 3) (rc_store st1) target = (x, s)" by fastforce
  have "rc_next held st1 (st1\<lparr>rc_store := s\<rparr>)" by (rule claim_quiet.rc_op[OF rc_next_inv[OF next1] n]) auto
  note next2 = rc_next_trans[OF next1 this]
  consider "st' = st1" | "st' = st1\<lparr>rc_store := s\<rparr>"
    | claim q claim1 st2 where "x = Inr (Some claim)" "reconcileClaimed env (st1\<lparr>rc_store := s\<rparr>) claim = (q, claim1, st2)"
        "st' = st2\<lparr>rc_store := snd (ReleaseClaim None (rc_store st2) claim1)\<rparr>"
    using run p n by (auto simp: ReconcileOne_def split: if_splits sum.splits option.splits prod.splits)
  then show ?thesis
  proof cases
    case 3
    have "mget (mq_candidates s) (mc_ID (cl_Candidate claim)) = Some (cl_Candidate claim)"
      by (rule ClaimNext_stored[OF rc_inv_parts(1)[OF rc_next_inv[OF next1]] n[unfolded 3(1)]])
    then have "rc_next held (st1\<lparr>rc_store := s\<rparr>) st2" by (intro reconcileClaimed_ok[OF laws rc_next_inv[OF next2] _ 3(2)]) simp
    note next3 = rc_next_trans[OF next2 this]
    have "rc_next held st2 st'" by (rule release_quiet.rc_op[OF rc_next_inv[OF next3] prod.collapse[symmetric]]) (use 3(3) in auto)
    then show ?thesis by (rule rc_next_trans[OF next3])
  qed (use next1 next2 in auto)
qed

lemma EnqueueCandidate_ok:
  assumes inv: "rc_inv held st" and run: "EnqueueCandidate env st req = (r, st')"
  shows "rc_next held st st'"
proof -
  obtain x s where q: "enqueue (re_fs env) (re_ctx env 0) (re_now env 0) (rc_store st) req (queuedAudit req) = (x, s)" by fastforce
  have next1: "rc_next held st (st\<lparr>rc_store := s\<rparr>)" by (rule enqueue_quiet.rc_op[OF inv q]) auto
  obtain e st2 where f: "flushAudits env (st\<lparr>rc_store := s\<rparr>) (eq_ProjectID req) = (e, st2)" by fastforce
  note next2 = rc_next_trans[OF next1 flushAudits_ok[OF rc_next_inv[OF next1] f]]
  have "st' = st \<or> st' = st\<lparr>rc_store := s\<rparr> \<or> st' = st2"
    using run unfolding EnqueueCandidate_def q by (cases x; cases e) (simp_all add: f split: if_splits)
  then show ?thesis using rc_next_refl[OF inv] next1 next2 by metis
qed

section \<open>The repository is free again\<close>

lemma appendAudit_claims: "appendAuditLocked s audit = (e, t) \<Longrightarrow> mq_repoClaims t = mq_repoClaims s"
  by (auto simp: appendAuditLocked_def Let_def split: if_splits option.splits)

lemma put_claims [simp]: "mq_repoClaims (putCandidate s c) = mq_repoClaims s" "mq_repoClaims (putOperation s op) = mq_repoClaims s"
  by (simp_all add: putCandidate_def putOperation_def)

lemma advance_claims: "advance ctx now s claim from to refs merged = (r, t) \<Longrightarrow> mq_repoClaims t = mq_repoClaims s"
  by (drule advance_change) auto

lemma begin_claims: "beginMergeOperation ctx token s claim req = (r, t) \<Longrightarrow> mq_repoClaims t = mq_repoClaims s"
  by (drule begin_change) auto

lemma finalize_claims: "finalizeMergeOperation ctx now s op = (r, t) \<Longrightarrow> mq_repoClaims t = mq_repoClaims s"
  by (drule finalize_change) (auto dest: appendAudit_claims)

lemma fail_claims: "failCandidate ctx now s claim from reason refs audit = (r, t) \<Longrightarrow> mq_repoClaims t = mq_repoClaims s"
  by (drule fail_change) (auto dest: appendAudit_claims)

lemma abort_claims: "abortMergeOperation ctx s op = (r, t) \<Longrightarrow> mq_repoClaims t = mq_repoClaims s"
  by (auto simp: abortMergeOperation_def split: sum.splits)

lemma recovery_claims: "markMergeOperationRecoveryRequired ctx s op reason = (r, t) \<Longrightarrow> mq_repoClaims t = mq_repoClaims s"
  by (auto simp: markMergeOperationRecoveryRequired_def split: sum.splits)

lemma delivered_claims: "markAuditDelivered ctx s key = (r, t) \<Longrightarrow> mq_repoClaims t = mq_repoClaims s"
  by (auto simp: markAuditDelivered_def split: option.splits)

lemmas store_claims = advance_claims begin_claims finalize_claims fail_claims abort_claims recovery_claims delivered_claims

abbreviation rc_claims :: "'g Reconciler \<Rightarrow> (string, Claim) gomap" where
  "rc_claims st \<equiv> mq_repoClaims (rc_store st)"

lemma flushLoop_claims: "flushLoop env audits st = (e, st') \<Longrightarrow> rc_claims st' = rc_claims st"
proof (induction audits arbitrary: st)
  case (Cons audit audits)
  obtain r l where a: "AppendTo (re_sha env) (re_marshal env) (re_canonical env) (re_ctx env 20) (re_now env 20) (rc_events st) (auditEvent audit) = (r, l)"
    by fastforce
  obtain f s where m: "markAuditDelivered (re_ctx env 21) (rc_store st) (ad_StableKey audit) = (f, s)" by fastforce
  have "st' = st\<lparr>rc_events := l\<rparr> \<or> st' = st\<lparr>rc_events := l, rc_store := s\<rparr> \<or> flushLoop env audits (st\<lparr>rc_events := l, rc_store := s\<rparr>) = (e, st')"
    using Cons.prems by (cases r; cases f) (simp_all add: a m)
  then show ?case
  proof (elim disjE)
    assume "flushLoop env audits (st\<lparr>rc_events := l, rc_store := s\<rparr>) = (e, st')"
    from Cons.IH[OF this] delivered_claims[OF m] show ?thesis by simp
  qed (use delivered_claims[OF m] in simp_all)
qed simp

lemma flushAudits_claims: "flushAudits env st pid = (e, st') \<Longrightarrow> rc_claims st' = rc_claims st"
  by (auto simp: flushAudits_def split: sum.splits dest: flushLoop_claims)

lemma finishMerge_claims: "finishMerge env st op project = (r, st') \<Longrightarrow> rc_claims st' = rc_claims st"
  by (auto simp: finishMerge_def split: prod.splits sum.splits dest!: flushAudits_claims finalize_claims)

lemma blockMerge_claims: "blockMerge env st op reason = (r, st') \<Longrightarrow> rc_claims st' = rc_claims st"
  by (auto simp: blockMerge_def split: prod.splits sum.splits dest!: recovery_claims)

lemma failMerge_claims: "failMerge env st claim candidate from reason cause extra = (r, st') \<Longrightarrow> rc_claims st' = rc_claims st"
  by (auto simp: failMerge_def Let_def split: prod.splits sum.splits dest!: flushAudits_claims fail_claims)

lemma recoverPending_claims: "recoverPendingMergeOperation env st target = (r, st') \<Longrightarrow> rc_claims st' = rc_claims st"
  by (auto simp: recoverPendingMergeOperation_def split: prod.splits sum.splits option.splits if_splits dest!: finishMerge_claims blockMerge_claims)

lemma pushMerge_claims: "pushMerge env st claim candidate prepared op = (r, st') \<Longrightarrow> rc_claims st' = rc_claims st"
  by (auto simp: pushMerge_def Let_def split: prod.splits sum.splits option.splits if_splits
      dest!: finishMerge_claims blockMerge_claims failMerge_claims abort_claims)

definition claim_held :: "MergeStore \<Rightarrow> Claim \<Rightarrow> string \<Rightarrow> bool" where
  "claim_held s claim rp \<longleftrightarrow> mc_TargetRepository (cl_Candidate claim) = rp
     \<and> (\<exists>cur. mget (mq_repoClaims s) rp = Some cur \<and> cl_Token cur = cl_Token claim \<and> mc_ID (cl_Candidate cur) = mc_ID (cl_Candidate claim))"

lemma claim_held_same: "mq_repoClaims t = mq_repoClaims s \<Longrightarrow> claim_held t claim rp = claim_held s claim rp"
  by (simp add: claim_held_def)

lemma held_current: "claim_held s claim rp \<Longrightarrow> currentClaim s claim \<noteq> None"
  by (auto simp: claim_held_def currentClaim_def)

lemma held_candidate:
  assumes "merge_inv s" "claim_held s claim rp"
  obtains c where "mget (mq_candidates s) (mc_ID (cl_Candidate claim)) = Some c" "mc_TargetRepository c = rp" "mc_ID c = mc_ID (cl_Candidate claim)"
  using assms unfolding merge_inv_def claims_ok_def claim_held_def by metis

lemma RenewClaim_held:
  assumes inv: "merge_inv s" and held: "claim_held s claim rp" and run: "RenewClaim ctx now s claim = (r, t)"
  shows "case r of Inr claim' \<Rightarrow> claim_held t claim' rp \<and> (\<forall>x. x \<noteq> rp \<longrightarrow> mget (mq_repoClaims t) x = mget (mq_repoClaims s) x)
    | Inl _ \<Rightarrow> t = s \<and> ctx \<noteq> None"
proof -
  obtain c where c: "mget (mq_candidates s) (mc_ID (cl_Candidate claim)) = Some c" "mc_TargetRepository c = rp" "mc_ID c = mc_ID (cl_Candidate claim)"
    by (rule held_candidate[OF inv held])
  obtain cur where cur: "currentClaim s claim = Some cur" "mc_TargetRepository (cl_Candidate claim) = rp" "cl_Token cur = cl_Token claim"
    using held by (auto simp: claim_held_def currentClaim_def)
  show ?thesis using run c cur by (auto simp: RenewClaim_def Let_def claim_held_def gomap_simps split: option.splits)
qed

lemma renewLoop_held:
  "merge_inv s \<Longrightarrow> claim_held s claim rp \<Longrightarrow> renewLoop ctx now n s claim = ((claim', e), t) \<Longrightarrow>
     claim_held t claim' rp \<and> (\<forall>x. x \<noteq> rp \<longrightarrow> mget (mq_repoClaims t) x = mget (mq_repoClaims s) x)"
proof (induction n arbitrary: s claim)
  case (Suc n)
  obtain r s1 where r: "RenewClaim ctx now s claim = (r, s1)" by fastforce
  note held = RenewClaim_held[OF Suc.prems(1,2) r]
  have inv: "merge_inv s1" using renew_op.run_ok[OF Suc.prems(1) r] by (simp add: merge_ok_def)
  show ?case
  proof (cases r)
    case Inl then show ?thesis using Suc.prems(2,3) r held by auto
  next
    case (Inr renewed)
    then show ?thesis using Suc.IH[OF inv, of renewed] Suc.prems(3) r held by auto
  qed
qed auto

text \<open>What a part of the run leaves of the claims, when it ends with the claim \<open>claim'\<close>.\<close>

definition claims_kept :: "'g Reconciler \<Rightarrow> 'g Reconciler \<Rightarrow> Claim \<Rightarrow> string \<Rightarrow> bool" where
  "claims_kept st st' claim' rp \<longleftrightarrow> claim_held (rc_store st') claim' rp \<and> (\<forall>x. x \<noteq> rp \<longrightarrow> mget (rc_claims st') x = mget (rc_claims st) x)"

lemma claims_kept_same: "claim_held (rc_store st) claim rp \<Longrightarrow> rc_claims st' = rc_claims st \<Longrightarrow> claims_kept st st' claim rp"
  by (simp add: claims_kept_def claim_held_def)

lemma claims_kept_trans: "claims_kept a b c rp \<Longrightarrow> claims_kept b d e rp \<Longrightarrow> claims_kept a d e rp"
  by (simp add: claims_kept_def)

lemma verifyAndMerge_held:
  assumes inv: "merge_inv (rc_store st)" and held: "claim_held (rc_store st) claim rp"
    and run: "verifyAndMerge env st claim candidate prepared = (r, claim', st')"
  shows "claims_kept st st' claim' rp"
proof -
  obtain res verr g where v: "runVerify env (rc_git st) candidate prepared = ((res, verr), g)" by (metis prod.exhaust)
  obtain created g1 where m: "re_CreateMergeCommit env g prepared candidate = (created, g1)" by fastforce
  obtain claim1 e s where l: "renewLoop (re_ctx env 6) (re_now env 6) (re_renewals env) (rc_store st) claim = ((claim1, e), s)" by (metis prod.exhaust)
  have "claim' = claim1 \<and> rc_claims st' = mq_repoClaims s"
    using run v m l
    by (auto simp: verifyAndMerge_def Let_def split: if_splits option.splits sum.splits prod.splits
        dest!: failMerge_claims pushMerge_claims begin_claims)
  then show ?thesis using renewLoop_held[OF inv held l] by (simp add: claims_kept_def claim_held_def)
qed

lemma mergePrepared_held:
  assumes inv: "merge_inv (rc_store st)" and held: "claim_held (rc_store st) claim rp" and ctx: "re_ctx env 4 = None"
    and run: "mergePrepared env st claim prepared = (r, claim', st')"
  shows "claims_kept st st' claim' rp"
proof -
  obtain x s where n: "RenewClaim (re_ctx env 4) (re_now env 4) (rc_store st) claim = (x, s)" by fastforce
  obtain claim1 where x: "x = Inr claim1" and s: "claim_held s claim1 rp" "\<forall>y. y \<noteq> rp \<longrightarrow> mget (mq_repoClaims s) y = mget (rc_claims st) y"
    using RenewClaim_held[OF inv held n] ctx by (cases x) auto
  have kept: "claims_kept st (st\<lparr>rc_store := s\<rparr>) claim1 rp" using s by (simp add: claims_kept_def)
  have inv1: "merge_inv s" using renew_op.run_ok[OF inv n] by (simp add: merge_ok_def)
  obtain y s1 where a: "advance (re_ctx env 5) (re_now env 5) s claim1 StatusMergeCheck StatusTargetedVerify [] '''' = (y, s1)" by fastforce
  note same = advance_claims[OF a] and inv2 = advance_op.run_ok[OF inv1 a, unfolded merge_ok_def, THEN conjunct1]
  have kept1: "claims_kept st (st\<lparr>rc_store := s1\<rparr>) claim1 rp" using s same by (simp add: claims_kept_def claim_held_def)
  have advanced: "claim_held s1 (claim1\<lparr>cl_Candidate := c\<rparr>) rp" if "y = Inr c" for c
  proof -
    obtain d where d: "mget (mq_candidates s) (mc_ID (cl_Candidate claim1)) = Some d" "mc_TargetRepository d = rp" "mc_ID d = mc_ID (cl_Candidate claim1)"
      by (rule held_candidate[OF inv1 s(1)])
    have "mc_ID c = mc_ID d \<and> mc_TargetRepository c = mc_TargetRepository d"
      using a that d(1) by (auto simp: advance_def check_simps claimedCandidate_def split: sum.splits)
    then show ?thesis using s(1) d same by (simp add: claim_held_def)
  qed
  consider "st' = st\<lparr>rc_store := s1\<rparr>" "claim' = claim1" | "verifyAndMerge env (st\<lparr>rc_store := s\<rparr>) claim1 (cl_Candidate claim1) prepared = (r, claim', st')"
    | c where "y = Inr c" "verifyAndMerge env (st\<lparr>rc_store := s1\<rparr>) (claim1\<lparr>cl_Candidate := c\<rparr>) c prepared = (r, claim', st')"
    using run n x a by (auto simp: mergePrepared_def Let_def split: if_splits sum.splits)
  then show ?thesis
  proof cases
    case 2 then show ?thesis using claims_kept_trans[OF kept verifyAndMerge_held[OF _ _ 2]] inv1 s(1) by simp
  next
    case 3 then show ?thesis using claims_kept_trans[OF kept1 verifyAndMerge_held[OF _ _ 3(2)]] inv2 advanced by simp
  qed (use kept1 in simp)
qed

lemma reconcileClaimed_cases:
  assumes "reconcileClaimed env st claim = (r, claim', st')"
  obtains q st1 reason cause where "failMerge env st1 claim (cl_Candidate claim) (mc_Status (cl_Candidate claim)) reason cause [] = (q, st')"
      "rc_store st1 = rc_store st" "claim' = claim"
    | g prepared st1 where "mergePrepared env (st\<lparr>rc_git := g\<rparr>) claim prepared = (r, claim', st1)" "rc_store st' = rc_store st1"
proof -
  let ?c = "cl_Candidate claim"
  note fail_case = that(1)
  have failed: thesis
    if "rc_store st1 = rc_store st" "(case failMerge env st1 claim ?c (mc_Status ?c) reason cause [] of ((f, fe), st2) \<Rightarrow> ((f, True, fe), claim, st2)) = (r, claim', st')"
    for st1 reason cause
  proof -
    obtain f fe st2 where q: "failMerge env st1 claim ?c (mc_Status ?c) reason cause [] = ((f, fe), st2)" by (metis prod.exhaust)
    show thesis by (rule fail_case[OF _ \<open>rc_store st1 = rc_store st\<close>, of reason cause "(f, fe)"]) (use q that in simp_all)
  qed
  show thesis
  proof (cases "re_workspaces env (mc_WorkspaceRef ?c)")
    case (Inl e)
    with assms show thesis by (intro failed[of st FailurePermission "otherError e"]) (simp_all add: reconcileClaimed_def Let_def)
  next
    case (Inr binding)
    note b = Inr
    obtain x g where p: "re_Prepare env (rc_git st) ?c binding = (x, g)" by fastforce
    show thesis
    proof (cases "validateWorkspace ?c binding")
      case (Some e)
      with assms b show thesis by (intro failed[of st FailurePermission "otherError e"]) (simp_all add: reconcileClaimed_def Let_def)
    next
      case None
      show thesis
      proof (cases x)
        case (Inl e)
        with assms b None p show thesis
          by (intro failed[of "st\<lparr>rc_git := g\<rparr>" "failureReason e FailureConflict" e]) (simp_all add: reconcileClaimed_def Let_def)
      next
        case (Inr prepared)
        obtain q claim1 st1 where m: "mergePrepared env (st\<lparr>rc_git := g\<rparr>) claim prepared = (q, claim1, st1)" by (metis prod_cases3)
        have "q = r" "claim1 = claim'" "rc_store st' = rc_store st1" using assms b None p Inr m by (auto simp: reconcileClaimed_def Let_def)
        then show thesis using that(2) m by blast
      qed
    qed
  qed
qed

lemma reconcileClaimed_held:
  assumes inv: "merge_inv (rc_store st)" and held: "claim_held (rc_store st) claim rp" and ctx: "re_ctx env 4 = None"
    and run: "reconcileClaimed env st claim = (r, claim', st')"
  shows "claims_kept st st' claim' rp"
proof -
  let ?c = "cl_Candidate claim"
  consider q st1 reason cause where "failMerge env st1 claim ?c (mc_Status ?c) reason cause [] = (q, st')" "rc_store st1 = rc_store st" "claim' = claim"
    | g prepared st1 where "mergePrepared env (st\<lparr>rc_git := g\<rparr>) claim prepared = (r, claim', st1)" "rc_store st' = rc_store st1"
    by (rule reconcileClaimed_cases[OF run])
  then show ?thesis
  proof cases
    case 1 then show ?thesis using claims_kept_same[OF held] failMerge_claims[OF 1(1)] by simp
  next
    case 2 then show ?thesis using mergePrepared_held[OF _ _ ctx 2(1), of rp] inv held by (simp add: claims_kept_def)
  qed
qed

lemma ClaimNext_claims:
  assumes "ClaimNext fs ctx now s target = (Inr (Some claim), t)"
  obtains rp where "mget (mq_repoClaims s) rp = None" "mc_TargetRepository (cl_Candidate claim) = rp" "mget (mq_repoClaims t) rp = Some claim"
    "\<forall>y. y \<noteq> rp \<longrightarrow> mget (mq_repoClaims t) y = mget (mq_repoClaims s) y"
proof -
  obtain rp first where r: "normalizeTargetRepository fs target = Inr rp" "mget (mq_repoClaims s) rp = None"
    and first: "cl_Candidate claim = (if mc_Status first = StatusQueued then first\<lparr>mc_Status := StatusMergeCheck, mc_UpdatedAt := now\<rparr> else first)"
      "mget (mq_repoClaims t) rp = Some claim" "mc_TargetRepository first = rp" by (rule ClaimNext_granted[OF assms])
  have "mq_repoClaims t = mput rp claim (mq_repoClaims s)"
    using assms r by (cases ctx) (auto simp: ClaimNext_def Let_def split: if_splits list.splits)
  then have "\<forall>y. y \<noteq> rp \<longrightarrow> mget (mq_repoClaims t) y = mget (mq_repoClaims s) y" by (auto simp: gomap_simps)
  with that[OF r(2) _ first(2)] first(1,3) show thesis by simp
qed

lemma ReconcileOne_claims:
  assumes laws: "branch_laws env held out" and inv: "rc_inv held st" and ctx: "re_ctx env 4 = None" and run: "ReconcileOne env st target = (r, st')"
  shows "mget (rc_claims st') rp = mget (rc_claims st) rp"
proof -
  obtain rec ok err st1 where p: "recoverPendingMergeOperation env st target = ((rec, ok, err), st1)" by (metis prod.exhaust)
  note same = recoverPending_claims[OF p] and inv1 = rc_inv_parts(1)[OF rc_next_inv[OF recoverPending_ok[OF laws inv p]]]
  obtain x s where n: "ClaimNext (re_fs env) (re_ctx env 3) (re_now env 3) (rc_store st1) target = (x, s)" by fastforce
  have inv2: "merge_inv s" using claim_op.run_ok[OF inv1 n] by (simp add: merge_ok_def)
  consider "st' = st1" | "\<forall>claim. x \<noteq> Inr (Some claim)" "st' = st1\<lparr>rc_store := s\<rparr>"
    | claim q claim1 st2 where "x = Inr (Some claim)" "reconcileClaimed env (st1\<lparr>rc_store := s\<rparr>) claim = (q, claim1, st2)"
        "st' = st2\<lparr>rc_store := snd (ReleaseClaim None (rc_store st2) claim1)\<rparr>"
    using run p n by (auto simp: ReconcileOne_def split: if_splits sum.splits option.splits prod.splits)
  then show ?thesis
  proof cases
    case 2
    then have "s = rc_store st1" using n by (auto simp: ClaimNext_def Let_def split: sum.splits if_splits list.splits)
    then show ?thesis using 2 same by simp
  next
    case 3
    obtain tgt where t: "mget (rc_claims st1) tgt = None" "mc_TargetRepository (cl_Candidate claim) = tgt" "mget (mq_repoClaims s) tgt = Some claim"
      and others: "\<forall>y. y \<noteq> tgt \<longrightarrow> mget (mq_repoClaims s) y = mget (rc_claims st1) y"
      by (rule ClaimNext_claims[OF n[unfolded 3(1)]])
    have "claim_held s claim tgt" using t by (simp add: claim_held_def)
    then have kept: "claims_kept (st1\<lparr>rc_store := s\<rparr>) st2 claim1 tgt" using reconcileClaimed_held[OF _ _ ctx 3(2)] inv2 by simp
    then have "mq_repoClaims (snd (ReleaseClaim None (rc_store st2) claim1)) = mdel tgt (rc_claims st2)"
      using held_current[of "rc_store st2" claim1 tgt] by (auto simp: ReleaseClaim_def claims_kept_def claim_held_def)
    then show ?thesis using kept others t(1) same 3(3) by (auto simp: gomap_simps claims_kept_def)
  qed (use same in simp)
qed

end
