(* ===== verification/Merge_Reconciler_Properties.thy ===== *)
theory Merge_Reconciler_Properties
  imports Merge_Reconciler_Inv
begin

text \<open>
  Runs of the reconciler: a candidate is merged only when its target branch has held the merged revision, an audit
  is marked as delivered only when the event log has its event, and a repository is free again after a run.
\<close>

section \<open>Runs\<close>

text \<open>
  What can happen to the state: the two operations of the reconciler, in an environment that keeps the laws,
  and what others do beside it: they use git, register artifacts and append events.
\<close>

inductive rc_step :: "('g \<Rightarrow> string \<Rightarrow> string \<Rightarrow> string \<Rightarrow> bool) \<Rightarrow> ('g \<Rightarrow> string \<Rightarrow> string \<Rightarrow> bool) \<Rightarrow> 'g Reconciler \<Rightarrow> 'g Reconciler \<Rightarrow> bool"
  for held out where
  enqueueStep: "rc_step held out st (snd (EnqueueCandidate env st req))"
| reconcileStep: "branch_laws env held out \<Longrightarrow> rc_step held out st (snd (ReconcileOne env st target))"
| gitStep: "keeps held (rc_git st) g \<Longrightarrow> rc_step held out st (st\<lparr>rc_git := g\<rparr>)"
| artifactStep: "rc_step held out st (st\<lparr>rc_registry := registry, rc_objects := objects\<rparr>)"
| eventStep: "rc_step held out st (st\<lparr>rc_events := snd (AppendTo sha (marshal :: string \<Rightarrow> _) canonical ctx now (rc_events st) req)\<rparr>)"

definition rc_start :: "'g Reconciler \<Rightarrow> bool" where
  "rc_start st \<longleftrightarrow> rc_store st = NewMergeStore \<and> (\<exists>n. rc_events st = NewEventLog n)"

lemma rc_start_inv: "rc_start st \<Longrightarrow> rc_inv held st"
  using merge_inv_new log_inv_new
  by (auto simp: rc_start_def rc_inv_def branches_ok_def merged_ok_def delivered_ok_def NewMergeStore_def)

lemma rc_step_inv: "rc_step held out st st' \<Longrightarrow> rc_inv held st \<Longrightarrow> rc_inv held st'"
proof (induction rule: rc_step.induct)
  case (enqueueStep st env req)
  from rc_next_inv[OF EnqueueCandidate_ok[OF enqueueStep prod.collapse[symmetric]]] show ?case .
next
  case (reconcileStep env st target)
  from rc_next_inv[OF ReconcileOne_ok[OF reconcileStep prod.collapse[symmetric]]] show ?case .
next
  case (gitStep st g)
  from rc_next_inv[OF rc_next_same[OF gitStep(2), of "st\<lparr>rc_git := g\<rparr>"]] gitStep(1) show ?case by simp
next
  case (artifactStep st objects registry)
  from rc_next_inv[OF rc_next_same[OF artifactStep, of "st\<lparr>rc_registry := registry, rc_objects := objects\<rparr>"]] show ?case by simp
next
  case (eventStep st sha marshal canonical ctx now req)
  from rc_next_inv[OF rc_next_log[OF eventStep prod.collapse[symmetric]]] show ?case .
qed

lemma rc_steps_inv: "(rc_step held out)\<^sup>*\<^sup>* st st' \<Longrightarrow> rc_inv held st \<Longrightarrow> rc_inv held st'"
  by (induction rule: rtranclp_induct) (auto intro: rc_step_inv)

text \<open>C8. When a candidate is recorded as merged, its target branch has held the merged revision, whichever way the
  push went: it succeeded, it failed and the revision was found on the branch, or a later run found it.\<close>

theorem merged_means_pushed:
  assumes "rc_start st0" "(rc_step held out)\<^sup>*\<^sup>* st0 st" "mget (mq_candidates (rc_store st)) i = Some c" "mc_Status c = StatusMerged"
  shows "held (rc_git st) (mc_TargetRepository c) (mc_TargetBranch c) (mc_MergedRevision c)"
  using rc_steps_inv[OF assms(2) rc_start_inv[OF assms(1)]] assms(3,4) by (simp add: rc_inv_def merged_ok_def)

text \<open>
  A git that remembers every revision that a branch has held, newest first; the clone's merge commit is \<open>m\<close>.
\<close>

definition example_revs :: "(string \<times> string \<times> string) list \<Rightarrow> string \<Rightarrow> string \<Rightarrow> string list" where
  "example_revs g repo ref = map (\<lambda>(_, _, v). v) (filter (\<lambda>(r, b, v). r = repo \<and> b = ref \<and> TrimSpace v = v) g)"

definition example_git :: "(string \<times> string \<times> string) list git" where
  "example_git g dir args = (case args of
     [cmd, ref] \<Rightarrow> if cmd = ''rev-parse'' then
         (if ref = ''HEAD'' then (Inr ''m'', g)
          else case example_revs g dir ref of [] \<Rightarrow> (Inl (Plain ''unknown revision''), g) | v # _ \<Rightarrow> (Inr v, g))
       else (Inl (Plain ''unsupported''), g)
   | [cmd, _, repo, spec] \<Rightarrow> if cmd = ''push'' then
         (let ref = rev (takeWhile (\<lambda>c. c \<noteq> CHR '':'') (rev spec)); v = rev (drop 1 (dropWhile (\<lambda>c. c \<noteq> CHR '':'') (rev spec)))
          in (Inr '''', (repo, ref, v) # g))
       else (Inl (Plain ''unsupported''), g)
   | _ \<Rightarrow> (Inl (Plain ''unsupported''), g))"

definition example_held :: "(string \<times> string \<times> string) list \<Rightarrow> string \<Rightarrow> string \<Rightarrow> string \<Rightarrow> bool" where
  "example_held g repo b v \<longleftrightarrow> (repo, branchRef b, v) \<in> set g"

definition example_prepare :: "(string \<times> string \<times> string) list \<Rightarrow> Candidate \<Rightarrow> Binding \<Rightarrow> (mergeErr + PreparedMerge) \<times> (string \<times> string \<times> string) list" where
  "example_prepare g c b = (Inr \<lparr>pm_Root = ''/w'', pm_TargetRepository = mc_TargetRepository c,
     pm_TargetBranch = (if mc_TargetBranch c = '''' then ''main'' else mc_TargetBranch c), pm_LatestMainRevision = ''0'', pm_CandidateRevision = ''c'',
     pm_AlreadyMerged = False, pm_NeedsResolution = False, pm_ConflictPaths = [], pm_AllowedWritePaths = []\<rparr>, g)"

definition example_binding :: Binding where
  "example_binding = (let v = replicate 40 (CHR ''0'') in
     zeroBinding\<lparr>wb_ID := ''ws'', wb_TaskID := ''build'', wb_Status := StatusSealed, wb_PhaseLeases := [(PhaseExecute, ''i'')], wb_BaseRevision := v,
       wb_CurrentRevision := v, wb_AllowedDirs := [''a''], wb_DeclaredWrites := zeroWriteSet\<lparr>wr_Files := [''a/f'']\<rparr>\<rparr>)"

definition example_env :: "(string \<times> string \<times> string) list ReconcilerEnv" where
  "example_env = \<lparr>re_ctx = (\<lambda>_. None), re_now = int, re_fs = example_fs, re_token = ''t'', re_renewals = 0, re_sha = id,
     re_marshal = (\<lambda>_. Inr ''{}''), re_canonical = (\<lambda>q. Inr (ae_StableKey q)), re_failureJSON = (\<lambda>_ _ _. ''{}''),
     re_workspaces = (\<lambda>_. Inr example_binding), re_git = example_git, re_Prepare = example_prepare,
     re_Verify = (\<lambda>g _. ((\<lparr>tv_Passed = False, tv_EvidenceRefs = []\<rparr>, None), g)), re_CreateMergeCommit = (\<lambda>g _ _. (Inr ''m'', g)), re_Cleanup = (\<lambda>g _. g)\<rparr>"

definition example_registry :: ArtifactRegistry where
  "example_registry = (let a = (\<lambda>i. (i, \<lparr>art_ID = i, art_Type = ArtifactGeneratedReport, art_PathOrBlobRef = '''', art_ContentHash = '''', art_Size = 0, art_ProjectID = ''p'',
       art_TaskID = ''build'', art_AgentInvocationID = '''', art_CreatedAt = 0\<rparr>));
       gr = (\<lambda>i. (i, [Grant ''p'' ''build''])) in
     (NewArtifactRegistry ''b'')\<lparr>reg_records := [a ''d'', a ''v''], reg_grants := [gr ''d'', gr ''v'']\<rparr>)"

definition example_reconciler :: "(string \<times> string \<times> string) list Reconciler" where
  "example_reconciler = \<lparr>rc_store = NewMergeStore, rc_registry = example_registry, rc_objects = NewObjectStore, rc_events = NewEventLog 0,
     rc_git = [(''/r'', ''refs/heads/main'', ''0'')]\<rparr>"

definition example_queued :: "(string \<times> string \<times> string) list Reconciler" where
  "example_queued = snd (EnqueueCandidate example_env example_reconciler example_enqueue)"

definition example_merged :: "(string \<times> string \<times> string) list Reconciler" where
  "example_merged = snd (ReconcileOne example_env example_queued ''/r'')"

lemma example_merged_candidate:
  "(case mget (mq_candidates (rc_store example_merged)) ''c1'' of
      Some c \<Rightarrow> mc_Status c = StatusMerged \<and> mc_TargetRepository c = ''/r'' \<and> mc_TargetBranch c = ''main'' \<and> mc_MergedRevision c = ''m'' | None \<Rightarrow> False)"
  by code_simp

lemma validBranch_colon: "validBranch b \<Longrightarrow> CHR '':'' \<notin> set (branchRef b)"
  by (auto simp: validBranch_def branchRef_def ContainsAny_def list_ex_iff)

lemma rev_split_last:
  "c \<notin> set b \<Longrightarrow> rev (takeWhile (\<lambda>x. x \<noteq> c) (rev (a @ c # b))) = b \<and> rev (drop 1 (dropWhile (\<lambda>x. x \<noteq> c) (rev (a @ c # b)))) = a"
  by (subst rev_append) (auto simp: takeWhile_append dropWhile_append)

lemma example_push:
  "validBranch b \<Longrightarrow> example_git g dir [''push'', ''--porcelain'', repo, v @ '':'' @ branchRef b] = (Inr '''', (repo, branchRef b, v) # g)"
  using rev_split_last[OF validBranch_colon, of b v] by (simp add: example_git_def Let_def)

lemma example_git_keeps: "example_git g dir args = (r, g') \<Longrightarrow> keeps example_held g g'"
  by (auto simp: example_git_def keeps_def example_held_def Let_def split: list.splits if_splits)

lemma example_git_parse:
  "example_git g repo [''rev-parse'', branchRef b] = (Inr v, g') \<Longrightarrow> example_held g' repo b (TrimSpace v)"
  by (auto simp: example_git_def example_held_def example_revs_def branchRef_def filter_eq_Cons_iff map_eq_Cons_conv split: list.splits)

lemma example_laws: "branch_laws example_env example_held (\<lambda>_ _ _. False)"
proof -
  have "git_laws example_git example_held (\<lambda>_ _ _. False)"
    unfolding git_laws_def
  proof (intro conjI allI impI)
    fix g dir repo b v msg g'
    assume "example_git g dir [''push'', ''--porcelain'', repo, v @ '':'' @ branchRef b] = (Inr msg, g')" "validBranch b"
    then show "example_held g' repo b v" by (auto simp: example_push[simplified] example_held_def)
  next
    fix g dir repo b v e g'
    assume "example_git g dir [''push'', ''--porcelain'', repo, v @ '':'' @ branchRef b] = (Inl e, g')" "validBranch b"
    then show False by (simp add: example_push[simplified])
  qed (auto intro: example_git_keeps example_git_parse simp: example_git_def)
  then show ?thesis by (auto simp: branch_laws_def example_env_def example_prepare_def)
qed

lemma example_start: "rc_start example_reconciler"
  by (auto simp: rc_start_def example_reconciler_def)

lemma example_run: "(rc_step example_held (\<lambda>_ _ _. False))\<^sup>*\<^sup>* example_reconciler example_merged"
proof (rule rtranclp.rtrancl_into_rtrancl)
  show "(rc_step example_held (\<lambda>_ _ _. False))\<^sup>*\<^sup>* example_reconciler example_queued"
    unfolding example_queued_def by (intro r_into_rtranclp enqueueStep)
  show "rc_step example_held (\<lambda>_ _ _. False) example_queued example_merged"
    unfolding example_merged_def by (intro reconcileStep example_laws)
qed

theorem merged_means_pushed_witness:
  "\<exists>c. mget (mq_candidates (rc_store example_merged)) ''c1'' = Some c \<and> mc_Status c = StatusMerged \<and> example_held (rc_git example_merged) ''/r'' ''main'' ''m''"
proof -
  obtain c where c: "mget (mq_candidates (rc_store example_merged)) ''c1'' = Some c" "mc_Status c = StatusMerged"
    "mc_TargetRepository c = ''/r''" "mc_TargetBranch c = ''main''" "mc_MergedRevision c = ''m''"
    using example_merged_candidate by (auto split: option.splits)
  from merged_means_pushed[OF example_start example_run c(1,2)] c show ?thesis by simp
qed

text \<open>An audit that the queue's outbox has marked as delivered is in the event log, exactly once, under its stable key.\<close>

theorem audit_delivered_is_logged:
  assumes "rc_start st0" "(rc_step held out)\<^sup>*\<^sup>* st0 st" "mget (mq_audits (rc_store st)) k = Some a" "ad_Delivered a"
  shows "\<exists>e. filter (\<lambda>x. ev_StableKey x = k) (el_events (rc_events st)) = [e]"
proof -
  have inv: "log_inv (rc_events st)" "delivered_ok st" using rc_steps_inv[OF assms(2) rc_start_inv[OF assms(1)]] by (auto simp: rc_inv_def)
  then obtain r where "mget (el_byStableKey (rc_events st)) k = Some r" using assms(3,4) by (auto simp: delivered_ok_def)
  then have "sr_event r \<in> set (el_events (rc_events st))" "ev_StableKey (sr_event r) = k" using inv(1) by (auto simp: log_inv_def)
  with log_inv_unique[OF inv(1)] show ?thesis by blast
qed

theorem audit_delivered_is_logged_witness:
  "\<exists>a e. mget (mq_audits (rc_store example_merged)) ''merge-candidate:c1:merged'' = Some a \<and> ad_Delivered a
     \<and> filter (\<lambda>x. ev_StableKey x = ''merge-candidate:c1:merged'') (el_events (rc_events example_merged)) = [e]"
proof -
  have "(case mget (mq_audits (rc_store example_merged)) ''merge-candidate:c1:merged'' of Some a \<Rightarrow> ad_Delivered a | None \<Rightarrow> False)" by code_simp
  then obtain a where "mget (mq_audits (rc_store example_merged)) ''merge-candidate:c1:merged'' = Some a" "ad_Delivered a"
    by (auto split: option.splits)
  with audit_delivered_is_logged[OF example_start example_run] show ?thesis by blast
qed

text \<open>C36. A run of the reconciler leaves the claims on repositories as it found them: whatever way it ends, the claim it
  took is released, so that the next run finds the repository free. Only a context that expires at the first renewal is excluded.\<close>

theorem run_releases_repository:
  assumes "rc_start st0" "(rc_step held out)\<^sup>*\<^sup>* st0 st" "branch_laws env held out" "re_ctx env 4 = None"
  shows "mget (mq_repoClaims (rc_store (snd (ReconcileOne env st target)))) rp = mget (mq_repoClaims (rc_store st)) rp"
  by (rule ReconcileOne_claims[OF assms(3) rc_steps_inv[OF assms(2) rc_start_inv[OF assms(1)]] assms(4) prod.collapse[symmetric]])

theorem run_releases_repository_witness:
  "mget (mq_repoClaims (rc_store (snd (ReconcileOne example_env example_queued ''/r'')))) ''/r'' = None"
proof -
  have "mget (mq_repoClaims (rc_store example_queued)) ''/r'' = None" by code_simp
  moreover have "(rc_step example_held (\<lambda>_ _ _. False))\<^sup>*\<^sup>* example_reconciler example_queued"
    unfolding example_queued_def by (intro r_into_rtranclp enqueueStep)
  ultimately show ?thesis using run_releases_repository[OF example_start _ example_laws] by (simp add: example_env_def)
qed

end
