(* ===== verification/Workspace_Inv.thy ===== *)
theory Workspace_Inv
  imports Workspace "HOL-Library.Sublist"
begin

text \<open>
  The invariant of the workspace service and what a binding never loses. \<open>binding_ok\<close>: phases complete in
  order, and the active phase is open, unsealed and has its prerequisites. \<open>workspace_inv\<close>: one binding
  per round, and an invocation is active in one binding only. \<open>binding_extends\<close>: identity,
  completed phases and a seal stay; so does the write authority once execute has completed. The locale
  \<open>workspace_operation\<close> is the contract of an operation of the service.
\<close>

section \<open>Invariant and extension\<close>

definition binding_ok :: "Binding \<Rightarrow> bool" where
  "binding_ok b \<longleftrightarrow> wb_Root b \<noteq> ''''
     \<and> (leaseOf b PhaseExecute \<noteq> '''' \<longrightarrow> leaseOf b PhasePlan \<noteq> '''') \<and> (leaseOf b PhaseVerify \<noteq> '''' \<longrightarrow> leaseOf b PhaseExecute \<noteq> '''')
     \<and> (wb_ActiveInvocation b = '''' \<longrightarrow> wb_ActivePhase b = '''')
     \<and> (wb_ActiveInvocation b \<noteq> '''' \<longrightarrow> validPhase (wb_ActivePhase b) \<and> phasePrerequisitesMet b (wb_ActivePhase b)
          \<and> leaseOf b (wb_ActivePhase b) = '''' \<and> wb_Status b \<noteq> StatusSealed)"

definition same_workspace :: "Binding \<Rightarrow> Binding \<Rightarrow> bool" where
  "same_workspace b d \<longleftrightarrow> wb_ID d = wb_ID b \<and> wb_TaskID d = wb_TaskID b \<and> wb_Generation d = wb_Generation b \<and> wb_Kind d = wb_Kind b
     \<and> wb_Root d = wb_Root b \<and> wb_BranchName d = wb_BranchName b \<and> wb_BaseRevision d = wb_BaseRevision b
     \<and> wb_RepositoryPath d = wb_RepositoryPath b \<and> wb_CreationFingerprint d = wb_CreationFingerprint b"

definition binding_extends :: "Binding \<Rightarrow> Binding \<Rightarrow> bool" where
  "binding_extends b d \<longleftrightarrow> same_workspace b d \<and> (\<forall>phase. leaseOf b phase \<noteq> '''' \<longrightarrow> leaseOf d phase = leaseOf b phase)
     \<and> (leaseOf b PhaseExecute \<noteq> '''' \<longrightarrow> wb_AllowedDirs d = wb_AllowedDirs b \<and> wb_DeclaredWrites d = wb_DeclaredWrites b)
     \<and> (wb_Status b = StatusSealed \<longrightarrow> wb_Status d = StatusSealed \<and> wb_PhaseLeases d = wb_PhaseLeases b
          \<and> wb_AllowedDirs d = wb_AllowedDirs b \<and> wb_DeclaredWrites d = wb_DeclaredWrites b)"

definition rounds_ok :: "WorkspaceStore \<Rightarrow> bool" where
  "rounds_ok s \<longleftrightarrow> (\<forall>key i. mget (bs_byRound s) key = Some i \<longrightarrow>
       (\<exists>b. mget (bs_bindings s) i = Some b \<and> key = (wb_TaskID b, wb_Generation b)))
     \<and> (\<forall>i b. mget (bs_bindings s) i = Some b \<longrightarrow> mget (bs_byRound s) (wb_TaskID b, wb_Generation b) = Some i)"

definition invocations_ok :: "WorkspaceStore \<Rightarrow> bool" where
  "invocations_ok s \<longleftrightarrow> (\<forall>i j b d. mget (bs_bindings s) i = Some b \<longrightarrow> mget (bs_bindings s) j = Some d \<longrightarrow>
     wb_ActiveInvocation b \<noteq> '''' \<longrightarrow> wb_ActiveInvocation b = wb_ActiveInvocation d \<longrightarrow> i = j)"

definition workspace_inv :: "WorkspaceStore \<Rightarrow> bool" where
  "workspace_inv s \<longleftrightarrow> mwf (bs_bindings s) \<and> (\<forall>i b. mget (bs_bindings s) i = Some b \<longrightarrow> wb_ID b = i \<and> binding_ok b)
     \<and> rounds_ok s \<and> invocations_ok s"

definition workspace_extends :: "WorkspaceStore \<Rightarrow> WorkspaceStore \<Rightarrow> bool" where
  "workspace_extends s t \<longleftrightarrow>
     (\<forall>i b. mget (bs_bindings s) i = Some b \<longrightarrow> (\<exists>d. mget (bs_bindings t) i = Some d \<and> binding_extends b d))"

definition workspace_ok :: "WorkspaceStore \<Rightarrow> WorkspaceStore \<Rightarrow> bool" where
  "workspace_ok s t \<longleftrightarrow> workspace_inv t \<and> workspace_extends s t"

lemma binding_extends_refl [simp]: "binding_extends b b"
  by (simp add: binding_extends_def same_workspace_def)

lemma binding_extends_trans: "binding_extends b c \<Longrightarrow> binding_extends c d \<Longrightarrow> binding_extends b d"
  unfolding binding_extends_def same_workspace_def by (intro conjI allI impI) (elim conjE; simp)+

lemma workspace_extends_refl [simp]: "workspace_extends s s"
  by (auto simp: workspace_extends_def)

lemma workspace_extends_trans: "workspace_extends s t \<Longrightarrow> workspace_extends t u \<Longrightarrow> workspace_extends s u"
  unfolding workspace_extends_def by (meson binding_extends_trans)

lemma workspace_ok_refl [simp]: "workspace_inv s \<Longrightarrow> workspace_ok s s"
  by (simp add: workspace_ok_def)

lemma workspace_ok_trans: "workspace_ok s t \<Longrightarrow> workspace_ok t u \<Longrightarrow> workspace_ok s u"
  using workspace_extends_trans by (auto simp: workspace_ok_def)

lemma workspace_inv_new: "workspace_inv NewWorkspaceStore"
  by (simp add: workspace_inv_def NewWorkspaceStore_def rounds_ok_def invocations_ok_def)

lemma workspace_inv_binding: "workspace_inv s \<Longrightarrow> mget (bs_bindings s) i = Some b \<Longrightarrow> wb_ID b = i \<and> binding_ok b"
  by (simp add: workspace_inv_def)

section \<open>Storing a binding\<close>

lemma invocationElsewhere_iff:
  assumes "mwf (bs_bindings s)"
  shows "invocationElsewhere s b \<longleftrightarrow> (\<exists>i d. mget (bs_bindings s) i = Some d \<and> i \<noteq> wb_ID b
     \<and> wb_ActiveInvocation b \<noteq> '''' \<and> wb_ActiveInvocation d = wb_ActiveInvocation b)"
  unfolding invocationElsewhere_def list_ex_iff mget_entry[OF assms] by auto

lemma rounds_okD:
  "rounds_ok s \<Longrightarrow> mget (bs_byRound s) key = Some i \<Longrightarrow> \<exists>b. mget (bs_bindings s) i = Some b \<and> key = (wb_TaskID b, wb_Generation b)"
  unfolding rounds_ok_def by blast

lemma replaceBinding_ok:
  assumes inv: "workspace_inv s" and b: "mget (bs_bindings s) (wb_ID d) = Some b"
    and d: "binding_ok d" "binding_extends b d" and other: "\<not> invocationElsewhere s d"
  shows "workspace_ok s (s\<lparr>bs_bindings := mput (wb_ID d) d (bs_bindings s)\<rparr>)"
proof -
  let ?t = "s\<lparr>bs_bindings := mput (wb_ID d) d (bs_bindings s)\<rparr>"
  have same: "wb_TaskID d = wb_TaskID b" "wb_Generation d = wb_Generation b" using d(2) by (auto simp: binding_extends_def same_workspace_def)
  have wf: "mwf (bs_bindings s)" using inv by (simp add: workspace_inv_def)
  have rounds: "rounds_ok s" using inv by (simp add: workspace_inv_def)
  have "rounds_ok ?t"
    unfolding rounds_ok_def
  proof (intro conjI allI impI)
    fix key i assume "mget (bs_byRound ?t) key = Some i"
    then obtain x where "mget (bs_bindings s) i = Some x" "key = (wb_TaskID x, wb_Generation x)"
      using rounds_okD[OF rounds, of key i] by auto
    then show "\<exists>x. mget (bs_bindings ?t) i = Some x \<and> key = (wb_TaskID x, wb_Generation x)"
      using b same by (cases "wb_ID d = i") (simp_all add: gomap_simps)
  next
    fix i x assume "mget (bs_bindings ?t) i = Some x"
    then show "mget (bs_byRound ?t) (wb_TaskID x, wb_Generation x) = Some i"
      using rounds b same by (cases "wb_ID d = i") (auto simp: gomap_simps rounds_ok_def)
  qed
  moreover have "invocations_ok ?t"
    unfolding invocations_ok_def
  proof (intro allI impI)
    fix i j x y assume xy: "mget (bs_bindings ?t) i = Some x" "mget (bs_bindings ?t) j = Some y"
      "wb_ActiveInvocation x \<noteq> ''''" "wb_ActiveInvocation x = wb_ActiveInvocation y"
    have free: "mget (bs_bindings s) k = Some z \<Longrightarrow> k \<noteq> wb_ID d \<Longrightarrow> wb_ActiveInvocation d \<noteq> '''' \<Longrightarrow>
        wb_ActiveInvocation z \<noteq> wb_ActiveInvocation d" for k z
      using other unfolding invocationElsewhere_iff[OF wf] by blast
    have old: "invocations_ok s" using inv by (simp add: workspace_inv_def)
    show "i = j"
    proof (cases "i = wb_ID d"; cases "j = wb_ID d")
      assume "i = wb_ID d" "j \<noteq> wb_ID d"
      with xy free[of j y] show ?thesis by (auto simp: gomap_simps)
    next
      assume "i \<noteq> wb_ID d" "j = wb_ID d"
      with xy free[of i x] show ?thesis by (auto simp: gomap_simps)
    next
      assume "i \<noteq> wb_ID d" "j \<noteq> wb_ID d"
      with xy old show ?thesis unfolding invocations_ok_def by (simp add: gomap_simps)
    qed simp
  qed
  moreover have "workspace_extends s ?t" using b d(2) by (auto simp: workspace_extends_def gomap_simps)
  ultimately show ?thesis using inv d(1) by (simp add: workspace_ok_def workspace_inv_def gomap_simps)
qed

text \<open>What a change of a binding has to keep for its result to be stored.\<close>

definition good_change :: "Binding \<Rightarrow> Binding \<Rightarrow> bool" where
  "good_change b d \<longleftrightarrow> binding_ok d \<and> binding_extends b d"

lemma leaseOf_mput: "leaseOf (b\<lparr>wb_PhaseLeases := mput phase i (wb_PhaseLeases b)\<rparr>) q = (if phase = q then i else leaseOf b q)"
  by (simp add: leaseOf_def gomap_simps)

lemma leaseOf_other [simp]:
  "leaseOf (b\<lparr>wb_ActivePhase := p\<rparr>) q = leaseOf b q" "leaseOf (b\<lparr>wb_ActiveInvocation := iv\<rparr>) q = leaseOf b q"
  "leaseOf (b\<lparr>wb_Status := st\<rparr>) q = leaseOf b q" "leaseOf (b\<lparr>wb_AllowedDirs := ds\<rparr>) q = leaseOf b q"
  "leaseOf (b\<lparr>wb_DeclaredWrites := w\<rparr>) q = leaseOf b q" "leaseOf (b\<lparr>wb_ObservedWrites := w\<rparr>) q = leaseOf b q"
  "leaseOf (b\<lparr>wb_CurrentRevision := rv\<rparr>) q = leaseOf b q" "leaseOf (b\<lparr>wb_Revision := n\<rparr>) q = leaseOf b q"
  by (simp_all add: leaseOf_def)

lemmas change_defs = good_change_def binding_ok_def binding_extends_def same_workspace_def phasePrerequisitesMet_def

text \<open>The revision, the observed writes and the head of the worktree are outside the invariant.\<close>

lemma phasePrerequisitesMet_free [simp]:
  "phasePrerequisitesMet (d\<lparr>wb_Revision := r\<rparr>) phase = phasePrerequisitesMet d phase"
  "phasePrerequisitesMet (d\<lparr>wb_ObservedWrites := w\<rparr>) phase = phasePrerequisitesMet d phase"
  "phasePrerequisitesMet (d\<lparr>wb_CurrentRevision := c\<rparr>) phase = phasePrerequisitesMet d phase"
  by (simp_all add: phasePrerequisitesMet_def)

lemma good_change_free [simp]:
  "good_change b (d\<lparr>wb_Revision := r\<rparr>) = good_change b d" "good_change b (d\<lparr>wb_ObservedWrites := w\<rparr>) = good_change b d"
  "good_change b (d\<lparr>wb_CurrentRevision := c\<rparr>) = good_change b d"
  by (simp_all add: good_change_def binding_ok_def binding_extends_def same_workspace_def cong: conj_cong)

lemma good_change_refl [simp]: "good_change b b = binding_ok b"
  by (simp add: good_change_def)

lemma UpdateCAS_ok:
  assumes inv: "workspace_inv s" and b: "mget (bs_bindings s) (wb_ID b) = Some b" and change: "good_change b d"
    and run: "UpdateCAS ctx s d expected = (r, t)"
  shows "workspace_ok s t"
proof (cases "t = s")
  case False
  then obtain current where cur: "mget (bs_bindings s) (wb_ID d) = Some current" and other: "\<not> invocationElsewhere s d"
    and t: "t = s\<lparr>bs_bindings := mput (wb_ID d) (d\<lparr>wb_Revision := Next (wb_Revision current)\<rparr>) (bs_bindings s)\<rparr>"
    using run by (auto simp: UpdateCAS_def check_simps split: option.splits sum.splits)
  let ?d = "d\<lparr>wb_Revision := Next (wb_Revision current)\<rparr>"
  have g: "good_change b ?d" using change by simp
  have idd: "wb_ID ?d = wb_ID b" using g by (simp add: good_change_def binding_extends_def same_workspace_def)
  have "\<not> invocationElsewhere s ?d" using other by (simp add: invocationElsewhere_def)
  moreover have "mget (bs_bindings s) (wb_ID ?d) = Some b" using b idd by simp
  ultimately have "workspace_ok s (s\<lparr>bs_bindings := mput (wb_ID ?d) ?d (bs_bindings s)\<rparr>)"
    using replaceBinding_ok[OF inv, of ?d b] g unfolding good_change_def by blast
  then show ?thesis by (simp add: t)
qed (use inv in simp)

lemma mutate_change:
  assumes "mutate ctx s i expected app = (r, t)"
  shows "t = s \<or> (\<exists>b d e. mget (bs_bindings s) i = Some b \<and> app b = Inr (Some d) \<and> UpdateCAS ctx s d e = (r, t))"
proof (cases "mget (bs_bindings s) i")
  case (Some b)
  then show ?thesis using assms
    by (cases "app b") (auto simp: mutate_def GetBinding_def check_simps Let_def split: sum.splits option.splits if_splits)
qed (use assms in \<open>auto simp: mutate_def GetBinding_def check_simps split: sum.splits\<close>)

lemma mutate_ok:
  assumes inv: "workspace_inv s" and run: "mutate ctx s i expected app = (r, t)"
    and app: "\<And>b d. binding_ok b \<Longrightarrow> app b = Inr (Some d) \<Longrightarrow> good_change b d"
  shows "workspace_ok s t"
  using mutate_change[OF run]
proof (elim disjE exE conjE)
  fix b d e assume b: "mget (bs_bindings s) i = Some b" and d: "app b = Inr (Some d)" and up: "UpdateCAS ctx s d e = (r, t)"
  note bi = workspace_inv_binding[OF inv b]
  have "mget (bs_bindings s) (wb_ID b) = Some b" using b bi by simp
  then show ?thesis using UpdateCAS_ok[OF inv _ app[OF _ d] up] bi by blast
qed (use inv in simp)

section \<open>The changes\<close>

lemma bindPhase_good:
  assumes "validPhase phase" "invocationID \<noteq> ''''" "binding_ok b" "bindPhase phase invocationID b = Inr (Some d)"
  shows "good_change b d"
  using assms by (auto simp: bindPhase_def change_defs split: if_splits)

lemma authorizeWrites_good: "binding_ok b \<Longrightarrow> authorizeWrites allowed normalized b = Inr (Some d) \<Longrightarrow> good_change b d"
  by (auto simp: authorizeWrites_def change_defs split: if_splits)

lemma finishLease_good:
  assumes "invocationID \<noteq> ''''" "binding_ok b" "finishLease phase invocationID complete b = Inr (Some d)"
  shows "good_change b d"
proof -
  have a: "wb_ActivePhase b = phase" "wb_ActiveInvocation b = invocationID"
    and d: "d = b\<lparr>wb_PhaseLeases := (if complete then mput phase invocationID (wb_PhaseLeases b) else wb_PhaseLeases b), wb_ActivePhase := '''', wb_ActiveInvocation := ''''\<rparr>"
    using assms(3) by (auto simp: finishLease_def split: if_splits)
  have lease: "leaseOf d q = (if complete \<and> phase = q then invocationID else leaseOf b q)" for q
    by (simp add: d leaseOf_def gomap_simps)
  from assms(1,2) a have "validPhase phase" "phasePrerequisitesMet b phase" "leaseOf b phase = ''''" "wb_Status b \<noteq> StatusSealed"
    by (auto simp: binding_ok_def)
  moreover have "same_workspace b d" "wb_AllowedDirs d = wb_AllowedDirs b" "wb_DeclaredWrites d = wb_DeclaredWrites b"
    "wb_ActivePhase d = ''''" "wb_ActiveInvocation d = ''''" by (simp_all add: d same_workspace_def)
  ultimately show ?thesis using assms(2) lease
    unfolding good_change_def binding_ok_def binding_extends_def phasePrerequisitesMet_def validPhase_def
    by (simp add: same_workspace_def split: if_splits)
qed

lemma sealBinding_good: "binding_ok b \<Longrightarrow> sealBinding b = Inr (Some d) \<Longrightarrow> good_change b d"
  by (auto simp: sealBinding_def change_defs split: if_splits)

lemma refreshBinding_good: "binding_ok b \<Longrightarrow> refreshBinding git g b = Inr (Some d) \<Longrightarrow> good_change b d"
  by (cases "gb_ObservedWrites git g b"; cases "gb_CurrentRevision git g b") (auto simp: refreshBinding_def Let_def split: if_splits)

text \<open>Completed phases that are added in order, to an unsealed binding.\<close>

definition adds_leases :: "Binding \<Rightarrow> Binding \<Rightarrow> bool" where
  "adds_leases b d \<longleftrightarrow> (\<exists>leases. d = b\<lparr>wb_PhaseLeases := leases\<rparr>) \<and> (\<forall>q. leaseOf b q \<noteq> '''' \<longrightarrow> leaseOf d q = leaseOf b q)"

lemma adds_leases_refl [simp]: "adds_leases b b"
  unfolding adds_leases_def by (metis Binding.surjective Binding.update_convs(15))

lemma adds_leases_put: "adds_leases b d \<Longrightarrow> leaseOf d q = '''' \<Longrightarrow> adds_leases b (d\<lparr>wb_PhaseLeases := mput q i (wb_PhaseLeases d)\<rparr>)"
  unfolding adds_leases_def by (auto simp: leaseOf_mput)

lemma adds_leases_good:
  assumes "binding_ok b" "adds_leases b d" "wb_Status b \<noteq> StatusSealed"
    and "leaseOf d PhaseExecute \<noteq> '''' \<longrightarrow> leaseOf d PhasePlan \<noteq> ''''" "leaseOf d PhaseVerify \<noteq> '''' \<longrightarrow> leaseOf d PhaseExecute \<noteq> ''''"
    and "wb_ActiveInvocation b \<noteq> '''' \<longrightarrow> d = b"
  shows "good_change b d"
proof (cases "d = b")
  case False
  then have idle: "wb_ActiveInvocation b = ''''" "wb_ActivePhase b = ''''" using assms(1,6) by (auto simp: binding_ok_def)
  obtain leases where d: "d = b\<lparr>wb_PhaseLeases := leases\<rparr>" and keep: "\<forall>q. leaseOf b q \<noteq> '''' \<longrightarrow> leaseOf d q = leaseOf b q"
    using assms(2) by (auto simp: adds_leases_def)
  have "same_workspace b d" "wb_AllowedDirs d = wb_AllowedDirs b" "wb_DeclaredWrites d = wb_DeclaredWrites b"
    "wb_ActivePhase d = ''''" "wb_ActiveInvocation d = ''''" "wb_Root d = wb_Root b" by (simp_all add: d same_workspace_def idle)
  with assms(1,3-5) keep show ?thesis unfolding good_change_def binding_ok_def binding_extends_def by simp
qed (use assms(1) in simp)

lemma inheritLoop_adds:
  assumes "inheritLoop replaying source phases t changed = Inr (d, c)" "adds_leases b t"
  shows "adds_leases b d \<and> (replaying \<longrightarrow> d = t) \<and> (\<forall>q. leaseOf d q \<noteq> '''' \<longleftrightarrow> leaseOf t q \<noteq> '''' \<or> q \<in> set phases)"
  using assms
proof (induction replaying source phases t changed rule: inheritLoop.induct)
  case (2 replaying source q rest t changed)
  let ?t = "t\<lparr>wb_PhaseLeases := mput q (leaseOf source q) (wb_PhaseLeases t)\<rparr>"
  show ?case
  proof (cases "leaseOf t q = ''''")
    case True
    with "2.prems"(1) have run: "inheritLoop replaying source rest ?t True = Inr (d, c)" "\<not> replaying" "leaseOf source q \<noteq> ''''"
      by (auto simp: Let_def split: if_splits)
    have add: "adds_leases b ?t" using "2.prems"(2) True by (rule adds_leases_put)
    have "adds_leases b d \<and> (\<forall>q'. leaseOf d q' \<noteq> '''' \<longleftrightarrow> leaseOf ?t q' \<noteq> '''' \<or> q' \<in> set rest)"
      using 2(2)[OF refl refl _ _ _ run(1) add] run True by simp
    with run(2,3) show ?thesis by (auto simp: leaseOf_mput split: if_splits)
  next
    case False
    with "2.prems"(1) have run: "inheritLoop replaying source rest t changed = Inr (d, c)" "leaseOf source q \<noteq> ''''" "leaseOf t q = leaseOf source q"
      by (auto simp: Let_def split: if_splits)
    have "adds_leases b d \<and> (replaying \<longrightarrow> d = t) \<and> (\<forall>q'. leaseOf d q' \<noteq> '''' \<longleftrightarrow> leaseOf t q' \<noteq> '''' \<or> q' \<in> set rest)"
      using 2(1)[OF refl refl _ _ _ run(1) "2.prems"(2)] run(2,3) by simp
    with False show ?thesis by (metis list.set_intros(2) set_ConsD)
  qed
qed simp

lemma inheritPrerequisites_good:
  assumes "binding_ok b" "inheritPrerequisites source phase replay b = Inr (Some d)" "validPhase phase"
  shows "good_change b d"
proof -
  obtain c where loop: "inheritLoop (wb_ActiveInvocation b \<noteq> '''') source (phasePrerequisites phase) b False = Inr (d, c)"
    and open_b: "wb_Status b \<noteq> StatusSealed"
    using assms(2) by (auto simp: inheritPrerequisites_def changedOnly_def check_simps Let_def split: if_splits)
  from inheritLoop_adds[OF loop adds_leases_refl] have adds: "adds_leases b d" "wb_ActiveInvocation b \<noteq> '''' \<longrightarrow> d = b"
    and lease: "\<And>q. leaseOf d q \<noteq> '''' \<longleftrightarrow> leaseOf b q \<noteq> '''' \<or> q \<in> set (phasePrerequisites phase)" by auto
  show ?thesis
    by (rule adds_leases_good[OF assms(1) adds(1) open_b _ _ adds(2)])
      (use assms(1,3) in \<open>auto simp: lease phasePrerequisites_def validPhase_def binding_ok_def\<close>)
qed

lemma mergedLoop_adds:
  assumes "mergedLoop entries t changed = Inr (d, c)" "adds_leases b t" "\<forall>(q, i) \<in> set entries. i \<noteq> ''''"
  shows "adds_leases b d \<and> (\<forall>q. leaseOf d q \<noteq> '''' \<longleftrightarrow> leaseOf t q \<noteq> '''' \<or> q \<in> fst ` set entries)"
  using assms
proof (induction entries t changed rule: mergedLoop.induct)
  case (2 q i rest t changed)
  let ?t = "t\<lparr>wb_PhaseLeases := mput q i (wb_PhaseLeases t)\<rparr>"
  show ?case
  proof (cases "leaseOf t q = ''''")
    case True
    with 2 have run: "mergedLoop rest ?t True = Inr (d, c)" by (auto simp: Let_def split: if_splits)
    have "adds_leases b ?t" using "2.prems"(2) True by (rule adds_leases_put)
    with 2(2)[OF refl] run True "2.prems"(3) show ?thesis by (auto simp: leaseOf_mput split: if_splits)
  next
    case False
    with 2 have run: "mergedLoop rest t changed = Inr (d, c)" "leaseOf t q = i" by (auto simp: Let_def split: if_splits)
    with 2(1)[OF refl] False "2.prems" show ?thesis by auto
  qed
qed simp

lemma inheritMerged_good:
  assumes "binding_ok b" "leaseOf source PhasePlan \<noteq> ''''" "leaseOf source PhaseExecute \<noteq> ''''" "inheritMerged source b = Inr (Some d)"
  shows "good_change b d"
proof -
  obtain c where loop: "mergedLoop [(PhasePlan, leaseOf source PhasePlan), (PhaseExecute, leaseOf source PhaseExecute)] b False = Inr (d, c)"
    and b: "wb_Status b \<noteq> StatusSealed" "wb_ActiveInvocation b = ''''" "leaseOf b PhaseVerify = ''''"
    using assms(4) by (auto simp: inheritMerged_def changedOnly_def check_simps split: if_splits)
  from mergedLoop_adds[OF loop adds_leases_refl] assms(2,3) have adds: "adds_leases b d"
    and lease: "\<And>q. leaseOf d q \<noteq> '''' \<longleftrightarrow> leaseOf b q \<noteq> '''' \<or> q = PhasePlan \<or> q = PhaseExecute" by auto
  show ?thesis by (rule adds_leases_good[OF assms(1) adds b(1)]) (use lease b in auto)
qed

lemma inheritPlan_good:
  assumes "binding_ok b" "leaseOf source PhasePlan \<noteq> ''''" "inheritPlan source b = Inr (Some d)"
  shows "good_change b d"
proof -
  have b: "wb_Status b \<noteq> StatusSealed" "wb_ActiveInvocation b = ''''" "leaseOf b PhaseExecute = ''''" "leaseOf b PhaseVerify = ''''"
    using assms(3) by (auto simp: inheritPlan_def check_simps)
  define t1 where "t1 = (if leaseOf b PhasePlan = '''' then b\<lparr>wb_PhaseLeases := mput PhasePlan (leaseOf source PhasePlan) (wb_PhaseLeases b)\<rparr> else b)"
  have d: "d = t1 \<or> d = t1\<lparr>wb_DeclaredWrites := wb_DeclaredWrites source, wb_AllowedDirs := wb_AllowedDirs source\<rparr>"
    using assms(3) by (auto simp: inheritPlan_def check_simps Let_def t1_def[symmetric] split: if_splits)
  have lease: "leaseOf t1 q = (if q = PhasePlan \<and> leaseOf b q = '''' then leaseOf source PhasePlan else leaseOf b q)" for q
    by (auto simp: t1_def leaseOf_mput)
  have "adds_leases b t1" by (simp add: t1_def adds_leases_put)
  then have good: "good_change b t1" by (rule adds_leases_good[OF assms(1) _ b(1)]) (use b in \<open>auto simp: lease\<close>)
  have "wb_ActiveInvocation t1 = ''''" using b(2) by (simp add: t1_def)
  with good b have "good_change b (t1\<lparr>wb_DeclaredWrites := wb_DeclaredWrites source, wb_AllowedDirs := wb_AllowedDirs source\<rparr>)"
    by (auto simp: good_change_def binding_ok_def binding_extends_def same_workspace_def)
  with d good show ?thesis by blast
qed

section \<open>The contract of the service's operations\<close>

locale workspace_operation =
  fixes run :: "WorkspaceStore \<Rightarrow> 'r \<times> WorkspaceStore"
  assumes run_ok: "workspace_inv s \<Longrightarrow> run s = (r, t) \<Longrightarrow> workspace_ok s t"
begin

lemma keeps_inv: "workspace_inv s \<Longrightarrow> workspace_inv (snd (run s))"
  using run_ok[of s "fst (run s)" "snd (run s)"] by (simp add: workspace_ok_def)

lemma extends: "workspace_inv s \<Longrightarrow> workspace_extends s (snd (run s))"
  using run_ok[of s "fst (run s)" "snd (run s)"] by (simp add: workspace_ok_def)

end

lemma phaseArguments_None: "phaseArguments phase invocationID = None \<longleftrightarrow> invocationID \<noteq> '''' \<and> validPhase phase"
  by (auto simp: phaseArguments_def check_simps)

text \<open>Every operation that is a guarded \<open>mutate\<close> is an instance.\<close>

lemma mutate_operation:
  assumes "\<And>s r t. run s = (r, t) \<Longrightarrow> t = s \<or> (\<exists>i expected app. mutate ctx s i expected app = (r, t)
     \<and> (\<forall>b d. binding_ok b \<longrightarrow> app b = Inr (Some d) \<longrightarrow> good_change b d))"
  shows "workspace_operation run"
  by unfold_locales (use assms mutate_ok in \<open>metis workspace_ok_refl\<close>)

interpretation bind_op: workspace_operation "\<lambda>s. BindPhase ctx s i phase invocationID expected" for ctx i phase invocationID expected
proof (rule mutate_operation[where ctx = ctx])
  fix s r t assume "BindPhase ctx s i phase invocationID expected = (r, t)"
  then show "t = s \<or> (\<exists>i expected app. mutate ctx s i expected app = (r, t)
     \<and> (\<forall>b d. binding_ok b \<longrightarrow> app b = Inr (Some d) \<longrightarrow> good_change b d))"
    by (cases "phaseArguments phase invocationID") (simp_all add: BindPhase_def phaseArguments_None, metis bindPhase_good)
qed

interpretation authorize_op: workspace_operation "\<lambda>s. AuthorizeExecuteWrites ctx s i declared expected" for ctx i declared expected
  by (rule mutate_operation[where ctx = ctx])
    (auto simp: AuthorizeExecuteWrites_def split: sum.splits dest: authorizeWrites_good)

interpretation finish_op: workspace_operation "\<lambda>s. finishPhaseLease ctx s i phase invocationID expected complete"
  for ctx i phase invocationID expected complete
proof (rule mutate_operation[where ctx = ctx])
  fix s r t assume "finishPhaseLease ctx s i phase invocationID expected complete = (r, t)"
  then show "t = s \<or> (\<exists>i expected app. mutate ctx s i expected app = (r, t)
     \<and> (\<forall>b d. binding_ok b \<longrightarrow> app b = Inr (Some d) \<longrightarrow> good_change b d))"
    by (cases "phaseArguments phase invocationID") (simp_all add: finishPhaseLease_def phaseArguments_None, metis finishLease_good)
qed

interpretation seal_op: workspace_operation "\<lambda>s. Seal ctx s i expected" for ctx i expected
  by (rule mutate_operation[where ctx = ctx]) (auto simp: Seal_def dest: sealBinding_good)

interpretation refresh_op: workspace_operation "\<lambda>s. RefreshObservedWrites git g ctx s i expected" for git g ctx i expected
  by (rule mutate_operation[where ctx = ctx]) (auto simp: RefreshObservedWrites_def dest: refreshBinding_good)

text \<open>The three ways to inherit: the source has been read and is idle.\<close>

interpretation inherit_op: workspace_operation "\<lambda>s. InheritPhasePrerequisites ctx s targetID sourceID phase active"
  for ctx targetID sourceID phase active
proof (rule mutate_operation[where ctx = ctx])
  fix s r t assume "InheritPhasePrerequisites ctx s targetID sourceID phase active = (r, t)"
  then consider "t = s" | source where "mutate ctx s targetID LatestRevision
      (inheritPrerequisites source phase (case active of [] \<Rightarrow> '''' | i # _ \<Rightarrow> i)) = (r, t)" "validPhase phase"
    by (auto simp: InheritPhasePrerequisites_def check_simps split: sum.splits)
  then show "t = s \<or> (\<exists>i expected app. mutate ctx s i expected app = (r, t)
     \<and> (\<forall>b d. binding_ok b \<longrightarrow> app b = Inr (Some d) \<longrightarrow> good_change b d))"
    by cases (blast, metis inheritPrerequisites_good)
qed

interpretation inherit_plan_op: workspace_operation "\<lambda>s. InheritPlanPrerequisite ctx s targetID sourceID" for ctx targetID sourceID
proof (rule mutate_operation[where ctx = ctx])
  fix s r t assume "InheritPlanPrerequisite ctx s targetID sourceID = (r, t)"
  then consider "t = s" | source where "mutate ctx s targetID LatestRevision (inheritPlan source) = (r, t)" "leaseOf source PhasePlan \<noteq> ''''"
    by (auto simp: InheritPlanPrerequisite_def check_simps split: sum.splits)
  then show "t = s \<or> (\<exists>i expected app. mutate ctx s i expected app = (r, t)
     \<and> (\<forall>b d. binding_ok b \<longrightarrow> app b = Inr (Some d) \<longrightarrow> good_change b d))"
    by cases (blast, metis inheritPlan_good)
qed

interpretation inherit_merged_op: workspace_operation "\<lambda>s. InheritMergedVerifyPrerequisites ctx s targetID sourceID" for ctx targetID sourceID
proof (rule mutate_operation[where ctx = ctx])
  fix s r t assume "InheritMergedVerifyPrerequisites ctx s targetID sourceID = (r, t)"
  then consider "t = s" | source where "mutate ctx s targetID LatestRevision (inheritMerged source) = (r, t)"
      "leaseOf source PhasePlan \<noteq> ''''" "leaseOf source PhaseExecute \<noteq> ''''"
    by (auto simp: InheritMergedVerifyPrerequisites_def check_simps split: sum.splits)
  then show "t = s \<or> (\<exists>i expected app. mutate ctx s i expected app = (r, t)
     \<and> (\<forall>b d. binding_ok b \<longrightarrow> app b = Inr (Some d) \<longrightarrow> good_change b d))"
    by cases (blast, metis inheritMerged_good)
qed

section \<open>Materialisation and creation\<close>

lemma followHead_ok:
  assumes "workspace_inv s" "mget (bs_bindings s) i = Some b" "followHead ctx s b materialized = (r, t)"
  shows "workspace_ok s t"
proof -
  note b = workspace_inv_binding[OF assms(1,2)]
  have "mget (bs_bindings s) (wb_ID b) = Some b" "good_change b (b\<lparr>wb_CurrentRevision := mt_Head materialized\<rparr>)" using b assms(2) by simp_all
  from UpdateCAS_ok[OF assms(1) this] show ?thesis using assms(1,3) by (auto simp: followHead_def split: if_splits)
qed

lemma InsertBinding_ok:
  assumes inv: "workspace_inv s" and b: "binding_ok b" "wb_ActiveInvocation b = ''''" and run: "InsertBinding ctx s b = (r, t)"
  shows "workspace_ok s t"
proof (cases "t = s")
  case False
  then have new: "mget (bs_bindings s) (wb_ID b) = None" "mget (bs_byRound s) (wb_TaskID b, wb_Generation b) = None"
    and t: "t = s\<lparr>bs_bindings := mput (wb_ID b) b (bs_bindings s), bs_byRound := mput (wb_TaskID b, wb_Generation b) (wb_ID b) (bs_byRound s)\<rparr>"
    using run by (auto simp: InsertBinding_def check_simps Let_def split: option.splits)
  have old: "rounds_ok s" "invocations_ok s" using inv by (simp_all add: workspace_inv_def)
  have get: "mget (bs_bindings t) i = (if wb_ID b = i then Some b else mget (bs_bindings s) i)" for i by (simp add: t gomap_simps)
  have round: "mget (bs_byRound t) k = (if (wb_TaskID b, wb_Generation b) = k then Some (wb_ID b) else mget (bs_byRound s) k)" for k
    by (simp add: t gomap_simps)
  have "rounds_ok t" unfolding rounds_ok_def
  proof (intro conjI allI impI)
    fix k i assume "mget (bs_byRound t) k = Some i"
    then show "\<exists>x. mget (bs_bindings t) i = Some x \<and> k = (wb_TaskID x, wb_Generation x)"
      using rounds_okD[OF old(1), of k i] new(1) unfolding round get by (cases "(wb_TaskID b, wb_Generation b) = k") auto
  next
    fix i x assume "mget (bs_bindings t) i = Some x"
    then show "mget (bs_byRound t) (wb_TaskID x, wb_Generation x) = Some i"
      using old(1) new(2) unfolding round get rounds_ok_def by (cases "wb_ID b = i") auto
  qed
  moreover have "invocations_ok t" using old(2) b(2) unfolding invocations_ok_def get by (metis option.inject)
  moreover have "workspace_extends s t" using new unfolding workspace_extends_def get by (metis binding_extends_refl option.distinct(1))
  moreover have "mwf (bs_bindings t)" "\<forall>i x. mget (bs_bindings t) i = Some x \<longrightarrow> wb_ID x = i \<and> binding_ok x"
    using inv b(1) unfolding workspace_inv_def get by (auto simp: t)
  ultimately show ?thesis by (simp add: workspace_ok_def workspace_inv_def)
qed (use inv in simp)

lemma refreshLocked_ok:
  assumes "workspace_inv s" "mget (bs_bindings s) (wb_ID b) = Some b" "refreshLocked git g ctx s b = (r, t)"
  shows "workspace_ok s t"
  using assms UpdateCAS_ok[OF assms(1,2) refreshBinding_good] workspace_inv_binding[OF assms(1,2)]
  by (auto simp: refreshLocked_def split: sum.splits option.splits)

interpretation materialize_op: workspace_operation "\<lambda>s. (\<lambda>(r, t, g'). ((r, g'), t)) (MaterializeBinding git ctx (s, g) i)" for git ctx g i
proof
  fix s r t assume inv: "workspace_inv s" and run: "(\<lambda>(r, t, g'). ((r, g'), t)) (MaterializeBinding git ctx (s, g) i) = (r, t)"
  then have "t = s \<or> (\<exists>b m r'. mget (bs_bindings s) i = Some b \<and> followHead ctx s b m = (r', t))"
    by (auto simp: MaterializeBinding_def GetBinding_def check_simps split: sum.splits prod.splits option.splits)
  then show "workspace_ok s t" using followHead_ok[OF inv] inv by auto
qed

lemma newBinding_ok:
  "binding_ok (newBinding sha json req repositoryPath parent base allowed declared\<lparr>wb_CurrentRevision := head\<rparr>)"
  "wb_ActiveInvocation (newBinding sha json req repositoryPath parent base allowed declared\<lparr>wb_CurrentRevision := head\<rparr>) = ''''"
proof -
  show "binding_ok (newBinding sha json req repositoryPath parent base allowed declared\<lparr>wb_CurrentRevision := head\<rparr>)"
    by (auto simp: newBinding_def bindingIdentity_def Let_def binding_ok_def leaseOf_def zeroBinding_def pathJoin_def)
  show "wb_ActiveInvocation (newBinding sha json req repositoryPath parent base allowed declared\<lparr>wb_CurrentRevision := head\<rparr>) = ''''"
    by (simp add: newBinding_def bindingIdentity_def Let_def zeroBinding_def)
qed

lemma createExisting_ok:
  assumes "workspace_inv s" "mget (bs_bindings s) i = Some b"
    and "createExisting sha json git ctx s g req repositoryPath parent allowed declared b = (r, t, g')"
  shows "workspace_ok s t"
proof -
  from assms(3) have "t = s \<or> (\<exists>m r'. followHead ctx s b m = (r', t))"
    by (auto simp: createExisting_def split: sum.splits if_splits prod.splits)
  then show ?thesis using followHead_ok[OF assms(1,2)] assms(1) by auto
qed

lemma createNew_ok:
  assumes "workspace_inv s" "createNew sha json git hook ctx s g req repositoryPath parent allowed declared = (r, t, g')"
  shows "workspace_ok s t"
proof -
  from assms(2) have "t = s \<or> (\<exists>base head r'. InsertBinding ctx s
      (newBinding sha json req repositoryPath parent base allowed declared\<lparr>wb_CurrentRevision := head\<rparr>) = (r', t))"
    by (auto simp: createNew_def Let_def split: sum.splits prod.splits option.splits)
  then show ?thesis using InsertBinding_ok[OF assms(1) newBinding_ok] assms(1) by auto
qed

interpretation create_op: workspace_operation "\<lambda>s. (\<lambda>(r, t, g'). ((r, g'), t)) (CreateGitWorktree sha json fs git hook ctx (s, g) req)"
  for sha json fs git hook ctx g req
proof
  fix s r t assume inv: "workspace_inv s"
    and run: "(\<lambda>(r, t, g'). ((r, g'), t)) (CreateGitWorktree sha json fs git hook ctx (s, g) req) = (r, t)"
  obtain r' g' where run': "CreateGitWorktree sha json fs git hook ctx (s, g) req = (r', t, g')" using run by (auto split: prod.splits)
  show "workspace_ok s t"
  proof (cases "createArguments fs req")
    case (Inr args)
    obtain repositoryPath parent allowed declared where args: "args = (repositoryPath, parent, allowed, declared)" by (cases args) auto
    show ?thesis
    proof (cases "GetByRound ctx s (cq_TaskID req) (cq_Generation req)")
      case found: (Inr found)
      show ?thesis
      proof (cases found)
        case None
        with run' Inr args found createNew_ok[OF inv] show ?thesis by (simp add: CreateGitWorktree_def)
      next
        case (Some b)
        with found obtain i where i: "mget (bs_byRound s) (cq_TaskID req, cq_Generation req) = Some i" "b = bindingAt s i"
          by (auto simp: GetByRound_def check_simps)
        have "rounds_ok s" using inv by (simp add: workspace_inv_def)
        from rounds_okD[OF this i(1)] i(2) have "mget (bs_bindings s) i = Some b" by (auto simp: bindingAt_def)
        from createExisting_ok[OF inv this] run' Inr args found Some show ?thesis by (simp add: CreateGitWorktree_def)
      qed
    qed (use run' Inr args inv in \<open>simp add: CreateGitWorktree_def\<close>)
  qed (use run' inv in \<open>simp add: CreateGitWorktree_def\<close>)
qed

end
