(* ===== verification/Workspace_Links.thy ===== *)
theory Workspace_Links
  imports Workspace_Paths "HOL-Library.Sublist"
begin

text \<open>
  Where a path leads on the disk, and what the link check of \<open>model.go\<close> says about it. The check follows
  the text of a link's destination; the kernel walks the path component by component and follows every
  link it meets, also inside a destination. \<open>leadsTo\<close> is the walk of the kernel. The two agree on a disk
  whose links are direct: no link's destination passes through another link before its end.
\<close>

section \<open>Places\<close>

definition place :: "string list \<Rightarrow> string" where
  "place segs = CHR ''/'' # joinWith (CHR ''/'') segs"

lemma IsAbs_place [simp]: "IsAbs (place segs)"
  by (simp add: place_def IsAbs_def HasPrefix_def)

lemma Clean_place: "IsAbs p \<Longrightarrow> Clean p = place (pathSegments p)"
  by (simp add: Clean_segments place_def)

lemma Clean_Clean: "IsAbs p \<Longrightarrow> Clean (Clean p) = Clean p"
  by (metis Clean_place IsAbs_Clean pathSegments_Clean)

lemma cleanSegments_place:
  assumes "list_all plain_segment segs"
  shows "cleanSegments True [] (Split (CHR ''/'') (place segs)) = segs"
proof -
  have "Split (CHR ''/'') (place segs) = '''' # Split (CHR ''/'') (joinWith (CHR ''/'') segs)" by (simp add: place_def)
  moreover have "Split (CHR ''/'') (joinWith (CHR ''/'') segs) = (if segs = [] then [''''] else segs)"
    using assms by (auto simp: list_all_iff plain_segment_def intro: Split_join)
  ultimately show ?thesis using cleanSegments_plain[OF assms, of True "[]"] by auto
qed

lemma pathSegments_place: "list_all plain_segment segs \<Longrightarrow> pathSegments (place segs) = segs"
  by (simp add: pathSegments_def cleanSegments_place)

lemma Clean_appended:
  assumes "list_all plain_segment segs"
  shows "Clean (place segs @ CHR ''/'' # p) = place (cleanSegments True (rev segs) (Split (CHR ''/'') p))"
proof -
  have abs: "IsAbs (place segs @ CHR ''/'' # p)" by (simp add: place_def IsAbs_def HasPrefix_def)
  then show ?thesis
    by (simp add: Clean_place pathSegments_def Split_concat cleanSegments_append cleanSegments_place[OF assms])
qed

lemma pathJoin_place:
  assumes "list_all plain_segment segs"
  shows "pathJoin [place segs, p] = place (cleanSegments True (rev segs) (Split (CHR ''/'') p))"
proof (cases "p = ''''")
  case True
  have "Clean (place segs) = place segs" by (simp add: Clean_place pathSegments_place[OF assms])
  with True show ?thesis by (simp add: pathJoin_def place_def)
next
  case False
  have "pathJoin [place segs, p] = Clean (place segs @ CHR ''/'' # p)" using False by (simp add: pathJoin_def place_def)
  then show ?thesis by (simp add: Clean_appended[OF assms])
qed

lemma joinWith_last: "segs \<noteq> [] \<Longrightarrow> joinWith sep (segs @ [s]) = joinWith sep segs @ sep # s"
  by (induction segs rule: joinWith.induct) auto

lemma pathDir_place:
  assumes "list_all plain_segment segs" "plain_segment s"
  shows "pathDir (place (segs @ [s])) = place segs"
proof -
  have parts: "place (segs @ [s]) = (if segs = [] then [] else place segs) @ CHR ''/'' # s"
    by (simp add: place_def joinWith_last)
  have "dropWhile (\<lambda>c. c \<noteq> CHR ''/'') (rev s @ CHR ''/'' # xs) = CHR ''/'' # xs" for xs
    using assms(2) by (subst dropWhile_append2) (auto simp: plain_segment_def)
  then have "pathDir (place (segs @ [s])) = Clean ((if segs = [] then [] else place segs) @ ''/'')"
    unfolding pathDir_def parts by simp
  moreover have "Clean ''/'' = place []" by code_simp
  moreover have "Clean (place segs @ ''/'') = place segs" using Clean_appended[OF assms(1), of "[]"] by simp
  ultimately show ?thesis by simp
qed

section \<open>The walk of the kernel\<close>

text \<open>
  From the directory \<open>here\<close> along the components of a path. A link is replaced by the components of its
  destination, and one that is absolute starts again at the top; \<open>fuel\<close> bounds the links that are
  followed, as the kernel does. A component that does not exist is one that the write creates.
\<close>

fun leadsTo :: "FileSystem \<Rightarrow> nat \<Rightarrow> string list \<Rightarrow> string list \<Rightarrow> string list option" where
  "leadsTo fs fuel here [] = Some here"
| "leadsTo fs fuel here (s # rest) =
     (if s = '''' \<or> s = ''.'' then leadsTo fs fuel here rest
      else if s = ''..'' then leadsTo fs fuel (butlast here) rest
      else case fs_Lstat fs (place (here @ [s])) of
        LstatError _ \<Rightarrow> None
      | IsLink \<Rightarrow>
          (case fuel of 0 \<Rightarrow> None
           | Suc n \<Rightarrow>
               (case fs_Readlink fs (place (here @ [s])) of
                  Inl _ \<Rightarrow> None
                | Inr link \<Rightarrow> leadsTo fs n (if IsAbs link then [] else here) (Split (CHR ''/'') link @ rest)))
      | _ \<Rightarrow> leadsTo fs fuel (here @ [s]) rest)"

text \<open>A directory with no link on the way to it.\<close>

definition realDir :: "FileSystem \<Rightarrow> string list \<Rightarrow> bool" where
  "realDir fs here \<longleftrightarrow> list_all plain_segment here \<and> (\<forall>xs. prefix xs here \<longrightarrow> fs_Lstat fs (place xs) \<noteq> IsLink)"

text \<open>
  The destination of a link, read from the directory of the link, passes through no other link before
  its end: \<open>cleanSegments True (rev start) passed\<close> is where its first components \<open>passed\<close> lead.
\<close>

definition direct_links :: "FileSystem \<Rightarrow> bool" where
  "direct_links fs \<longleftrightarrow> (\<forall>here s link passed rest. realDir fs here \<and> fs_Lstat fs (place (here @ [s])) = IsLink
     \<and> fs_Readlink fs (place (here @ [s])) = Inr link \<and> Split (CHR ''/'') link = passed @ rest \<and> rest \<noteq> [] \<longrightarrow>
     fs_Lstat fs (place (cleanSegments True (rev (if IsAbs link then [] else here)) passed)) \<noteq> IsLink)"

text \<open>What is relied on of \<open>filepath.Abs\<close>, and that nothing is below a place that does not exist.\<close>

definition disk_laws :: "FileSystem \<Rightarrow> bool" where
  "disk_laws fs \<longleftrightarrow> (\<forall>p q. fs_Abs fs p = Inr q \<longrightarrow> IsAbs q \<and> Clean q = q \<and> (IsAbs p \<longrightarrow> q = Clean p))
     \<and> (\<forall>segs s. fs_Lstat fs (place segs) = NotExist \<longrightarrow> fs_Lstat fs (place (segs @ [s])) = NotExist)"

lemma realDir_plain: "realDir fs here \<Longrightarrow> list_all plain_segment here"
  by (simp add: realDir_def)

lemma realDir_not_link: "realDir fs here \<Longrightarrow> fs_Lstat fs (place here) \<noteq> IsLink"
  by (simp add: realDir_def)

lemma realDir_prefix: "realDir fs here \<Longrightarrow> prefix xs here \<Longrightarrow> realDir fs xs"
  unfolding realDir_def by (metis list_all_append prefix_def prefix_order.trans)

lemma realDir_butlast: "realDir fs here \<Longrightarrow> realDir fs (butlast here)"
  by (erule realDir_prefix) (rule prefixeq_butlast)

lemma realDir_snoc: "realDir fs here \<Longrightarrow> plain_segment s \<Longrightarrow> fs_Lstat fs (place (here @ [s])) \<noteq> IsLink \<Longrightarrow> realDir fs (here @ [s])"
  by (auto simp: realDir_def)

text \<open>One component of a text and of a walk.\<close>

lemma cleanSegments_step:
  assumes "list_all plain_segment here"
  shows "cleanSegments True (rev here) (s # segs) =
     cleanSegments True (rev (if s = '''' \<or> s = ''.'' then here else if s = ''..'' then butlast here else here @ [s])) segs"
  using assms by (cases here rule: rev_cases) (auto simp: plain_segment_def)

text \<open>Where no link is in the way, the walk goes where the text says.\<close>

lemma leadsTo_direct:
  assumes "realDir fs here" "\<forall>c \<in> set segs. CHR ''/'' \<notin> set c"
    and "\<forall>passed. prefix passed segs \<longrightarrow> fs_Lstat fs (place (cleanSegments True (rev here) passed)) \<noteq> IsLink"
    and "leadsTo fs n here (segs @ tail) = Some q"
  shows "realDir fs (cleanSegments True (rev here) segs) \<and> leadsTo fs n (cleanSegments True (rev here) segs) tail = Some q"
  using assms
proof (induction segs arbitrary: here)
  case (Cons s segs)
  let ?next = "if s = '''' \<or> s = ''.'' then here else if s = ''..'' then butlast here else here @ [s]"
  note step = cleanSegments_step[OF realDir_plain[OF Cons.prems(1)], of s]
  have free: "\<forall>passed. prefix passed segs \<longrightarrow> fs_Lstat fs (place (cleanSegments True (rev ?next) passed)) \<noteq> IsLink"
    using Cons.prems(3) step by (metis Cons_prefix_Cons)
  have first: "fs_Lstat fs (place ?next) \<noteq> IsLink" using free[rule_format, of "[]"] by simp
  have ahead: "realDir fs ?next"
  proof (cases "s = '''' \<or> s = ''.'' \<or> s = ''..''")
    case False
    with Cons.prems(2) have "plain_segment s" by (simp add: plain_segment_def)
    with first False Cons.prems(1) show ?thesis by (auto intro: realDir_snoc)
  qed (use Cons.prems(1) realDir_butlast in auto)
  have "leadsTo fs n ?next (segs @ tail) = Some q"
    using Cons.prems(4) first by (auto split: lstat.splits if_splits)
  moreover have "\<forall>c \<in> set segs. CHR ''/'' \<notin> set c" using Cons.prems(2) by simp
  ultimately show ?case
    unfolding step by (intro Cons.IH[OF ahead _ free])
qed simp

section \<open>The check\<close>

lemma dropCommon_spec: "dropCommon bs ts = (bs', ts') \<Longrightarrow> \<exists>common. bs = common @ bs' \<and> ts = common @ ts'"
proof (induction bs ts arbitrary: bs' ts' rule: dropCommon.induct)
  case (1 b bs t ts)
  show ?case
  proof (cases "b = t")
    case True
    with 1 obtain common where "bs = common @ bs'" "ts = common @ ts'" by auto
    with True show ?thesis by (intro exI[of _ "b # common"]) simp
  qed (use 1 in auto)
qed auto

lemma join_escapes: "escapesRoot (joinWith (CHR ''/'') (''..'' # segs))"
  by (cases segs) (auto simp: escapesRoot_def HasPrefix_def)

text \<open>A relative path that does not escape names what is below the root.\<close>

lemma Rel_inside:
  assumes "Rel root p = Inr rel" "\<not> escapesRoot rel"
  shows "\<exists>ts. pathSegments p = pathSegments root @ ts \<and> (rel = joinWith (CHR ''/'') ts \<or> ts = [] \<and> rel = ''.'')"
proof (cases "pathSegments root = pathSegments p \<and> IsAbs root = IsAbs p")
  case True
  with assms(1) show ?thesis by (auto simp: Rel_def)
next
  case False
  obtain bs ts where common: "dropCommon (pathSegments root) (pathSegments p) = (bs, ts)" by fastforce
  have rel: "rel = joinWith (CHR ''/'') (map (\<lambda>_. ''..'') bs @ ts)"
    using assms(1) False common by (auto simp: Rel_def split: if_splits)
  have "bs = []" using assms(2) rel join_escapes by (cases bs) auto
  with dropCommon_spec[OF common] rel show ?thesis by auto
qed

lemma rel_components:
  assumes "Rel root p = Inr rel" "\<not> escapesRoot rel" "IsAbs p"
  shows "\<exists>ts. pathSegments p = pathSegments root @ ts \<and> list_all plain_segment ts
     \<and> (Split (CHR ''/'') rel = ts \<or> ts = [] \<and> set (Split (CHR ''/'') rel) \<subseteq> {'''', ''.''})"
proof -
  obtain ts where ts: "pathSegments p = pathSegments root @ ts" "rel = joinWith (CHR ''/'') ts \<or> ts = [] \<and> rel = ''.''"
    using Rel_inside[OF assms(1,2)] by blast
  have "clean_shape True (pathSegments p)" using pathSegments_shape[of p] assms(3) by simp
  then have plain: "list_all plain_segment ts" using ts(1) by (auto simp: clean_shape_def)
  have "Split (CHR ''/'') rel = ts" if "ts \<noteq> []"
    using ts(2) that plain by (auto simp: list_all_iff plain_segment_def intro: Split_join)
  then show ?thesis using ts plain by (cases "ts = []") auto
qed

text \<open>The destination of a link as the check computes it.\<close>

lemma destination_place:
  assumes "disk_laws fs" "realDir fs here" "plain_segment s"
    and "fs_Abs fs (if IsAbs link then link else pathJoin [pathDir (place (here @ [s])), link]) = Inr destination"
  shows "destination = place (cleanSegments True (rev (if IsAbs link then [] else here)) (Split (CHR ''/'') link))"
proof (cases "IsAbs link")
  case True
  with assms(1,4) have "destination = Clean link" by (auto simp: disk_laws_def)
  with True show ?thesis by (simp add: Clean_place pathSegments_def)
next
  case False
  let ?p = "place (cleanSegments True (rev here) (Split (CHR ''/'') link))"
  have shape: "clean_shape True (cleanSegments True (rev here) (Split (CHR ''/'') link))"
    using realDir_plain[OF assms(2)] by (intro cleanSegments_shape) (auto simp: clean_shape_def dest: Split_no_sep)
  have "pathJoin [pathDir (place (here @ [s])), link] = ?p"
    by (simp add: pathDir_place[OF realDir_plain[OF assms(2)] assms(3)] pathJoin_place[OF realDir_plain[OF assms(2)]])
  with assms(1,4) False have "destination = Clean ?p" unfolding disk_laws_def by (metis IsAbs_place)
  also have "\<dots> = ?p" using shape by (simp add: Clean_place pathSegments_place clean_shape_def)
  finally show ?thesis using False by simp
qed

text \<open>
  The check of one component answers the place where the walk stands after it, with no link on the way,
  below the root.
\<close>

lemma resolveExistingLinks_leads:
  assumes "disk_laws fs" "direct_links fs"
    and "resolveExistingLinks fs root depth (place (here @ [s])) = Inr (resolved, found)"
    and "realDir fs here" "plain_segment s" "prefix (pathSegments root) (here @ [s])"
    and "leadsTo fs n here (s # tail) = Some q"
  shows "\<exists>m there. resolved = place there \<and> realDir fs there \<and> prefix (pathSegments root) there
     \<and> (\<not> found \<longrightarrow> fs_Lstat fs resolved = NotExist) \<and> leadsTo fs m there tail = Some q"
  using assms(3-7)
proof (induction depth arbitrary: here s n)
  case (Suc depth)
  let ?here = "place (here @ [s])"
  have s: "s \<noteq> ''''" "s \<noteq> ''.''" "s \<noteq> ''..''" using Suc.prems(3) by (auto simp: plain_segment_def)
  show ?case
  proof (cases "fs_Lstat fs ?here = IsLink")
    case False
    then have "realDir fs (here @ [s])" by (rule realDir_snoc[OF Suc.prems(2,3)])
    then show ?thesis using False Suc.prems(1,4,5) s
      by (intro exI[of _ n] exI[of _ "here @ [s]"]) (auto split: lstat.splits)
  next
    case True
    then obtain link destination rel where link: "fs_Readlink fs ?here = Inr link"
      and dest: "fs_Abs fs (if IsAbs link then link else pathJoin [pathDir ?here, link]) = Inr destination"
      and rel: "Rel root destination = Inr rel" "\<not> escapesRoot rel"
      and go: "resolveExistingLinks fs root depth destination = Inr (resolved, found)"
      using Suc.prems(1) by (auto split: sum.splits if_splits)
    let ?start = "if IsAbs link then [] else here"
    let ?lex = "\<lambda>passed. cleanSegments True (rev ?start) passed"
    obtain m where m: "leadsTo fs m ?start (Split (CHR ''/'') link @ tail) = Some q"
      using Suc.prems(5) s True link by (auto split: nat.splits)
    obtain passed z where split: "Split (CHR ''/'') link = passed @ [z]" by (metis Split_not_Nil rev_exhaust)
    have start: "realDir fs ?start" using Suc.prems(2) by (auto intro: realDir_prefix)
    have free: "\<forall>xs. prefix xs passed \<longrightarrow> fs_Lstat fs (place (?lex xs)) \<noteq> IsLink"
      using assms(2) Suc.prems(2) True link split unfolding direct_links_def prefix_def
      by (metis append.assoc append_is_Nil_conv not_Cons_self2)
    have seps: "\<forall>c \<in> set (passed @ [z]). CHR ''/'' \<notin> set c" using Split_no_sep split by metis
    have walked: "realDir fs (?lex passed)" "leadsTo fs m (?lex passed) (z # tail) = Some q"
      using leadsTo_direct[OF start _ free, of m "z # tail" q] m split seps by simp_all
    have at: "destination = place (?lex (passed @ [z]))"
      using destination_place[OF assms(1) Suc.prems(2,3) dest] split by simp
    have last: "?lex (passed @ [z]) = cleanSegments True (rev (?lex passed)) [z]" by (rule cleanSegments_append)
    have shape: "list_all plain_segment (?lex (passed @ [z]))"
      using cleanSegments_shape[of True "rev ?start" "passed @ [z]"] realDir_plain[OF start] seps by (auto simp: clean_shape_def)
    have inside: "prefix (pathSegments root) (?lex (passed @ [z]))"
      using Rel_inside[OF rel] at shape by (auto simp: pathSegments_place)
    show ?thesis
    proof (cases "plain_segment z")
      case plain: True
      then have "?lex (passed @ [z]) = ?lex passed @ [z]" unfolding last by (simp add: plain_segment_def)
      with Suc.IH[of "?lex passed" z m] go at walked plain inside show ?thesis by simp
    next
      case False
      then have z: "z = '''' \<or> z = ''.'' \<or> z = ''..''" using seps by (auto simp: plain_segment_def)
      let ?d = "?lex (passed @ [z])"
      have d: "?d = (if z = ''..'' then butlast (?lex passed) else ?lex passed)"
        unfolding last using cleanSegments_step[OF realDir_plain[OF walked(1)], of z "[]"] z by auto
      then have clear: "realDir fs ?d" using walked(1) realDir_butlast by auto
      then have "fs_Lstat fs (place ?d) \<noteq> IsLink" by (rule realDir_not_link)
      then have "resolved = place ?d" "\<not> found \<longrightarrow> fs_Lstat fs resolved = NotExist"
        using go at by (cases depth; auto split: lstat.splits)+
      moreover have "leadsTo fs m ?d tail = Some q" using walked(2) z d by auto
      ultimately show ?thesis using clear inside by blast
    qed
  qed
qed simp

lemma leadsTo_absent:
  assumes "disk_laws fs" "fs_Lstat fs (place here) = NotExist" "list_all plain_segment segs"
  shows "leadsTo fs n here segs = Some (here @ segs)"
  using assms(2,3)
proof (induction segs arbitrary: here)
  case (Cons s segs)
  have "fs_Lstat fs (place (here @ [s])) = NotExist" using assms(1) Cons.prems(1) by (simp add: disk_laws_def)
  with Cons show ?case by (auto simp: plain_segment_def)
qed simp

text \<open>A path that the check accepts stays below the root, at its end and at every directory on the way.\<close>

lemma walkComponents_leads:
  assumes "disk_laws fs" "direct_links fs" "walkComponents fs root (place here) (segs @ tail) = None"
    and "realDir fs here" "list_all plain_segment segs" "prefix (pathSegments root) here" "leadsTo fs n here segs = Some q"
  shows "prefix (pathSegments root) q"
  using assms(3-7)
proof (induction segs arbitrary: here n)
  case (Cons s segs)
  have s: "plain_segment s" "s \<noteq> ''''" "s \<noteq> ''.''" using Cons.prems(3) by (auto simp: plain_segment_def)
  have join: "pathJoin [place here, s] = place (here @ [s])"
    using pathJoin_place[OF realDir_plain[OF Cons.prems(2)], of s] s by (simp add: plain_segment_def Split_plain)
  obtain resolved found where r: "resolveExistingLinks fs root 32 (place (here @ [s])) = Inr (resolved, found)"
    and go: "found \<Longrightarrow> walkComponents fs root resolved (segs @ tail) = None"
    using Cons.prems(1) s(2,3)
    by (simp add: join resolveExistingLinksWithinRoot_def del: resolveExistingLinks.simps split: sum.splits prod.splits if_splits)
  have "prefix (pathSegments root) (here @ [s])" using Cons.prems(4) by auto
  from resolveExistingLinks_leads[OF assms(1,2) r Cons.prems(2) s(1) this Cons.prems(5)]
  obtain m there where there: "resolved = place there" "realDir fs there" "prefix (pathSegments root) there"
    "\<not> found \<longrightarrow> fs_Lstat fs resolved = NotExist" "leadsTo fs m there segs = Some q" by blast
  show ?case
  proof (cases found)
    case True
    with Cons.IH[of there m] go there Cons.prems(3) show ?thesis by simp
  next
    case False
    with leadsTo_absent[OF assms(1), of there segs m] there Cons.prems(3) show ?thesis by auto
  qed
qed simp

lemma ensureNoSymlinkEscape_leads:
  assumes "disk_laws fs" "direct_links fs" "ensureNoSymlinkEscape fs root target = None"
    and "fs_Abs fs root = Inr rootAbs" "fs_Abs fs target = Inr targetAbs" "realDir fs (pathSegments rootAbs)"
    and "prefix segs (pathSegments targetAbs)" "prefix (pathSegments rootAbs) segs" "leadsTo fs n [] segs = Some q"
  shows "prefix (pathSegments rootAbs) q"
proof -
  obtain rel where rel: "Rel rootAbs targetAbs = Inr rel" "\<not> escapesRoot rel"
    and walk: "walkComponents fs rootAbs rootAbs (Split (CHR ''/'') rel) = None"
    using assms(3-5) by (auto simp: ensureNoSymlinkEscape_def split: sum.splits lstat.splits if_splits)
  let ?root = "pathSegments rootAbs"
  obtain ts where ts: "pathSegments targetAbs = ?root @ ts" "list_all plain_segment ts"
    "Split (CHR ''/'') rel = ts \<or> ts = [] \<and> set (Split (CHR ''/'') rel) \<subseteq> {'''', ''.''}"
    using rel_components[OF rel] assms(1,5) by (auto simp: disk_laws_def)
  obtain us vs where us: "segs = ?root @ us" "ts = us @ vs" using assms(7,8) ts(1) by (auto simp: prefix_def)
  have plain: "list_all plain_segment ?root" by (rule realDir_plain[OF assms(6)])
  have "leadsTo fs n (cleanSegments True (rev []) ?root) us = Some q"
  proof (rule conjunct2[OF leadsTo_direct])
    show "realDir fs []" using realDir_prefix[OF assms(6)] by simp
    show "\<forall>c \<in> set ?root. CHR ''/'' \<notin> set c" using plain by (auto simp: list_all_iff plain_segment_def)
    show "\<forall>passed. prefix passed ?root \<longrightarrow> fs_Lstat fs (place (cleanSegments True (rev []) passed)) \<noteq> IsLink"
      using realDir_prefix[OF assms(6)] realDir_not_link realDir_plain cleanSegments_plain[of _ True "[]"] by fastforce
    show "leadsTo fs n [] (?root @ us) = Some q" using assms(9) us(1) by simp
  qed
  then have from_root: "leadsTo fs n ?root us = Some q" using cleanSegments_plain[OF plain, of True "[]"] by simp
  show ?thesis
  proof (cases "us = []")
    case False
    then have "walkComponents fs rootAbs rootAbs (us @ vs) = None" using walk ts(3) us(2) by auto
    moreover have "rootAbs = place ?root" using assms(1,4) Clean_place unfolding disk_laws_def by metis
    ultimately have "walkComponents fs rootAbs (place ?root) (us @ vs) = None" by simp
    from walkComponents_leads[OF assms(1,2) this assms(6) _ _ from_root] ts(2) us(2) show ?thesis by simp
  qed (use from_root in simp)
qed

section \<open>Links inside a destination\<close>

text \<open>
  Without direct links the check is not enough: \<open>/w/l\<close> is a link to \<open>a/b/c\<close>, \<open>/w/a/b\<close> is a link out of the
  root \<open>/w\<close>, and the check accepts \<open>/w/l/x\<close>, which leads to \<open>/out/c/x\<close>.
\<close>

definition nested_disk :: FileSystem where
  "nested_disk = \<lparr>fs_Abs = (\<lambda>p. Inr (Clean p)), fs_EvalSymlinks = Inr, fs_IsDir = (\<lambda>_. True),
     fs_Lstat = (\<lambda>p. if p = ''/w/l'' \<or> p = ''/w/a/b'' then IsLink else NoLink),
     fs_Readlink = (\<lambda>p. if p = ''/w/l'' then Inr ''a/b/c'' else Inr ''/out'')\<rparr>"

lemma nested_link_escapes:
  "ensureNoSymlinkEscape nested_disk ''/w'' ''/w/l/x'' = None"
  "leadsTo nested_disk 8 [] (pathSegments ''/w/l/x'') = Some [''out'', ''c'', ''x'']"
  by code_simp+

end
