(* ===== verification/Workspace_Properties.thy ===== *)
theory Workspace_Properties
  imports Workspace_Inv Workspace_Links
begin

text \<open>
  What the workspace service promises: phases in order and one at a time, one workspace for an invocation,
  bindings that keep what has been decided, and agents that write below their directories only.
  \<open>workspace_step\<close> is one operation of the service with any arguments and any answers of git.
\<close>

section \<open>Steps of the service\<close>

inductive workspace_step :: "'g GitBackend \<Rightarrow> WorkspaceStore \<Rightarrow> WorkspaceStore \<Rightarrow> bool" for git where
  Create: "CreateGitWorktree sha json fs git hook ctx (s, g) req = (r, t, g') \<Longrightarrow> workspace_step git s t"
| Materialize: "MaterializeBinding git ctx (s, g) i = (r, t, g') \<Longrightarrow> workspace_step git s t"
| Bind: "workspace_step git s (snd (BindPhase ctx s i phase invocationID expected))"
| Authorize: "workspace_step git s (snd (AuthorizeExecuteWrites ctx s i declared expected))"
| Finish: "workspace_step git s (snd (finishPhaseLease ctx s i phase invocationID revision complete))"
| Inherit: "workspace_step git s (snd (InheritPhasePrerequisites ctx s targetID sourceID phase active))"
| InheritPlan: "workspace_step git s (snd (InheritPlanPrerequisite ctx s targetID sourceID))"
| InheritMerged: "workspace_step git s (snd (InheritMergedVerifyPrerequisites ctx s targetID sourceID))"
| SealIt: "workspace_step git s (snd (Seal ctx s i expected))"
| Refresh: "workspace_step git s (snd (RefreshObservedWrites git g ctx s i expected))"
| RefreshTool: "mget (bs_bindings s) (wb_ID b) = Some b \<Longrightarrow> refreshLocked git g ctx s b = (r, t) \<Longrightarrow> workspace_step git s t"

definition workspace_reachable :: "'g GitBackend \<Rightarrow> WorkspaceStore \<Rightarrow> bool" where
  "workspace_reachable git s \<longleftrightarrow> (workspace_step git)\<^sup>*\<^sup>* NewWorkspaceStore s"

lemmas workspace_laws =
  bind_op.keeps_inv authorize_op.keeps_inv finish_op.keeps_inv inherit_op.keeps_inv inherit_plan_op.keeps_inv inherit_merged_op.keeps_inv
  seal_op.keeps_inv refresh_op.keeps_inv
  bind_op.extends authorize_op.extends finish_op.extends inherit_op.extends inherit_plan_op.extends inherit_merged_op.extends
  seal_op.extends refresh_op.extends

lemma workspace_step_ok: "workspace_step git s t \<Longrightarrow> workspace_inv s \<Longrightarrow> workspace_ok s t"
proof (induction rule: workspace_step.induct)
  case (Create sha json fs hook ctx s g req r t g')
  then show ?case using create_op.run_ok[of s sha json fs git hook ctx g req "(r, g')" t] by simp
next
  case (Materialize ctx s g i r t g')
  then show ?case using materialize_op.run_ok[of s git ctx g i "(r, g')" t] by simp
next
  case (RefreshTool s b g ctx r t)
  then show ?case by (intro refreshLocked_ok)
qed (simp_all add: workspace_ok_def workspace_laws)

lemma workspace_steps_ok: "(workspace_step git)\<^sup>*\<^sup>* s t \<Longrightarrow> workspace_inv s \<Longrightarrow> workspace_ok s t"
proof (induction rule: rtranclp_induct)
  case (step t u)
  then have "workspace_ok s t" by blast
  with workspace_step_ok[OF step(2)] show ?case by (metis workspace_ok_def workspace_ok_trans)
qed simp

lemma workspace_reachable_inv: "workspace_reachable git s \<Longrightarrow> workspace_inv s"
  using workspace_steps_ok[of git NewWorkspaceStore s] workspace_inv_new by (simp add: workspace_reachable_def workspace_ok_def)

section \<open>Phases\<close>

text \<open>C37. In every workspace the phases complete in the order plan, execute, verify. The phase that holds it has its predecessors
  completed and is not completed itself, and the workspace is not sealed meanwhile. An invocation
  holds one workspace at most, and a round of a task has one workspace.\<close>

theorem workspace_phases_in_order:
  assumes "workspace_reachable git s" "mget (bs_bindings s) i = Some b"
  shows "(leaseOf b PhaseVerify \<noteq> '''' \<longrightarrow> leaseOf b PhaseExecute \<noteq> '''') \<and> (leaseOf b PhaseExecute \<noteq> '''' \<longrightarrow> leaseOf b PhasePlan \<noteq> '''')
     \<and> (wb_ActiveInvocation b \<noteq> '''' \<longrightarrow> wb_Status b \<noteq> StatusSealed \<and> leaseOf b (wb_ActivePhase b) = ''''
          \<and> (\<forall>q \<in> set (phasePrerequisites (wb_ActivePhase b)). leaseOf b q \<noteq> '''')
          \<and> (\<forall>j d. mget (bs_bindings s) j = Some d \<and> wb_ActiveInvocation d = wb_ActiveInvocation b \<longrightarrow> j = i))
     \<and> (\<forall>j d. mget (bs_bindings s) j = Some d \<and> wb_TaskID d = wb_TaskID b \<and> wb_Generation d = wb_Generation b \<longrightarrow> j = i)"
proof -
  note inv = workspace_reachable_inv[OF assms(1)]
  have ok: "binding_ok b" using workspace_inv_binding[OF inv assms(2)] by simp
  have rounds: "mget (bs_byRound s) (wb_TaskID d, wb_Generation d) = Some j" if "mget (bs_bindings s) j = Some d" for j d
    using inv that by (simp add: workspace_inv_def rounds_ok_def)
  have one: "mget (bs_bindings s) j = Some d \<Longrightarrow> wb_ActiveInvocation b \<noteq> '''' \<Longrightarrow> wb_ActiveInvocation d = wb_ActiveInvocation b \<Longrightarrow> j = i" for j d
    using inv assms(2) unfolding workspace_inv_def invocations_ok_def by metis
  have pre: "wb_ActiveInvocation b \<noteq> '''' \<Longrightarrow> q \<in> set (phasePrerequisites (wb_ActivePhase b)) \<Longrightarrow> leaseOf b q \<noteq> ''''" for q
    using ok by (auto simp: binding_ok_def phasePrerequisites_def phasePrerequisitesMet_def split: if_splits)
  have round: "mget (bs_bindings s) j = Some d \<Longrightarrow> wb_TaskID d = wb_TaskID b \<Longrightarrow> wb_Generation d = wb_Generation b \<Longrightarrow> j = i" for j d
    using rounds[of j d] rounds[OF assms(2)] by simp
  from ok one pre round show ?thesis unfolding binding_ok_def by blast
qed

text \<open>A backend that has one revision, a disk without links, and a workspace whose planner is at work.\<close>

definition example_git :: "unit GitBackend" where
  "example_git = \<lparr>gb_ResolveRevision = (\<lambda>_ _ _. Inr ''r0''),
     gb_Materialize = (\<lambda>g _. (Inr \<lparr>mt_Head = ''r0'', mt_WorktreeCreated = True, mt_BranchCreated = True\<rparr>, g)),
     gb_Remove = (\<lambda>g _ _. (None, g)), gb_CurrentRevision = (\<lambda>_ _. Inr ''r0''), gb_ObservedWrites = (\<lambda>_ _. Inr [])\<rparr>"

definition example_disk :: FileSystem where
  "example_disk = \<lparr>fs_Abs = (\<lambda>p. Inr (''/'' @ p)), fs_EvalSymlinks = Inr, fs_IsDir = (\<lambda>_. True), fs_Lstat = (\<lambda>_. NoLink), fs_Readlink = Inr\<rparr>"

definition example_request :: CreateRequest where
  "example_request = \<lparr>cq_TaskID = ''t'', cq_Generation = 1, cq_RepoPath = ''r'', cq_WorktreeParent = ''w'', cq_BaseRevision = '''',
     cq_AllowedDirs = [], cq_DeclaredWrites = zeroWriteSet\<rparr>"

definition example_create :: "(goerr + Binding) \<times> WorkspaceStore \<times> unit" where
  "example_create = CreateGitWorktree id fi_Base example_disk example_git (\<lambda>g. (None, g)) None (NewWorkspaceStore, ()) example_request"

definition example_ref :: BindingRef where
  "example_ref = (case fst example_create of Inr b \<Rightarrow> wb_ID b | Inl _ \<Rightarrow> '''')"

definition example_workspace :: WorkspaceStore where
  "example_workspace = fst (snd example_create)"

definition example_planning :: WorkspaceStore where
  "example_planning = snd (BindPhase None example_workspace example_ref PhasePlan ''inv1'' [])"

lemma example_create_step: "workspace_step example_git NewWorkspaceStore example_workspace"
  by (rule Create[of id fi_Base example_disk example_git "\<lambda>g. (None, g)" None _ "()" example_request "fst example_create" _ "snd (snd example_create)"])
    (simp only: example_workspace_def example_create_def prod.collapse)

lemma example_planning_reachable: "workspace_reachable example_git example_planning"
  unfolding workspace_reachable_def example_planning_def
  by (rule rtranclp.rtrancl_into_rtrancl[OF r_into_rtranclp[where r = "workspace_step example_git", OF example_create_step] Bind])

lemma example_planning_binding:
  "\<exists>b. mget (bs_bindings example_planning) example_ref = Some b \<and> wb_ActiveInvocation b = ''inv1'' \<and> wb_ActivePhase b = PhasePlan"
proof -
  have "map_option (\<lambda>b. (wb_ActiveInvocation b, wb_ActivePhase b)) (mget (bs_bindings example_planning) example_ref) = Some (''inv1'', PhasePlan)"
    by code_simp
  then show ?thesis by auto
qed

theorem workspace_phases_in_order_witness:
  "\<exists>b. mget (bs_bindings example_planning) example_ref = Some b \<and> wb_ActiveInvocation b = ''inv1'' \<and> leaseOf b PhasePlan = ''''
     \<and> (\<forall>j d. mget (bs_bindings example_planning) j = Some d \<and> wb_ActiveInvocation d = ''inv1'' \<longrightarrow> j = example_ref)"
proof -
  obtain b where b: "mget (bs_bindings example_planning) example_ref = Some b" "wb_ActiveInvocation b = ''inv1''" "wb_ActivePhase b = PhasePlan"
    using example_planning_binding by blast
  from workspace_phases_in_order[OF example_planning_reachable b(1)] b show ?thesis by auto
qed

text \<open>A workspace keeps its identity for ever: task, round, root, branch, base revision and creation request. A completed phase
  stays completed by the same invocation, the directories and the declared writes stay once execute has
  completed, and a sealed workspace stays sealed with all of these.\<close>

theorem workspace_decisions_stay:
  assumes "workspace_reachable git s" "(workspace_step git)\<^sup>*\<^sup>* s t" "mget (bs_bindings s) i = Some b"
  shows "\<exists>d. mget (bs_bindings t) i = Some d \<and> same_workspace b d
     \<and> (\<forall>phase. leaseOf b phase \<noteq> '''' \<longrightarrow> leaseOf d phase = leaseOf b phase)
     \<and> (leaseOf b PhaseExecute \<noteq> '''' \<or> wb_Status b = StatusSealed \<longrightarrow>
          wb_AllowedDirs d = wb_AllowedDirs b \<and> wb_DeclaredWrites d = wb_DeclaredWrites b)
     \<and> (wb_Status b = StatusSealed \<longrightarrow> wb_Status d = StatusSealed \<and> wb_PhaseLeases d = wb_PhaseLeases b \<and> wb_ActiveInvocation d = '''')"
proof -
  note ok = workspace_steps_ok[OF assms(2) workspace_reachable_inv[OF assms(1)]]
  then obtain d where d: "mget (bs_bindings t) i = Some d" "binding_extends b d"
    using assms(3) by (auto simp: workspace_ok_def workspace_extends_def)
  moreover have "binding_ok d" using ok workspace_inv_binding[OF _ d(1)] by (simp add: workspace_ok_def)
  ultimately show ?thesis unfolding binding_extends_def binding_ok_def by blast
qed

text \<open>The planner completes, and its completion stays.\<close>

theorem workspace_decisions_stay_witness:
  "\<exists>b d. mget (bs_bindings example_planning) example_ref = Some b
     \<and> mget (bs_bindings (snd (finishPhaseLease None example_planning example_ref PhasePlan ''inv1'' LatestRevision True))) example_ref = Some d
     \<and> same_workspace b d \<and> (\<forall>phase. leaseOf b phase \<noteq> '''' \<longrightarrow> leaseOf d phase = leaseOf b phase)"
proof -
  obtain b where b: "mget (bs_bindings example_planning) example_ref = Some b" using example_planning_binding by blast
  let ?t = "snd (finishPhaseLease None example_planning example_ref PhasePlan ''inv1'' LatestRevision True)"
  have "(workspace_step example_git)\<^sup>*\<^sup>* example_planning ?t" by (rule r_into_rtranclp[where r = "workspace_step example_git", OF Finish])
  from workspace_decisions_stay[OF example_planning_reachable this b] obtain d
    where "mget (bs_bindings ?t) example_ref = Some d" "same_workspace b d" "\<forall>phase. leaseOf b phase \<noteq> '''' \<longrightarrow> leaseOf d phase = leaseOf b phase" by blast
  with b show ?thesis by blast
qed

section \<open>Paths\<close>

abbreviation plainPath :: "string \<Rightarrow> bool" where
  "plainPath p \<equiv> list_all plain_segment (Split (CHR ''/'') p)"

lemma cleanRelativePath_plain:
  assumes "cleanRelativePath p = Inr clean"
  shows "plainPath clean" "clean \<noteq> ''''" "Clean clean = clean"
proof -
  have c: "clean = Clean (slashes p)" "\<not> IsAbs (slashes p)" "clean \<noteq> ''.''" "clean \<noteq> ''..''" "\<not> HasPrefix clean ''../''"
    using assms by (auto simp: cleanRelativePath_def Let_def split: if_splits)
  show "plainPath clean" "Clean clean = clean" using Clean_relative[OF c(2)] c(3-5) unfolding c(1) by blast+
  show "clean \<noteq> ''''" by (simp add: c(1))
qed

lemma plainPath_ends:
  assumes "plainPath p"
  shows "p \<noteq> ''''" "hd p \<noteq> CHR ''/''" "last p \<noteq> CHR ''/''"
proof -
  show ne: "p \<noteq> ''''" using assms by (auto simp: plain_segment_def)
  show "hd p \<noteq> CHR ''/''" using assms ne by (cases p) (auto simp: plain_segment_def)
  show "last p \<noteq> CHR ''/''"
  proof
    assume "last p = CHR ''/''"
    then obtain q where "p = q @ CHR ''/'' # ''''" using ne by (metis append_butlast_last_id)
    then have "Split (CHR ''/'') p = Split (CHR ''/'') q @ ['''']" using Split_concat[of "CHR ''/''" q "''''"] by simp
    with assms show False by (simp add: plain_segment_def)
  qed
qed

lemma dropWhile_keeps: "xs \<noteq> [] \<Longrightarrow> hd xs \<noteq> c \<Longrightarrow> dropWhile (\<lambda>x. x = c) xs = xs"
  by (cases xs) auto

lemma trimSlashes_plain: "plainPath p \<Longrightarrow> trimSlashes p = p"
  using plainPath_ends[of p] dropWhile_keeps[of p] dropWhile_keeps[of "rev p"] by (simp add: trimSlashes_def hd_rev)

text \<open>A plain path with the prefix of a directory lies below that directory, segment by segment.\<close>

lemma hasPathPrefix_below:
  assumes "plainPath p" "Clean p = p" "hasPathPrefix p dir"
  shows "prefix (Split (CHR ''/'') (trimSlashes (Clean dir))) (Split (CHR ''/'') p)"
proof -
  let ?d = "trimSlashes (Clean dir)"
  have "p = ?d \<or> HasPrefix p (?d @ ''/'')" using assms by (simp add: hasPathPrefix_def trimSlashes_plain Let_def)
  then show ?thesis
  proof
    assume "HasPrefix p (?d @ ''/'')"
    then obtain rest where "p = ?d @ CHR ''/'' # rest" unfolding HasPrefix_def by (metis append.assoc append_Cons append_Nil append_take_drop_id)
    then have "Split (CHR ''/'') p = Split (CHR ''/'') ?d @ Split (CHR ''/'') rest" by (simp only: Split_concat)
    then show ?thesis by simp
  qed simp
qed

text \<open>The directories a phase may write below.\<close>

definition phaseDirs :: "Binding \<Rightarrow> WorkspacePhase \<Rightarrow> string list" where
  "phaseDirs b phase = (if phase = PhasePlan then [''plan''] else if phase = PhaseVerify then [''evidence'']
     else if phase = PhaseExecute then wb_AllowedDirs b else [])"

lemma phaseAllows_dirs: "phaseAllows b phase clean \<Longrightarrow> \<exists>dir \<in> set (phaseDirs b phase). hasPathPrefix clean dir"
  by (auto simp: phaseAllows_def phaseDirs_def list_ex_iff split: if_splits)

lemma ResolveWritePath_below:
  assumes "ResolveWritePath fs b phase path = Inr full" "wb_Root b \<noteq> ''''"
  shows "\<exists>dir rest. dir \<in> set (phaseDirs b phase) \<and> list_all plain_segment rest \<and> pathSegments full = pathSegments (wb_Root b) @ rest
     \<and> prefix (Split (CHR ''/'') (trimSlashes (Clean dir))) rest"
    and "wb_Status b \<noteq> StatusSealed" and "ensureNoSymlinkEscape fs (wb_Root b) full = None"
proof -
  obtain clean where clean: "cleanRelativePath path = Inr clean" and allow: "phaseAllows b phase clean"
    and full: "full = pathJoin [wb_Root b, clean]" "ensureNoSymlinkEscape fs (wb_Root b) full = None" and st: "wb_Status b \<noteq> StatusSealed"
    using assms(1) by (auto simp: ResolveWritePath_def check_simps Let_def split: if_splits)
  note plain = cleanRelativePath_plain[OF clean]
  obtain dir where "dir \<in> set (phaseDirs b phase)" "hasPathPrefix clean dir" using phaseAllows_dirs[OF allow] by blast
  with pathJoin_segments(1)[OF assms(2) plain(2,1)] plain hasPathPrefix_below[OF plain(1,3)] full(1)
  show "\<exists>dir rest. dir \<in> set (phaseDirs b phase) \<and> list_all plain_segment rest \<and> pathSegments full = pathSegments (wb_Root b) @ rest
     \<and> prefix (Split (CHR ''/'') (trimSlashes (Clean dir))) rest" by blast
  show "wb_Status b \<noteq> StatusSealed" by (rule st)
  show "ensureNoSymlinkEscape fs (wb_Root b) full = None" by (rule full(2))
qed

lemma withInvocation_active:
  assumes "workspace_inv s" "withInvocation ctx s invocationID = Inr b"
  shows "mget (bs_bindings s) (wb_ID b) = Some b" "wb_ActiveInvocation b = invocationID"
proof -
  have "List.find (\<lambda>b. wb_ActiveInvocation b = invocationID) (mvalues (bs_bindings s)) = Some b"
    using assms(2) by (auto simp: withInvocation_def GetByInvocation_def check_simps split: option.splits if_splits)
  then have "b \<in> set (mvalues (bs_bindings s))" "wb_ActiveInvocation b = invocationID" by (auto simp: find_Some_iff)
  then show "mget (bs_bindings s) (wb_ID b) = Some b" "wb_ActiveInvocation b = invocationID"
    using assms(1) by (auto simp: workspace_inv_def mvalues_iff)
qed

text \<open>
  C38. A file that an agent's write tool replaces lies in the workspace that its invocation holds, in its active
  phase: its path is below the workspace's root by plain segments only and below a directory of the phase, and the
  workspace is not sealed. Where the path leads on the disk is shown under conditions: no link's destination
  passes through another link before its end (\<open>direct_links\<close>), no link is on the way to the root, \<open>filepath.Abs\<close>
  answers clean absolute paths and nothing is below what does not exist (\<open>disk_laws\<close>). Then the path and every
  directory on its way from the root on lead to a place below the root, with links followed as the
  kernel does. Without the first condition this is false (\<open>nested_link_escapes\<close>).
\<close>

theorem agent_write_confined:
  assumes "workspace_reachable git s" "writeTarget fs ctx s invocationID phase path content = Inr full"
  shows "\<exists>b. mget (bs_bindings s) (wb_ID b) = Some b \<and> wb_ActiveInvocation b = invocationID \<and> wb_ActivePhase b = phase \<and> wb_Status b \<noteq> StatusSealed
     \<and> (\<exists>dir rest. dir \<in> set (phaseDirs b phase) \<and> list_all plain_segment rest \<and> pathSegments full = pathSegments (wb_Root b) @ rest
          \<and> prefix (Split (CHR ''/'') (trimSlashes (Clean dir))) rest)
     \<and> (\<forall>root target segs n q. disk_laws fs \<and> direct_links fs \<and> fs_Abs fs (wb_Root b) = Inr root \<and> realDir fs (pathSegments root)
          \<and> fs_Abs fs full = Inr target \<and> prefix (pathSegments root) segs \<and> prefix segs (pathSegments target) \<and> leadsTo fs n [] segs = Some q \<longrightarrow>
          prefix (pathSegments root) q)"
proof -
  note inv = workspace_reachable_inv[OF assms(1)]
  obtain b where b: "withInvocation ctx s invocationID = Inr b" "wb_ActivePhase b = phase" and full: "ResolveWritePath fs b phase path = Inr full"
    using assms(2) by (auto simp: writeTarget_def check_simps)
  note at = withInvocation_active[OF inv b(1)]
  have root: "wb_Root b \<noteq> ''''" using workspace_inv_binding[OF inv at(1)] by (simp add: binding_ok_def)
  note below = ResolveWritePath_below[OF full root]
  have "prefix (pathSegments root) q" if "disk_laws fs" "direct_links fs" "fs_Abs fs (wb_Root b) = Inr root" "realDir fs (pathSegments root)"
      "fs_Abs fs full = Inr target" "prefix (pathSegments root) segs" "prefix segs (pathSegments target)" "leadsTo fs n [] segs = Some q"
    for root target segs n q
    by (rule ensureNoSymlinkEscape_leads[OF that(1,2) below(3) that(3,5,4,7,6,8)])
  with at b(2) below(1,2) show ?thesis by blast
qed

text \<open>A disk on which \<open>plan/l\<close> of the example workspace is a link to \<open>plan/notes\<close>.\<close>

definition linked_disk :: FileSystem where
  "linked_disk = \<lparr>fs_Abs = (\<lambda>p. Inr (Clean (if IsAbs p then p else ''/'' @ p))), fs_EvalSymlinks = Inr, fs_IsDir = (\<lambda>_. True),
     fs_Lstat = (\<lambda>p. if p = ''/w/ws_t_74_001/plan/l'' then IsLink else NoLink), fs_Readlink = (\<lambda>_. Inr ''notes'')\<rparr>"

lemma linked_disk_laws: "disk_laws linked_disk"
proof -
  have "IsAbs (if IsAbs p then p else ''/'' @ p)" for p by (simp add: IsAbs_def HasPrefix_def)
  then show ?thesis by (simp add: disk_laws_def linked_disk_def IsAbs_Clean Clean_Clean del: append_Cons)
qed

lemma linked_disk_direct: "direct_links linked_disk"
proof -
  have reads: "fs_Readlink linked_disk p = Inr ''notes''" for p by (simp add: linked_disk_def)
  have link: "Split (CHR ''/'') ''notes'' = [''notes'']" "\<not> IsAbs ''notes''" by code_simp+
  have free: "fs_Lstat linked_disk (place (cleanSegments True (rev here) passed)) \<noteq> IsLink"
    if "realDir linked_disk here" "[''notes''] = passed @ rest" "rest \<noteq> []" for here passed rest
    using that realDir_not_link[OF that(1)] by (cases passed) auto
  show ?thesis
    unfolding direct_links_def
  proof (intro allI impI, elim conjE)
    fix here s dest passed rest
    assume here: "realDir linked_disk here" and "fs_Readlink linked_disk (place (here @ [s])) = Inr dest"
      and split: "Split (CHR ''/'') dest = passed @ rest" "rest \<noteq> []"
    then have "dest = ''notes''" by (simp add: reads)
    with free[OF here _ split(2)] split(1) link
    show "fs_Lstat linked_disk (place (cleanSegments True (rev (if IsAbs dest then [] else here)) passed)) \<noteq> IsLink" by simp
  qed
qed

theorem agent_write_confined_witness:
  "writeTarget linked_disk None example_planning ''inv1'' PhasePlan ''plan/l/a.md'' ''text'' = Inr ''/w/ws_t_74_001/plan/l/a.md''
   \<and> (\<exists>q. leadsTo linked_disk 8 [] (pathSegments ''/w/ws_t_74_001/plan/l/a.md'') = Some q \<and> q = [''w'', ''ws_t_74_001'', ''plan'', ''notes'', ''a.md'']
        \<and> prefix (pathSegments ''/w/ws_t_74_001'') q)"
proof -
  have full: "writeTarget linked_disk None example_planning ''inv1'' PhasePlan ''plan/l/a.md'' ''text'' = Inr ''/w/ws_t_74_001/plan/l/a.md''"
    by code_simp
  have q: "leadsTo linked_disk 8 [] (pathSegments ''/w/ws_t_74_001/plan/l/a.md'') = Some [''w'', ''ws_t_74_001'', ''plan'', ''notes'', ''a.md'']"
    by code_simp
  have "list_all (\<lambda>(k, b). wb_Root b = ''/w/ws_t_74_001'') (bs_bindings example_planning)" by code_simp
  then have only: "wb_Root b = ''/w/ws_t_74_001''" if "mget (bs_bindings example_planning) k = Some b" for k b
    using mget_some_entry[OF that] by (auto simp: list_all_iff)
  have abs: "fs_Abs linked_disk ''/w/ws_t_74_001'' = Inr ''/w/ws_t_74_001''"
    "fs_Abs linked_disk ''/w/ws_t_74_001/plan/l/a.md'' = Inr ''/w/ws_t_74_001/plan/l/a.md''" by code_simp+
  have "list_all plain_segment (pathSegments ''/w/ws_t_74_001'')
      \<and> list_all (\<lambda>xs. fs_Lstat linked_disk (place xs) \<noteq> IsLink) (prefixes (pathSegments ''/w/ws_t_74_001''))" by code_simp
  then have root: "realDir linked_disk (pathSegments ''/w/ws_t_74_001'')" by (simp add: realDir_def list_all_iff)
  have below: "prefix (pathSegments ''/w/ws_t_74_001'') (pathSegments ''/w/ws_t_74_001/plan/l/a.md'')" by code_simp
  from agent_write_confined[OF example_planning_reachable full] only abs root below q linked_disk_laws linked_disk_direct full
  show ?thesis by (metis prefix_order.refl)
qed

end
