(* ===== verification/Context_Types.thy ===== *)
theory Context_Types
  imports Auth Go_Strings
begin

text \<open>
  \<open>internal/contextgraph\<close>: the data of \<open>model.go\<close>, the state of the in-memory store (\<open>store.go\<close>), the visibility
  rules of \<open>permissions.go\<close> and the small helpers the operations share. A Go map with string keys is a
  \<open>gomap\<close>; a loop over it runs in the order of the model's list, which Go leaves open. The JSON payload of an outbox event
  is the value that is encoded. An \<open>int64\<close> revision is kept by its bits, as the code converts it to a \<open>Revision\<close>.
\<close>

section \<open>Data\<close>

type_synonym NodeKind = string
abbreviation NodeKindDirective :: NodeKind where "NodeKindDirective \<equiv> ''directive''"
abbreviation NodeKindFact :: NodeKind where "NodeKindFact \<equiv> ''fact''"
abbreviation NodeKindHypothesis :: NodeKind where "NodeKindHypothesis \<equiv> ''hypothesis''"

type_synonym NodeStatus = string
abbreviation NodeStatusAccepted :: NodeStatus where "NodeStatusAccepted \<equiv> ''accepted''"
abbreviation NodeStatusDisputed :: NodeStatus where "NodeStatusDisputed \<equiv> ''disputed''"
abbreviation NodeStatusSuperseded :: NodeStatus where "NodeStatusSuperseded \<equiv> ''superseded''"
abbreviation NodeStatusOutdated :: NodeStatus where "NodeStatusOutdated \<equiv> ''outdated''"

type_synonym SubgraphKind = string
abbreviation SubgraphKindGeneral :: SubgraphKind where "SubgraphKindGeneral \<equiv> ''general''"
abbreviation SubgraphKindTask :: SubgraphKind where "SubgraphKindTask \<equiv> ''task''"

abbreviation EdgeKindLogicalAdjacent :: string where "EdgeKindLogicalAdjacent \<equiv> ''logical_adjacent''"
abbreviation EdgeKindDerivesFromSubgraph :: string where "EdgeKindDerivesFromSubgraph \<equiv> ''derives_from_subgraph''"

record ContextNode =
  nd_ID :: string
  nd_Kind :: NodeKind
  nd_Statement :: string
  nd_Status :: NodeStatus
  nd_SubgraphIDs :: "string list"
  nd_SourceRefs :: "string list"
  nd_CreatorAgentID :: string

record NodeCreationContext =
  nc_CreatorAgentID :: string
  nc_PreviousNodeID :: string
  nc_SubscribedSubgraphIDs :: "string list"

record MemoryCandidate =
  mm_Statement :: string
  mm_Kind :: NodeKind
  mm_SourceRefs :: "string list"
  mm_SubgraphIDs :: "string list"

record CandidateBufferRecord =
  cb_CandidateID :: string
  cb_TaskID :: TaskID
  cb_Candidate :: MemoryCandidate
  cb_CreationContext :: NodeCreationContext
  cb_CreatedByInvocationID :: InvocationID
  cb_CreatedAt :: int

record ContextEdge =
  ce_FromRef :: string
  ce_ToNodeID :: string
  ce_Kind :: string

record ContextSubgraph =
  sg_ID :: string
  sg_Name :: string
  sg_Summary :: string
  sg_Revision :: Revision
  sg_Kind :: SubgraphKind

record NodeRecord =
  nr_Node :: ContextNode
  nr_Revision :: Revision
  nr_ProjectID :: ProjectID
  nr_CreatedAt :: int
  nr_Sequence :: "64 word"

record SubgraphRecord =
  sgr_Subgraph :: ContextSubgraph
  sgr_ProjectID :: ProjectID
  sgr_TaskID :: TaskID
  sgr_CreatedAt :: int
  sgr_UpdatedAt :: int

record AuditEvent =
  au_ID :: string
  au_ProjectID :: ProjectID
  au_ActorID :: ActorPrincipalID
  au_Action :: string
  au_SubjectID :: string
  au_CreatedAt :: int

record CreateNodeInput =
  ci_Node :: ContextNode
  ci_CreationContext :: NodeCreationContext

record CreateNodesRequest =
  cn_ExpectedGraphRevision :: Revision
  cn_Nodes :: "CreateNodeInput list"

record SubscribeRequest =
  sq_SubgraphIDs :: "string list"
  sq_EventKinds :: "string list"

record ContextSubscription =
  cs_ID :: string
  cs_ConsumerInvocationID :: InvocationID
  cs_SubgraphIDs :: "string list"
  cs_EventKinds :: "string list"
  cs_PermissionSnapshot :: string

record ContextSubscriptionRecord =
  csr_Subscription :: ContextSubscription
  csr_ProjectID :: ProjectID
  csr_TaskID :: TaskID
  csr_Role :: Role
  csr_Source :: string
  csr_Active :: bool
  csr_CanceledAt :: "int option"
  csr_ExpiredAt :: "int option"
  csr_CreatedAt :: int

record ContextDelta =
  cd_ID :: string
  cd_ProjectID :: ProjectID
  cd_SubscriptionID :: string
  cd_InvocationID :: InvocationID
  cd_EventID :: string
  cd_EventKind :: string
  cd_SubgraphIDs :: "string list"
  cd_GraphRevision :: Revision

record ContextSlice =
  sl_Nodes :: "ContextNode list"
  sl_SubscriptionIDs :: "string list"
  sl_GraphRevision :: Revision

record ContextSliceDelta =
  sd_Nodes :: "ContextNode list"
  sd_Frontier :: "string list"
  sd_GraphRevision :: Revision

datatype ContextEndpointRef = EndpointRef (ref_TaskID: TaskID) (ref_EndpointID: EndpointID)

record TaskContextSubgraphBinding =
  tb_TaskID :: TaskID
  tb_SubgraphID :: string

record TaskContextRecipient =
  tc_TaskID :: TaskID
  tc_EndpointRefs :: "ContextEndpointRef list"

record TaskContextProjection =
  tp_ProjectionID :: string
  tp_SourceRevision :: string
  tp_Statement :: string
  tp_Kind :: NodeKind
  tp_SourceRefs :: "string list"
  tp_SubgraphIDs :: "string list"
  tp_Recipients :: "TaskContextRecipient list"

record CandidateReviewDecision =
  rd_CandidateID :: string
  rd_Action :: string
  rd_Statement :: string
  rd_Kind :: NodeKind
  rd_SubgraphIDs :: "string list"
  rd_TargetNodeID :: string
  rd_Reason :: string

record TaskMemoryReviewReceipt =
  rr_TaskID :: TaskID
  rr_ReviewedIDs :: "string list"
  rr_NodeIDs :: "string list"
  rr_RejectedIDs :: "string list"

type_synonym TaskMemoryReviewState = string
abbreviation TaskMemoryOpen :: TaskMemoryReviewState where "TaskMemoryOpen \<equiv> ''open''"
abbreviation TaskMemoryFrozenUnreviewed :: TaskMemoryReviewState where "TaskMemoryFrozenUnreviewed \<equiv> ''frozen-unreviewed''"
abbreviation TaskMemoryReviewed :: TaskMemoryReviewState where "TaskMemoryReviewed \<equiv> ''reviewed''"

record CreateGeneralNodeRequest =
  cg_Statement :: string
  cg_Kind :: NodeKind
  cg_SourceRefs :: "string list"
  cg_SubgraphIDs :: "string list"

record UpdateGeneralNodeRequest =
  un_NodeID :: string
  un_SourceRevision :: string
  un_Statement :: string
  un_Kind :: NodeKind
  un_SourceRefs :: "string list"
  un_SubgraphIDs :: "string list"
  un_Status :: NodeStatus

record DeleteGeneralNodeRequest =
  dn_NodeID :: string
  dn_SourceRevision :: string
  dn_Reason :: string

record CreateGeneralSubgraphRequest =
  cq_Name :: string
  cq_Summary :: string
  cq_NodeIDs :: "string list"

record UpdateGeneralSubgraphRequest =
  uq_SubgraphID :: string
  uq_Revision :: Revision
  uq_Name :: string
  uq_Summary :: string
  uq_NodeIDs :: "string list"

record DeleteGeneralSubgraphRequest =
  dq_SubgraphID :: string
  dq_Revision :: Revision
  dq_Reason :: string

datatype ContextPayload = PayloadNode ContextNode | PayloadSubgraph ContextSubgraph | PayloadNodeDeletion DeleteGeneralNodeRequest
  | PayloadSubgraphDeletion DeleteGeneralSubgraphRequest | PayloadDecision CandidateReviewDecision

record OutboxEvent =
  ox_ID :: string
  ox_Topic :: string
  ox_Key :: string
  ox_Payload :: ContextPayload
  ox_CreatedAt :: int

text \<open>The scope keys of the maps are pairs: project and task, project and invocation, project and projection.\<close>

record ContextStore =
  cx_graphRevision :: Revision
  cx_nextSeq :: "64 word"
  cx_nodes :: "(string, NodeRecord) gomap"
  cx_subgraphs :: "(string, SubgraphRecord) gomap"
  cx_edges :: "(string, ContextEdge) gomap"
  cx_subscriptions :: "(string, ContextSubscriptionRecord) gomap"
  cx_initialSlices :: "(ProjectID \<times> InvocationID, ContextSlice) gomap"
  cx_deltas :: "(string, ContextDelta) gomap"
  cx_deltaAck :: "(string, bool) gomap"
  cx_taskBindings :: "(ProjectID \<times> TaskID, TaskContextSubgraphBinding) gomap"
  cx_projections :: "(ProjectID \<times> string, string) gomap"
  cx_recipients :: "(string, TaskContextRecipient list) gomap"
  cx_candidates :: "(ProjectID \<times> TaskID, CandidateBufferRecord list) gomap"
  cx_taskMemory :: "(ProjectID \<times> TaskID, TaskMemoryReviewState) gomap"
  cx_reviewReceipts :: "(ProjectID \<times> TaskID, TaskMemoryReviewReceipt) gomap"
  cx_audit :: "AuditEvent list"
  cx_outbox :: "OutboxEvent list"
  cx_failNext :: string

definition NewContextStore :: ContextStore where
  "NewContextStore = \<lparr>cx_graphRevision = 1, cx_nextSeq = 0, cx_nodes = [], cx_subgraphs = [], cx_edges = [], cx_subscriptions = [],
     cx_initialSlices = [], cx_deltas = [], cx_deltaAck = [], cx_taskBindings = [], cx_projections = [], cx_recipients = [],
     cx_candidates = [], cx_taskMemory = [], cx_reviewReceipts = [], cx_audit = [], cx_outbox = [], cx_failNext = ''''\<rparr>"

abbreviation FaultAudit :: string where "FaultAudit \<equiv> ''audit''"
abbreviation FaultOutbox :: string where "FaultOutbox \<equiv> ''outbox''"
abbreviation FaultEdge :: string where "FaultEdge \<equiv> ''edge''"

definition SetNextFault :: "ContextStore \<Rightarrow> string \<Rightarrow> ContextStore" where
  "SetNextFault s fault = s\<lparr>cx_failNext := fault\<rparr>"

abbreviation notFound :: "string \<Rightarrow> goerr" where
  "notFound msg \<equiv> kerr CodeNotFound msg False"

section \<open>Helpers\<close>

definition uniqueStrings :: "string list \<Rightarrow> string list" where
  "uniqueStrings values = sort (dedupe [] (filter (\<lambda>v. v \<noteq> '''') values))"

definition intersects :: "string list \<Rightarrow> string list \<Rightarrow> bool" where
  "intersects a b \<longleftrightarrow> list_ex (\<lambda>left. left \<in> set b) a"

definition removeString :: "string list \<Rightarrow> string \<Rightarrow> string list" where
  "removeString values remove = filter (\<lambda>v. v \<noteq> remove) values"

text \<open>The sorted members of a set that is a Go map.\<close>

definition sortedStringSet :: "string list \<Rightarrow> string list" where
  "sortedStringSet values = sort (dedupe [] values)"

definition unionStringSlices :: "string list \<Rightarrow> string list \<Rightarrow> string list" where
  "unionStringSlices left right = sortedStringSet (filter (\<lambda>v. v \<noteq> '''') (left @ right))"

definition changedSubgraphMemberships :: "string list \<Rightarrow> string list \<Rightarrow> string list" where
  "changedSubgraphMemberships before after =
     sortedStringSet (filter (\<lambda>i. i \<notin> set before) after @ filter (\<lambda>i. i \<notin> set after) before)"

definition normalizeNode :: "ContextNode \<Rightarrow> ContextNode" where
  "normalizeNode node = node\<lparr>nd_SubgraphIDs := uniqueStrings (nd_SubgraphIDs node), nd_SourceRefs := uniqueStrings (nd_SourceRefs node)\<rparr>"

definition contextEdgeKey :: "ContextEdge \<Rightarrow> string" where
  "contextEdgeKey edge = ce_FromRef edge @ [CHR 0x00] @ ce_ToNodeID edge @ [CHR 0x00] @ ce_Kind edge"

definition nodeBefore :: "NodeRecord \<Rightarrow> NodeRecord \<Rightarrow> bool" where
  "nodeBefore a b \<longleftrightarrow> (if nr_Sequence a = nr_Sequence b then nd_ID (nr_Node a) < nd_ID (nr_Node b) else nr_Sequence a < nr_Sequence b)"

definition sortedNodesLocked :: "ContextStore \<Rightarrow> NodeRecord list" where
  "sortedNodesLocked s = sort_by nodeBefore (mvalues (cx_nodes s))"

definition sortedEdgesLocked :: "ContextStore \<Rightarrow> ContextEdge list" where
  "sortedEdgesLocked s = sort_by (\<lambda>a b. contextEdgeKey a < contextEdgeKey b) (mvalues (cx_edges s))"

text \<open>\<open>strconv.ParseUint(v, 10, 64)\<close> and \<open>strconv.ParseInt(v, 10, 64)\<close>; an error is \<open>None\<close>.\<close>

definition allDigits :: "string \<Rightarrow> bool" where
  "allDigits v \<longleftrightarrow> v \<noteq> '''' \<and> list_all (\<lambda>c. 48 \<le> (of_char c :: nat) \<and> (of_char c :: nat) \<le> 57) v"

definition ParseUint64 :: "string \<Rightarrow> nat option" where
  "ParseUint64 v = (if allDigits v \<and> undec v < 2 ^ 64 then Some (undec v) else None)"

definition ParseInt64 :: "string \<Rightarrow> int option" where
  "ParseInt64 v =
     (let neg = HasPrefix v ''-''; digits = (if neg \<or> HasPrefix v ''+'' then drop 1 v else v);
          n = (if neg then - int (undec digits) else int (undec digits))
      in if allDigits digits \<and> is_int64 n then Some n else None)"

definition parseExpectedRevision :: "string \<Rightarrow> goerr + Revision" where
  "parseExpectedRevision v =
     (if v = '''' then Inl (InvalidArgument ''source_revision is required'')
      else case ParseUint64 v of
        None \<Rightarrow> Inl (InvalidArgument ''source_revision must be a positive integer'')
      | Some n \<Rightarrow> if n = 0 then Inl (InvalidArgument ''source_revision must be a positive integer'') else Inr (of_nat n))"

text \<open>\<open>strings.Cut(ref, ":")\<close> and the anchors of a search; an empty reference is no anchor.\<close>

definition parseAnchorRef :: "string \<Rightarrow> goerr + string \<times> string" where
  "parseAnchorRef ref =
     (if ref = '''' then Inr ('''', '''')
      else
        let kind = takeWhile (\<lambda>c. c \<noteq> CHR '':'') ref; i = drop (length kind + 1) ref;
            bad = Inl (InvalidArgument ''anchor_ref must be node:<id> or subgraph:<id>'') in
        if CHR '':'' \<notin> set ref \<or> i = '''' then bad
        else if kind = ''node'' \<or> kind = ''subgraph'' then Inr (kind, i) else bad)"

section \<open>Permissions\<close>

definition contextRequireTool :: "Principal \<Rightarrow> Tool \<Rightarrow> ProjectID \<Rightarrow> goerr option" where
  "contextRequireTool prin tool projectID =
     (case RequireTool prin tool \<lparr>sc_ProjectID = projectID, sc_TaskID = '''', sc_InvocationID = ''''\<rparr> of Inl e \<Rightarrow> Some e | Inr _ \<Rightarrow> None)"

definition requireContextAgent :: "Principal \<Rightarrow> Tool \<Rightarrow> ProjectID \<Rightarrow> goerr option" where
  "requireContextAgent prin tool projectID = first_err
     [fail_if (pr_Role prin \<noteq> RoleContext) (Forbidden ''context graph mutation requires Context Agent''),
      contextRequireTool prin tool projectID]"

definition canSeeSubgraph :: "Principal \<Rightarrow> SubgraphRecord \<Rightarrow> bool" where
  "canSeeSubgraph prin subgraph \<longleftrightarrow> pr_ProjectID prin = sgr_ProjectID subgraph
     \<and> (sg_Kind (sgr_Subgraph subgraph) = SubgraphKindGeneral \<or> (pr_TaskID prin \<noteq> '''' \<and> sgr_TaskID subgraph = pr_TaskID prin))"

definition seenIn :: "Principal \<Rightarrow> (string, SubgraphRecord) gomap \<Rightarrow> string \<Rightarrow> bool" where
  "seenIn prin subgraphs i \<longleftrightarrow> (case mget subgraphs i of None \<Rightarrow> False | Some subgraph \<Rightarrow> canSeeSubgraph prin subgraph)"

definition canSeeNode :: "Principal \<Rightarrow> (string, SubgraphRecord) gomap \<Rightarrow> NodeRecord \<Rightarrow> bool" where
  "canSeeNode prin subgraphs record \<longleftrightarrow> pr_ProjectID prin = nr_ProjectID record
     \<and> (nd_SubgraphIDs (nr_Node record) = [] \<or> list_ex (seenIn prin subgraphs) (nd_SubgraphIDs (nr_Node record)))"

definition validateNodeKind :: "string \<Rightarrow> goerr option" where
  "validateNodeKind kind = fail_if (kind \<notin> set [NodeKindDirective, NodeKindFact, NodeKindHypothesis])
     (InvalidArgument ''node kind must be directive, fact, or hypothesis'')"

definition validateNodeStatus :: "string \<Rightarrow> goerr option" where
  "validateNodeStatus status = fail_if (status \<notin> set [NodeStatusAccepted, NodeStatusDisputed, NodeStatusSuperseded, NodeStatusOutdated])
     (InvalidArgument ''node status must be accepted, disputed, superseded, or outdated'')"

definition visibleNode :: "Principal \<Rightarrow> (string, SubgraphRecord) gomap \<Rightarrow> ContextNode \<Rightarrow> ContextNode" where
  "visibleNode prin subgraphs node = node\<lparr>nd_SubgraphIDs := filter (seenIn prin subgraphs) (nd_SubgraphIDs node)\<rparr>"

definition generalSubgraph :: "ProjectID \<Rightarrow> (string, SubgraphRecord) gomap \<Rightarrow> string \<Rightarrow> bool" where
  "generalSubgraph projectID subgraphs i \<longleftrightarrow> (case mget subgraphs i of
     None \<Rightarrow> False | Some subgraph \<Rightarrow> sgr_ProjectID subgraph = projectID \<and> sg_Kind (sgr_Subgraph subgraph) = SubgraphKindGeneral)"

definition generalVisibleNode :: "ProjectID \<Rightarrow> (string, SubgraphRecord) gomap \<Rightarrow> ContextNode \<Rightarrow> ContextNode option" where
  "generalVisibleNode projectID subgraphs node =
     (let ids = filter (generalSubgraph projectID subgraphs) (nd_SubgraphIDs node) in
      if nd_SubgraphIDs node \<noteq> [] \<and> ids = [] then None else Some (node\<lparr>nd_SubgraphIDs := ids\<rparr>))"

definition rejectTaskMembership :: "(string, SubgraphRecord) gomap \<Rightarrow> string list \<Rightarrow> goerr option" where
  "rejectTaskMembership subgraphs ids = fail_if
     (list_ex (\<lambda>i. case mget subgraphs i of None \<Rightarrow> False | Some subgraph \<Rightarrow> sg_Kind (sgr_Subgraph subgraph) = SubgraphKindTask) ids)
     (Forbidden ''Context Agent curator cannot mutate task nodes or task subgraphs'')"

definition validateNewNode :: "Principal \<Rightarrow> (string, SubgraphRecord) gomap \<Rightarrow> ContextNode \<Rightarrow> NodeCreationContext \<Rightarrow> goerr option" where
  "validateNewNode prin subgraphs node creation = first_err
     [fail_if (nd_ID node = '''' \<or> nd_Statement node = '''' \<or> nd_CreatorAgentID node = '''')
        (InvalidArgument ''node id, statement, and creator_agent_id are required''),
      fail_if (nd_CreatorAgentID node \<noteq> nc_CreatorAgentID creation \<and> nc_CreatorAgentID creation \<noteq> '''')
        (Forbidden ''node creator does not match trusted creation context''),
      validateNodeKind (nd_Kind node),
      validateNodeStatus (nd_Status node),
      fail_if (nd_SourceRefs node = []) (InvalidArgument ''source_refs are required''),
      check_all (\<lambda>i. case mget subgraphs i of
          None \<Rightarrow> Some (notFound ''subgraph not found'')
        | Some subgraph \<Rightarrow> first_err
            [fail_if (\<not> canSeeSubgraph prin subgraph) (Forbidden ''subgraph is not visible to principal''),
             fail_if (sg_Kind (sgr_Subgraph subgraph) \<noteq> SubgraphKindGeneral) (Forbidden ''Context Agent cannot write task subgraphs'')])
        (nd_SubgraphIDs node)]"

definition validateGeneralNode :: "Principal \<Rightarrow> (string, SubgraphRecord) gomap \<Rightarrow> ContextNode \<Rightarrow> NodeCreationContext \<Rightarrow> goerr option" where
  "validateGeneralNode prin subgraphs node creation = first_err
     [validateNewNode prin subgraphs node creation, rejectTaskMembership subgraphs (nd_SubgraphIDs node)]"

end
