(* ===== verification/Context_Graph.thy ===== *)
theory Context_Graph
  imports Context_Types
begin

text \<open>
  The general part of the context graph (\<open>store.go\<close>): nodes, subgraphs and edges, exploration and search, with the
  subscriptions (\<open>subscription.go\<close>) and the deltas their holders are told (\<open>delta_dispatcher.go\<close>). An operation
  works on a clone of the state and replaces the state at the end, so that an error leaves it as it was: the
  mutations return an error or the new state. The clock is an argument.
\<close>

section \<open>Audit and outbox\<close>

definition auditOf :: "ContextStore \<Rightarrow> int \<Rightarrow> Principal \<Rightarrow> string \<Rightarrow> string \<Rightarrow> AuditEvent" where
  "auditOf w now prin action subject =
     \<lparr>au_ID = ''audit-'' @ dec (length (cx_audit w) + 1), au_ProjectID = pr_ProjectID prin, au_ActorID = pr_ActorPrincipalID prin,
      au_Action = action, au_SubjectID = subject, au_CreatedAt = now\<rparr>"

definition appendContextAudit :: "ContextStore \<Rightarrow> AuditEvent \<Rightarrow> goerr + ContextStore" where
  "appendContextAudit w event =
     (if cx_failNext w = FaultAudit then Inl (Plain ''injected audit failure'') else Inr (w\<lparr>cx_audit := cx_audit w @ [event]\<rparr>))"

definition appendContextOutbox :: "ContextStore \<Rightarrow> OutboxEvent \<Rightarrow> goerr + ContextStore" where
  "appendContextOutbox w event =
     (if cx_failNext w = FaultOutbox then Inl (Plain ''injected outbox failure'') else Inr (w\<lparr>cx_outbox := cx_outbox w @ [event]\<rparr>))"

definition appendMutationEvents ::
  "ContextStore \<Rightarrow> int \<Rightarrow> Principal \<Rightarrow> string \<Rightarrow> string \<Rightarrow> string \<Rightarrow> ContextPayload \<Rightarrow> goerr + ContextStore" where
  "appendMutationEvents w now prin auditAction outboxTopic subject payload =
     and_then (appendContextAudit w (auditOf w now prin auditAction subject))
       (\<lambda>w1. appendContextOutbox w1 \<lparr>ox_ID = ''outbox-'' @ dec (length (cx_outbox w1) + 1), ox_Topic = outboxTopic, ox_Key = subject,
          ox_Payload = payload, ox_CreatedAt = now\<rparr>)"

definition lastOutboxID :: "ContextStore \<Rightarrow> string" where
  "lastOutboxID w = (if cx_outbox w = [] then '''' else ox_ID (last (cx_outbox w)))"

section \<open>Deltas\<close>

definition recordMatchesDelta :: "ContextSubscription \<Rightarrow> string \<Rightarrow> string list \<Rightarrow> bool" where
  "recordMatchesDelta subscription eventKind subgraphIDs \<longleftrightarrow>
     (cs_EventKinds subscription = [] \<or> eventKind \<in> set (cs_EventKinds subscription)) \<and> intersects (cs_SubgraphIDs subscription) subgraphIDs"

definition canSubscriptionSeeSubgraph :: "ContextSubscriptionRecord \<Rightarrow> SubgraphRecord \<Rightarrow> bool" where
  "canSubscriptionSeeSubgraph subscription subgraph \<longleftrightarrow> csr_ProjectID subscription = sgr_ProjectID subgraph
     \<and> (sg_Kind (sgr_Subgraph subgraph) = SubgraphKindGeneral \<or> (csr_TaskID subscription \<noteq> '''' \<and> sgr_TaskID subgraph = csr_TaskID subscription))"

definition visibleDeltaSubgraphs :: "ContextSubscriptionRecord \<Rightarrow> (string, SubgraphRecord) gomap \<Rightarrow> string list \<Rightarrow> string list" where
  "visibleDeltaSubgraphs record subgraphs changed = filter (\<lambda>i. i \<in> set (cs_SubgraphIDs (csr_Subscription record))
     \<and> (case mget subgraphs i of None \<Rightarrow> False | Some subgraph \<Rightarrow> canSubscriptionSeeSubgraph record subgraph)) (uniqueStrings changed)"

definition deltaWanted :: "ContextStore \<Rightarrow> Principal \<Rightarrow> string \<Rightarrow> string list \<Rightarrow> ContextSubscriptionRecord \<Rightarrow> bool" where
  "deltaWanted w prin eventKind subgraphIDs record \<longleftrightarrow> csr_ProjectID record = pr_ProjectID prin \<and> csr_Active record
     \<and> recordMatchesDelta (csr_Subscription record) eventKind subgraphIDs \<and> visibleDeltaSubgraphs record (cx_subgraphs w) subgraphIDs \<noteq> []"

definition newDelta :: "ContextStore \<Rightarrow> Principal \<Rightarrow> string \<Rightarrow> string \<Rightarrow> string list \<Rightarrow> ContextSubscriptionRecord \<Rightarrow> ContextDelta" where
  "newDelta w prin eventID eventKind subgraphIDs record =
     \<lparr>cd_ID = ''delta-'' @ dec (length (cx_deltas w) + 1), cd_ProjectID = pr_ProjectID prin, cd_SubscriptionID = cs_ID (csr_Subscription record),
      cd_InvocationID = cs_ConsumerInvocationID (csr_Subscription record), cd_EventID = eventID, cd_EventKind = eventKind,
      cd_SubgraphIDs = visibleDeltaSubgraphs record (cx_subgraphs w) subgraphIDs, cd_GraphRevision = cx_graphRevision w\<rparr>"

text \<open>The loop of \<open>appendContextDeltas\<close> and \<open>RecordContextDelta\<close>, with the deltas it has created.\<close>

fun deltaLoop ::
  "Principal \<Rightarrow> string \<Rightarrow> string \<Rightarrow> string list \<Rightarrow> ContextSubscriptionRecord list \<Rightarrow> ContextStore \<Rightarrow> ContextDelta list \<times> ContextStore" where
  "deltaLoop prin eventID eventKind ids [] w = ([], w)"
| "deltaLoop prin eventID eventKind ids (record # records) w =
     (if deltaWanted w prin eventKind ids record then
        let delta = newDelta w prin eventID eventKind ids record;
            rest = deltaLoop prin eventID eventKind ids records (w\<lparr>cx_deltas := mput (cd_ID delta) delta (cx_deltas w)\<rparr>)
        in (delta # fst rest, snd rest)
      else deltaLoop prin eventID eventKind ids records w)"

definition appendContextDeltas :: "ContextStore \<Rightarrow> Principal \<Rightarrow> string \<Rightarrow> string \<Rightarrow> string list \<Rightarrow> ContextStore" where
  "appendContextDeltas w prin eventID eventKind ids = snd (deltaLoop prin eventID eventKind ids (mvalues (cx_subscriptions w)) w)"

definition RecordContextDelta ::
  "goerr option \<Rightarrow> ContextStore \<Rightarrow> Principal \<Rightarrow> string \<Rightarrow> string \<Rightarrow> string list \<Rightarrow> (goerr + ContextDelta list) \<times> ContextStore" where
  "RecordContextDelta ctx s prin eventID eventKind ids =
     (case first_err [ctx, fail_if (eventID = '''' \<or> eventKind = '''') (InvalidArgument ''event_id and event_kind are required'')] of
        Some e \<Rightarrow> (Inl e, s)
      | None \<Rightarrow>
          (case deltaLoop prin eventID eventKind ids (mvalues (cx_subscriptions s)) s of
             (created, s') \<Rightarrow> (Inr (sort_by (\<lambda>a b. cd_ID a < cd_ID b) created), s')))"

definition deltaPending :: "ContextStore \<Rightarrow> Principal \<Rightarrow> ContextDelta \<Rightarrow> ContextDelta option" where
  "deltaPending s prin delta =
     (if mget (cx_deltaAck s) (cd_ID delta) = Some True \<or> cd_ProjectID delta \<noteq> pr_ProjectID prin
         \<or> cd_InvocationID delta \<noteq> pr_InvocationID prin then None
      else case mget (cx_subscriptions s) (cd_SubscriptionID delta) of
        None \<Rightarrow> None
      | Some record \<Rightarrow>
          if \<not> csr_Active record \<or> csr_ProjectID record \<noteq> pr_ProjectID prin
             \<or> cs_ConsumerInvocationID (csr_Subscription record) \<noteq> pr_InvocationID prin then None
          else
            let visible = visibleDeltaSubgraphs record (cx_subgraphs s) (cd_SubgraphIDs delta) in
            if visible = [] then None else Some (delta\<lparr>cd_SubgraphIDs := visible\<rparr>))"

text \<open>The acknowledgement is looked up under the key of the map, which is the delta's identifier.\<close>

definition PendingDeltas :: "goerr option \<Rightarrow> ContextStore \<Rightarrow> Principal \<Rightarrow> goerr + ContextDelta list" where
  "PendingDeltas ctx s prin =
     checked ctx (Inr (sort_by (\<lambda>a b. cd_ID a < cd_ID b) (List.map_filter (deltaPending s prin) (mvalues (cx_deltas s)))))"

definition AckDelta :: "goerr option \<Rightarrow> ContextStore \<Rightarrow> Principal \<Rightarrow> string \<Rightarrow> goerr option \<times> ContextStore" where
  "AckDelta ctx s prin deltaID =
     (case ctx of
        Some e \<Rightarrow> (Some e, s)
      | None \<Rightarrow>
          (case mget (cx_deltas s) deltaID of
             None \<Rightarrow> (Some (notFound ''delta not found''), s)
           | Some delta \<Rightarrow>
               if cd_ProjectID delta \<noteq> pr_ProjectID prin \<or> cd_InvocationID delta \<noteq> pr_InvocationID prin
               then (Some (notFound ''delta not found''), s)
               else (case mget (cx_subscriptions s) (cd_SubscriptionID delta) of
                  None \<Rightarrow> (Some (notFound ''delta not found''), s)
                | Some record \<Rightarrow>
                    if csr_ProjectID record \<noteq> pr_ProjectID prin \<or> cs_ConsumerInvocationID (csr_Subscription record) \<noteq> cd_InvocationID delta
                    then (Some (notFound ''delta not found''), s)
                    else (None, s\<lparr>cx_deltaAck := mput deltaID True (cx_deltaAck s)\<rparr>))))"

text \<open>The end of a mutation: the revision goes up and the subscribers are told.\<close>

definition commitContext :: "ContextStore \<Rightarrow> Principal \<Rightarrow> string \<Rightarrow> string list \<Rightarrow> ContextStore" where
  "commitContext w prin eventKind ids =
     (let w1 = w\<lparr>cx_graphRevision := cx_graphRevision w + 1\<rparr> in appendContextDeltas w1 prin (lastOutboxID w1) eventKind ids)"

section \<open>Subscriptions\<close>

abbreviation subscriptionSourceExplicit :: string where "subscriptionSourceExplicit \<equiv> ''explicit''"
abbreviation subscriptionSourceInitial :: string where "subscriptionSourceInitial \<equiv> ''initial_slice''"
abbreviation subscriptionSourceSearch :: string where "subscriptionSourceSearch \<equiv> ''search''"

definition subscriptionConsumerInvocationID :: "Principal \<Rightarrow> string \<Rightarrow> goerr + InvocationID" where
  "subscriptionConsumerInvocationID prin source =
     (if source = subscriptionSourceSearch then
        if pr_Role prin \<noteq> RoleContext \<or> pr_Operation prin \<noteq> ''retrieve'' then
          Inl (Forbidden ''search subscription requires context retrieve principal'')
        else if pr_ConsumerInvocationID prin = '''' then
          Inl (InvalidArgument ''search subscription requires trusted consumer invocation'')
        else Inr (pr_ConsumerInvocationID prin)
      else Inr (pr_InvocationID prin))"

definition visibleSubscriptionSubgraphs :: "ContextStore \<Rightarrow> Principal \<Rightarrow> string list \<Rightarrow> goerr + string list" where
  "visibleSubscriptionSubgraphs s prin ids =
     checked (first_err
       [fail_if (ids = []) (InvalidArgument ''subgraph_ids are required''),
        check_all (\<lambda>i. fail_if (\<not> seenIn prin (cx_subgraphs s) i) (notFound ''subgraph not found'')) (uniqueStrings ids)])
     (Inr (uniqueStrings ids))"

text \<open>
  The search for a free identifier: after the first try the loop asks for the same identifier again and again,
  so that it does not return (\<open>None\<close>) when the second is taken as well.
\<close>

definition freshSubscriptionID :: "ContextStore \<Rightarrow> string option" where
  "freshSubscriptionID s =
     (let n = length (cx_subscriptions s); first = ''sub-'' @ dec (n + 1); second = ''sub-'' @ dec (n + 2) in
      if mget (cx_subscriptions s) first = None then Some first
      else if mget (cx_subscriptions s) second = None then Some second else None)"

definition newSubscription :: "Principal \<Rightarrow> SubscribeRequest \<Rightarrow> string \<Rightarrow> InvocationID \<Rightarrow> string list \<Rightarrow> ContextSubscription" where
  "newSubscription prin req i invocationID ids =
     \<lparr>cs_ID = i, cs_ConsumerInvocationID = invocationID, cs_SubgraphIDs = ids, cs_EventKinds = uniqueStrings (sq_EventKinds req),
      cs_PermissionSnapshot = pr_ProjectID prin @ '':'' @ pr_TaskID prin @ '':'' @ pr_Role prin\<rparr>"

definition newSubscriptionRecord :: "int \<Rightarrow> Principal \<Rightarrow> string \<Rightarrow> ContextSubscription \<Rightarrow> ContextSubscriptionRecord" where
  "newSubscriptionRecord now prin source sub =
     \<lparr>csr_Subscription = sub, csr_ProjectID = pr_ProjectID prin,
      csr_TaskID = (if source = subscriptionSourceSearch then pr_ConsumerTaskID prin else pr_TaskID prin),
      csr_Role = (if source = subscriptionSourceSearch then pr_ConsumerRole prin else pr_Role prin),
      csr_Source = source, csr_Active = True, csr_CanceledAt = None, csr_ExpiredAt = None, csr_CreatedAt = now\<rparr>"

text \<open>The outer \<open>None\<close> is a call that does not return.\<close>

definition createSubscription ::
  "int \<Rightarrow> ContextStore \<Rightarrow> Principal \<Rightarrow> SubscribeRequest \<Rightarrow> string \<Rightarrow> ((goerr + ContextSubscription) \<times> ContextStore) option" where
  "createSubscription now s prin req source =
     (case and_then (subscriptionConsumerInvocationID prin source)
         (\<lambda>invocationID. checked (fail_if (invocationID = '''') (InvalidArgument ''consumer invocation is required''))
            (and_then (visibleSubscriptionSubgraphs s prin (sq_SubgraphIDs req)) (\<lambda>ids. Inr (invocationID, ids)))) of
        Inl e \<Rightarrow> Some (Inl e, s)
      | Inr (invocationID, ids) \<Rightarrow>
          (case freshSubscriptionID s of
             None \<Rightarrow> None
           | Some i \<Rightarrow>
               let sub = newSubscription prin req i invocationID ids in
               Some (Inr sub, s\<lparr>cx_subscriptions := mput i (newSubscriptionRecord now prin source sub) (cx_subscriptions s)\<rparr>)))"

definition Subscribe ::
  "goerr option \<Rightarrow> int \<Rightarrow> ContextStore \<Rightarrow> Principal \<Rightarrow> SubscribeRequest \<Rightarrow> ((goerr + ContextSubscription) \<times> ContextStore) option" where
  "Subscribe ctx now s prin req =
     (case first_err [ctx, contextRequireTool prin ToolContextSubscribe (pr_ProjectID prin)] of
        Some e \<Rightarrow> Some (Inl e, s)
      | None \<Rightarrow> createSubscription now s prin req subscriptionSourceExplicit)"

definition Unsubscribe :: "goerr option \<Rightarrow> int \<Rightarrow> ContextStore \<Rightarrow> Principal \<Rightarrow> string \<Rightarrow> goerr option \<times> ContextStore" where
  "Unsubscribe ctx now s prin subscriptionID =
     (case first_err [ctx, contextRequireTool prin ToolContextUnsubscribe (pr_ProjectID prin),
            fail_if (TrimSpace subscriptionID = '''') (InvalidArgument ''subscription_id is required'')] of
        Some e \<Rightarrow> (Some e, s)
      | None \<Rightarrow>
          (case mget (cx_subscriptions s) subscriptionID of
             None \<Rightarrow> (Some (notFound ''subscription_not_found''), s)
           | Some record \<Rightarrow>
               if csr_ProjectID record \<noteq> pr_ProjectID prin \<or> cs_ConsumerInvocationID (csr_Subscription record) \<noteq> pr_InvocationID prin
               then (Some (notFound ''subscription_not_found''), s)
               else if \<not> csr_Active record then (None, s)
               else (None, s\<lparr>cx_subscriptions := mput subscriptionID (record\<lparr>csr_Active := False, csr_CanceledAt := Some now\<rparr>) (cx_subscriptions s),
                              cx_audit := cx_audit s @ [auditOf s now prin ''context.subscription.cancel'' subscriptionID]\<rparr>)))"

definition expireSubscription :: "int \<Rightarrow> Principal \<Rightarrow> InvocationID \<Rightarrow> ContextSubscriptionRecord \<Rightarrow> ContextSubscriptionRecord" where
  "expireSubscription now prin invocationID record =
     (if csr_ProjectID record \<noteq> pr_ProjectID prin \<or> cs_ConsumerInvocationID (csr_Subscription record) \<noteq> invocationID \<or> \<not> csr_Active record
      then record else record\<lparr>csr_Active := False, csr_ExpiredAt := Some now\<rparr>)"

definition EndInvocation :: "goerr option \<Rightarrow> int \<Rightarrow> ContextStore \<Rightarrow> Principal \<Rightarrow> InvocationID \<Rightarrow> goerr option \<times> ContextStore" where
  "EndInvocation ctx now s prin invocationID =
     (case first_err
        [ctx, fail_if (invocationID = '''') (InvalidArgument ''invocation_id is required''),
         fail_if (pr_ProjectID prin = '''' \<or> pr_Kind prin \<noteq> PrincipalAgent) (Forbidden ''invocation expiry requires agent principal''),
         fail_if (invocationID \<noteq> pr_InvocationID prin) (Forbidden ''invocation expiry is limited to the authenticated invocation'')] of
        Some e \<Rightarrow> (Some e, s)
      | None \<Rightarrow> (None, s\<lparr>cx_subscriptions := map (map_prod id (expireSubscription now prin invocationID)) (cx_subscriptions s)\<rparr>))"

record SubscriptionInspection =
  si_ID :: string
  si_ConsumerInvocationID :: InvocationID
  si_Source :: string
  si_SubgraphIDs :: "string list"
  si_EventKinds :: "string list"
  si_Active :: bool

text \<open>The principal's own invocation, or any invocation for an operator.\<close>

definition inspectedInvocation :: "string \<Rightarrow> string \<Rightarrow> Principal \<Rightarrow> InvocationID \<Rightarrow> goerr + InvocationID" where
  "inspectedInvocation noProject what prin invocationID0 =
     (let invocationID = (if invocationID0 = '''' then pr_InvocationID prin else invocationID0) in
      checked (first_err
        [fail_if (pr_ProjectID prin = '''') (Forbidden noProject),
         if pr_Kind prin = PrincipalAgent then
           fail_if (invocationID = '''' \<or> invocationID \<noteq> pr_InvocationID prin) (Forbidden (''agent '' @ what @ '' is limited to the authenticated invocation''))
         else if pr_Kind prin = PrincipalOperator then
           fail_if (pr_Role prin \<noteq> RoleOperator \<or> invocationID = '''') (Forbidden (''operator '' @ what @ '' requires an invocation''))
         else Some (Forbidden (what @ '' requires an authenticated principal''))])
      (Inr invocationID))"

definition InspectSubscriptions :: "goerr option \<Rightarrow> ContextStore \<Rightarrow> Principal \<Rightarrow> InvocationID \<Rightarrow> goerr + SubscriptionInspection list" where
  "InspectSubscriptions ctx s prin invocationID0 = checked ctx
     (and_then (inspectedInvocation ''inspection requires project principal'' ''subscription inspection'' prin invocationID0) (\<lambda>invocationID.
        Inr (sort_by (\<lambda>a b. si_ID a < si_ID b) (map (\<lambda>record.
            \<lparr>si_ID = cs_ID (csr_Subscription record), si_ConsumerInvocationID = cs_ConsumerInvocationID (csr_Subscription record),
             si_Source = csr_Source record, si_SubgraphIDs = cs_SubgraphIDs (csr_Subscription record),
             si_EventKinds = cs_EventKinds (csr_Subscription record), si_Active = csr_Active record\<rparr>)
          (filter (\<lambda>record. csr_ProjectID record = pr_ProjectID prin \<and> cs_ConsumerInvocationID (csr_Subscription record) = invocationID)
             (mvalues (cx_subscriptions s)))))))"

end
