(* ===== verification/Context_Curator.thy ===== *)
theory Context_Curator
  imports Context_Graph
begin

text \<open>
  The operations on nodes and subgraphs (\<open>store.go\<close>): the batch of the reviewer, the curator's create, update and
  delete, and the reading side: listing, exploration and search. \<open>strings.ToLower\<close> of the search is the argument \<open>lower\<close>.
\<close>

section \<open>Shared steps\<close>

definition zeroSubgraphRecord :: SubgraphRecord where
  "zeroSubgraphRecord = \<lparr>sgr_Subgraph = \<lparr>sg_ID = '''', sg_Name = '''', sg_Summary = '''', sg_Revision = 0, sg_Kind = ''''\<rparr>, sgr_ProjectID = '''',
     sgr_TaskID = '''', sgr_CreatedAt = 0, sgr_UpdatedAt = 0\<rparr>"

text \<open>A changed member list bumps the revision of the subgraph.\<close>

definition bumpSubgraph :: "int \<Rightarrow> string \<Rightarrow> ContextStore \<Rightarrow> ContextStore" where
  "bumpSubgraph now i w =
     (let record = (case mget (cx_subgraphs w) i of Some r \<Rightarrow> r | None \<Rightarrow> zeroSubgraphRecord) in
      w\<lparr>cx_subgraphs := mput i (record\<lparr>sgr_Subgraph := (sgr_Subgraph record)\<lparr>sg_Revision := sg_Revision (sgr_Subgraph record) + 1\<rparr>,
         sgr_UpdatedAt := now\<rparr>) (cx_subgraphs w)\<rparr>)"

definition bumpSubgraphs :: "int \<Rightarrow> string list \<Rightarrow> ContextStore \<Rightarrow> ContextStore" where
  "bumpSubgraphs now ids w = fold (bumpSubgraph now) ids w"

definition putNode :: "NodeRecord \<Rightarrow> ContextStore \<Rightarrow> ContextStore" where
  "putNode record w = w\<lparr>cx_nodes := mput (nd_ID (nr_Node record)) record (cx_nodes w)\<rparr>"

definition newNodeRecord :: "int \<Rightarrow> Principal \<Rightarrow> ContextStore \<Rightarrow> ContextNode \<Rightarrow> NodeRecord" where
  "newNodeRecord now prin w node =
     \<lparr>nr_Node = node, nr_Revision = 1, nr_ProjectID = pr_ProjectID prin, nr_CreatedAt = now, nr_Sequence = cx_nextSeq w\<rparr>"

definition addEdge :: "ContextEdge \<Rightarrow> ContextStore \<Rightarrow> goerr + ContextStore" where
  "addEdge edge w =
     (if cx_failNext w = FaultEdge then Inl (Plain ''injected edge failure'')
      else if ce_FromRef edge = '''' \<or> ce_ToNodeID edge = '''' \<or> ce_Kind edge = '''' then Inl (InvalidArgument ''edge fields are required'')
      else Inr (w\<lparr>cx_edges := mput (contextEdgeKey edge) edge (cx_edges w)\<rparr>))"

definition nextSequence :: "ContextStore \<Rightarrow> ContextStore" where
  "nextSequence w = w\<lparr>cx_nextSeq := cx_nextSeq w + 1\<rparr>"

section \<open>The batch of the reviewer\<close>

record CreateNodesResult =
  cnr_GraphRevision :: Revision
  cnr_Nodes :: "ContextNode list"
  cnr_Edges :: "ContextEdge list"
  cnr_AuditEvents :: "AuditEvent list"
  cnr_OutboxEvents :: "OutboxEvent list"

text \<open>The edge from the creator's previous node, when there is one the principal may see.\<close>

definition previousEdge :: "Principal \<Rightarrow> ContextStore \<Rightarrow> NodeCreationContext \<Rightarrow> ContextNode \<Rightarrow> ContextEdge option" where
  "previousEdge prin w creation node =
     (if nc_PreviousNodeID creation = '''' then None
      else case mget (cx_nodes w) (nc_PreviousNodeID creation) of
        None \<Rightarrow> None
      | Some previous \<Rightarrow>
          if nr_ProjectID previous = pr_ProjectID prin \<and> canSeeNode prin (cx_subgraphs w) previous
             \<and> nd_CreatorAgentID (nr_Node previous) = nc_CreatorAgentID creation \<and> nd_Status (nr_Node previous) \<noteq> NodeStatusSuperseded
             \<and> nd_Status (nr_Node previous) \<noteq> NodeStatusOutdated
          then Some \<lparr>ce_FromRef = ''node:'' @ nd_ID (nr_Node previous), ce_ToNodeID = nd_ID node, ce_Kind = EdgeKindLogicalAdjacent\<rparr>
          else None)"

definition derivedEdges :: "Principal \<Rightarrow> ContextStore \<Rightarrow> NodeCreationContext \<Rightarrow> ContextNode \<Rightarrow> ContextEdge list" where
  "derivedEdges prin w creation node =
     map (\<lambda>i. \<lparr>ce_FromRef = ''subgraph:'' @ i, ce_ToNodeID = nd_ID node, ce_Kind = EdgeKindDerivesFromSubgraph\<rparr>)
       (filter (seenIn prin (cx_subgraphs w)) (uniqueStrings (nc_SubscribedSubgraphIDs creation)))"

fun addEdges :: "ContextEdge list \<Rightarrow> ContextStore \<Rightarrow> goerr + ContextStore" where
  "addEdges [] w = Inr w"
| "addEdges (edge # edges) w = and_then (addEdge edge w) (addEdges edges)"

text \<open>One node of the batch: the node, its edges and the new state.\<close>

definition createOne :: "int \<Rightarrow> Principal \<Rightarrow> CreateNodeInput \<Rightarrow> ContextStore \<Rightarrow> goerr + ContextNode \<times> ContextEdge list \<times> ContextStore" where
  "createOne now prin input w =
     (let node = normalizeNode (ci_Node input); creation = ci_CreationContext input in
      checked (first_err
        [validateNewNode prin (cx_subgraphs w) node creation,
         fail_if (mget (cx_nodes w) (nd_ID node) \<noteq> None) (InvalidArgument ''node already exists'')])
      (let w1 = nextSequence w;
           w2 = bumpSubgraphs now (nd_SubgraphIDs node) (putNode (newNodeRecord now prin w1 node) w1);
           edges = (case previousEdge prin w2 creation node of None \<Rightarrow> [] | Some edge \<Rightarrow> [edge]) @ derivedEdges prin w2 creation node
       in and_then (addEdges edges w2) (\<lambda>w3.
            and_then (appendMutationEvents w3 now prin ''context.node.create'' ''context.node.created'' (nd_ID node) (PayloadNode node))
              (\<lambda>w4. Inr (node, edges, w4)))))"

fun createLoop ::
  "int \<Rightarrow> Principal \<Rightarrow> CreateNodeInput list \<Rightarrow> ContextStore \<Rightarrow> goerr + ContextNode list \<times> ContextEdge list \<times> ContextStore" where
  "createLoop now prin [] w = Inr ([], [], w)"
| "createLoop now prin (input # inputs) w =
     and_then (createOne now prin input w) (\<lambda>(node, edges, w1).
       and_then (createLoop now prin inputs w1) (\<lambda>(nodes, edges', w2). Inr (node # nodes, edges @ edges', w2)))"

definition CreateNodes ::
  "goerr option \<Rightarrow> int \<Rightarrow> ContextStore \<Rightarrow> Principal \<Rightarrow> CreateNodesRequest \<Rightarrow> (goerr + CreateNodesResult) \<times> ContextStore" where
  "CreateNodes ctx now s prin req =
     (case checked (first_err [ctx, contextRequireTool prin ToolContextSubmitReview (pr_ProjectID prin),
            CheckExpectedRevision (cn_ExpectedGraphRevision req) (cx_graphRevision s)])
          (createLoop now prin (cn_Nodes req) s) of
        Inl e \<Rightarrow> (Inl e, s)
      | Inr (nodes, edges, w) \<Rightarrow>
          let w' = commitContext w prin ''context.node.created'' (sortedStringSet (concat (map nd_SubgraphIDs nodes))) in
          (Inr \<lparr>cnr_GraphRevision = cx_graphRevision w', cnr_Nodes = nodes, cnr_Edges = edges,
             cnr_AuditEvents = drop (length (cx_audit s)) (cx_audit w'), cnr_OutboxEvents = drop (length (cx_outbox s)) (cx_outbox w')\<rparr>, w'))"

section \<open>The curator\<close>

text \<open>A mutation that fails leaves the state as it was.\<close>

definition committed :: "ContextStore \<Rightarrow> goerr + 'a \<times> ContextStore \<Rightarrow> (goerr + 'a) \<times> ContextStore" where
  "committed s r = (case r of Inl e \<Rightarrow> (Inl e, s) | Inr (a, w) \<Rightarrow> (Inr a, w))"

definition GetSubgraph :: "goerr option \<Rightarrow> ContextStore \<Rightarrow> Principal \<Rightarrow> string \<Rightarrow> goerr + ContextSubgraph" where
  "GetSubgraph ctx s prin i =
     checked (first_err [ctx, requireContextAgent prin ToolContextGetSubgraph (pr_ProjectID prin)])
     (case mget (cx_subgraphs s) i of
        None \<Rightarrow> Inl (notFound ''subgraph not found'')
      | Some record \<Rightarrow> checked (fail_if (\<not> canSeeSubgraph prin record) (notFound ''subgraph not found'')) (Inr (sgr_Subgraph record)))"

definition GetNode :: "goerr option \<Rightarrow> ContextStore \<Rightarrow> Principal \<Rightarrow> string \<Rightarrow> goerr + ContextNode" where
  "GetNode ctx s prin i =
     checked (first_err [ctx, requireContextAgent prin ToolContextGetNode (pr_ProjectID prin)])
     (case mget (cx_nodes s) i of
        None \<Rightarrow> Inl (notFound ''node not found'')
      | Some record \<Rightarrow> checked (fail_if (\<not> canSeeNode prin (cx_subgraphs s) record) (notFound ''node not found''))
          (Inr (visibleNode prin (cx_subgraphs s) (nr_Node record))))"

definition CreateNode :: "goerr option \<Rightarrow> int \<Rightarrow> ContextStore \<Rightarrow> Principal \<Rightarrow> CreateGeneralNodeRequest \<Rightarrow> (goerr + string) \<times> ContextStore" where
  "CreateNode ctx now s prin req = committed s
     (checked (first_err [ctx, requireContextAgent prin ToolContextCreateNode (pr_ProjectID prin)])
      (let w = nextSequence s;
           node = normalizeNode \<lparr>nd_ID = ''node-'' @ dec (unat (cx_nextSeq w)), nd_Kind = cg_Kind req, nd_Statement = cg_Statement req,
             nd_Status = NodeStatusAccepted, nd_SubgraphIDs = cg_SubgraphIDs req, nd_SourceRefs = cg_SourceRefs req,
             nd_CreatorAgentID = pr_ActorPrincipalID prin\<rparr> in
       checked (validateGeneralNode prin (cx_subgraphs w) node
           \<lparr>nc_CreatorAgentID = nd_CreatorAgentID node, nc_PreviousNodeID = '''', nc_SubscribedSubgraphIDs = []\<rparr>)
       (and_then (appendMutationEvents (bumpSubgraphs now (nd_SubgraphIDs node) (putNode (newNodeRecord now prin w node) w))
            now prin ''context.node.create'' ''context.node.created'' (nd_ID node) (PayloadNode node))
          (\<lambda>w1. Inr (nd_ID node, commitContext w1 prin ''context.node.created'' (nd_SubgraphIDs node))))))"

text \<open>The node that the curator may change: of the project, of no task, at the expected revision.\<close>

definition curatedNode :: "ContextStore \<Rightarrow> Principal \<Rightarrow> string \<Rightarrow> Revision \<Rightarrow> goerr + NodeRecord" where
  "curatedNode s prin i expected =
     (case mget (cx_nodes s) i of
        None \<Rightarrow> Inl (notFound ''node not found'')
      | Some record \<Rightarrow> checked (first_err
          [fail_if (nr_ProjectID record \<noteq> pr_ProjectID prin) (notFound ''node not found''),
           rejectTaskMembership (cx_subgraphs s) (nd_SubgraphIDs (nr_Node record)),
           CheckExpectedRevision expected (nr_Revision record)]) (Inr record))"

definition UpdateNode :: "goerr option \<Rightarrow> int \<Rightarrow> ContextStore \<Rightarrow> Principal \<Rightarrow> UpdateGeneralNodeRequest \<Rightarrow> (goerr + string) \<times> ContextStore" where
  "UpdateNode ctx now s prin req = committed s
     (checked (first_err [ctx, requireContextAgent prin ToolContextUpdateNode (pr_ProjectID prin)])
      (and_then (parseExpectedRevision (un_SourceRevision req)) (\<lambda>expected.
       and_then (curatedNode s prin (un_NodeID req) expected) (\<lambda>record.
         let node = normalizeNode \<lparr>nd_ID = nd_ID (nr_Node record), nd_Kind = un_Kind req, nd_Statement = un_Statement req, nd_Status = un_Status req,
               nd_SubgraphIDs = un_SubgraphIDs req, nd_SourceRefs = un_SourceRefs req, nd_CreatorAgentID = nd_CreatorAgentID (nr_Node record)\<rparr>;
             before = nd_SubgraphIDs (nr_Node record) in
         checked (validateGeneralNode prin (cx_subgraphs s) node
             \<lparr>nc_CreatorAgentID = nd_CreatorAgentID (nr_Node record), nc_PreviousNodeID = '''', nc_SubscribedSubgraphIDs = []\<rparr>)
         (and_then (appendMutationEvents (bumpSubgraphs now (changedSubgraphMemberships before (nd_SubgraphIDs node))
              (putNode (record\<lparr>nr_Node := node, nr_Revision := nr_Revision record + 1\<rparr>) s))
              now prin ''context.node.update'' ''context.node.updated'' (nd_ID node) (PayloadNode node))
            (\<lambda>w1. Inr (nd_ID node, commitContext w1 prin ''context.node.updated'' (unionStringSlices before (nd_SubgraphIDs node)))))))))"

definition DeleteNode :: "goerr option \<Rightarrow> int \<Rightarrow> ContextStore \<Rightarrow> Principal \<Rightarrow> DeleteGeneralNodeRequest \<Rightarrow> (goerr + unit) \<times> ContextStore" where
  "DeleteNode ctx now s prin req = committed s
     (checked (first_err [ctx, requireContextAgent prin ToolContextDeleteNode (pr_ProjectID prin)])
      (and_then (parseExpectedRevision (dn_SourceRevision req)) (\<lambda>expected.
       and_then (curatedNode s prin (dn_NodeID req) expected) (\<lambda>record.
         let ids = nd_SubgraphIDs (nr_Node record);
             w = s\<lparr>cx_nodes := mdel (dn_NodeID req) (cx_nodes s),
                   cx_edges := filter (\<lambda>(_, edge). \<not> (ce_ToNodeID edge = dn_NodeID req \<or> ce_FromRef edge = ''node:'' @ dn_NodeID req)) (cx_edges s)\<rparr> in
         and_then (appendMutationEvents (bumpSubgraphs now ids w) now prin ''context.node.delete'' ''context.node.deleted'' (dn_NodeID req)
              (PayloadNodeDeletion req))
            (\<lambda>w1. Inr ((), commitContext w1 prin ''context.node.deleted'' ids))))))"

text \<open>The first free identifier from \<open>i\<close> on; one of \<open>length subgraphs + 1\<close> tries is free.\<close>

fun freshSubgraphID :: "(string, SubgraphRecord) gomap \<Rightarrow> nat \<Rightarrow> nat \<Rightarrow> string option" where
  "freshSubgraphID subgraphs 0 i = None"
| "freshSubgraphID subgraphs (Suc fuel) i =
     (let candidate = ''subgraph-'' @ dec i in
      if mget subgraphs candidate = None then Some candidate else freshSubgraphID subgraphs fuel (i + 1))"

definition memberUpdate :: "Principal \<Rightarrow> string \<Rightarrow> string list \<Rightarrow> string \<times> NodeRecord \<Rightarrow> string \<times> NodeRecord" where
  "memberUpdate prin subgraphID wanted entry =
     (case entry of (i, record) \<Rightarrow>
        let node = nr_Node record; has = (subgraphID \<in> set (nd_SubgraphIDs node)) in
        if nr_ProjectID record \<noteq> pr_ProjectID prin then (i, record)
        else if i \<in> set wanted \<and> \<not> has then (i, record\<lparr>nr_Node := node\<lparr>nd_SubgraphIDs := uniqueStrings (nd_SubgraphIDs node @ [subgraphID])\<rparr>\<rparr>)
        else if i \<notin> set wanted \<and> has then (i, record\<lparr>nr_Node := node\<lparr>nd_SubgraphIDs := removeString (nd_SubgraphIDs node) subgraphID\<rparr>\<rparr>)
        else (i, record))"

definition setGeneralSubgraphMembers :: "Principal \<Rightarrow> ContextStore \<Rightarrow> string \<Rightarrow> string list \<Rightarrow> goerr + ContextStore" where
  "setGeneralSubgraphMembers prin w subgraphID nodeIDs =
     checked (check_all (\<lambda>i. case mget (cx_nodes w) i of
         None \<Rightarrow> Some (notFound ''node not found'')
       | Some record \<Rightarrow> first_err
           [fail_if (nr_ProjectID record \<noteq> pr_ProjectID prin) (notFound ''node not found''),
            rejectTaskMembership (cx_subgraphs w) (nd_SubgraphIDs (nr_Node record))]) (uniqueStrings nodeIDs))
     (Inr (w\<lparr>cx_nodes := map (memberUpdate prin subgraphID (uniqueStrings nodeIDs)) (cx_nodes w)\<rparr>))"

text \<open>The outer \<open>None\<close> is a call that does not return; \<open>freshSubgraph_returns\<close> shows that there is none.\<close>

definition CreateSubgraph ::
  "goerr option \<Rightarrow> int \<Rightarrow> ContextStore \<Rightarrow> Principal \<Rightarrow> CreateGeneralSubgraphRequest \<Rightarrow> ((goerr + ContextSubgraph) \<times> ContextStore) option" where
  "CreateSubgraph ctx now s prin req =
     (case first_err [ctx, requireContextAgent prin ToolContextCreateSubgraph (pr_ProjectID prin),
            fail_if (cq_Name req = '''') (InvalidArgument ''subgraph name is required'')] of
        Some e \<Rightarrow> Some (Inl e, s)
      | None \<Rightarrow>
          (case freshSubgraphID (cx_subgraphs s) (length (cx_subgraphs s) + 1) (length (cx_subgraphs s) + 1) of
             None \<Rightarrow> None
           | Some i \<Rightarrow>
               let subgraph = \<lparr>sg_ID = i, sg_Name = cq_Name req, sg_Summary = cq_Summary req, sg_Revision = 1, sg_Kind = SubgraphKindGeneral\<rparr>;
                   w = s\<lparr>cx_subgraphs := mput i \<lparr>sgr_Subgraph = subgraph, sgr_ProjectID = pr_ProjectID prin, sgr_TaskID = '''',
                          sgr_CreatedAt = now, sgr_UpdatedAt = now\<rparr> (cx_subgraphs s)\<rparr> in
               Some (committed s (and_then (setGeneralSubgraphMembers prin w i (cq_NodeIDs req)) (\<lambda>w1.
                 and_then (appendMutationEvents w1 now prin ''context.subgraph.create'' ''context.subgraph.created'' i (PayloadSubgraph subgraph))
                   (\<lambda>w2. Inr (subgraph, commitContext w2 prin ''context.subgraph.created'' [i])))))))"

definition curatedSubgraph :: "ContextStore \<Rightarrow> Principal \<Rightarrow> string \<Rightarrow> Revision \<Rightarrow> string \<Rightarrow> goerr + SubgraphRecord" where
  "curatedSubgraph s prin i expected refusal =
     (case mget (cx_subgraphs s) i of
        None \<Rightarrow> Inl (notFound ''subgraph not found'')
      | Some record \<Rightarrow> checked (first_err
          [fail_if (sgr_ProjectID record \<noteq> pr_ProjectID prin) (notFound ''subgraph not found''),
           fail_if (sg_Kind (sgr_Subgraph record) \<noteq> SubgraphKindGeneral) (Forbidden refusal),
           CheckExpectedRevision expected (sg_Revision (sgr_Subgraph record))]) (Inr record))"

definition UpdateSubgraph ::
  "goerr option \<Rightarrow> int \<Rightarrow> ContextStore \<Rightarrow> Principal \<Rightarrow> UpdateGeneralSubgraphRequest \<Rightarrow> (goerr + ContextSubgraph) \<times> ContextStore" where
  "UpdateSubgraph ctx now s prin req = committed s
     (checked (first_err [ctx, requireContextAgent prin ToolContextUpdateSubgraph (pr_ProjectID prin)])
      (and_then (curatedSubgraph s prin (uq_SubgraphID req) (uq_Revision req) ''Context Agent curator cannot update task subgraphs'') (\<lambda>record.
         let subgraph = (sgr_Subgraph record)\<lparr>sg_Name := uq_Name req, sg_Summary := uq_Summary req,
               sg_Revision := sg_Revision (sgr_Subgraph record) + 1\<rparr>;
             w = s\<lparr>cx_subgraphs := mput (uq_SubgraphID req) (record\<lparr>sgr_Subgraph := subgraph, sgr_UpdatedAt := now\<rparr>) (cx_subgraphs s)\<rparr> in
         and_then (setGeneralSubgraphMembers prin w (uq_SubgraphID req) (uq_NodeIDs req)) (\<lambda>w1.
           and_then (appendMutationEvents w1 now prin ''context.subgraph.update'' ''context.subgraph.updated'' (uq_SubgraphID req) (PayloadSubgraph subgraph))
             (\<lambda>w2. Inr (subgraph, commitContext w2 prin ''context.subgraph.updated'' [uq_SubgraphID req]))))))"

definition dropMembership :: "string \<Rightarrow> NodeRecord \<Rightarrow> NodeRecord" where
  "dropMembership i record = record\<lparr>nr_Node := (nr_Node record)\<lparr>nd_SubgraphIDs := removeString (nd_SubgraphIDs (nr_Node record)) i\<rparr>\<rparr>"

definition DeleteSubgraph ::
  "goerr option \<Rightarrow> int \<Rightarrow> ContextStore \<Rightarrow> Principal \<Rightarrow> DeleteGeneralSubgraphRequest \<Rightarrow> (goerr + unit) \<times> ContextStore" where
  "DeleteSubgraph ctx now s prin req = committed s
     (checked (first_err [ctx, requireContextAgent prin ToolContextDeleteSubgraph (pr_ProjectID prin)])
      (and_then (curatedSubgraph s prin (dq_SubgraphID req) (dq_Revision req) ''Context Agent curator cannot delete task subgraphs'') (\<lambda>_.
         let w = s\<lparr>cx_subgraphs := mdel (dq_SubgraphID req) (cx_subgraphs s),
                   cx_nodes := map (map_prod id (dropMembership (dq_SubgraphID req))) (cx_nodes s),
                   cx_edges := filter (\<lambda>(_, edge). ce_FromRef edge \<noteq> ''subgraph:'' @ dq_SubgraphID req) (cx_edges s)\<rparr> in
         and_then (appendMutationEvents w now prin ''context.subgraph.delete'' ''context.subgraph.deleted'' (dq_SubgraphID req) (PayloadSubgraphDeletion req))
           (\<lambda>w1. Inr ((), commitContext w1 prin ''context.subgraph.deleted'' [dq_SubgraphID req])))))"

section \<open>Reading\<close>

definition ListSubgraphs :: "goerr option \<Rightarrow> ContextStore \<Rightarrow> Principal \<Rightarrow> string \<Rightarrow> goerr + ContextSubgraph list" where
  "ListSubgraphs ctx s prin kind =
     checked (first_err [ctx, contextRequireTool prin ToolContextListSubgraphs (pr_ProjectID prin)])
     (Inr (sort_by (\<lambda>a b. sg_ID a < sg_ID b) (map sgr_Subgraph
        (filter (\<lambda>record. (kind = '''' \<or> sg_Kind (sgr_Subgraph record) = kind) \<and> canSeeSubgraph prin record) (mvalues (cx_subgraphs s))))))"

definition canSeeEdge :: "Principal \<Rightarrow> ContextStore \<Rightarrow> ContextEdge \<Rightarrow> bool" where
  "canSeeEdge prin s edge \<longleftrightarrow>
     (case mget (cx_nodes s) (ce_ToNodeID edge) of None \<Rightarrow> False | Some to \<Rightarrow> canSeeNode prin (cx_subgraphs s) to)
   \<and> (if HasPrefix (ce_FromRef edge) ''node:'' then
        (case mget (cx_nodes s) (drop 5 (ce_FromRef edge)) of None \<Rightarrow> False | Some from \<Rightarrow> canSeeNode prin (cx_subgraphs s) from)
      else HasPrefix (ce_FromRef edge) ''subgraph:'' \<and> seenIn prin (cx_subgraphs s) (drop 9 (ce_FromRef edge)))"

text \<open>One edge at one node of the frontier; the state of the loop is the nodes so far and the next frontier.\<close>

definition expandEdge :: "Principal \<Rightarrow> ContextStore \<Rightarrow> string \<Rightarrow> ContextEdge \<Rightarrow> ContextNode list \<times> string list \<Rightarrow> ContextNode list \<times> string list" where
  "expandEdge prin s current edge acc =
     (if \<not> canSeeEdge prin s edge \<or> (ce_FromRef edge \<noteq> ''node:'' @ current \<and> ce_ToNodeID edge \<noteq> current) then acc
      else
        let other = (if ce_ToNodeID edge = current \<and> HasPrefix (ce_FromRef edge) ''node:'' then drop 5 (ce_FromRef edge) else ce_ToNodeID edge) in
        (case mget (cx_nodes s) other of
           None \<Rightarrow> acc
         | Some record \<Rightarrow>
             if \<not> canSeeNode prin (cx_subgraphs s) record \<or> nd_ID (nr_Node record) \<in> nd_ID ` set (fst acc) then acc
             else (fst acc @ [visibleNode prin (cx_subgraphs s) (nr_Node record)], snd acc @ [nd_ID (nr_Node record)])))"

fun expandLevels :: "Principal \<Rightarrow> ContextStore \<Rightarrow> nat \<Rightarrow> ContextNode list \<Rightarrow> string list \<Rightarrow> ContextNode list \<times> string list" where
  "expandLevels prin s 0 nodes frontier = (nodes, frontier)"
| "expandLevels prin s (Suc depth) nodes frontier =
     (case fold (\<lambda>current. fold (expandEdge prin s current) (sortedEdgesLocked s)) frontier (nodes, []) of
        (nodes', frontier') \<Rightarrow> expandLevels prin s depth nodes' frontier')"

definition Explore :: "goerr option \<Rightarrow> ContextStore \<Rightarrow> Principal \<Rightarrow> string \<Rightarrow> int \<Rightarrow> goerr + ContextSliceDelta" where
  "Explore ctx s prin anchorRef depth =
     checked (first_err [ctx, contextRequireTool prin ToolContextExplore (pr_ProjectID prin)])
     (and_then (parseAnchorRef anchorRef) (\<lambda>(kind, anchor).
        if anchorRef = '''' then Inr \<lparr>sd_Nodes = [], sd_Frontier = [], sd_GraphRevision = cx_graphRevision s\<rparr>
        else if kind = ''subgraph'' then
          checked (fail_if (\<not> seenIn prin (cx_subgraphs s) anchor) (notFound ''subgraph not found''))
          (let nodes = map (\<lambda>record. visibleNode prin (cx_subgraphs s) (nr_Node record))
                 (filter (\<lambda>record. anchor \<in> set (nd_SubgraphIDs (nr_Node record)) \<and> canSeeNode prin (cx_subgraphs s) record) (sortedNodesLocked s))
           in Inr \<lparr>sd_Nodes = nodes, sd_Frontier = map (\<lambda>node. ''node:'' @ nd_ID node) nodes, sd_GraphRevision = cx_graphRevision s\<rparr>)
        else
          (case mget (cx_nodes s) anchor of
             None \<Rightarrow> Inl (notFound ''node not found'')
           | Some record \<Rightarrow>
               checked (fail_if (\<not> canSeeNode prin (cx_subgraphs s) record) (notFound ''node not found''))
               (case expandLevels prin s (nat (if depth \<le> 0 then 1 else depth)) [visibleNode prin (cx_subgraphs s) (nr_Node record)] [anchor] of
                  (nodes, frontier) \<Rightarrow> Inr \<lparr>sd_Nodes = nodes, sd_Frontier = sort (map (\<lambda>i. ''node:'' @ i) frontier), sd_GraphRevision = cx_graphRevision s\<rparr>))))"

definition lowerAll :: "(string \<Rightarrow> string) \<Rightarrow> string list \<Rightarrow> string list" where
  "lowerAll lower values = filter (\<lambda>v. v \<noteq> '''') (map (\<lambda>v. TrimSpace (lower v)) values)"

definition keywordMatch :: "(string \<Rightarrow> string) \<Rightarrow> string \<Rightarrow> string list \<Rightarrow> bool" where
  "keywordMatch lower statement keywords \<longleftrightarrow> list_all (Contains (lower statement)) keywords"

definition visibleScopeLocked :: "ContextStore \<Rightarrow> Principal \<Rightarrow> string list \<Rightarrow> goerr + string list" where
  "visibleScopeLocked s prin refs =
     (let ids = map (\<lambda>ref. if HasPrefix ref ''subgraph:'' then drop 9 ref else ref) (uniqueStrings refs) in
      checked (check_all (\<lambda>i. fail_if (\<not> generalSubgraph (pr_ProjectID prin) (cx_subgraphs s) i) (notFound ''scope not found'')) ids) (Inr ids))"

definition anchorNodes :: "ContextStore \<Rightarrow> Principal \<Rightarrow> string \<Rightarrow> goerr + string list" where
  "anchorNodes s prin ref =
     and_then (parseAnchorRef ref) (\<lambda>(kind, i).
       if kind = ''node'' then
         (case mget (cx_nodes s) i of
            None \<Rightarrow> Inl (notFound ''anchor not found'')
          | Some record \<Rightarrow>
              checked (fail_if (generalVisibleNode (pr_ProjectID prin) (cx_subgraphs s) (nr_Node record) = None) (notFound ''anchor not found'')) (Inr [i]))
       else if kind = ''subgraph'' then
         checked (fail_if (\<not> generalSubgraph (pr_ProjectID prin) (cx_subgraphs s) i) (notFound ''anchor not found''))
         (Inr (map (\<lambda>record. nd_ID (nr_Node record)) (filter (\<lambda>record. i \<in> set (nd_SubgraphIDs (nr_Node record))) (sortedNodesLocked s))))
       else Inr [])"

fun visibleAnchorNodesLocked :: "ContextStore \<Rightarrow> Principal \<Rightarrow> string list \<Rightarrow> goerr + string list" where
  "visibleAnchorNodesLocked s prin [] = Inr []"
| "visibleAnchorNodesLocked s prin (ref # refs) =
     and_then (anchorNodes s prin ref) (\<lambda>nodes. and_then (visibleAnchorNodesLocked s prin refs) (\<lambda>rest. Inr (nodes @ rest)))"

record ContextSearchResult =
  sx_Slice :: ContextSliceDelta
  sx_MatchedKeywords :: "string list"
  sx_SubscriptionIDs :: "string list"

definition searchNodes :: "(string \<Rightarrow> string) \<Rightarrow> ContextStore \<Rightarrow> Principal \<Rightarrow> string list \<Rightarrow> string list \<Rightarrow> string list \<Rightarrow> ContextNode list" where
  "searchNodes lower s prin keywords scope anchored =
     List.map_filter (\<lambda>record.
       case generalVisibleNode (pr_ProjectID prin) (cx_subgraphs s) (nr_Node record) of
         None \<Rightarrow> None
       | Some node \<Rightarrow>
           if (scope \<noteq> [] \<and> \<not> intersects (nd_SubgraphIDs node) scope) \<or> (anchored \<noteq> [] \<and> nd_ID (nr_Node record) \<notin> set anchored) then None
           else if keywordMatch lower (nd_Statement node) keywords then Some node else None)
     (sortedNodesLocked s)"

definition Search ::
  "(string \<Rightarrow> string) \<Rightarrow> goerr option \<Rightarrow> int \<Rightarrow> ContextStore \<Rightarrow> Principal \<Rightarrow> string list \<Rightarrow> string list \<Rightarrow> string list \<Rightarrow>
   ((goerr + ContextSearchResult) \<times> ContextStore) option" where
  "Search lower ctx now s prin keywords0 scopeRefs anchorRefs =
     (let keywords = lowerAll lower keywords0 in
      case checked (first_err [ctx, fail_if (pr_Role prin \<noteq> RoleContext) (Forbidden ''search is exposed only to Context Agent''),
              contextRequireTool prin ToolContextSearch (pr_ProjectID prin)])
           (and_then (visibleScopeLocked s prin scopeRefs) (\<lambda>scope.
              and_then (visibleAnchorNodesLocked s prin (uniqueStrings anchorRefs)) (\<lambda>anchored.
                Inr (searchNodes lower s prin keywords scope anchored)))) of
        Inl e \<Rightarrow> Some (Inl e, s)
      | Inr nodes \<Rightarrow>
          let slice = \<lparr>sd_Nodes = nodes, sd_Frontier = [], sd_GraphRevision = cx_graphRevision s\<rparr>; hits = sortedStringSet (concat (map nd_SubgraphIDs nodes)) in
          if hits = [] then Some (Inr \<lparr>sx_Slice = slice, sx_MatchedKeywords = keywords, sx_SubscriptionIDs = []\<rparr>, s)
          else (case createSubscription now s prin \<lparr>sq_SubgraphIDs = hits, sq_EventKinds = []\<rparr> subscriptionSourceSearch of
             None \<Rightarrow> None
           | Some (Inl e, s') \<Rightarrow> Some (Inl e, s')
           | Some (Inr sub, s') \<Rightarrow> Some (Inr \<lparr>sx_Slice = slice, sx_MatchedKeywords = keywords, sx_SubscriptionIDs = [cs_ID sub]\<rparr>, s')))"

end
