(* ===== verification/Context_Memory.thy ===== *)
theory Context_Memory
  imports Context_Curator
begin

text \<open>
  What invocations and tasks have of the context graph: the slices of an invocation (\<open>slice.go\<close>), the context of a
  task (\<open>task_binding.go\<close>, \<open>projection.go\<close>), the buffer of memory candidates (\<open>memory_buffer.go\<close>) with its review
  (\<open>review.go\<close>), and the snapshot for the user interface (\<open>snapshot.go\<close>). The resolver of tasks and endpoints belongs to
  another component and is an argument, \<open>None\<close> when it is not set; so is the pair of patterns that a
  candidate's statement must not match.
\<close>

section \<open>Slices\<close>

definition subscribedBy :: "ProjectID \<Rightarrow> InvocationID \<Rightarrow> ContextSubscriptionRecord \<Rightarrow> bool" where
  "subscribedBy projectID invocationID record \<longleftrightarrow> csr_ProjectID record = projectID
     \<and> cs_ConsumerInvocationID (csr_Subscription record) = invocationID \<and> csr_Active record"

definition effectiveSubgraphsLocked :: "ContextStore \<Rightarrow> Principal \<Rightarrow> InvocationID \<Rightarrow> string list" where
  "effectiveSubgraphsLocked s prin invocationID =
     sortedStringSet (filter (seenIn prin (cx_subgraphs s)) (concat (map (\<lambda>record. cs_SubgraphIDs (csr_Subscription record))
       (filter (subscribedBy (pr_ProjectID prin) invocationID) (mvalues (cx_subscriptions s))))))"

definition activeSubscriptionIDsLocked :: "ContextStore \<Rightarrow> ProjectID \<Rightarrow> InvocationID \<Rightarrow> string list" where
  "activeSubscriptionIDsLocked s projectID invocationID =
     sort (map fst (filter (\<lambda>(_, record). subscribedBy projectID invocationID record) (cx_subscriptions s)))"

definition materializeInvocationSliceLocked :: "ContextStore \<Rightarrow> Principal \<Rightarrow> InvocationID \<Rightarrow> ContextSlice" where
  "materializeInvocationSliceLocked s prin invocationID =
     (let effective = effectiveSubgraphsLocked s prin invocationID in
      \<lparr>sl_Nodes = map (\<lambda>record. (nr_Node record)\<lparr>nd_SubgraphIDs := filter (\<lambda>i. i \<in> set effective) (nd_SubgraphIDs (nr_Node record))\<rparr>)
         (filter (\<lambda>record. canSeeNode prin (cx_subgraphs s) record \<and> intersects (nd_SubgraphIDs (nr_Node record)) effective) (sortedNodesLocked s)),
       sl_SubscriptionIDs = activeSubscriptionIDsLocked s (pr_ProjectID prin) invocationID,
       sl_GraphRevision = cx_graphRevision s\<rparr>)"

definition MaterializeRuntimeContext :: "goerr option \<Rightarrow> ContextStore \<Rightarrow> Principal \<Rightarrow> goerr + ContextSlice" where
  "MaterializeRuntimeContext ctx s prin =
     checked (first_err [ctx, fail_if (pr_InvocationID prin = '''') (InvalidArgument ''consumer invocation is required'')])
     (Inr (materializeInvocationSliceLocked s prin (pr_InvocationID prin)))"

definition EffectiveSubgraphs :: "goerr option \<Rightarrow> ContextStore \<Rightarrow> Principal \<Rightarrow> goerr + string list" where
  "EffectiveSubgraphs ctx s prin =
     checked (first_err [ctx, fail_if (pr_InvocationID prin = '''') (InvalidArgument ''consumer invocation is required'')])
     (Inr (effectiveSubgraphsLocked s prin (pr_InvocationID prin)))"

text \<open>The initial subscription of the invocation, or a new one.\<close>

definition initialSubscription ::
  "int \<Rightarrow> ContextStore \<Rightarrow> Principal \<Rightarrow> string list \<Rightarrow> ((goerr + ContextSubscription) \<times> ContextStore) option" where
  "initialSubscription now s prin ids =
     (case List.find (\<lambda>record. subscribedBy (pr_ProjectID prin) (pr_InvocationID prin) record \<and> csr_Source record = subscriptionSourceInitial)
          (mvalues (cx_subscriptions s)) of
        Some record \<Rightarrow> if cs_ID (csr_Subscription record) \<noteq> '''' then Some (Inr (csr_Subscription record), s)
          else createSubscription now s prin \<lparr>sq_SubgraphIDs = ids, sq_EventKinds = []\<rparr> subscriptionSourceInitial
      | None \<Rightarrow> createSubscription now s prin \<lparr>sq_SubgraphIDs = ids, sq_EventKinds = []\<rparr> subscriptionSourceInitial)"

definition EnsureInitialSlice ::
  "goerr option \<Rightarrow> int \<Rightarrow> ContextStore \<Rightarrow> Principal \<Rightarrow> string list \<Rightarrow> ((goerr + ContextSlice) \<times> ContextStore) option" where
  "EnsureInitialSlice ctx now s prin ids =
     (case first_err [ctx, contextRequireTool prin ToolContextSubscribe (pr_ProjectID prin)] of
        Some e \<Rightarrow> Some (Inl e, s)
      | None \<Rightarrow>
          let key = (pr_ProjectID prin, pr_InvocationID prin) in
          (case mget (cx_initialSlices s) key of
             Some initial \<Rightarrow> Some (Inr initial, s)
           | None \<Rightarrow>
               (case initialSubscription now s prin ids of
                  None \<Rightarrow> None
                | Some (Inl e, s1) \<Rightarrow> Some (Inl e, s1)
                | Some (Inr sub, s1) \<Rightarrow>
                    let slice = (materializeInvocationSliceLocked s1 prin (pr_InvocationID prin))\<lparr>sl_SubscriptionIDs := [cs_ID sub]\<rparr> in
                    Some (Inr slice, s1\<lparr>cx_initialSlices := mput key slice (cx_initialSlices s1)\<rparr>))))"

definition CreateInitialSlice ::
  "goerr option \<Rightarrow> int \<Rightarrow> ContextStore \<Rightarrow> Principal \<Rightarrow> string list \<Rightarrow> ((goerr + ContextSlice) \<times> ContextStore) option" where
  "CreateInitialSlice ctx now s prin ids = EnsureInitialSlice ctx now s prin ids"

definition InspectInitialSlice :: "goerr option \<Rightarrow> ContextStore \<Rightarrow> Principal \<Rightarrow> InvocationID \<Rightarrow> goerr + ContextSlice" where
  "InspectInitialSlice ctx s prin invocationID0 = checked ctx
     (and_then (inspectedInvocation ''initial slice inspection requires project principal'' ''initial slice inspection'' prin invocationID0) (\<lambda>invocationID.
        case mget (cx_initialSlices s) (pr_ProjectID prin, invocationID) of
          None \<Rightarrow> Inl (notFound ''initial context slice not found'')
        | Some initial \<Rightarrow> Inr initial))"

section \<open>Task subgraphs\<close>

record TaskEndpointResolver =
  rs_TaskExists :: "ProjectID \<Rightarrow> TaskID \<Rightarrow> goerr + bool"
  rs_TaskDone :: "ProjectID \<Rightarrow> TaskID \<Rightarrow> goerr + bool"
  rs_EndpointExists :: "ProjectID \<Rightarrow> ContextEndpointRef \<Rightarrow> goerr + bool"

abbreviation noResolver :: goerr where
  "noResolver \<equiv> InvalidArgument ''task endpoint resolver is required''"

text \<open>A check of the resolver: its error, or the given one when the answer is no.\<close>

definition resolved :: "goerr + bool \<Rightarrow> goerr \<Rightarrow> goerr option" where
  "resolved answer missing = (case answer of Inl e \<Rightarrow> Some e | Inr ok \<Rightarrow> fail_if (\<not> ok) missing)"

definition RegisterTaskSubgraph ::
  "TaskEndpointResolver option \<Rightarrow> goerr option \<Rightarrow> int \<Rightarrow> ContextStore \<Rightarrow> Principal \<Rightarrow> TaskID \<Rightarrow> (goerr + TaskContextSubgraphBinding) \<times> ContextStore" where
  "RegisterTaskSubgraph resolver ctx now s prin taskID0 =
     (let taskID = (if taskID0 = '''' then pr_TaskID prin else taskID0); key = (pr_ProjectID prin, taskID);
          subgraphID = pr_ProjectID prin @ ''-'' @ taskID @ ''-context'';
          binding = \<lparr>tb_TaskID = taskID, tb_SubgraphID = subgraphID\<rparr> in
      case first_err [ctx, contextRequireTool prin ToolContextRegisterTaskSubgraph (pr_ProjectID prin),
             fail_if (taskID = '''') (InvalidArgument ''task_id is required''),
             (case resolver of None \<Rightarrow> Some noResolver
              | Some r \<Rightarrow> resolved (rs_TaskExists r (pr_ProjectID prin) taskID) (notFound ''task not found''))] of
        Some e \<Rightarrow> (Inl e, s)
      | None \<Rightarrow>
          (case mget (cx_taskBindings s) key of
             Some existing \<Rightarrow> (Inr existing, s)
           | None \<Rightarrow>
               if mget (cx_subgraphs s) subgraphID \<noteq> None then (Inl (InvalidGraph ''task context subgraph id already exists''), s)
               else (Inr binding, s\<lparr>cx_taskBindings := mput key binding (cx_taskBindings s),
                 cx_subgraphs := mput subgraphID \<lparr>sgr_Subgraph = \<lparr>sg_ID = subgraphID, sg_Name = taskID, sg_Summary = ''task context'', sg_Revision = 1,
                     sg_Kind = SubgraphKindTask\<rparr>, sgr_ProjectID = pr_ProjectID prin, sgr_TaskID = taskID, sgr_CreatedAt = now, sgr_UpdatedAt = now\<rparr> (cx_subgraphs s),
                 cx_graphRevision := cx_graphRevision s + 1,
                 cx_audit := cx_audit s @ [auditOf s now prin ''context.task_subgraph.register'' subgraphID]\<rparr>)))"

section \<open>Projections\<close>

definition validateTaskProjectionShape :: "TaskContextProjection \<Rightarrow> goerr option" where
  "validateTaskProjectionShape projection = first_err
     [fail_if (tp_ProjectionID projection = '''' \<or> tp_SourceRevision projection = '''' \<or> tp_Statement projection = '''')
        (InvalidArgument ''projection_id, source_revision, and statement are required''),
      validateNodeKind (tp_Kind projection),
      fail_if (tp_SourceRefs projection = [] \<or> tp_SubgraphIDs projection = [] \<or> tp_Recipients projection = [])
        (InvalidArgument ''source_refs, subgraph_ids, and recipients are required'')]"

definition taskSubgraph :: "ProjectID \<Rightarrow> (string, SubgraphRecord) gomap \<Rightarrow> string \<Rightarrow> bool" where
  "taskSubgraph projectID subgraphs i \<longleftrightarrow> (case mget subgraphs i of
     None \<Rightarrow> False | Some record \<Rightarrow> sgr_ProjectID record = projectID \<and> sg_Kind (sgr_Subgraph record) = SubgraphKindTask)"

text \<open>One recipient: the subgraph of its task.\<close>

definition validateRecipient :: "TaskEndpointResolver \<Rightarrow> Principal \<Rightarrow> ContextStore \<Rightarrow> string list \<Rightarrow> TaskContextRecipient \<Rightarrow> goerr + string" where
  "validateRecipient resolver prin w ids recipient =
     checked (first_err
       [fail_if (tc_TaskID recipient = '''') (InvalidArgument ''recipient task_id is required''),
        resolved (rs_TaskExists resolver (pr_ProjectID prin) (tc_TaskID recipient)) (notFound ''task not found'')])
     (case mget (cx_taskBindings w) (pr_ProjectID prin, tc_TaskID recipient) of
        None \<Rightarrow> Inl (notFound ''task binding not found'')
      | Some binding \<Rightarrow>
          checked (first_err
            [fail_if (tb_SubgraphID binding \<notin> set ids) (Forbidden ''recipient task binding must be included in subgraph_ids''),
             check_all (\<lambda>endpoint. first_err
               [fail_if (ref_TaskID endpoint \<noteq> tc_TaskID recipient \<or> ref_EndpointID endpoint = '''')
                  (Forbidden ''recipient endpoint_ref must belong to recipient task''),
                resolved (rs_EndpointExists resolver (pr_ProjectID prin) endpoint) (notFound ''endpoint not found'')]) (tc_EndpointRefs recipient)])
          (Inr (tb_SubgraphID binding)))"

fun validateRecipients :: "TaskEndpointResolver \<Rightarrow> Principal \<Rightarrow> ContextStore \<Rightarrow> string list \<Rightarrow> TaskContextRecipient list \<Rightarrow> goerr + string list" where
  "validateRecipients resolver prin w ids [] = Inr []"
| "validateRecipients resolver prin w ids (recipient # recipients) =
     and_then (validateRecipient resolver prin w ids recipient) (\<lambda>i.
       and_then (validateRecipients resolver prin w ids recipients) (\<lambda>rest. Inr (i # rest)))"

definition validateProjectionBindings :: "Principal \<Rightarrow> TaskEndpointResolver option \<Rightarrow> ContextStore \<Rightarrow> TaskContextProjection \<Rightarrow> goerr option" where
  "validateProjectionBindings prin resolver w projection =
     (case resolver of
        None \<Rightarrow> Some noResolver
      | Some r \<Rightarrow>
          let ids = uniqueStrings (tp_SubgraphIDs projection) in
          (case check_all (\<lambda>i. fail_if (\<not> taskSubgraph (pr_ProjectID prin) (cx_subgraphs w) i) (notFound ''task subgraph not found'')) ids of
             Some e \<Rightarrow> Some e
           | None \<Rightarrow>
               (case validateRecipients r prin w ids (tp_Recipients projection) of
                  Inl e \<Rightarrow> Some e
                | Inr bound \<Rightarrow> fail_if (card (set bound) \<noteq> length ids) (Forbidden ''subgraph_ids must match recipient task bindings''))))"

definition projectionSourceRefs :: "TaskContextProjection \<Rightarrow> string list" where
  "projectionSourceRefs projection = uniqueStrings ((''projection-revision:'' @ tp_SourceRevision projection) # tp_SourceRefs projection)"

definition firstSourceRevision :: "string list \<Rightarrow> string" where
  "firstSourceRevision refs =
     (case List.find (\<lambda>ref. HasPrefix ref ''projection-revision:'' \<and> length ref > length ''projection-revision:'') refs of
        None \<Rightarrow> '''' | Some ref \<Rightarrow> drop (length ''projection-revision:'') ref)"

text \<open>The comparison of two source revisions: \<open>None\<close> when one of them is not an integer.\<close>

definition compareSourceRevision :: "string \<Rightarrow> string \<Rightarrow> int option" where
  "compareSourceRevision new current =
     (case (ParseInt64 new, ParseInt64 current) of
        (Some n, Some c) \<Rightarrow> Some (if n > c then 1 else if n < c then - 1 else 0)
      | _ \<Rightarrow> None)"

definition updateProjection ::
  "int \<Rightarrow> ContextStore \<Rightarrow> Principal \<Rightarrow> TaskContextProjection \<Rightarrow> string \<Rightarrow> NodeRecord \<Rightarrow> goerr + string \<times> ContextStore" where
  "updateProjection now s prin projection i record =
     (let before = nd_SubgraphIDs (nr_Node record);
          node = (nr_Node record)\<lparr>nd_Statement := tp_Statement projection, nd_Kind := tp_Kind projection, nd_SourceRefs := projectionSourceRefs projection,
            nd_SubgraphIDs := uniqueStrings (tp_SubgraphIDs projection), nd_Status := NodeStatusAccepted\<rparr>;
          w = s\<lparr>cx_nodes := mput i (record\<lparr>nr_Node := node, nr_Revision := nr_Revision record + 1\<rparr>) (cx_nodes s),
                cx_recipients := mput i (tp_Recipients projection) (cx_recipients s)\<rparr> in
      and_then (appendMutationEvents (bumpSubgraphs now (changedSubgraphMemberships before (nd_SubgraphIDs node)) w) now prin
           ''context.task_projection.update'' ''context.task_projection.updated'' i (PayloadNode node))
        (\<lambda>w1. Inr (i, commitContext w1 prin ''context.task_projection.updated'' (unionStringSlices before (nd_SubgraphIDs node)))))"

definition createProjection :: "int \<Rightarrow> ContextStore \<Rightarrow> Principal \<Rightarrow> TaskContextProjection \<Rightarrow> goerr + string \<times> ContextStore" where
  "createProjection now s prin projection =
     (let w = nextSequence s; i = ''task-node-'' @ dec (unat (cx_nextSeq w));
          node = normalizeNode \<lparr>nd_ID = i, nd_Kind = tp_Kind projection, nd_Statement = tp_Statement projection, nd_Status = NodeStatusAccepted,
            nd_SubgraphIDs = tp_SubgraphIDs projection, nd_SourceRefs = projectionSourceRefs projection, nd_CreatorAgentID = pr_ActorPrincipalID prin\<rparr>;
          w1 = (putNode (newNodeRecord now prin w node) w)
            \<lparr>cx_projections := mput (pr_ProjectID prin, tp_ProjectionID projection) i (cx_projections s),
             cx_recipients := mput i (tp_Recipients projection) (cx_recipients s)\<rparr> in
      and_then (appendMutationEvents (bumpSubgraphs now (nd_SubgraphIDs node) w1) now prin
           ''context.task_projection.create'' ''context.task_projection.created'' i (PayloadNode node))
        (\<lambda>w2. Inr (i, commitContext w2 prin ''context.task_projection.created'' (nd_SubgraphIDs node))))"

definition ProjectTaskContext ::
  "TaskEndpointResolver option \<Rightarrow> goerr option \<Rightarrow> int \<Rightarrow> ContextStore \<Rightarrow> Principal \<Rightarrow> TaskContextProjection \<Rightarrow> (goerr + string) \<times> ContextStore" where
  "ProjectTaskContext resolver ctx now s prin projection = committed s
     (checked (first_err [ctx, contextRequireTool prin ToolContextProjectTaskContext (pr_ProjectID prin),
         validateTaskProjectionShape projection, validateProjectionBindings prin resolver s projection])
      (case mget (cx_projections s) (pr_ProjectID prin, tp_ProjectionID projection) of
         None \<Rightarrow> createProjection now s prin projection
       | Some i \<Rightarrow>
           (case mget (cx_nodes s) i of
              None \<Rightarrow> Inl (notFound ''projection not found'')
            | Some record \<Rightarrow>
                if nr_ProjectID record \<noteq> pr_ProjectID prin then Inl (notFound ''projection not found'')
                else (case compareSourceRevision (tp_SourceRevision projection) (firstSourceRevision (nd_SourceRefs (nr_Node record))) of
                   None \<Rightarrow> Inl (kerr CodeRevisionConflict ''projection source_revision is stale or not comparable'' False)
                 | Some cmp \<Rightarrow>
                     if cmp < 0 then Inl (kerr CodeRevisionConflict ''projection source_revision is stale or not comparable'' False)
                     else if cmp = 0 then Inr (i, s)
                     else updateProjection now s prin projection i record))))"

section \<open>Memory candidates\<close>

definition candidatesOf :: "ContextStore \<Rightarrow> ProjectID \<times> TaskID \<Rightarrow> CandidateBufferRecord list" where
  "candidatesOf s key = (case mget (cx_candidates s) key of Some records \<Rightarrow> records | None \<Rightarrow> [])"

definition memoryState :: "ContextStore \<Rightarrow> ProjectID \<times> TaskID \<Rightarrow> TaskMemoryReviewState" where
  "memoryState s key = (case mget (cx_taskMemory s) key of Some st \<Rightarrow> st | None \<Rightarrow> '''')"

definition candidateView :: "CandidateBufferRecord list \<Rightarrow> (string \<times> MemoryCandidate) list" where
  "candidateView records = map (\<lambda>record. (cb_CandidateID record, cb_Candidate record)) records"

definition ListTaskCandidates :: "goerr option \<Rightarrow> ContextStore \<Rightarrow> Principal \<Rightarrow> goerr + (string \<times> MemoryCandidate) list" where
  "ListTaskCandidates ctx s prin =
     checked (first_err [ctx, contextRequireTool prin ToolAgentListTaskMemoryCandidates (pr_ProjectID prin),
         fail_if (pr_TaskID prin = '''') (InvalidArgument ''task_id is required'')])
     (Inr (candidateView (candidatesOf s (pr_ProjectID prin, pr_TaskID prin))))"

definition candidateNodeRefs :: "string list \<Rightarrow> string list" where
  "candidateNodeRefs refs = map (drop 5) (filter (\<lambda>ref. HasPrefix ref ''node:'') (uniqueStrings refs))"

definition validateMemoryCandidate :: "(string \<Rightarrow> bool) \<Rightarrow> MemoryCandidate \<Rightarrow> goerr option" where
  "validateMemoryCandidate recoverable candidate =
     (let statement = TrimSpace (mm_Statement candidate) in first_err
       [fail_if (statement = '''') (InvalidArgument ''candidate statement is required''),
        fail_if (recoverable statement)
          (InvalidArgument ''candidate statement copies a runtime identifier, authoritative binding pointer, or ephemeral execution state''),
        validateNodeKind (mm_Kind candidate),
        fail_if (mm_SourceRefs candidate = []) (InvalidArgument ''candidate source_refs are required''),
        check_all (\<lambda>ref. fail_if (TrimSpace ref = ''node:'') (InvalidArgument ''candidate node source ref requires a node id'')) (mm_SourceRefs candidate)])"

definition validateCandidateNodeRefsLocked :: "ContextStore \<Rightarrow> Principal \<Rightarrow> string list \<Rightarrow> goerr option" where
  "validateCandidateNodeRefsLocked s prin refs =
     (let visible = map nd_ID (sl_Nodes (materializeInvocationSliceLocked s prin (pr_InvocationID prin)));
          missing = notFound ''candidate node_ref is not available in the current context'' in
      check_all (\<lambda>i. case mget (cx_nodes s) i of
          None \<Rightarrow> Some missing
        | Some record \<Rightarrow> first_err
            [fail_if (generalVisibleNode (pr_ProjectID prin) (cx_subgraphs s) (nr_Node record) = None) missing,
             fail_if (i \<notin> set visible) missing]) (uniqueStrings (candidateNodeRefs refs)))"

definition newCandidateRecord :: "int \<Rightarrow> ContextStore \<Rightarrow> Principal \<Rightarrow> MemoryCandidate \<Rightarrow> CandidateBufferRecord" where
  "newCandidateRecord now s prin candidate =
     \<lparr>cb_CandidateID = ''candidate-'' @ pr_ProjectID prin @ ''-'' @ pr_TaskID prin @ ''-''
        @ dec (length (candidatesOf s (pr_ProjectID prin, pr_TaskID prin)) + 1),
      cb_TaskID = pr_TaskID prin, cb_Candidate = candidate,
      cb_CreationContext = \<lparr>nc_CreatorAgentID = pr_ActorPrincipalID prin, nc_PreviousNodeID = '''', nc_SubscribedSubgraphIDs = []\<rparr>,
      cb_CreatedByInvocationID = pr_InvocationID prin, cb_CreatedAt = now\<rparr>"

definition SubmitCandidate ::
  "(string \<Rightarrow> bool) \<Rightarrow> goerr option \<Rightarrow> int \<Rightarrow> ContextStore \<Rightarrow> Principal \<Rightarrow> MemoryCandidate \<Rightarrow> (goerr + string \<times> MemoryCandidate) \<times> ContextStore" where
  "SubmitCandidate recoverable ctx now s prin candidate =
     (let key = (pr_ProjectID prin, pr_TaskID prin); record = newCandidateRecord now s prin candidate in
      case first_err
        [ctx, contextRequireTool prin ToolAgentSubmitMemoryCandidate (pr_ProjectID prin),
         fail_if (pr_TaskID prin = '''') (InvalidArgument ''task_id is required''),
         validateMemoryCandidate recoverable candidate,
         fail_if (memoryState s key = TaskMemoryFrozenUnreviewed \<or> memoryState s key = TaskMemoryReviewed) (TransitionRejected ''task memory is frozen''),
         validateCandidateNodeRefsLocked s prin (mm_SourceRefs candidate),
         rejectTaskMembership (cx_subgraphs s) (mm_SubgraphIDs candidate)] of
        Some e \<Rightarrow> (Inl e, s)
      | None \<Rightarrow> (Inr (cb_CandidateID record, candidate), s\<lparr>cx_candidates := mput key (candidatesOf s key @ [record]) (cx_candidates s)\<rparr>))"

section \<open>Review\<close>

definition zeroReceipt :: TaskMemoryReviewReceipt where
  "zeroReceipt = \<lparr>rr_TaskID = '''', rr_ReviewedIDs = [], rr_NodeIDs = [], rr_RejectedIDs = []\<rparr>"

definition receiptOf :: "ContextStore \<Rightarrow> ProjectID \<times> TaskID \<Rightarrow> TaskMemoryReviewReceipt" where
  "receiptOf s key = (case mget (cx_reviewReceipts s) key of Some receipt \<Rightarrow> receipt | None \<Rightarrow> zeroReceipt)"

text \<open>The batch is the task and the views of its candidates.\<close>

definition FinalizeTaskMemory ::
  "TaskEndpointResolver option \<Rightarrow> goerr option \<Rightarrow> int \<Rightarrow> ContextStore \<Rightarrow> Principal \<Rightarrow> TaskID \<Rightarrow>
   (goerr + TaskID \<times> (string \<times> MemoryCandidate) list) \<times> ContextStore" where
  "FinalizeTaskMemory resolver ctx now s prin taskID0 =
     (let taskID = (if taskID0 = '''' then pr_TaskID prin else taskID0); key = (pr_ProjectID prin, taskID) in
      case checked (first_err [ctx, contextRequireTool prin ToolContextFinalizeTaskMemory (pr_ProjectID prin),
              fail_if (taskID = '''') (InvalidArgument ''task_id is required'')])
           (case resolver of None \<Rightarrow> Inl noResolver | Some r \<Rightarrow> rs_TaskDone r (pr_ProjectID prin) taskID) of
        Inl e \<Rightarrow> (Inl e, s)
      | Inr done \<Rightarrow>
          if \<not> done then
            (Inl (TransitionRejected ''task memory can only be finalized after done''),
             s\<lparr>cx_audit := cx_audit s @ [auditOf s now prin ''context.task_memory.finalize_rejected'' taskID]\<rparr>)
          else if memoryState s key = TaskMemoryReviewed then (Inr (rr_TaskID (receiptOf s key), candidateView (candidatesOf s key)), s)
          else
            (Inr (taskID, candidateView (candidatesOf s key)),
             if memoryState s key = '''' \<or> memoryState s key = TaskMemoryOpen
             then s\<lparr>cx_taskMemory := mput key TaskMemoryFrozenUnreviewed (cx_taskMemory s)\<rparr> else s))"

definition normalizeReviewDecision :: "CandidateBufferRecord \<Rightarrow> CandidateReviewDecision \<Rightarrow> CandidateReviewDecision" where
  "normalizeReviewDecision record decision = decision
     \<lparr>rd_Statement := (if rd_Statement decision = '''' then mm_Statement (cb_Candidate record) else rd_Statement decision),
      rd_Kind := (if rd_Kind decision = '''' then mm_Kind (cb_Candidate record) else rd_Kind decision),
      rd_SubgraphIDs := (if rd_SubgraphIDs decision = [] then mm_SubgraphIDs (cb_Candidate record) else rd_SubgraphIDs decision)\<rparr>"

definition validateReviewDecision :: "Principal \<Rightarrow> ContextStore \<Rightarrow> CandidateReviewDecision \<Rightarrow> goerr option" where
  "validateReviewDecision prin w decision =
     (if rd_Action decision \<notin> set [''create'', ''revise'', ''supersede'', ''dispute'', ''reject''] then Some (InvalidArgument ''review action is not allowed'')
      else if rd_Action decision = ''reject'' then None
      else first_err
        [validateNodeKind (rd_Kind decision),
         rejectTaskMembership (cx_subgraphs w) (rd_SubgraphIDs decision),
         check_all (\<lambda>i. fail_if (\<not> (case mget (cx_subgraphs w) i of None \<Rightarrow> False
             | Some subgraph \<Rightarrow> canSeeSubgraph prin subgraph \<and> sg_Kind (sgr_Subgraph subgraph) = SubgraphKindGeneral))
           (notFound ''general subgraph not found'')) (rd_SubgraphIDs decision),
         if rd_Action decision = ''create'' then None
         else if rd_TargetNodeID decision = '''' then Some (InvalidArgument ''target_node_id is required'')
         else (case mget (cx_nodes w) (rd_TargetNodeID decision) of
            None \<Rightarrow> Some (notFound ''target node not found'')
          | Some target \<Rightarrow> first_err
              [fail_if (nr_ProjectID target \<noteq> pr_ProjectID prin \<or> \<not> canSeeNode prin (cx_subgraphs w) target) (notFound ''target node not found''),
               rejectTaskMembership (cx_subgraphs w) (nd_SubgraphIDs (nr_Node target))])])"

text \<open>\<open>candidates[record.CandidateID] = record\<close>, in the order of the batch.\<close>

definition candidateMap :: "CandidateBufferRecord list \<Rightarrow> (string, CandidateBufferRecord) gomap" where
  "candidateMap records = fold (\<lambda>record. mput (cb_CandidateID record) record) records []"

text \<open>The first pass: every decision is for another candidate of the batch and is valid.\<close>

fun checkDecisions ::
  "Principal \<Rightarrow> ContextStore \<Rightarrow> (string, CandidateBufferRecord) gomap \<Rightarrow> string list \<Rightarrow> CandidateReviewDecision list \<Rightarrow> goerr + CandidateReviewDecision list" where
  "checkDecisions prin w candidates seen [] = Inr []"
| "checkDecisions prin w candidates seen (decision # decisions) =
     (if rd_CandidateID decision \<in> set seen then Inl (InvalidArgument ''duplicate candidate review decision'')
      else case mget candidates (rd_CandidateID decision) of
        None \<Rightarrow> Inl (InvalidArgument ''review decision references candidate outside frozen batch'')
      | Some record \<Rightarrow>
          let normal = normalizeReviewDecision record decision in
          checked (validateReviewDecision prin w normal)
            (and_then (checkDecisions prin w candidates (rd_CandidateID decision # seen) decisions) (\<lambda>rest. Inr (normal # rest))))"

definition reviewStatus :: "string \<Rightarrow> NodeStatus" where
  "reviewStatus action = (if action = ''dispute'' then NodeStatusDisputed else NodeStatusAccepted)"

definition targetStatus :: "string \<Rightarrow> NodeStatus" where
  "targetStatus action = (if action = ''supersede'' then NodeStatusSuperseded else if action = ''dispute'' then NodeStatusDisputed else NodeStatusOutdated)"

definition retireTarget :: "Principal \<Rightarrow> CandidateReviewDecision \<Rightarrow> ContextStore \<Rightarrow> ContextStore" where
  "retireTarget prin decision w =
     (if rd_TargetNodeID decision = '''' then w
      else case mget (cx_nodes w) (rd_TargetNodeID decision) of
        None \<Rightarrow> w
      | Some target \<Rightarrow>
          if nr_ProjectID target \<noteq> pr_ProjectID prin then w
          else w\<lparr>cx_nodes := mput (rd_TargetNodeID decision) (target\<lparr>nr_Node := (nr_Node target)\<lparr>nd_Status := targetStatus (rd_Action decision)\<rparr>,
                 nr_Revision := nr_Revision target + 1\<rparr>) (cx_nodes w)\<rparr>)"

definition reviewNode :: "Principal \<Rightarrow> CandidateReviewDecision \<Rightarrow> string list \<Rightarrow> string \<Rightarrow> ContextNode" where
  "reviewNode prin decision refs i = normalizeNode
     \<lparr>nd_ID = i, nd_Kind = rd_Kind decision, nd_Statement = rd_Statement decision, nd_Status = reviewStatus (rd_Action decision),
      nd_SubgraphIDs = rd_SubgraphIDs decision, nd_SourceRefs = uniqueStrings (refs @ [''candidate:'' @ rd_CandidateID decision]),
      nd_CreatorAgentID = pr_ActorPrincipalID prin\<rparr>"

text \<open>One decision: the identifier of its node, when it makes one.\<close>

definition applyDecision ::
  "int \<Rightarrow> Principal \<Rightarrow> (string, CandidateBufferRecord) gomap \<Rightarrow> CandidateReviewDecision \<Rightarrow> ContextStore \<Rightarrow> goerr + string option \<times> ContextStore" where
  "applyDecision now prin candidates decision w =
     (let topic = ''context.candidate_review.'' @ rd_Action decision in
      if rd_Action decision = ''reject'' then
        and_then (appendMutationEvents w now prin topic topic (rd_CandidateID decision) (PayloadDecision decision)) (\<lambda>w1. Inr (None, w1))
      else
        let w1 = nextSequence w; i = ''review-node-'' @ dec (unat (cx_nextSeq w1));
            refs = (case mget candidates (rd_CandidateID decision) of Some record \<Rightarrow> mm_SourceRefs (cb_Candidate record) | None \<Rightarrow> []);
            node = reviewNode prin decision refs i;
            w2 = retireTarget prin decision (bumpSubgraphs now (nd_SubgraphIDs node) (putNode (newNodeRecord now prin w1 node) w1)) in
        and_then (appendMutationEvents w2 now prin topic topic i (PayloadNode node)) (\<lambda>w3. Inr (Some i, w3)))"

fun applyDecisions ::
  "int \<Rightarrow> Principal \<Rightarrow> (string, CandidateBufferRecord) gomap \<Rightarrow> CandidateReviewDecision list \<Rightarrow> ContextStore \<Rightarrow> goerr + string list \<times> ContextStore" where
  "applyDecisions now prin candidates [] w = Inr ([], w)"
| "applyDecisions now prin candidates (decision # decisions) w =
     and_then (applyDecision now prin candidates decision w) (\<lambda>(i, w1).
       and_then (applyDecisions now prin candidates decisions w1) (\<lambda>(ids, w2). Inr ((case i of None \<Rightarrow> ids | Some j \<Rightarrow> j # ids), w2)))"

definition reviewChangedSubgraphs :: "ContextStore \<Rightarrow> string list \<Rightarrow> string list" where
  "reviewChangedSubgraphs w nodeIDs = sortedStringSet (concat (map (\<lambda>i. case mget (cx_nodes w) i of
     None \<Rightarrow> [] | Some record \<Rightarrow> nd_SubgraphIDs (nr_Node record)) nodeIDs))"

definition reviewFrozenBatch ::
  "int \<Rightarrow> ContextStore \<Rightarrow> Principal \<Rightarrow> CandidateReviewDecision list \<Rightarrow> goerr + TaskMemoryReviewReceipt \<times> ContextStore" where
  "reviewFrozenBatch now w prin decisions0 =
     (let records = candidatesOf w (pr_ProjectID prin, pr_TaskID prin); candidates = candidateMap records in
      checked (fail_if (length decisions0 \<noteq> length records) (InvalidArgument ''review decisions must cover frozen batch exactly once''))
      (and_then (checkDecisions prin w candidates [] decisions0) (\<lambda>decisions.
       and_then (applyDecisions now prin candidates decisions w) (\<lambda>(nodeIDs, w1).
         Inr (\<lparr>rr_TaskID = pr_TaskID prin, rr_ReviewedIDs = sort (map rd_CandidateID decisions), rr_NodeIDs = nodeIDs,
               rr_RejectedIDs = sort (map rd_CandidateID (filter (\<lambda>decision. rd_Action decision = ''reject'') decisions))\<rparr>,
              let w2 = w1\<lparr>cx_graphRevision := cx_graphRevision w1 + 1\<rparr> in
              appendContextDeltas w2 prin (lastOutboxID w2) ''context.candidate_review.reviewed'' (reviewChangedSubgraphs w2 nodeIDs))))))"

definition SubmitReview ::
  "goerr option \<Rightarrow> int \<Rightarrow> ContextStore \<Rightarrow> Principal \<Rightarrow> CandidateReviewDecision list \<Rightarrow> (goerr + TaskMemoryReviewReceipt) \<times> ContextStore" where
  "SubmitReview ctx now s prin decisions =
     (let key = (pr_ProjectID prin, pr_TaskID prin) in
      case first_err [ctx, requireContextAgent prin ToolContextSubmitReview (pr_ProjectID prin),
            fail_if (pr_TaskID prin = '''') (InvalidArgument ''task_id is required for candidate review'')] of
        Some e \<Rightarrow> (Inl e, s)
      | None \<Rightarrow>
          if memoryState s key = TaskMemoryReviewed then (Inr (receiptOf s key), s)
          else if memoryState s key \<noteq> TaskMemoryFrozenUnreviewed then (Inl (TransitionRejected ''task memory batch is not frozen''), s)
          else (case reviewFrozenBatch now s prin decisions of
             Inl e \<Rightarrow> (Inl e, s)
           | Inr (receipt, w) \<Rightarrow>
               (Inr receipt, w\<lparr>cx_taskMemory := mput key TaskMemoryReviewed (cx_taskMemory w), cx_reviewReceipts := mput key receipt (cx_reviewReceipts w)\<rparr>)))"

section \<open>Snapshot\<close>

record ContextSnapshotNode =
  sn_NodeID :: string
  sn_Kind :: NodeKind
  sn_Statement :: string
  sn_Status :: NodeStatus
  sn_SourceRefs :: "string list"
  sn_SubgraphIDs :: "string list"
  sn_UsageCount :: nat
  sn_LastUsedAt :: "int option"

record ContextSnapshotSubgraph =
  ss_SubgraphID :: string
  ss_Name :: string
  ss_Summary :: string
  ss_Revision :: Revision
  ss_Kind :: SubgraphKind
  ss_TaskID :: TaskID

record ContextGraphSnapshot =
  gs_ProjectID :: ProjectID
  gs_Revision :: Revision
  gs_Nodes :: "ContextSnapshotNode list"
  gs_Edges :: "ContextEdge list"
  gs_Subgraphs :: "ContextSnapshotSubgraph list"

text \<open>How many initial slices of the project have the node.\<close>

definition usageCount :: "ContextStore \<Rightarrow> ProjectID \<Rightarrow> string \<Rightarrow> nat" where
  "usageCount s projectID i = (if i = '''' then 0 else
     length (filter (\<lambda>((project, _), slice). project = projectID \<and> i \<in> set (map nd_ID (sl_Nodes slice))) (cx_initialSlices s)))"

definition snapshotNode :: "int \<Rightarrow> ContextNode \<Rightarrow> nat \<Rightarrow> ContextSnapshotNode" where
  "snapshotNode now node used =
     \<lparr>sn_NodeID = nd_ID node, sn_Kind = nd_Kind node, sn_Statement = nd_Statement node, sn_Status = nd_Status node, sn_SourceRefs = nd_SourceRefs node,
      sn_SubgraphIDs = nd_SubgraphIDs node, sn_UsageCount = used, sn_LastUsedAt = (if used = 0 then None else Some now)\<rparr>"

definition snapshotSubgraph :: "SubgraphRecord \<Rightarrow> ContextSnapshotSubgraph" where
  "snapshotSubgraph record =
     \<lparr>ss_SubgraphID = sg_ID (sgr_Subgraph record), ss_Name = sg_Name (sgr_Subgraph record), ss_Summary = sg_Summary (sgr_Subgraph record),
      ss_Revision = sg_Revision (sgr_Subgraph record), ss_Kind = sg_Kind (sgr_Subgraph record), ss_TaskID = sgr_TaskID record\<rparr>"

definition snapshotFromRefVisible :: "string \<Rightarrow> string list \<Rightarrow> string list \<Rightarrow> bool" where
  "snapshotFromRefVisible fromRef nodes subgraphs \<longleftrightarrow>
     (if length fromRef > 5 \<and> HasPrefix fromRef ''node:'' then drop 5 fromRef \<in> set nodes
      else length fromRef > 9 \<and> HasPrefix fromRef ''subgraph:'' \<and> drop 9 fromRef \<in> set subgraphs)"

definition ProjectContextSnapshot :: "goerr option \<Rightarrow> int \<Rightarrow> ContextStore \<Rightarrow> ProjectID \<Rightarrow> goerr + ContextGraphSnapshot" where
  "ProjectContextSnapshot ctx now s projectID =
     checked (first_err [ctx, RequireID ''project_id'' projectID])
     (let records = filter (\<lambda>record. nr_ProjectID record = projectID) (sortedNodesLocked s);
          subgraphs = filter (\<lambda>record. sgr_ProjectID record = projectID) (mvalues (cx_subgraphs s));
          nodeIDs = map (\<lambda>record. nd_ID (nr_Node record)) records; subgraphIDs = map (\<lambda>record. sg_ID (sgr_Subgraph record)) subgraphs in
      Inr \<lparr>gs_ProjectID = projectID, gs_Revision = cx_graphRevision s,
           gs_Nodes = map (\<lambda>record. snapshotNode now (nr_Node record) (usageCount s projectID (nd_ID (nr_Node record)))) records,
           gs_Edges = filter (\<lambda>edge. ce_ToNodeID edge \<in> set nodeIDs \<and> snapshotFromRefVisible (ce_FromRef edge) nodeIDs subgraphIDs) (sortedEdgesLocked s),
           gs_Subgraphs = sort_by (\<lambda>a b. ss_SubgraphID a < ss_SubgraphID b) (map snapshotSubgraph subgraphs)\<rparr>)"

end
