(* ===== verification/Context_Inv.thy ===== *)
theory Context_Inv
  imports Context_Memory
begin

text \<open>
  The invariant of the context graph's store. \<open>graph_wf\<close>: nodes and subgraphs have valid kinds, every subgraph of a node exists and is of the
  node's project, and a node belongs either to general subgraphs only or to task subgraphs only. \<open>numbered\<close>:
  subscriptions and deltas are numbered without gaps, so that a new number is always free. The locale
  \<open>context_operation\<close> is the contract of an operation of the store; every operation is an instance of it.
\<close>

section \<open>Nodes and subgraphs\<close>

abbreviation node_kinds :: "NodeKind set" where "node_kinds \<equiv> {NodeKindDirective, NodeKindFact, NodeKindHypothesis}"
abbreviation node_statuses :: "NodeStatus set" where
  "node_statuses \<equiv> {NodeStatusAccepted, NodeStatusDisputed, NodeStatusSuperseded, NodeStatusOutdated}"

definition in_kind :: "(string, SubgraphRecord) gomap \<Rightarrow> ProjectID \<Rightarrow> SubgraphKind \<Rightarrow> string \<Rightarrow> bool" where
  "in_kind G project kind j \<longleftrightarrow> (\<exists>g. mget G j = Some g \<and> sgr_ProjectID g = project \<and> sg_Kind (sgr_Subgraph g) = kind)"

definition node_wf :: "(string, SubgraphRecord) gomap \<Rightarrow> string \<Rightarrow> NodeRecord \<Rightarrow> bool" where
  "node_wf G i r \<longleftrightarrow> nd_ID (nr_Node r) = i \<and> nd_Kind (nr_Node r) \<in> node_kinds \<and> nd_Status (nr_Node r) \<in> node_statuses
     \<and> ((\<forall>j \<in> set (nd_SubgraphIDs (nr_Node r)). in_kind G (nr_ProjectID r) SubgraphKindGeneral j)
        \<or> (\<forall>j \<in> set (nd_SubgraphIDs (nr_Node r)). in_kind G (nr_ProjectID r) SubgraphKindTask j))"

definition subgraph_wf :: "string \<Rightarrow> SubgraphRecord \<Rightarrow> bool" where
  "subgraph_wf i g \<longleftrightarrow> sg_ID (sgr_Subgraph g) = i
     \<and> (sg_Kind (sgr_Subgraph g) = SubgraphKindGeneral \<and> sgr_TaskID g = '''' \<or> sg_Kind (sgr_Subgraph g) = SubgraphKindTask \<and> sgr_TaskID g \<noteq> '''')"

definition graph_wf :: "(string, NodeRecord) gomap \<Rightarrow> (string, SubgraphRecord) gomap \<Rightarrow> bool" where
  "graph_wf N G \<longleftrightarrow> mwf N \<and> mwf G \<and> (\<forall>i r. mget N i = Some r \<longrightarrow> node_wf G i r) \<and> (\<forall>j g. mget G j = Some g \<longrightarrow> subgraph_wf j g)"

lemma graph_wfD: "graph_wf N G \<Longrightarrow> mget N i = Some r \<Longrightarrow> node_wf G i r" "graph_wf N G \<Longrightarrow> mget G j = Some g \<Longrightarrow> subgraph_wf j g"
  by (auto simp: graph_wf_def)

text \<open>A subgraph may be replaced by one of the same project and kind.\<close>

lemma node_wf_mono:
  assumes "node_wf G i r" "\<And>project kind j. in_kind G project kind j \<Longrightarrow> in_kind G' project kind j"
  shows "node_wf G' i r"
  using assms unfolding node_wf_def by blast

lemma graph_wf_put_subgraph:
  assumes "graph_wf N G" "subgraph_wf j g"
    and "\<And>old. mget G j = Some old \<Longrightarrow> sgr_ProjectID old = sgr_ProjectID g \<and> sg_Kind (sgr_Subgraph old) = sg_Kind (sgr_Subgraph g)"
  shows "graph_wf N (mput j g G)"
proof -
  have "in_kind G project kind k \<Longrightarrow> in_kind (mput j g G) project kind k" for project kind k
    using assms(3) by (auto simp: in_kind_def gomap_simps)
  then have "node_wf (mput j g G) i r" if "mget N i = Some r" for i r using node_wf_mono graph_wfD(1)[OF assms(1) that] by blast
  then show ?thesis using assms(1,2) by (auto simp: graph_wf_def gomap_simps)
qed

lemma graph_wf_put_node: "graph_wf N G \<Longrightarrow> node_wf G i r \<Longrightarrow> graph_wf (mput i r N) G"
  by (auto simp: graph_wf_def gomap_simps)

lemma graph_wf_del_node: "graph_wf N G \<Longrightarrow> graph_wf (mdel i N) G"
  by (auto simp: graph_wf_def gomap_simps)

lemma mget_map_values: "mget (map (\<lambda>(k, v). (k, f k v)) m) k = map_option (f k) (mget m k)"
  by (induction m) auto

lemma mwf_map_values: "mwf (map (\<lambda>(k, v). (k, f k v)) m) = mwf m"
  by (simp add: mwf_def case_prod_beta comp_def)

lemma graph_wf_map_nodes:
  assumes "graph_wf N G" "\<And>i r. mget N i = Some r \<Longrightarrow> node_wf G i r \<Longrightarrow> node_wf G' i (f i r)" "mwf G'" "\<And>j g. mget G' j = Some g \<Longrightarrow> subgraph_wf j g"
  shows "graph_wf (map (\<lambda>(i, r). (i, f i r)) N) G'"
  using assms by (auto simp: graph_wf_def mget_map_values mwf_map_values)

section \<open>Numbered maps\<close>

definition numbered :: "string \<Rightarrow> (string, 'v) gomap \<Rightarrow> bool" where
  "numbered pre m \<longleftrightarrow> mwf m \<and> (\<forall>i. mget m i \<noteq> None \<longleftrightarrow> (\<exists>k. 1 \<le> k \<and> k \<le> length m \<and> i = pre @ dec k))"

lemma numbered_Nil [simp]: "numbered pre []"
  by (simp add: numbered_def)

lemma numbered_fresh: "numbered pre m \<Longrightarrow> mget m (pre @ dec (length m + 1)) = None"
proof (rule ccontr)
  assume "numbered pre m" "mget m (pre @ dec (length m + 1)) \<noteq> None"
  then obtain k where "k \<le> length m" "pre @ dec (length m + 1) = pre @ dec k" unfolding numbered_def by blast
  then show False by (simp add: dec_inj)
qed

lemma mput_new: "mget m k = None \<Longrightarrow> mput k v m = m @ [(k, v)]"
  by (induction m) (auto split: if_splits)

lemma numbered_put:
  assumes "numbered pre m"
  shows "numbered pre (mput (pre @ dec (length m + 1)) v m)"
proof -
  let ?i = "pre @ dec (length m + 1)"
  have "length (mput ?i v m) = length m + 1" using mput_new[OF numbered_fresh[OF assms], of v] by simp
  moreover have "mget (mput ?i v m) i \<noteq> None \<longleftrightarrow> (\<exists>k. 1 \<le> k \<and> k \<le> length m + 1 \<and> i = pre @ dec k)" for i
    using assms unfolding numbered_def by (auto simp: gomap_simps le_Suc_eq)
  ultimately show ?thesis using assms by (simp add: numbered_def)
qed

lemma length_mput_old: "mget m k \<noteq> None \<Longrightarrow> length (mput k v m) = length m"
  by (induction m) (auto split: if_splits)

lemma numbered_replace: "numbered pre m \<Longrightarrow> mget m i \<noteq> None \<Longrightarrow> numbered pre (mput i v m)"
  using length_mput_old[of m i v] by (auto simp: numbered_def gomap_simps)

lemma numbered_map: "numbered pre m \<Longrightarrow> numbered pre (map (\<lambda>(k, v). (k, f k v)) m)"
  by (auto simp: numbered_def mget_map_values mwf_map_values)

section \<open>The invariant\<close>

definition keyed :: "('v \<Rightarrow> string) \<Rightarrow> (string, 'v) gomap \<Rightarrow> bool" where
  "keyed key m \<longleftrightarrow> (\<forall>i v. mget m i = Some v \<longrightarrow> key v = i)"

definition subscriptions_ok :: "ContextStore \<Rightarrow> bool" where
  "subscriptions_ok s \<longleftrightarrow> numbered ''sub-'' (cx_subscriptions s) \<and> keyed (\<lambda>r. cs_ID (csr_Subscription r)) (cx_subscriptions s)"

definition deltas_ok :: "ContextStore \<Rightarrow> bool" where
  "deltas_ok s \<longleftrightarrow> numbered ''delta-'' (cx_deltas s) \<and> keyed cd_ID (cx_deltas s) \<and> (\<forall>i. mget (cx_deltaAck s) i \<noteq> None \<longrightarrow> mget (cx_deltas s) i \<noteq> None)"

definition candidate_prefix :: "ProjectID \<times> TaskID \<Rightarrow> string" where
  "candidate_prefix key = ''candidate-'' @ fst key @ ''-'' @ snd key @ ''-''"

definition candidate_ids :: "ProjectID \<times> TaskID \<Rightarrow> nat \<Rightarrow> string list" where
  "candidate_ids key n = map (\<lambda>k. candidate_prefix key @ dec k) [1..<n + 1]"

lemma candidate_ids_Suc: "candidate_ids key (Suc n) = candidate_ids key n @ [candidate_prefix key @ dec (Suc n)]"
  by (simp add: candidate_ids_def)

lemma candidate_ids_distinct: "distinct (candidate_ids key n)"
  by (simp add: candidate_ids_def distinct_map inj_on_def dec_inj)

definition candidates_ok :: "ContextStore \<Rightarrow> bool" where
  "candidates_ok s \<longleftrightarrow> (\<forall>key. map cb_CandidateID (candidatesOf s key) = candidate_ids key (length (candidatesOf s key)))"

definition ctx_inv :: "ContextStore \<Rightarrow> bool" where
  "ctx_inv s \<longleftrightarrow> graph_wf (cx_nodes s) (cx_subgraphs s) \<and> subscriptions_ok s \<and> deltas_ok s \<and> candidates_ok s"

lemma ctx_inv_new: "ctx_inv NewContextStore"
  by (simp add: ctx_inv_def NewContextStore_def graph_wf_def subscriptions_ok_def deltas_ok_def candidates_ok_def keyed_def candidatesOf_def candidate_ids_def)

lemma candidates_distinct: "candidates_ok s \<Longrightarrow> distinct (map cb_CandidateID (candidatesOf s key))"
  unfolding candidates_ok_def using candidate_ids_distinct by metis

text \<open>The parts of the state the invariant does not read.\<close>

lemmas ctx_inv_defs = ctx_inv_def subscriptions_ok_def deltas_ok_def candidates_ok_def candidatesOf_def

lemma ctx_inv_frame [simp]:
  "ctx_inv (s\<lparr>cx_graphRevision := a\<rparr>) = ctx_inv s" "ctx_inv (s\<lparr>cx_nextSeq := b\<rparr>) = ctx_inv s" "ctx_inv (s\<lparr>cx_edges := c\<rparr>) = ctx_inv s"
  "ctx_inv (s\<lparr>cx_initialSlices := d\<rparr>) = ctx_inv s" "ctx_inv (s\<lparr>cx_taskBindings := e\<rparr>) = ctx_inv s" "ctx_inv (s\<lparr>cx_projections := f\<rparr>) = ctx_inv s"
  "ctx_inv (s\<lparr>cx_recipients := g\<rparr>) = ctx_inv s" "ctx_inv (s\<lparr>cx_taskMemory := h\<rparr>) = ctx_inv s" "ctx_inv (s\<lparr>cx_reviewReceipts := i\<rparr>) = ctx_inv s"
  "ctx_inv (s\<lparr>cx_audit := j\<rparr>) = ctx_inv s" "ctx_inv (s\<lparr>cx_outbox := k\<rparr>) = ctx_inv s" "ctx_inv (s\<lparr>cx_failNext := l\<rparr>) = ctx_inv s"
  by (simp_all add: ctx_inv_defs)

lemma ctx_inv_graph: "ctx_inv s \<Longrightarrow> graph_wf N G \<Longrightarrow> ctx_inv (s\<lparr>cx_nodes := N, cx_subgraphs := G\<rparr>)"
  by (simp add: ctx_inv_defs)

lemma ctx_inv_nodes: "ctx_inv s \<Longrightarrow> graph_wf N (cx_subgraphs s) \<Longrightarrow> ctx_inv (s\<lparr>cx_nodes := N\<rparr>)"
  by (simp add: ctx_inv_defs)

lemma ctx_inv_subgraphs: "ctx_inv s \<Longrightarrow> graph_wf (cx_nodes s) G \<Longrightarrow> ctx_inv (s\<lparr>cx_subgraphs := G\<rparr>)"
  by (simp add: ctx_inv_defs)

lemma ctx_invD: "ctx_inv s \<Longrightarrow> graph_wf (cx_nodes s) (cx_subgraphs s)" "ctx_inv s \<Longrightarrow> subscriptions_ok s" "ctx_inv s \<Longrightarrow> deltas_ok s"
  "ctx_inv s \<Longrightarrow> candidates_ok s"
  by (simp_all add: ctx_inv_def)

section \<open>The contract of an operation\<close>

text \<open>The task memory: candidates, their state and the receipts of reviews.\<close>

definition memory_of :: "ContextStore \<Rightarrow> (ProjectID \<times> TaskID, CandidateBufferRecord list) gomap \<times> (ProjectID \<times> TaskID, TaskMemoryReviewState) gomap
    \<times> (ProjectID \<times> TaskID, TaskMemoryReviewReceipt) gomap" where
  "memory_of s = (cx_candidates s, cx_taskMemory s, cx_reviewReceipts s)"

lemma memory_frame [simp]:
  "memory_of (s\<lparr>cx_graphRevision := a\<rparr>) = memory_of s" "memory_of (s\<lparr>cx_nextSeq := b\<rparr>) = memory_of s" "memory_of (s\<lparr>cx_edges := c\<rparr>) = memory_of s"
  "memory_of (s\<lparr>cx_initialSlices := d\<rparr>) = memory_of s" "memory_of (s\<lparr>cx_taskBindings := e\<rparr>) = memory_of s"
  "memory_of (s\<lparr>cx_projections := f\<rparr>) = memory_of s" "memory_of (s\<lparr>cx_recipients := g\<rparr>) = memory_of s" "memory_of (s\<lparr>cx_nodes := h\<rparr>) = memory_of s"
  "memory_of (s\<lparr>cx_subgraphs := i\<rparr>) = memory_of s" "memory_of (s\<lparr>cx_audit := j\<rparr>) = memory_of s" "memory_of (s\<lparr>cx_outbox := k\<rparr>) = memory_of s"
  "memory_of (s\<lparr>cx_subscriptions := l\<rparr>) = memory_of s" "memory_of (s\<lparr>cx_deltas := m\<rparr>) = memory_of s" "memory_of (s\<lparr>cx_deltaAck := n\<rparr>) = memory_of s"
  "memory_of (s\<lparr>cx_failNext := x\<rparr>) = memory_of s"
  by (simp_all add: memory_of_def)

text \<open>
  The subscriptions, the deltas and their acknowledgements. Deltas stay as they are, an acknowledgement
  stays, and a subscription stays what it was but for its end.
\<close>

type_synonym delta_log = "(string, ContextSubscriptionRecord) gomap \<times> (string, ContextDelta) gomap \<times> (string, bool) gomap"

definition log_of :: "ContextStore \<Rightarrow> delta_log" where
  "log_of s = (cx_subscriptions s, cx_deltas s, cx_deltaAck s)"

definition same_scope :: "ContextSubscriptionRecord \<Rightarrow> ContextSubscriptionRecord \<Rightarrow> bool" where
  "same_scope r r' \<longleftrightarrow> csr_Subscription r' = csr_Subscription r \<and> csr_ProjectID r' = csr_ProjectID r \<and> csr_TaskID r' = csr_TaskID r
     \<and> (csr_Active r' \<longrightarrow> csr_Active r)"

fun log_kept :: "delta_log \<Rightarrow> delta_log \<Rightarrow> bool" where
  "log_kept (S, D, A) (S', D', A') \<longleftrightarrow> (\<forall>i d. mget D i = Some d \<longrightarrow> mget D' i = Some d) \<and> (\<forall>i. mget A i = Some True \<longrightarrow> mget A' i = Some True)
     \<and> (\<forall>i r. mget S i = Some r \<longrightarrow> (\<exists>r'. mget S' i = Some r' \<and> same_scope r r'))"

lemma log_kept_refl [simp]: "log_kept l l"
  by (cases l) (auto simp: same_scope_def)

lemma log_kept_trans [trans]: "log_kept l l' \<Longrightarrow> log_kept l' l'' \<Longrightarrow> log_kept l l''"
  by (cases l; cases l'; cases l'') (fastforce simp: same_scope_def)

lemma log_keptD:
  assumes "log_kept (log_of s) (log_of t)"
  shows "mget (cx_deltas s) i = Some d \<Longrightarrow> mget (cx_deltas t) i = Some d"
    and "mget (cx_deltaAck s) i = Some True \<Longrightarrow> mget (cx_deltaAck t) i = Some True"
    and "mget (cx_subscriptions s) i = Some r \<Longrightarrow> \<exists>r'. mget (cx_subscriptions t) i = Some r' \<and> same_scope r r'"
  using assms by (simp_all add: log_of_def)

lemma log_frame [simp]:
  "log_of (s\<lparr>cx_graphRevision := a\<rparr>) = log_of s" "log_of (s\<lparr>cx_nextSeq := b\<rparr>) = log_of s" "log_of (s\<lparr>cx_edges := c\<rparr>) = log_of s"
  "log_of (s\<lparr>cx_initialSlices := d\<rparr>) = log_of s" "log_of (s\<lparr>cx_taskBindings := e\<rparr>) = log_of s"
  "log_of (s\<lparr>cx_projections := f\<rparr>) = log_of s" "log_of (s\<lparr>cx_recipients := g\<rparr>) = log_of s" "log_of (s\<lparr>cx_nodes := h\<rparr>) = log_of s"
  "log_of (s\<lparr>cx_subgraphs := i\<rparr>) = log_of s" "log_of (s\<lparr>cx_audit := j\<rparr>) = log_of s" "log_of (s\<lparr>cx_outbox := k\<rparr>) = log_of s"
  "log_of (s\<lparr>cx_candidates := l\<rparr>) = log_of s" "log_of (s\<lparr>cx_taskMemory := m\<rparr>) = log_of s" "log_of (s\<lparr>cx_reviewReceipts := n\<rparr>) = log_of s"
  "log_of (s\<lparr>cx_failNext := x\<rparr>) = log_of s"
  by (simp_all add: log_of_def)

text \<open>What a change of the graph keeps.\<close>

definition ctx_ok :: "ContextStore \<Rightarrow> ContextStore \<Rightarrow> bool" where
  "ctx_ok s t \<longleftrightarrow> ctx_inv t \<and> memory_of t = memory_of s \<and> log_kept (log_of s) (log_of t)"

lemma ctx_ok_refl [intro]: "ctx_inv s \<Longrightarrow> ctx_ok s s"
  by (simp add: ctx_ok_def)

lemma ctx_ok_trans [trans]: "ctx_ok s t \<Longrightarrow> ctx_ok t u \<Longrightarrow> ctx_ok s u"
  by (auto simp: ctx_ok_def elim: log_kept_trans)

lemma ctx_okD: "ctx_ok s t \<Longrightarrow> ctx_inv t" "ctx_ok s t \<Longrightarrow> memory_of t = memory_of s" "ctx_ok s t \<Longrightarrow> log_kept (log_of s) (log_of t)"
  by (simp_all add: ctx_ok_def)

locale context_operation =
  fixes run :: "ContextStore \<Rightarrow> 'r \<times> ContextStore"
  assumes keeps_inv: "ctx_inv s \<Longrightarrow> run s = (r, t) \<Longrightarrow> ctx_inv t"
    and keeps_log: "ctx_inv s \<Longrightarrow> run s = (r, t) \<Longrightarrow> log_kept (log_of s) (log_of t)"
begin

lemma run_inv: "ctx_inv s \<Longrightarrow> ctx_inv (snd (run s))"
  using keeps_inv[OF _ prod.collapse[symmetric]] .

lemma run_log: "ctx_inv s \<Longrightarrow> log_kept (log_of s) (log_of (snd (run s)))"
  using keeps_log[OF _ prod.collapse[symmetric]] .

end

text \<open>An operation on the graph leaves the task memory alone.\<close>

locale graph_operation =
  fixes run :: "ContextStore \<Rightarrow> 'r \<times> ContextStore"
  assumes run_ok: "ctx_inv s \<Longrightarrow> run s = (r, t) \<Longrightarrow> ctx_ok s t"
begin

lemma memory_kept: "ctx_inv s \<Longrightarrow> memory_of (snd (run s)) = memory_of s"
  using ctx_okD(2)[OF run_ok[OF _ prod.collapse[symmetric]]] .

end

sublocale graph_operation \<subseteq> context_operation run
  by unfold_locales (rule ctx_okD(1)[OF run_ok] ctx_okD(3)[OF run_ok], assumption+)+

section \<open>Shared steps\<close>

lemma appendMutationEvents_ok:
  assumes "appendMutationEvents w now prin action topic subject payload = Inr t"
  obtains a b where "t = w\<lparr>cx_audit := a, cx_outbox := b\<rparr>"
  using assms that by (auto simp: appendMutationEvents_def appendContextAudit_def appendContextOutbox_def check_simps split: if_splits)

lemma deltas_ok_put:
  assumes "deltas_ok w" "i = ''delta-'' @ dec (length (cx_deltas w) + 1)" "cd_ID d = i"
  shows "deltas_ok (w\<lparr>cx_deltas := mput i d (cx_deltas w)\<rparr>)"
  using assms numbered_put[of "''delta-''" "cx_deltas w" d] by (auto simp: deltas_ok_def keyed_def gomap_simps)

lemma deltaLoop_ok: "ctx_inv w \<Longrightarrow> ctx_ok w (snd (deltaLoop prin eventID kind ids records w))"
proof (induction prin eventID kind ids records w rule: deltaLoop.induct)
  case (2 prin eventID eventKind ids entry records w)
  let ?d = "newDelta w prin eventID eventKind ids entry"
  let ?w = "w\<lparr>cx_deltas := mput (cd_ID ?d) ?d (cx_deltas w)\<rparr>"
  have "deltas_ok ?w" using deltas_ok_put[of w "cd_ID ?d" ?d] ctx_invD(3)[OF "2.prems"] by (simp add: newDelta_def)
  then have "ctx_inv ?w" using "2.prems" by (simp add: ctx_inv_def subscriptions_ok_def candidates_ok_def candidatesOf_def)
  moreover have "mget (cx_deltas w) (cd_ID ?d) = None"
    using numbered_fresh[of "''delta-''" "cx_deltas w"] ctx_invD(3)[OF "2.prems"] by (simp add: newDelta_def deltas_ok_def)
  then have "log_kept (log_of w) (log_of ?w)" by (auto simp: log_of_def gomap_simps same_scope_def)
  ultimately have "ctx_ok w ?w" by (simp add: ctx_ok_def)
  with 2 \<open>ctx_inv ?w\<close> show ?case using ctx_ok_trans by (auto simp: Let_def)
qed auto

lemma appendContextDeltas_ok: "ctx_inv w \<Longrightarrow> ctx_ok w (appendContextDeltas w prin eventID kind ids)"
  unfolding appendContextDeltas_def by (rule deltaLoop_ok)

lemma commitContext_ok: "ctx_inv w \<Longrightarrow> ctx_ok w (commitContext w prin kind ids)"
  using appendContextDeltas_ok[of "w\<lparr>cx_graphRevision := cx_graphRevision w + 1\<rparr>"] by (simp add: commitContext_def Let_def ctx_ok_def)

text \<open>A mutation whose graph is in order is in order when it is committed.\<close>

lemma mutation_ok:
  assumes "ctx_ok s w" "appendMutationEvents w now prin action topic subject payload = Inr w1"
  shows "ctx_ok s (commitContext w1 prin' kind ids)"
proof -
  obtain a b where w1: "w1 = w\<lparr>cx_audit := a, cx_outbox := b\<rparr>" by (rule appendMutationEvents_ok[OF assms(2)])
  have "ctx_ok s w1" using assms(1) by (simp add: w1 ctx_ok_def)
  then show ?thesis using ctx_ok_trans commitContext_ok ctx_okD(1) by blast
qed

lemma committed_iff: "committed s r = (x, t) \<longleftrightarrow> (\<exists>e. r = Inl e \<and> x = Inl e \<and> t = s) \<or> (\<exists>a. r = Inr (a, t) \<and> x = Inr a)"
  by (auto simp: committed_def split: sum.splits)

text \<open>The subgraphs of a node may be bumped: they exist.\<close>

lemma bumpSubgraph_ok:
  assumes "ctx_inv w" "mget (cx_subgraphs w) i = Some g"
  shows "ctx_ok w (bumpSubgraph now i w)"
proof -
  have "graph_wf (cx_nodes w) (cx_subgraphs (bumpSubgraph now i w))"
    unfolding bumpSubgraph_def using assms graph_wfD(2)[OF ctx_invD(1)[OF assms(1)] assms(2)]
    by (auto simp: Let_def subgraph_wf_def intro!: graph_wf_put_subgraph ctx_invD)
  from ctx_inv_subgraphs[OF assms(1) this] show ?thesis by (simp add: ctx_ok_def bumpSubgraph_def Let_def)
qed

lemma bumpSubgraphs_ok: "ctx_inv w \<Longrightarrow> \<forall>i \<in> set ids. mget (cx_subgraphs w) i \<noteq> None \<Longrightarrow> ctx_ok w (bumpSubgraphs now ids w)"
proof (induction ids arbitrary: w)
  case (Cons i ids)
  then obtain g where "mget (cx_subgraphs w) i = Some g" by auto
  then have "ctx_ok w (bumpSubgraph now i w)" using bumpSubgraph_ok Cons.prems(1) by blast
  moreover from this have "ctx_ok (bumpSubgraph now i w) (bumpSubgraphs now ids (bumpSubgraph now i w))"
    using Cons by (auto intro!: Cons.IH ctx_okD(1) simp: bumpSubgraph_def Let_def gomap_simps)
  ultimately show ?case using ctx_ok_trans by (auto simp: bumpSubgraphs_def)
qed (auto simp: bumpSubgraphs_def)

lemma bumpSubgraphs_nodes [simp]: "cx_nodes (bumpSubgraphs now ids w) = cx_nodes w"
  unfolding bumpSubgraphs_def by (induction ids arbitrary: w) (simp_all add: bumpSubgraph_def Let_def)

end
