(* ===== verification/Context_Curator_Inv.thy ===== *)
theory Context_Curator_Inv
  imports Context_Inv
begin

text \<open>
  The operations on nodes, subgraphs, subscriptions and deltas keep the invariant of the context graph and leave the task memory alone:
  each is an instance of \<open>graph_operation\<close>. A search for a free identifier returns.
\<close>

section \<open>Nodes\<close>

lemma set_uniqueStrings [simp]: "set (uniqueStrings xs) = set xs - {''''}"
  by (auto simp: uniqueStrings_def)

lemma set_sortedStringSet [simp]: "set (sortedStringSet xs) = set xs"
  by (simp add: sortedStringSet_def)

lemma changedSubgraphMemberships_sub: "set (changedSubgraphMemberships a b) \<subseteq> set a \<union> set b"
  by (auto simp: changedSubgraphMemberships_def)

lemma in_kind_exists: "in_kind G project kind j \<Longrightarrow> mget G j \<noteq> None"
  by (auto simp: in_kind_def)

lemma node_subgraphs_exist: "node_wf G i r \<Longrightarrow> j \<in> set (nd_SubgraphIDs (nr_Node r)) \<Longrightarrow> mget G j \<noteq> None"
  using in_kind_exists unfolding node_wf_def by blast

lemma canSeeSubgraph_project: "canSeeSubgraph prin g \<Longrightarrow> sgr_ProjectID g = pr_ProjectID prin"
  by (simp add: canSeeSubgraph_def)

lemma validateNodeKind_ok: "validateNodeKind k = None \<longleftrightarrow> k \<in> node_kinds"
  by (simp add: validateNodeKind_def check_simps)

lemma validateNodeStatus_ok: "validateNodeStatus k = None \<longleftrightarrow> k \<in> node_statuses"
  by (simp add: validateNodeStatus_def check_simps)

lemma validateNewNode_wf:
  assumes "validateNewNode prin G node creation = None" "nr_Node r = node" "nr_ProjectID r = pr_ProjectID prin" "nd_ID node = i"
  shows "node_wf G i r"
proof -
  have "in_kind G (pr_ProjectID prin) SubgraphKindGeneral j" if "j \<in> set (nd_SubgraphIDs node)" for j
    using assms(1) that by (auto simp: validateNewNode_def check_simps in_kind_def canSeeSubgraph_def split: option.splits)
  moreover have "nd_Kind node \<in> node_kinds" "nd_Status node \<in> node_statuses"
    using assms(1) by (auto simp: validateNewNode_def validateNodeKind_ok validateNodeStatus_ok check_simps)
  ultimately show ?thesis using assms(2-) by (simp add: node_wf_def)
qed

lemma validateGeneralNode_wf:
  assumes "validateGeneralNode prin G node creation = None" "nr_Node r = node" "nr_ProjectID r = pr_ProjectID prin" "nd_ID node = i"
  shows "node_wf G i r"
proof -
  have "validateNewNode prin G node creation = None" using assms(1) by (simp add: validateGeneralNode_def check_simps)
  from validateNewNode_wf[OF this assms(2-)] show ?thesis .
qed

text \<open>A well-formed node may be stored, and its subgraphs and those it left are bumped.\<close>

lemma putNode_ok: "ctx_inv w \<Longrightarrow> node_wf (cx_subgraphs w) (nd_ID (nr_Node r)) r \<Longrightarrow> ctx_ok w (putNode r w)"
  unfolding putNode_def using ctx_inv_nodes graph_wf_put_node ctx_invD(1) by (auto simp: ctx_ok_def)

lemma put_bump_ok:
  assumes "ctx_inv w" "node_wf (cx_subgraphs w) (nd_ID (nr_Node r)) r" "\<And>i. i \<in> set ids \<Longrightarrow> mget (cx_subgraphs w) i \<noteq> None"
  shows "ctx_ok w (bumpSubgraphs now ids (putNode r w))"
proof -
  have "ctx_ok w (putNode r w)" using assms(1,2) by (rule putNode_ok)
  also from this have "ctx_ok (putNode r w) (bumpSubgraphs now ids (putNode r w))"
    using assms(3) by (intro bumpSubgraphs_ok) (auto simp: ctx_ok_def putNode_def)
  finally show ?thesis .
qed

lemma new_node_ok:
  assumes "ctx_inv w" "node_wf (cx_subgraphs w) (nd_ID node) (newNodeRecord now prin w' node)"
  shows "ctx_ok w (bumpSubgraphs now (nd_SubgraphIDs node) (putNode (newNodeRecord now prin w' node) w))"
  using put_bump_ok[of w "newNodeRecord now prin w' node" "nd_SubgraphIDs node"] assms node_subgraphs_exist[OF assms(2)]
  by (simp add: newNodeRecord_def)

lemma nextSequence_ok: "ctx_inv w \<Longrightarrow> ctx_ok w (nextSequence w)"
  by (simp add: nextSequence_def ctx_ok_def)

lemma nextSequence_simps [simp]: "cx_subgraphs (nextSequence w) = cx_subgraphs w" "cx_nodes (nextSequence w) = cx_nodes w"
  by (simp_all add: nextSequence_def)

lemma rejectTaskMembership_general:
  assumes "rejectTaskMembership G (nd_SubgraphIDs (nr_Node r)) = None" "node_wf G i r" "j \<in> set (nd_SubgraphIDs (nr_Node r))"
  shows "in_kind G (nr_ProjectID r) SubgraphKindGeneral j"
proof -
  have "\<not> in_kind G (nr_ProjectID r) SubgraphKindTask j"
    using assms(1,3) by (auto simp: rejectTaskMembership_def check_simps list_ex_iff in_kind_def)
  then show ?thesis using assms(2,3) unfolding node_wf_def by blast
qed

section \<open>The batch of the reviewer\<close>

lemma addEdges_ok: "addEdges edges w = Inr t \<Longrightarrow> \<exists>E. t = w\<lparr>cx_edges := E\<rparr>"
proof (induction edges arbitrary: w)
  case Nil
  then show ?case by (intro exI[of _ "cx_edges w"]) simp
next
  case (Cons edge edges)
  then obtain u where "addEdge edge w = Inr u" "addEdges edges u = Inr t" by (auto simp: check_simps)
  with Cons.IH obtain E where "t = u\<lparr>cx_edges := E\<rparr>" by blast
  with \<open>addEdge edge w = Inr u\<close> show ?case by (auto simp: addEdge_def split: if_splits)
qed

lemma createOne_ok:
  assumes "ctx_inv w" "createOne now prin input w = Inr (node, edges, t)"
  shows "ctx_ok w t"
proof -
  let ?n = "normalizeNode (ci_Node input)"
  let ?w1 = "nextSequence w"
  let ?w2 = "bumpSubgraphs now (nd_SubgraphIDs ?n) (putNode (newNodeRecord now prin ?w1 ?n) ?w1)"
  from assms(2) obtain w3 E where v: "validateNewNode prin (cx_subgraphs w) ?n (ci_CreationContext input) = None"
      and e: "addEdges E ?w2 = Inr w3"
      and a: "appendMutationEvents w3 now prin ''context.node.create'' ''context.node.created'' (nd_ID ?n) (PayloadNode ?n) = Inr t"
    by (auto simp: createOne_def Let_def check_simps)
  have "ctx_ok w ?w1" using assms(1) by (rule nextSequence_ok)
  also from this have "ctx_ok ?w1 ?w2" using validateNewNode_wf[OF v] by (intro new_node_ok ctx_okD(1)) (auto simp: newNodeRecord_def)
  finally have "ctx_ok w ?w2" .
  moreover obtain E' where "w3 = ?w2\<lparr>cx_edges := E'\<rparr>" using addEdges_ok[OF e] by blast
  moreover obtain b c where "t = w3\<lparr>cx_audit := b, cx_outbox := c\<rparr>" by (rule appendMutationEvents_ok[OF a])
  ultimately show ?thesis by (simp add: ctx_ok_def)
qed

lemma createLoop_ok: "createLoop now prin inputs w = Inr (nodes, edges, t) \<Longrightarrow> ctx_inv w \<Longrightarrow> ctx_ok w t"
proof (induction inputs arbitrary: w nodes edges)
  case (Cons input inputs)
  then obtain node es u ns es' where one: "createOne now prin input w = Inr (node, es, u)" and rest: "createLoop now prin inputs u = Inr (ns, es', t)"
    by (auto simp: check_simps)
  from createOne_ok[OF Cons.prems(2) one] have "ctx_ok w u" .
  also from Cons.IH[OF rest ctx_okD(1)[OF this]] have "ctx_ok u t" .
  finally show ?case .
qed auto

interpretation create_nodes: graph_operation "\<lambda>s. CreateNodes ctx now s prin req" for ctx now prin req
proof
  fix s r t assume "ctx_inv s" "CreateNodes ctx now s prin req = (r, t)"
  then consider "t = s"
    | nodes edges w where "createLoop now prin (cn_Nodes req) s = Inr (nodes, edges, w)"
        "t = commitContext w prin ''context.node.created'' (sortedStringSet (concat (map nd_SubgraphIDs nodes)))"
    by (auto simp: CreateNodes_def Let_def check_simps split: sum.splits)
  then show "ctx_ok s t"
  proof cases
    case 2
    from createLoop_ok[OF 2(1) \<open>ctx_inv s\<close>] have "ctx_ok s w" .
    also from commitContext_ok[OF ctx_okD(1)[OF this]] have "ctx_ok w t" unfolding 2(2) .
    finally show ?thesis .
  qed (use \<open>ctx_inv s\<close> in auto)
qed

section \<open>The curator's nodes\<close>

interpretation create_node: graph_operation "\<lambda>s. CreateNode ctx now s prin req" for ctx now prin req
proof
  fix s r t assume inv: "ctx_inv s" and run: "CreateNode ctx now s prin req = (r, t)"
  let ?w = "nextSequence s"
  let ?put = "\<lambda>node. bumpSubgraphs now (nd_SubgraphIDs node) (putNode (newNodeRecord now prin ?w node) ?w)"
  from run consider "t = s"
    | node creation w1 where "validateGeneralNode prin (cx_subgraphs ?w) node creation = None"
        "appendMutationEvents (?put node) now prin ''context.node.create'' ''context.node.created'' (nd_ID node) (PayloadNode node) = Inr w1"
        "t = commitContext w1 prin ''context.node.created'' (nd_SubgraphIDs node)"
    by (auto simp: CreateNode_def committed_iff Let_def check_simps)
  then show "ctx_ok s t"
  proof cases
    case 2
    have "ctx_ok s ?w" using inv by (rule nextSequence_ok)
    also from this have "ctx_ok ?w (?put node)"
      using validateGeneralNode_wf[OF 2(1)] by (intro new_node_ok ctx_okD(1)) (auto simp: newNodeRecord_def)
    finally show ?thesis unfolding 2(3) by (rule mutation_ok[OF _ 2(2)])
  qed (use inv in auto)
qed

lemma curatedNode_ok:
  assumes "curatedNode s prin i expected = Inr r"
  shows "mget (cx_nodes s) i = Some r" "nr_ProjectID r = pr_ProjectID prin" "rejectTaskMembership (cx_subgraphs s) (nd_SubgraphIDs (nr_Node r)) = None"
  using assms by (auto simp: curatedNode_def check_simps split: option.splits)

interpretation update_node: graph_operation "\<lambda>s. UpdateNode ctx now s prin req" for ctx now prin req
proof
  fix s r t assume inv: "ctx_inv s" and run: "UpdateNode ctx now s prin req = (r, t)"
  let ?put = "\<lambda>entry node. bumpSubgraphs now (changedSubgraphMemberships (nd_SubgraphIDs (nr_Node entry)) (nd_SubgraphIDs node))
      (putNode (entry\<lparr>nr_Node := node, nr_Revision := nr_Revision entry + 1\<rparr>) s)"
  from run consider "t = s"
    | expected entry node creation w1 where "curatedNode s prin (un_NodeID req) expected = Inr entry"
        "validateGeneralNode prin (cx_subgraphs s) node creation = None"
        "appendMutationEvents (?put entry node) now prin ''context.node.update'' ''context.node.updated'' (nd_ID node) (PayloadNode node) = Inr w1"
        "t = commitContext w1 prin ''context.node.updated'' (unionStringSlices (nd_SubgraphIDs (nr_Node entry)) (nd_SubgraphIDs node))"
    by (auto simp: UpdateNode_def committed_iff Let_def check_simps)
  then show "ctx_ok s t"
  proof cases
    case 2
    note old = curatedNode_ok[OF 2(1)]
    have "node_wf (cx_subgraphs s) (nd_ID node) (entry\<lparr>nr_Node := node, nr_Revision := nr_Revision entry + 1\<rparr>)"
      using validateGeneralNode_wf[OF 2(2)] old(2) by simp
    then have "ctx_ok s (?put entry node)"
      using node_subgraphs_exist[OF graph_wfD(1)[OF ctx_invD(1)[OF inv] old(1)]]
        node_subgraphs_exist[of "cx_subgraphs s" "nd_ID node" "entry\<lparr>nr_Node := node, nr_Revision := nr_Revision entry + 1\<rparr>"]
        changedSubgraphMemberships_sub[of "nd_SubgraphIDs (nr_Node entry)" "nd_SubgraphIDs node"]
      by (intro put_bump_ok[OF inv]) (auto simp del: not_None_eq)
    then show ?thesis unfolding 2(4) by (rule mutation_ok[OF _ 2(3)])
  qed (use inv in auto)
qed

interpretation delete_node: graph_operation "\<lambda>s. DeleteNode ctx now s prin req" for ctx now prin req
proof
  fix s r t assume inv: "ctx_inv s" and run: "DeleteNode ctx now s prin req = (r, t)"
  let ?i = "dn_NodeID req"
  let ?del = "s\<lparr>cx_nodes := mdel ?i (cx_nodes s),
     cx_edges := filter (\<lambda>(_, edge). \<not> (ce_ToNodeID edge = ?i \<or> ce_FromRef edge = ''node:'' @ ?i)) (cx_edges s)\<rparr>"
  from run consider "t = s"
    | expected entry w1 where "curatedNode s prin ?i expected = Inr entry"
        "appendMutationEvents (bumpSubgraphs now (nd_SubgraphIDs (nr_Node entry)) ?del) now prin ''context.node.delete'' ''context.node.deleted'' ?i
           (PayloadNodeDeletion req) = Inr w1"
        "t = commitContext w1 prin ''context.node.deleted'' (nd_SubgraphIDs (nr_Node entry))"
    by (auto simp: DeleteNode_def committed_iff Let_def check_simps)
  then show "ctx_ok s t"
  proof cases
    case 2
    note old = curatedNode_ok[OF 2(1)]
    have "ctx_ok s ?del" using inv ctx_inv_nodes[OF inv graph_wf_del_node[OF ctx_invD(1)[OF inv]]] by (simp add: ctx_ok_def)
    also from this have "ctx_ok ?del (bumpSubgraphs now (nd_SubgraphIDs (nr_Node entry)) ?del)"
      using node_subgraphs_exist[OF graph_wfD(1)[OF ctx_invD(1)[OF inv] old(1)]] by (intro bumpSubgraphs_ok ctx_okD(1)) auto
    finally show ?thesis unfolding 2(3) by (rule mutation_ok[OF _ 2(2)])
  qed (use inv in auto)
qed

section \<open>The curator's subgraphs\<close>

lemma memberUpdate_entry: "memberUpdate prin j wanted = (\<lambda>(i, r). (i, snd (memberUpdate prin j wanted (i, r))))"
  by (auto simp: memberUpdate_def Let_def fun_eq_iff)

lemma memberUpdate_wf:
  assumes "node_wf G i r" "in_kind G (pr_ProjectID prin) SubgraphKindGeneral j"
    and "i \<in> set wanted \<Longrightarrow> rejectTaskMembership G (nd_SubgraphIDs (nr_Node r)) = None"
  shows "node_wf G i (snd (memberUpdate prin j wanted (i, r)))"
proof (cases "i \<in> set wanted")
  case True
  then have "\<forall>k \<in> set (nd_SubgraphIDs (nr_Node r)). in_kind G (nr_ProjectID r) SubgraphKindGeneral k"
    using rejectTaskMembership_general[OF assms(3) assms(1)] by blast
  with True assms(1,2) show ?thesis by (auto simp: memberUpdate_def node_wf_def Let_def)
next
  case False
  with assms(1) show ?thesis by (auto simp: memberUpdate_def node_wf_def Let_def removeString_def)
qed

lemma setGeneralSubgraphMembers_ok:
  assumes "ctx_inv w" "in_kind (cx_subgraphs w) (pr_ProjectID prin) SubgraphKindGeneral j" "setGeneralSubgraphMembers prin w j ids = Inr t"
  shows "ctx_ok w t"
proof -
  let ?wanted = "uniqueStrings ids"
  have t: "t = w\<lparr>cx_nodes := map (memberUpdate prin j ?wanted) (cx_nodes w)\<rparr>"
    and all: "\<forall>i \<in> set ?wanted. (case mget (cx_nodes w) i of None \<Rightarrow> Some (notFound ''node not found'')
       | Some record \<Rightarrow> first_err
           [fail_if (nr_ProjectID record \<noteq> pr_ProjectID prin) (notFound ''node not found''),
            rejectTaskMembership (cx_subgraphs w) (nd_SubgraphIDs (nr_Node record))]) = None"
    using assms(3) by (simp_all add: setGeneralSubgraphMembers_def checked_Inr check_all_None del: set_uniqueStrings)
  have ok: "rejectTaskMembership (cx_subgraphs w) (nd_SubgraphIDs (nr_Node r)) = None" if "i \<in> set ?wanted" "mget (cx_nodes w) i = Some r" for i r
    using bspec[OF all that(1)] that(2) by (simp add: check_simps)
  note wf = ctx_invD(1)[OF assms(1)]
  have "node_wf (cx_subgraphs w) i (snd (memberUpdate prin j ?wanted (i, r)))" if "mget (cx_nodes w) i = Some r" for i r
    using memberUpdate_wf[OF graph_wfD(1)[OF wf that] assms(2)] ok[OF _ that] by blast
  then have "graph_wf (map (\<lambda>(i, r). (i, snd (memberUpdate prin j ?wanted (i, r)))) (cx_nodes w)) (cx_subgraphs w)"
    using wf by (intro graph_wf_map_nodes[OF wf]) (auto simp: graph_wf_def)
  then have "graph_wf (map (memberUpdate prin j ?wanted) (cx_nodes w)) (cx_subgraphs w)" by (subst memberUpdate_entry)
  then show ?thesis using ctx_inv_nodes[OF assms(1)] by (simp add: t ctx_ok_def)
qed

lemma freshSubgraphID_free: "freshSubgraphID G fuel i = Some j \<Longrightarrow> mget G j = None"
  by (induction G fuel i rule: freshSubgraphID.induct) (auto simp: Let_def split: if_splits)

text \<open>When no try is free, all of them are keys of the map: there are too few keys for that.\<close>

lemma freshSubgraphID_None: "freshSubgraphID G fuel i = None \<Longrightarrow> (\<lambda>k. ''subgraph-'' @ dec k) ` {i..<i + fuel} \<subseteq> set (map fst G)"
proof (induction G fuel i rule: freshSubgraphID.induct)
  case (2 G fuel i)
  have "{i..<i + Suc fuel} = insert i {i + 1..<i + 1 + fuel}" by auto
  moreover from "2.prems" have "''subgraph-'' @ dec i \<in> set (map fst G)" "freshSubgraphID G fuel (i + 1) = None"
    by (auto simp: Let_def map_of_eq_None_iff split: if_splits)
  ultimately show ?case using "2.IH"[OF refl] "2.prems" by (auto simp: Let_def split: if_splits)
qed simp

lemma freshSubgraph_returns: "\<exists>j. freshSubgraphID G (length G + 1) i = Some j"
proof (rule ccontr)
  assume "\<not> ?thesis"
  then have "(\<lambda>k. ''subgraph-'' @ dec k) ` {i..<i + (length G + 1)} \<subseteq> set (map fst G)" by (intro freshSubgraphID_None) auto
  then have "card ((\<lambda>k. ''subgraph-'' @ dec k) ` {i..<i + (length G + 1)}) \<le> card (set (map fst G))" by (intro card_mono) auto
  also have "\<dots> \<le> length G" using card_length[of "map fst G"] by simp
  finally show False by (simp add: card_image inj_on_def dec_inj)
qed

text \<open>The operations that may not return return; \<open>snd (the r)\<close> is then the state.\<close>

lemma CreateSubgraph_returns: "\<exists>r t. CreateSubgraph ctx now s prin req = Some (r, t)"
  using freshSubgraph_returns[of "cx_subgraphs s" "length (cx_subgraphs s) + 1"]
  by (auto simp: CreateSubgraph_def Let_def committed_def split: option.splits sum.splits)

lemma CreateSubgraph_ok:
  assumes "ctx_inv s" "CreateSubgraph ctx now s prin req = Some (r, t)"
  shows "ctx_ok s t"
proof -
  let ?g = "\<lambda>i. \<lparr>sgr_Subgraph = \<lparr>sg_ID = i, sg_Name = cq_Name req, sg_Summary = cq_Summary req, sg_Revision = 1, sg_Kind = SubgraphKindGeneral\<rparr>,
     sgr_ProjectID = pr_ProjectID prin, sgr_TaskID = '''', sgr_CreatedAt = now, sgr_UpdatedAt = now\<rparr>"
  let ?w = "\<lambda>i. s\<lparr>cx_subgraphs := mput i (?g i) (cx_subgraphs s)\<rparr>"
  from assms(2) consider "t = s"
    | i w1 w2 where "freshSubgraphID (cx_subgraphs s) (length (cx_subgraphs s) + 1) (length (cx_subgraphs s) + 1) = Some i"
        "setGeneralSubgraphMembers prin (?w i) i (cq_NodeIDs req) = Inr w1"
        "appendMutationEvents w1 now prin ''context.subgraph.create'' ''context.subgraph.created'' i (PayloadSubgraph (sgr_Subgraph (?g i))) = Inr w2"
        "t = commitContext w2 prin ''context.subgraph.created'' [i]"
    by (auto simp: CreateSubgraph_def committed_iff Let_def check_simps split: option.splits)
  then show ?thesis
  proof cases
    case 2
    have "graph_wf (cx_nodes s) (mput i (?g i) (cx_subgraphs s))"
      using freshSubgraphID_free[OF 2(1)] by (intro graph_wf_put_subgraph[OF ctx_invD(1)[OF assms(1)]]) (auto simp: subgraph_wf_def)
    then have "ctx_ok s (?w i)" using ctx_inv_subgraphs[OF assms(1)] by (simp add: ctx_ok_def)
    also from this have "ctx_ok (?w i) w1" by (intro setGeneralSubgraphMembers_ok[OF _ _ 2(2)] ctx_okD(1)) (auto simp: in_kind_def gomap_simps)
    finally show ?thesis unfolding 2(4) by (rule mutation_ok[OF _ 2(3)])
  qed (use assms(1) in auto)
qed

interpretation create_subgraph: graph_operation "\<lambda>s. the (CreateSubgraph ctx now s prin req)" for ctx now prin req
  using CreateSubgraph_ok CreateSubgraph_returns by unfold_locales (metis option.sel)

lemma curatedSubgraph_ok:
  assumes "curatedSubgraph s prin i expected refusal = Inr g"
  shows "mget (cx_subgraphs s) i = Some g" "sgr_ProjectID g = pr_ProjectID prin" "sg_Kind (sgr_Subgraph g) = SubgraphKindGeneral"
  using assms by (auto simp: curatedSubgraph_def check_simps split: option.splits)

interpretation update_subgraph: graph_operation "\<lambda>s. UpdateSubgraph ctx now s prin req" for ctx now prin req
proof
  fix s r t assume inv: "ctx_inv s" and run: "UpdateSubgraph ctx now s prin req = (r, t)"
  let ?i = "uq_SubgraphID req"
  let ?g = "\<lambda>g. g\<lparr>sgr_Subgraph := (sgr_Subgraph g)\<lparr>sg_Name := uq_Name req, sg_Summary := uq_Summary req, sg_Revision := sg_Revision (sgr_Subgraph g) + 1\<rparr>,
     sgr_UpdatedAt := now\<rparr>"
  let ?w = "\<lambda>g. s\<lparr>cx_subgraphs := mput ?i (?g g) (cx_subgraphs s)\<rparr>"
  from run consider "t = s"
    | refusal g w1 w2 where "curatedSubgraph s prin ?i (uq_Revision req) refusal = Inr g"
        "setGeneralSubgraphMembers prin (?w g) ?i (uq_NodeIDs req) = Inr w1"
        "appendMutationEvents w1 now prin ''context.subgraph.update'' ''context.subgraph.updated'' ?i (PayloadSubgraph (sgr_Subgraph (?g g))) = Inr w2"
        "t = commitContext w2 prin ''context.subgraph.updated'' [?i]"
    by (auto simp: UpdateSubgraph_def committed_iff Let_def check_simps)
  then show "ctx_ok s t"
  proof cases
    case 2
    note old = curatedSubgraph_ok[OF 2(1)]
    have "subgraph_wf ?i (?g g)" using graph_wfD(2)[OF ctx_invD(1)[OF inv] old(1)] by (simp add: subgraph_wf_def)
    then have "graph_wf (cx_nodes s) (mput ?i (?g g) (cx_subgraphs s))" using old by (intro graph_wf_put_subgraph[OF ctx_invD(1)[OF inv]]) auto
    then have "ctx_ok s (?w g)" using ctx_inv_subgraphs[OF inv] by (simp add: ctx_ok_def)
    also from this have "ctx_ok (?w g) w1"
      using old by (intro setGeneralSubgraphMembers_ok[OF _ _ 2(2)] ctx_okD(1)) (auto simp: in_kind_def gomap_simps)
    finally show ?thesis unfolding 2(4) by (rule mutation_ok[OF _ 2(3)])
  qed (use inv in auto)
qed

lemma dropMembership_wf:
  assumes "node_wf G i r"
  shows "node_wf (mdel j G) i (dropMembership j r)"
proof -
  have "in_kind (mdel j G) project kind k" if "in_kind G project kind k" "k \<noteq> j" for project kind k
    using that by (auto simp: in_kind_def gomap_simps)
  with assms show ?thesis by (auto simp: node_wf_def dropMembership_def removeString_def)
qed

lemma graph_wf_del_subgraph:
  assumes "graph_wf N G"
  shows "graph_wf (map (map_prod id (dropMembership j)) N) (mdel j G)"
proof -
  have eq: "map_prod id (dropMembership j) = (\<lambda>(i, r). (i, dropMembership j r))" by (auto simp: fun_eq_iff)
  have "subgraph_wf k g" if "mget (mdel j G) k = Some g" for k g
    using that graph_wfD(2)[OF assms] by (auto simp: gomap_simps split: if_splits)
  then show ?thesis unfolding eq using dropMembership_wf assms by (intro graph_wf_map_nodes[OF assms]) (auto simp: graph_wf_def)
qed

interpretation delete_subgraph: graph_operation "\<lambda>s. DeleteSubgraph ctx now s prin req" for ctx now prin req
proof
  fix s r t assume inv: "ctx_inv s" and run: "DeleteSubgraph ctx now s prin req = (r, t)"
  let ?i = "dq_SubgraphID req"
  let ?w = "s\<lparr>cx_subgraphs := mdel ?i (cx_subgraphs s), cx_nodes := map (map_prod id (dropMembership ?i)) (cx_nodes s),
     cx_edges := filter (\<lambda>(_, edge). ce_FromRef edge \<noteq> ''subgraph:'' @ ?i) (cx_edges s)\<rparr>"
  from run consider "t = s"
    | w1 where "appendMutationEvents ?w now prin ''context.subgraph.delete'' ''context.subgraph.deleted'' ?i (PayloadSubgraphDeletion req) = Inr w1"
        "t = commitContext w1 prin ''context.subgraph.deleted'' [?i]"
    by (auto simp: DeleteSubgraph_def committed_iff Let_def check_simps)
  then show "ctx_ok s t"
  proof cases
    case 2
    have "ctx_ok s ?w" using inv graph_wf_del_subgraph[OF ctx_invD(1)[OF inv], of ?i] by (simp add: ctx_ok_def ctx_inv_defs memory_of_def)
    then show ?thesis unfolding 2(2) by (rule mutation_ok[OF _ 2(1)])
  qed (use inv in auto)
qed

end
