(* ===== verification/Context_Memory_Inv.thy ===== *)
theory Context_Memory_Inv
  imports Context_Curator_Inv
begin

text \<open>
  The remaining operations of the context graph as instances of the contracts: subscriptions, deltas, slices and task
  projections are \<open>graph_operation\<close>s; submitting, freezing and reviewing candidates are
  \<open>context_operation\<close>s, as they change the task memory.
\<close>

section \<open>Deltas and subscriptions\<close>

interpretation record_delta: graph_operation "\<lambda>s. RecordContextDelta ctx s prin eventID eventKind ids" for ctx prin eventID eventKind ids
proof
  fix s r t assume "ctx_inv s" "RecordContextDelta ctx s prin eventID eventKind ids = (r, t)"
  then show "ctx_ok s t" using deltaLoop_ok[of s prin eventID eventKind ids "mvalues (cx_subscriptions s)"]
    by (auto simp: RecordContextDelta_def split: option.splits prod.splits)
qed

lemma ctx_inv_ack: "ctx_inv s \<Longrightarrow> mget (cx_deltas s) i = Some d \<Longrightarrow> ctx_inv (s\<lparr>cx_deltaAck := mput i True (cx_deltaAck s)\<rparr>)"
  by (auto simp: ctx_inv_defs gomap_simps)

interpretation ack_delta: graph_operation "\<lambda>s. AckDelta ctx s prin deltaID" for ctx prin deltaID
proof
  fix s r t assume inv: "ctx_inv s" and run: "AckDelta ctx s prin deltaID = (r, t)"
  then have "t = s \<or> t = s\<lparr>cx_deltaAck := mput deltaID True (cx_deltaAck s)\<rparr> \<and> (\<exists>d. mget (cx_deltas s) deltaID = Some d)"
    by (auto simp: AckDelta_def split: option.splits if_splits)
  then show "ctx_ok s t" using inv ctx_inv_ack by (auto simp: ctx_ok_def log_of_def gomap_simps same_scope_def)
qed

lemma ctx_inv_subscriptions: "ctx_inv s \<Longrightarrow> subscriptions_ok (s\<lparr>cx_subscriptions := S\<rparr>) \<Longrightarrow> ctx_inv (s\<lparr>cx_subscriptions := S\<rparr>)"
  by (simp add: ctx_inv_defs)

lemma freshSubscriptionID_returns: "ctx_inv s \<Longrightarrow> freshSubscriptionID s = Some (''sub-'' @ dec (length (cx_subscriptions s) + 1))"
  using numbered_fresh[of "''sub-''" "cx_subscriptions s"] by (simp add: freshSubscriptionID_def Let_def ctx_inv_def subscriptions_ok_def)

lemma createSubscription_returns: "ctx_inv s \<Longrightarrow> \<exists>r t. createSubscription now s prin req source = Some (r, t)"
  using freshSubscriptionID_returns by (auto simp: createSubscription_def Let_def split: sum.splits)

lemma createSubscription_ok:
  assumes "ctx_inv s" "createSubscription now s prin req source = Some (r, t)"
  shows "ctx_ok s t"
proof -
  let ?i = "''sub-'' @ dec (length (cx_subscriptions s) + 1)"
  from assms have "t = s \<or> (\<exists>invocationID ids. t = s\<lparr>cx_subscriptions := mput ?i
      (newSubscriptionRecord now prin source (newSubscription prin req ?i invocationID ids)) (cx_subscriptions s)\<rparr>)"
    by (auto simp: createSubscription_def freshSubscriptionID_returns Let_def split: sum.splits)
  moreover have "subscriptions_ok (s\<lparr>cx_subscriptions := mput ?i v (cx_subscriptions s)\<rparr>)" if "cs_ID (csr_Subscription v) = ?i" for v
    using ctx_invD(2)[OF assms(1)] numbered_put[of "''sub-''" "cx_subscriptions s" v] that by (auto simp: subscriptions_ok_def keyed_def gomap_simps)
  moreover have "log_kept (log_of s) (log_of (s\<lparr>cx_subscriptions := mput ?i v (cx_subscriptions s)\<rparr>))" for v
    using ctx_invD(2)[OF assms(1)] numbered_fresh[of "''sub-''" "cx_subscriptions s"]
    by (auto simp: log_of_def gomap_simps same_scope_def subscriptions_ok_def)
  ultimately show ?thesis using assms(1) ctx_inv_subscriptions by (auto simp: ctx_ok_def newSubscription_def newSubscriptionRecord_def)
qed

lemma Subscribe_returns: "ctx_inv s \<Longrightarrow> \<exists>r t. Subscribe ctx now s prin req = Some (r, t)"
  using createSubscription_returns by (auto simp: Subscribe_def split: option.splits)

interpretation subscribe: graph_operation "\<lambda>s. the (Subscribe ctx now s prin req)" for ctx now prin req
proof
  fix s r t assume inv: "ctx_inv s" and run: "the (Subscribe ctx now s prin req) = (r, t)"
  with Subscribe_returns[OF inv] have "Subscribe ctx now s prin req = Some (r, t)" by (metis option.sel)
  then show "ctx_ok s t" using inv createSubscription_ok by (auto simp: Subscribe_def split: option.splits)
qed

text \<open>A subscription may be replaced by one with the same identifier.\<close>

lemma subscriptions_ok_replace:
  assumes "subscriptions_ok s" "mget (cx_subscriptions s) i = Some old" "csr_Subscription v = csr_Subscription old"
  shows "subscriptions_ok (s\<lparr>cx_subscriptions := mput i v (cx_subscriptions s)\<rparr>)"
  using assms numbered_replace[of "''sub-''" "cx_subscriptions s" i v] by (auto simp: subscriptions_ok_def keyed_def gomap_simps)

interpretation unsubscribe: graph_operation "\<lambda>s. Unsubscribe ctx now s prin subscriptionID" for ctx now prin subscriptionID
proof
  fix s r t assume inv: "ctx_inv s" and run: "Unsubscribe ctx now s prin subscriptionID = (r, t)"
  then have "t = s \<or> (\<exists>old. mget (cx_subscriptions s) subscriptionID = Some old \<and>
      t = s\<lparr>cx_subscriptions := mput subscriptionID (old\<lparr>csr_Active := False, csr_CanceledAt := Some now\<rparr>) (cx_subscriptions s),
            cx_audit := cx_audit s @ [auditOf s now prin ''context.subscription.cancel'' subscriptionID]\<rparr>)"
    by (auto simp: Unsubscribe_def split: option.splits if_splits)
  then show "ctx_ok s t" using inv ctx_inv_subscriptions[OF inv subscriptions_ok_replace[OF ctx_invD(2)[OF inv]]]
    by (auto simp: ctx_ok_def log_of_def gomap_simps same_scope_def)
qed

interpretation end_invocation: graph_operation "\<lambda>s. EndInvocation ctx now s prin invocationID" for ctx now prin invocationID
proof
  fix s r t assume inv: "ctx_inv s" and run: "EndInvocation ctx now s prin invocationID = (r, t)"
  let ?f = "\<lambda>_. expireSubscription now prin invocationID"
  have eq: "map_prod id (expireSubscription now prin invocationID) = (\<lambda>(k, v). (k, ?f k v))" by (auto simp: fun_eq_iff)
  from run have "t = s \<or> t = s\<lparr>cx_subscriptions := map (\<lambda>(k, v). (k, ?f k v)) (cx_subscriptions s)\<rparr>"
    by (auto simp: EndInvocation_def eq split: option.splits)
  moreover have "csr_Subscription (expireSubscription now prin invocationID v) = csr_Subscription v" for v by (simp add: expireSubscription_def)
  then have "subscriptions_ok (s\<lparr>cx_subscriptions := map (\<lambda>(k, v). (k, ?f k v)) (cx_subscriptions s)\<rparr>)"
    using ctx_invD(2)[OF inv] numbered_map[of "''sub-''" "cx_subscriptions s" ?f] by (auto simp: subscriptions_ok_def keyed_def mget_map_values)
  moreover have "log_kept (log_of s) (log_of (s\<lparr>cx_subscriptions := map (\<lambda>(k, v). (k, ?f k v)) (cx_subscriptions s)\<rparr>))"
    by (auto simp: log_of_def mget_map_values same_scope_def expireSubscription_def)
  ultimately show "ctx_ok s t" using inv ctx_inv_subscriptions by (auto simp: ctx_ok_def)
qed

lemma Search_returns: "ctx_inv s \<Longrightarrow> \<exists>r t. Search lower ctx now s prin words scopes anchors = Some (r, t)"
  using createSubscription_returns[of s now prin _ subscriptionSourceSearch]
  by (auto simp: Search_def Let_def split: option.splits sum.splits) (metis option.distinct(1))+

interpretation search: graph_operation "\<lambda>s. the (Search lower ctx now s prin words scopes anchors)" for lower ctx now prin words scopes anchors
proof
  fix s r t assume inv: "ctx_inv s" and run: "the (Search lower ctx now s prin words scopes anchors) = (r, t)"
  with Search_returns[OF inv] have "Search lower ctx now s prin words scopes anchors = Some (r, t)" by (metis option.sel)
  then have "t = s \<or> (\<exists>x req. createSubscription now s prin req subscriptionSourceSearch = Some (x, t))"
    by (auto simp: Search_def Let_def split: option.splits sum.splits if_splits)
  then show "ctx_ok s t" using inv createSubscription_ok by blast
qed

lemma initialSubscription_returns: "ctx_inv s \<Longrightarrow> \<exists>r t. initialSubscription now s prin ids = Some (r, t)"
  using createSubscription_returns by (auto simp: initialSubscription_def split: option.splits)

lemma initialSubscription_ok: "ctx_inv s \<Longrightarrow> initialSubscription now s prin ids = Some (r, t) \<Longrightarrow> ctx_ok s t"
  using createSubscription_ok by (auto simp: initialSubscription_def split: option.splits if_splits)

lemma EnsureInitialSlice_returns: "ctx_inv s \<Longrightarrow> \<exists>r t. EnsureInitialSlice ctx now s prin ids = Some (r, t)"
  using initialSubscription_returns[of s now prin ids] by (auto simp: EnsureInitialSlice_def Let_def split: option.splits sum.splits)

interpretation ensure_slice: graph_operation "\<lambda>s. the (EnsureInitialSlice ctx now s prin ids)" for ctx now prin ids
proof
  fix s r t assume inv: "ctx_inv s" and run: "the (EnsureInitialSlice ctx now s prin ids) = (r, t)"
  with EnsureInitialSlice_returns[OF inv] have "EnsureInitialSlice ctx now s prin ids = Some (r, t)" by (metis option.sel)
  then have "t = s \<or> (\<exists>x u I. initialSubscription now s prin ids = Some (x, u) \<and> (t = u \<or> t = u\<lparr>cx_initialSlices := I\<rparr>))"
    by (auto simp: EnsureInitialSlice_def Let_def split: option.splits sum.splits)
  then show "ctx_ok s t" using inv initialSubscription_ok[OF inv] by (auto simp: ctx_ok_def)
qed

interpretation create_slice: graph_operation "\<lambda>s. the (CreateInitialSlice ctx now s prin ids)" for ctx now prin ids
  using ensure_slice.run_ok by unfold_locales (simp add: CreateInitialSlice_def)

section \<open>Tasks\<close>

interpretation register_task: graph_operation "\<lambda>s. RegisterTaskSubgraph resolver ctx now s prin taskID" for resolver ctx now prin taskID
proof
  fix s r t assume inv: "ctx_inv s" and run: "RegisterTaskSubgraph resolver ctx now s prin taskID = (r, t)"
  then consider "t = s"
    | B revision A i g where "t = s\<lparr>cx_taskBindings := B, cx_subgraphs := mput i g (cx_subgraphs s), cx_graphRevision := revision, cx_audit := A\<rparr>"
        "mget (cx_subgraphs s) i = None" "sg_ID (sgr_Subgraph g) = i" "sg_Kind (sgr_Subgraph g) = SubgraphKindTask" "sgr_TaskID g \<noteq> ''''"
    by (auto simp: RegisterTaskSubgraph_def Let_def check_simps split: option.splits if_splits)
  then show "ctx_ok s t"
  proof cases
    case 2
    have "graph_wf (cx_nodes s) (mput i g (cx_subgraphs s))"
      using 2 by (intro graph_wf_put_subgraph[OF ctx_invD(1)[OF inv]]) (auto simp: subgraph_wf_def)
    then have "ctx_ok s (s\<lparr>cx_subgraphs := mput i g (cx_subgraphs s)\<rparr>)" using ctx_inv_subgraphs[OF inv] by (simp add: ctx_ok_def)
    then show ?thesis unfolding 2(1) by (simp add: ctx_ok_def ctx_inv_defs memory_of_def)
  qed (use inv in auto)
qed

lemma taskSubgraph_in_kind: "taskSubgraph project G j \<longleftrightarrow> in_kind G project SubgraphKindTask j"
  by (auto simp: taskSubgraph_def in_kind_def split: option.splits)

lemma validateProjection_wf:
  assumes "validateTaskProjectionShape projection = None" "validateProjectionBindings prin resolver s projection = None"
    and "nr_ProjectID r = pr_ProjectID prin" "nd_ID (nr_Node r) = i" "nd_Kind (nr_Node r) = tp_Kind projection" "nd_Status (nr_Node r) = NodeStatusAccepted"
    and "set (nd_SubgraphIDs (nr_Node r)) = set (tp_SubgraphIDs projection) - {''''}"
  shows "node_wf (cx_subgraphs s) i r"
proof -
  have "in_kind (cx_subgraphs s) (pr_ProjectID prin) SubgraphKindTask j" if "j \<in> set (nd_SubgraphIDs (nr_Node r))" for j
    using assms(2,7) that by (auto simp: validateProjectionBindings_def Let_def check_simps taskSubgraph_in_kind split: option.splits)
  moreover have "tp_Kind projection \<in> node_kinds" using assms(1) by (simp add: validateTaskProjectionShape_def validateNodeKind_ok check_simps)
  ultimately show ?thesis using assms(3-6) by (simp add: node_wf_def)
qed

lemma createProjection_ok:
  assumes inv: "ctx_inv s" and shape: "validateTaskProjectionShape projection = None" and bound: "validateProjectionBindings prin resolver s projection = None"
    and run: "createProjection now s prin projection = Inr (i, t)"
  shows "ctx_ok s t"
proof -
  let ?w = "nextSequence s"
  define node where "node = normalizeNode \<lparr>nd_ID = ''task-node-'' @ dec (unat (cx_nextSeq ?w)), nd_Kind = tp_Kind projection,
     nd_Statement = tp_Statement projection, nd_Status = NodeStatusAccepted, nd_SubgraphIDs = tp_SubgraphIDs projection,
     nd_SourceRefs = projectionSourceRefs projection, nd_CreatorAgentID = pr_ActorPrincipalID prin\<rparr>"
  define w1 where "w1 = (putNode (newNodeRecord now prin ?w node) ?w)\<lparr>cx_projections := mput (pr_ProjectID prin, tp_ProjectionID projection) (nd_ID node) (cx_projections s),
     cx_recipients := mput (nd_ID node) (tp_Recipients projection) (cx_recipients s)\<rparr>"
  from run obtain w2 where m: "appendMutationEvents (bumpSubgraphs now (nd_SubgraphIDs node) w1) now prin ''context.task_projection.create''
       ''context.task_projection.created'' (nd_ID node) (PayloadNode node) = Inr w2"
      and t: "t = commitContext w2 prin ''context.task_projection.created'' (nd_SubgraphIDs node)"
    by (auto simp: createProjection_def Let_def check_simps node_def w1_def normalizeNode_def)
  have wf: "node_wf (cx_subgraphs ?w) (nd_ID node) (newNodeRecord now prin ?w node)"
    using validateProjection_wf[OF shape bound, of "newNodeRecord now prin ?w node"] by (simp add: newNodeRecord_def node_def normalizeNode_def)
  have "ctx_ok s ?w" using inv by (rule nextSequence_ok)
  also from this have "ctx_ok ?w (putNode (newNodeRecord now prin ?w node) ?w)"
    using putNode_ok[of ?w "newNodeRecord now prin ?w node"] wf by (simp add: ctx_ok_def newNodeRecord_def)
  finally have "ctx_ok s w1" unfolding w1_def by (simp add: ctx_ok_def)
  also from this have "ctx_ok w1 (bumpSubgraphs now (nd_SubgraphIDs node) w1)"
    using node_subgraphs_exist[OF wf] by (intro bumpSubgraphs_ok ctx_okD(1)) (auto simp: w1_def putNode_def newNodeRecord_def)
  finally show ?thesis unfolding t by (rule mutation_ok[OF _ m])
qed

lemma updateProjection_ok:
  assumes inv: "ctx_inv s" and shape: "validateTaskProjectionShape projection = None" and bound: "validateProjectionBindings prin resolver s projection = None"
    and old: "mget (cx_nodes s) i = Some r" "nr_ProjectID r = pr_ProjectID prin" and run: "updateProjection now s prin projection i r = Inr (j, t)"
  shows "ctx_ok s t"
proof -
  define node where "node = (nr_Node r)\<lparr>nd_Statement := tp_Statement projection, nd_Kind := tp_Kind projection,
     nd_SourceRefs := projectionSourceRefs projection, nd_SubgraphIDs := uniqueStrings (tp_SubgraphIDs projection), nd_Status := NodeStatusAccepted\<rparr>"
  let ?r = "r\<lparr>nr_Node := node, nr_Revision := nr_Revision r + 1\<rparr>"
  let ?ids = "changedSubgraphMemberships (nd_SubgraphIDs (nr_Node r)) (nd_SubgraphIDs node)"
  let ?w = "s\<lparr>cx_nodes := mput i ?r (cx_nodes s), cx_recipients := mput i (tp_Recipients projection) (cx_recipients s)\<rparr>"
  from run obtain w1 where m: "appendMutationEvents (bumpSubgraphs now ?ids ?w) now prin ''context.task_projection.update''
       ''context.task_projection.updated'' i (PayloadNode node) = Inr w1"
      and t: "t = commitContext w1 prin ''context.task_projection.updated'' (unionStringSlices (nd_SubgraphIDs (nr_Node r)) (nd_SubgraphIDs node))"
    by (auto simp: updateProjection_def Let_def check_simps node_def)
  have before: "node_wf (cx_subgraphs s) i r" using graph_wfD(1)[OF ctx_invD(1)[OF inv] old(1)] .
  have wf: "node_wf (cx_subgraphs s) i ?r"
    using before old(2) by (intro validateProjection_wf[OF shape bound]) (auto simp: node_def node_wf_def)
  from ctx_inv_nodes[OF inv graph_wf_put_node[OF ctx_invD(1)[OF inv] wf]] have "ctx_ok s ?w" by (simp add: ctx_ok_def)
  also from this have "ctx_ok ?w (bumpSubgraphs now ?ids ?w)"
    using node_subgraphs_exist[OF before] node_subgraphs_exist[OF wf] changedSubgraphMemberships_sub[of "nd_SubgraphIDs (nr_Node r)" "nd_SubgraphIDs node"]
    by (intro bumpSubgraphs_ok ctx_okD(1)) (auto simp del: not_None_eq)
  finally show ?thesis unfolding t by (rule mutation_ok[OF _ m])
qed

interpretation project_task: graph_operation "\<lambda>s. ProjectTaskContext resolver ctx now s prin projection" for resolver ctx now prin projection
proof
  fix s r t assume inv: "ctx_inv s" and run: "ProjectTaskContext resolver ctx now s prin projection = (r, t)"
  then consider "t = s"
    | i where "validateTaskProjectionShape projection = None" "validateProjectionBindings prin resolver s projection = None"
        "createProjection now s prin projection = Inr (i, t)"
    | i entry j where "validateTaskProjectionShape projection = None" "validateProjectionBindings prin resolver s projection = None"
        "mget (cx_nodes s) i = Some entry" "nr_ProjectID entry = pr_ProjectID prin" "updateProjection now s prin projection i entry = Inr (j, t)"
    by (auto simp: ProjectTaskContext_def committed_iff check_simps split: option.splits if_splits)
  then show "ctx_ok s t"
    using inv createProjection_ok[OF inv] updateProjection_ok[OF inv] by cases (blast intro: ctx_ok_refl)+
qed

section \<open>Reviews\<close>

text \<open>The first pass of a review: the decisions are for different candidates of the batch, and each is valid.\<close>

lemma checkDecisions_ok:
  "checkDecisions prin w C seen ds0 = Inr ds \<Longrightarrow> map rd_CandidateID ds = map rd_CandidateID ds0 \<and> distinct (map rd_CandidateID ds0)
     \<and> set (map rd_CandidateID ds0) \<inter> set seen = {} \<and> (\<forall>d \<in> set ds. mget C (rd_CandidateID d) \<noteq> None \<and> validateReviewDecision prin w d = None)"
proof (induction ds0 arbitrary: seen ds)
  case (Cons d0 ds0)
  then obtain c rest where c: "rd_CandidateID d0 \<notin> set seen" "mget C (rd_CandidateID d0) = Some c"
      and ds: "validateReviewDecision prin w (normalizeReviewDecision c d0) = None" "ds = normalizeReviewDecision c d0 # rest"
      and rest: "checkDecisions prin w C (rd_CandidateID d0 # seen) ds0 = Inr rest"
    by (auto simp: Let_def check_simps split: if_splits option.splits)
  have "rd_CandidateID (normalizeReviewDecision c d0) = rd_CandidateID d0" by (simp add: normalizeReviewDecision_def)
  with Cons.IH[OF rest] c ds show ?case by auto
qed simp

lemma fold_mput_keys: "mget (fold (\<lambda>x. mput (k x) x) xs m) i \<noteq> None \<longleftrightarrow> i \<in> k ` set xs \<or> mget m i \<noteq> None"
  by (induction xs arbitrary: m) (auto simp: gomap_simps)

lemma candidateMap_keys: "mget (candidateMap records) i \<noteq> None \<longleftrightarrow> i \<in> cb_CandidateID ` set records"
  unfolding candidateMap_def by (simp only: fold_mput_keys) simp

lemma reviewed_exactly_once:
  assumes "checkDecisions prin w (candidateMap records) [] ds0 = Inr ds" "length ds0 = length records" "distinct (map cb_CandidateID records)"
  shows "mset (map rd_CandidateID ds) = mset (map cb_CandidateID records)"
proof -
  let ?given = "map rd_CandidateID ds" and ?wanted = "map cb_CandidateID records"
  note ok = checkDecisions_ok[OF assms(1)]
  then have "distinct ?given" "length ds = length records" using assms(2) by (metis, metis length_map)
  then have "card (set ?given) = card (set ?wanted)" using assms(3) by (metis distinct_card length_map)
  moreover have "\<forall>d \<in> set ds. mget (candidateMap records) (rd_CandidateID d) \<noteq> None" using ok by blast
  then have "set ?given \<subseteq> set ?wanted" unfolding candidateMap_keys by auto
  ultimately have "set ?given = set ?wanted" by (metis List.finite_set card_subset_eq)
  then show ?thesis using \<open>distinct ?given\<close> assms(3) set_eq_iff_mset_eq_distinct by blast
qed

text \<open>The second pass: a decision that is not a rejection makes a node in general subgraphs.\<close>

definition kinds_kept :: "ContextStore \<Rightarrow> ContextStore \<Rightarrow> bool" where
  "kinds_kept w t \<longleftrightarrow> (\<forall>project kind j. in_kind (cx_subgraphs w) project kind j \<longrightarrow> in_kind (cx_subgraphs t) project kind j)"

definition decision_ok :: "Principal \<Rightarrow> ContextStore \<Rightarrow> CandidateReviewDecision \<Rightarrow> bool" where
  "decision_ok prin w d \<longleftrightarrow> rd_Action d = ''reject''
     \<or> rd_Kind d \<in> node_kinds \<and> (\<forall>j \<in> set (rd_SubgraphIDs d). in_kind (cx_subgraphs w) (pr_ProjectID prin) SubgraphKindGeneral j)"

lemma validateReviewDecision_ok:
  assumes "validateReviewDecision prin w d = None"
  shows "decision_ok prin w d"
proof (cases "rd_Action d = ''reject''")
  case False
  with assms have kind: "rd_Kind d \<in> node_kinds"
    and all: "\<forall>i \<in> set (rd_SubgraphIDs d). (case mget (cx_subgraphs w) i of None \<Rightarrow> False
             | Some subgraph \<Rightarrow> canSeeSubgraph prin subgraph \<and> sg_Kind (sgr_Subgraph subgraph) = SubgraphKindGeneral)"
    by (simp_all add: validateReviewDecision_def validateNodeKind_ok check_simps split: if_split_asm)
  have "in_kind (cx_subgraphs w) (pr_ProjectID prin) SubgraphKindGeneral j" if "j \<in> set (rd_SubgraphIDs d)" for j
    using bspec[OF all that] by (auto simp: in_kind_def canSeeSubgraph_def split: option.splits)
  with kind show ?thesis by (simp add: decision_ok_def)
qed (simp add: decision_ok_def)

lemma decision_ok_kept: "decision_ok prin w d \<Longrightarrow> kinds_kept w t \<Longrightarrow> decision_ok prin t d"
  by (auto simp: decision_ok_def kinds_kept_def)

lemma kinds_kept_refl [intro]: "cx_subgraphs t = cx_subgraphs w \<Longrightarrow> kinds_kept w t"
  by (simp add: kinds_kept_def)

lemma kinds_kept_trans [trans]: "kinds_kept w t \<Longrightarrow> kinds_kept t u \<Longrightarrow> kinds_kept w u"
  by (simp add: kinds_kept_def)

lemma bumpSubgraphs_kept: "kinds_kept w (bumpSubgraphs now ids w)"
proof (induction ids arbitrary: w)
  case (Cons i ids)
  have "kinds_kept w (bumpSubgraph now i w)" by (auto simp: kinds_kept_def in_kind_def bumpSubgraph_def Let_def gomap_simps)
  also have "kinds_kept (bumpSubgraph now i w) (bumpSubgraphs now (i # ids) w)" using Cons by (simp add: bumpSubgraphs_def)
  finally show ?case .
qed (auto simp: bumpSubgraphs_def)

lemma retireTarget_ok:
  assumes "ctx_inv w"
  shows "ctx_ok w (retireTarget prin d w)" "kinds_kept w (retireTarget prin d w)"
proof -
  have "node_wf G i (r\<lparr>nr_Node := (nr_Node r)\<lparr>nd_Status := targetStatus action\<rparr>, nr_Revision := x\<rparr>)" if "node_wf G i r" for G i r action x
    using that by (simp add: node_wf_def targetStatus_def)
  then have "ctx_inv (retireTarget prin d w)"
    using assms graph_wfD(1)[OF ctx_invD(1)[OF assms]] ctx_inv_nodes[OF assms graph_wf_put_node[OF ctx_invD(1)[OF assms]]]
    by (auto simp: retireTarget_def split: option.splits)
  then show "ctx_ok w (retireTarget prin d w)" by (simp add: ctx_ok_def retireTarget_def split: option.splits)
  show "kinds_kept w (retireTarget prin d w)" by (auto simp: retireTarget_def split: option.splits)
qed

lemma reviewNode_wf:
  assumes "decision_ok prin w d" "rd_Action d \<noteq> ''reject''"
  shows "node_wf (cx_subgraphs w) (nd_ID (reviewNode prin d refs i)) (newNodeRecord now prin w' (reviewNode prin d refs i))"
  using assms by (auto simp: decision_ok_def node_wf_def newNodeRecord_def reviewNode_def normalizeNode_def reviewStatus_def)

lemma applyDecision_ok:
  assumes inv: "ctx_inv w" and ok: "decision_ok prin w d" and run: "applyDecision now prin C d w = Inr (i, t)"
  shows "ctx_ok w t" "kinds_kept w t" "i = None \<longleftrightarrow> rd_Action d = ''reject''"
proof -
  let ?w1 = "nextSequence w"
  let ?put = "\<lambda>node. bumpSubgraphs now (nd_SubgraphIDs node) (putNode (newNodeRecord now prin ?w1 node) ?w1)"
  from run consider (rejected) a b where "rd_Action d = ''reject''" "i = None" "t = w\<lparr>cx_audit := a, cx_outbox := b\<rparr>"
    | (created) refs j a b where "rd_Action d \<noteq> ''reject''" "i \<noteq> None" "t = (retireTarget prin d (?put (reviewNode prin d refs j)))\<lparr>cx_audit := a, cx_outbox := b\<rparr>"
    by (auto simp: applyDecision_def Let_def check_simps elim!: appendMutationEvents_ok split: if_splits)
  then show "ctx_ok w t" "kinds_kept w t" "i = None \<longleftrightarrow> rd_Action d = ''reject''"
  proof (atomize (full), cases)
    case rejected
    then show "ctx_ok w t \<and> kinds_kept w t \<and> (i = None) = (rd_Action d = ''reject'')" using inv by (auto simp: ctx_ok_def)
  next
    case created
    let ?n = "reviewNode prin d refs j"
    have "ctx_ok w ?w1" using inv by (rule nextSequence_ok)
    also from this have "ctx_ok ?w1 (?put ?n)" using reviewNode_wf[OF ok created(1)] by (intro new_node_ok ctx_okD(1)) simp_all
    finally have put: "ctx_ok w (?put ?n)" .
    note retired = retireTarget_ok[OF ctx_okD(1)[OF put], of prin d]
    have "kinds_kept w (putNode (newNodeRecord now prin ?w1 ?n) ?w1)" by (auto simp: putNode_def)
    also note bumpSubgraphs_kept
    also note retired(2)
    finally have "kinds_kept w t" unfolding created(3) by (simp add: kinds_kept_def)
    moreover have "ctx_ok w t" using ctx_ok_trans[OF put retired(1)] unfolding created(3) by (simp add: ctx_ok_def)
    ultimately show "ctx_ok w t \<and> kinds_kept w t \<and> (i = None) = (rd_Action d = ''reject'')" using created(1,2) by simp
  qed
qed

lemma applyDecisions_ok:
  "applyDecisions now prin C ds w = Inr (ids, t) \<Longrightarrow> ctx_inv w \<Longrightarrow> \<forall>d \<in> set ds. decision_ok prin w d
     \<Longrightarrow> ctx_ok w t \<and> length ids = length (filter (\<lambda>d. rd_Action d \<noteq> ''reject'') ds)"
proof (induction ds arbitrary: w ids)
  case (Cons d ds)
  then obtain i u rest where one: "applyDecision now prin C d w = Inr (i, u)" and more: "applyDecisions now prin C ds u = Inr (rest, t)"
      and ids: "ids = (case i of None \<Rightarrow> rest | Some j \<Rightarrow> j # rest)"
    by (auto simp: check_simps)
  note step = applyDecision_ok[OF Cons.prems(2) _ one]
  have ok: "ctx_ok w u" "kinds_kept w u" "i = None \<longleftrightarrow> rd_Action d = ''reject''" using step Cons.prems(3) by auto
  moreover have "\<forall>d \<in> set ds. decision_ok prin u d" using Cons.prems(3) decision_ok_kept[OF _ ok(2)] by simp
  ultimately show ?case using Cons.IH[OF more ctx_okD(1)] ctx_ok_trans by (auto simp: ids split: option.splits)
qed auto

text \<open>A receipt covers a batch: every candidate once, with a node for each that was not rejected.\<close>

definition covers :: "CandidateBufferRecord list \<Rightarrow> TaskMemoryReviewReceipt \<Rightarrow> bool" where
  "covers batch receipt \<longleftrightarrow> mset (rr_ReviewedIDs receipt) = mset (map cb_CandidateID batch)
     \<and> mset (rr_RejectedIDs receipt) \<subseteq># mset (rr_ReviewedIDs receipt)
     \<and> length (rr_NodeIDs receipt) + length (rr_RejectedIDs receipt) = length batch"

lemma reviewFrozenBatch_ok:
  assumes inv: "ctx_inv w" and run: "reviewFrozenBatch now w prin ds0 = Inr (receipt, t)"
  shows "ctx_ok w t" "covers (candidatesOf w (pr_ProjectID prin, pr_TaskID prin)) receipt"
proof -
  let ?batch = "candidatesOf w (pr_ProjectID prin, pr_TaskID prin)"
  let ?reject = "\<lambda>d. rd_Action d = ''reject''"
  let ?w2 = "\<lambda>w. w\<lparr>cx_graphRevision := cx_graphRevision w + 1\<rparr>"
  from run obtain ds ids w1 where len: "length ds0 = length ?batch" and first: "checkDecisions prin w (candidateMap ?batch) [] ds0 = Inr ds"
      and second: "applyDecisions now prin (candidateMap ?batch) ds w = Inr (ids, w1)"
      and receipt: "receipt = \<lparr>rr_TaskID = pr_TaskID prin, rr_ReviewedIDs = sort (map rd_CandidateID ds), rr_NodeIDs = ids,
         rr_RejectedIDs = sort (map rd_CandidateID (filter ?reject ds))\<rparr>"
      and t: "t = appendContextDeltas (?w2 w1) prin (lastOutboxID (?w2 w1)) ''context.candidate_review.reviewed'' (reviewChangedSubgraphs (?w2 w1) ids)"
    by (auto simp: reviewFrozenBatch_def Let_def check_simps)
  have "\<forall>d \<in> set ds. decision_ok prin w d" using checkDecisions_ok[OF first] validateReviewDecision_ok by blast
  from applyDecisions_ok[OF second inv this] have applied: "ctx_ok w w1" "length ids = length (filter (\<lambda>d. \<not> ?reject d) ds)" by auto
  then have "ctx_ok w (?w2 w1)" by (simp add: ctx_ok_def)
  then show "ctx_ok w t" unfolding t using ctx_ok_trans appendContextDeltas_ok ctx_okD(1) by blast
  have once: "mset (map rd_CandidateID ds) = mset (map cb_CandidateID ?batch)"
    using reviewed_exactly_once[OF first len candidates_distinct[OF ctx_invD(4)[OF inv]]] .
  then have "length ds = length ?batch" by (metis length_map size_mset)
  then have "length ids + length (filter ?reject ds) = length ?batch" using applied(2) sum_length_filter_compl[of ?reject ds] by simp
  moreover have "mset (map rd_CandidateID (filter ?reject ds)) \<subseteq># mset (map rd_CandidateID ds)"
    by (simp add: mset_filter image_mset_subseteq_mono)
  ultimately show "covers ?batch receipt" using once by (simp add: covers_def receipt)
qed

lemma ctx_inv_candidates: "ctx_inv s \<Longrightarrow> candidates_ok (s\<lparr>cx_candidates := C\<rparr>) \<Longrightarrow> ctx_inv (s\<lparr>cx_candidates := C\<rparr>)"
  by (simp add: ctx_inv_def subscriptions_ok_def deltas_ok_def)

lemma candidatesOf_put: "candidatesOf (s\<lparr>cx_candidates := mput key xs (cx_candidates s)\<rparr>) k = (if k = key then xs else candidatesOf s k)"
  by (simp add: candidatesOf_def gomap_simps)

lemma candidates_ok_submit:
  assumes "candidates_ok s" "key = (pr_ProjectID prin, pr_TaskID prin)"
  shows "candidates_ok (s\<lparr>cx_candidates := mput key (candidatesOf s key @ [newCandidateRecord now s prin candidate]) (cx_candidates s)\<rparr>)"
  using assms by (auto simp: candidates_ok_def candidatesOf_put newCandidateRecord_def candidate_prefix_def candidate_ids_Suc)

interpretation submit_candidate: context_operation "\<lambda>s. SubmitCandidate recoverable ctx now s prin candidate" for recoverable ctx now prin candidate
proof
  fix s r t assume inv: "ctx_inv s" and run: "SubmitCandidate recoverable ctx now s prin candidate = (r, t)"
  then show "ctx_inv t" using ctx_inv_candidates[OF inv candidates_ok_submit[OF ctx_invD(4)[OF inv] refl]]
    by (auto simp: SubmitCandidate_def Let_def split: option.splits)
  show "log_kept (log_of s) (log_of t)" using run by (auto simp: SubmitCandidate_def Let_def split: option.splits)
qed

interpretation finalize_memory: context_operation "\<lambda>s. FinalizeTaskMemory resolver ctx now s prin taskID" for resolver ctx now prin taskID
proof
  fix s r t assume inv: "ctx_inv s" and run: "FinalizeTaskMemory resolver ctx now s prin taskID = (r, t)"
  then show "ctx_inv t" by (auto simp: FinalizeTaskMemory_def Let_def split: sum.splits if_splits)
  show "log_kept (log_of s) (log_of t)" using run by (auto simp: FinalizeTaskMemory_def Let_def split: sum.splits if_splits)
qed

interpretation submit_review: context_operation "\<lambda>s. SubmitReview ctx now s prin decisions" for ctx now prin decisions
proof
  fix s r t assume inv: "ctx_inv s" and run: "SubmitReview ctx now s prin decisions = (r, t)"
  then show "ctx_inv t" using ctx_okD(1)[OF reviewFrozenBatch_ok(1)[OF inv]]
    by (auto simp: SubmitReview_def Let_def split: option.splits sum.splits if_splits)
  show "log_kept (log_of s) (log_of t)" using run ctx_okD(3)[OF reviewFrozenBatch_ok(1)[OF inv]]
    by (auto simp: SubmitReview_def Let_def split: option.splits sum.splits if_splits)
qed

end
