(* ===== verification/Context_Properties.thy ===== *)
theory Context_Properties
  imports Context_Memory_Inv
begin

text \<open>
  Runs of the context graph: what holds in every state that its operations reach, the task memory as an abstract
  machine, what a principal is shown, and what reaches a subscriber.
\<close>

section \<open>Runs\<close>

text \<open>The operations on the graph, the ones on the task memory, and both.\<close>

inductive graph_step :: "ContextStore \<Rightarrow> ContextStore \<Rightarrow> bool" where
  createNodes: "graph_step s (snd (CreateNodes ctx now s prin batch))"
| createNode: "graph_step s (snd (CreateNode ctx now s prin newNode))"
| updateNode: "graph_step s (snd (UpdateNode ctx now s prin nodeUpdate))"
| deleteNode: "graph_step s (snd (DeleteNode ctx now s prin nodeDeletion))"
| createSubgraph: "CreateSubgraph ctx now s prin newSubgraph = Some (r, t) \<Longrightarrow> graph_step s t"
| updateSubgraph: "graph_step s (snd (UpdateSubgraph ctx now s prin subgraphUpdate))"
| deleteSubgraph: "graph_step s (snd (DeleteSubgraph ctx now s prin subgraphDeletion))"
| searchGraph: "Search lower ctx now s prin words scopes anchors = Some (found, t) \<Longrightarrow> graph_step s t"
| recordDelta: "graph_step s (snd (RecordContextDelta ctx s prin eventID eventKind ids))"
| ackDelta: "graph_step s (snd (AckDelta ctx s prin deltaID))"
| subscribe: "Subscribe ctx now s prin subscription = Some (sub, t) \<Longrightarrow> graph_step s t"
| unsubscribe: "graph_step s (snd (Unsubscribe ctx now s prin subscriptionID))"
| endInvocation: "graph_step s (snd (EndInvocation ctx now s prin invocationID))"
| ensureSlice: "EnsureInitialSlice ctx now s prin ids = Some (shown, t) \<Longrightarrow> graph_step s t"
| createSlice: "CreateInitialSlice ctx now s prin ids = Some (shown, t) \<Longrightarrow> graph_step s t"
| registerTask: "graph_step s (snd (RegisterTaskSubgraph resolver ctx now s prin taskID))"
| projectTask: "graph_step s (snd (ProjectTaskContext resolver ctx now s prin projection))"
| injectFault: "graph_step s (SetNextFault s fault)"

inductive memory_change :: "ContextStore \<Rightarrow> ContextStore \<Rightarrow> bool" where
  submitCandidate: "memory_change s (snd (SubmitCandidate recoverable ctx now s prin candidate))"
| finalizeMemory: "memory_change s (snd (FinalizeTaskMemory resolver ctx now s prin taskID))"
| submitReview: "memory_change s (snd (SubmitReview ctx now s prin decisions))"

definition context_step :: "ContextStore \<Rightarrow> ContextStore \<Rightarrow> bool" where
  "context_step s t \<longleftrightarrow> graph_step s t \<or> memory_change s t"

lemma graph_step_ok: "graph_step s t \<Longrightarrow> ctx_inv s \<Longrightarrow> ctx_ok s t"
proof (induction rule: graph_step.induct)
  case (createSubgraph ctx now s prin newSubgraph r t)
  then show ?case using CreateSubgraph_ok by blast
next
  case (searchGraph lower ctx now s prin words scopes anchors found t)
  then show ?case using search.run_ok by (metis option.sel)
next
  case (subscribe ctx now s prin subscription sub t)
  then show ?case using subscribe.run_ok by (metis option.sel)
next
  case (ensureSlice ctx now s prin ids shown t)
  then show ?case using ensure_slice.run_ok by (metis option.sel)
next
  case (createSlice ctx now s prin ids shown t)
  then show ?case using create_slice.run_ok by (metis option.sel)
next
  case (injectFault s fault)
  then show ?case by (simp add: SetNextFault_def ctx_ok_def)
qed (use create_nodes.run_ok create_node.run_ok update_node.run_ok delete_node.run_ok update_subgraph.run_ok delete_subgraph.run_ok
      record_delta.run_ok ack_delta.run_ok unsubscribe.run_ok end_invocation.run_ok register_task.run_ok project_task.run_ok
    in \<open>metis prod.collapse\<close>)+

lemma memory_change_inv: "memory_change s t \<Longrightarrow> ctx_inv s \<Longrightarrow> ctx_inv t"
  by (induction rule: memory_change.induct) (auto intro: submit_candidate.run_inv finalize_memory.run_inv submit_review.run_inv)

lemma context_step_inv: "context_step s t \<Longrightarrow> ctx_inv s \<Longrightarrow> ctx_inv t"
  using graph_step_ok ctx_okD(1) memory_change_inv unfolding context_step_def by blast

lemma context_step_log: "context_step s t \<Longrightarrow> ctx_inv s \<Longrightarrow> log_kept (log_of s) (log_of t)"
  unfolding context_step_def using graph_step_ok ctx_okD(3) submit_candidate.run_log finalize_memory.run_log submit_review.run_log
  by (auto elim!: memory_change.cases)

lemma context_steps_log: "context_step\<^sup>*\<^sup>* s t \<Longrightarrow> ctx_inv s \<Longrightarrow> ctx_inv t \<and> log_kept (log_of s) (log_of t)"
  by (induction rule: rtranclp_induct) (simp, use context_step_inv context_step_log log_kept_trans in blast)

abbreviation context_reachable :: "ContextStore \<Rightarrow> bool" where
  "context_reachable s \<equiv> context_step\<^sup>*\<^sup>* NewContextStore s"

lemma reachable_inv: "context_reachable s \<Longrightarrow> ctx_inv s"
  by (induction rule: rtranclp_induct) (auto intro: ctx_inv_new context_step_inv)

section \<open>The task memory\<close>

text \<open>
  What the memory of a task is to its users: candidates are collected, the batch is frozen, and a frozen batch
  is reviewed as a whole. A reviewed batch stays as it is.
\<close>

datatype task_memory = Collecting "CandidateBufferRecord list" | Frozen "CandidateBufferRecord list"
  | Reviewed "CandidateBufferRecord list" TaskMemoryReviewReceipt

inductive memory_step :: "task_memory \<Rightarrow> task_memory \<Rightarrow> bool" where
  collect: "cb_CandidateID c \<notin> cb_CandidateID ` set batch \<Longrightarrow> memory_step (Collecting batch) (Collecting (batch @ [c]))"
| freeze: "memory_step (Collecting batch) (Frozen batch)"
| review: "covers batch receipt \<Longrightarrow> memory_step (Frozen batch) (Reviewed batch receipt)"

definition taskMemory :: "ContextStore \<Rightarrow> ProjectID \<times> TaskID \<Rightarrow> task_memory" where
  "taskMemory s key =
     (if memoryState s key = TaskMemoryReviewed then Reviewed (candidatesOf s key) (receiptOf s key)
      else if memoryState s key = TaskMemoryFrozenUnreviewed then Frozen (candidatesOf s key)
      else Collecting (candidatesOf s key))"

lemmas taskMemory_defs = taskMemory_def memoryState_def candidatesOf_def receiptOf_def

lemma taskMemory_frame: "memory_of t = memory_of s \<Longrightarrow> taskMemory t key = taskMemory s key"
  by (simp add: taskMemory_defs memory_of_def)

lemma submit_refines:
  assumes "ctx_inv s"
  shows "memory_step\<^sup>=\<^sup>= (taskMemory s key) (taskMemory (snd (SubmitCandidate recoverable ctx now s prin candidate)) key)"
proof -
  let ?key = "(pr_ProjectID prin, pr_TaskID prin)" and ?c = "newCandidateRecord now s prin candidate"
  obtain r t where run: "SubmitCandidate recoverable ctx now s prin candidate = (r, t)" by fastforce
  then consider "t = s"
    | "t = s\<lparr>cx_candidates := mput ?key (candidatesOf s ?key @ [?c]) (cx_candidates s)\<rparr>" "memoryState s ?key \<noteq> TaskMemoryReviewed"
        "memoryState s ?key \<noteq> TaskMemoryFrozenUnreviewed"
    by (auto simp: SubmitCandidate_def Let_def check_simps split: option.splits)
  then have "memory_step\<^sup>=\<^sup>= (taskMemory s key) (taskMemory t key)"
  proof cases
    case 2
    have "distinct (map cb_CandidateID (candidatesOf s ?key @ [?c]))"
      using candidates_distinct[OF ctx_invD(4)[OF submit_candidate.keeps_inv[OF assms run]], of ?key] unfolding 2(1) by (simp add: candidatesOf_put)
    then have "memory_step (Collecting (candidatesOf s ?key)) (Collecting (candidatesOf s ?key @ [?c]))" by (intro collect) auto
    moreover have "memoryState t = memoryState s" unfolding 2(1) by (simp add: memoryState_def fun_eq_iff)
    moreover have "receiptOf t = receiptOf s" unfolding 2(1) by (simp add: receiptOf_def fun_eq_iff)
    ultimately show ?thesis using 2(2,3) by (auto simp: taskMemory_def candidatesOf_put 2(1))
  qed simp
  then show ?thesis by (simp add: run)
qed

lemma finalize_refines: "memory_step\<^sup>=\<^sup>= (taskMemory s key) (taskMemory (snd (FinalizeTaskMemory resolver ctx now s prin taskID0)) key)"
proof -
  obtain r t where run: "FinalizeTaskMemory resolver ctx now s prin taskID0 = (r, t)" by fastforce
  define taskID where "taskID = (if taskID0 = '''' then pr_TaskID prin else taskID0)"
  let ?key = "(pr_ProjectID prin, taskID)"
  let ?t = "s\<lparr>cx_taskMemory := mput ?key TaskMemoryFrozenUnreviewed (cx_taskMemory s)\<rparr>"
  let ?rejected = "s\<lparr>cx_audit := cx_audit s @ [auditOf s now prin ''context.task_memory.finalize_rejected'' taskID]\<rparr>"
  have "t = s \<or> t = ?rejected \<or> (t = ?t \<and> (memoryState s ?key = '''' \<or> memoryState s ?key = TaskMemoryOpen))"
    using run[unfolded FinalizeTaskMemory_def Let_def, folded taskID_def] by (simp split: sum.split_asm if_split_asm)
  then consider "t = s" | "t = ?rejected" | "t = ?t" "memoryState s ?key = '''' \<or> memoryState s ?key = TaskMemoryOpen"
    by blast
  then have "memory_step\<^sup>=\<^sup>= (taskMemory s key) (taskMemory t key)"
  proof cases
    case 2
    have "memory_of t = memory_of s" unfolding 2 by simp
    from taskMemory_frame[OF this] show ?thesis by simp
  next
    case 3
    then have "memoryState t key = (if key = (pr_ProjectID prin, taskID) then TaskMemoryFrozenUnreviewed else memoryState s key)"
      "candidatesOf t = candidatesOf s" "receiptOf t = receiptOf s"
      by (simp_all add: memoryState_def candidatesOf_def receiptOf_def gomap_simps fun_eq_iff)
    with 3(2) freeze[of "candidatesOf s key"] show ?thesis by (auto simp: taskMemory_def)
  qed simp
  then show ?thesis by (simp add: run)
qed

lemma review_refines:
  assumes "ctx_inv s"
  shows "memory_step\<^sup>=\<^sup>= (taskMemory s key) (taskMemory (snd (SubmitReview ctx now s prin decisions)) key)"
proof -
  let ?key = "(pr_ProjectID prin, pr_TaskID prin)"
  obtain r t where run: "SubmitReview ctx now s prin decisions = (r, t)" by fastforce
  then consider "t = s"
    | receipt w where "reviewFrozenBatch now s prin decisions = Inr (receipt, w)" "memoryState s ?key = TaskMemoryFrozenUnreviewed"
        "t = w\<lparr>cx_taskMemory := mput ?key TaskMemoryReviewed (cx_taskMemory w), cx_reviewReceipts := mput ?key receipt (cx_reviewReceipts w)\<rparr>"
    by (auto simp: SubmitReview_def Let_def split: option.splits sum.splits if_splits)
  then have "memory_step\<^sup>=\<^sup>= (taskMemory s key) (taskMemory t key)"
  proof cases
    case 2
    note ok = reviewFrozenBatch_ok[OF assms 2(1)]
    have "memory_step (Frozen (candidatesOf s ?key)) (Reviewed (candidatesOf s ?key) receipt)" using ok(2) by (rule review)
    moreover have "memory_of w = memory_of s" using ctx_okD(2)[OF ok(1)] .
    ultimately show ?thesis using 2(2) unfolding 2(3) by (auto simp: taskMemory_defs memory_of_def gomap_simps)
  qed simp
  then show ?thesis by (simp add: run)
qed

lemma memory_change_refines: "memory_change s t \<Longrightarrow> ctx_inv s \<Longrightarrow> memory_step\<^sup>=\<^sup>= (taskMemory s key) (taskMemory t key)"
  by (induction rule: memory_change.induct) (rule submit_refines finalize_refines review_refines; assumption?)+

lemma context_step_refines: "context_step s t \<Longrightarrow> ctx_inv s \<Longrightarrow> memory_step\<^sup>=\<^sup>= (taskMemory s key) (taskMemory t key)"
  unfolding context_step_def using memory_change_refines[of s t key] taskMemory_frame[OF ctx_okD(2)[OF graph_step_ok], of s t key] by auto

text \<open>C15. The store implements the memory of every task: seen through \<open>taskMemory\<close>, an operation of the context graph
  either leaves a task's memory as it is or is a step of the abstract machine, so that candidates are only added while the
  batch is open, a batch is frozen before it is reviewed, and a review covers every candidate exactly once.\<close>

theorem task_memory_refines:
  assumes "context_reachable s" "context_step s t"
  shows "memory_step\<^sup>*\<^sup>* (Collecting []) (taskMemory s key) \<and> memory_step\<^sup>=\<^sup>= (taskMemory s key) (taskMemory t key)"
proof
  show "memory_step\<^sup>*\<^sup>* (Collecting []) (taskMemory s key)" using assms(1)
  proof (induction rule: rtranclp_induct)
    case base
    show ?case by (simp add: taskMemory_defs NewContextStore_def)
  next
    case (step y z)
    from context_step_refines[OF step(2) reachable_inv[OF step(1)], of key] step.IH show ?case by (auto intro: rtranclp.rtrancl_into_rtrancl)
  qed
  show "memory_step\<^sup>=\<^sup>= (taskMemory s key) (taskMemory t key)" using context_step_refines[OF assms(2) reachable_inv[OF assms(1)]] .
qed

section \<open>An example\<close>

definition ctx_principal :: "Role \<Rightarrow> string \<Rightarrow> InvocationID \<Rightarrow> Principal" where
  "ctx_principal role operation invocation = \<lparr>pr_ActorPrincipalID = ''agent'', pr_Kind = PrincipalAgent, pr_ProjectID = ''p'', pr_Role = role,
     pr_Operation = operation, pr_TaskID = ''build'', pr_InvocationID = invocation, pr_ConsumerInvocationID = '''', pr_ConsumerTaskID = '''',
     pr_ConsumerRole = '''', pr_Tools = canonicalTools, pr_AuthenticatedAt = 0\<rparr>"

definition ex_candidate :: MemoryCandidate where
  "ex_candidate = \<lparr>mm_Statement = ''the cache is stale'', mm_Kind = NodeKindFact, mm_SourceRefs = [''log:1''], mm_SubgraphIDs = []\<rparr>"

definition ex_resolver :: TaskEndpointResolver where
  "ex_resolver = \<lparr>rs_TaskExists = \<lambda>_ _. Inr True, rs_TaskDone = \<lambda>_ _. Inr True, rs_EndpointExists = \<lambda>_ _. Inr True\<rparr>"

definition ex_decision :: CandidateReviewDecision where
  "ex_decision = \<lparr>rd_CandidateID = ''candidate-p-build-1'', rd_Action = ''create'', rd_Statement = '''', rd_Kind = '''', rd_SubgraphIDs = [],
     rd_TargetNodeID = '''', rd_Reason = ''''\<rparr>"

definition ex_collected :: ContextStore where
  "ex_collected = snd (SubmitCandidate (\<lambda>_. False) None 1 NewContextStore (ctx_principal RoleExecutor '''' ''inv1'') ex_candidate)"

definition ex_frozen :: ContextStore where
  "ex_frozen = snd (FinalizeTaskMemory (Some ex_resolver) None 2 ex_collected (ctx_principal RoleTaskManager '''' ''inv2'') ''build'')"

definition ex_reviewed :: ContextStore where
  "ex_reviewed = snd (SubmitReview None 3 ex_frozen (ctx_principal RoleContext ''review'' ''inv3'') [ex_decision])"

lemma ex_frozen_reachable: "context_reachable ex_frozen"
proof -
  have "context_step NewContextStore ex_collected" unfolding ex_collected_def context_step_def by (blast intro: submitCandidate)
  moreover have "context_step ex_collected ex_frozen" unfolding ex_frozen_def context_step_def by (blast intro: finalizeMemory)
  ultimately show ?thesis by (meson converse_rtranclp_into_rtranclp rtranclp.rtrancl_refl)
qed

lemma ex_review_step: "context_step ex_frozen ex_reviewed"
  unfolding ex_reviewed_def context_step_def by (blast intro: submitReview)

lemma ex_states:
  "memoryState ex_frozen (''p'', ''build'') = TaskMemoryFrozenUnreviewed" "memoryState ex_reviewed (''p'', ''build'') = TaskMemoryReviewed"
  by code_simp+

theorem task_memory_refines_witness:
  "memory_step (taskMemory ex_frozen (''p'', ''build'')) (taskMemory ex_reviewed (''p'', ''build'')) \<and> memoryState ex_reviewed (''p'', ''build'') = TaskMemoryReviewed"
  using task_memory_refines[OF ex_frozen_reachable ex_review_step, of "(''p'', ''build'')"] ex_states by (auto simp: taskMemory_def)

section \<open>The graph\<close>

text \<open>C16. Every node the context graph reaches is well typed: it is stored under its identifier with a valid kind and
  status, its subgraphs exist in its project, and they are all general or all of tasks, so that no change of the
  general graph reaches the context of a task.\<close>

theorem context_graph_well_typed:
  assumes "context_reachable s" "mget (cx_nodes s) i = Some r"
  shows "nd_ID (nr_Node r) = i \<and> nd_Kind (nr_Node r) \<in> {NodeKindDirective, NodeKindFact, NodeKindHypothesis}
    \<and> nd_Status (nr_Node r) \<in> {NodeStatusAccepted, NodeStatusDisputed, NodeStatusSuperseded, NodeStatusOutdated}
    \<and> (\<exists>kind \<in> {SubgraphKindGeneral, SubgraphKindTask}. \<forall>j \<in> set (nd_SubgraphIDs (nr_Node r)).
         \<exists>g. mget (cx_subgraphs s) j = Some g \<and> sgr_ProjectID g = nr_ProjectID r \<and> sg_Kind (sgr_Subgraph g) = kind)"
  using graph_wfD(1)[OF ctx_invD(1)[OF reachable_inv[OF assms(1)]] assms(2)] unfolding node_wf_def in_kind_def by blast

definition ex_curator :: Principal where
  "ex_curator = ctx_principal RoleContext ''curate'' ''inv3''"

definition ex_subgraph :: ContextStore where
  "ex_subgraph = snd (the (CreateSubgraph None 4 NewContextStore ex_curator \<lparr>cq_Name = ''cache'', cq_Summary = '''', cq_NodeIDs = []\<rparr>))"

definition ex_consumer :: Principal where
  "ex_consumer = ctx_principal RoleExecutor '''' ''inv1''"

definition ex_subscribed :: ContextStore where
  "ex_subscribed = snd (the (Subscribe None 5 ex_subgraph ex_consumer \<lparr>sq_SubgraphIDs = [''subgraph-1''], sq_EventKinds = []\<rparr>))"

definition ex_request :: CreateGeneralNodeRequest where
  "ex_request = \<lparr>cg_Statement = ''the cache is stale'', cg_Kind = NodeKindFact, cg_SourceRefs = [''log:1''], cg_SubgraphIDs = [''subgraph-1'']\<rparr>"

definition ex_told :: ContextStore where
  "ex_told = snd (CreateNode None 6 ex_subscribed ex_curator ex_request)"

lemma ex_subscribed_reachable: "context_reachable ex_subscribed"
proof -
  have "graph_step NewContextStore ex_subgraph"
    unfolding ex_subgraph_def using CreateSubgraph_returns by (metis createSubgraph option.sel snd_conv)
  moreover have "ctx_inv ex_subgraph" using graph_step_ok[OF calculation ctx_inv_new] by (rule ctx_okD(1))
  then have "graph_step ex_subgraph ex_subscribed"
    unfolding ex_subscribed_def using Subscribe_returns by (metis graph_step.subscribe option.sel snd_conv)
  ultimately show ?thesis by (meson context_step_def converse_rtranclp_into_rtranclp rtranclp.rtrancl_refl)
qed

lemma ex_told_reachable: "context_reachable ex_told"
  unfolding ex_told_def using ex_subscribed_reachable createNode by (metis context_step_def rtranclp.rtrancl_into_rtrancl)

lemma ex_told_node: "\<exists>r. mget (cx_nodes ex_told) ''node-1'' = Some r \<and> nd_SubgraphIDs (nr_Node r) = [''subgraph-1'']"
proof -
  have "map_option (\<lambda>r. nd_SubgraphIDs (nr_Node r)) (mget (cx_nodes ex_told) ''node-1'') = Some [''subgraph-1'']" by code_simp
  then show ?thesis by auto
qed

theorem context_graph_well_typed_witness: "\<exists>g. mget (cx_subgraphs ex_told) ''subgraph-1'' = Some g"
  using ex_told_node context_graph_well_typed[OF ex_told_reachable, of "''node-1''"] by fastforce

text \<open>The searches for a free identifier come to an end: in every state that the context graph reaches, creating a
  subgraph, subscribing, searching and making the first slice of an invocation return.\<close>

theorem identifier_searches_return:
  assumes "context_reachable s"
  shows "(\<exists>r. CreateSubgraph ctx now s prin newSubgraph = Some r) \<and> (\<exists>r. Subscribe ctx now s prin subscription = Some r)
     \<and> (\<exists>r. Search lower ctx now s prin words scopes anchors = Some r) \<and> (\<exists>r. EnsureInitialSlice ctx now s prin ids = Some r)"
  using CreateSubgraph_returns Subscribe_returns[OF reachable_inv[OF assms]] Search_returns[OF reachable_inv[OF assms]]
    EnsureInitialSlice_returns[OF reachable_inv[OF assms]] by meson

theorem identifier_searches_return_witness:
  "\<exists>r. Subscribe None 7 ex_told ex_consumer \<lparr>sq_SubgraphIDs = [''subgraph-1''], sq_EventKinds = []\<rparr> = Some r"
  using identifier_searches_return[OF ex_told_reachable] by blast

section \<open>What a principal is shown\<close>

text \<open>
  A node that may be shown: it is a node of the principal's project, with its statement, and the memberships that
  are shown are its own ones that are general or of the principal's task; there is one when the node has any.
\<close>

definition showable :: "ContextStore \<Rightarrow> Principal \<Rightarrow> ContextNode \<Rightarrow> bool" where
  "showable s prin n \<longleftrightarrow> (\<exists>r. mget (cx_nodes s) (nd_ID n) = Some r \<and> nr_ProjectID r = pr_ProjectID prin \<and> nd_Statement n = nd_Statement (nr_Node r)
     \<and> set (nd_SubgraphIDs n) \<subseteq> set (nd_SubgraphIDs (nr_Node r)) \<and> (nd_SubgraphIDs (nr_Node r) \<noteq> [] \<longrightarrow> nd_SubgraphIDs n \<noteq> [])
     \<and> (\<forall>j \<in> set (nd_SubgraphIDs n). \<exists>g. mget (cx_subgraphs s) j = Some g \<and> sgr_ProjectID g = pr_ProjectID prin
          \<and> (sg_Kind (sgr_Subgraph g) = SubgraphKindGeneral \<or> sgr_TaskID g = pr_TaskID prin)))"

lemma seenIn_iff: "seenIn prin G j \<longleftrightarrow> (\<exists>g. mget G j = Some g \<and> canSeeSubgraph prin g)"
  by (simp add: seenIn_def split: option.split)

lemma filtered_showable:
  assumes "ctx_inv s" "mget (cx_nodes s) i = Some r" "canSeeNode prin (cx_subgraphs s) r" "\<And>j. P j \<Longrightarrow> seenIn prin (cx_subgraphs s) j"
    and "nd_SubgraphIDs (nr_Node r) \<noteq> [] \<Longrightarrow> \<exists>j \<in> set (nd_SubgraphIDs (nr_Node r)). P j"
  shows "showable s prin ((nr_Node r)\<lparr>nd_SubgraphIDs := filter P (nd_SubgraphIDs (nr_Node r))\<rparr>)"
proof -
  have "nd_ID (nr_Node r) = i" using graph_wfD(1)[OF ctx_invD(1)[OF assms(1)] assms(2)] by (simp add: node_wf_def)
  moreover have "nr_ProjectID r = pr_ProjectID prin" using assms(3) by (simp add: canSeeNode_def)
  moreover have "\<exists>g. mget (cx_subgraphs s) j = Some g \<and> sgr_ProjectID g = pr_ProjectID prin
      \<and> (sg_Kind (sgr_Subgraph g) = SubgraphKindGeneral \<or> sgr_TaskID g = pr_TaskID prin)" if "P j" for j
    using assms(4)[OF that] by (auto simp: seenIn_iff canSeeSubgraph_def)
  moreover have "filter P (nd_SubgraphIDs (nr_Node r)) \<noteq> []" if "nd_SubgraphIDs (nr_Node r) \<noteq> []"
    using assms(5)[OF that] by (simp add: filter_empty_conv)
  ultimately show ?thesis using assms(2) by (simp add: showable_def)
qed

lemma visibleNode_showable:
  assumes "ctx_inv s" "mget (cx_nodes s) i = Some r" "canSeeNode prin (cx_subgraphs s) r"
  shows "showable s prin (visibleNode prin (cx_subgraphs s) (nr_Node r))"
  unfolding visibleNode_def using assms(3) by (intro filtered_showable[OF assms]) (auto simp: canSeeNode_def list_ex_iff)

lemma stored_node: "ctx_inv s \<Longrightarrow> r \<in> set (sortedNodesLocked s) \<Longrightarrow> \<exists>i. mget (cx_nodes s) i = Some r"
  using mvalues_iff[of "cx_nodes s" r] ctx_invD(1)[of s] by (simp add: sortedNodesLocked_def graph_wf_def)

lemma effective_seen: "j \<in> set (effectiveSubgraphsLocked s prin invocationID) \<Longrightarrow> seenIn prin (cx_subgraphs s) j"
  by (auto simp: effectiveSubgraphsLocked_def)

lemma slice_showable:
  assumes inv: "ctx_inv s" and "n \<in> set (sl_Nodes (materializeInvocationSliceLocked s prin invocationID))"
  shows "showable s prin n"
proof -
  let ?E = "effectiveSubgraphsLocked s prin invocationID"
  from assms(2) obtain r where r: "r \<in> set (sortedNodesLocked s)" "canSeeNode prin (cx_subgraphs s) r" "intersects (nd_SubgraphIDs (nr_Node r)) ?E"
      and n: "n = (nr_Node r)\<lparr>nd_SubgraphIDs := filter (\<lambda>i. i \<in> set ?E) (nd_SubgraphIDs (nr_Node r))\<rparr>"
    by (auto simp: materializeInvocationSliceLocked_def Let_def)
  obtain i where "mget (cx_nodes s) i = Some r" using stored_node[OF inv r(1)] by blast
  from filtered_showable[OF inv this r(2), of "\<lambda>j. j \<in> set ?E"] effective_seen r(3) show ?thesis by (auto simp: n intersects_def list_ex_iff)
qed

lemma expandEdge_showable:
  assumes "ctx_inv s" "\<forall>n \<in> set (fst acc). showable s prin n"
  shows "\<forall>n \<in> set (fst (expandEdge prin s current edge acc)). showable s prin n"
  using assms(2) visibleNode_showable[OF assms(1)] by (auto simp: expandEdge_def Let_def split: option.splits)

lemma fold_keeps: "(\<And>x acc. P acc \<Longrightarrow> P (f x acc)) \<Longrightarrow> P acc \<Longrightarrow> P (fold f xs acc)"
  by (induction xs arbitrary: acc) auto

lemma expandLevels_showable:
  assumes inv: "ctx_inv s" shows "\<forall>n \<in> set nodes. showable s prin n \<Longrightarrow> \<forall>n \<in> set (fst (expandLevels prin s depth nodes frontier)). showable s prin n"
proof (induction depth arbitrary: nodes frontier)
  case (Suc depth)
  let ?P = "\<lambda>acc. \<forall>n \<in> set (fst acc). showable s prin n"
  let ?acc = "fold (\<lambda>current. fold (expandEdge prin s current) (sortedEdgesLocked s)) frontier (nodes, [] :: string list)"
  have "?P ?acc" using Suc.prems by (intro fold_keeps[where P = ?P]) (use expandEdge_showable[OF inv] in auto)
  then show ?case using Suc.IH[of "fst ?acc" "snd ?acc"] by (simp add: case_prod_beta)
qed simp

lemma Explore_showable:
  assumes inv: "ctx_inv s" and run: "Explore ctx s prin anchorRef depth = Inr shown" and n: "n \<in> set (sd_Nodes shown)"
  shows "showable s prin n"
proof -
  from run consider "sd_Nodes shown = []"
    | anchor where "sd_Nodes shown = map (\<lambda>r. visibleNode prin (cx_subgraphs s) (nr_Node r))
          (filter (\<lambda>r. anchor \<in> set (nd_SubgraphIDs (nr_Node r)) \<and> canSeeNode prin (cx_subgraphs s) r) (sortedNodesLocked s))"
    | anchor r where "mget (cx_nodes s) anchor = Some r" "canSeeNode prin (cx_subgraphs s) r"
        "sd_Nodes shown = fst (expandLevels prin s (nat (if depth \<le> 0 then 1 else depth)) [visibleNode prin (cx_subgraphs s) (nr_Node r)] [anchor])"
    by (auto simp: Explore_def check_simps Let_def case_prod_beta simp del: expandLevels.simps split: if_split_asm option.splits)
  then show ?thesis
  proof cases
    case 2
    with n obtain r where "r \<in> set (sortedNodesLocked s)" "canSeeNode prin (cx_subgraphs s) r" "n = visibleNode prin (cx_subgraphs s) (nr_Node r)" by auto
    then show ?thesis using visibleNode_showable[OF inv] stored_node[OF inv] by blast
  next
    case 3
    then show ?thesis using n expandLevels_showable[OF inv, of "[visibleNode prin (cx_subgraphs s) (nr_Node r)]"] visibleNode_showable[OF inv 3(1,2)] by auto
  qed (use n in simp)
qed

text \<open>C39. What an agent is shown of the context graph stays inside its project and its task: every node of the context of its
  invocation, of an exploration and of a lookup is a node of its project, shown only under general subgraphs and the
  subgraph of its own task, and it is in one of them when it is in any.\<close>

theorem shown_context_confined:
  assumes "context_reachable s"
  shows "(MaterializeRuntimeContext ctx s prin = Inr slice' \<and> n \<in> set (sl_Nodes slice') \<longrightarrow> showable s prin n)
     \<and> (Explore ctx s prin anchorRef depth = Inr shown \<and> n \<in> set (sd_Nodes shown) \<longrightarrow> showable s prin n)
     \<and> (GetNode ctx s prin i = Inr n \<longrightarrow> showable s prin n)"
proof -
  note inv = reachable_inv[OF assms]
  have "showable s prin n" if "GetNode ctx s prin i = Inr n"
    using that visibleNode_showable[OF inv] by (auto simp: GetNode_def check_simps split: option.splits)
  then show ?thesis using slice_showable[OF inv] Explore_showable[OF inv] by (auto simp: MaterializeRuntimeContext_def check_simps)
qed

lemma ex_shown: "map nd_ID (sl_Nodes (materializeInvocationSliceLocked ex_told ex_consumer ''inv1'')) = [''node-1'']"
  by code_simp

theorem shown_context_confined_witness:
  "\<exists>slice' n. MaterializeRuntimeContext None ex_told ex_consumer = Inr slice' \<and> n \<in> set (sl_Nodes slice') \<and> showable ex_told ex_consumer n"
proof -
  let ?slice = "materializeInvocationSliceLocked ex_told ex_consumer ''inv1''"
  have "MaterializeRuntimeContext None ex_told ex_consumer = Inr ?slice"
    by (simp add: MaterializeRuntimeContext_def ex_consumer_def ctx_principal_def fail_if_def)
  moreover obtain n where "n \<in> set (sl_Nodes ?slice)" using ex_shown by (cases "sl_Nodes ?slice") auto
  ultimately show ?thesis using shown_context_confined[OF ex_told_reachable, of None ex_consumer ?slice n] by blast
qed

section \<open>What reaches a subscriber\<close>

lemma deltaLoop_frame: "\<exists>D. snd (deltaLoop prin eventID kind ids records w) = w\<lparr>cx_deltas := D\<rparr>"
proof (induction prin eventID kind ids records w rule: deltaLoop.induct)
  case (1 prin eventID eventKind ids w)
  show ?case by (intro exI[of _ "cx_deltas w"]) simp
qed (auto simp: Let_def)

lemma deltaLoop_keeps:
  "ctx_inv w \<Longrightarrow> mget (cx_deltas w) k = Some d \<Longrightarrow> mget (cx_deltas (snd (deltaLoop prin eventID kind ids records w))) k = Some d"
proof (induction prin eventID kind ids records w rule: deltaLoop.induct)
  case (2 prin eventID eventKind ids entry records w)
  let ?d = "newDelta w prin eventID eventKind ids entry"
  let ?w = "w\<lparr>cx_deltas := mput (cd_ID ?d) ?d (cx_deltas w)\<rparr>"
  have fresh: "mget (cx_deltas w) (cd_ID ?d) = None"
    using numbered_fresh[of "''delta-''" "cx_deltas w"] ctx_invD(3)[OF "2.prems"(1)] by (simp add: newDelta_def deltas_ok_def)
  then have "mget (cx_deltas ?w) k = Some d" using "2.prems"(2) by (auto simp: gomap_simps)
  moreover have "ctx_inv ?w" if "deltaWanted w prin eventKind ids entry"
    using deltaLoop_ok[OF "2.prems"(1), of prin eventID eventKind ids "[entry]"] that by (simp add: Let_def ctx_ok_def)
  ultimately show ?case using 2 by (simp add: Let_def)
qed simp

definition told :: "ContextStore \<Rightarrow> Principal \<Rightarrow> string list \<Rightarrow> ContextSubscriptionRecord \<Rightarrow> ContextDelta \<Rightarrow> bool" where
  "told w prin ids entry d \<longleftrightarrow> cd_ProjectID d = pr_ProjectID prin \<and> cd_SubscriptionID d = cs_ID (csr_Subscription entry)
     \<and> cd_InvocationID d = cs_ConsumerInvocationID (csr_Subscription entry) \<and> cd_SubgraphIDs d = visibleDeltaSubgraphs entry (cx_subgraphs w) ids"

lemma deltaLoop_tells:
  "ctx_inv w \<Longrightarrow> entry \<in> set records \<Longrightarrow> deltaWanted w prin kind ids entry
     \<Longrightarrow> \<exists>d. mget (cx_deltas (snd (deltaLoop prin eventID kind ids records w))) (cd_ID d) = Some d \<and> mget (cx_deltas w) (cd_ID d) = None \<and> told w prin ids entry d"
proof (induction prin eventID kind ids records w rule: deltaLoop.induct)
  case (2 prin eventID eventKind ids first records w)
  let ?d = "newDelta w prin eventID eventKind ids first"
  let ?w = "w\<lparr>cx_deltas := mput (cd_ID ?d) ?d (cx_deltas w)\<rparr>"
  have fresh: "mget (cx_deltas w) (cd_ID ?d) = None"
    using numbered_fresh[of "''delta-''" "cx_deltas w"] ctx_invD(3)[OF "2.prems"(1)] by (simp add: newDelta_def deltas_ok_def)
  show ?case
  proof (cases "deltaWanted w prin eventKind ids first")
    case True
    then have inv: "ctx_inv ?w" using deltaLoop_ok[OF "2.prems"(1), of prin eventID eventKind ids "[first]"] by (simp add: Let_def ctx_ok_def)
    show ?thesis
    proof (cases "entry = first")
      case entry: True
      have "mget (cx_deltas ?w) (cd_ID ?d) = Some ?d" by (simp add: gomap_simps)
      from deltaLoop_keeps[OF inv this, of prin eventID eventKind ids records] fresh True entry show ?thesis
        by (intro exI[of _ ?d]) (simp add: Let_def told_def, simp add: newDelta_def)
    next
      case False
      moreover have "deltaWanted ?w prin eventKind ids entry" using "2.prems"(3) by (simp add: deltaWanted_def)
      ultimately obtain d where "mget (cx_deltas (snd (deltaLoop prin eventID eventKind ids records ?w))) (cd_ID d) = Some d"
          "mget (cx_deltas ?w) (cd_ID d) = None" "told ?w prin ids entry d"
        using "2.IH"(1)[OF True refl inv] "2.prems"(2) by auto
      then show ?thesis using True by (intro exI[of _ d]) (auto simp: Let_def gomap_simps told_def split: if_splits)
    qed
  next
    case False
    with 2 have "entry \<in> set records" by auto
    with "2.IH"(2)[OF False "2.prems"(1) _ "2.prems"(3)] False show ?thesis by simp
  qed
qed simp

text \<open>The consumer \<open>q\<close> is shown the delta \<open>i\<close> as a change of the subgraph \<open>j\<close>; the subscription \<open>k\<close> is active and may see \<open>j\<close>.\<close>

definition sees :: "ContextStore \<Rightarrow> Principal \<Rightarrow> string \<Rightarrow> string \<Rightarrow> bool" where
  "sees s q i j \<longleftrightarrow> (\<exists>pending d. PendingDeltas None s q = Inr pending \<and> d \<in> set pending \<and> cd_ID d = i \<and> j \<in> set (cd_SubgraphIDs d))"

definition subscription_open :: "ContextStore \<Rightarrow> string \<Rightarrow> string \<Rightarrow> bool" where
  "subscription_open s k j \<longleftrightarrow> (\<exists>r g. mget (cx_subscriptions s) k = Some r \<and> csr_Active r \<and> mget (cx_subgraphs s) j = Some g \<and> canSubscriptionSeeSubgraph r g)"

lemma seesI:
  assumes "mget (cx_deltas s) i = Some d" "deltaPending s q d = Some d'" "cd_ID d = i" "j \<in> set (cd_SubgraphIDs d')"
  shows "sees s q i j"
proof -
  have "d' \<in> set (List.map_filter (deltaPending s q) (mvalues (cx_deltas s)))"
    using assms(2) mget_mvalues[OF assms(1)] by (force simp: List.map_filter_def)
  moreover have "cd_ID d' = i" using assms(2,3) by (auto simp: deltaPending_def Let_def split: option.splits if_splits)
  ultimately show ?thesis using assms(4) by (auto simp: sees_def PendingDeltas_def)
qed

lemma acknowledged_unseen:
  assumes "mget (cx_deltaAck s) i = Some True"
  shows "\<not> sees s q i j"
proof -
  have "cd_ID d' \<noteq> i" if "deltaPending s q d = Some d'" for d d'
    using that assms by (auto simp: deltaPending_def Let_def split: option.splits if_splits)
  then show ?thesis by (auto simp: sees_def PendingDeltas_def List.map_filter_def)
qed

text \<open>A delta and its subscription in a later state: it is shown until it is acknowledged, and may be acknowledged.\<close>

lemma delta_later:
  assumes log: "log_kept (log_of t) (log_of t')" and d: "mget (cx_deltas t) (cd_ID d) = Some d" "told w q ids entry d" "j \<in> set (cd_SubgraphIDs d)"
    and entry: "mget (cx_subscriptions t) (cs_ID (csr_Subscription entry)) = Some entry" "csr_ProjectID entry = pr_ProjectID q"
      "cs_ConsumerInvocationID (csr_Subscription entry) = pr_InvocationID q"
  shows "subscription_open t' (cs_ID (csr_Subscription entry)) j \<Longrightarrow> mget (cx_deltaAck t') (cd_ID d) \<noteq> Some True \<Longrightarrow> sees t' q (cd_ID d) j"
    and "AckDelta None t' q (cd_ID d) = (None, t'\<lparr>cx_deltaAck := mput (cd_ID d) True (cx_deltaAck t')\<rparr>)"
proof -
  obtain r where r: "mget (cx_subscriptions t') (cs_ID (csr_Subscription entry)) = Some r" "same_scope entry r"
    using log_keptD(3)[OF log entry(1)] by blast
  have later: "mget (cx_deltas t') (cd_ID d) = Some d" using log_keptD(1)[OF log d(1)] .
  note scope = r(2)[unfolded same_scope_def] d(2)[unfolded told_def]
  show "AckDelta None t' q (cd_ID d) = (None, t'\<lparr>cx_deltaAck := mput (cd_ID d) True (cx_deltaAck t')\<rparr>)"
    using later r(1) scope entry(2,3) by (simp add: AckDelta_def)
  assume "subscription_open t' (cs_ID (csr_Subscription entry)) j" and unseen: "mget (cx_deltaAck t') (cd_ID d) \<noteq> Some True"
  then have active: "csr_Active r" and j: "j \<in> set (visibleDeltaSubgraphs r (cx_subgraphs t') (cd_SubgraphIDs d))"
    using r(1) scope d(3) by (auto simp: subscription_open_def visibleDeltaSubgraphs_def)
  then have "deltaPending t' q d = Some (d\<lparr>cd_SubgraphIDs := visibleDeltaSubgraphs r (cx_subgraphs t') (cd_SubgraphIDs d)\<rparr>)"
    using unseen r(1) scope entry(2,3) by (auto simp: deltaPending_def Let_def)
  from seesI[OF later this refl] j show "sees t' q (cd_ID d) j" by simp
qed

lemma bumpSubgraphs_frame: "cx_subscriptions (bumpSubgraphs now ids w) = cx_subscriptions w" "cx_deltas (bumpSubgraphs now ids w) = cx_deltas w"
  "cx_deltaAck (bumpSubgraphs now ids w) = cx_deltaAck w"
  unfolding bumpSubgraphs_def by (induction ids arbitrary: w) (simp_all add: bumpSubgraph_def Let_def)

lemma CreateNode_commit:
  assumes inv: "ctx_inv s" and run: "CreateNode ctx now s prin req = (Inr i, t)"
  obtains w where "t = snd (deltaLoop prin (lastOutboxID w) ''context.node.created'' (uniqueStrings (cg_SubgraphIDs req)) (mvalues (cx_subscriptions s)) w)"
    "ctx_inv w" "cx_subscriptions w = cx_subscriptions s" "cx_deltas w = cx_deltas s" "cx_deltaAck w = cx_deltaAck s"
    "\<And>j. j \<in> set (uniqueStrings (cg_SubgraphIDs req)) \<Longrightarrow> in_kind (cx_subgraphs w) (pr_ProjectID prin) SubgraphKindGeneral j"
proof -
  let ?w = "nextSequence s"
  let ?put = "\<lambda>node. bumpSubgraphs now (nd_SubgraphIDs node) (putNode (newNodeRecord now prin ?w node) ?w)"
  from run obtain node creation w1 where v: "validateGeneralNode prin (cx_subgraphs ?w) node creation = None"
      and ids: "nd_SubgraphIDs node = uniqueStrings (cg_SubgraphIDs req)"
      and m: "appendMutationEvents (?put node) now prin ''context.node.create'' ''context.node.created'' (nd_ID node) (PayloadNode node) = Inr w1"
      and t: "t = commitContext w1 prin ''context.node.created'' (nd_SubgraphIDs node)"
    by (auto simp: CreateNode_def committed_iff Let_def check_simps normalizeNode_def)
  obtain a b where w1: "w1 = (?put node)\<lparr>cx_audit := a, cx_outbox := b\<rparr>" by (rule appendMutationEvents_ok[OF m])
  have "ctx_inv ?w" using nextSequence_ok[OF inv] by (rule ctx_okD(1))
  then have ok: "ctx_ok ?w (?put node)" using validateGeneralNode_wf[OF v] by (intro new_node_ok) (auto simp: newNodeRecord_def)
  have general: "in_kind (cx_subgraphs ?w) (pr_ProjectID prin) SubgraphKindGeneral j" if "j \<in> set (nd_SubgraphIDs node)" for j
    using v that by (auto simp: validateGeneralNode_def validateNewNode_def check_simps in_kind_def canSeeSubgraph_def split: option.splits)
  have kept: "kinds_kept ?w (?put node)" using bumpSubgraphs_kept[of "putNode (newNodeRecord now prin ?w node) ?w" now "nd_SubgraphIDs node"]
    by (simp add: kinds_kept_def putNode_def)
  let ?u = "w1\<lparr>cx_graphRevision := cx_graphRevision w1 + 1\<rparr>"
  show ?thesis
  proof (rule that[of ?u])
    show "t = snd (deltaLoop prin (lastOutboxID ?u) ''context.node.created'' (uniqueStrings (cg_SubgraphIDs req)) (mvalues (cx_subscriptions s)) ?u)"
      by (simp add: t commitContext_def appendContextDeltas_def Let_def ids w1 bumpSubgraphs_frame putNode_def nextSequence_def)
    show "ctx_inv ?u" using ctx_okD(1)[OF ok] by (simp add: w1)
    show "in_kind (cx_subgraphs ?u) (pr_ProjectID prin) SubgraphKindGeneral j" if "j \<in> set (uniqueStrings (cg_SubgraphIDs req))" for j
      using general[unfolded ids, OF that] kept by (simp add: kinds_kept_def w1)
  qed (simp_all add: w1 bumpSubgraphs_frame putNode_def nextSequence_def)
qed

text \<open>
  C40. A new node reaches its subscribers: when the curator creates a node, an active subscription of the project to
  one of the node's subgraphs, whose event kinds are empty or contain context.node.created, gets a new delta that
  names the subgraph. Its consumer sees the delta right away and in every later state in which the subscription is
  still active, may still see the subgraph and the delta is not acknowledged. The consumer can acknowledge it in
  every later state and is never shown it again after that.
\<close>

theorem change_reaches_subscribers:
  assumes "context_reachable s" "CreateNode ctx now s prin req = (Inr i, t)"
    and "mget (cx_subscriptions s) k = Some entry" "csr_Active entry" "csr_ProjectID entry = pr_ProjectID prin"
    and "cs_EventKinds (csr_Subscription entry) = [] \<or> ''context.node.created'' \<in> set (cs_EventKinds (csr_Subscription entry))"
    and "j \<in> set (cg_SubgraphIDs req)" "j \<noteq> ''''" "j \<in> set (cs_SubgraphIDs (csr_Subscription entry))"
    and "pr_ProjectID q = pr_ProjectID prin" "pr_InvocationID q = cs_ConsumerInvocationID (csr_Subscription entry)"
  shows "\<exists>d. mget (cx_deltas s) (cd_ID d) = None \<and> mget (cx_deltas t) (cd_ID d) = Some d \<and> cd_SubscriptionID d = k \<and> sees t q (cd_ID d) j
     \<and> (\<forall>later. context_step\<^sup>*\<^sup>* t later \<longrightarrow>
          (subscription_open later k j \<and> mget (cx_deltaAck later) (cd_ID d) \<noteq> Some True \<longrightarrow> sees later q (cd_ID d) j)
        \<and> (\<exists>u. AckDelta None later q (cd_ID d) = (None, u) \<and> (\<forall>after j'. context_step\<^sup>*\<^sup>* u after \<longrightarrow> \<not> sees after q (cd_ID d) j')))"
proof -
  note inv = reachable_inv[OF assms(1)]
  let ?ids = "uniqueStrings (cg_SubgraphIDs req)" and ?kind = "''context.node.created''"
  obtain w where t: "t = snd (deltaLoop prin (lastOutboxID w) ?kind ?ids (mvalues (cx_subscriptions s)) w)" and w: "ctx_inv w"
      and same: "cx_subscriptions w = cx_subscriptions s" "cx_deltas w = cx_deltas s" "cx_deltaAck w = cx_deltaAck s"
      and general: "\<And>j. j \<in> set ?ids \<Longrightarrow> in_kind (cx_subgraphs w) (pr_ProjectID prin) SubgraphKindGeneral j"
    by (rule CreateNode_commit[OF inv assms(2)]) blast
  have j: "j \<in> set ?ids" using assms(7,8) by simp
  obtain g where g: "mget (cx_subgraphs w) j = Some g" "canSubscriptionSeeSubgraph entry g"
    using general[OF j] assms(5) by (auto simp: in_kind_def canSubscriptionSeeSubgraph_def)
  then have vis: "j \<in> set (visibleDeltaSubgraphs entry (cx_subgraphs w) ?ids)" using j assms(9) by (auto simp: visibleDeltaSubgraphs_def)
  then have wanted: "deltaWanted w prin ?kind ?ids entry"
    using assms(4-6,9) j by (auto simp: deltaWanted_def recordMatchesDelta_def intersects_def list_ex_iff)
  obtain d where d: "mget (cx_deltas t) (cd_ID d) = Some d" "mget (cx_deltas s) (cd_ID d) = None" "told w prin ?ids entry d"
    using deltaLoop_tells[OF w mget_mvalues[OF assms(3)] wanted] unfolding t same by blast
  obtain D where D: "t = w\<lparr>cx_deltas := D\<rparr>" using deltaLoop_frame unfolding t by blast
  have key: "cs_ID (csr_Subscription entry) = k" using ctx_invD(2)[OF inv] assms(3) by (simp add: subscriptions_ok_def keyed_def)
  have entry: "mget (cx_subscriptions t) (cs_ID (csr_Subscription entry)) = Some entry" using assms(3) key by (simp add: D same)
  have told: "told w q ?ids entry d" and named: "j \<in> set (cd_SubgraphIDs d)" using d(3) assms(10) vis by (simp_all add: told_def)
  have at: "ctx_inv t" using create_node.keeps_inv[OF inv assms(2)] .
  have fresh: "mget (cx_deltaAck t) (cd_ID d) \<noteq> Some True" using ctx_invD(3)[OF inv] d(2) by (auto simp: deltas_ok_def D same)
  have now: "subscription_open t k j" using entry key assms(4) g by (auto simp: subscription_open_def D)
  note later = delta_later[OF _ d(1) told named entry assms(5)[folded assms(10)] assms(11)[symmetric], unfolded key]
  have gone: "\<not> sees after q (cd_ID d) j'"
    if "context_step\<^sup>*\<^sup>* t u" "context_step\<^sup>*\<^sup>* (u\<lparr>cx_deltaAck := mput (cd_ID d) True (cx_deltaAck u)\<rparr>) after" for u after j'
  proof (rule acknowledged_unseen)
    have u: "ctx_inv u" "mget (cx_deltas u) (cd_ID d) = Some d" using context_steps_log[OF that(1) at] log_keptD(1)[OF _ d(1)] by blast+
    from log_keptD(2)[OF conjunct2[OF context_steps_log[OF that(2) ctx_inv_ack[OF u]]], of "cd_ID d"]
    show "mget (cx_deltaAck after) (cd_ID d) = Some True" by (simp add: gomap_simps)
  qed
  have "cd_SubscriptionID d = k" using told key by (simp add: told_def)
  moreover have "(subscription_open u k j \<and> mget (cx_deltaAck u) (cd_ID d) \<noteq> Some True \<longrightarrow> sees u q (cd_ID d) j)
        \<and> (\<exists>v. AckDelta None u q (cd_ID d) = (None, v) \<and> (\<forall>after j'. context_step\<^sup>*\<^sup>* v after \<longrightarrow> \<not> sees after q (cd_ID d) j'))"
    if "context_step\<^sup>*\<^sup>* t u" for u
    using later[OF conjunct2[OF context_steps_log[OF that at]]] gone[OF that] by blast
  ultimately show ?thesis using d(1,2) later(1)[OF log_kept_refl now fresh] by blast
qed

lemma ex_subscription: "\<exists>entry. mget (cx_subscriptions ex_subscribed) ''sub-1'' = Some entry \<and> csr_Active entry \<and> csr_ProjectID entry = ''p''
   \<and> cs_EventKinds (csr_Subscription entry) = [] \<and> cs_SubgraphIDs (csr_Subscription entry) = [''subgraph-1''] \<and> cs_ConsumerInvocationID (csr_Subscription entry) = ''inv1''"
proof -
  have "map_option (\<lambda>e. (csr_Active e, csr_ProjectID e, cs_EventKinds (csr_Subscription e), cs_SubgraphIDs (csr_Subscription e),
      cs_ConsumerInvocationID (csr_Subscription e))) (mget (cx_subscriptions ex_subscribed) ''sub-1'') = Some (True, ''p'', [], [''subgraph-1''], ''inv1'')"
    by code_simp
  then show ?thesis by auto
qed

lemma ex_created: "\<exists>i. CreateNode None 6 ex_subscribed ex_curator ex_request = (Inr i, ex_told)"
proof -
  have "\<not> isl (fst (CreateNode None 6 ex_subscribed ex_curator ex_request))" by code_simp
  then show ?thesis unfolding ex_told_def by (metis prod.collapse sum.collapse(2))
qed

theorem change_reaches_subscribers_witness:
  "\<exists>(d :: ContextDelta) u. sees ex_told ex_consumer (cd_ID d) ''subgraph-1'' \<and> cd_SubscriptionID d = ''sub-1''
     \<and> AckDelta None ex_told ex_consumer (cd_ID d) = (None, u) \<and> \<not> sees u ex_consumer (cd_ID d) ''subgraph-1''"
proof -
  obtain entry where entry: "mget (cx_subscriptions ex_subscribed) ''sub-1'' = Some entry" "csr_Active entry" "csr_ProjectID entry = ''p''"
      "cs_EventKinds (csr_Subscription entry) = []" "cs_SubgraphIDs (csr_Subscription entry) = [''subgraph-1'']"
      "cs_ConsumerInvocationID (csr_Subscription entry) = ''inv1''"
    using ex_subscription by blast
  obtain i where created: "CreateNode None 6 ex_subscribed ex_curator ex_request = (Inr i, ex_told)" using ex_created by blast
  have parts: "pr_ProjectID ex_curator = ''p''" "pr_ProjectID ex_consumer = ''p''" "pr_InvocationID ex_consumer = ''inv1''"
    "''subgraph-1'' \<in> set (cg_SubgraphIDs ex_request)"
    by (simp_all add: ex_curator_def ex_consumer_def ctx_principal_def ex_request_def)
  have "\<exists>d. mget (cx_deltas ex_subscribed) (cd_ID d) = None \<and> mget (cx_deltas ex_told) (cd_ID d) = Some d \<and> cd_SubscriptionID d = ''sub-1''
     \<and> sees ex_told ex_consumer (cd_ID d) ''subgraph-1''
     \<and> (\<forall>later. context_step\<^sup>*\<^sup>* ex_told later \<longrightarrow>
          (subscription_open later ''sub-1'' ''subgraph-1'' \<and> mget (cx_deltaAck later) (cd_ID d) \<noteq> Some True \<longrightarrow> sees later ex_consumer (cd_ID d) ''subgraph-1'')
        \<and> (\<exists>u. AckDelta None later ex_consumer (cd_ID d) = (None, u)
             \<and> (\<forall>after j'. context_step\<^sup>*\<^sup>* u after \<longrightarrow> \<not> sees after ex_consumer (cd_ID d) j')))"
    by (rule change_reaches_subscribers[OF ex_subscribed_reachable created entry(1,2)]) (simp_all add: entry parts)
  then obtain d :: ContextDelta where d: "cd_SubscriptionID d = ''sub-1''" "sees ex_told ex_consumer (cd_ID d) ''subgraph-1''"
    and later: "\<forall>later. context_step\<^sup>*\<^sup>* ex_told later \<longrightarrow>
          (subscription_open later ''sub-1'' ''subgraph-1'' \<and> mget (cx_deltaAck later) (cd_ID d) \<noteq> Some True \<longrightarrow> sees later ex_consumer (cd_ID d) ''subgraph-1'')
        \<and> (\<exists>u. AckDelta None later ex_consumer (cd_ID d) = (None, u)
             \<and> (\<forall>after j'. context_step\<^sup>*\<^sup>* u after \<longrightarrow> \<not> sees after ex_consumer (cd_ID d) j'))"
    by blast
  obtain u where u: "AckDelta None ex_told ex_consumer (cd_ID d) = (None, u)" "\<forall>after j'. context_step\<^sup>*\<^sup>* u after \<longrightarrow> \<not> sees after ex_consumer (cd_ID d) j'"
    using later[rule_format, OF rtranclp.rtrancl_refl] by blast
  from u(2)[rule_format, OF rtranclp.rtrancl_refl] u(1) d show ?thesis by blast
qed

end
