(* ===== verification/Invocations.thy ===== *)
theory Invocations
  imports Auth
begin

text \<open>
  \<open>internal/runtime\<close>: the record of one agent invocation, its validation and the capability an agent token
  is issued for (\<open>invocation.go\<close>), the envelope shown to the agent (\<open>envelope.go\<close>) and the in-memory store
  with its status machine (\<open>MemoryInvocationStore\<close>). The hash of a creation payload (JSON and SHA-256)
  is the argument \<open>digest\<close>; \<open>ctx\<close> is \<open>ctx.Err()\<close> at the time of the call. \<open>invocation_store\<close> states what the
  phase controller relies on: a status changes only along the machine, everything else of a stored
  invocation never.
\<close>

section \<open>The record\<close>

type_synonym InvocationStatus = string

abbreviation InvocationPrepared :: InvocationStatus where "InvocationPrepared \<equiv> ''prepared''"
abbreviation InvocationRunning :: InvocationStatus where "InvocationRunning \<equiv> ''running''"
abbreviation InvocationWaiting :: InvocationStatus where "InvocationWaiting \<equiv> ''waiting''"
abbreviation InvocationStopped :: InvocationStatus where "InvocationStopped \<equiv> ''stopped''"
abbreviation InvocationCompleted :: InvocationStatus where "InvocationCompleted \<equiv> ''completed''"
abbreviation InvocationFailed :: InvocationStatus where "InvocationFailed \<equiv> ''failed''"

record Invocation =
  iv_ID :: InvocationID
  iv_ActorPrincipalID :: ActorPrincipalID
  iv_ProjectID :: ProjectID
  iv_TaskID :: TaskID
  iv_EndpointID :: EndpointID
  iv_ConsumerInvocationID :: InvocationID
  iv_ConsumerTaskID :: TaskID
  iv_ConsumerRole :: Role
  iv_Generation :: "64 word"
  iv_Role :: Role
  iv_Operation :: string
  iv_Status :: InvocationStatus
  iv_BindingRef :: BindingRef
  iv_LeaseID :: LeaseID
  iv_WorkspaceRef :: string
  iv_ContextSliceRef :: string
  iv_TaskMemoryBufferRef :: string
  iv_PromptHashes :: "(string, string) gomap"
  iv_SkillHashes :: "(string, string) gomap"
  iv_EffectiveTools :: "Tool list"
  iv_CreatedAt :: AuthTime
  iv_ExpiresAt :: AuthTime

definition zeroInvocation :: Invocation where
  "zeroInvocation = \<lparr>iv_ID = '''', iv_ActorPrincipalID = '''', iv_ProjectID = '''', iv_TaskID = '''', iv_EndpointID = '''',
     iv_ConsumerInvocationID = '''', iv_ConsumerTaskID = '''', iv_ConsumerRole = '''', iv_Generation = 0, iv_Role = '''',
     iv_Operation = '''', iv_Status = '''', iv_BindingRef = '''', iv_LeaseID = '''', iv_WorkspaceRef = '''',
     iv_ContextSliceRef = '''', iv_TaskMemoryBufferRef = '''', iv_PromptHashes = [], iv_SkillHashes = [],
     iv_EffectiveTools = [], iv_CreatedAt = None, iv_ExpiresAt = None\<rparr>"

text \<open>\<open>t.After(u)\<close> on two times; the zero time is before every other.\<close>

definition laterThan :: "AuthTime \<Rightarrow> AuthTime \<Rightarrow> bool" where
  "laterThan t u = (case u of None \<Rightarrow> t \<noteq> None | Some at \<Rightarrow> After t at)"

definition invocationStatuses :: "InvocationStatus list" where
  "invocationStatuses = [InvocationPrepared, InvocationRunning, InvocationWaiting, InvocationStopped,
     InvocationCompleted, InvocationFailed]"

definition ValidateInvocation :: "Invocation \<Rightarrow> goerr option" where
  "ValidateInvocation i = first_err
     [RequireID ''invocation_id'' (iv_ID i),
      RequireID ''actor_principal_id'' (iv_ActorPrincipalID i),
      RequireID ''project_id'' (iv_ProjectID i),
      fail_if (iv_Role i = '''' \<or> iv_Role i = RoleOperator) (InvalidArgument ''invocation requires an agent role''),
      fail_if (iv_Status i \<notin> set invocationStatuses) (InvalidArgument ''invocation status is invalid''),
      fail_if (\<not> laterThan (iv_ExpiresAt i) (iv_CreatedAt i)) (InvalidArgument ''invocation expiry must be after creation''),
      (if IsPhase (iv_Role i) then first_err
         [RequireID ''task_id'' (iv_TaskID i),
          RequireID ''endpoint_id'' (iv_EndpointID i),
          fail_if (iv_Generation i = 0) (InvalidArgument ''phase generation must be positive''),
          RequireID ''binding_ref'' (iv_BindingRef i),
          RequireID ''lease_id'' (iv_LeaseID i)]
       else None),
      (if iv_Role i = RoleContext then
         fail_if (iv_Operation i \<notin> {''retrieve'', ''curate'', ''review''})
           (InvalidArgument ''context agent operation must be retrieve, curate, or review'')
       else fail_if (iv_Operation i \<noteq> '''') (InvalidArgument ''operation is only valid for context agent'')),
      fail_if ((iv_ConsumerInvocationID i \<noteq> '''' \<or> iv_ConsumerTaskID i \<noteq> '''' \<or> iv_ConsumerRole i \<noteq> '''')
          \<and> (iv_Role i \<noteq> RoleContext \<or> iv_Operation i \<noteq> ''retrieve''))
        (Forbidden ''consumer invocation is only valid for context retrieve invocation''),
      fail_if (iv_ConsumerRole i \<noteq> '''' \<and> iv_ConsumerRole i \<notin> {RoleTaskManager, RoleContext, RolePlanner, RoleExecutor, RoleVerifier})
        (Forbidden ''consumer role is not a supported agent role''),
      fail_if (iv_EffectiveTools i = []) (Forbidden ''invocation has no effective tools''),
      fail_if (iv_PromptHashes i = [] \<or> iv_SkillHashes i = [])
        (InvalidArgument ''invocation prompt and skill hashes are required'')]"

text \<open>\<open>Invocation.Capability\<close>; a tool set is the list of its elements.\<close>

definition CapabilityOf :: "Invocation \<Rightarrow> Capability" where
  "CapabilityOf i =
     \<lparr>ca_ProjectID = iv_ProjectID i, ca_TaskID = iv_TaskID i, ca_InvocationID = iv_ID i,
      ca_ConsumerInvocationID = iv_ConsumerInvocationID i, ca_ConsumerTaskID = iv_ConsumerTaskID i,
      ca_ConsumerRole = iv_ConsumerRole i, ca_Role = iv_Role i, ca_Operation = iv_Operation i,
      ca_Tools = remdups (iv_EffectiveTools i), ca_ExpiresAt = iv_ExpiresAt i\<rparr>"

record Envelope =
  en_InvocationID :: InvocationID
  en_ActorPrincipalID :: ActorPrincipalID
  en_ProjectID :: ProjectID
  en_TaskID :: TaskID
  en_EndpointID :: EndpointID
  en_Generation :: "64 word"
  en_Role :: Role
  en_Operation :: string
  en_BindingRef :: BindingRef
  en_LeaseID :: LeaseID
  en_EffectiveTools :: "Tool list"

definition EnvelopeFromInvocation :: "Invocation \<Rightarrow> Envelope" where
  "EnvelopeFromInvocation invocation =
     \<lparr>en_InvocationID = iv_ID invocation, en_ActorPrincipalID = iv_ActorPrincipalID invocation,
      en_ProjectID = iv_ProjectID invocation, en_TaskID = iv_TaskID invocation, en_EndpointID = iv_EndpointID invocation,
      en_Generation = iv_Generation invocation, en_Role = iv_Role invocation, en_Operation = iv_Operation invocation,
      en_BindingRef = iv_BindingRef invocation, en_LeaseID = iv_LeaseID invocation,
      en_EffectiveTools = iv_EffectiveTools invocation\<rparr>"

section \<open>The in-memory store\<close>

record MemoryInvocationStore =
  is_invocations :: "(InvocationID, Invocation) gomap"
  is_fingerprints :: "(InvocationID, string) gomap"

definition NewMemoryInvocationStore :: MemoryInvocationStore where
  "NewMemoryInvocationStore = \<lparr>is_invocations = [], is_fingerprints = []\<rparr>"

text \<open>The payload that is hashed: tools sorted, and maps in the key order of \<open>encoding/json\<close>.\<close>

definition canonicalInvocation :: "Invocation \<Rightarrow> Invocation" where
  "canonicalInvocation invocation = invocation
     \<lparr>iv_EffectiveTools := sort_by (\<lambda>l r. l < r) (iv_EffectiveTools invocation),
      iv_PromptHashes := sort_by (\<lambda>l r. fst l < fst r) (iv_PromptHashes invocation),
      iv_SkillHashes := sort_by (\<lambda>l r. fst l < fst r) (iv_SkillHashes invocation)\<rparr>"

definition invocationFingerprint :: "(Invocation \<Rightarrow> goerr + string) \<Rightarrow> Invocation \<Rightarrow> goerr + string" where
  "invocationFingerprint digest invocation = digest (canonicalInvocation invocation)"

definition CreateInvocation ::
  "(Invocation \<Rightarrow> goerr + string) \<Rightarrow> goerr option \<Rightarrow> MemoryInvocationStore \<Rightarrow> Invocation \<Rightarrow> goerr option \<times> MemoryInvocationStore" where
  "CreateInvocation digest ctx s invocation =
     (case first_err [ctx, ValidateInvocation invocation] of Some e \<Rightarrow> (Some e, s) | None \<Rightarrow>
     (case invocationFingerprint digest invocation of
        Inl _ \<Rightarrow> (Some (kerr CodeInternalError ''invocation creation payload cannot be canonicalized'' False), s)
      | Inr fingerprint \<Rightarrow>
          (case mget (is_invocations s) (iv_ID invocation) of
             Some _ \<Rightarrow>
               (if (case mget (is_fingerprints s) (iv_ID invocation) of None \<Rightarrow> '''' | Some f \<Rightarrow> f) = fingerprint then (None, s)
                else (Some (kerr CodeIdempotencyConflict ''invocation id already has a different creation payload'' False), s))
           | None \<Rightarrow>
               (None, s\<lparr>is_invocations := mput (iv_ID invocation) invocation (is_invocations s),
                       is_fingerprints := mput (iv_ID invocation) fingerprint (is_fingerprints s)\<rparr>))))"

definition GetInvocation :: "goerr option \<Rightarrow> MemoryInvocationStore \<Rightarrow> InvocationID \<Rightarrow> goerr + Invocation option" where
  "GetInvocation ctx s i = checked ctx (Inr (mget (is_invocations s) i))"

text \<open>
  The loop over the map stops at the first invocation of the lease; the order of the association list
  stands for the order of that one range, which Go leaves open when several invocations share a lease.
\<close>

definition GetByLease :: "goerr option \<Rightarrow> MemoryInvocationStore \<Rightarrow> LeaseID \<Rightarrow> goerr + Invocation option" where
  "GetByLease ctx s lease =
     checked ctx (Inr (List.find (\<lambda>invocation. iv_LeaseID invocation = lease) (mvalues (is_invocations s))))"

definition validInvocationTransition :: "InvocationStatus \<Rightarrow> InvocationStatus \<Rightarrow> bool" where
  "validInvocationTransition from to =
     (if from = InvocationPrepared then to = InvocationRunning \<or> to = InvocationFailed \<or> to = InvocationStopped
      else if from = InvocationRunning then
        to = InvocationWaiting \<or> to = InvocationStopped \<or> to = InvocationCompleted \<or> to = InvocationFailed
      else if from = InvocationWaiting then to = InvocationRunning \<or> to = InvocationStopped \<or> to = InvocationFailed
      else False)"

definition TransitionInvocation ::
  "goerr option \<Rightarrow> MemoryInvocationStore \<Rightarrow> InvocationID \<Rightarrow> InvocationStatus \<Rightarrow> InvocationStatus \<Rightarrow>
   goerr option \<times> MemoryInvocationStore" where
  "TransitionInvocation ctx s i from to =
     (case first_err [ctx, fail_if (\<not> validInvocationTransition from to) (InvalidArgument ''invalid invocation status transition'')] of
        Some e \<Rightarrow> (Some e, s)
      | None \<Rightarrow>
          (case mget (is_invocations s) i of
             None \<Rightarrow> (Some (kerr CodeNotFound ''invocation not found'' False), s)
           | Some invocation \<Rightarrow>
               if iv_Status invocation \<noteq> from then (Some (kerr CodeRevisionConflict ''invocation status changed'' False), s)
               else (None, s\<lparr>is_invocations := mput i (invocation\<lparr>iv_Status := to\<rparr>) (is_invocations s)\<rparr>)))"

section \<open>What the store promises\<close>

text \<open>A status and the statuses it can still reach.\<close>

definition status_path :: "InvocationStatus \<Rightarrow> InvocationStatus \<Rightarrow> bool" where
  "status_path = (\<lambda>from to. validInvocationTransition from to)\<^sup>*\<^sup>*"

definition terminal_status :: "InvocationStatus \<Rightarrow> bool" where
  "terminal_status st \<longleftrightarrow> st \<in> {InvocationStopped, InvocationCompleted, InvocationFailed}"

text \<open>An invocation stays in the store, and only its status moves.\<close>

definition store_evolves :: "MemoryInvocationStore \<Rightarrow> MemoryInvocationStore \<Rightarrow> bool" where
  "store_evolves s t \<longleftrightarrow> (\<forall>i invocation. mget (is_invocations s) i = Some invocation \<longrightarrow>
     (\<exists>st. mget (is_invocations t) i = Some (invocation\<lparr>iv_Status := st\<rparr>) \<and> status_path (iv_Status invocation) st))"

lemma status_path_refl [simp]: "status_path st st"
  by (simp add: status_path_def)

lemma status_path_step: "validInvocationTransition from to \<Longrightarrow> status_path from to"
  by (auto simp: status_path_def)

lemma status_path_trans: "status_path a b \<Longrightarrow> status_path b c \<Longrightarrow> status_path a c"
  unfolding status_path_def by (rule rtranclp_trans)

text \<open>A terminal status has no way out.\<close>

lemma terminal_stays: "status_path a b \<Longrightarrow> terminal_status a \<Longrightarrow> b = a"
  unfolding status_path_def
  by (induction rule: rtranclp_induct) (auto simp: terminal_status_def validInvocationTransition_def)

lemma status_kept: "\<exists>st. invocation = invocation\<lparr>iv_Status := st\<rparr> \<and> status_path (iv_Status invocation) st"
  by (rule exI[of _ "iv_Status invocation"]) simp

lemma store_evolves_refl [simp]: "store_evolves s s"
  by (auto simp: store_evolves_def intro: status_kept)

lemma store_evolves_trans: "store_evolves r s \<Longrightarrow> store_evolves s t \<Longrightarrow> store_evolves r t"
  unfolding store_evolves_def by (fastforce intro: status_path_trans)

lemma CreateInvocation_evolves: "store_evolves s (snd (CreateInvocation digest ctx s invocation))"
proof -
  have "store_evolves s (s\<lparr>is_invocations := mput (iv_ID invocation) invocation (is_invocations s), is_fingerprints := f\<rparr>)"
    if "mget (is_invocations s) (iv_ID invocation) = None" for f
    using that by (auto simp: store_evolves_def gomap_simps intro: status_kept)
  then show ?thesis
    by (auto simp: CreateInvocation_def split: option.splits sum.splits)
qed

lemma TransitionInvocation_evolves: "store_evolves s (snd (TransitionInvocation ctx s i from to))"
proof -
  have "store_evolves s (s\<lparr>is_invocations := mput i (invocation\<lparr>iv_Status := to\<rparr>) (is_invocations s)\<rparr>)"
    if "mget (is_invocations s) i = Some invocation" "validInvocationTransition (iv_Status invocation) to" for invocation
    using that status_path_step[OF that(2)] by (auto simp: store_evolves_def gomap_simps intro: status_kept)
  then show ?thesis
    by (auto simp: TransitionInvocation_def first_err_None fail_if_None split: option.splits)
qed

lemma TransitionInvocation_None:
  assumes "TransitionInvocation ctx s i from to = (None, t)"
  obtains invocation where "mget (is_invocations s) i = Some invocation" "iv_Status invocation = from"
    "mget (is_invocations t) i = Some (invocation\<lparr>iv_Status := to\<rparr>)" "validInvocationTransition from to"
  using assms by (auto simp: TransitionInvocation_def first_err_None fail_if_None gomap_simps split: option.splits if_splits)

lemma keyed_create:
  "mkeyed iv_ID (is_invocations s) \<Longrightarrow> mkeyed iv_ID (is_invocations (snd (CreateInvocation digest ctx s v)))"
  by (auto simp: CreateInvocation_def split: option.splits sum.splits)

lemma keyed_transition:
  "mkeyed iv_ID (is_invocations s) \<Longrightarrow> mkeyed iv_ID (is_invocations (snd (TransitionInvocation ctx s i from to)))"
  by (auto simp: TransitionInvocation_def dest: mkeyedD intro!: mkeyed_mput split: option.splits)

definition status_of :: "MemoryInvocationStore \<Rightarrow> InvocationID \<Rightarrow> InvocationStatus option" where
  "status_of store i = map_option iv_Status (mget (is_invocations store) i)"

lemma terminal_statuses: "terminal_status InvocationCompleted" "terminal_status InvocationFailed" "terminal_status InvocationStopped"
  by (simp_all add: terminal_status_def)

lemma status_of_terminal:
  assumes "store_evolves store store'" "status_of store i = Some st" "terminal_status st"
  shows "status_of store' i = Some st"
  using assms terminal_stays by (fastforce simp: store_evolves_def status_of_def)

text \<open>
  The contract of an invocation store, as the phase controller uses it. \<open>sound_store\<close> is the state a
  client keeps while it goes on from an earlier store.
\<close>

definition sound_store :: "MemoryInvocationStore \<Rightarrow> MemoryInvocationStore \<Rightarrow> bool" where
  "sound_store store0 store \<longleftrightarrow> store_evolves store0 store \<and> mkeyed iv_ID (is_invocations store)"

locale invocation_store =
  fixes create :: "goerr option \<Rightarrow> MemoryInvocationStore \<Rightarrow> Invocation \<Rightarrow> goerr option \<times> MemoryInvocationStore"
    and transition :: "goerr option \<Rightarrow> MemoryInvocationStore \<Rightarrow> InvocationID \<Rightarrow> InvocationStatus \<Rightarrow> InvocationStatus \<Rightarrow>
      goerr option \<times> MemoryInvocationStore"
  assumes create_evolves: "store_evolves s (snd (create ctx s v))"
    and create_keyed: "mkeyed iv_ID (is_invocations s) \<Longrightarrow> mkeyed iv_ID (is_invocations (snd (create ctx s v)))"
    and transition_evolves: "store_evolves s (snd (transition ctx s i from to))"
    and transition_keyed: "mkeyed iv_ID (is_invocations s) \<Longrightarrow> mkeyed iv_ID (is_invocations (snd (transition ctx s i from to)))"
    and transition_status: "transition ctx s i from to = (None, t) \<Longrightarrow> status_of t i = Some to"
begin

lemma create_sound: "sound_store store0 s \<Longrightarrow> create ctx s v = (r, t) \<Longrightarrow> store_evolves s t \<and> sound_store store0 t"
  using create_evolves[of s ctx v] create_keyed[of s ctx v] store_evolves_trans by (auto simp: sound_store_def)

lemma transition_sound:
  "sound_store store0 s \<Longrightarrow> transition ctx s i from to = (r, t) \<Longrightarrow> store_evolves s t \<and> sound_store store0 t"
  using transition_evolves[of s ctx i "from" to] transition_keyed[of s ctx i "from" to] store_evolves_trans
  by (auto simp: sound_store_def)

lemma terminal_refused:
  assumes "status_of s i = Some st" "terminal_status st" "to \<noteq> st"
  shows "fst (transition ctx s i from to) \<noteq> None"
proof
  assume "fst (transition ctx s i from to) = None"
  then obtain t where run: "transition ctx s i from to = (None, t)" by (cases "transition ctx s i from to") auto
  then have "status_of t i = Some st"
    using status_of_terminal[OF _ assms(1,2)] transition_evolves[of s ctx i "from" to] by simp
  with transition_status[OF run] assms(3) show False by simp
qed

end

interpretation memory_invocations: invocation_store "CreateInvocation digest" TransitionInvocation for digest
proof
  fix ctx s i "from" to t
  assume "TransitionInvocation ctx s i from to = (None, t)"
  then show "status_of t i = Some to" by (rule TransitionInvocation_None) (simp add: status_of_def)
qed (simp_all add: CreateInvocation_evolves TransitionInvocation_evolves keyed_create keyed_transition)

end
