(* ===== verification/Prompt_Catalog.thy ===== *)
theory Prompt_Catalog
  imports Invocations Go_Strings
begin

text \<open>
  \<open>internal/runtime/promptcatalog/catalog.go\<close> and \<open>internal/runtime/policy.go\<close>: the catalog of prompts and
  skills, the resolution of skill dependencies, the bundle a role gets, the rendered prompt and the
  assembly of an invocation. SHA-256 is the argument \<open>hash\<close>, reading a file the argument \<open>readFile\<close> (on the
  elements \<open>filepath.Join\<close> joins). A set of tools is the list of its elements. The order in which the
  \<open>range\<close> loop of \<open>Render\<close> visits its map is the argument \<open>order\<close>: Go does not fix it.
\<close>

section \<open>Library functions\<close>

text \<open>\<open>strings.ReplaceAll\<close> for a pattern that is not empty.\<close>

function ReplaceAll :: "string \<Rightarrow> string \<Rightarrow> string \<Rightarrow> string" where
  "ReplaceAll s old new =
     (if s = [] then []
      else if old \<noteq> [] \<and> HasPrefix s old then new @ ReplaceAll (drop (length old) s) old new
      else hd s # ReplaceAll (tl s) old new)"
  by pat_completeness auto
termination ReplaceAll
  by (relation "measure (\<lambda>(s, old, new). length s)") auto

declare ReplaceAll.simps [simp del]

text \<open>\<open>strings.Join\<close> for a separator of any length.\<close>

fun JoinStrings :: "string list \<Rightarrow> string \<Rightarrow> string" where
  "JoinStrings [] sep = []"
| "JoinStrings [x] sep = x"
| "JoinStrings (x # xs) sep = x @ sep @ JoinStrings xs sep"

definition TrimPrefix :: "string \<Rightarrow> string \<Rightarrow> string" where
  "TrimPrefix s p = (if HasPrefix s p then drop (length p) s else s)"

definition TrimSuffix :: "string \<Rightarrow> string \<Rightarrow> string" where
  "TrimSuffix s p = (if HasSuffix s p then take (length s - length p) s else s)"

definition trimQuotes :: "string \<Rightarrow> string" where
  "trimQuotes s = rev (dropWhile (\<lambda>c. c = CHR 34) (rev (dropWhile (\<lambda>c. c = CHR 34) s)))"

text \<open>
  The tokens of \<open>bufio.ScanLines\<close>: an empty last line is none, a final carriage return is dropped. A line of
  64 KiB or more fills the scanner's buffer: \<open>Scan\<close> stops there and \<open>Err\<close> is \<open>ErrTooLong\<close>.
\<close>

definition rawLines :: "string \<Rightarrow> string list" where
  "rawLines body = (let parts = Split (CHR 10) body in if last parts = [] then butlast parts else parts)"

definition dropCR :: "string \<Rightarrow> string" where
  "dropCR line = TrimSuffix line [CHR 13]"

definition lineTooLong :: "string \<Rightarrow> bool" where
  "lineTooLong line \<longleftrightarrow> 65536 \<le> length line"

text \<open>A loop over a slice whose body may fail.\<close>

fun loopE :: "('a \<Rightarrow> 'b \<Rightarrow> 'e + 'b) \<Rightarrow> 'a list \<Rightarrow> 'b \<Rightarrow> 'e + 'b" where
  "loopE body [] acc = Inr acc"
| "loopE body (x # xs) acc = and_then (body x acc) (loopE body xs)"

section \<open>Data\<close>

text \<open>Three Chinese words the skill files and the prompt use, as UTF-8 bytes.\<close>

definition MissingValue :: string where
  "MissingValue = [CHR 0xE6, CHR 0x9C, CHR 0xAA, CHR 0xE6, CHR 0x8F, CHR 0x90, CHR 0xE4, CHR 0xBE, CHR 0x9B]"

definition sectionDependencies :: string where
  "sectionDependencies = [CHR 0xE4, CHR 0xBE, CHR 0x9D, CHR 0xE8, CHR 0xB5, CHR 0x96]"

definition sectionTools :: string where
  "sectionTools = [CHR 0xE5, CHR 0xB7, CHR 0xA5, CHR 0xE5, CHR 0x85, CHR 0xB7]"

record Asset =
  as_ID :: string
  as_Body :: string
  as_SHA256 :: string

definition zeroAsset :: Asset where
  "zeroAsset = \<lparr>as_ID = '''', as_Body = '''', as_SHA256 = ''''\<rparr>"

record Skill =
  sk_ID :: string
  sk_Description :: string
  sk_Dependencies :: "string list"
  sk_Tools :: "Tool list"
  sk_Body :: string
  sk_SHA256 :: string

record Catalog =
  ct_Prompts :: "(string, Asset) gomap"
  ct_Skills :: "(string, Skill) gomap"
  ct_availableTools :: "Tool list"

record Bundle =
  bu_Role :: Role
  bu_Operation :: string
  bu_SharedPrompt :: Asset
  bu_RolePrompt :: Asset
  bu_Skills :: "Skill list"
  bu_EffectiveTools :: "Tool list"

record RenderData =
  rd_RuntimeEnvelope :: string
  rd_BoundaryInput :: string
  rd_StartOrResumeInput :: string
  rd_TaskContract :: string
  rd_PhaseSpec :: string
  rd_WorkspaceBinding :: string
  rd_ContextSlice :: string
  rd_TaskMemoryBuffer :: string
  rd_RepositoryPolicy :: string
  rd_LatestEvents :: string

record Rendered =
  rn_Text :: string
  rn_PromptHashes :: "(string, string) gomap"
  rn_SkillHashes :: "(string, string) gomap"
  rn_SHA256 :: string

definition requiredSkills :: "string list" where
  "requiredSkills =
     [''candidate-review'', ''context-navigation'', ''context-retrieval-request'', ''context-semantic-retrieval'',
      ''context-subscription'', ''coordination-control'', ''execution-delivery'', ''general-context-curation'',
      ''orchestration-escalation'', ''phase-runtime'', ''phase-submit'', ''planning-delivery'',
      ''task-context-lifecycle'', ''task-memory'', ''verification-delivery'']"

definition promptFiles :: "(string, string) gomap" where
  "promptFiles =
     [(''shared'', ''shared.md''), (''task_manager'', ''task-manager.md''), (''context_agent'', ''context-agent.md''),
      (''planner'', ''planner.md''), (''executor'', ''executor.md''), (''verifier'', ''verifier.md'')]"

section \<open>Resolving skills\<close>

text \<open>
  \<open>visit\<close> applied to the elements of a list in turn, as both the loop over a skill's dependencies and the
  loop over the requested skills do. The values 0, 1 and 2 of the map \<open>state\<close> are the three marks.
\<close>

datatype mark = Unseen | Visiting | Visited

type_synonym skillSearch = "(string \<Rightarrow> mark) \<times> Skill list"

function (sequential) visitSkills :: "(string, Skill) gomap \<Rightarrow> skillSearch \<Rightarrow> string list \<Rightarrow> goerr + skillSearch" where
  "visitSkills skills s [] = Inr s"
| "visitSkills skills (state, resolved) (i # ids) =
     (case mget skills i of
        None \<Rightarrow> Inl (Plain (''unknown skill '' @ i))
      | Some skill \<Rightarrow>
          (case state i of
             Visiting \<Rightarrow> Inl (Plain (''skill dependency cycle at '' @ i))
           | Visited \<Rightarrow> visitSkills skills (state, resolved) ids
           | Unseen \<Rightarrow>
               (case visitSkills skills (state(i := Visiting), resolved) (sk_Dependencies skill) of
                  Inl e \<Rightarrow> Inl e
                | Inr (state', resolved') \<Rightarrow> visitSkills skills (state'(i := Visited), resolved' @ [skill]) ids)))"
  by pat_completeness auto

definition unseen_skills :: "(string, Skill) gomap \<Rightarrow> (string \<Rightarrow> mark) \<Rightarrow> string set" where
  "unseen_skills skills state = {i \<in> dom (mget skills). state i = Unseen}"

lemma finite_unseen_skills [simp]: "finite (unseen_skills skills state)"
  by (rule finite_subset[OF _ finite_dom_map_of[of skills]]) (auto simp: unseen_skills_def)

text \<open>What a visit does to the marks: its ancestors stay marked, and nothing is unmarked.\<close>

definition marks_kept :: "(string \<Rightarrow> mark) \<Rightarrow> (string \<Rightarrow> mark) \<Rightarrow> bool" where
  "marks_kept state state' \<longleftrightarrow> (\<forall>i. (state' i = Visiting \<longleftrightarrow> state i = Visiting) \<and> (state i = Visited \<longrightarrow> state' i = Visited))"

lemma marks_kept_visit:
  assumes "marks_kept (state(i := Visiting)) st1" "marks_kept (st1(i := Visited)) st2" "state i = Unseen"
  shows "marks_kept state st2"
  unfolding marks_kept_def
proof
  fix j
  show "(st2 j = Visiting \<longleftrightarrow> state j = Visiting) \<and> (state j = Visited \<longrightarrow> st2 j = Visited)"
    using assms(1)[unfolded marks_kept_def, rule_format, of j] assms(2)[unfolded marks_kept_def, rule_format, of j] assms(3)
    by (cases "j = i") auto
qed

lemma visitSkills_marks_dom:
  "visitSkills_dom (skills, s, ids) \<Longrightarrow> visitSkills skills s ids = Inr s' \<Longrightarrow> marks_kept (fst s) (fst s')"
proof (induction arbitrary: s' rule: visitSkills.pinduct)
  case (1 skills s)
  then show ?case by (simp add: visitSkills.psimps marks_kept_def)
next
  case (2 skills state resolved i ids)
  note step = "2.prems"[unfolded visitSkills.psimps(2)[OF "2.hyps"]]
  from step obtain skill where skill: "mget skills i = Some skill" by (cases "mget skills i") simp_all
  show ?case
  proof (cases "state i")
    case Visiting
    then show ?thesis using step skill by simp
  next
    case Visited
    then show ?thesis using step skill "2.IH"(3)[OF skill Visited] by simp
  next
    case Unseen
    obtain st1 r1 where inner: "visitSkills skills (state(i := Visiting), resolved) (sk_Dependencies skill) = Inr (st1, r1)"
      using step skill Unseen by (cases "visitSkills skills (state(i := Visiting), resolved) (sk_Dependencies skill)") auto
    have outer: "visitSkills skills (st1(i := Visited), r1 @ [skill]) ids = Inr s'" using step skill Unseen inner by simp
    show ?thesis
      using marks_kept_visit[OF "2.IH"(1)[OF skill Unseen inner, unfolded fst_conv]
          "2.IH"(2)[OF skill Unseen inner refl outer, unfolded fst_conv] Unseen] by simp
  qed
qed

lemma visitSkills_total: "All visitSkills_dom"
proof (relation "inv_image (finite_psubset <*lex*> less_than) (\<lambda>(skills, s, ids). (unseen_skills skills (fst s), length ids))")
  show "wf (inv_image (finite_psubset <*lex*> less_than) (\<lambda>(skills, s, ids). (unseen_skills skills (fst s), length ids)))"
    by auto
next
  fix skills :: "(string, Skill) gomap" and state :: "string \<Rightarrow> mark" and resolved :: "Skill list" and i ids skill
  assume skill: "mget skills i = Some skill" and new: "state i = Unseen"
  have "i \<in> unseen_skills skills state" using skill new by (auto simp: unseen_skills_def)
  then have less: "unseen_skills skills (state(i := Visiting)) \<subset> unseen_skills skills state"
    by (auto simp: unseen_skills_def split: if_splits)
  show "((skills, (state(i := Visiting), resolved), sk_Dependencies skill), skills, (state, resolved), i # ids)
    \<in> inv_image (finite_psubset <*lex*> less_than) (\<lambda>(skills, s, ids). (unseen_skills skills (fst s), length ids))"
    using less by (simp add: finite_psubset_def)
  fix z st1 r1
  assume inner: "visitSkills skills (state(i := Visiting), resolved) (sk_Dependencies skill) = Inr z" and z: "(st1, r1) = z"
    and dom: "visitSkills_dom (skills, (state(i := Visiting), resolved), sk_Dependencies skill)"
  have kept: "marks_kept (state(i := Visiting)) st1" using visitSkills_marks_dom[OF dom inner] z by auto
  have "state j = Unseen" if "(st1(i := Visited)) j = Unseen" for j
    using kept[unfolded marks_kept_def, rule_format, of j] that by (cases "state j") (auto split: if_splits)
  then have "unseen_skills skills (st1(i := Visited)) \<subseteq> unseen_skills skills state"
    unfolding unseen_skills_def by blast
  then show "((skills, (st1(i := Visited), r1 @ [skill]), ids), skills, (state, resolved), i # ids)
    \<in> inv_image (finite_psubset <*lex*> less_than) (\<lambda>(skills, s, ids). (unseen_skills skills (fst s), length ids))"
    by (auto simp: finite_psubset_def)
qed auto

termination visitSkills
  by (rule visitSkills_total)

lemma visitSkills_marks: "visitSkills skills s ids = Inr s' \<Longrightarrow> marks_kept (fst s) (fst s')"
  using visitSkills_marks_dom visitSkills_total by blast

definition ResolveSkills :: "(string, Skill) gomap \<Rightarrow> string list \<Rightarrow> goerr + Skill list" where
  "ResolveSkills skills ids = and_then (visitSkills skills (\<lambda>_. Unseen, []) ids) (\<lambda>(_, resolved). Inr resolved)"

section \<open>Parsing a skill file\<close>

definition cutField :: "string \<Rightarrow> string \<Rightarrow> string option" where
  "cutField line p = (if HasPrefix line p then Some (trimQuotes (TrimSpace (TrimPrefix line p))) else None)"

record skillParse =
  pa_skill :: Skill
  pa_section :: string
  pa_inFrontMatter :: bool
  pa_frontMatterSeen :: bool

definition parseLine :: "string \<Rightarrow> skillParse \<Rightarrow> skillParse" where
  "parseLine token p =
     (let line = TrimSpace token; skill = pa_skill p in
      if line = ''---'' then
        (if \<not> pa_frontMatterSeen p then p\<lparr>pa_frontMatterSeen := True, pa_inFrontMatter := True\<rparr>
         else if pa_inFrontMatter p then p\<lparr>pa_inFrontMatter := False\<rparr>
         else p)
      else if pa_inFrontMatter p then
        let named = (case cutField line ''name:'' of Some v \<Rightarrow> skill\<lparr>sk_ID := v\<rparr> | None \<Rightarrow> skill)
        in p\<lparr>pa_skill := (case cutField line ''description:'' of Some v \<Rightarrow> named\<lparr>sk_Description := v\<rparr> | None \<Rightarrow> named)\<rparr>
      else if HasPrefix line ''## '' then p\<lparr>pa_section := TrimSpace (TrimPrefix line ''## '')\<rparr>
      else if \<not> HasPrefix line (''- '' @ [CHR 96]) \<or> \<not> HasSuffix line [CHR 96] then p
      else
        let v = TrimSuffix (TrimPrefix line (''- '' @ [CHR 96])) [CHR 96] in
        if pa_section p = sectionDependencies then p\<lparr>pa_skill := skill\<lparr>sk_Dependencies := sk_Dependencies skill @ [v]\<rparr>\<rparr>
        else if pa_section p = sectionTools then p\<lparr>pa_skill := skill\<lparr>sk_Tools := sk_Tools skill @ [v]\<rparr>\<rparr>
        else p)"

definition parseSkill :: "(string \<Rightarrow> string) \<Rightarrow> string \<Rightarrow> goerr + Skill" where
  "parseSkill hash body =
     (let start = \<lparr>pa_skill = \<lparr>sk_ID = '''', sk_Description = '''', sk_Dependencies = [], sk_Tools = [], sk_Body = body,
                               sk_SHA256 = hash body\<rparr>,
                   pa_section = '''', pa_inFrontMatter = False, pa_frontMatterSeen = False\<rparr>;
          skill = pa_skill (fold parseLine (map dropCR (takeWhile (\<lambda>line. \<not> lineTooLong line) (rawLines body))) start)
      in checked (first_err
           [fail_if (list_ex lineTooLong (rawLines body)) (Plain ''bufio.Scanner: token too long''),
            fail_if (sk_ID skill = '''' \<or> sk_Description skill = '''')
              (Plain ''skill front matter requires name and description'')])
         (Inr skill))"

definition loadPrompt ::
  "(string \<Rightarrow> string) \<Rightarrow> (string list \<Rightarrow> goerr + string) \<Rightarrow> string \<Rightarrow> string \<times> string \<Rightarrow> Catalog \<Rightarrow> goerr + Catalog" where
  "loadPrompt hash readFile repoRoot entry catalog =
     (let (i, name) = entry in
      case readFile [repoRoot, ''runtime-assets'', ''prompts'', name] of
        Inl e \<Rightarrow> Inl (wrapErr (''load required prompt '' @ i) e)
      | Inr body \<Rightarrow> Inr (catalog\<lparr>ct_Prompts := mput i \<lparr>as_ID = i, as_Body = body, as_SHA256 = hash body\<rparr> (ct_Prompts catalog)\<rparr>))"

definition loadSkill ::
  "(string \<Rightarrow> string) \<Rightarrow> (string list \<Rightarrow> goerr + string) \<Rightarrow> string \<Rightarrow> Tool list \<Rightarrow> string \<Rightarrow> Catalog \<Rightarrow> goerr + Catalog" where
  "loadSkill hash readFile repoRoot availableTools i catalog =
     (case readFile [repoRoot, ''docs'', ''agent-skills'', i, ''SKILL.md''] of
        Inl e \<Rightarrow> Inl (wrapErr (''load required skill '' @ i) e)
      | Inr body \<Rightarrow>
          (case parseSkill hash body of
             Inl e \<Rightarrow> Inl (wrapErr (''parse skill '' @ i) e)
           | Inr skill \<Rightarrow>
               checked (first_err
                 [fail_if (sk_ID skill \<noteq> i) (Plain (''skill directory '' @ i @ '' declares name '' @ sk_ID skill)),
                  check_all (\<lambda>tool. first_err
                    [fail_if (\<not> IsCanonicalTool tool) (Plain (''skill '' @ i @ '' declares unknown tool '' @ tool)),
                     fail_if (tool \<notin> set availableTools) (Plain (''skill '' @ i @ '' requires unavailable tool '' @ tool))])
                    (sk_Tools skill)])
               (Inr (catalog\<lparr>ct_Skills := mput i skill (ct_Skills catalog)\<rparr>))))"

definition Load ::
  "(string \<Rightarrow> string) \<Rightarrow> (string list \<Rightarrow> goerr + string) \<Rightarrow> string \<Rightarrow> Tool list \<Rightarrow> goerr + Catalog" where
  "Load hash readFile repoRoot availableTools =
     checked (first_err
       [fail_if (blank repoRoot) (Plain ''repo root is required''),
        fail_if (availableTools = []) (Plain ''runtime available tools are required'')])
     (and_then (loopE (loadPrompt hash readFile repoRoot) promptFiles
        \<lparr>ct_Prompts = [], ct_Skills = [], ct_availableTools = availableTools\<rparr>) (\<lambda>prompts.
      and_then (loopE (loadSkill hash readFile repoRoot availableTools) requiredSkills prompts) (\<lambda>catalog.
      and_then (ResolveSkills (ct_Skills catalog) requiredSkills) (\<lambda>_. Inr catalog))))"

section \<open>Bundles\<close>

text \<open>The formatted \<open>%q\<close> of an operation is the operation in quotes.\<close>

definition quoted :: "string \<Rightarrow> string" where
  "quoted s = [CHR 34] @ s @ [CHR 34]"

definition phaseSkills :: "string \<Rightarrow> string \<Rightarrow> goerr + string list" where
  "phaseSkills deliverySkill operation =
     (if operation \<noteq> '''' then Inl (Plain (''phase role does not accept operation '' @ quoted operation))
      else Inr [''context-navigation'', ''context-subscription'', ''context-retrieval-request'', ''phase-runtime'',
                ''orchestration-escalation'', ''task-memory'', ''phase-submit'', deliverySkill])"

definition directSkills :: "Role \<Rightarrow> string \<Rightarrow> goerr + string list" where
  "directSkills role operation =
     (if role = RoleTaskManager then
        (if operation \<noteq> '''' then Inl (Plain (''task manager does not accept operation '' @ quoted operation))
         else Inr [''context-navigation'', ''context-subscription'', ''context-retrieval-request'', ''coordination-control'',
                   ''task-context-lifecycle''])
      else if role = RoleContext then
        (if operation = ''retrieve'' then Inr [''context-navigation'', ''context-semantic-retrieval'']
         else if operation = ''curate'' then Inr [''context-navigation'', ''general-context-curation'']
         else if operation = ''review'' then Inr [''context-navigation'', ''candidate-review'']
         else Inl (Plain ''context agent requires retrieve, curate, or review operation''))
      else if role = RolePlanner then phaseSkills ''planning-delivery'' operation
      else if role = RoleExecutor then phaseSkills ''execution-delivery'' operation
      else if role = RoleVerifier then phaseSkills ''verification-delivery'' operation
      else Inl (Plain (''unsupported runtime role '' @ role)))"

definition intersectTools :: "Tool list list \<Rightarrow> Tool list" where
  "intersectTools sets = (case sets of [] \<Rightarrow> []
     | first # rest \<Rightarrow> sort_by (\<lambda>l r. l < r) (filter (\<lambda>tool. list_all (\<lambda>ts. tool \<in> set ts) rest) first))"

definition BundleOf :: "Catalog \<Rightarrow> Role \<Rightarrow> string \<Rightarrow> goerr + Bundle" where
  "BundleOf c role operation =
     and_then (directSkills role operation) (\<lambda>direct.
     and_then (ResolveSkills (ct_Skills c) direct) (\<lambda>skills.
     case mget (ct_Prompts c) role of
       None \<Rightarrow> Inl (Plain (''missing role prompt for '' @ role))
     | Some rolePrompt \<Rightarrow>
         let roleTools = InvocationCapabilityTools role operation in
         checked (check_all (\<lambda>skill. check_all (\<lambda>tool. fail_if (tool \<notin> set roleTools)
             (Plain (''skill '' @ sk_ID skill @ '' tool '' @ tool @ '' is outside role '' @ role @ '' capability''))) (sk_Tools skill)) skills)
         (Inr \<lparr>bu_Role = role, bu_Operation = operation,
               bu_SharedPrompt = (case mget (ct_Prompts c) ''shared'' of None \<Rightarrow> zeroAsset | Some a \<Rightarrow> a),
               bu_RolePrompt = rolePrompt, bu_Skills = skills,
               bu_EffectiveTools = intersectTools [roleTools, concat (map sk_Tools skills), ct_availableTools c]\<rparr>)))"

definition present :: "string \<Rightarrow> string" where
  "present v = (if blank v then MissingValue else v)"

definition renderValues :: "Bundle \<Rightarrow> RenderData \<Rightarrow> (string, string) gomap" where
  "renderValues b data =
     [(''{{RUNTIME_ENVELOPE}}'', present (rd_RuntimeEnvelope data)),
      (''{{BOUNDARY_INPUT}}'', present (rd_BoundaryInput data)),
      (''{{START_OR_RESUME_INPUT}}'', present (rd_StartOrResumeInput data)),
      (''{{TASK_CONTRACT}}'', present (rd_TaskContract data)),
      (''{{PHASE_SPEC}}'', present (rd_PhaseSpec data)),
      (''{{WORKSPACE_BINDING}}'', present (rd_WorkspaceBinding data)),
      (''{{CONTEXT_SLICE}}'', present (rd_ContextSlice data)),
      (''{{TASK_MEMORY_BUFFER}}'', present (rd_TaskMemoryBuffer data)),
      (''{{REPOSITORY_POLICIES}}'', present (rd_RepositoryPolicy data)),
      (''{{LATEST_RUNTIME_EVENTS}}'', present (rd_LatestEvents data)),
      (''{{LOADED_SKILLS}}'', JoinStrings (map sk_ID (bu_Skills b)) '', ''),
      (''{{AVAILABLE_TOOLS}}'', JoinStrings (bu_EffectiveTools b) '', '')]"

text \<open>\<open>order\<close> lists the placeholders as the loop over \<open>values\<close> meets them.\<close>

definition fillPlaceholders :: "string list \<Rightarrow> (string, string) gomap \<Rightarrow> string \<Rightarrow> string" where
  "fillPlaceholders order vals body =
     fold (\<lambda>placeholder acc. case mget vals placeholder of None \<Rightarrow> acc | Some v \<Rightarrow> ReplaceAll acc placeholder v) order body"

definition Render :: "(string \<Rightarrow> string) \<Rightarrow> string list \<Rightarrow> Bundle \<Rightarrow> RenderData \<Rightarrow> Rendered" where
  "Render hash order b data =
     (let body = JoinStrings ([as_Body (bu_SharedPrompt b), as_Body (bu_RolePrompt b)] @ map sk_Body (bu_Skills b))
            ([CHR 10, CHR 10] @ ''---'' @ [CHR 10, CHR 10]);
          rendered = fillPlaceholders order (renderValues b data) body
      in \<lparr>rn_Text = rendered,
          rn_PromptHashes = mput (bu_Role b) (as_SHA256 (bu_RolePrompt b)) [(''shared'', as_SHA256 (bu_SharedPrompt b))],
          rn_SkillHashes = fold (\<lambda>skill. mput (sk_ID skill) (sk_SHA256 skill)) (bu_Skills b) [],
          rn_SHA256 = hash rendered\<rparr>)"

section \<open>Assembly\<close>

record Assembly =
  ay_Invocation :: Invocation
  ay_Prompt :: Rendered

definition Assemble ::
  "(string \<Rightarrow> string) \<Rightarrow> string list \<Rightarrow> Catalog \<Rightarrow> Invocation \<Rightarrow> RenderData \<Rightarrow> goerr + Assembly" where
  "Assemble hash order catalog invocation data =
     and_then (BundleOf catalog (iv_Role invocation) (iv_Operation invocation)) (\<lambda>bundle.
     let rendered = Render hash order bundle data;
         assembled = invocation\<lparr>iv_PromptHashes := rn_PromptHashes rendered, iv_SkillHashes := rn_SkillHashes rendered,
                                iv_EffectiveTools := bu_EffectiveTools bundle\<rparr>
     in checked (ValidateInvocation assembled) (Inr \<lparr>ay_Invocation = assembled, ay_Prompt = rendered\<rparr>))"

text \<open>\<open>EffectiveTools\<close> of \<open>policy.go\<close>; a \<open>ToolSource\<close> has the three sets as its fields.\<close>

record ToolSource =
  ts_RoleTools :: "Tool list"
  ts_SkillTools :: "Tool list"
  ts_AvailableTools :: "Tool list"

definition EffectiveTools :: "ToolSource \<Rightarrow> goerr + Tool list" where
  "EffectiveTools source =
     (if ts_RoleTools source = [] \<or> ts_SkillTools source = [] \<or> ts_AvailableTools source = []
      then Inl (Plain ''role, skill, and runtime tool sets are all required'')
      else
        let tools = sort_by (\<lambda>l r. l < r) (filter (\<lambda>tool. tool \<in> set (ts_SkillTools source) \<and> tool \<in> set (ts_AvailableTools source))
                      (ts_RoleTools source))
        in if tools = [] then Inl (Plain ''effective tool intersection is empty'') else Inr tools)"

end
