(* ===== verification/Phase_Controller.thy ===== *)
theory Phase_Controller
  imports Prompt_Catalog Command_Store
begin

text \<open>
  \<open>internal/runtime/phase/controller.go\<close>: the phase controller. It turns a start, resume or stop command of
  the coordination graph into an invocation of a phase agent, keeps the invocations that run, accepts
  their outputs and reports what happened back to the graph.

  The controller's own maps, the invocation store and the graph's store are the record \<open>Controller\<close>. The
  collaborators it calls through interfaces (host, lifecycle, binding resolver, input runtime, artifact
  router, recovery store, clock, context) are the functions of a \<open>PhaseEnv\<close> on a world of type \<open>'w\<close>: they
  may answer anything, and differently at every call, but they do not touch the controller. An operation
  is a function from a controller and a world to an outcome and a new controller and world: a result, an
  error, or \<open>Wait\<close> where the code waits on its condition variable.
\<close>

section \<open>Data\<close>

record InputRequirement =
  ir_InputID :: string
  ir_FromEndpoint :: PhaseEndpointRef
  ir_RequiredArtifacts :: "string list"
  ir_RequiredBy :: string

record InputDelivery =
  id_InputID :: string
  id_FromEndpoint :: PhaseEndpointRef
  id_PhaseOutputRef :: string
  id_ArtifactRefs :: "string list"
  id_SourceRevision :: string

record PendingInput =
  pi_InputID :: string
  pi_FromEndpoint :: PhaseEndpointRef
  pi_RequiredBy :: string

record PhaseInputSet =
  in_InputRevision :: string
  in_Required :: "InputRequirement list"
  in_Delivered :: "InputDelivery list"
  in_Pending :: "PendingInput list"

record StartPhaseInput =
  sp_InvocationID :: InvocationID
  sp_Endpoint :: PhaseEndpointRef
  sp_Generation :: int
  sp_BindingRef :: BindingRef
  sp_Inputs :: PhaseInputSet

type_synonym AwaitInputsRequest = "string list"

text \<open>A nil slice of the result is \<open>None\<close>: it leaves the inputs as they are.\<close>

record InputWaitResult =
  iw_InputRevision :: string
  iw_Delivered :: "InputDelivery list option"
  iw_Pending :: "PendingInput list option"
  iw_TerminalReason :: string

record PhaseOutput =
  po_Phase :: string
  po_DeliveryRefs :: "string list"
  po_ReportRef :: string
  po_EvidenceRefs :: "string list"

record OutputReceipt =
  or_Output :: PhaseOutput
  or_InvocationID :: InvocationID
  or_CommandID :: string
  or_CommandAction :: CommandAction
  or_CauseRef :: string
  or_Endpoint :: PhaseEndpointRef
  or_Generation :: int
  or_BindingRef :: BindingRef
  or_LeaseRef :: LeaseID
  or_InputRevision :: string
  or_WorkspaceRef :: string
  or_WorkspaceHead :: string
  or_OutputFingerprint :: string
  or_SubmittedAtUTC :: int

record BindingSnapshot =
  bs_ProjectID :: ProjectID
  bs_ActorPrincipalID :: ActorPrincipalID
  bs_TaskID :: TaskID
  bs_EndpointID :: EndpointID
  bs_Generation :: int
  bs_BindingRef :: BindingRef
  bs_LeaseRef :: LeaseID
  bs_WorkspaceRef :: string
  bs_WorkspaceRevision :: string
  bs_WorkspaceBinding :: string
  bs_ContextSliceRef :: string
  bs_ContextSlice :: string
  bs_TaskMemoryBufferRef :: string
  bs_TaskMemoryBuffer :: string
  bs_TaskContract :: string
  bs_PhaseSpec :: string
  bs_Inputs :: PhaseInputSet
  bs_CheckpointRef :: string
  bs_NonResumable :: bool

record ActiveInvocation =
  ai_Invocation :: Invocation
  ai_Command :: PhaseCommand
  ai_Binding :: BindingSnapshot
  ai_Inputs :: PhaseInputSet
  ai_Revoked :: bool

record DispatchRequest =
  dr_Invocation :: Invocation
  dr_Capability :: Capability
  dr_Prompt :: Rendered
  dr_Start :: StartPhaseInput
  dr_Binding :: BindingSnapshot
  dr_CheckpointRef :: string

record StopRequest =
  sr_Invocation :: Invocation
  sr_Command :: PhaseCommand
  sr_Binding :: BindingSnapshot

record StopResult =
  sv_ResumeStateRef :: string
  sv_CheckpointRef :: string
  sv_WorkspaceRevision :: string
  sv_NonResumable :: bool

definition zeroInputs :: PhaseInputSet where
  "zeroInputs = \<lparr>in_InputRevision = '''', in_Required = [], in_Delivered = [], in_Pending = []\<rparr>"

definition zeroBinding :: BindingSnapshot where
  "zeroBinding = \<lparr>bs_ProjectID = '''', bs_ActorPrincipalID = '''', bs_TaskID = '''', bs_EndpointID = '''', bs_Generation = 0,
     bs_BindingRef = '''', bs_LeaseRef = '''', bs_WorkspaceRef = '''', bs_WorkspaceRevision = '''', bs_WorkspaceBinding = '''',
     bs_ContextSliceRef = '''', bs_ContextSlice = '''', bs_TaskMemoryBufferRef = '''', bs_TaskMemoryBuffer = '''',
     bs_TaskContract = '''', bs_PhaseSpec = '''', bs_Inputs = zeroInputs, bs_CheckpointRef = '''', bs_NonResumable = False\<rparr>"

section \<open>The collaborators\<close>

record 'w RecoveryStore =
  rs_RecordActiveInvocation :: "ActiveInvocation \<Rightarrow> 'w \<Rightarrow> goerr option \<times> 'w"
  rs_RecoverActiveInvocation :: "PhaseCommand \<Rightarrow> BindingSnapshot \<Rightarrow> 'w \<Rightarrow> (goerr + ActiveInvocation option) \<times> 'w"
  rs_RecordOutputReceipt :: "ActiveInvocation \<Rightarrow> OutputReceipt \<Rightarrow> 'w \<Rightarrow> goerr option \<times> 'w"
  rs_GetOutputReceipt :: "InvocationID \<Rightarrow> string \<Rightarrow> 'w \<Rightarrow> (goerr + OutputReceipt option) \<times> 'w"
  rs_RecordStopEvidence :: "ActiveInvocation \<Rightarrow> PhaseCommand \<Rightarrow> StopResult \<Rightarrow> 'w \<Rightarrow> goerr option \<times> 'w"
  rs_GetStopEvidence :: "InvocationID \<Rightarrow> string \<Rightarrow> 'w \<Rightarrow> (goerr + StopResult option) \<times> 'w"
  rs_ClearActiveInvocation :: "InvocationID \<Rightarrow> 'w \<Rightarrow> goerr option \<times> 'w"
  rs_ValidateResume :: "PhaseCommand \<Rightarrow> BindingSnapshot \<Rightarrow> 'w \<Rightarrow> goerr option \<times> 'w"

text \<open>
  \<open>pe_ctx\<close> is one look at \<open>ctx.Err()\<close>, \<open>pe_now\<close> one at the clock, \<open>pe_order\<close> the map order of one prompt.
  \<open>pe_ttl\<close> is the lifetime after the defaults of \<open>NewController\<close>.
  The hashes and JSON encodings are functions of their argument; \<open>pe_idHash\<close> is the hexadecimal form of
  the first eight bytes of a SHA-256.
\<close>

record 'w PhaseEnv =
  pe_ctx :: "'w \<Rightarrow> goerr option \<times> 'w"
  pe_now :: "'w \<Rightarrow> int \<times> 'w"
  pe_order :: "'w \<Rightarrow> string list \<times> 'w"
  pe_ttl :: int
  pe_hash :: "string \<Rightarrow> string"
  pe_idHash :: "string \<Rightarrow> string"
  pe_digest :: "Invocation \<Rightarrow> goerr + string"
  pe_commandHash :: "PhaseCommand \<Rightarrow> goerr + string"
  pe_outputHash :: "PhaseOutput \<Rightarrow> goerr + string"
  pe_envelopeJSON :: "Envelope \<Rightarrow> goerr + string"
  pe_startJSON :: "StartPhaseInput \<Rightarrow> goerr + string"
  pe_catalog :: Catalog
  pe_Resolve :: "PhaseCommand \<Rightarrow> 'w \<Rightarrow> (goerr + BindingSnapshot) \<times> 'w"
  pe_Refresh :: "ActiveInvocation \<Rightarrow> 'w \<Rightarrow> (goerr + BindingSnapshot) \<times> 'w"
  pe_AwaitInputs :: "ActiveInvocation \<Rightarrow> AwaitInputsRequest \<Rightarrow> 'w \<Rightarrow> (goerr + InputWaitResult) \<times> 'w"
  pe_Route :: "ActiveInvocation \<Rightarrow> string \<Rightarrow> 'w \<Rightarrow> (goerr + string) \<times> 'w"
  pe_Dispatch :: "DispatchRequest \<Rightarrow> 'w \<Rightarrow> goerr option \<times> 'w"
  pe_Rehydrate :: "DispatchRequest \<Rightarrow> 'w \<Rightarrow> goerr option \<times> 'w"
  pe_Suspend :: "InvocationID \<Rightarrow> 'w \<Rightarrow> goerr option \<times> 'w"
  pe_Stop :: "StopRequest \<Rightarrow> 'w \<Rightarrow> (goerr + StopResult) \<times> 'w"
  pe_Fence :: "InvocationID \<Rightarrow> 'w \<Rightarrow> goerr option \<times> 'w"
  pe_Revoke :: "InvocationID \<Rightarrow> 'w \<Rightarrow> goerr option \<times> 'w"
  pe_Complete :: "Invocation \<Rightarrow> 'w \<Rightarrow> goerr option \<times> 'w"
  pe_End :: "Invocation \<Rightarrow> 'w \<Rightarrow> goerr option \<times> 'w"
  pe_recovery :: "'w RecoveryStore option"
  pe_observes :: bool

section \<open>The controller's state\<close>

record phaseCommandRecord =
  pc_fingerprint :: string
  pc_inFlight :: bool
  pc_done :: bool
  pc_err :: "goerr option"

record Controller =
  co_commands :: "(string, phaseCommandRecord) gomap"
  co_active :: "(InvocationID, ActiveInvocation) gomap"
  co_byLease :: "(LeaseID, InvocationID) gomap"
  co_receipts :: "(InvocationID, OutputReceipt) gomap"
  co_pending :: "(InvocationID, OutputReceipt) gomap"
  co_byCommand :: "(string, InvocationID) gomap"
  co_termLocks :: "(InvocationID, bool) gomap"
  co_store :: MemoryInvocationStore
  co_graph :: MemoryStore

text \<open>\<open>NewController\<close> on an invocation store and a graph.\<close>

definition NewController :: "MemoryInvocationStore \<Rightarrow> MemoryStore \<Rightarrow> Controller" where
  "NewController store graph = \<lparr>co_commands = [], co_active = [], co_byLease = [], co_receipts = [], co_pending = [],
     co_byCommand = [], co_termLocks = [], co_store = store, co_graph = graph\<rparr>"

section \<open>Operations\<close>

datatype 'a outcome = Ok 'a | Err goerr | Wait

type_synonym ('w, 'a) phase_op = "Controller \<times> 'w \<Rightarrow> 'a outcome \<times> Controller \<times> 'w"

definition ret :: "'a \<Rightarrow> ('w, 'a) phase_op" where
  "ret x s = (Ok x, s)"

definition failWith :: "goerr \<Rightarrow> ('w, 'a) phase_op" where
  "failWith e s = (Err e, s)"

definition andThen :: "('w, 'a) phase_op \<Rightarrow> ('a \<Rightarrow> ('w, 'b) phase_op) \<Rightarrow> ('w, 'b) phase_op" where
  "andThen m k s = (case m s of (Ok x, t) \<Rightarrow> k x t | (Err e, t) \<Rightarrow> (Err e, t) | (Wait, t) \<Rightarrow> (Wait, t))"

definition checkOp :: "goerr option \<Rightarrow> ('w, unit) phase_op" where
  "checkOp c = (case c of None \<Rightarrow> ret () | Some e \<Rightarrow> failWith e)"

definition liftSum :: "goerr + 'a \<Rightarrow> ('w, 'a) phase_op" where
  "liftSum r = (case r of Inl e \<Rightarrow> failWith e | Inr x \<Rightarrow> ret x)"

text \<open>A call of a collaborator: one that only answers, one that may fail, one that is a check.\<close>

definition ask :: "('w \<Rightarrow> 'a \<times> 'w) \<Rightarrow> ('w, 'a) phase_op" where
  "ask f s = (case s of (c, w) \<Rightarrow> (case f w of (x, w') \<Rightarrow> (Ok x, c, w')))"

definition askSum :: "('w \<Rightarrow> (goerr + 'a) \<times> 'w) \<Rightarrow> ('w, 'a) phase_op" where
  "askSum f = andThen (ask f) liftSum"

definition askErr :: "('w \<Rightarrow> goerr option \<times> 'w) \<Rightarrow> ('w, unit) phase_op" where
  "askErr f = andThen (ask f) checkOp"

text \<open>The controller's own state: a read, and a write under its mutex.\<close>

definition reads :: "(Controller \<Rightarrow> 'a) \<Rightarrow> ('w, 'a) phase_op" where
  "reads f s = (Ok (f (fst s)), s)"

definition writes :: "(Controller \<Rightarrow> Controller) \<Rightarrow> ('w, unit) phase_op" where
  "writes f s = (Ok (), f (fst s), snd s)"

text \<open>
  \<open>_ = f()\<close>; \<open>if err := f(); err != nil { g(); return err }\<close>; and \<open>fmt.Errorf\<close> around the error of \<open>f\<close>.
\<close>

definition ignoring :: "('w, 'a) phase_op \<Rightarrow> ('w, unit) phase_op" where
  "ignoring m s = (case m s of (Wait, t) \<Rightarrow> (Wait, t) | (_, t) \<Rightarrow> (Ok (), t))"

definition cleaning :: "('w, 'a) phase_op \<Rightarrow> ('w, unit) phase_op \<Rightarrow> ('w, 'a) phase_op" where
  "cleaning m g s = (case m s of (Err e, t) \<Rightarrow> (Err e, snd (g t)) | r \<Rightarrow> r)"

definition wrapping :: "string \<Rightarrow> ('w, 'a) phase_op \<Rightarrow> ('w, 'a) phase_op" where
  "wrapping message m s = (case m s of (Err e, t) \<Rightarrow> (Err (wrapErr message e), t) | r \<Rightarrow> r)"

text \<open>\<open>lockTerminal\<close> and the deferred unlock.\<close>

definition withTerminal :: "InvocationID \<Rightarrow> ('w, 'a) phase_op \<Rightarrow> ('w, 'a) phase_op" where
  "withTerminal i m s = (case s of (c, w) \<Rightarrow>
     if mget (co_termLocks c) i = Some True then (Wait, s)
     else case m (c\<lparr>co_termLocks := mput i True (co_termLocks c)\<rparr>, w) of
       (r, c', w') \<Rightarrow> (r, c'\<lparr>co_termLocks := mdel i (co_termLocks c')\<rparr>, w'))"

section \<open>Checks\<close>

definition validateCommand :: "PhaseCommand \<Rightarrow> goerr option" where
  "validateCommand command = first_err
     [fail_if (cmd_ID command = '''') (InvalidArgument ''command id is required''),
      RequireID ''task_id'' (ref_TaskID (cmd_Endpoint command)),
      RequireID ''endpoint_id'' (ref_EndpointID (cmd_Endpoint command)),
      fail_if (cmd_Generation command = 0) (InvalidArgument ''generation must be positive''),
      RequireID ''binding_ref'' (cmd_BindingRef command),
      RequireID ''lease_ref'' (cmd_LeaseRef command)]"

definition validateBindingForCommand :: "BindingSnapshot \<Rightarrow> PhaseCommand \<Rightarrow> goerr option" where
  "validateBindingForCommand binding command = first_err
     [fail_if (bs_TaskID binding \<noteq> ref_TaskID (cmd_Endpoint command) \<or> bs_EndpointID binding \<noteq> ref_EndpointID (cmd_Endpoint command)
         \<or> bs_Generation binding \<noteq> cmd_Generation command \<or> bs_BindingRef binding \<noteq> cmd_BindingRef command)
        (StaleBinding ''binding snapshot does not match command''),
      fail_if (bs_LeaseRef binding \<noteq> cmd_LeaseRef command) (LeaseConflict ''binding lease does not match command''),
      fail_if (bs_ProjectID binding = '''' \<or> bs_ActorPrincipalID binding = '''' \<or> bs_WorkspaceRef binding = ''''
         \<or> bs_WorkspaceRevision binding = '''')
        (StaleBinding ''binding snapshot is incomplete'')]"

definition validateBindingForActive :: "BindingSnapshot \<Rightarrow> ActiveInvocation \<Rightarrow> goerr option" where
  "validateBindingForActive binding active = (let invocation = ai_Invocation active in first_err
     [validateBindingForCommand binding (ai_Command active),
      fail_if (bs_ProjectID binding \<noteq> iv_ProjectID invocation \<or> bs_TaskID binding \<noteq> iv_TaskID invocation
         \<or> bs_EndpointID binding \<noteq> iv_EndpointID invocation \<or> word_of_int (bs_Generation binding) \<noteq> iv_Generation invocation
         \<or> bs_BindingRef binding \<noteq> iv_BindingRef invocation \<or> bs_LeaseRef binding \<noteq> iv_LeaseID invocation)
        (StaleBinding ''binding snapshot does not match active invocation'')])"

definition validateStopResult :: "StopResult \<Rightarrow> goerr option" where
  "validateStopResult result =
     (if sv_NonResumable result then None
      else fail_if (sv_ResumeStateRef result = '''' \<or> sv_WorkspaceRevision result = '''' \<or> sv_CheckpointRef result = '''')
        (IncompleteStopEvidence ''resumable stop requires resume_state_ref, workspace_revision, and checkpoint_ref''))"

definition validateAwaitRequest :: "PhaseInputSet \<Rightarrow> AwaitInputsRequest \<Rightarrow> goerr option" where
  "validateAwaitRequest inputs ids =
     (if ids = [] then None
      else let known = map pi_InputID (in_Pending inputs)
           in check_all (\<lambda>i. fail_if (i \<notin> set known) (InvalidArgument ''await input id is not pending'')) ids)"

text \<open>The loop over the deliveries fills the map \<open>delivered\<close>; a later delivery of an input replaces an earlier one.\<close>

definition collectDelivery :: "InputDelivery \<Rightarrow> (string, InputDelivery) gomap \<Rightarrow> goerr + (string, InputDelivery) gomap" where
  "collectDelivery delivery delivered = checked (first_err
     [fail_if (id_InputID delivery = '''' \<or> id_PhaseOutputRef delivery = '''' \<or> id_SourceRevision delivery = '''')
        (TransitionRejected ''delivered completion input is missing identity, output ref, or source revision''),
      fail_if (ref_TaskID (id_FromEndpoint delivery) = '''' \<or> ref_EndpointID (id_FromEndpoint delivery) = '''')
        (TransitionRejected ''delivered completion input is missing source endpoint'')])
     (Inr (mput (id_InputID delivery) delivery delivered))"

definition checkRequirement :: "(string, InputDelivery) gomap \<Rightarrow> InputRequirement \<Rightarrow> goerr option" where
  "checkRequirement delivered req =
     (if ir_RequiredBy req \<noteq> ''completion'' then None
      else case mget delivered (ir_InputID req) of
        None \<Rightarrow> Some (TransitionRejected ''required completion input has not been delivered'')
      | Some delivery \<Rightarrow> first_err
          [fail_if (ref_TaskID (ir_FromEndpoint req) = '''' \<or> ref_EndpointID (ir_FromEndpoint req) = ''''
              \<or> id_FromEndpoint delivery \<noteq> ir_FromEndpoint req)
             (TransitionRejected ''completion input source endpoint does not match requirement''),
           check_all (\<lambda>required. fail_if (required \<notin> set (id_ArtifactRefs delivery))
             (TransitionRejected ''completion input is missing required artifact'')) (ir_RequiredArtifacts req)])"

definition validateCompletionInputs :: "PhaseInputSet \<Rightarrow> goerr option" where
  "validateCompletionInputs inputs =
     (case loopE collectDelivery (in_Delivered inputs) [] of
        Inl e \<Rightarrow> Some e
      | Inr delivered \<Rightarrow> check_all (checkRequirement delivered) (in_Required inputs))"

definition validatePhaseOutput :: "ActiveInvocation \<Rightarrow> PhaseOutput \<Rightarrow> goerr option" where
  "validatePhaseOutput active output = first_err
     [fail_if (po_Phase output = '''' \<or> po_ReportRef output = '''') (InvalidArgument ''phase output requires phase and report_ref''),
      validateCompletionInputs (ai_Inputs active),
      fail_if (po_Phase output \<noteq> ref_EndpointID (cmd_Endpoint (ai_Command active)))
        (InvalidArgument ''phase output phase does not match endpoint'')]"

definition phaseRole :: "EndpointID \<Rightarrow> goerr + Role" where
  "phaseRole endpoint =
     (if endpoint = ''plan'' then Inr RolePlanner
      else if endpoint = ''execute'' then Inr RoleExecutor
      else if endpoint = ''verify'' then Inr RoleVerifier
      else Inl (InvalidArgument ''endpoint id must be plan, execute, or verify''))"

definition mergeInputWaitResult :: "PhaseInputSet \<Rightarrow> InputWaitResult \<Rightarrow> PhaseInputSet" where
  "mergeInputWaitResult current result =
     (let revised = (if iw_InputRevision result \<noteq> '''' then current\<lparr>in_InputRevision := iw_InputRevision result\<rparr> else current);
          delivered = (case iw_Delivered result of None \<Rightarrow> revised
            | Some new \<Rightarrow>
                let both = in_Delivered current @ new
                in revised\<lparr>in_Delivered := both,
                     in_Pending := filter (\<lambda>pending. pi_InputID pending \<notin> set (map id_InputID both)) (in_Pending current)\<rparr>)
      in case iw_Pending result of None \<Rightarrow> delivered | Some pending \<Rightarrow> delivered\<lparr>in_Pending := pending\<rparr>)"

definition deterministicInvocationID :: "'w PhaseEnv \<Rightarrow> string \<Rightarrow> InvocationID" where
  "deterministicInvocationID env commandID = ''inv_'' @ pe_idHash env commandID"

definition commandFromOutputReceipt :: "OutputReceipt \<Rightarrow> goerr + PhaseCommand" where
  "commandFromOutputReceipt receipt = checked (first_err
     [fail_if (or_CommandID receipt = '''' \<or> or_CommandAction receipt = '''' \<or> ref_TaskID (or_Endpoint receipt) = ''''
         \<or> ref_EndpointID (or_Endpoint receipt) = '''' \<or> or_Generation receipt \<le> 0 \<or> or_BindingRef receipt = '''' \<or> or_LeaseRef receipt = '''')
        (kerr CodeInternalError ''persisted output receipt is missing command identity'' True),
      fail_if (or_CommandAction receipt \<noteq> CommandStart \<and> or_CommandAction receipt \<noteq> CommandResume)
        (kerr CodeInternalError ''persisted output receipt has invalid command action'' True)])
     (Inr \<lparr>cmd_ID = or_CommandID receipt, cmd_Endpoint = or_Endpoint receipt, cmd_Generation = or_Generation receipt,
           cmd_BindingRef = or_BindingRef receipt, cmd_LeaseRef = or_LeaseRef receipt,
           cmd_Action = or_CommandAction receipt, cmd_CauseRef = or_CauseRef receipt\<rparr>)"

section \<open>Access to the stores\<close>

definition stale :: "string \<Rightarrow> goerr" where
  "stale message = kerr CodeStaleCommand message True"

definition getInvocation :: "'w PhaseEnv \<Rightarrow> InvocationID \<Rightarrow> ('w, Invocation option) phase_op" where
  "getInvocation env i = andThen (ask (pe_ctx env)) (\<lambda>ctx.
     andThen (reads co_store) (\<lambda>store. liftSum (GetInvocation ctx store i)))"

definition createInvocation :: "'w PhaseEnv \<Rightarrow> Invocation \<Rightarrow> ('w, unit) phase_op" where
  "createInvocation env invocation = andThen (ask (pe_ctx env)) (\<lambda>ctx.
     andThen (reads co_store) (\<lambda>store. case CreateInvocation (pe_digest env) ctx store invocation of
       (err, store') \<Rightarrow> andThen (writes (\<lambda>c. c\<lparr>co_store := store'\<rparr>)) (\<lambda>_. checkOp err)))"

definition transitionInvocation :: "'w PhaseEnv \<Rightarrow> InvocationID \<Rightarrow> InvocationStatus \<Rightarrow> InvocationStatus \<Rightarrow> ('w, unit) phase_op" where
  "transitionInvocation env i from to = andThen (ask (pe_ctx env)) (\<lambda>ctx.
     andThen (reads co_store) (\<lambda>store. case TransitionInvocation ctx store i from to of
       (err, store') \<Rightarrow> andThen (writes (\<lambda>c. c\<lparr>co_store := store'\<rparr>)) (\<lambda>_. checkOp err)))"

definition activeInvocation :: "InvocationID \<Rightarrow> Controller \<Rightarrow> goerr + ActiveInvocation" where
  "activeInvocation i c = (case mget (co_active c) i of
     None \<Rightarrow> Inl (stale ''invocation is no longer active'')
   | Some active \<Rightarrow> if ai_Revoked active then Inl (stale ''invocation is no longer active'') else Inr active)"

definition activeByLease :: "LeaseID \<Rightarrow> Controller \<Rightarrow> goerr + ActiveInvocation" where
  "activeByLease lease c = (case mget (co_byLease c) lease of
     None \<Rightarrow> Inl (stale ''no active invocation for lease'')
   | Some i \<Rightarrow> activeInvocation i c)"

definition putActive :: "InvocationID \<Rightarrow> ActiveInvocation \<Rightarrow> ('w, unit) phase_op" where
  "putActive i active = writes (\<lambda>c. c\<lparr>co_active := mput i active (co_active c)\<rparr>)"

definition forgetActive :: "InvocationID \<Rightarrow> LeaseID \<Rightarrow> ('w, unit) phase_op" where
  "forgetActive i lease = writes (\<lambda>c. c\<lparr>co_active := mdel i (co_active c), co_byLease := mdel lease (co_byLease c)\<rparr>)"

definition withRecovery :: "'w PhaseEnv \<Rightarrow> ('w RecoveryStore \<Rightarrow> ('w, unit) phase_op) \<Rightarrow> ('w, unit) phase_op" where
  "withRecovery env f = (case pe_recovery env of None \<Rightarrow> ret () | Some recovery \<Rightarrow> f recovery)"

definition clearActive :: "'w PhaseEnv \<Rightarrow> InvocationID \<Rightarrow> ('w, unit) phase_op" where
  "clearActive env i = withRecovery env (\<lambda>recovery. askErr (rs_ClearActiveInvocation recovery i))"

definition recordActive :: "'w PhaseEnv \<Rightarrow> ActiveInvocation \<Rightarrow> ('w, unit) phase_op" where
  "recordActive env active = withRecovery env (\<lambda>recovery. askErr (rs_RecordActiveInvocation recovery active))"

text \<open>The observations go to the graph's store under the context of the call.\<close>

definition observing :: "'w PhaseEnv \<Rightarrow> (goerr option \<Rightarrow> MemoryStore \<Rightarrow> goerr option \<times> MemoryStore) \<Rightarrow> ('w, unit) phase_op" where
  "observing env f =
     (if \<not> pe_observes env then ret ()
      else andThen (ask (pe_ctx env)) (\<lambda>ctx. andThen (reads co_graph) (\<lambda>graph. case f ctx graph of
        (err, graph') \<Rightarrow> andThen (writes (\<lambda>c. c\<lparr>co_graph := graph'\<rparr>)) (\<lambda>_. checkOp err))))"

definition recordInvocationStarted :: "'w PhaseEnv \<Rightarrow> ActiveInvocation \<Rightarrow> ('w, unit) phase_op" where
  "recordInvocationStarted env active = observing env (\<lambda>ctx graph.
     RecordPhaseInvocationStarted ctx graph (iv_ProjectID (ai_Invocation active)) (ai_Command active))"

definition recordOutputSubmitted :: "'w PhaseEnv \<Rightarrow> ActiveInvocation \<Rightarrow> ('w, unit) phase_op" where
  "recordOutputSubmitted env active = observing env (\<lambda>ctx graph.
     RecordPhaseOutputSubmitted ctx graph (iv_ProjectID (ai_Invocation active)) (ai_Command active))"

definition recordInvocationFailed :: "'w PhaseEnv \<Rightarrow> ProjectID \<Rightarrow> PhaseCommand \<Rightarrow> ('w, unit) phase_op" where
  "recordInvocationFailed env projectID command = observing env (\<lambda>ctx graph.
     RecordPhaseInvocationFailed ctx graph projectID command)"

definition recordInvocationStopped :: "'w PhaseEnv \<Rightarrow> ActiveInvocation \<Rightarrow> PhaseCommand \<Rightarrow> StopResult \<Rightarrow> ('w, unit) phase_op" where
  "recordInvocationStopped env active command result = observing env (\<lambda>ctx graph.
     RecordPhaseInvocationStopped ctx graph (iv_ProjectID (ai_Invocation active)) command (sv_CheckpointRef result) (sv_NonResumable result))"

section \<open>Status changes\<close>

definition requireInvocation :: "'w PhaseEnv \<Rightarrow> InvocationID \<Rightarrow> ('w, Invocation) phase_op" where
  "requireInvocation env i = andThen (getInvocation env i) (\<lambda>found. case found of
     None \<Rightarrow> failWith (kerr CodeNotFound ''invocation not found'' False)
   | Some invocation \<Rightarrow> ret invocation)"

definition transitionToWaiting :: "'w PhaseEnv \<Rightarrow> InvocationID \<Rightarrow> ('w, unit) phase_op" where
  "transitionToWaiting env i = andThen (requireInvocation env i) (\<lambda>invocation.
     if iv_Status invocation = InvocationRunning then transitionInvocation env i InvocationRunning InvocationWaiting
     else if iv_Status invocation = InvocationWaiting then ret ()
     else failWith (stale ''invocation is not running or waiting''))"

definition transitionToCompleted :: "'w PhaseEnv \<Rightarrow> InvocationID \<Rightarrow> ('w, unit) phase_op" where
  "transitionToCompleted env i = andThen (requireInvocation env i) (\<lambda>invocation.
     if iv_Status invocation = InvocationRunning then transitionInvocation env i InvocationRunning InvocationCompleted
     else if iv_Status invocation = InvocationCompleted then ret ()
     else failWith (stale ''invocation is not running or completed''))"

definition transitionToStopped :: "'w PhaseEnv \<Rightarrow> InvocationID \<Rightarrow> ('w, unit) phase_op" where
  "transitionToStopped env i = andThen (requireInvocation env i) (\<lambda>invocation.
     if iv_Status invocation = InvocationPrepared then transitionInvocation env i InvocationPrepared InvocationStopped
     else if iv_Status invocation = InvocationRunning then transitionInvocation env i InvocationRunning InvocationStopped
     else if iv_Status invocation = InvocationWaiting then transitionInvocation env i InvocationWaiting InvocationStopped
     else if iv_Status invocation = InvocationStopped then ret ()
     else failWith (stale ''invocation is not running or waiting''))"

definition transitionToFailed :: "'w PhaseEnv \<Rightarrow> InvocationID \<Rightarrow> ('w, unit) phase_op" where
  "transitionToFailed env i = andThen (requireInvocation env i) (\<lambda>invocation.
     if iv_Status invocation = InvocationPrepared then transitionInvocation env i InvocationPrepared InvocationFailed
     else if iv_Status invocation = InvocationRunning then transitionInvocation env i InvocationRunning InvocationFailed
     else if iv_Status invocation = InvocationWaiting then transitionInvocation env i InvocationWaiting InvocationFailed
     else if iv_Status invocation = InvocationFailed then ret ()
     else failWith (stale ''invocation is not active or failed''))"

section \<open>Start and resume\<close>

definition renderData ::
  "'w PhaseEnv \<Rightarrow> Invocation \<Rightarrow> StartPhaseInput \<Rightarrow> BindingSnapshot \<Rightarrow> goerr + RenderData" where
  "renderData env invocation start binding =
     and_then (pe_envelopeJSON env (EnvelopeFromInvocation invocation)) (\<lambda>envelope.
     and_then (pe_startJSON env start) (\<lambda>startPayload.
     Inr \<lparr>rd_RuntimeEnvelope = envelope, rd_BoundaryInput = '''', rd_StartOrResumeInput = startPayload,
          rd_TaskContract = bs_TaskContract binding, rd_PhaseSpec = bs_PhaseSpec binding,
          rd_WorkspaceBinding = bs_WorkspaceBinding binding, rd_ContextSlice = bs_ContextSlice binding,
          rd_TaskMemoryBuffer = bs_TaskMemoryBuffer binding, rd_RepositoryPolicy = '''', rd_LatestEvents = ''''\<rparr>))"

definition cleanupResolvedInvocation :: "'w PhaseEnv \<Rightarrow> Invocation \<Rightarrow> ('w, unit) phase_op" where
  "cleanupResolvedInvocation env invocation = ignoring (askErr (pe_End env invocation))"

definition cleanupResolvedBinding :: "'w PhaseEnv \<Rightarrow> PhaseCommand \<Rightarrow> Role \<Rightarrow> BindingSnapshot \<Rightarrow> ('w, unit) phase_op" where
  "cleanupResolvedBinding env command role binding = ignoring (askErr (pe_End env (zeroInvocation
     \<lparr>iv_ID := deterministicInvocationID env (cmd_ID command), iv_ActorPrincipalID := bs_ActorPrincipalID binding,
      iv_ProjectID := bs_ProjectID binding, iv_TaskID := ref_TaskID (cmd_Endpoint command),
      iv_EndpointID := ref_EndpointID (cmd_Endpoint command), iv_Generation := word_of_int (cmd_Generation command),
      iv_Role := role, iv_BindingRef := cmd_BindingRef command, iv_LeaseID := cmd_LeaseRef command\<rparr>)))"

text \<open>The checkpoint rules of a start and of a resume.\<close>

definition checkCheckpoint :: "'w PhaseEnv \<Rightarrow> PhaseCommand \<Rightarrow> BindingSnapshot \<Rightarrow> ('w, unit) phase_op" where
  "checkCheckpoint env command binding =
     (if cmd_Action command = CommandStart \<and> bs_CheckpointRef binding \<noteq> '''' then
        failWith (kerr CodeStaleCheckpoint ''start command cannot use checkpoint-bound binding'' True)
      else if cmd_Action command = CommandResume then
        (if bs_NonResumable binding \<or> bs_CheckpointRef binding = '''' then
           failWith (kerr CodeStaleCheckpoint ''resume checkpoint is missing or non-resumable'' True)
         else case pe_recovery env of
           None \<Rightarrow> failWith (kerr CodeStaleCheckpoint ''resume evidence store is required'' True)
         | Some recovery \<Rightarrow> askErr (rs_ValidateResume recovery command binding))
      else ret ())"

definition newInvocation :: "'w PhaseEnv \<Rightarrow> PhaseCommand \<Rightarrow> Role \<Rightarrow> BindingSnapshot \<Rightarrow> int \<Rightarrow> Invocation" where
  "newInvocation env command role binding now = zeroInvocation
     \<lparr>iv_ID := deterministicInvocationID env (cmd_ID command), iv_ActorPrincipalID := bs_ActorPrincipalID binding,
      iv_ProjectID := bs_ProjectID binding, iv_TaskID := ref_TaskID (cmd_Endpoint command),
      iv_EndpointID := ref_EndpointID (cmd_Endpoint command), iv_Generation := word_of_int (cmd_Generation command),
      iv_Role := role, iv_Status := InvocationPrepared, iv_BindingRef := cmd_BindingRef command,
      iv_LeaseID := cmd_LeaseRef command, iv_WorkspaceRef := bs_WorkspaceRef binding,
      iv_ContextSliceRef := bs_ContextSliceRef binding, iv_TaskMemoryBufferRef := bs_TaskMemoryBufferRef binding,
      iv_CreatedAt := Some now, iv_ExpiresAt := Some (now + pe_ttl env)\<rparr>"

definition newActive :: "Invocation \<Rightarrow> PhaseCommand \<Rightarrow> BindingSnapshot \<Rightarrow> ActiveInvocation" where
  "newActive invocation command binding = \<lparr>ai_Invocation = invocation, ai_Command = command, ai_Binding = binding,
     ai_Inputs = bs_Inputs binding, ai_Revoked = False\<rparr>"

definition finishStarted :: "'w PhaseEnv \<Rightarrow> ActiveInvocation \<Rightarrow> ('w, unit) phase_op" where
  "finishStarted env active =
     andThen (recordActive env active) (\<lambda>_.
     andThen (writes (\<lambda>c. c\<lparr>co_active := mput (iv_ID (ai_Invocation active)) active (co_active c),
                           co_byLease := mput (cmd_LeaseRef (ai_Command active)) (iv_ID (ai_Invocation active)) (co_byLease c)\<rparr>)) (\<lambda>_.
     recordInvocationStarted env active))"

definition receiptMatches :: "OutputReceipt \<Rightarrow> ActiveInvocation \<Rightarrow> bool" where
  "receiptMatches receipt active \<longleftrightarrow>
     or_InvocationID receipt = iv_ID (ai_Invocation active) \<and> or_CommandID receipt = cmd_ID (ai_Command active)
   \<and> or_CommandAction receipt = cmd_Action (ai_Command active) \<and> or_Endpoint receipt = cmd_Endpoint (ai_Command active)
   \<and> or_Generation receipt = cmd_Generation (ai_Command active) \<and> or_BindingRef receipt = cmd_BindingRef (ai_Command active)
   \<and> or_LeaseRef receipt = cmd_LeaseRef (ai_Command active)"

definition finishPersistedOutput :: "'w PhaseEnv \<Rightarrow> ActiveInvocation \<Rightarrow> ('w, unit) phase_op" where
  "finishPersistedOutput env active =
     (let i = iv_ID (ai_Invocation active) in
      case pe_recovery env of
        None \<Rightarrow> failWith (stale ''output recovery store is required'')
      | Some recovery \<Rightarrow>
          andThen (askSum (rs_GetOutputReceipt recovery i (cmd_ID (ai_Command active)))) (\<lambda>found. case found of
            None \<Rightarrow> failWith (stale ''completed invocation has no persisted output receipt'')
          | Some receipt \<Rightarrow>
              if \<not> receiptMatches receipt active then
                failWith (kerr CodeIdempotencyConflict ''persisted output receipt does not match command'' False)
              else
                andThen (recordOutputSubmitted env active) (\<lambda>_.
                andThen (askErr (pe_Complete env (ai_Invocation active))) (\<lambda>_.
                andThen (askErr (rs_ClearActiveInvocation recovery i)) (\<lambda>_.
                writes (\<lambda>c. c\<lparr>co_receipts := mput i receipt (co_receipts c),
                             co_byCommand := mput (cmd_ID (ai_Command active)) i (co_byCommand c),
                             co_active := mdel i (co_active c),
                             co_byLease := mdel (cmd_LeaseRef (ai_Command active)) (co_byLease c)\<rparr>))))))"

text \<open>
  From the assembled prompt to the running invocation; \<open>stored\<close> says that an earlier attempt has left the
  prepared invocation in the store.
\<close>

definition launch :: "'w PhaseEnv \<Rightarrow> PhaseCommand \<Rightarrow> BindingSnapshot \<Rightarrow> Invocation \<Rightarrow> bool \<Rightarrow> ('w, unit) phase_op" where
  "launch env command binding prepared stored =
     (let start = \<lparr>sp_InvocationID = iv_ID prepared, sp_Endpoint = cmd_Endpoint command, sp_Generation = cmd_Generation command,
                   sp_BindingRef = cmd_BindingRef command, sp_Inputs = bs_Inputs binding\<rparr> in
      andThen (cleaning (liftSum (renderData env prepared start binding)) (cleanupResolvedInvocation env prepared)) (\<lambda>data.
      andThen (ask (pe_order env)) (\<lambda>order.
      andThen (cleaning (liftSum (Assemble (pe_hash env) order (pe_catalog env) prepared data)) (cleanupResolvedInvocation env prepared)) (\<lambda>assembly.
      let invocation = ay_Invocation assembly; active = newActive invocation command binding;
          dispatch = \<lparr>dr_Invocation = invocation, dr_Capability = CapabilityOf invocation, dr_Prompt = ay_Prompt assembly,
                      dr_Start = start, dr_Binding = binding, dr_CheckpointRef = bs_CheckpointRef binding\<rparr>;
          release = andThen (ignoring (askErr (pe_Revoke env (iv_ID invocation)))) (\<lambda>_. ignoring (askErr (pe_End env invocation)))
      in
      andThen (if stored then ret () else cleaning (createInvocation env invocation) (cleanupResolvedInvocation env invocation)) (\<lambda>_.
      andThen (cleaning (recordActive env active) (cleanupResolvedInvocation env invocation)) (\<lambda>_.
      andThen (cleaning (askErr (pe_Dispatch env dispatch)) (andThen (ignoring (clearActive env (iv_ID invocation))) (\<lambda>_. release))) (\<lambda>_.
      andThen (cleaning (transitionInvocation env (iv_ID invocation) InvocationPrepared InvocationRunning) release) (\<lambda>_.
      finishStarted env (active\<lparr>ai_Invocation := invocation\<lparr>iv_Status := InvocationRunning\<rparr>\<rparr>)))))))))"

definition applyStartLike :: "'w PhaseEnv \<Rightarrow> PhaseCommand \<Rightarrow> ('w, unit) phase_op" where
  "applyStartLike env command =
     andThen (liftSum (phaseRole (ref_EndpointID (cmd_Endpoint command)))) (\<lambda>role.
     andThen (askSum (pe_Resolve env command)) (\<lambda>binding.
     andThen (cleaning (checkOp (validateBindingForCommand binding command)) (cleanupResolvedBinding env command role binding)) (\<lambda>_.
     andThen (cleaning (checkCheckpoint env command binding) (cleanupResolvedBinding env command role binding)) (\<lambda>_.
     andThen (ask (pe_now env)) (\<lambda>now.
     let invocation = newInvocation env command role binding now in
     andThen (cleaning (getInvocation env (iv_ID invocation)) (cleanupResolvedInvocation env invocation)) (\<lambda>found. case found of
       None \<Rightarrow> launch env command binding invocation False
     | Some existing \<Rightarrow>
         if iv_Status existing = InvocationRunning then finishStarted env (newActive existing command binding)
         else if iv_Status existing = InvocationCompleted then finishPersistedOutput env (newActive existing command binding)
         else if iv_Status existing \<noteq> InvocationPrepared then
           cleaning (failWith (kerr CodeRevisionConflict ''existing phase invocation is not running'' True))
             (cleanupResolvedInvocation env invocation)
         else launch env command binding existing True))))))"

section \<open>Stop\<close>

definition finishPersistedStop ::
  "'w PhaseEnv \<Rightarrow> ActiveInvocation \<Rightarrow> PhaseCommand \<Rightarrow> StopResult \<Rightarrow> ('w, unit) phase_op" where
  "finishPersistedStop env active command result =
     (let i = iv_ID (ai_Invocation active) in
      andThen (askErr (pe_Revoke env i)) (\<lambda>_.
      andThen (askErr (pe_End env (ai_Invocation active))) (\<lambda>_.
      andThen (transitionToStopped env i) (\<lambda>_.
      andThen (recordInvocationStopped env active command result) (\<lambda>_.
      andThen (clearActive env i) (\<lambda>_.
      forgetActive i (cmd_LeaseRef (ai_Command active))))))))"

definition recoverActiveByLease ::
  "'w PhaseEnv \<Rightarrow> PhaseCommand \<Rightarrow> BindingSnapshot \<Rightarrow> ('w, ActiveInvocation option) phase_op" where
  "recoverActiveByLease env command binding =
     (case pe_recovery env of
        None \<Rightarrow> ret None
      | Some recovery \<Rightarrow>
          andThen (askSum (rs_RecoverActiveInvocation recovery command binding)) (\<lambda>found. case found of
            None \<Rightarrow> ret None
          | Some recovered \<Rightarrow>
              andThen (checkOp (validateBindingForActive binding recovered)) (\<lambda>_.
              andThen (requireInvocation env (iv_ID (ai_Invocation recovered))) (\<lambda>invocation.
              let active = recovered\<lparr>ai_Invocation := invocation\<rparr> in
              if iv_Status invocation = InvocationCompleted \<or> iv_Status invocation = InvocationFailed then
                andThen (askErr (rs_ClearActiveInvocation recovery (iv_ID invocation))) (\<lambda>_. ret None)
              else if iv_Status invocation = InvocationStopped then ret (Some active)
              else
                andThen (writes (\<lambda>c. c\<lparr>co_active := mput (iv_ID invocation) active (co_active c),
                                      co_byLease := mput (cmd_LeaseRef command) (iv_ID invocation) (co_byLease c)\<rparr>)) (\<lambda>_.
                ret (Some active))))))"

definition stopAlreadyApplied :: "'w PhaseEnv \<Rightarrow> PhaseCommand \<Rightarrow> ('w, bool) phase_op" where
  "stopAlreadyApplied env command =
     andThen (ask (pe_ctx env)) (\<lambda>ctx. andThen (reads co_store) (\<lambda>store.
     andThen (liftSum (GetByLease ctx store (cmd_LeaseRef command))) (\<lambda>found. case found of
       None \<Rightarrow> ret False
     | Some invocation \<Rightarrow>
         if iv_BindingRef invocation \<noteq> cmd_BindingRef command \<or> iv_Generation invocation \<noteq> word_of_int (cmd_Generation command)
         then ret False
         else ret (iv_Status invocation = InvocationStopped))))"

text \<open>The active invocation of the lease; \<open>None\<close> is the early return of a stop that was applied before.\<close>

definition activeOrRecovered ::
  "'w PhaseEnv \<Rightarrow> PhaseCommand \<Rightarrow> BindingSnapshot \<Rightarrow> ('w, ActiveInvocation option) phase_op" where
  "activeOrRecovered env command binding =
     andThen (reads (activeByLease (cmd_LeaseRef command))) (\<lambda>known. case known of
       Inr active \<Rightarrow> ret (Some active)
     | Inl err \<Rightarrow>
         andThen (recoverActiveByLease env command binding) (\<lambda>recovered. case recovered of
           Some active \<Rightarrow> ret (Some active)
         | None \<Rightarrow>
             andThen (stopAlreadyApplied env command) (\<lambda>stopped. if stopped then ret None else failWith err)))"

definition stopActive ::
  "'w PhaseEnv \<Rightarrow> PhaseCommand \<Rightarrow> BindingSnapshot \<Rightarrow> ActiveInvocation \<Rightarrow> ('w, unit) phase_op" where
  "stopActive env command binding known =
     (let i = iv_ID (ai_Invocation known) in
      andThen (requireInvocation env i) (\<lambda>invocation.
      if iv_Status invocation = InvocationCompleted \<or> iv_Status invocation = InvocationFailed then
        andThen (clearActive env (iv_ID invocation)) (\<lambda>_.
        andThen (forgetActive (iv_ID invocation) (cmd_LeaseRef command)) (\<lambda>_.
        failWith (stale ''invocation already reached a terminal output state'')))
      else
        andThen (if iv_Status invocation = InvocationStopped then ret known
                 else andThen (reads (activeByLease (cmd_LeaseRef command))) liftSum) (\<lambda>refreshed.
        let active = refreshed\<lparr>ai_Invocation := invocation\<rparr> in
        case pe_recovery env of
          None \<Rightarrow> failWith (IncompleteStopEvidence ''stop evidence store is required'')
        | Some recovery \<Rightarrow>
            andThen (askSum (rs_GetStopEvidence recovery (iv_ID invocation) (cmd_ID command))) (\<lambda>existing. case existing of
              Some result \<Rightarrow>
                andThen (checkOp (validateStopResult result)) (\<lambda>_. finishPersistedStop env active command result)
            | None \<Rightarrow>
                andThen (askSum (pe_Stop env \<lparr>sr_Invocation = invocation, sr_Command = command, sr_Binding = binding\<rparr>)) (\<lambda>result.
                andThen (checkOp (validateStopResult result)) (\<lambda>_.
                andThen (askErr (rs_RecordStopEvidence recovery active command result)) (\<lambda>_.
                finishPersistedStop env active command result)))))))"

definition applyStop :: "'w PhaseEnv \<Rightarrow> PhaseCommand \<Rightarrow> ('w, unit) phase_op" where
  "applyStop env command =
     andThen (askSum (pe_Resolve env command)) (\<lambda>binding.
     andThen (checkOp (validateBindingForCommand binding command)) (\<lambda>_.
     andThen (activeOrRecovered env command binding) (\<lambda>found. case found of
       None \<Rightarrow> ret ()
     | Some active \<Rightarrow>
         if cmd_BindingRef (ai_Command active) \<noteq> cmd_BindingRef command \<or> cmd_Generation (ai_Command active) \<noteq> cmd_Generation command
         then failWith (stale ''stop command does not match active invocation'')
         else withTerminal (iv_ID (ai_Invocation active)) (stopActive env command binding active))))"

section \<open>Commands\<close>

text \<open>\<open>replayed\<close>, \<open>done\<close> and the recorded error; a command in flight makes a second delivery wait.\<close>

definition recordCommandStart :: "string \<Rightarrow> string \<Rightarrow> ('w, bool \<times> bool \<times> goerr option) phase_op" where
  "recordCommandStart i fingerprint s = (case s of (c, w) \<Rightarrow>
     (case mget (co_commands c) i of
        None \<Rightarrow> (Ok (False, False, None),
                 c\<lparr>co_commands := mput i \<lparr>pc_fingerprint = fingerprint, pc_inFlight = True, pc_done = False, pc_err = None\<rparr> (co_commands c)\<rparr>, w)
      | Some existing \<Rightarrow>
          if pc_fingerprint existing \<noteq> fingerprint then
            (Ok (True, True, Some (kerr CodeCommandConflict ''command id was reused with different payload'' False)), s)
          else if pc_inFlight existing then (Wait, s)
          else (Ok (True, pc_done existing, pc_err existing), s)))"

definition recordCommandFinish :: "string \<Rightarrow> goerr option \<Rightarrow> Controller \<Rightarrow> Controller" where
  "recordCommandFinish i err c =
     (let existing = (case mget (co_commands c) i of
            None \<Rightarrow> \<lparr>pc_fingerprint = '''', pc_inFlight = False, pc_done = False, pc_err = None\<rparr> | Some r \<Rightarrow> r);
          finished = existing\<lparr>pc_inFlight := False, pc_err := err\<rparr>
      in c\<lparr>co_commands := mput i (if err = None then finished\<lparr>pc_done := True\<rparr> else finished) (co_commands c)\<rparr>)"

definition applyAction :: "'w PhaseEnv \<Rightarrow> PhaseCommand \<Rightarrow> ('w, unit) phase_op" where
  "applyAction env command =
     (if cmd_Action command = CommandStart \<or> cmd_Action command = CommandResume then applyStartLike env command
      else if cmd_Action command = CommandStop then applyStop env command
      else failWith (InvalidArgument ''phase command action must be start, stop, or resume''))"

definition finishing :: "string \<Rightarrow> ('w, unit) phase_op \<Rightarrow> ('w, unit) phase_op" where
  "finishing i m s = (case m s of
     (Ok _, c, w) \<Rightarrow> (Ok (), recordCommandFinish i None c, w)
   | (Err e, c, w) \<Rightarrow> (Err e, recordCommandFinish i (Some e) c, w)
   | (Wait, t) \<Rightarrow> (Wait, t))"

definition Apply :: "'w PhaseEnv \<Rightarrow> PhaseCommand \<Rightarrow> ('w, unit) phase_op" where
  "Apply env command =
     andThen (checkOp (validateCommand command)) (\<lambda>_.
     andThen (liftSum (pe_commandHash env command)) (\<lambda>fingerprint.
     andThen (recordCommandStart (cmd_ID command) fingerprint) (\<lambda>(replayed, done, err).
     if replayed \<and> done then checkOp err
     else finishing (cmd_ID command) (applyAction env command))))"

section \<open>Inputs and context\<close>

definition rehydrate :: "'w PhaseEnv \<Rightarrow> ActiveInvocation \<Rightarrow> ('w, unit) phase_op" where
  "rehydrate env known =
     andThen (askSum (pe_Refresh env known)) (\<lambda>binding.
     andThen (checkOp (validateBindingForActive binding known)) (\<lambda>_.
     let active = known\<lparr>ai_Binding := binding\<rparr>;
         start = \<lparr>sp_InvocationID = iv_ID (ai_Invocation active), sp_Endpoint = cmd_Endpoint (ai_Command active),
                  sp_Generation = cmd_Generation (ai_Command active), sp_BindingRef = cmd_BindingRef (ai_Command active),
                  sp_Inputs = ai_Inputs active\<rparr> in
     andThen (liftSum (renderData env (ai_Invocation active) start binding)) (\<lambda>data.
     andThen (ask (pe_order env)) (\<lambda>order.
     andThen (liftSum (Assemble (pe_hash env) order (pe_catalog env) (ai_Invocation active) data)) (\<lambda>assembly.
     andThen (askErr (pe_Rehydrate env
       \<lparr>dr_Invocation = ay_Invocation assembly, dr_Capability = CapabilityOf (ay_Invocation assembly), dr_Prompt = ay_Prompt assembly,
        dr_Start = start, dr_Binding = binding, dr_CheckpointRef = bs_CheckpointRef binding\<rparr>)) (\<lambda>_.
     putActive (iv_ID (ai_Invocation active)) active))))))"

text \<open>
  \<open>AwaitInputs\<close> blocks in the input runtime, and other operations run meanwhile: \<open>beginAwait\<close> is the part
  before that call, \<open>endAwait\<close> the part after it.
\<close>

definition beginAwait :: "'w PhaseEnv \<Rightarrow> InvocationID \<Rightarrow> AwaitInputsRequest \<Rightarrow> ('w, ActiveInvocation) phase_op" where
  "beginAwait env i req =
     andThen (andThen (reads (activeInvocation i)) liftSum) (\<lambda>active.
     andThen (checkOp (validateAwaitRequest (ai_Inputs active) req)) (\<lambda>_.
     andThen (askErr (pe_Suspend env i)) (\<lambda>_.
     andThen (transitionToWaiting env i) (\<lambda>_. ret active))))"

definition endAwait :: "'w PhaseEnv \<Rightarrow> InvocationID \<Rightarrow> ActiveInvocation \<Rightarrow> InputWaitResult \<Rightarrow> ('w, InputWaitResult) phase_op" where
  "endAwait env i active result =
     (let updated = active\<lparr>ai_Inputs := mergeInputWaitResult (ai_Inputs active) result\<rparr> in
      andThen (putActive i updated) (\<lambda>_.
      andThen (if iw_TerminalReason result = '''' then
                 andThen (transitionInvocation env i InvocationWaiting InvocationRunning) (\<lambda>_. rehydrate env updated)
               else ret ()) (\<lambda>_.
      ret result)))"

definition AwaitInputs :: "'w PhaseEnv \<Rightarrow> InvocationID \<Rightarrow> AwaitInputsRequest \<Rightarrow> ('w, InputWaitResult) phase_op" where
  "AwaitInputs env i req =
     andThen (beginAwait env i req) (\<lambda>active.
     andThen (askSum (pe_AwaitInputs env active req)) (\<lambda>result. endAwait env i active result))"

definition OnInputsChanged :: "'w PhaseEnv \<Rightarrow> InvocationID \<Rightarrow> PhaseInputSet \<Rightarrow> ('w, unit) phase_op" where
  "OnInputsChanged env i inputs =
     andThen (andThen (reads (activeInvocation i)) liftSum) (\<lambda>known.
     let active = known\<lparr>ai_Inputs := inputs\<rparr> in
     andThen (putActive i active) (\<lambda>_. rehydrate env active))"

definition OnContextDelta :: "'w PhaseEnv \<Rightarrow> InvocationID \<Rightarrow> ('w, unit) phase_op" where
  "OnContextDelta env i = andThen (andThen (reads (activeInvocation i)) liftSum) (rehydrate env)"

section \<open>Outputs\<close>

fun routeAll :: "'w PhaseEnv \<Rightarrow> ActiveInvocation \<Rightarrow> string list \<Rightarrow> ('w, string list) phase_op" where
  "routeAll env active [] = ret []"
| "routeAll env active (ref # refs) =
     andThen (askSum (pe_Route env active ref)) (\<lambda>routed.
     andThen (routeAll env active refs) (\<lambda>rest. ret (routed # rest)))"

definition samePayload :: "OutputReceipt \<Rightarrow> string \<Rightarrow> bool" where
  "samePayload receipt fingerprint \<longleftrightarrow> or_OutputFingerprint receipt = '''' \<or> or_OutputFingerprint receipt = fingerprint"

definition pendingReceipt :: "OutputReceipt \<Rightarrow> string \<Rightarrow> ('w, OutputReceipt) phase_op" where
  "pendingReceipt receipt fingerprint =
     (if \<not> samePayload receipt fingerprint
      then failWith (kerr CodeIdempotencyConflict ''phase output payload differs from pending receipt'' False)
      else ret receipt)"

text \<open>
  The routed references are a new list in the receipt; that the loops write them into the slices of the
  caller as well is not modelled.
\<close>

definition pendingOrRouteReceipt :: "'w PhaseEnv \<Rightarrow> ActiveInvocation \<Rightarrow> PhaseOutput \<Rightarrow> ('w, OutputReceipt) phase_op" where
  "pendingOrRouteReceipt env active output =
     (let i = iv_ID (ai_Invocation active); command = ai_Command active in
      andThen (liftSum (pe_outputHash env output)) (\<lambda>fingerprint.
      andThen (reads (\<lambda>c. mget (co_pending c) i)) (\<lambda>known. case known of
        Some receipt \<Rightarrow> pendingReceipt receipt fingerprint
      | None \<Rightarrow>
          andThen (routeAll env active (po_DeliveryRefs output)) (\<lambda>deliveries.
          andThen (askSum (pe_Route env active (po_ReportRef output))) (\<lambda>report.
          andThen (routeAll env active (po_EvidenceRefs output)) (\<lambda>evidence.
          andThen (ask (pe_now env)) (\<lambda>now.
          let receipt = \<lparr>or_Output = output\<lparr>po_DeliveryRefs := deliveries, po_ReportRef := report, po_EvidenceRefs := evidence\<rparr>,
                         or_InvocationID = i, or_CommandID = cmd_ID command, or_CommandAction = cmd_Action command,
                         or_CauseRef = cmd_CauseRef command, or_Endpoint = cmd_Endpoint command,
                         or_Generation = cmd_Generation command, or_BindingRef = cmd_BindingRef command,
                         or_LeaseRef = cmd_LeaseRef command, or_InputRevision = in_InputRevision (ai_Inputs active),
                         or_WorkspaceRef = bs_WorkspaceRef (ai_Binding active),
                         or_WorkspaceHead = bs_WorkspaceRevision (ai_Binding active),
                         or_OutputFingerprint = fingerprint, or_SubmittedAtUTC = now\<rparr> in
          andThen (reads (\<lambda>c. mget (co_pending c) i)) (\<lambda>existing. case existing of
            Some other \<Rightarrow> pendingReceipt other fingerprint
          | None \<Rightarrow> andThen (writes (\<lambda>c. c\<lparr>co_pending := mput i receipt (co_pending c)\<rparr>)) (\<lambda>_. ret receipt)))))))))"

definition closeOutput :: "InvocationID \<Rightarrow> PhaseCommand \<Rightarrow> OutputReceipt \<Rightarrow> ('w, unit) phase_op" where
  "closeOutput i command receipt = writes (\<lambda>c. c\<lparr>co_receipts := mput i receipt (co_receipts c),
     co_pending := mdel i (co_pending c), co_byCommand := mput (cmd_ID command) i (co_byCommand c),
     co_active := mdel i (co_active c), co_byLease := mdel (cmd_LeaseRef command) (co_byLease c)\<rparr>)"

definition completedOutputReceipt :: "'w PhaseEnv \<Rightarrow> InvocationID \<Rightarrow> PhaseOutput \<Rightarrow> ('w, OutputReceipt) phase_op" where
  "completedOutputReceipt env i output =
     (case pe_recovery env of
        None \<Rightarrow> failWith (stale ''output recovery store is required'')
      | Some recovery \<Rightarrow>
          andThen (getInvocation env i) (\<lambda>found. case found of
            None \<Rightarrow> failWith (stale ''invocation is no longer active'')
          | Some invocation \<Rightarrow>
              if iv_Status invocation \<noteq> InvocationRunning \<and> iv_Status invocation \<noteq> InvocationCompleted
              then failWith (stale ''invocation is no longer active'')
              else
                andThen (askSum (rs_GetOutputReceipt recovery i '''')) (\<lambda>persisted. case persisted of
                  None \<Rightarrow> failWith (stale ''completed invocation has no persisted output receipt'')
                | Some receipt \<Rightarrow>
                    andThen (liftSum (pe_outputHash env output)) (\<lambda>fingerprint.
                    if \<not> samePayload receipt fingerprint
                    then failWith (kerr CodeIdempotencyConflict ''phase output payload differs from persisted receipt'' False)
                    else
                      andThen (liftSum (commandFromOutputReceipt receipt)) (\<lambda>command.
                      let active = \<lparr>ai_Invocation = invocation\<lparr>iv_Status := InvocationCompleted\<rparr>, ai_Command = command,
                            ai_Binding = zeroBinding\<lparr>bs_ProjectID := iv_ProjectID invocation, bs_ActorPrincipalID := iv_ActorPrincipalID invocation,
                              bs_TaskID := ref_TaskID (or_Endpoint receipt), bs_EndpointID := ref_EndpointID (or_Endpoint receipt),
                              bs_Generation := or_Generation receipt, bs_BindingRef := or_BindingRef receipt,
                              bs_LeaseRef := or_LeaseRef receipt, bs_WorkspaceRef := or_WorkspaceRef receipt,
                              bs_WorkspaceRevision := or_WorkspaceHead receipt\<rparr>,
                            ai_Inputs = zeroInputs, ai_Revoked = False\<rparr> in
                      andThen (if iv_Status invocation = InvocationRunning then
                                 andThen (askErr (pe_Fence env i)) (\<lambda>_.
                                 andThen (askErr (pe_Complete env invocation)) (\<lambda>_.
                                 transitionToCompleted env i))
                               else ret ()) (\<lambda>_.
                      andThen (recordOutputSubmitted env active) (\<lambda>_.
                      andThen (askErr (rs_ClearActiveInvocation recovery i)) (\<lambda>_.
                      andThen (closeOutput i command receipt) (\<lambda>_.
                      ret receipt)))))))))"

text \<open>The part of \<open>SubmitPhaseOutput\<close> under the terminal lock, for an invocation that is still active.\<close>

definition acceptOutput :: "'w PhaseEnv \<Rightarrow> InvocationID \<Rightarrow> ActiveInvocation \<Rightarrow> PhaseOutput \<Rightarrow> ('w, OutputReceipt) phase_op" where
  "acceptOutput env i known output =
     andThen (wrapping ''phase output binding refresh'' (askSum (pe_Refresh env known))) (\<lambda>refreshed.
     andThen (wrapping ''phase output binding validation'' (checkOp (validateBindingForActive refreshed known))) (\<lambda>_.
     let active = known\<lparr>ai_Binding := refreshed\<rparr> in
     andThen (wrapping ''phase output contract validation'' (checkOp (validatePhaseOutput active output))) (\<lambda>_.
     andThen (wrapping ''phase output artifact routing'' (pendingOrRouteReceipt env active output)) (\<lambda>receipt.
     andThen (wrapping ''phase output receipt persistence''
       (withRecovery env (\<lambda>recovery. askErr (rs_RecordOutputReceipt recovery active receipt)))) (\<lambda>_.
     andThen (wrapping ''phase output capability fencing'' (askErr (pe_Fence env i))) (\<lambda>_.
     andThen (wrapping ''phase output lifecycle completion'' (askErr (pe_Complete env (ai_Invocation active)))) (\<lambda>_.
     andThen (wrapping ''phase output invocation completion'' (transitionToCompleted env i)) (\<lambda>_.
     andThen (wrapping ''phase output observation persistence'' (recordOutputSubmitted env active)) (\<lambda>_.
     andThen (wrapping ''phase output recovery cleanup'' (clearActive env i)) (\<lambda>_.
     andThen (closeOutput i (ai_Command active) receipt) (\<lambda>_.
     ret receipt)))))))))))"

definition orCompleted ::
  "'w PhaseEnv \<Rightarrow> InvocationID \<Rightarrow> PhaseOutput \<Rightarrow> (ActiveInvocation \<Rightarrow> ('w, OutputReceipt) phase_op) \<Rightarrow> ('w, OutputReceipt) phase_op" where
  "orCompleted env i output k =
     andThen (reads (activeInvocation i)) (\<lambda>known. case known of
       Inr active \<Rightarrow> k active
     | Inl err \<Rightarrow> if IsCode (Some err) CodeStaleCommand then completedOutputReceipt env i output else failWith err)"

definition SubmitPhaseOutput :: "'w PhaseEnv \<Rightarrow> InvocationID \<Rightarrow> PhaseOutput \<Rightarrow> ('w, OutputReceipt) phase_op" where
  "SubmitPhaseOutput env i output =
     orCompleted env i output (\<lambda>_. withTerminal i (orCompleted env i output (\<lambda>active. acceptOutput env i active output)))"

definition Output :: "'w PhaseEnv \<Rightarrow> InvocationID \<Rightarrow> ('w, OutputReceipt option) phase_op" where
  "Output env i = andThen (askErr (pe_ctx env)) (\<lambda>_. reads (\<lambda>c. mget (co_receipts c) i))"

definition OutputByCommand :: "'w PhaseEnv \<Rightarrow> string \<Rightarrow> ('w, OutputReceipt option) phase_op" where
  "OutputByCommand env commandID = andThen (askErr (pe_ctx env)) (\<lambda>_. reads (\<lambda>c.
     case mget (co_byCommand c) commandID of None \<Rightarrow> None | Some i \<Rightarrow> mget (co_receipts c) i))"

section \<open>Failure\<close>

text \<open>
  \<open>FailInvocation\<close> and \<open>AbandonInvocation\<close> are the same text but for two words of their messages and the
  observation, which only the first records.
\<close>

definition closeInvocation :: "'w PhaseEnv \<Rightarrow> string \<Rightarrow> string \<Rightarrow> bool \<Rightarrow> PhaseCommand \<Rightarrow> ('w, unit) phase_op" where
  "closeInvocation env what eligible report command =
     andThen (checkOp (first_err
       [validateCommand command,
        fail_if (cmd_Action command \<noteq> CommandStart \<and> cmd_Action command \<noteq> CommandResume)
          (stale (what @ '' invocation requires start or resume command''))])) (\<lambda>_.
     let i = deterministicInvocationID env (cmd_ID command) in
     withTerminal i (
       andThen (getInvocation env i) (\<lambda>found. case found of
         None \<Rightarrow> failWith (kerr CodeNotFound ''phase invocation not found'' False)
       | Some invocation \<Rightarrow>
           andThen (checkOp (first_err
             [fail_if (iv_TaskID invocation \<noteq> ref_TaskID (cmd_Endpoint command) \<or> iv_EndpointID invocation \<noteq> ref_EndpointID (cmd_Endpoint command)
                 \<or> iv_Generation invocation \<noteq> word_of_int (cmd_Generation command) \<or> iv_BindingRef invocation \<noteq> cmd_BindingRef command
                 \<or> iv_LeaseID invocation \<noteq> cmd_LeaseRef command)
                (stale (what @ '' invocation command does not match persisted invocation'')),
              fail_if (iv_Status invocation = InvocationCompleted \<or> iv_Status invocation = InvocationStopped)
                (stale ''phase invocation already reached a different terminal state''),
              fail_if (iv_Status invocation \<notin> {InvocationPrepared, InvocationRunning, InvocationWaiting, InvocationFailed})
                (stale (''phase invocation is not '' @ eligible @ ''-eligible''))])) (\<lambda>_.
           andThen (askErr (pe_Revoke env i)) (\<lambda>_.
           andThen (askErr (pe_End env invocation)) (\<lambda>_.
           andThen (transitionToFailed env i) (\<lambda>_.
           andThen (if report then recordInvocationFailed env (iv_ProjectID invocation) command else ret ()) (\<lambda>_.
           andThen (clearActive env i) (\<lambda>_.
           forgetActive i (cmd_LeaseRef command)))))))))) "

definition FailInvocation :: "'w PhaseEnv \<Rightarrow> PhaseCommand \<Rightarrow> ('w, unit) phase_op" where
  "FailInvocation env command = closeInvocation env ''failed'' ''failure'' True command"

definition AbandonInvocation :: "'w PhaseEnv \<Rightarrow> PhaseCommand \<Rightarrow> ('w, unit) phase_op" where
  "AbandonInvocation env command = closeInvocation env ''abandoned'' ''abandonment'' False command"

section \<open>Orchestration intents\<close>

text \<open>\<open>proposal.go\<close>\<close>

record OrchestrationIntent =
  oi_OrchestrationAdvice :: string
  oi_DeliverySpecAdvice :: string
  oi_ReportSpecAdvice :: string
  oi_Rationale :: string
  oi_EvidenceRefs :: "string list"

definition ValidateOrchestrationIntent :: "OrchestrationIntent \<Rightarrow> goerr option" where
  "ValidateOrchestrationIntent intent = first_err
     [fail_if (oi_OrchestrationAdvice intent \<notin> {''split'', ''dependency'', ''replan'', ''retry'', ''serial_parallel''})
        (InvalidArgument ''orchestration_advice must be split, dependency, replan, retry, or serial_parallel''),
      fail_if (blank (oi_Rationale intent)) (InvalidArgument ''rationale is required''),
      fail_if (blank (oi_DeliverySpecAdvice intent)) (InvalidArgument ''delivery_spec_advice is required''),
      fail_if (blank (oi_ReportSpecAdvice intent)) (InvalidArgument ''report_spec_advice is required'')]"

end
