(* ===== verification/Phase_Inv.thy ===== *)
theory Phase_Inv
  imports Phase_Controller Coordination
begin

text \<open>
  The controller's invariant and a calculus of weakest preconditions to prove it. \<open>wp m Q E c\<close> says that
  from the controller \<open>c\<close>, whatever the collaborators answer, \<open>m\<close> ends in \<open>Q\<close> with a result and in \<open>E\<close> with an
  error or waiting. \<open>phase_ok\<close> is what every operation keeps: the invocation store only evolves along the
  status machine, active invocations are kept under their own identifier, receipts belong to completed
  invocations, and, as far as the recovery store keeps \<open>recovery_laws\<close>, an active invocation with a
  start or resume command is the one of that command and the outcomes reported to the graph are those
  of the invocations. The first three parts hold whatever a recovery store answers.
\<close>

named_theorems wp_rules \<open>weakest preconditions\<close>

section \<open>Weakest preconditions\<close>

definition ends :: "('a \<Rightarrow> Controller \<Rightarrow> bool) \<Rightarrow> (Controller \<Rightarrow> bool) \<Rightarrow> 'a outcome \<times> Controller \<times> 'w \<Rightarrow> bool" where
  "ends Q E res \<longleftrightarrow> (case res of (r, c, _) \<Rightarrow> (case r of Ok x \<Rightarrow> Q x c | Err _ \<Rightarrow> E c | Wait \<Rightarrow> E c))"

definition wp :: "('w, 'a) phase_op \<Rightarrow> ('a \<Rightarrow> Controller \<Rightarrow> bool) \<Rightarrow> (Controller \<Rightarrow> bool) \<Rightarrow> Controller \<Rightarrow> bool" where
  "wp m Q E c \<longleftrightarrow> (\<forall>w. ends Q E (m (c, w)))"

lemma ends_simps [simp]:
  "ends Q E (Ok x, c, w) = Q x c" "ends Q E (Err e, c, w) = E c" "ends Q E (Wait, c, w) = E c"
  by (simp_all add: ends_def)

lemma wpD: "wp m Q E c \<Longrightarrow> ends Q E (m (c, w))"
  by (simp add: wp_def)

lemma wpI:
  assumes "\<And>w x c' w'. m (c, w) = (Ok x, c', w') \<Longrightarrow> Q x c'" "\<And>w e c' w'. m (c, w) = (Err e, c', w') \<Longrightarrow> E c'"
    "\<And>w c' w'. m (c, w) = (Wait, c', w') \<Longrightarrow> E c'"
  shows "wp m Q E c"
  unfolding wp_def
proof
  fix w
  obtain r c' w' where run: "m (c, w) = (r, c', w')" by (cases "m (c, w)")
  show "ends Q E (m (c, w))"
    by (cases r) (use assms[of w] run in auto)
qed

lemma wp_mono:
  assumes "wp m Q E c" "\<And>x c. Q x c \<Longrightarrow> Q' x c" "\<And>c. E c \<Longrightarrow> E' c"
  shows "wp m Q' E' c"
proof (rule wpI)
  fix w x c' w'
  assume "m (c, w) = (Ok x, c', w')"
  then show "Q' x c'" using wpD[OF assms(1), of w] assms(2) by simp
next
  fix w e c' w'
  assume "m (c, w) = (Err e, c', w')"
  then show "E' c'" using wpD[OF assms(1), of w] assms(3) by simp
next
  fix w c' w'
  assume "m (c, w) = (Wait, c', w')"
  then show "E' c'" using wpD[OF assms(1), of w] assms(3) by simp
qed

text \<open>A combinator that runs \<open>m\<close> first is handled by its effect on each outcome of \<open>m\<close>.\<close>

lemma wp_first:
  assumes "wp m Q E c"
    and "\<And>w x c' w'. m (c, w) = (Ok x, c', w') \<Longrightarrow> Q x c' \<Longrightarrow> ends Q' E' (m' (c, w))"
    and "\<And>w e c' w'. m (c, w) = (Err e, c', w') \<Longrightarrow> E c' \<Longrightarrow> ends Q' E' (m' (c, w))"
    and "\<And>w c' w'. m (c, w) = (Wait, c', w') \<Longrightarrow> E c' \<Longrightarrow> ends Q' E' (m' (c, w))"
  shows "wp m' Q' E' c"
  unfolding wp_def
proof
  fix w
  obtain r c' w' where run: "m (c, w) = (r, c', w')" by (cases "m (c, w)")
  show "ends Q' E' (m' (c, w))"
    by (cases r) (use wpD[OF assms(1), of w] assms(2-4)[of w] run in auto)
qed

lemma wp_ret [wp_rules]: "Q x c \<Longrightarrow> wp (ret x) Q E c"
  by (simp add: wp_def ret_def)

lemma wp_failWith [wp_rules]: "E c \<Longrightarrow> wp (failWith e) Q E c"
  by (simp add: wp_def failWith_def)

lemma wp_andThen [wp_rules]: "wp m (\<lambda>x. wp (k x) Q E) E c \<Longrightarrow> wp (andThen m k) Q E c"
  by (erule wp_first) (auto simp: andThen_def dest: wpD)

lemma wp_checkOp [wp_rules]: "(chk = None \<Longrightarrow> Q () c) \<Longrightarrow> E c \<Longrightarrow> wp (checkOp chk) Q E c"
  by (cases chk) (simp_all add: checkOp_def wp_ret wp_failWith)

lemma wp_liftSum [wp_rules]: "(\<And>x. r = Inr x \<Longrightarrow> Q x c) \<Longrightarrow> E c \<Longrightarrow> wp (liftSum r) Q E c"
  by (cases r) (simp_all add: liftSum_def wp_ret wp_failWith)

lemma wp_ask: "(\<And>x w w'. f w = (x, w') \<Longrightarrow> Q x c) \<Longrightarrow> wp (ask f) Q E c"
  by (auto simp: wp_def ask_def split: prod.splits)

lemma wp_ask_any [wp_rules]: "(\<And>x. Q x c) \<Longrightarrow> wp (ask f) Q E c"
  by (rule wp_ask)

lemma wp_askSum_answer: "(\<And>x w w'. f w = (Inr x, w') \<Longrightarrow> Q x c) \<Longrightarrow> E c \<Longrightarrow> wp (askSum f) Q E c"
  unfolding askSum_def by (intro wp_andThen wp_ask wp_liftSum) auto

lemma wp_askSum [wp_rules]: "(\<And>x. Q x c) \<Longrightarrow> E c \<Longrightarrow> wp (askSum f) Q E c"
  by (rule wp_askSum_answer)

lemma wp_askErr [wp_rules]: "Q () c \<Longrightarrow> E c \<Longrightarrow> wp (askErr f) Q E c"
  unfolding askErr_def by (intro wp_andThen wp_ask wp_checkOp)

lemma wp_reads [wp_rules]: "Q (f c) c \<Longrightarrow> wp (reads f) Q E c"
  by (simp add: wp_def reads_def)

lemma wp_writes [wp_rules]: "Q () (f c) \<Longrightarrow> wp (writes f) Q E c"
  by (simp add: wp_def writes_def)

lemma wp_ignoring [wp_rules]: "wp m (\<lambda>_. Q ()) (\<lambda>c. Q () c \<and> E c) c \<Longrightarrow> wp (ignoring m) Q E c"
  by (erule wp_first) (auto simp: ignoring_def)

lemma wp_cleaning [wp_rules]: "wp m Q (\<lambda>c. E c \<and> wp g (\<lambda>_. E) E c) c \<Longrightarrow> wp (cleaning m g) Q E c"
proof (erule wp_first)
  fix w e c' w'
  assume "m (c, w) = (Err e, c', w')" "E c' \<and> wp g (\<lambda>_. E) E c'"
  moreover obtain r d v where "g (c', w') = (r, d, v)" by (cases "g (c', w')")
  ultimately show "ends Q E (cleaning m g (c, w))"
    using wpD[of g "\<lambda>_. E" E c' w'] by (cases r) (auto simp: cleaning_def)
qed (auto simp: cleaning_def)

lemma wp_wrapping [wp_rules]: "wp m Q E c \<Longrightarrow> wp (wrapping message m) Q E c"
  by (erule wp_first) (auto simp: wrapping_def)

lemma wp_withTerminal [wp_rules]:
  assumes "E c" "wp m (\<lambda>x c. Q x (c\<lparr>co_termLocks := mdel i (co_termLocks c)\<rparr>)) (\<lambda>c. E (c\<lparr>co_termLocks := mdel i (co_termLocks c)\<rparr>))
     (c\<lparr>co_termLocks := mput i True (co_termLocks c)\<rparr>)"
  shows "wp (withTerminal i m) Q E c"
  unfolding wp_def
proof
  fix w
  let ?c = "c\<lparr>co_termLocks := mput i True (co_termLocks c)\<rparr>"
  obtain r d v where run: "m (?c, w) = (r, d, v)" by (cases "m (?c, w)")
  show "ends Q E (withTerminal i m (c, w))"
    using wpD[OF assms(2), of w] assms(1) run by (cases r) (auto simp: withTerminal_def)
qed

lemma wp_withRecovery [wp_rules]:
  "(\<And>recovery. pe_recovery env = Some recovery \<Longrightarrow> wp (f recovery) Q E c) \<Longrightarrow> Q () c \<Longrightarrow> wp (withRecovery env f) Q E c"
  by (cases "pe_recovery env") (simp_all add: withRecovery_def wp_ret)

lemma wp_clearActive [wp_rules]: "Q () c \<Longrightarrow> E c \<Longrightarrow> wp (clearActive env i) Q E c"
  unfolding clearActive_def by (intro wp_rules)

lemma wp_recordActive [wp_rules]: "Q () c \<Longrightarrow> E c \<Longrightarrow> wp (recordActive env a) Q E c"
  unfolding recordActive_def by (intro wp_rules)

lemma wp_getInvocation [wp_rules]:
  "Q (mget (is_invocations (co_store c)) i) c \<Longrightarrow> E c \<Longrightarrow> wp (getInvocation env i) Q E c"
  unfolding getInvocation_def by (intro wp_rules) (auto simp: GetInvocation_def checked_def split: option.splits)

lemma wp_requireInvocation [wp_rules]:
  "(\<And>v. mget (is_invocations (co_store c)) i = Some v \<Longrightarrow> Q v c) \<Longrightarrow> E c \<Longrightarrow> wp (requireInvocation env i) Q E c"
  unfolding requireInvocation_def by (intro wp_rules) (auto split: option.splits intro: wp_rules)

lemma wp_if [wp_rules]: "(b \<Longrightarrow> wp m Q E c) \<Longrightarrow> (\<not> b \<Longrightarrow> wp n Q E c) \<Longrightarrow> wp (if b then m else n) Q E c"
  by simp

lemma wp_option [wp_rules]:
  "(x = None \<Longrightarrow> wp m Q E c) \<Longrightarrow> (\<And>y. x = Some y \<Longrightarrow> wp (n y) Q E c) \<Longrightarrow> wp (case x of None \<Rightarrow> m | Some y \<Rightarrow> n y) Q E c"
  by (cases x) auto

lemma wp_sum [wp_rules]:
  "(\<And>e. x = Inl e \<Longrightarrow> wp (m e) Q E c) \<Longrightarrow> (\<And>y. x = Inr y \<Longrightarrow> wp (n y) Q E c) \<Longrightarrow> wp (case x of Inl e \<Rightarrow> m e | Inr y \<Rightarrow> n y) Q E c"
  by (cases x) auto

section \<open>The invariant\<close>

text \<open>The observations of a project.\<close>

definition observed :: "MemoryStore \<Rightarrow> ProjectID \<Rightarrow> phaseObservation list" where
  "observed graph p = rt_observations (pj_runtime (ensureProject graph p))"

text \<open>The commands that run a phase.\<close>

definition run_command :: "PhaseCommand \<Rightarrow> bool" where
  "run_command command \<longleftrightarrow> cmd_Action command = CommandStart \<or> cmd_Action command = CommandResume"

text \<open>
  What the controller relies on in a recovery store. An invocation that is recovered carries the command
  the store was asked with, as \<open>PostgresRecoveryStore.RecoverActiveInvocation\<close> answers (it gives the stop
  command back), or the command of its run. A receipt that is returned for an invocation and names a
  start or resume command names the command of that run; a receipt taken under a stop command, which
  the Postgres store may hold for a recovered invocation, is not constrained.
\<close>

definition recovery_laws :: "'w PhaseEnv \<Rightarrow> bool" where
  "recovery_laws env \<longleftrightarrow> (\<forall>recovery. pe_recovery env = Some recovery \<longrightarrow>
     (\<forall>command binding w a w'. rs_RecoverActiveInvocation recovery command binding w = (Inr (Some a), w') \<longrightarrow>
        ai_Command a = command \<or> deterministicInvocationID env (cmd_ID (ai_Command a)) = iv_ID (ai_Invocation a))
   \<and> (\<forall>i commandID w r w'. rs_GetOutputReceipt recovery i commandID w = (Inr (Some r), w') \<and> or_CommandAction r \<in> {CommandStart, CommandResume} \<longrightarrow>
        deterministicInvocationID env (or_CommandID r) = i))"

lemma recoveryD:
  assumes "recovery_laws env" "pe_recovery env = Some recovery"
  shows "rs_RecoverActiveInvocation recovery command binding w = (Inr (Some a), w') \<Longrightarrow>
      ai_Command a = command \<or> deterministicInvocationID env (cmd_ID (ai_Command a)) = iv_ID (ai_Invocation a)"
    and "rs_GetOutputReceipt recovery i commandID w = (Inr (Some r), w') \<Longrightarrow> or_CommandAction r \<in> {CommandStart, CommandResume} \<Longrightarrow>
      deterministicInvocationID env (or_CommandID r) = i"
  using assms unfolding recovery_laws_def by blast+

text \<open>The command may run the invocation \<open>i\<close>: it is the command of \<open>i\<close>, or a stop command.\<close>

definition runs :: "'w PhaseEnv \<Rightarrow> InvocationID \<Rightarrow> PhaseCommand \<Rightarrow> bool" where
  "runs env i command \<longleftrightarrow> (recovery_laws env \<and> run_command command \<longrightarrow> deterministicInvocationID env (cmd_ID command) = i)"

definition active_ok :: "'w PhaseEnv \<Rightarrow> InvocationID \<Rightarrow> ActiveInvocation \<Rightarrow> bool" where
  "active_ok env i a \<longleftrightarrow> iv_ID (ai_Invocation a) = i \<and> runs env i (ai_Command a)"

definition actives_ok :: "'w PhaseEnv \<Rightarrow> (InvocationID, ActiveInvocation) gomap \<Rightarrow> bool" where
  "actives_ok env m \<longleftrightarrow> (\<forall>i a. mget m i = Some a \<longrightarrow> active_ok env i a)"

definition receipts_ok :: "MemoryInvocationStore \<Rightarrow> (InvocationID, OutputReceipt) gomap \<Rightarrow> bool" where
  "receipts_ok store m \<longleftrightarrow> (\<forall>i r. mget m i = Some r \<longrightarrow> status_of store i = Some InvocationCompleted)"

text \<open>An outcome in the graph is the outcome of the invocation of its command.\<close>

definition outcome_ok :: "'w PhaseEnv \<Rightarrow> MemoryInvocationStore \<Rightarrow> phaseObservation \<Rightarrow> bool" where
  "outcome_ok env store ob \<longleftrightarrow>
     (ob_Kind ob = phaseObservationOutput \<longrightarrow>
        status_of store (deterministicInvocationID env (ob_CommandID ob)) = Some InvocationCompleted)
   \<and> (ob_Kind ob = phaseObservationFailed \<longrightarrow>
        status_of store (deterministicInvocationID env (ob_CommandID ob)) = Some InvocationFailed)"

definition outcomes_ok :: "'w PhaseEnv \<Rightarrow> MemoryInvocationStore \<Rightarrow> MemoryStore \<Rightarrow> bool" where
  "outcomes_ok env store graph \<longleftrightarrow> (recovery_laws env \<longrightarrow> (\<forall>p. \<forall>ob \<in> set (observed graph p). outcome_ok env store ob))"

definition phase_inv :: "'w PhaseEnv \<Rightarrow> Controller \<Rightarrow> bool" where
  "phase_inv env c \<longleftrightarrow> mkeyed iv_ID (is_invocations (co_store c)) \<and> actives_ok env (co_active c)
     \<and> receipts_ok (co_store c) (co_receipts c) \<and> outcomes_ok env (co_store c) (co_graph c)"

text \<open>The invariant, and the way from an earlier store.\<close>

definition phase_ok :: "'w PhaseEnv \<Rightarrow> MemoryInvocationStore \<Rightarrow> Controller \<Rightarrow> bool" where
  "phase_ok env store0 c \<longleftrightarrow> phase_inv env c \<and> store_evolves store0 (co_store c)"

lemmas phase_parts = phase_ok_def phase_inv_def

lemma actives_ok_put [intro]: "actives_ok env m \<Longrightarrow> active_ok env i a \<Longrightarrow> actives_ok env (mput i a m)"
  by (auto simp: actives_ok_def gomap_simps)

lemma actives_ok_del [intro]: "actives_ok env m \<Longrightarrow> actives_ok env (mdel i m)"
  by (auto simp: actives_ok_def gomap_simps split: if_splits)

lemma receipts_ok_put [intro]:
  "receipts_ok store m \<Longrightarrow> status_of store i = Some InvocationCompleted \<Longrightarrow> receipts_ok store (mput i r m)"
  by (auto simp: receipts_ok_def gomap_simps)

lemma receipts_ok_evolves: "receipts_ok store m \<Longrightarrow> store_evolves store store' \<Longrightarrow> receipts_ok store' m"
  unfolding receipts_ok_def using status_of_terminal terminal_statuses(1) by blast

lemma outcome_ok_evolves: "outcome_ok env store ob \<Longrightarrow> store_evolves store store' \<Longrightarrow> outcome_ok env store' ob"
  unfolding outcome_ok_def using status_of_terminal terminal_statuses(1,2) by blast

lemma outcomes_ok_evolves: "outcomes_ok env store g \<Longrightarrow> store_evolves store store' \<Longrightarrow> outcomes_ok env store' g"
  unfolding outcomes_ok_def using outcome_ok_evolves by blast

lemma phase_ok_sound: "phase_ok env store0 c \<Longrightarrow> sound_store store0 (co_store c)"
  by (simp add: phase_parts sound_store_def)

lemma phase_ok_store:
  assumes "phase_ok env store0 c" "store_evolves (co_store c) store \<and> sound_store store0 store"
  shows "phase_ok env store0 (c\<lparr>co_store := store\<rparr>)"
  using assms by (auto simp: phase_parts sound_store_def intro: receipts_ok_evolves outcomes_ok_evolves)

text \<open>An observation that is added leaves the others in place.\<close>

lemma observed_append:
  assumes "appendPhaseObservation ctx g p command kind checkpointRef nonResumable = (r, g')" "ob \<in> set (observed g' q)"
  shows "ob \<in> set (observed g q) \<or> ob_Kind ob = kind \<and> ob_CommandID ob = cmd_ID command
     \<and> validatePhaseObservationCommand kind command checkpointRef nonResumable = None"
  using assms
  by (auto simp: appendPhaseObservation_def newPhaseObservation_def checked_def appendObservation_def lockedProject_def
      appendObservationLocked_def observed_def Let_def split: option.splits if_splits sum.splits)

text \<open>An output or a failure is recorded for a start or resume command only.\<close>

lemma observed_run:
  "validatePhaseObservationCommand kind command checkpointRef nonResumable = None \<Longrightarrow>
   kind \<in> {phaseObservationOutput, phaseObservationFailed} \<Longrightarrow> run_command command"
  by (auto simp: validatePhaseObservationCommand_def run_command_def Let_def first_err_None fail_if_def split: if_splits)

lemma outcomes_ok_append:
  assumes "outcomes_ok env store g" "appendPhaseObservation ctx g p command kind checkpointRef nonResumable = (r, g')"
    and "\<And>ob. recovery_laws env \<Longrightarrow> ob_Kind ob = kind \<Longrightarrow> ob_CommandID ob = cmd_ID command \<Longrightarrow>
       (kind \<in> {phaseObservationOutput, phaseObservationFailed} \<Longrightarrow> run_command command) \<Longrightarrow> outcome_ok env store ob"
  shows "outcomes_ok env store g'"
  using assms(1,3) observed_append[OF assms(2)] observed_run unfolding outcomes_ok_def by metis

section \<open>Access to the stores\<close>

lemma wp_createInvocation:
  assumes "phase_ok env store0 c" "\<And>store. phase_ok env store0 (c\<lparr>co_store := store\<rparr>) \<Longrightarrow> Q () (c\<lparr>co_store := store\<rparr>)"
  shows "wp (createInvocation env v) Q (phase_ok env store0) c"
  unfolding createInvocation_def
proof (intro wp_rules)
  fix ctx
  obtain err store where run: "CreateInvocation (pe_digest env) ctx (co_store c) v = (err, store)" by fastforce
  have "phase_ok env store0 (c\<lparr>co_store := store\<rparr>)"
    by (rule phase_ok_store[OF assms(1) memory_invocations.create_sound[OF phase_ok_sound[OF assms(1)] run]])
  with run assms(2) show "wp (case CreateInvocation (pe_digest env) ctx (co_store c) v of
      (err, store') \<Rightarrow> andThen (writes (\<lambda>c. c\<lparr>co_store := store'\<rparr>)) (\<lambda>_. checkOp err)) Q (phase_ok env store0) c"
    by (auto intro!: wp_rules)
qed

lemma wp_transitionInvocation:
  assumes "phase_ok env store0 c"
    and "\<And>store. phase_ok env store0 (c\<lparr>co_store := store\<rparr>) \<Longrightarrow> status_of store i = Some to \<Longrightarrow> Q () (c\<lparr>co_store := store\<rparr>)"
  shows "wp (transitionInvocation env i from to) Q (phase_ok env store0) c"
  unfolding transitionInvocation_def
proof (intro wp_rules)
  fix ctx
  obtain err store where run: "TransitionInvocation ctx (co_store c) i from to = (err, store)" by fastforce
  have ok: "phase_ok env store0 (c\<lparr>co_store := store\<rparr>)"
    by (rule phase_ok_store[OF assms(1) memory_invocations.transition_sound[OF phase_ok_sound[OF assms(1)] run]])
  have "status_of store i = Some to" if "err = None"
    using memory_invocations.transition_status run that by simp
  with ok run assms(2) show "wp (case TransitionInvocation ctx (co_store c) i from to of
      (err, store') \<Rightarrow> andThen (writes (\<lambda>c. c\<lparr>co_store := store'\<rparr>)) (\<lambda>_. checkOp err)) Q (phase_ok env store0) c"
    by (auto intro!: wp_rules)
qed

text \<open>The four guarded changes end in the status they are named after.\<close>

lemma wp_transitionTo:
  assumes "phase_ok env store0 c"
    and "\<And>store. phase_ok env store0 (c\<lparr>co_store := store\<rparr>) \<Longrightarrow> status_of store i = Some to \<Longrightarrow> Q () (c\<lparr>co_store := store\<rparr>)"
  shows "to = InvocationWaiting \<Longrightarrow> wp (transitionToWaiting env i) Q (phase_ok env store0) c"
    and "to = InvocationCompleted \<Longrightarrow> wp (transitionToCompleted env i) Q (phase_ok env store0) c"
    and "to = InvocationStopped \<Longrightarrow> wp (transitionToStopped env i) Q (phase_ok env store0) c"
    and "to = InvocationFailed \<Longrightarrow> wp (transitionToFailed env i) Q (phase_ok env store0) c"
proof -
  have same: "Q () c" if "mget (is_invocations (co_store c)) i = Some v" "iv_Status v = to" for v
    using assms(2)[of "co_store c"] assms(1) that by (simp add: status_of_def)
  note steps = wp_andThen wp_requireInvocation wp_if wp_ret wp_failWith wp_transitionInvocation
  show "to = InvocationWaiting \<Longrightarrow> wp (transitionToWaiting env i) Q (phase_ok env store0) c"
    unfolding transitionToWaiting_def using assms same by (auto intro!: steps)
  show "to = InvocationCompleted \<Longrightarrow> wp (transitionToCompleted env i) Q (phase_ok env store0) c"
    unfolding transitionToCompleted_def using assms same by (auto intro!: steps)
  show "to = InvocationStopped \<Longrightarrow> wp (transitionToStopped env i) Q (phase_ok env store0) c"
    unfolding transitionToStopped_def using assms same by (auto intro!: steps)
  show "to = InvocationFailed \<Longrightarrow> wp (transitionToFailed env i) Q (phase_ok env store0) c"
    unfolding transitionToFailed_def using assms same by (auto intro!: steps)
qed

lemmas wp_toWaiting = wp_transitionTo(1)[OF _ _ refl]
lemmas wp_toCompleted = wp_transitionTo(2)[OF _ _ refl]
lemmas wp_toStopped = wp_transitionTo(3)[OF _ _ refl]
lemmas wp_toFailed = wp_transitionTo(4)[OF _ _ refl]

text \<open>An observation of \<open>kind\<close> for a command whose invocation allows it.\<close>

lemma wp_observing:
  assumes "phase_ok env store0 c"
    and "\<And>ctx g r g'. f ctx g = (r, g') \<Longrightarrow> \<exists>p checkpointRef nonResumable.
       appendPhaseObservation ctx g p command kind checkpointRef nonResumable = (r, g')"
    and "\<And>ob. recovery_laws env \<Longrightarrow> ob_Kind ob = kind \<Longrightarrow> ob_CommandID ob = cmd_ID command \<Longrightarrow>
       (kind \<in> {phaseObservationOutput, phaseObservationFailed} \<Longrightarrow> run_command command) \<Longrightarrow> outcome_ok env (co_store c) ob"
    and "\<And>g. phase_ok env store0 (c\<lparr>co_graph := g\<rparr>) \<Longrightarrow> Q () (c\<lparr>co_graph := g\<rparr>)"
  shows "wp (observing env f) Q (phase_ok env store0) c"
proof -
  have "phase_ok env store0 (c\<lparr>co_graph := g'\<rparr>)" if run: "f ctx (co_graph c) = (r, g')" for ctx r g'
    using assms(1) assms(2)[OF run] outcomes_ok_append[OF _ _ assms(3)] by (auto simp: phase_parts)
  then have "wp (case f ctx (co_graph c) of (err, graph') \<Rightarrow> andThen (writes (\<lambda>c. c\<lparr>co_graph := graph'\<rparr>)) (\<lambda>_. checkOp err))
      Q (phase_ok env store0) c" for ctx
    using assms(4) by (cases "f ctx (co_graph c)") (auto intro!: wp_rules)
  then show ?thesis
    unfolding observing_def using assms(1) assms(4)[of "co_graph c"] by (intro wp_rules) simp_all
qed

lemma wp_recordStarted:
  assumes "phase_ok env store0 c" "\<And>g. phase_ok env store0 (c\<lparr>co_graph := g\<rparr>) \<Longrightarrow> Q () (c\<lparr>co_graph := g\<rparr>)"
  shows "wp (recordInvocationStarted env active) Q (phase_ok env store0) c"
  unfolding recordInvocationStarted_def
  by (rule wp_observing[where kind = phaseObservationStarted and command = "ai_Command active"])
     (auto simp: assms RecordPhaseInvocationStarted_def outcome_ok_def)

lemma wp_recordStopped:
  assumes "phase_ok env store0 c" "\<And>g. phase_ok env store0 (c\<lparr>co_graph := g\<rparr>) \<Longrightarrow> Q () (c\<lparr>co_graph := g\<rparr>)"
  shows "wp (recordInvocationStopped env active command result) Q (phase_ok env store0) c"
  unfolding recordInvocationStopped_def
  by (rule wp_observing[where kind = phaseObservationStopped and command = command])
     (auto simp: assms RecordPhaseInvocationStopped_def outcome_ok_def)

lemma wp_recordOutput:
  assumes "phase_ok env store0 c" "\<And>g. phase_ok env store0 (c\<lparr>co_graph := g\<rparr>) \<Longrightarrow> Q () (c\<lparr>co_graph := g\<rparr>)"
    and "runs env i (ai_Command active)" "status_of (co_store c) i = Some InvocationCompleted"
  shows "wp (recordOutputSubmitted env active) Q (phase_ok env store0) c"
  unfolding recordOutputSubmitted_def
  by (rule wp_observing[where kind = phaseObservationOutput and command = "ai_Command active"])
     (use assms in \<open>auto simp: RecordPhaseOutputSubmitted_def outcome_ok_def runs_def\<close>)

lemma wp_recordFailed:
  assumes "phase_ok env store0 c" "\<And>g. phase_ok env store0 (c\<lparr>co_graph := g\<rparr>) \<Longrightarrow> Q () (c\<lparr>co_graph := g\<rparr>)"
    and "status_of (co_store c) (deterministicInvocationID env (cmd_ID command)) = Some InvocationFailed"
  shows "wp (recordInvocationFailed env p command) Q (phase_ok env store0) c"
  unfolding recordInvocationFailed_def
  by (rule wp_observing[where kind = phaseObservationFailed and command = command])
     (auto simp: assms RecordPhaseInvocationFailed_def outcome_ok_def)

section \<open>The operations\<close>

abbreviation phase_keeps :: "'w PhaseEnv \<Rightarrow> MemoryInvocationStore \<Rightarrow> ('w, 'a) phase_op \<Rightarrow> Controller \<Rightarrow> bool" where
  "phase_keeps env store0 m c \<equiv> wp m (\<lambda>_. phase_ok env store0) (phase_ok env store0) c"

lemma phase_ok_active:
  "phase_ok env store0 c \<Longrightarrow> mget (co_active c) i = Some a \<Longrightarrow> active_ok env i a"
  by (simp add: phase_parts actives_ok_def)

lemma phase_ok_stored:
  "phase_ok env store0 c \<Longrightarrow> mget (is_invocations (co_store c)) i = Some v \<Longrightarrow> iv_ID v = i"
  by (auto simp: phase_parts dest: mkeyedD)

lemma activeInvocation_ok: "phase_ok env store0 c \<Longrightarrow> activeInvocation i c = Inr a \<Longrightarrow> active_ok env i a"
  by (auto simp: activeInvocation_def dest: phase_ok_active split: option.splits if_splits)

lemma activeByLease_ok:
  "phase_ok env store0 c \<Longrightarrow> activeByLease lease c = Inr a \<Longrightarrow> active_ok env (iv_ID (ai_Invocation a)) a"
  by (auto simp: activeByLease_def active_ok_def dest!: activeInvocation_ok split: option.splits)

lemma Assemble_ID: "Assemble hash order catalog v data = Inr assembly \<Longrightarrow> iv_ID (ay_Invocation assembly) = iv_ID v"
  by (auto simp: Assemble_def Let_def and_then_Inr checked_Inr)

lemma keep_andThen:
  assumes "phase_keeps env store0 m c" "\<And>x d. phase_ok env store0 d \<Longrightarrow> phase_keeps env store0 (k x) d"
  shows "phase_keeps env store0 (andThen m k) c"
  by (rule wp_andThen, rule wp_mono[OF assms(1)]) (simp_all add: assms(2))

lemma keep_ignoring: "phase_keeps env store0 m c \<Longrightarrow> phase_keeps env store0 (ignoring m) c"
  by (rule wp_ignoring) simp

lemma keep_calls:
  assumes "phase_ok env store0 c"
  shows "phase_keeps env store0 (askErr f) c" "phase_keeps env store0 (askSum g) c" "phase_keeps env store0 (clearActive env i) c"
  using assms by (intro wp_askErr wp_askSum wp_clearActive; simp)+

lemma keep_cleanup:
  assumes "phase_ok env store0 c"
  shows "phase_keeps env store0 (cleanupResolvedInvocation env v) c"
    and "phase_keeps env store0 (cleanupResolvedBinding env command role binding) c"
  unfolding cleanupResolvedInvocation_def cleanupResolvedBinding_def by (intro keep_ignoring keep_calls assms)+

lemma wp_cleaning_keep:
  assumes "wp m Q (phase_ok env store0) c" "\<And>d. phase_ok env store0 d \<Longrightarrow> phase_keeps env store0 g d"
  shows "wp (cleaning m g) Q (phase_ok env store0) c"
  by (rule wp_cleaning, rule wp_mono[OF assms(1)]) (auto intro: assms(2))

lemma keep_finishStarted:
  assumes "phase_ok env store0 c" "active_ok env (iv_ID (ai_Invocation active)) active"
  shows "phase_keeps env store0 (finishStarted env active) c"
  unfolding finishStarted_def
  by (intro wp_andThen wp_recordActive wp_writes wp_recordStarted) (use assms in \<open>auto simp: phase_parts\<close>)

lemma keep_finishPersistedOutput:
  assumes "phase_ok env store0 c" "active_ok env (iv_ID (ai_Invocation active)) active"
    and "status_of (co_store c) (iv_ID (ai_Invocation active)) = Some InvocationCompleted"
  shows "phase_keeps env store0 (finishPersistedOutput env active) c"
  unfolding finishPersistedOutput_def Let_def
  by (intro wp_rules wp_recordOutput[where i = "iv_ID (ai_Invocation active)"]) (use assms in \<open>auto simp: phase_parts active_ok_def\<close>)

lemma keep_launch:
  assumes ok: "phase_ok env store0 c" and v: "iv_ID v = deterministicInvocationID env (cmd_ID command)"
  shows "phase_keeps env store0 (launch env command binding v stored) c"
proof -
  have release: "phase_keeps env store0 (andThen (ignoring (askErr f)) (\<lambda>_. ignoring (askErr g))) d"
    if "phase_ok env store0 d" for f g d
    using that by (intro keep_andThen keep_ignoring keep_calls)
  have clear: "phase_keeps env store0 (andThen (ignoring (clearActive env i)) (\<lambda>_. andThen (ignoring (askErr f)) (\<lambda>_. ignoring (askErr g)))) d"
    if "phase_ok env store0 d" for f g d i
    using that by (intro keep_andThen keep_ignoring keep_calls)
  show ?thesis
    unfolding launch_def Let_def
    by (intro wp_andThen wp_cleaning_keep wp_liftSum wp_ask_any wp_if wp_ret wp_createInvocation wp_recordActive wp_askErr
        wp_transitionInvocation keep_finishStarted keep_cleanup release clear)
       (use ok v in \<open>auto simp: active_ok_def runs_def newActive_def dest: Assemble_ID\<close>)
qed

end
