(* ===== verification/Phase_Operations_Inv.thy ===== *)
theory Phase_Operations_Inv
  imports Phase_Inv
begin

text \<open>
  Every operation of the phase controller keeps \<open>phase_ok\<close>, and what the operations are for: a step
  relation of the controller, with the two halves of \<open>AwaitInputs\<close> as separate steps and the changes the
  graph makes on its own, and the invariant of its reachable states.
\<close>

section \<open>Start, resume and stop\<close>

lemma newInvocation_ID [simp]: "iv_ID (newInvocation env command role binding now) = deterministicInvocationID env (cmd_ID command)"
  by (simp add: newInvocation_def)

lemma newActive_ok:
  "iv_ID v = deterministicInvocationID env (cmd_ID command) \<Longrightarrow> active_ok env (iv_ID v) (newActive v command binding)"
  by (simp add: active_ok_def runs_def newActive_def)

lemma newActive_Invocation [simp]: "ai_Invocation (newActive v command binding) = v"
  by (simp add: newActive_def)

lemma keep_checkCheckpoint: "phase_ok env store0 c \<Longrightarrow> phase_keeps env store0 (checkCheckpoint env command binding) c"
  unfolding checkCheckpoint_def by (intro wp_if wp_option wp_failWith wp_askErr wp_ret)

lemma keep_applyStartLike:
  assumes "phase_ok env store0 c"
  shows "phase_keeps env store0 (applyStartLike env command) c"
proof -
  let ?id = "deterministicInvocationID env (cmd_ID command)"
  have found: "phase_keeps env store0
      (if iv_Status v = InvocationRunning then finishStarted env (newActive v command binding)
       else if iv_Status v = InvocationCompleted then finishPersistedOutput env (newActive v command binding)
       else if iv_Status v \<noteq> InvocationPrepared then cleaning (failWith e) (cleanupResolvedInvocation env u)
       else launch env command binding v True) d"
    if "phase_ok env store0 d" "mget (is_invocations (co_store d)) ?id = Some v" for d v binding e u
  proof -
    have v: "iv_ID v = ?id" by (rule phase_ok_stored[OF that])
    show ?thesis
      using newActive_ok[of v env command binding, OF v] v that
      by (intro wp_if wp_cleaning_keep wp_failWith keep_finishStarted keep_finishPersistedOutput keep_launch keep_cleanup)
         (auto simp: status_of_def)
  qed
  show ?thesis
    unfolding applyStartLike_def Let_def newInvocation_ID
    by (intro wp_andThen wp_liftSum wp_askSum wp_cleaning_keep wp_checkOp wp_ask_any wp_getInvocation wp_option keep_launch keep_cleanup
        wp_mono[OF keep_checkCheckpoint] found)
       (use assms in auto)
qed

lemma keep_forgetActive: "phase_ok env store0 c \<Longrightarrow> phase_keeps env store0 (forgetActive i lease) c"
  unfolding forgetActive_def by (rule wp_writes) (auto simp: phase_parts)

lemma keep_putActive: "phase_ok env store0 c \<Longrightarrow> active_ok env i a \<Longrightarrow> phase_keeps env store0 (putActive i a) c"
  unfolding putActive_def by (rule wp_writes) (auto simp: phase_parts)

lemma keep_finishPersistedStop:
  assumes "phase_ok env store0 c"
  shows "phase_keeps env store0 (finishPersistedStop env active command result) c"
  unfolding finishPersistedStop_def Let_def
  by (intro wp_andThen wp_askErr wp_toStopped wp_recordStopped wp_clearActive keep_forgetActive) (use assms in auto)

abbreviation recovered_ok :: "'w PhaseEnv \<Rightarrow> MemoryInvocationStore \<Rightarrow> ActiveInvocation option \<Rightarrow> Controller \<Rightarrow> bool" where
  "recovered_ok env store0 r c \<equiv> phase_ok env store0 c \<and> (\<forall>a. r = Some a \<longrightarrow> active_ok env (iv_ID (ai_Invocation a)) a)"

text \<open>A recovered invocation has its own command or the stop command it was asked for with.\<close>

lemma wp_recoverActiveByLease:
  assumes "cmd_Action command = CommandStop" "phase_ok env store0 c"
  shows "wp (recoverActiveByLease env command binding) (recovered_ok env store0) (phase_ok env store0) c"
  unfolding recoverActiveByLease_def Let_def
proof (intro wp_option wp_andThen wp_askSum_answer)
  fix recovery found w w' a
  assume recovery: "pe_recovery env = Some recovery"
    and run: "rs_RecoverActiveInvocation recovery command binding w = (Inr found, w')" and found: "found = Some a"
  have a: "active_ok env (iv_ID (ai_Invocation a)) a"
    using recoveryD(1)[OF _ recovery run[unfolded found]] assms(1) by (auto simp: active_ok_def runs_def run_command_def)
  have stored: "active_ok env (iv_ID v) (a\<lparr>ai_Invocation := v\<rparr>)"
    if "mget (is_invocations (co_store c)) (iv_ID (ai_Invocation a)) = Some v" for v
    using a phase_ok_stored[OF assms(2) that] by (simp add: active_ok_def)
  show "wp (checkOp (validateBindingForActive binding a))
     (\<lambda>_. wp (andThen (requireInvocation env (iv_ID (ai_Invocation a))) (\<lambda>invocation.
          if iv_Status invocation = InvocationCompleted \<or> iv_Status invocation = InvocationFailed
          then andThen (askErr (rs_ClearActiveInvocation recovery (iv_ID invocation))) (\<lambda>_. ret None)
          else if iv_Status invocation = InvocationStopped then ret (Some (a\<lparr>ai_Invocation := invocation\<rparr>))
          else andThen (writes (\<lambda>c. c\<lparr>co_active := mput (iv_ID invocation) (a\<lparr>ai_Invocation := invocation\<rparr>) (co_active c),
                 co_byLease := mput (cmd_LeaseRef command) (iv_ID invocation) (co_byLease c)\<rparr>))
               (\<lambda>_. ret (Some (a\<lparr>ai_Invocation := invocation\<rparr>)))))
        (recovered_ok env store0) (phase_ok env store0)) (phase_ok env store0) c"
    by (intro wp_rules) (use assms(2) stored in \<open>auto simp: phase_parts\<close>)
qed (use assms(2) in \<open>auto intro: wp_ret\<close>)

lemma keep_stopAlreadyApplied: "phase_ok env store0 c \<Longrightarrow> phase_keeps env store0 (stopAlreadyApplied env command) c"
  unfolding stopAlreadyApplied_def by (intro wp_rules)

lemma wp_activeOrRecovered:
  assumes "cmd_Action command = CommandStop" "phase_ok env store0 c"
  shows "wp (activeOrRecovered env command binding) (recovered_ok env store0) (phase_ok env store0) c"
  unfolding activeOrRecovered_def
  by (intro wp_andThen wp_reads wp_sum wp_ret wp_if wp_option wp_failWith wp_mono[OF wp_recoverActiveByLease] wp_mono[OF keep_stopAlreadyApplied])
     (use assms in \<open>auto dest: activeByLease_ok\<close>)

lemma keep_stopActive:
  assumes "phase_ok env store0 c"
  shows "phase_keeps env store0 (stopActive env command binding known) c"
  unfolding stopActive_def Let_def
  by (intro wp_andThen wp_requireInvocation wp_if wp_ret wp_reads wp_liftSum wp_option wp_failWith wp_askSum wp_checkOp wp_askErr
      wp_clearActive wp_mono[OF keep_forgetActive] keep_finishPersistedStop)
     (use assms in auto)

text \<open>The terminal lock is none of the parts the invariant speaks of.\<close>

lemma keep_withTerminal:
  assumes "phase_ok env store0 c" "\<And>d. phase_ok env store0 d \<Longrightarrow> phase_keeps env store0 m d"
  shows "phase_keeps env store0 (withTerminal i m) c"
proof (rule wp_withTerminal)
  show "phase_ok env store0 c" by (rule assms(1))
  have "phase_ok env store0 (c\<lparr>co_termLocks := mput i True (co_termLocks c)\<rparr>)" using assms(1) by (simp add: phase_parts)
  from assms(2)[OF this] show "wp m (\<lambda>x c. phase_ok env store0 (c\<lparr>co_termLocks := mdel i (co_termLocks c)\<rparr>))
     (\<lambda>c. phase_ok env store0 (c\<lparr>co_termLocks := mdel i (co_termLocks c)\<rparr>)) (c\<lparr>co_termLocks := mput i True (co_termLocks c)\<rparr>)"
    by (rule wp_mono) (simp_all add: phase_parts)
qed

lemma keep_applyStop:
  assumes "cmd_Action command = CommandStop" "phase_ok env store0 c"
  shows "phase_keeps env store0 (applyStop env command) c"
  unfolding applyStop_def
  by (intro wp_andThen wp_askSum wp_checkOp wp_mono[OF wp_activeOrRecovered] wp_option wp_ret wp_if wp_failWith keep_withTerminal keep_stopActive)
     (use assms in auto)

section \<open>Commands\<close>

lemma recordCommandFinish_parts [simp]:
  "co_store (recordCommandFinish i err c) = co_store c" "co_graph (recordCommandFinish i err c) = co_graph c"
  "co_active (recordCommandFinish i err c) = co_active c" "co_receipts (recordCommandFinish i err c) = co_receipts c"
  by (simp_all add: recordCommandFinish_def Let_def)

lemma keep_finishing: "phase_keeps env store0 m c \<Longrightarrow> phase_keeps env store0 (finishing i m) c"
  by (erule wp_first) (auto simp: finishing_def phase_parts)

lemma keep_recordCommandStart: "phase_ok env store0 c \<Longrightarrow> phase_keeps env store0 (recordCommandStart i fingerprint) c"
  by (rule wpI) (auto simp: recordCommandStart_def phase_parts split: option.splits if_splits)

lemma keep_Apply:
  assumes "phase_ok env store0 c"
  shows "phase_keeps env store0 (Apply env command) c"
proof -
  have action: "phase_keeps env store0 (applyAction env command) d" if "phase_ok env store0 d" for d
    unfolding applyAction_def
    by (intro wp_if wp_failWith keep_applyStartLike keep_applyStop that)
  have rest: "phase_keeps env store0 (case r of (replayed, done, err) \<Rightarrow>
      if replayed \<and> done then checkOp err else finishing (cmd_ID command) (applyAction env command)) d"
    if "phase_ok env store0 d" for r d
    using action[OF that] that by (cases r) (auto intro!: wp_checkOp keep_finishing)
  show ?thesis
    unfolding Apply_def
    by (intro wp_andThen wp_checkOp wp_liftSum wp_mono[OF keep_recordCommandStart] rest) (use assms in auto)
qed

section \<open>Inputs and context\<close>

lemma active_ok_fields [simp]:
  "active_ok env i (a\<lparr>ai_Binding := b\<rparr>) = active_ok env i a" "active_ok env i (a\<lparr>ai_Inputs := ins\<rparr>) = active_ok env i a"
  by (simp_all add: active_ok_def)

lemma keep_rehydrate:
  assumes "phase_ok env store0 c" "active_ok env i a"
  shows "phase_keeps env store0 (rehydrate env a) c"
proof -
  have "active_ok env (iv_ID (ai_Invocation a)) a" using assms(2) by (simp add: active_ok_def)
  then show ?thesis
    unfolding rehydrate_def Let_def
    by (intro wp_andThen wp_askSum wp_checkOp wp_liftSum wp_ask_any wp_askErr keep_putActive) (use assms(1) in auto)
qed

lemma wp_activeInvocation:
  assumes "phase_ok env store0 c" "\<And>a. active_ok env i a \<Longrightarrow> Q a c"
  shows "wp (andThen (reads (activeInvocation i)) liftSum) Q (phase_ok env store0) c"
  by (intro wp_andThen wp_reads wp_liftSum) (use assms in \<open>auto dest: activeInvocation_ok\<close>)

lemma wp_beginAwait:
  assumes "phase_ok env store0 c"
  shows "wp (beginAwait env i req) (\<lambda>a d. phase_ok env store0 d \<and> active_ok env i a) (phase_ok env store0) c"
  unfolding beginAwait_def
  by (intro wp_andThen[of "andThen (reads (activeInvocation i)) liftSum"] wp_activeInvocation wp_andThen wp_checkOp wp_askErr wp_toWaiting wp_ret)
     (use assms in auto)

lemma keep_endAwait:
  assumes "phase_ok env store0 c" "active_ok env i a"
  shows "phase_keeps env store0 (endAwait env i a result) c"
  unfolding endAwait_def Let_def
  by (intro wp_andThen wp_if wp_ret wp_mono[OF keep_putActive] wp_transitionInvocation wp_mono[OF keep_rehydrate]) (use assms in auto)

lemma keep_AwaitInputs:
  assumes "phase_ok env store0 c"
  shows "phase_keeps env store0 (AwaitInputs env i req) c"
  unfolding AwaitInputs_def
  by (intro wp_andThen wp_mono[OF wp_beginAwait] wp_askSum keep_endAwait) (use assms in auto)

lemma keep_OnInputsChanged:
  assumes "phase_ok env store0 c"
  shows "phase_keeps env store0 (OnInputsChanged env i inputs) c"
  unfolding OnInputsChanged_def Let_def
  by (intro wp_andThen[of "andThen (reads (activeInvocation i)) liftSum"] wp_activeInvocation wp_andThen wp_mono[OF keep_putActive] keep_rehydrate)
     (use assms in auto)

lemma keep_OnContextDelta:
  assumes "phase_ok env store0 c"
  shows "phase_keeps env store0 (OnContextDelta env i) c"
  unfolding OnContextDelta_def
  by (intro wp_andThen[of "andThen (reads (activeInvocation i)) liftSum"] wp_activeInvocation keep_rehydrate) (use assms in auto)

section \<open>Outputs\<close>

lemma keep_routeAll: "phase_ok env store0 c \<Longrightarrow> phase_keeps env store0 (routeAll env a refs) c"
proof (induction refs arbitrary: c)
  case (Cons ref refs)
  show ?case
    unfolding routeAll.simps by (intro wp_andThen wp_askSum wp_mono[OF Cons.IH] wp_ret) (use Cons.prems in auto)
qed (simp add: wp_ret)

lemma keep_pendingReceipt: "phase_ok env store0 c \<Longrightarrow> phase_keeps env store0 (pendingReceipt receipt fingerprint) c"
  unfolding pendingReceipt_def by (intro wp_if wp_failWith wp_ret)

lemma keep_pendingOrRouteReceipt:
  assumes "phase_ok env store0 c"
  shows "phase_keeps env store0 (pendingOrRouteReceipt env a output) c"
  unfolding pendingOrRouteReceipt_def Let_def
  by (intro wp_andThen wp_liftSum wp_reads wp_option keep_pendingReceipt wp_mono[OF keep_routeAll] wp_askSum wp_ask_any wp_writes wp_ret)
     (use assms in \<open>auto simp: phase_parts\<close>)

lemma keep_closeOutput:
  assumes "phase_ok env store0 c" "status_of (co_store c) i = Some InvocationCompleted"
  shows "phase_keeps env store0 (closeOutput i command receipt) c"
  unfolding closeOutput_def by (rule wp_writes) (use assms in \<open>auto simp: phase_parts\<close>)

lemma commandFromOutputReceipt_fields:
  "commandFromOutputReceipt receipt = Inr command \<Longrightarrow> cmd_ID command = or_CommandID receipt \<and> cmd_Action command = or_CommandAction receipt"
  by (auto simp: commandFromOutputReceipt_def checked_Inr)

lemma persisted_runs:
  assumes "pe_recovery env = Some recovery" "rs_GetOutputReceipt recovery i commandID w = (Inr (Some receipt), w')"
    "commandFromOutputReceipt receipt = Inr command"
  shows "runs env i command"
  using recoveryD(2)[OF _ assms(1,2)] commandFromOutputReceipt_fields[OF assms(3)] by (auto simp: runs_def run_command_def)

lemma keep_completedOutputReceipt:
  assumes "phase_ok env store0 c"
  shows "phase_keeps env store0 (completedOutputReceipt env i output) c"
proof -
  have close: "phase_keeps env store0 (andThen
      (if iv_Status v = InvocationRunning then andThen (askErr (pe_Fence env i)) (\<lambda>_.
         andThen (askErr (pe_Complete env v)) (\<lambda>_. transitionToCompleted env i)) else ret ()) (\<lambda>_.
      andThen (recordOutputSubmitted env a) (\<lambda>_. andThen (askErr f) (\<lambda>_. andThen (closeOutput i command receipt) (\<lambda>_. ret receipt))))) c"
    if "mget (is_invocations (co_store c)) i = Some v" "\<not> (iv_Status v \<noteq> InvocationRunning \<and> iv_Status v \<noteq> InvocationCompleted)"
      "ai_Command a = command" "runs env i command" for v a command receipt f
    by (intro wp_andThen wp_if wp_askErr wp_toCompleted wp_ret wp_recordOutput[where i = i] wp_mono[OF keep_closeOutput])
       (use assms that in \<open>auto simp: status_of_def\<close>)
  show ?thesis
    unfolding completedOutputReceipt_def Let_def
    by (intro wp_option wp_failWith wp_andThen[of "getInvocation env i"] wp_getInvocation wp_if wp_andThen[of "askSum f" for f]
        wp_askSum_answer wp_andThen[of "liftSum r" for r] wp_liftSum close)
       (use assms persisted_runs in \<open>auto simp: phase_ok_stored\<close>)
qed

lemma keep_acceptOutput:
  assumes "phase_ok env store0 c" "active_ok env i a"
  shows "phase_keeps env store0 (acceptOutput env i a output) c"
  unfolding acceptOutput_def Let_def
  by (intro wp_andThen wp_wrapping wp_askSum wp_checkOp wp_mono[OF keep_pendingOrRouteReceipt] wp_withRecovery wp_askErr wp_toCompleted
      wp_recordOutput[where i = i] wp_clearActive wp_mono[OF keep_closeOutput] wp_ret)
     (use assms in \<open>auto simp: active_ok_def\<close>)

lemma keep_orCompleted:
  assumes "phase_ok env store0 c"
    and "\<And>a. active_ok env i a \<Longrightarrow> phase_keeps env store0 (k a) c"
  shows "phase_keeps env store0 (orCompleted env i output k) c"
  unfolding orCompleted_def
  by (intro wp_andThen wp_reads wp_sum wp_if wp_failWith keep_completedOutputReceipt assms) (use assms(1) in \<open>auto dest: activeInvocation_ok\<close>)

lemma keep_SubmitPhaseOutput:
  assumes "phase_ok env store0 c"
  shows "phase_keeps env store0 (SubmitPhaseOutput env i output) c"
  unfolding SubmitPhaseOutput_def
  by (intro keep_orCompleted keep_withTerminal keep_acceptOutput assms)

section \<open>Failure\<close>

lemma keep_closeInvocation:
  assumes "phase_ok env store0 c"
  shows "phase_keeps env store0 (closeInvocation env what eligible report command) c"
  unfolding closeInvocation_def Let_def
  by (intro wp_andThen wp_checkOp keep_withTerminal wp_getInvocation wp_option wp_failWith wp_askErr wp_toFailed wp_if wp_ret wp_recordFailed
      wp_clearActive keep_forgetActive)
     (use assms in auto)

end
