(* ===== verification/Phase_Frame.thy ===== *)
theory Phase_Frame
  imports Phase_Inv
begin

text \<open>
  What a command leaves alone, whatever the collaborators and their answers: the records of the other
  commands, and the graph but for operations of its store. No invariant is needed for this part.
\<close>

definition framed :: "MemoryStore \<Rightarrow> (string, phaseCommandRecord) gomap \<Rightarrow> Controller \<Rightarrow> bool" where
  "framed g0 cmds c \<longleftrightarrow> store_step\<^sup>*\<^sup>* g0 (co_graph c) \<and> co_commands c = cmds"

abbreviation frames :: "MemoryStore \<Rightarrow> (string, phaseCommandRecord) gomap \<Rightarrow> ('w, 'a) phase_op \<Rightarrow> Controller \<Rightarrow> bool" where
  "frames g0 cmds m c \<equiv> wp m (\<lambda>_. framed g0 cmds) (framed g0 cmds) c"

text \<open>An observation is one append to the store, or nothing.\<close>

lemma append_steps:
  assumes "appendPhaseObservation ctx g p command kind checkpointRef nonResumable = (r, g')"
  shows "store_step\<^sup>*\<^sup>* g g'"
proof (cases "newPhaseObservation kind command checkpointRef nonResumable")
  case (Inl e)
  then show ?thesis using assms by (simp add: appendPhaseObservation_def)
next
  case (Inr observation)
  then have "g' = snd (appendObservation ctx g p observation)" using assms by (simp add: appendPhaseObservation_def)
  then show ?thesis using store_step.append by blast
qed

lemmas record_defs = RecordPhaseInvocationStarted_def RecordPhaseOutputSubmitted_def RecordPhaseInvocationFailed_def
  RecordPhaseInvocationStopped_def

lemma frame_observing:
  assumes "framed g0 cmds c" "\<And>ctx g r g'. f ctx g = (r, g') \<Longrightarrow> store_step\<^sup>*\<^sup>* g g'"
  shows "frames g0 cmds (observing env f) c"
proof -
  have "framed g0 cmds (c\<lparr>co_graph := g'\<rparr>)" if "f ctx (co_graph c) = (r, g')" for ctx r g'
    using assms(1) assms(2)[OF that] by (auto simp: framed_def intro: rtranclp_trans)
  then have "frames g0 cmds (case f ctx (co_graph c) of (err, graph') \<Rightarrow>
      andThen (writes (\<lambda>c. c\<lparr>co_graph := graph'\<rparr>)) (\<lambda>_. checkOp err)) c" for ctx
    by (cases "f ctx (co_graph c)") (auto intro!: wp_rules)
  then show ?thesis
    unfolding observing_def using assms(1) by (intro wp_rules) simp_all
qed

lemma frame_records:
  assumes "framed g0 cmds c"
  shows "frames g0 cmds (recordInvocationStarted env a) c" "frames g0 cmds (recordOutputSubmitted env a) c"
    and "frames g0 cmds (recordInvocationStopped env a command result) c"
  unfolding recordInvocationStarted_def recordOutputSubmitted_def recordInvocationStopped_def
  by (rule frame_observing[OF assms], simp add: record_defs append_steps)+

lemma frame_writes: "framed g0 cmds c \<Longrightarrow> co_graph (f c) = co_graph c \<Longrightarrow> co_commands (f c) = co_commands c \<Longrightarrow> frames g0 cmds (writes f) c"
  by (rule wp_writes) (simp add: framed_def)

lemma frame_andThen:
  assumes "frames g0 cmds m c" "\<And>x d. framed g0 cmds d \<Longrightarrow> frames g0 cmds (k x) d"
  shows "frames g0 cmds (andThen m k) c"
  by (rule wp_andThen, rule wp_mono[OF assms(1)]) (simp_all add: assms(2))

lemma frame_cleaning:
  assumes "frames g0 cmds m c" "\<And>d. framed g0 cmds d \<Longrightarrow> frames g0 cmds g d"
  shows "frames g0 cmds (cleaning m g) c"
  by (rule wp_cleaning, rule wp_mono[OF assms(1)]) (auto intro: assms(2))

lemma frame_ignoring: "frames g0 cmds m c \<Longrightarrow> frames g0 cmds (ignoring m) c"
  by (rule wp_ignoring) simp

lemma frame_withTerminal:
  assumes "framed g0 cmds c" "\<And>d. framed g0 cmds d \<Longrightarrow> frames g0 cmds m d"
  shows "frames g0 cmds (withTerminal i m) c"
proof (rule wp_withTerminal)
  show "framed g0 cmds c" by (rule assms(1))
  have "framed g0 cmds (c\<lparr>co_termLocks := mput i True (co_termLocks c)\<rparr>)" using assms(1) by (simp add: framed_def)
  from assms(2)[OF this] show "wp m (\<lambda>x c. framed g0 cmds (c\<lparr>co_termLocks := mdel i (co_termLocks c)\<rparr>))
     (\<lambda>c. framed g0 cmds (c\<lparr>co_termLocks := mdel i (co_termLocks c)\<rparr>)) (c\<lparr>co_termLocks := mput i True (co_termLocks c)\<rparr>)"
    by (rule wp_mono) (simp_all add: framed_def)
qed

text \<open>The plain operations: answers, checks and reads change nothing at all.\<close>

lemma frame_plain:
  assumes "framed g0 cmds c"
  shows "frames g0 cmds (ret x) c" "frames g0 cmds (failWith e) c" "frames g0 cmds (checkOp chk) c" "frames g0 cmds (liftSum s) c"
    and "frames g0 cmds (ask f) c" "frames g0 cmds (askSum f') c" "frames g0 cmds (askErr f'') c" "frames g0 cmds (reads h) c"
    and "frames g0 cmds (clearActive env i) c" "frames g0 cmds (recordActive env a) c"
    and "frames g0 cmds (getInvocation env i) c" "frames g0 cmds (requireInvocation env i) c"
  using assms by (intro wp_rules; simp)+

lemma frame_store:
  assumes "framed g0 cmds c"
  shows "frames g0 cmds (createInvocation env v) c" "frames g0 cmds (transitionInvocation env i from to) c"
  unfolding createInvocation_def transitionInvocation_def
  by (intro frame_andThen frame_plain assms; simp split: prod.splits; intro allI impI frame_andThen frame_writes frame_plain; simp)+

lemmas frame_rules = frame_records frame_andThen frame_cleaning frame_ignoring frame_withTerminal frame_plain frame_store
  frame_writes wp_if wp_option wp_sum

lemma frame_transitions:
  assumes "framed g0 cmds c"
  shows "frames g0 cmds (transitionToStopped env i) c"
  unfolding transitionToStopped_def using assms by (intro frame_rules)

lemma frame_finishStarted: "framed g0 cmds c \<Longrightarrow> frames g0 cmds (finishStarted env a) c"
  unfolding finishStarted_def by (intro frame_rules) simp_all

lemma frame_finishPersistedOutput: "framed g0 cmds c \<Longrightarrow> frames g0 cmds (finishPersistedOutput env a) c"
  unfolding finishPersistedOutput_def Let_def by (intro frame_rules) simp_all

lemma frame_cleanup:
  assumes "framed g0 cmds c"
  shows "frames g0 cmds (cleanupResolvedInvocation env v) c" "frames g0 cmds (cleanupResolvedBinding env command role binding) c"
  unfolding cleanupResolvedInvocation_def cleanupResolvedBinding_def using assms by (intro frame_rules; simp)+

lemma frame_launch: "framed g0 cmds c \<Longrightarrow> frames g0 cmds (launch env command binding v stored) c"
  unfolding launch_def Let_def by (intro frame_rules frame_cleanup frame_finishStarted)

lemma frame_applyStartLike: "framed g0 cmds c \<Longrightarrow> frames g0 cmds (applyStartLike env command) c"
  unfolding applyStartLike_def Let_def checkCheckpoint_def
  by (intro frame_rules frame_cleanup frame_finishStarted frame_finishPersistedOutput frame_launch)

lemma frame_finishPersistedStop: "framed g0 cmds c \<Longrightarrow> frames g0 cmds (finishPersistedStop env a command result) c"
  unfolding finishPersistedStop_def forgetActive_def Let_def by (intro frame_rules frame_transitions) simp_all

lemma frame_activeOrRecovered: "framed g0 cmds c \<Longrightarrow> frames g0 cmds (activeOrRecovered env command binding) c"
  unfolding activeOrRecovered_def recoverActiveByLease_def stopAlreadyApplied_def Let_def by (intro frame_rules) simp_all

lemma frame_applyStop: "framed g0 cmds c \<Longrightarrow> frames g0 cmds (applyStop env command) c"
  unfolding applyStop_def stopActive_def forgetActive_def Let_def
  by (intro frame_rules frame_activeOrRecovered frame_finishPersistedStop) simp_all

lemma frame_applyAction: "framed g0 cmds c \<Longrightarrow> frames g0 cmds (applyAction env command) c"
  unfolding applyAction_def by (intro wp_if frame_applyStartLike frame_applyStop frame_plain)

end
