(* ===== verification/Catalog_Properties.thy ===== *)
theory Catalog_Properties
  imports Prompt_Catalog Auth_Properties
begin

text \<open>
  The properties of the prompt catalog: the order in which skills are resolved, when they are resolved at
  all, and that what is assembled for an invocation is what an agent token is issued for.
\<close>

section \<open>Resolving skills\<close>

definition depends :: "(string, Skill) gomap \<Rightarrow> (string \<times> string) set" where
  "depends skills = {(i, j). \<exists>skill. mget skills i = Some skill \<and> j \<in> set (sk_Dependencies skill)}"

text \<open>Every skill is the catalog's, after all its dependencies.\<close>

fun ordered_skills :: "(string, Skill) gomap \<Rightarrow> string set \<Rightarrow> Skill list \<Rightarrow> bool" where
  "ordered_skills skills seen [] \<longleftrightarrow> True"
| "ordered_skills skills seen (skill # rest) \<longleftrightarrow>
     mget skills (sk_ID skill) = Some skill \<and> set (sk_Dependencies skill) \<subseteq> seen \<and> ordered_skills skills (insert (sk_ID skill) seen) rest"

lemma ordered_skills_snoc:
  "ordered_skills skills seen (res @ [skill]) \<longleftrightarrow> ordered_skills skills seen res \<and> mget skills (sk_ID skill) = Some skill
     \<and> set (sk_Dependencies skill) \<subseteq> seen \<union> sk_ID ` set res"
  by (induction res arbitrary: seen) auto

text \<open>What a search keeps: the finished skills are the resolved ones, each once and in order.\<close>

definition search_ok :: "(string, Skill) gomap \<Rightarrow> skillSearch \<Rightarrow> bool" where
  "search_ok skills s \<longleftrightarrow> distinct (map sk_ID (snd s)) \<and> (\<forall>i. fst s i = Visited \<longleftrightarrow> i \<in> sk_ID ` set (snd s))
     \<and> ordered_skills skills {} (snd s)"

lemma search_not_visited: "search_ok skills s \<Longrightarrow> fst s i \<noteq> Visited \<Longrightarrow> i \<notin> sk_ID ` set (snd s)"
  unfolding search_ok_def by blast

lemma visit_inner:
  assumes "state i = Unseen" "search_ok skills (state, res)"
  shows "search_ok skills (state(i := Visiting), res)"
  using assms search_not_visited[OF assms(2), of i] by (simp add: search_ok_def)

lemma visit_finish:
  assumes "search_ok skills (st1, r1)" "st1 i = Visiting" "mget skills i = Some skill" "sk_ID skill = i"
    and "\<forall>j \<in> set (sk_Dependencies skill). st1 j = Visited"
  shows "search_ok skills (st1(i := Visited), r1 @ [skill])"
proof -
  have "i \<notin> sk_ID ` set r1" using search_not_visited[OF assms(1), of i] assms(2) by simp
  moreover have "set (sk_Dependencies skill) \<subseteq> sk_ID ` set r1" using assms(1,5) by (auto simp: search_ok_def)
  ultimately show ?thesis using assms(1,3,4) by (simp add: search_ok_def ordered_skills_snoc)
qed

lemma visitSkills_ok:
  assumes "mkeyed sk_ID skills"
  shows "visitSkills skills s ids = Inr s' \<Longrightarrow> search_ok skills s \<Longrightarrow>
    search_ok skills s' \<and> marks_kept (fst s) (fst s') \<and> (\<forall>i \<in> set ids. fst s' i = Visited)"
  using assms
proof (induction skills s ids arbitrary: s' rule: visitSkills.induct)
  case (1 skills s)
  then show ?case by (simp add: marks_kept_def)
next
  case (2 skills state resolved i ids)
  obtain skill where skill: "mget skills i = Some skill" using "2.prems"(1) by (cases "mget skills i") simp_all
  show ?case
  proof (cases "state i")
    case Visiting
    then show ?thesis using "2.prems"(1) skill by simp
  next
    case Visited
    then have run: "visitSkills skills (state, resolved) ids = Inr s'" using "2.prems"(1) skill by simp
    note rest = "2.IH"(3)[OF skill Visited run "2.prems"(2,3)]
    then have "fst s' i = Visited" using Visited by (auto simp: marks_kept_def)
    then show ?thesis using rest by simp
  next
    case Unseen
    obtain st1 r1 where inner: "visitSkills skills (state(i := Visiting), resolved) (sk_Dependencies skill) = Inr (st1, r1)"
      using "2.prems"(1) skill Unseen by (cases "visitSkills skills (state(i := Visiting), resolved) (sk_Dependencies skill)") auto
    have outer: "visitSkills skills (st1(i := Visited), r1 @ [skill]) ids = Inr s'" using "2.prems"(1) skill Unseen inner by simp
    have a: "search_ok skills (st1, r1)" "marks_kept (state(i := Visiting)) st1" "\<forall>j \<in> set (sk_Dependencies skill). st1 j = Visited"
      using "2.IH"(1)[OF skill Unseen inner visit_inner[of state i, OF Unseen "2.prems"(2)] "2.prems"(3)] unfolding fst_conv by blast+
    have "st1 i = Visiting" using a(2)[unfolded marks_kept_def, rule_format, of i] by simp
    then have "search_ok skills (st1(i := Visited), r1 @ [skill])"
      using visit_finish[OF a(1) _ skill mkeyedD[OF "2.prems"(3) skill] a(3)] by blast
    from "2.IH"(2)[OF skill Unseen inner refl outer this "2.prems"(3)]
    have b: "search_ok skills s'" "marks_kept (st1(i := Visited)) (fst s')" "\<forall>j \<in> set ids. fst s' j = Visited"
      unfolding fst_conv by blast+
    have "fst s' i = Visited" using b(2)[unfolded marks_kept_def, rule_format, of i] by simp
    then show ?thesis using b marks_kept_visit[OF a(2) b(2) Unseen] by simp
  qed
qed

lemma visitSkills_fails:
  "visitSkills skills s ids = Inl e \<Longrightarrow> (\<And>v x. fst s v = Visiting \<Longrightarrow> x \<in> set ids \<Longrightarrow> (v, x) \<in> (depends skills)\<^sup>+) \<Longrightarrow>
   (\<exists>y \<in> set ids. \<exists>x. (y, x) \<in> (depends skills)\<^sup>* \<and> mget skills x = None) \<or> \<not> acyclic (depends skills)"
proof (induction skills s ids rule: visitSkills.induct)
  case (2 skills state resolved i ids)
  show ?case
  proof (cases "mget skills i")
    case None
    then show ?thesis by auto
  next
    case skill: (Some skill)
    have path: "state v = Visiting \<Longrightarrow> (v, i) \<in> (depends skills)\<^sup>+" for v using "2.prems"(2)[of v i] by simp
    have rest: "fst (state, resolved) v = Visiting \<Longrightarrow> x \<in> set ids \<Longrightarrow> (v, x) \<in> (depends skills)\<^sup>+" for v x
      using "2.prems"(2)[of v x] by simp
    show ?thesis
    proof (cases "state i")
      case Visiting
      then have "(i, i) \<in> (depends skills)\<^sup>+" by (rule path)
      then show ?thesis unfolding acyclic_def by blast
    next
      case Visited
      then have "visitSkills skills (state, resolved) ids = Inl e" using "2.prems"(1) skill by simp
      from "2.IH"(3)[OF skill Visited this rest] show ?thesis by auto
    next
      case Unseen
      have edge: "x \<in> set (sk_Dependencies skill) \<Longrightarrow> (i, x) \<in> depends skills" for x using skill by (auto simp: depends_def)
      show ?thesis
      proof (cases "visitSkills skills (state(i := Visiting), resolved) (sk_Dependencies skill)")
        case (Inl e')
        have "(v, x) \<in> (depends skills)\<^sup>+" if "fst (state(i := Visiting), resolved) v = Visiting" "x \<in> set (sk_Dependencies skill)" for v x
          using that edge[OF that(2)] path[of v] by (cases "v = i") (auto intro: trancl_into_trancl)
        from "2.IH"(1)[OF skill Unseen _ this] Inl "2.prems"(1) skill Unseen
        have "(\<exists>y \<in> set (sk_Dependencies skill). \<exists>x. (y, x) \<in> (depends skills)\<^sup>* \<and> mget skills x = None) \<or> \<not> acyclic (depends skills)"
          by simp
        then show ?thesis using edge by (meson converse_rtrancl_into_rtrancl list.set_intros(1))
      next
        case (Inr z)
        obtain st1 r1 where z: "z = (st1, r1)" by (cases z)
        have kept: "marks_kept (state(i := Visiting)) st1"
          using Inr[unfolded z] by (rule visitSkills_marks[of _ "(state(i := Visiting), resolved)" _ "(st1, r1)", unfolded fst_conv])
        have "fst (st1(i := Visited), r1 @ [skill]) v = Visiting \<Longrightarrow> state v = Visiting" for v
          using kept[unfolded marks_kept_def, rule_format, of v] by (cases "v = i") auto
        moreover have "visitSkills skills (st1(i := Visited), r1 @ [skill]) ids = Inl e" using "2.prems"(1) Inr z skill Unseen by simp
        ultimately show ?thesis using "2.IH"(2)[OF skill Unseen Inr z[symmetric]] rest by auto
      qed
    qed
  qed
qed simp

text \<open>
  C27. Resolving skills comes to an end with each needed skill once, after its dependencies: the requested
  skills are among the result, every skill of it is the catalog's and follows all it depends on. It
  succeeds whenever the skills that are needed exist and dependencies have no cycle.
\<close>

theorem skills_resolved_in_order:
  assumes "mkeyed sk_ID skills"
  shows "(\<forall>resolved. ResolveSkills skills ids = Inr resolved \<longrightarrow>
            set ids \<subseteq> sk_ID ` set resolved \<and> distinct (map sk_ID resolved) \<and> ordered_skills skills {} resolved)
     \<and> (acyclic (depends skills) \<and> (\<forall>y \<in> set ids. \<forall>x. (y, x) \<in> (depends skills)\<^sup>* \<longrightarrow> mget skills x \<noteq> None) \<longrightarrow>
            (\<exists>resolved. ResolveSkills skills ids = Inr resolved))"
proof (cases "visitSkills skills (\<lambda>_. Unseen, []) ids")
  case (Inl e)
  then have "(\<exists>y \<in> set ids. \<exists>x. (y, x) \<in> (depends skills)\<^sup>* \<and> mget skills x = None) \<or> \<not> acyclic (depends skills)"
    by (rule visitSkills_fails) simp
  then show ?thesis using Inl by (auto simp: ResolveSkills_def)
next
  case (Inr s)
  have "search_ok skills (\<lambda>_. Unseen, [])" by (simp add: search_ok_def)
  from visitSkills_ok[OF assms Inr this] Inr show ?thesis
    by (cases s) (auto simp: ResolveSkills_def search_ok_def)
qed

theorem skills_resolved_in_order_witness:
  "ordered_skills [(''b'', \<lparr>sk_ID = ''b'', sk_Description = ''d'', sk_Dependencies = [''a''], sk_Tools = [], sk_Body = '''', sk_SHA256 = ''''\<rparr>),
      (''a'', \<lparr>sk_ID = ''a'', sk_Description = ''d'', sk_Dependencies = [], sk_Tools = [], sk_Body = '''', sk_SHA256 = ''''\<rparr>)] {}
     [\<lparr>sk_ID = ''a'', sk_Description = ''d'', sk_Dependencies = [], sk_Tools = [], sk_Body = '''', sk_SHA256 = ''''\<rparr>,
      \<lparr>sk_ID = ''b'', sk_Description = ''d'', sk_Dependencies = [''a''], sk_Tools = [], sk_Body = '''', sk_SHA256 = ''''\<rparr>]"
  (is "ordered_skills ?skills {} ?resolved")
proof -
  have "mkeyed sk_ID ?skills" by (simp add: mkeyed_def)
  moreover have "ResolveSkills ?skills [''b''] = Inr ?resolved" by code_simp
  ultimately show ?thesis using skills_resolved_in_order[of ?skills "[''b'']"] by blast
qed

section \<open>What is assembled\<close>

lemma BundleOf_role: "BundleOf catalog role operation = Inr pack \<Longrightarrow> isAgentRole role"
  by (auto simp: BundleOf_def directSkills_def isAgentRole_def and_then_Inr split: if_splits)

lemma BundleOf_tools:
  assumes "BundleOf catalog role operation = Inr pack" "tool \<in> set (bu_EffectiveTools pack)"
  shows "tool \<in> set (InvocationCapabilityTools role operation) \<and> tool \<in> set (ct_availableTools catalog)
     \<and> (\<exists>skill \<in> set (bu_Skills pack). tool \<in> set (sk_Tools skill))"
  using assms by (auto simp: BundleOf_def intersectTools_def and_then_Inr checked_Inr Let_def split: option.splits)

lemma ValidateInvocation_None:
  assumes "ValidateInvocation v = None"
  shows "\<not> IsZeroID (iv_ID v)" "\<not> IsZeroID (iv_ActorPrincipalID v)" "\<not> IsZeroID (iv_ProjectID v)" "iv_Role v \<noteq> ''''" "iv_EffectiveTools v \<noteq> []"
    and "IsPhase (iv_Role v) \<Longrightarrow> \<not> IsZeroID (iv_TaskID v)"
    and "if iv_Role v = RoleContext then iv_Operation v \<in> {''retrieve'', ''curate'', ''review''} else iv_Operation v = ''''"
    and "(iv_ConsumerInvocationID v \<noteq> '''' \<or> iv_ConsumerTaskID v \<noteq> '''' \<or> iv_ConsumerRole v \<noteq> '''') \<Longrightarrow>
      iv_Role v = RoleContext \<and> iv_Operation v = ''retrieve''"
    and "iv_ConsumerRole v \<noteq> '''' \<Longrightarrow> isAgentRole (iv_ConsumerRole v)"
  using assms by (auto simp: ValidateInvocation_def first_err_None fail_if_None RequireID_None isAgentRole_def split: if_splits)

text \<open>
  C26. What is assembled for an invocation is what an agent token is issued for: the capability of an
  assembled invocation passes the authenticator's own checks until it expires, for the principal of the
  invocation. Each tool of it is one the role and the operation allow, the runtime has, and a skill
  loaded for the role declares.
\<close>

theorem assembled_invocation_gets_token:
  assumes "Assemble hash order catalog v data = Inr assembly" "After (iv_ExpiresAt v) now"
  shows "fst (IssueAgentToken digest None now (Inr secret) store (iv_ActorPrincipalID v) (CapabilityOf (ay_Invocation assembly))) = Inr secret
     \<and> (\<exists>pack. BundleOf catalog (iv_Role v) (iv_Operation v) = Inr pack \<and> (\<forall>tool \<in> set (ca_Tools (CapabilityOf (ay_Invocation assembly))).
          operationAllowsTool (iv_Role v) (iv_Operation v) tool \<and> tool \<in> set (ct_availableTools catalog)
          \<and> (\<exists>skill \<in> set (bu_Skills pack). tool \<in> set (sk_Tools skill))))"
proof -
  let ?i = "ay_Invocation assembly"
  obtain pack where pack: "BundleOf catalog (iv_Role v) (iv_Operation v) = Inr pack"
    and valid: "ValidateInvocation ?i = None"
    and i: "iv_Role ?i = iv_Role v" "iv_Operation ?i = iv_Operation v" "iv_ExpiresAt ?i = iv_ExpiresAt v" "iv_ActorPrincipalID ?i = iv_ActorPrincipalID v"
      "iv_EffectiveTools ?i = bu_EffectiveTools pack"
    using assms(1) by (auto simp: Assemble_def Let_def and_then_Inr checked_Inr)
  note facts = ValidateInvocation_None[OF valid]
  have tools: "operationAllowsTool (iv_Role v) (iv_Operation v) tool \<and> tool \<in> set (ct_availableTools catalog)
      \<and> (\<exists>skill \<in> set (bu_Skills pack). tool \<in> set (sk_Tools skill))" if "tool \<in> set (iv_EffectiveTools ?i)" for tool
    using BundleOf_tools[OF pack] that i(5) by (simp add: InvocationCapabilityTools_def)
  then have allowed: "roleAllowsTool (iv_Role v) tool" if "tool \<in> set (iv_EffectiveTools ?i)" for tool
    using that operation_within_role by blast
  have "validateCapability (CapabilityOf ?i) now = None"
    unfolding validateCapability_def first_err_None
    using facts i BundleOf_role[OF pack] tools allowed assms(2)
    by (auto simp: CapabilityOf_def RequireID_None fail_if_None check_all_None first_err_None)
  then have "first_err [RequireID ''actor_principal_id'' (iv_ActorPrincipalID v), validateCapability (CapabilityOf ?i) now] = None"
    using facts(2) i(4) by (simp add: RequireID_def)
  then have "fst (IssueAgentToken digest None now (Inr secret) store (iv_ActorPrincipalID v) (CapabilityOf ?i)) = Inr secret"
    by (simp add: IssueAgentToken_def PutToken_def)
  moreover have "set (ca_Tools (CapabilityOf ?i)) = set (iv_EffectiveTools ?i)" by (simp add: CapabilityOf_def)
  ultimately show ?thesis using pack tools by auto
qed

text \<open>An invocation of the planner; the catalog has the skills of a phase, one with a tool.\<close>

definition ex_skill :: "string \<Rightarrow> Skill" where
  "ex_skill i = \<lparr>sk_ID = i, sk_Description = ''d'', sk_Dependencies = [],
     sk_Tools = (if i = ''phase-submit'' then [ToolAgentSubmitPhaseOutput] else []), sk_Body = '''', sk_SHA256 = ''h''\<rparr>"

definition ex_catalog :: Catalog where
  "ex_catalog = \<lparr>ct_Prompts = map (\<lambda>i. (i, \<lparr>as_ID = i, as_Body = ''p'', as_SHA256 = ''h''\<rparr>)) [''shared'', ''planner''],
     ct_Skills = map (\<lambda>i. (i, ex_skill i)) [''context-navigation'', ''context-subscription'', ''context-retrieval-request'',
       ''phase-runtime'', ''orchestration-escalation'', ''task-memory'', ''phase-submit'', ''planning-delivery''],
     ct_availableTools = [ToolAgentSubmitPhaseOutput]\<rparr>"

definition ex_prepared :: Invocation where
  "ex_prepared = zeroInvocation\<lparr>iv_ID := ''inv'', iv_ActorPrincipalID := ''actor'', iv_ProjectID := ''p'', iv_TaskID := ''build'',
     iv_EndpointID := ''plan'', iv_Generation := 1, iv_Role := RolePlanner, iv_Status := InvocationPrepared, iv_BindingRef := ''b1'',
     iv_LeaseID := ''lease'', iv_CreatedAt := Some 5, iv_ExpiresAt := Some 10\<rparr>"

definition ex_data :: RenderData where
  "ex_data = \<lparr>rd_RuntimeEnvelope = ''e'', rd_BoundaryInput = '''', rd_StartOrResumeInput = ''s'', rd_TaskContract = '''', rd_PhaseSpec = '''',
     rd_WorkspaceBinding = '''', rd_ContextSlice = '''', rd_TaskMemoryBuffer = '''', rd_RepositoryPolicy = '''', rd_LatestEvents = ''''\<rparr>"

theorem assembled_invocation_gets_token_witness:
  "\<exists>assembly. Assemble (\<lambda>s. s) [''{{RUNTIME_ENVELOPE}}''] ex_catalog ex_prepared ex_data = Inr assembly
     \<and> fst (IssueAgentToken (\<lambda>s. s) None 7 (Inr ''secret'') NewAuthStore ''actor'' (CapabilityOf (ay_Invocation assembly))) = Inr ''secret''"
proof -
  have "case Assemble (\<lambda>s. s) [''{{RUNTIME_ENVELOPE}}''] ex_catalog ex_prepared ex_data of Inl _ \<Rightarrow> False | Inr _ \<Rightarrow> True" by code_simp
  then obtain assembly where a: "Assemble (\<lambda>s. s) [''{{RUNTIME_ENVELOPE}}''] ex_catalog ex_prepared ex_data = Inr assembly"
    by (auto split: sum.splits)
  have "After (iv_ExpiresAt ex_prepared) 7" "iv_ActorPrincipalID ex_prepared = ''actor''" by code_simp+
  with assembled_invocation_gets_token[OF a, of 7 "\<lambda>s. s" "''secret''" NewAuthStore] a show ?thesis by auto
qed

end
