(* ===== verification/Phase_Properties.thy ===== *)
theory Phase_Properties
  imports Phase_Operations_Inv Phase_Frame Runtime_Properties Catalog_Properties
begin

text \<open>
  The properties of the phase controller: over all its reachable states, for one accepted output, for
  one command, and for the port through which the graph runtime delivers commands.
\<close>

section \<open>Steps\<close>

text \<open>
  A step is one operation with any answers of the collaborators. The calls that are inside the input
  runtime are the second part of the state, each with the copy of the active invocation it took. A
  restart loses the controller's maps and these calls; the graph may change on its own as long as it
  makes up no outcome.
\<close>

type_synonym phase_system = "Controller \<times> (InvocationID \<times> ActiveInvocation) list"

inductive phase_step :: "'w PhaseEnv \<Rightarrow> phase_system \<Rightarrow> phase_system \<Rightarrow> bool" for env where
  apply_command: "Apply env command (c, w) = (r, d, w') \<Longrightarrow> phase_step env (c, waits) (d, waits)"
| submit_output: "SubmitPhaseOutput env i output (c, w) = (r', d, w') \<Longrightarrow> phase_step env (c, waits) (d, waits)"
| await_begins: "beginAwait env i req (c, w) = (Ok a, d, w') \<Longrightarrow> phase_step env (c, waits) (d, (i, a) # waits)"
| await_refused: "beginAwait env i req (c, w) = (r'', d, w') \<Longrightarrow> (\<forall>a. r'' \<noteq> Ok a) \<Longrightarrow> phase_step env (c, waits) (d, waits)"
| await_ends: "(i, a) \<in> set waits \<Longrightarrow> endAwait env i a result (c, w) = (r3, d, w') \<Longrightarrow>
    phase_step env (c, waits) (d, remove1 (i, a) waits)"
| await_fails: "phase_step env (c, waits) (c, remove1 wait waits)"
| inputs_changed: "OnInputsChanged env i inputs (c, w) = (r, d, w') \<Longrightarrow> phase_step env (c, waits) (d, waits)"
| context_delta: "OnContextDelta env i (c, w) = (r, d, w') \<Longrightarrow> phase_step env (c, waits) (d, waits)"
| fail_invocation: "FailInvocation env command (c, w) = (r, d, w') \<Longrightarrow> phase_step env (c, waits) (d, waits)"
| abandon_invocation: "AbandonInvocation env command (c, w) = (r, d, w') \<Longrightarrow> phase_step env (c, waits) (d, waits)"
| restart: "phase_step env (c, waits) (NewController (co_store c) (co_graph c), [])"
| graph_moves: "(\<forall>p. \<forall>ob \<in> set (observed g p). ob_Kind ob \<in> {phaseObservationOutput, phaseObservationFailed} \<longrightarrow>
      (\<exists>q. \<exists>old \<in> set (observed (co_graph c) q). ob_Kind old = ob_Kind ob \<and> ob_CommandID old = ob_CommandID ob)) \<Longrightarrow>
    phase_step env (c, waits) (c\<lparr>co_graph := g\<rparr>, waits)"

definition phase_start :: phase_system where
  "phase_start = (NewController NewMemoryInvocationStore NewMemoryStore, [])"

definition phase_reachable :: "'w PhaseEnv \<Rightarrow> phase_system \<Rightarrow> bool" where
  "phase_reachable env s \<longleftrightarrow> (phase_step env)\<^sup>*\<^sup>* phase_start s"

definition controller_ok :: "'w PhaseEnv \<Rightarrow> MemoryInvocationStore \<Rightarrow> phase_system \<Rightarrow> bool" where
  "controller_ok env store0 s \<longleftrightarrow> phase_ok env store0 (fst s) \<and> (\<forall>(i, a) \<in> set (snd s). active_ok env i a)"

lemma keeps_run: "phase_keeps env store0 m c \<Longrightarrow> m (c, w) = (r, d, w') \<Longrightarrow> phase_ok env store0 d"
  using wpD[of m "\<lambda>_. phase_ok env store0" "phase_ok env store0" c w] by (cases r) auto

lemma phase_ok_restart: "phase_ok env store0 c \<Longrightarrow> phase_ok env store0 (NewController (co_store c) (co_graph c))"
  by (simp add: phase_parts NewController_def actives_ok_def receipts_ok_def)

lemma phase_ok_graph:
  assumes "phase_ok env store0 c"
    and "\<forall>p. \<forall>ob \<in> set (observed g p). ob_Kind ob \<in> {phaseObservationOutput, phaseObservationFailed} \<longrightarrow>
      (\<exists>q. \<exists>old \<in> set (observed (co_graph c) q). ob_Kind old = ob_Kind ob \<and> ob_CommandID old = ob_CommandID ob)"
  shows "phase_ok env store0 (c\<lparr>co_graph := g\<rparr>)"
proof -
  have "outcome_ok env (co_store c) ob" if laws: "recovery_laws env" and "ob \<in> set (observed g p)" for p ob
  proof (cases "ob_Kind ob \<in> {phaseObservationOutput, phaseObservationFailed}")
    case True
    with assms(2) that(2) obtain q old where old: "old \<in> set (observed (co_graph c) q)" "ob_Kind old = ob_Kind ob"
      "ob_CommandID old = ob_CommandID ob" by blast
    then have "outcome_ok env (co_store c) old" using assms(1) laws unfolding phase_parts outcomes_ok_def by blast
    with old(2,3) show ?thesis by (simp add: outcome_ok_def)
  next
    case False
    then show ?thesis by (simp add: outcome_ok_def)
  qed
  then show ?thesis using assms(1) by (simp add: phase_parts outcomes_ok_def)
qed

lemma phase_step_ok:
  "phase_step env s t \<Longrightarrow> controller_ok env store0 s \<Longrightarrow> controller_ok env store0 t"
proof (induction rule: phase_step.induct)
  case (await_begins i req c w a d w' waits)
  then show ?case using wpD[OF wp_beginAwait, of env store0 c i req w] by (simp add: controller_ok_def)
next
  case (await_refused i req c w r d w' waits)
  then have "phase_keeps env store0 (beginAwait env i req) c" by (intro wp_mono[OF wp_beginAwait]) (auto simp: controller_ok_def)
  from keeps_run[OF this await_refused.hyps(1)] await_refused.prems show ?case by (simp add: controller_ok_def)
next
  case (await_ends i a waits result c w r d w')
  then have "phase_keeps env store0 (endAwait env i a result) c" by (intro keep_endAwait) (auto simp: controller_ok_def)
  from keeps_run[OF this await_ends.hyps(2)] await_ends.prems show ?case
    by (auto simp: controller_ok_def dest: set_mp[OF set_remove1_subset])
next
  case (await_fails c waits wait)
  then show ?case by (auto simp: controller_ok_def dest: set_mp[OF set_remove1_subset])
next
  case (restart c waits)
  then show ?case by (simp add: controller_ok_def phase_ok_restart)
next
  case (graph_moves g c waits)
  then show ?case by (simp add: controller_ok_def phase_ok_graph)
qed (auto simp: controller_ok_def FailInvocation_def AbandonInvocation_def
    intro: keeps_run keep_Apply keep_SubmitPhaseOutput keep_OnInputsChanged keep_OnContextDelta keep_closeInvocation)

lemma phase_steps_ok:
  "(phase_step env)\<^sup>*\<^sup>* s t \<Longrightarrow> controller_ok env store0 s \<Longrightarrow> controller_ok env store0 t"
  by (induction rule: rtranclp_induct) (auto intro: phase_step_ok)

lemma phase_start_ok: "controller_ok env NewMemoryInvocationStore phase_start"
  by (simp add: controller_ok_def phase_start_def phase_parts NewController_def NewMemoryInvocationStore_def actives_ok_def receipts_ok_def
      outcomes_ok_def observed_def newProject_def newMemoryRuntimeState_def)

lemma phase_reachable_ok:
  assumes "phase_reachable env s"
  shows "controller_ok env (co_store (fst s)) s"
proof -
  have "controller_ok env NewMemoryInvocationStore s"
    using phase_steps_ok[OF _ phase_start_ok] assms by (simp add: phase_reachable_def)
  then show ?thesis by (simp add: controller_ok_def phase_ok_def)
qed

section \<open>An example\<close>

text \<open>
  The plan phase of the example task runs and submits its output. The collaborators agree to everything.
\<close>

definition ex_inputs :: PhaseInputSet where
  "ex_inputs = zeroInputs\<lparr>
     in_Required := [\<lparr>ir_InputID = ''i1'', ir_FromEndpoint = mkRef ''design'' ''verify'', ir_RequiredArtifacts = [''a''], ir_RequiredBy = ''completion''\<rparr>],
     in_Delivered := [\<lparr>id_InputID = ''i1'', id_FromEndpoint = mkRef ''design'' ''verify'', id_PhaseOutputRef = ''o'', id_ArtifactRefs = [''a'', ''b''],
       id_SourceRevision = ''s''\<rparr>]\<rparr>"

definition ex_binding :: BindingSnapshot where
  "ex_binding = zeroBinding\<lparr>bs_ProjectID := ''p'', bs_ActorPrincipalID := ''actor'', bs_TaskID := ''build'', bs_EndpointID := ''plan'',
     bs_Generation := 1, bs_BindingRef := ''b1'', bs_LeaseRef := ''lease:build:plan:1'', bs_WorkspaceRef := ''ws'',
     bs_WorkspaceRevision := ''r1'', bs_Inputs := ex_inputs\<rparr>"

definition ex_invocation :: InvocationID where
  "ex_invocation = ''inv_cmd:run:build:plan:1''"

text \<open>The recovery store gives the stop command back with the invocation, as the Postgres store does.\<close>

definition ex_recovery :: "unit RecoveryStore" where
  "ex_recovery = \<lparr>rs_RecordActiveInvocation = (\<lambda>_ w. (None, w)),
     rs_RecoverActiveInvocation = (\<lambda>command binding w. (Inr (Some \<lparr>ai_Invocation = zeroInvocation\<lparr>iv_ID := ex_invocation\<rparr>, ai_Command = command,
       ai_Binding = binding, ai_Inputs = bs_Inputs binding, ai_Revoked = False\<rparr>), w)),
     rs_RecordOutputReceipt = (\<lambda>_ _ w. (None, w)), rs_GetOutputReceipt = (\<lambda>_ _ w. (Inr None, w)),
     rs_RecordStopEvidence = (\<lambda>_ _ _ w. (None, w)), rs_GetStopEvidence = (\<lambda>_ _ w. (Inr None, w)),
     rs_ClearActiveInvocation = (\<lambda>_ w. (None, w)), rs_ValidateResume = (\<lambda>_ _ w. (None, w))\<rparr>"

definition ex_env :: "unit PhaseEnv" where
  "ex_env = \<lparr>pe_ctx = (\<lambda>w. (None, w)), pe_now = (\<lambda>w. (5, w)), pe_order = (\<lambda>w. ([], w)), pe_ttl = 3600, pe_hash = (\<lambda>s. s),
     pe_idHash = (\<lambda>s. s), pe_digest = (\<lambda>_. Inr ''d''), pe_commandHash = (\<lambda>c. Inr (cmd_Action c)), pe_outputHash = (\<lambda>po. Inr (po_ReportRef po)),
     pe_envelopeJSON = (\<lambda>_. Inr ''e''), pe_startJSON = (\<lambda>_. Inr ''s''), pe_catalog = ex_catalog,
     pe_Resolve = (\<lambda>_ w. (Inr ex_binding, w)), pe_Refresh = (\<lambda>_ w. (Inr ex_binding, w)),
     pe_AwaitInputs = (\<lambda>_ _ w. (Inl (Plain ''closed''), w)), pe_Route = (\<lambda>_ ref w. (Inr ref, w)),
     pe_Dispatch = (\<lambda>_ w. (None, w)), pe_Rehydrate = (\<lambda>_ w. (None, w)), pe_Suspend = (\<lambda>_ w. (None, w)),
     pe_Stop = (\<lambda>_ w. (Inr \<lparr>sv_ResumeStateRef = '''', sv_CheckpointRef = '''', sv_WorkspaceRevision = '''', sv_NonResumable = True\<rparr>, w)),
     pe_Fence = (\<lambda>_ w. (None, w)), pe_Revoke = (\<lambda>_ w. (None, w)), pe_Complete = (\<lambda>_ w. (None, w)), pe_End = (\<lambda>_ w. (None, w)),
     pe_recovery = Some ex_recovery, pe_observes = True\<rparr>"

definition ex_phase_output :: PhaseOutput where
  "ex_phase_output = \<lparr>po_Phase = ''plan'', po_DeliveryRefs = [''d1''], po_ReportRef = ''report'', po_EvidenceRefs = []\<rparr>"

definition ex_idle :: Controller where
  "ex_idle = NewController NewMemoryInvocationStore example_claimed"

definition ex_running :: Controller where
  "ex_running = fst (snd (Apply ex_env example_command (ex_idle, ())))"

definition ex_submitted :: Controller where
  "ex_submitted = fst (snd (SubmitPhaseOutput ex_env ex_invocation ex_phase_output (ex_running, ())))"

definition ex_observed :: "phaseObservation list" where
  "ex_observed = observed (co_graph ex_submitted) ''p''"

lemma ex_laws: "recovery_laws ex_env"
  by (simp add: recovery_laws_def ex_env_def ex_recovery_def)

lemma ex_run:
  "(case Apply ex_env example_command (ex_idle, ()) of (r, c, w) \<Rightarrow>
    case SubmitPhaseOutput ex_env ex_invocation ex_phase_output (c, w) of (q, d, v) \<Rightarrow>
      (r, status_of (co_store c) ex_invocation, map_option (\<lambda>a. (ai_Inputs a, iv_ProjectID (ai_Invocation a), ai_Command a, ai_Revoked a)) (mget (co_active c) ex_invocation), case q of Ok _ \<Rightarrow> True | _ \<Rightarrow> False,
       status_of (co_store d) ex_invocation, map (\<lambda>ob. (ob_Kind ob, ob_CommandID ob)) (observed (co_graph d) ''p'')))
   = (Ok (), Some InvocationRunning, Some (ex_inputs, ''p'', example_command, False), True, Some InvocationCompleted,
      [(phaseObservationStarted, ''cmd:run:build:plan:1''), (phaseObservationOutput, ''cmd:run:build:plan:1'')])"
  by code_simp

lemma ex_runs:
  "Apply ex_env example_command (ex_idle, ()) = (Ok (), ex_running, ())"
  "\<exists>receipt. SubmitPhaseOutput ex_env ex_invocation ex_phase_output (ex_running, ()) = (Ok receipt, ex_submitted, ())"
  "status_of (co_store ex_running) ex_invocation = Some InvocationRunning"
  "map_option (\<lambda>a. (ai_Inputs a, iv_ProjectID (ai_Invocation a), ai_Command a, ai_Revoked a)) (mget (co_active ex_running) ex_invocation)
     = Some (ex_inputs, ''p'', example_command, False)"
  "status_of (co_store ex_submitted) ex_invocation = Some InvocationCompleted"
  "map (\<lambda>ob. (ob_Kind ob, ob_CommandID ob)) ex_observed =
     [(phaseObservationStarted, ''cmd:run:build:plan:1''), (phaseObservationOutput, ''cmd:run:build:plan:1'')]"
  using ex_run
  by (cases "Apply ex_env example_command (ex_idle, ())";
      cases "SubmitPhaseOutput ex_env ex_invocation ex_phase_output (snd (Apply ex_env example_command (ex_idle, ())))";
      simp add: ex_running_def ex_submitted_def ex_observed_def split: outcome.splits)+

lemma ex_reachable: "phase_reachable ex_env (ex_running, [])" "phase_reachable ex_env (ex_submitted, [])"
proof -
  have quiet: "list_all (\<lambda>ob. ob_Kind ob \<notin> {phaseObservationOutput, phaseObservationFailed}) (observed example_claimed ''p'')"
    by code_simp
  have only: "map fst (ms_projects example_claimed) = [''p'']" by code_simp
  have "ob_Kind ob \<notin> {phaseObservationOutput, phaseObservationFailed}" if "ob \<in> set (observed example_claimed q)" for q ob
  proof (cases "q = ''p''")
    case True
    then show ?thesis using quiet that by (simp add: list_all_iff)
  next
    case False
    then have "mget (ms_projects example_claimed) q = None" using only by (simp add: mget_None_iff del: set_map)
    then show ?thesis using that by (simp add: observed_def ensureProject_def newProject_def newMemoryRuntimeState_def)
  qed
  then have "phase_step ex_env (fst phase_start, []) ((fst phase_start)\<lparr>co_graph := example_claimed\<rparr>, [])"
    by (intro phase_step.graph_moves) blast
  then have "phase_step ex_env phase_start (ex_idle, [])" by (simp add: phase_start_def ex_idle_def NewController_def)
  then show running: "phase_reachable ex_env (ex_running, [])"
    using phase_step.apply_command[OF ex_runs(1), of "[]"] unfolding phase_reachable_def by (meson rtranclp.rtrancl_into_rtrancl rtranclp.rtrancl_refl)
  obtain receipt where "SubmitPhaseOutput ex_env ex_invocation ex_phase_output (ex_running, ()) = (Ok receipt, ex_submitted, ())"
    using ex_runs(2) by blast
  from phase_step.submit_output[OF this, of "[]"] running show "phase_reachable ex_env (ex_submitted, [])"
    unfolding phase_reachable_def by (meson rtranclp.rtrancl_into_rtrancl)
qed

section \<open>Over all reachable states\<close>

text \<open>
  C9. What the controller has stored of an invocation never changes but for its status, and the status
  moves along the machine of the invocation store: once an invocation is stopped, completed or failed,
  it stays so, whatever commands, outputs, failures and restarts follow and whatever the recovery store
  and the other collaborators answer.
\<close>

theorem invocation_record_final:
  assumes "phase_reachable env s" "(phase_step env)\<^sup>*\<^sup>* s t"
    and "mget (is_invocations (co_store (fst s))) i = Some v"
  shows "\<exists>st. mget (is_invocations (co_store (fst t))) i = Some (v\<lparr>iv_Status := st\<rparr>) \<and> status_path (iv_Status v) st
     \<and> (terminal_status (iv_Status v) \<longrightarrow> st = iv_Status v)"
proof -
  have "controller_ok env (co_store (fst s)) t"
    by (rule phase_steps_ok[OF assms(2) phase_reachable_ok[OF assms(1)]])
  then have "store_evolves (co_store (fst s)) (co_store (fst t))" by (simp add: controller_ok_def phase_ok_def)
  with assms(3) obtain st where "mget (is_invocations (co_store (fst t))) i = Some (v\<lparr>iv_Status := st\<rparr>)" "status_path (iv_Status v) st"
    unfolding store_evolves_def by blast
  then show ?thesis using terminal_stays by blast
qed

text \<open>A stop command that comes after the output changes nothing about the completed invocation.\<close>

definition ex_stop :: PhaseCommand where
  "ex_stop = example_command\<lparr>cmd_ID := ''cmd:stop:lease:build:plan:1'', cmd_Action := CommandStop\<rparr>"

theorem invocation_record_final_witness:
  "status_of (co_store (fst (snd (Apply ex_env ex_stop (ex_submitted, ()))))) ex_invocation = Some InvocationCompleted"
proof -
  obtain v where v: "mget (is_invocations (co_store (fst (ex_submitted, [] :: (InvocationID \<times> ActiveInvocation) list)))) ex_invocation = Some v"
    and st: "iv_Status v = InvocationCompleted" using ex_runs(5) by (auto simp: status_of_def)
  let ?t = "(fst (snd (Apply ex_env ex_stop (ex_submitted, ()))), [])"
  have "phase_step ex_env (ex_submitted, []) ?t"
    by (cases "Apply ex_env ex_stop (ex_submitted, ())") (auto intro: phase_step.apply_command)
  from invocation_record_final[OF ex_reachable(2) r_into_rtranclp[of "phase_step ex_env", OF this] v] st
  show ?thesis by (auto simp: status_of_def terminal_statuses)
qed

text \<open>
  C10. The graph hears one outcome per run, and it is the invocation's: an output or a failure in the log
  of observations means that the invocation of its command has completed or has failed, and no other
  entry of the log, in whichever project, reports the other outcome for that command. Changes that the
  graph makes on its own are among the steps, as long as they make up no outcome. What is assumed is
  \<open>recovery_laws\<close>: the recovery store hands an invocation back with the command it was asked with, as the
  Postgres store does with the stop command, or with the command of its run; and a receipt that it returns for an
  invocation and that names a start or resume command names the command of that run.
\<close>

theorem reported_outcome_agrees:
  assumes "recovery_laws env" "phase_reachable env s" "ob \<in> set (observed (co_graph (fst s)) p)"
    and "ob_Kind ob \<in> {phaseObservationOutput, phaseObservationFailed}"
  shows "status_of (co_store (fst s)) (deterministicInvocationID env (ob_CommandID ob))
       = Some (if ob_Kind ob = phaseObservationOutput then InvocationCompleted else InvocationFailed)
     \<and> (\<forall>q. \<forall>other \<in> set (observed (co_graph (fst s)) q).
          ob_CommandID other = ob_CommandID ob \<and> ob_Kind other \<in> {phaseObservationOutput, phaseObservationFailed} \<longrightarrow>
          ob_Kind other = ob_Kind ob)"
proof -
  have "outcomes_ok env (co_store (fst s)) (co_graph (fst s))"
    using phase_reachable_ok[OF assms(2)] by (simp add: controller_ok_def phase_parts)
  then have ok: "outcome_ok env (co_store (fst s)) o'" if "o' \<in> set (observed (co_graph (fst s)) q)" for o' q
    using that assms(1) by (simp add: outcomes_ok_def)
  have "ob_Kind other = ob_Kind ob" if "other \<in> set (observed (co_graph (fst s)) q)"
    "ob_CommandID other = ob_CommandID ob" "ob_Kind other \<in> {phaseObservationOutput, phaseObservationFailed}" for q other
    using ok[OF assms(3)] ok[OF that(1)] that(2,3) assms(4) by (auto simp: outcome_ok_def)
  then show ?thesis using ok[OF assms(3)] assms(4) by (auto simp: outcome_ok_def)
qed

theorem reported_outcome_agrees_witness:
  "status_of (co_store ex_submitted) (deterministicInvocationID ex_env ''cmd:run:build:plan:1'') = Some InvocationCompleted
   \<and> filter (\<lambda>other. ob_CommandID other = ''cmd:run:build:plan:1'' \<and> ob_Kind other = phaseObservationFailed) ex_observed = []"
proof -
  obtain b ob where obs: "ex_observed = [b, ob]" "ob_Kind ob = phaseObservationOutput" "ob_CommandID ob = ''cmd:run:build:plan:1''"
    using ex_runs(6) by (auto simp: map_eq_Cons_conv)
  then have "ob \<in> set (observed (co_graph (fst (ex_submitted, [] :: (InvocationID \<times> ActiveInvocation) list))) ''p'')"
    using ex_observed_def by (metis fst_conv list.set_intros)
  from reported_outcome_agrees[OF ex_laws ex_reachable(2) this] obs(2,3)
  have status: "status_of (co_store ex_submitted) (deterministicInvocationID ex_env ''cmd:run:build:plan:1'') = Some InvocationCompleted"
    and agree: "\<forall>other \<in> set ex_observed. ob_CommandID other = ''cmd:run:build:plan:1'' \<longrightarrow> ob_Kind other \<noteq> phaseObservationFailed"
    unfolding ex_observed_def by fastforce+
  then show ?thesis by (simp add: filter_empty_conv)
qed

section \<open>Commands\<close>

lemma applyAction_frame:
  assumes "applyAction env command (c, w) = (r, d, w')"
  shows "store_step\<^sup>*\<^sup>* (co_graph c) (co_graph d) \<and> co_commands d = co_commands c"
  using wpD[OF frame_applyAction, of "co_graph c" "co_commands c" c env command w] assms by (cases r) (auto simp: framed_def)

lemma finishing_run:
  assumes "finishing i m (c, w) = (r, d, w')"
  obtains "r = Wait" "m (c, w) = (Wait, d, w')"
  | e d' where "r = Err e" "m (c, w) = (Err e, d', w')" "d = recordCommandFinish i (Some e) d'"
  | x d' where "r = Ok ()" "m (c, w) = (Ok x, d', w')" "d = recordCommandFinish i None d'"
  using assms by (auto simp: finishing_def split: prod.splits outcome.splits)

lemma Apply_valid:
  "validateCommand command = None \<Longrightarrow> pe_commandHash env command = Inr fingerprint \<Longrightarrow>
   Apply env command s = andThen (recordCommandStart (cmd_ID command) fingerprint) (\<lambda>(replayed, done, err).
     if replayed \<and> done then checkOp err else finishing (cmd_ID command) (applyAction env command)) s"
  by (simp add: Apply_def andThen_def checkOp_def ret_def liftSum_def)

text \<open>The four ways through \<open>Apply\<close>.\<close>

lemma Apply_cases:
  assumes "Apply env command (c, w) = (r, d, w')"
  obtains (refused) e where "r = Err e" "d = c"
  | (waits) "r = Wait" "d = c"
  | (replayed) fingerprint existing where "validateCommand command = None" "pe_commandHash env command = Inr fingerprint"
      "mget (co_commands c) (cmd_ID command) = Some existing" "pc_fingerprint existing = fingerprint" "\<not> pc_inFlight existing"
      "pc_done existing" "pc_err existing = None" "r = Ok ()" "d = c"
  | (runs) fingerprint c' existing where "validateCommand command = None" "pe_commandHash env command = Inr fingerprint"
      "co_graph c' = co_graph c" "mget (co_commands c') (cmd_ID command) = Some existing" "pc_fingerprint existing = fingerprint"
      "finishing (cmd_ID command) (applyAction env command) (c', w) = (r, d, w')"
proof (cases "validateCommand command")
  case (Some e)
  then have "r = Err e" "d = c" using assms by (simp_all add: Apply_def andThen_def checkOp_def failWith_def)
  then show ?thesis by (rule refused)
next
  case valid: None
  show ?thesis
  proof (cases "pe_commandHash env command")
    case (Inl e)
    then have "r = Err e" "d = c" using assms valid by (simp_all add: Apply_def andThen_def checkOp_def ret_def liftSum_def failWith_def)
    then show ?thesis by (rule refused)
  next
    case (Inr fingerprint)
    note start = assms[unfolded Apply_valid[OF valid Inr] andThen_def recordCommandStart_def prod.case]
    show ?thesis
    proof (cases "mget (co_commands c) (cmd_ID command)")
      case None
      show ?thesis by (rule runs[OF valid Inr]) (use start None in \<open>auto simp: gomap_simps\<close>)
    next
      case (Some existing)
      consider "pc_fingerprint existing \<noteq> fingerprint" | "pc_fingerprint existing = fingerprint" "pc_inFlight existing"
        | "pc_fingerprint existing = fingerprint" "\<not> pc_inFlight existing" "pc_done existing"
        | "pc_fingerprint existing = fingerprint" "\<not> pc_inFlight existing" "\<not> pc_done existing" by blast
      then show ?thesis
      proof cases
        case 3
        then show ?thesis using start Some replayed[OF valid Inr Some] refused
          by (cases "pc_err existing") (auto simp: ret_def failWith_def checkOp_def)
      next
        case 4
        then show ?thesis using start Some runs[OF valid Inr refl Some] by auto
      qed (use start Some refused waits in \<open>auto simp: failWith_def checkOp_def\<close>)
    qed
  qed
qed

lemma Apply_done:
  assumes "Apply env command (c, w) = (Ok (), d, w')"
  obtains existing where "validateCommand command = None" "pe_commandHash env command = Inr (pc_fingerprint existing)"
    "mget (co_commands d) (cmd_ID command) = Some existing" "\<not> pc_inFlight existing" "pc_done existing" "pc_err existing = None"
  using assms
proof (cases rule: Apply_cases)
  case (runs fingerprint c' existing)
  from runs(6) show ?thesis
  proof (cases rule: finishing_run)
    case (3 x d')
    let ?e = "existing\<lparr>pc_inFlight := False, pc_err := None, pc_done := True\<rparr>"
    have "co_commands d' = co_commands c'" using applyAction_frame[OF 3(2)] by simp
    then have "mget (co_commands d) (cmd_ID command) = Some ?e"
      using runs(4) by (simp add: 3(3) recordCommandFinish_def gomap_simps)
    then show ?thesis using runs(1,2,5) by (intro that[of ?e]) simp_all
  qed simp_all
qed (auto intro: that)

text \<open>
  C11. A command takes effect once: after it was applied, delivering it again reports success and touches
  neither the controller nor a collaborator, and another command under the same identifier is refused
  with a command conflict.
\<close>

theorem command_applied_once:
  assumes "Apply env command (c, w) = (Ok (), d, w')"
  shows "(\<forall>v. Apply env command (d, v) = (Ok (), d, v))
     \<and> (\<forall>other v. cmd_ID other = cmd_ID command \<and> validateCommand other = None \<and> (\<exists>f. pe_commandHash env other = Inr f)
          \<and> pe_commandHash env other \<noteq> pe_commandHash env command \<longrightarrow>
          (\<exists>e. Apply env other (d, v) = (Err e, d, v) \<and> IsCode (Some e) CodeCommandConflict))"
proof -
  obtain existing where facts: "validateCommand command = None" "pe_commandHash env command = Inr (pc_fingerprint existing)"
    "mget (co_commands d) (cmd_ID command) = Some existing" "\<not> pc_inFlight existing" "pc_done existing" "pc_err existing = None"
    by (rule Apply_done[OF assms])
  show ?thesis
    using facts by (auto simp: Apply_valid andThen_def checkOp_def recordCommandStart_def ret_def failWith_def IsCode_def)
qed

theorem command_applied_once_witness:
  "Apply ex_env example_command (ex_running, ()) = (Ok (), ex_running, ())"
  using command_applied_once[OF ex_runs(1)] by blast

text \<open>Two continuations that agree wherever the first operation may lead.\<close>

lemma same_andThen:
  assumes "wp m (\<lambda>x d. \<forall>w. k x (d, w) = k' x (d, w)) (\<lambda>_. True) c"
  shows "\<forall>w. andThen m k (c, w) = andThen m k' (c, w)"
proof
  fix w
  obtain r d w' where run: "m (c, w) = (r, d, w')" by (cases "m (c, w)")
  show "andThen m k (c, w) = andThen m k' (c, w)"
    using wpD[OF assms, of w] run by (cases r) (auto simp: andThen_def)
qed

text \<open>All but \<open>launch\<close> is independent of the host's dispatch.\<close>

lemma no_dispatch [simp]:
  "deterministicInvocationID (env\<lparr>pe_Dispatch := dispatch\<rparr>) = deterministicInvocationID env"
    "cleanupResolvedInvocation (env\<lparr>pe_Dispatch := dispatch\<rparr>) = cleanupResolvedInvocation env" "cleanupResolvedBinding (env\<lparr>pe_Dispatch := dispatch\<rparr>) = cleanupResolvedBinding env"
    "checkCheckpoint (env\<lparr>pe_Dispatch := dispatch\<rparr>) = checkCheckpoint env" "newInvocation (env\<lparr>pe_Dispatch := dispatch\<rparr>) = newInvocation env" "getInvocation (env\<lparr>pe_Dispatch := dispatch\<rparr>) = getInvocation env"
    "finishStarted (env\<lparr>pe_Dispatch := dispatch\<rparr>) = finishStarted env" "finishPersistedOutput (env\<lparr>pe_Dispatch := dispatch\<rparr>) = finishPersistedOutput env"
    "pe_Resolve (env\<lparr>pe_Dispatch := dispatch\<rparr>) = pe_Resolve env" "pe_now (env\<lparr>pe_Dispatch := dispatch\<rparr>) = pe_now env"
    "pe_commandHash (env\<lparr>pe_Dispatch := dispatch\<rparr>) = pe_commandHash env"
    "applyStop (env\<lparr>pe_Dispatch := dispatch\<rparr>) = applyStop env"
  by (simp_all add: fun_eq_iff deterministicInvocationID_def cleanupResolvedInvocation_def cleanupResolvedBinding_def checkCheckpoint_def
      newInvocation_def getInvocation_def finishStarted_def recordActive_def withRecovery_def recordInvocationStarted_def observing_def
      finishPersistedOutput_def recordOutputSubmitted_def applyStop_def activeOrRecovered_def recoverActiveByLease_def requireInvocation_def
      stopAlreadyApplied_def stopActive_def clearActive_def finishPersistedStop_def transitionToStopped_def transitionInvocation_def
      recordInvocationStopped_def cong: if_cong option.case_cong sum.case_cong)

lemma wp_checkCheckpoint: "Q () c \<Longrightarrow> E c \<Longrightarrow> wp (checkCheckpoint env command binding) Q E c"
  unfolding checkCheckpoint_def by (intro wp_if wp_option wp_failWith wp_askErr wp_ret)

lemma wp_trivial: "wp m (\<lambda>_ _. True) (\<lambda>_. True) c"
  by (rule wpI) simp_all

lemma wp_recordCommandStart:
  assumes "\<And>x cmds. Q x (c\<lparr>co_commands := cmds\<rparr>)" "E c"
  shows "wp (recordCommandStart i fingerprint) Q E c"
  using assms(1)[of _ "co_commands c"] assms by (intro wpI) (auto simp: recordCommandStart_def split: option.splits if_splits)

lemma applyStartLike_no_dispatch:
  assumes "status_of (co_store c) (deterministicInvocationID env (cmd_ID command)) = Some st" "st \<noteq> InvocationPrepared"
  shows "\<forall>w. applyStartLike (env\<lparr>pe_Dispatch := dispatch\<rparr>) command (c, w) = applyStartLike env command (c, w)"
  unfolding applyStartLike_def Let_def no_dispatch newInvocation_ID
  by (intro same_andThen wp_liftSum wp_askSum wp_cleaning wp_checkOp wp_checkCheckpoint wp_ask_any wp_getInvocation conjI TrueI wp_trivial)
     (use assms in \<open>auto simp: status_of_def\<close>)

text \<open>
  C25. A phase is not dispatched twice: applying a command whose invocation has left the prepared state
  never calls the host's dispatch. Whatever that call would do, the result and every effect are the same.
\<close>

theorem started_invocation_not_redispatched:
  assumes "status_of (co_store c) (deterministicInvocationID env (cmd_ID command)) = Some st" "st \<noteq> InvocationPrepared"
  shows "Apply (env\<lparr>pe_Dispatch := dispatch\<rparr>) command (c, w) = Apply env command (c, w)"
proof -
  have same: "applyAction (env\<lparr>pe_Dispatch := dispatch\<rparr>) command (d, v) = applyAction env command (d, v)" if "co_store d = co_store c" for d v
  proof -
    have "applyStartLike (env\<lparr>pe_Dispatch := dispatch\<rparr>) command (d, v) = applyStartLike env command (d, v)"
      using applyStartLike_no_dispatch[of d env command st dispatch] assms unfolding that by blast
    then show ?thesis unfolding applyAction_def no_dispatch by (simp split: if_split)
  qed
  then have branch: "(case x of (replayed, done, err) \<Rightarrow> if replayed \<and> done then checkOp err
        else finishing (cmd_ID command) (applyAction (env\<lparr>pe_Dispatch := dispatch\<rparr>) command)) (d, v)
      = (case x of (replayed, done, err) \<Rightarrow> if replayed \<and> done then checkOp err
        else finishing (cmd_ID command) (applyAction env command)) (d, v)" if "co_store d = co_store c" for x d v
    using that by (cases x) (simp add: finishing_def)
  have "\<forall>w. Apply (env\<lparr>pe_Dispatch := dispatch\<rparr>) command (c, w) = Apply env command (c, w)"
    unfolding Apply_def no_dispatch
    by (intro same_andThen wp_checkOp wp_liftSum wp_recordCommandStart allI branch TrueI) simp
  then show ?thesis by blast
qed

theorem started_invocation_not_redispatched_witness:
  "Apply (ex_env\<lparr>pe_Dispatch := \<lambda>_ w. (Some (Plain ''dispatched twice''), w)\<rparr>) (example_command\<lparr>cmd_CauseRef := ''again''\<rparr>) (ex_running, ())
   = Apply ex_env (example_command\<lparr>cmd_CauseRef := ''again''\<rparr>) (ex_running, ())"
proof (rule started_invocation_not_redispatched)
  have "deterministicInvocationID ex_env (cmd_ID (example_command\<lparr>cmd_CauseRef := ''again''\<rparr>)) = ex_invocation" by code_simp
  then show "status_of (co_store ex_running) (deterministicInvocationID ex_env (cmd_ID (example_command\<lparr>cmd_CauseRef := ''again''\<rparr>)))
      = Some InvocationRunning" using ex_runs(3) by simp
qed simp

section \<open>The port of the graph runtime\<close>

text \<open>
  What the graph runtime sees of a controller in the state \<open>(c, w)\<close>. A call that waits for a terminal lock
  has not answered yet; the port has no value for this, and only the effect on the graph's store is
  used of it below.
\<close>

definition controllerPort :: "'w PhaseEnv \<Rightarrow> Controller \<Rightarrow> 'w \<Rightarrow> PhaseCommand \<Rightarrow> MemoryStore \<Rightarrow> goerr option \<times> MemoryStore" where
  "controllerPort env c w command graph =
     (case Apply env command (c\<lparr>co_graph := graph\<rparr>, w) of (r, d, _) \<Rightarrow> (case r of Err e \<Rightarrow> Some e | _ \<Rightarrow> None, co_graph d))"

lemma Apply_store_steps:
  assumes "Apply env command (c, w) = (r, d, w')"
  shows "store_step\<^sup>*\<^sup>* (co_graph c) (co_graph d)"
  using assms
proof (cases rule: Apply_cases)
  case (runs fingerprint c' existing)
  from runs(6) show ?thesis
  proof (cases rule: finishing_run)
    case 1
    from applyAction_frame[OF 1(2)] show ?thesis by (simp add: runs(3))
  next
    case (2 e d')
    from applyAction_frame[OF 2(2)] show ?thesis by (simp add: runs(3) 2(3))
  next
    case (3 x d')
    from applyAction_frame[OF 3(2)] show ?thesis by (simp add: runs(3) 3(3))
  qed
qed simp_all

text \<open>
  The phase controller keeps the contract of the port through which the graph runtime delivers
  commands: whatever its state and its collaborators' answers, it uses the graph's store by the store's
  operations only.
\<close>

theorem phase_controller_fits_runtime:
  "controller_steps (r\<lparr>gr_phaseController := Some (controllerPort env c w)\<rparr>)"
proof -
  have "store_step\<^sup>*\<^sup>* s (snd (controllerPort env c w command s))" for command s
    using Apply_store_steps[of env command "c\<lparr>co_graph := s\<rparr>" w]
    by (cases "Apply env command (c\<lparr>co_graph := s\<rparr>, w)") (simp add: controllerPort_def)
  then show ?thesis by (simp add: controller_steps_def)
qed

section \<open>Completion inputs\<close>

text \<open>
  What it means that the inputs of a phase allow its completion. The delivery that counts for an input is
  the last one.
\<close>

definition delivery_complete :: "InputDelivery \<Rightarrow> bool" where
  "delivery_complete d \<longleftrightarrow> id_InputID d \<noteq> '''' \<and> id_PhaseOutputRef d \<noteq> '''' \<and> id_SourceRevision d \<noteq> ''''
     \<and> ref_TaskID (id_FromEndpoint d) \<noteq> '''' \<and> ref_EndpointID (id_FromEndpoint d) \<noteq> ''''"

definition last_delivery :: "InputDelivery list \<Rightarrow> string \<Rightarrow> InputDelivery \<Rightarrow> bool" where
  "last_delivery ds x d \<longleftrightarrow> (\<exists>before after. ds = before @ d # after \<and> id_InputID d = x \<and> (\<forall>e \<in> set after. id_InputID e \<noteq> x))"

definition completion_ready :: "PhaseInputSet \<Rightarrow> bool" where
  "completion_ready inputs \<longleftrightarrow> (\<forall>d \<in> set (in_Delivered inputs). delivery_complete d)
     \<and> (\<forall>req \<in> set (in_Required inputs). ir_RequiredBy req = ''completion'' \<longrightarrow>
          (\<exists>d. last_delivery (in_Delivered inputs) (ir_InputID req) d \<and> id_FromEndpoint d = ir_FromEndpoint req
             \<and> set (ir_RequiredArtifacts req) \<subseteq> set (id_ArtifactRefs d)))"

lemma collectDelivery_iff:
  "collectDelivery d m = (if delivery_complete d then Inr (mput (id_InputID d) d m) else Inl (projl (collectDelivery d m)))"
  by (auto simp: collectDelivery_def delivery_complete_def checked_def fail_if_def)

lemma loopE_collect:
  "loopE collectDelivery ds m = Inr m' \<longleftrightarrow> (\<forall>d \<in> set ds. delivery_complete d) \<and> m' = fold (\<lambda>d. mput (id_InputID d) d) ds m"
proof (induction ds arbitrary: m)
  case (Cons d ds)
  show ?case
  proof (cases "delivery_complete d")
    case True
    then have "collectDelivery d m = Inr (mput (id_InputID d) d m)" using collectDelivery_iff[of d m] by simp
    then show ?thesis using True Cons.IH by simp
  next
    case False
    then obtain e where "collectDelivery d m = Inl e" using collectDelivery_iff[of d m] by metis
    then show ?thesis using False by simp
  qed
qed auto

lemma last_delivery_snoc:
  "last_delivery (ds @ [d]) x e \<longleftrightarrow> (if id_InputID d = x then e = d else last_delivery ds x e)"
proof
  assume "last_delivery (ds @ [d]) x e"
  then obtain before after where split: "ds @ [d] = before @ e # after" "id_InputID e = x" "\<forall>e' \<in> set after. id_InputID e' \<noteq> x"
    by (auto simp: last_delivery_def)
  show "if id_InputID d = x then e = d else last_delivery ds x e"
  proof (cases after rule: rev_cases)
    case Nil
    then show ?thesis using split by auto
  next
    case (snoc rest d')
    then have "ds = before @ e # rest" "d' = d" using split(1) by auto
    then show ?thesis using split snoc by (auto simp: last_delivery_def)
  qed
next
  assume "if id_InputID d = x then e = d else last_delivery ds x e"
  then show "last_delivery (ds @ [d]) x e"
  proof (cases "id_InputID d = x")
    case True
    then have "ds @ [d] = ds @ e # [] \<and> id_InputID e = x" using \<open>if _ then _ else _\<close> by simp
    then show ?thesis unfolding last_delivery_def by (intro exI[of _ ds] exI[of _ "[]"]) simp
  next
    case False
    then obtain before after where "ds = before @ e # after" "id_InputID e = x" "\<forall>e' \<in> set after. id_InputID e' \<noteq> x"
      using \<open>if _ then _ else _\<close> by (auto simp: last_delivery_def)
    then show ?thesis using False unfolding last_delivery_def by (intro exI[of _ before] exI[of _ "after @ [d]"]) auto
  qed
qed

lemma mget_collected: "mget (fold (\<lambda>d. mput (id_InputID d) d) ds []) x = Some e \<longleftrightarrow> last_delivery ds x e"
proof (induction ds rule: rev_induct)
  case Nil
  then show ?case by (simp add: last_delivery_def)
next
  case (snoc d ds)
  then show ?case by (auto simp: last_delivery_snoc gomap_simps)
qed

lemma checkRequirement_None:
  assumes "\<And>d. mget m (ir_InputID req) = Some d \<Longrightarrow> delivery_complete d"
  shows "checkRequirement m req = None \<longleftrightarrow> (ir_RequiredBy req = ''completion'' \<longrightarrow>
     (\<exists>d. mget m (ir_InputID req) = Some d \<and> id_FromEndpoint d = ir_FromEndpoint req \<and> set (ir_RequiredArtifacts req) \<subseteq> set (id_ArtifactRefs d)))"
proof (cases "mget m (ir_InputID req)")
  case None
  then show ?thesis by (simp add: checkRequirement_def)
next
  case (Some d)
  with assms[OF Some] show ?thesis
    by (auto simp: checkRequirement_def delivery_complete_def first_err_None fail_if_None check_all_None)
qed

lemma validateCompletionInputs_iff: "validateCompletionInputs inputs = None \<longleftrightarrow> completion_ready inputs"
proof (cases "loopE collectDelivery (in_Delivered inputs) []")
  case (Inl e)
  then have "\<not> (\<forall>d \<in> set (in_Delivered inputs). delivery_complete d)" using loopE_collect[of "in_Delivered inputs" "[]"] by auto
  then show ?thesis using Inl by (simp add: validateCompletionInputs_def completion_ready_def)
next
  case (Inr m)
  then have complete: "\<forall>d \<in> set (in_Delivered inputs). delivery_complete d" and m: "m = fold (\<lambda>d. mput (id_InputID d) d) (in_Delivered inputs) []"
    by (simp_all add: loopE_collect)
  have found: "mget m x = Some d \<longleftrightarrow> last_delivery (in_Delivered inputs) x d" for x d by (simp add: m mget_collected)
  have "delivery_complete d" if "mget m x = Some d" for x d
    using that complete unfolding found by (auto simp: last_delivery_def)
  then have "checkRequirement m req = None \<longleftrightarrow> (ir_RequiredBy req = ''completion'' \<longrightarrow>
      (\<exists>d. last_delivery (in_Delivered inputs) (ir_InputID req) d \<and> id_FromEndpoint d = ir_FromEndpoint req
         \<and> set (ir_RequiredArtifacts req) \<subseteq> set (id_ArtifactRefs d)))" for req
    by (subst checkRequirement_None) (simp_all add: found)
  then show ?thesis using Inr complete by (simp add: validateCompletionInputs_def completion_ready_def check_all_None)
qed

text \<open>
  C17. The check of the completion inputs, with its two loops over maps, is equivalent to its meaning:
  every delivery is complete, and each input required for completion was delivered, by its last
  delivery from the required endpoint and with all required artifacts.
\<close>

theorem completion_inputs_checked: "validateCompletionInputs inputs = None \<longleftrightarrow> completion_ready inputs"
  by (rule validateCompletionInputs_iff)

section \<open>Accepted outputs\<close>

abbreviation anywhere :: "Controller \<Rightarrow> bool" where
  "anywhere \<equiv> \<lambda>_. True"

lemma reach_transition:
  assumes "\<And>store. status_of store i = Some to \<Longrightarrow> Q () (c\<lparr>co_store := store\<rparr>)"
  shows "wp (transitionInvocation env i from to) Q anywhere c"
  unfolding transitionInvocation_def
proof (intro wp_rules)
  fix ctx
  obtain err store where run: "TransitionInvocation ctx (co_store c) i from to = (err, store)" by fastforce
  then show "wp (case TransitionInvocation ctx (co_store c) i from to of
      (err, store') \<Rightarrow> andThen (writes (\<lambda>c. c\<lparr>co_store := store'\<rparr>)) (\<lambda>_. checkOp err)) Q anywhere c"
    using assms memory_invocations.transition_status by (auto intro!: wp_rules)
qed

lemma reach_toCompleted:
  assumes "\<And>store. status_of store i = Some InvocationCompleted \<Longrightarrow> Q () (c\<lparr>co_store := store\<rparr>)"
  shows "wp (transitionToCompleted env i) Q anywhere c"
  unfolding transitionToCompleted_def
  using assms assms[of "co_store c"]
  by (intro wp_andThen wp_requireInvocation wp_if wp_ret wp_failWith reach_transition) (simp_all add: status_of_def)

text \<open>The log has an output of the command.\<close>

definition output_reported :: "MemoryStore \<Rightarrow> ProjectID \<Rightarrow> PhaseCommand \<Rightarrow> bool" where
  "output_reported graph p command \<longleftrightarrow>
     (\<exists>ob \<in> set (observed graph p). ob_Kind ob = phaseObservationOutput \<and> ob_CommandID ob = cmd_ID command)"

lemma appendPhaseObservation_logged:
  assumes "appendPhaseObservation ctx g p command kind checkpointRef nonResumable = (None, g')"
  shows "\<exists>ob \<in> set (observed g' p). ob_Kind ob = kind \<and> ob_CommandID ob = cmd_ID command"
  using assms
  by (auto simp: appendPhaseObservation_def newPhaseObservation_def checked_def appendObservation_def lockedProject_def
      appendObservationLocked_def observed_def Let_def samePhaseObservationPayload_def find_Some_iff
      split: option.splits if_splits sum.splits)

lemma reach_recordOutput:
  assumes "\<And>g. (pe_observes env \<longrightarrow> output_reported g (iv_ProjectID (ai_Invocation a)) (ai_Command a)) \<Longrightarrow> Q () (c\<lparr>co_graph := g\<rparr>)"
  shows "wp (recordOutputSubmitted env a) Q anywhere c"
proof -
  have step: "wp (case RecordPhaseOutputSubmitted ctx (co_graph c) (iv_ProjectID (ai_Invocation a)) (ai_Command a) of
      (err, graph') \<Rightarrow> andThen (writes (\<lambda>c. c\<lparr>co_graph := graph'\<rparr>)) (\<lambda>_. checkOp err)) Q anywhere c" for ctx
    using assms appendPhaseObservation_logged
    by (cases "RecordPhaseOutputSubmitted ctx (co_graph c) (iv_ProjectID (ai_Invocation a)) (ai_Command a)")
       (auto intro!: wp_rules simp: RecordPhaseOutputSubmitted_def output_reported_def)
  show ?thesis
    unfolding recordOutputSubmitted_def observing_def
    using assms[of "co_graph c"] by (intro wp_if wp_ret wp_andThen wp_ask_any wp_reads step) simp_all
qed

lemma wp_routeAll: "(\<And>xs. Q xs c) \<Longrightarrow> E c \<Longrightarrow> wp (routeAll env a refs) Q E c"
proof (induction refs arbitrary: Q)
  case (Cons ref refs)
  show ?case
    unfolding routeAll.simps by (intro wp_andThen wp_askSum Cons.IH wp_ret Cons.prems)
qed (simp add: wp_ret)

lemma reach_pendingOrRoute:
  assumes "\<And>receipt fingerprint m. pe_outputHash env output = Inr fingerprint \<Longrightarrow> samePayload receipt fingerprint \<Longrightarrow> Q receipt (c\<lparr>co_pending := m\<rparr>)"
  shows "wp (pendingOrRouteReceipt env a output) Q anywhere c"
proof -
  have pending: "wp (pendingReceipt receipt fingerprint) Q anywhere c" if "pe_outputHash env output = Inr fingerprint" for receipt fingerprint
    unfolding pendingReceipt_def
    using assms[OF that, of receipt "co_pending c"] by (intro wp_if wp_failWith wp_ret) simp_all
  show ?thesis
    unfolding pendingOrRouteReceipt_def Let_def
    by (intro wp_andThen wp_liftSum wp_reads wp_option wp_routeAll wp_askSum wp_ask_any wp_writes wp_ret TrueI pending)
       (auto intro!: assms simp: samePayload_def)
qed

text \<open>
  C24. An output that is accepted for an active invocation is one whose phase is the invocation's and
  whose completion inputs are all there. Its acceptance completes the invocation: the status is
  completed, the invocation is active no more, the receipt can be read back and has this payload's
  fingerprint (or none), and the graph has the output in its log of observations.
\<close>

theorem accepted_output_completes:
  assumes "activeInvocation i c = Inr a" "SubmitPhaseOutput env i output (c, w) = (Ok receipt, d, w')"
  shows "completion_ready (ai_Inputs a) \<and> po_Phase output = ref_EndpointID (cmd_Endpoint (ai_Command a))
     \<and> status_of (co_store d) i = Some InvocationCompleted \<and> mget (co_active d) i = None \<and> mget (co_receipts d) i = Some receipt
     \<and> (\<exists>fingerprint. pe_outputHash env output = Inr fingerprint \<and> samePayload receipt fingerprint)
     \<and> (pe_observes env \<longrightarrow> output_reported (co_graph d) (iv_ProjectID (ai_Invocation a)) (ai_Command a))"
    (is "?post receipt d")
proof -
  have accept: "wp (acceptOutput env i a output) (\<lambda>r d. ?post r (d\<lparr>co_termLocks := mdel i (co_termLocks d)\<rparr>)) anywhere b" for b
    unfolding acceptOutput_def Let_def closeOutput_def
    by (intro wp_andThen wp_wrapping wp_askSum wp_checkOp reach_pendingOrRoute wp_withRecovery wp_askErr reach_toCompleted reach_recordOutput
        wp_clearActive wp_writes wp_ret TrueI)
       (auto simp: validatePhaseOutput_def first_err_None fail_if_None validateCompletionInputs_iff gomap_simps)
  have again: "activeInvocation i (c\<lparr>co_termLocks := m\<rparr>) = Inr a" for m using assms(1) by (simp add: activeInvocation_def)
  have "wp (SubmitPhaseOutput env i output) ?post anywhere c"
    unfolding SubmitPhaseOutput_def orCompleted_def
    by (intro wp_andThen wp_reads wp_sum wp_withTerminal TrueI) (use assms(1) again accept in auto)
  from wpD[OF this, of w] assms(2) show ?thesis by simp
qed

theorem accepted_output_completes_witness:
  "completion_ready ex_inputs \<and> status_of (co_store ex_submitted) ex_invocation = Some InvocationCompleted
   \<and> mget (co_active ex_submitted) ex_invocation = None \<and> output_reported (co_graph ex_submitted) ''p'' example_command"
proof -
  obtain a where a: "mget (co_active ex_running) ex_invocation = Some a" "ai_Inputs a = ex_inputs" "iv_ProjectID (ai_Invocation a) = ''p''"
    "ai_Command a = example_command" "\<not> ai_Revoked a" using ex_runs(4) by auto
  then have active: "activeInvocation ex_invocation ex_running = Inr a" by (simp add: activeInvocation_def)
  obtain receipt where "SubmitPhaseOutput ex_env ex_invocation ex_phase_output (ex_running, ()) = (Ok receipt, ex_submitted, ())"
    using ex_runs(2) by blast
  from accepted_output_completes[OF active this] a show ?thesis by (simp add: ex_env_def)
qed

end
