(* ===== verification/Recovery_Store.thy ===== *)
theory Recovery_Store
  imports Phase_Inv
begin

text \<open>
  \<open>internal/runtime/phase/postgres_recovery_store.go\<close>: the recovery store that the phase controller runs with. The table
  \<open>phase_recovery_obligations\<close> is a list of rows in the order of its key, by which the queries read it; each call is
  one run of its statements. The pairs of columns that the schema couples are options. A unique index
  that refuses an update is an error of the driver; other errors of the driver end a call with the table
  as it is and are left out. JSON is taken to give back what was encoded. The laws at the end are those
  that \<open>recovery_laws\<close> asks of a recovery store.
\<close>

section \<open>Data\<close>

record obligation =
  rv_RunCommandID :: string
  rv_Active :: bool
  rv_Stop :: "(string \<times> StopResult) option"
  rv_Output :: "(string \<times> OutputReceipt) option"

type_synonym obligations = "obligation list"

abbreviation duplicateKey :: goerr where
  "duplicateKey \<equiv> Plain ''duplicate key value violates unique constraint''"

section \<open>Rows\<close>

definition updateRow :: "string \<Rightarrow> (obligation \<Rightarrow> obligation) \<Rightarrow> obligations \<Rightarrow> obligations" where
  "updateRow run f table = map (\<lambda>row. if rv_RunCommandID row = run then f row else row) table"

definition rowOf :: "obligations \<Rightarrow> string \<Rightarrow> obligation option" where
  "rowOf table run = List.find (\<lambda>row. rv_RunCommandID row = run) table"

definition runCommandIDForInvocation :: "'w PhaseEnv \<Rightarrow> obligations \<Rightarrow> InvocationID \<Rightarrow> string option" where
  "runCommandIDForInvocation env table i =
     map_option rv_RunCommandID (List.find (\<lambda>row. deterministicInvocationID env (rv_RunCommandID row) = i) table)"

definition stopEvidenceForRun :: "obligations \<Rightarrow> string \<Rightarrow> (string \<times> StopResult) option" where
  "stopEvidenceForRun table run = (case rowOf table run of None \<Rightarrow> None | Some row \<Rightarrow> rv_Stop row)"

definition outputReceiptForRun :: "obligations \<Rightarrow> string \<Rightarrow> (string \<times> OutputReceipt) option" where
  "outputReceiptForRun table run = (case rowOf table run of None \<Rightarrow> None | Some row \<Rightarrow> rv_Output row)"

definition sameStopResultPayload :: "StopResult \<Rightarrow> StopResult \<Rightarrow> bool" where
  "sameStopResultPayload actual expected \<longleftrightarrow> actual = expected"

definition outputReceiptsEqual :: "OutputReceipt \<Rightarrow> OutputReceipt \<Rightarrow> bool" where
  "outputReceiptsEqual left right \<longleftrightarrow>
     or_InvocationID left = or_InvocationID right \<and> or_CommandID left = or_CommandID right \<and> or_CommandAction left = or_CommandAction right
   \<and> or_CauseRef left = or_CauseRef right \<and> or_Endpoint left = or_Endpoint right \<and> or_Generation left = or_Generation right
   \<and> or_BindingRef left = or_BindingRef right \<and> or_LeaseRef left = or_LeaseRef right \<and> or_InputRevision left = or_InputRevision right
   \<and> or_WorkspaceRef left = or_WorkspaceRef right \<and> or_WorkspaceHead left = or_WorkspaceHead right
   \<and> or_OutputFingerprint left = or_OutputFingerprint right \<and> or_SubmittedAtUTC left = or_SubmittedAtUTC right
   \<and> po_Phase (or_Output left) = po_Phase (or_Output right) \<and> po_ReportRef (or_Output left) = po_ReportRef (or_Output right)
   \<and> po_DeliveryRefs (or_Output left) = po_DeliveryRefs (or_Output right) \<and> po_EvidenceRefs (or_Output left) = po_EvidenceRefs (or_Output right)"

section \<open>Operations\<close>

definition RecordActiveInvocation :: "'w PhaseEnv \<Rightarrow> goerr option \<Rightarrow> obligations \<Rightarrow> ActiveInvocation \<Rightarrow> goerr option \<times> obligations" where
  "RecordActiveInvocation env ctx table active =
     (let run = cmd_ID (ai_Command active) in
      case first_err
        [ctx,
         fail_if (run = '''' \<or> iv_ID (ai_Invocation active) = '''') (InvalidArgument ''active invocation requires command and invocation ids''),
         fail_if (deterministicInvocationID env run \<noteq> iv_ID (ai_Invocation active))
           (kerr CodeCommandConflict ''run command does not match invocation id'' False)] of
        Some e \<Rightarrow> (Some e, table)
      | None \<Rightarrow>
          (None, if rowOf table run \<noteq> None
                 then updateRow run (\<lambda>row. row\<lparr>rv_Active := (if rv_Stop row = None \<and> rv_Output row = None then True else rv_Active row)\<rparr>) table
                 else insort_key rv_RunCommandID \<lparr>rv_RunCommandID = run, rv_Active = True, rv_Stop = None, rv_Output = None\<rparr> table))"

definition RecoverActiveInvocation ::
  "'w PhaseEnv \<Rightarrow> goerr option \<Rightarrow> MemoryInvocationStore option \<Rightarrow> obligations \<Rightarrow> PhaseCommand \<Rightarrow> BindingSnapshot \<Rightarrow> goerr + ActiveInvocation option" where
  "RecoverActiveInvocation env ctx invocations table command binding =
     checked ctx (case invocations of
       None \<Rightarrow> Inl (kerr CodeInternalError ''invocation store is required for phase recovery'' False)
     | Some store \<Rightarrow>
         and_then (GetByLease ctx store (cmd_LeaseRef command)) (\<lambda>found. case found of
           None \<Rightarrow> Inr None
         | Some invocation \<Rightarrow>
             Inr (map_option (\<lambda>_. \<lparr>ai_Invocation = invocation, ai_Command = command, ai_Binding = binding, ai_Inputs = bs_Inputs binding, ai_Revoked = False\<rparr>)
               (List.find (\<lambda>row. rv_Active row \<and> rv_Output row = None \<and> deterministicInvocationID env (rv_RunCommandID row) = iv_ID invocation) table))))"

text \<open>
  The statements of the two terminal records: the earlier record of the same kind, the record of the other
  kind, and the guarded update. An update that changes no row is followed by the same reads again.
\<close>

definition RecordStopEvidence ::
  "'w PhaseEnv \<Rightarrow> goerr option \<Rightarrow> obligations \<Rightarrow> ActiveInvocation \<Rightarrow> PhaseCommand \<Rightarrow> StopResult \<Rightarrow> goerr option \<times> obligations" where
  "RecordStopEvidence env ctx table active command result =
     (case first_err [ctx, validateStopResult result] of
        Some e \<Rightarrow> (Some e, table)
      | None \<Rightarrow>
          (case runCommandIDForInvocation env table (iv_ID (ai_Invocation active)) of
             None \<Rightarrow> (Some (stale ''active recovery obligation not found''), table)
           | Some run \<Rightarrow>
               (case stopEvidenceForRun table run of
                  Some (commandID, existing) \<Rightarrow>
                    (fail_if (\<not> (commandID = cmd_ID command \<and> sameStopResultPayload existing result))
                       (kerr CodeIdempotencyConflict ''stop evidence already exists with different payload'' False), table)
                | None \<Rightarrow>
                    if outputReceiptForRun table run \<noteq> None then (Some (stale ''output receipt already won terminal recovery''), table)
                    else if map_option rv_Active (rowOf table run) \<noteq> Some True then
                      (Some (kerr CodeRevisionConflict ''stop evidence was not recorded'' True), table)
                    else if list_ex (\<lambda>row. map_option fst (rv_Stop row) = Some (cmd_ID command)) table then (Some duplicateKey, table)
                    else (None, updateRow run (\<lambda>row. row\<lparr>rv_Stop := Some (cmd_ID command, result)\<rparr>) table))))"

definition RecordOutputReceipt ::
  "'w PhaseEnv \<Rightarrow> goerr option \<Rightarrow> obligations \<Rightarrow> ActiveInvocation \<Rightarrow> OutputReceipt \<Rightarrow> goerr option \<times> obligations" where
  "RecordOutputReceipt env ctx table active receipt =
     (let command = ai_Command active in
      case first_err
        [ctx,
         fail_if (or_InvocationID receipt \<noteq> iv_ID (ai_Invocation active) \<or> or_Endpoint receipt \<noteq> cmd_Endpoint command
             \<or> or_Generation receipt \<noteq> cmd_Generation command \<or> or_BindingRef receipt \<noteq> cmd_BindingRef command \<or> or_LeaseRef receipt \<noteq> cmd_LeaseRef command)
           (kerr CodeIdempotencyConflict ''output receipt does not match active invocation'' False)] of
        Some e \<Rightarrow> (Some e, table)
      | None \<Rightarrow>
          (case runCommandIDForInvocation env table (iv_ID (ai_Invocation active)) of
             None \<Rightarrow> (Some (stale ''active recovery obligation not found''), table)
           | Some run \<Rightarrow>
               (case outputReceiptForRun table run of
                  Some (commandID, existing) \<Rightarrow>
                    (fail_if (\<not> (commandID = cmd_ID command \<and> outputReceiptsEqual existing receipt))
                       (kerr CodeIdempotencyConflict ''output receipt already exists with different payload'' False), table)
                | None \<Rightarrow>
                    if stopEvidenceForRun table run \<noteq> None then (Some (stale ''stop evidence already won terminal recovery''), table)
                    else if map_option rv_Active (rowOf table run) \<noteq> Some True then
                      (Some (kerr CodeRevisionConflict ''output receipt was not recorded'' True), table)
                    else if list_ex (\<lambda>row. map_option fst (rv_Output row) = Some (cmd_ID command)) table then (Some duplicateKey, table)
                    else (None, updateRow run (\<lambda>row. row\<lparr>rv_Output := Some (cmd_ID command, receipt)\<rparr>) table))))"

definition GetOutputReceipt :: "'w PhaseEnv \<Rightarrow> goerr option \<Rightarrow> obligations \<Rightarrow> InvocationID \<Rightarrow> string \<Rightarrow> goerr + OutputReceipt option" where
  "GetOutputReceipt env ctx table i commandID =
     checked ctx (case runCommandIDForInvocation env table i of
       None \<Rightarrow> Inr None
     | Some run \<Rightarrow> (case outputReceiptForRun table run of
         None \<Rightarrow> Inr None
       | Some (recorded, receipt) \<Rightarrow> Inr (if commandID \<noteq> '''' \<and> recorded \<noteq> commandID then None else Some receipt)))"

definition GetStopEvidence :: "'w PhaseEnv \<Rightarrow> goerr option \<Rightarrow> obligations \<Rightarrow> InvocationID \<Rightarrow> string \<Rightarrow> goerr + StopResult option" where
  "GetStopEvidence env ctx table i commandID =
     checked ctx (case runCommandIDForInvocation env table i of
       None \<Rightarrow> Inr None
     | Some run \<Rightarrow> (case stopEvidenceForRun table run of
         None \<Rightarrow> Inr None
       | Some (recorded, result) \<Rightarrow> Inr (if recorded \<noteq> commandID then None else Some result)))"

definition ClearActiveInvocation :: "'w PhaseEnv \<Rightarrow> goerr option \<Rightarrow> obligations \<Rightarrow> InvocationID \<Rightarrow> goerr option \<times> obligations" where
  "ClearActiveInvocation env ctx table i =
     (case ctx of
        Some e \<Rightarrow> (Some e, table)
      | None \<Rightarrow>
          (case runCommandIDForInvocation env table i of
             None \<Rightarrow> (None, table)
           | Some run \<Rightarrow> (None, updateRow run (\<lambda>row. row\<lparr>rv_Active := False\<rparr>) table)))"

text \<open>The generation of the stopped invocation is a \<open>uint64\<close>.\<close>

definition resumeScopeMatches :: "Invocation \<Rightarrow> PhaseCommand \<Rightarrow> BindingSnapshot \<Rightarrow> bool" where
  "resumeScopeMatches stopped command binding \<longleftrightarrow>
     iv_ProjectID stopped = bs_ProjectID binding \<and> iv_TaskID stopped = ref_TaskID (cmd_Endpoint command)
   \<and> iv_EndpointID stopped = ref_EndpointID (cmd_Endpoint command) \<and> cmd_Generation command > 0
   \<and> word_of_int (cmd_Generation command) = iv_Generation stopped + 1
   \<and> bs_TaskID binding = ref_TaskID (cmd_Endpoint command) \<and> bs_EndpointID binding = ref_EndpointID (cmd_Endpoint command)
   \<and> bs_Generation binding = cmd_Generation command"

fun firstResumable ::
  "'w PhaseEnv \<Rightarrow> goerr option \<Rightarrow> MemoryInvocationStore \<Rightarrow> PhaseCommand \<Rightarrow> BindingSnapshot \<Rightarrow> string list \<Rightarrow> goerr option" where
  "firstResumable env ctx store command binding [] =
     Some (kerr CodeStaleCheckpoint ''resume checkpoint has no persisted stop evidence'' True)"
| "firstResumable env ctx store command binding (run # rest) =
     (case GetInvocation ctx store (deterministicInvocationID env run) of
        Inl e \<Rightarrow> Some e
      | Inr None \<Rightarrow> firstResumable env ctx store command binding rest
      | Inr (Some stopped) \<Rightarrow>
          if resumeScopeMatches stopped command binding then None else firstResumable env ctx store command binding rest)"

definition ValidateResume ::
  "'w PhaseEnv \<Rightarrow> goerr option \<Rightarrow> MemoryInvocationStore option \<Rightarrow> obligations \<Rightarrow> PhaseCommand \<Rightarrow> BindingSnapshot \<Rightarrow> goerr option" where
  "ValidateResume env ctx invocations table command binding =
     (case first_err [ctx, fail_if (bs_NonResumable binding \<or> bs_CheckpointRef binding = '''')
          (kerr CodeStaleCheckpoint ''checkpoint is not resumable'' True)] of
        Some e \<Rightarrow> Some e
      | None \<Rightarrow>
          (case invocations of
             None \<Rightarrow> Some (kerr CodeInternalError ''invocation store is required for resume validation'' False)
           | Some store \<Rightarrow> firstResumable env ctx store command binding
               (map rv_RunCommandID (filter (\<lambda>row. case rv_Stop row of None \<Rightarrow> False
                  | Some (_, result) \<Rightarrow> \<not> sv_NonResumable result \<and> sv_CheckpointRef result = bs_CheckpointRef binding) table))))"

section \<open>The laws\<close>

text \<open>A receipt that names a start or resume command names the command of its run.\<close>

definition receipt_of_run :: "'w PhaseEnv \<Rightarrow> InvocationID \<Rightarrow> OutputReceipt \<Rightarrow> bool" where
  "receipt_of_run env i receipt \<longleftrightarrow>
     (or_CommandAction receipt \<in> {CommandStart, CommandResume} \<longrightarrow> deterministicInvocationID env (or_CommandID receipt) = i)"

definition obligations_ok :: "'w PhaseEnv \<Rightarrow> obligations \<Rightarrow> bool" where
  "obligations_ok env table \<longleftrightarrow> (\<forall>row \<in> set table. \<forall>commandID receipt. rv_Output row = Some (commandID, receipt) \<longrightarrow>
     receipt_of_run env (deterministicInvocationID env (rv_RunCommandID row)) receipt)"

lemma runCommandID_hash: "runCommandIDForInvocation env table i = Some run \<Longrightarrow> deterministicInvocationID env run = i"
  by (auto simp: runCommandIDForInvocation_def find_Some_iff)

lemma obligations_ok_update:
  assumes "obligations_ok env table" "\<And>row. rv_RunCommandID (f row) = rv_RunCommandID row"
    and "\<And>row commandID receipt. rv_Output (f row) = Some (commandID, receipt) \<Longrightarrow>
       rv_Output row = Some (commandID, receipt) \<or> receipt_of_run env (deterministicInvocationID env run) receipt"
  shows "obligations_ok env (updateRow run f table)"
  using assms unfolding obligations_ok_def updateRow_def by (auto split: if_splits) metis

text \<open>The recovered invocation carries the command that was asked with.\<close>

lemma recovered_command:
  "RecoverActiveInvocation env ctx invocations table command binding = Inr (Some a) \<Longrightarrow> ai_Command a = command"
  by (auto simp: RecoverActiveInvocation_def checked_Inr and_then_Inr split: option.splits)

text \<open>What is returned for an invocation names the command of its run, as long as the rows do.\<close>

lemma returned_receipt:
  assumes "obligations_ok env table" "GetOutputReceipt env ctx table i commandID = Inr (Some receipt)"
  shows "receipt_of_run env i receipt"
proof -
  obtain run recorded where run: "runCommandIDForInvocation env table i = Some run" "outputReceiptForRun table run = Some (recorded, receipt)"
    using assms(2) by (auto simp: GetOutputReceipt_def checked_Inr split: option.splits if_splits)
  then obtain row where "row \<in> set table" "rv_RunCommandID row = run" "rv_Output row = Some (recorded, receipt)"
    by (auto simp: outputReceiptForRun_def rowOf_def find_Some_iff split: option.splits intro: nth_mem)
  with assms(1) runCommandID_hash[OF run(1)] show ?thesis unfolding obligations_ok_def by metis
qed

text \<open>
  Every operation keeps it. The receipts of the controller are taken from the active invocation's own
  command, which \<open>active_ok\<close> ties to its invocation.
\<close>

lemma obligations_kept:
  assumes "obligations_ok env table"
  shows "obligations_ok env (snd (RecordActiveInvocation env ctx table active))"
    and "obligations_ok env (snd (RecordStopEvidence env ctx table active command result))"
    and "obligations_ok env (snd (ClearActiveInvocation env ctx table i))"
    and "receipt_of_run env (iv_ID (ai_Invocation active)) receipt \<Longrightarrow> obligations_ok env (snd (RecordOutputReceipt env ctx table active receipt))"
proof -
  have new: "obligations_ok env (insort_key rv_RunCommandID \<lparr>rv_RunCommandID = run, rv_Active = True, rv_Stop = None, rv_Output = None\<rparr> table)" for run
    using assms by (auto simp: obligations_ok_def set_insort_key)
  show "obligations_ok env (snd (RecordActiveInvocation env ctx table active))"
    using assms new by (auto simp: RecordActiveInvocation_def Let_def intro!: obligations_ok_update split: option.splits)
  show "obligations_ok env (snd (RecordStopEvidence env ctx table active command result))"
    using assms by (auto simp: RecordStopEvidence_def intro!: obligations_ok_update split: option.splits)
  show "obligations_ok env (snd (ClearActiveInvocation env ctx table i))"
    using assms by (auto simp: ClearActiveInvocation_def intro!: obligations_ok_update split: option.splits)
  show "obligations_ok env (snd (RecordOutputReceipt env ctx table active receipt))"
    if "receipt_of_run env (iv_ID (ai_Invocation active)) receipt"
    using assms that
    by (auto simp: RecordOutputReceipt_def Let_def dest: runCommandID_hash intro!: obligations_ok_update split: option.splits)
qed

lemma active_receipt:
  assumes "recovery_laws env" "active_ok env (iv_ID (ai_Invocation active)) active"
    and "or_CommandID receipt = cmd_ID (ai_Command active)" "or_CommandAction receipt = cmd_Action (ai_Command active)"
  shows "receipt_of_run env (iv_ID (ai_Invocation active)) receipt"
  using assms by (auto simp: receipt_of_run_def active_ok_def runs_def run_command_def)

end
