(* ===== verification/Task_Manager.thy ===== *)
theory Task_Manager
  imports Service "HOL-Library.State_Monad"
begin

text \<open>
  \<open>internal/taskmanager/app.go\<close>: the handlers that turn requirements, decisions of the Task Manager agent,
  stopped phases and deliveries into decisions and writes of the graph. A handler is a computation of
  the state monad over the manager's own maps and a world \<open>'w\<close> that its collaborators share; the
  collaborators (\<open>Options\<close>) are the fields of \<open>ManagerEnv\<close>, a \<open>nil\<close> one is \<open>None\<close>. As in Go, a handler
  returns a result and an error at the same time.
\<close>

section \<open>Data\<close>

type_synonym DeliveryPolicy = string
abbreviation DeliveryPolicyNonCodeArtifact :: DeliveryPolicy where "DeliveryPolicyNonCodeArtifact \<equiv> ''non_code_artifact''"
abbreviation DeliveryPolicyCodeMerge :: DeliveryPolicy where "DeliveryPolicyCodeMerge \<equiv> ''code_merge''"
abbreviation DeliveryPolicyHumanAcceptance :: DeliveryPolicy where "DeliveryPolicyHumanAcceptance \<equiv> ''human_acceptance''"
abbreviation DeliveryPolicyExternalDelivery :: DeliveryPolicy where "DeliveryPolicyExternalDelivery \<equiv> ''external_delivery''"

type_synonym ReplyStatus = string
abbreviation ReplyAccepted :: ReplyStatus where "ReplyAccepted \<equiv> ''accepted''"
abbreviation ReplyRejected :: ReplyStatus where "ReplyRejected \<equiv> ''rejected''"
abbreviation ReplyConflict :: ReplyStatus where "ReplyConflict \<equiv> ''conflict''"
abbreviation ReplyDeferred :: ReplyStatus where "ReplyDeferred \<equiv> ''deferred''"

abbreviation DecisionKindReplacePending :: string where "DecisionKindReplacePending \<equiv> ''replace_pending''"
abbreviation DecisionKindTransition :: string where "DecisionKindTransition \<equiv> ''transition''"
abbreviation DecisionKindTerminal :: string where "DecisionKindTerminal \<equiv> ''terminal''"

record Requirement =
  rq_Text :: string
  rq_Goal :: string
  rq_Constraints :: "string list"
  rq_EvidenceRefs :: "string list"

record RequirementInput =
  ri_InputRef :: string
  ri_TaskID :: TaskID
  ri_ContractRef :: string
  ri_Requirement :: Requirement

record ManagerDecisionInput =
  mi_InputRef :: string
  mi_Endpoint :: PhaseEndpointRef
  mi_SeenRevision :: Revision

record Replacement =
  rp_Endpoints :: "PhaseEndpoint list"
  rp_Edges :: "Edge list"
  rp_Blockers :: "Blocker list"

record PhaseStoppedInput =
  si_InputRef :: string
  si_Endpoint :: PhaseEndpointRef
  si_CommandID :: string
  si_LeaseRef :: LeaseID
  si_Generation :: int
  si_EvidenceRefs :: "string list"
  si_CheckpointRef :: string
  si_NonResumable :: bool
  si_NewBindingRef :: BindingRef
  si_NewSpecRef :: string
  si_Replacement :: Replacement
  si_ReleaseAfterReplace :: bool

record DeliveryEvidence =
  dv_ArtifactRefs :: "string list"
  dv_EvidenceRefs :: "string list"
  dv_ExternalDelivered :: bool
  dv_HumanAccepted :: bool
  dv_LatestMainVerified :: bool
  dv_MergeSucceeded :: bool
  dv_MergeCommitRef :: string

record DeliveryInput =
  di_InputRef :: string
  di_TaskID :: TaskID
  di_Evidence :: DeliveryEvidence

record TaskManagerDecision =
  td_Action :: string
  td_TargetRef :: string
  td_EvidenceRefs :: "string list"
  td_Reason :: string

record DecisionSubmission =
  ds_ProjectID :: ProjectID
  ds_InputRef :: string
  ds_ExpectedRevision :: Revision
  ds_Decision :: TaskManagerDecision
  ds_Kind :: string
  ds_Transition :: GraphTransition

record TaskContract =
  tc_TaskID :: TaskID
  tc_ContractRef :: string
  tc_DeliveryPolicy :: DeliveryPolicy
  tc_PhaseSpecs :: "(EndpointID, string) gomap"

record ProjectionRequest =
  pq_ProjectionID :: string
  pq_TaskID :: TaskID
  pq_SourceRevision :: Revision
  pq_Requirement :: Requirement

record ManagerReplyEvent =
  me_InputRef :: string
  me_Status :: ReplyStatus
  me_DecisionRef :: string
  me_GraphRevision :: Revision
  me_Reason :: string

record Result =
  mr_InputRef :: string
  mr_Status :: ReplyStatus
  mr_DecisionRef :: string
  mr_GraphRevision :: Revision

definition noResult :: Result where
  "noResult = \<lparr>mr_InputRef = '''', mr_Status = '''', mr_DecisionRef = '''', mr_GraphRevision = 0\<rparr>"

definition zeroEndpoint :: PhaseEndpoint where
  "zeroEndpoint = \<lparr>ep_Ref = zeroRef, ep_SpecRef = '''', ep_BindingRef = '''', ep_Generation = 0, ep_State = '''', ep_RunPolicy = ''''\<rparr>"

section \<open>The collaborators\<close>

record 'w TaskContextProjector =
  cp_RegisterTaskSubgraph :: "TaskID \<Rightarrow> 'w \<Rightarrow> goerr option \<times> 'w"
  cp_EnqueueProjection :: "ProjectionRequest \<Rightarrow> 'w \<Rightarrow> goerr option \<times> 'w"
  cp_RetryProjection :: "string \<Rightarrow> 'w \<Rightarrow> goerr option \<times> 'w"

record 'w ManagerEnv =
  tm_projectID :: ProjectID
  tm_Snapshot :: "Revision \<Rightarrow> 'w \<Rightarrow> (goerr + GraphSnapshot) \<times> 'w"
  tm_ReplacePending :: "PendingSubgraph \<Rightarrow> 'w \<Rightarrow> (goerr + Revision) \<times> 'w"
  tm_Transition :: "Revision \<Rightarrow> string \<Rightarrow> 'w \<Rightarrow> (goerr + Revision) \<times> 'w"
  tm_SubmitDecision :: "DecisionSubmission \<Rightarrow> 'w \<Rightarrow> (goerr + string) \<times> 'w"
  tm_ResolveRequirementContract :: "RequirementInput \<Rightarrow> 'w \<Rightarrow> (goerr + TaskContract) \<times> 'w"
  tm_TaskContract :: "TaskID \<Rightarrow> 'w \<Rightarrow> (goerr + TaskContract) \<times> 'w"
  tm_taskContext :: "'w TaskContextProjector option"
  tm_AppendManagerReply :: "(ManagerReplyEvent \<Rightarrow> 'w \<Rightarrow> goerr option \<times> 'w) option"
  tm_FinalizeTaskMemory :: "(TaskID \<Rightarrow> string \<Rightarrow> 'w \<Rightarrow> goerr option \<times> 'w) option"

record Manager =
  mg_finalizeBatches :: "(TaskID, string) gomap"
  mg_finalized :: "(TaskID, bool) gomap"

definition NewManager :: Manager where
  "NewManager = \<lparr>mg_finalizeBatches = [], mg_finalized = []\<rparr>"

type_synonym ('w, 'a) manager_op = "(Manager \<times> 'w, 'a) state"

text \<open>A call of a collaborator.\<close>

definition call :: "('w \<Rightarrow> 'a \<times> 'w) \<Rightarrow> ('w, 'a) manager_op" where
  "call f = State (\<lambda>(m, w). case f w of (x, w') \<Rightarrow> (x, m, w'))"

text \<open>\<open>x, err := m(); if err != nil { return Result{}, err }\<close>\<close>

definition orReturn ::
  "('w, goerr + 'a) manager_op \<Rightarrow> ('a \<Rightarrow> ('w, Result \<times> goerr option) manager_op) \<Rightarrow> ('w, Result \<times> goerr option) manager_op" where
  "orReturn m k = do {
     r \<leftarrow> m;
     case r of Inl e \<Rightarrow> State_Monad.return (noResult, Some e) | Inr x \<Rightarrow> k x }"

definition checkedOp :: "goerr option \<Rightarrow> ('w, Result \<times> goerr option) manager_op \<Rightarrow> ('w, Result \<times> goerr option) manager_op" where
  "checkedOp err k = (case err of Some e \<Rightarrow> State_Monad.return (noResult, Some e) | None \<Rightarrow> k)"

section \<open>Checks and small functions\<close>

definition ErrorString :: "goerr \<Rightarrow> string" where
  "ErrorString e = (case e of
     Coded k \<Rightarrow> if err_Message k \<noteq> '''' then err_Code k @ '': '' @ err_Message k else err_Code k
   | Plain text \<Rightarrow> text)"

definition validateRequirementInput :: "RequirementInput \<Rightarrow> goerr option" where
  "validateRequirementInput input = first_err
     [fail_if (ri_InputRef input = '''') (InvalidArgument ''input_ref is required''),
      RequireID ''requirement_input.task_id'' (ri_TaskID input),
      fail_if (ri_ContractRef input = '''') (InvalidArgument ''requirement_input.contract_ref is required'')]"

definition phaseSpec :: "TaskContract \<Rightarrow> EndpointID \<Rightarrow> string" where
  "phaseSpec contract endpointID = (case mget (tc_PhaseSpecs contract) endpointID of None \<Rightarrow> '''' | Some spec \<Rightarrow> spec)"

definition validateTaskContract :: "TaskContract \<Rightarrow> goerr option" where
  "validateTaskContract contract = first_err
     [RequireID ''task_contract.task_id'' (tc_TaskID contract),
      fail_if (tc_ContractRef contract = '''') (InvalidArgument ''task contract_ref is required''),
      fail_if (tc_DeliveryPolicy contract \<notin> {DeliveryPolicyNonCodeArtifact, DeliveryPolicyCodeMerge,
          DeliveryPolicyHumanAcceptance, DeliveryPolicyExternalDelivery})
        (InvalidArgument ''task contract delivery policy is required''),
      check_all (\<lambda>endpointID. fail_if (phaseSpec contract endpointID = '''')
          (InvalidArgument (''task contract '' @ endpointID @ '' spec_ref is required'')))
        [EndpointPlan, EndpointExecute, EndpointVerify]]"

definition validateStoppedInput :: "PhaseStoppedInput \<Rightarrow> goerr option" where
  "validateStoppedInput input = first_err
     [fail_if (si_InputRef input = '''') (InvalidArgument ''input_ref is required''),
      fail_if (si_CommandID input = '''') (InvalidArgument ''stopped command_id is required''),
      RequireID ''stopped lease_ref'' (si_LeaseRef input),
      fail_if (si_Generation input \<le> 0) (InvalidArgument ''stopped generation is required''),
      fail_if (si_EvidenceRefs input = []) (IncompleteStopEvidence ''stopped event requires evidence_refs''),
      fail_if (si_NewBindingRef input = '''') (InvalidArgument ''stopped new_binding_ref is required''),
      fail_if (si_CheckpointRef input = '''' \<and> \<not> si_NonResumable input)
        (IncompleteStopEvidence ''stopped event requires checkpoint_ref or non_resumable'')]"

definition newEndpoint :: "TaskContract \<Rightarrow> EndpointID \<Rightarrow> PhaseEndpoint" where
  "newEndpoint contract endpointID =
     \<lparr>ep_Ref = mkRef (tc_TaskID contract) endpointID, ep_SpecRef = phaseSpec contract endpointID,
      ep_BindingRef = ''binding://'' @ tc_TaskID contract @ ''/'' @ endpointID @ ''/1'',
      ep_Generation = 1, ep_State = EndpointPending, ep_RunPolicy = RunEnabled\<rparr>"

definition requirementSubgraph :: "TaskContract \<Rightarrow> Revision \<Rightarrow> PendingSubgraph" where
  "requirementSubgraph contract revision =
     \<lparr>ps_RequestID = '''', ps_BaseRevision = revision,
      ps_Tasks = [\<lparr>task_ID = tc_TaskID contract, task_ContractRef = tc_ContractRef contract, task_Outcome = TaskActive\<rparr>],
      ps_Endpoints = [newEndpoint contract EndpointPlan, newEndpoint contract EndpointExecute, newEndpoint contract EndpointVerify],
      ps_Edges = [], ps_Blockers = []\<rparr>"

definition normalizeReplacement :: "Replacement \<Rightarrow> PhaseEndpoint \<Rightarrow> Revision \<Rightarrow> PendingSubgraph" where
  "normalizeReplacement replacement current revision =
     \<lparr>ps_RequestID = '''', ps_BaseRevision = revision, ps_Tasks = [],
      ps_Endpoints = map (\<lambda>endpoint. if ep_Ref endpoint = ep_Ref current
          then endpoint\<lparr>ep_Generation := ep_Generation current, ep_BindingRef := ep_BindingRef current,
                 ep_SpecRef := ep_SpecRef current, ep_State := ep_State current, ep_RunPolicy := ep_RunPolicy current\<rparr>
          else endpoint) (rp_Endpoints replacement),
      ps_Edges = rp_Edges replacement, ps_Blockers = rp_Blockers replacement\<rparr>"

definition deliverySatisfied :: "DeliveryPolicy \<Rightarrow> DeliveryEvidence \<Rightarrow> bool" where
  "deliverySatisfied policy evidence =
     (if policy = DeliveryPolicyNonCodeArtifact then dv_ArtifactRefs evidence \<noteq> []
      else if policy = DeliveryPolicyHumanAcceptance then dv_HumanAccepted evidence
      else if policy = DeliveryPolicyCodeMerge then
        dv_LatestMainVerified evidence \<and> dv_MergeSucceeded evidence \<and> dv_MergeCommitRef evidence \<noteq> ''''
      else if policy = DeliveryPolicyExternalDelivery then dv_ExternalDelivered evidence \<and> dv_EvidenceRefs evidence \<noteq> []
      else False)"

definition findEndpoint :: "GraphSnapshot \<Rightarrow> PhaseEndpointRef \<Rightarrow> PhaseEndpoint option" where
  "findEndpoint snap ref = List.find (\<lambda>endpoint. ep_Ref endpoint = ref) (snap_Endpoints snap)"

definition findTask :: "GraphSnapshot \<Rightarrow> TaskID \<Rightarrow> Task option" where
  "findTask snap i = List.find (\<lambda>task. task_ID task = i) (snap_Tasks snap)"

definition targetRef :: "PhaseEndpointRef \<Rightarrow> string" where
  "targetRef ref = ref_TaskID ref @ ''/'' @ ref_EndpointID ref"

definition projectionID :: "TaskID \<Rightarrow> Revision \<Rightarrow> string" where
  "projectionID taskID revision = ''task-context:'' @ taskID @ '':'' @ itoa (uint revision)"

definition latestRevision :: "'w ManagerEnv \<Rightarrow> ('w, Revision) manager_op" where
  "latestRevision env = do {
     snap \<leftarrow> call (tm_Snapshot env LatestRevision);
     State_Monad.return (case snap of Inl _ \<Rightarrow> 0 | Inr s \<Rightarrow> snap_Revision s) }"

section \<open>Decisions, writes and replies\<close>

definition submission :: "'w ManagerEnv \<Rightarrow> string \<Rightarrow> Revision \<Rightarrow> TaskManagerDecision \<Rightarrow> string \<Rightarrow> DecisionSubmission" where
  "submission env inputRef revision decision kind =
     \<lparr>ds_ProjectID = tm_projectID env, ds_InputRef = inputRef, ds_ExpectedRevision = revision, ds_Decision = decision,
      ds_Kind = kind, ds_Transition = zeroTransition\<rparr>"

text \<open>Both writes return the reference of the decision together with the error of the write.\<close>

definition replacePending ::
  "'w ManagerEnv \<Rightarrow> string \<Rightarrow> Revision \<Rightarrow> TaskManagerDecision \<Rightarrow> PendingSubgraph \<Rightarrow> ('w, string \<times> goerr option) manager_op" where
  "replacePending env inputRef revision decision subgraph = do {
     submitted \<leftarrow> call (tm_SubmitDecision env (submission env inputRef revision decision DecisionKindReplacePending));
     case submitted of
       Inl e \<Rightarrow> State_Monad.return ('''', Some e)
     | Inr ref \<Rightarrow> do {
         written \<leftarrow> call (tm_ReplacePending env (subgraph\<lparr>ps_RequestID := ref\<rparr>));
         State_Monad.return (ref, case written of Inl e \<Rightarrow> Some e | Inr _ \<Rightarrow> None) } }"

definition transition ::
  "'w ManagerEnv \<Rightarrow> string \<Rightarrow> Revision \<Rightarrow> TaskManagerDecision \<Rightarrow> GraphTransition \<Rightarrow> ('w, string \<times> goerr option) manager_op" where
  "transition env inputRef revision decision change = do {
     submitted \<leftarrow> call (tm_SubmitDecision env
       ((submission env inputRef revision decision DecisionKindTransition)\<lparr>ds_Transition := change\<rparr>));
     case submitted of
       Inl e \<Rightarrow> State_Monad.return ('''', Some e)
     | Inr ref \<Rightarrow> do {
         written \<leftarrow> call (tm_Transition env revision ref);
         State_Monad.return (ref, case written of Inl e \<Rightarrow> Some e | Inr _ \<Rightarrow> None) } }"

definition submitTerminalDecision ::
  "'w ManagerEnv \<Rightarrow> string \<Rightarrow> Revision \<Rightarrow> TaskManagerDecision \<Rightarrow> ('w, goerr + string) manager_op" where
  "submitTerminalDecision env inputRef revision decision =
     call (tm_SubmitDecision env (submission env inputRef revision decision DecisionKindTerminal))"

definition reply :: "'w ManagerEnv \<Rightarrow> ManagerReplyEvent \<Rightarrow> goerr option \<Rightarrow> ('w, Result \<times> goerr option) manager_op" where
  "reply env event err =
     (let result = \<lparr>mr_InputRef = me_InputRef event, mr_Status = me_Status event, mr_DecisionRef = me_DecisionRef event,
                    mr_GraphRevision = me_GraphRevision event\<rparr> in
      case tm_AppendManagerReply env of
        None \<Rightarrow> State_Monad.return (result, err)
      | Some appendReply \<Rightarrow> do {
          appendErr \<leftarrow> call (appendReply event);
          State_Monad.return (result, if err = None then appendErr else err) })"

text \<open>A terminal decision and the reply that reports it.\<close>

definition terminally ::
  "'w ManagerEnv \<Rightarrow> string \<Rightarrow> GraphSnapshot \<Rightarrow> TaskManagerDecision \<Rightarrow> ReplyStatus \<Rightarrow> goerr option \<Rightarrow> ('w, Result \<times> goerr option) manager_op" where
  "terminally env inputRef snap decision status err =
     orReturn (submitTerminalDecision env inputRef (snap_Revision snap) decision) (\<lambda>decisionRef.
       reply env \<lparr>me_InputRef = inputRef, me_Status = status, me_DecisionRef = decisionRef,
         me_GraphRevision = snap_Revision snap, me_Reason = td_Reason decision\<rparr> err)"

definition stoppedRejected ::
  "'w ManagerEnv \<Rightarrow> PhaseStoppedInput \<Rightarrow> GraphSnapshot \<Rightarrow> string \<Rightarrow> goerr \<Rightarrow> ('w, Result \<times> goerr option) manager_op" where
  "stoppedRejected env input snap reason err = terminally env (si_InputRef input) snap
     \<lparr>td_Action = ''reject'', td_TargetRef = targetRef (si_Endpoint input), td_EvidenceRefs = si_EvidenceRefs input, td_Reason = reason\<rparr>
     ReplyRejected (Some err)"

text \<open>\<open>if err != nil { return Result{}, err }\<close> after a write.\<close>

definition orFailed ::
  "('w, string \<times> goerr option) manager_op \<Rightarrow> (string \<Rightarrow> ('w, Result \<times> goerr option) manager_op) \<Rightarrow> ('w, Result \<times> goerr option) manager_op" where
  "orFailed m k = do {
     (ref, err) \<leftarrow> m;
     checkedOp err (k ref) }"


section \<open>The handlers\<close>

text \<open>What follows an applied requirement: the context of the task is registered and projected, if there is one.\<close>

definition projectRequirement ::
  "'w ManagerEnv \<Rightarrow> TaskContract \<Rightarrow> Requirement \<Rightarrow> Revision \<Rightarrow> ('w, (string \<times> goerr) option) manager_op" where
  "projectRequirement env contract requirement revision =
     (case tm_taskContext env of
        None \<Rightarrow> State_Monad.return None
      | Some projector \<Rightarrow> do {
          registered \<leftarrow> call (cp_RegisterTaskSubgraph projector (tc_TaskID contract));
          case registered of
            Some e \<Rightarrow> State_Monad.return (Some (''graph applied; task context registration requires retry'', e))
          | None \<Rightarrow> do {
              enqueued \<leftarrow> call (cp_EnqueueProjection projector
                \<lparr>pq_ProjectionID = projectionID (tc_TaskID contract) revision, pq_TaskID = tc_TaskID contract,
                 pq_SourceRevision = revision, pq_Requirement = requirement\<rparr>);
              State_Monad.return (map_option (Pair ''graph applied; task context projection requires retry'') enqueued) } })"

definition HandleRequirement :: "'w ManagerEnv \<Rightarrow> RequirementInput \<Rightarrow> ('w, Result \<times> goerr option) manager_op" where
  "HandleRequirement env input =
     checkedOp (validateRequirementInput input) (
     orReturn (call (tm_ResolveRequirementContract env input)) (\<lambda>contract.
     orReturn (call (tm_Snapshot env LatestRevision)) (\<lambda>snap.
     case validateTaskContract contract of
       Some e \<Rightarrow> terminally env (ri_InputRef input) snap
         \<lparr>td_Action = ''defer'', td_TargetRef = ri_TaskID input, td_EvidenceRefs = [], td_Reason = ErrorString e\<rparr> ReplyDeferred None
     | None \<Rightarrow>
         let decision = \<lparr>td_Action = DecisionKindReplacePending, td_TargetRef = tc_TaskID contract, td_EvidenceRefs = [],
               td_Reason = ''create task from persisted requirement input''\<rparr>;
             event = \<lambda>status ref revision reason. \<lparr>me_InputRef = ri_InputRef input, me_Status = status, me_DecisionRef = ref,
               me_GraphRevision = revision, me_Reason = reason\<rparr> in
         do {
           (ref, err) \<leftarrow> replacePending env (ri_InputRef input) (snap_Revision snap) decision (requirementSubgraph contract (snap_Revision snap));
           case err of
             Some e \<Rightarrow>
               if IsCode err CodeRevisionConflict
               then reply env (event ReplyConflict ref (snap_Revision snap) ''graph revision conflict'') err
               else State_Monad.return (noResult, err)
           | None \<Rightarrow> do {
               revision \<leftarrow> latestRevision env;
               failed \<leftarrow> projectRequirement env contract (ri_Requirement input) revision;
               case failed of
                 Some (reason, e) \<Rightarrow> reply env (event ReplyDeferred ref revision reason) (Some e)
               | None \<Rightarrow> reply env (event ReplyAccepted ref revision (td_Reason decision)) None } })))"

definition HandleManagerDecision ::
  "'w ManagerEnv \<Rightarrow> ManagerDecisionInput \<Rightarrow> TaskManagerDecision \<Rightarrow> ('w, Result \<times> goerr option) manager_op" where
  "HandleManagerDecision env input decision =
     checkedOp (first_err
       [fail_if (mi_InputRef input = '''') (InvalidArgument ''input_ref is required''),
        fail_if (td_Action decision = '''' \<or> td_Reason decision = '''') (InvalidArgument ''manager decision action and reason are required'')]) (
     orReturn (call (tm_Snapshot env LatestRevision)) (\<lambda>snap.
     if mi_SeenRevision input \<noteq> 0 \<and> mi_SeenRevision input \<noteq> snap_Revision snap then
       terminally env (mi_InputRef input) snap
         \<lparr>td_Action = ''reject'', td_TargetRef = '''', td_EvidenceRefs = [], td_Reason = ''manager input was based on a stale graph revision''\<rparr>
         ReplyConflict (Some (RevisionConflict (mi_SeenRevision input) (snap_Revision snap)))
     else if td_Action decision \<in> {''reject'', ''defer'', ''no_change''} then
       (if td_TargetRef decision \<noteq> '''' then
          State_Monad.return (noResult, Some (InvalidArgument ''terminal manager decision must omit target_ref''))
        else terminally env (mi_InputRef input) snap decision
          (if td_Action decision = ''reject'' then ReplyRejected else if td_Action decision = ''defer'' then ReplyDeferred else ReplyAccepted) None)
     else if td_Action decision \<notin> {''held'', ''released''} then
       State_Monad.return (noResult, Some (InvalidArgument ''manager decision must be reject, defer, no_change, held, or released''))
     else case findEndpoint snap (mi_Endpoint input) of
       None \<Rightarrow> State_Monad.return (noResult, Some (kerr CodeNotFound ''manager decision target endpoint was not found'' False))
     | Some endpoint \<Rightarrow>
         checkedOp (first_err
           [fail_if (td_TargetRef decision \<noteq> targetRef (mi_Endpoint input))
              (InvalidArgument ''manager decision target_ref does not match Runtime-selected endpoint''),
            fail_if (td_Action decision = ''held'' \<and> ep_RunPolicy endpoint = RunHeld) (TransitionRejected ''endpoint is already held''),
            fail_if (td_Action decision = ''released'' \<and> ep_RunPolicy endpoint \<noteq> RunHeld) (TransitionRejected ''endpoint is not held'')]) (
         orFailed (transition env (mi_InputRef input) (snap_Revision snap) decision
           (zeroTransition\<lparr>tr_TargetKind := TargetPhaseEndpoint, tr_Endpoint := mi_Endpoint input, tr_Action := td_Action decision,
              tr_Generation := ep_Generation endpoint\<rparr>)) (\<lambda>decisionRef.
         orReturn (call (tm_Snapshot env LatestRevision)) (\<lambda>snap'.
         reply env \<lparr>me_InputRef = mi_InputRef input, me_Status = ReplyAccepted, me_DecisionRef = decisionRef,
           me_GraphRevision = snap_Revision snap', me_Reason = td_Reason decision\<rparr> None)))))"

text \<open>
  The two optional writes after a stopped phase: the replacement of the pending graph and the release.
  Both hand on the reference of the last decision, the snapshot and the endpoint in it.
\<close>

definition endpointIn :: "GraphSnapshot \<Rightarrow> PhaseEndpointRef \<Rightarrow> PhaseEndpoint" where
  "endpointIn snap ref = (case findEndpoint snap ref of None \<Rightarrow> zeroEndpoint | Some endpoint \<Rightarrow> endpoint)"

definition replaceStopped ::
  "'w ManagerEnv \<Rightarrow> PhaseStoppedInput \<Rightarrow> string \<Rightarrow> GraphSnapshot \<Rightarrow>
   (string \<Rightarrow> GraphSnapshot \<Rightarrow> ('w, Result \<times> goerr option) manager_op) \<Rightarrow> ('w, Result \<times> goerr option) manager_op" where
  "replaceStopped env input ref snap k =
     (if rp_Endpoints (si_Replacement input) = [] then k ref snap
      else orFailed (replacePending env (si_InputRef input) (snap_Revision snap)
          \<lparr>td_Action = DecisionKindReplacePending, td_TargetRef = targetRef (si_Endpoint input), td_EvidenceRefs = [],
           td_Reason = ''apply replacement after authenticated stopped event''\<rparr>
          (normalizeReplacement (si_Replacement input) (endpointIn snap (si_Endpoint input)) (snap_Revision snap))) (\<lambda>ref'.
        orReturn (call (tm_Snapshot env LatestRevision)) (\<lambda>snap'. k ref' snap')))"

definition releaseStopped ::
  "'w ManagerEnv \<Rightarrow> PhaseStoppedInput \<Rightarrow> string \<Rightarrow> GraphSnapshot \<Rightarrow>
   (string \<Rightarrow> GraphSnapshot \<Rightarrow> ('w, Result \<times> goerr option) manager_op) \<Rightarrow> ('w, Result \<times> goerr option) manager_op" where
  "releaseStopped env input ref snap k =
     (if \<not> si_ReleaseAfterReplace input then k ref snap
      else orFailed (transition env (si_InputRef input) (snap_Revision snap)
          \<lparr>td_Action = ''released'', td_TargetRef = targetRef (si_Endpoint input), td_EvidenceRefs = [],
           td_Reason = ''release endpoint after authenticated stopped replacement''\<rparr>
          (zeroTransition\<lparr>tr_TargetKind := TargetPhaseEndpoint, tr_Endpoint := si_Endpoint input, tr_Action := ''released'',
             tr_Generation := ep_Generation (endpointIn snap (si_Endpoint input))\<rparr>)) (\<lambda>ref'.
        orReturn (call (tm_Snapshot env LatestRevision)) (\<lambda>snap'. k ref' snap')))"

definition HandlePhaseStopped :: "'w ManagerEnv \<Rightarrow> PhaseStoppedInput \<Rightarrow> ('w, Result \<times> goerr option) manager_op" where
  "HandlePhaseStopped env input =
     checkedOp (validateStoppedInput input) (
     orReturn (call (tm_Snapshot env LatestRevision)) (\<lambda>snap.
     case findEndpoint snap (si_Endpoint input) of
       None \<Rightarrow> stoppedRejected env input snap ''stopped endpoint not found'' (kerr CodeNotFound ''stopped endpoint not found'' False)
     | Some endpoint \<Rightarrow>
         if ep_Generation endpoint \<noteq> si_Generation input then
           stoppedRejected env input snap ''stopped event generation does not match current endpoint''
             (TransitionRejected ''stopped event generation does not match current endpoint'')
         else if ep_RunPolicy endpoint \<noteq> RunHeld then
           stoppedRejected env input snap ''stopped event requires a held endpoint''
             (TransitionRejected ''stopped event requires a held endpoint'')
         else
           orFailed (transition env (si_InputRef input) (snap_Revision snap)
             \<lparr>td_Action = ''stopped'', td_TargetRef = targetRef (si_Endpoint input), td_EvidenceRefs = si_EvidenceRefs input,
              td_Reason = ''runtime-authenticated phase stopped event''\<rparr>
             (zeroTransition\<lparr>tr_TargetKind := TargetPhaseEndpoint, tr_Endpoint := si_Endpoint input, tr_Action := ''stopped'',
                tr_Generation := si_Generation input, tr_NewBindingRef := si_NewBindingRef input, tr_NewSpecRef := si_NewSpecRef input,
                tr_CheckpointRef := si_CheckpointRef input, tr_NonResumable := si_NonResumable input,
                tr_EvidenceRefs := si_EvidenceRefs input\<rparr>)) (\<lambda>ref.
           orReturn (call (tm_Snapshot env LatestRevision)) (\<lambda>stopped.
           replaceStopped env input ref stopped (\<lambda>ref' replaced.
           releaseStopped env input ref' replaced (\<lambda>decisionRef released.
           reply env \<lparr>me_InputRef = si_InputRef input, me_Status = ReplyAccepted, me_DecisionRef = decisionRef,
             me_GraphRevision = snap_Revision released, me_Reason = ''authenticated stopped event applied''\<rparr> None))))))"

definition statusOnly :: "ReplyStatus \<Rightarrow> Result" where
  "statusOnly status = noResult\<lparr>mr_Status := status\<rparr>"

definition RetryFinalize :: "'w ManagerEnv \<Rightarrow> TaskID \<Rightarrow> ('w, Result \<times> goerr option) manager_op" where
  "RetryFinalize env taskID =
     (case tm_FinalizeTaskMemory env of
        None \<Rightarrow> State_Monad.return (statusOnly ReplyAccepted, None)
      | Some finalize \<Rightarrow> do {
          (m, w) \<leftarrow> State_Monad.get;
          if mget (mg_finalized m) taskID = Some True then State_Monad.return (statusOnly ReplyAccepted, None)
          else do {
            let batch = (case mget (mg_finalizeBatches m) taskID of None \<Rightarrow> '''' | Some b \<Rightarrow> b);
            let batchID = (if batch = '''' then ''task-memory-freeze:'' @ taskID else batch);
            State_Monad.set (m\<lparr>mg_finalizeBatches := mput taskID batchID (mg_finalizeBatches m)\<rparr>, w);
            err \<leftarrow> call (finalize taskID batchID);
            case err of
              Some e \<Rightarrow> State_Monad.return (statusOnly ReplyDeferred, Some e)
            | None \<Rightarrow> do {
                (m', w') \<leftarrow> State_Monad.get;
                State_Monad.set (m'\<lparr>mg_finalized := mput taskID True (mg_finalized m')\<rparr>, w');
                State_Monad.return (statusOnly ReplyAccepted, None) } } })"

definition RetryProjection :: "'w ManagerEnv \<Rightarrow> string \<Rightarrow> ('w, goerr option) manager_op" where
  "RetryProjection env i = (case tm_taskContext env of
     None \<Rightarrow> State_Monad.return None
   | Some projector \<Rightarrow> call (cp_RetryProjection projector i))"

definition HandleDelivery :: "'w ManagerEnv \<Rightarrow> DeliveryInput \<Rightarrow> ('w, Result \<times> goerr option) manager_op" where
  "HandleDelivery env input =
     (let deferred = \<lambda>snap reason. terminally env (di_InputRef input) snap
            \<lparr>td_Action = ''defer'', td_TargetRef = di_TaskID input, td_EvidenceRefs = [], td_Reason = reason\<rparr> ReplyDeferred None;
          reason = ''delivery policy and verify evidence satisfied'' in
      orReturn (call (tm_Snapshot env LatestRevision)) (\<lambda>snap.
      checkedOp (fail_if (findTask snap (di_TaskID input) = None) (kerr CodeNotFound ''delivery task not found'' False)) (
      orReturn (call (tm_TaskContract env (di_TaskID input))) (\<lambda>contract.
      if tc_DeliveryPolicy contract = '''' then deferred snap ''task contract is missing delivery policy''
      else if \<not> deliverySatisfied (tc_DeliveryPolicy contract) (di_Evidence input) then
        deferred snap ''delivery policy evidence is incomplete''
      else case findEndpoint snap (mkRef (di_TaskID input) EndpointVerify) of
        None \<Rightarrow> deferred snap ''verify endpoint is not satisfied''
      | Some verify \<Rightarrow>
          if ep_State verify \<noteq> EndpointSatisfied then deferred snap ''verify endpoint is not satisfied''
          else
            orFailed (transition env (di_InputRef input) (snap_Revision snap)
              \<lparr>td_Action = TaskDone, td_TargetRef = di_TaskID input, td_EvidenceRefs = [], td_Reason = reason\<rparr>
              (zeroTransition\<lparr>tr_TargetKind := TargetTask, tr_TaskID := di_TaskID input, tr_Action := TaskDone\<rparr>)) (\<lambda>decisionRef.
            orReturn (call (tm_Snapshot env LatestRevision)) (\<lambda>snap'.
            do {
              (result, replyErr) \<leftarrow> reply env \<lparr>me_InputRef = di_InputRef input, me_Status = ReplyAccepted, me_DecisionRef = decisionRef,
                me_GraphRevision = snap_Revision snap', me_Reason = reason\<rparr> None;
              case replyErr of
                Some e \<Rightarrow> State_Monad.return (result, Some e)
              | None \<Rightarrow> do { _ \<leftarrow> RetryFinalize env (di_TaskID input); State_Monad.return (result, None) } }))))))"

section \<open>The decision store of the in-memory host\<close>

text \<open>
  \<open>internal/app/fakehost/app.go\<close> gives the manager a store that numbers the decisions and registers those
  that write in the decision log.
\<close>

record decisionStore =
  dc_log :: MemoryDecisionLog
  dc_next :: int
  dc_records :: "DecisionSubmission list"

definition SubmitDecision :: "DecisionSubmission \<Rightarrow> decisionStore \<Rightarrow> (goerr + string) \<times> decisionStore" where
  "SubmitDecision sub d =
     (let d1 = d\<lparr>dc_next := dc_next d + 1\<rparr>; ref = ''decision://fakehost/'' @ itoa (dc_next d1);
          (err, l) = (if ds_Kind sub = DecisionKindReplacePending then RegisterReplacePending (dc_log d1) (ds_ProjectID sub) ref
                      else if ds_Kind sub = DecisionKindTransition then RegisterTransition (dc_log d1) (ds_ProjectID sub) ref (ds_Transition sub)
                      else (None, dc_log d1));
          d2 = d1\<lparr>dc_log := l\<rparr>
      in case err of
           Some e \<Rightarrow> (Inl e, d2)
         | None \<Rightarrow> (Inr ref, d2\<lparr>dc_records := dc_records d2 @ [sub]\<rparr>))"

end
