(* ===== verification/Task_Manager_Properties.thy ===== *)
theory Task_Manager_Properties
  imports Task_Manager Service_Properties
begin

text \<open>
  What the Task Manager promises. The first part holds for any collaborators: \<open>tracing\<close> puts a record of
  the calls beside the world, and the properties speak of that record. The second part composes the
  manager with the graph tools, the decision log and the decision store of the in-memory host.
\<close>

named_theorems run_rules \<open>what a computation of the manager leads to\<close>

section \<open>Runs\<close>

definition leads :: "('w, 'a) manager_op \<Rightarrow> ('a \<Rightarrow> Manager \<times> 'w \<Rightarrow> bool) \<Rightarrow> Manager \<times> 'w \<Rightarrow> bool" where
  "leads m Q s \<longleftrightarrow> (case run_state m s of (x, s') \<Rightarrow> Q x s')"

lemma leadsD: "leads m Q s \<Longrightarrow> run_state m s = (x, s') \<Longrightarrow> Q x s'"
  by (simp add: leads_def)

lemma leads_return [run_rules]: "Q x s \<Longrightarrow> leads (State_Monad.return x) Q s"
  by (simp add: leads_def)

lemma leads_bind [run_rules]: "leads m (\<lambda>x. leads (k x) Q) s \<Longrightarrow> leads (State_Monad.bind m k) Q s"
  by (cases "run_state m s") (simp add: leads_def)

lemma leads_get [run_rules]: "Q s s \<Longrightarrow> leads State_Monad.get Q s"
  by (simp add: leads_def)

lemma leads_set [run_rules]: "Q () s' \<Longrightarrow> leads (State_Monad.set s') Q s"
  by (simp add: leads_def)

lemma leads_if [run_rules]: "(b \<Longrightarrow> leads m Q s) \<Longrightarrow> (\<not> b \<Longrightarrow> leads n Q s) \<Longrightarrow> leads (if b then m else n) Q s"
  by simp

lemma leads_option [run_rules]:
  "(x = None \<Longrightarrow> leads m Q s) \<Longrightarrow> (\<And>y. x = Some y \<Longrightarrow> leads (n y) Q s) \<Longrightarrow> leads (case x of None \<Rightarrow> m | Some y \<Rightarrow> n y) Q s"
  by (cases x) auto

lemma leads_sum [run_rules]:
  "(\<And>e. x = Inl e \<Longrightarrow> leads (m e) Q s) \<Longrightarrow> (\<And>y. x = Inr y \<Longrightarrow> leads (n y) Q s) \<Longrightarrow> leads (case x of Inl e \<Rightarrow> m e | Inr y \<Rightarrow> n y) Q s"
  by (cases x) auto

lemma leads_pair [run_rules]: "(\<And>a b. x = (a, b) \<Longrightarrow> leads (k a b) Q s) \<Longrightarrow> leads (case x of (a, b) \<Rightarrow> k a b) Q s"
  by (cases x) auto

lemma leads_checkedOp [run_rules]:
  "(\<And>e. err = Some e \<Longrightarrow> Q (noResult, Some e) s) \<Longrightarrow> (err = None \<Longrightarrow> leads k Q s) \<Longrightarrow> leads (checkedOp err k) Q s"
  by (cases err) (simp_all add: checkedOp_def leads_return)

lemma leads_orReturn [run_rules]:
  assumes "leads m (\<lambda>r s. (\<forall>e. r = Inl e \<longrightarrow> Q (noResult, Some e) s) \<and> (\<forall>x. r = Inr x \<longrightarrow> leads (k x) Q s)) s"
  shows "leads (orReturn m k) Q s"
  using assms unfolding orReturn_def leads_def by (auto split: prod.splits sum.splits)

lemma leads_orFailed [run_rules]:
  assumes "leads m (\<lambda>r s. (\<forall>e. snd r = Some e \<longrightarrow> Q (noResult, Some e) s) \<and> (snd r = None \<longrightarrow> leads (k (fst r)) Q s)) s"
  shows "leads (orFailed m k) Q s"
  using assms unfolding orFailed_def leads_def checkedOp_def by (auto split: prod.splits option.splits)

lemma leads_call: "(\<And>x w'. f w = (x, w') \<Longrightarrow> Q x (m, w')) \<Longrightarrow> leads (call f) Q (m, w)"
  by (auto simp: leads_def call_def split: prod.splits)

section \<open>The record of calls\<close>

datatype manager_call =
    ReadGraph "goerr + GraphSnapshot"
  | ReadContract "goerr + TaskContract"
  | Decided DecisionSubmission "goerr + string"
  | Replaced PendingSubgraph "goerr + Revision"
  | Changed Revision string "goerr + Revision"
  | Projected "goerr option"
  | Answered ManagerReplyEvent "goerr option"
  | Frozen TaskID string "goerr option"

definition traced :: "('a \<Rightarrow> manager_call) \<Rightarrow> ('w \<Rightarrow> 'a \<times> 'w) \<Rightarrow> 'w \<times> manager_call list \<Rightarrow> 'a \<times> 'w \<times> manager_call list" where
  "traced c f = (\<lambda>(w, t). case f w of (x, w') \<Rightarrow> (x, w', t @ [c x]))"

definition tracing :: "'w ManagerEnv \<Rightarrow> ('w \<times> manager_call list) ManagerEnv" where
  "tracing env =
     \<lparr>tm_projectID = tm_projectID env,
      tm_Snapshot = \<lambda>revision. traced ReadGraph (tm_Snapshot env revision),
      tm_ReplacePending = \<lambda>subgraph. traced (Replaced subgraph) (tm_ReplacePending env subgraph),
      tm_Transition = \<lambda>revision ref. traced (Changed revision ref) (tm_Transition env revision ref),
      tm_SubmitDecision = \<lambda>sub. traced (Decided sub) (tm_SubmitDecision env sub),
      tm_ResolveRequirementContract = \<lambda>input. traced ReadContract (tm_ResolveRequirementContract env input),
      tm_TaskContract = \<lambda>taskID. traced ReadContract (tm_TaskContract env taskID),
      tm_taskContext = map_option (\<lambda>p.
        \<lparr>cp_RegisterTaskSubgraph = \<lambda>taskID. traced Projected (cp_RegisterTaskSubgraph p taskID),
         cp_EnqueueProjection = \<lambda>request. traced Projected (cp_EnqueueProjection p request),
         cp_RetryProjection = \<lambda>i. traced Projected (cp_RetryProjection p i)\<rparr>) (tm_taskContext env),
      tm_AppendManagerReply = map_option (\<lambda>append event. traced (Answered event) (append event)) (tm_AppendManagerReply env),
      tm_FinalizeTaskMemory = map_option (\<lambda>finalize taskID batch. traced (Frozen taskID batch) (finalize taskID batch)) (tm_FinalizeTaskMemory env)\<rparr>"

text \<open>An input of any kind, and its handler.\<close>

datatype manager_input =
    RequirementIn RequirementInput
  | DecisionIn ManagerDecisionInput TaskManagerDecision
  | StoppedIn PhaseStoppedInput
  | DeliveryIn DeliveryInput

fun inputRefOf :: "manager_input \<Rightarrow> string" where
  "inputRefOf (RequirementIn input) = ri_InputRef input"
| "inputRefOf (DecisionIn input decision) = mi_InputRef input"
| "inputRefOf (StoppedIn input) = si_InputRef input"
| "inputRefOf (DeliveryIn input) = di_InputRef input"

fun handle :: "'w ManagerEnv \<Rightarrow> manager_input \<Rightarrow> ('w, Result \<times> goerr option) manager_op" where
  "handle env (RequirementIn input) = HandleRequirement env input"
| "handle env (DecisionIn input decision) = HandleManagerDecision env input decision"
| "handle env (StoppedIn input) = HandlePhaseStopped env input"
| "handle env (DeliveryIn input) = HandleDelivery env input"

text \<open>The writes of a record, each with the call before it.\<close>

fun decided_writes :: "ProjectID \<Rightarrow> string \<Rightarrow> manager_call list \<Rightarrow> bool" where
  "decided_writes p i (Decided sub (Inr ref) # Changed revision ref' r # t) \<longleftrightarrow>
     ds_ProjectID sub = p \<and> ds_InputRef sub = i \<and> ds_Kind sub = DecisionKindTransition \<and> ds_ExpectedRevision sub = revision \<and> ref' = ref
     \<and> decided_writes p i t"
| "decided_writes p i (Decided sub (Inr ref) # Replaced subgraph r # t) \<longleftrightarrow>
     ds_ProjectID sub = p \<and> ds_InputRef sub = i \<and> ds_Kind sub = DecisionKindReplacePending
     \<and> ds_ExpectedRevision sub = ps_BaseRevision subgraph \<and> ps_RequestID subgraph = ref
     \<and> decided_writes p i t"
| "decided_writes p i (Changed revision ref r # t) \<longleftrightarrow> False"
| "decided_writes p i (Replaced subgraph r # t) \<longleftrightarrow> False"
| "decided_writes p i (c # t) \<longleftrightarrow> decided_writes p i t"
| "decided_writes p i [] \<longleftrightarrow> True"

definition answers :: "manager_call list \<Rightarrow> (ManagerReplyEvent \<times> goerr option) list" where
  "answers t = concat (map (\<lambda>c. case c of Answered event err \<Rightarrow> [(event, err)] | _ \<Rightarrow> []) t)"

definition decisions :: "manager_call list \<Rightarrow> string list" where
  "decisions t = concat (map (\<lambda>c. case c of Decided sub (Inr ref) \<Rightarrow> [ref] | _ \<Rightarrow> []) t)"

definition failed_write :: "manager_call \<Rightarrow> bool" where
  "failed_write c \<longleftrightarrow> (case c of Changed _ _ (Inl _) \<Rightarrow> True | Replaced _ (Inl _) \<Rightarrow> True | Decided _ (Inl _) \<Rightarrow> True | _ \<Rightarrow> False)"

lemma answers_simps [simp]:
  "answers [] = []" "answers (Answered event err # t) = (event, err) # answers t" "answers (Decided sub d # t) = answers t"
  "answers (ReadGraph g # t) = answers t" "answers (ReadContract k # t) = answers t" "answers (Replaced s v # t) = answers t"
  "answers (Changed n ref v # t) = answers t" "answers (Projected e # t) = answers t" "answers (Frozen i b e # t) = answers t"
  by (simp_all add: answers_def)

lemma decisions_simps [simp]:
  "decisions [] = []" "decisions (Decided sub (Inr ref) # t) = ref # decisions t" "decisions (Decided sub (Inl e) # t) = decisions t"
  "decisions (ReadGraph g # t) = decisions t" "decisions (ReadContract k # t) = decisions t" "decisions (Replaced s v # t) = decisions t"
  "decisions (Changed n ref v # t) = decisions t" "decisions (Projected err # t) = decisions t" "decisions (Answered event err # t) = decisions t"
  "decisions (Frozen i b err # t) = decisions t"
  by (simp_all add: decisions_def)

lemma failed_write_simps [simp]:
  "\<not> failed_write (ReadGraph g)" "\<not> failed_write (ReadContract k)" "\<not> failed_write (Projected err)" "\<not> failed_write (Answered event err)"
  "\<not> failed_write (Frozen i b err)" "failed_write (Decided sub (Inl e))" "\<not> failed_write (Decided sub (Inr ref))"
  "failed_write (Replaced s (Inl e))" "\<not> failed_write (Replaced s (Inr v))"
  "failed_write (Changed n ref' (Inl e))" "\<not> failed_write (Changed n ref' (Inr v))"
  by (simp_all add: failed_write_def)

section \<open>The calls of a run\<close>

lemma traced_call: "(\<And>x w'. Q x (m, w', t @ [c x])) \<Longrightarrow> leads (call (traced c f)) Q (m, w, t)"
  by (rule leads_call) (auto simp: traced_def split: prod.splits)

lemma traced_snapshot [run_rules]: "(\<And>x w'. Q x (m, w', t @ [ReadGraph x])) \<Longrightarrow> leads (call (tm_Snapshot (tracing env) n)) Q (m, w, t)"
  by (simp add: tracing_def traced_call)

lemma traced_resolve [run_rules]:
  "(\<And>x w'. Q x (m, w', t @ [ReadContract x])) \<Longrightarrow> leads (call (tm_ResolveRequirementContract (tracing env) input)) Q (m, w, t)"
  by (simp add: tracing_def traced_call)

lemma traced_contract [run_rules]: "(\<And>x w'. Q x (m, w', t @ [ReadContract x])) \<Longrightarrow> leads (call (tm_TaskContract (tracing env) i)) Q (m, w, t)"
  by (simp add: tracing_def traced_call)

lemma traced_submit [run_rules]: "(\<And>x w'. Q x (m, w', t @ [Decided sub x])) \<Longrightarrow> leads (call (tm_SubmitDecision (tracing env) sub)) Q (m, w, t)"
  by (simp add: tracing_def traced_call)

lemma traced_change [run_rules]: "(\<And>x w'. Q x (m, w', t @ [Changed n ref x])) \<Longrightarrow> leads (call (tm_Transition (tracing env) n ref)) Q (m, w, t)"
  by (simp add: tracing_def traced_call)

lemma traced_replace [run_rules]:
  "(\<And>x w'. Q x (m, w', t @ [Replaced subgraph x])) \<Longrightarrow> leads (call (tm_ReplacePending (tracing env) subgraph)) Q (m, w, t)"
  by (simp add: tracing_def traced_call)

lemma traced_transition [run_rules]:
  assumes "\<And>sub e w'. Q ('''', Some e) (m, w', t @ [Decided sub (Inl e)])"
    and "\<And>sub ref e w'. ds_ProjectID sub = tm_projectID env \<Longrightarrow> ds_InputRef sub = i \<Longrightarrow> ds_Kind sub = DecisionKindTransition \<Longrightarrow> ds_ExpectedRevision sub = n \<Longrightarrow>
      Q (ref, Some e) (m, w', t @ [Decided sub (Inr ref), Changed n ref (Inl e)])"
    and "\<And>sub ref v w'. ds_ProjectID sub = tm_projectID env \<Longrightarrow> ds_InputRef sub = i \<Longrightarrow> ds_Kind sub = DecisionKindTransition \<Longrightarrow> ds_ExpectedRevision sub = n \<Longrightarrow>
      Q (ref, None) (m, w', t @ [Decided sub (Inr ref), Changed n ref (Inr v)])"
  shows "leads (transition (tracing env) i n decision change) Q (m, w, t)"
  unfolding transition_def
  by (intro run_rules) (auto simp: submission_def tracing_def intro!: assms split: sum.split)

lemma traced_replacePending [run_rules]:
  assumes "\<And>sub e w'. Q ('''', Some e) (m, w', t @ [Decided sub (Inl e)])"
    and "\<And>sub ref subgraph e w'. ds_ProjectID sub = tm_projectID env \<Longrightarrow> ds_InputRef sub = i \<Longrightarrow> ds_Kind sub = DecisionKindReplacePending \<Longrightarrow>
      ds_ExpectedRevision sub = n \<Longrightarrow> ps_RequestID subgraph = ref \<Longrightarrow> ps_BaseRevision subgraph = ps_BaseRevision next \<Longrightarrow>
      Q (ref, Some e) (m, w', t @ [Decided sub (Inr ref), Replaced subgraph (Inl e)])"
    and "\<And>sub ref subgraph v w'. ds_ProjectID sub = tm_projectID env \<Longrightarrow> ds_InputRef sub = i \<Longrightarrow> ds_Kind sub = DecisionKindReplacePending \<Longrightarrow>
      ds_ExpectedRevision sub = n \<Longrightarrow> ps_RequestID subgraph = ref \<Longrightarrow> ps_BaseRevision subgraph = ps_BaseRevision next \<Longrightarrow>
      Q (ref, None) (m, w', t @ [Decided sub (Inr ref), Replaced subgraph (Inr v)])"
  shows "leads (replacePending (tracing env) i n decision next) Q (m, w, t)"
  unfolding replacePending_def
  by (intro run_rules) (auto simp: submission_def tracing_def intro!: assms split: sum.split)

lemma traced_reply [run_rules]:
  assumes "tm_AppendManagerReply env = None \<Longrightarrow> Q (\<lparr>mr_InputRef = me_InputRef event, mr_Status = me_Status event, mr_DecisionRef = me_DecisionRef event,
      mr_GraphRevision = me_GraphRevision event\<rparr>, err) (m, w, t)"
    and "\<And>e w'. tm_AppendManagerReply env \<noteq> None \<Longrightarrow> Q (\<lparr>mr_InputRef = me_InputRef event, mr_Status = me_Status event, mr_DecisionRef = me_DecisionRef event,
      mr_GraphRevision = me_GraphRevision event\<rparr>, if err = None then e else err) (m, w', t @ [Answered event e])"
  shows "leads (reply (tracing env) event err) Q (m, w, t)"
proof (cases "tm_AppendManagerReply env")
  case None
  then show ?thesis using assms(1) by (simp add: reply_def tracing_def leads_return)
next
  case (Some append)
  then show ?thesis
    unfolding reply_def Let_def
    by (simp add: tracing_def) (intro leads_bind traced_call leads_return, use assms(2) in simp)
qed

lemma traced_projection [run_rules]:
  assumes "tm_taskContext env = None \<Longrightarrow> Q None (m, w, t)"
    and "\<And>e w'. Q (Some (''graph applied; task context registration requires retry'', e)) (m, w', t @ [Projected (Some e)])"
    and "\<And>e w'. Q (Some (''graph applied; task context projection requires retry'', e)) (m, w', t @ [Projected None, Projected (Some e)])"
    and "\<And>w'. Q None (m, w', t @ [Projected None, Projected None])"
  shows "leads (projectRequirement (tracing env) contract requirement revision) Q (m, w, t)"
proof (cases "tm_taskContext env")
  case None
  then show ?thesis using assms(1) by (simp add: projectRequirement_def tracing_def leads_return)
next
  case (Some p)
  have "Q (map_option (Pair ''graph applied; task context projection requires retry'') x) (m, w', (t @ [Projected None]) @ [Projected x])" for x w'
    using assms(3,4) by (cases x) simp_all
  then show ?thesis
    using Some assms(2) unfolding projectRequirement_def
    by (simp add: tracing_def) (intro leads_bind traced_call leads_option leads_return; simp)
qed

lemma traced_finalize [run_rules]:
  assumes "\<And>r m'. Q r (m', w, t)" "\<And>r m' b e w'. Q r (m', w', t @ [Frozen taskID b e])"
  shows "leads (RetryFinalize (tracing env) taskID) Q (m, w, t)"
proof (cases "tm_FinalizeTaskMemory env")
  case None
  then show ?thesis using assms(1) by (simp add: RetryFinalize_def tracing_def leads_return)
next
  case (Some finalize)
  then have some: "tm_FinalizeTaskMemory (tracing env) = Some (\<lambda>taskID batch. traced (Frozen taskID batch) (finalize taskID batch))"
    by (simp add: tracing_def)
  show ?thesis
    unfolding RetryFinalize_def Let_def some option.case
    by (intro leads_bind leads_get leads_set leads_pair leads_if) (auto intro!: leads_return leads_bind leads_get leads_set leads_option traced_call assms)
qed

section \<open>Every input\<close>

text \<open>What a run may do: the writes are decided, the answer is given once and fits the result.\<close>

definition well_handled :: "'w ManagerEnv \<Rightarrow> string \<Rightarrow> Result \<Rightarrow> goerr option \<Rightarrow> manager_call list \<Rightarrow> bool" where
  "well_handled env i result err t \<longleftrightarrow> decided_writes (tm_projectID env) i t
     \<and> (if mr_Status result = '''' then err \<noteq> None \<and> answers t = []
        else mr_InputRef result = i \<and> mr_DecisionRef result = (if decisions t = [] then '''' else last (decisions t))
          \<and> (mr_Status result = ReplyAccepted \<longrightarrow> decisions t \<noteq> [] \<and> (\<forall>c \<in> set t. \<not> failed_write c))
          \<and> (if tm_AppendManagerReply env = None then answers t = []
             else \<exists>event e. answers t = [(event, e)] \<and> (err = None \<longrightarrow> e = None)
               \<and> result = \<lparr>mr_InputRef = me_InputRef event, mr_Status = me_Status event, mr_DecisionRef = me_DecisionRef event,
                             mr_GraphRevision = me_GraphRevision event\<rparr>))"

abbreviation handles :: "'w ManagerEnv \<Rightarrow> string \<Rightarrow> ('w \<times> manager_call list, Result \<times> goerr option) manager_op \<Rightarrow> Manager \<times> 'w \<Rightarrow> bool" where
  "handles env i m s \<equiv> leads m (\<lambda>(result, err) (_, _, t). well_handled env i result err t) (fst s, snd s, [])"

lemmas handled_simps = well_handled_def noResult_def

lemmas handler_defs = latestRevision_def Let_def terminally_def submitTerminalDecision_def stoppedRejected_def
  replaceStopped_def releaseStopped_def

lemma requirement_handled: "handles env (ri_InputRef input) (HandleRequirement (tracing env) input) s"
  unfolding HandleRequirement_def handler_defs
  by (intro run_rules conjI allI impI) (auto simp: handled_simps requirementSubgraph_def)

lemma decision_handled: "handles env (mi_InputRef input) (HandleManagerDecision (tracing env) input decision) s"
  unfolding HandleManagerDecision_def handler_defs
  by (intro run_rules conjI allI impI) (auto simp: handled_simps)

lemma stopped_handled: "handles env (si_InputRef input) (HandlePhaseStopped (tracing env) input) s"
  unfolding HandlePhaseStopped_def handler_defs
  by (intro run_rules conjI allI impI) (auto simp: handled_simps normalizeReplacement_def)

lemma delivery_handled: "handles env (di_InputRef input) (HandleDelivery (tracing env) input) s"
  unfolding HandleDelivery_def handler_defs
  by (intro run_rules conjI allI impI) (auto simp: handled_simps)

text \<open>The record of the calls changes nothing about the run.\<close>

definition mirrors :: "('w \<times> manager_call list, 'a) manager_op \<Rightarrow> ('w, 'a) manager_op \<Rightarrow> bool" where
  "mirrors m' m \<longleftrightarrow> (\<forall>c w t x c' w'. run_state m (c, w) = (x, c', w') \<longrightarrow> (\<exists>t'. run_state m' (c, w, t) = (x, c', w', t')))"

lemma mirrors_return: "mirrors (State_Monad.return x) (State_Monad.return x)"
  by (simp add: mirrors_def)

lemma mirrors_bind:
  assumes "mirrors m' m" "\<And>x. mirrors (k' x) (k x)"
  shows "mirrors (State_Monad.bind m' k') (State_Monad.bind m k)"
  unfolding mirrors_def
proof (intro allI impI)
  fix c w t x c' w'
  assume "run_state (State_Monad.bind m k) (c, w) = (x, c', w')"
  then obtain y d v where first: "run_state m (c, w) = (y, d, v)" and rest: "run_state (k y) (d, v) = (x, c', w')"
    by (cases "run_state m (c, w)") auto
  from assms(1) first obtain t' where "run_state m' (c, w, t) = (y, d, v, t')" unfolding mirrors_def by blast
  moreover from assms(2)[of y] rest obtain t'' where "run_state (k' y) (d, v, t') = (x, c', w', t'')" unfolding mirrors_def by blast
  ultimately show "\<exists>t'. run_state (State_Monad.bind m' k') (c, w, t) = (x, c', w', t')" by simp
qed

lemma mirrors_if: "mirrors m' m \<Longrightarrow> mirrors n' n \<Longrightarrow> mirrors (if b then m' else n') (if b then m else n)"
  by simp

lemma mirrors_option: "mirrors m' m \<Longrightarrow> (\<And>y. mirrors (n' y) (n y)) \<Longrightarrow>
    mirrors (case x of None \<Rightarrow> m' | Some y \<Rightarrow> n' y) (case x of None \<Rightarrow> m | Some y \<Rightarrow> n y)"
  by (cases x) auto

lemma mirrors_sum: "(\<And>e. mirrors (m' e) (m e)) \<Longrightarrow> (\<And>y. mirrors (n' y) (n y)) \<Longrightarrow>
    mirrors (case x of Inl e \<Rightarrow> m' e | Inr y \<Rightarrow> n' y) (case x of Inl e \<Rightarrow> m e | Inr y \<Rightarrow> n y)"
  by (cases x) auto

lemma mirrors_pair: "(\<And>a b. mirrors (k' a b) (k a b)) \<Longrightarrow> mirrors (case x of (a, b) \<Rightarrow> k' a b) (case x of (a, b) \<Rightarrow> k a b)"
  by (cases x) auto

lemma mirrors_checkedOp: "mirrors k' k \<Longrightarrow> mirrors (checkedOp err k') (checkedOp err k)"
  unfolding checkedOp_def by (intro mirrors_option mirrors_return)

lemma mirrors_orReturn: "mirrors m' m \<Longrightarrow> (\<And>x. mirrors (k' x) (k x)) \<Longrightarrow> mirrors (orReturn m' k') (orReturn m k)"
  unfolding orReturn_def by (intro mirrors_bind mirrors_sum mirrors_return)

lemma mirrors_orFailed: "mirrors m' m \<Longrightarrow> (\<And>x. mirrors (k' x) (k x)) \<Longrightarrow> mirrors (orFailed m' k') (orFailed m k)"
  unfolding orFailed_def by (intro mirrors_bind mirrors_pair mirrors_checkedOp)

lemma mirrors_traced: "mirrors (call (traced c f)) (call f)"
  by (auto simp: mirrors_def call_def traced_def split: prod.splits)

lemmas mirrors_rules = mirrors_return mirrors_bind mirrors_if mirrors_option mirrors_sum mirrors_pair mirrors_checkedOp
  mirrors_orReturn mirrors_orFailed mirrors_traced

lemma tracing_simps [simp]:
  "tm_projectID (tracing env) = tm_projectID env"
  "tm_Snapshot (tracing env) n = traced ReadGraph (tm_Snapshot env n)"
  "tm_ReplacePending (tracing env) subgraph = traced (Replaced subgraph) (tm_ReplacePending env subgraph)"
  "tm_Transition (tracing env) n ref = traced (Changed n ref) (tm_Transition env n ref)"
  "tm_SubmitDecision (tracing env) sub = traced (Decided sub) (tm_SubmitDecision env sub)"
  "tm_ResolveRequirementContract (tracing env) input = traced ReadContract (tm_ResolveRequirementContract env input)"
  "tm_TaskContract (tracing env) i = traced ReadContract (tm_TaskContract env i)"
  by (simp_all add: tracing_def)

lemma mirrors_reply: "mirrors (reply (tracing env) event err) (reply env event err)"
  by (cases "tm_AppendManagerReply env") (auto simp: reply_def Let_def tracing_def intro!: mirrors_rules)

lemma mirrors_projection: "mirrors (projectRequirement (tracing env) contract requirement n) (projectRequirement env contract requirement n)"
  by (cases "tm_taskContext env") (auto simp: projectRequirement_def tracing_def intro!: mirrors_rules)

lemma mirrors_finalize: "mirrors (RetryFinalize (tracing env) i) (RetryFinalize env i)"
  by (cases "tm_FinalizeTaskMemory env")
    (auto simp: RetryFinalize_def mirrors_def tracing_def call_def traced_def Let_def split: prod.splits option.splits if_splits)

lemma mirrors_handle: "mirrors (handle (tracing env) input) (handle env input)"
proof -
  note defs = handler_defs transition_def replacePending_def submission_def tracing_simps
  have "mirrors (HandleRequirement (tracing env) i) (HandleRequirement env i)" for i
    unfolding HandleRequirement_def defs by (intro mirrors_rules mirrors_reply mirrors_projection)
  moreover have "mirrors (HandleManagerDecision (tracing env) i d) (HandleManagerDecision env i d)" for i d
    unfolding HandleManagerDecision_def defs by (intro mirrors_rules mirrors_reply)
  moreover have "mirrors (HandlePhaseStopped (tracing env) i) (HandlePhaseStopped env i)" for i
    unfolding HandlePhaseStopped_def defs by (intro mirrors_rules mirrors_reply)
  moreover have "mirrors (HandleDelivery (tracing env) i) (HandleDelivery env i)" for i
    unfolding HandleDelivery_def defs by (intro mirrors_rules mirrors_reply mirrors_finalize)
  ultimately show ?thesis by (cases input) simp_all
qed


text \<open>The calls of a handler, in their order.\<close>

definition calls :: "'w ManagerEnv \<Rightarrow> manager_input \<Rightarrow> Manager \<times> 'w \<Rightarrow> manager_call list" where
  "calls env input s = (case run_state (handle (tracing env) input) (fst s, snd s, []) of (_, _, _, t) \<Rightarrow> t)"

lemma handle_well_handled:
  assumes "run_state (handle env input) s = ((result, err), s')"
  shows "well_handled env (inputRefOf input) result err (calls env input s)"
proof -
  obtain c w where s: "s = (c, w)" by (cases s)
  have all: "handles env (inputRefOf input) (handle (tracing env) input) (c, w)"
    by (cases input) (simp_all only: handle.simps inputRefOf.simps requirement_handled decision_handled stopped_handled delivery_handled)
  obtain t' where run: "run_state (handle (tracing env) input) (c, w, []) = ((result, err), fst s', snd s', t')"
    using mirrors_handle[of env input] assms unfolding mirrors_def s by (metis prod.collapse)
  from leadsD[OF all[simplified] run] run show ?thesis by (simp add: calls_def s)
qed

text \<open>
  C12. The Task Manager writes by decision only: whatever its collaborators answer, each write of the
  graph comes right after the decision it carries out was stored for this input, names that decision
  as its reference, and expects the revision the decision was made for.
\<close>

theorem manager_writes_decided:
  "decided_writes (tm_projectID env) (inputRefOf input) (calls env input s)"
proof -
  obtain result err s' where "run_state (handle env input) s = ((result, err), s')" by (metis prod.collapse)
  from handle_well_handled[OF this] show ?thesis by (simp add: well_handled_def)
qed

text \<open>
  C13. Every input gets one answer: a handler either fails without a result and without a reply, or its
  result names the input and the last decision stored for it, and one reply with the same content was
  handed to the recorder. An accepted input had all its decisions and writes succeed.
\<close>

theorem input_answered_once:
  assumes "run_state (handle env input) s = ((result, err), s')" "tm_AppendManagerReply env \<noteq> None"
  shows "mr_Status result = '''' \<and> err \<noteq> None \<and> answers (calls env input s) = []
    \<or> (\<exists>event e. answers (calls env input s) = [(event, e)] \<and> (err = None \<longrightarrow> e = None)
        \<and> result = \<lparr>mr_InputRef = me_InputRef event, mr_Status = me_Status event, mr_DecisionRef = me_DecisionRef event,
                      mr_GraphRevision = me_GraphRevision event\<rparr>
        \<and> me_InputRef event = inputRefOf input
        \<and> me_DecisionRef event = (if decisions (calls env input s) = [] then '''' else last (decisions (calls env input s)))
        \<and> (me_Status event = ReplyAccepted \<longrightarrow> decisions (calls env input s) \<noteq> [] \<and> (\<forall>c \<in> set (calls env input s). \<not> failed_write c)))"
  using handle_well_handled[OF assms(1)] assms(2) unfolding well_handled_def
  by (cases "mr_Status result = ''''") auto


text \<open>Collaborators for an example: contracts that ask for an artifact, replies that are kept, and a graph that is empty.\<close>

definition ex_contract :: "TaskID \<Rightarrow> TaskContract" where
  "ex_contract i = \<lparr>tc_TaskID = i, tc_ContractRef = ''contract'', tc_DeliveryPolicy = DeliveryPolicyNonCodeArtifact,
     tc_PhaseSpecs = [(EndpointPlan, ''spec:plan''), (EndpointExecute, ''spec:execute''), (EndpointVerify, ''spec:verify'')]\<rparr>"

definition ex_rest :: "ManagerReplyEvent list ManagerEnv" where
  "ex_rest = \<lparr>tm_projectID = ''p'', tm_Snapshot = \<lambda>_ w. (Inr (snapshot (pj_current newProject) 1), w),
     tm_ReplacePending = \<lambda>_ w. (Inr 2, w),
     tm_Transition = \<lambda>_ _ w. (Inr 2, w), tm_SubmitDecision = \<lambda>_ w. (Inr ''d1'', w),
     tm_ResolveRequirementContract = \<lambda>input w. (Inr (ex_contract (ri_TaskID input)), w),
     tm_TaskContract = \<lambda>i w. (Inr (ex_contract i), w), tm_taskContext = None,
     tm_AppendManagerReply = Some (\<lambda>event w. (None, w @ [event])), tm_FinalizeTaskMemory = None\<rparr>"

theorem input_answered_once_witness:
  "\<exists>event. answers (calls ex_rest (RequirementIn \<lparr>ri_InputRef = ''in-1'', ri_TaskID = ''ship'', ri_ContractRef = ''contract'',
       ri_Requirement = \<lparr>rq_Text = '''', rq_Goal = '''', rq_Constraints = [], rq_EvidenceRefs = []\<rparr>\<rparr>) (NewManager, [])) = [(event, None)]
     \<and> me_InputRef event = ''in-1'' \<and> me_DecisionRef event = ''d1''"
proof -
  let ?input = "RequirementIn \<lparr>ri_InputRef = ''in-1'', ri_TaskID = ''ship'', ri_ContractRef = ''contract'',
    ri_Requirement = \<lparr>rq_Text = '''', rq_Goal = '''', rq_Constraints = [], rq_EvidenceRefs = []\<rparr>\<rparr>"
  let ?run = "run_state (handle ex_rest ?input) (NewManager, [])"
  have "mr_Status (fst (fst ?run)) = ReplyAccepted \<and> snd (fst ?run) = None \<and> decisions (calls ex_rest ?input (NewManager, [])) = [''d1'']" by code_simp
  moreover have "?run = ((fst (fst ?run), snd (fst ?run)), snd ?run)" by simp
  moreover have "tm_AppendManagerReply ex_rest \<noteq> None" by (simp add: ex_rest_def)
  ultimately show ?thesis using input_answered_once[of ex_rest ?input "(NewManager, [])"] by fastforce
qed

end
