(* ===== verification/Manager_Host.thy ===== *)
theory Manager_Host
  imports Task_Manager_Properties
begin

text \<open>
  The Task Manager on the graph tools: the composition of \<open>internal/app/fakehost\<close>, where the manager's graph
  is the service of \<open>Service\<close> over the in-memory store, its decisions go to \<open>decisionStore\<close>, and the service
  reads the decision log that store fills. The other collaborators stay parameters. In this
  composition no call blocks, a decision is carried out exactly when its write succeeds, and what an
  accepted requirement or delivery means for the graph can be said.
\<close>

section \<open>The host\<close>

record 'v host =
  ho_graph :: MemoryStore
  ho_requests :: MemoryIdempotencyStore
  ho_decisions :: decisionStore
  ho_blocked :: bool \<comment> \<open>a call has not returned\<close>
  ho_rest :: 'v

definition returned ::
  "'v host \<Rightarrow> ((goerr + 'a) \<times> MemoryIdempotencyStore \<times> MemoryStore) option \<Rightarrow> (goerr + 'a) \<times> 'v host" where
  "returned w x = (case x of
     None \<Rightarrow> (Inl (Plain ''blocked''), w\<lparr>ho_blocked := True\<rparr>)
   | Some (r, st, g) \<Rightarrow> (r, w\<lparr>ho_requests := st, ho_graph := g\<rparr>))"

definition beside :: "('v \<Rightarrow> 'a \<times> 'v) \<Rightarrow> 'v host \<Rightarrow> 'a \<times> 'v host" where
  "beside f w = (case f (ho_rest w) of (x, v) \<Rightarrow> (x, w\<lparr>ho_rest := v\<rparr>))"

definition service :: "GraphService \<Rightarrow> 'v host \<Rightarrow> GraphService" where
  "service sv w = sv\<lparr>sv_decisions := dc_log (ho_decisions w)\<rparr>"

definition hostEnv ::
  "GraphService \<Rightarrow> (PendingSubgraph \<Rightarrow> goerr + string) \<Rightarrow> (Revision \<Rightarrow> string \<Rightarrow> GraphTransition \<Rightarrow> goerr + string) \<Rightarrow>
   'v ManagerEnv \<Rightarrow> 'v host ManagerEnv" where
  "hostEnv sv marshalSubgraph marshalTransition rest =
     \<lparr>tm_projectID = pr_ProjectID (sv_principal sv),
      tm_Snapshot = \<lambda>n w. (case ServiceSnapshot (service sv w) (ho_graph w) n of (r, g) \<Rightarrow> (r, w\<lparr>ho_graph := g\<rparr>)),
      tm_ReplacePending = \<lambda>subgraph w. returned w (ServiceReplacePending marshalSubgraph (service sv w) (ho_requests w) (ho_graph w) subgraph),
      tm_Transition = \<lambda>n ref w. returned w (ServiceTransition marshalTransition (service sv w) (ho_requests w) (ho_graph w) n ref),
      tm_SubmitDecision = \<lambda>sub w. (case SubmitDecision sub (ho_decisions w) of (r, d) \<Rightarrow> (r, w\<lparr>ho_decisions := d\<rparr>)),
      tm_ResolveRequirementContract = \<lambda>input. beside (tm_ResolveRequirementContract rest input),
      tm_TaskContract = \<lambda>i. beside (tm_TaskContract rest i),
      tm_taskContext = map_option (\<lambda>p.
        \<lparr>cp_RegisterTaskSubgraph = \<lambda>i. beside (cp_RegisterTaskSubgraph p i),
         cp_EnqueueProjection = \<lambda>request. beside (cp_EnqueueProjection p request),
         cp_RetryProjection = \<lambda>i. beside (cp_RetryProjection p i)\<rparr>) (tm_taskContext rest),
      tm_AppendManagerReply = map_option (\<lambda>append event. beside (append event)) (tm_AppendManagerReply rest),
      tm_FinalizeTaskMemory = map_option (\<lambda>finalize i batch. beside (finalize i batch)) (tm_FinalizeTaskMemory rest)\<rparr>"

definition NewHost :: "'v \<Rightarrow> 'v host" where
  "NewHost v = \<lparr>ho_graph = NewMemoryStore, ho_requests = NewMemoryIdempotencyStore,
     ho_decisions = \<lparr>dc_log = NewMemoryDecisionLog, dc_next = 0, dc_records = []\<rparr>, ho_blocked = False, ho_rest = v\<rparr>"

abbreviation project_of :: "'v host \<Rightarrow> GraphService \<Rightarrow> projectState" where
  "project_of w sv \<equiv> ensureProject (ho_graph w) (pr_ProjectID (sv_principal sv))"

section \<open>Requests that have returned\<close>

definition settled :: "MemoryIdempotencyStore \<Rightarrow> bool" where
  "settled st \<longleftrightarrow> (\<forall>k p. mget (st_records st) k = Some p \<longrightarrow> p < length (st_heap st) \<and> rec_done (st_heap st ! p))"

lemma Execute_settled:
  assumes "settled st"
  obtains r st' w' where "Execute hash st scope key payload (Some f) w = Some (r, st', w')" "settled st'"
    "\<And>k. mget (st_records st') k \<noteq> None \<Longrightarrow> k = RecordKey scope key \<or> mget (st_records st) k \<noteq> None"
    "mget (st_records st) (RecordKey scope key) = None \<Longrightarrow> f w = (r, w') \<or> isl r \<and> w' = w"
proof (cases "argumentCheck scope key False")
  case (Some e)
  then show ?thesis using assms by (intro that[of "Inl e" st w]) (simp_all add: Execute_def)
next
  case None
  let ?k = "RecordKey scope key"
  show ?thesis
  proof (cases "mget (st_records st) ?k")
    case (Some p)
    then have finished: "rec_done (st_heap st ! p)" using assms unfolding settled_def by blast
    have "\<exists>r. Execute hash st scope key payload (Some f) w = Some (r, st, w)"
      using None Some finished by (auto simp: Execute_def reserve_def await_def)
    then show ?thesis using that assms Some by fastforce
  next
    case fresh: None
    obtain r w' where run: "f w = (r, w')" by fastforce
    have "\<exists>st'. Execute hash st scope key payload (Some f) w = Some (r, st', w') \<and> settled st'
        \<and> (\<forall>k. mget (st_records st') k \<noteq> None \<longrightarrow> k = ?k \<or> mget (st_records st) k \<noteq> None)"
    proof (cases r)
      case (Inl e)
      then show ?thesis
        using None fresh run assms
        by (auto simp: Execute_def reserve_def Let_def releaseFailed_def gomap_simps settled_def nth_append intro: less_SucI split: if_splits)
    next
      case (Inr resp)
      then show ?thesis
        using None fresh run assms
        by (auto simp: Execute_def reserve_def Let_def commit_def gomap_simps settled_def nth_append intro: less_SucI split: if_splits)
    qed
    then show ?thesis using that run by blast
  qed
qed


section \<open>The invariant of the host\<close>

definition decisionRef :: "int \<Rightarrow> string" where
  "decisionRef n = ''decision://fakehost/'' @ itoa n"

definition host_ok :: "'v host \<Rightarrow> bool" where
  "host_ok w \<longleftrightarrow> \<not> ho_blocked w \<and> settled (ho_requests w)
     \<and> (\<forall>scope n. mget (st_records (ho_requests w)) (RecordKey scope (decisionRef n)) \<noteq> None \<longrightarrow> n \<le> dc_next (ho_decisions w))"

lemma decisionRef_inj [simp]: "decisionRef n = decisionRef k \<longleftrightarrow> n = k"
  by (simp add: decisionRef_def itoa_inj)

lemma decisionRef_named [simp]: "decisionRef n \<noteq> ''''"
  by (simp add: decisionRef_def)

text \<open>What the two writes of the service leave unchanged, and what a success means.\<close>

definition wrote :: "(MemoryStore \<Rightarrow> (goerr + GraphSnapshot) \<times> MemoryStore) \<Rightarrow> 'v host \<Rightarrow> goerr option \<Rightarrow> 'v host \<Rightarrow> bool" where
  "wrote write w err w' \<longleftrightarrow> host_ok w' \<and> ho_rest w' = ho_rest w
     \<and> (case err of
          Some _ \<Rightarrow> \<forall>j. ensureProject (ho_graph w') j = ensureProject (ho_graph w) j
        | None \<Rightarrow> \<exists>snap. write (ho_graph w) = (Inr snap, ho_graph w'))"

abbreviation error_of :: "goerr + 'a \<Rightarrow> goerr option" where
  "error_of r \<equiv> (case r of Inl e \<Rightarrow> Some e | Inr _ \<Rightarrow> None)"

lemma Execute_write:
  fixes w :: "'v host"
  assumes ok: "host_ok w" and number: "dc_next (ho_decisions w) = n"
    and fresh: "\<And>scope. mget (st_records (ho_requests w)) (RecordKey scope (decisionRef n)) = None"
    and action: "\<And>g. action g = revisionResponse (write g)"
    and fails: "\<And>g e j. fst (write g) = Inl e \<Longrightarrow> ensureProject (snd (write g)) j = ensureProject g j"
  shows "case returned w (decodeRevision (Execute hash (ho_requests w) scope (decisionRef n) payload (Some action) (ho_graph w))) of
      (r, w') \<Rightarrow> wrote write w (error_of r) w' \<and> ho_decisions w' = ho_decisions w"
proof -
  from ok have "settled (ho_requests w)" by (simp add: host_ok_def)
  then obtain r st g where run: "Execute hash (ho_requests w) scope (decisionRef n) payload (Some action) (ho_graph w) = Some (r, st, g)"
    and st: "settled st" "\<And>k. mget (st_records st) k \<noteq> None \<Longrightarrow> k = RecordKey scope (decisionRef n) \<or> mget (st_records (ho_requests w)) k \<noteq> None"
    and effect: "action (ho_graph w) = (r, g) \<or> isl r \<and> g = ho_graph w"
    using fresh[of scope] by (metis Execute_settled)
  have keys: "k \<le> n" if "mget (st_records st) (RecordKey scope' (decisionRef k)) \<noteq> None" for scope' k
    using st(2)[OF that] ok number unfolding host_ok_def by auto
  obtain snap g1 where written: "write (ho_graph w) = (snap, g1)" by fastforce
  show ?thesis
  proof (cases r)
    case (Inl e)
    have "ensureProject g j = ensureProject (ho_graph w) j" for j
      using effect fails[of "ho_graph w" _ j] written Inl
      by (cases snap) (auto simp: action revisionResponse_def and_then_def)
    then show ?thesis
      using run Inl st(1) keys ok number by (simp add: returned_def decodeRevision_def wrote_def host_ok_def and_then_def)
  next
    case (Inr resp)
    then have "action (ho_graph w) = (Inr resp, g)" using effect by auto
    then obtain v where "snap = Inr v" "g1 = g" "resp_Body resp = marshalRevision (snap_Revision v)"
      using written by (cases snap) (auto simp: action revisionResponse_def and_then_def)
    then show ?thesis
      using run Inr st(1) keys ok number written
      by (simp add: returned_def decodeRevision_def wrote_def host_ok_def and_then_def unmarshal_marshal)
  qed
qed


lemma Transition_fails: "fst (Transition g p n t) = Inl e \<Longrightarrow> ensureProject (snd (Transition g p n t)) j = ensureProject g j"
  using failed_write_changes_nothing[of g p n t e j] by blast

lemma ReplacePending_fails: "fst (ReplacePending g p sub) = Inl e \<Longrightarrow> ensureProject (snd (ReplacePending g p sub)) j = ensureProject g j"
  using failed_write_changes_nothing by blast

text \<open>A write that is refused before it reaches the store.\<close>

lemma wrote_refused: "host_ok w \<Longrightarrow> wrote write w (Some e) w"
  by (simp add: wrote_def)

lemma host_transition:
  fixes w :: "'v host"
  assumes "host_ok w" "dc_next (ho_decisions w) = n"
    and "\<And>scope. mget (st_records (ho_requests w)) (RecordKey scope (decisionRef n)) = None"
    and resolved: "ResolveTransition (dc_log (ho_decisions w)) (pr_ProjectID (sv_principal sv)) (decisionRef n) = Inr change"
  shows "case tm_Transition (hostEnv sv ms mt rest) revision (decisionRef n) w of
      (r, w') \<Rightarrow> wrote (\<lambda>g. Transition g (pr_ProjectID (sv_principal sv)) revision change) w (error_of r) w' \<and> ho_decisions w' = ho_decisions w"
proof (cases "require (service sv w) ToolCoordinationTransition")
  case (Inl e)
  then show ?thesis using assms(1) by (simp add: hostEnv_def ServiceTransition_def returned_def wrote_def host_ok_def)
next
  case (Inr scope)
  then have p: "sc_ProjectID scope = pr_ProjectID (sv_principal sv)" by (simp add: require_Inr service_def)
  have action: "transitionAction (pr_ProjectID (sv_principal sv)) revision (decisionRef n) change g
      = revisionResponse (Transition g (pr_ProjectID (sv_principal sv)) revision change)" for g
    by (simp add: transitionAction_def TransitionWithDecisionRef_def)
  have "sv_decisions (service sv w) = dc_log (ho_decisions w)" by (simp add: service_def)
  then show ?thesis
    using Execute_write[OF assms(1-3) action Transition_fails] assms(1) Inr
    by (auto simp: hostEnv_def ServiceTransition_def p resolved wrote_refused returned_def wrote_def host_ok_def split: sum.split)
qed

lemma host_replace:
  fixes w :: "'v host"
  assumes "host_ok w" "dc_next (ho_decisions w) = n"
    and "\<And>scope. mget (st_records (ho_requests w)) (RecordKey scope (decisionRef n)) = None"
    and authorized: "AuthorizeReplacePending (dc_log (ho_decisions w)) (pr_ProjectID (sv_principal sv)) (decisionRef n) = None"
    and request: "ps_RequestID subgraph = decisionRef n"
  shows "case tm_ReplacePending (hostEnv sv ms mt rest) subgraph w of
      (r, w') \<Rightarrow> wrote (\<lambda>g. ReplacePending g (pr_ProjectID (sv_principal sv)) subgraph) w (error_of r) w' \<and> ho_decisions w' = ho_decisions w"
proof (cases "require (service sv w) ToolCoordinationReplacePending")
  case (Inl e)
  then show ?thesis using assms(1) by (simp add: hostEnv_def ServiceReplacePending_def returned_def wrote_def host_ok_def)
next
  case (Inr scope)
  then have p: "sc_ProjectID scope = pr_ProjectID (sv_principal sv)" by (simp add: require_Inr service_def)
  have "sv_decisions (service sv w) = dc_log (ho_decisions w)" by (simp add: service_def)
  then have action: "replacePendingAction (service sv w) (pr_ProjectID (sv_principal sv)) subgraph g
      = revisionResponse (ReplacePending g (pr_ProjectID (sv_principal sv)) subgraph)" for g
    by (simp add: replacePendingAction_def request authorized)
  show ?thesis
    using Execute_write[OF assms(1-3) action ReplacePending_fails] assms(1) Inr
    by (auto simp: hostEnv_def ServiceReplacePending_def p request wrote_refused returned_def wrote_def host_ok_def split: sum.split)
qed

section \<open>Calls on the host\<close>

lemma SubmitDecision_numbered: "SubmitDecision sub d = (r, d') \<Longrightarrow> dc_next d' = dc_next d + 1"
  by (auto simp: SubmitDecision_def Let_def split: prod.splits option.splits if_splits)

lemma SubmitDecision_Inr:
  assumes "SubmitDecision sub d = (Inr ref, d')"
  shows "ref = decisionRef (dc_next d + 1)"
    and "ds_Kind sub = DecisionKindTransition \<Longrightarrow> ResolveTransition (dc_log d') (ds_ProjectID sub) ref = Inr (ds_Transition sub)"
    and "ds_Kind sub = DecisionKindReplacePending \<Longrightarrow> AuthorizeReplacePending (dc_log d') (ds_ProjectID sub) ref = None"
  using assms putDecision_None
  by (auto simp: SubmitDecision_def decisionRef_def Let_def RegisterTransition_def RegisterReplacePending_def ResolveTransition_def
      AuthorizeReplacePending_def fail_if_def putDecision_def gomap_simps split: prod.splits option.splits if_splits)


text \<open>A call that leaves the graph as it is.\<close>

definition host_same :: "'v host \<Rightarrow> 'v host \<Rightarrow> bool" where
  "host_same w w' \<longleftrightarrow> host_ok w' \<and> (\<forall>j. ensureProject (ho_graph w') j = ensureProject (ho_graph w) j)"

lemma wrote_parts [simp]:
  "wrote write w (Some e) w' \<longleftrightarrow> host_same w w' \<and> ho_rest w' = ho_rest w"
  "wrote write w None w' \<longleftrightarrow> host_ok w' \<and> ho_rest w' = ho_rest w \<and> (\<exists>snap. write (ho_graph w) = (Inr snap, ho_graph w'))"
  by (auto simp: wrote_def host_same_def)

lemma host_same_ok [simp]: "host_same w w' \<Longrightarrow> host_ok w'"
  by (simp add: host_same_def)

lemma host_same_trans: "host_same w v \<Longrightarrow> host_same v u \<Longrightarrow> host_same w u"
  by (simp add: host_same_def)

lemma host_same_project: "host_same w w' \<Longrightarrow> ensureProject (ho_graph w') j = ensureProject (ho_graph w) j"
  by (simp add: host_same_def)

definition snapshot_error :: "GraphService \<Rightarrow> goerr option" where
  "snapshot_error sv = (case require sv ToolCoordinationSnapshot of
     Inl e \<Rightarrow> Some e
   | Inr scope \<Rightarrow>
       if \<not> sv_configured sv then Some (kerr CodeInternalError ''coordination store is not configured'' True)
       else fail_if (IsZeroID (sc_ProjectID scope)) (InvalidArgument ''project_id is required''))"

named_theorems host_rules \<open>what a call on the host leads to\<close>

lemma host_snapshot [host_rules]:
  assumes "host_ok w"
    and "\<And>e. snapshot_error sv = Some e \<Longrightarrow> Q (Inl e) (m, w)"
    and "\<And>w'. snapshot_error sv = None \<Longrightarrow> host_same w w' \<Longrightarrow> ho_rest w' = ho_rest w \<Longrightarrow>
      Q (Inr (snapshot (pj_current (project_of w sv)) (pj_latest (project_of w sv)))) (m, w')"
  shows "leads (call (tm_Snapshot (hostEnv sv ms mt rest) LatestRevision)) Q (m, w)"
proof (rule leads_call)
  fix r w'
  assume run: "tm_Snapshot (hostEnv sv ms mt rest) LatestRevision w = (r, w')"
  have [simp]: "require (service sv w) t = require sv t" "sv_configured (service sv w) = sv_configured sv" for t
    by (simp_all add: require_def service_def)
  have latest: "IsLatestRead LatestRevision" by (simp add: IsLatestRead_def LatestRevision_def)
  show "Q r (m, w')"
  proof (cases "snapshot_error sv")
    case (Some e)
    then have "r = Inl e \<and> w' = w"
      using run by (auto simp: hostEnv_def ServiceSnapshot_def snapshot_error_def Latest_def latest fail_if_def split: sum.splits if_splits)
    then show ?thesis using assms(2) Some by simp
  next
    case None
    then obtain scope where scope: "require sv ToolCoordinationSnapshot = Inr scope" "sv_configured sv" "\<not> IsZeroID (sc_ProjectID scope)"
      by (auto simp: snapshot_error_def fail_if_def split: sum.splits if_splits)
    then have p: "sc_ProjectID scope = pr_ProjectID (sv_principal sv)" by (simp add: require_Inr)
    have "r = Inr (snapshot (pj_current (project_of w sv)) (pj_latest (project_of w sv)))"
      "w' = w\<lparr>ho_graph := putProject (ho_graph w) (pr_ProjectID (sv_principal sv)) (project_of w sv)\<rparr>"
      using run scope by (simp_all add: hostEnv_def ServiceSnapshot_def Latest_def latest p Let_def)
    then show ?thesis using assms(1) by (auto intro!: assms(3)[OF None] simp: host_same_def host_ok_def)
  qed
qed

lemma host_beside: "(\<And>x v. f (ho_rest w) = (x, v) \<Longrightarrow> Q x (m, w\<lparr>ho_rest := v\<rparr>)) \<Longrightarrow> leads (call (beside f)) Q (m, w)"
  by (rule leads_call) (auto simp: beside_def split: prod.splits)

lemma host_ok_rest [simp]: "host_ok (w\<lparr>ho_rest := v\<rparr>) \<longleftrightarrow> host_ok w"
  by (simp add: host_ok_def)

lemma host_same_rest [simp]: "host_ok w \<Longrightarrow> host_same w (w\<lparr>ho_rest := v\<rparr>)"
  by (simp add: host_same_def host_ok_def)


lemma host_resolve [host_rules]:
  "(\<And>x v. tm_ResolveRequirementContract rest input (ho_rest w) = (x, v) \<Longrightarrow> Q x (m, w\<lparr>ho_rest := v\<rparr>)) \<Longrightarrow>
   leads (call (tm_ResolveRequirementContract (hostEnv sv ms mt rest) input)) Q (m, w)"
  by (simp add: hostEnv_def host_beside)

lemma host_contract [host_rules]:
  "(\<And>x v. tm_TaskContract rest i (ho_rest w) = (x, v) \<Longrightarrow> Q x (m, w\<lparr>ho_rest := v\<rparr>)) \<Longrightarrow>
   leads (call (tm_TaskContract (hostEnv sv ms mt rest) i)) Q (m, w)"
  by (simp add: hostEnv_def host_beside)

lemma host_ok_submit:
  assumes "host_ok w" "SubmitDecision sub (ho_decisions w) = (r, d)"
  shows "host_same w (w\<lparr>ho_decisions := d\<rparr>)"
    and "mget (st_records (ho_requests w)) (RecordKey scope (decisionRef (dc_next d))) = None"
  using assms SubmitDecision_numbered[OF assms(2)] unfolding host_ok_def host_same_def by fastforce+

lemma host_submit [host_rules]:
  assumes "host_ok w" "\<And>r w'. host_same w w' \<Longrightarrow> ho_rest w' = ho_rest w \<Longrightarrow> Q r (m, w')"
  shows "leads (call (tm_SubmitDecision (hostEnv sv ms mt rest) sub)) Q (m, w)"
  by (rule leads_call) (auto simp: hostEnv_def intro!: assms(2) dest: host_ok_submit(1)[OF assms(1)] split: prod.splits)

text \<open>A decision and its write together.\<close>

lemma host_transition_rule [host_rules]:
  fixes w :: "'v host"
  assumes ok: "host_ok w"
    and post: "\<And>ref err w'. wrote (\<lambda>g. Transition g (pr_ProjectID (sv_principal sv)) n change) w err w' \<Longrightarrow> Q (ref, err) (m, w')"
  shows "leads (transition (hostEnv sv ms mt rest) i n decision change) Q (m, w)"
  unfolding transition_def
proof (intro leads_bind leads_call)
  fix r w1
  let ?sub = "(submission (hostEnv sv ms mt rest) i n decision DecisionKindTransition)\<lparr>ds_Transition := change\<rparr>"
  let ?W = "\<lambda>g. Transition g (pr_ProjectID (sv_principal sv)) n change"
  assume "tm_SubmitDecision (hostEnv sv ms mt rest) ?sub w = (r, w1)"
  then obtain d where submit: "SubmitDecision ?sub (ho_decisions w) = (r, d)" and w1: "w1 = w\<lparr>ho_decisions := d\<rparr>"
    by (auto simp: hostEnv_def split: prod.splits)
  have same: "host_same w w1" using host_ok_submit(1)[OF ok submit] w1 by simp
  show "leads (case r of Inl e \<Rightarrow> State_Monad.return ('''', Some e)
      | Inr ref \<Rightarrow> call (tm_Transition (hostEnv sv ms mt rest) n ref) \<bind> (\<lambda>written. State_Monad.return (ref, error_of written))) Q (m, w1)"
  proof (cases r)
    case (Inl e)
    then show ?thesis using same w1 by (auto intro!: leads_return post)
  next
    case (Inr ref)
    note submitted = SubmitDecision_Inr[OF submit[unfolded Inr]] SubmitDecision_numbered[OF submit]
    have ref: "ref = decisionRef (dc_next (ho_decisions w1))" using submitted by (simp add: w1)
    have kind: "ds_Kind ?sub = DecisionKindTransition" "ds_ProjectID ?sub = pr_ProjectID (sv_principal sv)" "ds_Transition ?sub = change"
      by (simp_all add: submission_def hostEnv_def)
    have "case tm_Transition (hostEnv sv ms mt rest) n (decisionRef (dc_next (ho_decisions w1))) w1 of
        (r, w') \<Rightarrow> wrote ?W w1 (error_of r) w' \<and> ho_decisions w' = ho_decisions w1"
      using host_ok_submit(2)[OF ok submit] submitted(2)[OF kind(1)] same
      by (intro host_transition) (simp_all add: w1 kind(2,3) submitted(1,4))
    then have "wrote ?W w (error_of x) w'" if "tm_Transition (hostEnv sv ms mt rest) n ref w1 = (x, w')" for x w'
      using that host_same_trans[OF same] unfolding ref by (cases x) (auto simp: w1)
    then show ?thesis by (auto simp: Inr intro!: leads_bind leads_call leads_return post)
  qed
qed

lemma host_replace_rule [host_rules]:
  fixes w :: "'v host"
  assumes ok: "host_ok w"
    and post: "\<And>ref err w'. wrote (\<lambda>g. ReplacePending g (pr_ProjectID (sv_principal sv)) (subgraph\<lparr>ps_RequestID := ref\<rparr>)) w err w' \<Longrightarrow> Q (ref, err) (m, w')"
  shows "leads (replacePending (hostEnv sv ms mt rest) i n decision subgraph) Q (m, w)"
  unfolding replacePending_def
proof (intro leads_bind leads_call)
  fix r w1
  let ?sub = "submission (hostEnv sv ms mt rest) i n decision DecisionKindReplacePending"
  let ?W = "\<lambda>ref g. ReplacePending g (pr_ProjectID (sv_principal sv)) (subgraph\<lparr>ps_RequestID := ref\<rparr>)"
  assume "tm_SubmitDecision (hostEnv sv ms mt rest) ?sub w = (r, w1)"
  then obtain d where submit: "SubmitDecision ?sub (ho_decisions w) = (r, d)" and w1: "w1 = w\<lparr>ho_decisions := d\<rparr>"
    by (auto simp: hostEnv_def split: prod.splits)
  have same: "host_same w w1" using host_ok_submit(1)[OF ok submit] w1 by simp
  show "leads (case r of Inl e \<Rightarrow> State_Monad.return ('''', Some e)
      | Inr ref \<Rightarrow> call (tm_ReplacePending (hostEnv sv ms mt rest) (subgraph\<lparr>ps_RequestID := ref\<rparr>)) \<bind>
          (\<lambda>written. State_Monad.return (ref, error_of written))) Q (m, w1)"
  proof (cases r)
    case (Inl e)
    then show ?thesis using same w1 by (auto intro!: leads_return post)
  next
    case (Inr ref)
    note submitted = SubmitDecision_Inr[OF submit[unfolded Inr]] SubmitDecision_numbered[OF submit]
    have ref: "ref = decisionRef (dc_next (ho_decisions w1))" using submitted by (simp add: w1)
    have kind: "ds_Kind ?sub = DecisionKindReplacePending" "ds_ProjectID ?sub = pr_ProjectID (sv_principal sv)"
      by (simp_all add: submission_def hostEnv_def)
    have "case tm_ReplacePending (hostEnv sv ms mt rest) (subgraph\<lparr>ps_RequestID := ref\<rparr>) w1 of
        (r, w') \<Rightarrow> wrote (?W ref) w1 (error_of r) w' \<and> ho_decisions w' = ho_decisions w1"
      using host_ok_submit(2)[OF ok submit] submitted(3)[OF kind(1)] same
      by (intro host_replace) (simp_all add: w1 kind(2) submitted(1,4))
    then have "wrote (?W ref) w (error_of x) w'" if "tm_ReplacePending (hostEnv sv ms mt rest) (subgraph\<lparr>ps_RequestID := ref\<rparr>) w1 = (x, w')" for x w'
      using that host_same_trans[OF same] by (cases x) (auto simp: w1)
    then show ?thesis by (auto simp: Inr intro!: leads_bind leads_call leads_return post)
  qed
qed

lemma host_reply [host_rules]:
  assumes "host_ok w" "\<And>e w'. host_same w w' \<Longrightarrow> Q (\<lparr>mr_InputRef = me_InputRef event, mr_Status = me_Status event,
      mr_DecisionRef = me_DecisionRef event, mr_GraphRevision = me_GraphRevision event\<rparr>, e) (m, w')"
  shows "leads (reply (hostEnv sv ms mt rest) event err) Q (m, w)"
  using assms(1) unfolding reply_def Let_def
  by (cases "tm_AppendManagerReply rest") (auto simp: hostEnv_def host_same_def intro!: leads_return leads_bind host_beside assms(2))


lemma host_projection [host_rules]:
  assumes "host_ok w" "\<And>r w'. host_same w w' \<Longrightarrow> Q r (m, w')"
  shows "leads (projectRequirement (hostEnv sv ms mt rest) contract requirement n) Q (m, w)"
proof (cases "tm_taskContext rest")
  case None
  then show ?thesis using assms by (simp add: projectRequirement_def hostEnv_def leads_return host_same_def)
next
  case (Some p)
  then show ?thesis
    using assms(1) unfolding projectRequirement_def
    by (simp add: hostEnv_def) (auto simp: host_same_def intro!: leads_bind host_beside leads_option leads_return assms(2))
qed

lemma host_finalize [host_rules]:
  assumes "host_ok w" "\<And>r m' w'. host_same w w' \<Longrightarrow> Q r (m', w')"
  shows "leads (RetryFinalize (hostEnv sv ms mt rest) i) Q (m, w)"
proof (cases "tm_FinalizeTaskMemory rest")
  case None
  then show ?thesis using assms by (simp add: RetryFinalize_def hostEnv_def leads_return host_same_def)
next
  case (Some finalize)
  then have some: "tm_FinalizeTaskMemory (hostEnv sv ms mt rest) = Some (\<lambda>i batch. beside (finalize i batch))"
    by (simp add: hostEnv_def)
  show ?thesis
    using assms(1) unfolding RetryFinalize_def Let_def some option.case
    by (intro leads_bind leads_get leads_set leads_pair leads_if)
       (auto simp: host_same_def intro!: leads_return leads_bind leads_get leads_set leads_option host_beside assms(2))
qed

section \<open>Every call returns\<close>

lemmas on_host = host_rules run_rules conjI allI impI

text \<open>The states of the host: its inputs one after the other, while the rest of the system writes the graph.\<close>

inductive host_reachable :: "'v host ManagerEnv \<Rightarrow> Manager \<times> 'v host \<Rightarrow> bool" for env where
  host_starts: "host_reachable env (NewManager, NewHost v)"
| host_handles: "host_reachable env s \<Longrightarrow> run_state (handle env input) s = (r, s') \<Longrightarrow> host_reachable env s'"
| host_graph: "host_reachable env (m, w) \<Longrightarrow> host_reachable env (m, w\<lparr>ho_graph := g\<rparr>)"

lemma handle_host_ok:
  assumes "host_ok w"
  shows "leads (handle (hostEnv sv ms mt rest) input) (\<lambda>_ (_, w'). host_ok w') (m, w)"
proof (cases input)
  case (RequirementIn i)
  then show ?thesis
    unfolding RequirementIn handle.simps HandleRequirement_def handler_defs
    by (intro on_host) (use assms in \<open>auto simp: wrote_def split: option.splits\<close>)
next
  case (DecisionIn i decision)
  then show ?thesis
    unfolding DecisionIn handle.simps HandleManagerDecision_def handler_defs
    by (intro on_host) (use assms in \<open>auto simp: wrote_def split: option.splits\<close>)
next
  case (StoppedIn i)
  then show ?thesis
    unfolding StoppedIn handle.simps HandlePhaseStopped_def handler_defs
    by (intro on_host) (use assms in \<open>auto simp: wrote_def split: option.splits\<close>)
next
  case (DeliveryIn i)
  then show ?thesis
    unfolding DeliveryIn handle.simps HandleDelivery_def handler_defs
    by (intro on_host) (use assms in \<open>auto simp: wrote_def split: option.splits\<close>)
qed

lemma reachable_host_ok: "host_reachable (hostEnv sv ms mt rest) s \<Longrightarrow> host_ok (snd s)"
proof (induction rule: host_reachable.induct)
  case (host_starts v)
  then show ?case by (simp add: NewHost_def host_ok_def settled_def NewMemoryIdempotencyStore_def)
next
  case (host_handles s input r s')
  then show ?case using leadsD[OF handle_host_ok, of "snd s" sv ms mt rest input "fst s" r s'] by (cases s') auto
next
  case (host_graph m w g)
  then show ?case by (simp add: host_ok_def)
qed


section \<open>Deliveries\<close>

lemma task_done_Inr:
  assumes "Transition g p n (zeroTransition\<lparr>tr_TargetKind := TargetTask, tr_TaskID := i, tr_Action := TaskDone\<rparr>) = (Inr snap, g')"
  shows "\<exists>task verify. mget (gs_tasks (pj_current (ensureProject g p))) i = Some task \<and> task_Outcome task = TaskActive
    \<and> mget (gs_endpoints (pj_current (ensureProject g p))) (mkRef i EndpointVerify) = Some verify \<and> ep_State verify = EndpointSatisfied
    \<and> pj_current (ensureProject g' p) = (pj_current (ensureProject g p))\<lparr>gs_tasks :=
        mput i (task\<lparr>task_Outcome := TaskDone\<rparr>) (gs_tasks (pj_current (ensureProject g p)))\<rparr>"
proof -
  let ?t = "zeroTransition\<lparr>tr_TargetKind := TargetTask, tr_TaskID := i, tr_Action := TaskDone\<rparr>"
  have "applyTaskTransition (pj_current (ensureProject g p)) ?t = Inr (pj_current (ensureProject g' p))"
    using Transition_Inr(2)[of g p n ?t snap] assms by (simp add: applyTransition_def)
  then show ?thesis
    by (auto simp: applyTaskTransition_def requireVerifySatisfied_def checked_Inr first_err_None fail_if_None split: option.splits)
qed

text \<open>The task has become done, by the evidence its contract asks for and nothing else has changed.\<close>

definition task_completed :: "GraphService \<Rightarrow> 'v ManagerEnv \<Rightarrow> DeliveryInput \<Rightarrow> 'v host \<Rightarrow> 'v host \<Rightarrow> bool" where
  "task_completed sv rest input w w' \<longleftrightarrow>
     (\<exists>contract v task verify. tm_TaskContract rest (di_TaskID input) (ho_rest w) = (Inr contract, v)
        \<and> deliverySatisfied (tc_DeliveryPolicy contract) (di_Evidence input)
        \<and> mget (gs_tasks (pj_current (project_of w sv))) (di_TaskID input) = Some task \<and> task_Outcome task = TaskActive
        \<and> mget (gs_endpoints (pj_current (project_of w sv))) (mkRef (di_TaskID input) EndpointVerify) = Some verify
        \<and> ep_State verify = EndpointSatisfied
        \<and> pj_current (project_of w' sv) = (pj_current (project_of w sv))\<lparr>gs_tasks :=
            mput (di_TaskID input) (task\<lparr>task_Outcome := TaskDone\<rparr>) (gs_tasks (pj_current (project_of w sv)))\<rparr>)"

lemma delivery_on_host:
  assumes "host_ok w"
  shows "leads (HandleDelivery (hostEnv sv ms mt rest) input)
    (\<lambda>(result, err) (_, w'). if mr_Status result = ReplyAccepted then task_completed sv rest input w w' else host_same w w') (m, w)"
  unfolding HandleDelivery_def handler_defs
  by (intro on_host) (use assms in \<open>auto simp: noResult_def host_same_def task_completed_def dest!: task_done_Inr\<close>)


text \<open>An example: the graph with a verified task, and a contract that asks for an artifact.\<close>

definition ex_service :: GraphService where
  "ex_service = example_manager\<lparr>sv_principal := (sv_principal example_manager)\<lparr>pr_Tools :=
     [ToolCoordinationSnapshot, ToolCoordinationTransition, ToolCoordinationReplacePending]\<rparr>\<rparr>"

definition ex_host_env :: "ManagerReplyEvent list host ManagerEnv" where
  "ex_host_env = hostEnv ex_service (\<lambda>_. Inr ''subgraph'') example_marshal ex_rest"

definition ex_host :: "MemoryStore \<Rightarrow> Manager \<times> ManagerReplyEvent list host" where
  "ex_host g = (NewManager, (NewHost [])\<lparr>ho_graph := g\<rparr>)"

lemma ex_host_reachable: "host_reachable ex_host_env (ex_host g)"
  unfolding ex_host_def by (intro host_graph host_starts)

definition ex_delivery :: "string list \<Rightarrow> DeliveryInput" where
  "ex_delivery artifacts = \<lparr>di_InputRef = ''in-1'', di_TaskID = ''build'', di_Evidence =
     \<lparr>dv_ArtifactRefs = artifacts, dv_EvidenceRefs = [], dv_ExternalDelivered = False, dv_HumanAccepted = False,
      dv_LatestMainVerified = False, dv_MergeSucceeded = False, dv_MergeCommitRef = ''''\<rparr>\<rparr>"

definition ex_requirement :: RequirementInput where
  "ex_requirement = \<lparr>ri_InputRef = ''in-2'', ri_TaskID = ''ship'', ri_ContractRef = ''contract'',
     ri_Requirement = \<lparr>rq_Text = ''ship it'', rq_Goal = '''', rq_Constraints = [], rq_EvidenceRefs = []\<rparr>\<rparr>"

lemma ex_delivery_runs:
  "mr_Status (fst (fst (run_state (HandleDelivery ex_host_env (ex_delivery [''a''])) (ex_host example_verified)))) = ReplyAccepted"
  by code_simp

lemma ex_requirement_runs:
  "mr_Status (fst (fst (run_state (HandleRequirement ex_host_env ex_requirement) (ex_host example_verified)))) = ReplyAccepted"
  by code_simp

text \<open>
  C7. A delivery finishes a task exactly by its contract: the manager accepts it only when the contract's
  delivery policy holds for the evidence, the task was active and its verify endpoint satisfied, and
  then the task is done and nothing else of the graph has changed. With any other answer, or none, the
  graph of every project is as before.
\<close>

theorem delivery_completes_task:
  assumes "host_reachable (hostEnv sv ms mt rest) (m, w)"
    and "run_state (HandleDelivery (hostEnv sv ms mt rest) input) (m, w) = ((result, err), m', w')"
  shows "if mr_Status result = ReplyAccepted then task_completed sv rest input w w'
    else \<forall>j. ensureProject (ho_graph w') j = ensureProject (ho_graph w) j"
proof -
  have "host_ok w" using reachable_host_ok[OF assms(1)] by simp
  from leadsD[OF delivery_on_host[OF this] assms(2)] show ?thesis by (simp add: host_same_def split: if_splits)
qed

theorem delivery_completes_task_witness:
  "case run_state (HandleDelivery ex_host_env (ex_delivery [''a''])) (ex_host example_verified) of
     (_, _, w') \<Rightarrow> task_completed ex_service ex_rest (ex_delivery [''a'']) (snd (ex_host example_verified)) w'"
proof -
  obtain result err m' w' where run: "run_state (HandleDelivery ex_host_env (ex_delivery [''a''])) (ex_host example_verified) = ((result, err), m', w')"
    by (metis prod.collapse)
  have "host_reachable (hostEnv ex_service (\<lambda>_. Inr ''subgraph'') example_marshal ex_rest) (fst (ex_host example_verified), snd (ex_host example_verified))"
    using ex_host_reachable by (simp add: ex_host_env_def)
  from delivery_completes_task[OF this] run ex_delivery_runs show ?thesis by (simp add: ex_host_env_def)
qed


section \<open>Requirements\<close>

text \<open>The graph has the contract's task with its three endpoints ready to run, and all other tasks and endpoints as before.\<close>

definition has_task :: "graphState \<Rightarrow> TaskContract \<Rightarrow> graphState \<Rightarrow> bool" where
  "has_task g contract g' \<longleftrightarrow>
     mget (gs_tasks g') (tc_TaskID contract) = Some \<lparr>task_ID = tc_TaskID contract, task_ContractRef = tc_ContractRef contract, task_Outcome = TaskActive\<rparr>
   \<and> (\<forall>e \<in> {EndpointPlan, EndpointExecute, EndpointVerify}. mget (gs_endpoints g') (mkRef (tc_TaskID contract) e) = Some (newEndpoint contract e))
   \<and> (\<forall>i. i \<noteq> tc_TaskID contract \<longrightarrow> mget (gs_tasks g') i = mget (gs_tasks g) i
        \<and> (\<forall>e. mget (gs_endpoints g') (mkRef i e) = mget (gs_endpoints g) (mkRef i e)))"

lemma requirement_applied:
  assumes "ReplacePending g p ((requirementSubgraph contract n)\<lparr>ps_RequestID := ref\<rparr>) = (Inr snap, g')"
  shows "has_task (pj_current (ensureProject g p)) contract (pj_current (ensureProject g' p))"
proof -
  have "pj_current (ensureProject g' p) = applyPendingSubgraph (pj_current (ensureProject g p)) ((requirementSubgraph contract n)\<lparr>ps_RequestID := ref\<rparr>)"
    using assms by (auto simp: ReplacePending_def replacePendingGraph_def Let_def commitGraph_def checked_Inr split: if_splits sum.splits)
  then show ?thesis
    by (auto simp: has_task_def applyPendingSubgraph_def requirementSubgraph_def newEndpoint_def Let_def gomap_simps)
qed

lemma requirement_on_host:
  assumes "host_ok w"
  shows "leads (HandleRequirement (hostEnv sv ms mt rest) input)
    (\<lambda>(result, err) (_, w').
       (mr_Status result = ReplyAccepted \<longrightarrow> (\<exists>contract v. tm_ResolveRequirementContract rest input (ho_rest w) = (Inr contract, v)
          \<and> validateTaskContract contract = None \<and> has_task (pj_current (project_of w sv)) contract (pj_current (project_of w' sv))
          \<and> mr_GraphRevision result = pj_latest (project_of w' sv)))
     \<and> (mr_Status result \<notin> {ReplyAccepted, ReplyDeferred} \<longrightarrow> (\<forall>j. ensureProject (ho_graph w') j = ensureProject (ho_graph w) j))) (m, w)"
  unfolding HandleRequirement_def handler_defs
  by (intro on_host) (use assms in \<open>auto simp: noResult_def host_same_def snapshot_def dest!: requirement_applied\<close>)

text \<open>
  C14. An accepted requirement is in the graph: the contract stored for the requirement is complete, its
  task is there, active, with a plan, an execute and a verify endpoint of generation one that are
  pending and enabled, every other task and endpoint is as before, and the answer names the graph's
  revision. An input that is neither accepted nor deferred has not changed the graph.
\<close>

theorem requirement_creates_task:
  assumes "host_reachable (hostEnv sv ms mt rest) (m, w)"
    and "run_state (HandleRequirement (hostEnv sv ms mt rest) input) (m, w) = ((result, err), m', w')"
  shows "(mr_Status result = ReplyAccepted \<longrightarrow> (\<exists>contract v. tm_ResolveRequirementContract rest input (ho_rest w) = (Inr contract, v)
        \<and> validateTaskContract contract = None \<and> has_task (pj_current (project_of w sv)) contract (pj_current (project_of w' sv))
        \<and> mr_GraphRevision result = pj_latest (project_of w' sv)))
    \<and> (mr_Status result \<notin> {ReplyAccepted, ReplyDeferred} \<longrightarrow> (\<forall>j. ensureProject (ho_graph w') j = ensureProject (ho_graph w) j))"
proof -
  have "host_ok w" using reachable_host_ok[OF assms(1)] by simp
  from leadsD[OF requirement_on_host[OF this] assms(2)] show ?thesis by simp
qed

theorem requirement_creates_task_witness:
  "case run_state (HandleRequirement ex_host_env ex_requirement) (ex_host example_verified) of
     (_, _, w') \<Rightarrow> has_task (pj_current (ensureProject example_verified ''p'')) (ex_contract ''ship'') (pj_current (ensureProject (ho_graph w') ''p''))"
proof -
  obtain result err m' w' where run: "run_state (HandleRequirement ex_host_env ex_requirement) (ex_host example_verified) = ((result, err), m', w')"
    by (metis prod.collapse)
  have reach: "host_reachable (hostEnv ex_service (\<lambda>_. Inr ''subgraph'') example_marshal ex_rest) (fst (ex_host example_verified), snd (ex_host example_verified))"
    using ex_host_reachable by (simp add: ex_host_env_def)
  have p: "pr_ProjectID (sv_principal ex_service) = ''p''" by (simp add: ex_service_def example_manager_def)
  have contract: "tm_ResolveRequirementContract ex_rest ex_requirement v = (Inr (ex_contract ''ship''), v)" for v
    by (simp add: ex_rest_def ex_requirement_def)
  have "run_state (HandleRequirement (hostEnv ex_service (\<lambda>_. Inr ''subgraph'') example_marshal ex_rest) ex_requirement)
      (fst (ex_host example_verified), snd (ex_host example_verified)) = ((result, err), m', w')"
    using run by (simp add: ex_host_env_def)
  from requirement_creates_task[OF reach this] run ex_requirement_runs show ?thesis
    by (simp add: p contract ex_host_def)
qed

text \<open>
  The composed manager never hangs: whatever inputs it has handled and however the graph was written
  in between, each of its calls of the graph tools has returned. No request is left waiting for
  another in the idempotency store.
\<close>

theorem host_calls_return:
  assumes "host_reachable (hostEnv sv ms mt rest) s"
  shows "\<not> ho_blocked (snd s) \<and> settled (ho_requests (snd s))"
  using reachable_host_ok[OF assms] by (simp add: host_ok_def)

theorem host_calls_return_witness:
  "\<not> ho_blocked (snd (snd (run_state (handle ex_host_env (DeliveryIn (ex_delivery [''a'']))) (ex_host example_verified))))"
proof -
  obtain r s' where run: "run_state (handle ex_host_env (DeliveryIn (ex_delivery [''a'']))) (ex_host example_verified) = (r, s')"
    by (metis prod.collapse)
  have "host_reachable (hostEnv ex_service (\<lambda>_. Inr ''subgraph'') example_marshal ex_rest) s'"
    using host_handles[OF ex_host_reachable run] by (simp add: ex_host_env_def)
  from host_calls_return[OF this] run show ?thesis by simp
qed

end
