(* ===== verification/Spec2Isabelle.thy ===== *)
theory Spec2Isabelle
  imports Store_Properties Lease_Properties Runtime_Properties Auth_Properties Service_Properties Evidence_Properties
    Merge_Reconciler_Properties Workspace_Properties Idempotency Context_Properties Phase_Properties Recovery_Store Manager_Host
begin

text \<open>
  Threadmill coordinates teams of coding agents. A Task Manager keeps a graph of tasks, each with a plan, an
  execute and a verify endpoint; a runtime starts phases as the graph allows and their leases
  permit, and a phase controller runs each of them as an invocation of an agent; agents work in git worktrees, share a context graph, leave evidence in an event log and an artifact
  registry, and a merge queue brings their branches together. This library models these components and proves
  what they promise. The sources are under \<open>src/internal\<close>.

  \<^bold>\<open>How the program is modelled.\<close> A Go struct is a record, whose fields carry a short prefix and the name the
  source has; string constants are abbreviations with the source's names; a Go map is an association list
  (\<open>gomap\<close> of \<open>Prelude\<close>) whose order stands for the order of one \<open>range\<close> loop, which Go leaves open. An operation is a
  function from the state and its arguments to its result and the new state. Errors are values of \<open>goerr\<close>, and the order of
  the checks is the order of the source (\<open>first_err\<close>, \<open>checked\<close>, \<open>and_then\<close>). The mutex of a store makes a call one step;
  a cancelled context is the argument \<open>ctx\<close>, the clock is an argument, and what lies outside the repository (git, the file
  system, SHA-256, JSON, regular expressions, random tokens) is an argument too. Copies that protect against aliasing are the
  identity on values.

  \<^bold>\<open>Shared theories.\<close> \<open>Prelude\<close> has chains of checks, maps, decimal text, sorting and machine integers with the
  collections \<open>check_simps\<close>, \<open>gomap_simps\<close> and \<open>inv_intros\<close>; \<open>Go_Strings\<close> has the parts of \<open>strings\<close>, \<open>path\<close> and
  \<open>sort\<close> in use; \<open>Kernel\<close> is \<open>kernel/errors.go\<close>, \<open>id.go\<close> and \<open>revision.go\<close>.

  \<^bold>\<open>Coordination\<close> (\<open>coordination\<close>).
  \<^item> \<open>Graph_Types\<close>, \<open>Graph_Validate\<close>, \<open>Graph_Transition\<close>, \<open>Graph_Pending\<close>: the graph of \<open>types.go\<close>, its validation and cycle check
    (\<open>validation.go\<close>), transitions of endpoints, blockers and tasks (\<open>transition.go\<close>) and the replacement of the pending part.
  \<^item> \<open>Graph_Store\<close>, \<open>Command_Store\<close>, \<open>Graph_Recovery\<close>: projects with their history of revisions (\<open>memory_store.go\<close>), leases,
    commands and observations (\<open>command_store.go\<close>, \<open>phase_observation.go\<close>) and the view the runtime works on (\<open>recovery.go\<close>).
  \<^item> \<open>Runtime_Port\<close>, \<open>Scheduler\<close>, \<open>Graph_Runtime\<close>: the selection of endpoints (\<open>runtime_port.go\<close>, \<open>scheduler/scheduler.go\<close>) behind the
    locale \<open>selection_policy\<close>, which both policies interpret, and one reconciliation (\<open>runtime.go\<close>).
  \<^item> \<open>Service\<close>: the decision log and the graph tools of the Task Manager (\<open>decision.go\<close>, \<open>service.go\<close>).
  \<^item> \<open>Graph_Evolution\<close>, \<open>Graph_History\<close>, \<open>Lease_Inv\<close>, \<open>Coordination\<close>: the invariants of graphs, histories and leases through the locales
    \<open>graph_writer\<close> and \<open>runtime_operation\<close>, with an interpretation for every write and every locked operation, and the store as a
    step system.
  \<^item> \<open>Store_Properties\<close>, \<open>Lease_Properties\<close>, \<open>Runtime_Properties\<close>, \<open>Service_Properties\<close>: stored graphs are valid and acyclic, committed
    revisions do not change, outcomes are final and need their evidence, a generation is claimed at most once and only when it is
    runnable, leases and commands fit together, a reconciliation returns and stays within its capacity, and a write of
    the service is authorised by a decision.

  \<^bold>\<open>Platform\<close>. \<open>Idempotency\<close> is \<open>kernel/idempotency.go\<close>, as one call and as interleaved calls: the function of a key succeeds once.
  \<open>Auth\<close> and \<open>Auth_Properties\<close> are \<open>platform/auth\<close>: sessions and tokens are two interpretations of
  \<open>credential_store\<close>; revoked credentials are refused, issued tokens authenticate, and a tool call is bound to its invocation.
  \<open>Object_Store\<close> is \<open>platform/objectstore\<close> with the locale \<open>content_store\<close>.

  \<^bold>\<open>Evidence\<close>. \<open>Evidence\<close> and \<open>Evidence_Properties\<close> are \<open>evidence/eventlog.go\<close> and \<open>artifact.go\<close>: an accepted event is in the log exactly
  once, paging reads the log without gaps, and a registered artifact is read back by those it is granted to.

  \<^bold>\<open>Merging\<close>. \<open>Merge_Queue\<close>, \<open>Merge_Inv\<close>, \<open>Merge_Properties\<close> are \<open>mergequeue/model.go\<close> and \<open>store.go\<close> with the locale \<open>queue_operation\<close>:
  one writer per repository, claims in order of arrival, final outcomes. \<open>Merge_Reconciler\<close>, \<open>Merge_Reconciler_Inv\<close> and
  \<open>Merge_Reconciler_Properties\<close> are the worker of \<open>reconciler.go\<close> and the push of \<open>git_merge.go\<close>, on top of the queue, the event log and the registry: what is
  recorded as merged has been on the branch, a delivered audit is in the log, and a run leaves the repository free.
  What is assumed of git are the hypotheses \<open>git_laws\<close> and \<open>branch_laws\<close>.

  \<^bold>\<open>Workspaces\<close>. \<open>Workspace_Paths\<close>, \<open>Workspace\<close>, \<open>Workspace_Inv\<close>, \<open>Workspace_Properties\<close> are \<open>workspace/model.go\<close>, \<open>store.go\<close> and the guards of
  \<open>agent_tools.go\<close>, with the locale \<open>workspace_operation\<close>: phases complete in order, decisions about a workspace stay, and an
  agent's write is confined to its directories. \<open>Workspace_Links\<close> compares the code's link check with the walk of the kernel (\<open>leadsTo\<close>): the two agree on a disk
  whose links are direct, and \<open>nested_link_escapes\<close> is a disk without this on which an accepted path leads out of the root.

  \<^bold>\<open>Context graph\<close> (\<open>contextgraph\<close>). \<open>Context_Types\<close> has the data, the visibility rules of \<open>permissions.go\<close> and the helpers of \<open>store.go\<close>;
  \<open>Context_Graph\<close> has events, deltas and subscriptions (\<open>delta_dispatcher.go\<close>, \<open>subscription.go\<close>); \<open>Context_Curator\<close> the operations
  on nodes and subgraphs with listing, exploration and search (\<open>store.go\<close>); \<open>Context_Memory\<close> slices, task context, candidates, review and snapshot
  (\<open>slice.go\<close>, \<open>task_binding.go\<close>, \<open>projection.go\<close>, \<open>memory_buffer.go\<close>, \<open>review.go\<close>, \<open>snapshot.go\<close>). \<open>Context_Inv\<close> states the invariant and the contracts
  \<open>context_operation\<close> and \<open>graph_operation\<close>; \<open>Context_Curator_Inv\<close> and \<open>Context_Memory_Inv\<close> interpret them for every operation;
  \<open>Context_Properties\<close> shows that nodes are well typed, that the store refines the abstract machine \<open>memory_step\<close> of a task's
  memory, that what a principal is shown stays in its project and task, and that a new node reaches its subscribers: no operation changes or drops a delta, an
  acknowledgement or the scope of a subscription (\<open>log_kept\<close>).

  \<^bold>\<open>Phases and invocations\<close> (\<open>runtime\<close>). \<open>Invocations\<close> is \<open>invocation.go\<close> and \<open>envelope.go\<close> with the locale \<open>invocation_store\<close>, which
  the in-memory store interprets; \<open>Prompt_Catalog\<close> is \<open>promptcatalog/catalog.go\<close> and \<open>policy.go\<close>; \<open>Phase_Controller\<close> is
  \<open>phase/controller.go\<close> and \<open>proposal.go\<close>. An operation of the controller is a function on the controller's state and a world \<open>'w\<close>, which
  stands for everything its collaborators keep: the host, the binding resolver, the input runtime, the artifact router, the lifecycle, the recovery
  store, the clock, the order of map loops and the cancelled context are fields of \<open>PhaseEnv\<close> and may answer differently at every call. The outcome is a value, an
  error, or \<open>Wait\<close> where the code waits for another call to finish. The controller writes its observations to the store of
  \<open>Command_Store\<close>, and its assembler uses the catalog. \<open>Phase_Inv\<close> has the weakest preconditions of these operations and the invariant, \<open>Phase_Operations_Inv\<close>
  and \<open>Phase_Frame\<close> what every operation keeps. \<open>Phase_Properties\<close> has the step relation \<open>phase_step\<close>: any operation, a step of the graph, a restart that
  loses the memory of the controller, and \<open>AwaitInputs\<close> in two steps, since other calls run while it blocks; the other operations run one at a time. It shows that
  an invocation's record and terminal status stay, that reported outcomes agree with it, that a command is applied once and its phase not dispatched twice, when an
  output is accepted, and that the controller keeps the contract of the graph runtime's port. The first of these holds whatever the recovery store answers; the second
  assumes \<open>recovery_laws\<close> of it. \<open>Recovery_Store\<close> is \<open>phase/postgres_recovery_store.go\<close> on its table: a recovered invocation carries the command asked with, and its receipts name
  the command of their run as long as those recorded do (\<open>recovered_command\<close>, \<open>returned_receipt\<close>, \<open>obligations_kept\<close>).
  \<open>Catalog_Properties\<close> shows that skills come after their dependencies and that an assembled invocation gets a token for no more than its role's tools.

  \<^bold>\<open>The Task Manager\<close> (\<open>taskmanager/app.go\<close>). \<open>Task_Manager\<close> has its handlers as computations of the state monad over the manager's maps and a world its
  collaborators share, and the decision store of \<open>app/fakehost\<close>. \<open>Task_Manager_Properties\<close> holds for any collaborators: \<open>tracing\<close> records their calls beside the world without
  changing the run (\<open>mirrors_handle\<close>), and the record shows that each write follows its decision and each input gets one answer. \<open>Manager_Host\<close> composes the manager with
  \<open>Service\<close>, the decision log and the decision store: an accepted delivery completes exactly its task, on the evidence its contract asks for, an accepted requirement
  is in the graph with its three endpoints, and no call of this composition blocks. A call that would not return is visible as \<open>ho_blocked\<close>.

  \<^bold>\<open>Integers, bounds and fuel.\<close> Revisions are 64-bit words and wrap as in Go; generations and capacities are integers with the wrap of \<open>int64\<close>
  written out. Capacity theorems assume an available capacity below \<open>2^62\<close>, which keeps a sum of costs from wrapping. The claim loop of a reconciliation,
  \<open>claimRounds\<close>, is a partial function, and its theorem proves that it returns. The resolution of links stops after 32, as the code does; the walk of the
  kernel has the number of links it may follow as fuel, and its theorem holds for every number. The
  search for a subgraph identifier has the number of subgraphs plus one as fuel, and \<open>freshSubgraph_returns\<close> shows that it is enough; the search for
  a subscription identifier repeats one name forever when it is taken, which is the value \<open>None\<close>, and \<open>Context_Properties\<close> shows that it is never taken.

  \<^bold>\<open>Not modelled.\<close> The other PostgreSQL stores repeat the operations in SQL. The application wiring, the host of the phase controller, the agent platform
  adapters, the transports and the user interface connect the components to processes, networks and timers outside the repository. Interleavings of the
  controller's operations inside one call are not modelled, except around \<open>AwaitInputs\<close>. The MinIO client, the cookie and URL parsing of authentication, git's own work and the copying of
  files in workspaces are parameters or left out, as the notes of the components say.
\<close>

end
